(* ===== verification/Prelude.thy ===== *)
theory Prelude
  imports Complex_Main "HOL-Library.Multiset"
begin

text \<open>
  Shared vocabulary of the development: the Python values the models keep (dictionaries in
  insertion order, JSON-like payloads, f-strings as lists of fragments), the result types,
  and the keyed-store interface that every in-memory repository of the program meets.

  Conventions.
  \<^item> \<open>uuid\<close> is the canonical text of a UUID. A fresh UUID (\<open>uuid.uuid4()\<close>) and a clock reading
    (\<open>datetime.now(UTC)\<close>) are arguments of the operation that draws them.
  \<^item> A Python float that the code only compares or takes the minimum of is a \<open>rat\<close>.
  \<^item> A raise is \<open>Inl\<close>; an operation on a mutable object returns the object as it is left,
    also when it raises.
\<close>

named_theorems py_simps \<open>unfolding rules of the Python vocabulary\<close>
named_theorems store_simps \<open>lookup-after-write laws of the stores\<close>

type_synonym uuid = string
type_synonym time = nat

datatype json =
    JNull
  | JBool bool
  | JInt int
  | JNum rat
  | JStr string
  | JList "json list"
  | JObj "(string \<times> json) list"

text \<open>An f-string: literal text and interpolated values, left unformatted.\<close>

datatype frag = Lit string | NumI int | NumQ rat | StrList "string list" | Repr json

type_synonym fstr = "frag list"

definition sq :: "string \<Rightarrow> frag" where
  "sq s = Lit ([CHR 0x27] @ s @ [CHR 0x27])"

text \<open>
  Truthiness of a value, and \<open>s in v\<close> for a string \<open>s\<close>: a substring of a string, an element of
  a list, a key of an object; anything else raises the \<open>TypeError\<close> whose text is given.
\<close>

fun json_truthy :: "json \<Rightarrow> bool" where
  "json_truthy JNull = False"
| "json_truthy (JBool b) = b"
| "json_truthy (JInt i) = (i \<noteq> 0)"
| "json_truthy (JNum q) = (q \<noteq> 0)"
| "json_truthy (JStr s) = (s \<noteq> [])"
| "json_truthy (JList xs) = (xs \<noteq> [])"
| "json_truthy (JObj d) = (d \<noteq> [])"

definition py_substring :: "string \<Rightarrow> string \<Rightarrow> bool" where
  "py_substring s t = list_ex (\<lambda>i. take (length s) (drop i t) = s) [0..<Suc (length t)]"

definition not_iterable :: "string \<Rightarrow> string" where
  "not_iterable ty = ''argument of type '' @ [CHR 0x27] @ ty @ [CHR 0x27] @ '' is not iterable''"

fun json_in :: "string \<Rightarrow> json \<Rightarrow> string + bool" where
  "json_in s JNull = Inl (not_iterable ''NoneType'')"
| "json_in s (JBool b) = Inl (not_iterable ''bool'')"
| "json_in s (JInt i) = Inl (not_iterable ''int'')"
| "json_in s (JNum q) = Inl (not_iterable ''float'')"
| "json_in s (JStr t) = Inr (py_substring s t)"
| "json_in s (JList xs) = Inr (JStr s \<in> set xs)"
| "json_in s (JObj d) = Inr (s \<in> fst ` set d)"

text \<open>
  The other uses the code makes of an untyped value: comparing a number with it (a \<open>bool\<close> counts
  as 0 or 1), iterating over it, and looking its hash up.
\<close>

fun json_type :: "json \<Rightarrow> string" where
  "json_type JNull = ''NoneType''"
| "json_type (JBool b) = ''bool''"
| "json_type (JInt i) = ''int''"
| "json_type (JNum q) = ''float''"
| "json_type (JStr s) = ''str''"
| "json_type (JList xs) = ''list''"
| "json_type (JObj d) = ''dict''"

fun json_num :: "json \<Rightarrow> rat option" where
  "json_num (JBool b) = Some (if b then 1 else 0)"
| "json_num (JInt i) = Some (of_int i)"
| "json_num (JNum q) = Some q"
| "json_num _ = None"

definition json_less :: "string \<Rightarrow> rat \<Rightarrow> json \<Rightarrow> string + bool" where
  "json_less ty q j =
     (case json_num j of
        Some r \<Rightarrow> Inr (q < r)
      | None \<Rightarrow> Inl ([CHR 0x27] @ ''<'' @ [CHR 0x27] @ '' not supported between instances of '' @
                    [CHR 0x27] @ ty @ [CHR 0x27] @ '' and '' @ [CHR 0x27] @ json_type j @ [CHR 0x27]))"

fun json_items :: "json \<Rightarrow> string + json list" where
  "json_items (JList xs) = Inr xs"
| "json_items (JStr s) = Inr (map (\<lambda>c. JStr [c]) s)"
| "json_items (JObj d) = Inr (map (\<lambda>(k, v). JStr k) d)"
| "json_items j = Inl ([CHR 0x27] @ json_type j @ [CHR 0x27] @ '' object is not iterable'')"

fun json_hashable :: "json \<Rightarrow> bool" where
  "json_hashable (JList xs) = False"
| "json_hashable (JObj d) = False"
| "json_hashable _ = True"

section \<open>Results\<close>

text \<open>The outcome of a method: what it raises or returns, and the state it leaves behind.\<close>

type_synonym ('e, 's, 'a) res = "('e + 'a) \<times> 's"

definition res_ok :: "('e, 's, 'a) res \<Rightarrow> bool" where
  "res_ok r = (case fst r of Inl _ \<Rightarrow> False | Inr _ \<Rightarrow> True)"

definition res_raises :: "('e, 's, 'a) res \<Rightarrow> bool" where
  "res_raises r = (\<not> res_ok r)"

lemma res_ok_simps [simp]:
  "res_ok (Inl e, s) = False"
  "res_ok (Inr x, s) = True"
  by (simp_all add: res_ok_def)

lemma res_raises_simps [simp]:
  "res_raises (Inl e, s) = True"
  "res_raises (Inr x, s) = False"
  by (simp_all add: res_raises_def)

text \<open>A loop that collects what each round yields and stops at the first raise.\<close>

fun collect_rounds :: "('a \<Rightarrow> 'e + 'b list) \<Rightarrow> 'a list \<Rightarrow> 'e + 'b list" where
  "collect_rounds f [] = Inr []"
| "collect_rounds f (x # xs) =
     (case f x of
        Inl e \<Rightarrow> Inl e
      | Inr ys \<Rightarrow> (case collect_rounds f xs of Inl e \<Rightarrow> Inl e | Inr zs \<Rightarrow> Inr (ys @ zs)))"

lemma collect_rounds_total: "collect_rounds (\<lambda>x. Inr (f x)) xs = Inr (concat (map f xs))"
  by (induction xs) simp_all

lemma collect_rounds_cong:
  "(\<And>x. x \<in> set xs \<Longrightarrow> f x = g x) \<Longrightarrow> collect_rounds f xs = collect_rounds g xs"
  by (induction xs) (simp_all split: sum.split)

lemma isl_collect_rounds: "isl (collect_rounds f xs) \<longleftrightarrow> (\<exists>x\<in>set xs. isl (f x))"
  by (induction xs) (auto split: sum.splits)

lemma collect_rounds_set:
  "collect_rounds f xs = Inr ys \<Longrightarrow> y \<in> set ys \<longleftrightarrow> (\<exists>x\<in>set xs. \<exists>zs. f x = Inr zs \<and> y \<in> set zs)"
  by (induction xs arbitrary: ys) (auto split: sum.splits)

section \<open>Python strings\<close>

text \<open>ASCII white space as \<open>str.strip()\<close> removes it, and truthiness of a string.\<close>

definition py_space :: "char \<Rightarrow> bool" where
  "py_space c = (c \<in> {CHR '' '', CHR 0x09, CHR 0x0A, CHR 0x0B, CHR 0x0C, CHR 0x0D,
                       CHR 0x1C, CHR 0x1D, CHR 0x1E, CHR 0x1F})"

definition py_strip :: "string \<Rightarrow> string" where
  "py_strip s = rev (dropWhile py_space (rev (dropWhile py_space s)))"

definition blank :: "string \<Rightarrow> bool" where
  "blank s = (py_strip s = [])"

lemma blank_iff: "blank s \<longleftrightarrow> (\<forall>c\<in>set s. py_space c)"
proof -
  have "dropWhile py_space (rev (dropWhile py_space s)) = [] \<longleftrightarrow> dropWhile py_space s = []"
  proof (cases "dropWhile py_space s")
    case (Cons c cs)
    then have "\<not> py_space c"
      by (metis dropWhile_eq_Cons_conv)
    with Cons show ?thesis
      by (simp only: dropWhile_eq_Nil_conv) simp
  qed (simp del: dropWhile_eq_Nil_conv)
  then show ?thesis
    unfolding blank_def py_strip_def by (simp only: rev_is_Nil_conv dropWhile_eq_Nil_conv)
qed

text \<open>An optional string argument whose falsy values (\<open>None\<close> and the empty string) mean absence.\<close>

fun py_truthy :: "string option \<Rightarrow> bool" where
  "py_truthy None = False"
| "py_truthy (Some s) = (s \<noteq> [])"

definition filter_opt :: "'b option \<Rightarrow> ('a \<Rightarrow> 'b) \<Rightarrow> 'a list \<Rightarrow> 'a list" where
  "filter_opt sel f xs = (case sel of None \<Rightarrow> xs | Some v \<Rightarrow> filter (\<lambda>x. f x = v) xs)"

definition filter_str :: "string option \<Rightarrow> ('a \<Rightarrow> string) \<Rightarrow> 'a list \<Rightarrow> 'a list" where
  "filter_str sel f xs = (if py_truthy sel then filter (\<lambda>x. f x = the sel) xs else xs)"

lemma set_filter_opt [simp]:
  "set (filter_opt sel f xs) = {x \<in> set xs. \<forall>v. sel = Some v \<longrightarrow> f x = v}"
  by (auto simp: filter_opt_def split: option.splits)

lemma set_filter_str [simp]:
  "set (filter_str sel f xs) = {x \<in> set xs. py_truthy sel \<longrightarrow> sel = Some (f x)}"
  by (cases sel) (auto simp: filter_str_def)

lemma set_map_filter_Some: "y \<in> set (List.map_filter f xs) \<longleftrightarrow> (\<exists>x \<in> set xs. f x = Some y)"
  by (induction xs) (auto simp: List.map_filter_simps split: option.splits)

section \<open>Insertion-ordered dictionaries\<close>

type_synonym ('k, 'v) dict = "('k \<times> 'v) list"

fun dput :: "'k \<Rightarrow> 'v \<Rightarrow> ('k, 'v) dict \<Rightarrow> ('k, 'v) dict" where
  "dput k v [] = [(k, v)]"
| "dput k v ((k', v') # d) = (if k' = k then (k, v) # d else (k', v') # dput k v d)"

abbreviation dget :: "('k, 'v) dict \<Rightarrow> 'k \<Rightarrow> 'v option" where
  "dget d k \<equiv> map_of d k"

abbreviation dvalues :: "('k, 'v) dict \<Rightarrow> 'v list" where
  "dvalues d \<equiv> map snd d"

abbreviation dkeys :: "('k, 'v) dict \<Rightarrow> 'k list" where
  "dkeys d \<equiv> map fst d"

definition dict_wf :: "('k, 'v) dict \<Rightarrow> bool" where
  "dict_wf d = distinct (dkeys d)"

definition dupdate :: "('k, 'v) dict \<Rightarrow> ('k, 'v) dict \<Rightarrow> ('k, 'v) dict" where
  "dupdate d e = foldl (\<lambda>acc (k, v). dput k v acc) d e"

definition dget_default :: "('k, 'v) dict \<Rightarrow> 'k \<Rightarrow> 'v \<Rightarrow> 'v" where
  "dget_default d k dflt = (case dget d k of None \<Rightarrow> dflt | Some v \<Rightarrow> v)"

lemma dget_dput [simp, store_simps]:
  "dget (dput k v d) k' = (if k' = k then Some v else dget d k')"
  by (induction d) auto

lemma dkeys_dput: "dkeys (dput k v d) = (if k \<in> set (dkeys d) then dkeys d else dkeys d @ [k])"
proof (induction d)
  case (Cons p d)
  then show ?case by (cases p) (simp del: set_map)
qed simp

lemma set_dkeys_dput [simp]: "set (dkeys (dput k v d)) = insert k (set (dkeys d))"
  using dkeys_dput [of k v d] by (auto simp del: set_map split: if_splits)

lemma dict_wf_Nil [simp]: "dict_wf []"
  by (simp add: dict_wf_def)

lemma dict_wf_dput [simp]: "dict_wf d \<Longrightarrow> dict_wf (dput k v d)"
  by (simp add: dict_wf_def dkeys_dput)

lemma dict_wf_values:
  "dict_wf d \<Longrightarrow> v \<in> set (dvalues d) \<longleftrightarrow> (\<exists>k. dget d k = Some v)"
  unfolding dict_wf_def by (force dest: map_of_SomeD)

lemma length_dput:
  "length (dput k v d) = (if k \<in> set (dkeys d) then length d else Suc (length d))"
  by (metis dkeys_dput length_append_singleton length_map)

lemma dget_None_iff: "dget d k = None \<longleftrightarrow> k \<notin> set (dkeys d)"
  by (simp add: map_of_eq_None_iff)

lemma dget_dupdate:
  "dget (dupdate d e) k = (case dget (rev e) k of None \<Rightarrow> dget d k | Some v \<Rightarrow> Some v)"
proof (induction e arbitrary: d rule: rev_induct)
  case (snoc p e)
  obtain a b where "p = (a, b)" by (cases p)
  then show ?case
    using snoc.IH [of d] by (simp add: dupdate_def)
qed (simp add: dupdate_def)

lemma dput_dput [simp]: "dput k v (dput k w d) = dput k v d"
  by (induction d) auto

lemma dput_fresh: "k \<notin> set (dkeys d) \<Longrightarrow> dput k v d = d @ [(k, v)]"
  by (induction d) auto

lemma dupdate_append:
  "distinct (dkeys e) \<Longrightarrow> set (dkeys d) \<inter> set (dkeys e) = {} \<Longrightarrow> dupdate d e = d @ e"
proof (induction e arbitrary: d)
  case (Cons p e)
  obtain k v where p: "p = (k, v)" by (cases p)
  have "dupdate d (p # e) = dupdate (dput k v d) e"
    by (simp add: p dupdate_def)
  also have "\<dots> = dput k v d @ e"
    using Cons.prems by (intro Cons.IH) (auto simp: p simp del: set_map)
  finally show ?case
    using Cons.prems dput_fresh [of k d v] by (simp add: p del: set_map)
qed (simp add: dupdate_def)

section \<open>The interface of a keyed store\<close>

text \<open>
  What the repositories and engines rely on when they keep records under a key: a read sees the
  last write to its key and no other write, and the values are exactly what can be read.
  The extended locale adds that every record is kept under its own identifier.
\<close>

locale keyed_store =
  fixes empty_st :: "'d" and get :: "'d \<Rightarrow> 'k \<Rightarrow> 'v option"
    and put :: "'k \<Rightarrow> 'v \<Rightarrow> 'd \<Rightarrow> 'd" and vals :: "'d \<Rightarrow> 'v list" and wf :: "'d \<Rightarrow> bool"
  assumes get_empty: "get empty_st k = None"
    and get_put: "get (put k v d) k' = (if k' = k then Some v else get d k')"
    and wf_empty: "wf empty_st"
    and wf_put: "wf d \<Longrightarrow> wf (put k v d)"
    and vals_iff: "wf d \<Longrightarrow> v \<in> set (vals d) \<longleftrightarrow> (\<exists>k. get d k = Some v)"
begin

lemma get_put_same: "get (put k v d) k = Some v"
  by (simp add: get_put)

lemma get_put_other: "k' \<noteq> k \<Longrightarrow> get (put k v d) k' = get d k'"
  by (simp add: get_put)

lemma put_twice: "get (put k v (put k w d)) = get (put k v d)"
  by (rule ext) (simp add: get_put)

lemma vals_put_subset: "wf d \<Longrightarrow> set (vals (put k v d)) \<subseteq> insert v (set (vals d))"
  by (auto simp: vals_iff wf_put get_put split: if_splits)

lemma all_vals_put:
  assumes "wf d" and "\<forall>x\<in>set (vals d). P x" and "P v"
  shows "\<forall>x\<in>set (vals (put k v d)). P x"
  using vals_put_subset [OF assms(1), of k v] assms(2,3) by blast

end

interpretation dict: keyed_store "[]" dget dput dvalues dict_wf
  by unfold_locales (simp_all add: dict_wf_values del: set_map)

locale record_store = keyed_store empty_st get put vals wf
  for empty_st :: "'d" and get :: "'d \<Rightarrow> 'k \<Rightarrow> 'v option"
    and put :: "'k \<Rightarrow> 'v \<Rightarrow> 'd \<Rightarrow> 'd" and vals :: "'d \<Rightarrow> 'v list" and wf :: "'d \<Rightarrow> bool" +
  fixes ident :: "'v \<Rightarrow> 'k"
begin

definition keyed :: "'d \<Rightarrow> bool" where
  "keyed d \<longleftrightarrow> wf d \<and> (\<forall>k v. get d k = Some v \<longrightarrow> ident v = k)"

lemma keyed_empty: "keyed empty_st"
  by (simp add: keyed_def wf_empty get_empty)

lemma keyed_put: "keyed d \<Longrightarrow> keyed (put (ident v) v d)"
  by (simp add: keyed_def wf_put get_put)

lemma keyed_vals: "keyed d \<Longrightarrow> v \<in> set (vals d) \<longleftrightarrow> get d (ident v) = Some v"
  by (auto simp: keyed_def vals_iff)

lemma keyed_get_ident: "keyed d \<Longrightarrow> get d k = Some v \<Longrightarrow> ident v = k"
  by (simp add: keyed_def)

end

section \<open>The interface of a guarded state machine\<close>

text \<open>
  Both object lifecycles of the program are tables of allowed successor states behind a guarded
  move. The laws: a move succeeds exactly when the table allows it, and it lands in the state
  that was asked for. Everything about runs of moves follows from these two.
\<close>

locale guarded_machine =
  fixes nexts :: "'s \<Rightarrow> 's list" and st_of :: "'o \<Rightarrow> 's" and move :: "'i \<Rightarrow> 's \<Rightarrow> 'o \<Rightarrow> 'o option"
  assumes move_some_iff: "(\<exists>y. move i t x = Some y) \<longleftrightarrow> t \<in> set (nexts (st_of x))"
    and move_state: "move i t x = Some y \<Longrightarrow> st_of y = t"
begin

fun run :: "('i \<times> 's) list \<Rightarrow> 'o \<Rightarrow> 'o option" where
  "run [] x = Some x"
| "run ((i, t) # ms) x = (case move i t x of None \<Rightarrow> None | Some y \<Rightarrow> run ms y)"

lemma move_allowed: "move i t x = Some y \<Longrightarrow> t \<in> set (nexts (st_of x))"
  using move_some_iff by blast

lemma run_closed:
  assumes closed: "\<And>s t. s \<in> C \<Longrightarrow> t \<in> set (nexts s) \<Longrightarrow> t \<in> C"
  shows "run ms x = Some y \<Longrightarrow> st_of x \<in> C \<Longrightarrow> st_of y \<in> C"
proof (induction ms arbitrary: x)
  case (Cons m ms)
  obtain i t where m: "m = (i, t)" by (cases m)
  with Cons.prems obtain z where z: "move i t x = Some z" "run ms z = Some y"
    by (auto split: option.splits)
  then have "st_of z \<in> C"
    using closed Cons.prems(2) move_allowed move_state by metis
  with Cons.IH z(2) show ?case by blast
qed simp

lemma run_terminal: "nexts (st_of x) = [] \<Longrightarrow> run ms x = Some y \<Longrightarrow> ms = [] \<and> y = x"
proof (cases ms)
  case (Cons m ms')
  assume "nexts (st_of x) = []" and "run ms x = Some y"
  with Cons show ?thesis
    using move_allowed by (cases m) (fastforce split: option.splits)
qed simp

lemma run_reach: "run ms x = Some y \<Longrightarrow> (\<lambda>s t. t \<in> set (nexts s))\<^sup>*\<^sup>* (st_of x) (st_of y)"
proof (induction ms arbitrary: x)
  case (Cons m ms)
  obtain i t where m: "m = (i, t)" by (cases m)
  with Cons.prems obtain z where z: "move i t x = Some z" "run ms z = Some y"
    by (auto split: option.splits)
  have "st_of z \<in> set (nexts (st_of x))"
    using z(1) move_allowed move_state by metis
  then show ?case
    using Cons.IH [OF z(2)] by (rule converse_rtranclp_into_rtranclp)
qed simp

end

end
