(* ===== verification/Fabric_Types.thy ===== *)
theory Fabric_Types
  imports Prelude
begin

text \<open>
  The value types of \<^verbatim>\<open>app/core/types.py\<close> and \<^verbatim>\<open>app/core/errors.py\<close>: planes, object and link
  types, the lifecycle of a control object, evidence and provenance, the typed correlation and
  reference keys with their dictionary form, and the errors of the fabric.
  The value functions give the string behind each enum member.
\<close>

section \<open>Enumerations\<close>

datatype plane_type = COMMERCIAL | FIELD | SERVICE

fun plane_value :: "plane_type \<Rightarrow> string" where
  "plane_value COMMERCIAL = ''commercial''"
| "plane_value FIELD = ''field''"
| "plane_value SERVICE = ''service''"

instantiation plane_type :: enum
begin

definition "enum_class.enum = [COMMERCIAL, FIELD, SERVICE]"
definition "enum_class.enum_all (P :: plane_type \<Rightarrow> bool) = (P COMMERCIAL \<and> P FIELD \<and> P SERVICE)"
definition "enum_class.enum_ex (P :: plane_type \<Rightarrow> bool) = (P COMMERCIAL \<or> P FIELD \<or> P SERVICE)"

instance
proof
  fix P :: "plane_type \<Rightarrow> bool"
  show univ: "(UNIV :: plane_type set) = set enum_class.enum"
    by (auto simp: enum_plane_type_def intro: plane_type.exhaust)
  show "distinct (enum_class.enum :: plane_type list)"
    by (simp add: enum_plane_type_def)
  show "enum_class.enum_all P = Ball UNIV P"
    unfolding univ by (simp add: enum_all_plane_type_def enum_plane_type_def)
  show "enum_class.enum_ex P = Bex UNIV P"
    unfolding univ by (simp add: enum_ex_plane_type_def enum_plane_type_def)
qed

end

datatype control_object_type =
    OT_OBLIGATION | OT_BILLABLE_EVENT | OT_PENALTY_CONDITION | OT_DISPATCH_PRECONDITION
  | OT_SKILL_REQUIREMENT | OT_INCIDENT_STATE | OT_ESCALATION_RULE | OT_SERVICE_STATE
  | OT_READINESS_CHECK | OT_LEAKAGE_TRIGGER | OT_RATE_CARD | OT_SCOPE_BOUNDARY | OT_WORK_ORDER
  | OT_COMPLETION_CERTIFICATE | OT_BILLING_GATE | OT_RECONCILIATION_CASE
  | OT_RECOVERY_RECOMMENDATION | OT_CUSTOM

fun object_type_value :: "control_object_type \<Rightarrow> string" where
  "object_type_value OT_OBLIGATION = ''obligation''"
| "object_type_value OT_BILLABLE_EVENT = ''billable_event''"
| "object_type_value OT_PENALTY_CONDITION = ''penalty_condition''"
| "object_type_value OT_DISPATCH_PRECONDITION = ''dispatch_precondition''"
| "object_type_value OT_SKILL_REQUIREMENT = ''skill_requirement''"
| "object_type_value OT_INCIDENT_STATE = ''incident_state''"
| "object_type_value OT_ESCALATION_RULE = ''escalation_rule''"
| "object_type_value OT_SERVICE_STATE = ''service_state''"
| "object_type_value OT_READINESS_CHECK = ''readiness_check''"
| "object_type_value OT_LEAKAGE_TRIGGER = ''leakage_trigger''"
| "object_type_value OT_RATE_CARD = ''rate_card''"
| "object_type_value OT_SCOPE_BOUNDARY = ''scope_boundary''"
| "object_type_value OT_WORK_ORDER = ''work_order''"
| "object_type_value OT_COMPLETION_CERTIFICATE = ''completion_certificate''"
| "object_type_value OT_BILLING_GATE = ''billing_gate''"
| "object_type_value OT_RECONCILIATION_CASE = ''reconciliation_case''"
| "object_type_value OT_RECOVERY_RECOMMENDATION = ''recovery_recommendation''"
| "object_type_value OT_CUSTOM = ''custom''"

datatype control_state =
    CS_DRAFT | CS_ACTIVE | CS_ENRICHED | CS_FROZEN | CS_RECONCILED | CS_DISPUTED | CS_ACTIONED
  | CS_SUPERSEDED | CS_DEPRECATED

fun state_value :: "control_state \<Rightarrow> string" where
  "state_value CS_DRAFT = ''draft''"
| "state_value CS_ACTIVE = ''active''"
| "state_value CS_ENRICHED = ''enriched''"
| "state_value CS_FROZEN = ''frozen''"
| "state_value CS_RECONCILED = ''reconciled''"
| "state_value CS_DISPUTED = ''disputed''"
| "state_value CS_ACTIONED = ''actioned''"
| "state_value CS_SUPERSEDED = ''superseded''"
| "state_value CS_DEPRECATED = ''deprecated''"

text \<open>\<open>VALID_STATE_TRANSITIONS\<close>; the sets are listed in the order the source writes them.\<close>

fun valid_state_transitions :: "control_state \<Rightarrow> control_state list" where
  "valid_state_transitions CS_DRAFT = [CS_ACTIVE]"
| "valid_state_transitions CS_ACTIVE = [CS_ENRICHED, CS_FROZEN, CS_SUPERSEDED, CS_DEPRECATED]"
| "valid_state_transitions CS_ENRICHED = [CS_FROZEN, CS_ACTIVE, CS_SUPERSEDED, CS_DEPRECATED]"
| "valid_state_transitions CS_FROZEN = [CS_RECONCILED, CS_DISPUTED, CS_ACTIVE]"
| "valid_state_transitions CS_RECONCILED = [CS_ACTIONED, CS_DISPUTED, CS_ACTIVE]"
| "valid_state_transitions CS_DISPUTED = [CS_ACTIVE, CS_FROZEN, CS_DEPRECATED]"
| "valid_state_transitions CS_ACTIONED = [CS_SUPERSEDED, CS_DEPRECATED]"
| "valid_state_transitions CS_SUPERSEDED = []"
| "valid_state_transitions CS_DEPRECATED = []"

datatype determinism_level = DETERMINISTIC | MODEL_ASSISTED | HUMAN_DETERMINED

fun determinism_value :: "determinism_level \<Rightarrow> string" where
  "determinism_value DETERMINISTIC = ''deterministic''"
| "determinism_value MODEL_ASSISTED = ''model_assisted''"
| "determinism_value HUMAN_DETERMINED = ''human_determined''"

text \<open>
  \<open>str(member)\<close> of a \<open>(str, enum.Enum)\<close> class: Python's \<open>Enum.__str__\<close> gives the qualified
  member name, not the value.
\<close>

fun determinism_str :: "determinism_level \<Rightarrow> string" where
  "determinism_str DETERMINISTIC = ''DeterminismLevel.DETERMINISTIC''"
| "determinism_str MODEL_ASSISTED = ''DeterminismLevel.MODEL_ASSISTED''"
| "determinism_str HUMAN_DETERMINED = ''DeterminismLevel.HUMAN_DETERMINED''"

datatype action_eligibility =
  AE_ELIGIBLE | AE_INELIGIBLE | AE_PENDING_VALIDATION | AE_PENDING_APPROVAL

fun eligibility_value :: "action_eligibility \<Rightarrow> string" where
  "eligibility_value AE_ELIGIBLE = ''eligible''"
| "eligibility_value AE_INELIGIBLE = ''ineligible''"
| "eligibility_value AE_PENDING_VALIDATION = ''pending_validation''"
| "eligibility_value AE_PENDING_APPROVAL = ''pending_approval''"

datatype control_link_type =
    LT_DERIVES_FROM | LT_EVIDENCES | LT_CONTRADICTS | LT_CORRELATES_WITH | LT_IMPLEMENTS
  | LT_ALLOCATES_TO | LT_FULFILLS | LT_BILLS_FOR | LT_IMPACTS | LT_BLOCKS | LT_VALIDATES
  | LT_SUPERCEDES

fun link_type_value :: "control_link_type \<Rightarrow> string" where
  "link_type_value LT_DERIVES_FROM = ''derives_from''"
| "link_type_value LT_EVIDENCES = ''evidences''"
| "link_type_value LT_CONTRADICTS = ''contradicts''"
| "link_type_value LT_CORRELATES_WITH = ''correlates_with''"
| "link_type_value LT_IMPLEMENTS = ''implements''"
| "link_type_value LT_ALLOCATES_TO = ''allocates_to''"
| "link_type_value LT_FULFILLS = ''fulfills''"
| "link_type_value LT_BILLS_FOR = ''bills_for''"
| "link_type_value LT_IMPACTS = ''impacts''"
| "link_type_value LT_BLOCKS = ''blocks''"
| "link_type_value LT_VALIDATES = ''validates''"
| "link_type_value LT_SUPERCEDES = ''supercedes''"

datatype link_directionality = DIRECTED | BIDIRECTIONAL

fun link_directionality_of :: "control_link_type \<Rightarrow> link_directionality" where
  "link_directionality_of LT_DERIVES_FROM = DIRECTED"
| "link_directionality_of LT_EVIDENCES = DIRECTED"
| "link_directionality_of LT_CONTRADICTS = BIDIRECTIONAL"
| "link_directionality_of LT_CORRELATES_WITH = BIDIRECTIONAL"
| "link_directionality_of LT_IMPLEMENTS = DIRECTED"
| "link_directionality_of LT_ALLOCATES_TO = DIRECTED"
| "link_directionality_of LT_FULFILLS = DIRECTED"
| "link_directionality_of LT_BILLS_FOR = DIRECTED"
| "link_directionality_of LT_IMPACTS = DIRECTED"
| "link_directionality_of LT_BLOCKS = DIRECTED"
| "link_directionality_of LT_VALIDATES = DIRECTED"
| "link_directionality_of LT_SUPERCEDES = DIRECTED"

section \<open>Evidence, provenance, audit context\<close>

record evidence_ref =
  er_evidence_id :: uuid
  er_evidence_type :: string
  er_source_label :: string
  er_source_id :: "uuid option"
  er_confidence :: rat

record source_artifact_ref =
  sa_artifact_type :: string
  sa_artifact_id :: string
  sa_document_id :: "uuid option"
  sa_chunk_id :: "uuid option"
  sa_clause_ref :: "string option"
  sa_page_number :: "int option"
  sa_offset_start :: "int option"
  sa_offset_end :: "int option"

record control_provenance =
  pv_created_by :: string
  pv_creation_method :: determinism_level
  pv_source_artifacts :: "source_artifact_ref list"
  pv_domain_pack :: "string option"
  pv_rule_ids :: "string list"
  pv_model_id :: "string option"
  pv_model_version :: "string option"
  pv_extraction_confidence :: rat
  pv_derivation_chain :: "uuid list"

text \<open>\<open>ControlProvenance(created_by=actor, creation_method="deterministic")\<close>, defaults elsewhere.\<close>

definition default_provenance :: "string \<Rightarrow> control_provenance" where
  "default_provenance actor =
     \<lparr>pv_created_by = actor, pv_creation_method = DETERMINISTIC, pv_source_artifacts = [],
      pv_domain_pack = None, pv_rule_ids = [], pv_model_id = None, pv_model_version = None,
      pv_extraction_confidence = 1, pv_derivation_chain = []\<rparr>"

record audit_context =
  ac_actor :: string
  ac_action :: string
  ac_reason :: "string option"
  ac_timestamp :: time
  ac_correlation_id :: "uuid option"
  ac_metadata :: "(string, json) dict"

definition audit_of :: "string \<Rightarrow> string \<Rightarrow> time \<Rightarrow> audit_context" where
  "audit_of actor act now =
     \<lparr>ac_actor = actor, ac_action = act, ac_reason = None, ac_timestamp = now,
      ac_correlation_id = None, ac_metadata = []\<rparr>"

record control_object_audit_context =
  ca_actor :: string
  ca_action :: string
  ca_reason :: "string option"
  ca_timestamp :: time
  ca_correlation_id :: "uuid option"
  ca_source_system :: "string option"
  ca_domain_pack :: "string option"
  ca_control_object_id :: "uuid option"
  ca_previous_state :: "string option"
  ca_new_state :: "string option"
  ca_metadata :: "(string, json) dict"

definition to_audit_context :: "control_object_audit_context \<Rightarrow> audit_context" where
  "to_audit_context c =
     \<lparr>ac_actor = ca_actor c, ac_action = ca_action c, ac_reason = ca_reason c,
      ac_timestamp = ca_timestamp c, ac_correlation_id = ca_correlation_id c,
      ac_metadata = ca_metadata c\<rparr>"

section \<open>Correlation keys and external references\<close>

record correlation_keys =
  ck_contract_ref :: "string option"
  ck_work_order_ref :: "string option"
  ck_incident_ref :: "string option"
  ck_invoice_ref :: "string option"
  ck_custom :: "(string, string) dict"

text \<open>One guarded assignment of \<open>as_dict\<close>: a falsy field is left out.\<close>

definition put_truthy :: "string \<Rightarrow> string option \<Rightarrow> (string, string) dict \<Rightarrow> (string, string) dict" where
  "put_truthy k v d = (if py_truthy v then dput k (the v) d else d)"

definition ck_as_dict :: "correlation_keys \<Rightarrow> (string, string) dict" where
  "ck_as_dict c =
     dupdate
       (put_truthy ''invoice_ref'' (ck_invoice_ref c)
         (put_truthy ''incident_ref'' (ck_incident_ref c)
           (put_truthy ''work_order_ref'' (ck_work_order_ref c)
             (put_truthy ''contract_ref'' (ck_contract_ref c) []))))
       (ck_custom c)"

definition ck_known :: "string list" where
  "ck_known = [''contract_ref'', ''work_order_ref'', ''incident_ref'', ''invoice_ref'']"

definition ck_from_dict :: "(string, string) dict \<Rightarrow> correlation_keys" where
  "ck_from_dict data =
     (let known = filter (\<lambda>(k, v). k \<in> set ck_known) data;
          cust = filter (\<lambda>(k, v). k \<notin> set ck_known) data
      in \<lparr>ck_contract_ref = dget known ''contract_ref'',
          ck_work_order_ref = dget known ''work_order_ref'',
          ck_incident_ref = dget known ''incident_ref'',
          ck_invoice_ref = dget known ''invoice_ref'',
          ck_custom = cust\<rparr>)"

record external_refs =
  xr_crm_id :: "string option"
  xr_erp_id :: "string option"
  xr_billing_system_id :: "string option"
  xr_field_system_id :: "string option"
  xr_custom :: "(string, string) dict"

definition xr_as_dict :: "external_refs \<Rightarrow> (string, string) dict" where
  "xr_as_dict c =
     dupdate
       (put_truthy ''field_system_id'' (xr_field_system_id c)
         (put_truthy ''billing_system_id'' (xr_billing_system_id c)
           (put_truthy ''erp_id'' (xr_erp_id c)
             (put_truthy ''crm_id'' (xr_crm_id c) []))))
       (xr_custom c)"

definition xr_known :: "string list" where
  "xr_known = [''crm_id'', ''erp_id'', ''billing_system_id'', ''field_system_id'']"

definition xr_from_dict :: "(string, string) dict \<Rightarrow> external_refs" where
  "xr_from_dict data =
     (let known = filter (\<lambda>(k, v). k \<in> set xr_known) data;
          cust = filter (\<lambda>(k, v). k \<notin> set xr_known) data
      in \<lparr>xr_crm_id = dget known ''crm_id'',
          xr_erp_id = dget known ''erp_id'',
          xr_billing_system_id = dget known ''billing_system_id'',
          xr_field_system_id = dget known ''field_system_id'',
          xr_custom = cust\<rparr>)"

section \<open>Errors\<close>

datatype fabric_error =
    InvalidControlObjectError fstr
  | ControlObjectStateError fstr
  | ControlObjectFrozenError fstr
  | InvalidLinkError fstr
  | DuplicateLinkError fstr
  | GraphPolicyViolation fstr
  | ValidationBypassAttempt fstr
  | ActionWithoutValidationError fstr
  | ActionWithoutEvidenceError fstr
  | DuplicateRegistrationError fstr
  | UnknownObjectKindError fstr

section \<open>Round trips of the key dictionaries\<close>

text \<open>A key set that the dictionary form can carry: no empty string, custom keys of their own.\<close>

definition ck_storable :: "correlation_keys \<Rightarrow> bool" where
  "ck_storable c \<longleftrightarrow>
     Some [] \<notin> {ck_contract_ref c, ck_work_order_ref c, ck_incident_ref c, ck_invoice_ref c} \<and>
     distinct (dkeys (ck_custom c)) \<and> set (dkeys (ck_custom c)) \<inter> set ck_known = {}"

definition xr_storable :: "external_refs \<Rightarrow> bool" where
  "xr_storable c \<longleftrightarrow>
     Some [] \<notin> {xr_crm_id c, xr_erp_id c, xr_billing_system_id c, xr_field_system_id c} \<and>
     distinct (dkeys (xr_custom c)) \<and> set (dkeys (xr_custom c)) \<inter> set xr_known = {}"

definition opt_entry :: "string \<Rightarrow> string option \<Rightarrow> (string \<times> string) list" where
  "opt_entry k v = (case v of None \<Rightarrow> [] | Some s \<Rightarrow> [(k, s)])"

lemma ck_entries:
  assumes "p \<noteq> Some []" "q \<noteq> Some []" "r \<noteq> Some []" "s \<noteq> Some []"
  shows "put_truthy ''invoice_ref'' s (put_truthy ''incident_ref'' r (put_truthy ''work_order_ref'' q (put_truthy ''contract_ref'' p []))) =
     opt_entry ''contract_ref'' p @ opt_entry ''work_order_ref'' q @ opt_entry ''incident_ref'' r @ opt_entry ''invoice_ref'' s"
  using assms
  by (cases p; cases q; cases r; cases s) (simp_all add: put_truthy_def opt_entry_def)

lemma ck_entries_get:
  fixes p q r s :: "string option"
  defines "K \<equiv> opt_entry ''contract_ref'' p @ opt_entry ''work_order_ref'' q @ opt_entry ''incident_ref'' r @ opt_entry ''invoice_ref'' s"
  shows "dget K ''contract_ref'' = p" "dget K ''work_order_ref'' = q"
    "dget K ''incident_ref'' = r" "dget K ''invoice_ref'' = s"
    "filter (\<lambda>(k, v). k \<in> set ck_known) K = K" "filter (\<lambda>(k, v). k \<notin> set ck_known) K = []"
    "set (dkeys K) \<subseteq> set ck_known"
  unfolding K_def
  by (cases p; cases q; cases r; cases s; simp add: opt_entry_def ck_known_def)+

lemma ck_round_trip:
  assumes "ck_storable c"
  shows "ck_from_dict (ck_as_dict c) = c"
proof -
  define K where "K = opt_entry ''contract_ref'' (ck_contract_ref c) @ opt_entry ''work_order_ref'' (ck_work_order_ref c) @ opt_entry ''incident_ref'' (ck_incident_ref c) @ opt_entry ''invoice_ref'' (ck_invoice_ref c)"
  note K = ck_entries_get [of "ck_contract_ref c" "ck_work_order_ref c" "ck_incident_ref c" "ck_invoice_ref c", folded K_def]
  have custom: "filter (\<lambda>(k, v). k \<in> set ck_known) (ck_custom c) = []"
    "filter (\<lambda>(k, v). k \<notin> set ck_known) (ck_custom c) = ck_custom c"
    using assms by (force simp: ck_storable_def filter_empty_conv filter_id_conv)+
  have "ck_as_dict c = dupdate K (ck_custom c)"
    unfolding ck_as_dict_def K_def
    using assms ck_entries [of "ck_contract_ref c" "ck_work_order_ref c" "ck_incident_ref c" "ck_invoice_ref c"]
    by (auto simp: ck_storable_def)
  also have "\<dots> = K @ ck_custom c"
    using assms K(7) by (intro dupdate_append) (auto simp: ck_storable_def simp del: set_map)
  finally show ?thesis
    using K by (simp add: ck_from_dict_def custom)
qed

lemma xr_entries:
  assumes "p \<noteq> Some []" "q \<noteq> Some []" "r \<noteq> Some []" "s \<noteq> Some []"
  shows "put_truthy ''field_system_id'' s (put_truthy ''billing_system_id'' r (put_truthy ''erp_id'' q (put_truthy ''crm_id'' p []))) =
     opt_entry ''crm_id'' p @ opt_entry ''erp_id'' q @ opt_entry ''billing_system_id'' r @ opt_entry ''field_system_id'' s"
  using assms
  by (cases p; cases q; cases r; cases s) (simp_all add: put_truthy_def opt_entry_def)

lemma xr_entries_get:
  fixes p q r s :: "string option"
  defines "K \<equiv> opt_entry ''crm_id'' p @ opt_entry ''erp_id'' q @ opt_entry ''billing_system_id'' r @ opt_entry ''field_system_id'' s"
  shows "dget K ''crm_id'' = p" "dget K ''erp_id'' = q"
    "dget K ''billing_system_id'' = r" "dget K ''field_system_id'' = s"
    "filter (\<lambda>(k, v). k \<in> set xr_known) K = K" "filter (\<lambda>(k, v). k \<notin> set xr_known) K = []"
    "set (dkeys K) \<subseteq> set xr_known"
  unfolding K_def
  by (cases p; cases q; cases r; cases s; simp add: opt_entry_def xr_known_def)+

lemma xr_round_trip:
  assumes "xr_storable c"
  shows "xr_from_dict (xr_as_dict c) = c"
proof -
  define K where "K = opt_entry ''crm_id'' (xr_crm_id c) @ opt_entry ''erp_id'' (xr_erp_id c) @ opt_entry ''billing_system_id'' (xr_billing_system_id c) @ opt_entry ''field_system_id'' (xr_field_system_id c)"
  note K = xr_entries_get [of "xr_crm_id c" "xr_erp_id c" "xr_billing_system_id c" "xr_field_system_id c", folded K_def]
  have custom: "filter (\<lambda>(k, v). k \<in> set xr_known) (xr_custom c) = []"
    "filter (\<lambda>(k, v). k \<notin> set xr_known) (xr_custom c) = xr_custom c"
    using assms by (force simp: xr_storable_def filter_empty_conv filter_id_conv)+
  have "xr_as_dict c = dupdate K (xr_custom c)"
    unfolding xr_as_dict_def K_def
    using assms xr_entries [of "xr_crm_id c" "xr_erp_id c" "xr_billing_system_id c" "xr_field_system_id c"]
    by (auto simp: xr_storable_def)
  also have "\<dots> = K @ xr_custom c"
    using assms K(7) by (intro dupdate_append) (auto simp: xr_storable_def simp del: set_map)
  finally show ?thesis
    using K by (simp add: xr_from_dict_def custom)
qed

section \<open>Properties\<close>

text \<open>C8: Typed correlation keys and external references survive the trip through their plain
  dictionary form, as long as no typed field is the empty string (which \<open>as_dict\<close> drops) and no
  custom key collides with a typed one.\<close>

theorem key_dictionaries_round_trip:
  assumes "ck_storable c" and "xr_storable x"
  shows "ck_from_dict (ck_as_dict c) = c \<and> xr_from_dict (xr_as_dict x) = x"
  using assms by (simp add: ck_round_trip xr_round_trip)

theorem key_dictionaries_round_trip_witness:
  "ck_from_dict (ck_as_dict \<lparr>ck_contract_ref = Some ''C-1'', ck_work_order_ref = None,
      ck_incident_ref = None, ck_invoice_ref = Some ''I'', ck_custom = [(''site'', ''north'')]\<rparr>) =
     \<lparr>ck_contract_ref = Some ''C-1'', ck_work_order_ref = None,
      ck_incident_ref = None, ck_invoice_ref = Some ''I'', ck_custom = [(''site'', ''north'')]\<rparr>"
  using key_dictionaries_round_trip [of "\<lparr>ck_contract_ref = Some ''C-1'', ck_work_order_ref = None,
      ck_incident_ref = None, ck_invoice_ref = Some ''I'', ck_custom = [(''site'', ''north'')]\<rparr>"
      "\<lparr>xr_crm_id = None, xr_erp_id = Some ''E'', xr_billing_system_id = None,
        xr_field_system_id = None, xr_custom = []\<rparr>"]
  by (simp add: ck_storable_def xr_storable_def ck_known_def)

end
