(* ===== verification/Py_Float.thy ===== *)
theory Py_Float
  imports Prelude
begin

text \<open>
  Python's \<open>float\<close>: IEEE 754 binary64 with rounding to nearest, ties to even. A finite float is
  the rational number it denotes (the sign of zero is not kept); \<open>fl\<close> rounds a rational to the
  nearest float, so an arithmetic operation of the code is \<open>fl\<close> of the exact one. \<open>pyfloat\<close> adds
  the infinities and NaN for the places where an untyped value is converted with \<open>float(...)\<close>.
  The second half is \<open>float(str)\<close>, \<open>round(x, n)\<close>, and \<open>str\<close> and \<open>==\<close> of untyped values.
\<close>

section \<open>Rounding\<close>

function nbits :: "int \<Rightarrow> int" where
  "nbits n = (if n \<le> 0 then 0 else 1 + nbits (n div 2))"
  by pat_completeness auto
termination
  by (relation "measure nat") auto

declare nbits.simps [simp del]

lemma nbits_bounds: "0 < n \<Longrightarrow> 2 powi (nbits n - 1) \<le> (of_int n :: rat) \<and> of_int n < (2 :: rat) powi nbits n"
proof (induction n rule: nbits.induct)
  case (1 n)
  show ?case
  proof (cases "n div 2 = 0")
    case True
    with 1(2) have "n = 1" by linarith
    moreover have "nbits 1 = 1" by (simp add: nbits.simps)
    ultimately show ?thesis by simp
  next
    case False
    with 1 have ih: "2 powi (nbits (n div 2) - 1) \<le> (of_int (n div 2) :: rat)"
      "of_int (n div 2) < (2 :: rat) powi nbits (n div 2)" by auto
    have n: "nbits n = nbits (n div 2) + 1" using 1(2) by (simp add: nbits.simps [of n])
    have half: "(of_int (n div 2) :: rat) \<le> of_int n / 2" "(of_int n :: rat) < 2 * (of_int (n div 2) + 1)"
    proof -
      have "of_int (2 * (n div 2)) \<le> (of_int n :: rat)" "(of_int n :: rat) < of_int (2 * (n div 2 + 1))"
        by (simp_all only: of_int_le_iff of_int_less_iff) presburger+
      then show "(of_int (n div 2) :: rat) \<le> of_int n / 2" "(of_int n :: rat) < 2 * (of_int (n div 2) + 1)"
        by simp_all
    qed
    have dbl: "(2::rat) powi (k + 1) = 2 * 2 powi k" for k
      by (simp add: power_int_add)
    have pos: "0 \<le> nbits m" for m
      by (induction m rule: nbits.induct) (subst nbits.simps, auto)
    have "of_int (n div 2) + 1 \<le> (2::rat) powi nbits (n div 2)"
    proof -
      have "(2::rat) powi nbits (n div 2) = of_int (2 ^ nat (nbits (n div 2)))"
        using pos by (simp add: power_int_nonneg_exp)
      moreover from this ih(2) have "n div 2 < 2 ^ nat (nbits (n div 2))"
        by (simp only: of_int_less_iff)
      then have "of_int (n div 2 + 1) \<le> (of_int (2 ^ nat (nbits (n div 2))) :: rat)"
        by (simp only: of_int_le_iff)
      ultimately show ?thesis by (simp only: of_int_add of_int_1)
    qed
    moreover have "(2::rat) powi nbits (n div 2) = 2 * 2 powi (nbits (n div 2) - 1)"
      using dbl [of "nbits (n div 2) - 1"] by simp
    ultimately show ?thesis
      using ih half by (simp add: n dbl)
  qed
qed

text \<open>The exponent of the leading bit of a positive rational.\<close>

definition log2_floor :: "rat \<Rightarrow> int" where
  "log2_floor q =
     (case quotient_of q of
        (n, d) \<Rightarrow> let k = nbits n - nbits d
                  in if 2 powi k \<le> q then k else k - 1)"

definition round_even :: "rat \<Rightarrow> int" where
  "round_even q =
     (let f = \<lfloor>q\<rfloor>; r = q - of_int f
      in if r < 1/2 then f else if r > 1/2 then f + 1 else if even f then f else f + 1)"

definition fl :: "rat \<Rightarrow> rat" where
  "fl q =
     (if q = 0 then 0
      else let u = 2 powi (max (log2_floor \<bar>q\<bar> - 52) (- 1074))
           in of_int (round_even (q / u)) * u)"

text \<open>\<open>round(x, n)\<close>: the decimal with \<open>n\<close> places nearest to the exact value, read back as a float.\<close>

definition py_round :: "rat \<Rightarrow> nat \<Rightarrow> rat" where
  "py_round x n = fl (of_int (round_even (x * 10 ^ n)) / 10 ^ n)"

lemma round_even_of_int [simp]: "round_even (of_int i) = i"
  by (simp add: round_even_def)

lemma round_even_0 [simp]: "round_even 0 = 0" and round_even_1 [simp]: "round_even 1 = 1"
  using round_even_of_int [of 0] round_even_of_int [of 1] by simp_all

lemma round_even_cases: "round_even q = \<lfloor>q\<rfloor> \<or> round_even q = \<lfloor>q\<rfloor> + 1"
  by (simp add: round_even_def Let_def)

lemma round_even_mono: "q \<le> r \<Longrightarrow> round_even q \<le> round_even r"
proof (cases "\<lfloor>q\<rfloor> = \<lfloor>r\<rfloor>")
  case True
  moreover assume "q \<le> r"
  ultimately show ?thesis by (auto simp: round_even_def Let_def)
next
  case False
  moreover assume "q \<le> r"
  ultimately have "\<lfloor>q\<rfloor> + 1 \<le> \<lfloor>r\<rfloor>" using floor_mono [of q r] by linarith
  then show ?thesis using round_even_cases [of q] round_even_cases [of r] by linarith
qed

lemma log2_floor_bounds:
  assumes "0 < q"
  shows "2 powi log2_floor q \<le> q" and "q < 2 powi (log2_floor q + 1)"
proof -
  obtain n d where nd: "quotient_of q = (n, d)" by (cases "quotient_of q")
  then have d: "0 < d" and q: "q = of_int n / of_int d"
    using quotient_of_denom_pos quotient_of_div by auto
  then have n: "0 < n" using assms by (simp add: zero_less_divide_iff)
  define a b where "a = nbits n" and "b = nbits d"
  have an: "(2::rat) powi (a - 1) \<le> of_int n" "of_int n < (2::rat) powi a"
    and bd: "(2::rat) powi (b - 1) \<le> of_int d" "of_int d < (2::rat) powi b"
    using nbits_bounds [OF n] nbits_bounds [OF d] by (simp_all add: a_def b_def)
  let ?k = "a - b"
  have hi: "q < 2 powi (?k + 1)"
  proof -
    have "of_int n < (2::rat) powi (?k + 1) * 2 powi (b - 1)"
    proof -
      have "(2::rat) powi (?k + 1) * 2 powi (b - 1) = 2 powi (?k + 1 + (b - 1))"
        by (rule power_int_add [symmetric]) simp
      with an(2) show ?thesis by (simp only: diff_add_cancel) simp
    qed
    also have "\<dots> \<le> 2 powi (?k + 1) * of_int d" using bd(1) by simp
    finally show ?thesis using d by (simp add: q pos_divide_less_eq)
  qed
  have lo: "2 powi (?k - 1) \<le> q"
  proof -
    have "2 powi (?k - 1) * of_int d \<le> (2::rat) powi (?k - 1) * 2 powi b" using bd(2) by simp
    also have "\<dots> = 2 powi (a - 1)"
      using power_int_add [of "2::rat" "?k - 1" "b"] by simp
    also have "\<dots> \<le> of_int n" by (rule an(1))
    finally show ?thesis using d by (simp add: q pos_le_divide_eq)
  qed
  have eq: "log2_floor q = (if 2 powi ?k \<le> q then ?k else ?k - 1)"
    by (simp add: log2_floor_def nd a_def b_def)
  show "2 powi log2_floor q \<le> q" and "q < 2 powi (log2_floor q + 1)"
    using hi lo by (auto simp: eq)
qed

lemma fl_0 [simp]: "fl 0 = 0"
  by (simp add: fl_def)

text \<open>The unit in the last place of the float next to a rational.\<close>

definition ulp :: "rat \<Rightarrow> rat" where
  "ulp q = 2 powi (max (log2_floor \<bar>q\<bar> - 52) (- 1074))"

lemma ulp_pos [simp]: "0 < ulp q"
  by (simp add: ulp_def)

lemma fl_ulp: "q \<noteq> 0 \<Longrightarrow> fl q = of_int (round_even (q / ulp q)) * ulp q"
  by (simp add: fl_def ulp_def Let_def)

lemma fl_nonneg: "0 \<le> q \<Longrightarrow> 0 \<le> fl q"
proof (cases "q = 0")
  case False
  assume "0 \<le> q"
  then have "0 \<le> q / ulp q" by (simp add: less_imp_le)
  then have "0 \<le> round_even (q / ulp q)" using round_even_mono [of 0] by simp
  with False show ?thesis by (simp add: fl_ulp less_imp_le)
qed simp

text \<open>Rounding does not cross a power of two, from below or from above.\<close>

lemma fl_le_pow2:
  assumes "0 < q" and "q \<le> 2 powi k" and "- 1074 \<le> k"
  shows "fl q \<le> 2 powi k"
proof -
  define e where "e = max (log2_floor q - 52) (- 1074)"
  have "2 powi log2_floor q \<le> (2 powi k :: rat)"
    using log2_floor_bounds(1) [OF assms(1)] assms(2) by linarith
  then have "log2_floor q \<le> k"
    using power_int_strict_increasing [of k "log2_floor q" "2::rat"] by (cases "log2_floor q \<le> k") auto
  then have k: "e \<le> k" using assms(3) by (simp add: e_def)
  then have N: "(2::rat) powi k / 2 powi e = of_int (2 ^ nat (k - e))"
    using power_int_diff [of "2::rat" k e] by (simp add: power_int_nonneg_exp)
  have "q / 2 powi e \<le> of_int (2 ^ nat (k - e))"
    unfolding N [symmetric] using assms(2) by (simp add: divide_right_mono)
  from round_even_mono [OF this] have "round_even (q / 2 powi e) \<le> 2 ^ nat (k - e)"
    unfolding round_even_of_int .
  then have "(of_int (round_even (q / 2 powi e)) :: rat) \<le> of_int (2 ^ nat (k - e))"
    by (simp only: of_int_le_iff)
  then have "of_int (round_even (q / 2 powi e)) * 2 powi e \<le> (2::rat) powi k"
    unfolding N [symmetric] by (simp add: pos_le_divide_eq)
  moreover have "fl q = of_int (round_even (q / 2 powi e)) * 2 powi e"
    using assms(1) by (simp add: fl_def e_def Let_def)
  ultimately show ?thesis by simp
qed

lemma fl_le_1: "q \<le> 1 \<Longrightarrow> fl q \<le> 1"
proof (cases "0 < q")
  case True
  assume "q \<le> 1"
  with True show ?thesis using fl_le_pow2 [of q 0] by simp
next
  case False
  then have "q / ulp q \<le> 0" by (simp add: divide_nonpos_pos)
  then have "round_even (q / ulp q) \<le> 0" using round_even_mono [of _ 0] by simp
  then have "fl q \<le> 0" using False
    by (cases "q = 0") (simp_all add: fl_ulp mult_nonpos_nonneg less_imp_le)
  then show ?thesis by simp
qed

text \<open>An integer multiple of a power of two within 53 bits is a float.\<close>

lemma fl_exact:
  assumes "\<bar>m\<bar> < 2 ^ 53" and "- 1074 \<le> k"
  shows "fl (of_int m * 2 powi k) = of_int m * 2 powi k"
proof (cases "m = 0")
  case False
  define q :: rat where "q = of_int m * 2 powi k"
  define e where "e = max (log2_floor \<bar>q\<bar> - 52) (- 1074)"
  have q: "q \<noteq> 0" using False by (simp add: q_def)
  have "\<bar>of_int m :: rat\<bar> < 2 powi 53"
    using assms(1) by (simp flip: of_int_abs)
  then have "\<bar>q\<bar> < 2 powi 53 * 2 powi k" by (simp add: q_def abs_mult)
  also have "\<dots> = 2 powi (53 + k)" by (rule power_int_add [symmetric]) simp
  finally have "2 powi log2_floor \<bar>q\<bar> < (2 powi (53 + k) :: rat)"
    using log2_floor_bounds(1) [of "\<bar>q\<bar>"] q by simp
  then have "log2_floor \<bar>q\<bar> < 53 + k"
    using power_int_increasing [of "53 + k" "log2_floor \<bar>q\<bar>" "2::rat"]
    by (cases "log2_floor \<bar>q\<bar> < 53 + k") auto
  then have k: "e \<le> k" using assms(2) by (simp add: e_def)
  then have N: "(2::rat) powi k / 2 powi e = of_int (2 ^ nat (k - e))"
    using power_int_diff [of "2::rat" k e] by (simp add: power_int_nonneg_exp)
  have "q / 2 powi e = of_int (m * 2 ^ nat (k - e))"
    using N by (simp add: q_def flip: times_divide_eq_right)
  then have "round_even (q / 2 powi e) = m * 2 ^ nat (k - e)"
    by (simp only: round_even_of_int)
  then have "fl q = of_int (m * 2 ^ nat (k - e)) * 2 powi e"
    using q by (simp add: fl_def e_def Let_def)
  also have "\<dots> = q"
    using N by (simp add: q_def divide_eq_eq)
  finally show ?thesis by (simp add: q_def)
qed simp

lemma fl_of_int [simp]: "\<bar>m\<bar> < 2 ^ 53 \<Longrightarrow> fl (of_int m) = of_int m"
  using fl_exact [of m 0] by simp

lemma fl_1 [simp]: "fl 1 = 1"
  using fl_of_int [of 1] by simp

lemma py_round_unit: "0 \<le> x \<Longrightarrow> x \<le> 1 \<Longrightarrow> 0 \<le> py_round x n \<and> py_round x n \<le> 1"
proof -
  assume x: "0 \<le> x" "x \<le> 1"
  have "round_even 0 \<le> round_even (x * 10 ^ n)" "round_even (x * 10 ^ n) \<le> round_even (of_int (10 ^ n))"
    using x by (intro round_even_mono; simp)+
  then have "0 \<le> round_even (x * 10 ^ n)" "round_even (x * 10 ^ n) \<le> 10 ^ n"
    by (simp_all only: round_even_of_int round_even_0)
  then have "0 \<le> (of_int (round_even (x * 10 ^ n)) :: rat)"
    "(of_int (round_even (x * 10 ^ n)) :: rat) \<le> of_int (10 ^ n)"
    by (simp_all only: of_int_0_le_iff of_int_le_iff)
  then show ?thesis
    by (simp add: py_round_def fl_nonneg fl_le_1)
qed

lemma py_round_0 [simp]: "py_round 0 n = 0" and py_round_1 [simp]: "py_round 1 n = 1"
proof -
  have "round_even (10 ^ n) = 10 ^ n"
    using round_even_of_int [of "10 ^ n"] by simp
  then show "py_round 0 n = 0" and "py_round 1 n = 1"
    by (simp_all add: py_round_def)
qed

section \<open>Infinities and NaN\<close>

datatype pyfloat = Fin rat | PInf | MInf | NaN

definition to_float :: "rat \<Rightarrow> pyfloat" where
  "to_float q =
     (let r = fl q
      in if r \<noteq> 0 \<and> log2_floor \<bar>r\<bar> \<ge> 1024 then (if r > 0 then PInf else MInf) else Fin r)"

fun pf_neg :: "pyfloat \<Rightarrow> pyfloat" where
  "pf_neg (Fin q) = Fin (- q)"
| "pf_neg PInf = MInf"
| "pf_neg MInf = PInf"
| "pf_neg NaN = NaN"

fun pf_add :: "pyfloat \<Rightarrow> pyfloat \<Rightarrow> pyfloat" where
  "pf_add (Fin p) (Fin q) = to_float (p + q)"
| "pf_add NaN y = NaN"
| "pf_add x NaN = NaN"
| "pf_add PInf MInf = NaN"
| "pf_add MInf PInf = NaN"
| "pf_add PInf y = PInf"
| "pf_add MInf y = MInf"
| "pf_add x PInf = PInf"
| "pf_add x MInf = MInf"

definition pf_sub :: "pyfloat \<Rightarrow> pyfloat \<Rightarrow> pyfloat" where
  "pf_sub x y = pf_add x (pf_neg y)"

fun pf_abs :: "pyfloat \<Rightarrow> pyfloat" where
  "pf_abs (Fin q) = Fin \<bar>q\<bar>"
| "pf_abs NaN = NaN"
| "pf_abs x = PInf"

text \<open>Comparisons; NaN compares false with everything, itself included.\<close>

fun pf_less :: "pyfloat \<Rightarrow> pyfloat \<Rightarrow> bool" where
  "pf_less (Fin p) (Fin q) = (p < q)"
| "pf_less NaN y = False"
| "pf_less x NaN = False"
| "pf_less PInf y = False"
| "pf_less x MInf = False"
| "pf_less x y = True"

definition pf_eq :: "pyfloat \<Rightarrow> pyfloat \<Rightarrow> bool" where
  "pf_eq x y = (x \<noteq> NaN \<and> x = y)"

definition pf_le :: "pyfloat \<Rightarrow> pyfloat \<Rightarrow> bool" where
  "pf_le x y = (pf_less x y \<or> pf_eq x y)"

text \<open>
  \<open>min(a, b)\<close> keeps \<open>a\<close> unless \<open>b < a\<close>, so a NaN that comes first stays and a later one is
  passed over; \<open>min\<close> of a non-empty sequence folds it from the left.
\<close>

definition pf_min :: "pyfloat \<Rightarrow> pyfloat \<Rightarrow> pyfloat" where
  "pf_min a b = (if pf_less b a then b else a)"

definition pf_max :: "pyfloat \<Rightarrow> pyfloat \<Rightarrow> pyfloat" where
  "pf_max a b = (if pf_less a b then b else a)"

definition pf_min_list :: "pyfloat list \<Rightarrow> pyfloat" where
  "pf_min_list xs = foldl pf_min (hd xs) (tl xs)"

text \<open>A float between 0 and 1 as a guard \<open>x < 0 or x > 1\<close> leaves it: such a number, or NaN.\<close>

definition pf_unit :: "pyfloat \<Rightarrow> bool" where
  "pf_unit x \<longleftrightarrow> \<not> pf_less x (Fin 0) \<and> \<not> pf_less (Fin 1) x"

lemma pf_unit_iff: "pf_unit x \<longleftrightarrow> x = NaN \<or> (\<exists>q. x = Fin q \<and> 0 \<le> q \<and> q \<le> 1)"
  by (cases x) (auto simp: pf_unit_def)

section \<open>Reading a number\<close>

definition is_digit :: "char \<Rightarrow> bool" where
  "is_digit c = (c \<in> set ''0123456789'')"

definition digit_val :: "char \<Rightarrow> int" where
  "digit_val c = of_char c - 48"

definition digits_val :: "string \<Rightarrow> int" where
  "digits_val s = foldl (\<lambda>n c. 10 * n + digit_val c) 0 s"

text \<open>An underscore may only stand between two digits; it is dropped.\<close>

fun drop_underscores :: "bool \<Rightarrow> string \<Rightarrow> string option" where
  "drop_underscores p [] = Some []"
| "drop_underscores p (c # s) =
     (if c = CHR 0x5F
      then (if p \<and> s \<noteq> [] \<and> is_digit (hd s) then drop_underscores False s else None)
      else map_option ((#) c) (drop_underscores (is_digit c) s))"

definition split_sign :: "string \<Rightarrow> bool \<times> string" where
  "split_sign s =
     (case s of
        [] \<Rightarrow> (False, [])
      | c # t \<Rightarrow> if c = CHR ''-'' then (True, t) else if c = CHR ''+'' then (False, t) else (False, s))"

definition parse_exponent :: "string \<Rightarrow> int option" where
  "parse_exponent s =
     (case split_sign s of
        (neg, t) \<Rightarrow> if t \<noteq> [] \<and> list_all is_digit t
                     then Some (if neg then - digits_val t else digits_val t)
                     else None)"

definition parse_decimal :: "string \<Rightarrow> rat option" where
  "parse_decimal s =
     (let ip = takeWhile is_digit s; r = dropWhile is_digit s;
          (fp, r) = (if r \<noteq> [] \<and> hd r = CHR ''.''
                     then (takeWhile is_digit (tl r), dropWhile is_digit (tl r)) else ([], r));
          m = of_int (digits_val (ip @ fp)) / 10 ^ length fp
      in if ip = [] \<and> fp = [] then None
         else if r = [] then Some m
         else if hd r \<in> {CHR ''e'', CHR ''E''}
         then map_option (\<lambda>k. m * 10 powi k) (parse_exponent (tl r))
         else None)"

definition lower_char :: "char \<Rightarrow> char" where
  "lower_char c = (let n = of_char c :: int in if 65 \<le> n \<and> n \<le> 90 then char_of (n + 32) else c)"

abbreviation py_lower :: "string \<Rightarrow> string" where
  "py_lower s \<equiv> map lower_char s"

definition float_of_str :: "string \<Rightarrow> pyfloat option" where
  "float_of_str s =
     (case drop_underscores False (py_strip s) of
        None \<Rightarrow> None
      | Some s \<Rightarrow>
          (case split_sign s of
             (neg, t) \<Rightarrow>
               map_option (if neg then pf_neg else id)
                 (if py_lower t \<in> {''inf'', ''infinity''} then Some PInf
                  else if py_lower t = ''nan'' then Some NaN
                  else map_option to_float (parse_decimal t))))"

text \<open>\<open>float(x)\<close> of an untyped value, with the exception it raises.\<close>

datatype conversion_error = ValueError | TypeError | OverflowError

fun py_float :: "json \<Rightarrow> conversion_error + pyfloat" where
  "py_float (JBool b) = Inr (Fin (if b then 1 else 0))"
| "py_float (JInt i) = (case to_float (of_int i) of Fin q \<Rightarrow> Inr (Fin q) | _ \<Rightarrow> Inl OverflowError)"
| "py_float (JNum q) = Inr (Fin q)"
| "py_float (JStr s) = (case float_of_str s of None \<Rightarrow> Inl ValueError | Some x \<Rightarrow> Inr x)"
| "py_float JNull = Inl TypeError"
| "py_float (JList xs) = Inl TypeError"
| "py_float (JObj d) = Inl TypeError"

text \<open>
  \<open>payload.get(field)\<close>, where a key bound to \<open>None\<close> reads like a missing one, and two conversions
  under \<open>except (ValueError, TypeError)\<close>: \<open>None\<close> when one is caught, the uncaught error otherwise.
\<close>

definition get_value :: "(string, json) dict \<Rightarrow> string \<Rightarrow> json option" where
  "get_value d field = (case dget d field of Some JNull \<Rightarrow> None | r \<Rightarrow> r)"

definition float_pair :: "json \<Rightarrow> json \<Rightarrow> conversion_error + (pyfloat \<times> pyfloat) option" where
  "float_pair s t =
     (case py_float s of
        Inl e \<Rightarrow> if e = OverflowError then Inl e else Inr None
      | Inr x \<Rightarrow>
          (case py_float t of
             Inl e \<Rightarrow> if e = OverflowError then Inl e else Inr None
           | Inr y \<Rightarrow> Inr (Some (x, y))))"

section \<open>Counting characters\<close>

text \<open>
  \<open>len\<close> of a string, which is kept as its UTF-8 encoding: every byte but the continuation bytes
  (128 to 191) starts a character.
\<close>

definition code_points :: "string \<Rightarrow> nat" where
  "code_points s = length (filter (\<lambda>c. let n = of_char c :: int in n < 128 \<or> 192 \<le> n) s)"

lemma code_points_le: "code_points s \<le> length s"
  by (simp add: code_points_def)

section \<open>Printing a value\<close>

definition digit_char :: "int \<Rightarrow> char" where
  "digit_char d = ''0123456789'' ! nat d"

function digits_of :: "int \<Rightarrow> string" where
  "digits_of n = (if n < 10 then [digit_char n] else digits_of (n div 10) @ [digit_char (n mod 10)])"
  by pat_completeness auto
termination
  by (relation "measure nat") auto

declare digits_of.simps [simp del]

definition int_str :: "int \<Rightarrow> string" where
  "int_str n = (if n < 0 then ''-'' @ digits_of (- n) else digits_of n)"

text \<open>
  The decimal exponent of a positive float, whose magnitude lies between \<open>10 ^ - 324\<close> and
  \<open>10 ^ 309\<close>, so that 330 rounds are enough; and the shortest decimal that reads back as the float,
  as \<open>repr\<close> prints it.
\<close>

fun decimal_exponent :: "nat \<Rightarrow> rat \<Rightarrow> int \<Rightarrow> int" where
  "decimal_exponent 0 a k = k"
| "decimal_exponent (Suc n) a k =
     (if a \<ge> 10 then decimal_exponent n (a / 10) (k + 1)
      else if a < 1 then decimal_exponent n (a * 10) (k - 1) else k)"

definition repr_candidate :: "rat \<Rightarrow> rat \<Rightarrow> int option" where
  "repr_candidate a scale =
     (let x = a * scale; lo = \<lfloor>x\<rfloor>; up = lo + 1; m = round_even x;
          ok = (\<lambda>m. fl (of_int m / scale) = a)
      in if ok m then Some m else if ok lo then Some lo else if ok up then Some up else None)"

fun shortest_digits :: "nat list \<Rightarrow> rat \<Rightarrow> int \<Rightarrow> string \<times> int" where
  "shortest_digits [] a e = ([], 0)"
| "shortest_digits (k # ks) a e =
     (case repr_candidate a (10 powi (int k - 1 - e)) of
        Some m \<Rightarrow> let ds = digits_of m
                  in (rev (dropWhile (\<lambda>c. c = CHR ''0'') (rev ds)), e + 1 + int (length ds) - int k)
      | None \<Rightarrow> shortest_digits ks a e)"

definition float_repr :: "rat \<Rightarrow> string" where
  "float_repr q =
     (if q = 0 then ''0.0''
      else let a = \<bar>q\<bar>;
               (ds, pt) = shortest_digits [1..<18] a (decimal_exponent 330 a 0);
               body =
                 (if pt \<le> - 4 \<or> 16 < pt
                  then let e = pt - 1; es = digits_of \<bar>e\<bar>
                       in [hd ds] @ (if tl ds = [] then [] else ''.'' @ tl ds) @ ''e''
                          @ (if e < 0 then ''-'' else ''+'') @ (if length es < 2 then ''0'' else []) @ es
                  else if pt \<le> 0 then ''0.'' @ replicate (nat (- pt)) (CHR ''0'') @ ds
                  else if int (length ds) \<le> pt
                  then ds @ replicate (nat pt - length ds) (CHR ''0'') @ ''.0''
                  else take (nat pt) ds @ ''.'' @ drop (nat pt) ds)
           in (if q < 0 then ''-'' else []) @ body)"

text \<open>\<open>repr\<close> and \<open>str\<close> of an untyped value. Bytes above 127 are kept as they are.\<close>

definition hex_char :: "int \<Rightarrow> char" where
  "hex_char d = ''0123456789abcdef'' ! nat d"

definition escape_char :: "char \<Rightarrow> char \<Rightarrow> string" where
  "escape_char quote c =
     (let n = of_char c :: int
      in if c = quote \<or> n = 92 then [CHR 0x5C, c]
         else if n = 10 then [CHR 0x5C, CHR ''n''] else if n = 13 then [CHR 0x5C, CHR ''r'']
         else if n = 9 then [CHR 0x5C, CHR ''t'']
         else if n < 32 \<or> n = 127 then [CHR 0x5C, CHR ''x'', hex_char (n div 16), hex_char (n mod 16)]
         else [c])"

definition str_repr :: "string \<Rightarrow> string" where
  "str_repr s =
     (let quote = (if CHR 0x27 \<in> set s \<and> CHR 0x22 \<notin> set s then CHR 0x22 else CHR 0x27)
      in [quote] @ concat (map (escape_char quote) s) @ [quote])"

definition comma_join :: "string list \<Rightarrow> string" where
  "comma_join xs = (case xs of [] \<Rightarrow> [] | x # ys \<Rightarrow> x @ concat (map (\<lambda>y. '', '' @ y) ys))"

fun py_repr :: "json \<Rightarrow> string" where
  "py_repr JNull = ''None''"
| "py_repr (JBool b) = (if b then ''True'' else ''False'')"
| "py_repr (JInt i) = int_str i"
| "py_repr (JNum q) = float_repr q"
| "py_repr (JStr s) = str_repr s"
| "py_repr (JList xs) = ''['' @ comma_join (map py_repr xs) @ '']''"
| "py_repr (JObj d) =
     ''{'' @ comma_join (map (\<lambda>(k, v). str_repr k @ '': '' @ v) (map (map_prod id py_repr) d)) @ ''}''"

definition py_str :: "json \<Rightarrow> string" where
  "py_str j = (case j of JStr s \<Rightarrow> s | _ \<Rightarrow> py_repr j)"

fun pf_str :: "pyfloat \<Rightarrow> string" where
  "pf_str (Fin q) = float_repr q"
| "pf_str PInf = ''inf''"
| "pf_str MInf = ''-inf''"
| "pf_str NaN = ''nan''"

text \<open>
  Equality of untyped values: numbers by value whatever their type, dictionaries whatever the order.
\<close>

fun py_eq :: "json \<Rightarrow> json \<Rightarrow> bool" and py_eq_list :: "json list \<Rightarrow> json list \<Rightarrow> bool" where
  "py_eq JNull y = (y = JNull)"
| "py_eq (JBool b) y = (json_num y = Some (if b then 1 else 0))"
| "py_eq (JInt i) y = (json_num y = Some (of_int i))"
| "py_eq (JNum q) y = (json_num y = Some q)"
| "py_eq (JStr s) y = (y = JStr s)"
| "py_eq (JList xs) y = (case y of JList ys \<Rightarrow> py_eq_list xs ys | _ \<Rightarrow> False)"
| "py_eq (JObj d) y =
     (case y of
        JObj e \<Rightarrow> length d = length e \<and>
          list_all (\<lambda>(k, v). case dget e k of None \<Rightarrow> False | Some w \<Rightarrow> py_eq v w) d
      | _ \<Rightarrow> False)"
| "py_eq_list [] ys = (ys = [])"
| "py_eq_list (x # xs) ys = (case ys of [] \<Rightarrow> False | y # zs \<Rightarrow> py_eq x y \<and> py_eq_list xs zs)"

text \<open>
  A float as an untyped value, which has no constructor for the infinities and NaN: they stand by
  their text. The comparison of a float with an untyped value on its right.
\<close>

fun float_json :: "pyfloat \<Rightarrow> json" where
  "float_json (Fin q) = JNum q"
| "float_json x = JStr (pf_str x)"

definition json_less_float :: "pyfloat \<Rightarrow> json \<Rightarrow> string + bool" where
  "json_less_float x j =
     (case json_less ''float'' 0 j of
        Inl e \<Rightarrow> Inl e
      | Inr _ \<Rightarrow> Inr (case json_num j of None \<Rightarrow> False | Some r \<Rightarrow> pf_less x (Fin r)))"

end
