(* ===== verification/Control_Objects.thy ===== *)
theory Control_Objects
  imports Fabric_Types Py_Float
begin

text \<open>
  The control object and the control link: \<^verbatim>\<open>app/core/control_object.py\<close> and
  \<^verbatim>\<open>app/core/control_link.py\<close>. A method that mutates the object takes it as its last
  argument and returns the outcome together with the object it leaves, so that a mutation done
  before a raise stays visible.
\<close>

section \<open>The control object\<close>

record control_object =
  co_id :: uuid
  co_tenant_id :: uuid
  co_object_type :: control_object_type
  co_object_kind :: string
  co_plane :: plane_type
  co_domain :: string
  co_label :: string
  co_description :: "string option"
  co_state :: control_state
  co_version :: int
  co_confidence :: pyfloat
  co_provenance :: control_provenance
  co_evidence :: "evidence_ref list"
  co_payload :: "(string, json) dict"
  co_correlation_keys :: "(string, string) dict"
  co_external_refs :: "(string, string) dict"
  co_tags :: "string list"
  co_schema_version :: string
  co_superseded_by :: "uuid option"
  co_derived_from :: "uuid list"
  co_audit_trail :: "audit_context list"
  co_created_at :: time
  co_updated_at :: time

type_synonym co_result = "(fabric_error, control_object, unit) res"

definition transition_state ::
  "control_state \<Rightarrow> audit_context \<Rightarrow> time \<Rightarrow> control_object \<Rightarrow> co_result" where
  "transition_state new_state audit now obj =
     (let valid = valid_state_transitions (co_state obj)
      in if new_state \<notin> set valid
         then (Inl (ControlObjectStateError
                 [Lit ''Cannot transition from '', Lit (state_value (co_state obj)), Lit '' to '',
                  Lit (state_value new_state), Lit ''. Valid: '', StrList (map state_value valid)]),
               obj)
         else (Inr (),
               obj\<lparr>co_state := new_state, co_updated_at := now,
                   co_audit_trail := co_audit_trail obj @ [audit]\<rparr>))"

definition enrich ::
  "(string, json) dict \<Rightarrow> audit_context \<Rightarrow> time \<Rightarrow> control_object \<Rightarrow> co_result" where
  "enrich payload_update audit now obj =
     (if co_state obj = CS_FROZEN
      then (Inl (ControlObjectFrozenError [Lit ''Cannot enrich a frozen control object'']), obj)
      else let obj = obj\<lparr>co_payload := dupdate (co_payload obj) payload_update\<rparr>
           in if co_state obj = CS_ACTIVE
              then transition_state CS_ENRICHED audit now obj
              else (Inr (), obj\<lparr>co_updated_at := now,
                                 co_audit_trail := co_audit_trail obj @ [audit]\<rparr>))"

definition attach_evidence :: "evidence_ref \<Rightarrow> time \<Rightarrow> control_object \<Rightarrow> co_result" where
  "attach_evidence evidence now obj =
     (if co_state obj = CS_FROZEN
      then (Inl (ControlObjectFrozenError
              [Lit ''Cannot attach evidence to a frozen control object'']), obj)
      else (Inr (), obj\<lparr>co_evidence := co_evidence obj @ [evidence], co_updated_at := now\<rparr>))"

definition freeze :: "audit_context \<Rightarrow> time \<Rightarrow> control_object \<Rightarrow> co_result" where
  "freeze audit now obj =
     (if co_state obj \<in> {CS_ACTIVE, CS_ENRICHED}
      then transition_state CS_FROZEN audit now obj
      else (Inl (ControlObjectStateError
              [Lit ''Cannot freeze from state '', Lit (state_value (co_state obj))]), obj))"

definition mark_reconciled :: "audit_context \<Rightarrow> time \<Rightarrow> control_object \<Rightarrow> co_result" where
  "mark_reconciled audit now obj = transition_state CS_RECONCILED audit now obj"

definition mark_disputed :: "audit_context \<Rightarrow> time \<Rightarrow> control_object \<Rightarrow> co_result" where
  "mark_disputed audit now obj = transition_state CS_DISPUTED audit now obj"

definition mark_actioned :: "audit_context \<Rightarrow> time \<Rightarrow> control_object \<Rightarrow> co_result" where
  "mark_actioned audit now obj = transition_state CS_ACTIONED audit now obj"

text \<open>\<open>supersede\<close> writes \<open>superseded_by\<close> before the guarded transition.\<close>

definition supersede :: "uuid \<Rightarrow> audit_context \<Rightarrow> time \<Rightarrow> control_object \<Rightarrow> co_result" where
  "supersede new_version_id audit now obj =
     (let obj = obj\<lparr>co_superseded_by := Some new_version_id\<rparr>
      in transition_state CS_SUPERSEDED audit now obj)"

definition deprecate :: "audit_context \<Rightarrow> time \<Rightarrow> control_object \<Rightarrow> co_result" where
  "deprecate audit now obj = transition_state CS_DEPRECATED audit now obj"

definition activate :: "audit_context \<Rightarrow> time \<Rightarrow> control_object \<Rightarrow> co_result" where
  "activate audit now obj = transition_state CS_ACTIVE audit now obj"

definition is_mutable :: "control_object \<Rightarrow> bool" where
  "is_mutable obj = (co_state obj \<notin> {CS_FROZEN, CS_SUPERSEDED, CS_DEPRECATED})"

section \<open>Construction and versioning\<close>

record control_object_create =
  cc_object_type :: control_object_type
  cc_object_kind :: string
  cc_plane :: plane_type
  cc_domain :: string
  cc_label :: string
  cc_description :: "string option"
  cc_confidence :: pyfloat
  cc_provenance :: "control_provenance option"
  cc_evidence :: "evidence_ref list"
  cc_payload :: "(string, json) dict"
  cc_correlation_keys :: "(string, string) dict"
  cc_external_refs :: "(string, string) dict"
  cc_tags :: "string list"
  cc_derived_from :: "uuid list"

text \<open>\<open>fresh\<close> is the identifier that \<open>new_object_id()\<close> draws.\<close>

definition build_control_object ::
  "uuid \<Rightarrow> time \<Rightarrow> uuid \<Rightarrow> control_object_create \<Rightarrow> string \<Rightarrow> fabric_error + control_object" where
  "build_control_object fresh now tenant_id create actor =
     (if blank (cc_label create)
      then Inl (InvalidControlObjectError [Lit ''Control object label must not be empty''])
      else if blank (cc_domain create)
      then Inl (InvalidControlObjectError [Lit ''Control object domain must not be empty''])
      else if pf_less (cc_confidence create) (Fin 0) \<or> pf_less (Fin 1) (cc_confidence create)
      then Inl (InvalidControlObjectError [Lit ''Confidence must be between 0.0 and 1.0''])
      else Inr
        \<lparr>co_id = fresh, co_tenant_id = tenant_id, co_object_type = cc_object_type create,
         co_object_kind = cc_object_kind create, co_plane = cc_plane create,
         co_domain = cc_domain create, co_label = cc_label create,
         co_description = cc_description create, co_state = CS_DRAFT, co_version = 1,
         co_confidence = cc_confidence create,
         co_provenance = (case cc_provenance create of
                            Some p \<Rightarrow> p | None \<Rightarrow> default_provenance actor),
         co_evidence = cc_evidence create, co_payload = cc_payload create,
         co_correlation_keys = cc_correlation_keys create,
         co_external_refs = cc_external_refs create, co_tags = cc_tags create,
         co_schema_version = ''1.0'', co_superseded_by = None,
         co_derived_from = cc_derived_from create,
         co_audit_trail = [audit_of actor ''created'' now],
         co_created_at = now, co_updated_at = now\<rparr>)"

text \<open>
  \<open>supersede_object\<close> returns the new version and leaves the original superseded. The state of
  the result is the original object, whatever the outcome.
\<close>

definition supersede_object ::
  "uuid \<Rightarrow> time \<Rightarrow> control_object_create \<Rightarrow> string \<Rightarrow> control_object
     \<Rightarrow> (fabric_error, control_object, control_object) res" where
  "supersede_object fresh now update actor original =
     (case build_control_object fresh now (co_tenant_id original) update actor of
        Inl e \<Rightarrow> (Inl e, original)
      | Inr new_obj \<Rightarrow>
          let new_obj = new_obj\<lparr>co_version := co_version original + 1,
                                co_derived_from := [co_id original]\<rparr>
          in case supersede (co_id new_obj) (audit_of actor ''superseded'' now) now original of
               (Inl e, original) \<Rightarrow> (Inl e, original)
             | (Inr _, original) \<Rightarrow> (Inr new_obj, original))"

section \<open>The control link\<close>

record control_link =
  cl_id :: uuid
  cl_tenant_id :: uuid
  cl_source_id :: uuid
  cl_target_id :: uuid
  cl_link_type :: control_link_type
  cl_directionality :: link_directionality
  cl_source_plane :: "plane_type option"
  cl_target_plane :: "plane_type option"
  cl_weight :: rat
  cl_confidence :: rat
  cl_evidence :: "evidence_ref list"
  cl_metadata :: "(string, json) dict"
  cl_created_at :: time

definition is_cross_plane :: "control_link \<Rightarrow> bool" where
  "is_cross_plane l =
     (cl_source_plane l \<noteq> None \<and> cl_target_plane l \<noteq> None \<and> cl_source_plane l \<noteq> cl_target_plane l)"

record control_link_create =
  lc_source_id :: uuid
  lc_target_id :: uuid
  lc_link_type :: control_link_type
  lc_weight :: rat
  lc_confidence :: rat
  lc_evidence :: "evidence_ref list"
  lc_metadata :: "(string, json) dict"

definition build_control_link ::
  "uuid \<Rightarrow> time \<Rightarrow> uuid \<Rightarrow> control_link_create \<Rightarrow> plane_type option \<Rightarrow> plane_type option
     \<Rightarrow> control_link" where
  "build_control_link fresh now tenant_id create source_plane target_plane =
     \<lparr>cl_id = fresh, cl_tenant_id = tenant_id, cl_source_id = lc_source_id create,
      cl_target_id = lc_target_id create, cl_link_type = lc_link_type create,
      cl_directionality = link_directionality_of (lc_link_type create),
      cl_source_plane = source_plane, cl_target_plane = target_plane,
      cl_weight = lc_weight create, cl_confidence = lc_confidence create,
      cl_evidence = lc_evidence create, cl_metadata = lc_metadata create,
      cl_created_at = now\<rparr>"

section \<open>Lifecycle\<close>

definition lifecycle_move ::
  "audit_context \<times> time \<Rightarrow> control_state \<Rightarrow> control_object \<Rightarrow> control_object option" where
  "lifecycle_move i t obj =
     (case transition_state t (fst i) (snd i) obj of (Inl _, _) \<Rightarrow> None | (Inr _, o') \<Rightarrow> Some o')"

interpretation lifecycle: guarded_machine valid_state_transitions co_state lifecycle_move
  by unfold_locales
    (auto simp: lifecycle_move_def transition_state_def Let_def split: if_splits)

lemma transition_state_ok:
  "transition_state t a n obj = (Inr u, obj') \<longleftrightarrow>
     t \<in> set (valid_state_transitions (co_state obj)) \<and>
     obj' = obj\<lparr>co_state := t, co_updated_at := n, co_audit_trail := co_audit_trail obj @ [a]\<rparr>"
  by (auto simp: transition_state_def Let_def)

lemma transition_state_err:
  "transition_state t a n obj = (Inl e, obj') \<Longrightarrow>
     t \<notin> set (valid_state_transitions (co_state obj)) \<and> obj' = obj"
  by (auto simp: transition_state_def Let_def split: if_splits)

lemmas lifecycle_defs =
  enrich_def attach_evidence_def freeze_def mark_reconciled_def mark_disputed_def
  mark_actioned_def supersede_def deprecate_def activate_def

text \<open>
  One call of a mutating method on an object, whatever its outcome. The rules follow the methods
  of the class.
\<close>

inductive co_step :: "control_object \<Rightarrow> control_object \<Rightarrow> bool" where
  step_transition: "co_step obj (snd (transition_state t a n obj))"
| step_enrich: "co_step obj (snd (enrich upd a n obj))"
| step_attach: "co_step obj (snd (attach_evidence ev n obj))"
| step_freeze: "co_step obj (snd (freeze a n obj))"
| step_reconciled: "co_step obj (snd (mark_reconciled a n obj))"
| step_disputed: "co_step obj (snd (mark_disputed a n obj))"
| step_actioned: "co_step obj (snd (mark_actioned a n obj))"
| step_supersede: "co_step obj (snd (supersede v a n obj))"
| step_deprecate: "co_step obj (snd (deprecate a n obj))"
| step_activate: "co_step obj (snd (activate a n obj))"

text \<open>What a step never changes, and what it may only extend.\<close>

definition same_identity :: "control_object \<Rightarrow> control_object \<Rightarrow> bool" where
  "same_identity a b \<longleftrightarrow>
     co_id b = co_id a \<and> co_tenant_id b = co_tenant_id a \<and> co_object_type b = co_object_type a \<and>
     co_object_kind b = co_object_kind a \<and> co_plane b = co_plane a \<and> co_domain b = co_domain a \<and>
     co_label b = co_label a \<and> co_version b = co_version a \<and> co_confidence b = co_confidence a \<and>
     co_provenance b = co_provenance a \<and> co_derived_from b = co_derived_from a \<and>
     co_created_at b = co_created_at a"

definition step_ok :: "control_object \<Rightarrow> control_object \<Rightarrow> bool" where
  "step_ok a b \<longleftrightarrow>
     same_identity a b \<and>
     (co_state b = co_state a \<or> co_state b \<in> set (valid_state_transitions (co_state a))) \<and>
     (\<exists>es. co_evidence b = co_evidence a @ es) \<and>
     (\<exists>as. co_audit_trail b = co_audit_trail a @ as \<and> (co_state b \<noteq> co_state a \<longrightarrow> as \<noteq> [])) \<and>
     (co_state a = CS_FROZEN \<longrightarrow> co_payload b = co_payload a \<and> co_evidence b = co_evidence a)"

lemma step_ok_refl [simp]: "step_ok a a"
  by (simp add: step_ok_def same_identity_def)

lemma step_ok_transition: "step_ok obj (snd (transition_state t a n obj))"
  by (auto simp: transition_state_def Let_def step_ok_def same_identity_def)

lemma step_ok_payload:
  "step_ok (obj\<lparr>co_payload := p\<rparr>) obj' \<Longrightarrow> co_state obj \<noteq> CS_FROZEN \<Longrightarrow> step_ok obj obj'"
  by (auto simp: step_ok_def same_identity_def)

lemma step_ok_superseded_by: "step_ok (obj\<lparr>co_superseded_by := v\<rparr>) obj' \<Longrightarrow> step_ok obj obj'"
  by (auto simp: step_ok_def same_identity_def)

lemma co_step_ok: "co_step obj obj' \<Longrightarrow> step_ok obj obj'"
proof (induction rule: co_step.induct)
  case (step_enrich obj upd a n)
  show ?case
  proof (cases "co_state obj = CS_FROZEN")
    case False
    let ?obj = "obj\<lparr>co_payload := dupdate (co_payload obj) upd\<rparr>"
    have "step_ok ?obj (snd (transition_state CS_ENRICHED a n ?obj))"
      by (rule step_ok_transition)
    then have "step_ok obj (snd (transition_state CS_ENRICHED a n ?obj))"
      using False by (rule step_ok_payload)
    with False show ?thesis
      by (auto simp: enrich_def Let_def step_ok_def same_identity_def)
  qed (simp add: enrich_def)
next
  case (step_attach obj ev n)
  then show ?case
    by (auto simp: attach_evidence_def step_ok_def same_identity_def)
next
  case (step_freeze obj a n)
  then show ?case
    by (auto simp: freeze_def step_ok_transition)
next
  case (step_supersede obj v a n)
  then show ?case
    unfolding supersede_def Let_def by (rule step_ok_superseded_by [OF step_ok_transition])
qed (simp_all add: lifecycle_defs step_ok_transition)

lemma same_identity_trans: "same_identity a b \<Longrightarrow> same_identity b c \<Longrightarrow> same_identity a c"
  by (simp add: same_identity_def)

text \<open>Runs of object steps: identity kept, evidence and trail extended, states along the table.\<close>

definition lifecycle_ok :: "control_object \<Rightarrow> control_object \<Rightarrow> bool" where
  "lifecycle_ok a b \<longleftrightarrow>
     same_identity a b \<and>
     (\<lambda>s t. t \<in> set (valid_state_transitions s))\<^sup>*\<^sup>* (co_state a) (co_state b) \<and>
     (\<exists>es. co_evidence b = co_evidence a @ es) \<and>
     (\<exists>as. co_audit_trail b = co_audit_trail a @ as)"

lemma lifecycle_ok_refl [simp, intro]: "lifecycle_ok a a"
  by (simp add: lifecycle_ok_def same_identity_def)

lemma lifecycle_ok_step: "step_ok a b \<Longrightarrow> lifecycle_ok a b"
  by (auto simp: step_ok_def lifecycle_ok_def)

lemma lifecycle_ok_trans: "lifecycle_ok a b \<Longrightarrow> lifecycle_ok b c \<Longrightarrow> lifecycle_ok a c"
  unfolding lifecycle_ok_def using same_identity_trans [of a b c]
  by (metis append_assoc rtranclp_trans)

lemma lifecycle_steps: "co_step\<^sup>*\<^sup>* a b \<Longrightarrow> lifecycle_ok a b"
  by (induction rule: rtranclp_induct) (auto intro: lifecycle_ok_trans lifecycle_ok_step co_step_ok)

definition settled_states :: "control_state set" where
  "settled_states = {CS_ACTIONED, CS_SUPERSEDED, CS_DEPRECATED}"

lemma settled_closed:
  "(\<lambda>s t. t \<in> set (valid_state_transitions s))\<^sup>*\<^sup>* s t \<Longrightarrow> s \<in> settled_states \<Longrightarrow> t \<in> settled_states"
  by (induction rule: rtranclp_induct) (auto simp: settled_states_def)

lemma terminal_closed:
  "(\<lambda>s t. t \<in> set (valid_state_transitions s))\<^sup>*\<^sup>* s t \<Longrightarrow> valid_state_transitions s = [] \<Longrightarrow> t = s"
  by (induction rule: rtranclp_induct) auto

section \<open>Properties\<close>

definition sample_create :: control_object_create where
  "sample_create =
     \<lparr>cc_object_type = OT_WORK_ORDER, cc_object_kind = ''work_order'', cc_plane = FIELD,
      cc_domain = ''telco'', cc_label = ''WO-1'', cc_description = None, cc_confidence = Fin 1,
      cc_provenance = None, cc_evidence = [], cc_payload = [], cc_correlation_keys = [],
      cc_external_refs = [], cc_tags = [], cc_derived_from = []\<rparr>"

definition sample_object :: "uuid \<Rightarrow> control_object" where
  "sample_object i = projr (build_control_object i 0 ''t'' sample_create ''ops'')"



text \<open>Every call on a frozen object leaves its payload and its evidence as they were, and the
  two calls that would change them, \<open>enrich\<close> and \<open>attach_evidence\<close>, raise and change nothing.\<close>

theorem frozen_object_guarded:
  assumes "co_state a = CS_FROZEN" and "co_step a b"
  shows "co_payload b = co_payload a \<and> co_evidence b = co_evidence a \<and>
    (\<exists>m. enrich upd au n a = (Inl (ControlObjectFrozenError m), a)) \<and>
    (\<exists>m. attach_evidence ev n a = (Inl (ControlObjectFrozenError m), a))"
  using co_step_ok [OF assms(2)] assms(1)
  by (simp add: step_ok_def enrich_def attach_evidence_def)

theorem frozen_object_guarded_witness:
  "co_evidence (snd (mark_disputed (audit_of ''ops'' ''d'' 1) 1
      ((sample_object ''o'')\<lparr>co_state := CS_FROZEN\<rparr>))) = co_evidence (sample_object ''o'')"
  using frozen_object_guarded
    [of "(sample_object ''o'')\<lparr>co_state := CS_FROZEN\<rparr>", OF _ step_disputed]
  by simp

text \<open>A transition the table refuses still leaves its mark when it is a supersession: the call
  raises and the state stays, but \<open>superseded_by\<close> already names the version that was never
  accepted.\<close>

theorem refused_supersession_dangles:
  "if CS_SUPERSEDED \<in> set (valid_state_transitions (co_state ob))
   then supersede v au n ob =
     (Inr (), ob\<lparr>co_superseded_by := Some v, co_state := CS_SUPERSEDED, co_updated_at := n,
                  co_audit_trail := co_audit_trail ob @ [au]\<rparr>)
   else (\<exists>m. supersede v au n ob =
     (Inl (ControlObjectStateError m), ob\<lparr>co_superseded_by := Some v\<rparr>))"
  by (simp add: supersede_def transition_state_def Let_def)

end
