(* ===== verification/Fabric_Audit.thy ===== *)
theory Fabric_Audit
  imports Control_Objects
begin

text \<open>
  The audit hook of the fabric, \<^verbatim>\<open>app/core/audit.py\<close>: an append-only list of typed events and
  the listeners an event is delivered to. A listener is code the hook only calls; it is kept as
  a number, and \<open>fh_delivered\<close> records which listener was called with which event, in order. The
  event's own random identifier and clock reading are not kept: nothing in the program reads
  them back.
\<close>

datatype fabric_audit_event_type =
    FE_CONTROL_OBJECT_CREATED | FE_CONTROL_OBJECT_ACTIVATED | FE_CONTROL_OBJECT_ENRICHED
  | FE_CONTROL_OBJECT_FROZEN | FE_CONTROL_OBJECT_SUPERSEDED | FE_CONTROL_OBJECT_DEPRECATED
  | FE_CONTROL_OBJECT_RECONCILED | FE_CONTROL_OBJECT_DISPUTED | FE_CONTROL_OBJECT_ACTIONED
  | FE_CONTROL_LINK_CREATED | FE_CONTROL_LINK_REMOVED | FE_GRAPH_CONSISTENCY_CHECKED
  | FE_GRAPH_SLICE_EXTRACTED | FE_DOMAIN_PACK_REGISTERED | FE_RECONCILIATION_RUN_STARTED
  | FE_RECONCILIATION_RUN_COMPLETED | FE_RECONCILIATION_CANDIDATE_GENERATED
  | FE_RECONCILIATION_CASE_CREATED | FE_RECONCILIATION_CASE_CLASSIFIED
  | FE_RECONCILIATION_DUPLICATE_DETECTED | FE_RECONCILIATION_COVERAGE_GAP_DETECTED
  | FE_RECONCILIATION_INSUFFICIENT_EVIDENCE | FE_RECONCILIATION_OUTCOME_HASHED
  | FE_VALIDATION_RUN_STARTED | FE_VALIDATION_RUN_COMPLETED | FE_VALIDATION_STEP_COMPLETED
  | FE_VALIDATION_FAILED | FE_VALIDATION_DECISION_RECORDED | FE_VALIDATION_REPORT_HASHED
  | FE_ACTION_PROPOSED | FE_ACTION_APPROVED | FE_ACTION_REJECTED | FE_ACTION_RELEASED
  | FE_ACTION_EVIDENCE_MANIFEST_CREATED | FE_ACTION_POLICY_BLOCKED | FE_ACTION_DECISION_HASHED

record fabric_audit_event =
  fe_event_type :: fabric_audit_event_type
  fe_tenant_id :: "uuid option"
  fe_actor :: string
  fe_control_object_id :: "uuid option"
  fe_control_link_id :: "uuid option"
  fe_plane :: "plane_type option"
  fe_domain :: "string option"
  fe_previous_state :: "control_state option"
  fe_new_state :: "control_state option"
  fe_link_type :: "control_link_type option"
  fe_source_object_id :: "uuid option"
  fe_target_object_id :: "uuid option"
  fe_detail :: fstr
  fe_metadata :: "(string, json) dict"

text \<open>An event with every optional field at its default.\<close>

definition fabric_event :: "fabric_audit_event_type \<Rightarrow> fabric_audit_event" where
  "fabric_event ty =
     \<lparr>fe_event_type = ty, fe_tenant_id = None, fe_actor = ''system'', fe_control_object_id = None,
      fe_control_link_id = None, fe_plane = None, fe_domain = None, fe_previous_state = None,
      fe_new_state = None, fe_link_type = None, fe_source_object_id = None,
      fe_target_object_id = None, fe_detail = [], fe_metadata = []\<rparr>"

record fabric_audit_hook =
  fh_listeners :: "nat list"
  fh_events :: "fabric_audit_event list"
  fh_delivered :: "(nat \<times> fabric_audit_event) list"

definition new_audit_hook :: fabric_audit_hook where
  "new_audit_hook = \<lparr>fh_listeners = [], fh_events = [], fh_delivered = []\<rparr>"

definition add_listener :: "nat \<Rightarrow> fabric_audit_hook \<Rightarrow> fabric_audit_hook" where
  "add_listener l h = h\<lparr>fh_listeners := fh_listeners h @ [l]\<rparr>"

definition remove_listener :: "nat \<Rightarrow> fabric_audit_hook \<Rightarrow> fabric_audit_hook" where
  "remove_listener l h = h\<lparr>fh_listeners := filter (\<lambda>m. m \<noteq> l) (fh_listeners h)\<rparr>"

definition emit :: "fabric_audit_event \<Rightarrow> fabric_audit_hook \<Rightarrow> fabric_audit_hook" where
  "emit event h =
     h\<lparr>fh_events := fh_events h @ [event],
       fh_delivered := fh_delivered h @ map (\<lambda>l. (l, event)) (fh_listeners h)\<rparr>"

definition arrow :: string where
  "arrow = '' '' @ [CHR 0xE2, CHR 0x86, CHR 0x92] @ '' ''"

definition control_object_created ::
  "uuid \<Rightarrow> uuid \<Rightarrow> plane_type \<Rightarrow> string \<Rightarrow> string \<Rightarrow> fabric_audit_hook \<Rightarrow> fabric_audit_hook" where
  "control_object_created object_id tenant_id plane domain actor =
     emit ((fabric_event FE_CONTROL_OBJECT_CREATED)
       \<lparr>fe_tenant_id := Some tenant_id, fe_actor := actor, fe_control_object_id := Some object_id,
        fe_plane := Some plane, fe_domain := Some domain, fe_new_state := Some CS_DRAFT,
        fe_detail := [Lit ''Control object created in '', Lit (plane_value plane), Lit ''/'',
                      Lit domain]\<rparr>)"

fun state_to_event :: "control_state \<Rightarrow> fabric_audit_event_type option" where
  "state_to_event CS_ACTIVE = Some FE_CONTROL_OBJECT_ACTIVATED"
| "state_to_event CS_ENRICHED = Some FE_CONTROL_OBJECT_ENRICHED"
| "state_to_event CS_FROZEN = Some FE_CONTROL_OBJECT_FROZEN"
| "state_to_event CS_SUPERSEDED = Some FE_CONTROL_OBJECT_SUPERSEDED"
| "state_to_event CS_DEPRECATED = Some FE_CONTROL_OBJECT_DEPRECATED"
| "state_to_event CS_RECONCILED = Some FE_CONTROL_OBJECT_RECONCILED"
| "state_to_event CS_DISPUTED = Some FE_CONTROL_OBJECT_DISPUTED"
| "state_to_event CS_ACTIONED = Some FE_CONTROL_OBJECT_ACTIONED"
| "state_to_event CS_DRAFT = None"

definition control_object_state_changed ::
  "uuid \<Rightarrow> uuid \<Rightarrow> control_state \<Rightarrow> control_state \<Rightarrow> string
     \<Rightarrow> fabric_audit_hook \<Rightarrow> fabric_audit_hook" where
  "control_object_state_changed object_id tenant_id previous_state new_state actor =
     (let event_type = (case state_to_event new_state of
                          Some e \<Rightarrow> e | None \<Rightarrow> FE_CONTROL_OBJECT_ACTIVATED)
      in emit ((fabric_event event_type)
        \<lparr>fe_tenant_id := Some tenant_id, fe_actor := actor, fe_control_object_id := Some object_id,
         fe_previous_state := Some previous_state, fe_new_state := Some new_state,
         fe_detail := [Lit ''State: '', Lit (state_value previous_state), Lit arrow,
                       Lit (state_value new_state)]\<rparr>))"

definition control_object_superseded ::
  "uuid \<Rightarrow> uuid \<Rightarrow> uuid \<Rightarrow> string \<Rightarrow> fabric_audit_hook \<Rightarrow> fabric_audit_hook" where
  "control_object_superseded original_id new_id tenant_id actor =
     emit ((fabric_event FE_CONTROL_OBJECT_SUPERSEDED)
       \<lparr>fe_tenant_id := Some tenant_id, fe_actor := actor, fe_control_object_id := Some original_id,
        fe_previous_state := Some CS_ACTIVE, fe_new_state := Some CS_SUPERSEDED,
        fe_detail := [Lit ''Superseded by '', Lit new_id],
        fe_metadata := [(''new_version_id'', JStr new_id)]\<rparr>)"

definition control_object_deprecated ::
  "uuid \<Rightarrow> uuid \<Rightarrow> string \<Rightarrow> fabric_audit_hook \<Rightarrow> fabric_audit_hook" where
  "control_object_deprecated object_id tenant_id actor =
     emit ((fabric_event FE_CONTROL_OBJECT_DEPRECATED)
       \<lparr>fe_tenant_id := Some tenant_id, fe_actor := actor, fe_control_object_id := Some object_id,
        fe_new_state := Some CS_DEPRECATED, fe_detail := [Lit ''Control object deprecated'']\<rparr>)"

definition control_object_frozen ::
  "uuid \<Rightarrow> uuid \<Rightarrow> string \<Rightarrow> fabric_audit_hook \<Rightarrow> fabric_audit_hook" where
  "control_object_frozen object_id tenant_id actor =
     emit ((fabric_event FE_CONTROL_OBJECT_FROZEN)
       \<lparr>fe_tenant_id := Some tenant_id, fe_actor := actor, fe_control_object_id := Some object_id,
        fe_new_state := Some CS_FROZEN,
        fe_detail := [Lit ''Control object frozen for validation'']\<rparr>)"

definition control_object_reconciled ::
  "uuid \<Rightarrow> uuid \<Rightarrow> string \<Rightarrow> fabric_audit_hook \<Rightarrow> fabric_audit_hook" where
  "control_object_reconciled object_id tenant_id actor =
     emit ((fabric_event FE_CONTROL_OBJECT_RECONCILED)
       \<lparr>fe_tenant_id := Some tenant_id, fe_actor := actor, fe_control_object_id := Some object_id,
        fe_new_state := Some CS_RECONCILED, fe_detail := [Lit ''Control object reconciled'']\<rparr>)"

definition control_object_disputed ::
  "uuid \<Rightarrow> uuid \<Rightarrow> string \<Rightarrow> fabric_audit_hook \<Rightarrow> fabric_audit_hook" where
  "control_object_disputed object_id tenant_id actor =
     emit ((fabric_event FE_CONTROL_OBJECT_DISPUTED)
       \<lparr>fe_tenant_id := Some tenant_id, fe_actor := actor, fe_control_object_id := Some object_id,
        fe_new_state := Some CS_DISPUTED, fe_detail := [Lit ''Control object disputed'']\<rparr>)"

definition control_link_created ::
  "uuid \<Rightarrow> uuid \<Rightarrow> uuid \<Rightarrow> uuid \<Rightarrow> control_link_type \<Rightarrow> bool \<Rightarrow> string
     \<Rightarrow> fabric_audit_hook \<Rightarrow> fabric_audit_hook" where
  "control_link_created link_id tenant_id source_id target_id link_type cross actor =
     emit ((fabric_event FE_CONTROL_LINK_CREATED)
       \<lparr>fe_tenant_id := Some tenant_id, fe_actor := actor, fe_control_link_id := Some link_id,
        fe_source_object_id := Some source_id, fe_target_object_id := Some target_id,
        fe_link_type := Some link_type,
        fe_detail := [Lit ''Link '', Lit (link_type_value link_type), Lit '': '', Lit source_id,
                      Lit arrow, Lit target_id]
                     @ (if cross then [Lit '' [cross-plane]''] else [])\<rparr>)"

definition graph_consistency_checked ::
  "uuid \<Rightarrow> bool \<Rightarrow> nat \<Rightarrow> nat \<Rightarrow> string \<Rightarrow> fabric_audit_hook \<Rightarrow> fabric_audit_hook" where
  "graph_consistency_checked tenant_id is_consistent error_count warning_count actor =
     emit ((fabric_event FE_GRAPH_CONSISTENCY_CHECKED)
       \<lparr>fe_tenant_id := Some tenant_id, fe_actor := actor,
        fe_detail := [Lit ''Consistency: '', Lit (if is_consistent then ''pass'' else ''fail''),
                      Lit '' (errors='', NumI (int error_count), Lit '', warnings='',
                      NumI (int warning_count), Lit '')''],
        fe_metadata := [(''is_consistent'', JBool is_consistent),
                        (''error_count'', JInt (int error_count)),
                        (''warning_count'', JInt (int warning_count))]\<rparr>)"

definition domain_pack_registered ::
  "string \<Rightarrow> nat \<Rightarrow> string \<Rightarrow> fabric_audit_hook \<Rightarrow> fabric_audit_hook" where
  "domain_pack_registered domain kind_count actor =
     emit ((fabric_event FE_DOMAIN_PACK_REGISTERED)
       \<lparr>fe_actor := actor, fe_domain := Some domain,
        fe_detail := [Lit ''Domain pack '', Lit [CHR 0x27], Lit domain, Lit [CHR 0x27],
                      Lit '' registered with '', NumI (int kind_count), Lit '' kinds''],
        fe_metadata := [(''kind_count'', JInt (int kind_count))]\<rparr>)"

definition get_events_for_object :: "uuid \<Rightarrow> fabric_audit_hook \<Rightarrow> fabric_audit_event list" where
  "get_events_for_object object_id h =
     filter (\<lambda>e. fe_control_object_id e = Some object_id) (fh_events h)"

definition get_events_by_type ::
  "fabric_audit_event_type \<Rightarrow> fabric_audit_hook \<Rightarrow> fabric_audit_event list" where
  "get_events_by_type event_type h = filter (\<lambda>e. fe_event_type e = event_type) (fh_events h)"

definition count_events :: "fabric_audit_event_type option \<Rightarrow> fabric_audit_hook \<Rightarrow> nat" where
  "count_events event_type h =
     (case event_type of
        Some ty \<Rightarrow> sum_list (map (\<lambda>e. 1) (filter (\<lambda>e. fe_event_type e = ty) (fh_events h)))
      | None \<Rightarrow> length (fh_events h))"

definition clear_events :: "fabric_audit_hook \<Rightarrow> fabric_audit_hook" where
  "clear_events h = h\<lparr>fh_events := []\<rparr>"

section \<open>The log only grows\<close>

lemmas audit_event_defs =
  control_object_created_def control_object_state_changed_def control_object_superseded_def
  control_object_deprecated_def control_object_frozen_def control_object_reconciled_def
  control_object_disputed_def control_link_created_def graph_consistency_checked_def
  domain_pack_registered_def

definition extends_log :: "fabric_audit_hook \<Rightarrow> fabric_audit_hook \<Rightarrow> bool" where
  "extends_log h h' \<longleftrightarrow>
     (\<exists>es. fh_events h' = fh_events h @ es) \<and> fh_listeners h' = fh_listeners h"

lemma extends_log_refl [simp, intro]: "extends_log h h"
  by (simp add: extends_log_def)

lemma extends_log_trans [trans]: "extends_log a b \<Longrightarrow> extends_log b c \<Longrightarrow> extends_log a c"
  by (auto simp: extends_log_def)

lemma extends_log_emit [simp, intro]: "extends_log h (emit e h)"
  by (simp add: extends_log_def emit_def)

lemma emit_events [simp]: "fh_events (emit e h) = fh_events h @ [e]"
  by (simp add: emit_def)

lemma emit_listeners [simp]: "fh_listeners (emit e h) = fh_listeners h"
  by (simp add: emit_def)

lemma count_events_length:
  "count_events (Some ty) h = length (get_events_by_type ty h)"
  by (simp add: count_events_def get_events_by_type_def sum_list_triv)

end
