(* ===== verification/Fabric_Registry.thy ===== *)
theory Fabric_Registry
  imports Control_Objects
begin

text \<open>
  The registry in which domain packs register their kinds, rules and policies,
  \<^verbatim>\<open>app/core/registry/__init__.py\<close>, and the structural link policy of the graph,
  \<^verbatim>\<open>app/core/graph/policy.py\<close>. Registered callables are values of the model: a payload validator
  is a function from the payload to its error messages; validators and hooks, which the registry
  only stores, are of a type parameter.
\<close>

section \<open>Specifications\<close>

record object_kind_spec =
  ok_kind_name :: string
  ok_object_type :: control_object_type
  ok_allowed_planes :: "plane_type list"
  ok_domain :: string
  ok_description :: string
  ok_required_payload_fields :: "string list"
  ok_allowed_link_types :: "control_link_type list"
  ok_schema_version :: string

record link_policy_spec =
  lp_source_kind :: string
  lp_target_kind :: string
  lp_allowed_link_types :: "control_link_type list"
  lp_required_same_plane :: bool
  lp_required_cross_plane :: bool
  lp_max_links :: "int option"

record reconciliation_rule_spec =
  rr_rule_name :: string
  rr_domain :: string
  rr_description :: string
  rr_source_kind :: "string option"
  rr_target_kind :: "string option"
  rr_planes :: "plane_type list"
  rr_priority :: int

record action_policy_spec =
  ap_action_type :: string
  ap_domain :: string
  ap_description :: string
  ap_required_object_kinds :: "string list"
  ap_required_evidence_types :: "string list"
  ap_requires_approval :: bool
  ap_auto_release :: bool

type_synonym payload_validator = "(string, json) dict \<Rightarrow> fstr list"

record 'c fabric_registry =
  fr_object_kinds :: "(string, object_kind_spec) dict"
  fr_link_policies :: "link_policy_spec list"
  fr_reconciliation_rules :: "(string, reconciliation_rule_spec) dict"
  fr_action_policies :: "(string, action_policy_spec) dict"
  fr_validators :: "(string, 'c) dict"
  fr_payload_validators :: "(string, payload_validator) dict"
  fr_fabric_policy_hooks :: "(string, 'c list) dict"

definition new_registry :: "'c fabric_registry" where
  "new_registry =
     \<lparr>fr_object_kinds = [], fr_link_policies = [], fr_reconciliation_rules = [],
      fr_action_policies = [], fr_validators = [], fr_payload_validators = [],
      fr_fabric_policy_hooks = []\<rparr>"

section \<open>Operations of the registry\<close>

definition quoted :: "string \<Rightarrow> frag" where
  "quoted s = Lit ([CHR 0x27] @ s @ [CHR 0x27])"

definition register_object_kind ::
  "object_kind_spec \<Rightarrow> 'c fabric_registry \<Rightarrow> fabric_error + 'c fabric_registry" where
  "register_object_kind spec r =
     (if ok_kind_name spec \<in> set (dkeys (fr_object_kinds r))
      then Inl (DuplicateRegistrationError
             [Lit ''Object kind '', quoted (ok_kind_name spec), Lit '' already registered''])
      else Inr (r\<lparr>fr_object_kinds := dput (ok_kind_name spec) spec (fr_object_kinds r)\<rparr>))"

definition get_object_kind ::
  "string \<Rightarrow> 'c fabric_registry \<Rightarrow> fabric_error + object_kind_spec" where
  "get_object_kind kind_name r =
     (case dget (fr_object_kinds r) kind_name of
        None \<Rightarrow> Inl (UnknownObjectKindError [Lit ''Unknown object kind: '', Lit kind_name])
      | Some spec \<Rightarrow> Inr spec)"

definition has_object_kind :: "string \<Rightarrow> 'c fabric_registry \<Rightarrow> bool" where
  "has_object_kind kind_name r = (kind_name \<in> set (dkeys (fr_object_kinds r)))"

definition list_object_kinds :: "string option \<Rightarrow> 'c fabric_registry \<Rightarrow> object_kind_spec list" where
  "list_object_kinds domain r = filter_str domain ok_domain (dvalues (fr_object_kinds r))"

definition register_link_policy ::
  "link_policy_spec \<Rightarrow> 'c fabric_registry \<Rightarrow> 'c fabric_registry" where
  "register_link_policy policy r = r\<lparr>fr_link_policies := fr_link_policies r @ [policy]\<rparr>"

definition get_link_policies ::
  "string option \<Rightarrow> string option \<Rightarrow> 'c fabric_registry \<Rightarrow> link_policy_spec list" where
  "get_link_policies source_kind target_kind r =
     filter_str target_kind lp_target_kind
       (filter_str source_kind lp_source_kind (fr_link_policies r))"

definition register_reconciliation_rule ::
  "reconciliation_rule_spec \<Rightarrow> 'c fabric_registry \<Rightarrow> fabric_error + 'c fabric_registry" where
  "register_reconciliation_rule spec r =
     (if rr_rule_name spec \<in> set (dkeys (fr_reconciliation_rules r))
      then Inl (DuplicateRegistrationError
             [Lit ''Reconciliation rule '', quoted (rr_rule_name spec), Lit '' already registered''])
      else Inr (r\<lparr>fr_reconciliation_rules :=
                    dput (rr_rule_name spec) spec (fr_reconciliation_rules r)\<rparr>))"

text \<open>\<open>sorted(..., reverse=True)\<close> keeps the order of equal priorities, as the stable sort does.\<close>

definition get_reconciliation_rules ::
  "string option \<Rightarrow> 'c fabric_registry \<Rightarrow> reconciliation_rule_spec list" where
  "get_reconciliation_rules domain r =
     sort_key (\<lambda>s. - rr_priority s)
       (filter_str domain rr_domain (dvalues (fr_reconciliation_rules r)))"

definition register_action_policy ::
  "action_policy_spec \<Rightarrow> 'c fabric_registry \<Rightarrow> fabric_error + 'c fabric_registry" where
  "register_action_policy spec r =
     (if ap_action_type spec \<in> set (dkeys (fr_action_policies r))
      then Inl (DuplicateRegistrationError
             [Lit ''Action policy '', quoted (ap_action_type spec), Lit '' already registered''])
      else Inr (r\<lparr>fr_action_policies := dput (ap_action_type spec) spec (fr_action_policies r)\<rparr>))"

definition get_action_policy ::
  "string \<Rightarrow> 'c fabric_registry \<Rightarrow> action_policy_spec option" where
  "get_action_policy action_type r = dget (fr_action_policies r) action_type"

definition list_action_policies ::
  "string option \<Rightarrow> 'c fabric_registry \<Rightarrow> action_policy_spec list" where
  "list_action_policies domain r = filter_str domain ap_domain (dvalues (fr_action_policies r))"

definition register_validator :: "string \<Rightarrow> 'c \<Rightarrow> 'c fabric_registry \<Rightarrow> 'c fabric_registry" where
  "register_validator name fn r = r\<lparr>fr_validators := dput name fn (fr_validators r)\<rparr>"

definition get_validator :: "string \<Rightarrow> 'c fabric_registry \<Rightarrow> 'c option" where
  "get_validator name r = dget (fr_validators r) name"

definition register_payload_validator ::
  "string \<Rightarrow> payload_validator \<Rightarrow> 'c fabric_registry \<Rightarrow> 'c fabric_registry" where
  "register_payload_validator kind_name fn r =
     r\<lparr>fr_payload_validators := dput kind_name fn (fr_payload_validators r)\<rparr>"

definition validate_payload ::
  "string \<Rightarrow> (string, json) dict \<Rightarrow> 'c fabric_registry \<Rightarrow> fstr list" where
  "validate_payload kind_name payload r =
     (let errors = (case dget (fr_object_kinds r) kind_name of
                      None \<Rightarrow> []
                    | Some spec \<Rightarrow>
                        map (\<lambda>f. [Lit ''Missing required payload field: '', Lit f])
                          (filter (\<lambda>f. f \<notin> set (dkeys payload)) (ok_required_payload_fields spec)))
      in errors @ (case dget (fr_payload_validators r) kind_name of
                     None \<Rightarrow> [] | Some fn \<Rightarrow> fn payload))"

definition register_fabric_policy_hook ::
  "string \<Rightarrow> 'c \<Rightarrow> 'c fabric_registry \<Rightarrow> 'c fabric_registry" where
  "register_fabric_policy_hook kind_name fn r =
     (let hooks = (if kind_name \<in> set (dkeys (fr_fabric_policy_hooks r))
                   then fr_fabric_policy_hooks r
                   else dput kind_name [] (fr_fabric_policy_hooks r))
      in r\<lparr>fr_fabric_policy_hooks :=
             dput kind_name (dget_default hooks kind_name [] @ [fn]) hooks\<rparr>)"

definition get_fabric_policy_hooks :: "string \<Rightarrow> 'c fabric_registry \<Rightarrow> 'c list" where
  "get_fabric_policy_hooks kind_name r = dget_default (fr_fabric_policy_hooks r) kind_name []"

section \<open>Link policy\<close>

definition forbidden_self_links :: "control_link_type list" where
  "forbidden_self_links = [LT_CONTRADICTS, LT_SUPERCEDES]"

text \<open>The violations one registered policy adds for a proposed link.\<close>

definition link_policy_violations ::
  "control_link_create \<Rightarrow> control_object \<Rightarrow> control_object \<Rightarrow> link_policy_spec \<Rightarrow> fstr list" where
  "link_policy_violations create source target policy =
     (if lc_link_type create \<notin> set (lp_allowed_link_types policy)
      then [[Lit ''Link type '', Lit (link_type_value (lc_link_type create)),
             Lit '' not allowed between '', Lit (lp_source_kind policy), Lit '' and '',
             Lit (lp_target_kind policy)]] else [])
     @ (if lp_required_same_plane policy \<and> co_plane source \<noteq> co_plane target
        then [[Lit ''Link between '', Lit (lp_source_kind policy), Lit '' and '',
               Lit (lp_target_kind policy), Lit '' requires same plane'']] else [])
     @ (if lp_required_cross_plane policy \<and> co_plane source = co_plane target
        then [[Lit ''Link between '', Lit (lp_source_kind policy), Lit '' and '',
               Lit (lp_target_kind policy), Lit '' requires cross-plane'']] else [])"

definition validate_link ::
  "'c fabric_registry option \<Rightarrow> control_link_create \<Rightarrow> control_object \<Rightarrow> control_object
     \<Rightarrow> fstr list" where
  "validate_link registry create source target =
     (if lc_source_id create = lc_target_id create
      then [[Lit ''Self-links are not permitted'']]
      else
        (if lc_link_type create = LT_SUPERCEDES
         then (if co_object_type source \<noteq> co_object_type target
               then [[Lit ''SUPERCEDES link requires same object type: '',
                      Lit (object_type_value (co_object_type source)), Lit '' != '',
                      Lit (object_type_value (co_object_type target))]] else [])
              @ (if co_plane source \<noteq> co_plane target
                 then [[Lit ''SUPERCEDES link requires same plane'']] else [])
         else [])
        @ (if lc_link_type create = LT_BILLS_FOR
           then (if co_plane source \<noteq> COMMERCIAL
                 then [[Lit ''BILLS_FOR source must be in commercial plane'']] else [])
           else [])
        @ (if lc_link_type create = LT_FULFILLS
           then (if co_plane source = SERVICE \<and> co_plane target = FIELD
                 then [[Lit ''FULFILLS direction: service should not fulfill field '',
                        Lit ''(consider reversing source/target)'']] else [])
           else [])
        @ (case registry of
             None \<Rightarrow> []
           | Some r \<Rightarrow>
               if co_object_kind source \<noteq> [] \<and> co_object_kind target \<noteq> []
               then concat (map (link_policy_violations create source target)
                      (get_link_policies (Some (co_object_kind source))
                        (Some (co_object_kind target)) r))
               else []))"

fun join_fstr :: "string \<Rightarrow> fstr list \<Rightarrow> fstr" where
  "join_fstr sep [] = []"
| "join_fstr sep [x] = x"
| "join_fstr sep (x # xs) = x @ [Lit sep] @ join_fstr sep xs"

definition enforce_link ::
  "'c fabric_registry option \<Rightarrow> control_link_create \<Rightarrow> control_object \<Rightarrow> control_object
     \<Rightarrow> fabric_error + unit" where
  "enforce_link registry create source target =
     (let violations = validate_link registry create source target
      in if violations \<noteq> [] then Inl (InvalidLinkError (join_fstr ''; '' violations)) else Inr ())"

section \<open>Interfaces met by the registry, and the policy as a predicate\<close>

interpretation kinds: record_store "[]" dget dput dvalues dict_wf ok_kind_name
  by unfold_locales

interpretation rule_specs: record_store "[]" dget dput dvalues dict_wf rr_rule_name
  by unfold_locales

interpretation action_specs: record_store "[]" dget dput dvalues dict_wf ap_action_type
  by unfold_locales

text \<open>Well-formed registries: each table keeps its specifications under their own names.\<close>

definition registry_wf :: "'c fabric_registry \<Rightarrow> bool" where
  "registry_wf r \<longleftrightarrow>
     kinds.keyed (fr_object_kinds r) \<and> rule_specs.keyed (fr_reconciliation_rules r) \<and>
     action_specs.keyed (fr_action_policies r)"

lemma registry_wf_new: "registry_wf new_registry"
  by (simp add: registry_wf_def new_registry_def kinds.keyed_empty rule_specs.keyed_empty
      action_specs.keyed_empty)

lemma registry_wf_kind: "registry_wf r \<Longrightarrow> register_object_kind s r = Inr r' \<Longrightarrow> registry_wf r'"
  by (auto simp: register_object_kind_def registry_wf_def kinds.keyed_put split: if_splits)

lemma registry_wf_rule:
  "registry_wf r \<Longrightarrow> register_reconciliation_rule s r = Inr r' \<Longrightarrow> registry_wf r'"
  by (auto simp: register_reconciliation_rule_def registry_wf_def rule_specs.keyed_put
      split: if_splits)

lemma registry_wf_action: "registry_wf r \<Longrightarrow> register_action_policy s r = Inr r' \<Longrightarrow> registry_wf r'"
  by (auto simp: register_action_policy_def registry_wf_def action_specs.keyed_put split: if_splits)

text \<open>The links the policy accepts, stated without the messages.\<close>

definition link_permitted ::
  "'c fabric_registry option \<Rightarrow> control_link_create \<Rightarrow> control_object \<Rightarrow> control_object \<Rightarrow> bool" where
  "link_permitted registry create source target \<longleftrightarrow>
     lc_source_id create \<noteq> lc_target_id create \<and>
     (lc_link_type create = LT_SUPERCEDES \<longrightarrow>
        co_object_type source = co_object_type target \<and> co_plane source = co_plane target) \<and>
     (lc_link_type create = LT_BILLS_FOR \<longrightarrow> co_plane source = COMMERCIAL) \<and>
     (lc_link_type create = LT_FULFILLS \<longrightarrow> \<not> (co_plane source = SERVICE \<and> co_plane target = FIELD)) \<and>
     (\<forall>r. registry = Some r \<and> co_object_kind source \<noteq> [] \<and> co_object_kind target \<noteq> [] \<longrightarrow>
        (\<forall>p \<in> set (fr_link_policies r).
           lp_source_kind p = co_object_kind source \<and> lp_target_kind p = co_object_kind target \<longrightarrow>
           lc_link_type create \<in> set (lp_allowed_link_types p) \<and>
           (lp_required_same_plane p \<longrightarrow> co_plane source = co_plane target) \<and>
           (lp_required_cross_plane p \<longrightarrow> co_plane source \<noteq> co_plane target)))"

lemma link_policy_violations_Nil:
  "link_policy_violations c s t p = [] \<longleftrightarrow>
     lc_link_type c \<in> set (lp_allowed_link_types p) \<and>
     (lp_required_same_plane p \<longrightarrow> co_plane s = co_plane t) \<and>
     (lp_required_cross_plane p \<longrightarrow> co_plane s \<noteq> co_plane t)"
  by (simp add: link_policy_violations_def)

lemma validate_link_Nil: "validate_link reg c s t = [] \<longleftrightarrow> link_permitted reg c s t"
proof (cases reg)
  case None
  then show ?thesis
    by (auto simp: validate_link_def link_permitted_def)
next
  case (Some r)
  then show ?thesis
    by (auto simp: validate_link_def link_permitted_def get_link_policies_def
        link_policy_violations_Nil)
qed

lemma enforce_link_ok: "enforce_link reg c s t = Inr () \<longleftrightarrow> link_permitted reg c s t"
  by (simp add: enforce_link_def Let_def validate_link_Nil)

section \<open>Properties\<close>

text \<open>A link is accepted exactly when the policy permits it: it is no self-link, the fixed rules
  of its type hold (supersession within type and plane, billing from the commercial plane, no
  fulfilment of field by service), and every registered policy for the two kinds allows its type
  and its planes.\<close>

theorem enforce_link_permits:
  "enforce_link reg create source target = Inr () \<longleftrightarrow> link_permitted reg create source target"
  by (rule enforce_link_ok)

end
