(* ===== verification/Bfs.thy ===== *)
theory Bfs
  imports Prelude
begin

text \<open>
  Breadth-first search over paths, as a specification shared by the two graph stores of the
  program. A queue holds paths (non-empty node lists, the current node last); a node is marked
  when it is first pushed. The universe \<open>U\<close> bounds the nodes that can be pushed, which gives
  termination. The main results: a returned path is a walk from the start to the target within
  the depth limit, a walk within the limit is found whenever one exists, and no shorter walk
  exists.
\<close>

fun push :: "'n list \<Rightarrow> 'n list \<Rightarrow> 'n list list \<times> 'n list \<Rightarrow> 'n list list \<times> 'n list" where
  "push p [] s = s"
| "push p (n # ns) (q, v) =
     (if n \<in> set v then push p ns (q, v) else push p ns (q @ [p @ [n]], v @ [n]))"

abbreviation unseen :: "'n list \<Rightarrow> 'n list \<Rightarrow> nat" where
  "unseen U v \<equiv> length (filter (\<lambda>n. n \<notin> set v) U)"

lemma unseen_snoc: "n \<in> set U \<Longrightarrow> n \<notin> set v \<Longrightarrow> unseen U (v @ [n]) < unseen U v"
proof (induction U)
  case (Cons u U)
  have le: "unseen U (v @ [n]) \<le> unseen U v"
    by (induction U) auto
  show ?case
  proof (cases "n \<in> set U")
    case True
    with Cons show ?thesis by auto
  next
    case False
    with Cons.prems le show ?thesis by auto
  qed
qed simp

lemma push_measure:
  "set ns \<subseteq> set U \<Longrightarrow> push p ns (q, v) = (q', v') \<Longrightarrow>
     length q' + unseen U v' \<le> length q + unseen U v"
proof (induction ns arbitrary: q v)
  case (Cons n ns)
  show ?case
  proof (cases "n \<in> set v")
    case True
    with Cons show ?thesis by simp
  next
    case False
    then have "unseen U (v @ [n]) < unseen U v"
      using Cons.prems(1) by (intro unseen_snoc) auto
    with False Cons.IH [of "q @ [p @ [n]]" "v @ [n]"] Cons.prems show ?thesis
      by simp
  qed
qed simp

function bfs ::
  "('n \<Rightarrow> 'n list) \<Rightarrow> 'n list \<Rightarrow> 'n \<Rightarrow> int \<Rightarrow> 'n list list \<Rightarrow> 'n list \<Rightarrow> 'n list option" where
  "bfs nbrs U t d [] v = None"
| "bfs nbrs U t d (p # q) v =
     (if last p = t then Some p
      else if int (length p) > d then bfs nbrs U t d q v
      else let s = push p (filter (\<lambda>n. n \<in> set U) (nbrs (last p))) (q, v)
           in bfs nbrs U t d (fst s) (snd s))"
  by pat_completeness auto
termination
proof (relation "measure (\<lambda>(nbrs, U, t, d, q, v). length q + unseen U v)", goal_cases)
  case (3 nbrs U t d p q v s)
  then have "length (fst s) + unseen U (snd s) \<le> length q + unseen U v"
    by (intro push_measure [of _ U p]) auto
  then show ?case by (cases s) simp
qed auto

declare bfs.simps(2) [simp del]

section \<open>Walks\<close>

text \<open>The edges the search follows: neighbours inside the universe.\<close>

definition bedge :: "('n \<Rightarrow> 'n list) \<Rightarrow> 'n list \<Rightarrow> 'n \<Rightarrow> 'n \<Rightarrow> bool" where
  "bedge nbrs U x y \<longleftrightarrow> y \<in> set (nbrs x) \<and> y \<in> set U"

fun walk :: "('n \<Rightarrow> 'n \<Rightarrow> bool) \<Rightarrow> 'n list \<Rightarrow> bool" where
  "walk E [] = False"
| "walk E [x] = True"
| "walk E (x # y # p) = (E x y \<and> walk E (y # p))"

lemma walk_ne: "walk E p \<Longrightarrow> p \<noteq> []"
  by auto

lemma walk_snoc: "walk E p \<Longrightarrow> E (last p) y \<Longrightarrow> walk E (p @ [y])"
  by (induction E p rule: walk.induct) auto

lemma walk_nth: "walk E w \<Longrightarrow> Suc i < length w \<Longrightarrow> E (w ! i) (w ! Suc i)"
proof (induction E w arbitrary: i rule: walk.induct)
  case (3 E x y p)
  then show ?case by (cases i) auto
qed auto

section \<open>The invariant\<close>

text \<open>\<open>D\<close> collects the paths already taken off the queue.\<close>

definition bfs_inv ::
  "('n \<Rightarrow> 'n list) \<Rightarrow> 'n list \<Rightarrow> 'n \<Rightarrow> 'n \<Rightarrow> int \<Rightarrow> 'n list list \<Rightarrow> 'n list list \<Rightarrow> 'n list \<Rightarrow> bool" where
  "bfs_inv nbrs U s t d D q v \<longleftrightarrow>
     set v = last ` (set D \<union> set q) \<and>
     (\<forall>p \<in> set D \<union> set q. walk (bedge nbrs U) p \<and> hd p = s) \<and>
     (\<forall>p \<in> set D. last p \<noteq> t \<and>
        (int (length p) \<le> d \<longrightarrow>
          (\<forall>n. bedge nbrs U (last p) n \<longrightarrow>
             (\<exists>p' \<in> set D \<union> set q. last p' = n \<and> length p' \<le> Suc (length p))))) \<and>
     (\<forall>p \<in> set D. \<forall>p' \<in> set q. length p \<le> length p') \<and>
     sorted (map length q) \<and>
     (\<forall>p \<in> set D \<union> set q. int (length p) \<le> d + 1 \<or> length p \<le> 1) \<and>
     (\<exists>p \<in> set D \<union> set q. p = [s])"

definition queue_tight :: "nat \<Rightarrow> 'n list list \<Rightarrow> bool" where
  "queue_tight k q \<longleftrightarrow> (\<forall>p \<in> set q. k \<le> length p \<and> length p \<le> Suc k) \<and> sorted (map length q)"

lemma push_spec:
  assumes "push p ns (q, v) = (q', v')"
  shows "\<exists>new. q' = q @ map (\<lambda>n. p @ [n]) new \<and> v' = v @ new \<and> set new \<subseteq> set ns \<and>
           set ns \<subseteq> set v'"
  using assms
proof (induction ns arbitrary: q v)
  case (Cons n ns)
  show ?case
  proof (cases "n \<in> set v")
    case True
    with Cons show ?thesis by fastforce
  next
    case False
    with Cons.prems have "push p ns (q @ [p @ [n]], v @ [n]) = (q', v')" by simp
    from Cons.IH [OF this] obtain new where new:
      "q' = (q @ [p @ [n]]) @ map (\<lambda>n. p @ [n]) new" "v' = (v @ [n]) @ new"
      "set new \<subseteq> set ns" "set ns \<subseteq> set v'"
      by blast
    then have "q' = q @ map (\<lambda>n. p @ [n]) (n # new) \<and> v' = v @ (n # new) \<and>
        set (n # new) \<subseteq> set (n # ns) \<and> set (n # ns) \<subseteq> set v'"
      by auto
    then show ?thesis by blast
  qed
qed simp

lemma sorted_append_block:
  "sorted (map length q) \<Longrightarrow> \<forall>p \<in> set q. length p \<le> k \<Longrightarrow> \<forall>p \<in> set new. length p = k \<Longrightarrow>
     sorted (map length (q @ new))"
  by (induction new rule: rev_induct) (auto simp: sorted_append)

lemma bfs_inv_skip:
  assumes inv: "bfs_inv nbrs U s t d D (p # q) v" and "last p \<noteq> t" and "int (length p) > d"
  shows "bfs_inv nbrs U s t d (p # D) q v"
  using assms unfolding bfs_inv_def by (auto simp: image_Un)

lemma bfs_inv_expand:
  assumes inv: "bfs_inv nbrs U s t d D (p # q) v" and tight: "queue_tight (length p) (p # q)"
    and "last p \<noteq> t" and len: "\<not> int (length p) > d"
    and push: "push p (filter (\<lambda>n. n \<in> set U) (nbrs (last p))) (q, v) = (q', v')"
  shows "bfs_inv nbrs U s t d (p # D) q' v' \<and>
    (\<forall>x \<in> set q'. length p \<le> length x \<and> length x \<le> Suc (length p)) \<and> sorted (map length q')"
proof -
  let ?ns = "filter (\<lambda>n. n \<in> set U) (nbrs (last p))"
  from push_spec [OF push] obtain new where new:
    "q' = q @ map (\<lambda>n. p @ [n]) new" "v' = v @ new" "set new \<subseteq> set ?ns" "set ?ns \<subseteq> set v'"
    by blast
  have wp: "walk (bedge nbrs U) p" "hd p = s" "p \<noteq> []"
    using inv by (auto simp: bfs_inv_def dest: walk_ne)
  have edge: "bedge nbrs U (last p) n" if "n \<in> set new" for n
    using that new(3) by (auto simp: bedge_def)
  have sv: "set v = last ` (set D \<union> set (p # q))"
    using inv by (simp add: bfs_inv_def)
  have sv': "set v' = last ` (set (p # D) \<union> set q')"
    unfolding new using sv by (auto simp: image_Un image_iff)
  have walks: "\<forall>x \<in> set (p # D) \<union> set q'. walk (bedge nbrs U) x \<and> hd x = s"
    using inv wp edge unfolding new bfs_inv_def by (auto intro: walk_snoc)
  have qt: "\<forall>x \<in> set q. length p \<le> length x \<and> length x \<le> Suc (length p)" "sorted (map length q)"
    using tight by (auto simp: queue_tight_def)
  have tight': "\<forall>x \<in> set q'. length p \<le> length x \<and> length x \<le> Suc (length p)"
    using qt unfolding new by auto
  have sort': "sorted (map length q')"
    unfolding new by (rule sorted_append_block [where k = "Suc (length p)"]) (use qt in auto)
  have Dle: "\<forall>x \<in> set D. length x \<le> length p"
    using inv by (auto simp: bfs_inv_def)
  have expanded: "\<exists>p' \<in> set (p # D) \<union> set q'. last p' = n \<and> length p' \<le> Suc (length p)"
    if "bedge nbrs U (last p) n" for n
  proof -
    from that have "n \<in> set v'" using new(4) by (auto simp: bedge_def)
    then obtain p' where "p' \<in> set (p # D) \<union> set q'" "last p' = n"
      using sv' by auto
    then show ?thesis using Dle tight' by (force intro: bexI [of _ p'])
  qed
  have done_ok: "\<forall>x \<in> set (p # D). last x \<noteq> t \<and>
      (int (length x) \<le> d \<longrightarrow> (\<forall>n. bedge nbrs U (last x) n \<longrightarrow>
         (\<exists>p' \<in> set (p # D) \<union> set q'. last p' = n \<and> length p' \<le> Suc (length x))))"
  proof
    fix x assume x: "x \<in> set (p # D)"
    show "last x \<noteq> t \<and> (int (length x) \<le> d \<longrightarrow> (\<forall>n. bedge nbrs U (last x) n \<longrightarrow>
         (\<exists>p' \<in> set (p # D) \<union> set q'. last p' = n \<and> length p' \<le> Suc (length x))))"
    proof (cases "x = p")
      case True
      with expanded \<open>last p \<noteq> t\<close> show ?thesis by blast
    next
      case False
      with x have xD: "x \<in> set D" by simp
      have sub: "set D \<union> set (p # q) \<subseteq> set (p # D) \<union> set q'"
        unfolding new by auto
      from inv xD show ?thesis unfolding bfs_inv_def using sub by blast
    qed
  qed
  have bound: "\<forall>x \<in> set (p # D) \<union> set q'. int (length x) \<le> d + 1 \<or> length x \<le> 1"
    using inv len tight' unfolding bfs_inv_def by (auto; fastforce)
  have "bfs_inv nbrs U s t d (p # D) q' v'"
    unfolding bfs_inv_def
  proof (intro conjI)
    show "\<forall>x \<in> set (p # D). \<forall>p' \<in> set q'. length x \<le> length p'"
      using Dle tight' by (auto intro: le_trans)
    show "\<exists>x \<in> set (p # D) \<union> set q'. x = [s]"
      using inv unfolding new bfs_inv_def by auto
  qed (use sv' walks done_ok sort' bound in auto)
  with tight' sort' show ?thesis by blast
qed

section \<open>Correctness\<close>

lemma frontier_or_done:
  assumes inv: "bfs_inv nbrs U s t d D q v" and w: "walk (bedge nbrs U) w" "hd w = s"
    and len: "int (length w) \<le> d + 1" and i: "i < length w"
  shows "(\<exists>p \<in> set D. last p = w ! i \<and> length p \<le> Suc i) \<or>
         (\<exists>p \<in> set q. length p \<le> Suc i \<and> (\<exists>j \<le> i. last p = w ! j))"
  using i
proof (induction i)
  case 0
  obtain p where p: "p \<in> set D \<union> set q" "p = [s]" using inv by (auto simp: bfs_inv_def)
  moreover have "w ! 0 = s" using w walk_ne [OF w(1)] by (simp add: hd_conv_nth)
  ultimately show ?case
    by (metis One_nat_def Un_iff last.simps length_Cons list.size(3) order_refl)
next
  case (Suc i)
  then consider (dn) p where "p \<in> set D" "last p = w ! i" "length p \<le> Suc i"
    | (fr) p j where "p \<in> set q" "length p \<le> Suc i" "j \<le> i" "last p = w ! j"
    by auto
  then show ?case
  proof cases
    case dn
    have "int (length p) \<le> d" using dn(3) Suc.prems len by linarith
    moreover have "bedge nbrs U (last p) (w ! Suc i)"
      using walk_nth [OF w(1) Suc.prems] dn(2) by simp
    ultimately obtain p' where "p' \<in> set D \<union> set q" "last p' = w ! Suc i"
      "length p' \<le> Suc (length p)"
      using inv dn(1) unfolding bfs_inv_def by blast
    then show ?thesis using dn(3) by (metis Suc_le_mono UnE le_trans order_refl)
  next
    case fr
    then have "length p \<le> Suc (Suc i)" "j \<le> Suc i" by auto
    with fr show ?thesis by blast
  qed
qed

lemma walk_in_queue:
  assumes inv: "bfs_inv nbrs U s t d D q v" and w: "walk (bedge nbrs U) w" "hd w = s" "last w = t"
    and len: "int (length w) \<le> d + 1"
  shows "\<exists>p \<in> set q. length p \<le> length w"
proof -
  have ne: "w \<noteq> []" using w(1) by (rule walk_ne)
  let ?i = "length w - 1"
  have "w ! ?i = t" using w(3) ne by (simp add: last_conv_nth)
  moreover have "\<forall>p \<in> set D. last p \<noteq> t" using inv by (simp add: bfs_inv_def)
  ultimately show ?thesis
    using frontier_or_done [OF inv w(1,2) len, of ?i] ne by auto
qed

definition bfs_correct ::
  "('n \<Rightarrow> 'n list) \<Rightarrow> 'n list \<Rightarrow> 'n \<Rightarrow> 'n \<Rightarrow> int \<Rightarrow> 'n list option \<Rightarrow> bool" where
  "bfs_correct nbrs U s t d r \<longleftrightarrow>
     (case r of
        None \<Rightarrow> \<not> (\<exists>w. walk (bedge nbrs U) w \<and> hd w = s \<and> last w = t \<and> int (length w) \<le> d + 1)
      | Some p \<Rightarrow> walk (bedge nbrs U) p \<and> hd p = s \<and> last p = t \<and>
                  (int (length p) \<le> d + 1 \<or> length p \<le> 1) \<and>
                  (\<forall>w. walk (bedge nbrs U) w \<and> hd w = s \<and> last w = t \<longrightarrow> length p \<le> length w))"

lemma bfs_inv_correct:
  "bfs_inv nbrs U s t d D q v \<Longrightarrow> (q \<noteq> [] \<longrightarrow> queue_tight (length (hd q)) q) \<Longrightarrow>
     bfs_correct nbrs U s t d (bfs nbrs U t d q v)"
proof (induction nbrs U t d q v arbitrary: D rule: bfs.induct)
  case (1 nbrs U t d v)
  then show ?case
    using walk_in_queue [OF 1(1)] by (auto simp: bfs_correct_def)
next
  case (2 nbrs U t d p q v)
  have tight: "queue_tight (length p) (p # q)" using 2(4) by simp
  consider (found) "last p = t" | (skip) "last p \<noteq> t" "int (length p) > d"
    | (expand) "last p \<noteq> t" "\<not> int (length p) > d" by blast
  then show ?case
  proof cases
    case found
    have "length p \<le> length w"
      if w: "walk (bedge nbrs U) w" "hd w = s" "last w = t" for w
    proof (cases "int (length w) \<le> d + 1")
      case True
      obtain x where "x \<in> set (p # q)" "length x \<le> length w"
        using walk_in_queue [OF 2(3) w True] by blast
      moreover have "length p \<le> length x" if "x \<in> set (p # q)" for x
        using tight that by (auto simp: queue_tight_def)
      ultimately show ?thesis by (meson le_trans)
    next
      case False
      have "int (length p) \<le> d + 1 \<or> length p \<le> 1" using 2(3) by (simp add: bfs_inv_def)
      moreover have "1 \<le> length w" using walk_ne [OF w(1)] by (simp add: Suc_leI)
      ultimately show ?thesis using False by linarith
    qed
    with 2(3) found show ?thesis
      by (auto simp: bfs_correct_def bfs_inv_def bfs.simps(2))
  next
    case skip
    have "queue_tight (length (hd q)) q" if "q \<noteq> []"
      using tight that by (cases q) (auto simp: queue_tight_def)
    with 2(1) [OF skip bfs_inv_skip [OF 2(3) skip]] skip show ?thesis
      by (simp add: bfs.simps(2))
  next
    case expand
    let ?s = "push p (filter (\<lambda>n. n \<in> set U) (nbrs (last p))) (q, v)"
    obtain q' v' where s: "?s = (q', v')" by (cases ?s)
    from bfs_inv_expand [OF 2(3) tight expand s]
    have inv': "bfs_inv nbrs U s t d (p # D) q' v'"
      and t': "\<forall>x \<in> set q'. length p \<le> length x \<and> length x \<le> Suc (length p)"
      "sorted (map length q')" by auto
    have "queue_tight (length (hd q')) q'" if "q' \<noteq> []"
      using t' that by (cases q') (auto simp: queue_tight_def)
    with 2(2) [OF expand refl, of "p # D"] inv' s expand show ?thesis
      by (simp add: bfs.simps(2) Let_def)
  qed
qed

theorem bfs_from_start: "bfs_correct nbrs U s t d (bfs nbrs U t d [[s]] [s])"
  by (rule bfs_inv_correct [of _ _ _ _ _ "[]"]) (auto simp: bfs_inv_def queue_tight_def)

end
