(* ===== verification/Graph_Repo.thy ===== *)
theory Graph_Repo
  imports Bfs Control_Objects
begin

text \<open>
  The in-memory graph repository, \<^verbatim>\<open>app/core/graph/repository.py\<close>: two insertion-ordered
  dictionaries, the selections over them, the breadth-first \<open>find_path\<close> and the bounded subgraph
  extraction. Where the code iterates over a Python set, whose order is not specified, the model
  uses the order of insertion; the lemmas speak of the set.
\<close>

record graph_repo =
  gr_objects :: "(uuid, control_object) dict"
  gr_links :: "(uuid, control_link) dict"

definition new_repo :: graph_repo where
  "new_repo = \<lparr>gr_objects = [], gr_links = []\<rparr>"

definition store_object :: "control_object \<Rightarrow> graph_repo \<Rightarrow> graph_repo" where
  "store_object obj r = r\<lparr>gr_objects := dput (co_id obj) obj (gr_objects r)\<rparr>"

definition get_object :: "graph_repo \<Rightarrow> uuid \<Rightarrow> control_object option" where
  "get_object r object_id = dget (gr_objects r) object_id"

definition list_objects ::
  "graph_repo \<Rightarrow> uuid \<Rightarrow> plane_type option \<Rightarrow> string option \<Rightarrow> string option
     \<Rightarrow> control_state option \<Rightarrow> control_object list" where
  "list_objects r tenant_id plane domain object_kind state =
     (let results = filter (\<lambda>ob. co_tenant_id ob = tenant_id) (dvalues (gr_objects r));
          results = filter_opt plane co_plane results;
          results = filter_str domain co_domain results;
          results = filter_str object_kind co_object_kind results
      in filter_opt state co_state results)"

definition store_link :: "control_link \<Rightarrow> graph_repo \<Rightarrow> graph_repo" where
  "store_link link r = r\<lparr>gr_links := dput (cl_id link) link (gr_links r)\<rparr>"

definition get_link :: "graph_repo \<Rightarrow> uuid \<Rightarrow> control_link option" where
  "get_link r link_id = dget (gr_links r) link_id"

definition get_links_for_object ::
  "graph_repo \<Rightarrow> uuid \<Rightarrow> string \<Rightarrow> control_link_type option \<Rightarrow> control_link list" where
  "get_links_for_object r object_id direction link_type =
     filter (\<lambda>link.
       ((direction \<in> {''outgoing'', ''both''} \<and> cl_source_id link = object_id) \<or>
        (direction \<in> {''incoming'', ''both''} \<and> cl_target_id link = object_id)) \<and>
       (link_type = None \<or> link_type = Some (cl_link_type link)))
       (dvalues (gr_links r))"

definition get_all_links :: "graph_repo \<Rightarrow> uuid \<Rightarrow> control_link list" where
  "get_all_links r tenant_id = filter (\<lambda>l. cl_tenant_id l = tenant_id) (dvalues (gr_links r))"

text \<open>A set grown by \<open>add\<close>, kept in order of first insertion.\<close>

definition set_add :: "'a \<Rightarrow> 'a list \<Rightarrow> 'a list" where
  "set_add x xs = (if x \<in> set xs then xs else xs @ [x])"

definition get_neighbours ::
  "graph_repo \<Rightarrow> uuid \<Rightarrow> string \<Rightarrow> control_link_type option \<Rightarrow> control_object list" where
  "get_neighbours r object_id direction link_type =
     (let links = get_links_for_object r object_id direction link_type;
          ids = foldl (\<lambda>acc link.
            (let acc = (if cl_source_id link = object_id then set_add (cl_target_id link) acc else acc)
             in if cl_target_id link = object_id then set_add (cl_source_id link) acc else acc))
            [] links
      in List.map_filter (dget (gr_objects r)) ids)"

section \<open>Shortest paths\<close>

text \<open>The other end of a link at \<open>current\<close>, the source tried first.\<close>

definition link_neighbour :: "uuid \<Rightarrow> control_link \<Rightarrow> uuid option" where
  "link_neighbour current link =
     (if cl_source_id link = current then Some (cl_target_id link)
      else if cl_target_id link = current then Some (cl_source_id link)
      else None)"

text \<open>The loop over all links in the body of \<open>find_path\<close>.\<close>

fun fp_links ::
  "graph_repo \<Rightarrow> uuid \<Rightarrow> uuid list \<Rightarrow> control_link list
     \<Rightarrow> (uuid \<times> uuid list) list \<times> uuid list \<Rightarrow> (uuid \<times> uuid list) list \<times> uuid list" where
  "fp_links r current path [] s = s"
| "fp_links r current path (link # links) (queue, visited) =
     (case link_neighbour current link of
        None \<Rightarrow> fp_links r current path links (queue, visited)
      | Some neighbor \<Rightarrow>
          if neighbor \<notin> set visited \<and> neighbor \<in> set (dkeys (gr_objects r))
          then fp_links r current path links
                 (queue @ [(neighbor, path @ [neighbor])], visited @ [neighbor])
          else fp_links r current path links (queue, visited))"

lemma fp_links_measure:
  "length (fst (fp_links r c p ls s)) + unseen (dkeys (gr_objects r)) (snd (fp_links r c p ls s))
     \<le> length (fst s) + unseen (dkeys (gr_objects r)) (snd s)"
proof (induction r c p ls s rule: fp_links.induct)
  case (2 r c p l ls q v)
  show ?case
  proof (cases "link_neighbour c l")
    case None
    with 2(1) show ?thesis by simp
  next
    case (Some n)
    show ?thesis
    proof (cases "n \<notin> set v \<and> n \<in> set (dkeys (gr_objects r))")
      case True
      then have "unseen (dkeys (gr_objects r)) (v @ [n]) < unseen (dkeys (gr_objects r)) v"
        by (intro unseen_snoc) auto
      with 2(2) [OF Some True] Some True show ?thesis by simp
    next
      case False
      with 2(3) [OF Some] Some show ?thesis by auto
    qed
  qed
qed simp

function fp_loop ::
  "graph_repo \<Rightarrow> uuid \<Rightarrow> int \<Rightarrow> (uuid \<times> uuid list) list \<Rightarrow> uuid list \<Rightarrow> uuid list option" where
  "fp_loop r target_id max_depth [] visited = None"
| "fp_loop r target_id max_depth ((current, path) # queue) visited =
     (if current = target_id then Some path
      else if int (length path) > max_depth then fp_loop r target_id max_depth queue visited
      else let s = fp_links r current path (dvalues (gr_links r)) (queue, visited)
           in fp_loop r target_id max_depth (fst s) (snd s))"
  by pat_completeness auto
termination
proof (relation "measure (\<lambda>(r, t, d, q, v). length q + unseen (dkeys (gr_objects r)) v)", goal_cases)
  case (3 r t d c p q v s)
  obtain q' v' where s: "s = (q', v')" by (cases s)
  then have e: "fp_links r c p (dvalues (gr_links r)) (q, v) = (q', v')" using 3 by simp
  show ?case
    using fp_links_measure [of r c p "dvalues (gr_links r)" "(q, v)", unfolded e] by (simp add: s)
qed auto

declare fp_loop.simps(2) [simp del]

definition find_path :: "graph_repo \<Rightarrow> uuid \<Rightarrow> uuid \<Rightarrow> int \<Rightarrow> uuid list option" where
  "find_path r source_id target_id max_depth =
     (if source_id \<notin> set (dkeys (gr_objects r)) \<or> target_id \<notin> set (dkeys (gr_objects r)) then None
      else fp_loop r target_id max_depth [(source_id, [source_id])] [source_id])"

section \<open>Bounded subgraph\<close>

text \<open>The loop over all links in the body of \<open>get_graph_slice\<close>.\<close>

fun sl_links ::
  "graph_repo \<Rightarrow> uuid \<Rightarrow> nat \<Rightarrow> nat \<Rightarrow> plane_type list \<Rightarrow> control_link_type list \<Rightarrow> control_link list
     \<Rightarrow> (uuid \<times> nat) list \<times> uuid list \<times> control_link list
     \<Rightarrow> (uuid \<times> nat) list \<times> uuid list \<times> control_link list" where
  "sl_links r current depth max_depth planes types [] s = s"
| "sl_links r current depth max_depth planes types (link # links) (queue, visited, collected) =
     (case link_neighbour current link of
        None \<Rightarrow> sl_links r current depth max_depth planes types links (queue, visited, collected)
      | Some neighbor_id \<Rightarrow>
          if types \<noteq> [] \<and> cl_link_type link \<notin> set types
          then sl_links r current depth max_depth planes types links (queue, visited, collected)
          else (case dget (gr_objects r) neighbor_id of
              None \<Rightarrow>
                sl_links r current depth max_depth planes types links (queue, visited, collected)
            | Some neighbor \<Rightarrow>
                if planes \<noteq> [] \<and> co_plane neighbor \<notin> set planes
                then sl_links r current depth max_depth planes types links
                       (queue, visited, collected)
                else if neighbor_id \<notin> set visited \<and> depth + 1 \<le> max_depth
                then sl_links r current depth max_depth planes types links
                       (queue @ [(neighbor_id, depth + 1)], visited @ [neighbor_id],
                        collected @ [link])
                else sl_links r current depth max_depth planes types links
                       (queue, visited, collected @ [link])))"

lemma sl_links_measure:
  "sl_links r c dp m pl ty ls (q, v, k) = (q', v', k') \<Longrightarrow>
     length q' + unseen (dkeys (gr_objects r)) v' \<le> length q + unseen (dkeys (gr_objects r)) v"
proof (induction ls arbitrary: q v k)
  case (Cons l ls)
  show ?case
  proof (cases "\<exists>n. link_neighbour c l = Some n \<and> n \<notin> set v \<and> dget (gr_objects r) n \<noteq> None")
    case True
    then obtain n where n: "link_neighbour c l = Some n" "n \<notin> set v" "dget (gr_objects r) n \<noteq> None"
      by blast
    then have "n \<in> set (dkeys (gr_objects r))"
      using dget_None_iff by metis
    then have "unseen (dkeys (gr_objects r)) (v @ [n]) < unseen (dkeys (gr_objects r)) v"
      using n(2) by (intro unseen_snoc)
    with Cons n show ?thesis
      by (fastforce split: if_splits option.splits)
  next
    case False
    with Cons show ?thesis
      by (fastforce split: if_splits option.splits)
  qed
qed simp

function sl_loop ::
  "graph_repo \<Rightarrow> nat \<Rightarrow> plane_type list \<Rightarrow> control_link_type list
     \<Rightarrow> (uuid \<times> nat) list \<Rightarrow> uuid list \<Rightarrow> control_link list \<Rightarrow> uuid list \<times> control_link list" where
  "sl_loop r max_depth planes types [] visited collected = (visited, collected)"
| "sl_loop r max_depth planes types ((current, depth) # queue) visited collected =
     (let s = sl_links r current depth max_depth planes types (dvalues (gr_links r))
                (queue, visited, collected)
      in sl_loop r max_depth planes types (fst s) (fst (snd s)) (snd (snd s)))"
  by pat_completeness auto
termination
proof (relation "measure (\<lambda>(r, m, pl, ty, q, v, k). length q + unseen (dkeys (gr_objects r)) v)",
    goal_cases)
  case (2 r m pl ty c dp q v k s)
  obtain q' v' k' where s: "s = (q', v', k')" by (cases s)
  then have e: "sl_links r c dp m pl ty (dvalues (gr_links r)) (q, v, k) = (q', v', k')"
    using 2 by simp
  show ?case using sl_links_measure [OF e] by (simp add: s)
qed auto

declare sl_loop.simps(2) [simp del]

fun sl_roots ::
  "graph_repo \<Rightarrow> uuid list \<Rightarrow> (uuid \<times> nat) list \<times> uuid list \<Rightarrow> (uuid \<times> nat) list \<times> uuid list" where
  "sl_roots r [] s = s"
| "sl_roots r (rid # rids) (queue, visited) =
     (if rid \<in> set (dkeys (gr_objects r))
      then sl_roots r rids (queue @ [(rid, 0)], set_add rid visited)
      else sl_roots r rids (queue, visited))"

definition get_graph_slice ::
  "graph_repo \<Rightarrow> uuid list \<Rightarrow> nat \<Rightarrow> plane_type list \<Rightarrow> control_link_type list
     \<Rightarrow> control_object list \<times> control_link list" where
  "get_graph_slice r root_ids max_depth allowed_planes allowed_link_types =
     (let s = sl_roots r root_ids ([], []);
          res = sl_loop r max_depth allowed_planes allowed_link_types (fst s) (snd s) []
      in (List.map_filter (dget (gr_objects r)) (fst res), snd res))"

section \<open>Interfaces\<close>

interpretation objs: record_store "[]" dget dput dvalues dict_wf co_id
  by unfold_locales

interpretation links: record_store "[]" dget dput dvalues dict_wf cl_id
  by unfold_locales

definition repo_wf :: "graph_repo \<Rightarrow> bool" where
  "repo_wf r \<longleftrightarrow> objs.keyed (gr_objects r) \<and> links.keyed (gr_links r)"

lemma repo_wf_new [simp]: "repo_wf new_repo"
  by (simp add: repo_wf_def new_repo_def objs.keyed_empty links.keyed_empty)

lemma repo_wf_store_object [simp]: "repo_wf r \<Longrightarrow> repo_wf (store_object ob r)"
  by (simp add: repo_wf_def store_object_def objs.keyed_put)

lemma repo_wf_store_link [simp]: "repo_wf r \<Longrightarrow> repo_wf (store_link l r)"
  by (simp add: repo_wf_def store_link_def links.keyed_put)

lemma get_object_store [simp, store_simps]:
  "get_object (store_object ob r) i = (if i = co_id ob then Some ob else get_object r i)"
  "get_object (store_link l r) i = get_object r i"
  by (simp_all add: get_object_def store_object_def store_link_def)

lemma get_link_store [simp, store_simps]:
  "get_link (store_link l r) i = (if i = cl_id l then Some l else get_link r i)"
  "get_link (store_object ob r) i = get_link r i"
  by (simp_all add: get_link_def store_object_def store_link_def)

lemma get_object_id: "repo_wf r \<Longrightarrow> get_object r i = Some ob \<Longrightarrow> co_id ob = i"
  by (auto simp: repo_wf_def get_object_def objs.keyed_get_ident)

lemma set_list_objects:
  "repo_wf r \<Longrightarrow> set (list_objects r tn pl dm kd st) =
     {ob. get_object r (co_id ob) = Some ob \<and> co_tenant_id ob = tn \<and>
          (\<forall>p. pl = Some p \<longrightarrow> co_plane ob = p) \<and> (py_truthy dm \<longrightarrow> dm = Some (co_domain ob)) \<and>
          (py_truthy kd \<longrightarrow> kd = Some (co_object_kind ob)) \<and>
          (\<forall>s. st = Some s \<longrightarrow> co_state ob = s)}"
  using objs.keyed_vals [of "gr_objects r"]
  by (auto simp: list_objects_def repo_wf_def get_object_def Let_def simp del: set_map)

lemma set_get_links_for_object:
  "repo_wf r \<Longrightarrow> set (get_links_for_object r i ''both'' ty) =
     {l. get_link r (cl_id l) = Some l \<and> (cl_source_id l = i \<or> cl_target_id l = i) \<and>
         (\<forall>t. ty = Some t \<longrightarrow> cl_link_type l = t)}"
  using links.keyed_vals [of "gr_links r"]
  by (cases ty) (auto simp: get_links_for_object_def repo_wf_def get_link_def simp del: set_map)

section \<open>\<open>find_path\<close> is the breadth-first search\<close>

definition repo_nbrs :: "graph_repo \<Rightarrow> uuid \<Rightarrow> uuid list" where
  "repo_nbrs r x = List.map_filter (link_neighbour x) (dvalues (gr_links r))"

lemma fp_links_push:
  "map snd (fst (fp_links r c p ls (q, v))) =
     fst (push p (filter (\<lambda>n. n \<in> set (dkeys (gr_objects r))) (List.map_filter (link_neighbour c) ls))
       (map snd q, v)) \<and>
   snd (fp_links r c p ls (q, v)) =
     snd (push p (filter (\<lambda>n. n \<in> set (dkeys (gr_objects r))) (List.map_filter (link_neighbour c) ls))
       (map snd q, v))"
  by (induction ls arbitrary: q v) (simp_all add: List.map_filter_simps split: option.splits)

lemma fp_links_last:
  "\<forall>(x, w) \<in> set q. w \<noteq> [] \<and> last w = x \<Longrightarrow>
     \<forall>(x, w) \<in> set (fst (fp_links r c p ls (q, v))). w \<noteq> [] \<and> last w = x"
proof (induction ls arbitrary: q v)
  case (Cons l ls)
  show ?case
  proof (cases "\<exists>n. link_neighbour c l = Some n \<and> n \<notin> set v \<and> n \<in> set (dkeys (gr_objects r))")
    case True
    then obtain n where n: "link_neighbour c l = Some n" "n \<notin> set v"
      "n \<in> set (dkeys (gr_objects r))"
      by blast
    have "\<forall>(x, w) \<in> set (q @ [(n, p @ [n])]). w \<noteq> [] \<and> last w = x"
      using Cons.prems by auto
    from Cons.IH [OF this] n show ?thesis by simp
  next
    case False
    then have "fp_links r c p (l # ls) (q, v) = fp_links r c p ls (q, v)"
      by (auto split: option.splits)
    with Cons.IH [OF Cons.prems] show ?thesis by simp
  qed
qed simp

lemma fp_loop_bfs:
  "\<forall>(x, w) \<in> set q. w \<noteq> [] \<and> last w = x \<Longrightarrow>
     fp_loop r t d q v = bfs (repo_nbrs r) (dkeys (gr_objects r)) t d (map snd q) v"
proof (induction r t d q v rule: fp_loop.induct)
  case (2 r t d c p q v)
  have lp: "last p = c" "p \<noteq> []" using 2(3) by auto
  have rest: "\<forall>(x, w) \<in> set q. w \<noteq> [] \<and> last w = x" using 2(3) by auto
  let ?s = "fp_links r c p (dvalues (gr_links r)) (q, v)"
  have step: "fp_loop r t d (fst ?s) (snd ?s) =
      bfs (repo_nbrs r) (dkeys (gr_objects r)) t d (map snd (fst ?s)) (snd ?s)"
    if "c \<noteq> t" "\<not> int (length p) > d"
    using 2(2) [OF that refl fp_links_last [OF rest]] .
  have pushed: "(map snd (fst ?s), snd ?s) =
      push p (filter (\<lambda>n. n \<in> set (dkeys (gr_objects r))) (repo_nbrs r c)) (map snd q, v)"
    using fp_links_push [of r c p "dvalues (gr_links r)" q v]
    by (simp only: repo_nbrs_def prod_eq_iff fst_conv snd_conv)
  consider "c = t" | "c \<noteq> t" "int (length p) > d" | "c \<noteq> t" "\<not> int (length p) > d" by blast
  then show ?case
  proof cases
    case 1
    then show ?thesis using lp by (simp add: fp_loop.simps(2) bfs.simps(2))
  next
    case b: 2
    then show ?thesis using lp 2(1) [OF b rest] by (simp add: fp_loop.simps(2) bfs.simps(2))
  next
    case b: 3
    have "fp_loop r t d ((c, p) # q) v = fp_loop r t d (fst ?s) (snd ?s)"
      using b by (simp add: fp_loop.simps(2) Let_def)
    moreover have "bfs (repo_nbrs r) (dkeys (gr_objects r)) t d (p # map snd q) v =
        bfs (repo_nbrs r) (dkeys (gr_objects r)) t d (map snd (fst ?s)) (snd ?s)"
      using b by (simp only: bfs.simps(2) Let_def lp(1) pushed [symmetric] fst_conv snd_conv if_False)
    ultimately show ?thesis using step [OF b] by simp
  qed
qed simp

lemma find_path_bfs:
  assumes "s \<in> set (dkeys (gr_objects r))" and "t \<in> set (dkeys (gr_objects r))"
  shows "find_path r s t d = bfs (repo_nbrs r) (dkeys (gr_objects r)) t d [[s]] [s]"
  using assms fp_loop_bfs [of "[(s, [s])]" r t d "[s]"] by (simp add: find_path_def)

text \<open>The undirected adjacency of the stored graph.\<close>

definition adjacent :: "graph_repo \<Rightarrow> uuid \<Rightarrow> uuid \<Rightarrow> bool" where
  "adjacent r x y \<longleftrightarrow>
     get_object r y \<noteq> None \<and>
     (\<exists>l \<in> set (dvalues (gr_links r)).
        (cl_source_id l = x \<and> cl_target_id l = y) \<or> (cl_target_id l = x \<and> cl_source_id l = y))"

lemma bedge_repo:
  "bedge (repo_nbrs r) (dkeys (gr_objects r)) x y \<longleftrightarrow>
     get_object r y \<noteq> None \<and>
     (\<exists>l \<in> set (dvalues (gr_links r)).
        (cl_source_id l = x \<and> cl_target_id l = y) \<or>
        (cl_source_id l \<noteq> x \<and> cl_target_id l = x \<and> cl_source_id l = y))"
proof -
  have "y \<in> set (repo_nbrs r x) \<longleftrightarrow> (\<exists>l \<in> set (dvalues (gr_links r)). link_neighbour x l = Some y)"
    unfolding repo_nbrs_def by (rule set_map_filter_Some)
  also have "\<dots> \<longleftrightarrow> (\<exists>l \<in> set (dvalues (gr_links r)).
        (cl_source_id l = x \<and> cl_target_id l = y) \<or>
        (cl_source_id l \<noteq> x \<and> cl_target_id l = x \<and> cl_source_id l = y))"
    by (rule bex_cong [OF refl]) (auto simp: link_neighbour_def)
  finally show ?thesis
    using dget_None_iff [of "gr_objects r" y] unfolding bedge_def get_object_def by metis
qed

lemma bedge_is_adjacent: "bedge (repo_nbrs r) (dkeys (gr_objects r)) = adjacent r"
proof (intro ext)
  fix x y
  show "bedge (repo_nbrs r) (dkeys (gr_objects r)) x y = adjacent r x y"
    unfolding bedge_repo adjacent_def by metis
qed

section \<open>Properties\<close>

text \<open>C4: \<open>find_path\<close> returns a path exactly when both objects are stored and some walk along links
  (in either direction, through stored objects) of at most \<open>max_depth\<close> links joins them, or they
  are the same stored object; the path it returns is such a walk, and no walk is shorter. When
  either end is not stored it returns nothing, even when both ends are the same or a link joins
  them.\<close>

theorem find_path_shortest:
  "case find_path r s t d of
     None \<Rightarrow> {w. get_object r s \<noteq> None \<and> get_object r t \<noteq> None \<and> walk (adjacent r) w \<and>
       hd w = s \<and> last w = t \<and> (int (length w) \<le> d + 1 \<or> s = t)} = {}
   | Some p \<Rightarrow> get_object r s \<noteq> None \<and> get_object r t \<noteq> None \<and>
       walk (adjacent r) p \<and> hd p = s \<and> last p = t \<and>
       (int (length p) \<le> d + 1 \<or> length p = 1) \<and>
       {w. walk (adjacent r) w \<and> hd w = s \<and> last w = t} \<subseteq> {w. length p \<le> length w}"
proof (cases "get_object r s \<noteq> None \<and> get_object r t \<noteq> None")
  case True
  then have keys: "s \<in> set (dkeys (gr_objects r))" "t \<in> set (dkeys (gr_objects r))"
    by (auto simp: get_object_def dget_None_iff simp del: set_map)
  then have fp: "find_path r s t d = bfs (repo_nbrs r) (dkeys (gr_objects r)) t d [[s]] [s]"
    using find_path_bfs by blast
  note ok = bfs_from_start [of "repo_nbrs r" "dkeys (gr_objects r)" s t d, folded fp,
      unfolded bfs_correct_def bedge_is_adjacent]
  show ?thesis
  proof (cases "find_path r s t d")
    case None
    moreover have "s \<noteq> t"
      using None keys by (auto simp: find_path_def fp_loop.simps(2))
    ultimately show ?thesis using ok by (simp only: option.case) blast
  next
    case (Some p)
    then have p: "walk (adjacent r) p" "hd p = s" "last p = t"
      "int (length p) \<le> d + 1 \<or> length p \<le> 1"
      "\<forall>w. walk (adjacent r) w \<and> hd w = s \<and> last w = t \<longrightarrow> length p \<le> length w"
      using ok unfolding Some option.case by blast+
    moreover from p have "int (length p) \<le> d + 1 \<or> length p = 1"
      using walk_ne [OF p(1)] by (cases p) auto
    ultimately show ?thesis using True unfolding Some option.case by blast
  qed
next
  case False
  then show ?thesis
    by (auto simp: find_path_def get_object_def dget_None_iff simp del: set_map)
qed

end
