(* ===== verification/Layers.thy ===== *)
theory Layers
  imports Prelude
begin

text \<open>
  Layered search, the other discipline of the program's graph searches: a queue of nodes with their
  depth, a list of the nodes ever pushed, and a depth limit. The invariant is stated for an edge
  relation \<open>E\<close> and a set \<open>R\<close> of roots; a search that keeps it ends with exactly the nodes within
  the limit.
\<close>

inductive in_layer :: "('n \<Rightarrow> 'n \<Rightarrow> bool) \<Rightarrow> 'n set \<Rightarrow> nat \<Rightarrow> 'n \<Rightarrow> bool" for E R where
  layer_root: "x \<in> R \<Longrightarrow> in_layer E R 0 x"
| layer_next: "in_layer E R n x \<Longrightarrow> E x y \<Longrightarrow> in_layer E R (Suc n) y"

text \<open>\<open>D\<close> holds what was taken off the queue, in order.\<close>

definition layer_inv ::
  "('n \<Rightarrow> 'n \<Rightarrow> bool) \<Rightarrow> 'n set \<Rightarrow> nat \<Rightarrow> ('n \<times> nat) list \<Rightarrow> ('n \<times> nat) list \<Rightarrow> 'n set \<Rightarrow> bool" where
  "layer_inv E R m D q V \<longleftrightarrow>
     V = fst ` (set D \<union> set q) \<and>
     (\<forall>(x, dp) \<in> set D \<union> set q. in_layer E R dp x \<and> dp \<le> m) \<and>
     (\<forall>(x, dp) \<in> set D. Suc dp \<le> m \<longrightarrow> (\<forall>y. E x y \<longrightarrow> (\<exists>dy \<le> Suc dp. (y, dy) \<in> set D \<union> set q))) \<and>
     (\<forall>(x, dp) \<in> set D. \<forall>(y, dy) \<in> set q. dp \<le> dy) \<and>
     (\<forall>x \<in> R. (x, 0) \<in> set D \<union> set q)"

definition layer_tight :: "('n \<times> nat) list \<Rightarrow> bool" where
  "layer_tight q \<longleftrightarrow> sorted (map snd q) \<and> (\<forall>(x, dp) \<in> set q. dp \<le> Suc (snd (hd q)))"

lemma layer_invD:
  assumes inv: "layer_inv E R m D q V"
  shows layer_nodes: "V = fst ` (set D \<union> set q)"
    and layer_within: "(x, dx) \<in> set D \<union> set q \<Longrightarrow> in_layer E R dx x \<and> dx \<le> m"
    and layer_closed: "(x, dx) \<in> set D \<Longrightarrow> Suc dx \<le> m \<Longrightarrow> E x y \<Longrightarrow>
        \<exists>dy \<le> Suc dx. (y, dy) \<in> set D \<union> set q"
    and layer_order: "(x, dx) \<in> set D \<Longrightarrow> (y, dy) \<in> set q \<Longrightarrow> dx \<le> dy"
    and layer_roots: "x \<in> R \<Longrightarrow> (x, 0) \<in> set D \<union> set q"
proof -
  let ?A = "set D \<union> set q"
  have p1: "V = fst ` ?A"
    and p2: "\<forall>(x, dx) \<in> ?A. in_layer E R dx x \<and> dx \<le> m"
    and p3: "\<forall>(x, dx) \<in> set D. Suc dx \<le> m \<longrightarrow> (\<forall>y. E x y \<longrightarrow> (\<exists>dy \<le> Suc dx. (y, dy) \<in> ?A))"
    and p4: "\<forall>(x, dx) \<in> set D. \<forall>(y, dy) \<in> set q. dx \<le> dy"
    and p5: "\<forall>x \<in> R. (x, 0) \<in> ?A"
    using inv unfolding layer_inv_def by - (elim conjE, assumption)+
  show "V = fst ` ?A" by (rule p1)
  show "(x, dx) \<in> ?A \<Longrightarrow> in_layer E R dx x \<and> dx \<le> m"
    using bspec [OF p2, of "(x, dx)"] by simp
  show "(x, dx) \<in> set D \<Longrightarrow> Suc dx \<le> m \<Longrightarrow> E x y \<Longrightarrow> \<exists>dy \<le> Suc dx. (y, dy) \<in> ?A"
    using bspec [OF p3, of "(x, dx)"] by blast
  show "(x, dx) \<in> set D \<Longrightarrow> (y, dy) \<in> set q \<Longrightarrow> dx \<le> dy"
    using bspec [OF p4, of "(x, dx)"] by auto
  show "x \<in> R \<Longrightarrow> (x, 0) \<in> ?A"
    using p5 by blast
qed

lemma layer_in_nodes: "layer_inv E R m D q V \<Longrightarrow> (x, dx) \<in> set D \<union> set q \<Longrightarrow> x \<in> V"
  unfolding layer_inv_def by (metis fst_conv image_eqI)

text \<open>One round: \<open>c\<close> leaves the queue, its successors not seen before join it one layer further.\<close>

lemma layer_round:
  assumes inv: "layer_inv E R m D ((c, dp) # q) V" and tight: "layer_tight ((c, dp) # q)"
    and sound: "\<And>n. n \<in> set new \<Longrightarrow> Suc dp \<le> m \<and> E c n"
    and complete: "\<And>n. Suc dp \<le> m \<Longrightarrow> E c n \<Longrightarrow> n \<in> V \<union> set new"
  shows "layer_inv E R m (D @ [(c, dp)]) (q @ map (\<lambda>n. (n, Suc dp)) new) (V \<union> set new)"
    and "layer_tight (q @ map (\<lambda>n. (n, Suc dp)) new)"
proof -
  let ?D = "D @ [(c, dp)]" and ?q = "q @ map (\<lambda>n. (n, Suc dp)) new"
  have inv1: "V = fst ` (set D \<union> set ((c, dp) # q))" by (rule layer_nodes [OF inv])
  note inv2 = layer_within [OF inv] and inv3 = layer_closed [OF inv] and inv5 = layer_roots [OF inv]
  have inv4: "dx \<le> dp" if "(x, dx) \<in> set D" for x dx
    using layer_order [OF inv that, of c dp] by simp
  have sub: "set D \<union> set ((c, dp) # q) \<subseteq> set ?D \<union> set ?q" by auto
  have qd: "dp \<le> dy \<and> dy \<le> Suc dp" if "(y, dy) \<in> set q" for y dy
    using tight that by (force simp: layer_tight_def)
  have qd': "dp \<le> dy \<and> dy \<le> Suc dp" if "(y, dy) \<in> set ?q" for y dy
    using that qd by auto
  have nodes: "V \<union> set new = fst ` (set ?D \<union> set ?q)"
    using inv1 by (auto simp: image_Un image_image)
  have wc: "in_layer E R dp c" "dp \<le> m" using inv2 by auto
  have wn: "in_layer E R (Suc dp) n \<and> Suc dp \<le> m" if "n \<in> set new" for n
    using sound [OF that] wc(1) by (blast intro: layer_next)
  have within: "\<forall>(x, dx) \<in> set ?D \<union> set ?q. in_layer E R dx x \<and> dx \<le> m"
    using inv2 wn by auto
  have reached: "\<exists>dy \<le> Suc dp. (y, dy) \<in> set ?D \<union> set ?q" if m: "Suc dp \<le> m" and e: "E c y" for y
  proof -
    obtain dy where dy: "(y, dy) \<in> set ?D \<union> set ?q"
    proof -
      from complete [OF m e] obtain z where "z \<in> set ?D \<union> set ?q" "y = fst z"
        unfolding nodes by (rule imageE)
      then show thesis using that [of "snd z"] by simp
    qed
    then have "dy \<le> Suc dp" using inv4 [of y dy] qd' [of y dy] by auto
    with dy show ?thesis by blast
  qed
  have closed: "\<forall>(x, dx) \<in> set ?D. Suc dx \<le> m \<longrightarrow>
      (\<forall>y. E x y \<longrightarrow> (\<exists>dy \<le> Suc dx. (y, dy) \<in> set ?D \<union> set ?q))"
  proof (clarify)
    fix x dx y
    assume x: "(x, dx) \<in> set ?D" and m: "Suc dx \<le> m" and e: "E x y"
    show "\<exists>dy \<le> Suc dx. (y, dy) \<in> set ?D \<union> set ?q"
    proof (cases "(x, dx) = (c, dp)")
      case True
      with reached m e show ?thesis by simp
    next
      case False
      with x have "(x, dx) \<in> set D" by auto
      from inv3 [OF this m e] sub show ?thesis by blast
    qed
  qed
  have ord: "\<forall>(x, dx) \<in> set ?D. \<forall>(y, dy) \<in> set ?q. dx \<le> dy"
    using inv4 qd' by (fastforce intro: le_trans)
  have roots: "\<forall>x \<in> R. (x, 0) \<in> set ?D \<union> set ?q"
    using inv5 sub by blast
  show "layer_inv E R m ?D ?q (V \<union> set new)"
    unfolding layer_inv_def by (intro conjI nodes within closed ord roots)
  have "sorted (map snd ?q)"
    using tight qd unfolding layer_tight_def
    by (auto simp: sorted_append o_def) (fastforce simp: sorted_wrt_map)+
  moreover have "\<forall>(x, dx) \<in> set ?q. dx \<le> Suc (snd (hd ?q))"
  proof (cases ?q)
    case (Cons a as)
    obtain y dy where a: "a = (y, dy)" by (cases a)
    have "dp \<le> dy" using qd' [of y dy] Cons a by simp
    then show ?thesis using qd' Cons a by fastforce
  qed simp
  ultimately show "layer_tight ?q" by (simp add: layer_tight_def)
qed

lemma layer_start:
  "set xs = R \<Longrightarrow> layer_inv E R m [] (map (\<lambda>x. (x, 0)) xs) R"
  "layer_tight (map (\<lambda>x. (x, 0)) xs)"
  by (auto simp: layer_inv_def image_image layer_tight_def o_def sorted_wrt_map sorted_wrt_true
      intro: layer_root)

lemma layer_reached:
  assumes inv: "layer_inv E R m D [] V" and "in_layer E R n x" and "n \<le> m"
  shows "\<exists>dx \<le> n. (x, dx) \<in> set D"
  using assms(2,3)
proof (induction rule: in_layer.induct)
  case (layer_root x)
  then show ?case using layer_roots [OF inv] by auto
next
  case (layer_next n x y)
  then obtain dx where dx: "dx \<le> n" "(x, dx) \<in> set D" by auto
  then have "Suc dx \<le> m" using layer_next.prems by simp
  then obtain dy where "dy \<le> Suc dx" "(y, dy) \<in> set D"
    using layer_closed [OF inv dx(2) _ layer_next.hyps(2)] by auto
  then show ?case using dx(1) by (meson Suc_le_mono le_trans)
qed

lemma layer_end:
  assumes inv: "layer_inv E R m D [] V"
  shows "V = {x. \<exists>n \<le> m. in_layer E R n x}"
proof (intro equalityI subsetI)
  fix x assume "x \<in> V"
  then obtain dx where "(x, dx) \<in> set D \<union> set []"
    using layer_nodes [OF inv] by auto
  from layer_within [OF inv this] show "x \<in> {x. \<exists>n \<le> m. in_layer E R n x}" by auto
next
  fix x assume "x \<in> {x. \<exists>n \<le> m. in_layer E R n x}"
  then obtain n where "n \<le> m" "in_layer E R n x" by blast
  from layer_reached [OF inv this(2,1)] show "x \<in> V" using layer_nodes [OF inv] by force
qed

text \<open>The nodes the search expanded, those taken off the queue above the limit.\<close>

lemma layer_expanded:
  assumes inv: "layer_inv E R m D [] V"
  shows "{x. \<exists>dx. (x, dx) \<in> set D \<and> dx < m} = {x. \<exists>n < m. in_layer E R n x}"
proof (intro equalityI subsetI)
  fix x assume "x \<in> {x. \<exists>dx. (x, dx) \<in> set D \<and> dx < m}"
  then obtain dx where d: "(x, dx) \<in> set D" "dx < m" by blast
  then have "(x, dx) \<in> set D \<union> set []" by simp
  from layer_within [OF inv this] d(2) show "x \<in> {x. \<exists>n < m. in_layer E R n x}" by blast
next
  fix x assume "x \<in> {x. \<exists>n < m. in_layer E R n x}"
  then obtain n where n: "n < m" "in_layer E R n x" by blast
  from layer_reached [OF inv n(2)] n(1) obtain dx where "dx \<le> n" "(x, dx) \<in> set D" by auto
  with n(1) show "x \<in> {x. \<exists>dx. (x, dx) \<in> set D \<and> dx < m}" by auto
qed

end
