(* ===== verification/Graph_Slice.thy ===== *)
theory Graph_Slice
  imports Graph_Repo Layers
begin

text \<open>
  Correctness of the bounded subgraph extraction \<open>get_graph_slice\<close>: the objects it returns are
  exactly those within \<open>max_depth\<close> admissible steps of a stored root, and the links it
  collects are, node by node in the order of the search, the admissible links of that node.
\<close>

text \<open>A link the search may follow from \<open>c\<close>, and the step it gives.\<close>

definition admissible ::
  "graph_repo \<Rightarrow> plane_type list \<Rightarrow> control_link_type list \<Rightarrow> uuid \<Rightarrow> control_link \<Rightarrow> bool" where
  "admissible r planes types c l =
     (case link_neighbour c l of
        None \<Rightarrow> False
      | Some n \<Rightarrow> (types = [] \<or> cl_link_type l \<in> set types) \<and>
          (case get_object r n of None \<Rightarrow> False
           | Some ob \<Rightarrow> planes = [] \<or> co_plane ob \<in> set planes))"

definition slice_edge ::
  "graph_repo \<Rightarrow> plane_type list \<Rightarrow> control_link_type list \<Rightarrow> uuid \<Rightarrow> uuid \<Rightarrow> bool" where
  "slice_edge r planes types x y \<longleftrightarrow>
     (\<exists>l \<in> set (dvalues (gr_links r)). admissible r planes types x l \<and> link_neighbour x l = Some y)"

text \<open>The objects \<open>n\<close> admissible steps away from a stored root.\<close>

definition stored_roots :: "graph_repo \<Rightarrow> uuid list \<Rightarrow> uuid set" where
  "stored_roots r roots = {x \<in> set roots. get_object r x \<noteq> None}"

definition in_steps ::
  "graph_repo \<Rightarrow> plane_type list \<Rightarrow> control_link_type list \<Rightarrow> uuid list \<Rightarrow> nat \<Rightarrow> uuid \<Rightarrow> bool" where
  "in_steps r planes types roots = in_layer (slice_edge r planes types) (stored_roots r roots)"

lemma sl_links_spec:
  "sl_links r c dp m pl ty ls (q, v, k) = (q', v', k') \<Longrightarrow>
     \<exists>new. q' = q @ map (\<lambda>n. (n, Suc dp)) new \<and> v' = v @ new \<and>
       k' = k @ filter (admissible r pl ty c) ls \<and>
       (\<forall>n \<in> set new. Suc dp \<le> m \<and>
          (\<exists>l \<in> set ls. admissible r pl ty c l \<and> link_neighbour c l = Some n)) \<and>
       (Suc dp \<le> m \<longrightarrow> (\<forall>l \<in> set ls. \<forall>n. admissible r pl ty c l \<and> link_neighbour c l = Some n \<longrightarrow>
          n \<in> set v'))"
proof (induction ls arbitrary: q v k)
  case (Cons l ls)
  show ?case
  proof (cases "admissible r pl ty c l")
    case False
    then have "sl_links r c dp m pl ty (l # ls) (q, v, k) = sl_links r c dp m pl ty ls (q, v, k)"
      by (auto simp: admissible_def get_object_def split: option.splits)
    with Cons.prems have "sl_links r c dp m pl ty ls (q, v, k) = (q', v', k')" by simp
    from Cons.IH [OF this] False show ?thesis by auto
  next
    case True
    then obtain n ob where n: "link_neighbour c l = Some n" "dget (gr_objects r) n = Some ob"
      "ty = [] \<or> cl_link_type l \<in> set ty" "pl = [] \<or> co_plane ob \<in> set pl"
      by (auto simp: admissible_def get_object_def split: option.splits)
    show ?thesis
    proof (cases "n \<notin> set v \<and> Suc dp \<le> m")
      case True2: True
      with n Cons.prems have
        "sl_links r c dp m pl ty ls (q @ [(n, Suc dp)], v @ [n], k @ [l]) = (q', v', k')"
        by auto
      from Cons.IH [OF this] obtain new where new:
        "q' = (q @ [(n, Suc dp)]) @ map (\<lambda>n. (n, Suc dp)) new" "v' = (v @ [n]) @ new"
        "k' = (k @ [l]) @ filter (admissible r pl ty c) ls"
        "\<forall>n \<in> set new. Suc dp \<le> m \<and>
          (\<exists>l \<in> set ls. admissible r pl ty c l \<and> link_neighbour c l = Some n)"
        "Suc dp \<le> m \<longrightarrow> (\<forall>l \<in> set ls. \<forall>n. admissible r pl ty c l \<and> link_neighbour c l = Some n \<longrightarrow>
          n \<in> set v')"
        by blast
      show ?thesis
        by (rule exI [of _ "n # new"]) (use new True True2 n(1) in auto)
    next
      case False
      with n Cons.prems have "sl_links r c dp m pl ty ls (q, v, k @ [l]) = (q', v', k')"
        by auto
      from Cons.IH [OF this] obtain new where new:
        "q' = q @ map (\<lambda>n. (n, Suc dp)) new" "v' = v @ new"
        "k' = (k @ [l]) @ filter (admissible r pl ty c) ls"
        "\<forall>n \<in> set new. Suc dp \<le> m \<and>
          (\<exists>l \<in> set ls. admissible r pl ty c l \<and> link_neighbour c l = Some n)"
        "Suc dp \<le> m \<longrightarrow> (\<forall>l \<in> set ls. \<forall>n. admissible r pl ty c l \<and> link_neighbour c l = Some n \<longrightarrow>
          n \<in> set v')"
        by blast
      show ?thesis
        by (rule exI [of _ new]) (use new True False n(1) in auto)
    qed
  qed
qed simp

section \<open>The invariant of the search\<close>

text \<open>The layers of the search, and the links collected at each node taken off the queue.\<close>

definition slice_inv ::
  "graph_repo \<Rightarrow> nat \<Rightarrow> plane_type list \<Rightarrow> control_link_type list \<Rightarrow> uuid list
     \<Rightarrow> (uuid \<times> nat) list \<Rightarrow> (uuid \<times> nat) list \<Rightarrow> uuid list \<Rightarrow> control_link list \<Rightarrow> bool" where
  "slice_inv r m pl ty roots D q v k \<longleftrightarrow>
     layer_inv (slice_edge r pl ty) (stored_roots r roots) m D q (set v) \<and>
     k = concat (map (\<lambda>(c, dp). filter (admissible r pl ty c) (dvalues (gr_links r))) D)"

lemma slice_inv_step:
  assumes inv: "slice_inv r m pl ty roots D ((c, dp) # q) v k" and tight: "layer_tight ((c, dp) # q)"
    and links: "sl_links r c dp m pl ty (dvalues (gr_links r)) (q, v, k) = (q', v', k')"
  shows "slice_inv r m pl ty roots (D @ [(c, dp)]) q' v' k' \<and> layer_tight q'"
proof -
  from sl_links_spec [OF links] obtain new where new:
    "q' = q @ map (\<lambda>n. (n, Suc dp)) new" "v' = v @ new"
    "k' = k @ filter (admissible r pl ty c) (dvalues (gr_links r))"
    "\<And>n. n \<in> set new \<Longrightarrow> Suc dp \<le> m \<and> slice_edge r pl ty c n"
    "\<And>n. Suc dp \<le> m \<Longrightarrow> slice_edge r pl ty c n \<Longrightarrow> n \<in> set v'"
    unfolding slice_edge_def by blast
  have seen: "n \<in> set v \<union> set new" if "Suc dp \<le> m" "slice_edge r pl ty c n" for n
    using new(5) [OF that] by (simp add: new(2))
  note layers = inv [unfolded slice_inv_def, THEN conjunct1]
  show ?thesis
    using layer_round [OF layers tight new(4) seen] inv
    unfolding slice_inv_def new(1,2,3) by simp
qed

text \<open>What the search leaves behind.\<close>

definition slice_correct ::
  "graph_repo \<Rightarrow> nat \<Rightarrow> plane_type list \<Rightarrow> control_link_type list \<Rightarrow> uuid list
     \<Rightarrow> uuid list \<times> control_link list \<Rightarrow> bool" where
  "slice_correct r m pl ty roots res \<longleftrightarrow>
     set (fst res) = {x. \<exists>n \<le> m. in_steps r pl ty roots n x} \<and>
     (\<exists>D. set (fst res) = set D \<and>
        snd res = concat (map (\<lambda>c. filter (admissible r pl ty c) (dvalues (gr_links r))) D))"

lemma slice_done:
  assumes inv: "slice_inv r m pl ty roots D [] v k"
  shows "slice_correct r m pl ty roots (v, k)"
proof -
  note layers = inv [unfolded slice_inv_def, THEN conjunct1]
  have k: "k = concat (map (\<lambda>c. filter (admissible r pl ty c) (dvalues (gr_links r))) (map fst D))"
    using inv by (simp add: slice_inv_def o_def case_prod_unfold)
  have "set v = set (map fst D)" using layer_nodes [OF layers] by simp
  with layer_end [OF layers] k show ?thesis
    unfolding slice_correct_def in_steps_def fst_conv snd_conv by blast
qed

lemma sl_loop_correct:
  "slice_inv r m pl ty roots D q v k \<Longrightarrow> layer_tight q \<Longrightarrow>
     slice_correct r m pl ty roots (sl_loop r m pl ty q v k)"
proof (induction r m pl ty q v k arbitrary: D rule: sl_loop.induct)
  case (1 r m pl ty v k)
  then show ?case by (simp add: slice_done)
next
  case (2 r m pl ty c dp q v k)
  obtain q' v' k' where s:
    "sl_links r c dp m pl ty (dvalues (gr_links r)) (q, v, k) = (q', v', k')"
    by (metis prod_cases3)
  from slice_inv_step [OF 2(2,3) s]
  have "slice_correct r m pl ty roots (sl_loop r m pl ty q' v' k')"
    using 2(1) [OF refl, unfolded s fst_conv snd_conv] by blast
  then show ?case by (simp add: sl_loop.simps(2) s)
qed

lemma sl_roots_spec:
  "sl_roots r rs (q, v) = (q', v') \<Longrightarrow>
     q' = q @ map (\<lambda>x. (x, 0)) (filter (\<lambda>x. get_object r x \<noteq> None) rs) \<and>
     set v' = set v \<union> {x \<in> set rs. get_object r x \<noteq> None}"
proof (induction rs arbitrary: q v)
  case (Cons x rs)
  show ?case
  proof (cases "get_object r x = None")
    case True
    with Cons show ?thesis
      by (auto simp: get_object_def dget_None_iff)
  next
    case False
    then have "x \<in> set (dkeys (gr_objects r))"
      by (metis dget_None_iff get_object_def)
    with False Cons.prems Cons.IH [of "q @ [(x, 0)]" "set_add x v"] show ?thesis
      by (auto simp: set_add_def)
  qed
qed simp

theorem get_graph_slice_correct:
  "slice_correct r m pl ty roots
     (let s = sl_roots r roots ([], []) in sl_loop r m pl ty (fst s) (snd s) [])"
proof -
  obtain q v where s: "sl_roots r roots ([], []) = (q, v)" by (cases "sl_roots r roots ([], [])")
  from sl_roots_spec [OF s] have
    q: "q = map (\<lambda>x. (x, 0)) (filter (\<lambda>x. get_object r x \<noteq> None) roots)"
    and v: "set v = {x \<in> set roots. get_object r x \<noteq> None}" by auto
  have R: "set (filter (\<lambda>x. get_object r x \<noteq> None) roots) = stored_roots r roots"
    by (auto simp: stored_roots_def)
  have "set v = stored_roots r roots" using v by (simp add: stored_roots_def)
  with layer_start(1) [OF R, of _ m] layer_start(2) have "slice_inv r m pl ty roots [] q v []" "layer_tight q"
    by (simp_all add: slice_inv_def q)
  then show ?thesis
    by (simp add: s sl_loop_correct)
qed

lemma map_filter_dget:
  "set (List.map_filter (dget (gr_objects r)) ids) = {ob. \<exists>i \<in> set ids. get_object r i = Some ob}"
  by (auto simp: set_map_filter_Some get_object_def)

section \<open>Properties\<close>

text \<open>C5: The subgraph around some roots holds exactly the stored objects that lie within
  \<open>max_depth\<close> admissible links of a stored root: none is missing, none is further away, and a
  link or an object outside the allowed types and planes is never crossed.\<close>

theorem graph_slice_exact:
  "set (fst (get_graph_slice r roots m pl ty)) =
     {ob. \<exists>i n. n \<le> m \<and> in_steps r pl ty roots n i \<and> get_object r i = Some ob}"
proof -
  let ?res = "let s = sl_roots r roots ([], []) in sl_loop r m pl ty (fst s) (snd s) []"
  have "set (fst ?res) = {x. \<exists>n \<le> m. in_steps r pl ty roots n x}"
    using get_graph_slice_correct [of r m pl ty roots] by (simp only: slice_correct_def)
  moreover have "fst (get_graph_slice r roots m pl ty) = List.map_filter (dget (gr_objects r)) (fst ?res)"
    by (simp add: get_graph_slice_def Let_def)
  ultimately show ?thesis
    unfolding get_graph_slice_def by (auto simp: map_filter_dget)
qed

end
