(* ===== verification/Graph_Consistency.thy ===== *)
theory Graph_Consistency
  imports Control_Objects
begin

text \<open>
  The structural consistency checker, \<^verbatim>\<open>app/core/graph/consistency.py\<close>. The six checks append
  their issues in the order of the source. The contradiction pairs are kept as the pair of ends
  seen first (the code keys them by a \<open>frozenset\<close>, whose element order is not specified); a
  contradiction of an object with itself gives a one-element set, on which \<open>ids[1]\<close> raises, and
  the check then returns no report.
\<close>

datatype index_error = IndexError

record consistency_issue =
  ci_issue_type :: string
  ci_severity :: string
  ci_object_id :: "uuid option"
  ci_link_id :: "uuid option"
  ci_description :: fstr
  ci_details :: "(string, json) dict"

definition issue :: "string \<Rightarrow> string \<Rightarrow> fstr \<Rightarrow> consistency_issue" where
  "issue ty sev desc =
     \<lparr>ci_issue_type = ty, ci_severity = sev, ci_object_id = None, ci_link_id = None,
      ci_description = desc, ci_details = []\<rparr>"

record consistency_report =
  cr_total_objects :: nat
  cr_total_links :: nat
  cr_issues :: "consistency_issue list"
  cr_is_consistent :: bool

definition error_count :: "consistency_report \<Rightarrow> nat" where
  "error_count rep =
     length (filter (\<lambda>i. ci_severity i \<in> {''error'', ''critical''}) (cr_issues rep))"

definition warning_count :: "consistency_report \<Rightarrow> nat" where
  "warning_count rep = length (filter (\<lambda>i. ci_severity i = ''warning'') (cr_issues rep))"

text \<open>1. Dangling links.\<close>

definition dangling_issues :: "control_object list \<Rightarrow> control_link \<Rightarrow> consistency_issue list" where
  "dangling_issues objects link =
     (let obj_ids = map co_id objects
      in (if cl_source_id link \<notin> set obj_ids
          then [(issue ''dangling_link_source'' ''error''
                  [Lit ''Link source '', Lit (cl_source_id link), Lit '' not found in graph''])
                \<lparr>ci_link_id := Some (cl_id link)\<rparr>] else [])
         @ (if cl_target_id link \<notin> set obj_ids
            then [(issue ''dangling_link_target'' ''error''
                    [Lit ''Link target '', Lit (cl_target_id link), Lit '' not found in graph''])
                  \<lparr>ci_link_id := Some (cl_id link)\<rparr>] else []))"

text \<open>2. Contradictory link sets.\<close>

definition same_pair :: "uuid \<times> uuid \<Rightarrow> uuid \<times> uuid \<Rightarrow> bool" where
  "same_pair p q \<longleftrightarrow> p = q \<or> p = (snd q, fst q)"

fun bump_pair ::
  "uuid \<times> uuid \<Rightarrow> ((uuid \<times> uuid) \<times> nat) list \<Rightarrow> ((uuid \<times> uuid) \<times> nat) list" where
  "bump_pair p [] = [(p, 1)]"
| "bump_pair p ((q, n) # d) = (if same_pair p q then (q, Suc n) # d else (q, n) # bump_pair p d)"

definition contradiction_pairs :: "control_link list \<Rightarrow> ((uuid \<times> uuid) \<times> nat) list" where
  "contradiction_pairs links =
     foldl (\<lambda>d l. bump_pair (cl_source_id l, cl_target_id l) d) []
       (filter (\<lambda>l. cl_link_type l = LT_CONTRADICTS) links)"

definition contradiction_issue ::
  "(uuid \<times> uuid) \<times> nat \<Rightarrow> index_error + consistency_issue" where
  "contradiction_issue e =
     (case e of ((a, b), n) \<Rightarrow>
        if a = b then Inl IndexError
        else Inr ((issue ''contradiction_detected'' ''warning''
               [Lit ''Contradiction between '', Lit a, Lit '' and '', Lit b, Lit '' ('',
                NumI (int n), Lit '' link(s))''])
             \<lparr>ci_details := [(''object_ids'', JList [JStr a, JStr b])]\<rparr>))"

fun collect_results :: "('e + 'a) list \<Rightarrow> 'e + 'a list" where
  "collect_results [] = Inr []"
| "collect_results (Inl e # xs) = Inl e"
| "collect_results (Inr x # xs) =
     (case collect_results xs of Inl e \<Rightarrow> Inl e | Inr ys \<Rightarrow> Inr (x # ys))"

text \<open>3. Billable events without a \<open>BILLS_FOR\<close> link.\<close>

definition billing_issues :: "control_link list \<Rightarrow> control_object \<Rightarrow> consistency_issue list" where
  "billing_issues links obj =
     (if co_object_type obj = OT_BILLABLE_EVENT \<and>
         \<not> list_ex (\<lambda>l. cl_source_id l = co_id obj \<and> cl_link_type l = LT_BILLS_FOR) links
      then [(issue ''missing_expected_link'' ''warning''
              [Lit ''Billable event '', Lit [CHR 0x27], Lit (co_label obj), Lit [CHR 0x27],
               Lit '' has no BILLS_FOR link''])
            \<lparr>ci_object_id := Some (co_id obj)\<rparr>]
      else [])"

text \<open>4. Orphaned objects.\<close>

definition orphan_issues :: "control_link list \<Rightarrow> control_object \<Rightarrow> consistency_issue list" where
  "orphan_issues links obj =
     (let linked_ids = concat (map (\<lambda>l. [cl_source_id l, cl_target_id l]) links)
      in if co_id obj \<notin> set linked_ids
         then [(issue ''orphaned_object'' ''info''
                 [Lit ''Object '', Lit [CHR 0x27], Lit (co_label obj), Lit [CHR 0x27],
                  Lit '' has no links''])
               \<lparr>ci_object_id := Some (co_id obj)\<rparr>]
         else [])"

text \<open>5. Superseded objects still referenced by an active object.\<close>

definition obj_map :: "control_object list \<Rightarrow> (uuid, control_object) dict" where
  "obj_map objects = foldl (\<lambda>d ob. dput (co_id ob) ob d) [] objects"

definition stale_issues ::
  "control_object list \<Rightarrow> control_link list \<Rightarrow> control_object \<Rightarrow> consistency_issue list" where
  "stale_issues objects links obj =
     (if co_state obj = CS_SUPERSEDED
      then concat (map (\<lambda>link.
        (case dget (obj_map objects) (cl_source_id link) of
           None \<Rightarrow> []
         | Some src \<Rightarrow>
             if co_state src = CS_ACTIVE
             then [(issue ''stale_reference'' ''warning''
                     [Lit ''Active object '', Lit [CHR 0x27], Lit (co_label src), Lit [CHR 0x27],
                      Lit '' references superseded '', Lit [CHR 0x27], Lit (co_label obj),
                      Lit [CHR 0x27]])
                   \<lparr>ci_object_id := Some (co_id obj), ci_link_id := Some (cl_id link)\<rparr>]
             else []))
        (filter (\<lambda>l. cl_target_id l = co_id obj \<and> cl_link_type l \<noteq> LT_SUPERCEDES) links))
      else [])"

text \<open>6. Planes with objects and no link to another plane.\<close>

definition plane_issues ::
  "control_object list \<Rightarrow> control_link list \<Rightarrow> plane_type \<Rightarrow> consistency_issue list" where
  "plane_issues objects links plane =
     (let planes_present = remdups (map co_plane objects);
          plane_objects = filter (\<lambda>ob. co_plane ob = plane) objects;
          cross_links = filter (\<lambda>l.
            (cl_source_plane l = Some plane \<and> cl_target_plane l \<noteq> Some plane) \<or>
            (cl_target_plane l = Some plane \<and> cl_source_plane l \<noteq> Some plane)) links
      in if length planes_present > 1 \<and> plane_objects \<noteq> [] \<and> cross_links = []
         then [issue ''isolated_plane'' ''info''
                 [Lit ''Plane '', Lit [CHR 0x27], Lit (plane_value plane), Lit [CHR 0x27],
                  Lit '' has '', NumI (int (length plane_objects)),
                  Lit '' objects but no cross-plane links'']]
         else [])"

text \<open>The issues in the order the checks append them; \<open>cs\<close> are those of the second check.\<close>

definition graph_issues ::
  "control_object list \<Rightarrow> control_link list \<Rightarrow> consistency_issue list \<Rightarrow> consistency_issue list" where
  "graph_issues objects links cs =
     concat (map (dangling_issues objects) links) @ cs
     @ concat (map (billing_issues links) objects)
     @ concat (map (orphan_issues links) objects)
     @ concat (map (stale_issues objects links) objects)
     @ concat (map (plane_issues objects links) (enum_class.enum :: plane_type list))"

definition check_graph ::
  "control_object list \<Rightarrow> control_link list \<Rightarrow> index_error + consistency_report" where
  "check_graph objects links =
     (case collect_results (map contradiction_issue (contradiction_pairs links)) of
        Inl e \<Rightarrow> Inl e
      | Inr contradictions \<Rightarrow>
          let issues = graph_issues objects links contradictions
          in Inr \<lparr>cr_total_objects = length objects, cr_total_links = length links,
                  cr_issues = issues,
                  cr_is_consistent =
                    list_all (\<lambda>i. ci_severity i \<notin> {''error'', ''critical''}) issues\<rparr>)"

section \<open>What the checker decides\<close>

lemma collect_results_Inr:
  "collect_results xs = Inr ys \<longleftrightarrow> xs = map Inr ys"
proof (induction xs arbitrary: ys rule: collect_results.induct)
  case (3 x xs)
  show ?case
  proof (cases "collect_results xs")
    case (Inl e)
    with 3 show ?thesis by (cases ys) auto
  next
    case (Inr zs)
    with 3 [of zs] show ?thesis by (cases ys) (auto intro: list.inj_map_strong)
  qed
qed auto

lemma collect_results_map_Inr: "(\<And>x. x \<in> set xs \<Longrightarrow> f x \<noteq> Inl e) \<Longrightarrow> collect_results (map f xs) \<noteq> Inl e"
proof (induction xs)
  case (Cons x xs)
  then show ?case
    by (cases "f x") (auto split: sum.splits)
qed simp

lemma bump_pair_keys:
  "fst ` set (bump_pair p d) \<subseteq> insert p (fst ` set d)"
  by (induction p d rule: bump_pair.induct) auto

lemma contradiction_pairs_keys:
  "fst ` set (contradiction_pairs links) \<subseteq>
     (\<lambda>l. (cl_source_id l, cl_target_id l)) ` {l \<in> set links. cl_link_type l = LT_CONTRADICTS}"
proof -
  have "fst ` set (foldl (\<lambda>d l. bump_pair (cl_source_id l, cl_target_id l) d) d ls) \<subseteq>
      fst ` set d \<union> (\<lambda>l. (cl_source_id l, cl_target_id l)) ` set ls" for d ls
  proof (induction ls arbitrary: d)
    case (Cons l ls)
    from Cons.IH [of "bump_pair (cl_source_id l, cl_target_id l) d"]
      bump_pair_keys [of "(cl_source_id l, cl_target_id l)" d]
    show ?case by (simp; blast)
  qed simp
  from this [of "[]" "filter (\<lambda>l. cl_link_type l = LT_CONTRADICTS) links"]
  show ?thesis by (simp add: contradiction_pairs_def)
qed

text \<open>Without a contradiction of an object with itself the checker returns a report.\<close>

lemma check_graph_total:
  assumes "\<forall>l \<in> set links. cl_link_type l = LT_CONTRADICTS \<longrightarrow> cl_source_id l \<noteq> cl_target_id l"
  shows "\<exists>rep. check_graph objects links = Inr rep"
proof -
  have "contradiction_issue e \<noteq> Inl x" if "e \<in> set (contradiction_pairs links)" for e x
    using that contradiction_pairs_keys [of links] assms
    by (force simp: contradiction_issue_def split: prod.splits)
  then have "collect_results (map contradiction_issue (contradiction_pairs links)) \<noteq> Inl x" for x
    by (rule collect_results_map_Inr)
  then show ?thesis
    by (cases "collect_results (map contradiction_issue (contradiction_pairs links))")
      (auto simp: check_graph_def Let_def)
qed

lemma contradiction_issue_severity:
  "contradiction_issue e = Inr i \<Longrightarrow> ci_severity i = ''warning''"
  by (auto simp: contradiction_issue_def issue_def split: prod.splits if_splits)

lemmas issue_fun_defs =
  billing_issues_def orphan_issues_def stale_issues_def plane_issues_def issue_def

lemma soft_issues:
  "i \<in> set (billing_issues links ob) \<Longrightarrow> ci_severity i = ''warning''"
  "i \<in> set (orphan_issues links ob) \<Longrightarrow> ci_severity i = ''info''"
  "i \<in> set (stale_issues objects links ob) \<Longrightarrow> ci_severity i = ''warning''"
  "i \<in> set (plane_issues objects links pl) \<Longrightarrow> ci_severity i = ''info''"
  by (auto simp: issue_fun_defs Let_def split: if_splits option.splits)

lemma dangling_error: "i \<in> set (dangling_issues objects l) \<Longrightarrow> ci_severity i = ''error''"
  by (auto simp: dangling_issues_def issue_def Let_def split: if_splits)

lemma dangling_Nil:
  "dangling_issues objects l = [] \<longleftrightarrow>
     cl_source_id l \<in> co_id ` set objects \<and> cl_target_id l \<in> co_id ` set objects"
  by (auto simp: dangling_issues_def Let_def)

text \<open>A report is consistent exactly when no link dangles: no other check can fail a graph.\<close>

lemma check_graph_consistent:
  assumes rep: "check_graph objects links = Inr rep"
  shows "cr_is_consistent rep \<longleftrightarrow>
    (\<forall>l \<in> set links. cl_source_id l \<in> co_id ` set objects \<and> cl_target_id l \<in> co_id ` set objects)"
proof -
  obtain cs where cs:
    "collect_results (map contradiction_issue (contradiction_pairs links)) = Inr cs"
    using rep by (auto simp: check_graph_def split: sum.splits)
  then have "map contradiction_issue (contradiction_pairs links) = map Inr cs"
    by (simp add: collect_results_Inr)
  then have warn: "ci_severity i = ''warning''" if "i \<in> set cs" for i
    using that contradiction_issue_severity
    by (metis (no_types, lifting) in_set_conv_nth length_map nth_map)
  let ?soft = "\<lambda>i. ci_severity i \<notin> {''error'', ''critical''}"
  let ?rest = "cs @ concat (map (billing_issues links) objects)
    @ concat (map (orphan_issues links) objects) @ concat (map (stale_issues objects links) objects)
    @ concat (map (plane_issues objects links) (enum_class.enum :: plane_type list))"
  have sev: "ci_severity i \<in> {''warning'', ''info''}" if "i \<in> set ?rest" for i
  proof -
    from that consider "i \<in> set cs" | ob where "i \<in> set (billing_issues links ob)"
      | ob where "i \<in> set (orphan_issues links ob)"
      | ob where "i \<in> set (stale_issues objects links ob)"
      | pl where "i \<in> set (plane_issues objects links pl)"
      unfolding set_append set_concat set_map by blast
    then show ?thesis
      by cases (simp_all add: warn soft_issues)
  qed
  have rest: "list_all ?soft ?rest"
    unfolding list_all_iff
  proof
    fix i assume "i \<in> set ?rest"
    from sev [OF this] show "?soft i" by auto
  qed
  have dang: "list_all ?soft (dangling_issues objects l) \<longleftrightarrow> dangling_issues objects l = []" for l
    using dangling_error [of _ objects l] by (cases "dangling_issues objects l") auto
  have "cr_is_consistent rep \<longleftrightarrow> list_all ?soft (concat (map (dangling_issues objects) links) @ ?rest)"
    using rep cs unfolding check_graph_def Let_def graph_issues_def [symmetric] by auto
  also have "\<dots> \<longleftrightarrow> list_all ?soft (concat (map (dangling_issues objects) links))"
    using rest by (simp only: list_all_append simp_thms)
  also have "\<dots> \<longleftrightarrow> (\<forall>l \<in> set links. list_all ?soft (dangling_issues objects l))"
    unfolding list_all_iff by simp
  finally show ?thesis by (simp only: dang dangling_Nil)
qed

lemma check_graph_flag:
  "check_graph objects links = Inr rep \<Longrightarrow>
     cr_is_consistent rep = list_all (\<lambda>i. ci_severity i \<notin> {''error'', ''critical''}) (cr_issues rep)"
  by (auto simp: check_graph_def Let_def split: sum.splits)

lemma error_count_consistent:
  "check_graph objects links = Inr rep \<Longrightarrow> error_count rep = 0 \<longleftrightarrow> cr_is_consistent rep"
  unfolding check_graph_flag error_count_def list_all_iff
  by (simp add: filter_empty_conv)

section \<open>Which issues a report holds\<close>

text \<open>The objects and links named by the issues of one type, and the pairs named by the
  contradictions.\<close>

definition flagged_refs :: "string \<Rightarrow> consistency_issue list \<Rightarrow> (uuid option \<times> uuid option) set" where
  "flagged_refs ty is = (\<lambda>i. (ci_object_id i, ci_link_id i)) ` {i \<in> set is. ci_issue_type i = ty}"

definition flagged_pairs :: "consistency_issue list \<Rightarrow> uuid set set" where
  "flagged_pairs is =
     {{a, b} | a b. \<exists>i \<in> set is. ci_issue_type i = ''contradiction_detected'' \<and>
        ci_details i = [(''object_ids'', JList [JStr a, JStr b])]}"

lemma flagged_simps [simp]:
  "flagged_refs ty [] = {}"
  "flagged_refs ty (i # is) =
     (if ci_issue_type i = ty then insert (ci_object_id i, ci_link_id i) (flagged_refs ty is)
      else flagged_refs ty is)"
  "flagged_refs ty (is @ js) = flagged_refs ty is \<union> flagged_refs ty js"
  "flagged_refs ty (concat iss) = (\<Union>is \<in> set iss. flagged_refs ty is)"
  by (auto simp: flagged_refs_def)

lemma flagged_parts:
  "flagged_refs ty (dangling_issues objects l) =
     (if ty = ''dangling_link_source'' \<and> cl_source_id l \<notin> co_id ` set objects
      then {(None, Some (cl_id l))} else {}) \<union>
     (if ty = ''dangling_link_target'' \<and> cl_target_id l \<notin> co_id ` set objects
      then {(None, Some (cl_id l))} else {})"
  "flagged_refs ty (billing_issues links ob) =
     (if ty = ''missing_expected_link'' \<and> co_object_type ob = OT_BILLABLE_EVENT \<and>
         {l \<in> set links. cl_source_id l = co_id ob \<and> cl_link_type l = LT_BILLS_FOR} = {}
      then {(Some (co_id ob), None)} else {})"
  "flagged_refs ty (orphan_issues links ob) =
     (if ty = ''orphaned_object'' \<and> co_id ob \<notin> cl_source_id ` set links \<union> cl_target_id ` set links
      then {(Some (co_id ob), None)} else {})"
  "ty \<noteq> ''isolated_plane'' \<Longrightarrow> flagged_refs ty (plane_issues objects links pl) = {}"
  "ty \<noteq> ''contradiction_detected'' \<Longrightarrow> contradiction_issue e = Inr i \<Longrightarrow> ci_issue_type i \<noteq> ty"
  by (auto simp: dangling_issues_def billing_issues_def orphan_issues_def plane_issues_def
      contradiction_issue_def issue_def Let_def list_ex_iff split: prod.splits if_splits)

lemma flagged_stale:
  "flagged_refs ty (stale_issues objects links ob) =
     {(Some (co_id ob), Some (cl_id l)) | l src. ty = ''stale_reference'' \<and>
        co_state ob = CS_SUPERSEDED \<and> l \<in> set links \<and> cl_target_id l = co_id ob \<and>
        cl_link_type l \<noteq> LT_SUPERCEDES \<and> dget (obj_map objects) (cl_source_id l) = Some src \<and>
        co_state src = CS_ACTIVE}"
proof (cases "co_state ob = CS_SUPERSEDED")
  case True
  have "flagged_refs ty (case dget (obj_map objects) (cl_source_id l) of None \<Rightarrow> []
        | Some src \<Rightarrow> if co_state src = CS_ACTIVE
            then [(issue ''stale_reference'' ''warning''
                     [Lit ''Active object '', Lit [CHR 0x27], Lit (co_label src), Lit [CHR 0x27],
                      Lit '' references superseded '', Lit [CHR 0x27], Lit (co_label ob),
                      Lit [CHR 0x27]])
                   \<lparr>ci_object_id := Some (co_id ob), ci_link_id := Some (cl_id l)\<rparr>]
            else []) =
     {(Some (co_id ob), Some (cl_id l)) | src. ty = ''stale_reference'' \<and>
        dget (obj_map objects) (cl_source_id l) = Some src \<and> co_state src = CS_ACTIVE}" for l
    by (cases "dget (obj_map objects) (cl_source_id l)") (auto simp: issue_def)
  then show ?thesis
    using True by (auto simp: stale_issues_def)
qed (simp add: stale_issues_def)

text \<open>The pairs of the second check, as sets of two ends.\<close>

lemma bump_pair_ends:
  "(\<lambda>e. {fst (fst e), snd (fst e)}) ` set (bump_pair p d) =
     insert {fst p, snd p} ((\<lambda>e. {fst (fst e), snd (fst e)}) ` set d)"
  by (induction p d rule: bump_pair.induct) (auto simp: same_pair_def)

lemma contradiction_pairs_ends:
  "(\<lambda>e. {fst (fst e), snd (fst e)}) ` set (contradiction_pairs links) =
     (\<lambda>l. {cl_source_id l, cl_target_id l}) ` {l \<in> set links. cl_link_type l = LT_CONTRADICTS}"
proof -
  have "(\<lambda>e. {fst (fst e), snd (fst e)}) `
      set (foldl (\<lambda>d l. bump_pair (cl_source_id l, cl_target_id l) d) d ls) =
      (\<lambda>e. {fst (fst e), snd (fst e)}) ` set d \<union> (\<lambda>l. {cl_source_id l, cl_target_id l}) ` set ls"
    for d and ls :: "control_link list"
    by (induction ls arbitrary: d) (auto simp: bump_pair_ends)
  from this [of "[]"] show ?thesis by (simp add: contradiction_pairs_def)
qed

lemma flagged_contradictions:
  assumes "collect_results (map contradiction_issue es) = Inr cs"
  shows "flagged_pairs cs = (\<lambda>e. {fst (fst e), snd (fst e)}) ` set es"
proof -
  have cs: "map contradiction_issue es = map Inr cs" using assms by (simp add: collect_results_Inr)
  have "contradiction_issue e = Inr i \<Longrightarrow>
      {{a, b} | a b. ci_issue_type i = ''contradiction_detected'' \<and>
        ci_details i = [(''object_ids'', JList [JStr a, JStr b])]} = {{fst (fst e), snd (fst e)}}" for e i
    by (auto simp: contradiction_issue_def issue_def split: prod.splits if_splits)
  then have "flagged_pairs cs = (\<lambda>e. {fst (fst e), snd (fst e)}) ` set es"
    using cs
  proof (induction es arbitrary: cs)
    case (Cons e es)
    then obtain i cs' where c: "cs = i # cs'" "contradiction_issue e = Inr i"
      "map contradiction_issue es = map Inr cs'" by (cases cs) auto
    have "flagged_pairs (i # cs') =
        {{a, b} | a b. ci_issue_type i = ''contradiction_detected'' \<and>
          ci_details i = [(''object_ids'', JList [JStr a, JStr b])]} \<union> flagged_pairs cs'"
      by (auto simp: flagged_pairs_def)
    with Cons.IH [OF Cons.prems(1) c(3)] Cons.prems(1) [OF c(2)] c(1) show ?case by simp
  qed (simp add: flagged_pairs_def)
  then show ?thesis .
qed

lemma flagged_pairs_append: "flagged_pairs (is @ js) = flagged_pairs is \<union> flagged_pairs js"
  by (auto simp: flagged_pairs_def)

lemma flagged_pairs_none:
  "flagged_refs ''contradiction_detected'' is = {} \<Longrightarrow> flagged_pairs is = {}"
  by (auto simp: flagged_pairs_def flagged_refs_def)

text \<open>The planes the sixth check names in the second place of its message.\<close>

definition flagged_planes :: "consistency_issue list \<Rightarrow> plane_type set" where
  "flagged_planes is =
     {pl. \<exists>i \<in> set is. ci_issue_type i = ''isolated_plane'' \<and>
        ci_description i ! 2 = Lit (plane_value pl)}"

definition crosses :: "plane_type \<Rightarrow> control_link \<Rightarrow> bool" where
  "crosses pl l \<longleftrightarrow> (cl_source_plane l = Some pl) \<noteq> (cl_target_plane l = Some pl)"

lemma two_planes: "length (remdups xs) > 1 \<longleftrightarrow> (\<exists>x \<in> set xs. \<exists>y \<in> set xs. x \<noteq> y)"
proof -
  have "length (remdups xs) > 1 \<longleftrightarrow> \<not> card (set xs) \<le> 1"
    by (simp add: length_remdups_card_conv not_le)
  also have "\<dots> \<longleftrightarrow> (\<exists>x \<in> set xs. \<exists>y \<in> set xs. x \<noteq> y)"
    using card_le_Suc0_iff_eq [of "set xs"] by auto
  finally show ?thesis .
qed

lemma plane_issue_kept:
  "plane_issues objects links pl = [] \<or>
     (\<exists>i. plane_issues objects links pl = [i] \<and> ci_issue_type i = ''isolated_plane'' \<and>
        ci_description i ! 2 = Lit (plane_value pl))"
  by (auto simp: plane_issues_def issue_def Let_def)

lemma plane_issues_Nil:
  "plane_issues objects links pl \<noteq> [] \<longleftrightarrow>
     pl \<in> co_plane ` set objects \<and> co_plane ` set objects \<noteq> {pl} \<and> {l \<in> set links. crosses pl l} = {}"
proof -
  have other: "(\<exists>x \<in> A. \<exists>y \<in> A. x \<noteq> y) \<and> p \<in> A \<longleftrightarrow> p \<in> A \<and> A \<noteq> {p}" for A and p :: plane_type
    by auto
  have "length (remdups (map co_plane objects)) > 1 \<and> pl \<in> co_plane ` set objects \<longleftrightarrow>
      pl \<in> co_plane ` set objects \<and> co_plane ` set objects \<noteq> {pl}"
    unfolding two_planes set_map by (rule other)
  moreover have "filter (\<lambda>ob. co_plane ob = pl) objects \<noteq> [] \<longleftrightarrow> pl \<in> co_plane ` set objects"
    by (auto simp: filter_empty_conv)
  moreover have "filter (\<lambda>l.
      (cl_source_plane l = Some pl \<and> cl_target_plane l \<noteq> Some pl) \<or>
      (cl_target_plane l = Some pl \<and> cl_source_plane l \<noteq> Some pl)) links = [] \<longleftrightarrow>
      {l \<in> set links. crosses pl l} = {}"
    by (auto simp: filter_empty_conv crosses_def)
  ultimately show ?thesis by (simp add: plane_issues_def Let_def) blast
qed

lemma plane_value_inject: "plane_value a = plane_value b \<longleftrightarrow> a = b"
  by (cases a; cases b) simp_all

lemma flagged_planes_parts:
  "flagged_planes (is @ js) = flagged_planes is \<union> flagged_planes js"
  "flagged_refs ''isolated_plane'' is = {} \<Longrightarrow> flagged_planes is = {}"
  "flagged_planes (concat (map (plane_issues objects links) pls)) =
     {pl \<in> set pls. plane_issues objects links pl \<noteq> []}"
proof -
  show "flagged_planes (concat (map (plane_issues objects links) pls)) =
     {pl \<in> set pls. plane_issues objects links pl \<noteq> []}"
  proof (induction pls)
    case (Cons pl pls)
    have "flagged_planes (plane_issues objects links pl) =
        (if plane_issues objects links pl \<noteq> [] then {pl} else {})"
      using plane_issue_kept [of objects links pl] by (auto simp: flagged_planes_def plane_value_inject)
    moreover have "flagged_planes (is @ js) = flagged_planes is \<union> flagged_planes js" for "is" js
      by (auto simp: flagged_planes_def)
    ultimately show ?case using Cons by auto
  qed (simp add: flagged_planes_def)
qed (auto simp: flagged_planes_def flagged_refs_def)

text \<open>What a report over the objects \<open>obs\<close> and the links \<open>ls\<close> has to hold, check by check.\<close>

definition report_of :: "control_object set \<Rightarrow> control_link set \<Rightarrow> consistency_report \<Rightarrow> bool" where
  "report_of obs ls rep \<longleftrightarrow>
     flagged_refs ''dangling_link_source'' (cr_issues rep) =
       {(None, Some (cl_id l)) | l. l \<in> ls \<and> cl_source_id l \<notin> co_id ` obs} \<and>
     flagged_refs ''dangling_link_target'' (cr_issues rep) =
       {(None, Some (cl_id l)) | l. l \<in> ls \<and> cl_target_id l \<notin> co_id ` obs} \<and>
     flagged_pairs (cr_issues rep) =
       {{cl_source_id l, cl_target_id l} | l. l \<in> ls \<and> cl_link_type l = LT_CONTRADICTS} \<and>
     flagged_refs ''missing_expected_link'' (cr_issues rep) =
       {(Some (co_id ob), None) | ob. ob \<in> obs \<and> co_object_type ob = OT_BILLABLE_EVENT \<and>
          {l \<in> ls. cl_source_id l = co_id ob \<and> cl_link_type l = LT_BILLS_FOR} = {}} \<and>
     flagged_refs ''orphaned_object'' (cr_issues rep) =
       {(Some (co_id ob), None) | ob. ob \<in> obs \<and>
          co_id ob \<notin> cl_source_id ` ls \<union> cl_target_id ` ls} \<and>
     flagged_refs ''stale_reference'' (cr_issues rep) =
       {(Some (co_id ob), Some (cl_id l)) | ob l src. ob \<in> obs \<and> co_state ob = CS_SUPERSEDED \<and>
          l \<in> ls \<and> cl_target_id l = co_id ob \<and> cl_link_type l \<noteq> LT_SUPERCEDES \<and>
          src \<in> obs \<and> co_id src = cl_source_id l \<and> co_state src = CS_ACTIVE} \<and>
     flagged_planes (cr_issues rep) =
       {pl. pl \<in> co_plane ` obs \<and> co_plane ` obs \<noteq> {pl} \<and> {l \<in> ls. crosses pl l} = {}} \<and>
     (cr_is_consistent rep \<longleftrightarrow> cl_source_id ` ls \<union> cl_target_id ` ls \<subseteq> co_id ` obs) \<and>
     (error_count rep = 0 \<longleftrightarrow> cr_is_consistent rep)"

lemma obj_map_get:
  "inj_on co_id (set obs) \<Longrightarrow> dget (obj_map obs) i = Some ob \<longleftrightarrow> ob \<in> set obs \<and> co_id ob = i"
proof (induction obs rule: rev_induct)
  case (snoc x obs)
  then have "dget (obj_map obs) i = Some ob \<longleftrightarrow> ob \<in> set obs \<and> co_id ob = i"
    by (simp add: inj_on_insert)
  moreover have "obj_map (obs @ [x]) = dput (co_id x) x (obj_map obs)"
    by (simp add: obj_map_def)
  moreover have "y = x" if "y \<in> set obs" "co_id y = co_id x" for y
    using inj_onD [OF snoc.prems that(2)] that(1) by simp
  ultimately show ?case by auto
qed (simp add: obj_map_def)

lemma check_graph_report:
  assumes rep: "check_graph objects links = Inr rep" and inj: "inj_on co_id (set objects)"
  shows "report_of (set objects) (set links) rep"
proof -
  obtain cs where cs:
    "collect_results (map contradiction_issue (contradiction_pairs links)) = Inr cs"
    and iss: "cr_issues rep = graph_issues objects links cs"
    using rep by (auto simp: check_graph_def Let_def split: sum.splits)
  have "map contradiction_issue (contradiction_pairs links) = map Inr cs"
    using cs by (simp add: collect_results_Inr)
  then have "\<exists>e. contradiction_issue e = Inr i" if "i \<in> set cs" for i
    using that by (metis (no_types, lifting) in_set_conv_nth length_map nth_map)
  then have cs_ty: "flagged_refs ty cs = {}" if "ty \<noteq> ''contradiction_detected''" for ty
    using that flagged_parts(5) [OF that] unfolding flagged_refs_def by fast
  note parts = iss graph_issues_def flagged_parts(1-3) flagged_stale cs_ty
  have rest: "flagged_pairs (cr_issues rep) = flagged_pairs cs"
    by (simp add: iss graph_issues_def flagged_pairs_append flagged_pairs_none flagged_parts flagged_stale)
  have planes: "flagged_planes (cr_issues rep) = {pl. plane_issues objects links pl \<noteq> []}"
    by (simp add: iss graph_issues_def flagged_planes_parts flagged_parts flagged_stale cs_ty
        UNIV_enum [symmetric])
  have "flagged_refs ''dangling_link_source'' (cr_issues rep) =
       {(None, Some (cl_id l)) | l. l \<in> set links \<and> cl_source_id l \<notin> co_id ` set objects}"
    by (simp add: parts flagged_parts(4); blast)
  moreover have "flagged_refs ''dangling_link_target'' (cr_issues rep) =
       {(None, Some (cl_id l)) | l. l \<in> set links \<and> cl_target_id l \<notin> co_id ` set objects}"
    by (simp add: parts flagged_parts(4); blast)
  moreover have "flagged_refs ''missing_expected_link'' (cr_issues rep) =
       {(Some (co_id ob), None) | ob. ob \<in> set objects \<and> co_object_type ob = OT_BILLABLE_EVENT \<and>
          {l \<in> set links. cl_source_id l = co_id ob \<and> cl_link_type l = LT_BILLS_FOR} = {}}"
    by (simp add: parts flagged_parts(4); blast)
  moreover have "flagged_refs ''orphaned_object'' (cr_issues rep) =
       {(Some (co_id ob), None) | ob. ob \<in> set objects \<and>
          co_id ob \<notin> cl_source_id ` set links \<union> cl_target_id ` set links}"
    by (simp add: parts flagged_parts(4); blast)
  moreover have "flagged_refs ''stale_reference'' (cr_issues rep) =
       {(Some (co_id ob), Some (cl_id l)) | ob l src. ob \<in> set objects \<and>
          co_state ob = CS_SUPERSEDED \<and> l \<in> set links \<and> cl_target_id l = co_id ob \<and>
          cl_link_type l \<noteq> LT_SUPERCEDES \<and> src \<in> set objects \<and> co_id src = cl_source_id l \<and>
          co_state src = CS_ACTIVE}"
    by (simp add: parts flagged_parts(4) obj_map_get [OF inj]; blast)
  moreover have "flagged_pairs (cr_issues rep) =
       {{cl_source_id l, cl_target_id l} | l. l \<in> set links \<and> cl_link_type l = LT_CONTRADICTS}"
    unfolding rest flagged_contradictions [OF cs] contradiction_pairs_ends by blast
  moreover have "cr_is_consistent rep \<longleftrightarrow>
      cl_source_id ` set links \<union> cl_target_id ` set links \<subseteq> co_id ` set objects"
    unfolding check_graph_consistent [OF rep] by blast
  ultimately show ?thesis
    unfolding report_of_def planes plane_issues_Nil error_count_consistent [OF rep] by blast
qed

section \<open>Properties\<close>

text \<open>A report calls a graph consistent exactly when every link joins two of the given objects;
  the other five checks only add warnings and notes, and the error count is zero exactly then.\<close>

theorem consistent_iff_no_dangling_link:
  "case check_graph objects links of
     Inl e \<Rightarrow> \<exists>l \<in> set links. cl_link_type l = LT_CONTRADICTS \<and> cl_source_id l = cl_target_id l
   | Inr rep \<Rightarrow>
       (cr_is_consistent rep \<longleftrightarrow>
          cl_source_id ` set links \<union> cl_target_id ` set links \<subseteq> co_id ` set objects) \<and>
       (error_count rep = 0 \<longleftrightarrow> cr_is_consistent rep)"
proof (cases "check_graph objects links")
  case (Inl e)
  then show ?thesis using check_graph_total [of links objects] by auto
next
  case (Inr rep)
  then show ?thesis
    using check_graph_consistent [OF Inr] error_count_consistent [OF Inr] by (simp; blast)
qed

end
