(* ===== verification/Graph_Service.thy ===== *)
theory Graph_Service
  imports Fabric_Audit Fabric_Registry Graph_Slice Graph_Consistency
begin

text \<open>
  The graph service, \<^verbatim>\<open>app/core/graph/service.py\<close>: the operations through which the rest of
  the program creates, changes and queries control objects and links. Its state is the
  repository, the registry and the audit hook. The repository hands out the stored object itself,
  so a mutation made before a raise is written back here in the failing branch too. One clock
  reading \<open>now\<close> stands for the readings within one call; fresh identifiers are arguments.
\<close>

record 'c graph_service =
  gs_repo :: graph_repo
  gs_registry :: "'c fabric_registry"
  gs_audit :: fabric_audit_hook

type_synonym ('c, 'a) gs_result = "(fabric_error, 'c graph_service, 'a) res"

definition new_graph_service :: "'c fabric_registry \<Rightarrow> 'c graph_service" where
  "new_graph_service reg = \<lparr>gs_repo = new_repo, gs_registry = reg, gs_audit = new_audit_hook\<rparr>"

definition gs_store :: "control_object \<Rightarrow> 'c graph_service \<Rightarrow> 'c graph_service" where
  "gs_store obj s = s\<lparr>gs_repo := store_object obj (gs_repo s)\<rparr>"

definition gs_emit :: "(fabric_audit_hook \<Rightarrow> fabric_audit_hook) \<Rightarrow> 'c graph_service \<Rightarrow> 'c graph_service" where
  "gs_emit f s = s\<lparr>gs_audit := f (gs_audit s)\<rparr>"

definition gs_get_object :: "'c graph_service \<Rightarrow> uuid \<Rightarrow> control_object option" where
  "gs_get_object s object_id = get_object (gs_repo s) object_id"

section \<open>Object operations\<close>

definition gs_create_object ::
  "uuid \<Rightarrow> time \<Rightarrow> uuid \<Rightarrow> control_object_create \<Rightarrow> string \<Rightarrow> bool \<Rightarrow> 'c graph_service
     \<Rightarrow> ('c, control_object) gs_result" where
  "gs_create_object fresh now tenant_id create actor auto_activate s =
     (case build_control_object fresh now tenant_id create actor of
        Inl e \<Rightarrow> (Inl e, s)
      | Inr obj \<Rightarrow>
          let s = gs_emit (control_object_created (co_id obj) tenant_id (co_plane obj)
                    (co_domain obj) actor) s
          in if auto_activate
             then (case activate (audit_of actor ''activated'' now) now obj of
                     (Inl e, _) \<Rightarrow> (Inl e, s)
                   | (Inr _, obj') \<Rightarrow>
                       let s = gs_emit (control_object_state_changed (co_id obj') tenant_id
                                 (co_state obj) (co_state obj') actor) s
                       in (Inr obj', gs_store obj' s))
             else (Inr obj, gs_store obj s))"

definition gs_enrich_object ::
  "time \<Rightarrow> uuid \<Rightarrow> (string, json) dict \<Rightarrow> string \<Rightarrow> 'c graph_service
     \<Rightarrow> ('c, control_object option) gs_result" where
  "gs_enrich_object now object_id payload_update actor s =
     (case gs_get_object s object_id of
        None \<Rightarrow> (Inr None, s)
      | Some obj \<Rightarrow>
          (case enrich payload_update (audit_of actor ''enriched'' now) now obj of
             (Inl e, obj') \<Rightarrow> (Inl e, gs_store obj' s)
           | (Inr _, obj') \<Rightarrow>
               let s = (if co_state obj' \<noteq> co_state obj
                        then gs_emit (control_object_state_changed (co_id obj') (co_tenant_id obj')
                               (co_state obj) (co_state obj') actor) s
                        else s)
               in (Inr (Some obj'), gs_store obj' s)))"

definition gs_freeze_object ::
  "time \<Rightarrow> uuid \<Rightarrow> string \<Rightarrow> 'c graph_service \<Rightarrow> ('c, control_object option) gs_result" where
  "gs_freeze_object now object_id actor s =
     (case gs_get_object s object_id of
        None \<Rightarrow> (Inr None, s)
      | Some obj \<Rightarrow>
          (case freeze (audit_of actor ''frozen'' now) now obj of
             (Inl e, obj') \<Rightarrow> (Inl e, gs_store obj' s)
           | (Inr _, obj') \<Rightarrow>
               let s = gs_emit (control_object_frozen (co_id obj') (co_tenant_id obj') actor) s
               in (Inr (Some obj'), gs_store obj' s)))"

definition gs_supersede_object ::
  "uuid \<Rightarrow> uuid \<Rightarrow> time \<Rightarrow> uuid \<Rightarrow> control_object_create \<Rightarrow> string \<Rightarrow> 'c graph_service
     \<Rightarrow> ('c, control_object option) gs_result" where
  "gs_supersede_object fresh fresh_link now object_id update actor s =
     (case gs_get_object s object_id of
        None \<Rightarrow> (Inr None, s)
      | Some original \<Rightarrow>
          (case supersede_object fresh now update actor original of
             (Inl e, original') \<Rightarrow> (Inl e, gs_store original' s)
           | (Inr new_obj, original') \<Rightarrow>
               (case activate (audit_of actor ''activated'' now) now new_obj of
                  (Inl e, _) \<Rightarrow> (Inl e, gs_store original' s)
                | (Inr _, new_obj) \<Rightarrow>
                    let s = gs_emit (control_object_superseded (co_id original') (co_id new_obj)
                              (co_tenant_id original') actor) s;
                        s = gs_store original' s;
                        s = gs_store new_obj s;
                        link = build_control_link fresh_link now (co_tenant_id original')
                          \<lparr>lc_source_id = co_id new_obj, lc_target_id = co_id original',
                           lc_link_type = LT_SUPERCEDES, lc_weight = 1, lc_confidence = 1,
                           lc_evidence = [], lc_metadata = []\<rparr>
                          (Some (co_plane new_obj)) (Some (co_plane original'))
                    in (Inr (Some new_obj),
                        s\<lparr>gs_repo := store_link link (gs_repo s)\<rparr>))))"

definition gs_deprecate_object ::
  "time \<Rightarrow> uuid \<Rightarrow> string \<Rightarrow> 'c graph_service \<Rightarrow> ('c, control_object option) gs_result" where
  "gs_deprecate_object now object_id actor s =
     (case gs_get_object s object_id of
        None \<Rightarrow> (Inr None, s)
      | Some obj \<Rightarrow>
          (case deprecate (audit_of actor ''deprecated'' now) now obj of
             (Inl e, obj') \<Rightarrow> (Inl e, gs_store obj' s)
           | (Inr _, obj') \<Rightarrow>
               let s = gs_emit (control_object_deprecated (co_id obj') (co_tenant_id obj') actor) s
               in (Inr (Some obj'), gs_store obj' s)))"

definition gs_transition_object ::
  "time \<Rightarrow> uuid \<Rightarrow> control_state \<Rightarrow> string \<Rightarrow> string option \<Rightarrow> 'c graph_service
     \<Rightarrow> ('c, control_object option) gs_result" where
  "gs_transition_object now object_id new_state actor reason s =
     (case gs_get_object s object_id of
        None \<Rightarrow> (Inr None, s)
      | Some obj \<Rightarrow>
          (case transition_state new_state
                  ((audit_of actor (''transitioned_to_'' @ state_value new_state) now)
                     \<lparr>ac_reason := reason\<rparr>) now obj of
             (Inl e, obj') \<Rightarrow> (Inl e, gs_store obj' s)
           | (Inr _, obj') \<Rightarrow>
               let s = gs_emit (control_object_state_changed (co_id obj') (co_tenant_id obj')
                         (co_state obj) new_state actor) s
               in (Inr (Some obj'), gs_store obj' s)))"

section \<open>Lineage\<close>

record control_object_lineage =
  ln_object_id :: uuid
  ln_derived_from :: "uuid list"
  ln_supersedes :: "uuid list"
  ln_superseded_by :: "uuid option"
  ln_derivation_chain :: "uuid list"
  ln_depth :: nat

text \<open>The walk along outgoing \<open>SUPERCEDES\<close> links; it breaks once the depth exceeds 50.\<close>

function lineage_loop :: "graph_repo \<Rightarrow> uuid \<Rightarrow> nat \<Rightarrow> uuid list \<Rightarrow> nat \<times> uuid list" where
  "lineage_loop r current depth chain =
     (case get_links_for_object r current ''outgoing'' (Some LT_SUPERCEDES) of
        [] \<Rightarrow> (depth, chain)
      | link # _ \<Rightarrow>
          let current = cl_target_id link; chain = chain @ [current]; depth = Suc depth
          in if depth > 50 then (depth, chain) else lineage_loop r current depth chain)"
  by pat_completeness auto
termination
  by (relation "measure (\<lambda>(r, c, d, ch). 51 - d)") auto

declare lineage_loop.simps [simp del]

definition gs_get_lineage :: "'c graph_service \<Rightarrow> uuid \<Rightarrow> control_object_lineage option" where
  "gs_get_lineage s object_id =
     (case gs_get_object s object_id of
        None \<Rightarrow> None
      | Some obj \<Rightarrow>
          let superseded_ids = map cl_target_id
                (get_links_for_object (gs_repo s) object_id ''outgoing'' (Some LT_SUPERCEDES));
              dc = lineage_loop (gs_repo s) object_id 0 []
          in Some \<lparr>ln_object_id = object_id, ln_derived_from = co_derived_from obj,
                   ln_supersedes = superseded_ids, ln_superseded_by = co_superseded_by obj,
                   ln_derivation_chain = snd dc, ln_depth = fst dc\<rparr>)"

section \<open>Link operations\<close>

definition gs_create_link ::
  "uuid \<Rightarrow> time \<Rightarrow> uuid \<Rightarrow> control_link_create \<Rightarrow> 'c graph_service
     \<Rightarrow> ('c, control_link) gs_result" where
  "gs_create_link fresh now tenant_id create s =
     (case gs_get_object s (lc_source_id create) of
        None \<Rightarrow> (Inl (InvalidLinkError
                  [Lit ''Source object '', Lit (lc_source_id create), Lit '' not found'']), s)
      | Some source \<Rightarrow>
          (case gs_get_object s (lc_target_id create) of
             None \<Rightarrow> (Inl (InvalidLinkError
                       [Lit ''Target object '', Lit (lc_target_id create), Lit '' not found'']), s)
           | Some target \<Rightarrow>
               (case enforce_link (Some (gs_registry s)) create source target of
                  Inl e \<Rightarrow> (Inl e, s)
                | Inr _ \<Rightarrow>
                    let link = build_control_link fresh now tenant_id create
                                 (Some (co_plane source)) (Some (co_plane target));
                        s = s\<lparr>gs_repo := store_link link (gs_repo s)\<rparr>;
                        s = gs_emit (control_link_created (cl_id link) tenant_id (cl_source_id link)
                              (cl_target_id link) (cl_link_type link) (is_cross_plane link)
                              ''system'') s
                    in (Inr link, s))))"

section \<open>Queries\<close>

record typed_path =
  tp_node_ids :: "uuid list"
  tp_link_ids :: "uuid list"
  tp_total_weight :: rat
  tp_crosses_planes :: bool
  tp_planes_traversed :: "plane_type list"

fun path_links :: "graph_repo \<Rightarrow> uuid list \<Rightarrow> uuid list" where
  "path_links r [] = []"
| "path_links r [x] = []"
| "path_links r (x # y # p) =
     (case filter (\<lambda>l. cl_target_id l = y) (get_links_for_object r x ''outgoing'' None) of
        [] \<Rightarrow> path_links r (y # p)
      | link # _ \<Rightarrow> cl_id link # path_links r (y # p))"

definition path_planes :: "graph_repo \<Rightarrow> uuid list \<Rightarrow> plane_type list" where
  "path_planes r ids =
     foldl (\<lambda>acc nid. (case get_object r nid of None \<Rightarrow> acc | Some obj \<Rightarrow> set_add (co_plane obj) acc))
       [] ids"

definition gs_find_typed_path ::
  "'c graph_service \<Rightarrow> uuid \<Rightarrow> uuid \<Rightarrow> int \<Rightarrow> typed_path option" where
  "gs_find_typed_path s source_id target_id max_depth =
     (case find_path (gs_repo s) source_id target_id max_depth of
        None \<Rightarrow> None
      | Some node_ids \<Rightarrow>
          let planes_traversed = path_planes (gs_repo s) node_ids
          in Some \<lparr>tp_node_ids = node_ids, tp_link_ids = path_links (gs_repo s) node_ids,
                   tp_total_weight = 0,
                   tp_crosses_planes = (length (remdups planes_traversed) > 1),
                   tp_planes_traversed = planes_traversed\<rparr>)"

record graph_traversal_policy =
  gt_max_depth :: nat
  gt_allowed_planes :: "plane_type list option"
  gt_allowed_link_types :: "control_link_type list option"
  gt_follow_bidirectional :: bool
  gt_include_deprecated :: bool
  gt_include_superseded :: bool
  gt_max_nodes :: nat

record control_graph_slice =
  sc_root_ids :: "uuid list"
  sc_object_ids :: "uuid list"
  sc_link_ids :: "uuid list"
  sc_planes_present :: "plane_type list"
  sc_depth_reached :: nat
  sc_total_objects :: nat
  sc_total_links :: nat
  sc_is_cross_plane :: bool

definition gs_get_typed_graph_slice ::
  "'c graph_service \<Rightarrow> uuid list \<Rightarrow> graph_traversal_policy \<Rightarrow> control_graph_slice" where
  "gs_get_typed_graph_slice s root_ids pol =
     (case get_graph_slice (gs_repo s) root_ids (gt_max_depth pol)
             (case gt_allowed_planes pol of Some ps \<Rightarrow> ps | None \<Rightarrow> [])
             (case gt_allowed_link_types pol of Some ts \<Rightarrow> ts | None \<Rightarrow> []) of
        (objects, links) \<Rightarrow>
          let planes_present = remdups (map co_plane objects)
          in \<lparr>sc_root_ids = root_ids, sc_object_ids = map co_id objects,
              sc_link_ids = map cl_id links, sc_planes_present = planes_present,
              sc_depth_reached = gt_max_depth pol, sc_total_objects = length objects,
              sc_total_links = length links, sc_is_cross_plane = (length planes_present > 1)\<rparr>)"

definition gs_get_contradictions :: "'c graph_service \<Rightarrow> uuid \<Rightarrow> control_link list" where
  "gs_get_contradictions s tenant_id =
     filter (\<lambda>l. cl_link_type l = LT_CONTRADICTS) (get_all_links (gs_repo s) tenant_id)"

definition gs_get_missing_expected_links ::
  "'c graph_service \<Rightarrow> uuid \<Rightarrow> (uuid \<times> control_link_type) list" where
  "gs_get_missing_expected_links s tenant_id =
     (let objects = list_objects (gs_repo s) tenant_id None None None None;
          links = get_all_links (gs_repo s) tenant_id
      in concat (map (\<lambda>obj.
           (if co_object_type obj = OT_BILLABLE_EVENT \<and>
               \<not> list_ex (\<lambda>l. cl_source_id l = co_id obj \<and> cl_link_type l = LT_BILLS_FOR) links
            then [(co_id obj, LT_BILLS_FOR)] else [])
           @ (if co_object_type obj = OT_WORK_ORDER \<and>
                 \<not> list_ex (\<lambda>l. (cl_source_id l = co_id obj \<or> cl_target_id l = co_id obj) \<and>
                                 cl_link_type l = LT_FULFILLS) links
              then [(co_id obj, LT_FULFILLS)] else [])) objects))"

section \<open>Consistency\<close>

definition gs_check_consistency ::
  "uuid \<Rightarrow> plane_type option \<Rightarrow> 'c graph_service
     \<Rightarrow> (index_error, 'c graph_service, consistency_report) res" where
  "gs_check_consistency tenant_id plane s =
     (let objects = list_objects (gs_repo s) tenant_id plane None None None;
          links = get_all_links (gs_repo s) tenant_id;
          links = (if plane \<noteq> None
                   then (let obj_ids = map co_id objects
                         in filter (\<lambda>l. cl_source_id l \<in> set obj_ids \<or>
                                        cl_target_id l \<in> set obj_ids) links)
                   else links)
      in case check_graph objects links of
           Inl e \<Rightarrow> (Inl e, s)
         | Inr report \<Rightarrow>
             (Inr report,
              gs_emit (graph_consistency_checked tenant_id (cr_is_consistent report)
                (error_count report) (warning_count report) ''system'') s))"

end
