(* ===== verification/Graph_Service_Props.thy ===== *)
theory Graph_Service_Props
  imports Graph_Service
begin

text \<open>
  What the graph service maintains: stored objects are well formed and keep their identity, links
  join two different stored objects and carry their planes, an object moves only along its
  lifecycle, and the audit log only grows. The steps of the service are an inductive relation
  with one rule per state-changing operation; the identifiers an operation draws are assumed
  unused, as \<open>uuid.uuid4()\<close> documents.
\<close>

section \<open>Invariants\<close>

definition object_ok :: "control_object \<Rightarrow> bool" where
  "object_ok ob \<longleftrightarrow>
     \<not> blank (co_label ob) \<and> \<not> blank (co_domain ob) \<and> pf_unit (co_confidence ob) \<and>
     1 \<le> co_version ob \<and> co_audit_trail ob \<noteq> []"

definition link_ok :: "graph_repo \<Rightarrow> control_link \<Rightarrow> bool" where
  "link_ok r l \<longleftrightarrow>
     cl_source_id l \<noteq> cl_target_id l \<and>
     (\<exists>a. get_object r (cl_source_id l) = Some a \<and> cl_source_plane l = Some (co_plane a)) \<and>
     (\<exists>b. get_object r (cl_target_id l) = Some b \<and> cl_target_plane l = Some (co_plane b))"

definition graph_inv :: "graph_repo \<Rightarrow> bool" where
  "graph_inv r \<longleftrightarrow>
     repo_wf r \<and> (\<forall>i ob. get_object r i = Some ob \<longrightarrow> object_ok ob) \<and>
     (\<forall>i l. get_link r i = Some l \<longrightarrow> link_ok r l)"

lemma graph_inv_new [simp]: "graph_inv new_repo"
  by (simp add: graph_inv_def get_object_def get_link_def new_repo_def
      repo_wf_new [unfolded new_repo_def])

lemma object_ok_step: "step_ok a b \<Longrightarrow> object_ok a \<Longrightarrow> object_ok b"
  by (auto simp: step_ok_def same_identity_def object_ok_def)

lemma graph_inv_update:
  assumes inv: "graph_inv r" and old: "get_object r i = Some a" and step: "step_ok a b"
  shows "graph_inv (store_object b r)"
proof -
  have id: "co_id b = i" "co_plane b = co_plane a"
    using step get_object_id [OF _ old] inv by (auto simp: step_ok_def same_identity_def graph_inv_def)
  have "object_ok b" using object_ok_step [OF step] inv old by (auto simp: graph_inv_def)
  moreover have "link_ok (store_object b r) l" if "link_ok r l" for l
    using that old id by (auto simp: link_ok_def)
  ultimately show ?thesis
    using inv by (auto simp: graph_inv_def)
qed

lemma graph_inv_insert:
  assumes inv: "graph_inv r" and new: "get_object r (co_id b) = None" and ok: "object_ok b"
  shows "graph_inv (store_object b r)"
proof -
  have "link_ok (store_object b r) l" if "link_ok r l" for l
    using that new by (auto simp: link_ok_def)
  then show ?thesis
    using inv ok by (auto simp: graph_inv_def)
qed

lemma graph_inv_link:
  assumes inv: "graph_inv r" and ok: "link_ok r l"
  shows "graph_inv (store_link l r)"
proof -
  have "link_ok (store_link l r) k = link_ok r k" for k
    by (simp add: link_ok_def)
  then show ?thesis using inv ok by (auto simp: graph_inv_def)
qed

section \<open>Construction\<close>

lemma build_object_ok:
  "build_control_object f n tn c a = Inr ob \<Longrightarrow>
     object_ok ob \<and> co_id ob = f \<and> co_tenant_id ob = tn \<and> co_state ob = CS_DRAFT \<and>
     co_version ob = 1 \<and> co_superseded_by ob = None"
  by (auto simp: build_control_object_def object_ok_def pf_unit_def split: if_splits)

lemma build_object_total:
  "(\<exists>ob. build_control_object f n tn c a = Inr ob) \<longleftrightarrow>
     \<not> blank (cc_label c) \<and> \<not> blank (cc_domain c) \<and> pf_unit (cc_confidence c)"
  by (auto simp: build_control_object_def pf_unit_def)

lemma activate_draft:
  "co_state ob = CS_DRAFT \<Longrightarrow>
     activate a n ob = (Inr (), ob\<lparr>co_state := CS_ACTIVE, co_updated_at := n,
                                  co_audit_trail := co_audit_trail ob @ [a]\<rparr>)"
  by (simp add: activate_def transition_state_def)

lemma supersede_object_cases:
  assumes "supersede_object f n u a orig = (res, orig')"
  shows "step_ok orig orig' \<and>
    (\<forall>new. res = Inr new \<longrightarrow> object_ok orig \<longrightarrow>
       object_ok new \<and> co_id new = f \<and> co_state new = CS_DRAFT \<and> co_tenant_id new = co_tenant_id orig \<and>
       co_version new = co_version orig + 1 \<and> co_derived_from new = [co_id orig] \<and>
       co_state orig' = CS_SUPERSEDED \<and> co_superseded_by orig' = Some f)"
proof (cases "build_control_object f n (co_tenant_id orig) u a")
  case (Inl e)
  with assms show ?thesis by (auto simp: supersede_object_def Let_def step_ok_refl)
next
  case (Inr ob)
  let ?new = "ob\<lparr>co_version := co_version orig + 1, co_derived_from := [co_id orig]\<rparr>"
  let ?s = "supersede (co_id ob) (audit_of a ''superseded'' n) n orig"
  have step: "step_ok orig (snd ?s)"
    by (rule co_step_ok) (rule step_supersede)
  note bo = build_object_ok [OF Inr]
  show ?thesis
  proof (cases "fst ?s")
    case (Inl e)
    then obtain o1 where s: "?s = (Inl e, o1)" by (cases ?s) simp
    with assms Inr step show ?thesis by (auto simp: supersede_object_def Let_def)
  next
    case b: (Inr u')
    then obtain o1 where s: "?s = (Inr u', o1)" by (cases ?s) simp
    then have st: "co_state o1 = CS_SUPERSEDED \<and> co_superseded_by o1 = Some (co_id ob)"
      by (auto simp: supersede_def transition_state_def Let_def split: if_splits)
    from assms Inr s have "res = Inr ?new" "orig' = o1"
      by (simp_all add: supersede_object_def Let_def)
    with step s st bo show ?thesis
      by (auto simp: object_ok_def)
  qed
qed

section \<open>Steps of the service\<close>

inductive svc_step :: "'c graph_service \<Rightarrow> 'c graph_service \<Rightarrow> bool" where
  svc_create: "gs_get_object s fresh = None \<Longrightarrow>
    svc_step s (snd (gs_create_object fresh now tn create actor auto s))"
| svc_enrich: "svc_step s (snd (gs_enrich_object now i upd actor s))"
| svc_freeze: "svc_step s (snd (gs_freeze_object now i actor s))"
| svc_supersede: "gs_get_object s fresh = None \<Longrightarrow>
    svc_step s (snd (gs_supersede_object fresh fresh_link now i update actor s))"
| svc_deprecate: "svc_step s (snd (gs_deprecate_object now i actor s))"
| svc_transition: "svc_step s (snd (gs_transition_object now i st actor reason s))"
| svc_link: "svc_step s (snd (gs_create_link fresh now tn create s))"
| svc_check: "svc_step s (snd (gs_check_consistency tn plane s))"

inductive svc_reach :: "'c fabric_registry \<Rightarrow> 'c graph_service \<Rightarrow> bool" for reg where
  reach_new: "svc_reach reg (new_graph_service reg)"
| reach_step: "svc_reach reg s \<Longrightarrow> svc_step s s' \<Longrightarrow> svc_reach reg s'"

lemma gs_simps [simp]:
  "gs_repo (gs_store ob s) = store_object ob (gs_repo s)"
  "gs_audit (gs_store ob s) = gs_audit s"
  "gs_registry (gs_store ob s) = gs_registry s"
  "gs_repo (gs_emit f s) = gs_repo s"
  "gs_audit (gs_emit f s) = f (gs_audit s)"
  "gs_registry (gs_emit f s) = gs_registry s"
  by (simp_all add: gs_store_def gs_emit_def)

text \<open>
  What one step may do to the repository: nothing, update one object along its lifecycle, insert
  one well-formed object, or add a link between stored objects. Every operation is one of these,
  or (for a supersession) the three in a row.
\<close>

inductive repo_step :: "graph_repo \<Rightarrow> graph_repo \<Rightarrow> bool" where
  rs_update: "get_object r i = Some a \<Longrightarrow> step_ok a b \<Longrightarrow> repo_step r (store_object b r)"
| rs_insert: "get_object r (co_id b) = None \<Longrightarrow> object_ok b \<Longrightarrow> repo_step r (store_object b r)"
| rs_link: "link_ok r l \<Longrightarrow> repo_step r (store_link l r)"

lemma repo_step_inv: "repo_step r r' \<Longrightarrow> graph_inv r \<Longrightarrow> graph_inv r'"
  by (induction rule: repo_step.induct)
    (auto intro: graph_inv_update graph_inv_insert graph_inv_link)

lemma repo_steps_inv: "repo_step\<^sup>*\<^sup>* r r' \<Longrightarrow> graph_inv r \<Longrightarrow> graph_inv r'"
  by (induction rule: rtranclp_induct) (auto intro: repo_step_inv)

lemma enrich_ok: "enrich u a n ob = (res, ob') \<Longrightarrow> step_ok ob ob'"
  by (metis co_step_ok snd_conv step_enrich)

lemma freeze_ok: "freeze a n ob = (res, ob') \<Longrightarrow> step_ok ob ob'"
  by (metis co_step_ok snd_conv step_freeze)

lemma deprecate_ok: "deprecate a n ob = (res, ob') \<Longrightarrow> step_ok ob ob'"
  by (metis co_step_ok snd_conv step_deprecate)

lemma transition_ok: "transition_state t a n ob = (res, ob') \<Longrightarrow> step_ok ob ob'"
  by (metis co_step_ok snd_conv step_transition)

lemmas co_methods_ok = enrich_ok freeze_ok deprecate_ok transition_ok

text \<open>The operations that fetch an object, call one method on it and store it back.\<close>

lemmas simple_op_defs =
  gs_enrich_object_def gs_freeze_object_def gs_deprecate_object_def gs_transition_object_def
  gs_get_object_def

lemma rs_updates:
  "get_object r i = Some a \<Longrightarrow> step_ok a b \<Longrightarrow> repo_step\<^sup>*\<^sup>* r (store_object b r)"
  by (rule r_into_rtranclp) (rule rs_update)

lemma enrich_object_steps:
  "repo_step\<^sup>*\<^sup>* (gs_repo s) (gs_repo (snd (gs_enrich_object n i u a s)))"
  by (auto simp: gs_enrich_object_def gs_get_object_def Let_def enrich_ok
      intro: rs_updates split: option.split sum.split prod.split)

lemma freeze_object_steps:
  "repo_step\<^sup>*\<^sup>* (gs_repo s) (gs_repo (snd (gs_freeze_object n i a s)))"
  by (auto simp: gs_freeze_object_def gs_get_object_def Let_def freeze_ok
      intro: rs_updates split: option.split sum.split prod.split)

lemma deprecate_object_steps:
  "repo_step\<^sup>*\<^sup>* (gs_repo s) (gs_repo (snd (gs_deprecate_object n i a s)))"
  by (auto simp: gs_deprecate_object_def gs_get_object_def Let_def deprecate_ok
      intro: rs_updates split: option.split sum.split prod.split)

lemma transition_object_steps:
  "repo_step\<^sup>*\<^sup>* (gs_repo s) (gs_repo (snd (gs_transition_object n i st a rn s)))"
  by (auto simp: gs_transition_object_def gs_get_object_def Let_def transition_ok
      intro: rs_updates split: option.split sum.split prod.split)

lemma check_consistency_repo:
  "gs_repo (snd (gs_check_consistency tn pl s)) = gs_repo s"
  by (simp add: gs_check_consistency_def Let_def split: sum.split)

lemma create_object_steps:
  assumes new: "gs_get_object s f = None"
  shows "repo_step\<^sup>*\<^sup>* (gs_repo s) (gs_repo (snd (gs_create_object f n tn c a auto s)))"
proof (cases "build_control_object f n tn c a")
  case (Inl e)
  then show ?thesis by (simp add: gs_create_object_def)
next
  case (Inr ob)
  note bo = build_object_ok [OF Inr]
  have ins: "repo_step\<^sup>*\<^sup>* (gs_repo s) (store_object ob' (gs_repo s))"
    if "co_id ob' = f" "object_ok ob'" for ob'
    using new that by (intro r_into_rtranclp rs_insert) (simp_all add: gs_get_object_def)
  from bo have "object_ok (ob\<lparr>co_state := CS_ACTIVE, co_updated_at := n,
      co_audit_trail := co_audit_trail ob @ [audit_of a ''activated'' n]\<rparr>)"
    by (simp add: object_ok_def)
  with bo Inr show ?thesis
    by (simp add: gs_create_object_def Let_def activate_draft ins)
qed

lemma create_link_steps:
  "repo_step\<^sup>*\<^sup>* (gs_repo s) (gs_repo (snd (gs_create_link f n tn c s)))"
proof -
  let ?l = "\<lambda>a b. build_control_link f n tn c (Some (co_plane a)) (Some (co_plane b))"
  have "repo_step\<^sup>*\<^sup>* (gs_repo s) (store_link (?l a b) (gs_repo s))"
    if "gs_get_object s (lc_source_id c) = Some a" "gs_get_object s (lc_target_id c) = Some b"
      "enforce_link (Some (gs_registry s)) c a b = Inr u" for a b u
  proof -
    have "link_permitted (Some (gs_registry s)) c a b"
      using that(3) enforce_link_ok by (metis old.unit.exhaust)
    then have "link_ok (gs_repo s) (?l a b)"
      using that(1,2) by (simp add: link_ok_def build_control_link_def link_permitted_def gs_get_object_def)
    then show ?thesis by (intro r_into_rtranclp rs_link)
  qed
  then show ?thesis
    by (auto simp: gs_create_link_def Let_def split: option.split sum.split)
qed

lemma activate_fields:
  "activate a n ob = (Inr u, ob') \<Longrightarrow>
     co_id ob' = co_id ob \<and> co_plane ob' = co_plane ob \<and> step_ok ob ob'"
  using co_step_ok [OF step_activate [of ob a n]]
  by (auto simp: step_ok_def same_identity_def)

lemma build_control_link_simps [simp]:
  "cl_source_id (build_control_link f n tn c p q) = lc_source_id c"
  "cl_target_id (build_control_link f n tn c p q) = lc_target_id c"
  "cl_link_type (build_control_link f n tn c p q) = lc_link_type c"
  "cl_source_plane (build_control_link f n tn c p q) = p"
  "cl_target_plane (build_control_link f n tn c p q) = q"
  "cl_tenant_id (build_control_link f n tn c p q) = tn"
  "cl_id (build_control_link f n tn c p q) = f"
  by (simp_all add: build_control_link_def)

lemma supersede_stores:
  assumes inv: "graph_inv r" and new: "get_object r f = None"
    and old: "get_object r i = Some a" and step: "step_ok a a'"
    and b: "co_id b = f" "object_ok b"
    and l: "cl_source_id l = f" "cl_target_id l = co_id a'"
      "cl_source_plane l = Some (co_plane b)" "cl_target_plane l = Some (co_plane a')"
  shows "repo_step\<^sup>*\<^sup>* r (store_link l (store_object b (store_object a' r)))"
proof -
  have id: "co_id a' = i"
    using step get_object_id [OF _ old] inv by (auto simp: step_ok_def same_identity_def graph_inv_def)
  have ne: "f \<noteq> i" using new old by auto
  have "repo_step\<^sup>*\<^sup>* r (store_object a' r)"
    using old step by (rule rs_updates)
  moreover have "repo_step (store_object a' r) (store_object b (store_object a' r))"
    using new b ne id by (intro rs_insert) auto
  moreover have "link_ok (store_object b (store_object a' r)) l"
    using b l ne id by (simp add: link_ok_def)
  then have "repo_step (store_object b (store_object a' r))
      (store_link l (store_object b (store_object a' r)))"
    by (rule rs_link)
  ultimately show ?thesis by (meson rtranclp.rtrancl_into_rtrancl)
qed

lemma supersede_object_steps:
  assumes inv: "graph_inv (gs_repo s)" and new: "gs_get_object s f = None"
  shows "repo_step\<^sup>*\<^sup>* (gs_repo s) (gs_repo (snd (gs_supersede_object f k n i u a s)))"
proof (cases "gs_get_object s i")
  case None
  then show ?thesis by (simp add: gs_supersede_object_def)
next
  case (Some orig)
  then have old: "get_object (gs_repo s) i = Some orig" by (simp add: gs_get_object_def)
  then have ok: "object_ok orig" using inv by (auto simp: graph_inv_def)
  obtain res orig' where so: "supersede_object f n u a orig = (res, orig')" by fastforce
  note cases = supersede_object_cases [OF so]
  then have step: "step_ok orig orig'" by blast
  show ?thesis
  proof (cases res)
    case (Inl e)
    with Some so old step show ?thesis
      by (simp add: gs_supersede_object_def rs_updates)
  next
    case (Inr nw)
    with cases ok have nw: "object_ok nw" "co_id nw = f" "co_state nw = CS_DRAFT" by blast+
    define nw' where "nw' = snd (activate (audit_of a ''activated'' n) n nw)"
    have act: "activate (audit_of a ''activated'' n) n nw = (Inr (), nw')"
      using nw(3) by (simp add: nw'_def activate_draft)
    then have nw': "co_id nw' = f" "object_ok nw'"
      using activate_fields [OF act] nw object_ok_step by auto
    show ?thesis
      using Some so Inr act nw' supersede_stores [OF inv _ old step nw'] new
      by (simp add: gs_supersede_object_def Let_def gs_get_object_def)
  qed
qed

lemma svc_step_repo:
  "svc_step s s' \<Longrightarrow> graph_inv (gs_repo s) \<Longrightarrow> repo_step\<^sup>*\<^sup>* (gs_repo s) (gs_repo s')"
proof (induction rule: svc_step.induct)
  case (svc_supersede s fresh fresh_link now i update actor)
  then show ?case by (intro supersede_object_steps)
qed (simp_all add: create_object_steps enrich_object_steps freeze_object_steps
    deprecate_object_steps transition_object_steps create_link_steps check_consistency_repo)

lemma svc_reach_inv: "svc_reach reg s \<Longrightarrow> graph_inv (gs_repo s)"
  by (induction rule: svc_reach.induct)
    (auto simp: new_graph_service_def intro: repo_steps_inv svc_step_repo)

section \<open>What a step keeps\<close>

lemma repo_step_object:
  assumes "repo_step r r'" and "repo_wf r" and "get_object r i = Some a"
  shows "\<exists>b. get_object r' i = Some b \<and> lifecycle_ok a b"
  using assms
proof (cases rule: repo_step.cases)
  case (rs_update j c d)
  with assms(2) have "co_id d = j" "co_id c = j"
    using get_object_id by (auto simp: step_ok_def same_identity_def)
  with rs_update assms show ?thesis by (auto intro: lifecycle_ok_step)
qed (use assms in auto)

lemma repo_steps_object:
  assumes "repo_step\<^sup>*\<^sup>* r r'" and "graph_inv r" and "get_object r i = Some a"
  shows "\<exists>b. get_object r' i = Some b \<and> lifecycle_ok a b"
  using assms
proof (induction rule: rtranclp_induct)
  case (step y z)
  then obtain b where b: "get_object y i = Some b" "lifecycle_ok a b" by blast
  have "repo_wf y" using repo_steps_inv [OF step(1,4)] by (simp add: graph_inv_def)
  from repo_step_object [OF step(2) this b(1)] b(2) show ?case
    by (blast intro: lifecycle_ok_trans)
qed auto

lemma event_extends:
  "extends_log h (control_object_created i t p d a h)"
  "extends_log h (control_object_state_changed i t st st' a h)"
  "extends_log h (control_object_superseded i i' t a h)"
  "extends_log h (control_object_deprecated i t a h)"
  "extends_log h (control_object_frozen i t a h)"
  "extends_log h (control_link_created i t so tg ty c a h)"
  "extends_log h (graph_consistency_checked t ok ec wc a h)"
  by (simp_all add: audit_event_defs Let_def)

lemma svc_step_log: "svc_step s s' \<Longrightarrow> extends_log (gs_audit s) (gs_audit s')"
proof (induction rule: svc_step.induct)
  case (svc_create s f n tn c a auto)
  then show ?case
    by (auto simp: gs_create_object_def Let_def event_extends
        intro: extends_log_trans [OF event_extends(1) event_extends(2)]
        split: sum.split prod.split)
qed (auto simp: gs_enrich_object_def gs_freeze_object_def gs_supersede_object_def
    gs_deprecate_object_def gs_transition_object_def gs_create_link_def gs_check_consistency_def
    Let_def event_extends split: sum.split prod.split option.split)

lemma svc_steps_log: "svc_step\<^sup>*\<^sup>* s s' \<Longrightarrow> extends_log (gs_audit s) (gs_audit s')"
  by (induction rule: rtranclp_induct) (auto intro: svc_step_log extends_log_trans)

lemma svc_steps_object:
  assumes "svc_step\<^sup>*\<^sup>* s s'" and "graph_inv (gs_repo s)" and "gs_get_object s i = Some a"
  shows "\<exists>b. gs_get_object s' i = Some b \<and> lifecycle_ok a b"
proof -
  have "graph_inv (gs_repo s') \<and> repo_step\<^sup>*\<^sup>* (gs_repo s) (gs_repo s')"
    using assms(1)
  proof (induction rule: rtranclp_induct)
    case (step y z)
    with svc_step_repo [OF step(2)] repo_steps_inv show ?case
      by (metis rtranclp_trans)
  qed (use assms in simp)
  with repo_steps_object assms show ?thesis
    unfolding gs_get_object_def by metis
qed

section \<open>Consistency of a graph built through the service\<close>

text \<open>What a check looks at: the objects of the tenant (on the given plane), and the links stored
  for the tenant (with an end among those objects when a plane is given).\<close>

definition viewed :: "graph_repo \<Rightarrow> uuid \<Rightarrow> plane_type option \<Rightarrow> control_object set" where
  "viewed r tid plane =
     {ob. get_object r (co_id ob) = Some ob \<and> co_tenant_id ob = tid \<and> plane \<in> {None, Some (co_plane ob)}}"

definition checked :: "graph_repo \<Rightarrow> uuid \<Rightarrow> plane_type option \<Rightarrow> control_link set" where
  "checked r tid plane =
     {l. get_link r (cl_id l) = Some l \<and> cl_tenant_id l = tid \<and>
         (plane = None \<or> {cl_source_id l, cl_target_id l} \<inter> co_id ` viewed r tid plane \<noteq> {})}"

lemma set_get_all_links:
  "repo_wf r \<Longrightarrow> set (get_all_links r tn) = {l. get_link r (cl_id l) = Some l \<and> cl_tenant_id l = tn}"
  using links.keyed_vals [of "gr_links r"]
  by (auto simp: get_all_links_def repo_wf_def get_link_def simp del: set_map)

lemma consistency_of_inv:
  assumes inv: "graph_inv (gs_repo s)"
  shows "\<exists>rep. fst (gs_check_consistency tid plane s) = Inr rep \<and>
    report_of (viewed (gs_repo s) tid plane) (checked (gs_repo s) tid plane) rep"
proof -
  let ?r = "gs_repo s"
  let ?objs = "list_objects ?r tid plane None None None"
  define ls where "ls = (if plane \<noteq> None
      then filter (\<lambda>l. cl_source_id l \<in> co_id ` set ?objs \<or> cl_target_id l \<in> co_id ` set ?objs)
             (get_all_links ?r tid) else get_all_links ?r tid)"
  have wf: "repo_wf ?r" using inv by (simp add: graph_inv_def)
  have objs: "set ?objs = viewed ?r tid plane"
    by (cases plane) (auto simp: set_list_objects [OF wf] viewed_def)
  have links: "set ls = checked ?r tid plane"
    by (auto simp: ls_def objs set_get_all_links [OF wf] checked_def)
  have "link_ok ?r l" if "l \<in> set ls" for l
    using that inv unfolding links by (auto simp: checked_def graph_inv_def)
  then obtain rep where rep: "check_graph ?objs ls = Inr rep"
    using check_graph_total [of ls ?objs] by (auto simp: link_ok_def)
  have "inj_on co_id (set ?objs)"
    unfolding objs viewed_def by (rule inj_onI) (simp only: mem_Collect_eq, metis option.inject)
  then have "report_of (viewed ?r tid plane) (checked ?r tid plane) rep"
    using check_graph_report [OF rep] by (simp only: objs links)
  moreover have "fst (gs_check_consistency tid plane s) = Inr rep"
    using rep unfolding gs_check_consistency_def Let_def set_map ls_def [symmetric] by simp
  ultimately show ?thesis by blast
qed

section \<open>Lineage\<close>

definition supersession_links :: "graph_repo \<Rightarrow> uuid \<Rightarrow> control_link list" where
  "supersession_links r i = get_links_for_object r i ''outgoing'' (Some LT_SUPERCEDES)"

definition replaces :: "graph_repo \<Rightarrow> uuid \<Rightarrow> uuid \<Rightarrow> bool" where
  "replaces r x y \<longleftrightarrow> y \<in> cl_target_id ` set (supersession_links r x)"

lemma lineage_loop_spec:
  "lineage_loop r c d ch = (d', ch') \<Longrightarrow> d \<le> 50 \<Longrightarrow>
     \<exists>ext. ch' = ch @ ext \<and> d' = d + length ext \<and> d' \<le> 51 \<and> successively (replaces r) (c # ext) \<and>
       (d' \<le> 50 \<longrightarrow> supersession_links r (last (c # ext)) = [])"
proof (induction r c d ch arbitrary: d' ch' rule: lineage_loop.induct)
  case (1 r c d ch)
  show ?case
  proof (cases "supersession_links r c")
    case Nil
    with 1(2,3) show ?thesis
      by (subst (asm) lineage_loop.simps) (auto simp: supersession_links_def)
  next
    case (Cons l ls)
    note links = Cons [unfolded supersession_links_def]
    have rep: "replaces r c (cl_target_id l)"
      using Cons by (simp add: replaces_def)
    show ?thesis
    proof (cases "d = 50")
      case True
      with 1(2) links have "ch' = ch @ [cl_target_id l]" "d' = Suc d"
        by (subst (asm) lineage_loop.simps, simp)+
      with True rep show ?thesis
        by (intro exI [of _ "[cl_target_id l]"]) simp
    next
      case False
      with 1(2,3) links have "lineage_loop r (cl_target_id l) (Suc d) (ch @ [cl_target_id l]) = (d', ch')"
        by (subst (asm) lineage_loop.simps) (simp add: Let_def)
      from 1(1) [OF links refl refl refl _ this] False 1(3) obtain ext where
        "ch' = (ch @ [cl_target_id l]) @ ext" "d' = Suc d + length ext" "d' \<le> 51"
        "successively (replaces r) (cl_target_id l # ext)"
        "d' \<le> 50 \<longrightarrow> supersession_links r (last (cl_target_id l # ext)) = []"
        by auto
      with rep show ?thesis
        by (intro exI [of _ "cl_target_id l # ext"]) (auto simp: successively_Cons)
    qed
  qed
qed

section \<open>Properties\<close>

text \<open>C1: In every state the graph service can reach, each object is stored under its own id with a
  label, a domain, a confidence that is a number between 0 and 1 or NaN (the guard compares with
  \<open>< 0.0\<close> and \<open>> 1.0\<close>, and both are false of NaN) and a non-empty audit trail, and each link joins
  two different stored objects and carries the planes they are on.\<close>

theorem service_invariant:
  assumes "svc_reach reg s"
  shows "graph_inv (gs_repo s)"
  using assms by (rule svc_reach_inv)

definition sample_service :: "unit graph_service" where
  "sample_service = snd (gs_create_object ''o'' 0 ''t'' sample_create ''ops'' True
     (new_graph_service new_registry))"

lemma sample_service_reach: "svc_reach new_registry sample_service"
  unfolding sample_service_def
  by (rule reach_step [OF reach_new svc_create])
    (simp add: new_graph_service_def gs_get_object_def new_repo_def get_object_def)

lemma sample_service_get: "gs_get_object sample_service ''o'' = Some
   ((sample_object ''o'')\<lparr>co_state := CS_ACTIVE,
      co_audit_trail := [audit_of ''ops'' ''created'' 0, audit_of ''ops'' ''activated'' 0]\<rparr>)"
  by code_simp

theorem service_invariant_witness:
  "graph_inv (gs_repo sample_service)"
  by (rule service_invariant [OF sample_service_reach])

text \<open>The NaN of the invariant is reachable: \<open>create_object\<close> stores an object whose confidence is
  NaN, and no check that compares the confidence with a minimum stops it later.\<close>

theorem nan_confidence_stored:
  "map_option co_confidence
     (gs_get_object (snd (gs_create_object ''n'' 0 ''t'' (sample_create\<lparr>cc_confidence := NaN\<rparr>) ''ops'' True
        (new_graph_service new_registry))) ''n'') = Some NaN \<and>
   \<not> pf_less NaN (Fin q)"
  by (intro conjI; (code_simp | simp))

text \<open>C2: No operation of the service ever drops an object: whatever is stored stays stored under its
  id, as the same object moved along its lifecycle, with its evidence and trail extended.\<close>

theorem objects_persist:
  assumes "svc_reach reg s" and "svc_step\<^sup>*\<^sup>* s s'" and "gs_get_object s i = Some a"
  shows "\<exists>b. gs_get_object s' i = Some b \<and> lifecycle_ok a b"
  using svc_steps_object [OF assms(2) svc_reach_inv [OF assms(1)] assms(3)] .

text \<open>A second state: the sample object frozen.\<close>

definition sample_frozen :: "unit graph_service" where
  "sample_frozen = snd (gs_freeze_object 1 ''o'' ''ops'' sample_service)"

lemma sample_frozen_steps: "svc_step\<^sup>*\<^sup>* sample_service sample_frozen"
  unfolding sample_frozen_def by (rule r_into_rtranclp) (rule svc_freeze)

theorem objects_persist_witness:
  "\<exists>b. gs_get_object sample_frozen ''o'' = Some b \<and> co_tenant_id b = ''t''"
  using objects_persist [OF sample_service_reach sample_frozen_steps sample_service_get]
  by (auto simp: lifecycle_ok_def same_identity_def sample_object_def sample_create_def
      build_control_object_def blank_iff py_space_def)

text \<open>The audit log of the service is append-only: no operation removes or rewrites an event, and
  none changes the set of listeners.\<close>

theorem audit_log_append_only:
  assumes "svc_step\<^sup>*\<^sup>* s s'"
  shows "(\<exists>es. fh_events (gs_audit s') = fh_events (gs_audit s) @ es) \<and>
    fh_listeners (gs_audit s') = fh_listeners (gs_audit s)"
  using svc_steps_log [OF assms] by (simp add: extends_log_def)

theorem audit_log_append_only_witness:
  "\<exists>es. fh_events (gs_audit sample_frozen) = fh_events (gs_audit sample_service) @ es"
  using audit_log_append_only [OF sample_frozen_steps] by blast


text \<open>Two objects of a tenant that contradict each other, one of them linked to another tenant's
  object.\<close>

definition sample_link :: "uuid \<Rightarrow> uuid \<Rightarrow> control_link_create" where
  "sample_link a b =
     \<lparr>lc_source_id = a, lc_target_id = b, lc_link_type = LT_CONTRADICTS, lc_weight = 1,
      lc_confidence = 1, lc_evidence = [], lc_metadata = []\<rparr>"

definition sample_pair :: "unit graph_service" where
  "sample_pair =
     snd (gs_create_link ''l'' 2 ''t'' (sample_link ''a'' ''b'')
       (snd (gs_create_object ''b'' 1 ''t'' sample_create ''ops'' True
         (snd (gs_create_object ''a'' 0 ''t'' sample_create ''ops'' True
           (new_graph_service new_registry))))))"

definition sample_shared :: "unit graph_service" where
  "sample_shared =
     snd (gs_create_link ''m'' 4 ''t'' (sample_link ''a'' ''x'')
       (snd (gs_create_object ''x'' 3 ''u'' sample_create ''ops'' True sample_pair)))"

lemma sample_pair_reach: "svc_reach new_registry sample_pair"
  unfolding sample_pair_def
  by (intro reach_step [OF _ svc_link] reach_step [OF _ svc_create] reach_new; code_simp)

lemma sample_shared_reach: "svc_reach new_registry sample_shared"
  unfolding sample_shared_def
  by (intro reach_step [OF _ svc_link] reach_step [OF _ svc_create] sample_pair_reach; code_simp)

lemma sample_objects:
  "map co_id (list_objects (gs_repo sample_pair) ''t'' None None None None) = [''a'', ''b'']"
  "map co_id (list_objects (gs_repo sample_shared) ''t'' None None None None) = [''a'', ''b'']"
  by code_simp+

lemma sample_links:
  "map (\<lambda>l. (cl_id l, cl_source_id l, cl_target_id l, cl_link_type l))
     (get_all_links (gs_repo sample_pair) ''t'') = [(''l'', ''a'', ''b'', LT_CONTRADICTS)]"
  "map (\<lambda>l. (cl_id l, cl_source_id l, cl_target_id l, cl_link_type l))
     (get_all_links (gs_repo sample_shared) ''t'') =
     [(''l'', ''a'', ''b'', LT_CONTRADICTS), (''m'', ''a'', ''x'', LT_CONTRADICTS)]"
  by code_simp+

lemma whole_view:
  assumes "svc_reach reg s"
  shows "co_id ` viewed (gs_repo s) tid None =
      set (map co_id (list_objects (gs_repo s) tid None None None None))"
    and "(\<lambda>l. (cl_id l, cl_source_id l, cl_target_id l, cl_link_type l)) ` checked (gs_repo s) tid None =
      set (map (\<lambda>l. (cl_id l, cl_source_id l, cl_target_id l, cl_link_type l))
        (get_all_links (gs_repo s) tid))"
  using svc_reach_inv [OF assms]
  by (auto simp: graph_inv_def set_list_objects set_get_all_links viewed_def checked_def)

lemma image_pairs:
  assumes "(\<lambda>l. (cl_id l, cl_source_id l, cl_target_id l, cl_link_type l)) ` ls = X"
  shows "cl_source_id ` ls = (\<lambda>(i, a, b, t). a) ` X" and "cl_target_id ` ls = (\<lambda>(i, a, b, t). b) ` X"
    and "(i, a, b, t) \<in> X \<Longrightarrow> \<exists>l \<in> ls. cl_id l = i \<and> cl_source_id l = a \<and> cl_target_id l = b \<and> cl_link_type l = t"
  using assms by (auto simp: image_image)


text \<open>C7: The lineage walk always returns; its depth is the length of the derivation chain and at most
  51; each version in the chain is the target of a supersession link of the one before it, and the
  walk stops before the limit only where no supersession link is left.\<close>

theorem lineage_bounded_chain:
  "case gs_get_lineage s i of
     None \<Rightarrow> gs_get_object s i = None
   | Some lin \<Rightarrow>
       ln_depth lin = length (ln_derivation_chain lin) \<and> ln_depth lin \<le> 51 \<and>
       successively (replaces (gs_repo s)) (i # ln_derivation_chain lin) \<and>
       (ln_depth lin = 51 \<or>
        supersession_links (gs_repo s) (last (i # ln_derivation_chain lin)) = [])"
proof (cases "gs_get_object s i")
  case None
  then show ?thesis by (simp add: gs_get_lineage_def)
next
  case (Some ob)
  obtain d ch where l: "lineage_loop (gs_repo s) i 0 [] = (d, ch)" by fastforce
  have walk: "d = length ch \<and> d \<le> 51 \<and> successively (replaces (gs_repo s)) (i # ch) \<and>
      (d = 51 \<or> supersession_links (gs_repo s) (last (i # ch)) = [])"
    using lineage_loop_spec [OF l] by auto
  have lin: "gs_get_lineage s i = Some
      \<lparr>ln_object_id = i, ln_derived_from = co_derived_from ob,
       ln_supersedes = map cl_target_id (supersession_links (gs_repo s) i),
       ln_superseded_by = co_superseded_by ob, ln_derivation_chain = ch, ln_depth = d\<rparr>"
    using Some l by (simp add: gs_get_lineage_def supersession_links_def)
  show ?thesis
    unfolding lin option.case control_object_lineage.simps by (rule walk)
qed

end
