(* ===== verification/W2_Types.thy ===== *)
theory W2_Types
  imports Graph_Service_Props Py_Float
begin

text \<open>
  The constructs of the graph-wide reconciliation, \<^verbatim>\<open>app/core/reconciliation/domain_types.py\<close>:
  mismatches, candidates and their rankings, coverage and evidence results, outcomes, cases and
  runs, with the hashes of an outcome and of a run. Identifiers that nothing reads back (those of
  candidates, outcomes and evidence bundles) are not kept. SHA-256 over canonical JSON is the
  argument \<open>hash\<close>.
\<close>

section \<open>Enumerations\<close>

datatype outcome_type =
    OC_FULLY_RECONCILED | OC_CANDIDATE_MATCH | OC_MISMATCH_DETECTED | OC_DUPLICATE_DETECTED
  | OC_COVERAGE_GAP | OC_DISPUTED | OC_INSUFFICIENT_EVIDENCE

fun outcome_type_value :: "outcome_type \<Rightarrow> string" where
  "outcome_type_value OC_FULLY_RECONCILED = ''fully-reconciled''"
| "outcome_type_value OC_CANDIDATE_MATCH = ''candidate-match''"
| "outcome_type_value OC_MISMATCH_DETECTED = ''mismatch-detected''"
| "outcome_type_value OC_DUPLICATE_DETECTED = ''duplicate-detected''"
| "outcome_type_value OC_COVERAGE_GAP = ''coverage-gap''"
| "outcome_type_value OC_DISPUTED = ''disputed''"
| "outcome_type_value OC_INSUFFICIENT_EVIDENCE = ''insufficient-evidence''"

datatype run_status = RUN_PENDING | RUN_IN_PROGRESS | RUN_COMPLETED | RUN_FAILED

datatype w2_case_status =
  WC_OPEN | WC_INVESTIGATING | WC_CONFIRMED | WC_RESOLVED | WC_ESCALATED | WC_CLOSED

datatype case_priority = CP_CRITICAL | CP_HIGH | CP_MEDIUM | CP_LOW

fun case_priority_value :: "case_priority \<Rightarrow> string" where
  "case_priority_value CP_CRITICAL = ''critical''"
| "case_priority_value CP_HIGH = ''high''"
| "case_priority_value CP_MEDIUM = ''medium''"
| "case_priority_value CP_LOW = ''low''"

datatype recon_determinism = RD_FULLY_DETERMINISTIC | RD_RULE_DRIVEN | RD_THRESHOLD_BASED

datatype cross_plane_category =
    CC_MISSING_IN_COMMERCIAL | CC_MISSING_IN_FIELD | CC_MISSING_IN_SERVICE | CC_IDENTIFIER_CONFLICT
  | CC_STATE_CONFLICT | CC_QUANTITY_CONFLICT | CC_COST_CONFLICT | CC_SERVICE_PRESENCE_CONFLICT
  | CC_CHRONOLOGY_CONFLICT | CC_UNSUPPORTED_LINKAGE | CC_DUPLICATE_CANDIDATE
  | CC_EVIDENCE_INSUFFICIENT

fun category_value2 :: "cross_plane_category \<Rightarrow> string" where
  "category_value2 CC_MISSING_IN_COMMERCIAL = ''missing-in-commercial''"
| "category_value2 CC_MISSING_IN_FIELD = ''missing-in-field''"
| "category_value2 CC_MISSING_IN_SERVICE = ''missing-in-service''"
| "category_value2 CC_IDENTIFIER_CONFLICT = ''identifier-conflict''"
| "category_value2 CC_STATE_CONFLICT = ''state-conflict''"
| "category_value2 CC_QUANTITY_CONFLICT = ''quantity-conflict''"
| "category_value2 CC_COST_CONFLICT = ''cost-conflict''"
| "category_value2 CC_SERVICE_PRESENCE_CONFLICT = ''service-presence-conflict''"
| "category_value2 CC_CHRONOLOGY_CONFLICT = ''chronology-conflict''"
| "category_value2 CC_UNSUPPORTED_LINKAGE = ''unsupported-linkage''"
| "category_value2 CC_DUPLICATE_CANDIDATE = ''duplicate-candidate''"
| "category_value2 CC_EVIDENCE_INSUFFICIENT = ''evidence-insufficient''"

text \<open>\<open>MISSING_CATEGORY_BY_PLANE\<close>, which has an entry for every plane.\<close>

fun missing_category_by_plane :: "plane_type \<Rightarrow> cross_plane_category" where
  "missing_category_by_plane COMMERCIAL = CC_MISSING_IN_COMMERCIAL"
| "missing_category_by_plane FIELD = CC_MISSING_IN_FIELD"
| "missing_category_by_plane SERVICE = CC_MISSING_IN_SERVICE"

datatype scope_type =
    SC_BY_OBJECT_ID | SC_BY_GRAPH_SLICE | SC_BY_CORRELATION_KEY | SC_BY_PLANE_COMBINATION
  | SC_BY_OBJECT_KIND | SC_BY_EXPLICIT_TARGETS

fun scope_type_value :: "scope_type \<Rightarrow> string" where
  "scope_type_value SC_BY_OBJECT_ID = ''by-object-id''"
| "scope_type_value SC_BY_GRAPH_SLICE = ''by-graph-slice''"
| "scope_type_value SC_BY_CORRELATION_KEY = ''by-correlation-key''"
| "scope_type_value SC_BY_PLANE_COMBINATION = ''by-plane-combination''"
| "scope_type_value SC_BY_OBJECT_KIND = ''by-object-kind''"
| "scope_type_value SC_BY_EXPLICIT_TARGETS = ''by-explicit-targets''"

section \<open>Scope, target, mismatch\<close>

record recon_scope =
  rsc_scope_type :: scope_type
  rsc_planes :: "plane_type list"
  rsc_domains :: "string list"
  rsc_object_kinds :: "string list"
  rsc_tenant_id :: uuid

record recon_target =
  rt_object_ids :: "uuid list"
  rt_correlation_keys :: "(string, string) dict"
  rt_graph_slice_root_ids :: "uuid list"
  rt_plane_combination :: "plane_type list"
  rt_object_kind_filter :: "string list"

record w2_evidence_bundle =
  wb_evidence_refs :: "evidence_ref list"
  wb_source_object_ids :: "uuid list"
  wb_target_object_ids :: "uuid list"
  wb_link_ids :: "uuid list"

text \<open>An expected or actual value: absent, a payload value, or a float a rule computed.\<close>

datatype any_value = AV_None | AV_Json json | AV_Float pyfloat

fun av_str :: "any_value \<Rightarrow> string" where
  "av_str AV_None = ''None''"
| "av_str (AV_Json j) = py_str j"
| "av_str (AV_Float x) = pf_str x"

record w2_mismatch =
  mm_id :: uuid
  mm_category :: cross_plane_category
  mm_source_object_id :: "uuid option"
  mm_target_object_id :: "uuid option"
  mm_source_plane :: "plane_type option"
  mm_target_plane :: "plane_type option"
  mm_involved_link_ids :: "uuid list"
  mm_description :: string
  mm_expected_value :: any_value
  mm_actual_value :: any_value
  mm_deviation :: "pyfloat option"
  mm_evidence_refs :: "evidence_ref list"
  mm_rule_id :: "string option"
  mm_metadata :: "(string, any_value) dict"

text \<open>A mismatch with every optional field at its default.\<close>

definition w2_mismatch_of :: "uuid \<Rightarrow> cross_plane_category \<Rightarrow> string \<Rightarrow> w2_mismatch" where
  "w2_mismatch_of i cat text =
     \<lparr>mm_id = i, mm_category = cat, mm_source_object_id = None, mm_target_object_id = None,
      mm_source_plane = None, mm_target_plane = None, mm_involved_link_ids = [],
      mm_description = text, mm_expected_value = AV_None, mm_actual_value = AV_None,
      mm_deviation = None, mm_evidence_refs = [], mm_rule_id = None, mm_metadata = []\<rparr>"

definition json_opt :: "string option \<Rightarrow> json" where
  "json_opt v = (case v of None \<Rightarrow> JNull | Some s \<Rightarrow> JStr s)"

definition mm_to_hash_dict :: "w2_mismatch \<Rightarrow> json" where
  "mm_to_hash_dict m = JObj
     [(''category'', JStr (category_value2 (mm_category m))),
      (''source_object_id'', json_opt (mm_source_object_id m)),
      (''target_object_id'', json_opt (mm_target_object_id m)),
      (''expected_value'', JStr (av_str (mm_expected_value m))),
      (''actual_value'', JStr (av_str (mm_actual_value m))),
      (''rule_id'', json_opt (mm_rule_id m))]"

section \<open>Candidates\<close>

record score_breakdown =
  sb_rule_scores :: "(string, rat) dict"
  sb_rule_explanations :: "(string, string) dict"
  sb_weighted_total :: rat
  sb_max_possible :: rat

definition new_score_breakdown :: score_breakdown where
  "new_score_breakdown =
     \<lparr>sb_rule_scores = [], sb_rule_explanations = [], sb_weighted_total = 0, sb_max_possible = 0\<rparr>"

definition normalized_score :: "score_breakdown \<Rightarrow> rat" where
  "normalized_score b =
     (if sb_max_possible b \<le> 0 then 0 else min (fl (sb_weighted_total b / sb_max_possible b)) 1)"

record match_candidate =
  mc_source_object_id :: uuid
  mc_target_object_id :: uuid
  mc_source_plane :: plane_type
  mc_target_plane :: plane_type
  mc_score :: rat
  mc_score_breakdown :: score_breakdown
  mc_match_method :: string
  mc_confidence :: rat
  mc_evidence_refs :: "evidence_ref list"
  mc_mismatches :: "w2_mismatch list"
  mc_metadata :: "(string, string) dict"

record candidate_ranking =
  cr2_source_object_id :: uuid
  cr2_ranked_candidates :: "match_candidate list"
  cr2_top_score :: rat
  cr2_is_ambiguous :: bool
  cr2_ambiguity_gap :: rat

record duplicate_set =
  ds_source_object_id :: uuid
  ds_duplicate_target_ids :: "uuid list"
  ds_scores :: "rat list"
  ds_description :: string

section \<open>Coverage and evidence\<close>

record coverage_gap =
  cg_plane :: plane_type
  cg_expected_object_kind :: string
  cg_expected_count :: int
  cg_actual_count :: int
  cg_missing_count :: int
  cg_description :: string

definition coverage_ratio :: "coverage_gap \<Rightarrow> rat" where
  "coverage_ratio g =
     (if cg_expected_count g \<le> 0 then 1
      else fl (of_int (cg_actual_count g) / of_int (cg_expected_count g)))"

record plane_coverage =
  px_plane :: plane_type
  px_expected_object_kinds :: "string list"
  px_min_objects_per_kind :: "(string, int) dict"
  px_require_cross_plane_links :: bool

record coverage_result =
  cv_expectations :: "plane_coverage list"
  cv_gaps :: "coverage_gap list"
  cv_is_fully_covered :: bool

record evidence_result =
  ev_object_id :: uuid
  ev_is_sufficient :: bool
  ev_required_evidence_types :: "string list"
  ev_present_evidence_types :: "string list"
  ev_missing_evidence_types :: "string list"

section \<open>Outcomes, cases, runs\<close>

record recon_outcome =
  oc_outcome_type :: outcome_type
  oc_source_object_id :: "uuid option"
  oc_target_object_id :: "uuid option"
  oc_candidate :: "match_candidate option"
  oc_mismatches :: "w2_mismatch list"
  oc_coverage_gap :: "coverage_gap option"
  oc_evidence_bundle :: w2_evidence_bundle
  oc_confidence :: rat
  oc_hash :: string
  oc_metadata :: "(string, json) dict"

text \<open>An outcome of a type with every other field at its default.\<close>

definition outcome_of :: "outcome_type \<Rightarrow> recon_outcome" where
  "outcome_of ty =
     \<lparr>oc_outcome_type = ty, oc_source_object_id = None, oc_target_object_id = None,
      oc_candidate = None, oc_mismatches = [], oc_coverage_gap = None,
      oc_evidence_bundle = \<lparr>wb_evidence_refs = [], wb_source_object_ids = [],
        wb_target_object_ids = [], wb_link_ids = []\<rparr>,
      oc_confidence = 0, oc_hash = [], oc_metadata = []\<rparr>"

definition oc_compute_hash :: "(json \<Rightarrow> string) \<Rightarrow> recon_outcome \<Rightarrow> recon_outcome" where
  "oc_compute_hash hash o1 =
     (let data = JObj
        [(''outcome_type'', JStr (outcome_type_value (oc_outcome_type o1))),
         (''source_object_id'', json_opt (oc_source_object_id o1)),
         (''target_object_id'', json_opt (oc_target_object_id o1)),
         (''mismatches'', JList (map mm_to_hash_dict (oc_mismatches o1)))]
      in o1\<lparr>oc_hash := hash data\<rparr>)"

record w2_case =
  wc_id :: uuid
  wc_run_id :: uuid
  wc_tenant_id :: uuid
  wc_status :: w2_case_status
  wc_priority :: case_priority
  wc_outcome :: recon_outcome
  wc_involved_object_ids :: "uuid list"
  wc_involved_planes :: "plane_type list"
  wc_domain :: string
  wc_description :: string
  wc_created_at :: time
  wc_updated_at :: time

record w2_summary =
  su_run_id :: uuid
  su_tenant_id :: uuid
  su_total_objects_evaluated :: nat
  su_total_candidates_generated :: nat
  su_total_matches :: nat
  su_total_mismatches :: nat
  su_total_duplicates :: nat
  su_total_coverage_gaps :: nat
  su_total_insufficient_evidence :: nat
  su_total_cases_created :: nat
  su_outcome_counts :: "(string, nat) dict"
  su_planes_reconciled :: "plane_type list"
  su_domains_reconciled :: "string list"

record rule_trace =
  tr_rule_id :: string
  tr_category :: string
  tr_source_object_id :: string
  tr_target_object_id :: string
  tr_score_contribution :: rat
  tr_applied :: bool

record recon_decision_trace =
  dt2_run_id :: uuid
  dt2_rule_traces :: "rule_trace list"
  dt2_candidate_count :: nat
  dt2_mismatch_count :: nat
  dt2_outcome_count :: nat
  dt2_determinism_level :: recon_determinism
  dt2_timestamp :: time

record w2_run =
  wu_id :: uuid
  wu_tenant_id :: uuid
  wu_scope :: recon_scope
  wu_target :: recon_target
  wu_status :: run_status
  wu_determinism_level :: recon_determinism
  wu_outcomes :: "recon_outcome list"
  wu_cases :: "w2_case list"
  wu_summary :: "w2_summary option"
  wu_decision_trace :: "recon_decision_trace option"
  wu_run_hash :: string
  wu_started_at :: time
  wu_completed_at :: "time option"

definition wu_compute_run_hash :: "(json \<Rightarrow> string) \<Rightarrow> w2_run \<Rightarrow> w2_run" where
  "wu_compute_run_hash hash r =
     (let data = JObj
        [(''run_id'', JStr (wu_id r)),
         (''tenant_id'', JStr (wu_tenant_id r)),
         (''scope_type'', JStr (scope_type_value (rsc_scope_type (wu_scope r)))),
         (''planes'', JList (map (\<lambda>p. JStr (plane_value p)) (rsc_planes (wu_scope r)))),
         (''outcomes'', JList (map (\<lambda>o1. JObj
            [(''outcome_type'', JStr (outcome_type_value (oc_outcome_type o1))),
             (''hash'', JStr (oc_hash o1)),
             (''mismatches'', JList (map mm_to_hash_dict (oc_mismatches o1)))]) (wu_outcomes r)))]
      in r\<lparr>wu_run_hash := hash data\<rparr>)"

record assembly_input =
  ai_candidates :: "match_candidate list"
  ai_rankings :: "candidate_ranking list"
  ai_duplicates :: "duplicate_set list"
  ai_coverage_result :: "coverage_result option"
  ai_evidence_results :: "evidence_result list"
  ai_mismatches :: "w2_mismatch list"

record recon_request =
  rq_tenant_id :: uuid
  rq_scope :: recon_scope
  rq_target :: recon_target
  rq_match_threshold :: rat
  rq_duplicate_threshold :: rat
  rq_coverage_expectations :: "plane_coverage list"

record recon_plan =
  pn_run_id :: uuid
  pn_scope :: recon_scope
  pn_target :: recon_target
  pn_planes_to_reconcile :: "plane_type list"
  pn_rule_ids_to_apply :: "string list"
  pn_match_threshold :: rat
  pn_duplicate_threshold :: rat
  pn_coverage_expectations :: "plane_coverage list"

record recon_execution_result =
  xe_run :: w2_run
  xe_cases :: "w2_case list"
  xe_summary :: w2_summary
  xe_plan :: recon_plan

end
