(* ===== verification/W2_Rules.thy ===== *)
theory W2_Rules
  imports W2_Types
begin

text \<open>
  The rule model of the graph-wide reconciliation, \<^verbatim>\<open>app/core/reconciliation/rule_model.py\<close>: the
  applicability test, the nine built-in rules and their registry. A rule is a record of its class
  attributes and its \<open>evaluate\<close> method. The method takes the identifier its mismatch would draw; it
  may raise, because \<open>float\<close> of a huge integer raises an \<open>OverflowError\<close> no rule catches. A score is
  a float, so each arithmetic operation rounds with \<open>fl\<close>.
\<close>

section \<open>Rules and their applicability\<close>

datatype recon_rule_category =
    RC_IDENTITY_CORRELATION | RC_EXTERNAL_REFERENCE_CORRELATION | RC_TOPOLOGY_LINKAGE
  | RC_STATE_ALIGNMENT | RC_QUANTITY_ALIGNMENT | RC_COST_ALIGNMENT | RC_CHRONOLOGY_ALIGNMENT
  | RC_COVERAGE_EXPECTATION | RC_EVIDENCE_SUFFICIENCY

fun recon_rule_category_value :: "recon_rule_category \<Rightarrow> string" where
  "recon_rule_category_value RC_IDENTITY_CORRELATION = ''identity-correlation''"
| "recon_rule_category_value RC_EXTERNAL_REFERENCE_CORRELATION = ''external-reference-correlation''"
| "recon_rule_category_value RC_TOPOLOGY_LINKAGE = ''topology-linkage''"
| "recon_rule_category_value RC_STATE_ALIGNMENT = ''state-alignment''"
| "recon_rule_category_value RC_QUANTITY_ALIGNMENT = ''quantity-alignment''"
| "recon_rule_category_value RC_COST_ALIGNMENT = ''cost-alignment''"
| "recon_rule_category_value RC_CHRONOLOGY_ALIGNMENT = ''chronology-alignment''"
| "recon_rule_category_value RC_COVERAGE_EXPECTATION = ''coverage-expectation''"
| "recon_rule_category_value RC_EVIDENCE_SUFFICIENCY = ''evidence-sufficiency''"

record w2_rule_weight =
  rwt_weight :: rat
  rwt_is_hard_fail :: bool
  rwt_required_for_match :: bool

record w2_applicability =
  wa_applicable_planes :: "plane_type list"
  wa_applicable_object_types :: "control_object_type list"
  wa_applicable_object_kinds :: "string list"
  wa_applicable_link_types :: "control_link_type list"
  wa_requires_cross_plane :: bool

definition w2_applicability_of :: "bool \<Rightarrow> w2_applicability" where
  "w2_applicability_of cross =
     \<lparr>wa_applicable_planes = [], wa_applicable_object_types = [], wa_applicable_object_kinds = [],
      wa_applicable_link_types = [], wa_requires_cross_plane = cross\<rparr>"

definition wa_matches_planes :: "w2_applicability \<Rightarrow> plane_type \<Rightarrow> plane_type \<Rightarrow> bool" where
  "wa_matches_planes a source_plane target_plane =
     (if wa_applicable_planes a = [] then True
      else source_plane \<in> set (wa_applicable_planes a) \<or> target_plane \<in> set (wa_applicable_planes a))"

definition wa_matches_object :: "w2_applicability \<Rightarrow> control_object \<Rightarrow> bool" where
  "wa_matches_object a obj =
     (if wa_applicable_object_types a \<noteq> [] \<and> co_object_type obj \<notin> set (wa_applicable_object_types a)
      then False
      else if wa_applicable_object_kinds a \<noteq> [] \<and> co_object_kind obj \<notin> set (wa_applicable_object_kinds a)
      then False
      else True)"

definition wa_is_applicable :: "w2_applicability \<Rightarrow> control_object \<Rightarrow> control_object \<Rightarrow> bool" where
  "wa_is_applicable a source target =
     (if \<not> wa_matches_planes a (co_plane source) (co_plane target) then False
      else if wa_requires_cross_plane a \<and> co_plane source = co_plane target then False
      else if wa_applicable_object_types a \<noteq> [] \<and>
        co_object_type source \<notin> set (wa_applicable_object_types a) \<and>
        co_object_type target \<notin> set (wa_applicable_object_types a) then False
      else True)"

record rule_explanation =
  xp_rule_id :: string
  xp_description :: string
  xp_score_contribution :: rat
  xp_matched :: bool
  xp_hard_fail :: bool
  xp_details :: "(string, json) dict"

record w2_rule_result =
  wr_rule_id :: string
  wr_score_contribution :: rat
  wr_matched :: bool
  wr_hard_fail :: bool
  wr_mismatches :: "w2_mismatch list"
  wr_explanation :: "rule_explanation option"
  wr_required_evidence :: "string list"

record w2_rule =
  wl_rule_id :: string
  wl_rule_version :: int
  wl_category :: recon_rule_category
  wl_weight :: w2_rule_weight
  wl_applicability :: w2_applicability
  wl_evaluate :: "uuid \<Rightarrow> control_object \<Rightarrow> control_object \<Rightarrow> control_link list
                   \<Rightarrow> conversion_error + w2_rule_result"

definition wl_is_applicable :: "w2_rule \<Rightarrow> control_object \<Rightarrow> control_object \<Rightarrow> bool" where
  "wl_is_applicable rule source target = wa_is_applicable (wl_applicability rule) source target"

text \<open>The two results every rule builds: a match with its score, and no match.\<close>

definition matched_result :: "string \<Rightarrow> rat \<Rightarrow> string \<Rightarrow> (string, json) dict \<Rightarrow> w2_rule_result" where
  "matched_result rule_id score text details =
     \<lparr>wr_rule_id = rule_id, wr_score_contribution = score, wr_matched = True, wr_hard_fail = False,
      wr_mismatches = [],
      wr_explanation = Some \<lparr>xp_rule_id = rule_id, xp_description = text,
        xp_score_contribution = score, xp_matched = True, xp_hard_fail = False, xp_details = details\<rparr>,
      wr_required_evidence = []\<rparr>"

definition unmatched_result :: "string \<Rightarrow> string \<Rightarrow> w2_mismatch list \<Rightarrow> w2_rule_result" where
  "unmatched_result rule_id text mismatches =
     \<lparr>wr_rule_id = rule_id, wr_score_contribution = 0, wr_matched = False, wr_hard_fail = False,
      wr_mismatches = mismatches,
      wr_explanation = Some \<lparr>xp_rule_id = rule_id, xp_description = text,
        xp_score_contribution = 0, xp_matched = False, xp_hard_fail = False, xp_details = []\<rparr>,
      wr_required_evidence = []\<rparr>"

text \<open>A mismatch between two objects, found by a rule.\<close>

definition pair_mismatch ::
  "uuid \<Rightarrow> string \<Rightarrow> cross_plane_category \<Rightarrow> control_object \<Rightarrow> control_object \<Rightarrow> string \<Rightarrow> w2_mismatch" where
  "pair_mismatch i rule_id cat source target text =
     (w2_mismatch_of i cat text)\<lparr>mm_source_object_id := Some (co_id source),
        mm_target_object_id := Some (co_id target), mm_source_plane := Some (co_plane source),
        mm_target_plane := Some (co_plane target), mm_rule_id := Some rule_id\<rparr>"

definition w2_rule_of ::
  "recon_rule_category \<Rightarrow> rat \<Rightarrow> bool \<Rightarrow> bool
     \<Rightarrow> (uuid \<Rightarrow> control_object \<Rightarrow> control_object \<Rightarrow> control_link list
           \<Rightarrow> conversion_error + w2_rule_result) \<Rightarrow> w2_rule" where
  "w2_rule_of cat weight required cross evaluate =
     \<lparr>wl_rule_id = recon_rule_category_value cat, wl_rule_version = 1, wl_category = cat,
      wl_weight = \<lparr>rwt_weight = weight, rwt_is_hard_fail = False, rwt_required_for_match = required\<rparr>,
      wl_applicability = w2_applicability_of cross, wl_evaluate = evaluate\<rparr>"

definition str_list :: "string list \<Rightarrow> string" where
  "str_list xs = py_repr (JList (map JStr xs))"

section \<open>The correlation rules\<close>

definition matching_keys :: "(string, string) dict \<Rightarrow> (string, string) dict \<Rightarrow> string list" where
  "matching_keys source target =
     map fst (filter (\<lambda>(key, val). dget target key = Some val \<and> val \<noteq> []) source)"

definition identity_correlation_rule :: w2_rule where
  "identity_correlation_rule =
     w2_rule_of RC_IDENTITY_CORRELATION 2 True True (\<lambda>i source target links.
       let keys = matching_keys (co_correlation_keys source) (co_correlation_keys target)
       in Inr (if keys \<noteq> []
          then let score = min (fl (of_nat (length keys) * (1/2))) 1
               in matched_result ''identity-correlation'' (fl (score * 2))
                    (''Matched on correlation keys: '' @ str_list keys)
                    [(''matching_keys'', JList (map JStr keys))]
          else unmatched_result ''identity-correlation'' ''No matching correlation keys found'' []))"

definition external_reference_rule :: w2_rule where
  "external_reference_rule =
     w2_rule_of RC_EXTERNAL_REFERENCE_CORRELATION (3/2) False False (\<lambda>i source target links.
       let refs = matching_keys (co_external_refs source) (co_external_refs target)
       in Inr (if refs \<noteq> []
          then let score = min (fl (of_nat (length refs) * fl (4/10))) 1
               in matched_result ''external-reference-correlation'' (fl (score * (3/2)))
                    (''Matched on external refs: '' @ str_list refs)
                    [(''matching_refs'', JList (map JStr refs))]
          else unmatched_result ''external-reference-correlation''
            ''No matching external references'' []))"

section \<open>The topology rule\<close>

fun scoring_link_type :: "control_link_type \<Rightarrow> rat" where
  "scoring_link_type LT_CORRELATES_WITH = fl (8/10)"
| "scoring_link_type LT_FULFILLS = fl (9/10)"
| "scoring_link_type LT_BILLS_FOR = fl (9/10)"
| "scoring_link_type LT_DERIVES_FROM = fl (6/10)"
| "scoring_link_type LT_EVIDENCES = 1/2"
| "scoring_link_type LT_IMPLEMENTS = fl (7/10)"
| "scoring_link_type _ = fl (3/10)"

definition links_between :: "control_object \<Rightarrow> control_object \<Rightarrow> control_link list \<Rightarrow> control_link list" where
  "links_between source target links =
     filter (\<lambda>l. (cl_source_id l = co_id source \<and> cl_target_id l = co_id target) \<or>
                 (cl_source_id l = co_id target \<and> cl_target_id l = co_id source)) links"

definition topology_linkage_rule :: w2_rule where
  "topology_linkage_rule =
     w2_rule_of RC_TOPOLOGY_LINKAGE (fl (18/10)) False False (\<lambda>i source target links.
       let relevant_links = links_between source target links;
           best_score = foldl (\<lambda>best l. max best (scoring_link_type (cl_link_type l))) 0 relevant_links;
           unsupported = filter (\<lambda>l. cl_link_type l \<in> {LT_CONTRADICTS, LT_BLOCKS}) relevant_links
       in Inr (if unsupported \<noteq> []
          then (unmatched_result ''topology-linkage'' ''Unsupported/contradicting linkage detected''
                 [(pair_mismatch i ''topology-linkage'' CC_UNSUPPORTED_LINKAGE source target
                     (''Unsupported linkage between '' @ co_label source @ '' and '' @ co_label target
                      @ '': '' @ str_list (map (\<lambda>l. link_type_value (cl_link_type l)) unsupported)))
                   \<lparr>mm_involved_link_ids := map cl_id unsupported\<rparr>])
               \<lparr>wr_hard_fail := True,
                wr_explanation := Some \<lparr>xp_rule_id = ''topology-linkage'',
                  xp_description = ''Unsupported/contradicting linkage detected'',
                  xp_score_contribution = 0, xp_matched = False, xp_hard_fail = True,
                  xp_details = []\<rparr>\<rparr>
          else if relevant_links \<noteq> []
          then matched_result ''topology-linkage'' (fl (best_score * fl (18/10)))
                 (''Found '' @ int_str (int (length relevant_links)) @ '' direct links'')
                 [(''link_count'', JInt (int (length relevant_links))),
                  (''link_types'', JList (map (\<lambda>l. JStr (link_type_value (cl_link_type l))) relevant_links))]
          else unmatched_result ''topology-linkage'' ''No direct graph links found'' []))"

section \<open>The alignment rules\<close>

definition state_alignment_rule :: w2_rule where
  "state_alignment_rule =
     w2_rule_of RC_STATE_ALIGNMENT 1 False True (\<lambda>i source target links.
       if co_state source = co_state target
       then Inr (matched_result ''state-alignment'' 1
              (''States aligned: '' @ state_value (co_state source)) [])
       else let src = dget_default (co_payload source) ''state'' (JStr (state_value (co_state source)));
                tgt = dget_default (co_payload target) ''state'' (JStr (state_value (co_state target)))
            in if \<not> py_eq src tgt
               then Inr (unmatched_result ''state-alignment''
                      (''State mismatch: '' @ py_str src @ '' vs '' @ py_str tgt)
                      [(pair_mismatch i ''state-alignment'' CC_STATE_CONFLICT source target
                          (''State conflict: '' @ co_label source @ '' is '' @ py_str src @ '', ''
                           @ co_label target @ '' is '' @ py_str tgt))
                        \<lparr>mm_expected_value := AV_Json src, mm_actual_value := AV_Json tgt\<rparr>])
               else Inr (matched_result ''state-alignment'' (1/2)
                      ''Lifecycle states differ but payload states align'' []))"

definition quantity_alignment_rule :: "string \<Rightarrow> rat \<Rightarrow> w2_rule" where
  "quantity_alignment_rule quantity_field tolerance =
     w2_rule_of RC_QUANTITY_ALIGNMENT (fl (12/10)) False False (\<lambda>i source target links.
       case (get_value (co_payload source) quantity_field, get_value (co_payload target) quantity_field) of
         (Some s, Some t) \<Rightarrow>
           (case float_pair s t of
              Inl e \<Rightarrow> Inl e
            | Inr None \<Rightarrow> Inr (unmatched_result ''quantity-alignment'' ''Quantity fields are not numeric'' [])
            | Inr (Some (s_val, t_val)) \<Rightarrow>
                let deviation = pf_abs (pf_sub s_val t_val)
                in Inr (if pf_le deviation (Fin tolerance)
                   then matched_result ''quantity-alignment'' (fl (12/10))
                          (''Quantities match: '' @ pf_str s_val @ '' == '' @ pf_str t_val) []
                   else unmatched_result ''quantity-alignment''
                          (''Quantity mismatch: deviation='' @ pf_str deviation)
                          [(pair_mismatch i ''quantity-alignment'' CC_QUANTITY_CONFLICT source target
                              (''Quantity conflict: '' @ pf_str s_val @ '' vs '' @ pf_str t_val))
                            \<lparr>mm_expected_value := AV_Float s_val, mm_actual_value := AV_Float t_val,
                             mm_deviation := Some deviation\<rparr>]))
       | _ \<Rightarrow> Inr (unmatched_result ''quantity-alignment''
                (''Quantity field '' @ [CHR 0x27] @ quantity_field @ [CHR 0x27]
                 @ '' not present on both objects'') []))"

definition cost_alignment_rule :: "string \<Rightarrow> rat \<Rightarrow> w2_rule" where
  "cost_alignment_rule cost_field threshold =
     w2_rule_of RC_COST_ALIGNMENT (3/2) False False (\<lambda>i source target links.
       case (get_value (co_payload source) cost_field, get_value (co_payload target) cost_field) of
         (Some s, Some t) \<Rightarrow>
           (case float_pair s t of
              Inl e \<Rightarrow> Inl e
            | Inr None \<Rightarrow> Inr (unmatched_result ''cost-alignment'' ''Cost fields are not numeric'' [])
            | Inr (Some (s_val, t_val)) \<Rightarrow>
                let deviation = pf_abs (pf_sub s_val t_val)
                in Inr (if pf_le deviation (Fin threshold)
                   then matched_result ''cost-alignment'' (3/2)
                          (''Costs aligned: '' @ pf_str s_val @ '' ~= '' @ pf_str t_val) []
                   else unmatched_result ''cost-alignment'' (''Cost deviation: '' @ pf_str deviation)
                          [(pair_mismatch i ''cost-alignment'' CC_COST_CONFLICT source target
                              (''Cost conflict: '' @ pf_str s_val @ '' vs '' @ pf_str t_val
                               @ '' (threshold: '' @ float_repr threshold @ '')''))
                            \<lparr>mm_expected_value := AV_Float s_val, mm_actual_value := AV_Float t_val,
                             mm_deviation := Some deviation,
                             mm_metadata := [(''financial_impact'', AV_Float deviation)]\<rparr>]))
       | _ \<Rightarrow> Inr (unmatched_result ''cost-alignment''
                (''Cost field '' @ [CHR 0x27] @ cost_field @ [CHR 0x27] @ '' not present on both objects'') []))"

definition chronology_alignment_rule :: "string \<Rightarrow> w2_rule" where
  "chronology_alignment_rule date_field =
     w2_rule_of RC_CHRONOLOGY_ALIGNMENT (fl (8/10)) False False (\<lambda>i source target links.
       case (get_value (co_payload source) date_field, get_value (co_payload target) date_field) of
         (Some s, Some t) \<Rightarrow>
           Inr (if py_str s = py_str t
                then matched_result ''chronology-alignment'' (fl (8/10)) (''Dates aligned: '' @ py_str s) []
                else unmatched_result ''chronology-alignment''
                       (''Date mismatch: '' @ py_str s @ '' vs '' @ py_str t)
                       [(pair_mismatch i ''chronology-alignment'' CC_CHRONOLOGY_CONFLICT source target
                           (''Chronology conflict: '' @ py_str s @ '' vs '' @ py_str t))
                         \<lparr>mm_expected_value := AV_Json (JStr (py_str s)),
                          mm_actual_value := AV_Json (JStr (py_str t))\<rparr>])
       | _ \<Rightarrow> Inr (unmatched_result ''chronology-alignment''
                (''Date field '' @ [CHR 0x27] @ date_field @ [CHR 0x27] @ '' not present on both objects'') []))"

section \<open>Coverage and evidence rules\<close>

definition coverage_expectation_rule :: w2_rule where
  "coverage_expectation_rule =
     w2_rule_of RC_COVERAGE_EXPECTATION 1 False False (\<lambda>i source target links.
       Inr (if list_ex (\<lambda>l. (cl_source_id l = co_id source \<or> cl_target_id l = co_id source) \<and>
                            is_cross_plane l) links
            then matched_result ''coverage-expectation'' 1 ''Cross-plane coverage present'' []
            else unmatched_result ''coverage-expectation''
                   ''No cross-plane coverage detected for source object'' []))"

definition cross_plane_evidence_rule :: "string list \<Rightarrow> w2_rule" where
  "cross_plane_evidence_rule required_types =
     w2_rule_of RC_EVIDENCE_SUFFICIENCY (fl (8/10)) False False (\<lambda>i source target links.
       let all_evidence = co_evidence source @ co_evidence target;
           present_types = map er_evidence_type all_evidence;
           missing = filter (\<lambda>t. t \<notin> set present_types) required_types
       in Inr
         (if required_types = []
          then (if all_evidence \<noteq> []
                then matched_result ''evidence-sufficiency'' (fl (8/10))
                       (''Evidence present: '' @ int_str (int (length all_evidence)) @ '' items'') []
                else unmatched_result ''evidence-sufficiency'' ''No evidence found on either object''
                       [pair_mismatch i ''evidence-sufficiency'' CC_EVIDENCE_INSUFFICIENT source target
                          (''No evidence attached to '' @ co_label source @ '' or '' @ co_label target)])
          else if missing \<noteq> []
          then (unmatched_result ''evidence-sufficiency'' (''Missing evidence: '' @ str_list missing)
                 [(pair_mismatch i ''evidence-sufficiency'' CC_EVIDENCE_INSUFFICIENT source target
                     (''Missing required evidence types: '' @ str_list missing))
                   \<lparr>mm_metadata := [(''missing_types'', AV_Json (JList (map JStr missing)))]\<rparr>])
               \<lparr>wr_required_evidence := missing\<rparr>
          else matched_result ''evidence-sufficiency'' (fl (8/10))
                 ''All required evidence types present'' []))"

section \<open>The registry\<close>

record w2_registry =
  wg_rules :: "(string, w2_rule) dict"
  wg_rule_sets :: "(string, string list) dict"

definition new_w2_registry :: w2_registry where
  "new_w2_registry = \<lparr>wg_rules = [], wg_rule_sets = []\<rparr>"

definition wg_register_rule :: "w2_rule \<Rightarrow> w2_registry \<Rightarrow> w2_registry" where
  "wg_register_rule rule g = g\<lparr>wg_rules := dput (wl_rule_id rule) rule (wg_rules g)\<rparr>"

definition wg_get_rule :: "w2_registry \<Rightarrow> string \<Rightarrow> w2_rule option" where
  "wg_get_rule g rule_id = dget (wg_rules g) rule_id"

definition wg_list_rules :: "w2_registry \<Rightarrow> w2_rule list" where
  "wg_list_rules g = dvalues (wg_rules g)"

definition wg_get_applicable_rules ::
  "w2_registry \<Rightarrow> control_object \<Rightarrow> control_object \<Rightarrow> w2_rule list" where
  "wg_get_applicable_rules g source target =
     filter (\<lambda>r. wl_is_applicable r source target) (dvalues (wg_rules g))"

definition wg_register_rule_set :: "string \<Rightarrow> string list \<Rightarrow> w2_registry \<Rightarrow> w2_registry" where
  "wg_register_rule_set name rule_ids g = g\<lparr>wg_rule_sets := dput name rule_ids (wg_rule_sets g)\<rparr>"

definition wg_get_rule_set :: "w2_registry \<Rightarrow> string \<Rightarrow> w2_rule list" where
  "wg_get_rule_set g name =
     List.map_filter (dget (wg_rules g)) (dget_default (wg_rule_sets g) name [])"

definition wg_rule_count :: "w2_registry \<Rightarrow> nat" where
  "wg_rule_count g = length (wg_rules g)"

definition default_wave2_rules :: "w2_rule list" where
  "default_wave2_rules =
     [identity_correlation_rule, external_reference_rule, topology_linkage_rule,
      state_alignment_rule, quantity_alignment_rule ''quantity'' 0,
      cost_alignment_rule ''cost'' (fl (1/100)), chronology_alignment_rule ''effective_date'',
      coverage_expectation_rule, cross_plane_evidence_rule []]"

definition build_default_rule_registry :: w2_registry where
  "build_default_rule_registry =
     wg_register_rule_set ''default-cross-plane'' (map wl_rule_id default_wave2_rules)
       (foldl (\<lambda>g rule. wg_register_rule rule g) new_w2_registry default_wave2_rules)"

end
