(* ===== verification/W2_Matching.thy ===== *)
theory W2_Matching
  imports W2_Rules
begin

text \<open>
  Matching and coverage, \<^verbatim>\<open>app/core/reconciliation/matching.py\<close> and \<^verbatim>\<open>coverage.py\<close>: candidates
  are generated from links, correlation keys and external references, scored by the applicable
  rules, ranked per source object, checked for duplicates, and assembled into outcomes together
  with the missing objects, identifier conflicts, coverage gaps and evidence results.
  A mismatch or case identifier is drawn by \<open>uuid.uuid4()\<close>; \<open>mint\<close> names each draw of a run by the
  place that makes it.
\<close>

datatype draw =
    D_Rule uuid uuid string | D_Missing_Source uuid | D_Missing_Target uuid
  | D_Conflict uuid uuid string | D_Duplicate uuid | D_Evidence uuid | D_Case nat

section \<open>Candidates\<close>

definition new_candidate :: "control_object \<Rightarrow> control_object \<Rightarrow> string \<Rightarrow> (string, string) dict \<Rightarrow> match_candidate" where
  "new_candidate src tgt how metadata =
     \<lparr>mc_source_object_id = co_id src, mc_target_object_id = co_id tgt, mc_source_plane = co_plane src,
      mc_target_plane = co_plane tgt, mc_score = 0, mc_score_breakdown = new_score_breakdown,
      mc_match_method = how, mc_confidence = 0, mc_evidence_refs = [], mc_mismatches = [],
      mc_metadata = metadata\<rparr>"

definition find_object :: "uuid \<Rightarrow> control_object list \<Rightarrow> control_object option" where
  "find_object object_id objects = List.find (\<lambda>ob. co_id ob = object_id) objects"

text \<open>A pair enters the candidates once: \<open>seen_pairs\<close> and the list of candidates, grown together.\<close>

type_synonym cand_state = "(uuid \<times> uuid) list \<times> match_candidate list"

definition add_candidate ::
  "control_object \<Rightarrow> control_object \<Rightarrow> string \<Rightarrow> (string, string) dict \<Rightarrow> cand_state \<Rightarrow> cand_state" where
  "add_candidate src tgt how metadata st =
     (let pair_key = (co_id src, co_id tgt)
      in if pair_key \<in> set (fst st) then st
         else (fst st @ [pair_key], snd st @ [new_candidate src tgt how metadata]))"

definition link_candidates ::
  "control_object list \<Rightarrow> control_object list \<Rightarrow> control_link \<Rightarrow> cand_state \<Rightarrow> cand_state" where
  "link_candidates sources targets link st =
     (if \<not> is_cross_plane link then st
      else
        let st = (case (find_object (cl_source_id link) sources, find_object (cl_target_id link) targets) of
                    (Some src, Some tgt) \<Rightarrow> add_candidate src tgt ''graph-link'' [] st
                  | _ \<Rightarrow> st)
        in (case (find_object (cl_target_id link) sources, find_object (cl_source_id link) targets) of
              (Some src, Some tgt) \<Rightarrow> add_candidate src tgt ''graph-link-reverse'' [] st
            | _ \<Rightarrow> st))"

text \<open>
  The two loops over shared keys differ in the dictionary they read, the method they record and
  the name under which the key is kept.
\<close>

definition key_candidates ::
  "(control_object \<Rightarrow> (string, string) dict) \<Rightarrow> string \<Rightarrow> string \<Rightarrow> control_object list
     \<Rightarrow> control_object \<Rightarrow> cand_state \<Rightarrow> cand_state" where
  "key_candidates keys how label targets src st =
     foldl (\<lambda>st (key, val).
       if val = [] then st
       else foldl (\<lambda>st tgt.
              if dget (keys tgt) key = Some val
              then add_candidate src tgt how [(label, key), (''matched_value'', val)] st
              else st) st targets) st (keys src)"

definition generate ::
  "control_object list \<Rightarrow> control_object list \<Rightarrow> control_link list \<Rightarrow> match_candidate list" where
  "generate sources targets links =
     (let st = foldl (\<lambda>st link. link_candidates sources targets link st) ([], []) links;
          st = foldl (\<lambda>st src. key_candidates co_correlation_keys ''correlation-key'' ''matched_key''
                 targets src st) st sources;
          st = foldl (\<lambda>st src. key_candidates co_external_refs ''external-ref'' ''matched_ref''
                 targets src st) st sources
      in snd st)"

section \<open>Scoring\<close>

record score_acc =
  sa_breakdown :: score_breakdown
  sa_mismatches :: "w2_mismatch list"
  sa_traces :: "rule_trace list"
  sa_total_weight :: rat
  sa_total_score :: rat
  sa_hard_fail :: bool

text \<open>One round of the loop of \<open>score_candidate\<close>.\<close>

definition score_round ::
  "control_object \<Rightarrow> control_object \<Rightarrow> w2_rule \<Rightarrow> w2_rule_result \<Rightarrow> score_acc \<Rightarrow> score_acc" where
  "score_round source target rule result acc =
     \<lparr>sa_breakdown = (sa_breakdown acc)
        \<lparr>sb_rule_scores := dput (wl_rule_id rule) (wr_score_contribution result)
            (sb_rule_scores (sa_breakdown acc)),
         sb_rule_explanations := (case wr_explanation result of
            Some x \<Rightarrow> dput (wl_rule_id rule) (xp_description x) (sb_rule_explanations (sa_breakdown acc))
          | None \<Rightarrow> sb_rule_explanations (sa_breakdown acc))\<rparr>,
      sa_mismatches = sa_mismatches acc @ wr_mismatches result,
      sa_traces = sa_traces acc @
        [\<lparr>tr_rule_id = wl_rule_id rule, tr_category = recon_rule_category_value (wl_category rule),
          tr_source_object_id = co_id source, tr_target_object_id = co_id target,
          tr_score_contribution = wr_score_contribution result, tr_applied = True\<rparr>],
      sa_total_weight = fl (sa_total_weight acc + rwt_weight (wl_weight rule)),
      sa_total_score = fl (sa_total_score acc + wr_score_contribution result),
      sa_hard_fail = (sa_hard_fail acc \<or> wr_hard_fail result)\<rparr>"

fun score_rules ::
  "(string \<Rightarrow> uuid) \<Rightarrow> control_object \<Rightarrow> control_object \<Rightarrow> control_link list \<Rightarrow> w2_rule list \<Rightarrow> score_acc
     \<Rightarrow> conversion_error + score_acc" where
  "score_rules ids source target links [] acc = Inr acc"
| "score_rules ids source target links (rule # rules) acc =
     (case wl_evaluate rule (ids (wl_rule_id rule)) source target links of
        Inl e \<Rightarrow> Inl e
      | Inr result \<Rightarrow>
          score_rules ids source target links rules (score_round source target rule result acc))"

definition new_score_acc :: score_acc where
  "new_score_acc =
     \<lparr>sa_breakdown = new_score_breakdown, sa_mismatches = [], sa_traces = [], sa_total_weight = 0,
      sa_total_score = 0, sa_hard_fail = False\<rparr>"

definition score_candidate ::
  "(draw \<Rightarrow> uuid) \<Rightarrow> w2_registry \<Rightarrow> match_candidate \<Rightarrow> control_object \<Rightarrow> control_object \<Rightarrow> control_link list
     \<Rightarrow> conversion_error + (match_candidate \<times> rule_trace list)" where
  "score_candidate mint registry candidate source target links =
     (case score_rules (\<lambda>rule_id. mint (D_Rule (co_id source) (co_id target) rule_id))
             source target links (wg_get_applicable_rules registry source target) new_score_acc of
        Inl e \<Rightarrow> Inl e
      | Inr acc \<Rightarrow>
          let score_breakdown = (sa_breakdown acc)\<lparr>sb_weighted_total := sa_total_score acc,
                                                   sb_max_possible := sa_total_weight acc\<rparr>;
              final_score = (if sa_hard_fail acc then 0 else normalized_score score_breakdown)
          in Inr (candidate\<lparr>mc_score := final_score, mc_score_breakdown := score_breakdown,
                           mc_confidence := final_score, mc_mismatches := sa_mismatches acc\<rparr>,
                  sa_traces acc))"

fun score_all ::
  "(draw \<Rightarrow> uuid) \<Rightarrow> w2_registry \<Rightarrow> (uuid, control_object) dict \<Rightarrow> control_link list
     \<Rightarrow> match_candidate list \<Rightarrow> conversion_error + (match_candidate list \<times> rule_trace list)" where
  "score_all mint registry objects_by_id links [] = Inr ([], [])"
| "score_all mint registry objects_by_id links (candidate # candidates) =
     (case (dget objects_by_id (mc_source_object_id candidate),
            dget objects_by_id (mc_target_object_id candidate)) of
        (Some source, Some target) \<Rightarrow>
          (case score_candidate mint registry candidate source target links of
             Inl e \<Rightarrow> Inl e
           | Inr (scored, traces) \<Rightarrow>
               (case score_all mint registry objects_by_id links candidates of
                  Inl e \<Rightarrow> Inl e
                | Inr (rest, rest_traces) \<Rightarrow> Inr (scored # rest, traces @ rest_traces)))
      | _ \<Rightarrow> score_all mint registry objects_by_id links candidates)"

section \<open>Rankings and duplicates\<close>

text \<open>\<open>by_source.setdefault(key, []).append(c)\<close> over all candidates.\<close>

definition by_source :: "match_candidate list \<Rightarrow> (uuid, match_candidate list) dict" where
  "by_source candidates =
     foldl (\<lambda>d c. dput (mc_source_object_id c) (dget_default d (mc_source_object_id c) [] @ [c]) d)
       [] candidates"

text \<open>\<open>sorted(..., key=score, reverse=True)\<close>, which keeps the order of equal elements.\<close>

definition sort_by_score :: "match_candidate list \<Rightarrow> match_candidate list" where
  "sort_by_score cs = sort_key (\<lambda>c. - mc_score c) cs"

definition float_gap :: "rat \<Rightarrow> rat \<Rightarrow> rat" where
  "float_gap x y = \<bar>fl (x - y)\<bar>"

definition detect_one :: "rat \<Rightarrow> uuid \<times> match_candidate list \<Rightarrow> duplicate_set list" where
  "detect_one gap_threshold p =
     (if length (snd p) < 2 then []
      else
        let sorted_candidates = sort_by_score (snd p);
            top_score = mc_score (hd sorted_candidates);
            close_matches = filter (\<lambda>c. float_gap (mc_score c) top_score \<le> gap_threshold) sorted_candidates
        in if length close_matches > 1
           then [\<lparr>ds_source_object_id = fst p,
                  ds_duplicate_target_ids = map mc_target_object_id close_matches,
                  ds_scores = map mc_score close_matches,
                  ds_description = ''Multiple high-confidence matches for object '' @ fst p @ '': ''
                    @ int_str (int (length close_matches)) @ '' candidates within ''
                    @ float_repr gap_threshold @ '' score gap''\<rparr>]
           else [])"

definition detect :: "rat \<Rightarrow> match_candidate list \<Rightarrow> duplicate_set list" where
  "detect gap_threshold candidates = concat (map (detect_one gap_threshold) (by_source candidates))"

definition ranking_of :: "rat \<Rightarrow> uuid \<times> match_candidate list \<Rightarrow> candidate_ranking" where
  "ranking_of gap_threshold p =
     (let sorted_candidates = sort_by_score (snd p);
          top_score = (case sorted_candidates of c # _ \<Rightarrow> mc_score c | [] \<Rightarrow> 0);
          gap = (case sorted_candidates of c # d # _ \<Rightarrow> float_gap (mc_score c) (mc_score d) | _ \<Rightarrow> 0);
          is_ambiguous = (length sorted_candidates \<ge> 2 \<and> gap \<le> gap_threshold)
      in \<lparr>cr2_source_object_id = fst p, cr2_ranked_candidates = sorted_candidates,
          cr2_top_score = top_score, cr2_is_ambiguous = is_ambiguous, cr2_ambiguity_gap = gap\<rparr>)"

definition build_rankings :: "rat \<Rightarrow> match_candidate list \<Rightarrow> candidate_ranking list" where
  "build_rankings gap_threshold candidates = map (ranking_of gap_threshold) (by_source candidates)"

section \<open>Classification\<close>

definition conflict_mismatch ::
  "(draw \<Rightarrow> uuid) \<Rightarrow> control_object \<Rightarrow> control_object \<Rightarrow> string \<Rightarrow> string \<Rightarrow> string \<Rightarrow> w2_mismatch" where
  "conflict_mismatch mint src tgt key val tgt_val =
     (w2_mismatch_of (mint (D_Conflict (co_id src) (co_id tgt) key)) CC_IDENTIFIER_CONFLICT
        (''Identifier conflict on key '' @ [CHR 0x27] @ key @ [CHR 0x27] @ '': '' @ val
         @ '' (source) vs '' @ tgt_val @ '' (target)''))
     \<lparr>mm_source_object_id := Some (co_id src), mm_target_object_id := Some (co_id tgt),
      mm_source_plane := Some (co_plane src), mm_target_plane := Some (co_plane tgt),
      mm_expected_value := AV_Json (JStr val), mm_actual_value := AV_Json (JStr tgt_val)\<rparr>"

definition classify_identifier_conflicts ::
  "(draw \<Rightarrow> uuid) \<Rightarrow> control_object list \<Rightarrow> control_object list \<Rightarrow> w2_mismatch list" where
  "classify_identifier_conflicts mint sources targets =
     concat (map (\<lambda>src. concat (map (\<lambda>tgt.
       if co_plane src = co_plane tgt then []
       else concat (map (\<lambda>(key, val).
              case dget (co_correlation_keys tgt) key of
                None \<Rightarrow> []
              | Some tgt_val \<Rightarrow>
                  if tgt_val \<noteq> [] \<and> tgt_val \<noteq> val \<and>
                     (co_object_kind src = co_object_kind tgt \<or> co_domain src = co_domain tgt)
                  then [conflict_mismatch mint src tgt key val tgt_val] else [])
              (co_correlation_keys src))) targets)) sources)"

definition missing_text :: "control_object \<Rightarrow> plane_type \<Rightarrow> string" where
  "missing_text ob plane =
     ''Object '' @ [CHR 0x27] @ co_label ob @ [CHR 0x27] @ '' in '' @ plane_value (co_plane ob)
     @ '' has no match in '' @ plane_value plane"

definition missing_source :: "(draw \<Rightarrow> uuid) \<Rightarrow> plane_type \<Rightarrow> control_object \<Rightarrow> w2_mismatch" where
  "missing_source mint target_plane src =
     (w2_mismatch_of (mint (D_Missing_Source (co_id src))) (missing_category_by_plane target_plane)
        (missing_text src target_plane))
     \<lparr>mm_source_object_id := Some (co_id src), mm_source_plane := Some (co_plane src),
      mm_target_plane := Some target_plane\<rparr>"

definition missing_target :: "(draw \<Rightarrow> uuid) \<Rightarrow> plane_type \<Rightarrow> control_object \<Rightarrow> w2_mismatch" where
  "missing_target mint source_plane tgt =
     (w2_mismatch_of (mint (D_Missing_Target (co_id tgt))) (missing_category_by_plane source_plane)
        (missing_text tgt source_plane))
     \<lparr>mm_target_object_id := Some (co_id tgt), mm_source_plane := Some source_plane,
      mm_target_plane := Some (co_plane tgt)\<rparr>"

definition classify_missing_objects ::
  "(draw \<Rightarrow> uuid) \<Rightarrow> uuid list \<Rightarrow> uuid list \<Rightarrow> control_object list \<Rightarrow> control_object list
     \<Rightarrow> plane_type \<Rightarrow> plane_type \<Rightarrow> w2_mismatch list" where
  "classify_missing_objects mint matched_source_ids matched_target_ids sources targets
       source_plane target_plane =
     map (missing_source mint target_plane)
       (filter (\<lambda>src. co_id src \<notin> set matched_source_ids) sources)
     @ map (missing_target mint source_plane)
       (filter (\<lambda>tgt. co_id tgt \<notin> set matched_target_ids) targets)"

section \<open>Coverage and evidence\<close>

definition gap_of :: "plane_coverage \<Rightarrow> control_object list \<Rightarrow> string \<Rightarrow> coverage_gap list" where
  "gap_of expectation plane_objects kind =
     (let kind_objects = filter (\<lambda>ob. co_object_kind ob = kind) plane_objects;
          min_count = dget_default (px_min_objects_per_kind expectation) kind 1;
          actual_count = int (length kind_objects)
      in if actual_count < min_count
         then [\<lparr>cg_plane = px_plane expectation, cg_expected_object_kind = kind,
                cg_expected_count = min_count, cg_actual_count = actual_count,
                cg_missing_count = min_count - actual_count,
                cg_description = ''Expected at least '' @ int_str min_count @ '' '' @ [CHR 0x27]
                  @ kind @ [CHR 0x27] @ '' objects in '' @ plane_value (px_plane expectation)
                  @ '', found '' @ int_str actual_count\<rparr>]
         else [])"

definition analyze :: "control_object list \<Rightarrow> plane_coverage list \<Rightarrow> coverage_result" where
  "analyze objects expectations =
     (if expectations = []
      then \<lparr>cv_expectations = [], cv_gaps = [], cv_is_fully_covered = True\<rparr>
      else
        let gaps = concat (map (\<lambda>expectation.
              let plane_objects = filter (\<lambda>ob. co_plane ob = px_plane expectation) objects
              in concat (map (gap_of expectation plane_objects) (px_expected_object_kinds expectation)))
              expectations)
        in \<lparr>cv_expectations = expectations, cv_gaps = gaps, cv_is_fully_covered = (length gaps = 0)\<rparr>)"

definition evaluate_object :: "string list \<Rightarrow> control_object \<Rightarrow> evidence_result" where
  "evaluate_object required_types obj =
     (let present_types = map er_evidence_type (co_evidence obj);
          missing = filter (\<lambda>t. t \<notin> set present_types) required_types
      in \<lparr>ev_object_id = co_id obj, ev_is_sufficient = (length missing = 0),
          ev_required_evidence_types = required_types, ev_present_evidence_types = present_types,
          ev_missing_evidence_types = missing\<rparr>)"

definition get_insufficient :: "string list \<Rightarrow> control_object list \<Rightarrow> evidence_result list" where
  "get_insufficient required_types objects =
     filter (\<lambda>r. \<not> ev_is_sufficient r) (map (evaluate_object required_types) objects)"

section \<open>Assembly\<close>

definition ranking_outcome :: "(json \<Rightarrow> string) \<Rightarrow> rat \<Rightarrow> candidate_ranking \<Rightarrow> recon_outcome list" where
  "ranking_outcome hash match_threshold ranking =
     (case cr2_ranked_candidates ranking of
        [] \<Rightarrow> []
      | best # _ \<Rightarrow>
          if mc_score best \<ge> match_threshold
          then [oc_compute_hash hash ((outcome_of OC_FULLY_RECONCILED)
             \<lparr>oc_source_object_id := Some (mc_source_object_id best),
              oc_target_object_id := Some (mc_target_object_id best), oc_candidate := Some best,
              oc_mismatches := mc_mismatches best, oc_confidence := mc_confidence best,
              oc_evidence_bundle := \<lparr>wb_evidence_refs = mc_evidence_refs best,
                wb_source_object_ids = [mc_source_object_id best],
                wb_target_object_ids = [mc_target_object_id best], wb_link_ids = []\<rparr>\<rparr>)]
          else if mc_score best > 0
          then [oc_compute_hash hash ((outcome_of OC_CANDIDATE_MATCH)
             \<lparr>oc_source_object_id := Some (mc_source_object_id best),
              oc_target_object_id := Some (mc_target_object_id best), oc_candidate := Some best,
              oc_mismatches := mc_mismatches best, oc_confidence := mc_confidence best\<rparr>)]
          else [])"

definition duplicate_outcome :: "(draw \<Rightarrow> uuid) \<Rightarrow> (json \<Rightarrow> string) \<Rightarrow> duplicate_set \<Rightarrow> recon_outcome" where
  "duplicate_outcome mint hash d =
     oc_compute_hash hash ((outcome_of OC_DUPLICATE_DETECTED)
       \<lparr>oc_source_object_id := Some (ds_source_object_id d),
        oc_mismatches := [(w2_mismatch_of (mint (D_Duplicate (ds_source_object_id d)))
            CC_DUPLICATE_CANDIDATE (ds_description d))
          \<lparr>mm_source_object_id := Some (ds_source_object_id d)\<rparr>],
        oc_metadata := [(''duplicate_target_ids'', JList (map JStr (ds_duplicate_target_ids d)))]\<rparr>)"

definition gap_outcome :: "(json \<Rightarrow> string) \<Rightarrow> coverage_gap \<Rightarrow> recon_outcome" where
  "gap_outcome hash g =
     oc_compute_hash hash ((outcome_of OC_COVERAGE_GAP)
       \<lparr>oc_coverage_gap := Some g,
        oc_metadata := [(''plane'', JStr (plane_value (cg_plane g))),
                        (''kind'', JStr (cg_expected_object_kind g))]\<rparr>)"

definition evidence_outcome :: "(draw \<Rightarrow> uuid) \<Rightarrow> (json \<Rightarrow> string) \<Rightarrow> evidence_result \<Rightarrow> recon_outcome" where
  "evidence_outcome mint hash r =
     oc_compute_hash hash ((outcome_of OC_INSUFFICIENT_EVIDENCE)
       \<lparr>oc_source_object_id := Some (ev_object_id r),
        oc_mismatches := [(w2_mismatch_of (mint (D_Evidence (ev_object_id r))) CC_EVIDENCE_INSUFFICIENT
            (''Missing evidence types: '' @ str_list (ev_missing_evidence_types r)))
          \<lparr>mm_source_object_id := Some (ev_object_id r),
           mm_metadata := [(''missing_types'', AV_Json (JList (map JStr (ev_missing_evidence_types r))))]\<rparr>]\<rparr>)"

definition mismatch_outcome :: "(json \<Rightarrow> string) \<Rightarrow> w2_mismatch \<Rightarrow> recon_outcome" where
  "mismatch_outcome hash m =
     oc_compute_hash hash ((outcome_of OC_MISMATCH_DETECTED)
       \<lparr>oc_source_object_id := mm_source_object_id m, oc_target_object_id := mm_target_object_id m,
        oc_mismatches := [m]\<rparr>)"

text \<open>The last loop: a mismatch that no outcome carries yet becomes an outcome of its own.\<close>

definition add_mismatch :: "(json \<Rightarrow> string) \<Rightarrow> recon_outcome list \<Rightarrow> w2_mismatch \<Rightarrow> recon_outcome list" where
  "add_mismatch hash outcomes m =
     (let already_in_outcome =
        list_ex (\<lambda>o1. list_ex (\<lambda>n. mm_id n = mm_id m) (oc_mismatches o1)) outcomes
      in if already_in_outcome then outcomes else outcomes @ [mismatch_outcome hash m])"

definition count_type :: "outcome_type \<Rightarrow> recon_outcome list \<Rightarrow> nat" where
  "count_type ty outcomes = length (filter (\<lambda>o1. oc_outcome_type o1 = ty) outcomes)"

definition outcome_counts :: "recon_outcome list \<Rightarrow> (string, nat) dict" where
  "outcome_counts outcomes =
     foldl (\<lambda>d o1. let k = outcome_type_value (oc_outcome_type o1) in dput k (dget_default d k 0 + 1) d)
       [] outcomes"

definition assemble_outcomes ::
  "(draw \<Rightarrow> uuid) \<Rightarrow> (json \<Rightarrow> string) \<Rightarrow> rat \<Rightarrow> assembly_input \<Rightarrow> recon_outcome list" where
  "assemble_outcomes mint hash match_threshold inp =
     (let outcomes = concat (map (ranking_outcome hash match_threshold) (ai_rankings inp));
          outcomes = outcomes @ map (duplicate_outcome mint hash) (ai_duplicates inp);
          outcomes = outcomes @ (case ai_coverage_result inp of
            None \<Rightarrow> []
          | Some r \<Rightarrow> if cv_is_fully_covered r then [] else map (gap_outcome hash) (cv_gaps r));
          outcomes = outcomes @ map (evidence_outcome mint hash)
            (filter (\<lambda>r. \<not> ev_is_sufficient r) (ai_evidence_results inp))
      in foldl (add_mismatch hash) outcomes (ai_mismatches inp))"

definition assemble ::
  "(draw \<Rightarrow> uuid) \<Rightarrow> (json \<Rightarrow> string) \<Rightarrow> rat \<Rightarrow> assembly_input \<Rightarrow> uuid \<Rightarrow> uuid \<Rightarrow> plane_type list
     \<Rightarrow> string list \<Rightarrow> recon_outcome list \<times> w2_summary" where
  "assemble mint hash match_threshold inp run_id tenant_id planes domains =
     (let outcomes = assemble_outcomes mint hash match_threshold inp
      in (outcomes,
          \<lparr>su_run_id = run_id, su_tenant_id = tenant_id, su_total_objects_evaluated = 0,
           su_total_candidates_generated = length (ai_candidates inp),
           su_total_matches = count_type OC_FULLY_RECONCILED outcomes,
           su_total_mismatches = sum_list (map (\<lambda>o1. length (oc_mismatches o1)) outcomes),
           su_total_duplicates = count_type OC_DUPLICATE_DETECTED outcomes,
           su_total_coverage_gaps = count_type OC_COVERAGE_GAP outcomes,
           su_total_insufficient_evidence = count_type OC_INSUFFICIENT_EVIDENCE outcomes,
           su_total_cases_created = 0, su_outcome_counts = outcome_counts outcomes,
           su_planes_reconciled = planes, su_domains_reconciled = domains\<rparr>))"

end
