(* ===== verification/W2_Orchestrator.thy ===== *)
theory W2_Orchestrator
  imports W2_Matching
begin

text \<open>
  The orchestrator of the graph-wide reconciliation, \<^verbatim>\<open>app/core/reconciliation/orchestrator.py\<close>, with
  its in-memory repositories (\<^verbatim>\<open>repository.py\<close>) and audit events (\<^verbatim>\<open>reconciliation_audit.py\<close>).
  The run repository keeps the run object itself, which is completed in place: when a rule raises,
  the run stays stored as it was at that moment, in progress. One clock reading stands for the
  readings of a run.
\<close>

section \<open>Repositories\<close>

record 'c orchestrator =
  or_graph :: "'c graph_service"
  or_rule_registry :: w2_registry
  or_runs :: "(uuid, w2_run) dict"
  or_cases :: "(uuid, w2_case) dict"
  or_audit :: fabric_audit_hook
  or_match_threshold :: rat
  or_duplicate_gap_threshold :: rat

definition new_orchestrator ::
  "'c graph_service \<Rightarrow> w2_registry option \<Rightarrow> rat \<Rightarrow> rat \<Rightarrow> 'c orchestrator" where
  "new_orchestrator g registry match_threshold gap_threshold =
     \<lparr>or_graph = g,
      or_rule_registry = (case registry of Some r \<Rightarrow> r | None \<Rightarrow> build_default_rule_registry),
      or_runs = [], or_cases = [], or_audit = new_audit_hook,
      or_match_threshold = match_threshold, or_duplicate_gap_threshold = gap_threshold\<rparr>"

definition or_store_run :: "w2_run \<Rightarrow> 'c orchestrator \<Rightarrow> 'c orchestrator" where
  "or_store_run run s = s\<lparr>or_runs := dput (wu_id run) run (or_runs s)\<rparr>"

definition or_get_run :: "'c orchestrator \<Rightarrow> uuid \<Rightarrow> w2_run option" where
  "or_get_run s run_id = dget (or_runs s) run_id"

definition or_list_runs :: "'c orchestrator \<Rightarrow> uuid \<Rightarrow> run_status option \<Rightarrow> w2_run list" where
  "or_list_runs s tenant_id status =
     filter_opt status wu_status (filter (\<lambda>r. wu_tenant_id r = tenant_id) (dvalues (or_runs s)))"

definition or_store_case :: "w2_case \<Rightarrow> 'c orchestrator \<Rightarrow> 'c orchestrator" where
  "or_store_case c s = s\<lparr>or_cases := dput (wc_id c) c (or_cases s)\<rparr>"

definition or_get_case :: "'c orchestrator \<Rightarrow> uuid \<Rightarrow> w2_case option" where
  "or_get_case s case_id = dget (or_cases s) case_id"

definition or_list_cases ::
  "'c orchestrator \<Rightarrow> uuid \<Rightarrow> uuid option \<Rightarrow> w2_case_status option \<Rightarrow> w2_case list" where
  "or_list_cases s tenant_id run_id status =
     filter_opt status wc_status (filter_opt run_id wc_run_id
       (filter (\<lambda>c. wc_tenant_id c = tenant_id) (dvalues (or_cases s))))"

definition or_list_cases_for_run :: "'c orchestrator \<Rightarrow> uuid \<Rightarrow> w2_case list" where
  "or_list_cases_for_run s run_id = filter (\<lambda>c. wc_run_id c = run_id) (dvalues (or_cases s))"

definition or_emit :: "fabric_audit_event \<Rightarrow> 'c orchestrator \<Rightarrow> 'c orchestrator" where
  "or_emit e s = s\<lparr>or_audit := emit e (or_audit s)\<rparr>"

section \<open>Audit events\<close>

definition recon_event ::
  "fabric_audit_event_type \<Rightarrow> uuid \<Rightarrow> string \<Rightarrow> (string, json) dict \<Rightarrow> fabric_audit_event" where
  "recon_event ty tenant_id detail metadata =
     (fabric_event ty)\<lparr>fe_tenant_id := Some tenant_id, fe_actor := ''reconciliation-engine'',
        fe_detail := [Lit detail], fe_metadata := metadata\<rparr>"

definition reconciliation_run_started :: "uuid \<Rightarrow> uuid \<Rightarrow> plane_type list \<Rightarrow> fabric_audit_event" where
  "reconciliation_run_started run_id tenant_id planes =
     recon_event FE_RECONCILIATION_RUN_STARTED tenant_id
       (''Reconciliation run '' @ run_id @ '' started for planes: '' @ str_list (map plane_value planes))
       [(''run_id'', JStr run_id), (''planes'', JList (map (\<lambda>p. JStr (plane_value p)) planes))]"

definition reconciliation_run_completed ::
  "uuid \<Rightarrow> uuid \<Rightarrow> string \<Rightarrow> nat \<Rightarrow> nat \<Rightarrow> fabric_audit_event" where
  "reconciliation_run_completed run_id tenant_id run_hash outcome_count case_count =
     recon_event FE_RECONCILIATION_RUN_COMPLETED tenant_id
       (''Reconciliation run '' @ run_id @ '' completed: '' @ int_str (int outcome_count)
        @ '' outcomes, '' @ int_str (int case_count) @ '' cases'')
       [(''run_id'', JStr run_id), (''run_hash'', JStr run_hash),
        (''outcome_count'', JInt (int outcome_count)), (''case_count'', JInt (int case_count))]"

definition reconciliation_candidate_generated ::
  "uuid \<Rightarrow> uuid \<Rightarrow> match_candidate \<Rightarrow> fabric_audit_event" where
  "reconciliation_candidate_generated run_id tenant_id c =
     (recon_event FE_RECONCILIATION_CANDIDATE_GENERATED tenant_id
        (''Candidate generated via '' @ mc_match_method c @ '': '' @ mc_source_object_id c @ arrow
         @ mc_target_object_id c)
        [(''run_id'', JStr run_id), (''match_method'', JStr (mc_match_method c))])
     \<lparr>fe_source_object_id := Some (mc_source_object_id c),
      fe_target_object_id := Some (mc_target_object_id c)\<rparr>"

definition reconciliation_case_created :: "w2_case \<Rightarrow> fabric_audit_event" where
  "reconciliation_case_created c =
     recon_event FE_RECONCILIATION_CASE_CREATED (wc_tenant_id c)
       (''Reconciliation case '' @ wc_id c @ '' created: ''
        @ outcome_type_value (oc_outcome_type (wc_outcome c)) @ '' ['' @ case_priority_value (wc_priority c)
        @ '']'')
       [(''case_id'', JStr (wc_id c)), (''run_id'', JStr (wc_run_id c)),
        (''outcome_type'', JStr (outcome_type_value (oc_outcome_type (wc_outcome c)))),
        (''priority'', JStr (case_priority_value (wc_priority c)))]"

definition reconciliation_case_classified :: "uuid \<Rightarrow> uuid \<Rightarrow> outcome_type \<Rightarrow> fabric_audit_event" where
  "reconciliation_case_classified case_id tenant_id ty =
     recon_event FE_RECONCILIATION_CASE_CLASSIFIED tenant_id
       (''Case '' @ case_id @ '' classified as '' @ outcome_type_value ty)
       [(''case_id'', JStr case_id), (''outcome_type'', JStr (outcome_type_value ty))]"

definition reconciliation_duplicate_detected :: "uuid \<Rightarrow> uuid \<Rightarrow> duplicate_set \<Rightarrow> fabric_audit_event" where
  "reconciliation_duplicate_detected run_id tenant_id d =
     (recon_event FE_RECONCILIATION_DUPLICATE_DETECTED tenant_id
        (''Duplicate candidates detected for '' @ ds_source_object_id d @ '': ''
         @ int_str (int (length (ds_duplicate_target_ids d))) @ '' matches'')
        [(''run_id'', JStr run_id),
         (''duplicate_count'', JInt (int (length (ds_duplicate_target_ids d))))])
     \<lparr>fe_control_object_id := Some (ds_source_object_id d)\<rparr>"

definition reconciliation_coverage_gap_detected :: "uuid \<Rightarrow> uuid \<Rightarrow> coverage_gap \<Rightarrow> fabric_audit_event" where
  "reconciliation_coverage_gap_detected run_id tenant_id g =
     (recon_event FE_RECONCILIATION_COVERAGE_GAP_DETECTED tenant_id
        (''Coverage gap in '' @ plane_value (cg_plane g) @ '': missing '' @ int_str (cg_missing_count g)
         @ '' '' @ [CHR 0x27] @ cg_expected_object_kind g @ [CHR 0x27] @ '' objects'')
        [(''run_id'', JStr run_id), (''expected_kind'', JStr (cg_expected_object_kind g)),
         (''missing_count'', JInt (cg_missing_count g))])
     \<lparr>fe_plane := Some (cg_plane g)\<rparr>"

definition reconciliation_insufficient_evidence :: "uuid \<Rightarrow> uuid \<Rightarrow> evidence_result \<Rightarrow> fabric_audit_event" where
  "reconciliation_insufficient_evidence run_id tenant_id r =
     (recon_event FE_RECONCILIATION_INSUFFICIENT_EVIDENCE tenant_id
        (''Insufficient evidence for '' @ ev_object_id r @ '': missing ''
         @ str_list (ev_missing_evidence_types r))
        [(''run_id'', JStr run_id),
         (''missing_types'', JList (map JStr (ev_missing_evidence_types r)))])
     \<lparr>fe_control_object_id := Some (ev_object_id r)\<rparr>"

definition reconciliation_outcome_hashed :: "uuid \<Rightarrow> uuid \<Rightarrow> string \<Rightarrow> outcome_type \<Rightarrow> fabric_audit_event" where
  "reconciliation_outcome_hashed run_id tenant_id outcome_hash ty =
     recon_event FE_RECONCILIATION_OUTCOME_HASHED tenant_id
       (''Outcome hashed: '' @ outcome_type_value ty @ arrow @ take 16 outcome_hash @ ''...'')
       [(''run_id'', JStr run_id), (''outcome_hash'', JStr outcome_hash),
        (''outcome_type'', JStr (outcome_type_value ty))]"

section \<open>Cases and runs\<close>

definition derive_priority :: "recon_outcome \<Rightarrow> case_priority" where
  "derive_priority outcome =
     (case oc_outcome_type outcome of
        OC_FULLY_RECONCILED \<Rightarrow> CP_LOW
      | OC_DUPLICATE_DETECTED \<Rightarrow> CP_HIGH
      | OC_COVERAGE_GAP \<Rightarrow> CP_MEDIUM
      | OC_INSUFFICIENT_EVIDENCE \<Rightarrow> CP_MEDIUM
      | OC_MISMATCH_DETECTED \<Rightarrow>
          (if list_ex (\<lambda>m. mm_category m = CC_COST_CONFLICT) (oc_mismatches outcome)
           then CP_HIGH else CP_MEDIUM)
      | OC_DISPUTED \<Rightarrow> CP_CRITICAL
      | OC_CANDIDATE_MATCH \<Rightarrow> CP_MEDIUM)"

definition derive_description :: "recon_outcome \<Rightarrow> string" where
  "derive_description outcome =
     (let otype = outcome_type_value (oc_outcome_type outcome);
          mismatches = int_str (int (length (oc_mismatches outcome))) @ '' mismatches''
      in case (oc_source_object_id outcome, oc_target_object_id outcome) of
           (Some s, Some t) \<Rightarrow>
             otype @ '': '' @ s @ '' '' @ [CHR 0xE2, CHR 0x86, CHR 0x94] @ '' '' @ t @ '' ('' @ mismatches @ '')''
         | _ \<Rightarrow> (case oc_coverage_gap outcome of
                   Some g \<Rightarrow> otype @ '': '' @ cg_description g
                 | None \<Rightarrow> otype @ '': '' @ mismatches))"

definition create_case ::
  "uuid \<Rightarrow> time \<Rightarrow> uuid \<Rightarrow> uuid \<Rightarrow> recon_outcome \<Rightarrow> string \<Rightarrow> w2_case" where
  "create_case fresh now run_id tenant_id outcome domain =
     \<lparr>wc_id = fresh, wc_run_id = run_id, wc_tenant_id = tenant_id, wc_status = WC_OPEN,
      wc_priority = derive_priority outcome, wc_outcome = outcome,
      wc_involved_object_ids =
        (case oc_source_object_id outcome of Some i \<Rightarrow> [i] | None \<Rightarrow> [])
        @ (case oc_target_object_id outcome of Some i \<Rightarrow> [i] | None \<Rightarrow> []),
      wc_involved_planes = (case oc_candidate outcome of
          None \<Rightarrow> [] | Some c \<Rightarrow> set_add (mc_target_plane c) [mc_source_plane c]),
      wc_domain = domain, wc_description = derive_description outcome,
      wc_created_at = now, wc_updated_at = now\<rparr>"

definition create_run :: "uuid \<Rightarrow> time \<Rightarrow> recon_request \<Rightarrow> w2_run" where
  "create_run fresh now request =
     \<lparr>wu_id = fresh, wu_tenant_id = rq_tenant_id request, wu_scope = rq_scope request,
      wu_target = rq_target request, wu_status = RUN_PENDING,
      wu_determinism_level = RD_FULLY_DETERMINISTIC, wu_outcomes = [], wu_cases = [],
      wu_summary = None, wu_decision_trace = None, wu_run_hash = [], wu_started_at = now,
      wu_completed_at = None\<rparr>"

section \<open>The data of a run\<close>

definition touching :: "uuid list \<Rightarrow> control_link list \<Rightarrow> control_link list" where
  "touching ids links = filter (\<lambda>l. cl_source_id l \<in> set ids \<or> cl_target_id l \<in> set ids) links"

definition split_by_plane ::
  "plane_type list \<Rightarrow> control_object list \<Rightarrow> control_object list \<times> control_object list" where
  "split_by_plane planes objects =
     (if length planes \<ge> 2
      then (filter (\<lambda>ob. co_plane ob = hd planes) objects, filter (\<lambda>ob. co_plane ob \<noteq> hd planes) objects)
      else (objects, []))"

definition source_plane_of :: "plane_type list \<Rightarrow> plane_type" where
  "source_plane_of planes = (case planes of p # _ \<Rightarrow> p | [] \<Rightarrow> COMMERCIAL)"

definition target_plane_of :: "plane_type list \<Rightarrow> plane_type" where
  "target_plane_of planes = (case planes of _ # p # _ \<Rightarrow> p | _ \<Rightarrow> FIELD)"

definition fetch_graph_data ::
  "'c graph_service \<Rightarrow> recon_request
     \<Rightarrow> control_object list \<times> control_object list \<times> control_link list" where
  "fetch_graph_data g request =
     (let tenant_id = rsc_tenant_id (rq_scope request);
          planes = rsc_planes (rq_scope request);
          all_links = get_all_links (gs_repo g) tenant_id
      in if rt_graph_slice_root_ids (rq_target request) \<noteq> []
         then
           let slice_result = gs_get_typed_graph_slice g (rt_graph_slice_root_ids (rq_target request))
                 \<lparr>gt_max_depth = 5, gt_allowed_planes = (if planes \<noteq> [] then Some planes else None),
                  gt_allowed_link_types = None, gt_follow_bidirectional = True,
                  gt_include_deprecated = False, gt_include_superseded = False,
                  gt_max_nodes = 1000\<rparr>;
               all_objects = List.map_filter (gs_get_object g) (sc_object_ids slice_result);
               (sources, targets) = split_by_plane planes all_objects
           in (sources, targets, touching (sc_object_ids slice_result) all_links)
         else if rt_object_ids (rq_target request) \<noteq> []
         then
           let all_objects = List.map_filter (gs_get_object g) (rt_object_ids (rq_target request));
               (sources, targets) = split_by_plane planes all_objects
           in (sources, targets, touching (map co_id all_objects) all_links)
         else
           let domain_filter = (case rsc_domains (rq_scope request) of d # _ \<Rightarrow> Some d | [] \<Rightarrow> None);
               sources = list_objects (gs_repo g) tenant_id (Some (source_plane_of planes)) domain_filter
                 None None;
               targets = list_objects (gs_repo g) tenant_id (Some (target_plane_of planes)) domain_filter
                 None None;
               kinds = rsc_object_kinds (rq_scope request);
               of_kind = (\<lambda>obs. if kinds \<noteq> [] then filter (\<lambda>ob. co_object_kind ob \<in> set kinds) obs else obs)
           in (of_kind sources, of_kind targets, all_links))"

definition build_execution_plan :: "w2_registry \<Rightarrow> w2_run \<Rightarrow> recon_request \<Rightarrow> recon_plan" where
  "build_execution_plan registry run request =
     \<lparr>pn_run_id = wu_id run, pn_scope = rq_scope request, pn_target = rq_target request,
      pn_planes_to_reconcile = rsc_planes (rq_scope request),
      pn_rule_ids_to_apply = map wl_rule_id (wg_list_rules registry),
      pn_match_threshold = rq_match_threshold request,
      pn_duplicate_threshold = rq_duplicate_threshold request,
      pn_coverage_expectations = rq_coverage_expectations request\<rparr>"

section \<open>Execution\<close>

text \<open>The loop that turns outcomes into stored cases; \<open>n\<close> counts the cases created so far.\<close>

fun create_cases ::
  "(nat \<Rightarrow> uuid) \<Rightarrow> time \<Rightarrow> uuid \<Rightarrow> uuid \<Rightarrow> string \<Rightarrow> nat \<Rightarrow> recon_outcome list \<Rightarrow> 'c orchestrator
     \<Rightarrow> w2_case list \<times> 'c orchestrator" where
  "create_cases ids now run_id tenant_id domain n [] s = ([], s)"
| "create_cases ids now run_id tenant_id domain n (outcome # outcomes) s =
     (if oc_outcome_type outcome = OC_FULLY_RECONCILED \<and> oc_mismatches outcome = []
      then create_cases ids now run_id tenant_id domain n outcomes s
      else
        let c = create_case (ids n) now run_id tenant_id outcome domain;
            s = or_store_case c s;
            s = or_emit (reconciliation_case_created c) s;
            s = or_emit (reconciliation_case_classified (wc_id c) tenant_id (oc_outcome_type outcome)) s;
            (cases, s) = create_cases ids now run_id tenant_id domain (Suc n) outcomes s
        in (c # cases, s))"

definition or_emit_all :: "fabric_audit_event list \<Rightarrow> 'c orchestrator \<Rightarrow> 'c orchestrator" where
  "or_emit_all es s = foldl (\<lambda>s e. or_emit e s) s es"

text \<open>What a run finds once its candidates are scored: the input of the assembler.\<close>

definition assembly_of ::
  "(draw \<Rightarrow> uuid) \<Rightarrow> rat \<Rightarrow> recon_request \<Rightarrow> control_object list \<Rightarrow> control_object list
     \<Rightarrow> match_candidate list \<Rightarrow> assembly_input" where
  "assembly_of mint gap_threshold request sources targets scored =
     (let matched_source_ids = map mc_source_object_id (filter (\<lambda>c. mc_score c > 0) scored);
          matched_target_ids = map mc_target_object_id (filter (\<lambda>c. mc_score c > 0) scored);
          planes = rsc_planes (rq_scope request)
      in \<lparr>ai_candidates = scored,
          ai_rankings = build_rankings gap_threshold scored,
          ai_duplicates = detect gap_threshold scored,
          ai_coverage_result = Some (analyze (sources @ targets) (rq_coverage_expectations request)),
          ai_evidence_results = get_insufficient [] (sources @ targets),
          ai_mismatches =
            classify_missing_objects mint matched_source_ids matched_target_ids sources targets
              (source_plane_of planes) (target_plane_of planes)
            @ classify_identifier_conflicts mint sources targets\<rparr>)"

definition finish_run ::
  "(json \<Rightarrow> string) \<Rightarrow> time \<Rightarrow> rule_trace list \<Rightarrow> nat \<Rightarrow> recon_outcome list \<Rightarrow> w2_case list \<Rightarrow> w2_summary
     \<Rightarrow> w2_run \<Rightarrow> w2_run" where
  "finish_run hash now traces candidate_count outcomes cases summary run =
     wu_compute_run_hash hash (run\<lparr>wu_outcomes := outcomes, wu_cases := cases,
       wu_summary := Some summary,
       wu_decision_trace := Some
         \<lparr>dt2_run_id = wu_id run, dt2_rule_traces = traces, dt2_candidate_count = candidate_count,
          dt2_mismatch_count = sum_list (map (\<lambda>o1. length (oc_mismatches o1)) outcomes),
          dt2_outcome_count = length outcomes, dt2_determinism_level = RD_FULLY_DETERMINISTIC,
          dt2_timestamp = now\<rparr>,
       wu_status := RUN_COMPLETED, wu_completed_at := Some now\<rparr>)"

text \<open>The run as it is first stored, and the state once its candidates are announced.\<close>

definition started_run2 :: "uuid \<Rightarrow> time \<Rightarrow> recon_request \<Rightarrow> w2_run" where
  "started_run2 fresh now request = (create_run fresh now request)\<lparr>wu_status := RUN_IN_PROGRESS\<rparr>"

definition run_begun ::
  "uuid \<Rightarrow> time \<Rightarrow> recon_request \<Rightarrow> match_candidate list \<Rightarrow> 'c orchestrator \<Rightarrow> 'c orchestrator" where
  "run_begun fresh now request candidates s =
     (let s = or_store_run (started_run2 fresh now request) s;
          s = or_emit (reconciliation_run_started fresh (rq_tenant_id request)
                (rsc_planes (rq_scope request))) s
      in or_emit_all (map (reconciliation_candidate_generated fresh (rq_tenant_id request)) candidates) s)"

text \<open>The events about what a run found, up to the hashes of its outcomes.\<close>

definition announce_findings ::
  "uuid \<Rightarrow> uuid \<Rightarrow> assembly_input \<Rightarrow> recon_outcome list \<Rightarrow> 'c orchestrator \<Rightarrow> 'c orchestrator" where
  "announce_findings run_id tenant_id inp outcomes s =
     (let s = or_emit_all (map (reconciliation_duplicate_detected run_id tenant_id) (ai_duplicates inp)) s;
          s = or_emit_all (map (reconciliation_coverage_gap_detected run_id tenant_id)
                (case ai_coverage_result inp of Some r \<Rightarrow> cv_gaps r | None \<Rightarrow> [])) s;
          s = or_emit_all (map (reconciliation_insufficient_evidence run_id tenant_id)
                (ai_evidence_results inp)) s
      in or_emit_all (map (\<lambda>o1. reconciliation_outcome_hashed run_id tenant_id
           (oc_hash o1) (oc_outcome_type o1)) outcomes) s)"

definition or_execute ::
  "(draw \<Rightarrow> uuid) \<Rightarrow> (json \<Rightarrow> string) \<Rightarrow> uuid \<Rightarrow> time \<Rightarrow> recon_request \<Rightarrow> 'c orchestrator
     \<Rightarrow> (conversion_error, 'c orchestrator, recon_execution_result) res" where
  "or_execute mint hash fresh now request s =
     (let run = started_run2 fresh now request;
          tenant_id = rq_tenant_id request;
          plan = build_execution_plan (or_rule_registry s) run request;
          (sources, targets, links) = fetch_graph_data (or_graph s) request;
          objects_by_id = foldl (\<lambda>d ob. dput (co_id ob) ob d) [] (sources @ targets);
          candidates = generate sources targets links;
          s = run_begun fresh now request candidates s
      in case score_all mint (or_rule_registry s) objects_by_id links candidates of
           Inl e \<Rightarrow> (Inl e, s)
         | Inr (scored, traces) \<Rightarrow>
             let inp = assembly_of mint (or_duplicate_gap_threshold s) request sources targets scored;
                 (outcomes, summary) = assemble mint hash (or_match_threshold s) inp fresh tenant_id
                   (rsc_planes (rq_scope request)) (rsc_domains (rq_scope request));
                 s = announce_findings fresh tenant_id inp outcomes s;
                 domain = (case rsc_domains (rq_scope request) of d # _ \<Rightarrow> d | [] \<Rightarrow> []);
                 (cases, s) = create_cases (\<lambda>n. mint (D_Case n)) now fresh tenant_id domain 0 outcomes s;
                 summary = summary\<lparr>su_total_objects_evaluated := length sources + length targets,
                                   su_total_cases_created := length cases\<rparr>;
                 run = finish_run hash now traces (length scored) outcomes cases summary run;
                 s = or_store_run run s;
                 s = or_emit (reconciliation_run_completed fresh tenant_id (wu_run_hash run)
                       (length outcomes) (length cases)) s
             in (Inr \<lparr>xe_run = run, xe_cases = cases, xe_summary = summary, xe_plan = plan\<rparr>, s))"

end
