(* ===== verification/W2_Props.thy ===== *)
theory W2_Props
  imports W2_Orchestrator
begin

text \<open>
  What the graph-wide reconciliation guarantees: which pairs become candidates, the bounds of a
  score, that no source object of a run goes unreported, how a run ends, and that the thresholds
  of a request are not used.
\<close>

section \<open>Candidates\<close>

definition pair_of :: "match_candidate \<Rightarrow> uuid \<times> uuid" where
  "pair_of c = (mc_source_object_id c, mc_target_object_id c)"

text \<open>The two parts of the candidate state stay in step and no pair occurs twice.\<close>

definition cand_ok :: "cand_state \<Rightarrow> bool" where
  "cand_ok st \<longleftrightarrow> fst st = map pair_of (snd st) \<and> distinct (fst st)"

lemma add_candidate_ok [simp]: "cand_ok st \<Longrightarrow> cand_ok (add_candidate src tgt how md st)"
  by (auto simp: cand_ok_def add_candidate_def new_candidate_def pair_of_def Let_def)

lemma add_candidate_pairs [simp]:
  "set (fst (add_candidate src tgt how md st)) = insert (co_id src, co_id tgt) (set (fst st))"
  by (auto simp: add_candidate_def Let_def)

lemma foldl_inv: "(\<And>st x. P st \<Longrightarrow> P (f st x)) \<Longrightarrow> P st \<Longrightarrow> P (foldl f st xs)"
  by (induction xs arbitrary: st) auto

lemma foldl_union:
  assumes "\<And>st x. set (fst (f st x)) = set (fst st) \<union> A x"
  shows "set (fst (foldl f st xs)) = set (fst st) \<union> (\<Union>x\<in>set xs. A x)"
  by (induction xs arbitrary: st) (auto simp: assms)

lemma link_candidates_ok: "cand_ok st \<Longrightarrow> cand_ok (link_candidates ss ts l st)"
  by (auto simp: link_candidates_def Let_def split: option.splits)

lemma key_candidates_ok: "cand_ok st \<Longrightarrow> cand_ok (key_candidates keys how label ts src st)"
  unfolding key_candidates_def
  by (rule foldl_inv) (auto intro!: foldl_inv [where P = cand_ok])

definition generated :: "control_object list \<Rightarrow> control_object list \<Rightarrow> control_link list \<Rightarrow> cand_state" where
  "generated ss ts ls =
     foldl (\<lambda>st src. key_candidates co_external_refs ''external-ref'' ''matched_ref'' ts src st)
      (foldl (\<lambda>st src. key_candidates co_correlation_keys ''correlation-key'' ''matched_key'' ts src st)
        (foldl (\<lambda>st l. link_candidates ss ts l st) ([], []) ls) ss) ss"

lemma generate_generated: "generate ss ts ls = snd (generated ss ts ls)"
  by (simp add: generate_def generated_def)

lemma generated_ok: "cand_ok (generated ss ts ls)"
proof -
  have "cand_ok ([], [])" by (simp add: cand_ok_def)
  then show ?thesis
    unfolding generated_def
    by (intro foldl_inv [where P = cand_ok] key_candidates_ok link_candidates_ok)
qed

lemma generate_distinct: "distinct (map pair_of (generate ss ts ls))"
  using generated_ok [of ss ts ls] unfolding cand_ok_def generate_generated by metis

lemma generate_pairs: "set (map pair_of (generate ss ts ls)) = set (fst (generated ss ts ls))"
  using generated_ok [of ss ts ls] unfolding cand_ok_def generate_generated by metis

text \<open>The identifier pairs of a relation between objects.\<close>

definition id_pairs :: "(control_object \<Rightarrow> control_object \<Rightarrow> bool) \<Rightarrow> (uuid \<times> uuid) set" where
  "id_pairs P = {(co_id src, co_id tgt) |src tgt. P src tgt}"

lemma id_pairs_Un: "id_pairs P \<union> id_pairs Q = id_pairs (\<lambda>src tgt. P src tgt \<or> Q src tgt)"
  unfolding id_pairs_def by blast

lemma id_pairs_UN: "(\<Union>x\<in>X. id_pairs (P x)) = id_pairs (\<lambda>src tgt. \<exists>x\<in>X. P x src tgt)"
  unfolding id_pairs_def by blast

lemma id_pairs_single: "{(co_id src, co_id tgt)} = id_pairs (\<lambda>s t. s = src \<and> t = tgt)"
  unfolding id_pairs_def by blast

lemma id_pairs_empty: "{} = id_pairs (\<lambda>s t. False)"
  unfolding id_pairs_def by blast

lemma id_pairs_cong: "(\<And>src tgt. P src tgt \<longleftrightarrow> Q src tgt) \<Longrightarrow> id_pairs P = id_pairs Q"
  by (simp add: id_pairs_def)

text \<open>Why a pair is a candidate.\<close>

definition cross_linked :: "control_link list \<Rightarrow> control_object \<Rightarrow> control_object \<Rightarrow> bool" where
  "cross_linked ls src tgt \<longleftrightarrow>
     list_ex (\<lambda>l. is_cross_plane l \<and>
       (cl_source_id l = co_id src \<and> cl_target_id l = co_id tgt \<or>
        cl_target_id l = co_id src \<and> cl_source_id l = co_id tgt)) ls"

definition shares :: "(string, string) dict \<Rightarrow> (string, string) dict \<Rightarrow> bool" where
  "shares d e \<longleftrightarrow> list_ex (\<lambda>(key, val). val \<noteq> [] \<and> dget e key = Some val) d"

lemma find_object_iff:
  "inj_on co_id (set obs) \<Longrightarrow> find_object i obs = Some ob \<longleftrightarrow> ob \<in> set obs \<and> co_id ob = i"
proof (induction obs)
  case (Cons x obs)
  then show ?case by (cases "co_id x = i") (auto simp: find_object_def inj_on_def)
qed (simp add: find_object_def)

lemma key_candidates_pairs:
  "set (fst (key_candidates keys how label ts src st)) =
     set (fst st) \<union> id_pairs (\<lambda>s t. s = src \<and> t \<in> set ts \<and> shares (keys src) (keys t))"
proof -
  have one: "set (fst (if dget (keys tgt) key = Some val
        then add_candidate src tgt how [(label, key), (''matched_value'', val)] st else st)) =
      set (fst st) \<union> id_pairs (\<lambda>s t. s = src \<and> t = tgt \<and> dget (keys t) key = Some val)" for st key val tgt
    by (auto simp: id_pairs_def)
  have inner: "set (fst (case p of (key, val) \<Rightarrow> if val = [] then st
        else foldl (\<lambda>st tgt. if dget (keys tgt) key = Some val
          then add_candidate src tgt how [(label, key), (''matched_value'', val)] st else st) st ts)) =
      set (fst st) \<union> id_pairs (\<lambda>s t. s = src \<and> t \<in> set ts \<and> snd p \<noteq> [] \<and>
        dget (keys t) (fst p) = Some (snd p))" for st p
  proof (cases p)
    case (Pair key val)
    have "id_pairs (\<lambda>s t. \<exists>x\<in>set ts. s = src \<and> t = x \<and> dget (keys t) key = Some val) =
        id_pairs (\<lambda>s t. s = src \<and> t \<in> set ts \<and> dget (keys t) key = Some val)"
      by (rule id_pairs_cong) blast
    then show ?thesis
      using foldl_union [where f = "\<lambda>st tgt. if dget (keys tgt) key = Some val
            then add_candidate src tgt how [(label, key), (''matched_value'', val)] st else st"
          and A = "\<lambda>tgt. id_pairs (\<lambda>s t. s = src \<and> t = tgt \<and> dget (keys t) key = Some val)", OF one]
      unfolding Pair id_pairs_UN by (auto simp: id_pairs_empty [symmetric])
  qed
  show ?thesis
    unfolding key_candidates_def
    unfolding foldl_union [where f = "\<lambda>st p. case p of (key, val) \<Rightarrow> if val = [] then st
        else foldl (\<lambda>st tgt. if dget (keys tgt) key = Some val
          then add_candidate src tgt how [(label, key), (''matched_value'', val)] st else st) st ts"
      and A = "\<lambda>p. id_pairs (\<lambda>s t. s = src \<and> t \<in> set ts \<and> snd p \<noteq> [] \<and> dget (keys t) (fst p) = Some (snd p))",
      OF inner] id_pairs_UN
    unfolding shares_def list_ex_iff case_prod_beta
    by (intro arg_cong [where f = "\<lambda>x. set (fst st) \<union> x"] id_pairs_cong) blast
qed

lemma key_candidates_all:
  "set (fst (foldl (\<lambda>st src. key_candidates keys how label ts src st) st ss)) =
     set (fst st) \<union> id_pairs (\<lambda>s t. \<exists>x\<in>set ss. s = x \<and> t \<in> set ts \<and> shares (keys x) (keys t))"
  using foldl_union [where f = "\<lambda>st src. key_candidates keys how label ts src st"
      and A = "\<lambda>x. id_pairs (\<lambda>s t. s = x \<and> t \<in> set ts \<and> shares (keys x) (keys t))", OF key_candidates_pairs]
  by (simp only: id_pairs_UN)

lemma both_found_pairs:
  "set (fst (case (x, y) of (Some src, Some tgt) \<Rightarrow> add_candidate src tgt how md st | _ \<Rightarrow> st)) =
     set (fst st) \<union> id_pairs (\<lambda>src tgt. x = Some src \<and> y = Some tgt)"
  by (auto simp: id_pairs_def split: option.splits)

lemma link_candidates_pairs:
  assumes "inj_on co_id (set ss)" and "inj_on co_id (set ts)"
  shows "set (fst (link_candidates ss ts l st)) =
    set (fst st) \<union> id_pairs (\<lambda>src tgt. src \<in> set ss \<and> tgt \<in> set ts \<and> cross_linked [l] src tgt)"
proof (cases "is_cross_plane l")
  case True
  then have "set (fst (link_candidates ss ts l st)) = set (fst st)
      \<union> (id_pairs (\<lambda>src tgt. find_object (cl_source_id l) ss = Some src \<and>
            find_object (cl_target_id l) ts = Some tgt)
         \<union> id_pairs (\<lambda>src tgt. find_object (cl_target_id l) ss = Some src \<and>
            find_object (cl_source_id l) ts = Some tgt))"
    by (simp only: link_candidates_def Let_def both_found_pairs not_True_eq_False if_False Un_assoc)
  also have "\<dots> = set (fst st)
      \<union> id_pairs (\<lambda>src tgt. src \<in> set ss \<and> tgt \<in> set ts \<and> cross_linked [l] src tgt)"
    unfolding find_object_iff [OF assms(1)] find_object_iff [OF assms(2)] id_pairs_Un
    by (intro arg_cong [where f = "\<lambda>x. set (fst st) \<union> x"] id_pairs_cong)
      (use True in \<open>auto simp: cross_linked_def\<close>)
  finally show ?thesis .
qed (simp add: link_candidates_def cross_linked_def id_pairs_empty [symmetric])

lemma link_candidates_all:
  assumes "inj_on co_id (set ss)" and "inj_on co_id (set ts)"
  shows "set (fst (foldl (\<lambda>st l. link_candidates ss ts l st) st ls)) = set (fst st) \<union>
    id_pairs (\<lambda>src tgt. \<exists>l\<in>set ls. src \<in> set ss \<and> tgt \<in> set ts \<and> cross_linked [l] src tgt)"
  using foldl_union [where f = "\<lambda>st l. link_candidates ss ts l st"
      and A = "\<lambda>l. id_pairs (\<lambda>src tgt. src \<in> set ss \<and> tgt \<in> set ts \<and> cross_linked [l] src tgt)",
      OF link_candidates_pairs [OF assms]]
  by (simp only: id_pairs_UN)

text \<open>The pairs a run considers, as a relation.\<close>

definition candidate_pair :: "control_link list \<Rightarrow> control_object \<Rightarrow> control_object \<Rightarrow> bool" where
  "candidate_pair ls src tgt \<longleftrightarrow>
     cross_linked ls src tgt \<or> shares (co_correlation_keys src) (co_correlation_keys tgt) \<or>
     shares (co_external_refs src) (co_external_refs tgt)"

lemma generate_exact:
  assumes "inj_on co_id (set ss)" and "inj_on co_id (set ts)"
  shows "set (map pair_of (generate ss ts ls)) =
    id_pairs (\<lambda>src tgt. src \<in> set ss \<and> tgt \<in> set ts \<and> candidate_pair ls src tgt)"
proof -
  have "set (fst (generated ss ts ls)) =
      id_pairs (\<lambda>src tgt. \<exists>l\<in>set ls. src \<in> set ss \<and> tgt \<in> set ts \<and> cross_linked [l] src tgt)
      \<union> id_pairs (\<lambda>src tgt. \<exists>x\<in>set ss. src = x \<and> tgt \<in> set ts \<and>
            shares (co_correlation_keys x) (co_correlation_keys tgt))
      \<union> id_pairs (\<lambda>src tgt. \<exists>x\<in>set ss. src = x \<and> tgt \<in> set ts \<and>
            shares (co_external_refs x) (co_external_refs tgt))"
    unfolding generated_def key_candidates_all link_candidates_all [OF assms] by simp
  then show ?thesis
    unfolding generate_pairs id_pairs_Un
    by (rule trans) (intro id_pairs_cong, auto simp: candidate_pair_def cross_linked_def list_ex_iff)
qed

section \<open>Scores\<close>

text \<open>
  What the scorer and the assembler rely on: a rule has a weight and contributions that are not
  negative, and its mismatches carry the identifier drawn for it.
\<close>

definition rule_ok :: "w2_rule \<Rightarrow> bool" where
  "rule_ok rule \<longleftrightarrow> 0 \<le> rwt_weight (wl_weight rule) \<and>
     (\<forall>i s t ls r. wl_evaluate rule i s t ls = Inr r \<longrightarrow>
        0 \<le> wr_score_contribution r \<and> (\<forall>m\<in>set (wr_mismatches r). mm_id m = i))"

lemma rule_okI:
  assumes "0 \<le> w"
    and "\<And>i s t ls r. ev i s t ls = Inr r \<Longrightarrow>
      0 \<le> wr_score_contribution r \<and> (\<forall>m\<in>set (wr_mismatches r). mm_id m = i)"
  shows "rule_ok (w2_rule_of cat w req cross ev)"
  using assms by (simp add: rule_ok_def w2_rule_of_def)

lemma result_simps [simp]:
  "wr_score_contribution (matched_result i c t d) = c"
  "wr_mismatches (matched_result i c t d) = []"
  "wr_hard_fail (matched_result i c t d) = False"
  "wr_score_contribution (unmatched_result i t ms) = 0"
  "wr_mismatches (unmatched_result i t ms) = ms"
  "wr_hard_fail (unmatched_result i t ms) = False"
  "mm_id (pair_mismatch i rid cat src tgt txt) = i"
  by (simp_all add: matched_result_def unmatched_result_def pair_mismatch_def w2_mismatch_of_def)

lemma rule_ok_identity: "rule_ok identity_correlation_rule"
  unfolding identity_correlation_rule_def
  by (rule rule_okI) (auto simp: Let_def fl_nonneg split: if_splits)

lemma rule_ok_external: "rule_ok external_reference_rule"
  unfolding external_reference_rule_def
  by (rule rule_okI) (auto simp: Let_def fl_nonneg split: if_splits)

lemma best_score_nonneg: "0 \<le> b \<Longrightarrow> 0 \<le> foldl (\<lambda>best l. max best (scoring_link_type (cl_link_type l))) b ls"
  by (induction ls arbitrary: b) simp_all

lemma rule_ok_topology: "rule_ok topology_linkage_rule"
  unfolding topology_linkage_rule_def
  by (rule rule_okI) (auto simp: Let_def fl_nonneg best_score_nonneg split: if_splits)

lemma rule_ok_state: "rule_ok state_alignment_rule"
  unfolding state_alignment_rule_def
  by (rule rule_okI) (auto simp: Let_def split: if_splits)

lemma rule_ok_quantity: "rule_ok (quantity_alignment_rule f tol)"
  unfolding quantity_alignment_rule_def
  by (rule rule_okI) (auto simp: Let_def fl_nonneg split: if_splits option.splits sum.splits)

lemma rule_ok_cost: "rule_ok (cost_alignment_rule f tol)"
  unfolding cost_alignment_rule_def
  by (rule rule_okI) (auto simp: Let_def split: if_splits option.splits sum.splits)

lemma rule_ok_chronology: "rule_ok (chronology_alignment_rule f)"
  unfolding chronology_alignment_rule_def
  by (rule rule_okI) (auto simp: Let_def fl_nonneg split: if_splits option.splits)

lemma rule_ok_coverage: "rule_ok coverage_expectation_rule"
  unfolding coverage_expectation_rule_def
  by (rule rule_okI) (auto simp: Let_def split: if_splits)

lemma rule_ok_evidence: "rule_ok (cross_plane_evidence_rule req)"
  unfolding cross_plane_evidence_rule_def
  by (rule rule_okI) (auto simp: Let_def fl_nonneg split: if_splits)

lemma default_rules_ok: "list_all rule_ok default_wave2_rules"
  by (simp add: default_wave2_rules_def rule_ok_identity rule_ok_external rule_ok_topology
      rule_ok_state rule_ok_quantity rule_ok_cost rule_ok_chronology rule_ok_coverage rule_ok_evidence)

lemma default_registry_rules: "wg_list_rules build_default_rule_registry = default_wave2_rules"
  by (simp add: build_default_rule_registry_def wg_list_rules_def wg_register_rule_set_def
      wg_register_rule_def new_w2_registry_def default_wave2_rules_def identity_correlation_rule_def
      external_reference_rule_def topology_linkage_rule_def state_alignment_rule_def
      quantity_alignment_rule_def cost_alignment_rule_def chronology_alignment_rule_def
      coverage_expectation_rule_def cross_plane_evidence_rule_def w2_rule_of_def)

lemma score_round_simps [simp]:
  "sa_total_score (score_round s t rule r acc) = fl (sa_total_score acc + wr_score_contribution r)"
  "sa_hard_fail (score_round s t rule r acc) = (sa_hard_fail acc \<or> wr_hard_fail r)"
  "sa_mismatches (score_round s t rule r acc) = sa_mismatches acc @ wr_mismatches r"
  by (simp_all add: score_round_def)

lemma score_rules_total:
  "score_rules ids s t ls rules acc = Inr acc' \<Longrightarrow> list_all rule_ok rules \<Longrightarrow> 0 \<le> sa_total_score acc
     \<Longrightarrow> 0 \<le> sa_total_score acc'"
proof (induction rules arbitrary: acc)
  case (Cons rule rules)
  then obtain r where r: "wl_evaluate rule (ids (wl_rule_id rule)) s t ls = Inr r"
    "score_rules ids s t ls rules (score_round s t rule r acc) = Inr acc'"
    by (auto split: sum.splits)
  have "0 \<le> wr_score_contribution r"
    using r(1) Cons.prems(2) by (auto simp: rule_ok_def)
  with Cons.IH [OF r(2)] Cons.prems show ?case by (simp add: fl_nonneg)
qed simp

lemma score_rules_hard_fail:
  "score_rules ids s t ls rules acc = Inr acc' \<Longrightarrow>
     sa_hard_fail acc' \<longleftrightarrow> sa_hard_fail acc \<or>
       (\<exists>rule\<in>set rules. \<exists>r. wl_evaluate rule (ids (wl_rule_id rule)) s t ls = Inr r \<and> wr_hard_fail r)"
proof (induction rules arbitrary: acc)
  case (Cons rule rules)
  then obtain r where r: "wl_evaluate rule (ids (wl_rule_id rule)) s t ls = Inr r"
    "score_rules ids s t ls rules (score_round s t rule r acc) = Inr acc'"
    by (auto split: sum.splits)
  from Cons.IH [OF r(2)] r(1) show ?case by auto
qed simp

lemma score_rules_ids:
  "score_rules ids s t ls rules acc = Inr acc' \<Longrightarrow> list_all rule_ok rules \<Longrightarrow>
     m \<in> set (sa_mismatches acc') \<Longrightarrow> m \<in> set (sa_mismatches acc) \<or> (\<exists>rule_id. mm_id m = ids rule_id)"
proof (induction rules arbitrary: acc)
  case (Cons rule rules)
  then obtain r where r: "wl_evaluate rule (ids (wl_rule_id rule)) s t ls = Inr r"
    "score_rules ids s t ls rules (score_round s t rule r acc) = Inr acc'"
    by (auto split: sum.splits)
  have "\<forall>m\<in>set (wr_mismatches r). mm_id m = ids (wl_rule_id rule)"
    using r(1) Cons.prems(2) by (auto simp: rule_ok_def)
  with Cons.IH [OF r(2)] Cons.prems(2,3) show ?case by auto
qed simp

lemma normalized_score_unit: "0 \<le> sb_weighted_total b \<Longrightarrow> 0 \<le> normalized_score b \<and> normalized_score b \<le> 1"
  by (simp add: normalized_score_def fl_nonneg)

lemma topology_fails:
  "list_ex (\<lambda>l. cl_link_type l \<in> {LT_CONTRADICTS, LT_BLOCKS}) (links_between s t ls) \<Longrightarrow>
     \<exists>r. wl_evaluate topology_linkage_rule i s t ls = Inr r \<and> wr_hard_fail r"
  by (auto simp: topology_linkage_rule_def w2_rule_of_def Let_def list_ex_iff filter_empty_conv)

lemma topology_applicable: "topology_linkage_rule \<in> set (wg_get_applicable_rules build_default_rule_registry s t)"
proof -
  have "wl_is_applicable topology_linkage_rule s t"
    by (simp add: wl_is_applicable_def topology_linkage_rule_def w2_rule_of_def wa_is_applicable_def
        w2_applicability_of_def wa_matches_planes_def)
  then show ?thesis
    using default_registry_rules
    by (simp add: wg_get_applicable_rules_def wg_list_rules_def default_wave2_rules_def del: set_map)
qed

lemma applicable_ok:
  "list_all rule_ok (wg_list_rules reg) \<Longrightarrow> list_all rule_ok (wg_get_applicable_rules reg s t)"
  by (auto simp: list_all_iff wg_list_rules_def wg_get_applicable_rules_def)

text \<open>A candidate as the scorer leaves it: its mismatches carry identifiers drawn for rules.\<close>

definition scored_ok :: "(draw \<Rightarrow> uuid) \<Rightarrow> match_candidate \<Rightarrow> bool" where
  "scored_ok mint c \<longleftrightarrow> 0 \<le> mc_score c \<and> mc_score c \<le> 1 \<and> mc_confidence c = mc_score c \<and>
     (\<forall>m\<in>set (mc_mismatches c). \<exists>i j rid. mm_id m = mint (D_Rule i j rid))"

lemma score_candidate_spec:
  assumes "score_candidate mint reg c src tgt ls = Inr (c', tr)"
    and ok: "list_all rule_ok (wg_list_rules reg)"
  shows "pair_of c' = pair_of c \<and> scored_ok mint c' \<and>
    ((\<exists>rule\<in>set (wg_get_applicable_rules reg src tgt). \<exists>r.
        wl_evaluate rule (mint (D_Rule (co_id src) (co_id tgt) (wl_rule_id rule))) src tgt ls = Inr r \<and>
        wr_hard_fail r) \<longrightarrow> mc_score c' = 0)"
proof -
  let ?ids = "\<lambda>rid. mint (D_Rule (co_id src) (co_id tgt) rid)"
  obtain acc where acc: "score_rules ?ids src tgt ls (wg_get_applicable_rules reg src tgt) new_score_acc = Inr acc"
    using assms(1) by (auto simp: score_candidate_def split: sum.splits)
  let ?b = "(sa_breakdown acc)\<lparr>sb_weighted_total := sa_total_score acc, sb_max_possible := sa_total_weight acc\<rparr>"
  have c': "c' = c\<lparr>mc_score := (if sa_hard_fail acc then 0 else normalized_score ?b),
      mc_score_breakdown := ?b, mc_confidence := (if sa_hard_fail acc then 0 else normalized_score ?b),
      mc_mismatches := sa_mismatches acc\<rparr>"
    using assms(1) acc by (simp add: score_candidate_def Let_def)
  have "0 \<le> sa_total_score acc"
    using score_rules_total [OF acc applicable_ok [OF ok]] by (simp add: new_score_acc_def)
  then have "0 \<le> normalized_score ?b \<and> normalized_score ?b \<le> 1"
    by (intro normalized_score_unit) simp
  moreover have "\<exists>i j rid. mm_id m = mint (D_Rule i j rid)" if "m \<in> set (sa_mismatches acc)" for m
    using score_rules_ids [OF acc applicable_ok [OF ok] that] by (auto simp: new_score_acc_def)
  moreover note score_rules_hard_fail [OF acc]
  ultimately show ?thesis
    by (auto simp: c' scored_ok_def pair_of_def)
qed

lemma score_all_spec:
  assumes "score_all mint reg objs ls cs = Inr (scored, traces)"
    and "list_all rule_ok (wg_list_rules reg)"
    and "\<forall>c\<in>set cs. dget objs (mc_source_object_id c) \<noteq> None \<and> dget objs (mc_target_object_id c) \<noteq> None"
  shows "map pair_of scored = map pair_of cs \<and> list_all (scored_ok mint) scored"
  using assms
proof (induction cs arbitrary: scored traces)
  case (Cons c cs)
  obtain s t where st: "dget objs (mc_source_object_id c) = Some s" "dget objs (mc_target_object_id c) = Some t"
    using Cons.prems(3) by auto
  then obtain c' tr rest tr' where r: "score_candidate mint reg c s t ls = Inr (c', tr)"
    "score_all mint reg objs ls cs = Inr (rest, tr')" "scored = c' # rest"
    using Cons.prems(1) by (auto split: sum.splits prod.splits)
  then show ?case
    using score_candidate_spec [OF r(1) Cons.prems(2)] Cons.IH [OF r(2) Cons.prems(2)] Cons.prems(3)
    by simp
qed simp

section \<open>Rankings\<close>

lemma by_source_get:
  "dget (by_source cs) k =
     (case filter (\<lambda>c. mc_source_object_id c = k) cs of [] \<Rightarrow> None | x # xs \<Rightarrow> Some (x # xs))"
proof (induction cs rule: rev_induct)
  case (snoc c cs)
  let ?k = "mc_source_object_id c"
  have "by_source (cs @ [c]) = dput ?k (dget_default (by_source cs) ?k [] @ [c]) (by_source cs)"
    by (simp add: by_source_def)
  then show ?case
    using snoc by (auto simp: dget_default_def split: list.splits option.splits)
qed (simp add: by_source_def)

lemma by_source_wf: "dict_wf (by_source cs)"
  unfolding by_source_def by (rule foldl_inv) simp_all

lemma set_by_source:
  "(k, xs) \<in> set (by_source cs) \<longleftrightarrow> xs \<noteq> [] \<and> xs = filter (\<lambda>c. mc_source_object_id c = k) cs"
proof -
  have "(k, xs) \<in> set (by_source cs) \<longleftrightarrow> dget (by_source cs) k = Some xs"
    using by_source_wf [of cs] by (auto simp: dict_wf_def)
  then show ?thesis by (auto simp: by_source_get split: list.splits)
qed

lemma sort_by_score_set [simp]: "set (sort_by_score cs) = set cs"
  by (simp add: sort_by_score_def)

lemma sort_by_score_Nil [simp]: "sort_by_score cs = [] \<longleftrightarrow> cs = []"
  by (metis set_empty sort_by_score_set)

lemma sort_by_score_best:
  assumes "sort_by_score cs = best # rest" and "c \<in> set cs"
  shows "mc_score c \<le> mc_score best" and "best \<in> set cs"
proof -
  have "sorted (map (\<lambda>c. - mc_score c) (best # rest))"
    using assms(1) sorted_sort_key [of "\<lambda>c. - mc_score c" cs] by (simp add: sort_by_score_def)
  moreover have "c \<in> set (best # rest)" "best \<in> set cs"
    using assms sort_by_score_set [of cs] by (metis list.set_intros(1))+
  ultimately show "mc_score c \<le> mc_score best" and "best \<in> set cs" by auto
qed

section \<open>Nothing unreported\<close>

lemma oc_compute_hash_simps [simp]:
  "oc_outcome_type (oc_compute_hash h x) = oc_outcome_type x"
  "oc_source_object_id (oc_compute_hash h x) = oc_source_object_id x"
  "oc_target_object_id (oc_compute_hash h x) = oc_target_object_id x"
  "oc_candidate (oc_compute_hash h x) = oc_candidate x"
  "oc_mismatches (oc_compute_hash h x) = oc_mismatches x"
  by (simp_all add: oc_compute_hash_def Let_def)

lemma outcome_of_simps [simp]:
  "oc_outcome_type (outcome_of ty) = ty"
  "oc_source_object_id (outcome_of ty) = None"
  "oc_target_object_id (outcome_of ty) = None"
  "oc_candidate (outcome_of ty) = None"
  "oc_mismatches (outcome_of ty) = []"
  by (simp_all add: outcome_of_def)

lemma add_mismatch_keeps: "x \<in> set outs \<Longrightarrow> x \<in> set (foldl (add_mismatch hash) outs ms)"
  by (induction ms arbitrary: outs) (simp_all add: add_mismatch_def Let_def)

text \<open>A mismatch whose identifier no earlier outcome carries ends up in an outcome of its own.\<close>

lemma add_mismatch_new:
  assumes "m \<in> set ms" and "\<And>x n. x \<in> set outs \<Longrightarrow> n \<in> set (oc_mismatches x) \<Longrightarrow> mm_id n \<noteq> mm_id m"
  shows "\<exists>n\<in>set ms. mm_id n = mm_id m \<and> mismatch_outcome hash n \<in> set (foldl (add_mismatch hash) outs ms)"
  using assms
proof (induction ms arbitrary: outs)
  case (Cons a ms)
  show ?case
  proof (cases "mm_id a = mm_id m")
    case True
    then have "\<not> list_ex (\<lambda>x. list_ex (\<lambda>n. mm_id n = mm_id a) (oc_mismatches x)) outs"
      using Cons.prems(2) by (auto simp: list_ex_iff)
    then have "mismatch_outcome hash a \<in> set (add_mismatch hash outs a)"
      by (simp add: add_mismatch_def)
    with True add_mismatch_keeps show ?thesis by fastforce
  next
    case False
    then have "m \<in> set ms" using Cons.prems(1) by auto
    moreover have "mm_id n \<noteq> mm_id m" if "x \<in> set (add_mismatch hash outs a)" "n \<in> set (oc_mismatches x)" for x n
      using that Cons.prems(2) False
      by (auto simp: add_mismatch_def Let_def mismatch_outcome_def split: if_splits)
    ultimately show ?thesis using Cons.IH [of "add_mismatch hash outs a"] by auto
  qed
qed simp

lemma ranking_outcome_mem:
  assumes "x \<in> set (ranking_outcome hash thr rk)"
  shows "\<exists>best rest. cr2_ranked_candidates rk = best # rest \<and> oc_candidate x = Some best \<and>
    oc_source_object_id x = Some (mc_source_object_id best) \<and>
    oc_target_object_id x = Some (mc_target_object_id best) \<and> oc_mismatches x = mc_mismatches best"
proof (cases "cr2_ranked_candidates rk")
  case Nil
  with assms show ?thesis by (simp add: ranking_outcome_def)
next
  case (Cons best rest)
  with assms show ?thesis by (simp add: ranking_outcome_def split: if_splits)
qed

lemma ranking_outcome_ex:
  "cr2_ranked_candidates rk = best # rest \<Longrightarrow> 0 < mc_score best \<Longrightarrow> \<exists>x. x \<in> set (ranking_outcome hash thr rk)"
  by (simp add: ranking_outcome_def)

text \<open>The outcomes before the last loop, and the identifiers they carry.\<close>

definition base_outcomes ::
  "(draw \<Rightarrow> uuid) \<Rightarrow> (json \<Rightarrow> string) \<Rightarrow> rat \<Rightarrow> assembly_input \<Rightarrow> recon_outcome list" where
  "base_outcomes mint hash thr inp =
     ((concat (map (ranking_outcome hash thr) (ai_rankings inp))
        @ map (duplicate_outcome mint hash) (ai_duplicates inp))
       @ (case ai_coverage_result inp of
            None \<Rightarrow> []
          | Some r \<Rightarrow> if cv_is_fully_covered r then [] else map (gap_outcome hash) (cv_gaps r)))
       @ map (evidence_outcome mint hash) (filter (\<lambda>r. \<not> ev_is_sufficient r) (ai_evidence_results inp))"

lemma assemble_base:
  "assemble_outcomes mint hash thr inp = foldl (add_mismatch hash) (base_outcomes mint hash thr inp) (ai_mismatches inp)"
  by (simp add: assemble_outcomes_def base_outcomes_def Let_def)

lemma base_ids:
  assumes "x \<in> set (base_outcomes mint hash thr inp)" and "n \<in> set (oc_mismatches x)"
    and "\<And>rk c m. rk \<in> set (ai_rankings inp) \<Longrightarrow> c \<in> set (cr2_ranked_candidates rk) \<Longrightarrow>
      m \<in> set (mc_mismatches c) \<Longrightarrow> \<exists>i j rid. mm_id m = mint (D_Rule i j rid)"
  shows "\<exists>d. mm_id n = mint d \<and> (case d of D_Rule _ _ _ \<Rightarrow> True | D_Duplicate _ \<Rightarrow> True | D_Evidence _ \<Rightarrow> True | _ \<Rightarrow> False)"
proof -
  consider rk where "rk \<in> set (ai_rankings inp)" "x \<in> set (ranking_outcome hash thr rk)"
    | ds where "x = duplicate_outcome mint hash ds" | g where "x = gap_outcome hash g"
    | r where "x = evidence_outcome mint hash r"
    using assms(1) by (auto simp: base_outcomes_def split: option.splits if_splits)
  then show ?thesis
  proof cases
    case 1
    then obtain c where "c \<in> set (cr2_ranked_candidates rk)" "oc_mismatches x = mc_mismatches c"
      using ranking_outcome_mem [OF 1(2)] by (metis list.set_intros(1))
    with assms(2,3) 1(1) obtain i j rid where "mm_id n = mint (D_Rule i j rid)" by metis
    then show ?thesis by (intro exI [of _ "D_Rule i j rid"]) simp
  next
    case 2
    then show ?thesis using assms(2)
      by (intro exI [of _ "D_Duplicate (ds_source_object_id ds)"])
        (simp add: duplicate_outcome_def w2_mismatch_of_def)
  next
    case 3
    then show ?thesis using assms(2) by (simp add: gap_outcome_def)
  next
    case 4
    then show ?thesis using assms(2)
      by (intro exI [of _ "D_Evidence (ev_object_id r)"])
        (simp add: evidence_outcome_def w2_mismatch_of_def)
  qed
qed

abbreviation run_outcomes ::
  "(draw \<Rightarrow> uuid) \<Rightarrow> (json \<Rightarrow> string) \<Rightarrow> rat \<Rightarrow> rat \<Rightarrow> recon_request \<Rightarrow> control_object list
     \<Rightarrow> control_object list \<Rightarrow> match_candidate list \<Rightarrow> recon_outcome list" where
  "run_outcomes mint hash thr gap req ss ts scored \<equiv>
     assemble_outcomes mint hash thr (assembly_of mint gap req ss ts scored)"

lemma ranked_outcome:
  assumes "c \<in> set scored" and "0 < mc_score c"
  shows "\<exists>x best. x \<in> set (run_outcomes mint hash thr gap req ss ts scored) \<and> oc_candidate x = Some best \<and>
    best \<in> set scored \<and> mc_score c \<le> mc_score best \<and>
    mc_source_object_id best = mc_source_object_id c \<and>
    oc_source_object_id x = Some (mc_source_object_id c) \<and>
    oc_target_object_id x = Some (mc_target_object_id best)"
proof -
  let ?k = "mc_source_object_id c"
  let ?xs = "filter (\<lambda>d. mc_source_object_id d = ?k) scored"
  have c: "c \<in> set ?xs" using assms(1) by simp
  then have "(?k, ?xs) \<in> set (by_source scored)"
    unfolding set_by_source by (metis empty_iff list.set(1))
  then have rk: "ranking_of gap (?k, ?xs) \<in> set (build_rankings gap scored)"
    by (simp add: build_rankings_def del: set_filter)
  obtain best rest where b: "sort_by_score ?xs = best # rest"
    using c by (metis empty_iff list.exhaust list.set(1) sort_by_score_Nil)
  have best: "mc_score c \<le> mc_score best" "best \<in> set ?xs"
    using sort_by_score_best [OF b c] by auto
  have ranked: "cr2_ranked_candidates (ranking_of gap (?k, ?xs)) = best # rest"
    by (simp add: ranking_of_def b Let_def)
  obtain x where x: "x \<in> set (ranking_outcome hash thr (ranking_of gap (?k, ?xs)))"
    using ranking_outcome_ex [OF ranked] best(1) assms(2) by fastforce
  with rk have "x \<in> set (base_outcomes mint hash thr (assembly_of mint gap req ss ts scored))"
    by (auto simp: base_outcomes_def assembly_of_def Let_def)
  then have "x \<in> set (run_outcomes mint hash thr gap req ss ts scored)"
    unfolding assemble_base by (rule add_mismatch_keeps)
  with ranking_outcome_mem [OF x] ranked best show ?thesis by auto
qed

lemma missing_outcome:
  assumes "inj mint" and "list_all (scored_ok mint) scored"
    and "m \<in> set (ai_mismatches (assembly_of mint gap req ss ts scored))"
    and "mm_id m = mint d" and "case d of D_Missing_Source _ \<Rightarrow> True | D_Missing_Target _ \<Rightarrow> True | _ \<Rightarrow> False"
  shows "\<exists>n\<in>set (ai_mismatches (assembly_of mint gap req ss ts scored)). mm_id n = mint d \<and>
    mismatch_outcome hash n \<in> set (run_outcomes mint hash thr gap req ss ts scored)"
proof -
  let ?inp = "assembly_of mint gap req ss ts scored"
  have rule_ids: "\<exists>i j rid. mm_id n = mint (D_Rule i j rid)"
    if "rk \<in> set (ai_rankings ?inp)" "c \<in> set (cr2_ranked_candidates rk)" "n \<in> set (mc_mismatches c)" for rk c n
  proof -
    have "c \<in> set scored"
      using that(1,2) by (auto simp: assembly_of_def Let_def build_rankings_def ranking_of_def set_by_source)
    then show ?thesis using assms(2) that(3) by (auto simp: list_all_iff scored_ok_def)
  qed
  have fresh: "mm_id n \<noteq> mm_id m"
    if x: "x \<in> set (base_outcomes mint hash thr ?inp)" and n: "n \<in> set (oc_mismatches x)" for x n
  proof -
    have "\<exists>e. mm_id n = mint e \<and>
        (case e of D_Rule _ _ _ \<Rightarrow> True | D_Duplicate _ \<Rightarrow> True | D_Evidence _ \<Rightarrow> True | _ \<Rightarrow> False)"
      by (rule base_ids [OF x n]) (rule rule_ids)
    then obtain e where "mm_id n = mint e"
      "case e of D_Rule _ _ _ \<Rightarrow> True | D_Duplicate _ \<Rightarrow> True | D_Evidence _ \<Rightarrow> True | _ \<Rightarrow> False"
      by blast
    with assms(1,4,5) show ?thesis by (auto simp: inj_eq split: draw.splits)
  qed
  from add_mismatch_new [OF assms(3) fresh] show ?thesis
    unfolding assemble_base using assms(4) by auto
qed

lemma classified_ids:
  assumes "m \<in> set (ai_mismatches (assembly_of mint gap req ss ts scored))"
  shows "(\<exists>src\<in>set ss. mm_id m = mint (D_Missing_Source (co_id src)) \<and> mm_source_object_id m = Some (co_id src)) \<or>
    (\<exists>tgt\<in>set ts. mm_id m = mint (D_Missing_Target (co_id tgt)) \<and> mm_target_object_id m = Some (co_id tgt)) \<or>
    (\<exists>i j k. mm_id m = mint (D_Conflict i j k))"
  using assms
  by (fastforce simp: assembly_of_def Let_def classify_missing_objects_def missing_source_def
      missing_target_def classify_identifier_conflicts_def conflict_mismatch_def w2_mismatch_of_def
      split: if_splits option.splits)

lemma source_accounted:
  assumes inj: "inj mint" and ok: "list_all (scored_ok mint) scored" and src: "src \<in> set ss"
  shows "\<exists>x\<in>set (run_outcomes mint hash thr gap req ss ts scored). oc_source_object_id x = Some (co_id src)"
proof (cases "\<exists>c\<in>set scored. mc_source_object_id c = co_id src \<and> 0 < mc_score c")
  case True
  then obtain c where "c \<in> set scored" "mc_source_object_id c = co_id src" "0 < mc_score c" by blast
  with ranked_outcome [of c scored mint hash thr gap req ss ts] show ?thesis by auto
next
  case False
  let ?m = "missing_source mint (target_plane_of (rsc_planes (rq_scope req))) src"
  have "?m \<in> set (ai_mismatches (assembly_of mint gap req ss ts scored))"
    using src False by (auto simp: assembly_of_def Let_def classify_missing_objects_def)
  then obtain n where n: "n \<in> set (ai_mismatches (assembly_of mint gap req ss ts scored))"
    "mm_id n = mint (D_Missing_Source (co_id src))"
    "mismatch_outcome hash n \<in> set (run_outcomes mint hash thr gap req ss ts scored)"
    using missing_outcome [OF inj ok, of ?m gap req ss ts "D_Missing_Source (co_id src)" hash thr]
    by (auto simp: missing_source_def w2_mismatch_of_def)
  have "mm_source_object_id n = Some (co_id src)"
    using classified_ids [OF n(1)] n(2) inj by (auto simp: inj_eq)
  with n(3) show ?thesis by (intro bexI [of _ "mismatch_outcome hash n"]) (simp_all add: mismatch_outcome_def)
qed

lemma target_accounted:
  assumes inj: "inj mint" and ok: "list_all (scored_ok mint) scored" and tgt: "tgt \<in> set ts"
  shows "(\<exists>x\<in>set (run_outcomes mint hash thr gap req ss ts scored). oc_target_object_id x = Some (co_id tgt)) \<or>
    (\<exists>c\<in>set scored. mc_target_object_id c = co_id tgt \<and>
       (\<exists>x\<in>set (run_outcomes mint hash thr gap req ss ts scored). \<exists>best. oc_candidate x = Some best \<and>
          oc_source_object_id x = Some (mc_source_object_id c) \<and> mc_score c \<le> mc_score best))"
proof (cases "\<exists>c\<in>set scored. mc_target_object_id c = co_id tgt \<and> 0 < mc_score c")
  case True
  then obtain c where "c \<in> set scored" "mc_target_object_id c = co_id tgt" "0 < mc_score c" by blast
  with ranked_outcome [of c scored mint hash thr gap req ss ts] show ?thesis by blast
next
  case False
  let ?m = "missing_target mint (source_plane_of (rsc_planes (rq_scope req))) tgt"
  have "?m \<in> set (ai_mismatches (assembly_of mint gap req ss ts scored))"
    using tgt False by (auto simp: assembly_of_def Let_def classify_missing_objects_def)
  then obtain n where n: "n \<in> set (ai_mismatches (assembly_of mint gap req ss ts scored))"
    "mm_id n = mint (D_Missing_Target (co_id tgt))"
    "mismatch_outcome hash n \<in> set (run_outcomes mint hash thr gap req ss ts scored)"
    using missing_outcome [OF inj ok, of ?m gap req ss ts "D_Missing_Target (co_id tgt)" hash thr]
    by (auto simp: missing_target_def w2_mismatch_of_def)
  have "mm_target_object_id n = Some (co_id tgt)"
    using classified_ids [OF n(1)] n(2) inj by (auto simp: inj_eq)
  with n(3) show ?thesis by (intro disjI1 bexI [of _ "mismatch_outcome hash n"]) (simp_all add: mismatch_outcome_def)
qed

section \<open>The data of a run\<close>

lemma set_split_by_plane: "split_by_plane ps obs = (ss, ts) \<Longrightarrow> set ss \<union> set ts \<subseteq> set obs"
  by (auto simp: split_by_plane_def split: if_splits)

lemma fetched_stored:
  assumes wf: "repo_wf (gs_repo g)" and "fetch_graph_data g req = (ss, ts, ls)"
    and "ob \<in> set ss \<union> set ts"
  shows "gs_get_object g (co_id ob) = Some ob"
proof -
  have found: "gs_get_object g (co_id x) = Some x" if "x \<in> set (List.map_filter (gs_get_object g) ids)" for x ids
    using that get_object_id [OF wf] by (auto simp: set_map_filter_Some gs_get_object_def)
  have listed: "gs_get_object g (co_id x) = Some x" if "x \<in> set (list_objects (gs_repo g) tn pl dm kd st)" for x tn pl dm kd st
    using that by (simp add: set_list_objects [OF wf] gs_get_object_def)
  note defs = assms(2)[unfolded fetch_graph_data_def Let_def]
  show ?thesis
  proof (cases "rt_graph_slice_root_ids (rq_target req) = [] \<and> rt_object_ids (rq_target req) = []")
    case False
    then obtain ids where "split_by_plane (rsc_planes (rq_scope req)) (List.map_filter (gs_get_object g) ids) = (ss, ts)"
      using defs by (auto split: if_splits prod.splits)
    then show ?thesis using set_split_by_plane assms(3) found by blast
  next
    case True
    let ?dm = "case rsc_domains (rq_scope req) of d # _ \<Rightarrow> Some d | [] \<Rightarrow> None"
    let ?l = "\<lambda>pl. list_objects (gs_repo g) (rsc_tenant_id (rq_scope req)) (Some pl) ?dm None None"
    have "set ss \<subseteq> set (?l (source_plane_of (rsc_planes (rq_scope req))))"
      "set ts \<subseteq> set (?l (target_plane_of (rsc_planes (rq_scope req))))"
      using defs True by (auto split: if_splits)
    then show ?thesis using assms(3) listed by blast
  qed
qed

lemma fetched_inj:
  assumes "repo_wf (gs_repo g)" and "fetch_graph_data g req = (ss, ts, ls)"
  shows "inj_on co_id (set ss)" and "inj_on co_id (set ts)"
  using fetched_stored [OF assms] by (metis (no_types, lifting) UnCI inj_onI option.inject)+

lemma index_found: "co_id ob \<in> co_id ` set obs \<Longrightarrow> dget (foldl (\<lambda>d x. dput (co_id x) x d) [] obs) (co_id ob) \<noteq> None"
proof -
  have "dget (foldl (\<lambda>d x. dput (co_id x) x d) d obs) i \<noteq> None \<longleftrightarrow> i \<in> co_id ` set obs \<or> dget d i \<noteq> None" for d i
    by (induction obs arbitrary: d) auto
  then show "co_id ob \<in> co_id ` set obs \<Longrightarrow> ?thesis" by simp
qed

lemma candidates_found:
  assumes "c \<in> set (generate ss ts ls)" and "inj_on co_id (set ss)" and "inj_on co_id (set ts)"
  shows "dget (foldl (\<lambda>d x. dput (co_id x) x d) [] (ss @ ts)) (mc_source_object_id c) \<noteq> None \<and>
    dget (foldl (\<lambda>d x. dput (co_id x) x d) [] (ss @ ts)) (mc_target_object_id c) \<noteq> None"
proof -
  have "pair_of c \<in> set (map pair_of (generate ss ts ls))" using assms(1) by simp
  then obtain src tgt where "src \<in> set ss" "tgt \<in> set ts" "mc_source_object_id c = co_id src"
    "mc_target_object_id c = co_id tgt"
    unfolding generate_exact [OF assms(2,3)] id_pairs_def pair_of_def by auto
  then show ?thesis using index_found [of src "ss @ ts"] index_found [of tgt "ss @ ts"] by simp
qed

section \<open>Cases\<close>

definition reportable :: "recon_outcome \<Rightarrow> bool" where
  "reportable x \<longleftrightarrow> \<not> (oc_outcome_type x = OC_FULLY_RECONCILED \<and> oc_mismatches x = [])"

lemma or_emit_simps [simp]:
  "or_graph (or_emit e s) = or_graph s" "or_cases (or_emit e s) = or_cases s"
  "or_runs (or_emit e s) = or_runs s" "or_rule_registry (or_emit e s) = or_rule_registry s"
  "or_match_threshold (or_emit e s) = or_match_threshold s"
  "or_duplicate_gap_threshold (or_emit e s) = or_duplicate_gap_threshold s"
  "or_audit (or_emit e s) = emit e (or_audit s)"
  by (simp_all add: or_emit_def)

lemma or_emit_all_simps [simp]:
  "or_graph (or_emit_all es s) = or_graph s" "or_cases (or_emit_all es s) = or_cases s"
  "or_runs (or_emit_all es s) = or_runs s" "or_rule_registry (or_emit_all es s) = or_rule_registry s"
  "or_match_threshold (or_emit_all es s) = or_match_threshold s"
  "or_duplicate_gap_threshold (or_emit_all es s) = or_duplicate_gap_threshold s"
  unfolding or_emit_all_def by (induction es arbitrary: s) simp_all

lemma or_emit_all_log [simp]: "extends_log (or_audit s) (or_audit (or_emit_all es s))"
  unfolding or_emit_all_def
proof (induction es arbitrary: s)
  case (Cons e es)
  have "extends_log (or_audit s) (or_audit (or_emit e s))" by simp
  also have "extends_log \<dots> (or_audit (foldl (\<lambda>s e. or_emit e s) (or_emit e s) es))" by (rule Cons)
  finally show ?case by simp
qed simp

lemma or_store_simps [simp]:
  "or_graph (or_store_run r s) = or_graph s" "or_cases (or_store_run r s) = or_cases s"
  "or_runs (or_store_run r s) = dput (wu_id r) r (or_runs s)"
  "or_rule_registry (or_store_run r s) = or_rule_registry s"
  "or_audit (or_store_run r s) = or_audit s"
  "or_match_threshold (or_store_run r s) = or_match_threshold s"
  "or_duplicate_gap_threshold (or_store_run r s) = or_duplicate_gap_threshold s"
  "or_graph (or_store_case c s) = or_graph s" "or_runs (or_store_case c s) = or_runs s"
  "or_rule_registry (or_store_case c s) = or_rule_registry s"
  "or_audit (or_store_case c s) = or_audit s" "or_cases (or_store_case c s) = dput (wc_id c) c (or_cases s)"
  by (simp_all add: or_store_run_def or_store_case_def)

lemma create_cases_spec:
  assumes "create_cases ids now rid tn dm n outs s = (cs, s')" and "inj ids"
    and "\<forall>k\<ge>n. dget (or_cases s) (ids k) = None"
  shows "map wc_outcome cs = filter reportable outs \<and>
    list_all (\<lambda>c. c = create_case (wc_id c) now rid tn (wc_outcome c) dm) cs \<and>
    or_cases s' = or_cases s @ map (\<lambda>c. (wc_id c, c)) cs \<and>
    or_graph s' = or_graph s \<and> or_runs s' = or_runs s \<and> extends_log (or_audit s) (or_audit s')"
  using assms
proof (induction outs arbitrary: n s cs s')
  case (Cons x outs)
  show ?case
  proof (cases "reportable x")
    case False
    with Cons show ?thesis by (simp add: reportable_def)
  next
    case True
    let ?c = "create_case (ids n) now rid tn x dm"
    let ?s = "or_emit (reconciliation_case_classified (ids n) tn (oc_outcome_type x))
      (or_emit (reconciliation_case_created ?c) (or_store_case ?c s))"
    have id: "wc_id ?c = ids n" "wc_outcome ?c = x" by (simp_all add: create_case_def)
    obtain cs0 where r: "create_cases ids now rid tn dm (Suc n) outs ?s = (cs0, s')" "cs = ?c # cs0"
      using Cons.prems(1) True unfolding reportable_def by (auto simp: Let_def id split: prod.splits)
    have fresh: "ids n \<notin> set (dkeys (or_cases s))"
      using Cons.prems(3) by (simp add: dget_None_iff del: set_map)
    define s1 where "s1 = ?s"
    have s1: "or_cases s1 = or_cases s @ [(ids n, ?c)]" "or_graph s1 = or_graph s" "or_runs s1 = or_runs s"
      using fresh by (simp_all add: s1_def id dput_fresh del: set_map)
    have log: "extends_log (or_audit s) (or_audit s1)"
      unfolding s1_def by (simp add: extends_log_def)
    have "\<forall>k\<ge>Suc n. dget (or_cases s1) (ids k) = None"
      unfolding s1 using Cons.prems(2,3) by (auto simp: map_add_def inj_eq split: option.splits)
    note IH = Cons.IH [OF r(1) [folded s1_def] Cons.prems(2) this]
    then have "extends_log (or_audit s) (or_audit s')"
      using extends_log_trans [OF log] by blast
    with IH True show ?thesis by (simp add: r(2) id s1)
  qed
qed simp

section \<open>A run\<close>

lemma started_run2_simps [simp]:
  "wu_id (started_run2 fresh now req) = fresh" "wu_status (started_run2 fresh now req) = RUN_IN_PROGRESS"
  "wu_tenant_id (started_run2 fresh now req) = rq_tenant_id req"
  by (simp_all add: started_run2_def create_run_def)

lemma finish_run_simps [simp]:
  "wu_id (finish_run h now tr n outs cs sm r) = wu_id r"
  "wu_status (finish_run h now tr n outs cs sm r) = RUN_COMPLETED"
  "wu_outcomes (finish_run h now tr n outs cs sm r) = outs"
  "wu_cases (finish_run h now tr n outs cs sm r) = cs"
  "wu_tenant_id (finish_run h now tr n outs cs sm r) = wu_tenant_id r"
  by (simp_all add: finish_run_def wu_compute_run_hash_def Let_def)

lemma fst_assemble [simp]: "fst (assemble mint hash thr inp rid tn ps ds) = assemble_outcomes mint hash thr inp"
  by (simp add: assemble_def Let_def)

abbreviation index_of :: "control_object list \<Rightarrow> (uuid, control_object) dict" where
  "index_of obs \<equiv> foldl (\<lambda>d ob. dput (co_id ob) ob d) [] obs"

abbreviation run_domain :: "recon_request \<Rightarrow> string" where
  "run_domain req \<equiv> (case rsc_domains (rq_scope req) of d # _ \<Rightarrow> d | [] \<Rightarrow> [])"

lemma run_begun_simps [simp]:
  "or_graph (run_begun fresh now req cands s) = or_graph s"
  "or_cases (run_begun fresh now req cands s) = or_cases s"
  "or_runs (run_begun fresh now req cands s) = dput fresh (started_run2 fresh now req) (or_runs s)"
  "or_rule_registry (run_begun fresh now req cands s) = or_rule_registry s"
  "or_match_threshold (run_begun fresh now req cands s) = or_match_threshold s"
  "or_duplicate_gap_threshold (run_begun fresh now req cands s) = or_duplicate_gap_threshold s"
  by (simp_all add: run_begun_def Let_def)

lemma run_begun_log: "extends_log (or_audit s) (or_audit (run_begun fresh now req cands s))"
proof -
  have "extends_log (or_audit s) (or_audit (or_emit (reconciliation_run_started fresh (rq_tenant_id req)
      (rsc_planes (rq_scope req))) (or_store_run (started_run2 fresh now req) s)))" by simp
  from extends_log_trans [OF this or_emit_all_log] show ?thesis unfolding run_begun_def Let_def .
qed

lemma announce_simps [simp]:
  "or_graph (announce_findings rid tn inp outs s) = or_graph s"
  "or_cases (announce_findings rid tn inp outs s) = or_cases s"
  "or_runs (announce_findings rid tn inp outs s) = or_runs s"
  by (simp_all add: announce_findings_def Let_def)

lemma announce_log: "extends_log (or_audit s) (or_audit (announce_findings rid tn inp outs s))"
  unfolding announce_findings_def Let_def by (meson extends_log_trans or_emit_all_log)

lemma run_raises:
  assumes "fetch_graph_data (or_graph s) req = (ss, ts, ls)"
    and "score_all mint (or_rule_registry s) (index_of (ss @ ts)) ls (generate ss ts ls) = Inl e"
  shows "or_execute mint hash fresh now req s = (Inl e, run_begun fresh now req (generate ss ts ls) s)"
  using assms by (simp add: or_execute_def Let_def del: foldl_append)

lemma run_returns:
  fixes s :: "'c orchestrator" and hash :: "json \<Rightarrow> string"
  assumes fetch: "fetch_graph_data (or_graph s) req = (ss, ts, ls)"
    and scored: "score_all mint (or_rule_registry s) (index_of (ss @ ts)) ls (generate ss ts ls) = Inr (scored, tr)"
  defines "outs \<equiv> run_outcomes mint hash (or_match_threshold s) (or_duplicate_gap_threshold s) req ss ts scored"
  shows "\<exists>(s1 :: 'c orchestrator) cs s2 sm run.
    or_cases s1 = or_cases s \<and> or_graph s1 = or_graph s \<and>
    or_runs s1 = dput fresh (started_run2 fresh now req) (or_runs s) \<and>
    extends_log (or_audit s) (or_audit s1) \<and>
    create_cases (\<lambda>n. mint (D_Case n)) now fresh (rq_tenant_id req) (run_domain req) 0 outs s1 = (cs, s2) \<and>
    run = finish_run hash now tr (length scored) outs cs sm (started_run2 fresh now req) \<and>
    or_execute mint hash fresh now req s =
      (Inr \<lparr>xe_run = run, xe_cases = cs, xe_summary = sm,
             xe_plan = build_execution_plan (or_rule_registry s) (started_run2 fresh now req) req\<rparr>,
       or_emit (reconciliation_run_completed fresh (rq_tenant_id req) (wu_run_hash run)
         (length outs) (length cs)) (or_store_run run s2))"
proof -
  let ?inp = "assembly_of mint (or_duplicate_gap_threshold s) req ss ts scored"
  let ?b = "run_begun fresh now req (generate ss ts ls) s"
  let ?s1 = "announce_findings fresh (rq_tenant_id req) ?inp outs ?b"
  obtain cs s2 where c: "create_cases (\<lambda>n. mint (D_Case n)) now fresh (rq_tenant_id req) (run_domain req) 0
      outs ?s1 = (cs, s2)" by fastforce
  obtain sm0 where sm0: "assemble mint hash (or_match_threshold s) ?inp fresh (rq_tenant_id req)
      (rsc_planes (rq_scope req)) (rsc_domains (rq_scope req)) = (outs, sm0)"
    using fst_assemble [of mint hash "or_match_threshold s" ?inp] unfolding outs_def by (metis prod.collapse)
  define sm where "sm = sm0\<lparr>su_total_objects_evaluated := length ss + length ts,
    su_total_cases_created := length cs\<rparr>"
  have "or_execute mint hash fresh now req s =
      (let run = finish_run hash now tr (length scored) outs cs sm (started_run2 fresh now req)
       in (Inr \<lparr>xe_run = run, xe_cases = cs, xe_summary = sm,
                xe_plan = build_execution_plan (or_rule_registry s) (started_run2 fresh now req) req\<rparr>,
           or_emit (reconciliation_run_completed fresh (rq_tenant_id req) (wu_run_hash run)
             (length outs) (length cs)) (or_store_run run s2)))"
    using c sm0 by (simp add: or_execute_def Let_def fetch scored sm_def del: foldl_append)
  moreover have "extends_log (or_audit s) (or_audit ?s1)"
    by (rule extends_log_trans [OF run_begun_log announce_log])
  moreover have "or_cases ?s1 = or_cases s" "or_graph ?s1 = or_graph s"
    "or_runs ?s1 = dput fresh (started_run2 fresh now req) (or_runs s)" by simp_all
  ultimately show ?thesis unfolding Let_def using c by blast
qed

end
