(* ===== verification/Recon_Engine.thy ===== *)
theory Recon_Engine
  imports Graph_Service_Props Py_Float
begin

text \<open>
  The pairwise reconciliation engine, \<^verbatim>\<open>app/core/reconciliation/types.py\<close>, \<^verbatim>\<open>rules.py\<close>,
  \<^verbatim>\<open>scoring.py\<close> and \<^verbatim>\<open>engine.py\<close>: the linked objects of two planes are paired, every rule is run
  on every pair, the mismatches are scored, and the frozen source objects are marked reconciled.
  A rule is a record of its identifier and its \<open>evaluate\<close> method; \<open>evaluate\<close> may raise, because
  \<open>float\<close> of a huge integer raises an \<open>OverflowError\<close> no rule catches. The random identifiers of
  mismatches, bundles and results are not kept: nothing reads them.
\<close>

section \<open>Value types\<close>

datatype mismatch_category =
    MC_RATE_DEVIATION | MC_SCOPE_MISMATCH | MC_QUANTITY_DISCREPANCY | MC_DATE_DISCREPANCY
  | MC_OBLIGATION_UNMET | MC_PENALTY_TRIGGERED | MC_DUPLICATE_CHARGE | MC_MISSING_EVIDENCE
  | MC_SLA_BREACH | MC_WORK_NOT_COMPLETED | MC_BILLING_WITHOUT_COMPLETION | MC_SCOPE_CREEP
  | MC_CONTRADICTORY_STATE | MC_PROVENANCE_GAP

fun mismatch_category_value :: "mismatch_category \<Rightarrow> string" where
  "mismatch_category_value MC_RATE_DEVIATION = ''rate_deviation''"
| "mismatch_category_value MC_SCOPE_MISMATCH = ''scope_mismatch''"
| "mismatch_category_value MC_QUANTITY_DISCREPANCY = ''quantity_discrepancy''"
| "mismatch_category_value MC_DATE_DISCREPANCY = ''date_discrepancy''"
| "mismatch_category_value MC_OBLIGATION_UNMET = ''obligation_unmet''"
| "mismatch_category_value MC_PENALTY_TRIGGERED = ''penalty_triggered''"
| "mismatch_category_value MC_DUPLICATE_CHARGE = ''duplicate_charge''"
| "mismatch_category_value MC_MISSING_EVIDENCE = ''missing_evidence''"
| "mismatch_category_value MC_SLA_BREACH = ''sla_breach''"
| "mismatch_category_value MC_WORK_NOT_COMPLETED = ''work_not_completed''"
| "mismatch_category_value MC_BILLING_WITHOUT_COMPLETION = ''billing_without_completion''"
| "mismatch_category_value MC_SCOPE_CREEP = ''scope_creep''"
| "mismatch_category_value MC_CONTRADICTORY_STATE = ''contradictory_state''"
| "mismatch_category_value MC_PROVENANCE_GAP = ''provenance_gap''"

datatype mismatch_severity = MS_INFO | MS_LOW | MS_MEDIUM | MS_HIGH | MS_CRITICAL

datatype reconciliation_mode = RM_DETERMINISTIC | RM_ASSISTED

datatype reconciliation_status = RS_PENDING | RS_IN_PROGRESS | RS_COMPLETED | RS_FAILED | RS_DISPUTED

text \<open>An expected or actual value: absent, a payload value, or a float a rule computed.\<close>

datatype mm_value = MV_None | MV_Json json | MV_Float pyfloat

fun mv_str :: "mm_value \<Rightarrow> string" where
  "mv_str MV_None = ''None''"
| "mv_str (MV_Json j) = py_str j"
| "mv_str (MV_Float x) = pf_str x"

record mismatch =
  mi_category :: mismatch_category
  mi_severity :: mismatch_severity
  mi_source_object_id :: uuid
  mi_target_object_id :: uuid
  mi_source_plane :: plane_type
  mi_target_plane :: plane_type
  mi_description :: string
  mi_expected_value :: mm_value
  mi_actual_value :: mm_value
  mi_deviation :: "pyfloat option"
  mi_evidence :: "evidence_ref list"
  mi_rule_id :: "string option"
  mi_metadata :: "(string, pyfloat) dict"

definition mi_financial_impact :: "mismatch \<Rightarrow> pyfloat" where
  "mi_financial_impact m = dget_default (mi_metadata m) ''financial_impact'' (Fin 0)"

record evidence_bundle =
  eb_mismatches :: "mismatch list"
  eb_supporting_evidence :: "evidence_ref list"
  eb_source_objects :: "uuid list"
  eb_target_objects :: "uuid list"
  eb_summary :: string

definition eb_total_evidence :: "evidence_bundle \<Rightarrow> nat" where
  "eb_total_evidence b =
     length (eb_supporting_evidence b) + sum_list (map (\<lambda>m. length (mi_evidence m)) (eb_mismatches b))"

record reconciliation_score =
  sr_overall_score :: rat
  sr_confidence :: rat
  sr_mismatch_count :: nat
  sr_critical_count :: nat
  sr_high_count :: nat
  sr_medium_count :: nat
  sr_low_count :: nat
  sr_info_count :: nat
  sr_financial_impact_total :: pyfloat

definition sr_has_critical :: "reconciliation_score \<Rightarrow> bool" where
  "sr_has_critical s = (sr_critical_count s > 0)"

definition sr_is_clean :: "reconciliation_score \<Rightarrow> bool" where
  "sr_is_clean s = (sr_mismatch_count s = 0)"

record reconciliation_result =
  rr_tenant_id :: uuid
  rr_run_at :: time
  rr_status :: reconciliation_status
  rr_mode :: reconciliation_mode
  rr_source_plane :: plane_type
  rr_target_plane :: plane_type
  rr_domain :: string
  rr_evidence_bundle :: evidence_bundle
  rr_score :: reconciliation_score
  rr_decision_hash :: string

definition rr_compute_hash :: "(json \<Rightarrow> string) \<Rightarrow> reconciliation_result \<Rightarrow> reconciliation_result" where
  "rr_compute_hash hash r =
     (let data = JObj
        [(''tenant_id'', JStr (rr_tenant_id r)),
         (''source_plane'', JStr (plane_value (rr_source_plane r))),
         (''target_plane'', JStr (plane_value (rr_target_plane r))),
         (''domain'', JStr (rr_domain r)),
         (''mismatches'', JList (map (\<lambda>m. JObj
            [(''category'', JStr (mismatch_category_value (mi_category m))),
             (''source_object_id'', JStr (mi_source_object_id m)),
             (''target_object_id'', JStr (mi_target_object_id m)),
             (''expected_value'', JStr (mv_str (mi_expected_value m))),
             (''actual_value'', JStr (mv_str (mi_actual_value m)))])
           (eb_mismatches (rr_evidence_bundle r))))]
      in r\<lparr>rr_decision_hash := hash data\<rparr>)"

section \<open>Rules\<close>

record recon_rule =
  ru_rule_id :: string
  ru_evaluate :: "control_object \<Rightarrow> control_object \<Rightarrow> conversion_error + mismatch list"

text \<open>A mismatch between two objects, with every optional field at its default.\<close>

definition mismatch_of ::
  "string \<Rightarrow> mismatch_category \<Rightarrow> mismatch_severity \<Rightarrow> control_object \<Rightarrow> control_object \<Rightarrow> string
     \<Rightarrow> mismatch" where
  "mismatch_of rule_id cat sev source target text =
     \<lparr>mi_category = cat, mi_severity = sev, mi_source_object_id = co_id source,
      mi_target_object_id = co_id target, mi_source_plane = co_plane source,
      mi_target_plane = co_plane target, mi_description = text, mi_expected_value = MV_None,
      mi_actual_value = MV_None, mi_deviation = None, mi_evidence = [], mi_rule_id = Some rule_id,
      mi_metadata = []\<rparr>"

text \<open>
  The numeric comparison both float rules start with: \<open>None\<close> when a field is missing or not a
  number.
\<close>

definition float_fields ::
  "string \<Rightarrow> control_object \<Rightarrow> control_object \<Rightarrow> conversion_error + (pyfloat \<times> pyfloat) option" where
  "float_fields field source target =
     (case (get_value (co_payload source) field, get_value (co_payload target) field) of
        (Some s, Some t) \<Rightarrow> float_pair s t
      | _ \<Rightarrow> Inr None)"

definition in_quotes :: "string \<Rightarrow> string" where
  "in_quotes s = [CHR 0x27] @ s @ [CHR 0x27]"

definition rate_deviation_rule :: "string \<Rightarrow> rat \<Rightarrow> recon_rule" where
  "rate_deviation_rule rate_field threshold =
     \<lparr>ru_rule_id = ''rate_deviation'',
      ru_evaluate = (\<lambda>source target.
        (case float_fields rate_field source target of
           Inl e \<Rightarrow> Inl e
         | Inr None \<Rightarrow> Inr []
         | Inr (Some (s_val, t_val)) \<Rightarrow>
             let dev = pf_abs (pf_sub s_val t_val)
             in if pf_less (Fin threshold) dev
                then Inr [(mismatch_of ''rate_deviation'' MC_RATE_DEVIATION MS_HIGH source target
                       (''Rate deviation: '' @ pf_str s_val @ '' vs '' @ pf_str t_val
                        @ '' (threshold: '' @ float_repr threshold @ '')''))
                     \<lparr>mi_expected_value := MV_Float s_val, mi_actual_value := MV_Float t_val,
                      mi_deviation := Some dev, mi_metadata := [(''financial_impact'', dev)]\<rparr>]
                else Inr []))\<rparr>"

definition quantity_discrepancy_rule :: "string \<Rightarrow> recon_rule" where
  "quantity_discrepancy_rule qty_field =
     \<lparr>ru_rule_id = ''quantity_discrepancy'',
      ru_evaluate = (\<lambda>source target.
        (case float_fields qty_field source target of
           Inl e \<Rightarrow> Inl e
         | Inr None \<Rightarrow> Inr []
         | Inr (Some (s_val, t_val)) \<Rightarrow>
             if \<not> pf_eq s_val t_val
             then Inr [(mismatch_of ''quantity_discrepancy'' MC_QUANTITY_DISCREPANCY MS_MEDIUM
                    source target (''Quantity mismatch: '' @ pf_str s_val @ '' vs '' @ pf_str t_val))
                  \<lparr>mi_expected_value := MV_Float s_val, mi_actual_value := MV_Float t_val,
                   mi_deviation := Some (pf_abs (pf_sub s_val t_val))\<rparr>]
             else Inr []))\<rparr>"

definition obligation_unmet_rule :: recon_rule where
  "obligation_unmet_rule =
     \<lparr>ru_rule_id = ''obligation_unmet'',
      ru_evaluate = (\<lambda>source target.
        if dget (co_payload source) ''obligation_status'' = Some (JStr ''unmet'')
        then Inr [mismatch_of ''obligation_unmet'' MC_OBLIGATION_UNMET MS_HIGH source target
               (''Obligation '' @ in_quotes (co_label source) @ '' is unmet with no fulfillment from ''
                @ in_quotes (co_label target))]
        else Inr [])\<rparr>"

definition scope_match_rule :: "string \<Rightarrow> recon_rule" where
  "scope_match_rule scope_field =
     \<lparr>ru_rule_id = ''scope_mismatch'',
      ru_evaluate = (\<lambda>source target.
        (case (get_value (co_payload source) scope_field, get_value (co_payload target) scope_field) of
           (Some source_scope, Some target_scope) \<Rightarrow>
             if \<not> py_eq source_scope target_scope
             then Inr [(mismatch_of ''scope_mismatch'' MC_SCOPE_MISMATCH MS_MEDIUM source target
                    (''Scope mismatch: '' @ in_quotes (py_str source_scope) @ '' vs ''
                     @ in_quotes (py_str target_scope)))
                  \<lparr>mi_expected_value := MV_Json source_scope, mi_actual_value := MV_Json target_scope\<rparr>]
             else Inr []
         | _ \<Rightarrow> Inr []))\<rparr>"

definition billing_without_completion_rule :: recon_rule where
  "billing_without_completion_rule =
     \<lparr>ru_rule_id = ''billing_without_completion'',
      ru_evaluate = (\<lambda>source target.
        let is_billing = json_truthy (dget_default (co_payload source) ''is_billed'' (JBool False));
            is_completed = json_truthy (dget_default (co_payload target) ''is_completed'' (JBool False))
        in if is_billing \<and> \<not> is_completed
           then Inr [mismatch_of ''billing_without_completion'' MC_BILLING_WITHOUT_COMPLETION
                  MS_CRITICAL source target
                  (''Billing event '' @ in_quotes (co_label source) @ '' has no matching completion for ''
                   @ in_quotes (co_label target))]
           else Inr [])\<rparr>"

definition missing_evidence_rule :: "string list \<Rightarrow> recon_rule" where
  "missing_evidence_rule required =
     \<lparr>ru_rule_id = ''missing_evidence'',
      ru_evaluate = (\<lambda>source target.
        Inr (concat (map (\<lambda>obj.
          let existing_types = map er_evidence_type (co_evidence obj)
          in map (\<lambda>req. mismatch_of ''missing_evidence'' MC_MISSING_EVIDENCE MS_MEDIUM source target
                 (''Object '' @ in_quotes (co_label obj) @ '' missing required evidence type: '' @ req))
               (filter (\<lambda>req. req \<notin> set existing_types) required))
          [source, target])))\<rparr>"

definition default_recon_rules :: "recon_rule list" where
  "default_recon_rules =
     [rate_deviation_rule ''rate'' (fl (1/100)), quantity_discrepancy_rule ''quantity'',
      obligation_unmet_rule, scope_match_rule ''scope'', billing_without_completion_rule,
      missing_evidence_rule []]"

section \<open>Scoring\<close>

fun severity_weight :: "mismatch_severity \<Rightarrow> rat" where
  "severity_weight MS_CRITICAL = 1"
| "severity_weight MS_HIGH = fl (7/10)"
| "severity_weight MS_MEDIUM = fl (4/10)"
| "severity_weight MS_LOW = fl (2/10)"
| "severity_weight MS_INFO = 0"

definition float_sum :: "rat list \<Rightarrow> rat" where
  "float_sum xs = foldl (\<lambda>acc x. fl (acc + x)) 0 xs"

definition severity_count :: "mismatch_severity \<Rightarrow> mismatch list \<Rightarrow> nat" where
  "severity_count sev ms = length (filter (\<lambda>m. mi_severity m = sev) ms)"

fun pf_round2 :: "pyfloat \<Rightarrow> pyfloat" where
  "pf_round2 (Fin q) = Fin (py_round q 2)"
| "pf_round2 x = x"

definition score_mismatches :: "mismatch list \<Rightarrow> reconciliation_score" where
  "score_mismatches mismatches =
     (if mismatches = []
      then \<lparr>sr_overall_score = 1, sr_confidence = 1, sr_mismatch_count = 0, sr_critical_count = 0,
            sr_high_count = 0, sr_medium_count = 0, sr_low_count = 0, sr_info_count = 0,
            sr_financial_impact_total = Fin 0\<rparr>
      else
        let weighted_sum = float_sum (map (\<lambda>m. severity_weight (mi_severity m)) mismatches);
            financial_total = foldl (\<lambda>acc m. pf_add acc (mi_financial_impact m)) (Fin 0) mismatches;
            max_possible = of_nat (length mismatches) :: rat;
            penalty = min (fl (weighted_sum / max max_possible 1)) 1;
            overall = max (fl (1 - penalty)) 0;
            avg_confidence = fl (float_sum (map (\<lambda>m.
                (case mi_evidence m of e # _ \<Rightarrow> er_confidence e | [] \<Rightarrow> fl (8/10))) mismatches)
              / of_nat (length mismatches))
        in \<lparr>sr_overall_score = py_round overall 4, sr_confidence = py_round avg_confidence 4,
            sr_mismatch_count = length mismatches,
            sr_critical_count = severity_count MS_CRITICAL mismatches,
            sr_high_count = severity_count MS_HIGH mismatches,
            sr_medium_count = severity_count MS_MEDIUM mismatches,
            sr_low_count = severity_count MS_LOW mismatches,
            sr_info_count = severity_count MS_INFO mismatches,
            sr_financial_impact_total = pf_round2 financial_total\<rparr>)"

section \<open>The engine\<close>

record 'c recon_engine =
  re_graph :: "'c graph_service"
  re_rules :: "recon_rule list"

definition new_recon_engine :: "'c graph_service \<Rightarrow> recon_rule list option \<Rightarrow> 'c recon_engine" where
  "new_recon_engine g rules =
     \<lparr>re_graph = g, re_rules = (case rules of Some rs \<Rightarrow> rs | None \<Rightarrow> default_recon_rules)\<rparr>"

definition re_add_rule :: "recon_rule \<Rightarrow> 'c recon_engine \<Rightarrow> 'c recon_engine" where
  "re_add_rule rule e = e\<lparr>re_rules := re_rules e @ [rule]\<rparr>"

definition reconcile_pair ::
  "recon_rule list \<Rightarrow> control_object \<Rightarrow> control_object \<Rightarrow> conversion_error + mismatch list" where
  "reconcile_pair rules source target = collect_rounds (\<lambda>rule. ru_evaluate rule source target) rules"

definition index_by_id :: "control_object list \<Rightarrow> (uuid, control_object) dict" where
  "index_by_id objs = foldl (\<lambda>d ob. dput (co_id ob) ob d) [] objs"

definition both :: "'a option \<Rightarrow> 'b option \<Rightarrow> ('a \<times> 'b) list" where
  "both x y = (case (x, y) of (Some a, Some b) \<Rightarrow> [(a, b)] | _ \<Rightarrow> [])"

definition link_pairs ::
  "control_object list \<Rightarrow> control_object list \<Rightarrow> control_link list
     \<Rightarrow> (control_object \<times> control_object) list" where
  "link_pairs source_objects target_objects links =
     (let source_map = index_by_id source_objects; target_map = index_by_id target_objects
      in concat (map (\<lambda>link.
           if \<not> is_cross_plane link then []
           else both (dget source_map (cl_source_id link)) (dget target_map (cl_target_id link))
                @ both (dget source_map (cl_target_id link)) (dget target_map (cl_source_id link)))
           links))"

definition key_pairs ::
  "control_object list \<Rightarrow> control_object list \<Rightarrow> (control_object \<times> control_object) list" where
  "key_pairs source_objects target_objects =
     concat (map (\<lambda>src. concat (map (\<lambda>(key, val).
       map (Pair src) (filter (\<lambda>tgt. dget (co_correlation_keys tgt) key = Some val) target_objects))
       (co_correlation_keys src))) source_objects)"

definition find_cross_plane_pairs ::
  "'c graph_service \<Rightarrow> control_object list \<Rightarrow> control_object list \<Rightarrow> uuid
     \<Rightarrow> (control_object \<times> control_object) list" where
  "find_cross_plane_pairs g source_objects target_objects tenant_id =
     (let pairs = link_pairs source_objects target_objects (get_all_links (gs_repo g) tenant_id)
      in if pairs = [] then key_pairs source_objects target_objects else pairs)"

text \<open>The last loop of a run: every source object that is frozen is marked reconciled and stored.\<close>

fun mark_frozen :: "time \<Rightarrow> control_object list \<Rightarrow> 'c graph_service \<Rightarrow> 'c graph_service" where
  "mark_frozen now [] s = s"
| "mark_frozen now (ob # obs) s =
     (if co_state ob = CS_FROZEN
      then (case mark_reconciled (audit_of ''reconciliation_engine'' ''reconciled'' now) now ob of
              (_, ob') \<Rightarrow> mark_frozen now obs (gs_store ob' s))
      else mark_frozen now obs s)"

definition plane_arrow :: string where
  "plane_arrow = [CHR 0xE2, CHR 0x86, CHR 0x94]"

definition reconcile_cross_plane ::
  "(json \<Rightarrow> string) \<Rightarrow> time \<Rightarrow> uuid \<Rightarrow> plane_type \<Rightarrow> plane_type \<Rightarrow> string \<Rightarrow> 'c recon_engine
     \<Rightarrow> (conversion_error, 'c recon_engine, reconciliation_result) res" where
  "reconcile_cross_plane hash now tenant_id source_plane target_plane domain e =
     (let repo = gs_repo (re_graph e);
          source_objects = list_objects repo tenant_id (Some source_plane) (Some domain) None None;
          target_objects = list_objects repo tenant_id (Some target_plane) (Some domain) None None;
          pairs = find_cross_plane_pairs (re_graph e) source_objects target_objects tenant_id
      in case collect_rounds (\<lambda>(src, tgt). reconcile_pair (re_rules e) src tgt) pairs of
           Inl err \<Rightarrow> (Inl err, e)
         | Inr all_mismatches \<Rightarrow>
             let source_ids = foldl (\<lambda>acc (src, tgt). set_add (co_id src) acc) [] pairs;
                 target_ids = foldl (\<lambda>acc (src, tgt). set_add (co_id tgt) acc) [] pairs;
                 bundle = \<lparr>eb_mismatches = all_mismatches, eb_supporting_evidence = [],
                           eb_source_objects = source_ids, eb_target_objects = target_ids,
                           eb_summary = ''Reconciliation of '' @ plane_value source_plane @ plane_arrow
                             @ plane_value target_plane @ '' in domain '' @ in_quotes domain @ '': ''
                             @ int_str (int (length all_mismatches)) @ '' mismatches found''\<rparr>;
                 result = rr_compute_hash hash
                   \<lparr>rr_tenant_id = tenant_id, rr_run_at = now, rr_status = RS_COMPLETED,
                    rr_mode = RM_DETERMINISTIC, rr_source_plane = source_plane,
                    rr_target_plane = target_plane, rr_domain = domain,
                    rr_evidence_bundle = bundle, rr_score = score_mismatches all_mismatches,
                    rr_decision_hash = []\<rparr>
             in (Inr result, e\<lparr>re_graph := mark_frozen now source_objects (re_graph e)\<rparr>))"

end
