(* ===== verification/Recon_Engine_Props.thy ===== *)
theory Recon_Engine_Props
  imports Recon_Engine
begin

text \<open>
  What the pairwise reconciliation engine guarantees: the bounds of a score, the pairs and
  mismatches a run reports, the exact effect of a run on the graph, and when the default rules
  find nothing to object to.
\<close>

section \<open>Scores\<close>

lemma float_sum_nonneg: "list_all (\<lambda>x. 0 \<le> x) xs \<Longrightarrow> 0 \<le> float_sum xs"
proof -
  have "0 \<le> a \<Longrightarrow> list_all (\<lambda>x. 0 \<le> x) xs \<Longrightarrow> 0 \<le> foldl (\<lambda>acc x. fl (acc + x)) a xs" for a
    by (induction xs arbitrary: a) (simp_all add: fl_nonneg)
  then show "list_all (\<lambda>x. 0 \<le> x) xs \<Longrightarrow> 0 \<le> float_sum xs" by (simp add: float_sum_def)
qed

lemma float_sum_zeros: "float_sum (map (\<lambda>x. 0) xs) = 0"
  by (induction xs) (simp_all add: float_sum_def)

lemma float_sum_ones:
  assumes "length xs < 2 ^ 53"
  shows "float_sum (map (\<lambda>x. 1) xs) = of_nat (length xs)"
proof -
  have "a + length xs < 2 ^ 53 \<Longrightarrow>
      foldl (\<lambda>acc x. fl (acc + x)) (of_nat a) (map (\<lambda>x. 1) xs) = of_nat (a + length xs)" for a
  proof (induction xs arbitrary: a)
    case (Cons x xs)
    then have "fl (of_int (int a + 1)) = of_int (int a + 1)" by (intro fl_of_int) auto
    then have "fl (of_nat a + 1) = of_nat (Suc a)" by (simp add: add.commute)
    with Cons.prems show ?case using Cons.IH [of "Suc a"] by (simp add: add.assoc)
  qed simp
  from this [of 0] assms show ?thesis by (simp add: float_sum_def)
qed

lemma severity_weight_nonneg: "0 \<le> severity_weight s"
  by (cases s) (simp_all add: fl_nonneg)

lemma severity_counts_sum:
  "severity_count MS_CRITICAL ms + severity_count MS_HIGH ms + severity_count MS_MEDIUM ms
     + severity_count MS_LOW ms + severity_count MS_INFO ms = length ms"
proof (induction ms)
  case (Cons m ms)
  then show ?case by (cases "mi_severity m") (simp_all add: severity_count_def)
qed (simp add: severity_count_def)

definition weighted_penalty :: "mismatch list \<Rightarrow> rat" where
  "weighted_penalty ms =
     min (fl (float_sum (map (\<lambda>m. severity_weight (mi_severity m)) ms) / max (of_nat (length ms)) 1)) 1"

lemma overall_score:
  "sr_overall_score (score_mismatches ms) =
     (if ms = [] then 1 else py_round (max (fl (1 - weighted_penalty ms)) 0) 4)"
  by (simp add: score_mismatches_def weighted_penalty_def Let_def)

lemma weighted_penalty_nonneg: "0 \<le> weighted_penalty ms"
proof -
  have "0 \<le> float_sum (map (\<lambda>m. severity_weight (mi_severity m)) ms)"
    by (rule float_sum_nonneg) (simp add: list_all_iff severity_weight_nonneg)
  then show ?thesis by (simp add: weighted_penalty_def fl_nonneg divide_nonneg_pos)
qed

lemma overall_score_unit: "0 \<le> sr_overall_score (score_mismatches ms) \<and> sr_overall_score (score_mismatches ms) \<le> 1"
  using py_round_unit [of "max (fl (1 - weighted_penalty ms)) 0" 4] weighted_penalty_nonneg [of ms]
  by (simp add: overall_score fl_le_1)

lemma overall_score_info:
  assumes "list_all (\<lambda>m. mi_severity m = MS_INFO) ms"
  shows "sr_overall_score (score_mismatches ms) = 1"
proof -
  have "map (\<lambda>m. severity_weight (mi_severity m)) ms = map (\<lambda>m. 0) ms"
    using assms by (auto simp: list_all_iff)
  then have "weighted_penalty ms = 0" by (simp only: weighted_penalty_def float_sum_zeros) simp
  then show ?thesis by (simp add: overall_score)
qed

lemma overall_score_critical:
  assumes "list_all (\<lambda>m. mi_severity m = MS_CRITICAL) ms" and "ms \<noteq> []" and "length ms < 2 ^ 53"
  shows "sr_overall_score (score_mismatches ms) = 0"
proof -
  have "map (\<lambda>m. severity_weight (mi_severity m)) ms = map (\<lambda>m. 1) ms"
    using assms by (auto simp: list_all_iff)
  then have "float_sum (map (\<lambda>m. severity_weight (mi_severity m)) ms) = of_nat (length ms)"
    by (simp only: float_sum_ones [OF assms(3)])
  moreover have "(1::rat) \<le> of_nat (length ms)"
    using assms(2) by (cases ms) simp_all
  ultimately have "weighted_penalty ms = 1"
    using assms(2) by (simp add: weighted_penalty_def max_def)
  then show ?thesis using assms(2) by (simp add: overall_score)
qed

section \<open>Pairs\<close>

lemma index_by_id_get:
  "distinct (map co_id obs) \<Longrightarrow> dget (index_by_id obs) i = Some ob \<longleftrightarrow> ob \<in> set obs \<and> co_id ob = i"
proof -
  have "dget (foldl (\<lambda>d ob. dput (co_id ob) ob d) d obs) i = Some ob \<longleftrightarrow>
      (ob \<in> set obs \<and> co_id ob = i) \<or> (i \<notin> co_id ` set obs \<and> dget d i = Some ob)"
    if "distinct (map co_id obs)" for d
    using that by (induction obs arbitrary: d) auto
  then show "distinct (map co_id obs) \<Longrightarrow> ?thesis" by (simp add: index_by_id_def)
qed

lemma set_both: "(a, b) \<in> set (both x y) \<longleftrightarrow> x = Some a \<and> y = Some b"
  by (auto simp: both_def split: option.splits)

definition joined_by :: "control_link \<Rightarrow> control_object \<Rightarrow> control_object \<Rightarrow> bool" where
  "joined_by l src tgt \<longleftrightarrow> is_cross_plane l \<and>
     (cl_source_id l = co_id src \<and> cl_target_id l = co_id tgt \<or>
      cl_target_id l = co_id src \<and> cl_source_id l = co_id tgt)"

lemma set_link_pairs:
  assumes "distinct (map co_id ss)" and "distinct (map co_id ts)"
  shows "(src, tgt) \<in> set (link_pairs ss ts ls) \<longleftrightarrow>
    src \<in> set ss \<and> tgt \<in> set ts \<and> (\<exists>l\<in>set ls. joined_by l src tgt)"
proof -
  define f where "f l = (if \<not> is_cross_plane l then []
      else both (dget (index_by_id ss) (cl_source_id l)) (dget (index_by_id ts) (cl_target_id l))
        @ both (dget (index_by_id ss) (cl_target_id l)) (dget (index_by_id ts) (cl_source_id l)))" for l
  have mem: "(src, tgt) \<in> set (f l) \<longleftrightarrow> src \<in> set ss \<and> tgt \<in> set ts \<and> joined_by l src tgt" for l
    using index_by_id_get [OF assms(1)] index_by_id_get [OF assms(2)]
    by (auto simp: set_both joined_by_def f_def)
  have eq: "link_pairs ss ts ls = concat (map f ls)"
    unfolding link_pairs_def Let_def f_def ..
  show ?thesis
    unfolding eq set_concat set_map by (simp only: image_image UN_iff mem) blast
qed

definition shared_key :: "control_object \<Rightarrow> control_object \<Rightarrow> bool" where
  "shared_key src tgt \<longleftrightarrow>
     list_ex (\<lambda>(key, val). dget (co_correlation_keys tgt) key = Some val) (co_correlation_keys src)"

lemma set_key_pairs:
  "(src, tgt) \<in> set (key_pairs ss ts) \<longleftrightarrow> src \<in> set ss \<and> tgt \<in> set ts \<and> shared_key src tgt"
  by (fastforce simp: key_pairs_def shared_key_def list_ex_iff)

section \<open>The effect on the graph\<close>

definition mark_if_frozen :: "time \<Rightarrow> control_object \<Rightarrow> control_object" where
  "mark_if_frozen now ob =
     (if co_state ob = CS_FROZEN
      then ob\<lparr>co_state := CS_RECONCILED, co_updated_at := now,
              co_audit_trail := co_audit_trail ob @
                [audit_of ''reconciliation_engine'' ''reconciled'' now]\<rparr>
      else ob)"

lemma mark_reconciled_frozen:
  "co_state ob = CS_FROZEN \<Longrightarrow>
     mark_reconciled (audit_of ''reconciliation_engine'' ''reconciled'' now) now ob =
       (Inr (), mark_if_frozen now ob)"
  by (simp add: mark_reconciled_def transition_state_def mark_if_frozen_def)

lemma mark_if_frozen_id [simp]: "co_id (mark_if_frozen now ob) = co_id ob"
  by (simp add: mark_if_frozen_def)

lemma mark_frozen_get:
  assumes "distinct (map co_id obs)"
    and "list_all (\<lambda>ob. get_object (gs_repo s) (co_id ob) = Some ob) obs" and "repo_wf (gs_repo s)"
  shows "get_object (gs_repo (mark_frozen now obs s)) i =
    map_option (\<lambda>ob. if ob \<in> set obs then mark_if_frozen now ob else ob) (get_object (gs_repo s) i)"
  using assms
proof (induction obs arbitrary: s)
  case (Cons ob obs)
  let ?s = "if co_state ob = CS_FROZEN then gs_store (mark_if_frozen now ob) s else s"
  have step: "mark_frozen now (ob # obs) s = mark_frozen now obs ?s"
    by (simp add: mark_reconciled_frozen)
  have id_neq: "co_id x \<noteq> co_id ob" if "x \<in> set obs" for x
    using Cons.prems(1) imageI [OF that, of co_id] by auto
  have "list_all (\<lambda>x. get_object (gs_repo ?s) (co_id x) = Some x) obs" "repo_wf (gs_repo ?s)"
    using Cons.prems(2,3) id_neq by (auto simp: list_all_iff gs_store_def)
  with Cons have "get_object (gs_repo (mark_frozen now obs ?s)) i =
      map_option (\<lambda>ob. if ob \<in> set obs then mark_if_frozen now ob else ob) (get_object (gs_repo ?s) i)"
    by simp
  moreover have "x = ob" if "get_object (gs_repo s) i = Some x" "i = co_id ob" for x
    using Cons.prems(2) that by simp
  moreover have "x \<noteq> ob" if "get_object (gs_repo s) i = Some x" "i \<noteq> co_id ob" for x
    using get_object_id [OF Cons.prems(3) that(1)] that(2) by auto
  moreover have "mark_if_frozen now ob \<notin> set obs"
    using id_neq [of "mark_if_frozen now ob"] by auto
  ultimately show ?case
    unfolding step using Cons.prems(2) id_neq [of ob]
    by (cases "get_object (gs_repo s) i") (auto simp: gs_store_def mark_if_frozen_def)
qed (simp add: option.map_ident)

lemma mark_frozen_rest [simp]:
  "gr_links (gs_repo (mark_frozen now obs s)) = gr_links (gs_repo s)"
  "gs_registry (mark_frozen now obs s) = gs_registry s"
  "gs_audit (mark_frozen now obs s) = gs_audit s"
  by (induction now obs s rule: mark_frozen.induct)
    (auto simp: gs_store_def store_object_def split: prod.splits)

section \<open>A run\<close>

definition in_scope :: "graph_repo \<Rightarrow> uuid \<Rightarrow> plane_type \<Rightarrow> string \<Rightarrow> control_object \<Rightarrow> bool" where
  "in_scope r tn pl dm ob \<longleftrightarrow>
     get_object r (co_id ob) = Some ob \<and> co_tenant_id ob = tn \<and> co_plane ob = pl \<and>
     (dm = [] \<or> co_domain ob = dm)"

definition linked_in :: "graph_repo \<Rightarrow> uuid \<Rightarrow> control_object \<Rightarrow> control_object \<Rightarrow> bool" where
  "linked_in r tn src tgt \<longleftrightarrow>
     (\<exists>l. get_link r (cl_id l) = Some l \<and> cl_tenant_id l = tn \<and> joined_by l src tgt)"

text \<open>The pairs a run compares: the linked ones, or, when there is none, those sharing a key.\<close>

definition linked_pair ::
  "graph_repo \<Rightarrow> uuid \<Rightarrow> plane_type \<Rightarrow> plane_type \<Rightarrow> string \<Rightarrow> control_object \<times> control_object \<Rightarrow> bool" where
  "linked_pair r tn sp tp dm p \<longleftrightarrow>
     in_scope r tn sp dm (fst p) \<and> in_scope r tn tp dm (snd p) \<and> linked_in r tn (fst p) (snd p)"

definition compared ::
  "graph_repo \<Rightarrow> uuid \<Rightarrow> plane_type \<Rightarrow> plane_type \<Rightarrow> string \<Rightarrow> control_object \<Rightarrow> control_object \<Rightarrow> bool" where
  "compared r tn sp tp dm src tgt \<longleftrightarrow>
     (if \<exists>p. linked_pair r tn sp tp dm p then linked_pair r tn sp tp dm (src, tgt)
      else in_scope r tn sp dm src \<and> in_scope r tn tp dm tgt \<and> shared_key src tgt)"

lemma set_scope:
  "repo_wf r \<Longrightarrow> ob \<in> set (list_objects r tn (Some pl) (Some dm) None None) \<longleftrightarrow> in_scope r tn pl dm ob"
  by (auto simp: set_list_objects in_scope_def)

lemma distinct_list_objects: "repo_wf r \<Longrightarrow> distinct (map co_id (list_objects r tn pl dm kd st))"
proof -
  assume wf: "repo_wf r"
  have vals: "map co_id (dvalues (gr_objects r)) = dkeys (gr_objects r)"
  proof -
    have "co_id ob = k" if "(k, ob) \<in> set (gr_objects r)" for k ob
    proof -
      have "dget (gr_objects r) k = Some ob"
        using wf that by (simp add: repo_wf_def objs.keyed_def dict_wf_def)
      with wf show ?thesis using get_object_id [of r k ob] by (simp add: get_object_def)
    qed
    then show ?thesis by (auto simp: map_eq_conv)
  qed
  have "distinct (map co_id (dvalues (gr_objects r)))"
    unfolding vals using wf by (simp add: repo_wf_def objs.keyed_def dict_wf_def)
  then show ?thesis
    by (auto simp: list_objects_def Let_def filter_opt_def filter_str_def distinct_map_filter
        split: option.splits)
qed

lemma set_pairs:
  assumes wf: "repo_wf (gs_repo g)"
  shows "(src, tgt) \<in> set (find_cross_plane_pairs g
      (list_objects (gs_repo g) tn (Some sp) (Some dm) None None)
      (list_objects (gs_repo g) tn (Some tp) (Some dm) None None) tn) \<longleftrightarrow>
    compared (gs_repo g) tn sp tp dm src tgt"
proof -
  let ?S = "list_objects (gs_repo g) tn (Some sp) (Some dm) None None"
  let ?T = "list_objects (gs_repo g) tn (Some tp) (Some dm) None None"
  let ?P = "link_pairs ?S ?T (get_all_links (gs_repo g) tn)"
  have mem: "p \<in> set ?P \<longleftrightarrow> linked_pair (gs_repo g) tn sp tp dm p" for p
    using wf by (cases p) (auto simp: set_link_pairs distinct_list_objects set_scope set_get_all_links
        linked_pair_def linked_in_def)
  then have none: "?P = [] \<longleftrightarrow> \<not> (\<exists>p. linked_pair (gs_repo g) tn sp tp dm p)"
    by (metis list.set_intros(1) neq_Nil_conv empty_iff list.set(1))
  show ?thesis
    by (simp add: find_cross_plane_pairs_def compared_def Let_def none mem set_key_pairs set_scope [OF wf])
qed

text \<open>What a rule of a list says about two objects, and that one of them raises.\<close>

definition reported :: "recon_rule list \<Rightarrow> control_object \<Rightarrow> control_object \<Rightarrow> mismatch \<Rightarrow> bool" where
  "reported rules src tgt m \<longleftrightarrow>
     (\<exists>rule\<in>set rules. \<exists>ms. ru_evaluate rule src tgt = Inr ms \<and> m \<in> set ms)"

definition raises :: "recon_rule list \<Rightarrow> control_object \<Rightarrow> control_object \<Rightarrow> bool" where
  "raises rules src tgt \<longleftrightarrow> (\<exists>rule\<in>set rules. isl (ru_evaluate rule src tgt))"

lemma reconcile_pair_reported:
  "reconcile_pair rules src tgt = Inr ms \<Longrightarrow> m \<in> set ms \<longleftrightarrow> reported rules src tgt m"
  unfolding reconcile_pair_def reported_def by (rule collect_rounds_set)

lemma isl_reconcile_pair: "isl (reconcile_pair rules src tgt) \<longleftrightarrow> raises rules src tgt"
  unfolding reconcile_pair_def raises_def by (rule isl_collect_rounds)

lemma run_unfold:
  assumes "collect_rounds (\<lambda>(src, tgt). reconcile_pair (re_rules e) src tgt)
      (find_cross_plane_pairs (re_graph e)
        (list_objects (gs_repo (re_graph e)) tn (Some sp) (Some dm) None None)
        (list_objects (gs_repo (re_graph e)) tn (Some tp) (Some dm) None None) tn) = Inr ms"
  shows "\<exists>r. reconcile_cross_plane hash now tn sp tp dm e =
      (Inr r, e\<lparr>re_graph := mark_frozen now
        (list_objects (gs_repo (re_graph e)) tn (Some sp) (Some dm) None None) (re_graph e)\<rparr>) \<and>
    eb_mismatches (rr_evidence_bundle r) = ms \<and> rr_score r = score_mismatches ms"
  using assms by (simp add: reconcile_cross_plane_def Let_def rr_compute_hash_def)

section \<open>Properties\<close>

text \<open>A score is well formed whatever the mismatches: the overall score lies between 0 and 1, so the
  field constraint never rejects it, and the five severity counts add up to the number of
  mismatches. It is 1 when all of them are informational, and 0 when all of them are critical.\<close>

theorem score_well_formed:
  "let s = score_mismatches ms in
     0 \<le> sr_overall_score s \<and> sr_overall_score s \<le> 1 \<and> sr_mismatch_count s = length ms \<and>
     sr_critical_count s + sr_high_count s + sr_medium_count s + sr_low_count s + sr_info_count s
       = length ms \<and>
     (if list_all (\<lambda>m. mi_severity m = MS_INFO) ms then sr_overall_score s = 1 else True) \<and>
     (if ms \<noteq> [] \<and> length ms < 2 ^ 53 \<and> list_all (\<lambda>m. mi_severity m = MS_CRITICAL) ms
      then sr_overall_score s = 0 else True)"
proof -
  have "sr_mismatch_count (score_mismatches ms) = length ms"
    "sr_critical_count (score_mismatches ms) + sr_high_count (score_mismatches ms)
       + sr_medium_count (score_mismatches ms) + sr_low_count (score_mismatches ms)
       + sr_info_count (score_mismatches ms) = length ms"
    using severity_counts_sum [of ms] by (auto simp: score_mismatches_def Let_def)
  then show ?thesis
    using overall_score_unit [of ms] overall_score_info [of ms] overall_score_critical [of ms]
    by (simp add: Let_def)
qed

text \<open>C12: Over any graph the service can build, a reconciliation run of two planes compares the pairs
  joined by a cross-plane link of the tenant, in either direction, or, if there is none at all, the
  pairs that share a correlation key; it fails exactly when a rule raises on such a pair, leaving
  everything as it was, and otherwise reports exactly what the rules say of those pairs, with the
  score of that list.\<close>

theorem reconciliation_reports:
  assumes "svc_reach reg (re_graph e)"
  shows "case reconcile_cross_plane hash now tn sp tp dm e of
     (Inl err, e') \<Rightarrow> e' = e \<and>
       (\<exists>src tgt. compared (gs_repo (re_graph e)) tn sp tp dm src tgt \<and> raises (re_rules e) src tgt)
   | (Inr r, e') \<Rightarrow>
       rr_score r = score_mismatches (eb_mismatches (rr_evidence_bundle r)) \<and>
       set (eb_mismatches (rr_evidence_bundle r)) =
         {m. \<exists>src tgt. compared (gs_repo (re_graph e)) tn sp tp dm src tgt \<and>
               reported (re_rules e) src tgt m} \<and>
       \<not> (\<exists>src tgt. compared (gs_repo (re_graph e)) tn sp tp dm src tgt \<and> raises (re_rules e) src tgt)"
proof -
  have wf: "repo_wf (gs_repo (re_graph e))" using svc_reach_inv [OF assms] by (simp add: graph_inv_def)
  let ?P = "find_cross_plane_pairs (re_graph e)
        (list_objects (gs_repo (re_graph e)) tn (Some sp) (Some dm) None None)
        (list_objects (gs_repo (re_graph e)) tn (Some tp) (Some dm) None None) tn"
  let ?f = "\<lambda>(src, tgt). reconcile_pair (re_rules e) src tgt"
  have ex_pair: "(\<exists>p\<in>set ?P. Q p) \<longleftrightarrow> (\<exists>src tgt. compared (gs_repo (re_graph e)) tn sp tp dm src tgt \<and> Q (src, tgt))" for Q
    using set_pairs [OF wf] by (simp only: Bex_def split_paired_Ex)
  have ok: "isl (collect_rounds ?f ?P) \<longleftrightarrow>
      (\<exists>src tgt. compared (gs_repo (re_graph e)) tn sp tp dm src tgt \<and> raises (re_rules e) src tgt)"
    unfolding isl_collect_rounds ex_pair by (simp only: case_prod_conv isl_reconcile_pair)
  show ?thesis
  proof (cases "collect_rounds ?f ?P")
    case (Inl err)
    with ok have "\<exists>src tgt. compared (gs_repo (re_graph e)) tn sp tp dm src tgt \<and> raises (re_rules e) src tgt"
      by simp
    with Inl show ?thesis by (simp add: reconcile_cross_plane_def Let_def)
  next
    case (Inr ms)
    with ok have no: "\<not> (\<exists>src tgt. compared (gs_repo (re_graph e)) tn sp tp dm src tgt \<and> raises (re_rules e) src tgt)"
      by simp
    have rep: "(\<exists>zs. reconcile_pair (re_rules e) src tgt = Inr zs \<and> m \<in> set zs) \<longleftrightarrow> reported (re_rules e) src tgt m"
      if "compared (gs_repo (re_graph e)) tn sp tp dm src tgt" for src tgt m
    proof -
      have "\<not> isl (reconcile_pair (re_rules e) src tgt)"
        using no that unfolding isl_reconcile_pair by blast
      then obtain zs where "reconcile_pair (re_rules e) src tgt = Inr zs"
        by (cases "reconcile_pair (re_rules e) src tgt") simp_all
      then show ?thesis by (simp add: reconcile_pair_reported)
    qed
    have "m \<in> set ms \<longleftrightarrow> (\<exists>src tgt. compared (gs_repo (re_graph e)) tn sp tp dm src tgt \<and>
        reported (re_rules e) src tgt m)" for m
      unfolding collect_rounds_set [OF Inr] ex_pair case_prod_conv using rep by blast
    then have "set ms = {m. \<exists>src tgt. compared (gs_repo (re_graph e)) tn sp tp dm src tgt \<and>
        reported (re_rules e) src tgt m}" by blast
    moreover obtain r where "reconcile_cross_plane hash now tn sp tp dm e = (Inr r, e\<lparr>re_graph := mark_frozen now
        (list_objects (gs_repo (re_graph e)) tn (Some sp) (Some dm) None None) (re_graph e)\<rparr>)"
      "eb_mismatches (rr_evidence_bundle r) = ms" "rr_score r = score_mismatches ms"
      using run_unfold [OF Inr, of hash now] by blast
    ultimately show ?thesis using no by simp
  qed
qed

text \<open>A graph to run on: a frozen billing event, linked to the work order it bills.\<close>

definition sample_bill :: control_object_create where
  "sample_bill = sample_create\<lparr>cc_object_type := OT_BILLABLE_EVENT, cc_object_kind := ''bill'',
     cc_plane := COMMERCIAL, cc_label := ''B-1'',
     cc_payload := [(''is_billed'', JBool True), (''quantity'', JInt 3)],
     cc_correlation_keys := [(''work_order_ref'', ''WO-1'')]\<rparr>"

definition sample_work :: control_object_create where
  "sample_work = sample_create\<lparr>cc_payload := [(''quantity'', JStr ''2'')],
     cc_correlation_keys := [(''work_order_ref'', ''WO-1'')]\<rparr>"

definition sample_billing :: "unit graph_service" where
  "sample_billing =
     snd (gs_freeze_object 3 ''b'' ''ops''
       (snd (gs_create_link ''l'' 2 ''t''
          \<lparr>lc_source_id = ''b'', lc_target_id = ''w'', lc_link_type = LT_BILLS_FOR, lc_weight = 1,
           lc_confidence = 1, lc_evidence = [], lc_metadata = []\<rparr>
         (snd (gs_create_object ''w'' 1 ''t'' sample_work ''ops'' True
           (snd (gs_create_object ''b'' 0 ''t'' sample_bill ''ops'' True
             (new_graph_service new_registry))))))))"

lemma sample_billing_reach: "svc_reach new_registry sample_billing"
proof -
  define s1 where "s1 = snd (gs_create_object ''b'' 0 ''t'' sample_bill ''ops'' True
    (new_graph_service new_registry :: unit graph_service))"
  have none: "gs_get_object s1 ''w'' = None" unfolding s1_def by code_simp
  have "svc_reach new_registry s1"
    unfolding s1_def by (rule reach_step [OF reach_new svc_create]) code_simp
  from reach_step [OF reach_step [OF reach_step [OF this svc_create [OF none]] svc_link] svc_freeze]
  show ?thesis unfolding sample_billing_def s1_def .
qed

theorem reconciliation_reports_witness:
  "case fst (reconcile_cross_plane (\<lambda>_. ''h'') 4 ''t'' COMMERCIAL FIELD ''telco''
       (new_recon_engine sample_billing None)) of
     Inl _ \<Rightarrow> False
   | Inr r \<Rightarrow> rr_score r = score_mismatches (eb_mismatches (rr_evidence_bundle r)) \<and>
       map mi_category (eb_mismatches (rr_evidence_bundle r)) =
         [MC_QUANTITY_DISCREPANCY, MC_BILLING_WITHOUT_COMPLETION]"
proof -
  let ?run = "reconcile_cross_plane (\<lambda>_. ''h'') 4 ''t'' COMMERCIAL FIELD ''telco''
    (new_recon_engine sample_billing None)"
  have cats: "map_sum id (\<lambda>r. map mi_category (eb_mismatches (rr_evidence_bundle r))) (fst ?run) =
      Inr [MC_QUANTITY_DISCREPANCY, MC_BILLING_WITHOUT_COMPLETION]" by code_simp
  have "svc_reach new_registry (re_graph (new_recon_engine sample_billing None))"
    by (simp add: new_recon_engine_def sample_billing_reach)
  from reconciliation_reports [OF this, where hash = "\<lambda>_. ''h''" and now = 4 and tn = "''t''"
      and sp = COMMERCIAL and tp = FIELD and dm = "''telco''"] cats
  show ?thesis by (cases ?run; cases "fst ?run") auto
qed

text \<open>A run that returns marks every frozen source object of the domain as reconciled, with one
  more entry in its trail, whatever mismatches it reports, also critical ones, and also when nothing
  was compared with it; it changes nothing else in the graph and announces none of it in the audit
  log.\<close>

theorem reconciliation_marks_frozen:
  assumes "svc_reach reg (re_graph e)"
  shows "case reconcile_cross_plane hash now tn sp tp dm e of
     (Inl err, e') \<Rightarrow> e' = e
   | (Inr r, e') \<Rightarrow>
       re_rules e' = re_rules e \<and>
       gr_links (gs_repo (re_graph e')) = gr_links (gs_repo (re_graph e)) \<and>
       gs_audit (re_graph e') = gs_audit (re_graph e) \<and>
       (\<forall>i. get_object (gs_repo (re_graph e')) i =
          map_option (\<lambda>ob. if in_scope (gs_repo (re_graph e)) tn sp dm ob \<and> co_state ob = CS_FROZEN
              then ob\<lparr>co_state := CS_RECONCILED, co_updated_at := now, co_audit_trail := co_audit_trail ob
                @ [audit_of ''reconciliation_engine'' ''reconciled'' now]\<rparr> else ob)
            (get_object (gs_repo (re_graph e)) i))"
proof -
  have wf: "repo_wf (gs_repo (re_graph e))" using svc_reach_inv [OF assms] by (simp add: graph_inv_def)
  let ?S = "list_objects (gs_repo (re_graph e)) tn (Some sp) (Some dm) None None"
  have all: "list_all (\<lambda>ob. get_object (gs_repo (re_graph e)) (co_id ob) = Some ob) ?S"
    by (simp add: list_all_iff set_scope [OF wf] in_scope_def)
  show ?thesis
  proof (cases "collect_rounds (\<lambda>(src, tgt). reconcile_pair (re_rules e) src tgt)
      (find_cross_plane_pairs (re_graph e) ?S
        (list_objects (gs_repo (re_graph e)) tn (Some tp) (Some dm) None None) tn)")
    case (Inl err)
    then show ?thesis by (simp add: reconcile_cross_plane_def Let_def)
  next
    case (Inr ms)
    obtain r where "reconcile_cross_plane hash now tn sp tp dm e =
        (Inr r, e\<lparr>re_graph := mark_frozen now ?S (re_graph e)\<rparr>)"
      using run_unfold [OF Inr, of hash now] by blast
    then show ?thesis
      by (simp add: mark_frozen_get [OF distinct_list_objects [OF wf] all wf] set_scope [OF wf]
          mark_if_frozen_def if_distrib cong: if_cong option.map_cong)
        (auto intro!: option.map_cong0)
  qed
qed

theorem reconciliation_marks_frozen_witness:
  "case reconcile_cross_plane (\<lambda>_. ''h'') 4 ''t'' COMMERCIAL FIELD ''telco''
      (new_recon_engine sample_billing None) of
     (Inl _, e') \<Rightarrow> False
   | (Inr r, e') \<Rightarrow> gs_audit (re_graph e') = gs_audit sample_billing \<and>
       map_option co_state (get_object (gs_repo (re_graph e')) ''b'') = Some CS_RECONCILED"
proof -
  let ?run = "reconcile_cross_plane (\<lambda>_. ''h'') 4 ''t'' COMMERCIAL FIELD ''telco''
    (new_recon_engine sample_billing None)"
  have "res_ok ?run" by code_simp
  moreover have "map_option co_state (get_object (gs_repo (re_graph (snd ?run))) ''b'') = Some CS_RECONCILED"
    by code_simp
  moreover have "svc_reach new_registry (re_graph (new_recon_engine sample_billing None))"
    by (simp add: new_recon_engine_def sample_billing_reach)
  ultimately show ?thesis
    using reconciliation_marks_frozen [where reg = new_registry and e = "new_recon_engine sample_billing None"
        and hash = "\<lambda>_. ''h''" and now = 4 and tn = "''t''" and sp = COMMERCIAL and tp = FIELD
        and dm = "''telco''"]
    by (cases ?run; cases "fst ?run") (auto simp: new_recon_engine_def)
qed

end
