(* ===== verification/W2_Claims.thy ===== *)
theory W2_Claims
  imports W2_Props Recon_Engine_Props
begin

text \<open>
  The properties of the graph-wide reconciliation, over any graph the graph service can build and
  any request. A fresh identifier is a draw of \<open>uuid.uuid4()\<close>; that two draws differ is the
  hypothesis \<open>inj mint\<close>, and \<open>sample_mint\<close> is a concrete supply that has it.
\<close>

section \<open>A supply of identifiers\<close>

definition enc :: "string \<Rightarrow> string" where
  "enc s = replicate (length s) (CHR ''1'') @ ''0'' @ s"

lemma replicate_prefix:
  "replicate m (CHR ''1'') @ ''0'' @ x = replicate n (CHR ''1'') @ ''0'' @ y \<Longrightarrow> m = n \<and> x = y"
proof (induction m arbitrary: n)
  case 0
  then show ?case by (cases n) auto
next
  case (Suc m)
  then show ?case by (cases n) auto
qed

lemma enc_inj: "enc a @ x = enc b @ y \<longleftrightarrow> a = b \<and> x = y"
proof
  assume "enc a @ x = enc b @ y"
  then have "length a = length b \<and> a @ x = b @ y"
    unfolding enc_def append_assoc by (rule replicate_prefix)
  then show "a = b \<and> x = y" using append_eq_append_conv by blast
qed simp

fun sample_mint :: "draw \<Rightarrow> uuid" where
  "sample_mint (D_Rule i j k) = ''r'' @ enc i @ enc j @ k"
| "sample_mint (D_Missing_Source i) = ''s'' @ i"
| "sample_mint (D_Missing_Target i) = ''t'' @ i"
| "sample_mint (D_Conflict i j k) = ''c'' @ enc i @ enc j @ k"
| "sample_mint (D_Duplicate i) = ''d'' @ i"
| "sample_mint (D_Evidence i) = ''e'' @ i"
| "sample_mint (D_Case n) = ''n'' @ replicate n (CHR ''1'')"

lemma sample_mint_inj: "inj sample_mint"
proof (rule injI)
  fix x y
  assume "sample_mint x = sample_mint y"
  then show "x = y" by (cases x; cases y) (simp_all add: enc_inj)
qed

definition recon_sample :: recon_request where
  "recon_sample =
     \<lparr>rq_tenant_id = ''t'',
      rq_scope = \<lparr>rsc_scope_type = SC_BY_PLANE_COMBINATION, rsc_planes = [COMMERCIAL, FIELD],
        rsc_domains = [''telco''], rsc_object_kinds = [], rsc_tenant_id = ''t''\<rparr>,
      rq_target = \<lparr>rt_object_ids = [], rt_correlation_keys = [], rt_graph_slice_root_ids = [],
        rt_plane_combination = [], rt_object_kind_filter = []\<rparr>,
      rq_match_threshold = 7 / 10, rq_duplicate_threshold = 1 / 20, rq_coverage_expectations = []\<rparr>"

definition sample_orchestrator :: "unit orchestrator" where
  "sample_orchestrator = new_orchestrator sample_billing
     (Some (wg_register_rule coverage_expectation_rule
        (wg_register_rule topology_linkage_rule new_w2_registry))) (7 / 10) (1 / 20)"

definition sample_run :: "(conversion_error, unit orchestrator, recon_execution_result) res" where
  "sample_run = or_execute sample_mint (\<lambda>_. ''h'') ''run'' 5 recon_sample sample_orchestrator"

lemma sample_run_kinds:
  "map_sum id (\<lambda>x. map oc_outcome_type (wu_outcomes (xe_run x))) (fst sample_run) = Inr [OC_FULLY_RECONCILED]"
  by code_simp

lemma sample_run_ok:
  "\<exists>x s'. sample_run = (Inr x, s') \<and> map oc_outcome_type (wu_outcomes (xe_run x)) = [OC_FULLY_RECONCILED]"
  using sample_run_kinds by (cases "fst sample_run") (simp, metis prod.collapse map_sum.simps(2) sum.inject(2))

lemma sample_registry:
  "wg_list_rules (or_rule_registry sample_orchestrator) = [topology_linkage_rule, coverage_expectation_rule]"
  by (simp add: sample_orchestrator_def new_orchestrator_def wg_list_rules_def wg_register_rule_def
      new_w2_registry_def topology_linkage_rule_def coverage_expectation_rule_def w2_rule_of_def)

section \<open>What a run looks at\<close>

text \<open>
  The objects a request selects: those of the graph slice around its roots, those it names, or
  those of the scope's tenant in its first domain and of its kinds. With roots or names the source
  side is the first plane of the scope and the target side every other plane (one plane or none
  makes every object a source); without, the sides are the first and the second plane.
\<close>

definition slice_ids :: "'c graph_service \<Rightarrow> recon_request \<Rightarrow> uuid list" where
  "slice_ids g req =
     sc_object_ids (gs_get_typed_graph_slice g (rt_graph_slice_root_ids (rq_target req))
       \<lparr>gt_max_depth = 5,
        gt_allowed_planes = (if rsc_planes (rq_scope req) \<noteq> [] then Some (rsc_planes (rq_scope req)) else None),
        gt_allowed_link_types = None, gt_follow_bidirectional = True, gt_include_deprecated = False,
        gt_include_superseded = False, gt_max_nodes = 1000\<rparr>)"

definition explicit :: "recon_request \<Rightarrow> bool" where
  "explicit req \<longleftrightarrow> rt_graph_slice_root_ids (rq_target req) \<noteq> [] \<or> rt_object_ids (rq_target req) \<noteq> []"

definition in_run :: "'c graph_service \<Rightarrow> recon_request \<Rightarrow> control_object \<Rightarrow> bool" where
  "in_run g req ob \<longleftrightarrow> gs_get_object g (co_id ob) = Some ob \<and>
     (if rt_graph_slice_root_ids (rq_target req) \<noteq> [] then co_id ob \<in> set (slice_ids g req)
      else if rt_object_ids (rq_target req) \<noteq> [] then co_id ob \<in> set (rt_object_ids (rq_target req))
      else co_tenant_id ob = rsc_tenant_id (rq_scope req) \<and>
        (case rsc_domains (rq_scope req) of [] \<Rightarrow> True | d # _ \<Rightarrow> d \<in> {[], co_domain ob}) \<and>
        (rsc_object_kinds (rq_scope req) = [] \<or> co_object_kind ob \<in> set (rsc_object_kinds (rq_scope req))))"

definition source_side :: "recon_request \<Rightarrow> control_object \<Rightarrow> bool" where
  "source_side req ob \<longleftrightarrow>
     (if explicit req then length (rsc_planes (rq_scope req)) < 2 \<or> co_plane ob = hd (rsc_planes (rq_scope req))
      else co_plane ob = source_plane_of (rsc_planes (rq_scope req)))"

definition target_side :: "recon_request \<Rightarrow> control_object \<Rightarrow> bool" where
  "target_side req ob \<longleftrightarrow>
     (if explicit req then 2 \<le> length (rsc_planes (rq_scope req)) \<and> co_plane ob \<noteq> hd (rsc_planes (rq_scope req))
      else co_plane ob = target_plane_of (rsc_planes (rq_scope req)))"

text \<open>A link stored for a tenant that joins the two objects across planes, in either direction.\<close>

definition joined :: "'c graph_service \<Rightarrow> uuid \<Rightarrow> control_object \<Rightarrow> control_object \<Rightarrow> bool" where
  "joined g tid src tgt \<longleftrightarrow>
     (\<exists>l. get_link (gs_repo g) (cl_id l) = Some l \<and> cl_tenant_id l = tid \<and> is_cross_plane l \<and>
        (co_id src, co_id tgt) \<in> {(cl_source_id l, cl_target_id l), (cl_target_id l, cl_source_id l)})"

definition run_pair :: "'c graph_service \<Rightarrow> recon_request \<Rightarrow> control_object \<Rightarrow> control_object \<Rightarrow> bool" where
  "run_pair g req src tgt \<longleftrightarrow>
     in_run g req src \<and> source_side req src \<and> in_run g req tgt \<and> target_side req tgt \<and>
     (joined g (rsc_tenant_id (rq_scope req)) src tgt \<or>
      shares (co_correlation_keys src) (co_correlation_keys tgt) \<or>
      shares (co_external_refs src) (co_external_refs tgt))"

lemma set_split: "split_by_plane ps obs = (ss, ts) \<Longrightarrow>
    set ss = {ob \<in> set obs. length ps < 2 \<or> co_plane ob = hd ps} \<and>
    set ts = {ob \<in> set obs. 2 \<le> length ps \<and> co_plane ob \<noteq> hd ps}"
  by (auto simp: split_by_plane_def split: if_splits)

lemma set_resolved:
  "repo_wf (gs_repo g) \<Longrightarrow>
     set (List.map_filter (gs_get_object g) ids) = {ob. gs_get_object g (co_id ob) = Some ob \<and> co_id ob \<in> set ids}"
  using get_object_id [of "gs_repo g"]
  by (intro set_eqI) (simp only: set_map_filter_Some gs_get_object_def mem_Collect_eq; blast)

text \<open>With roots or names: the identifiers the objects are read by, and the links kept.\<close>

definition run_ids :: "'c graph_service \<Rightarrow> recon_request \<Rightarrow> uuid list" where
  "run_ids g req =
     (if rt_graph_slice_root_ids (rq_target req) \<noteq> [] then slice_ids g req else rt_object_ids (rq_target req))"

lemma fetch_explicit_eq:
  "explicit req \<Longrightarrow> fetch_graph_data g req =
     (case split_by_plane (rsc_planes (rq_scope req)) (List.map_filter (gs_get_object g) (run_ids g req)) of
        (ss, ts) \<Rightarrow> (ss, ts, touching
          (if rt_graph_slice_root_ids (rq_target req) \<noteq> [] then run_ids g req
           else map co_id (List.map_filter (gs_get_object g) (run_ids g req)))
          (get_all_links (gs_repo g) (rsc_tenant_id (rq_scope req)))))"
  unfolding fetch_graph_data_def explicit_def run_ids_def slice_ids_def Let_def
  by (cases "rt_graph_slice_root_ids (rq_target req) = []"; cases "rt_object_ids (rq_target req) = []")
    (simp_all only: simp_thms if_True if_False)

lemma fetch_explicit:
  assumes "explicit req" and "fetch_graph_data g req = (ss, ts, ls)"
  shows "split_by_plane (rsc_planes (rq_scope req)) (List.map_filter (gs_get_object g) (run_ids g req)) = (ss, ts)"
    and "ls = touching (if rt_graph_slice_root_ids (rq_target req) \<noteq> [] then run_ids g req
        else map co_id (List.map_filter (gs_get_object g) (run_ids g req)))
      (get_all_links (gs_repo g) (rsc_tenant_id (rq_scope req)))"
  using assms(2) unfolding fetch_explicit_eq [OF assms(1)]
  by (simp_all only: prod.case_eq_if prod.inject prod_eq_iff fst_conv snd_conv)

lemma fetch_scope:
  assumes "\<not> explicit req" and "fetch_graph_data g req = (ss, ts, ls)"
  shows "ls = get_all_links (gs_repo g) (rsc_tenant_id (rq_scope req))"
    and "repo_wf (gs_repo g) \<Longrightarrow> set ss = {ob. in_run g req ob \<and> source_side req ob}"
    and "repo_wf (gs_repo g) \<Longrightarrow> set ts = {ob. in_run g req ob \<and> target_side req ob}"
  using assms
  by (auto simp: fetch_graph_data_def Let_def explicit_def in_run_def source_side_def target_side_def
      set_list_objects gs_get_object_def split: if_splits list.splits)

lemma fetched_sides:
  assumes wf: "repo_wf (gs_repo g)" and f: "fetch_graph_data g req = (ss, ts, ls)"
  shows "set ss = {ob. in_run g req ob \<and> source_side req ob} \<and>
    set ts = {ob. in_run g req ob \<and> target_side req ob}"
proof (cases "explicit req")
  case True
  from set_split [OF fetch_explicit(1) [OF True f]] show ?thesis
    using True unfolding set_resolved [OF wf] in_run_def source_side_def target_side_def run_ids_def
    by (auto simp: explicit_def)
next
  case False
  then show ?thesis using fetch_scope(2,3) [OF False f wf] by blast
qed

lemma fetched_links:
  assumes wf: "repo_wf (gs_repo g)" and f: "fetch_graph_data g req = (ss, ts, ls)"
    and src: "src \<in> set ss"
  shows "cross_linked ls src tgt \<longleftrightarrow> joined g (rsc_tenant_id (rq_scope req)) src tgt"
proof -
  let ?all = "get_all_links (gs_repo g) (rsc_tenant_id (rq_scope req))"
  have "ls = ?all \<or> (\<exists>ids. ls = touching ids ?all \<and> co_id src \<in> set ids)"
  proof (cases "explicit req")
    case True
    then show ?thesis
      using src fetch_explicit(2) [OF True f] set_split [OF fetch_explicit(1) [OF True f]]
      by (auto simp: set_resolved [OF wf] run_ids_def split: if_splits)
  qed (simp add: fetch_scope(1) [OF _ f])
  then have "l \<in> set ls \<longleftrightarrow> l \<in> set ?all" if "cl_source_id l = co_id src \<or> cl_target_id l = co_id src" for l
    using that by (auto simp: touching_def)
  then show ?thesis
    unfolding cross_linked_def joined_def list_ex_iff by (auto simp: set_get_all_links [OF wf])
qed

lemma fetched_pair:
  assumes wf: "repo_wf (gs_repo g)" and f: "fetch_graph_data g req = (ss, ts, ls)"
  shows "src \<in> set ss \<and> tgt \<in> set ts \<and> candidate_pair ls src tgt \<longleftrightarrow> run_pair g req src tgt"
  using fetched_sides [OF wf f] fetched_links [OF wf f, of src tgt]
  unfolding run_pair_def candidate_pair_def by blast

text \<open>A scored candidate is the score of a generated one, over the two objects it names.\<close>

lemma score_all_each:
  assumes "score_all mint reg objs ls cs = Inr (scored, traces)" and "own \<in> set scored"
  shows "\<exists>cand \<in> set cs. \<exists>src tgt tr. dget objs (mc_source_object_id cand) = Some src \<and>
    dget objs (mc_target_object_id cand) = Some tgt \<and> score_candidate mint reg cand src tgt ls = Inr (own, tr)"
  using assms
proof (induction cs arbitrary: scored traces)
  case (Cons c cs)
  show ?case
  proof (cases "\<exists>s t. dget objs (mc_source_object_id c) = Some s \<and> dget objs (mc_target_object_id c) = Some t")
    case True
    then obtain s t where st: "dget objs (mc_source_object_id c) = Some s"
      "dget objs (mc_target_object_id c) = Some t" by blast
    then obtain c' tr rest tr' where r: "score_candidate mint reg c s t ls = Inr (c', tr)"
      "score_all mint reg objs ls cs = Inr (rest, tr')" "scored = c' # rest"
      using Cons.prems(1) by (auto split: sum.splits prod.splits)
    then show ?thesis
      using st Cons.IH [OF r(2)] Cons.prems(2) by (cases "own = c'") auto
  next
    case False
    then have "score_all mint reg objs ls cs = Inr (scored, traces)"
      using Cons.prems(1) by (auto split: option.splits)
    from Cons.IH [OF this Cons.prems(2)] show ?thesis by auto
  qed
qed simp

lemma index_get: "dget (index_of obs) i = Some ob \<Longrightarrow> ob \<in> set obs \<and> co_id ob = i"
proof -
  have "dget (foldl (\<lambda>d x. dput (co_id x) x d) d obs) i = Some ob \<Longrightarrow>
      ob \<in> set obs \<and> co_id ob = i \<or> dget d i = Some ob" for d and obs :: "control_object list"
  proof (induction obs arbitrary: d)
    case (Cons x obs)
    then show ?case using Cons.IH [of "dput (co_id x) x d"] by (auto split: if_splits)
  qed simp
  from this [of "[]"] show "dget (index_of obs) i = Some ob \<Longrightarrow> ?thesis" by simp
qed

lemma scored_from:
  assumes wf: "repo_wf (gs_repo g)" and f: "fetch_graph_data g req = (ss, ts, ls)"
    and sc: "score_all mint reg (index_of (ss @ ts)) ls (generate ss ts ls) = Inr (scored, traces)"
    and ok: "list_all rule_ok (wg_list_rules reg)"
    and own: "own \<in> set scored" and a: "a \<in> set ts" "mc_target_object_id own = co_id a"
  shows "\<exists>src cand tr. run_pair g req src a \<and> cand \<in> set (generate ss ts ls) \<and>
    pair_of cand = (co_id src, co_id a) \<and> score_candidate mint reg cand src a ls = Inr (own, tr) \<and>
    mc_source_object_id own = co_id src"
proof -
  obtain cand s t tr where c: "cand \<in> set (generate ss ts ls)"
    "dget (index_of (ss @ ts)) (mc_source_object_id cand) = Some s"
    "dget (index_of (ss @ ts)) (mc_target_object_id cand) = Some t"
    "score_candidate mint reg cand s t ls = Inr (own, tr)"
    using score_all_each [OF sc own] by blast
  have pair: "pair_of own = pair_of cand" using score_candidate_spec [OF c(4) ok] by simp
  have "pair_of cand \<in> set (map pair_of (generate ss ts ls))" using c(1) by simp
  then obtain src b where p: "src \<in> set ss" "b \<in> set ts" "candidate_pair ls src b"
    "mc_source_object_id cand = co_id src" "mc_target_object_id cand = co_id b"
    unfolding generate_exact [OF fetched_inj [OF wf f]] id_pairs_def pair_of_def by auto
  have b: "b = a" using fetched_inj(2) [OF wf f] p a pair by (simp add: inj_on_eq_iff pair_of_def)
  have "gs_get_object g (co_id y) = Some y" if "y \<in> set (ss @ ts)" for y
    using fetched_stored [OF wf f, of y] that by auto
  then have "s = src" "t = a"
    using index_get [OF c(2)] index_get [OF c(3)] p b by (metis Un_iff option.inject set_append)+
  moreover have "run_pair g req src a" using p(1,3) a(1) b fetched_pair [OF wf f, of src a] by blast
  ultimately show ?thesis using c(1,4) p(4,5) b pair by (auto simp: pair_of_def)
qed

section \<open>Properties\<close>

text \<open>C10: Over any reachable graph and for any request, the objects of a run are the stored objects the
  request selects, split into its two sides, and its candidates are exactly the pairs of a source
  and a target object that are joined by a cross-plane link stored for the scope's tenant, in either
  direction, share a non-empty correlation key or share a non-empty external reference; each pair is
  a candidate once. A link stored for another tenant makes no candidate.\<close>

theorem candidates_exact:
  assumes "svc_reach reg g"
  shows "case fetch_graph_data g req of (ss, ts, ls) \<Rightarrow>
    set ss = {ob. in_run g req ob \<and> source_side req ob} \<and>
    set ts = {ob. in_run g req ob \<and> target_side req ob} \<and>
    distinct (map pair_of (generate ss ts ls)) \<and>
    set (map pair_of (generate ss ts ls)) = {(co_id src, co_id tgt) |src tgt. run_pair g req src tgt}"
proof -
  have wf: "repo_wf (gs_repo g)" using svc_reach_inv [OF assms] by (simp add: graph_inv_def)
  obtain ss ts ls where f: "fetch_graph_data g req = (ss, ts, ls)" by (cases "fetch_graph_data g req")
  have "set (map pair_of (generate ss ts ls)) = {(co_id src, co_id tgt) |src tgt. run_pair g req src tgt}"
    unfolding generate_exact [OF fetched_inj [OF wf f], of ls] id_pairs_def fetched_pair [OF wf f] ..
  then show ?thesis
    using generate_distinct [of ss ts ls] fetched_sides [OF wf f] unfolding f prod.case by blast
qed

text \<open>A bill and a work order that nothing but a link joins.\<close>

definition sample_linked :: "unit graph_service" where
  "sample_linked =
     snd (gs_create_link ''l'' 2 ''t''
       \<lparr>lc_source_id = ''w'', lc_target_id = ''b'', lc_link_type = LT_CORRELATES_WITH, lc_weight = 1,
        lc_confidence = 1, lc_evidence = [], lc_metadata = []\<rparr>
       (snd (gs_create_object ''w'' 1 ''t'' sample_create ''ops'' True
         (snd (gs_create_object ''b'' 0 ''t'' (sample_create\<lparr>cc_plane := COMMERCIAL\<rparr>) ''ops'' True
           (new_graph_service new_registry))))))"

lemma sample_linked_reach: "svc_reach new_registry sample_linked"
  unfolding sample_linked_def
  by (intro reach_step [OF _ svc_link] reach_step [OF _ svc_create] reach_new; code_simp)

theorem candidates_exact_witness:
  "\<exists>src tgt. co_id src = ''b'' \<and> co_id tgt = ''w'' \<and> run_pair sample_linked recon_sample src tgt"
proof -
  have "(case fetch_graph_data sample_linked recon_sample of (ss, ts, ls) \<Rightarrow>
      map pair_of (generate ss ts ls)) = [(''b'', ''w'')]" by code_simp
  moreover obtain ss ts ls where f: "fetch_graph_data sample_linked recon_sample = (ss, ts, ls)"
    by (cases "fetch_graph_data sample_linked recon_sample")
  ultimately have "map pair_of (generate ss ts ls) = [(''b'', ''w'')]" by (simp only: prod.case)
  then have "(''b'', ''w'') \<in> set (map pair_of (generate ss ts ls))" by (simp only: list.set_intros)
  moreover have "set (map pair_of (generate ss ts ls)) =
      {(co_id src, co_id tgt) |src tgt. run_pair sample_linked recon_sample src tgt}"
    using candidates_exact [OF sample_linked_reach, of recon_sample] unfolding f prod.case by blast
  ultimately have "\<exists>src tgt. (''b'', ''w'') = (co_id src, co_id tgt) \<and> run_pair sample_linked recon_sample src tgt"
    by (simp only: mem_Collect_eq)
  then obtain src tgt where "''b'' = co_id src \<and> ''w'' = co_id tgt" "run_pair sample_linked recon_sample src tgt"
    unfolding prod.inject by (elim exE conjE) (rule that, rule conjI)
  then show ?thesis by (intro exI conjI) (simp_all only: simp_thms)
qed

text \<open>C11: With the default rules a candidate's score lies between 0 and 1 and is also its confidence, and
  it is 0 as soon as a contradicting or blocking link joins the two objects, whatever else matches;
  the only error a scoring can end in is the overflow of a payload number.\<close>

theorem candidate_score_bounds:
  "case score_candidate mint build_default_rule_registry c src tgt ls of
     Inl e \<Rightarrow> e = OverflowError
   | Inr (c', traces) \<Rightarrow>
       pair_of c' = pair_of c \<and> 0 \<le> mc_score c' \<and> mc_score c' \<le> 1 \<and> mc_confidence c' = mc_score c' \<and>
       (if list_ex (\<lambda>l. cl_link_type l \<in> {LT_CONTRADICTS, LT_BLOCKS}) (links_between src tgt ls)
        then mc_score c' = 0 else True)"
proof (cases "score_candidate mint build_default_rule_registry c src tgt ls")
  case (Inl e)
  have only: "wl_evaluate rule i src tgt ls = Inl e' \<Longrightarrow> e' = OverflowError"
    if "rule \<in> set default_wave2_rules" for rule i e'
    using that
    by (auto simp: default_wave2_rules_def identity_correlation_rule_def external_reference_rule_def
        topology_linkage_rule_def state_alignment_rule_def quantity_alignment_rule_def
        cost_alignment_rule_def chronology_alignment_rule_def coverage_expectation_rule_def
        cross_plane_evidence_rule_def w2_rule_of_def float_pair_def Let_def
        split: option.splits sum.splits if_splits)
  have "score_rules ids src tgt ls rules acc = Inl e \<Longrightarrow> set rules \<subseteq> set default_wave2_rules \<Longrightarrow> e = OverflowError"
    for ids rules acc
    by (induction rules arbitrary: acc) (auto split: sum.splits dest: only)
  moreover have "set (wg_get_applicable_rules build_default_rule_registry src tgt) \<subseteq> set default_wave2_rules"
    using default_registry_rules by (auto simp: wg_get_applicable_rules_def wg_list_rules_def simp del: set_map)
  ultimately have "e = OverflowError"
    using Inl by (auto simp: score_candidate_def Let_def split: sum.splits)
  with Inl show ?thesis by simp
next
  case (Inr r)
  obtain c' tr where r: "r = (c', tr)" by (cases r)
  have ok: "list_all rule_ok (wg_list_rules build_default_rule_registry)"
    unfolding default_registry_rules by (rule default_rules_ok)
  have "mc_score c' = 0"
    if "list_ex (\<lambda>l. cl_link_type l \<in> {LT_CONTRADICTS, LT_BLOCKS}) (links_between src tgt ls)"
    using score_candidate_spec [OF Inr [unfolded r] ok] topology_applicable topology_fails [OF that] by blast
  then show ?thesis
    using score_candidate_spec [OF Inr [unfolded r] ok] by (simp add: Inr r scored_ok_def)
qed

text \<open>C9: No object of a run goes unnoticed, over any reachable graph and for any request, with rules
  like the built-in ones: every source object is the source of some outcome of a run that returns,
  and every target object is the target of one, or was outranked: for some source object it is a
  candidate of, the run reports a candidate whose score is at least the one the target was given.\<close>

theorem no_object_unreported:
  assumes "svc_reach reg (or_graph s)" and "inj mint"
    and "list_all rule_ok (wg_list_rules (or_rule_registry s))"
  shows "case or_execute mint hash fresh now req s of
     (Inl e, s') \<Rightarrow> True
   | (Inr x, s') \<Rightarrow>
       (case fetch_graph_data (or_graph s) req of (ss, ts, ls) \<Rightarrow>
          list_all (\<lambda>src. list_ex (\<lambda>out. oc_source_object_id out = Some (co_id src)) (wu_outcomes (xe_run x))) ss \<and>
          list_all (\<lambda>tgt. list_ex (\<lambda>out. oc_target_object_id out = Some (co_id tgt) \<or>
             (\<exists>src cand own best tr. run_pair (or_graph s) req src tgt \<and>
                cand \<in> set (generate ss ts ls) \<and> pair_of cand = (co_id src, co_id tgt) \<and>
                score_candidate mint (or_rule_registry s) cand src tgt ls = Inr (own, tr) \<and>
                oc_source_object_id out = Some (co_id src) \<and> oc_candidate out = Some best \<and>
                mc_score own \<le> mc_score best)) (wu_outcomes (xe_run x))) ts)"
proof -
  have wf: "repo_wf (gs_repo (or_graph s))" using svc_reach_inv [OF assms(1)] by (simp add: graph_inv_def)
  obtain ss ts ls where f: "fetch_graph_data (or_graph s) req = (ss, ts, ls)"
    by (cases "fetch_graph_data (or_graph s) req")
  show ?thesis
  proof (cases "score_all mint (or_rule_registry s) (index_of (ss @ ts)) ls (generate ss ts ls)")
    case (Inl e)
    then show ?thesis by (simp add: run_raises [OF f])
  next
    case (Inr r)
    obtain scored tr where r: "r = (scored, tr)" by (cases r)
    note scored = Inr [unfolded r]
    have sc: "list_all (scored_ok mint) scored"
      using score_all_spec [OF scored assms(3)] candidates_found [OF _ fetched_inj [OF wf f]] by blast
    let ?outs = "run_outcomes mint hash (or_match_threshold s) (or_duplicate_gap_threshold s) req ss ts scored"
    obtain x s' where x: "or_execute mint hash fresh now req s = (Inr x, s')" "wu_outcomes (xe_run x) = ?outs"
      using run_returns [OF f scored, where hash = hash and fresh = fresh and now = now] by auto
    have src: "\<exists>out\<in>set ?outs. oc_source_object_id out = Some (co_id a)" if "a \<in> set ss" for a
      by (rule source_accounted [OF assms(2) sc that])
    have "\<exists>out\<in>set ?outs. oc_target_object_id out = Some (co_id a) \<or>
        (\<exists>src cand own best tr. run_pair (or_graph s) req src a \<and>
           cand \<in> set (generate ss ts ls) \<and> pair_of cand = (co_id src, co_id a) \<and>
           score_candidate mint (or_rule_registry s) cand src a ls = Inr (own, tr) \<and>
           oc_source_object_id out = Some (co_id src) \<and> oc_candidate out = Some best \<and>
           mc_score own \<le> mc_score best)" if a: "a \<in> set ts" for a
      using target_accounted [OF assms(2) sc a, where hash = hash and thr = "or_match_threshold s"
          and gap = "or_duplicate_gap_threshold s" and req = req and ss = ss]
    proof (elim disjE bexE conjE)
      fix own out
      assume own: "own \<in> set scored" "mc_target_object_id own = co_id a" and out: "out \<in> set ?outs"
        and "\<exists>best. oc_candidate out = Some best \<and> oc_source_object_id out = Some (mc_source_object_id own) \<and>
          mc_score own \<le> mc_score best"
      with scored_from [OF wf f scored assms(3) own(1) a own(2)] show ?thesis
        by (intro bexI [OF _ out] disjI2) metis
    qed blast
    then show ?thesis using src by (simp add: x f list_all_iff list_ex_iff)
  qed
qed

theorem no_object_unreported_witness:
  "case sample_run of
     (Inl e, s') \<Rightarrow> False
   | (Inr x, s') \<Rightarrow>
       map oc_outcome_type (wu_outcomes (xe_run x)) = [OC_FULLY_RECONCILED] \<and>
       (case fetch_graph_data sample_billing recon_sample of (ss, ts, ls) \<Rightarrow>
          list_all (\<lambda>src. list_ex (\<lambda>out. oc_source_object_id out = Some (co_id src)) (wu_outcomes (xe_run x))) ss)"
proof -
  have g: "or_graph sample_orchestrator = sample_billing"
    by (simp add: sample_orchestrator_def new_orchestrator_def)
  have ok: "list_all rule_ok (wg_list_rules (or_rule_registry sample_orchestrator))"
    using default_rules_ok unfolding sample_registry by (simp add: default_wave2_rules_def)
  note all = no_object_unreported [where s = sample_orchestrator and mint = sample_mint and hash = "\<lambda>_. ''h''"
      and fresh = "''run''" and now = 5 and req = recon_sample, unfolded g, folded sample_run_def,
      OF sample_billing_reach sample_mint_inj ok]
  obtain ss ts ls where f: "fetch_graph_data sample_billing recon_sample = (ss, ts, ls)"
    by (cases "fetch_graph_data sample_billing recon_sample")
  from sample_run_ok obtain x s' where x: "sample_run = (Inr x, s')"
    "map oc_outcome_type (wu_outcomes (xe_run x)) = [OC_FULLY_RECONCILED]" by (elim exE conjE)
  from all show ?thesis by (simp add: f x)
qed

end
