(* ===== verification/W2_Runs.thy ===== *)
theory W2_Runs
  imports W2_Claims
begin

text \<open>
  How a reconciliation run ends: what it stores, which cases it files, what it leaves alone, and
  what of the request it never reads. The run of the sample billing graph instantiates the
  hypotheses.
\<close>

section \<open>The kinds of outcome\<close>

definition known_kind :: "recon_outcome \<Rightarrow> bool" where
  "known_kind x \<longleftrightarrow> oc_outcome_type x \<notin> {OC_DISPUTED, OC_INSUFFICIENT_EVIDENCE}"

lemma oc_compute_hash_kind [simp]: "known_kind (oc_compute_hash h x) \<longleftrightarrow> known_kind x"
  by (simp add: oc_compute_hash_def known_kind_def Let_def)

lemma known_kinds [simp]:
  "known_kind (duplicate_outcome mint hash d)" "known_kind (gap_outcome hash g)"
  "known_kind (mismatch_outcome hash m)"
  by (simp_all add: duplicate_outcome_def gap_outcome_def mismatch_outcome_def)
    (simp_all add: known_kind_def outcome_of_def)

lemma ranking_known: "list_all known_kind (ranking_outcome hash thr rk)"
  by (simp add: ranking_outcome_def split: list.splits) (simp add: known_kind_def outcome_of_def)

lemma add_mismatches_known: "list_all known_kind outs \<Longrightarrow> list_all known_kind (foldl (add_mismatch hash) outs ms)"
  by (induction ms arbitrary: outs) (simp_all add: add_mismatch_def)

lemma nothing_required: "get_insufficient [] obs = []"
  by (simp add: get_insufficient_def evaluate_object_def)

lemma outcome_kinds: "list_all known_kind (run_outcomes mint hash thr gap req ss ts scored)"
proof -
  have "list_all known_kind (base_outcomes mint hash thr (assembly_of mint gap req ss ts scored))"
    using ranking_known
    by (auto simp: base_outcomes_def assembly_of_def Let_def nothing_required list_all_iff split: option.splits)
  then show ?thesis unfolding assemble_base by (rule add_mismatches_known)
qed

section \<open>Properties\<close>

text \<open>A run that returns is stored as completed with its outcomes and its cases, files one case, in
  order, for every outcome except a clean reconciliation, and changes no stored case; none of its
  outcomes is a dispute or insufficient evidence. A run that raises stays stored as in progress,
  without outcomes, and files nothing. Either way the graph and the other runs are untouched and the
  audit log only grows.\<close>

theorem run_ends:
  assumes "inj mint" and "\<forall>n. or_get_case s (mint (D_Case n)) = None"
  shows "case or_execute mint hash fresh now req s of (r, s') \<Rightarrow>
    or_graph s' = or_graph s \<and> extends_log (or_audit s) (or_audit s') \<and>
    (case r of
       Inl e \<Rightarrow> or_runs s' = dput fresh (started_run2 fresh now req) (or_runs s) \<and> or_cases s' = or_cases s
     | Inr x \<Rightarrow>
         or_runs s' = dput fresh (xe_run x) (or_runs s) \<and> wu_status (xe_run x) = RUN_COMPLETED \<and>
         wu_cases (xe_run x) = xe_cases x \<and>
         map wc_outcome (xe_cases x) = filter reportable (wu_outcomes (xe_run x)) \<and>
         list_all (\<lambda>c. c = create_case (wc_id c) now fresh (rq_tenant_id req) (wc_outcome c) (run_domain req))
           (xe_cases x) \<and>
         or_cases s' = or_cases s @ map (\<lambda>c. (wc_id c, c)) (xe_cases x) \<and>
         list_all known_kind
           (wu_outcomes (xe_run x)))"
proof -
  obtain ss ts ls where f: "fetch_graph_data (or_graph s) req = (ss, ts, ls)"
    by (cases "fetch_graph_data (or_graph s) req")
  show ?thesis
  proof (cases "score_all mint (or_rule_registry s) (index_of (ss @ ts)) ls (generate ss ts ls)")
    case (Inl e)
    then show ?thesis by (simp add: run_raises [OF f] run_begun_log)
  next
    case (Inr r)
    obtain scored tr where r: "r = (scored, tr)" by (cases r)
    let ?outs = "run_outcomes mint hash (or_match_threshold s) (or_duplicate_gap_threshold s) req ss ts scored"
    obtain s1 cs s2 sm run where *: "or_cases s1 = or_cases s" "or_graph s1 = or_graph s"
      "or_runs s1 = dput fresh (started_run2 fresh now req) (or_runs s)"
      "extends_log (or_audit s) (or_audit s1)"
      "create_cases (\<lambda>n. mint (D_Case n)) now fresh (rq_tenant_id req) (run_domain req) 0 ?outs s1 = (cs, s2)"
      "run = finish_run hash now tr (length scored) ?outs cs sm (started_run2 fresh now req)"
      "or_execute mint hash fresh now req s =
        (Inr \<lparr>xe_run = run, xe_cases = cs, xe_summary = sm,
               xe_plan = build_execution_plan (or_rule_registry s) (started_run2 fresh now req) req\<rparr>,
         or_emit (reconciliation_run_completed fresh (rq_tenant_id req) (wu_run_hash run)
           (length ?outs) (length cs)) (or_store_run run s2))"
      using run_returns [OF f Inr [unfolded r], where hash = hash and fresh = fresh and now = now] by blast
    have ids: "inj (\<lambda>n. mint (D_Case n))" using assms(1) by (auto simp: inj_def)
    note spec = create_cases_spec [OF *(5) ids]
    have fresh: "\<forall>k\<ge>0. dget (or_cases s1) (mint (D_Case k)) = None"
      using assms(2) by (simp add: *(1) or_get_case_def)
    have "list_all known_kind ?outs"
      by (rule outcome_kinds)
    moreover have "extends_log (or_audit s) (or_audit s2)"
      using spec [OF fresh] *(4) extends_log_trans by blast
    then have "extends_log (or_audit s) (or_audit (or_emit e (or_store_run run s2)))" for e
      by (auto intro: extends_log_trans)
    ultimately show ?thesis
      using spec [OF fresh] by (simp add: *(1-3,6,7) dput_dput)
  qed
qed

theorem run_ends_witness:
  "case sample_run of (r, s') \<Rightarrow>
     or_graph s' = sample_billing \<and>
     (case r of
        Inl e \<Rightarrow> False
      | Inr x \<Rightarrow> or_runs s' = [(''run'', xe_run x)] \<and> wu_status (xe_run x) = RUN_COMPLETED \<and>
          or_cases s' = map (\<lambda>c. (wc_id c, c)) (xe_cases x))"
proof -
  have empty: "or_get_case sample_orchestrator i = None" "or_graph sample_orchestrator = sample_billing"
    "or_runs sample_orchestrator = []" "or_cases sample_orchestrator = []" for i
    by (simp_all add: sample_orchestrator_def new_orchestrator_def or_get_case_def)
  note ends = run_ends [where s = sample_orchestrator and mint = sample_mint and hash = "\<lambda>_. ''h''"
      and fresh = "''run''" and now = 5 and req = recon_sample, OF sample_mint_inj, folded sample_run_def]
  from sample_run_ok obtain x s' where x: "sample_run = (Inr x, s')" by (elim exE conjE)
  show ?thesis using ends by (simp add: x empty)
qed

text \<open>The match and duplicate thresholds of a request have no effect: whatever they are, the run,
  its outcomes, cases, summary and log are the same; only the plan that is returned beside them
  differs, which records the two numbers.\<close>

theorem request_thresholds_ignored:
  "or_execute mint hash fresh now (req\<lparr>rq_match_threshold := a, rq_duplicate_threshold := b\<rparr>) s =
     (case or_execute mint hash fresh now req s of (r, s') \<Rightarrow>
        (map_sum id (\<lambda>x. x\<lparr>xe_plan := (xe_plan x)\<lparr>pn_match_threshold := a, pn_duplicate_threshold := b\<rparr>\<rparr>) r, s'))"
proof -
  let ?req = "req\<lparr>rq_match_threshold := a, rq_duplicate_threshold := b\<rparr>"
  have f: "fetch_graph_data g ?req = fetch_graph_data g req" for g :: "'a graph_service"
    by (simp add: fetch_graph_data_def Let_def)
  have r: "started_run2 fresh now ?req = started_run2 fresh now req"
    by (simp add: started_run2_def create_run_def)
  have b: "run_begun fresh now ?req cands s = run_begun fresh now req cands s" for cands
    by (simp add: run_begun_def r)
  have i: "assembly_of mint g ?req ss ts scored = assembly_of mint g req ss ts scored" for g ss ts scored
    by (simp add: assembly_of_def)
  have p: "build_execution_plan rr run ?req =
      (build_execution_plan rr run req)\<lparr>pn_match_threshold := a, pn_duplicate_threshold := b\<rparr>" for rr run
    by (simp add: build_execution_plan_def)
  show ?thesis
    by (simp add: or_execute_def f r b i p Let_def split: prod.split sum.split del: foldl_append)
qed

end
