(* ===== verification/Validation_Chain.thy ===== *)
theory Validation_Chain
  imports Graph_Service_Props
begin

text \<open>
  The validation chain that gates an action, \<^verbatim>\<open>app/core/validation/types.py\<close>,
  \<^verbatim>\<open>rules.py\<close> and \<^verbatim>\<open>chain.py\<close>: ten rules, one per dimension, each deciding on the objects, the
  graph and a context; a rule that raises counts as failed. A rule is a record of its dimension
  and its \<open>validate\<close> method, so a rule supplied from outside is any such record. SHA-256 of the
  canonical JSON text (\<open>deterministic_hash\<close>) is the argument \<open>hash\<close>.
\<close>

section \<open>Value types\<close>

datatype validation_dimension =
    VD_SCHEMA | VD_GRAPH_COMPLETENESS | VD_EVIDENCE_SUFFICIENCY | VD_PROVENANCE
  | VD_RECONCILIATION_STATE | VD_POLICY | VD_DETERMINISM | VD_CONFIDENCE
  | VD_CONTRADICTORY_EVIDENCE | VD_ACTION_PRECONDITIONS

fun dimension_value :: "validation_dimension \<Rightarrow> string" where
  "dimension_value VD_SCHEMA = ''schema''"
| "dimension_value VD_GRAPH_COMPLETENESS = ''graph_completeness''"
| "dimension_value VD_EVIDENCE_SUFFICIENCY = ''evidence_sufficiency''"
| "dimension_value VD_PROVENANCE = ''provenance''"
| "dimension_value VD_RECONCILIATION_STATE = ''reconciliation_state''"
| "dimension_value VD_POLICY = ''policy''"
| "dimension_value VD_DETERMINISM = ''determinism''"
| "dimension_value VD_CONFIDENCE = ''confidence''"
| "dimension_value VD_CONTRADICTORY_EVIDENCE = ''contradictory_evidence''"
| "dimension_value VD_ACTION_PRECONDITIONS = ''action_preconditions''"

datatype dimension_verdict = V_PASS | V_FAIL | V_WARN | V_SKIP

fun verdict_value :: "dimension_verdict \<Rightarrow> string" where
  "verdict_value V_PASS = ''pass''"
| "verdict_value V_FAIL = ''fail''"
| "verdict_value V_WARN = ''warn''"
| "verdict_value V_SKIP = ''skip''"

record validation_step_result =
  vs_dimension :: validation_dimension
  vs_verdict :: dimension_verdict
  vs_message :: fstr
  vs_details :: "(string, json) dict"
  vs_evidence_used :: "evidence_ref list"

definition step_result ::
  "validation_dimension \<Rightarrow> dimension_verdict \<Rightarrow> fstr \<Rightarrow> validation_step_result" where
  "step_result dm v msg =
     \<lparr>vs_dimension = dm, vs_verdict = v, vs_message = msg, vs_details = [], vs_evidence_used = []\<rparr>"

datatype chain_outcome = CO_PASSED | CO_FAILED | CO_PASSED_WITH_WARNINGS

record validation_chain_result =
  vr_id :: uuid
  vr_tenant_id :: uuid
  vr_target_object_ids :: "uuid list"
  vr_action_type :: string
  vr_outcome :: chain_outcome
  vr_steps :: "validation_step_result list"
  vr_passed_count :: nat
  vr_failed_count :: nat
  vr_warning_count :: nat
  vr_skipped_count :: nat
  vr_decision_hash :: string
  vr_validated_at :: "time option"

definition vr_is_actionable :: "validation_chain_result \<Rightarrow> bool" where
  "vr_is_actionable r = (vr_outcome r \<in> {CO_PASSED, CO_PASSED_WITH_WARNINGS})"

definition vr_compute_hash ::
  "(json \<Rightarrow> string) \<Rightarrow> validation_chain_result \<Rightarrow> validation_chain_result" where
  "vr_compute_hash hash r =
     (let data = JObj
        [(''target_object_ids'', JList (map JStr (vr_target_object_ids r))),
         (''action_type'', JStr (vr_action_type r)),
         (''steps'', JList (map (\<lambda>s. JObj
            [(''dimension'', JStr (dimension_value (vs_dimension s))),
             (''verdict'', JStr (verdict_value (vs_verdict s)))]) (vr_steps r)))]
      in r\<lparr>vr_decision_hash := hash data\<rparr>)"

section \<open>The default rules\<close>

type_synonym rule_context = "(string, json) dict"

record 'c validation_rule =
  vl_dimension :: validation_dimension
  vl_validate :: "control_object list \<Rightarrow> 'c graph_service \<Rightarrow> rule_context
                    \<Rightarrow> string + validation_step_result"

text \<open>
  The loop of a rule: the first object for which \<open>chk\<close> yields a result decides, \<open>ok\<close> is the
  result when none does, and a raise leaves the loop.
\<close>

fun first_issue ::
  "('o \<Rightarrow> string + 'r option) \<Rightarrow> 'o list \<Rightarrow> 'r \<Rightarrow> string + 'r" where
  "first_issue chk [] ok = Inr ok"
| "first_issue chk (x # xs) ok =
     (case chk x of Inl e \<Rightarrow> Inl e | Inr (Some r) \<Rightarrow> Inr r | Inr None \<Rightarrow> first_issue chk xs ok)"

definition check_when :: "bool \<Rightarrow> 'r \<Rightarrow> string + 'r option" where
  "check_when b r = Inr (if b then Some r else None)"

definition schema_validation_rule :: "'c validation_rule" where
  "schema_validation_rule =
     \<lparr>vl_dimension = VD_SCHEMA,
      vl_validate = \<lambda>objects g ctx. first_issue
        (\<lambda>obj. if blank (co_label obj)
               then Inr (Some (step_result VD_SCHEMA V_FAIL
                      [Lit ''Object '', Lit (co_id obj), Lit '' has empty label'']))
               else check_when (blank (co_domain obj)) (step_result VD_SCHEMA V_FAIL
                      [Lit ''Object '', Lit (co_id obj), Lit '' has empty domain'']))
        objects (step_result VD_SCHEMA V_PASS [Lit ''All objects pass schema validation''])\<rparr>"

definition graph_completeness_rule :: "'c validation_rule" where
  "graph_completeness_rule =
     \<lparr>vl_dimension = VD_GRAPH_COMPLETENESS,
      vl_validate = \<lambda>objects g ctx. first_issue
        (\<lambda>obj. check_when (get_links_for_object (gs_repo g) (co_id obj) ''both'' None = [])
               (step_result VD_GRAPH_COMPLETENESS V_WARN
                  [Lit ''Object '', sq (co_label obj), Lit '' has no links in graph'']))
        objects (step_result VD_GRAPH_COMPLETENESS V_PASS [Lit ''All objects have graph links''])\<rparr>"

definition evidence_sufficiency_rule :: "int \<Rightarrow> 'c validation_rule" where
  "evidence_sufficiency_rule min_evidence =
     \<lparr>vl_dimension = VD_EVIDENCE_SUFFICIENCY,
      vl_validate = \<lambda>objects g ctx. first_issue
        (\<lambda>obj. check_when (int (length (co_evidence obj)) < min_evidence)
               (step_result VD_EVIDENCE_SUFFICIENCY V_FAIL
                  [Lit ''Object '', sq (co_label obj), Lit '' has '',
                   NumI (int (length (co_evidence obj))), Lit '' evidence refs, requires '',
                   NumI min_evidence]))
        objects
        (step_result VD_EVIDENCE_SUFFICIENCY V_PASS [Lit ''All objects have sufficient evidence''])\<rparr>"

definition provenance_rule :: "'c validation_rule" where
  "provenance_rule =
     \<lparr>vl_dimension = VD_PROVENANCE,
      vl_validate = \<lambda>objects g ctx. first_issue
        (\<lambda>obj. check_when (pv_created_by (co_provenance obj) = [])
               (step_result VD_PROVENANCE V_FAIL
                  [Lit ''Object '', sq (co_label obj), Lit '' has no provenance creator'']))
        objects (step_result VD_PROVENANCE V_PASS [Lit ''All objects have valid provenance''])\<rparr>"

definition reconciliation_state_rule :: "'c validation_rule" where
  "reconciliation_state_rule =
     \<lparr>vl_dimension = VD_RECONCILIATION_STATE,
      vl_validate = \<lambda>objects g ctx.
        (let require_reconciled = dget_default ctx ''require_reconciled'' (JBool False)
         in first_issue
           (\<lambda>obj. if json_truthy require_reconciled \<and>
                     co_state obj \<notin> {CS_RECONCILED, CS_ACTIONED}
                  then Inr (Some (step_result VD_RECONCILIATION_STATE V_FAIL
                         [Lit ''Object '', sq (co_label obj), Lit '' is '',
                          Lit (state_value (co_state obj)),
                          Lit '', expected reconciled or actioned'']))
                  else check_when (co_state obj = CS_DISPUTED)
                         (step_result VD_RECONCILIATION_STATE V_FAIL
                            [Lit ''Object '', sq (co_label obj), Lit '' is disputed'']))
           objects
           (step_result VD_RECONCILIATION_STATE V_PASS
              [Lit ''Reconciliation state check passed'']))\<rparr>"

definition policy_rule :: "'c validation_rule" where
  "policy_rule =
     \<lparr>vl_dimension = VD_POLICY,
      vl_validate = \<lambda>objects g ctx. Inr (step_result VD_POLICY V_PASS
        [Lit ''Policy check passed (no domain-specific violations)''])\<rparr>"

definition determinism_rule :: "'c validation_rule" where
  "determinism_rule =
     \<lparr>vl_dimension = VD_DETERMINISM,
      vl_validate = \<lambda>objects g ctx. first_issue
        (\<lambda>obj. check_when
           (determinism_value (pv_creation_method (co_provenance obj)) = ''model_assisted'' \<and>
            \<not> py_truthy (pv_model_id (co_provenance obj)))
           (step_result VD_DETERMINISM V_WARN
              [Lit ''Object '', sq (co_label obj),
               Lit '' is model-assisted but has no model_id in provenance'']))
        objects (step_result VD_DETERMINISM V_PASS [Lit ''Determinism check passed''])\<rparr>"

definition confidence_rule :: "rat \<Rightarrow> 'c validation_rule" where
  "confidence_rule min_confidence =
     \<lparr>vl_dimension = VD_CONFIDENCE,
      vl_validate = \<lambda>objects g ctx. first_issue
        (\<lambda>obj. check_when (pf_less (co_confidence obj) (Fin min_confidence))
               (step_result VD_CONFIDENCE V_FAIL
                  [Lit ''Object '', sq (co_label obj), Lit '' confidence '',
                   Lit (pf_str (co_confidence obj)), Lit '' below minimum '', NumQ min_confidence]))
        objects (step_result VD_CONFIDENCE V_PASS [Lit ''Confidence check passed''])\<rparr>"

definition contradictory_evidence_rule :: "'c validation_rule" where
  "contradictory_evidence_rule =
     \<lparr>vl_dimension = VD_CONTRADICTORY_EVIDENCE,
      vl_validate = \<lambda>objects g ctx. first_issue
        (\<lambda>obj. let links = get_links_for_object (gs_repo g) (co_id obj) ''both'' (Some LT_CONTRADICTS)
               in check_when (links \<noteq> [])
                    (step_result VD_CONTRADICTORY_EVIDENCE V_FAIL
                       [Lit ''Object '', sq (co_label obj), Lit '' has '',
                        NumI (int (length links)), Lit '' contradictory links'']))
        objects
        (step_result VD_CONTRADICTORY_EVIDENCE V_PASS [Lit ''No contradictory evidence found''])\<rparr>"

definition action_preconditions_rule :: "'c validation_rule" where
  "action_preconditions_rule =
     \<lparr>vl_dimension = VD_ACTION_PRECONDITIONS,
      vl_validate = \<lambda>objects g ctx.
        (let required_states = dget_default ctx ''required_states''
               (JList [JStr (state_value CS_FROZEN), JStr (state_value CS_RECONCILED)])
         in first_issue
           (\<lambda>obj. (case json_in (state_value (co_state obj)) required_states of
                     Inl e \<Rightarrow> Inl e
                   | Inr b \<Rightarrow> check_when (\<not> b) (step_result VD_ACTION_PRECONDITIONS V_WARN
                       [Lit ''Object '', sq (co_label obj), Lit '' is '',
                        Lit (state_value (co_state obj)), Lit '', expected one of '',
                        Repr required_states])))
           objects
           (step_result VD_ACTION_PRECONDITIONS V_PASS [Lit ''Action preconditions met'']))\<rparr>"

definition default_validation_rules :: "'c validation_rule list" where
  "default_validation_rules =
     [schema_validation_rule, graph_completeness_rule, evidence_sufficiency_rule 1,
      provenance_rule, reconciliation_state_rule, policy_rule, determinism_rule,
      confidence_rule (1 / 2), contradictory_evidence_rule, action_preconditions_rule]"

section \<open>The chain\<close>

record 'c validation_chain =
  vc_graph :: "'c graph_service"
  vc_rules :: "'c validation_rule list"

definition new_validation_chain ::
  "'c graph_service \<Rightarrow> 'c validation_rule list option \<Rightarrow> 'c validation_chain" where
  "new_validation_chain g rules =
     \<lparr>vc_graph = g,
      vc_rules = (case rules of Some rs \<Rightarrow> rs | None \<Rightarrow> default_validation_rules)\<rparr>"

definition add_rule :: "'c validation_rule \<Rightarrow> 'c validation_chain \<Rightarrow> 'c validation_chain" where
  "add_rule rule ch = ch\<lparr>vc_rules := vc_rules ch @ [rule]\<rparr>"

definition replace_rule ::
  "validation_dimension \<Rightarrow> 'c validation_rule \<Rightarrow> 'c validation_chain \<Rightarrow> 'c validation_chain" where
  "replace_rule dimension rule ch =
     ch\<lparr>vc_rules := filter (\<lambda>r. vl_dimension r \<noteq> dimension) (vc_rules ch) @ [rule]\<rparr>"

definition run_rule ::
  "control_object list \<Rightarrow> 'c graph_service \<Rightarrow> rule_context \<Rightarrow> 'c validation_rule
     \<Rightarrow> validation_step_result" where
  "run_rule objects g ctx rule =
     (case vl_validate rule objects g ctx of
        Inr result \<Rightarrow> result
      | Inl e \<Rightarrow> step_result (vl_dimension rule) V_FAIL [Lit ''Rule raised exception: '', Lit e])"

record tally =
  ty_passed :: nat
  ty_failed :: nat
  ty_warnings :: nat
  ty_skipped :: nat

fun count_verdict :: "dimension_verdict \<Rightarrow> tally \<Rightarrow> tally" where
  "count_verdict V_PASS t = t\<lparr>ty_passed := ty_passed t + 1\<rparr>"
| "count_verdict V_FAIL t = t\<lparr>ty_failed := ty_failed t + 1\<rparr>"
| "count_verdict V_WARN t = t\<lparr>ty_warnings := ty_warnings t + 1\<rparr>"
| "count_verdict V_SKIP t = t\<lparr>ty_skipped := ty_skipped t + 1\<rparr>"

fun chain_loop ::
  "control_object list \<Rightarrow> 'c graph_service \<Rightarrow> rule_context \<Rightarrow> 'c validation_rule list
     \<Rightarrow> validation_step_result list \<times> tally \<Rightarrow> validation_step_result list \<times> tally" where
  "chain_loop objects g ctx [] s = s"
| "chain_loop objects g ctx (rule # rules) (steps, t) =
     (let result = run_rule objects g ctx rule
      in chain_loop objects g ctx rules (steps @ [result], count_verdict (vs_verdict result) t))"

definition chain_validate ::
  "(json \<Rightarrow> string) \<Rightarrow> uuid \<Rightarrow> time \<Rightarrow> uuid \<Rightarrow> control_object list \<Rightarrow> string \<Rightarrow> rule_context option
     \<Rightarrow> 'c validation_chain \<Rightarrow> fabric_error + validation_chain_result" where
  "chain_validate hash fresh now tenant_id objects action_type ctx ch =
     (if objects = []
      then Inl (ValidationBypassAttempt
             [Lit ''Cannot validate with no objects '', Lit [CHR 0xE2, CHR 0x80, CHR 0x94],
              Lit '' possible bypass attempt''])
      else
        (case chain_loop objects (vc_graph ch) (case ctx of Some c \<Rightarrow> c | None \<Rightarrow> [])
                (vc_rules ch) ([], \<lparr>ty_passed = 0, ty_failed = 0, ty_warnings = 0, ty_skipped = 0\<rparr>) of
           (steps, t) \<Rightarrow>
             let outcome = (if ty_failed t > 0 then CO_FAILED
                            else if ty_warnings t > 0 then CO_PASSED_WITH_WARNINGS
                            else CO_PASSED)
             in Inr (vr_compute_hash hash
                  \<lparr>vr_id = fresh, vr_tenant_id = tenant_id,
                   vr_target_object_ids = map co_id objects, vr_action_type = action_type,
                   vr_outcome = outcome, vr_steps = steps, vr_passed_count = ty_passed t,
                   vr_failed_count = ty_failed t, vr_warning_count = ty_warnings t,
                   vr_skipped_count = ty_skipped t, vr_decision_hash = [],
                   vr_validated_at = Some now\<rparr>)))"

section \<open>What the chain decides\<close>

lemma step_result_simps [simp]:
  "vs_verdict (step_result d v m) = v"
  "vs_dimension (step_result d v m) = d"
  by (simp_all add: step_result_def)

lemma check_when_if [simp]:
  "(if a then Inr (Some x) else check_when b y) = check_when (a \<or> b) (if a then x else y)"
  by (simp add: check_when_def)

lemma first_issue_check:
  "first_issue (\<lambda>x. check_when (P x) (r x)) xs ok =
     Inr (case List.find P xs of None \<Rightarrow> ok | Some x \<Rightarrow> r x)"
  by (induction xs) (auto simp: check_when_def)

lemma find_case_verdict:
  assumes "\<And>x. vs_verdict (r x) = v" and "vs_verdict ok = V_PASS" and "v \<noteq> V_PASS"
  shows "vs_verdict (case List.find P xs of None \<Rightarrow> ok | Some x \<Rightarrow> r x) =
    (if \<exists>x \<in> set xs. P x then v else V_PASS)"
  using assms by (induction xs) auto

lemma first_issue_raise:
  "xs \<noteq> [] \<Longrightarrow> (\<And>x. chk x = Inl e) \<Longrightarrow> first_issue chk xs ok = Inl e"
  by (cases xs) simp_all

definition well_formed_states :: "json \<Rightarrow> bool" where
  "well_formed_states j = (case j of JStr _ \<Rightarrow> True | JList _ \<Rightarrow> True | JObj _ \<Rightarrow> True | _ \<Rightarrow> False)"

lemma json_in_Inr: "well_formed_states j \<Longrightarrow> json_in s j = Inr (projr (json_in s j))"
  by (cases j) (simp_all add: well_formed_states_def)

lemma json_in_Inl: "\<not> well_formed_states j \<Longrightarrow> json_in s j = Inl (projl (json_in [] j))"
  by (cases j) (simp_all add: well_formed_states_def)

lemma run_rule_first:
  assumes "\<And>ob. chk g ctx ob = check_when (P ob) (r ob)"
    and "\<And>ob. vs_verdict (r ob) = v" and "vs_verdict ok = V_PASS" and "v \<noteq> V_PASS"
  shows "vs_verdict (run_rule objs g ctx
      \<lparr>vl_dimension = d, vl_validate = \<lambda>objects g ctx. first_issue (chk g ctx) objects (ok :: validation_step_result)\<rparr>) =
    (if \<exists>ob \<in> set objs. P ob then v else V_PASS)"
proof -
  have "chk g ctx = (\<lambda>ob. check_when (P ob) (r ob))" using assms(1) by blast
  with find_case_verdict [of r v ok P objs] assms(2-4) show ?thesis
    by (simp add: run_rule_def first_issue_check)
qed

lemma schema_verdict:
  "vs_verdict (run_rule objs g ctx schema_validation_rule) =
     (if \<exists>ob \<in> set objs. blank (co_label ob) \<or> blank (co_domain ob) then V_FAIL else V_PASS)"
  unfolding schema_validation_rule_def Let_def check_when_if by (rule run_rule_first, rule refl) (simp_all split: if_split)

lemma graph_verdict:
  "vs_verdict (run_rule objs g ctx graph_completeness_rule) =
     (if \<exists>ob \<in> set objs. get_links_for_object (gs_repo g) (co_id ob) ''both'' None = []
      then V_WARN else V_PASS)"
  unfolding graph_completeness_rule_def Let_def by (rule run_rule_first, rule refl) simp_all

lemma evidence_verdict:
  "vs_verdict (run_rule objs g ctx (evidence_sufficiency_rule n)) =
     (if \<exists>ob \<in> set objs. int (length (co_evidence ob)) < n then V_FAIL else V_PASS)"
  unfolding evidence_sufficiency_rule_def Let_def by (rule run_rule_first, rule refl) simp_all

lemma provenance_verdict:
  "vs_verdict (run_rule objs g ctx provenance_rule) =
     (if \<exists>ob \<in> set objs. pv_created_by (co_provenance ob) = [] then V_FAIL else V_PASS)"
  unfolding provenance_rule_def Let_def by (rule run_rule_first, rule refl) simp_all

lemma reconciliation_verdict:
  "vs_verdict (run_rule objs g ctx reconciliation_state_rule) =
     (if \<exists>ob \<in> set objs.
           (json_truthy (dget_default ctx ''require_reconciled'' (JBool False)) \<and>
            co_state ob \<notin> {CS_RECONCILED, CS_ACTIONED}) \<or> co_state ob = CS_DISPUTED
      then V_FAIL else V_PASS)"
  unfolding reconciliation_state_rule_def Let_def check_when_if by (rule run_rule_first, rule refl) (simp_all split: if_split)

lemma policy_verdict:
  "vs_verdict (run_rule objs g ctx policy_rule) = V_PASS"
  by (simp add: run_rule_def policy_rule_def)

lemma determinism_verdict:
  "vs_verdict (run_rule objs g ctx determinism_rule) =
     (if \<exists>ob \<in> set objs. determinism_value (pv_creation_method (co_provenance ob)) = ''model_assisted'' \<and>
           \<not> py_truthy (pv_model_id (co_provenance ob)) then V_WARN else V_PASS)"
  unfolding determinism_rule_def Let_def by (rule run_rule_first, rule refl) simp_all

lemma confidence_verdict:
  "vs_verdict (run_rule objs g ctx (confidence_rule q)) =
     (if \<exists>ob \<in> set objs. pf_less (co_confidence ob) (Fin q) then V_FAIL else V_PASS)"
  unfolding confidence_rule_def Let_def by (rule run_rule_first, rule refl) simp_all

lemma contradiction_verdict:
  "vs_verdict (run_rule objs g ctx contradictory_evidence_rule) =
     (if \<exists>ob \<in> set objs. get_links_for_object (gs_repo g) (co_id ob) ''both'' (Some LT_CONTRADICTS) \<noteq> []
      then V_FAIL else V_PASS)"
  unfolding contradictory_evidence_rule_def Let_def by (rule run_rule_first, rule refl) simp_all

lemmas plain_rule_verdicts =
  schema_verdict graph_verdict evidence_verdict provenance_verdict reconciliation_verdict
  policy_verdict determinism_verdict confidence_verdict contradiction_verdict

lemma action_preconditions_verdict:
  assumes "objs \<noteq> []"
  shows "vs_verdict (run_rule objs g ctx action_preconditions_rule) = V_FAIL \<longleftrightarrow>
    \<not> well_formed_states (dget_default ctx ''required_states''
         (JList [JStr (state_value CS_FROZEN), JStr (state_value CS_RECONCILED)]))"
    (is "_ \<longleftrightarrow> \<not> well_formed_states ?req")
proof (cases "well_formed_states ?req")
  case True
  obtain f where f: "json_in s ?req = Inr (f s)" for s
    by (rule that [of "\<lambda>s. projr (json_in s ?req)"]) (rule json_in_Inr [OF True])
  have "vs_verdict (run_rule objs g ctx action_preconditions_rule) =
      (if \<exists>ob \<in> set objs. \<not> f (state_value (co_state ob)) then V_WARN else V_PASS)"
    unfolding action_preconditions_rule_def Let_def
    by (rule run_rule_first, simp only: f sum.case) simp_all
  with True show ?thesis by simp
next
  case False
  obtain e where e: "json_in s ?req = Inl e" for s
    by (rule that [of "projl (json_in [] ?req)"]) (rule json_in_Inl [OF False])
  have "vl_validate action_preconditions_rule objs g ctx = Inl e"
    unfolding action_preconditions_rule_def Let_def validation_rule.simps
    by (rule first_issue_raise [OF assms]) (simp only: e sum.case)
  with False show ?thesis
    by (simp only: run_rule_def sum.case step_result_simps simp_thms)
qed

lemma chain_loop_spec:
  "chain_loop objs g ctx rules (steps, t) =
     (steps @ map (run_rule objs g ctx) rules,
      foldl (\<lambda>t s. count_verdict (vs_verdict s) t) t (map (run_rule objs g ctx) rules))"
  by (induction rules arbitrary: steps t) (simp_all add: Let_def)

definition verdicts :: "dimension_verdict \<Rightarrow> validation_step_result list \<Rightarrow> nat" where
  "verdicts v steps = length (filter (\<lambda>s. vs_verdict s = v) steps)"

lemma tally_counts:
  "foldl (\<lambda>t s. count_verdict (vs_verdict s) t) t steps =
     \<lparr>ty_passed = ty_passed t + verdicts V_PASS steps, ty_failed = ty_failed t + verdicts V_FAIL steps,
      ty_warnings = ty_warnings t + verdicts V_WARN steps,
      ty_skipped = ty_skipped t + verdicts V_SKIP steps\<rparr>"
proof (induction steps arbitrary: t)
  case (Cons s steps)
  then show ?case
    by (cases "vs_verdict s") (simp_all add: verdicts_def)
qed (simp add: verdicts_def)

lemma verdicts_pos: "verdicts v steps > 0 \<longleftrightarrow> (\<exists>s \<in> set steps. vs_verdict s = v)"
  by (auto simp: verdicts_def filter_empty_conv)

lemma verdicts_image: "verdicts v steps > 0 \<longleftrightarrow> v \<in> vs_verdict ` set steps"
  unfolding verdicts_pos by (auto simp: image_iff)

lemma verdicts_total:
  "verdicts V_PASS steps + verdicts V_FAIL steps + verdicts V_WARN steps + verdicts V_SKIP steps
     = length steps"
proof (induction steps)
  case (Cons s steps)
  then show ?case by (cases "vs_verdict s") (simp_all add: verdicts_def)
qed (simp add: verdicts_def)

lemma vr_compute_hash_simps [simp]:
  "vr_steps (vr_compute_hash h r) = vr_steps r"
  "vr_outcome (vr_compute_hash h r) = vr_outcome r"
  "vr_passed_count (vr_compute_hash h r) = vr_passed_count r"
  "vr_failed_count (vr_compute_hash h r) = vr_failed_count r"
  "vr_warning_count (vr_compute_hash h r) = vr_warning_count r"
  "vr_skipped_count (vr_compute_hash h r) = vr_skipped_count r"
  "vr_tenant_id (vr_compute_hash h r) = vr_tenant_id r"
  "vr_id (vr_compute_hash h r) = vr_id r"
  "vr_target_object_ids (vr_compute_hash h r) = vr_target_object_ids r"
  "vr_action_type (vr_compute_hash h r) = vr_action_type r"
  by (simp_all add: vr_compute_hash_def Let_def)

lemma chain_validate_Inr:
  assumes "chain_validate hash f n tn objs act ctx ch = Inr r"
  shows "objs \<noteq> []"
    and "vr_steps r =
      map (run_rule objs (vc_graph ch) (case ctx of Some c \<Rightarrow> c | None \<Rightarrow> [])) (vc_rules ch)"
    and "vr_passed_count r = verdicts V_PASS (vr_steps r)"
    and "vr_failed_count r = verdicts V_FAIL (vr_steps r)"
    and "vr_warning_count r = verdicts V_WARN (vr_steps r)"
    and "vr_skipped_count r = verdicts V_SKIP (vr_steps r)"
    and "vr_outcome r = (if verdicts V_FAIL (vr_steps r) > 0 then CO_FAILED
           else if verdicts V_WARN (vr_steps r) > 0 then CO_PASSED_WITH_WARNINGS
           else CO_PASSED)"
    and "vr_target_object_ids r = map co_id objs" and "vr_tenant_id r = tn" and "vr_action_type r = act"
proof -
  show ne: "objs \<noteq> []" using assms by (auto simp: chain_validate_def)
  define steps where "steps = map (run_rule objs (vc_graph ch) (case ctx of Some c \<Rightarrow> c | None \<Rightarrow> []))
    (vc_rules ch)"
  have r: "r = vr_compute_hash hash
      \<lparr>vr_id = f, vr_tenant_id = tn, vr_target_object_ids = map co_id objs, vr_action_type = act,
       vr_outcome = (if verdicts V_FAIL steps > 0 then CO_FAILED
           else if verdicts V_WARN steps > 0 then CO_PASSED_WITH_WARNINGS else CO_PASSED),
       vr_steps = steps, vr_passed_count = verdicts V_PASS steps,
       vr_failed_count = verdicts V_FAIL steps, vr_warning_count = verdicts V_WARN steps,
       vr_skipped_count = verdicts V_SKIP steps, vr_decision_hash = [], vr_validated_at = Some n\<rparr>"
    using assms ne
    by (simp only: chain_validate_def chain_loop_spec tally_counts steps_def [symmetric]
        prod.case Let_def tally.simps append_Nil add_0 if_False sum.inject)
  show "vr_steps r = map (run_rule objs (vc_graph ch) (case ctx of Some c \<Rightarrow> c | None \<Rightarrow> [])) (vc_rules ch)"
    by (simp add: r steps_def)
  show "vr_passed_count r = verdicts V_PASS (vr_steps r)"
    and "vr_failed_count r = verdicts V_FAIL (vr_steps r)"
    and "vr_warning_count r = verdicts V_WARN (vr_steps r)"
    and "vr_skipped_count r = verdicts V_SKIP (vr_steps r)"
    and "vr_outcome r = (if verdicts V_FAIL (vr_steps r) > 0 then CO_FAILED
           else if verdicts V_WARN (vr_steps r) > 0 then CO_PASSED_WITH_WARNINGS
           else CO_PASSED)"
    and "vr_target_object_ids r = map co_id objs" and "vr_tenant_id r = tn" and "vr_action_type r = act"
    unfolding r by simp_all
qed

lemma chain_validate_total:
  "objs \<noteq> [] \<Longrightarrow> \<exists>r. chain_validate hash f n tn objs act ctx ch = Inr r"
  by (simp add: chain_validate_def chain_loop_spec)

lemma chain_validate_Inl: "chain_validate hash f n tn objs act ctx ch = Inl e \<Longrightarrow> objs = []"
  using chain_validate_total [of objs hash f n tn act ctx ch] by (cases objs) auto

section \<open>Properties\<close>

text \<open>What the default chain asks of one object, and of the \<open>required_states\<close> of the context.\<close>

definition require_reconciled :: "rule_context \<Rightarrow> bool" where
  "require_reconciled ctx = json_truthy (dget_default ctx ''require_reconciled'' (JBool False))"

definition required_states_of :: "rule_context \<Rightarrow> json" where
  "required_states_of ctx = dget_default ctx ''required_states''
     (JList [JStr (state_value CS_FROZEN), JStr (state_value CS_RECONCILED)])"

definition object_admissible :: "'c graph_service \<Rightarrow> rule_context \<Rightarrow> control_object \<Rightarrow> bool" where
  "object_admissible g ctx ob \<longleftrightarrow>
     \<not> blank (co_label ob) \<and> \<not> blank (co_domain ob) \<and> co_evidence ob \<noteq> [] \<and>
     pv_created_by (co_provenance ob) \<noteq> [] \<and> co_state ob \<noteq> CS_DISPUTED \<and>
     (require_reconciled ctx \<longrightarrow> co_state ob \<in> {CS_RECONCILED, CS_ACTIONED}) \<and>
     \<not> pf_less (co_confidence ob) (Fin (1 / 2)) \<and>
     get_links_for_object (gs_repo g) (co_id ob) ''both'' (Some LT_CONTRADICTS) = []"

lemma fail_iff: "(if P then V_FAIL else V_PASS) = V_FAIL \<longleftrightarrow> P"
  by simp

lemma warn_not_fail: "(if P then V_WARN else V_PASS) \<noteq> V_FAIL"
  by simp

lemma object_inadmissible:
  "(\<exists>ob \<in> X. \<not> object_admissible g ctx ob) \<longleftrightarrow>
     (\<exists>ob \<in> X. blank (co_label ob) \<or> blank (co_domain ob)) \<or>
     (\<exists>ob \<in> X. int (length (co_evidence ob)) < 1) \<or>
     (\<exists>ob \<in> X. pv_created_by (co_provenance ob) = []) \<or>
     (\<exists>ob \<in> X. (require_reconciled ctx \<and> co_state ob \<notin> {CS_RECONCILED, CS_ACTIONED}) \<or>
        co_state ob = CS_DISPUTED) \<or>
     (\<exists>ob \<in> X. pf_less (co_confidence ob) (Fin (1 / 2))) \<or>
     (\<exists>ob \<in> X. get_links_for_object (gs_repo g) (co_id ob) ''both'' (Some LT_CONTRADICTS) \<noteq> [])"
proof -
  have "\<not> object_admissible g ctx ob \<longleftrightarrow>
     (blank (co_label ob) \<or> blank (co_domain ob)) \<or> int (length (co_evidence ob)) < 1 \<or>
     pv_created_by (co_provenance ob) = [] \<or>
     ((require_reconciled ctx \<and> co_state ob \<notin> {CS_RECONCILED, CS_ACTIONED}) \<or>
        co_state ob = CS_DISPUTED) \<or>
     pf_less (co_confidence ob) (Fin (1 / 2)) \<or>
     get_links_for_object (gs_repo g) (co_id ob) ''both'' (Some LT_CONTRADICTS) \<noteq> []" for ob
  proof -
    have "int (length (co_evidence ob)) < 1 \<longleftrightarrow> co_evidence ob = []" by (cases "co_evidence ob") auto
    then show ?thesis unfolding object_admissible_def not_le [symmetric] by argo
  qed
  then show ?thesis by (simp only: bex_disj_distrib)
qed

lemma default_chain_fail:
  assumes "objs \<noteq> []"
  shows "V_FAIL \<in> vs_verdict ` set (map (run_rule objs g ctx) default_validation_rules) \<longleftrightarrow>
    \<not> (list_all (object_admissible g ctx) objs \<and> well_formed_states (required_states_of ctx))"
proof -
  have "V_FAIL \<in> vs_verdict ` set (map (run_rule objs g ctx) default_validation_rules) \<longleftrightarrow>
    (\<exists>ob \<in> set objs. \<not> object_admissible g ctx ob) \<or> \<not> well_formed_states (required_states_of ctx)"
    unfolding object_inadmissible require_reconciled_def required_states_of_def
    by (simp only: default_validation_rules_def list.map list.set image_insert image_empty insert_iff
        empty_iff eq_commute [of V_FAIL] plain_rule_verdicts fail_iff warn_not_fail
        action_preconditions_verdict [OF assms] dimension_verdict.distinct) argo
  then show ?thesis by (simp only: list_all_iff) blast
qed

text \<open>A validation either refuses an empty object list or runs every rule once, in order: the
  four counts are the verdicts of those runs and add up to the number of rules, the outcome is
  FAILED exactly when some rule fails, and PASSED exactly when every rule passes or skips.\<close>

theorem chain_decision:
  "case chain_validate hash f n tn objs act ctx ch of
     Inl e \<Rightarrow> objs = []
   | Inr r \<Rightarrow>
       objs \<noteq> [] \<and>
       vr_steps r = map (run_rule objs (vc_graph ch) (case ctx of Some c \<Rightarrow> c | None \<Rightarrow> [])) (vc_rules ch) \<and>
       vr_passed_count r + vr_failed_count r + vr_warning_count r + vr_skipped_count r
         = length (vc_rules ch) \<and>
       vr_failed_count r = verdicts V_FAIL (vr_steps r) \<and>
       (vr_outcome r = CO_FAILED \<longleftrightarrow> V_FAIL \<in> vs_verdict ` set (vr_steps r)) \<and>
       (vr_outcome r = CO_PASSED \<longleftrightarrow> vs_verdict ` set (vr_steps r) \<subseteq> {V_PASS, V_SKIP})"
proof (cases "chain_validate hash f n tn objs act ctx ch")
  case (Inl e)
  then show ?thesis by (simp only: chain_validate_Inl sum.case)
next
  case (Inr r)
  note facts = chain_validate_Inr [OF Inr]
  have out: "vr_outcome r = CO_PASSED \<longleftrightarrow>
      (\<forall>s \<in> set (vr_steps r). vs_verdict s \<noteq> V_FAIL \<and> vs_verdict s \<noteq> V_WARN)"
    unfolding facts(7) verdicts_pos by auto
  have sub: "v \<noteq> V_FAIL \<and> v \<noteq> V_WARN \<longleftrightarrow> v \<in> {V_PASS, V_SKIP}" for v
    by (cases v) auto
  have fail: "vr_outcome r = CO_FAILED \<longleftrightarrow> V_FAIL \<in> vs_verdict ` set (vr_steps r)"
    unfolding facts(7) verdicts_image by simp
  have pass: "vr_outcome r = CO_PASSED \<longleftrightarrow> vs_verdict ` set (vr_steps r) \<subseteq> {V_PASS, V_SKIP}"
    unfolding out sub by blast
  have len: "length (vc_rules ch) = length (vr_steps r)"
    unfolding facts(2) by simp
  have total: "vr_passed_count r + vr_failed_count r + vr_warning_count r + vr_skipped_count r
      = length (vc_rules ch)"
    unfolding facts(3-6) len by (rule verdicts_total)
  show ?thesis
    unfolding Inr sum.case
    by (intro conjI facts(1) facts(2) total facts(4) fail pass)
qed

lemma default_chain_result:
  assumes "chain_validate hash f n tn objs act (Some ctx) (new_validation_chain g None) = Inr r"
  shows "vr_is_actionable r \<longleftrightarrow>
    list_all (object_admissible g ctx) objs \<and> well_formed_states (required_states_of ctx)"
proof -
  note facts = chain_validate_Inr [OF assms]
  have steps: "vr_steps r = map (run_rule objs g ctx) default_validation_rules"
    using facts(2) by (simp add: new_validation_chain_def)
  have "vr_is_actionable r \<longleftrightarrow> V_FAIL \<notin> vs_verdict ` set (vr_steps r)"
    unfolding vr_is_actionable_def facts(7) verdicts_image by simp
  then show ?thesis
    unfolding steps default_chain_fail [OF facts(1)] by (simp only: not_not)
qed

text \<open>With the default rules the outcome is actionable exactly when every object has a label, a
  domain, evidence, a creator, a confidence not below one half (or NaN), no contradicting link and no
  dispute (and is reconciled or actioned, if the context asks for that), and the
  \<open>required_states\<close> of the context can be searched.\<close>

theorem default_chain_actionable:
  "case chain_validate hash f n tn objs act (Some ctx) (new_validation_chain g None) of
     Inl e \<Rightarrow> objs = []
   | Inr r \<Rightarrow>
       vr_is_actionable r \<longleftrightarrow>
         list_all (object_admissible g ctx) objs \<and> well_formed_states (required_states_of ctx)"
proof (cases "chain_validate hash f n tn objs act (Some ctx) (new_validation_chain g None)")
  case (Inl e)
  then show ?thesis by (simp only: chain_validate_Inl sum.case)
next
  case (Inr r)
  show ?thesis unfolding Inr sum.case by (rule default_chain_result [OF Inr])
qed

end
