(* ===== verification/W3_Rules.thy ===== *)
theory W3_Rules
  imports Graph_Service_Props Validation_Chain
begin

text \<open>
  The rule model of the second validation chain, \<^verbatim>\<open>app/core/validation/domain_types.py\<close> and
  \<^verbatim>\<open>rule_model.py\<close>: failures and warnings, the ten rules, their applicability, and the ordered
  registry. The random identifiers of failures and warnings, which nothing reads, are left out. A
  rule's \<open>validate\<close> returns its result or the text of the exception it raises, which nothing
  catches here.
\<close>

section \<open>Domain types\<close>

datatype w3_status = W3_PENDING | W3_RUNNING | W3_PASSED | W3_PASSED_WITH_WARNINGS | W3_FAILED | W3_BLOCKED

fun w3_status_value :: "w3_status \<Rightarrow> string" where
  "w3_status_value W3_PENDING = ''pending''"
| "w3_status_value W3_RUNNING = ''running''"
| "w3_status_value W3_PASSED = ''passed''"
| "w3_status_value W3_PASSED_WITH_WARNINGS = ''passed-with-warnings''"
| "w3_status_value W3_FAILED = ''failed''"
| "w3_status_value W3_BLOCKED = ''blocked''"

datatype validation_decision = VD_ELIGIBLE | VD_PROPOSAL_ONLY | VD_APPROVAL_REQUIRED | VD_REJECTED

fun decision_value :: "validation_decision \<Rightarrow> string" where
  "decision_value VD_ELIGIBLE = ''eligible''"
| "decision_value VD_PROPOSAL_ONLY = ''proposal-only''"
| "decision_value VD_APPROVAL_REQUIRED = ''approval-required''"
| "decision_value VD_REJECTED = ''rejected''"

datatype validation_failure_code =
    FC_SCHEMA_INVALID | FC_GRAPH_INCOMPLETE | FC_EVIDENCE_INSUFFICIENT | FC_PROVENANCE_INVALID
  | FC_RECONCILIATION_INCOMPLETE | FC_POLICY_NONCOMPLIANT | FC_NON_DETERMINISTIC
  | FC_CONFIDENCE_BELOW_THRESHOLD | FC_CONTRADICTORY_EVIDENCE | FC_ACTION_PRECONDITION_FAILED
  | FC_UNSUPPORTED_TARGET | FC_MISSING_ORIGIN | FC_MISSING_VALIDATION_INPUT

fun failure_code_value :: "validation_failure_code \<Rightarrow> string" where
  "failure_code_value FC_SCHEMA_INVALID = ''schema-invalid''"
| "failure_code_value FC_GRAPH_INCOMPLETE = ''graph-incomplete''"
| "failure_code_value FC_EVIDENCE_INSUFFICIENT = ''evidence-insufficient''"
| "failure_code_value FC_PROVENANCE_INVALID = ''provenance-invalid''"
| "failure_code_value FC_RECONCILIATION_INCOMPLETE = ''reconciliation-incomplete''"
| "failure_code_value FC_POLICY_NONCOMPLIANT = ''policy-noncompliant''"
| "failure_code_value FC_NON_DETERMINISTIC = ''non-deterministic''"
| "failure_code_value FC_CONFIDENCE_BELOW_THRESHOLD = ''confidence-below-threshold''"
| "failure_code_value FC_CONTRADICTORY_EVIDENCE = ''contradictory-evidence''"
| "failure_code_value FC_ACTION_PRECONDITION_FAILED = ''action-precondition-failed''"
| "failure_code_value FC_UNSUPPORTED_TARGET = ''unsupported-target''"
| "failure_code_value FC_MISSING_ORIGIN = ''missing-origin''"
| "failure_code_value FC_MISSING_VALIDATION_INPUT = ''missing-validation-input''"

datatype validation_severity = SEV_ERROR | SEV_WARNING | SEV_INFO

record validation_failure =
  vf_code :: validation_failure_code
  vf_severity :: validation_severity
  vf_rule_id :: "string option"
  vf_object_id :: "uuid option"
  vf_description :: fstr
  vf_expected :: json
  vf_actual :: json
  vf_evidence_refs :: "evidence_ref list"
  vf_metadata :: "(string, json) dict"

definition failure_of ::
  "validation_failure_code \<Rightarrow> string \<Rightarrow> uuid \<Rightarrow> fstr \<Rightarrow> validation_failure" where
  "failure_of code rid oid msg =
     \<lparr>vf_code = code, vf_severity = SEV_ERROR, vf_rule_id = Some rid, vf_object_id = Some oid,
      vf_description = msg, vf_expected = JNull, vf_actual = JNull, vf_evidence_refs = [],
      vf_metadata = []\<rparr>"

record validation_warning =
  vw_rule_id :: "string option"
  vw_object_id :: "uuid option"
  vw_description :: fstr
  vw_metadata :: "(string, json) dict"

definition warning_of :: "string \<Rightarrow> uuid \<Rightarrow> fstr \<Rightarrow> validation_warning" where
  "warning_of rid oid msg =
     \<lparr>vw_rule_id = Some rid, vw_object_id = Some oid, vw_description = msg, vw_metadata = []\<rparr>"

record validation_result =
  vt_rule_id :: string
  vt_step_id :: uuid
  vt_status :: w3_status
  vt_passed :: bool
  vt_failures :: "validation_failure list"
  vt_warnings :: "validation_warning list"
  vt_evidence_refs :: "evidence_ref list"
  vt_explanation :: string
  vt_metadata :: "(string, json) dict"

text \<open>The result every rule builds from its failures and warnings; the executor sets \<open>step_id\<close>.\<close>

definition rule_result ::
  "string \<Rightarrow> validation_failure list \<Rightarrow> validation_warning list \<Rightarrow> string \<Rightarrow> validation_result" where
  "rule_result rid failures warnings explanation =
     \<lparr>vt_rule_id = rid, vt_step_id = [],
      vt_status = (if failures \<noteq> [] then W3_FAILED
                   else if warnings \<noteq> [] then W3_PASSED_WITH_WARNINGS else W3_PASSED),
      vt_passed = (failures = []), vt_failures = failures, vt_warnings = warnings,
      vt_evidence_refs = [], vt_explanation = explanation, vt_metadata = []\<rparr>"

section \<open>The rule model\<close>

datatype rule_category =
    RC_SCHEMA_VALIDITY | RC_GRAPH_COMPLETENESS | RC_EVIDENCE_SUFFICIENCY | RC_PROVENANCE_INTEGRITY
  | RC_RECONCILIATION_STATE | RC_POLICY_COMPLIANCE | RC_DETERMINISTIC_REPRODUCIBILITY
  | RC_CONTRADICTION_CHECK | RC_CONFIDENCE_THRESHOLD | RC_ACTION_PRECONDITION

fun category_value :: "rule_category \<Rightarrow> string" where
  "category_value RC_SCHEMA_VALIDITY = ''schema-validity''"
| "category_value RC_GRAPH_COMPLETENESS = ''graph-completeness''"
| "category_value RC_EVIDENCE_SUFFICIENCY = ''evidence-sufficiency''"
| "category_value RC_PROVENANCE_INTEGRITY = ''provenance-integrity''"
| "category_value RC_RECONCILIATION_STATE = ''reconciliation-state''"
| "category_value RC_POLICY_COMPLIANCE = ''policy-compliance''"
| "category_value RC_DETERMINISTIC_REPRODUCIBILITY = ''deterministic-reproducibility''"
| "category_value RC_CONTRADICTION_CHECK = ''contradiction-check''"
| "category_value RC_CONFIDENCE_THRESHOLD = ''confidence-threshold''"
| "category_value RC_ACTION_PRECONDITION = ''action-precondition''"

record rule_applicability =
  ra_planes :: "plane_type list"
  ra_object_types :: "control_object_type list"
  ra_object_kinds :: "string list"
  ra_action_types :: "string list"

definition any_applicability :: rule_applicability where
  "any_applicability =
     \<lparr>ra_planes = [], ra_object_types = [], ra_object_kinds = [], ra_action_types = []\<rparr>"

definition is_applicable :: "rule_applicability \<Rightarrow> control_object list \<Rightarrow> string \<Rightarrow> bool" where
  "is_applicable a objects action_type =
     (if ra_action_types a \<noteq> [] \<and> action_type \<notin> set (ra_action_types a) then False
      else if ra_planes a \<noteq> [] \<and> \<not> list_ex (\<lambda>ob. co_plane ob \<in> set (ra_planes a)) objects then False
      else if ra_object_types a \<noteq> [] \<and>
              \<not> list_ex (\<lambda>ob. co_object_type ob \<in> set (ra_object_types a)) objects then False
      else True)"

record rule_weight =
  rw_rule_id :: string
  rw_is_hard_fail :: bool
  rw_is_blocking :: bool

type_synonym 'c rule_body =
  "control_object list \<Rightarrow> 'c graph_service \<Rightarrow> rule_context \<Rightarrow> string + validation_result"

record 'c w3_rule =
  wr_rule_id :: string
  wr_rule_version :: int
  wr_category :: rule_category
  wr_weight :: rule_weight
  wr_applicability :: rule_applicability
  wr_validate :: "'c rule_body"

definition w3_rule_of ::
  "string \<Rightarrow> rule_category \<Rightarrow> bool \<Rightarrow> bool \<Rightarrow> 'c rule_body \<Rightarrow> 'c w3_rule" where
  "w3_rule_of rid cat hard blocking body =
     \<lparr>wr_rule_id = rid, wr_rule_version = 1, wr_category = cat,
      wr_weight = \<lparr>rw_rule_id = rid, rw_is_hard_fail = hard, rw_is_blocking = blocking\<rparr>,
      wr_applicability = any_applicability, wr_validate = body\<rparr>"

section \<open>The ten rules\<close>

definition w3_schema_validity_rule :: "'c w3_rule" where
  "w3_schema_validity_rule =
     (let rid = ''w3-schema-validity'' in
      w3_rule_of rid RC_SCHEMA_VALIDITY True True (\<lambda>objects g ctx.
        let failures = concat (map (\<lambda>obj.
              (if blank (co_label obj)
               then [failure_of FC_SCHEMA_INVALID rid (co_id obj)
                       [Lit ''Object '', Lit (co_id obj), Lit '' has empty label'']] else [])
              @ (if blank (co_domain obj)
                 then [failure_of FC_SCHEMA_INVALID rid (co_id obj)
                         [Lit ''Object '', Lit (co_id obj), Lit '' has empty domain'']] else []))
              objects)
        in Inr (rule_result rid failures []
             (''Schema validation'' @ (if failures \<noteq> [] then '' failed'' else '' passed'')))))"

definition w3_graph_completeness_rule :: "'c w3_rule" where
  "w3_graph_completeness_rule =
     (let rid = ''w3-graph-completeness'' in
      w3_rule_of rid RC_GRAPH_COMPLETENESS False False (\<lambda>objects g ctx.
        let unlinked = filter (\<lambda>obj. get_links_for_object (gs_repo g) (co_id obj) ''both'' None = []) objects;
            strict = json_truthy (dget_default ctx ''require_graph_links'' (JBool False));
            msg = (\<lambda>obj. [Lit ''Object '', sq (co_label obj), Lit '' has no graph links''])
        in Inr (rule_result rid
             (if strict then map (\<lambda>obj. failure_of FC_GRAPH_INCOMPLETE rid (co_id obj) (msg obj)) unlinked
              else [])
             (if strict then [] else map (\<lambda>obj. warning_of rid (co_id obj) (msg obj)) unlinked)
             ''Graph completeness check'')))"

text \<open>The evidence types of \<open>required\<close> that an object lacks; a list or dict in it raises.\<close>

definition missing_types :: "evidence_ref list \<Rightarrow> json \<Rightarrow> string + json list" where
  "missing_types evidence required =
     (case json_items required of
        Inl e \<Rightarrow> Inl e
      | Inr ts \<Rightarrow> collect_rounds (\<lambda>t.
          if \<not> json_hashable t
          then Inl (''unhashable type: '' @ [CHR 0x27] @ json_type t @ [CHR 0x27])
          else Inr (if t \<in> set (map (\<lambda>e. JStr (er_evidence_type e)) evidence) then [] else [t])) ts)"

definition evidence_failures ::
  "string \<Rightarrow> json \<Rightarrow> json \<Rightarrow> control_object \<Rightarrow> string + validation_failure list" where
  "evidence_failures rid min_evidence required_types obj =
     (case json_less ''int'' (of_nat (length (co_evidence obj))) min_evidence of
        Inl e \<Rightarrow> Inl e
      | Inr few \<Rightarrow>
          let fs = (if few
                then [(failure_of FC_EVIDENCE_INSUFFICIENT rid (co_id obj)
                         [Lit ''Object '', sq (co_label obj), Lit '' has '',
                          NumI (int (length (co_evidence obj))), Lit '' evidence, requires '',
                          Repr min_evidence])
                        \<lparr>vf_expected := min_evidence,
                         vf_actual := JInt (int (length (co_evidence obj)))\<rparr>]
                else [])
          in if json_truthy required_types
             then (case missing_types (co_evidence obj) required_types of
                     Inl e \<Rightarrow> Inl e
                   | Inr missing \<Rightarrow>
                       Inr (fs @ (if missing \<noteq> []
                                  then [(failure_of FC_EVIDENCE_INSUFFICIENT rid (co_id obj)
                                           [Lit ''Object '', sq (co_label obj),
                                            Lit '' missing evidence types: '', Repr (JList missing)])
                                          \<lparr>vf_metadata := [(''missing_types'', JList missing)]\<rparr>]
                                  else [])))
             else Inr fs)"

definition w3_evidence_sufficiency_rule :: "'c w3_rule" where
  "w3_evidence_sufficiency_rule =
     (let rid = ''w3-evidence-sufficiency'' in
      w3_rule_of rid RC_EVIDENCE_SUFFICIENCY True True (\<lambda>objects g ctx.
        let min_evidence = dget_default ctx ''min_evidence'' (JInt 1);
            required_types = dget_default ctx ''required_evidence_types'' (JList [])
        in case collect_rounds (evidence_failures rid min_evidence required_types) objects of
             Inl e \<Rightarrow> Inl e
           | Inr failures \<Rightarrow> Inr (rule_result rid failures [] ''Evidence sufficiency check'')))"

definition w3_provenance_integrity_rule :: "'c w3_rule" where
  "w3_provenance_integrity_rule =
     (let rid = ''w3-provenance-integrity'' in
      w3_rule_of rid RC_PROVENANCE_INTEGRITY True True (\<lambda>objects g ctx.
        Inr (rule_result rid
          (map (\<lambda>obj. failure_of FC_PROVENANCE_INVALID rid (co_id obj)
                [Lit ''Object '', sq (co_label obj), Lit '' has no provenance creator''])
            (filter (\<lambda>obj. pv_created_by (co_provenance obj) = []) objects))
          [] ''Provenance integrity check'')))"

definition w3_reconciliation_state_rule :: "'c w3_rule" where
  "w3_reconciliation_state_rule =
     (let rid = ''w3-reconciliation-state'' in
      w3_rule_of rid RC_RECONCILIATION_STATE True True (\<lambda>objects g ctx.
        let require_reconciled = json_truthy (dget_default ctx ''require_reconciled'' (JBool False))
        in Inr (rule_result rid
          (concat (map (\<lambda>obj.
             if co_state obj = CS_DISPUTED
             then [failure_of FC_RECONCILIATION_INCOMPLETE rid (co_id obj)
                     [Lit ''Object '', sq (co_label obj), Lit '' is disputed'']]
             else if require_reconciled \<and> co_state obj \<notin> {CS_RECONCILED, CS_ACTIONED}
             then [failure_of FC_RECONCILIATION_INCOMPLETE rid (co_id obj)
                     [Lit ''Object '', sq (co_label obj), Lit '' is '',
                      Lit (state_value (co_state obj)), Lit '', expected reconciled or actioned'']]
             else []) objects))
          [] ''Reconciliation state check'')))"

type_synonym policy_check = "string \<times> (control_object \<Rightarrow> rule_context \<Rightarrow> bool)"

definition w3_policy_compliance_rule :: "policy_check list \<Rightarrow> 'c w3_rule" where
  "w3_policy_compliance_rule policy_checks =
     (let rid = ''w3-policy-compliance'' in
      w3_rule_of rid RC_POLICY_COMPLIANCE True True (\<lambda>objects g ctx.
        Inr (rule_result rid
          (concat (map (\<lambda>(check_name, check_fn).
             map (\<lambda>obj. failure_of FC_POLICY_NONCOMPLIANT rid (co_id obj)
                   [Lit ''Policy '', sq check_name, Lit '' failed for '', sq (co_label obj)])
               (filter (\<lambda>obj. \<not> check_fn obj ctx) objects)) policy_checks))
          [] ''Policy compliance check'')))"

definition w3_deterministic_reproducibility_rule :: "'c w3_rule" where
  "w3_deterministic_reproducibility_rule =
     (let rid = ''w3-deterministic-reproducibility'' in
      w3_rule_of rid RC_DETERMINISTIC_REPRODUCIBILITY False False (\<lambda>objects g ctx.
        Inr (rule_result rid []
          (map (\<lambda>obj. warning_of rid (co_id obj)
                [Lit ''Object '', sq (co_label obj), Lit '' is model-assisted but has no model_id''])
            (filter (\<lambda>obj.
               determinism_str (pv_creation_method (co_provenance obj)) = ''model_assisted'' \<and>
               \<not> py_truthy (pv_model_id (co_provenance obj))) objects))
          ''Deterministic reproducibility check'')))"

definition w3_contradiction_check_rule :: "'c w3_rule" where
  "w3_contradiction_check_rule =
     (let rid = ''w3-contradiction-check'' in
      w3_rule_of rid RC_CONTRADICTION_CHECK True True (\<lambda>objects g ctx.
        Inr (rule_result rid
          (concat (map (\<lambda>obj.
             let links = get_links_for_object (gs_repo g) (co_id obj) ''both'' (Some LT_CONTRADICTS)
             in if links \<noteq> []
                then [(failure_of FC_CONTRADICTORY_EVIDENCE rid (co_id obj)
                         [Lit ''Object '', sq (co_label obj), Lit '' has '',
                          NumI (int (length links)), Lit '' contradictory links''])
                        \<lparr>vf_metadata := [(''contradiction_count'', JInt (int (length links)))]\<rparr>]
                else []) objects))
          [] ''Contradiction check'')))"

definition w3_confidence_threshold_rule :: "'c w3_rule" where
  "w3_confidence_threshold_rule =
     (let rid = ''w3-confidence-threshold'' in
      w3_rule_of rid RC_CONFIDENCE_THRESHOLD True True (\<lambda>objects g ctx.
        let min_confidence = dget_default ctx ''min_confidence'' (JNum (1 / 2))
        in case collect_rounds (\<lambda>obj.
               case json_less_float (co_confidence obj) min_confidence of
                 Inl e \<Rightarrow> Inl e
               | Inr low \<Rightarrow> Inr (if low
                   then [(failure_of FC_CONFIDENCE_BELOW_THRESHOLD rid (co_id obj)
                            [Lit ''Object '', sq (co_label obj), Lit '' confidence '',
                             Lit (pf_str (co_confidence obj)), Lit '' below threshold '', Repr min_confidence])
                           \<lparr>vf_expected := min_confidence, vf_actual := float_json (co_confidence obj)\<rparr>]
                   else [])) objects of
             Inl e \<Rightarrow> Inl e
           | Inr failures \<Rightarrow> Inr (rule_result rid failures [] ''Confidence threshold check'')))"

definition w3_action_precondition_rule :: "'c w3_rule" where
  "w3_action_precondition_rule =
     (let rid = ''w3-action-precondition'' in
      w3_rule_of rid RC_ACTION_PRECONDITION False False (\<lambda>objects g ctx.
        let required_states = required_states_of ctx;
            strict = json_truthy (dget_default ctx ''strict_preconditions'' (JBool False))
        in case collect_rounds (\<lambda>obj.
               case json_in (state_value (co_state obj)) required_states of
                 Inl e \<Rightarrow> Inl e
               | Inr b \<Rightarrow> Inr (if b then []
                   else [(co_id obj, [Lit ''Object '', sq (co_label obj), Lit '' is '',
                            Lit (state_value (co_state obj)), Lit '', expected one of '',
                            Repr required_states])])) objects of
             Inl e \<Rightarrow> Inl e
           | Inr bad \<Rightarrow>
               Inr (rule_result rid
                 (if strict then map (\<lambda>(oid, msg). failure_of FC_ACTION_PRECONDITION_FAILED rid oid msg) bad
                  else [])
                 (if strict then [] else map (\<lambda>(oid, msg). warning_of rid oid msg) bad)
                 ''Action precondition check'')))"

definition default_w3_rules :: "'c w3_rule list" where
  "default_w3_rules =
     [w3_schema_validity_rule, w3_graph_completeness_rule, w3_evidence_sufficiency_rule,
      w3_provenance_integrity_rule, w3_reconciliation_state_rule, w3_policy_compliance_rule [],
      w3_deterministic_reproducibility_rule, w3_contradiction_check_rule,
      w3_confidence_threshold_rule, w3_action_precondition_rule]"

section \<open>The rule registry\<close>

record 'c rule_registry =
  rg_rules :: "(string, 'c w3_rule) dict"
  rg_order :: "string list"

definition new_rule_registry :: "'c rule_registry" where
  "new_rule_registry = \<lparr>rg_rules = [], rg_order = []\<rparr>"

text \<open>\<open>list.insert\<close>: a negative index counts from the end, one out of range is clamped.\<close>

definition py_insert :: "int \<Rightarrow> 'a \<Rightarrow> 'a list \<Rightarrow> 'a list" where
  "py_insert i x xs =
     (let n = int (length xs);
          k = nat (if i < 0 then max 0 (n + i) else min i n)
      in take k xs @ [x] @ drop k xs)"

definition register_rule :: "'c w3_rule \<Rightarrow> int option \<Rightarrow> 'c rule_registry \<Rightarrow> 'c rule_registry" where
  "register_rule rule order r =
     (let r = r\<lparr>rg_rules := dput (wr_rule_id rule) rule (rg_rules r)\<rparr>
      in if wr_rule_id rule \<notin> set (rg_order r)
         then r\<lparr>rg_order := (case order of
                  Some i \<Rightarrow> py_insert i (wr_rule_id rule) (rg_order r)
                | None \<Rightarrow> rg_order r @ [wr_rule_id rule])\<rparr>
         else r)"

definition get_rule :: "'c rule_registry \<Rightarrow> string \<Rightarrow> 'c w3_rule option" where
  "get_rule r rule_id = dget (rg_rules r) rule_id"

definition get_ordered_rules :: "'c rule_registry \<Rightarrow> 'c w3_rule list" where
  "get_ordered_rules r = List.map_filter (dget (rg_rules r)) (rg_order r)"

definition get_applicable_rules ::
  "'c rule_registry \<Rightarrow> control_object list \<Rightarrow> string \<Rightarrow> 'c w3_rule list" where
  "get_applicable_rules r objects action_type =
     List.map_filter (\<lambda>rid. case dget (rg_rules r) rid of
         None \<Rightarrow> None
       | Some rule \<Rightarrow> if is_applicable (wr_applicability rule) objects action_type
                     then Some rule else None) (rg_order r)"

definition default_rule_registry :: "'c rule_registry" where
  "default_rule_registry =
     foldl (\<lambda>r rule. register_rule rule None r) new_rule_registry default_w3_rules"

end
