(* ===== verification/W3_Executor.thy ===== *)
theory W3_Executor
  imports W3_Rules
begin

text \<open>
  The second validation chain's executor, \<^verbatim>\<open>app/core/validation/executor.py\<close>, with its
  repositories (\<^verbatim>\<open>repository.py\<close>) and audit events (\<^verbatim>\<open>audit_hooks.py\<close>): resolve the targets, check
  the precondition, run the applicable rules in order, derive status, decision and eligibility,
  store the run and its report. \<open>hash\<close> stands for SHA-256 over canonical JSON and \<open>render\<close> for the
  formatting of an f-string; identifiers that the code draws are arguments.
\<close>

section \<open>Requests, reports and runs\<close>

record validation_scope =
  vsc_tenant_id :: uuid
  vsc_planes :: "plane_type list"
  vsc_domains :: "string list"
  vsc_action_type :: string

record validation_target =
  vg_object_ids :: "uuid list"
  vg_reconciliation_run_id :: "uuid option"
  vg_reconciliation_case_ids :: "uuid list"
  vg_action_proposal_id :: "uuid option"
  vg_graph_slice_root_ids :: "uuid list"

record validation_context =
  vx_scope :: validation_scope
  vx_target :: validation_target
  vx_require_reconciled :: bool
  vx_min_confidence :: rat
  vx_required_evidence_types :: "string list"
  vx_required_states :: "string list"
  vx_policy_overrides :: "(string, json) dict"
  vx_metadata :: "(string, json) dict"

record validation_precondition =
  vp_name :: string
  vp_met :: bool
  vp_description :: string
  vp_blocking :: bool

record validation_eligibility =
  ve_decision :: validation_decision
  ve_eligible_for_release :: bool
  ve_requires_approval :: bool
  ve_proposal_only :: bool
  ve_blocking_failures :: "validation_failure list"
  ve_explanation :: string

record validation_step =
  st_id :: uuid
  st_order :: nat
  st_rule_id :: string
  st_result :: "validation_result option"
  st_executed :: bool

record decision_trace =
  dt_run_id :: uuid
  dt_chain_id :: uuid
  dt_steps_executed :: nat
  dt_failures_total :: nat
  dt_warnings_total :: nat
  dt_decision :: validation_decision
  dt_rule_traces :: "json list"
  dt_timestamp :: time

record validation_report =
  rp_id :: uuid
  rp_run_id :: uuid
  rp_chain_id :: uuid
  rp_tenant_id :: uuid
  rp_status :: w3_status
  rp_decision :: validation_decision
  rp_eligibility :: validation_eligibility
  rp_steps :: "validation_step list"
  rp_failures :: "validation_failure list"
  rp_warnings :: "validation_warning list"
  rp_preconditions :: "validation_precondition list"
  rp_target :: validation_target
  rp_scope :: "validation_scope option"
  rp_decision_trace :: "decision_trace option"
  rp_report_hash :: string
  rp_created_at :: time

definition rp_compute_hash ::
  "(json \<Rightarrow> string) \<Rightarrow> (fstr \<Rightarrow> string) \<Rightarrow> validation_report \<Rightarrow> validation_report" where
  "rp_compute_hash hash render r =
     (let data = JObj
        [(''run_id'', JStr (rp_run_id r)), (''chain_id'', JStr (rp_chain_id r)),
         (''status'', JStr (w3_status_value (rp_status r))),
         (''decision'', JStr (decision_value (rp_decision r))),
         (''failures'', JList (map (\<lambda>f. JObj
            [(''code'', JStr (failure_code_value (vf_code f))),
             (''description'', JStr (render (vf_description f)))]) (rp_failures r))),
         (''steps'', JList (map (\<lambda>s. JObj
            [(''rule_id'', JStr (st_rule_id s)),
             (''passed'', JBool (case st_result s of Some v \<Rightarrow> vt_passed v | None \<Rightarrow> False))])
            (rp_steps r)))]
      in r\<lparr>rp_report_hash := hash data\<rparr>)"

definition rp_is_actionable :: "validation_report \<Rightarrow> bool" where
  "rp_is_actionable r = (rp_decision r \<in> {VD_ELIGIBLE, VD_APPROVAL_REQUIRED, VD_PROPOSAL_ONLY})"

definition rp_passed :: "validation_report \<Rightarrow> bool" where
  "rp_passed r = (rp_status r \<in> {W3_PASSED, W3_PASSED_WITH_WARNINGS})"

record validation_run =
  rn_id :: uuid
  rn_chain_id :: uuid
  rn_tenant_id :: uuid
  rn_context :: validation_context
  rn_report :: "validation_report option"
  rn_status :: w3_status
  rn_started_at :: time
  rn_completed_at :: "time option"

record execution_request =
  rq_tenant_id :: uuid
  rq_context :: validation_context
  rq_chain_id :: "uuid option"

record decision_policy =
  dp_allow_warnings :: bool
  dp_max_warnings :: int
  dp_require_all_steps :: bool
  dp_auto_eligible_on_pass :: bool
  dp_proposal_only_on_warnings :: bool

definition default_decision_policy :: decision_policy where
  "default_decision_policy =
     \<lparr>dp_allow_warnings = True, dp_max_warnings = 10, dp_require_all_steps = True,
      dp_auto_eligible_on_pass = True, dp_proposal_only_on_warnings = False\<rparr>"

section \<open>Audit events\<close>

definition validation_run_started :: "uuid \<Rightarrow> uuid \<Rightarrow> fabric_audit_hook \<Rightarrow> fabric_audit_hook" where
  "validation_run_started run_id tenant_id =
     emit ((fabric_event FE_VALIDATION_RUN_STARTED)
       \<lparr>fe_tenant_id := Some tenant_id,
        fe_detail := [Lit ''Validation run '', Lit run_id, Lit '' started''],
        fe_metadata := [(''run_id'', JStr run_id)]\<rparr>)"

definition validation_run_completed ::
  "uuid \<Rightarrow> uuid \<Rightarrow> w3_status \<Rightarrow> validation_decision \<Rightarrow> fabric_audit_hook \<Rightarrow> fabric_audit_hook" where
  "validation_run_completed run_id tenant_id status decision =
     emit ((fabric_event FE_VALIDATION_RUN_COMPLETED)
       \<lparr>fe_tenant_id := Some tenant_id,
        fe_detail := [Lit ''Validation run '', Lit run_id, Lit '' completed: '',
                      Lit (w3_status_value status), Lit '', decision='', Lit (decision_value decision)],
        fe_metadata := [(''run_id'', JStr run_id), (''status'', JStr (w3_status_value status)),
                        (''decision'', JStr (decision_value decision))]\<rparr>)"

definition validation_step_completed ::
  "uuid \<Rightarrow> uuid \<Rightarrow> string \<Rightarrow> bool \<Rightarrow> fabric_audit_hook \<Rightarrow> fabric_audit_hook" where
  "validation_step_completed run_id tenant_id rule_id passed =
     emit ((fabric_event FE_VALIDATION_STEP_COMPLETED)
       \<lparr>fe_tenant_id := Some tenant_id,
        fe_detail := [Lit ''Validation step '', Lit rule_id, Lit '': '',
                      Lit (if passed then ''passed'' else ''failed'')],
        fe_metadata := [(''run_id'', JStr run_id), (''rule_id'', JStr rule_id),
                        (''passed'', JBool passed)]\<rparr>)"

definition validation_failed_event ::
  "uuid \<Rightarrow> uuid \<Rightarrow> nat \<Rightarrow> fabric_audit_hook \<Rightarrow> fabric_audit_hook" where
  "validation_failed_event run_id tenant_id failure_count =
     emit ((fabric_event FE_VALIDATION_FAILED)
       \<lparr>fe_tenant_id := Some tenant_id,
        fe_detail := [Lit ''Validation run '', Lit run_id, Lit '' has '', NumI (int failure_count),
                      Lit '' failures''],
        fe_metadata := [(''run_id'', JStr run_id), (''failure_count'', JInt (int failure_count))]\<rparr>)"

definition validation_decision_recorded ::
  "uuid \<Rightarrow> uuid \<Rightarrow> validation_decision \<Rightarrow> string \<Rightarrow> fabric_audit_hook \<Rightarrow> fabric_audit_hook" where
  "validation_decision_recorded run_id tenant_id decision report_hash =
     emit ((fabric_event FE_VALIDATION_DECISION_RECORDED)
       \<lparr>fe_tenant_id := Some tenant_id,
        fe_detail := [Lit ''Validation decision: '', Lit (decision_value decision),
                      Lit '' (hash='', Lit report_hash, Lit '')''],
        fe_metadata := [(''run_id'', JStr run_id), (''decision'', JStr (decision_value decision)),
                        (''report_hash'', JStr report_hash)]\<rparr>)"

definition validation_report_hashed ::
  "uuid \<Rightarrow> uuid \<Rightarrow> string \<Rightarrow> fabric_audit_hook \<Rightarrow> fabric_audit_hook" where
  "validation_report_hashed run_id tenant_id report_hash =
     emit ((fabric_event FE_VALIDATION_REPORT_HASHED)
       \<lparr>fe_tenant_id := Some tenant_id,
        fe_detail := [Lit ''Validation report hashed: '', Lit report_hash],
        fe_metadata := [(''run_id'', JStr run_id), (''report_hash'', JStr report_hash)]\<rparr>)"

section \<open>The executor\<close>

record 'c executor =
  ex_graph :: "'c graph_service"
  ex_rules :: "'c rule_registry"
  ex_runs :: "(uuid, validation_run) dict"
  ex_reports :: "(uuid, validation_report) dict"
  ex_audit :: fabric_audit_hook
  ex_policy :: decision_policy

definition new_executor ::
  "'c graph_service \<Rightarrow> 'c rule_registry option \<Rightarrow> decision_policy option \<Rightarrow> 'c executor" where
  "new_executor g rules pol =
     \<lparr>ex_graph = g,
      ex_rules = (case rules of Some r \<Rightarrow> r | None \<Rightarrow> default_rule_registry),
      ex_runs = [], ex_reports = [], ex_audit = new_audit_hook,
      ex_policy = (case pol of Some p \<Rightarrow> p | None \<Rightarrow> default_decision_policy)\<rparr>"

definition store_run :: "validation_run \<Rightarrow> 'c executor \<Rightarrow> 'c executor" where
  "store_run run ex = ex\<lparr>ex_runs := dput (rn_id run) run (ex_runs ex)\<rparr>"

definition get_run :: "'c executor \<Rightarrow> uuid \<Rightarrow> validation_run option" where
  "get_run ex run_id = dget (ex_runs ex) run_id"

definition list_runs :: "'c executor \<Rightarrow> uuid \<Rightarrow> w3_status option \<Rightarrow> validation_run list" where
  "list_runs ex tenant_id status =
     filter_opt status rn_status (filter (\<lambda>r. rn_tenant_id r = tenant_id) (dvalues (ex_runs ex)))"

definition store_report :: "validation_report \<Rightarrow> 'c executor \<Rightarrow> 'c executor" where
  "store_report report ex = ex\<lparr>ex_reports := dput (rp_id report) report (ex_reports ex)\<rparr>"

definition get_report :: "'c executor \<Rightarrow> uuid \<Rightarrow> validation_report option" where
  "get_report ex report_id = dget (ex_reports ex) report_id"

definition get_report_for_run :: "'c executor \<Rightarrow> uuid \<Rightarrow> validation_report option" where
  "get_report_for_run ex run_id = List.find (\<lambda>r. rp_run_id r = run_id) (dvalues (ex_reports ex))"

definition ex_emit :: "(fabric_audit_hook \<Rightarrow> fabric_audit_hook) \<Rightarrow> 'c executor \<Rightarrow> 'c executor" where
  "ex_emit f ex = ex\<lparr>ex_audit := f (ex_audit ex)\<rparr>"

definition resolve_objects :: "'c executor \<Rightarrow> validation_target \<Rightarrow> control_object list" where
  "resolve_objects ex target = List.map_filter (gs_get_object (ex_graph ex)) (vg_object_ids target)"

definition check_preconditions :: "control_object list \<Rightarrow> validation_precondition list" where
  "check_preconditions objects =
     [\<lparr>vp_name = ''has-target-objects'', vp_met = (length objects > 0),
       vp_description = ''At least one target object must be resolvable'', vp_blocking = True\<rparr>]"

definition build_blocked_report ::
  "(json \<Rightarrow> string) \<Rightarrow> (fstr \<Rightarrow> string) \<Rightarrow> uuid \<Rightarrow> time \<Rightarrow> uuid \<Rightarrow> uuid \<Rightarrow> uuid
     \<Rightarrow> validation_context \<Rightarrow> validation_precondition list \<Rightarrow> validation_report" where
  "build_blocked_report hash render report_id now run_id chain_id tenant_id ctx preconditions =
     (let failures = map (\<lambda>p.
            \<lparr>vf_code = FC_MISSING_VALIDATION_INPUT, vf_severity = SEV_ERROR, vf_rule_id = None,
             vf_object_id = None,
             vf_description = [Lit ''Precondition '', sq (vp_name p), Lit '' not met: '',
                               Lit (vp_description p)],
             vf_expected = JNull, vf_actual = JNull, vf_evidence_refs = [], vf_metadata = []\<rparr>)
            (filter (\<lambda>p. \<not> vp_met p \<and> vp_blocking p) preconditions)
      in rp_compute_hash hash render
        \<lparr>rp_id = report_id, rp_run_id = run_id, rp_chain_id = chain_id, rp_tenant_id = tenant_id,
         rp_status = W3_BLOCKED, rp_decision = VD_REJECTED,
         rp_eligibility = \<lparr>ve_decision = VD_REJECTED, ve_eligible_for_release = False,
           ve_requires_approval = False, ve_proposal_only = False,
           ve_blocking_failures = failures, ve_explanation = ''Blocked by unmet preconditions''\<rparr>,
         rp_steps = [], rp_failures = failures, rp_warnings = [], rp_preconditions = preconditions,
         rp_target = vx_target ctx, rp_scope = Some (vx_scope ctx), rp_decision_trace = None,
         rp_report_hash = [], rp_created_at = now\<rparr>)"

definition build_rule_context :: "validation_context \<Rightarrow> rule_context" where
  "build_rule_context c =
     dupdate (dupdate
       [(''require_reconciled'', JBool (vx_require_reconciled c)),
        (''min_confidence'', JNum (vx_min_confidence c)),
        (''required_evidence_types'', JList (map JStr (vx_required_evidence_types c))),
        (''required_states'', JList (map JStr (vx_required_states c))),
        (''min_evidence'', JInt 1)]
       (vx_policy_overrides c)) (vx_metadata c)"

definition determine_status ::
  "validation_failure list \<Rightarrow> validation_warning list \<Rightarrow> w3_status" where
  "determine_status failures warnings =
     (if failures \<noteq> [] then W3_FAILED
      else if warnings \<noteq> [] then W3_PASSED_WITH_WARNINGS else W3_PASSED)"

definition determine_decision ::
  "decision_policy \<Rightarrow> w3_status \<Rightarrow> validation_warning list \<Rightarrow> validation_decision" where
  "determine_decision pol status warnings =
     (if status = W3_FAILED then VD_REJECTED
      else if status = W3_PASSED_WITH_WARNINGS
      then (if dp_proposal_only_on_warnings pol then VD_PROPOSAL_ONLY
            else if \<not> dp_allow_warnings pol then VD_REJECTED
            else if int (length warnings) > dp_max_warnings pol then VD_APPROVAL_REQUIRED
            else VD_ELIGIBLE)
      else if dp_auto_eligible_on_pass pol then VD_ELIGIBLE
      else VD_APPROVAL_REQUIRED)"

definition build_eligibility ::
  "validation_decision \<Rightarrow> validation_failure list \<Rightarrow> validation_eligibility" where
  "build_eligibility decision failures =
     \<lparr>ve_decision = decision, ve_eligible_for_release = (decision = VD_ELIGIBLE),
      ve_requires_approval = (decision = VD_APPROVAL_REQUIRED),
      ve_proposal_only = (decision = VD_PROPOSAL_ONLY),
      ve_blocking_failures = (if decision = VD_REJECTED then failures else []),
      ve_explanation = ''Decision: '' @ decision_value decision\<rparr>"

record exec_acc =
  xa_steps :: "validation_step list"
  xa_failures :: "validation_failure list"
  xa_warnings :: "validation_warning list"
  xa_traces :: "json list"

text \<open>One round of the loop over the applicable rules, and the loop; \<open>step_ids\<close> are drawn per round.\<close>

definition record_step ::
  "uuid \<Rightarrow> nat \<Rightarrow> 'c w3_rule \<Rightarrow> validation_result \<Rightarrow> exec_acc \<Rightarrow> exec_acc" where
  "record_step step_id i rule result acc =
     (let result = result\<lparr>vt_step_id := step_id\<rparr>
      in \<lparr>xa_steps = xa_steps acc @
            [\<lparr>st_id = step_id, st_order = i, st_rule_id = wr_rule_id rule,
              st_result = Some result, st_executed = True\<rparr>],
          xa_failures = xa_failures acc @ vt_failures result,
          xa_warnings = xa_warnings acc @ vt_warnings result,
          xa_traces = xa_traces acc @
            [JObj [(''rule_id'', JStr (wr_rule_id rule)),
                   (''category'', JStr (category_value (wr_category rule))),
                   (''passed'', JBool (vt_passed result)),
                   (''failure_count'', JInt (int (length (vt_failures result)))),
                   (''warning_count'', JInt (int (length (vt_warnings result))))]]\<rparr>)"

fun exec_rules ::
  "control_object list \<Rightarrow> rule_context \<Rightarrow> uuid \<Rightarrow> uuid \<Rightarrow> (nat \<Rightarrow> uuid) \<Rightarrow> nat \<Rightarrow> 'c w3_rule list
     \<Rightarrow> exec_acc \<Rightarrow> 'c executor \<Rightarrow> (string, 'c executor, exec_acc) res" where
  "exec_rules objects ctx run_id tenant_id step_ids i [] acc ex = (Inr acc, ex)"
| "exec_rules objects ctx run_id tenant_id step_ids i (rule # rules) acc ex =
     (case wr_validate rule objects (ex_graph ex) ctx of
        Inl e \<Rightarrow> (Inl e, ex)
      | Inr result \<Rightarrow>
          exec_rules objects ctx run_id tenant_id step_ids (Suc i) rules
            (record_step (step_ids i) i rule result acc)
            (ex_emit (validation_step_completed run_id tenant_id (wr_rule_id rule)
                        (vt_passed result)) ex))"

record execution_result =
  er_run :: validation_run
  er_report :: validation_report
  er_decision :: validation_decision

text \<open>The fresh identifiers of one execution.\<close>

record exec_ids =
  xi_chain :: uuid
  xi_run :: uuid
  xi_report :: uuid
  xi_steps :: "nat \<Rightarrow> uuid"

definition execute_blocked ::
  "(json \<Rightarrow> string) \<Rightarrow> (fstr \<Rightarrow> string) \<Rightarrow> exec_ids \<Rightarrow> time \<Rightarrow> execution_request \<Rightarrow> validation_run
     \<Rightarrow> validation_precondition list \<Rightarrow> 'c executor \<Rightarrow> execution_result \<times> 'c executor" where
  "execute_blocked hash render ids now req run preconditions ex =
     (let report = build_blocked_report hash render (xi_report ids) now (rn_id run) (rn_chain_id run)
                     (rq_tenant_id req) (rq_context req) preconditions;
          ex = store_report report ex;
          run = run\<lparr>rn_report := Some report, rn_status := W3_BLOCKED, rn_completed_at := Some now\<rparr>;
          ex = store_run run ex;
          ex = ex_emit (validation_failed_event (rn_id run) (rq_tenant_id req)
                 (length (rp_failures report))) ex;
          ex = ex_emit (validation_run_completed (rn_id run) (rq_tenant_id req) W3_BLOCKED VD_REJECTED) ex
      in (\<lparr>er_run = run, er_report = report, er_decision = VD_REJECTED\<rparr>, ex))"

definition execute_finish ::
  "(json \<Rightarrow> string) \<Rightarrow> (fstr \<Rightarrow> string) \<Rightarrow> exec_ids \<Rightarrow> time \<Rightarrow> execution_request \<Rightarrow> validation_run
     \<Rightarrow> validation_precondition list \<Rightarrow> exec_acc \<Rightarrow> 'c executor \<Rightarrow> execution_result \<times> 'c executor" where
  "execute_finish hash render ids now req run preconditions acc ex =
     (let status = determine_status (xa_failures acc) (xa_warnings acc);
          decision = determine_decision (ex_policy ex) status (xa_warnings acc);
          report = rp_compute_hash hash render
            \<lparr>rp_id = xi_report ids, rp_run_id = rn_id run, rp_chain_id = rn_chain_id run,
             rp_tenant_id = rq_tenant_id req, rp_status = status, rp_decision = decision,
             rp_eligibility = build_eligibility decision (xa_failures acc),
             rp_steps = xa_steps acc, rp_failures = xa_failures acc, rp_warnings = xa_warnings acc,
             rp_preconditions = preconditions, rp_target = vx_target (rq_context req),
             rp_scope = Some (vx_scope (rq_context req)),
             rp_decision_trace = Some
               \<lparr>dt_run_id = rn_id run, dt_chain_id = rn_chain_id run,
                dt_steps_executed = length (xa_steps acc),
                dt_failures_total = length (xa_failures acc),
                dt_warnings_total = length (xa_warnings acc), dt_decision = decision,
                dt_rule_traces = xa_traces acc, dt_timestamp = now\<rparr>,
             rp_report_hash = [], rp_created_at = now\<rparr>;
          ex = store_report report ex;
          run = run\<lparr>rn_report := Some report, rn_status := status, rn_completed_at := Some now\<rparr>;
          ex = store_run run ex;
          ex = (if xa_failures acc \<noteq> []
                then ex_emit (validation_failed_event (rn_id run) (rq_tenant_id req)
                       (length (xa_failures acc))) ex
                else ex);
          ex = ex_emit (validation_decision_recorded (rn_id run) (rq_tenant_id req) decision
                 (rp_report_hash report)) ex;
          ex = ex_emit (validation_run_completed (rn_id run) (rq_tenant_id req) status decision) ex
      in (\<lparr>er_run = run, er_report = report, er_decision = decision\<rparr>, ex))"

definition execute ::
  "(json \<Rightarrow> string) \<Rightarrow> (fstr \<Rightarrow> string) \<Rightarrow> exec_ids \<Rightarrow> time \<Rightarrow> execution_request \<Rightarrow> 'c executor
     \<Rightarrow> (string, 'c executor, execution_result) res" where
  "execute hash render ids now req ex =
     (let chain_id = (case rq_chain_id req of Some c \<Rightarrow> c | None \<Rightarrow> xi_chain ids);
          run = \<lparr>rn_id = xi_run ids, rn_chain_id = chain_id, rn_tenant_id = rq_tenant_id req,
                 rn_context = rq_context req, rn_report = None, rn_status = W3_RUNNING,
                 rn_started_at = now, rn_completed_at = None\<rparr>;
          ex = store_run run ex;
          ex = ex_emit (validation_run_started (rn_id run) (rq_tenant_id req)) ex;
          objects = resolve_objects ex (vx_target (rq_context req));
          preconditions = check_preconditions objects
      in if list_ex (\<lambda>p. vp_blocking p \<and> \<not> vp_met p) preconditions
         then (let res = execute_blocked hash render ids now req run preconditions ex
               in (Inr (fst res), snd res))
         else
           (let rules = get_applicable_rules (ex_rules ex) objects
                          (vsc_action_type (vx_scope (rq_context req)))
            in case exec_rules objects (build_rule_context (rq_context req)) (rn_id run)
                      (rq_tenant_id req) (xi_steps ids) 0 rules
                      \<lparr>xa_steps = [], xa_failures = [], xa_warnings = [], xa_traces = []\<rparr> ex of
                 (Inl e, ex) \<Rightarrow> (Inl e, ex)
               | (Inr acc, ex) \<Rightarrow>
                   (let res = execute_finish hash render ids now req run preconditions acc ex
                    in (Inr (fst res), snd res))))"

section \<open>What an execution decides\<close>

lemma ex_simps [simp]:
  "ex_graph (store_run r ex) = ex_graph ex" "ex_graph (store_report p ex) = ex_graph ex"
  "ex_graph (ex_emit f ex) = ex_graph ex" "ex_rules (store_run r ex) = ex_rules ex"
  "ex_rules (ex_emit f ex) = ex_rules ex" "ex_policy (store_run r ex) = ex_policy ex"
  "ex_policy (store_report p ex) = ex_policy ex" "ex_policy (ex_emit f ex) = ex_policy ex"
  "ex_runs (ex_emit f ex) = ex_runs ex" "ex_reports (ex_emit f ex) = ex_reports ex"
  "ex_reports (store_run r ex) = ex_reports ex" "ex_runs (store_report p ex) = ex_runs ex"
  "ex_runs (store_run r ex) = dput (rn_id r) r (ex_runs ex)"
  "ex_reports (store_report p ex) = dput (rp_id p) p (ex_reports ex)"
  by (simp_all add: store_run_def store_report_def ex_emit_def)

lemma rp_compute_hash_simps [simp]:
  "rp_id (rp_compute_hash h f r) = rp_id r" "rp_status (rp_compute_hash h f r) = rp_status r"
  "rp_decision (rp_compute_hash h f r) = rp_decision r"
  "rp_failures (rp_compute_hash h f r) = rp_failures r"
  "rp_warnings (rp_compute_hash h f r) = rp_warnings r"
  "rp_steps (rp_compute_hash h f r) = rp_steps r"
  "rp_eligibility (rp_compute_hash h f r) = rp_eligibility r"
  "rp_run_id (rp_compute_hash h f r) = rp_run_id r"
  by (simp_all add: rp_compute_hash_def Let_def)

lemma resolve_objects_simps [simp]:
  "resolve_objects (store_run r ex) t = resolve_objects ex t"
  "resolve_objects (ex_emit f ex) t = resolve_objects ex t"
  by (simp_all add: resolve_objects_def)

lemma preconditions_blocked:
  "list_ex (\<lambda>p. vp_blocking p \<and> \<not> vp_met p) (check_preconditions objects) \<longleftrightarrow> objects = []"
  by (simp add: check_preconditions_def)

lemma exec_rules_spec:
  "exec_rules objs ctx run tn ids i rules acc ex = (Inr acc', ex') \<Longrightarrow>
     \<exists>results. list_all2 (\<lambda>rule res. wr_validate rule objs (ex_graph ex) ctx = Inr res) rules results \<and>
       xa_failures acc' = xa_failures acc @ concat (map vt_failures results) \<and>
       xa_warnings acc' = xa_warnings acc @ concat (map vt_warnings results) \<and>
       map st_rule_id (xa_steps acc') = map st_rule_id (xa_steps acc) @ map wr_rule_id rules \<and>
       ex_graph ex' = ex_graph ex \<and> ex_rules ex' = ex_rules ex \<and> ex_policy ex' = ex_policy ex \<and>
       ex_runs ex' = ex_runs ex \<and> ex_reports ex' = ex_reports ex"
proof (induction objs ctx run tn ids i rules acc ex rule: exec_rules.induct)
  case (2 objs ctx run tn ids i rule rules acc ex)
  then obtain res where res: "wr_validate rule objs (ex_graph ex) ctx = Inr res"
    by (auto split: sum.splits)
  have "exec_rules objs ctx run tn ids (Suc i) rules (record_step (ids i) i rule res acc)
      (ex_emit (validation_step_completed run tn (wr_rule_id rule) (vt_passed res)) ex) = (Inr acc', ex')"
    using 2(2) res by simp
  from 2(1) [OF res this] obtain results where r:
    "list_all2 (\<lambda>rule res. wr_validate rule objs (ex_graph ex) ctx = Inr res) rules results"
    "xa_failures acc' = xa_failures acc @ vt_failures res @ concat (map vt_failures results)"
    "xa_warnings acc' = xa_warnings acc @ vt_warnings res @ concat (map vt_warnings results)"
    "map st_rule_id (xa_steps acc') = map st_rule_id (xa_steps acc) @ wr_rule_id rule # map wr_rule_id rules"
    "ex_graph ex' = ex_graph ex \<and> ex_rules ex' = ex_rules ex \<and> ex_policy ex' = ex_policy ex \<and>
       ex_runs ex' = ex_runs ex \<and> ex_reports ex' = ex_reports ex"
    by (auto simp: record_step_def Let_def)
  show ?case
    by (rule exI [of _ "res # results"]) (use r res in simp)
qed simp

lemma exec_rules_total:
  assumes "\<And>rule. rule \<in> set rules \<Longrightarrow> \<exists>res. wr_validate rule objs (ex_graph ex) ctx = Inr res"
  shows "\<exists>acc' ex'. exec_rules objs ctx run tn ids i rules acc ex = (Inr acc', ex')"
  using assms
proof (induction rules arbitrary: i acc ex)
  case (Cons rule rules)
  from Cons.prems [of rule] obtain res where res: "wr_validate rule objs (ex_graph ex) ctx = Inr res"
    by auto
  show ?case
    using Cons.IH [of "ex_emit (validation_step_completed run tn (wr_rule_id rule) (vt_passed res)) ex"]
      Cons.prems res by simp
qed simp

text \<open>The verdict of an execution as a function of what its rules found.\<close>

definition verdict ::
  "decision_policy \<Rightarrow> validation_failure list \<Rightarrow> validation_warning list \<Rightarrow> validation_decision" where
  "verdict pol failures warnings = determine_decision pol (determine_status failures warnings) warnings"

definition applicable_to :: "'c executor \<Rightarrow> execution_request \<Rightarrow> control_object list \<Rightarrow> 'c w3_rule list" where
  "applicable_to ex req objs =
     get_applicable_rules (ex_rules ex) objs (vsc_action_type (vx_scope (rq_context req)))"

text \<open>What a finished execution reports and leaves behind.\<close>

definition executed ::
  "execution_request \<Rightarrow> exec_ids \<Rightarrow> 'c executor \<Rightarrow> execution_result \<Rightarrow> 'c executor \<Rightarrow> bool" where
  "executed req ids ex r ex' \<longleftrightarrow>
     (let objs = resolve_objects ex (vx_target (rq_context req));
          rep = er_report r
      in er_decision r = rp_decision rep \<and> rn_report (er_run r) = Some rep \<and>
         rn_status (er_run r) = rp_status rep \<and>
         get_run ex' (xi_run ids) = Some (er_run r) \<and> get_report ex' (xi_report ids) = Some rep \<and>
         ve_eligible_for_release (rp_eligibility rep) = (rp_decision rep = VD_ELIGIBLE) \<and>
         (if objs = [] then rp_status rep = W3_BLOCKED \<and> rp_decision rep = VD_REJECTED
          else \<exists>results.
            list_all2 (\<lambda>rule res. wr_validate rule objs (ex_graph ex) (build_rule_context (rq_context req)) = Inr res)
              (applicable_to ex req objs) results \<and>
            map st_rule_id (rp_steps rep) = map wr_rule_id (applicable_to ex req objs) \<and>
            rp_failures rep = concat (map vt_failures results) \<and>
            rp_warnings rep = concat (map vt_warnings results) \<and>
            rp_status rep = determine_status (rp_failures rep) (rp_warnings rep) \<and>
            rp_decision rep = verdict (ex_policy ex) (rp_failures rep) (rp_warnings rep)))"

lemma executed_blocked:
  "executed req ids ex r ex' \<Longrightarrow> resolve_objects ex (vx_target (rq_context req)) = [] \<Longrightarrow>
     rp_status (er_report r) = W3_BLOCKED \<and> rp_decision (er_report r) = VD_REJECTED"
  by (simp add: executed_def Let_def)

lemma executed_rules:
  assumes "executed req ids ex r ex'" and "resolve_objects ex (vx_target (rq_context req)) \<noteq> []"
  shows "\<exists>results.
    list_all2 (\<lambda>rule res. wr_validate rule (resolve_objects ex (vx_target (rq_context req)))
        (ex_graph ex) (build_rule_context (rq_context req)) = Inr res)
      (applicable_to ex req (resolve_objects ex (vx_target (rq_context req)))) results \<and>
    rp_failures (er_report r) = concat (map vt_failures results) \<and>
    rp_status (er_report r) = determine_status (rp_failures (er_report r)) (rp_warnings (er_report r)) \<and>
    rp_decision (er_report r) = verdict (ex_policy ex) (rp_failures (er_report r)) (rp_warnings (er_report r))"
  using assms unfolding executed_def Let_def by (simp only: if_False) blast

definition started_run :: "exec_ids \<Rightarrow> time \<Rightarrow> execution_request \<Rightarrow> validation_run" where
  "started_run ids now req =
     \<lparr>rn_id = xi_run ids, rn_chain_id = (case rq_chain_id req of Some c \<Rightarrow> c | None \<Rightarrow> xi_chain ids),
      rn_tenant_id = rq_tenant_id req, rn_context = rq_context req, rn_report = None,
      rn_status = W3_RUNNING, rn_started_at = now, rn_completed_at = None\<rparr>"

definition started ::
  "exec_ids \<Rightarrow> time \<Rightarrow> execution_request \<Rightarrow> 'c executor \<Rightarrow> 'c executor" where
  "started ids now req ex =
     ex_emit (validation_run_started (xi_run ids) (rq_tenant_id req)) (store_run (started_run ids now req) ex)"

definition no_findings :: exec_acc where
  "no_findings = \<lparr>xa_steps = [], xa_failures = [], xa_warnings = [], xa_traces = []\<rparr>"

lemma started_simps [simp]:
  "ex_graph (started ids now req ex) = ex_graph ex" "ex_rules (started ids now req ex) = ex_rules ex"
  "ex_policy (started ids now req ex) = ex_policy ex"
  "ex_runs (started ids now req ex) = dput (xi_run ids) (started_run ids now req) (ex_runs ex)"
  "resolve_objects (started ids now req ex) t = resolve_objects ex t"
  "rn_id (started_run ids now req) = xi_run ids" "rn_status (started_run ids now req) = W3_RUNNING"
  by (simp_all add: started_def started_run_def)

lemma execute_body:
  fixes ids now req ex
  defines "objs \<equiv> resolve_objects ex (vx_target (rq_context req))"
    and "run \<equiv> started_run ids now req" and "ex1 \<equiv> started ids now req ex"
  shows "execute hash render ids now req ex =
     (if objs = []
      then (let res = execute_blocked hash render ids now req run (check_preconditions objs) ex1
            in (Inr (fst res), snd res))
      else (case exec_rules objs (build_rule_context (rq_context req)) (xi_run ids) (rq_tenant_id req)
                  (xi_steps ids) 0 (applicable_to ex req objs) no_findings ex1 of
              (Inl e, ex) \<Rightarrow> (Inl e, ex)
            | (Inr acc, ex) \<Rightarrow>
                (let res = execute_finish hash render ids now req run (check_preconditions objs) acc ex
                 in (Inr (fst res), snd res))))"
proof -
  have rules: "ex_rules (started ids now req ex) = ex_rules ex"
    and objects: "resolve_objects (started ids now req ex) (vx_target (rq_context req)) = objs"
    by (simp_all add: objs_def)
  have run: "rn_id (started_run ids now req) = xi_run ids" by simp
  show ?thesis
    unfolding execute_def Let_def started_run_def [symmetric] run started_def [symmetric] rules objects
      preconditions_blocked applicable_to_def no_findings_def [symmetric] run_def ex1_def ..
qed

lemma execute_executed:
  assumes "execute hash render ids now req ex = (Inr r, ex')"
  shows "executed req ids ex r ex'"
proof (cases "resolve_objects ex (vx_target (rq_context req)) = []")
  case True
  with assms show ?thesis
    by (auto simp: execute_body executed_def execute_blocked_def build_blocked_report_def Let_def
        get_run_def get_report_def)
next
  case False
  let ?objs = "resolve_objects ex (vx_target (rq_context req))"
  from False obtain acc ex2 where
    ex2: "exec_rules ?objs (build_rule_context (rq_context req)) (xi_run ids) (rq_tenant_id req)
        (xi_steps ids) 0 (applicable_to ex req ?objs) no_findings (started ids now req ex) = (Inr acc, ex2)"
    and fin: "execute_finish hash render ids now req (started_run ids now req)
        (check_preconditions ?objs) acc ex2 = (r, ex')"
    using assms by (auto simp: execute_body Let_def split: sum.splits prod.splits)
  from exec_rules_spec [OF ex2] fin False show ?thesis
    by (auto simp: executed_def execute_finish_def Let_def get_run_def get_report_def
        no_findings_def build_eligibility_def verdict_def)
qed

lemma exec_rules_runs:
  "exec_rules objs ctx run tn ids i rules acc ex = (res, ex') \<Longrightarrow> ex_runs ex' = ex_runs ex"
proof (induction objs ctx run tn ids i rules acc ex rule: exec_rules.induct)
  case (2 objs ctx run tn ids i rule rules acc ex)
  show ?case
  proof (cases "wr_validate rule objs (ex_graph ex) ctx")
    case (Inl e)
    with 2(2) show ?thesis by simp
  next
    case (Inr r)
    from 2(1) [OF Inr] 2(2) Inr show ?thesis by simp
  qed
qed simp

lemma execute_raises:
  assumes "execute hash render ids now req ex = (Inl e, ex')"
  shows "get_run ex' (xi_run ids) = Some (started_run ids now req)"
proof -
  let ?objs = "resolve_objects ex (vx_target (rq_context req))"
  have "exec_rules ?objs (build_rule_context (rq_context req)) (xi_run ids) (rq_tenant_id req)
      (xi_steps ids) 0 (applicable_to ex req ?objs) no_findings (started ids now req ex) = (Inl e, ex')"
    using assms by (auto simp: execute_body Let_def split: sum.splits prod.splits if_splits)
  from exec_rules_runs [OF this] show ?thesis by (simp add: get_run_def)
qed

lemma execute_total:
  assumes "\<And>rule. rule \<in> set (applicable_to ex req (resolve_objects ex (vx_target (rq_context req)))) \<Longrightarrow>
    \<exists>res. wr_validate rule (resolve_objects ex (vx_target (rq_context req))) (ex_graph ex)
      (build_rule_context (rq_context req)) = Inr res"
  shows "\<exists>r ex'. execute hash render ids now req ex = (Inr r, ex')"
proof -
  let ?objs = "resolve_objects ex (vx_target (rq_context req))"
  have "\<exists>acc ex2. exec_rules ?objs (build_rule_context (rq_context req)) (xi_run ids) (rq_tenant_id req)
      (xi_steps ids) 0 (applicable_to ex req ?objs) no_findings (started ids now req ex) = (Inr acc, ex2)"
    by (rule exec_rules_total) (simp add: assms)
  then show ?thesis by (auto simp: execute_body Let_def)
qed

end
