(* ===== verification/W3_Props.thy ===== *)
theory W3_Props
  imports W3_Executor
begin

text \<open>
  The second validation chain as a whole: what an execution reports and stores, when it declares an
  action eligible, and what the default rules ask of the objects.
\<close>

section \<open>The default rules, one by one\<close>

lemmas w3_rule_defs =
  w3_schema_validity_rule_def w3_graph_completeness_rule_def w3_evidence_sufficiency_rule_def
  w3_provenance_integrity_rule_def w3_reconciliation_state_rule_def w3_policy_compliance_rule_def
  w3_deterministic_reproducibility_rule_def w3_contradiction_check_rule_def
  w3_confidence_threshold_rule_def w3_action_precondition_rule_def

lemma w3_rule_of_simps [simp]:
  "wr_rule_id (w3_rule_of rid cat h b body) = rid"
  "wr_applicability (w3_rule_of rid cat h b body) = any_applicability"
  "wr_validate (w3_rule_of rid cat h b body) = body"
  by (simp_all add: w3_rule_of_def)

lemma rule_result_simps [simp]:
  "vt_failures (rule_result rid fs ws e) = fs"
  "vt_warnings (rule_result rid fs ws e) = ws"
  by (simp_all add: rule_result_def)

lemma any_applicable [simp]: "is_applicable any_applicability objs act"
  by (simp add: is_applicable_def any_applicability_def)

lemma default_rule_ids:
  "map wr_rule_id (default_w3_rules :: 'c w3_rule list) =
     [''w3-schema-validity'', ''w3-graph-completeness'', ''w3-evidence-sufficiency'',
      ''w3-provenance-integrity'', ''w3-reconciliation-state'', ''w3-policy-compliance'',
      ''w3-deterministic-reproducibility'', ''w3-contradiction-check'', ''w3-confidence-threshold'',
      ''w3-action-precondition'']"
  by (simp add: default_w3_rules_def w3_rule_defs Let_def)

text \<open>Registering rules of distinct ids one after the other keeps them in that order.\<close>

lemma register_rules:
  assumes "distinct (map wr_rule_id rules)"
    and "set (map wr_rule_id rules) \<inter> set (rg_order r) = {}" and "dkeys (rg_rules r) = rg_order r"
  shows "foldl (\<lambda>r rule. register_rule rule None r) r rules =
    \<lparr>rg_rules = rg_rules r @ map (\<lambda>rule. (wr_rule_id rule, rule)) rules,
     rg_order = rg_order r @ map wr_rule_id rules\<rparr>"
  using assms
proof (induction rules arbitrary: r)
  case (Cons rule rules)
  let ?r = "\<lparr>rg_rules = rg_rules r @ [(wr_rule_id rule, rule)], rg_order = rg_order r @ [wr_rule_id rule]\<rparr>"
  have "wr_rule_id rule \<notin> set (dkeys (rg_rules r))"
    using Cons.prems(2,3) by (simp del: set_map)
  then have "register_rule rule None r = ?r"
    using Cons.prems(2) dput_fresh [of "wr_rule_id rule" "rg_rules r" rule]
    by (simp add: register_rule_def Let_def del: set_map)
  moreover have "foldl (\<lambda>r rule. register_rule rule None r) ?r rules =
    \<lparr>rg_rules = rg_rules ?r @ map (\<lambda>rule. (wr_rule_id rule, rule)) rules,
     rg_order = rg_order ?r @ map wr_rule_id rules\<rparr>"
    using Cons.prems by (intro Cons.IH) auto
  ultimately show ?case by simp
qed simp

lemma default_applicable:
  "get_applicable_rules default_rule_registry objs act = default_w3_rules"
proof -
  have reg: "default_rule_registry =
      \<lparr>rg_rules = map (\<lambda>rule. (wr_rule_id rule, rule)) (default_w3_rules :: 'a w3_rule list),
       rg_order = map wr_rule_id (default_w3_rules :: 'a w3_rule list)\<rparr>"
    unfolding default_rule_registry_def
    by (subst register_rules) (simp_all add: new_rule_registry_def default_rule_ids)
  have appl: "is_applicable (wr_applicability rule) objs act"
    if "rule \<in> set (default_w3_rules :: 'a w3_rule list)" for rule
    using that by (auto simp: default_w3_rules_def w3_rule_defs Let_def)
  have "List.map_filter (\<lambda>rid. case map_of (map (\<lambda>rule. (wr_rule_id rule, rule)) rules) rid of
         None \<Rightarrow> None
       | Some rule \<Rightarrow> if is_applicable (wr_applicability rule) objs act then Some rule else None)
      (map wr_rule_id sel) = sel"
    if "distinct (map wr_rule_id rules)" "set sel \<subseteq> set rules"
      "\<And>rule. rule \<in> set rules \<Longrightarrow> is_applicable (wr_applicability rule) objs act"
    for rules sel :: "'a w3_rule list"
    using that(2)
  proof (induction sel)
    case (Cons rule sel)
    have "map_of (map (\<lambda>rule. (wr_rule_id rule, rule)) rules) (wr_rule_id rule) = Some rule"
      using that(1) Cons.prems by (intro map_of_is_SomeI) (auto simp: o_def)
    with Cons that(3) show ?case by (simp add: List.map_filter_simps)
  qed (simp add: List.map_filter_simps)
  from this [of default_w3_rules default_w3_rules] appl show ?thesis
    by (simp add: get_applicable_rules_def reg default_rule_ids)
qed

section \<open>The context of a request without overrides\<close>

definition typed_context :: "validation_context \<Rightarrow> rule_context" where
  "typed_context c =
     [(''require_reconciled'', JBool (vx_require_reconciled c)),
      (''min_confidence'', JNum (vx_min_confidence c)),
      (''required_evidence_types'', JList (map JStr (vx_required_evidence_types c))),
      (''required_states'', JList (map JStr (vx_required_states c))), (''min_evidence'', JInt 1)]"

definition plain_request :: "execution_request \<Rightarrow> execution_request" where
  "plain_request req =
     req\<lparr>rq_context := (rq_context req)\<lparr>vx_policy_overrides := [], vx_metadata := []\<rparr>\<rparr>"

lemma plain_context: "build_rule_context (rq_context (plain_request req)) = typed_context (rq_context req)"
  by (simp add: plain_request_def build_rule_context_def typed_context_def dupdate_def)

lemma typed_context_get:
  "dget_default (typed_context c) ''require_reconciled'' d = JBool (vx_require_reconciled c)"
  "dget_default (typed_context c) ''min_confidence'' d = JNum (vx_min_confidence c)"
  "dget_default (typed_context c) ''required_evidence_types'' d =
     JList (map JStr (vx_required_evidence_types c))"
  "dget_default (typed_context c) ''required_states'' d = JList (map JStr (vx_required_states c))"
  "dget_default (typed_context c) ''min_evidence'' d = JInt 1"
  "dget_default (typed_context c) ''require_graph_links'' d = d"
  "dget_default (typed_context c) ''strict_preconditions'' d = d"
  by (simp_all add: dget_default_def typed_context_def)

definition has_evidence_types :: "string list \<Rightarrow> control_object \<Rightarrow> bool" where
  "has_evidence_types tys ob \<longleftrightarrow> set tys \<subseteq> er_evidence_type ` set (co_evidence ob)"

text \<open>What the default rules ask of one object under a request.\<close>

definition w3_admissible :: "'c graph_service \<Rightarrow> validation_context \<Rightarrow> control_object \<Rightarrow> bool" where
  "w3_admissible g c ob \<longleftrightarrow>
     (\<not> blank (co_label ob) \<and> \<not> blank (co_domain ob)) \<and>
     (co_evidence ob \<noteq> [] \<and> has_evidence_types (vx_required_evidence_types c) ob) \<and>
     pv_created_by (co_provenance ob) \<noteq> [] \<and>
     (co_state ob \<noteq> CS_DISPUTED \<and>
      (vx_require_reconciled c \<longrightarrow> co_state ob \<in> {CS_RECONCILED, CS_ACTIONED})) \<and>
     get_links_for_object (gs_repo g) (co_id ob) ''both'' (Some LT_CONTRADICTS) = [] \<and>
     \<not> pf_less (co_confidence ob) (Fin (vx_min_confidence c))"

lemma missing_types_typed:
  "missing_types ev (JList (map JStr tys)) =
     Inr (filter (\<lambda>t. t \<notin> set (map (\<lambda>e. JStr (er_evidence_type e)) ev)) (map JStr tys))"
proof -
  have "collect_rounds (\<lambda>t. if \<not> json_hashable t
        then Inl (''unhashable type: '' @ [CHR 0x27] @ json_type t @ [CHR 0x27])
        else Inr (if t \<in> S then [] else [t])) (map JStr tys) =
      Inr (filter (\<lambda>t. t \<notin> S) (map JStr tys))" for S
    by (induction tys) simp_all
  then show ?thesis by (simp add: missing_types_def)
qed

lemma evidence_failures_typed:
  "\<exists>fs. evidence_failures rid (JInt 1) (JList (map JStr tys)) ob = Inr fs \<and>
     (fs = [] \<longleftrightarrow> co_evidence ob \<noteq> [] \<and> has_evidence_types tys ob)"
proof -
  define missing where "missing =
    filter (\<lambda>t. t \<notin> (\<lambda>e. JStr (er_evidence_type e)) ` set (co_evidence ob)) (map JStr tys)"
  have has: "missing = [] \<longleftrightarrow> has_evidence_types tys ob"
    unfolding missing_def by (auto simp: filter_empty_conv has_evidence_types_def image_iff subset_iff)
  have few: "json_less ''int'' (of_nat (length (co_evidence ob))) (JInt 1) = Inr (co_evidence ob = [])"
    by (cases "co_evidence ob") (simp_all add: json_less_def)
  have none: "has_evidence_types [] ob" by (simp add: has_evidence_types_def)
  show ?thesis
  proof (cases "tys = []")
    case True
    with none show ?thesis
      by (simp add: evidence_failures_def few)
  next
    case False
    then show ?thesis
      using has by (simp add: evidence_failures_def few missing_types_typed missing_def [symmetric])
  qed
qed

lemma collect_rounds_Nil:
  assumes "\<And>x. x \<in> set xs \<Longrightarrow> \<exists>ys. f x = Inr ys \<and> (ys = [] \<longleftrightarrow> P x)"
  shows "\<exists>ys. collect_rounds f xs = Inr ys \<and> (ys = [] \<longleftrightarrow> list_all P xs)"
  using assms
proof (induction xs)
  case (Cons x xs)
  have "\<exists>ys. f x = Inr ys \<and> (ys = [] \<longleftrightarrow> P x)"
    by (rule Cons.prems) simp
  then obtain ys where ys: "f x = Inr ys" "ys = [] \<longleftrightarrow> P x" by blast
  have "\<exists>zs. collect_rounds f xs = Inr zs \<and> (zs = [] \<longleftrightarrow> list_all P xs)"
    by (rule Cons.IH) (rule Cons.prems, simp)
  then obtain zs where zs: "collect_rounds f xs = Inr zs" "zs = [] \<longleftrightarrow> list_all P xs" by blast
  show ?case by (simp add: ys zs)
qed simp

definition accepts ::
  "'c w3_rule \<Rightarrow> control_object list \<Rightarrow> 'c graph_service \<Rightarrow> rule_context \<Rightarrow> (control_object \<Rightarrow> bool) \<Rightarrow> bool" where
  "accepts rule objs g ctx P \<longleftrightarrow>
     (\<exists>res. wr_validate rule objs g ctx = Inr res \<and> (vt_failures res = [] \<longleftrightarrow> list_all P objs))"

lemma concat_map_Nil: "concat (map f xs) = [] \<longleftrightarrow> list_all (\<lambda>x. f x = []) xs"
  by (induction xs) auto

lemma filter_Nil: "filter P xs = [] \<longleftrightarrow> list_all (\<lambda>x. \<not> P x) xs"
  by (induction xs) auto

lemma list_all_True: "list_all (\<lambda>x. True) xs"
  by (induction xs) simp_all

lemma accepts_schema:
  "accepts w3_schema_validity_rule objs g ctx (\<lambda>ob. \<not> blank (co_label ob) \<and> \<not> blank (co_domain ob))"
  by (simp add: Let_def accepts_def w3_schema_validity_rule_def concat_map_Nil del: concat_eq_Nil_conv)
    (auto intro!: list.pred_cong)

lemma accepts_graph:
  "accepts w3_graph_completeness_rule objs g (typed_context c) (\<lambda>ob. True)"
  by (simp add: list_all_True Let_def accepts_def w3_graph_completeness_rule_def Let_def typed_context_get)

lemma accepts_evidence:
  "accepts w3_evidence_sufficiency_rule objs g (typed_context c)
     (\<lambda>ob. co_evidence ob \<noteq> [] \<and> has_evidence_types (vx_required_evidence_types c) ob)"
proof -
  obtain fs where
    "collect_rounds (evidence_failures ''w3-evidence-sufficiency'' (JInt 1)
        (JList (map JStr (vx_required_evidence_types c)))) objs = Inr fs"
    "fs = [] \<longleftrightarrow> list_all (\<lambda>ob. co_evidence ob \<noteq> [] \<and> has_evidence_types (vx_required_evidence_types c) ob) objs"
    using collect_rounds_Nil [of objs "evidence_failures ''w3-evidence-sufficiency'' (JInt 1)
        (JList (map JStr (vx_required_evidence_types c)))", OF evidence_failures_typed] by blast
  then show ?thesis
    by (simp add: list_all_True Let_def accepts_def w3_evidence_sufficiency_rule_def typed_context_get)
qed

lemma accepts_provenance:
  "accepts w3_provenance_integrity_rule objs g ctx (\<lambda>ob. pv_created_by (co_provenance ob) \<noteq> [])"
  by (simp add: list_all_True Let_def accepts_def w3_provenance_integrity_rule_def filter_Nil)

lemma accepts_reconciliation:
  "accepts w3_reconciliation_state_rule objs g (typed_context c)
     (\<lambda>ob. co_state ob \<noteq> CS_DISPUTED \<and>
        (vx_require_reconciled c \<longrightarrow> co_state ob \<in> {CS_RECONCILED, CS_ACTIONED}))"
proof -
  have [simp]: "(if d then [a] else if r \<and> n then [b] else []) = [] \<longleftrightarrow> \<not> d \<and> (r \<longrightarrow> \<not> n)"
    for d r n and a b :: validation_failure
    by auto
  show ?thesis
    by (simp add: Let_def accepts_def w3_reconciliation_state_rule_def typed_context_get concat_map_Nil
        del: insert_iff concat_eq_Nil_conv)
qed

lemma accepts_policy: "accepts (w3_policy_compliance_rule []) objs g ctx (\<lambda>ob. True)"
  by (simp add: list_all_True Let_def accepts_def w3_policy_compliance_rule_def)

lemma accepts_determinism: "accepts w3_deterministic_reproducibility_rule objs g ctx (\<lambda>ob. True)"
  by (simp add: list_all_True Let_def accepts_def w3_deterministic_reproducibility_rule_def)

lemma accepts_contradiction:
  "accepts w3_contradiction_check_rule objs g ctx
     (\<lambda>ob. get_links_for_object (gs_repo g) (co_id ob) ''both'' (Some LT_CONTRADICTS) = [])"
  by (simp add: list_all_True Let_def accepts_def w3_contradiction_check_rule_def Let_def concat_map_Nil del: concat_eq_Nil_conv)

lemma accepts_confidence:
  "accepts w3_confidence_threshold_rule objs g (typed_context c)
     (\<lambda>ob. \<not> pf_less (co_confidence ob) (Fin (vx_min_confidence c)))"
  by (simp add: list_all_True Let_def accepts_def w3_confidence_threshold_rule_def typed_context_get
      json_less_float_def json_less_def collect_rounds_total concat_map_Nil del: concat_eq_Nil_conv)

lemma accepts_action:
  "accepts w3_action_precondition_rule objs g (typed_context c) (\<lambda>ob. True)"
  by (simp add: list_all_True Let_def accepts_def w3_action_precondition_rule_def typed_context_get required_states_of_def
      collect_rounds_total)

lemmas accepts_rules =
  accepts_schema accepts_graph accepts_evidence accepts_provenance accepts_reconciliation
  accepts_policy accepts_determinism accepts_contradiction accepts_confidence accepts_action

lemma accepts_list:
  assumes "list_all2 (\<lambda>rule P. accepts rule objs g ctx P) rules Ps"
    and "list_all2 (\<lambda>rule res. wr_validate rule objs g ctx = Inr res) rules results"
  shows "concat (map vt_failures results) = [] \<longleftrightarrow> list_all (\<lambda>P. list_all P objs) Ps"
  using assms
proof (induction rules Ps arbitrary: results rule: list_all2_induct)
  case (Cons rule rules P Ps)
  then obtain res results' where r: "results = res # results'" "wr_validate rule objs g ctx = Inr res"
    "list_all2 (\<lambda>rule res. wr_validate rule objs g ctx = Inr res) rules results'"
    by (auto simp: list_all2_Cons1)
  have "vt_failures res = [] \<longleftrightarrow> list_all P objs"
    using Cons.hyps(1) r(2) by (simp add: accepts_def)
  then show ?case
    using Cons.IH [OF r(3)] by (simp add: r(1) del: concat_eq_Nil_conv)
qed simp

lemma default_accepts:
  "list_all2 (\<lambda>rule P. accepts rule objs g (typed_context c) P) default_w3_rules
     [\<lambda>ob. \<not> blank (co_label ob) \<and> \<not> blank (co_domain ob), \<lambda>ob. True,
      \<lambda>ob. co_evidence ob \<noteq> [] \<and> has_evidence_types (vx_required_evidence_types c) ob,
      \<lambda>ob. pv_created_by (co_provenance ob) \<noteq> [],
      \<lambda>ob. co_state ob \<noteq> CS_DISPUTED \<and>
        (vx_require_reconciled c \<longrightarrow> co_state ob \<in> {CS_RECONCILED, CS_ACTIONED}),
      \<lambda>ob. True, \<lambda>ob. True,
      \<lambda>ob. get_links_for_object (gs_repo g) (co_id ob) ''both'' (Some LT_CONTRADICTS) = [],
      \<lambda>ob. \<not> pf_less (co_confidence ob) (Fin (vx_min_confidence c)), \<lambda>ob. True]"
  unfolding default_w3_rules_def
  by (intro list.rel_intros accepts_rules)

lemma list_all_conj: "list_all (\<lambda>x. P x \<and> Q x) xs \<longleftrightarrow> list_all P xs \<and> list_all Q xs"
  by (induction xs) auto

lemma default_failures:
  assumes "list_all2 (\<lambda>rule res. wr_validate rule objs g (typed_context c) = Inr res) default_w3_rules results"
  shows "concat (map vt_failures results) = [] \<longleftrightarrow> list_all (w3_admissible g c) objs"
  unfolding accepts_list [OF default_accepts assms] w3_admissible_def [abs_def] list_all_conj
  by (simp only: list.pred_inject list_all_True simp_thms list_all_conj)

lemma default_rules_return:
  "rule \<in> set default_w3_rules \<Longrightarrow> \<exists>res. wr_validate rule objs g (typed_context c) = Inr res"
  using default_accepts [of objs g c]
  by (auto simp: list_all2_conv_all_nth in_set_conv_nth accepts_def)

section \<open>Properties\<close>

text \<open>An execution that returns has stored its run and its report under their ids and set the
  run's status to the report's; without a resolvable target it is blocked and rejected, and
  otherwise it ran exactly the applicable rules, in registry order, its failures and warnings are
  those of the rules, and status and decision follow from them. An execution that raises leaves
  its run recorded as running.\<close>

theorem execution_report:
  "case execute hash render ids now req ex of
     (Inr r, ex') \<Rightarrow> executed req ids ex r ex'
   | (Inl e, ex') \<Rightarrow> map_option rn_status (get_run ex' (xi_run ids)) = Some W3_RUNNING"
proof (cases "execute hash render ids now req ex")
  case (Pair res ex')
  show ?thesis
  proof (cases res)
    case (Inr r)
    with Pair have "executed req ids ex r ex'" by (simp add: execute_executed)
    then show ?thesis unfolding Pair Inr by simp
  next
    case (Inl e)
    with Pair have "get_run ex' (xi_run ids) = Some (started_run ids now req)"
      by (simp add: execute_raises)
    then show ?thesis unfolding Pair Inl by simp
  qed
qed

text \<open>A report makes its action eligible for release exactly when some target was resolved, no rule
  failed, and the decision policy lets it through: without warnings if it releases on a clean
  pass, with warnings if it allows them, asks for no proposal and their number is within its
  limit.\<close>

theorem eligible_iff_clean:
  "case execute hash render ids now req ex of
     (Inr r, ex') \<Rightarrow>
       ve_eligible_for_release (rp_eligibility (er_report r)) \<longleftrightarrow>
         resolve_objects ex (vx_target (rq_context req)) \<noteq> [] \<and> rp_failures (er_report r) = [] \<and>
         (if rp_warnings (er_report r) = [] then dp_auto_eligible_on_pass (ex_policy ex)
          else \<not> dp_proposal_only_on_warnings (ex_policy ex) \<and> dp_allow_warnings (ex_policy ex) \<and>
               int (length (rp_warnings (er_report r))) \<le> dp_max_warnings (ex_policy ex))
   | (Inl e, ex') \<Rightarrow> True"
proof (cases "execute hash render ids now req ex")
  case (Pair res ex')
  show ?thesis
  proof (cases res)
    case (Inr r)
    with Pair have ex: "executed req ids ex r ex'" by (simp add: execute_executed)
    then have elig: "ve_eligible_for_release (rp_eligibility (er_report r)) \<longleftrightarrow>
        rp_decision (er_report r) = VD_ELIGIBLE"
      by (simp add: executed_def Let_def)
    show ?thesis
    proof (cases "resolve_objects ex (vx_target (rq_context req)) = []")
      case True
      with executed_blocked [OF ex] show ?thesis
        unfolding Pair Inr prod.case sum.case elig by simp
    next
      case False
      with executed_rules [OF ex] have "rp_decision (er_report r) =
          verdict (ex_policy ex) (rp_failures (er_report r)) (rp_warnings (er_report r))"
        by blast
      with False show ?thesis
        unfolding Pair Inr prod.case sum.case elig
        by (auto simp: verdict_def determine_decision_def determine_status_def)
    qed
  qed (simp add: Pair)
qed

text \<open>With the default rules and a request without overrides an execution always returns, and it
  fails or is blocked exactly when no target is resolved or some target lacks a label, a domain,
  the required evidence, a creator, an admissible state, or has a confidence below the minimum or a
  contradicting link.\<close>

theorem default_execution_rejects:
  "case execute hash render ids now (plain_request req) (new_executor g None pol) of
     (Inl e, ex') \<Rightarrow> False
   | (Inr r, ex') \<Rightarrow>
       rp_status (er_report r) \<in> {W3_FAILED, W3_BLOCKED} \<longleftrightarrow>
         \<not> (resolve_objects (new_executor g None pol) (vx_target (rq_context req)) \<noteq> [] \<and>
            list_all (w3_admissible g (rq_context req))
              (resolve_objects (new_executor g None pol) (vx_target (rq_context req))))"
proof -
  let ?ex = "new_executor g None pol"
  let ?objs = "resolve_objects ?ex (vx_target (rq_context req))"
  have appl: "applicable_to ?ex (plain_request req) ?objs = default_w3_rules"
    by (simp add: applicable_to_def new_executor_def default_applicable)
  have target: "vx_target (rq_context (plain_request req)) = vx_target (rq_context req)"
    by (simp add: plain_request_def)
  have graph: "ex_graph ?ex = g" by (simp add: new_executor_def)
  obtain r ex' where r: "execute hash render ids now (plain_request req) ?ex = (Inr r, ex')"
    using execute_total [where req = "plain_request req" and ex = ?ex] default_rules_return
    unfolding plain_context graph target appl by metis
  from execute_executed [OF r] have ok: "executed (plain_request req) ids ?ex r ex'" .
  have "rp_status (er_report r) \<in> {W3_FAILED, W3_BLOCKED} \<longleftrightarrow>
      \<not> (?objs \<noteq> [] \<and> list_all (w3_admissible g (rq_context req)) ?objs)"
  proof (cases "?objs = []")
    case True
    then show ?thesis
      using executed_blocked [OF ok] by (simp add: target)
  next
    case False
    then obtain results where res:
      "list_all2 (\<lambda>rule res. wr_validate rule ?objs g (typed_context (rq_context req)) = Inr res)
         default_w3_rules results"
      "rp_failures (er_report r) = concat (map vt_failures results)"
      "rp_status (er_report r) = determine_status (rp_failures (er_report r)) (rp_warnings (er_report r))"
      using executed_rules [OF ok] unfolding target appl plain_context graph by blast
    have "rp_failures (er_report r) = [] \<longleftrightarrow> list_all (w3_admissible g (rq_context req)) ?objs"
      unfolding res(2) by (rule default_failures [OF res(1)])
    with False show ?thesis
      unfolding res(3) by (simp add: determine_status_def)
  qed
  then show ?thesis unfolding r by simp
qed

end
