(* ===== verification/Release_Interface.thy ===== *)
theory Release_Interface
  imports Prelude
begin

text \<open>
  The contract that the two action engines share: a release succeeds only for a stored, releasable
  proposal and uses its releasability up, it touches no other proposal, and one that fails changes
  no proposal. From it: along any sequence of release calls every proposal is released at most
  once, and one that is not releasable at the start never is.
\<close>

locale gated_release =
  fixes get :: "'e \<Rightarrow> uuid \<Rightarrow> 'p option" and releasable :: "'p \<Rightarrow> bool"
    and release :: "'a \<Rightarrow> uuid \<Rightarrow> 'e \<Rightarrow> ('x + 'r) \<times> 'e"
  assumes release_needs: "release a i e = (Inr r, e') \<Longrightarrow> \<exists>p. get e i = Some p \<and> releasable p"
    and release_spends: "release a i e = (Inr r, e') \<Longrightarrow> \<exists>p. get e' i = Some p \<and> \<not> releasable p"
    and release_other: "release a i e = (res, e') \<Longrightarrow> j \<noteq> i \<Longrightarrow> get e' j = get e j"
    and release_fails: "release a i e = (Inl x, e') \<Longrightarrow> get e' i = get e i"
begin

definition is_releasable_at :: "'e \<Rightarrow> uuid \<Rightarrow> bool" where
  "is_releasable_at e i \<longleftrightarrow> (\<exists>p. get e i = Some p \<and> releasable p)"

fun releases :: "('a \<times> uuid) list \<Rightarrow> 'e \<Rightarrow> uuid list \<times> 'e" where
  "releases [] e = ([], e)"
| "releases ((a, i) # cs) e =
     (case release a i e of
        (Inl x, e') \<Rightarrow> releases cs e'
      | (Inr r, e') \<Rightarrow> map_prod (Cons i) id (releases cs e'))"

lemma not_releasable_stays:
  "\<not> is_releasable_at e i \<Longrightarrow> release a j e = (res, e') \<Longrightarrow> \<not> is_releasable_at e' i"
proof (cases "j = i")
  case True
  assume "\<not> is_releasable_at e i" and r: "release a j e = (res, e')"
  with True release_needs have "\<exists>x. res = Inl x"
    unfolding is_releasable_at_def by (cases res) blast+
  with r True release_fails \<open>\<not> is_releasable_at e i\<close> show ?thesis
    unfolding is_releasable_at_def by fastforce
next
  case False
  assume "\<not> is_releasable_at e i" and "release a j e = (res, e')"
  with False release_other show ?thesis
    unfolding is_releasable_at_def by metis
qed

lemma never_released: "\<not> is_releasable_at e i \<Longrightarrow> i \<notin> set (fst (releases cs e))"
proof (induction cs e rule: releases.induct)
  case (2 a j cs e)
  obtain res e' where r: "release a j e = (res, e')" by fastforce
  have stays: "\<not> is_releasable_at e' i" by (rule not_releasable_stays [OF 2(3) r])
  show ?case
  proof (cases res)
    case (Inl x)
    from 2(1) [OF r [symmetric] Inl stays] Inl r show ?thesis by simp
  next
    case (Inr y)
    with r 2(3) release_needs have "j \<noteq> i"
      unfolding is_releasable_at_def by blast
    from 2(2) [OF r [symmetric] Inr stays] Inr r \<open>j \<noteq> i\<close> show ?thesis by simp
  qed
qed simp

lemma released_once: "distinct (fst (releases cs e))"
proof (induction cs e rule: releases.induct)
  case (2 a j cs e)
  obtain res e' where r: "release a j e = (res, e')" by fastforce
  show ?case
  proof (cases res)
    case (Inl x)
    from 2(1) [OF r [symmetric] Inl] Inl r show ?thesis by simp
  next
    case (Inr y)
    with r release_spends have "\<not> is_releasable_at e' j"
      unfolding is_releasable_at_def by fastforce
    with never_released 2(2) [OF r [symmetric] Inr] Inr r show ?thesis by simp
  qed
qed simp

lemma released_were_releasable: "i \<in> set (fst (releases cs e)) \<Longrightarrow> is_releasable_at e i"
  using never_released by blast

end

end
