(* ===== verification/Actions.thy ===== *)
theory Actions
  imports Validation_Chain Release_Interface "HOL-Library.List_Lexorder" "HOL-Library.Char_ord"
begin

text \<open>
  The action engine, \<^verbatim>\<open>app/core/action/types.py\<close>, \<^verbatim>\<open>manifest.py\<close> and \<^verbatim>\<open>engine.py\<close>: an action is
  proposed only for stored objects with evidence that pass the validation chain, is approved or
  rejected, and released when its mode allows. The engine and its validation chain share one graph
  service (\<^verbatim>\<open>app/core/fabric_service.py\<close>), so the state keeps it once. UUIDs are sorted by their
  text.
\<close>

section \<open>Types\<close>

datatype action_type =
    AT_CREDIT_NOTE | AT_INVOICE_ADJUSTMENT | AT_PENALTY_CHARGE | AT_SLA_ESCALATION
  | AT_WORK_ORDER_DISPATCH | AT_BILLING_HOLD | AT_RATE_CORRECTION | AT_RECOVERY_RECOMMENDATION
  | AT_DISPUTE_FILING | AT_CUSTOM

fun action_type_value :: "action_type \<Rightarrow> string" where
  "action_type_value AT_CREDIT_NOTE = ''credit_note''"
| "action_type_value AT_INVOICE_ADJUSTMENT = ''invoice_adjustment''"
| "action_type_value AT_PENALTY_CHARGE = ''penalty_charge''"
| "action_type_value AT_SLA_ESCALATION = ''sla_escalation''"
| "action_type_value AT_WORK_ORDER_DISPATCH = ''work_order_dispatch''"
| "action_type_value AT_BILLING_HOLD = ''billing_hold''"
| "action_type_value AT_RATE_CORRECTION = ''rate_correction''"
| "action_type_value AT_RECOVERY_RECOMMENDATION = ''recovery_recommendation''"
| "action_type_value AT_DISPUTE_FILING = ''dispute_filing''"
| "action_type_value AT_CUSTOM = ''custom''"

datatype action_mode = AM_DRY_RUN | AM_APPROVAL_GATED | AM_AUTO_RELEASE

datatype action_status =
    AS_PROPOSED | AS_VALIDATED | AS_PENDING_APPROVAL | AS_APPROVED | AS_RELEASED | AS_EXECUTED
  | AS_REJECTED | AS_FAILED | AS_DRY_RUN_COMPLETE

fun action_status_value :: "action_status \<Rightarrow> string" where
  "action_status_value AS_PROPOSED = ''proposed''"
| "action_status_value AS_VALIDATED = ''validated''"
| "action_status_value AS_PENDING_APPROVAL = ''pending_approval''"
| "action_status_value AS_APPROVED = ''approved''"
| "action_status_value AS_RELEASED = ''released''"
| "action_status_value AS_EXECUTED = ''executed''"
| "action_status_value AS_REJECTED = ''rejected''"
| "action_status_value AS_FAILED = ''failed''"
| "action_status_value AS_DRY_RUN_COMPLETE = ''dry_run_complete''"

record action_manifest =
  am_id :: uuid
  am_tenant_id :: uuid
  am_action_type :: action_type
  am_target_object_ids :: "uuid list"
  am_evidence_refs :: "evidence_ref list"
  am_validation_result_id :: "uuid option"
  am_reasoning_result_id :: "uuid option"
  am_reconciliation_result_id :: "uuid option"
  am_parameters :: "(string, json) dict"
  am_decision_hash :: string

definition am_compute_hash :: "(json \<Rightarrow> string) \<Rightarrow> action_manifest \<Rightarrow> action_manifest" where
  "am_compute_hash hash m =
     (let data = JObj
        [(''action_type'', JStr (action_type_value (am_action_type m))),
         (''target_object_ids'', JList (map JStr (sort (am_target_object_ids m)))),
         (''evidence_refs'', JList (map JStr (sort (map er_evidence_id (am_evidence_refs m))))),
         (''parameters'', JObj (am_parameters m))]
      in m\<lparr>am_decision_hash := hash data\<rparr>)"

record action_proposal =
  ap_id :: uuid
  ap_tenant_id :: uuid
  ap_type :: action_type
  ap_mode :: action_mode
  ap_status :: action_status
  ap_manifest :: action_manifest
  ap_validation_result :: "validation_chain_result option"
  ap_eligibility :: action_eligibility
  ap_description :: string
  ap_financial_impact :: rat
  ap_confidence :: pyfloat
  ap_created_at :: "time option"
  ap_released_at :: "time option"
  ap_approved_by :: "string option"
  ap_metadata :: "(string, json) dict"

definition ap_is_releasable :: "action_proposal \<Rightarrow> bool" where
  "ap_is_releasable p =
     (if ap_status p = AS_REJECTED then False
      else if ap_eligibility p \<noteq> AE_ELIGIBLE then False
      else (case ap_mode p of
              AM_APPROVAL_GATED \<Rightarrow> ap_status p = AS_APPROVED
            | AM_AUTO_RELEASE \<Rightarrow> ap_status p = AS_VALIDATED
            | AM_DRY_RUN \<Rightarrow> False))"

section \<open>The manifest\<close>

definition build_manifest ::
  "(json \<Rightarrow> string) \<Rightarrow> uuid \<Rightarrow> uuid \<Rightarrow> action_type \<Rightarrow> control_object list
     \<Rightarrow> (string, json) dict option \<Rightarrow> uuid option \<Rightarrow> uuid option \<Rightarrow> uuid option \<Rightarrow> action_manifest" where
  "build_manifest hash fresh tenant_id action_type objects parameters vid rid cid =
     am_compute_hash hash
       \<lparr>am_id = fresh, am_tenant_id = tenant_id, am_action_type = action_type,
        am_target_object_ids = map co_id objects,
        am_evidence_refs = concat (map co_evidence objects),
        am_validation_result_id = vid, am_reasoning_result_id = rid,
        am_reconciliation_result_id = cid,
        am_parameters = (case parameters of Some p \<Rightarrow> p | None \<Rightarrow> []), am_decision_hash = []\<rparr>"

section \<open>The engine\<close>

record 'c action_engine =
  ae_graph :: "'c graph_service"
  ae_rules :: "'c validation_rule list"
  ae_registry :: "'c fabric_registry"
  ae_proposals :: "(uuid, action_proposal) dict"

type_synonym ('c, 'a) ae_result = "(fabric_error, 'c action_engine, 'a) res"

definition new_action_engine ::
  "'c graph_service \<Rightarrow> 'c validation_rule list \<Rightarrow> 'c fabric_registry \<Rightarrow> 'c action_engine" where
  "new_action_engine g rules reg =
     \<lparr>ae_graph = g, ae_rules = rules, ae_registry = reg, ae_proposals = []\<rparr>"

definition ae_get_proposal :: "'c action_engine \<Rightarrow> uuid \<Rightarrow> action_proposal option" where
  "ae_get_proposal e proposal_id = dget (ae_proposals e) proposal_id"

text \<open>The proposal kept under a key is updated in place.\<close>

definition ae_put :: "uuid \<Rightarrow> action_proposal \<Rightarrow> 'c action_engine \<Rightarrow> 'c action_engine" where
  "ae_put i p e = e\<lparr>ae_proposals := dput i p (ae_proposals e)\<rparr>"

definition ae_resolve :: "'c action_engine \<Rightarrow> uuid list \<Rightarrow> control_object list" where
  "ae_resolve e ids = List.map_filter (gs_get_object (ae_graph e)) ids"

definition initial_status :: "action_mode \<Rightarrow> action_status \<times> action_eligibility" where
  "initial_status mode =
     (case mode of
        AM_DRY_RUN \<Rightarrow> (AS_DRY_RUN_COMPLETE, AE_INELIGIBLE)
      | AM_AUTO_RELEASE \<Rightarrow> (AS_VALIDATED, AE_ELIGIBLE)
      | AM_APPROVAL_GATED \<Rightarrow> (AS_PENDING_APPROVAL, AE_PENDING_APPROVAL))"

text \<open>The identifiers drawn by one proposal: of the chain result, the manifest and the proposal.\<close>

record proposal_ids =
  pi_result :: uuid
  pi_manifest :: uuid
  pi_proposal :: uuid

definition propose_action ::
  "(json \<Rightarrow> string) \<Rightarrow> proposal_ids \<Rightarrow> time \<Rightarrow> uuid \<Rightarrow> action_type \<Rightarrow> uuid list \<Rightarrow> action_mode
     \<Rightarrow> (string, json) dict option \<Rightarrow> string \<Rightarrow> rule_context option \<Rightarrow> 'c action_engine
     \<Rightarrow> ('c, action_proposal) ae_result" where
  "propose_action hash ids now tenant_id action_type target_object_ids mode parameters description ctx e =
     (let objects = ae_resolve e target_object_ids
      in if objects = []
         then (Inl (ActionWithoutEvidenceError [Lit ''No valid target objects found for action'']), e)
         else
           let total_evidence = sum_list (map (\<lambda>ob. length (co_evidence ob)) objects)
           in if total_evidence = 0
              then (Inl (ActionWithoutEvidenceError
                      [Lit ''Action requires at least one evidence reference across target objects'']), e)
              else
                (case chain_validate hash (pi_result ids) now tenant_id objects
                        (action_type_value action_type) ctx
                        \<lparr>vc_graph = ae_graph e, vc_rules = ae_rules e\<rparr> of
                   Inl err \<Rightarrow> (Inl err, e)
                 | Inr validation_result \<Rightarrow>
                     if \<not> vr_is_actionable validation_result
                     then (Inl (ActionWithoutValidationError
                             [Lit ''Validation chain failed: '',
                              NumI (int (vr_failed_count validation_result)),
                              Lit '' failures. Action cannot proceed without passing validation.'']), e)
                     else
                       let manifest = build_manifest hash (pi_manifest ids) tenant_id action_type objects
                             parameters (Some (vr_id validation_result)) None None;
                           proposal =
                             \<lparr>ap_id = pi_proposal ids, ap_tenant_id = tenant_id, ap_type = action_type,
                              ap_mode = mode, ap_status = fst (initial_status mode),
                              ap_manifest = manifest, ap_validation_result = Some validation_result,
                              ap_eligibility = snd (initial_status mode), ap_description = description,
                              ap_financial_impact = 0,
                              ap_confidence = pf_min_list (map co_confidence objects),
                              ap_created_at = Some now, ap_released_at = None, ap_approved_by = None,
                              ap_metadata = []\<rparr>
                       in (Inr proposal, ae_put (ap_id proposal) proposal e)))"

definition proposal_not_found :: "uuid \<Rightarrow> fabric_error" where
  "proposal_not_found i = ActionWithoutValidationError [Lit ''Proposal '', Lit i, Lit '' not found'']"

definition approve_action ::
  "uuid \<Rightarrow> string \<Rightarrow> 'c action_engine \<Rightarrow> ('c, action_proposal) ae_result" where
  "approve_action proposal_id approver e =
     (case ae_get_proposal e proposal_id of
        None \<Rightarrow> (Inl (proposal_not_found proposal_id), e)
      | Some proposal \<Rightarrow>
          if ap_mode proposal \<noteq> AM_APPROVAL_GATED
          then (Inl (ActionWithoutValidationError
                  [Lit ''Only approval-gated actions require approval'']), e)
          else let proposal = proposal\<lparr>ap_status := AS_APPROVED, ap_eligibility := AE_ELIGIBLE,
                                       ap_approved_by := Some approver\<rparr>
               in (Inr proposal, ae_put proposal_id proposal e))"

definition reject_action ::
  "uuid \<Rightarrow> string \<Rightarrow> 'c action_engine \<Rightarrow> ('c, action_proposal) ae_result" where
  "reject_action proposal_id reason e =
     (case ae_get_proposal e proposal_id of
        None \<Rightarrow> (Inl (proposal_not_found proposal_id), e)
      | Some proposal \<Rightarrow>
          let proposal = proposal\<lparr>ap_status := AS_REJECTED, ap_eligibility := AE_INELIGIBLE\<rparr>;
              proposal = (if reason \<noteq> []
                          then proposal\<lparr>ap_metadata := dput ''rejection_reason'' (JStr reason)
                                          (ap_metadata proposal)\<rparr>
                          else proposal)
          in (Inr proposal, ae_put proposal_id proposal e))"

text \<open>The loop of \<open>release_action\<close> over the targets of the manifest.\<close>

fun mark_targets ::
  "audit_context \<Rightarrow> time \<Rightarrow> uuid list \<Rightarrow> 'c graph_service
     \<Rightarrow> (fabric_error, 'c graph_service, unit) res" where
  "mark_targets audit now [] g = (Inr (), g)"
| "mark_targets audit now (oid # oids) g =
     (case gs_get_object g oid of
        None \<Rightarrow> mark_targets audit now oids g
      | Some obj \<Rightarrow>
          if co_state obj = CS_RECONCILED
          then (case mark_actioned audit now obj of
                  (Inl err, obj') \<Rightarrow> (Inl err, gs_store obj' g)
                | (Inr _, obj') \<Rightarrow> mark_targets audit now oids (gs_store obj' g))
          else mark_targets audit now oids g)"

definition release_action ::
  "string \<times> time \<Rightarrow> uuid \<Rightarrow> 'c action_engine \<Rightarrow> ('c, action_proposal) ae_result" where
  "release_action actor_now proposal_id e =
     (case ae_get_proposal e proposal_id of
        None \<Rightarrow> (Inl (proposal_not_found proposal_id), e)
      | Some proposal \<Rightarrow>
          if \<not> ap_is_releasable proposal
          then (Inl (ActionWithoutValidationError
                  [Lit ''Action is not releasable: status='',
                   Lit (action_status_value (ap_status proposal)), Lit '', eligibility='',
                   Lit (eligibility_value (ap_eligibility proposal))]), e)
          else
            let proposal = proposal\<lparr>ap_status := AS_RELEASED, ap_released_at := Some (snd actor_now)\<rparr>;
                e = ae_put proposal_id proposal e;
                audit = audit_of (fst actor_now)
                          (''actioned_via_'' @ action_type_value (ap_type proposal)) (snd actor_now)
            in case mark_targets audit (snd actor_now)
                      (am_target_object_ids (ap_manifest proposal)) (ae_graph e) of
                 (Inl err, g) \<Rightarrow> (Inl err, e\<lparr>ae_graph := g\<rparr>)
               | (Inr _, g) \<Rightarrow> (Inr proposal, e\<lparr>ae_graph := g\<rparr>))"

definition ae_list_proposals ::
  "'c action_engine \<Rightarrow> uuid \<Rightarrow> action_status option \<Rightarrow> action_proposal list" where
  "ae_list_proposals e tenant_id status =
     filter_opt status ap_status (filter (\<lambda>p. ap_tenant_id p = tenant_id) (dvalues (ae_proposals e)))"

section \<open>The targets of a release\<close>

lemma mark_actioned_reconciled:
  "co_state ob = CS_RECONCILED \<Longrightarrow> mark_actioned a n ob =
     (Inr (), ob\<lparr>co_state := CS_ACTIONED, co_updated_at := n, co_audit_trail := co_audit_trail ob @ [a]\<rparr>)"
  by (simp add: mark_actioned_def transition_state_def)

lemma mark_targets_total: "\<exists>g'. mark_targets a n ids g = (Inr (), g')"
  by (induction a n ids g rule: mark_targets.induct)
    (simp_all add: mark_actioned_reconciled split: option.split)

definition marked :: "audit_context \<Rightarrow> time \<Rightarrow> control_object \<Rightarrow> control_object" where
  "marked a n ob = (if co_state ob = CS_RECONCILED
     then ob\<lparr>co_state := CS_ACTIONED, co_updated_at := n, co_audit_trail := co_audit_trail ob @ [a]\<rparr>
     else ob)"

lemma marked_simps [simp]:
  "co_id (marked a n ob) = co_id ob" "marked a n (marked a n ob) = marked a n ob"
  by (simp_all add: marked_def)

lemma marked_other: "co_state ob \<noteq> CS_RECONCILED \<Longrightarrow> marked a n ob = ob"
  by (simp add: marked_def)

lemma mark_targets_objects:
  assumes "mark_targets a n ids g = (r, g')" and "repo_wf (gs_repo g)"
  shows "gs_get_object g' i =
    (if i \<in> set ids then map_option (marked a n) (gs_get_object g i) else gs_get_object g i)"
  using assms
proof (induction a n ids g arbitrary: g' rule: mark_targets.induct)
  case (2 a n oid oids g)
  show ?case
  proof (cases "gs_get_object g oid")
    case None
    with 2 show ?thesis by auto
  next
    case (Some ob)
    then have id: "co_id ob = oid"
      using 2(5) get_object_id by (simp add: gs_get_object_def)
    show ?thesis
    proof (cases "co_state ob = CS_RECONCILED")
      case True
      let ?ob = "marked a n ob"
      have "mark_targets a n oids (gs_store ?ob g) = (r, g')"
        using 2(4) Some True by (simp add: mark_actioned_reconciled marked_def)
      moreover have "repo_wf (gs_repo (gs_store ?ob g))" using 2(5) by simp
      ultimately have "gs_get_object g' i = (if i \<in> set oids
          then map_option (marked a n) (gs_get_object (gs_store ?ob g) i)
          else gs_get_object (gs_store ?ob g) i)"
        using 2(2) [OF Some True] True by (simp add: mark_actioned_reconciled marked_def)
      with Some True id show ?thesis
        by (auto simp: gs_get_object_def)
    next
      case False
      with 2 Some show ?thesis by (auto simp: marked_other)
    qed
  qed
qed simp

lemma mark_targets_steps:
  "mark_targets a n ids g = (r, g') \<Longrightarrow> repo_step\<^sup>*\<^sup>* (gs_repo g) (gs_repo g')"
proof (induction a n ids g arbitrary: g' rule: mark_targets.induct)
  case (2 a n oid oids g)
  show ?case
  proof (cases "gs_get_object g oid")
    case None
    with 2 show ?thesis by auto
  next
    case (Some ob)
    show ?thesis
    proof (cases "co_state ob = CS_RECONCILED")
      case True
      let ?ob = "snd (mark_actioned a n ob)"
      have "mark_targets a n oids (gs_store ?ob g) = (r, g')"
        using 2(4) Some True by (simp add: mark_actioned_reconciled)
      then have "repo_step\<^sup>*\<^sup>* (gs_repo (gs_store ?ob g)) (gs_repo g')"
        using 2(2) [OF Some True] True by (simp add: mark_actioned_reconciled)
      moreover have "repo_step\<^sup>*\<^sup>* (gs_repo g) (gs_repo (gs_store ?ob g))"
        using Some co_step_ok [OF step_actioned] by (auto simp: gs_get_object_def intro: rs_updates)
      ultimately show ?thesis by (rule rtranclp_trans [rotated])
    next
      case False
      with 2 Some show ?thesis by auto
    qed
  qed
qed simp

end
