(* ===== verification/Action_Props.thy ===== *)
theory Action_Props
  imports Actions
begin

text \<open>
  The action engine as a gate: what a proposal needs, what a stored proposal carries in every
  reachable state, and what a release does to the graph. The engine provides the release contract
  of the shared interface.
\<close>

lemma ae_put_simps [simp]:
  "ae_get_proposal (ae_put i p e) j = (if j = i then Some p else ae_get_proposal e j)"
  "ae_graph (ae_put i p e) = ae_graph e" "ae_rules (ae_put i p e) = ae_rules e"
  "ae_get_proposal (e\<lparr>ae_graph := g\<rparr>) j = ae_get_proposal e j"
  by (simp_all add: ae_put_def ae_get_proposal_def)

text \<open>The three outcomes of a release.\<close>

lemma release_cases:
  assumes "release_action an i e = (res, e')"
  obtains (missing) "ae_get_proposal e i = None" "e' = e" "\<exists>x. res = Inl x"
  | (refused) p where "ae_get_proposal e i = Some p" "\<not> ap_is_releasable p" "e' = e" "\<exists>x. res = Inl x"
  | (released) p g where "ae_get_proposal e i = Some p" "ap_is_releasable p"
      "res = Inr (p\<lparr>ap_status := AS_RELEASED, ap_released_at := Some (snd an)\<rparr>)"
      "e' = (ae_put i (p\<lparr>ap_status := AS_RELEASED, ap_released_at := Some (snd an)\<rparr>) e)\<lparr>ae_graph := g\<rparr>"
      "mark_targets (audit_of (fst an) (''actioned_via_'' @ action_type_value (ap_type p)) (snd an)) (snd an)
         (am_target_object_ids (ap_manifest p)) (ae_graph e) = (Inr (), g)"
proof (cases "ae_get_proposal e i")
  case None
  with assms have "e' = e" "\<exists>x. res = Inl x" by (auto simp: release_action_def)
  with None show thesis by (rule missing)
next
  case (Some p)
  show thesis
  proof (cases "ap_is_releasable p")
    case False
    with assms Some have "e' = e" "\<exists>x. res = Inl x" by (auto simp: release_action_def)
    with Some False show thesis by (rule refused)
  next
    case True
    obtain g where g: "mark_targets (audit_of (fst an) (''actioned_via_'' @ action_type_value (ap_type p)) (snd an))
         (snd an) (am_target_object_ids (ap_manifest p)) (ae_graph e) = (Inr (), g)"
      using mark_targets_total by blast
    with assms Some True have
      "res = Inr (p\<lparr>ap_status := AS_RELEASED, ap_released_at := Some (snd an)\<rparr>)"
      "e' = (ae_put i (p\<lparr>ap_status := AS_RELEASED, ap_released_at := Some (snd an)\<rparr>) e)\<lparr>ae_graph := g\<rparr>"
      by (auto simp: release_action_def Let_def)
    with Some True show thesis using g by (rule released)
  qed
qed

lemma released_not_releasable: "ap_status p = AS_RELEASED \<Longrightarrow> \<not> ap_is_releasable p"
  by (simp add: ap_is_releasable_def split: action_mode.split)

interpretation act: gated_release ae_get_proposal ap_is_releasable release_action
proof
  fix an i and e e' :: "'c action_engine" and r
  assume r: "release_action an i e = (Inr r, e')"
  then show "\<exists>p. ae_get_proposal e i = Some p \<and> ap_is_releasable p"
    by (cases rule: release_cases) auto
  from r show "\<exists>p. ae_get_proposal e' i = Some p \<and> \<not> ap_is_releasable p"
    by (cases rule: release_cases) (auto simp: released_not_releasable)
next
  fix an i j and e e' :: "'c action_engine" and res
  assume "release_action an i e = (res, e')" and "j \<noteq> i"
  then show "ae_get_proposal e' j = ae_get_proposal e j"
    by (cases rule: release_cases) auto
next
  fix an i and e e' :: "'c action_engine" and x
  assume "release_action an i e = (Inl x, e')"
  then show "ae_get_proposal e' i = ae_get_proposal e i"
    by (cases rule: release_cases) auto
qed

section \<open>Proposing\<close>

definition engine_chain :: "'c action_engine \<Rightarrow> 'c validation_chain" where
  "engine_chain e = \<lparr>vc_graph = ae_graph e, vc_rules = ae_rules e\<rparr>"

lemma propose_Inr:
  assumes "propose_action hash ids now tn ty targets mode ps desc ctx e = (Inr p, e')"
  shows "\<exists>r. chain_validate hash (pi_result ids) now tn (ae_resolve e targets) (action_type_value ty) ctx
      (engine_chain e) = Inr r \<and> vr_is_actionable r \<and> ap_validation_result p = Some r"
    and "am_evidence_refs (ap_manifest p) = concat (map co_evidence (ae_resolve e targets))"
    and "am_evidence_refs (ap_manifest p) \<noteq> []"
    and "ap_mode p = mode \<and> ap_status p = fst (initial_status mode) \<and>
      ap_eligibility p = snd (initial_status mode) \<and> ap_approved_by p = None"
    and "e' = ae_put (pi_proposal ids) p e"
  using assms
  by (auto simp: propose_action_def engine_chain_def build_manifest_def am_compute_hash_def Let_def
      split: if_splits sum.splits)

text \<open>Proposing succeeds exactly when targets are stored, some carry evidence and the chain admits them.\<close>

lemma propose_iff:
  "(\<exists>p e'. propose_action hash ids now tn ty targets mode ps desc ctx e = (Inr p, e')) \<longleftrightarrow>
     ae_resolve e targets \<noteq> [] \<and> list_ex (\<lambda>ob. co_evidence ob \<noteq> []) (ae_resolve e targets) \<and>
     (\<exists>r. chain_validate hash (pi_result ids) now tn (ae_resolve e targets) (action_type_value ty) ctx
        (engine_chain e) = Inr r \<and> vr_is_actionable r)"
proof -
  have "sum_list (map (\<lambda>ob. length (co_evidence ob)) obs) = 0 \<longleftrightarrow> \<not> list_ex (\<lambda>ob. co_evidence ob \<noteq> []) obs"
    for obs by (induction obs) auto
  then show ?thesis
    by (auto simp: propose_action_def engine_chain_def Let_def split: sum.split)
qed

section \<open>What every stored proposal carries\<close>

definition proposal_ok :: "action_proposal \<Rightarrow> bool" where
  "proposal_ok p \<longleftrightarrow>
     (\<exists>r. ap_validation_result p = Some r \<and> vr_is_actionable r) \<and>
     am_evidence_refs (ap_manifest p) \<noteq> [] \<and>
     (ap_mode p = AM_DRY_RUN \<longrightarrow> ap_eligibility p = AE_INELIGIBLE \<and> ap_status p \<noteq> AS_RELEASED) \<and>
     (ap_mode p = AM_APPROVAL_GATED \<and> ap_status p \<in> {AS_APPROVED, AS_RELEASED} \<longrightarrow>
        ap_approved_by p \<noteq> None)"

definition engine_ok :: "'c action_engine \<Rightarrow> bool" where
  "engine_ok e \<longleftrightarrow> (\<forall>i p. ae_get_proposal e i = Some p \<longrightarrow> proposal_ok p)"

inductive ae_step :: "'c action_engine \<Rightarrow> 'c action_engine \<Rightarrow> bool" where
  step_propose: "ae_step e (snd (propose_action hash ids now tn ty targets mode ps desc ctx e))"
| step_approve: "ae_step e (snd (approve_action i approver e))"
| step_reject: "ae_step e (snd (reject_action i reason e))"
| step_release: "ae_step e (snd (release_action an i e))"

lemma engine_ok_put: "engine_ok e \<Longrightarrow> proposal_ok p \<Longrightarrow> engine_ok (ae_put i p e)"
  by (simp add: engine_ok_def)

lemma proposal_ok_new:
  assumes "propose_action hash ids now tn ty targets mode ps desc ctx e = (Inr p, e')"
  shows "proposal_ok p"
proof -
  note pr = propose_Inr [OF assms]
  have "ap_mode p = AM_DRY_RUN \<longrightarrow> ap_eligibility p = AE_INELIGIBLE \<and> ap_status p \<noteq> AS_RELEASED"
    using pr(4) by (auto simp: initial_status_def)
  moreover have "ap_mode p = AM_APPROVAL_GATED \<longrightarrow> ap_status p \<notin> {AS_APPROVED, AS_RELEASED}"
    using pr(4) by (auto simp: initial_status_def)
  ultimately show ?thesis
    using pr(1,3) unfolding proposal_ok_def by blast
qed

lemma propose_Inl:
  "propose_action hash ids now tn ty targets mode ps desc ctx e = (Inl x, e') \<Longrightarrow> e' = e"
  by (auto simp: propose_action_def Let_def split: if_splits sum.splits)

lemma proposal_ok_release: "proposal_ok p \<Longrightarrow> ap_is_releasable p \<Longrightarrow>
    proposal_ok (p\<lparr>ap_status := AS_RELEASED, ap_released_at := t\<rparr>)"
  by (auto simp: proposal_ok_def ap_is_releasable_def split: action_mode.splits if_splits)

lemma ae_step_ok: "ae_step e e' \<Longrightarrow> engine_ok e \<Longrightarrow> engine_ok e'"
proof (induction rule: ae_step.induct)
  case (step_propose e hash ids now tn ty targets mode ps desc ctx)
  obtain res e' where r: "propose_action hash ids now tn ty targets mode ps desc ctx e = (res, e')"
    by fastforce
  show ?case
  proof (cases res)
    case (Inl x)
    with r propose_Inl step_propose show ?thesis by fastforce
  next
    case (Inr p)
    note pr = r [unfolded Inr]
    have "e' = ae_put (pi_proposal ids) p e" "proposal_ok p"
      using propose_Inr(5) [OF pr] proposal_ok_new [OF pr] by simp_all
    with r step_propose show ?thesis by (simp add: engine_ok_put)
  qed
next
  case (step_approve e i approver)
  then show ?case
    by (auto simp: approve_action_def engine_ok_def proposal_ok_def Let_def split: option.split)
next
  case (step_reject e i reason)
  then show ?case
    by (auto simp: reject_action_def engine_ok_def proposal_ok_def Let_def split: option.split)
next
  case (step_release e an i)
  obtain res e' where r: "release_action an i e = (res, e')" by fastforce
  then have "engine_ok e'"
  proof (cases rule: release_cases)
    case (released p g)
    then have "proposal_ok (p\<lparr>ap_status := AS_RELEASED, ap_released_at := Some (snd an)\<rparr>)"
      using step_release proposal_ok_release by (auto simp: engine_ok_def)
    then have "engine_ok (ae_put i (p\<lparr>ap_status := AS_RELEASED, ap_released_at := Some (snd an)\<rparr>) e)"
      using step_release by (intro engine_ok_put)
    with released(4) show ?thesis by (simp add: engine_ok_def)
  qed (use step_release in simp_all)
  with r show ?case by simp
qed

lemma ae_steps_ok: "ae_step\<^sup>*\<^sup>* e e' \<Longrightarrow> engine_ok e \<Longrightarrow> engine_ok e'"
  by (induction rule: rtranclp_induct) (auto intro: ae_step_ok)

lemma ae_step_repo: "ae_step e e' \<Longrightarrow> repo_step\<^sup>*\<^sup>* (gs_repo (ae_graph e)) (gs_repo (ae_graph e'))"
proof (induction rule: ae_step.induct)
  case (step_propose e hash ids now tn ty targets mode ps desc ctx)
  obtain res e' where r: "propose_action hash ids now tn ty targets mode ps desc ctx e = (res, e')"
    by fastforce
  then have "ae_graph e' = ae_graph e"
    using propose_Inl propose_Inr(5) by (cases res) fastforce+
  with r show ?case by simp
next
  case (step_approve e i approver)
  then show ?case by (simp add: approve_action_def Let_def split: option.split)
next
  case (step_reject e i reason)
  then show ?case by (simp add: reject_action_def Let_def split: option.split)
next
  case (step_release e an i)
  obtain res e' where r: "release_action an i e = (res, e')" by fastforce
  then have "repo_step\<^sup>*\<^sup>* (gs_repo (ae_graph e)) (gs_repo (ae_graph e'))"
    by (cases rule: release_cases) (auto intro: mark_targets_steps)
  with r show ?case by simp
qed

lemma ae_steps_inv:
  "ae_step\<^sup>*\<^sup>* e e' \<Longrightarrow> graph_inv (gs_repo (ae_graph e)) \<Longrightarrow> graph_inv (gs_repo (ae_graph e'))"
  by (induction rule: rtranclp_induct) (auto intro: repo_steps_inv ae_step_repo)

lemma reject_stored:
  "ae_get_proposal e i = Some p \<Longrightarrow>
     \<exists>q. reject_action i reason e = (Inr q, ae_put i q e) \<and> ap_mode q = ap_mode p \<and>
       ap_status q = AS_REJECTED"
  by (simp add: reject_action_def Let_def)

section \<open>Properties\<close>

text \<open>C13: With the default rules, an action is accepted exactly when some target is stored, every
  stored target is admissible (label, domain, evidence, creator, a confidence that is not below one
  half, which a NaN never is, no dispute, no contradiction, reconciled if the context asks for it)
  and the \<open>required_states\<close> of the context can be searched. Everything else raises.\<close>

theorem propose_admits_exactly:
  "(\<exists>p e'. propose_action hash ids now tn ty targets mode ps desc (Some ctx)
       (new_action_engine g default_validation_rules reg) = (Inr p, e')) \<longleftrightarrow>
     (let objs = List.map_filter (gs_get_object g) targets
      in objs \<noteq> [] \<and> list_all (object_admissible g ctx) objs \<and>
         well_formed_states (required_states_of ctx))"
proof -
  let ?e = "new_action_engine g default_validation_rules reg"
  let ?objs = "List.map_filter (gs_get_object g) targets"
  have objs: "ae_resolve ?e targets = ?objs" by (simp add: ae_resolve_def new_action_engine_def)
  have chain: "engine_chain ?e = new_validation_chain g None"
    by (simp add: engine_chain_def new_action_engine_def new_validation_chain_def)
  have ev: "list_ex (\<lambda>ob. co_evidence ob \<noteq> []) ?objs"
    if "?objs \<noteq> []" "list_all (object_admissible g ctx) ?objs"
    using that by (cases ?objs) (auto simp: object_admissible_def)
  have gate: "(\<exists>r. chain_validate hash (pi_result ids) now tn ?objs (action_type_value ty) (Some ctx)
        (new_validation_chain g None) = Inr r \<and> vr_is_actionable r) \<longleftrightarrow>
      list_all (object_admissible g ctx) ?objs \<and> well_formed_states (required_states_of ctx)"
    if "?objs \<noteq> []"
  proof -
    note ne = that
    obtain r where r: "chain_validate hash (pi_result ids) now tn ?objs (action_type_value ty) (Some ctx)
        (new_validation_chain g None) = Inr r"
      using chain_validate_total [OF ne] by blast
    from default_chain_result [OF r] r show ?thesis by auto
  qed
  show ?thesis
    unfolding propose_iff objs chain Let_def using gate ev by blast
qed

definition sample_evidence :: evidence_ref where
  "sample_evidence = \<lparr>er_evidence_id = ''e'', er_evidence_type = ''photo'', er_source_label = ''site'',
     er_source_id = None, er_confidence = 1\<rparr>"

text \<open>A graph with one reconciled object that has evidence, and an action released on it.\<close>

definition sample_graph :: "unit graph_service" where
  "sample_graph = gs_store ((sample_object ''o'')\<lparr>co_state := CS_RECONCILED, co_evidence := [sample_evidence]\<rparr>)
     (new_graph_service new_registry)"

definition sample_engine :: "unit action_engine" where
  "sample_engine = snd (propose_action (\<lambda>_. ''h'') \<lparr>pi_result = ''r'', pi_manifest = ''m'', pi_proposal = ''p''\<rparr>
     0 ''t'' AT_BILLING_HOLD [''o''] AM_AUTO_RELEASE None [] None
     (new_action_engine sample_graph default_validation_rules new_registry))"

text \<open>C14: In every state the engine can reach from an empty one, a released action passed the
  validation chain, carries evidence, is no dry run, and, if it needed approval, names its approver.\<close>

theorem released_actions_were_gated:
  assumes "ae_step\<^sup>*\<^sup>* (new_action_engine g rules reg) e" and "ae_get_proposal e i = Some p"
    and "ap_status p = AS_RELEASED"
  shows "(\<exists>r. ap_validation_result p = Some r \<and> vr_is_actionable r) \<and>
    am_evidence_refs (ap_manifest p) \<noteq> [] \<and> ap_mode p \<noteq> AM_DRY_RUN \<and>
    (ap_mode p = AM_APPROVAL_GATED \<longrightarrow> ap_approved_by p \<noteq> None)"
proof -
  have "engine_ok (new_action_engine g rules reg)"
    by (simp add: engine_ok_def new_action_engine_def ae_get_proposal_def)
  with ae_steps_ok [OF assms(1)] assms(2) have "proposal_ok p"
    by (simp add: engine_ok_def)
  with assms(3) show ?thesis
    by (auto simp: proposal_ok_def)
qed

definition sample_released :: "unit action_engine" where
  "sample_released = snd (release_action (''ops'', 1) ''p'' sample_engine)"

lemma sample_released_steps:
  "ae_step\<^sup>*\<^sup>* (new_action_engine sample_graph default_validation_rules new_registry) sample_released"
proof -
  have "ae_step (new_action_engine sample_graph default_validation_rules new_registry) sample_engine"
    unfolding sample_engine_def by (rule step_propose)
  moreover have "ae_step sample_engine sample_released"
    unfolding sample_released_def by (rule step_release)
  ultimately show ?thesis by (rule converse_rtranclp_into_rtranclp [OF _ r_into_rtranclp])
qed

lemma sample_released_proposal:
  "map_option ap_status (ae_get_proposal sample_released ''p'') = Some AS_RELEASED"
  by code_simp

theorem released_actions_were_gated_witness:
  "map_option (\<lambda>p. am_evidence_refs (ap_manifest p) \<noteq> []) (ae_get_proposal sample_released ''p'') = Some True"
proof -
  obtain p where "ae_get_proposal sample_released ''p'' = Some p" "ap_status p = AS_RELEASED"
    using sample_released_proposal by auto
  with released_actions_were_gated [OF sample_released_steps] show ?thesis by simp
qed

text \<open>Along any sequence of release calls, without an approval in between, no proposal is released
  twice, and each one released was releasable at the start.\<close>

theorem action_released_once:
  "distinct (fst (act.releases calls e)) \<and>
   set (fst (act.releases calls e)) \<subseteq> {i. \<exists>p. ae_get_proposal e i = Some p \<and> ap_is_releasable p}"
  using act.released_once act.released_were_releasable unfolding act.is_releasable_at_def by blast

text \<open>A release succeeds exactly for a stored releasable proposal. It then marks exactly the
  reconciled targets of the manifest as actioned and changes no other object; refused, it changes
  nothing.\<close>

theorem release_effect:
  assumes "repo_wf (gs_repo (ae_graph e))"
  shows "case release_action (actor, now) i e of
     (Inl err, e') \<Rightarrow> e' = e \<and> \<not> act.is_releasable_at e i
   | (Inr p, e') \<Rightarrow>
       act.is_releasable_at e i \<and> ae_get_proposal e' i = Some p \<and> ap_status p = AS_RELEASED \<and>
       (\<forall>j. gs_get_object (ae_graph e') j =
          (if j \<in> set (am_target_object_ids (ap_manifest p))
           then map_option (marked (audit_of actor (''actioned_via_'' @ action_type_value (ap_type p)) now) now)
                  (gs_get_object (ae_graph e) j)
           else gs_get_object (ae_graph e) j))"
proof (cases "release_action (actor, now) i e")
  case (Pair res e')
  then show ?thesis
  proof (cases rule: release_cases)
    case (released p g)
    from mark_targets_objects [OF released(5) assms] released Pair show ?thesis
      by (simp add: act.is_releasable_at_def)
  qed (use Pair in \<open>auto simp: act.is_releasable_at_def\<close>)
qed

theorem release_effect_witness:
  "repo_wf (gs_repo (ae_graph sample_engine)) \<and>
   (case release_action (''ops'', 1) ''p'' sample_engine of
      (Inl err, e') \<Rightarrow> False | (Inr p, e') \<Rightarrow> act.is_releasable_at sample_engine ''p'')"
proof -
  have g: "gs_repo (ae_graph sample_engine) = gs_repo sample_graph" by code_simp
  have wf: "repo_wf (gs_repo (ae_graph sample_engine))"
    unfolding g sample_graph_def by (simp add: new_graph_service_def)
  moreover have "res_ok (release_action (''ops'', 1) ''p'' sample_engine)" by code_simp
  ultimately show ?thesis
    using release_effect [where actor = "''ops''" and now = 1 and i = "''p''", OF wf]
    by (auto simp: res_ok_def split: sum.splits prod.splits)
qed

text \<open>Rejection is not final: whatever the status of a stored approval-gated proposal, also rejected
  or already released, approving it again succeeds and makes it releasable, and the release then
  succeeds.\<close>

theorem approval_ignores_status:
  assumes "ae_get_proposal e i = Some p" and "ap_mode p = AM_APPROVAL_GATED"
  shows "\<exists>e1 e2 p1 p2. approve_action i approver (snd (reject_action i reason e)) = (Inr p1, e1) \<and>
    release_action an i e1 = (Inr p2, e2) \<and> ap_status p2 = AS_RELEASED"
proof -
  obtain p' where p': "snd (reject_action i reason e) = ae_put i p' e" "ap_mode p' = AM_APPROVAL_GATED"
    using reject_stored [OF assms(1), of reason] assms(2) by auto
  define q where "q = p'\<lparr>ap_status := AS_APPROVED, ap_eligibility := AE_ELIGIBLE,
    ap_approved_by := Some approver\<rparr>"
  define e1 where "e1 = ae_put i q (ae_put i p' e)"
  have q: "approve_action i approver (snd (reject_action i reason e)) = (Inr q, e1)"
    "ae_get_proposal e1 i = Some q" "ap_is_releasable q"
    using p' by (simp_all add: q_def e1_def approve_action_def ap_is_releasable_def Let_def)
  obtain res e2 where r: "release_action an i e1 = (res, e2)" by fastforce
  then have "\<exists>p2. res = Inr p2 \<and> ap_status p2 = AS_RELEASED"
    using q by (cases rule: release_cases) auto
  with q(1) r show ?thesis by blast
qed

theorem approval_ignores_status_witness:
  "\<exists>e1 p1. approve_action ''p'' ''b'' (snd (reject_action ''p'' ''no'' (snd (propose_action (\<lambda>_. ''h'')
      \<lparr>pi_result = ''r'', pi_manifest = ''m'', pi_proposal = ''p''\<rparr> 0 ''t'' AT_BILLING_HOLD [''o'']
      AM_APPROVAL_GATED None [] None
      (new_action_engine sample_graph default_validation_rules new_registry))))) = (Inr p1, e1)"
proof -
  let ?e = "snd (propose_action (\<lambda>_. ''h'')
      \<lparr>pi_result = ''r'', pi_manifest = ''m'', pi_proposal = ''p''\<rparr> 0 ''t'' AT_BILLING_HOLD [''o'']
      AM_APPROVAL_GATED None [] None
      (new_action_engine sample_graph default_validation_rules new_registry))"
  have "map_option ap_mode (ae_get_proposal ?e ''p'') = Some AM_APPROVAL_GATED" by code_simp
  then obtain p where "ae_get_proposal ?e ''p'' = Some p" "ap_mode p = AM_APPROVAL_GATED" by auto
  from approval_ignores_status [OF this] show ?thesis by blast
qed

end
