(* ===== verification/W3_Actions.thy ===== *)
theory W3_Actions
  imports W3_Executor Release_Interface "HOL-Library.List_Lexorder" "HOL-Library.Char_ord"
begin

text \<open>
  The action policy engine, \<^verbatim>\<open>app/core/action/domain_types.py\<close>, \<^verbatim>\<open>policy_engine.py\<close> and
  \<^verbatim>\<open>w3_repository.py\<close>: an action is proposed on a finished validation whose decision, evidence and
  hash the policy accepts, then approved or rejected, and released when releasable. The engine
  provides the release contract of the shared interface, and the invariant of its reachable states
  says what a recorded release rests on.
\<close>

section \<open>Types\<close>

datatype w3_action_type =
    W3T_CREDIT_NOTE | W3T_INVOICE_ADJUSTMENT | W3T_PENALTY_CHARGE | W3T_SLA_ESCALATION
  | W3T_WORK_ORDER_DISPATCH | W3T_BILLING_HOLD | W3T_RATE_CORRECTION | W3T_RECOVERY_RECOMMENDATION

fun w3_action_type_value :: "w3_action_type \<Rightarrow> string" where
  "w3_action_type_value W3T_CREDIT_NOTE = ''credit-note''"
| "w3_action_type_value W3T_INVOICE_ADJUSTMENT = ''invoice-adjustment''"
| "w3_action_type_value W3T_PENALTY_CHARGE = ''penalty-charge''"
| "w3_action_type_value W3T_SLA_ESCALATION = ''sla-escalation''"
| "w3_action_type_value W3T_WORK_ORDER_DISPATCH = ''work-order-dispatch''"
| "w3_action_type_value W3T_BILLING_HOLD = ''billing-hold''"
| "w3_action_type_value W3T_RATE_CORRECTION = ''rate-correction''"
| "w3_action_type_value W3T_RECOVERY_RECOMMENDATION = ''recovery-recommendation''"

datatype w3_action_status =
    W3A_PROPOSED | W3A_VALIDATION_PENDING | W3A_VALIDATED | W3A_PENDING_APPROVAL | W3A_APPROVED
  | W3A_RELEASED | W3A_REJECTED

fun w3_action_status_value :: "w3_action_status \<Rightarrow> string" where
  "w3_action_status_value W3A_PROPOSED = ''proposed''"
| "w3_action_status_value W3A_VALIDATION_PENDING = ''validation-pending''"
| "w3_action_status_value W3A_VALIDATED = ''validated''"
| "w3_action_status_value W3A_PENDING_APPROVAL = ''pending-approval''"
| "w3_action_status_value W3A_APPROVED = ''approved''"
| "w3_action_status_value W3A_RELEASED = ''released''"
| "w3_action_status_value W3A_REJECTED = ''rejected''"

datatype w3_mode = W3M_DRY_RUN | W3M_APPROVAL_GATED | W3M_AUTO_RELEASE

fun w3_mode_value :: "w3_mode \<Rightarrow> string" where
  "w3_mode_value W3M_DRY_RUN = ''dry-run''"
| "w3_mode_value W3M_APPROVAL_GATED = ''approval-gated''"
| "w3_mode_value W3M_AUTO_RELEASE = ''deterministic-auto-release''"

datatype w3_failure_code =
    W3F_VALIDATION_NOT_PASSED | W3F_EVIDENCE_MISSING | W3F_APPROVAL_DENIED | W3F_POLICY_BLOCKED
  | W3F_TARGET_NOT_ELIGIBLE | W3F_HASH_MISMATCH

datatype action_policy_error = ActionPolicyError fstr w3_failure_code

record evidence_manifest =
  em_action_id :: uuid
  em_evidence_refs :: "evidence_ref list"
  em_validation_run_id :: "uuid option"
  em_validation_decision :: "validation_decision option"
  em_report_hash :: string
  em_target_object_ids :: "uuid list"
  em_manifest_hash :: string
  em_created_at :: time

definition opt_text :: "('a \<Rightarrow> string) \<Rightarrow> 'a option \<Rightarrow> string" where
  "opt_text f v = (case v of Some x \<Rightarrow> f x | None \<Rightarrow> [])"

definition em_compute_hash :: "(json \<Rightarrow> string) \<Rightarrow> evidence_manifest \<Rightarrow> evidence_manifest" where
  "em_compute_hash hash m =
     (let data = JObj
        [(''action_id'', JStr (em_action_id m)),
         (''evidence_refs'', JList (map JStr (sort (map er_evidence_id (em_evidence_refs m))))),
         (''validation_run_id'', JStr (opt_text id (em_validation_run_id m))),
         (''validation_decision'', JStr (opt_text decision_value (em_validation_decision m))),
         (''report_hash'', JStr (em_report_hash m)),
         (''target_object_ids'', JList (map JStr (sort (em_target_object_ids m))))]
      in m\<lparr>em_manifest_hash := hash data\<rparr>)"

record w3_proposal =
  wp_id :: uuid
  wp_tenant_id :: uuid
  wp_action_type :: w3_action_type
  wp_execution_mode :: w3_mode
  wp_status :: w3_action_status
  wp_target_object_ids :: "uuid list"
  wp_validation_run_id :: "uuid option"
  wp_validation_decision :: "validation_decision option"
  wp_report_hash :: string
  wp_evidence_manifest :: "evidence_manifest option"
  wp_description :: string
  wp_parameters :: "(string, json) dict"
  wp_confidence :: rat
  wp_financial_impact :: rat
  wp_approved_by :: "string option"
  wp_rejected_reason :: "string option"
  wp_decision_hash :: string
  wp_created_at :: time
  wp_released_at :: "time option"
  wp_metadata :: "(string, json) dict"

definition wp_compute_decision_hash :: "(json \<Rightarrow> string) \<Rightarrow> w3_proposal \<Rightarrow> w3_proposal" where
  "wp_compute_decision_hash hash p =
     (let data = JObj
        [(''action_type'', JStr (w3_action_type_value (wp_action_type p))),
         (''target_object_ids'', JList (map JStr (sort (wp_target_object_ids p)))),
         (''validation_decision'', JStr (opt_text decision_value (wp_validation_decision p))),
         (''report_hash'', JStr (wp_report_hash p)), (''parameters'', JObj (wp_parameters p))]
      in p\<lparr>wp_decision_hash := hash data\<rparr>)"

definition wp_is_releasable :: "w3_proposal \<Rightarrow> bool" where
  "wp_is_releasable p =
     (if wp_status p = W3A_REJECTED then False
      else if wp_validation_decision p \<noteq> Some VD_ELIGIBLE then False
      else (case wp_execution_mode p of
              W3M_DRY_RUN \<Rightarrow> False
            | W3M_APPROVAL_GATED \<Rightarrow> wp_status p = W3A_APPROVED
            | W3M_AUTO_RELEASE \<Rightarrow> wp_status p = W3A_VALIDATED))"

record w3_release =
  wl_id :: uuid
  wl_action_id :: uuid
  wl_tenant_id :: uuid
  wl_action_type :: w3_action_type
  wl_evidence_manifest :: evidence_manifest
  wl_decision_hash :: string
  wl_released_by :: string
  wl_released_at :: time

record w3_policy =
  wy_require_validation_pass :: bool
  wy_require_evidence :: bool
  wy_min_evidence_count :: int
  wy_require_report_hash :: bool
  wy_allowed_decisions :: "validation_decision list"
  wy_auto_release_on_eligible :: bool

definition default_w3_policy :: w3_policy where
  "default_w3_policy =
     \<lparr>wy_require_validation_pass = True, wy_require_evidence = True, wy_min_evidence_count = 1,
      wy_require_report_hash = True, wy_allowed_decisions = [VD_ELIGIBLE],
      wy_auto_release_on_eligible = False\<rparr>"

section \<open>The engine\<close>

record 'c w3_engine =
  we_graph :: "'c graph_service"
  we_policy :: w3_policy
  we_audit :: fabric_audit_hook
  we_proposals :: "(uuid, w3_proposal) dict"
  we_releases :: "(uuid, w3_release) dict"

type_synonym ('c, 'a) we_result = "(action_policy_error, 'c w3_engine, 'a) res"

definition new_w3_engine :: "'c graph_service \<Rightarrow> w3_policy option \<Rightarrow> 'c w3_engine" where
  "new_w3_engine g pol =
     \<lparr>we_graph = g, we_policy = (case pol of Some p \<Rightarrow> p | None \<Rightarrow> default_w3_policy),
      we_audit = new_audit_hook, we_proposals = [], we_releases = []\<rparr>"

definition we_get_proposal :: "'c w3_engine \<Rightarrow> uuid \<Rightarrow> w3_proposal option" where
  "we_get_proposal e action_id = dget (we_proposals e) action_id"

definition we_get_release :: "'c w3_engine \<Rightarrow> uuid \<Rightarrow> w3_release option" where
  "we_get_release e action_id = dget (we_releases e) action_id"

definition we_list_proposals ::
  "'c w3_engine \<Rightarrow> uuid \<Rightarrow> w3_action_status option \<Rightarrow> w3_proposal list" where
  "we_list_proposals e tenant_id status =
     filter_opt status wp_status (filter (\<lambda>p. wp_tenant_id p = tenant_id) (dvalues (we_proposals e)))"

definition we_put :: "uuid \<Rightarrow> w3_proposal \<Rightarrow> 'c w3_engine \<Rightarrow> 'c w3_engine" where
  "we_put i p e = e\<lparr>we_proposals := dput i p (we_proposals e)\<rparr>"

definition we_emit ::
  "fabric_audit_event_type \<Rightarrow> uuid \<Rightarrow> fstr \<Rightarrow> (string, json) dict \<Rightarrow> 'c w3_engine \<Rightarrow> 'c w3_engine" where
  "we_emit ty tenant_id detail metadata e =
     e\<lparr>we_audit := emit ((fabric_event ty)\<lparr>fe_tenant_id := Some tenant_id, fe_detail := detail,
                        fe_metadata := metadata\<rparr>) (we_audit e)\<rparr>"

definition we_resolve_objects :: "'c w3_engine \<Rightarrow> uuid list \<Rightarrow> control_object list" where
  "we_resolve_objects e ids = List.map_filter (gs_get_object (we_graph e)) ids"

text \<open>The three policy checks of \<open>propose_action\<close>, in order.\<close>

definition policy_violation ::
  "w3_policy \<Rightarrow> execution_result \<Rightarrow> evidence_ref list \<Rightarrow> action_policy_error option" where
  "policy_violation pol res evidence =
     (if wy_require_validation_pass pol \<and> er_decision res \<notin> set (wy_allowed_decisions pol)
      then Some (ActionPolicyError
             [Lit ''Validation decision '', sq (decision_value (er_decision res)),
              Lit '' not in allowed decisions for release''] W3F_VALIDATION_NOT_PASSED)
      else if wy_require_evidence pol \<and> int (length evidence) < wy_min_evidence_count pol
      then Some (ActionPolicyError
             [Lit ''Insufficient evidence: '', NumI (int (length evidence)), Lit '' < '',
              NumI (wy_min_evidence_count pol)] W3F_EVIDENCE_MISSING)
      else if wy_require_report_hash pol \<and> rp_report_hash (er_report res) = []
      then Some (ActionPolicyError
             [Lit ''Validation report has no hash '', Lit [CHR 0xE2, CHR 0x80, CHR 0x94],
              Lit '' cannot ensure reproducibility''] W3F_HASH_MISMATCH)
      else None)"

definition w3_propose_action ::
  "(json \<Rightarrow> string) \<Rightarrow> uuid \<Rightarrow> time \<Rightarrow> uuid \<Rightarrow> w3_action_type \<Rightarrow> uuid list \<Rightarrow> execution_result
     \<Rightarrow> w3_mode \<Rightarrow> (string, json) dict option \<Rightarrow> string \<Rightarrow> 'c w3_engine
     \<Rightarrow> ('c, w3_proposal) we_result" where
  "w3_propose_action hash action_id now tenant_id action_type target_object_ids res mode parameters
      description e =
     (let all_evidence = concat (map co_evidence (we_resolve_objects e target_object_ids))
      in case policy_violation (we_policy e) res all_evidence of
           Some err \<Rightarrow> (Inl err, e)
         | None \<Rightarrow>
             let manifest = em_compute_hash hash
                   \<lparr>em_action_id = action_id, em_evidence_refs = all_evidence,
                    em_validation_run_id = Some (rn_id (er_run res)),
                    em_validation_decision = Some (er_decision res),
                    em_report_hash = rp_report_hash (er_report res),
                    em_target_object_ids = target_object_ids, em_manifest_hash = [],
                    em_created_at = now\<rparr>;
                 status = (if mode \<in> {W3M_DRY_RUN, W3M_AUTO_RELEASE} then W3A_VALIDATED
                           else W3A_PENDING_APPROVAL);
                 proposal = wp_compute_decision_hash hash
                   \<lparr>wp_id = action_id, wp_tenant_id = tenant_id, wp_action_type = action_type,
                    wp_execution_mode = mode, wp_status = status,
                    wp_target_object_ids = target_object_ids,
                    wp_validation_run_id = Some (rn_id (er_run res)),
                    wp_validation_decision = Some (er_decision res),
                    wp_report_hash = rp_report_hash (er_report res),
                    wp_evidence_manifest = Some manifest, wp_description = description,
                    wp_parameters = (case parameters of Some p \<Rightarrow> p | None \<Rightarrow> []),
                    wp_confidence = 1, wp_financial_impact = 0, wp_approved_by = None,
                    wp_rejected_reason = None, wp_decision_hash = [], wp_created_at = now,
                    wp_released_at = None, wp_metadata = []\<rparr>;
                 e = we_put action_id proposal e;
                 e = we_emit FE_ACTION_PROPOSED tenant_id
                       [Lit ''Action proposed: '', Lit (w3_action_type_value action_type)]
                       [(''action_id'', JStr action_id),
                        (''action_type'', JStr (w3_action_type_value action_type)),
                        (''execution_mode'', JStr (w3_mode_value mode)),
                        (''validation_decision'', JStr (decision_value (er_decision res)))] e
             in (Inr proposal, e))"

definition action_not_found :: "uuid \<Rightarrow> action_policy_error" where
  "action_not_found i =
     ActionPolicyError [Lit ''Action '', Lit i, Lit '' not found''] W3F_POLICY_BLOCKED"

definition w3_approve_action ::
  "uuid \<Rightarrow> string \<Rightarrow> 'c w3_engine \<Rightarrow> ('c, w3_proposal) we_result" where
  "w3_approve_action action_id approver e =
     (case we_get_proposal e action_id of
        None \<Rightarrow> (Inl (action_not_found action_id), e)
      | Some proposal \<Rightarrow>
          if wp_execution_mode proposal \<noteq> W3M_APPROVAL_GATED
          then (Inl (ActionPolicyError [Lit ''Only approval-gated actions require approval'']
                      W3F_POLICY_BLOCKED), e)
          else
            let proposal = proposal\<lparr>wp_status := W3A_APPROVED, wp_approved_by := Some approver\<rparr>;
                e = we_put action_id proposal e;
                e = we_emit FE_ACTION_APPROVED (wp_tenant_id proposal)
                      [Lit ''Action '', Lit action_id, Lit '' approved by '', Lit approver]
                      [(''action_id'', JStr action_id), (''approver'', JStr approver)] e
            in (Inr proposal, e))"

definition w3_reject_action ::
  "uuid \<Rightarrow> string \<Rightarrow> 'c w3_engine \<Rightarrow> ('c, w3_proposal) we_result" where
  "w3_reject_action action_id reason e =
     (case we_get_proposal e action_id of
        None \<Rightarrow> (Inl (action_not_found action_id), e)
      | Some proposal \<Rightarrow>
          let proposal = proposal\<lparr>wp_status := W3A_REJECTED, wp_rejected_reason := Some reason\<rparr>;
              e = we_put action_id proposal e;
              e = we_emit FE_ACTION_REJECTED (wp_tenant_id proposal)
                    [Lit ''Action '', Lit action_id, Lit '' rejected: '', Lit reason]
                    [(''action_id'', JStr action_id), (''reason'', JStr reason)] e
          in (Inr proposal, e))"

text \<open>The f-string form of an optional decision: \<open>None\<close> or the qualified member name.\<close>

definition decision_repr :: "validation_decision option \<Rightarrow> string" where
  "decision_repr d =
     (case d of
        None \<Rightarrow> ''None''
      | Some VD_ELIGIBLE \<Rightarrow> ''ValidationDecision.ELIGIBLE''
      | Some VD_PROPOSAL_ONLY \<Rightarrow> ''ValidationDecision.PROPOSAL_ONLY''
      | Some VD_APPROVAL_REQUIRED \<Rightarrow> ''ValidationDecision.APPROVAL_REQUIRED''
      | Some VD_REJECTED \<Rightarrow> ''ValidationDecision.REJECTED'')"

text \<open>\<open>who\<close> holds the actor, the time and the fresh identifier of the release.\<close>

definition w3_release_action ::
  "string \<times> time \<times> uuid \<Rightarrow> uuid \<Rightarrow> 'c w3_engine \<Rightarrow> ('c, w3_release) we_result" where
  "w3_release_action who action_id e =
     (case who of (actor, now, release_id) \<Rightarrow>
      case we_get_proposal e action_id of
        None \<Rightarrow> (Inl (action_not_found action_id), e)
      | Some proposal \<Rightarrow>
          if \<not> wp_is_releasable proposal
          then (Inl (ActionPolicyError
                  [Lit ''Action not releasable: status='',
                   Lit (w3_action_status_value (wp_status proposal)), Lit '', mode='',
                   Lit (w3_mode_value (wp_execution_mode proposal)), Lit '', decision='',
                   Lit (decision_repr (wp_validation_decision proposal))] W3F_TARGET_NOT_ELIGIBLE), e)
          else
            (case wp_evidence_manifest proposal of
               None \<Rightarrow> (Inl (ActionPolicyError [Lit ''Action has no evidence manifest'']
                              W3F_EVIDENCE_MISSING), e)
             | Some manifest \<Rightarrow>
                 let proposal = proposal\<lparr>wp_status := W3A_RELEASED, wp_released_at := Some now\<rparr>;
                     e = we_put action_id proposal e;
                     release = \<lparr>wl_id = release_id, wl_action_id = action_id,
                       wl_tenant_id = wp_tenant_id proposal, wl_action_type = wp_action_type proposal,
                       wl_evidence_manifest = manifest, wl_decision_hash = wp_decision_hash proposal,
                       wl_released_by = actor, wl_released_at = now\<rparr>;
                     e = e\<lparr>we_releases := dput action_id release (we_releases e)\<rparr>;
                     e = we_emit FE_ACTION_RELEASED (wp_tenant_id proposal)
                           [Lit ''Action '', Lit action_id, Lit '' released by '', Lit actor]
                           [(''action_id'', JStr action_id), (''release_id'', JStr release_id),
                            (''decision_hash'', JStr (wp_decision_hash proposal)),
                            (''manifest_hash'', JStr (em_manifest_hash manifest))] e
                 in (Inr release, e)))"

section \<open>The release contract\<close>

lemma we_simps [simp]:
  "we_get_proposal (we_put i p e) j = (if j = i then Some p else we_get_proposal e j)"
  "we_get_proposal (we_emit ty tn d m e) j = we_get_proposal e j"
  "we_get_proposal (e\<lparr>we_releases := rs\<rparr>) j = we_get_proposal e j"
  "we_get_release (we_put i p e) j = we_get_release e j"
  "we_get_release (we_emit ty tn d m e) j = we_get_release e j"
  "we_get_release (e\<lparr>we_releases := dput i r rs\<rparr>) j = (if j = i then Some r else dget rs j)"
  "we_policy (we_put i p e) = we_policy e" "we_policy (we_emit ty tn d m e) = we_policy e"
  "we_releases (we_put i p e) = we_releases e"
  by (simp_all add: we_put_def we_emit_def we_get_proposal_def we_get_release_def)

lemma w3_release_cases:
  assumes "w3_release_action who i e = (res, e')"
  obtains (refused) "e' = e" "\<exists>x. res = Inl x"
  | (released) p m r where "we_get_proposal e i = Some p" "wp_is_releasable p"
      "wp_evidence_manifest p = Some m" "res = Inr r" "wl_evidence_manifest r = m"
      "\<And>j. we_get_proposal e' j = (if j = i
         then Some (p\<lparr>wp_status := W3A_RELEASED, wp_released_at := Some (fst (snd who))\<rparr>)
         else we_get_proposal e j)"
      "\<And>j. we_get_release e' j = (if j = i then Some r else we_get_release e j)"
      "we_policy e' = we_policy e"
proof -
  obtain actor now rid where who: "who = (actor, now, rid)" by (cases who)
  show thesis
  proof (cases "we_get_proposal e i")
    case None
    with assms who have "e' = e" "\<exists>x. res = Inl x" by (auto simp: w3_release_action_def)
    then show thesis by (rule refused)
  next
    case (Some p)
    show thesis
    proof (cases "wp_is_releasable p \<and> wp_evidence_manifest p \<noteq> None")
      case False
      with assms who Some have "e' = e" "\<exists>x. res = Inl x"
        by (auto simp: w3_release_action_def split: option.splits if_splits)
      then show thesis by (rule refused)
    next
      case True
      then obtain m where m: "wp_evidence_manifest p = Some m" by blast
      define r where "r = \<lparr>wl_id = rid, wl_action_id = i, wl_tenant_id = wp_tenant_id p,
        wl_action_type = wp_action_type p, wl_evidence_manifest = m,
        wl_decision_hash = wp_decision_hash p, wl_released_by = actor, wl_released_at = now\<rparr>"
      have e': "res = Inr r" "\<And>j. we_get_proposal e' j = (if j = i
          then Some (p\<lparr>wp_status := W3A_RELEASED, wp_released_at := Some (fst (snd who))\<rparr>)
          else we_get_proposal e j)"
        "\<And>j. we_get_release e' j = (if j = i then Some r else we_get_release e j)"
        "we_policy e' = we_policy e"
        using assms who Some True m
        by (auto simp: w3_release_action_def Let_def r_def we_get_release_def [symmetric])
      from True have ok: "wp_is_releasable p" by blast
      have "wl_evidence_manifest r = m" by (simp add: r_def)
      then show thesis
        by (rule released [OF Some ok m e'(1) _ e'(2-4)])
    qed
  qed
qed

lemma w3_released_not_releasable: "wp_status p = W3A_RELEASED \<Longrightarrow> \<not> wp_is_releasable p"
  by (simp add: wp_is_releasable_def split: w3_mode.split)

interpretation w3act: gated_release we_get_proposal wp_is_releasable w3_release_action
proof
  fix who i and e e' :: "'c w3_engine" and r
  assume r: "w3_release_action who i e = (Inr r, e')"
  then show "\<exists>p. we_get_proposal e i = Some p \<and> wp_is_releasable p"
    by (cases rule: w3_release_cases) auto
  from r show "\<exists>p. we_get_proposal e' i = Some p \<and> \<not> wp_is_releasable p"
    by (cases rule: w3_release_cases) (auto simp: w3_released_not_releasable)
next
  fix who i j and e e' :: "'c w3_engine" and res
  assume "w3_release_action who i e = (res, e')" and "j \<noteq> i"
  then show "we_get_proposal e' j = we_get_proposal e j"
    by (cases rule: w3_release_cases) auto
next
  fix who i and e e' :: "'c w3_engine" and x
  assume "w3_release_action who i e = (Inl x, e')"
  then show "we_get_proposal e' i = we_get_proposal e i"
    by (cases rule: w3_release_cases) auto
qed

end
