(* ===== verification/W3_Action_Props.thy ===== *)
theory W3_Action_Props
  imports W3_Actions
begin

text \<open>
  What a recorded release of the policy engine rests on: the invariant of its reachable states.
\<close>

definition backed :: "w3_policy \<Rightarrow> w3_proposal \<Rightarrow> bool" where
  "backed pol p \<longleftrightarrow>
     (\<exists>m d. wp_evidence_manifest p = Some m \<and> wp_validation_decision p = Some d \<and>
        em_validation_decision m = Some d \<and> em_report_hash m = wp_report_hash p \<and>
        (wy_require_validation_pass pol \<longrightarrow> d \<in> set (wy_allowed_decisions pol)) \<and>
        (wy_require_evidence pol \<longrightarrow> wy_min_evidence_count pol \<le> int (length (em_evidence_refs m))) \<and>
        (wy_require_report_hash pol \<longrightarrow> em_report_hash m \<noteq> []))"

definition w3_proposal_ok :: "w3_policy \<Rightarrow> w3_proposal \<Rightarrow> bool" where
  "w3_proposal_ok pol p \<longleftrightarrow>
     backed pol p \<and>
     (wp_execution_mode p = W3M_APPROVAL_GATED \<and> wp_status p \<in> {W3A_APPROVED, W3A_RELEASED} \<longrightarrow>
        wp_approved_by p \<noteq> None)"

text \<open>A recorded release is that of a stored proposal, with its manifest and an ELIGIBLE decision.\<close>

definition release_ok :: "w3_policy \<Rightarrow> w3_proposal \<Rightarrow> w3_release \<Rightarrow> bool" where
  "release_ok pol p r \<longleftrightarrow>
     wp_evidence_manifest p = Some (wl_evidence_manifest r) \<and>
     wp_validation_decision p = Some VD_ELIGIBLE \<and> wp_execution_mode p \<noteq> W3M_DRY_RUN \<and>
     (wp_execution_mode p = W3M_APPROVAL_GATED \<longrightarrow> wp_approved_by p \<noteq> None)"

definition w3_engine_ok :: "w3_policy \<Rightarrow> 'c w3_engine \<Rightarrow> bool" where
  "w3_engine_ok pol e \<longleftrightarrow>
     we_policy e = pol \<and>
     (\<forall>i p. we_get_proposal e i = Some p \<longrightarrow> w3_proposal_ok pol p) \<and>
     (\<forall>i r. we_get_release e i = Some r \<longrightarrow>
        (\<exists>p. we_get_proposal e i = Some p \<and> release_ok pol p r))"

inductive we_step :: "'c w3_engine \<Rightarrow> 'c w3_engine \<Rightarrow> bool" where
  w3_propose: "we_get_proposal e fresh = None \<Longrightarrow>
    we_step e (snd (w3_propose_action hash fresh now tn ty targets res mode ps desc e))"
| w3_approve: "we_step e (snd (w3_approve_action i approver e))"
| w3_reject: "we_step e (snd (w3_reject_action i reason e))"
| w3_release: "we_step e (snd (w3_release_action who i e))"

lemma policy_violation_None:
  "policy_violation pol res ev = None \<longleftrightarrow>
     (wy_require_validation_pass pol \<longrightarrow> er_decision res \<in> set (wy_allowed_decisions pol)) \<and>
     (wy_require_evidence pol \<longrightarrow> wy_min_evidence_count pol \<le> int (length ev)) \<and>
     (wy_require_report_hash pol \<longrightarrow> rp_report_hash (er_report res) \<noteq> [])"
  by (auto simp: policy_violation_def)

lemma w3_propose_cases:
  assumes "w3_propose_action hash fresh now tn ty targets res mode ps desc e = (out, e')"
  obtains (refused) "e' = e" "\<exists>x. out = Inl x"
  | (proposed) p where "out = Inr p" "backed (we_policy e) p"
      "wp_status p \<notin> {W3A_APPROVED, W3A_RELEASED}"
      "\<And>j. we_get_proposal e' j = (if j = fresh then Some p else we_get_proposal e j)"
      "\<And>j. we_get_release e' j = we_get_release e j" "we_policy e' = we_policy e"
proof (cases "policy_violation (we_policy e) res (concat (map co_evidence (we_resolve_objects e targets)))")
  case (Some err)
  with assms have "e' = e" "\<exists>x. out = Inl x" by (auto simp: w3_propose_action_def)
  then show thesis by (rule refused)
next
  case None
  note checks = None [unfolded policy_violation_None]
  note r = assms [unfolded w3_propose_action_def Let_def None option.case prod.inject]
  show thesis
  proof (rule proposed [of "projr out"])
    show "out = Inr (projr out)" unfolding r [THEN conjunct1, symmetric] by simp
    show "backed (we_policy e) (projr out)" "wp_status (projr out) \<notin> {W3A_APPROVED, W3A_RELEASED}"
      unfolding r [THEN conjunct1, symmetric]
      using checks by (simp_all add: backed_def wp_compute_decision_hash_def em_compute_hash_def Let_def)
    show "we_get_proposal e' j = (if j = fresh then Some (projr out) else we_get_proposal e j)" for j
      unfolding r [THEN conjunct1, symmetric] r [THEN conjunct2, symmetric] by simp
    show "we_get_release e' j = we_get_release e j" "we_policy e' = we_policy e" for j
      unfolding r [THEN conjunct2, symmetric] by simp_all
  qed
qed

text \<open>Every operation that writes a proposal writes one; its proposal and release must stay good.\<close>

lemma w3_engine_ok_update:
  assumes ok: "w3_engine_ok pol e" and pol: "we_policy e' = we_policy e"
    and get: "\<And>j. we_get_proposal e' j = (if j = i then Some p' else we_get_proposal e j)"
    and rel: "\<And>j. j \<noteq> i \<Longrightarrow> we_get_release e' j = we_get_release e j"
    and p': "w3_proposal_ok pol p'"
    and r': "\<And>r. we_get_release e' i = Some r \<Longrightarrow> release_ok pol p' r"
  shows "w3_engine_ok pol e'"
  unfolding w3_engine_ok_def
proof (intro conjI allI impI)
  show "we_policy e' = pol" using ok pol by (simp add: w3_engine_ok_def)
  show "w3_proposal_ok pol p" if "we_get_proposal e' j = Some p" for j p
    using that ok p' by (simp add: get w3_engine_ok_def split: if_splits)
  show "\<exists>p. we_get_proposal e' j = Some p \<and> release_ok pol p r" if "we_get_release e' j = Some r" for j r
    using that ok r' rel [of j] by (cases "j = i") (simp_all add: get w3_engine_ok_def)
qed

lemma w3_engine_okD:
  assumes "w3_engine_ok pol e" and "we_get_proposal e i = Some p"
  shows "w3_proposal_ok pol p" and "we_get_release e i = Some r \<Longrightarrow> release_ok pol p r"
  using assms unfolding w3_engine_ok_def by (blast, metis option.inject)

lemma w3_engine_ok_no_release:
  "w3_engine_ok pol e \<Longrightarrow> we_get_proposal e i = None \<Longrightarrow> we_get_release e i = None"
  unfolding w3_engine_ok_def by (metis option.distinct(1) option.exhaust)

lemmas w3_ok_keep = w3_proposal_ok_def backed_def release_ok_def

lemma w3_engine_ok_put:
  assumes ok: "w3_engine_ok pol e" and p: "we_get_proposal e i = Some p"
    and p': "w3_proposal_ok pol p \<Longrightarrow> w3_proposal_ok pol p'"
    and r': "\<And>r. release_ok pol p r \<Longrightarrow> release_ok pol p' r"
  shows "w3_engine_ok pol (we_emit ty tn d m (we_put i p' e))"
  by (rule w3_engine_ok_update [OF ok, where i = i and p' = p'])
    (simp_all add: p' r' w3_engine_okD [OF ok p])

lemma we_step_ok: "we_step e e' \<Longrightarrow> w3_engine_ok pol e \<Longrightarrow> w3_engine_ok pol e'"
proof (induction rule: we_step.induct)
  case (w3_propose e fresh hash now tn ty targets res mode ps desc)
  note ok = \<open>w3_engine_ok pol e\<close>
  obtain out e' where r: "w3_propose_action hash fresh now tn ty targets res mode ps desc e = (out, e')"
    by fastforce
  then have "w3_engine_ok pol e'"
  proof (cases rule: w3_propose_cases)
    case (proposed p)
    have p: "w3_proposal_ok pol p"
      using proposed(2,3) ok by (auto simp: w3_engine_ok_def w3_proposal_ok_def)
    have "we_get_release e' fresh = None"
      unfolding proposed(5) by (rule w3_engine_ok_no_release [OF ok w3_propose(1)])
    with p show ?thesis
      by (intro w3_engine_ok_update [OF ok proposed(6,4)]) (simp_all add: proposed(5))
  qed (use ok in simp)
  with r show ?case by simp
next
  case (w3_approve e i approver)
  note ok = w3_approve
  show ?case
  proof (cases "we_get_proposal e i")
    case (Some p)
    show ?thesis
    proof (cases "wp_execution_mode p = W3M_APPROVAL_GATED")
      case True
      have "w3_engine_ok pol (we_emit ty tn d m
              (we_put i (p\<lparr>wp_status := W3A_APPROVED, wp_approved_by := Some approver\<rparr>) e))" for ty tn d m
        by (rule w3_engine_ok_put [OF ok Some]) (simp_all add: w3_ok_keep)
      with Some True show ?thesis by (simp add: w3_approve_action_def Let_def)
    qed (use Some ok in \<open>simp add: w3_approve_action_def\<close>)
  qed (use ok in \<open>simp add: w3_approve_action_def\<close>)
next
  case (w3_reject e i reason)
  note ok = w3_reject
  show ?case
  proof (cases "we_get_proposal e i")
    case (Some p)
    have "w3_engine_ok pol (we_emit ty tn d m
            (we_put i (p\<lparr>wp_status := W3A_REJECTED, wp_rejected_reason := Some reason\<rparr>) e))" for ty tn d m
      by (rule w3_engine_ok_put [OF ok Some]) (simp_all add: w3_ok_keep)
    with Some show ?thesis by (simp add: w3_reject_action_def Let_def)
  qed (use ok in \<open>simp add: w3_reject_action_def\<close>)
next
  case (w3_release e who i)
  note ok = w3_release
  obtain out e' where r: "w3_release_action who i e = (out, e')" by fastforce
  then have "w3_engine_ok pol e'"
  proof (cases rule: w3_release_cases)
    case (released p m rel)
    note p = w3_engine_okD(1) [OF ok released(1)]
    from released(2) have rel: "wp_validation_decision p = Some VD_ELIGIBLE"
      "wp_execution_mode p \<noteq> W3M_DRY_RUN"
      "wp_execution_mode p = W3M_APPROVAL_GATED \<Longrightarrow> wp_status p = W3A_APPROVED"
      by (auto simp: wp_is_releasable_def split: if_splits w3_mode.splits)
    show ?thesis
      by (rule w3_engine_ok_update [OF ok released(8,6)])
        (use p rel released(3,5) in \<open>auto simp: released(7) w3_ok_keep\<close>)
  qed (use ok in simp)
  with r show ?case by simp
qed

lemma we_steps_ok: "we_step\<^sup>*\<^sup>* e e' \<Longrightarrow> w3_engine_ok pol e \<Longrightarrow> w3_engine_ok pol e'"
  by (induction rule: rtranclp_induct) (auto intro: we_step_ok)

lemma w3_engine_ok_new: "w3_engine_ok pol (new_w3_engine g (Some pol))"
  by (simp add: w3_engine_ok_def new_w3_engine_def we_get_proposal_def we_get_release_def)

section \<open>Properties\<close>

text \<open>C15: Every release the policy engine ever records belongs to a stored proposal whose validation
  decision was ELIGIBLE, is no dry run, names its approver if it was approval-gated, and carries
  the manifest fixed at proposal time, with at least the evidence and the report hash the policy
  requires.\<close>

theorem recorded_releases_are_backed:
  assumes "we_step\<^sup>*\<^sup>* (new_w3_engine g (Some pol)) e" and "we_get_release e i = Some r"
  shows "\<exists>p. we_get_proposal e i = Some p \<and> release_ok pol p r \<and> backed pol p"
  using we_steps_ok [OF assms(1) w3_engine_ok_new] assms(2)
  unfolding w3_engine_ok_def w3_proposal_ok_def by blast

definition sample_result :: execution_result where
  "sample_result =
     (let tgt = \<lparr>vg_object_ids = [''o''], vg_reconciliation_run_id = None, vg_reconciliation_case_ids = [],
                 vg_action_proposal_id = None, vg_graph_slice_root_ids = []\<rparr>;
          sc = \<lparr>vsc_tenant_id = ''t'', vsc_planes = [], vsc_domains = [], vsc_action_type = []\<rparr>;
          ctx = \<lparr>vx_scope = sc, vx_target = tgt, vx_require_reconciled = False, vx_min_confidence = 1 / 2,
                 vx_required_evidence_types = [], vx_required_states = [], vx_policy_overrides = [],
                 vx_metadata = []\<rparr>;
          rep = \<lparr>rp_id = ''rep'', rp_run_id = ''run'', rp_chain_id = ''ch'', rp_tenant_id = ''t'',
                 rp_status = W3_PASSED, rp_decision = VD_ELIGIBLE,
                 rp_eligibility = build_eligibility VD_ELIGIBLE [], rp_steps = [], rp_failures = [],
                 rp_warnings = [], rp_preconditions = [], rp_target = tgt, rp_scope = Some sc,
                 rp_decision_trace = None, rp_report_hash = ''h'', rp_created_at = 0\<rparr>
      in \<lparr>er_run = \<lparr>rn_id = ''run'', rn_chain_id = ''ch'', rn_tenant_id = ''t'', rn_context = ctx,
                     rn_report = Some rep, rn_status = W3_PASSED, rn_started_at = 0,
                     rn_completed_at = Some 0\<rparr>,
          er_report = rep, er_decision = VD_ELIGIBLE\<rparr>)"

definition sample_w3_graph :: "unit graph_service" where
  "sample_w3_graph = gs_store ((sample_object ''o'')\<lparr>co_evidence := [\<lparr>er_evidence_id = ''e'',
       er_evidence_type = ''photo'', er_source_label = ''site'', er_source_id = None,
       er_confidence = 1\<rparr>]\<rparr>) (new_graph_service new_registry)"

definition sample_w3 :: "unit w3_engine" where
  "sample_w3 = snd (w3_propose_action (\<lambda>_. ''h'') ''a'' 0 ''t'' W3T_BILLING_HOLD [''o''] sample_result
     W3M_AUTO_RELEASE None [] (new_w3_engine sample_w3_graph (Some default_w3_policy)))"

definition sample_w3_released :: "unit w3_engine" where
  "sample_w3_released = snd (w3_release_action (''ops'', 1, ''rel'') ''a'' sample_w3)"

lemma sample_w3_steps:
  "we_step\<^sup>*\<^sup>* (new_w3_engine sample_w3_graph (Some default_w3_policy)) sample_w3_released"
proof -
  have "we_step (new_w3_engine sample_w3_graph (Some default_w3_policy)) sample_w3"
    unfolding sample_w3_def
    by (rule w3_propose) (simp add: new_w3_engine_def we_get_proposal_def)
  moreover have "we_step sample_w3 sample_w3_released"
    unfolding sample_w3_released_def by (rule w3_release)
  ultimately show ?thesis by (rule converse_rtranclp_into_rtranclp [OF _ r_into_rtranclp])
qed

lemma sample_w3_release: "we_get_release sample_w3_released ''a'' \<noteq> None"
  by code_simp

theorem recorded_releases_are_backed_witness:
  "\<exists>p. we_get_proposal sample_w3_released ''a'' = Some p \<and> backed default_w3_policy p"
proof -
  obtain r where "we_get_release sample_w3_released ''a'' = Some r"
    using sample_w3_release by blast
  from recorded_releases_are_backed [OF sample_w3_steps this] show ?thesis by blast
qed

text \<open>Along any sequence of release calls, without an approval in between, the policy engine
  releases no action twice, and each one released was releasable at the start.\<close>

theorem w3_action_released_once:
  "distinct (fst (w3act.releases calls e)) \<and>
   set (fst (w3act.releases calls e)) \<subseteq> {i. \<exists>p. we_get_proposal e i = Some p \<and> wp_is_releasable p}"
  using w3act.released_once w3act.released_were_releasable unfolding w3act.is_releasable_at_def by blast

end
