(* ===== verification/Tenancy.thy ===== *)
theory Tenancy
  imports Py_Float
begin

text \<open>
  Per-tenant accounting: the metering engine, \<^verbatim>\<open>app/core/metering/meter.py\<close>, and the rate limiter,
  \<^verbatim>\<open>app/core/security_hardening/tenant_rate_limiter.py\<close>. The counters are nested
  \<open>defaultdict\<close>s, so reading a missing row inserts it. Redis is optional in both: the meter only
  writes to it (the calls are recorded), and the reply of the limiter's pipeline is an argument,
  \<open>None\<close> when there is no Redis or the pipeline failed.
\<close>

section \<open>Nested default dictionaries\<close>

type_synonym 'v table = "(string, (string, 'v) dict) dict"

definition row :: "'v table \<Rightarrow> string \<Rightarrow> (string, 'v) dict" where
  "row d t = dget_default d t []"

text \<open>\<open>d[t]\<close> on a \<open>defaultdict\<close>, as far as it changes \<open>d\<close>.\<close>

definition touch :: "string \<Rightarrow> 'v table \<Rightarrow> 'v table" where
  "touch t d = (case dget d t of None \<Rightarrow> dput t [] d | Some _ \<Rightarrow> d)"

definition put_cell :: "string \<Rightarrow> string \<Rightarrow> 'v \<Rightarrow> 'v table \<Rightarrow> 'v table" where
  "put_cell t c v d = dput t (dput c v (row d t)) d"

lemma row_simps [simp]:
  "row (touch t d) t' = row d t'"
  "row (put_cell t c v d) t' = (if t' = t then dput c v (row d t) else row d t')"
  "row [] t = []"
  by (auto simp: row_def touch_def put_cell_def dget_default_def split: option.splits)

section \<open>Metering\<close>

definition event_unit_costs_pence :: "(string, int) dict" where
  "event_unit_costs_pence =
     [(''gate_submission'', 1), (''gate_block'', 0), (''gate_release'', 0), (''reconciliation_run'', 10),
      (''reconciliation_case'', 0), (''connector_fetch'', 0), (''webhook_received'', 0),
      (''slm_enrichment'', 5), (''audit_export'', 50), (''domain_pack_install'', 0)]"

definition billable_events :: "string list" where
  "billable_events = [''gate_submission'', ''reconciliation_run'', ''slm_enrichment'']"

record meter_event =
  mv_event_type :: string
  mv_tenant_id :: string
  mv_quantity :: int
  mv_recorded_at :: time

datatype redis_call = IncrBy string int | Expire string int

record metering_engine =
  mt_counters :: "int table"
  mt_events :: "meter_event list"
  mt_redis :: bool
  mt_redis_calls :: "redis_call list"

definition new_metering_engine :: "bool \<Rightarrow> metering_engine" where
  "new_metering_engine redis =
     \<lparr>mt_counters = [], mt_events = [], mt_redis = redis, mt_redis_calls = []\<rparr>"

definition push_to_redis :: "meter_event \<Rightarrow> metering_engine \<Rightarrow> metering_engine" where
  "push_to_redis ev m =
     (if \<not> mt_redis m then m
      else let key = ''cfp:meter:'' @ mv_tenant_id ev @ '':'' @ mv_event_type ev
           in m\<lparr>mt_redis_calls := mt_redis_calls m @ [IncrBy key (mv_quantity ev), Expire key (86400 * 35)]\<rparr>)"

definition mt_record :: "time \<Rightarrow> string \<Rightarrow> string \<Rightarrow> int \<Rightarrow> metering_engine \<Rightarrow> metering_engine" where
  "mt_record now event_type tenant_id quantity m =
     (let ev = \<lparr>mv_event_type = event_type, mv_tenant_id = tenant_id, mv_quantity = quantity,
                mv_recorded_at = now\<rparr>;
          old = dget_default (row (mt_counters m) tenant_id) event_type 0;
          m = m\<lparr>mt_counters := put_cell tenant_id event_type (old + quantity) (mt_counters m)\<rparr>;
          m = m\<lparr>mt_events := mt_events m @ [ev]\<rparr>
      in push_to_redis ev m)"

definition mt_get_usage ::
  "string \<Rightarrow> string option \<Rightarrow> metering_engine \<Rightarrow> (string, int) dict \<times> metering_engine" where
  "mt_get_usage tenant_id event_type m =
     (let m = m\<lparr>mt_counters := touch tenant_id (mt_counters m)\<rparr>;
          events = row (mt_counters m) tenant_id
      in (if py_truthy event_type
          then [(the event_type, dget_default events (the event_type) 0)] else events, m))"

record usage_summary =
  us_tenant_id :: string
  us_period_start :: string
  us_period_end :: string
  us_events :: "(string, int) dict"
  us_total_events :: int
  us_billable_units :: int
  us_estimated_cost_gbp :: rat

text \<open>
  \<open>period\<close> holds the formatted first and last day. The estimated cost is the float
  nearest to the quotient by 100, rounded to two places (a quotient beyond the floats would raise).
\<close>

definition mt_get_summary ::
  "string \<times> string \<Rightarrow> string \<Rightarrow> metering_engine \<Rightarrow> usage_summary \<times> metering_engine" where
  "mt_get_summary period tenant_id m =
     (let m = m\<lparr>mt_counters := touch tenant_id (mt_counters m)\<rparr>;
          events = row (mt_counters m) tenant_id;
          cost_pence = (\<Sum>(et, cost)\<leftarrow>event_unit_costs_pence. dget_default events et 0 * cost)
      in (\<lparr>us_tenant_id = tenant_id, us_period_start = fst period, us_period_end = snd period,
           us_events = events, us_total_events = sum_list (dvalues events),
           us_billable_units = (\<Sum>et\<leftarrow>billable_events. dget_default events et 0),
           us_estimated_cost_gbp = py_round (fl (of_int cost_pence / 100)) 2\<rparr>, m))"

definition mt_get_all_tenants :: "metering_engine \<Rightarrow> string list" where
  "mt_get_all_tenants m = dkeys (mt_counters m)"

text \<open>
  \<open>report_to_stripe\<close>: \<open>sub_item\<close> is the subscription item the environment names, and \<open>stripe\<close> the
  service's answer to a usage record (the record's id or the text of an exception).
\<close>

datatype stripe_report =
    NotReported fstr
  | Reported int "string option"
  | ReportFailed string

definition mt_report_to_stripe ::
  "bool \<Rightarrow> (string \<Rightarrow> string) \<Rightarrow> (string \<Rightarrow> int \<Rightarrow> string + string) \<Rightarrow> string \<Rightarrow> metering_engine
     \<Rightarrow> stripe_report \<times> metering_engine" where
  "mt_report_to_stripe configured sub_item stripe tenant_id m =
     (if \<not> configured
      then (NotReported [Lit ''Stripe not configured '', Lit [CHR 0xE2, CHR 0x80, CHR 0x94],
                         Lit '' set STRIPE_SECRET_KEY''], m)
      else if sub_item tenant_id = []
      then (NotReported [Lit ''No Stripe subscription item for '', Lit tenant_id], m)
      else
        let (usage, m) = mt_get_usage tenant_id None m;
            total_billable = (\<Sum>et\<leftarrow>billable_events. dget_default usage et 0)
        in if total_billable = 0 then (Reported 0 None, m)
           else (case stripe (sub_item tenant_id) total_billable of
                   Inl e \<Rightarrow> (ReportFailed e, m)
                 | Inr record_id \<Rightarrow> (Reported total_billable (Some record_id), m)))"

section \<open>The counters refine the event log\<close>

definition quantity_of :: "meter_event list \<Rightarrow> string \<Rightarrow> string \<Rightarrow> int" where
  "quantity_of evs t et =
     (\<Sum>e\<leftarrow>filter (\<lambda>e. mv_tenant_id e = t \<and> mv_event_type e = et) evs. mv_quantity e)"

definition rows_distinct :: "'v table \<Rightarrow> bool" where
  "rows_distinct d = (\<forall>t. dict_wf (row d t))"

definition meter_ok :: "metering_engine \<Rightarrow> bool" where
  "meter_ok m \<longleftrightarrow> rows_distinct (mt_counters m) \<and>
     (\<forall>t et. dget_default (row (mt_counters m) t) et 0 = quantity_of (mt_events m) t et) \<and>
     (\<forall>t. sum_list (dvalues (row (mt_counters m) t)) =
          (\<Sum>e\<leftarrow>filter (\<lambda>e. mv_tenant_id e = t) (mt_events m). mv_quantity e))"

inductive mt_step :: "metering_engine \<Rightarrow> metering_engine \<Rightarrow> bool" where
  mt_records: "mt_step m (mt_record now et t q m)"
| mt_reads: "mt_step m (snd (mt_get_usage t et m))"
| mt_sums: "mt_step m (snd (mt_get_summary period t m))"
| mt_reports: "mt_step m (snd (mt_report_to_stripe conf item stripe t m))"

lemma push_simps [simp]:
  "mt_counters (push_to_redis ev m) = mt_counters m" "mt_events (push_to_redis ev m) = mt_events m"
  by (simp_all add: push_to_redis_def Let_def)

lemma dget_default_dput [simp]:
  "dget_default (dput k v d) k' x = (if k' = k then v else dget_default d k' x)"
  by (simp add: dget_default_def)

lemma sum_dput:
  "dict_wf d \<Longrightarrow> sum_list (dvalues (dput k v d)) = sum_list (dvalues d) - dget_default d k 0 + v"
  for d :: "('k, int) dict"
  by (induction d) (auto simp: dict_wf_def dget_default_def map_of_eq_None_iff [THEN iffD2])

lemma quantity_of_snoc [simp]:
  "quantity_of (evs @ [e]) t et =
     quantity_of evs t et + (if mv_tenant_id e = t \<and> mv_event_type e = et then mv_quantity e else 0)"
  by (simp add: quantity_of_def)

lemma meter_ok_new: "meter_ok (new_metering_engine b)"
  by (simp add: meter_ok_def new_metering_engine_def rows_distinct_def quantity_of_def dget_default_def)

lemma meter_ok_touch: "meter_ok m \<Longrightarrow> meter_ok (m\<lparr>mt_counters := touch t (mt_counters m)\<rparr>)"
  by (simp add: meter_ok_def rows_distinct_def)

lemma meter_ok_record: "meter_ok m \<Longrightarrow> meter_ok (mt_record now et t q m)"
  by (simp add: meter_ok_def mt_record_def Let_def rows_distinct_def sum_dput)

lemma mt_step_ok: "mt_step m m' \<Longrightarrow> meter_ok m \<Longrightarrow> meter_ok m'"
  by (induction rule: mt_step.induct)
    (auto simp: mt_get_usage_def mt_get_summary_def mt_report_to_stripe_def Let_def
      intro: meter_ok_record meter_ok_touch split: sum.split)

lemma mt_steps_ok: "mt_step\<^sup>*\<^sup>* m m' \<Longrightarrow> meter_ok m \<Longrightarrow> meter_ok m'"
  by (induction rule: rtranclp_induct) (auto intro: mt_step_ok)

text \<open>What an event of a type costs, as a function of the log.\<close>

definition event_cost :: "meter_event \<Rightarrow> int" where
  "event_cost e = mv_quantity e * dget_default event_unit_costs_pence (mv_event_type e) 0"

lemma cost_sum:
  "dict_wf cs \<Longrightarrow> (\<Sum>(et, c)\<leftarrow>cs. (if k = et then q else 0) * c) = q * dget_default cs k 0"
  for q :: int
  by (induction cs) (auto simp: dict_wf_def dget_default_def map_of_eq_None_iff [THEN iffD2])

lemma sum_list_add:
  "(\<Sum>(k, c)\<leftarrow>cs. (f k + g k) * c) = (\<Sum>(k, c)\<leftarrow>cs. f k * c) + (\<Sum>(k, c)\<leftarrow>cs. g k * c)"
  for f :: "'a \<Rightarrow> int"
  by (induction cs) (auto simp: algebra_simps)

lemma sum_list_none [simp]: "(\<Sum>(k, c)\<leftarrow>cs. 0) = (0 :: int)"
  by (induction cs) auto

lemma quantities_cost:
  assumes "dict_wf cs"
  shows "(\<Sum>(et, c)\<leftarrow>cs. quantity_of evs t et * c) =
    (\<Sum>e\<leftarrow>filter (\<lambda>e. mv_tenant_id e = t) evs. mv_quantity e * dget_default cs (mv_event_type e) 0)"
proof (induction evs rule: rev_induct)
  case Nil
  show ?case by (simp add: quantity_of_def)
next
  case (snoc e evs)
  let ?d = "\<lambda>et. if mv_tenant_id e = t \<and> mv_event_type e = et then mv_quantity e else 0"
  have "(\<Sum>(et, c)\<leftarrow>cs. quantity_of (evs @ [e]) t et * c) =
      (\<Sum>(et, c)\<leftarrow>cs. quantity_of evs t et * c) + (\<Sum>(et, c)\<leftarrow>cs. ?d et * c)"
    using sum_list_add [of "quantity_of evs t" ?d cs] by simp
  also have "(\<Sum>(et, c)\<leftarrow>cs. ?d et * c) =
      (if mv_tenant_id e = t then mv_quantity e * dget_default cs (mv_event_type e) 0 else 0)"
    using cost_sum [OF assms, of "mv_event_type e" "mv_quantity e"] by simp
  finally show ?case using snoc.IH by simp
qed

lemma unit_costs_wf: "dict_wf event_unit_costs_pence"
  by (simp add: event_unit_costs_pence_def dict_wf_def)

section \<open>Rate limiting\<close>

definition tier_limits :: "(string, (string, int) dict) dict" where
  "tier_limits =
     [(''starter'', [(''requests_per_minute'', 100), (''reconciliation_per_hour'', 20),
                     (''gate_submissions_per_minute'', 50)]),
      (''growth'', [(''requests_per_minute'', 500), (''reconciliation_per_hour'', 100),
                    (''gate_submissions_per_minute'', 200)]),
      (''enterprise'', [(''requests_per_minute'', 2000), (''reconciliation_per_hour'', -1),
                        (''gate_submissions_per_minute'', 1000)]),
      (''default'', [(''requests_per_minute'', 200), (''reconciliation_per_hour'', 50),
                     (''gate_submissions_per_minute'', 100)])]"

record rate_limiter =
  rl_counters :: "rat list table"
  rl_tenant_tiers :: "(string, string) dict"

definition new_rate_limiter :: rate_limiter where
  "new_rate_limiter = \<lparr>rl_counters = [], rl_tenant_tiers = []\<rparr>"

definition set_tier :: "string \<Rightarrow> string \<Rightarrow> rate_limiter \<Rightarrow> rate_limiter" where
  "set_tier tenant_id tier rl = rl\<lparr>rl_tenant_tiers := dput tenant_id tier (rl_tenant_tiers rl)\<rparr>"

definition limit_of :: "rate_limiter \<Rightarrow> string \<Rightarrow> string \<Rightarrow> int" where
  "limit_of rl tenant_id limit_type =
     (let tier = dget_default (rl_tenant_tiers rl) tenant_id ''default'';
          limits = dget_default tier_limits tier (dget_default tier_limits ''default'' [])
      in dget_default limits limit_type 200)"

definition window_seconds :: "string \<Rightarrow> rat" where
  "window_seconds limit_type = (if py_substring ''minute'' limit_type then 60 else 3600)"

definition verdict_of :: "int \<Rightarrow> int \<Rightarrow> string \<Rightarrow> bool \<times> fstr" where
  "verdict_of n limit limit_type =
     (if n > limit
      then (False, [Lit ''Rate limit exceeded: '', NumI n, Lit ''/'', NumI limit, Lit '' '',
                    Lit limit_type])
      else (True, [NumI n, Lit ''/'', NumI limit]))"

definition rl_check ::
  "int option \<Rightarrow> rat \<Rightarrow> string \<Rightarrow> string \<Rightarrow> rate_limiter \<Rightarrow> (bool \<times> fstr) \<times> rate_limiter" where
  "rl_check redis_count now tenant_id limit_type rl =
     (let limit = limit_of rl tenant_id limit_type
      in if limit = -1 then ((True, [Lit ''unlimited'']), rl)
         else
           (case redis_count of
              Some n \<Rightarrow> (verdict_of n limit limit_type, rl)
            | None \<Rightarrow>
                let timestamps = dget_default (row (rl_counters rl) tenant_id) limit_type [];
                    cutoff = now - window_seconds limit_type;
                    kept = filter (\<lambda>t. t > cutoff) timestamps @ [now];
                    rl = rl\<lparr>rl_counters := put_cell tenant_id limit_type kept (rl_counters rl)\<rparr>
                in (verdict_of (int (length kept)) limit limit_type, rl)))"

record limit_usage =
  lu_within_limit :: bool
  lu_detail :: fstr
  lu_max :: int

text \<open>
  \<open>get_tenant_usage\<close> checks every limit of the tier, each with its own Redis reply and clock reading.
\<close>

fun usage_loop ::
  "(nat \<Rightarrow> int option) \<Rightarrow> (nat \<Rightarrow> rat) \<Rightarrow> string \<Rightarrow> nat \<Rightarrow> (string, int) dict
     \<Rightarrow> rate_limiter \<Rightarrow> (string, limit_usage) dict \<times> rate_limiter" where
  "usage_loop redis clock tenant_id i [] rl = ([], rl)"
| "usage_loop redis clock tenant_id i ((limit_type, limit) # limits) rl =
     (let (r, rl) = rl_check (redis i) (clock i) tenant_id limit_type rl;
          (rest, rl) = usage_loop redis clock tenant_id (Suc i) limits rl
      in ((limit_type, \<lparr>lu_within_limit = fst r, lu_detail = snd r, lu_max = limit\<rparr>) # rest, rl))"

text \<open>An unknown tier raises a \<open>KeyError\<close> here, though \<open>check\<close> falls back.\<close>

definition get_tenant_usage ::
  "(nat \<Rightarrow> int option) \<Rightarrow> (nat \<Rightarrow> rat) \<Rightarrow> string \<Rightarrow> rate_limiter
     \<Rightarrow> (string, rate_limiter, string \<times> (string, limit_usage) dict) res" where
  "get_tenant_usage redis clock tenant_id rl =
     (let tier = dget_default (rl_tenant_tiers rl) tenant_id ''default''
      in case dget tier_limits tier of
           None \<Rightarrow> (Inl (''KeyError: '' @ tier), rl)
         | Some limits \<Rightarrow>
             (let (usages, rl) = usage_loop redis clock tenant_id 0 limits rl
              in (Inr (tier, usages), rl)))"

end
