(* ===== verification/Tenancy_Props.thy ===== *)
theory Tenancy_Props
  imports Tenancy
begin

text \<open>
  What the accounting promises: the meter's totals are those of its event log, and the in-memory
  limiter is an exact sliding window over the checks it has answered.
\<close>

section \<open>The sliding window\<close>

type_synonym limit_call = "rat \<times> string \<times> string"

fun rl_run :: "limit_call list \<Rightarrow> rate_limiter \<Rightarrow> bool list \<times> rate_limiter" where
  "rl_run [] rl = ([], rl)"
| "rl_run ((now, t, lt) # cs) rl =
     (let (r, rl) = rl_check None now t lt rl; (rs, rl) = rl_run cs rl in (fst r # rs, rl))"

definition check_times :: "limit_call list \<Rightarrow> string \<Rightarrow> string \<Rightarrow> rat list" where
  "check_times hist t lt = map fst (filter (\<lambda>(n, t', lt'). t' = t \<and> lt' = lt) hist)"

text \<open>The reference: a check passes when its key has no limit or few enough checks in the window.\<close>

definition window_admits :: "rate_limiter \<Rightarrow> limit_call list \<Rightarrow> limit_call \<Rightarrow> bool" where
  "window_admits rl hist c =
     (case c of (now, t, lt) \<Rightarrow>
        limit_of rl t lt = -1 \<or>
        int (length (filter (\<lambda>n. now - window_seconds lt < n) (check_times (hist @ [c]) t lt)))
          \<le> limit_of rl t lt)"

fun window_verdicts :: "rate_limiter \<Rightarrow> limit_call list \<Rightarrow> limit_call list \<Rightarrow> bool list" where
  "window_verdicts rl hist [] = []"
| "window_verdicts rl hist (c # cs) = window_admits rl hist c # window_verdicts rl (hist @ [c]) cs"

text \<open>The counters agree with the history on every window that a later check can look at.\<close>

definition window_inv :: "rate_limiter \<Rightarrow> limit_call list \<Rightarrow> rat \<Rightarrow> bool" where
  "window_inv rl hist now \<longleftrightarrow>
     (\<forall>t lt c. limit_of rl t lt \<noteq> -1 \<longrightarrow> now - window_seconds lt \<le> c \<longrightarrow>
        filter (\<lambda>n. c < n) (dget_default (row (rl_counters rl) t) lt []) =
        filter (\<lambda>n. c < n) (check_times hist t lt))"

lemma limit_of_check [simp]: "limit_of (snd (rl_check redis now t lt rl)) = limit_of rl"
  by (simp add: rl_check_def Let_def limit_of_def [abs_def] split: option.split)

lemma check_times_snoc [simp]:
  "check_times (hist @ [(n, t', lt')]) t lt =
     check_times hist t lt @ (if t' = t \<and> lt' = lt then [n] else [])"
  by (simp add: check_times_def)

lemma window_inv_later: "window_inv rl hist now \<Longrightarrow> now \<le> now' \<Longrightarrow> window_inv rl hist now'"
  unfolding window_inv_def by (meson diff_right_mono order_trans)

lemma filter_later: "(c' :: rat) \<le> c \<Longrightarrow> filter (\<lambda>n. c < n) (filter (\<lambda>n. c' < n) xs) = filter (\<lambda>n. c < n) xs"
  by (simp, rule filter_cong) auto

lemma filter_both: "(c' :: rat) \<le> c \<Longrightarrow> filter (\<lambda>n. c' < n \<and> c < n) xs = filter ((<) c) xs"
  by (rule filter_cong) auto

lemma rl_check_window:
  assumes "window_inv rl hist now"
  shows "fst (fst (rl_check None now t lt rl)) = window_admits rl hist (now, t, lt)"
    and "window_inv (snd (rl_check None now t lt rl)) (hist @ [(now, t, lt)]) now"
proof -
  let ?c = "now - window_seconds lt"
  let ?row = "dget_default (row (rl_counters rl) t) lt []"
  have row: "filter (\<lambda>n. ?c < n) ?row = filter (\<lambda>n. ?c < n) (check_times hist t lt)"
    if "limit_of rl t lt \<noteq> -1"
    using assms that by (simp add: window_inv_def)
  have pos: "?c < now" by (simp add: window_seconds_def)
  show "fst (fst (rl_check None now t lt rl)) = window_admits rl hist (now, t, lt)"
    using row pos by (auto simp: rl_check_def Let_def window_admits_def verdict_of_def)
  show "window_inv (snd (rl_check None now t lt rl)) (hist @ [(now, t, lt)]) now"
    using assms pos
    by (auto simp: window_inv_def rl_check_def Let_def filter_both limit_of_def)
qed

lemma rl_run_window:
  "window_inv rl hist now \<Longrightarrow> sorted (map fst calls) \<Longrightarrow> (\<forall>c\<in>set calls. now \<le> fst c) \<Longrightarrow>
   fst (rl_run calls rl) = window_verdicts rl hist calls"
proof (induction calls arbitrary: rl hist now)
  case (Cons c cs)
  obtain n t lt where c: "c = (n, t, lt)" by (cases c)
  let ?rl = "snd (rl_check None n t lt rl)"
  have inv: "window_inv rl hist n"
    using window_inv_later Cons.prems(1,3) c by auto
  have "window_verdicts ?rl h cs = window_verdicts rl h cs" for h
    by (induction cs arbitrary: h) (simp_all add: window_admits_def case_prod_beta)
  moreover have "fst (rl_run cs ?rl) = window_verdicts ?rl (hist @ [c]) cs"
    unfolding c by (rule Cons.IH, rule rl_check_window(2) [OF inv]) (use Cons.prems c in auto)
  ultimately show ?case
    using rl_check_window(1) [OF inv, of t lt] by (simp add: c case_prod_beta)
qed simp

lemma window_inv_new: "rl_counters rl = [] \<Longrightarrow> window_inv rl [] now"
  by (simp add: window_inv_def check_times_def dget_default_def)


definition sample_calls :: "limit_call list" where
  "sample_calls = [(0, ''t'', ''reconciliation_per_hour''), (30, ''t'', ''reconciliation_per_hour'')]"


section \<open>Reading the usage\<close>

lemma usage_loop_run:
  "snd (usage_loop (\<lambda>_. None) clock t i limits rl) =
     snd (rl_run (map (\<lambda>(j, lt, l). (clock (i + j), t, lt)) (enumerate 0 limits)) rl)"
proof (induction limits arbitrary: i rl)
  case (Cons p limits)
  obtain lt l where p: "p = (lt, l)" by (cases p)
  show ?case
    using Cons.IH [of "Suc i" "snd (rl_check None (clock i) t lt rl)"]
    by (simp add: p case_prod_beta enumerate_Suc_eq comp_def)
qed simp

text \<open>Reading a tenant's usage is not a read: without Redis it leaves the limiter in exactly the state
  that one request of every limit type of the tier would leave it in, and for a tenant whose tier
  is not a known one it raises instead.\<close>

theorem usage_read_consumes_quota:
  "(case get_tenant_usage (\<lambda>_. None) clock t rl of
      (Inl e, rl') \<Rightarrow> dget tier_limits (dget_default (rl_tenant_tiers rl) t ''default'') = None \<and> rl' = rl
    | (Inr (tier, usages), rl') \<Rightarrow>
        tier = dget_default (rl_tenant_tiers rl) t ''default'' \<and>
        (\<exists>limits. dget tier_limits tier = Some limits \<and> dkeys usages = dkeys limits \<and>
           rl' = snd (rl_run (map (\<lambda>(j, lt, l). (clock j, t, lt)) (enumerate 0 limits)) rl)))"
proof -
  have keys: "dkeys (fst (usage_loop redis clock t i limits rl)) = dkeys limits" for redis i limits rl
    by (induction limits arbitrary: i rl) (auto simp: case_prod_beta)
  show ?thesis
    using usage_loop_run [of clock t 0]
    by (auto simp: get_tenant_usage_def Let_def case_prod_beta keys split: option.split)
qed

section \<open>Metering\<close>

text \<open>C20: In every state the metering engine can reach, a tenant's summary is the one of its event log:
  the total is the sum of the recorded quantities, the billable units those of the billable types,
  and the estimated cost charges every event its unit price, whatever was read in between.\<close>

theorem meter_summary_refines_log:
  assumes "mt_step\<^sup>*\<^sup>* (new_metering_engine b) m"
  shows "let mine = filter (\<lambda>e. mv_tenant_id e = t) (mt_events m); s = fst (mt_get_summary period t m) in
    us_total_events s = (\<Sum>e\<leftarrow>mine. mv_quantity e) \<and>
    us_billable_units s = (\<Sum>e\<leftarrow>filter (\<lambda>e. mv_event_type e \<in> set billable_events) mine. mv_quantity e) \<and>
    us_estimated_cost_gbp s = py_round (fl (of_int (\<Sum>e\<leftarrow>mine. event_cost e) / 100)) 2"
proof -
  have ok: "meter_ok m" using mt_steps_ok [OF assms meter_ok_new] .
  have count: "dget_default (row (mt_counters m) t) et 0 = quantity_of (mt_events m) t et" for et
    using ok by (simp add: meter_ok_def)
  have total: "sum_list (dvalues (row (mt_counters m) t)) =
      (\<Sum>e\<leftarrow>filter (\<lambda>e. mv_tenant_id e = t) (mt_events m). mv_quantity e)"
    using ok by (simp add: meter_ok_def)
  have bill: "(\<Sum>et\<leftarrow>billable_events. quantity_of evs t et) =
      (\<Sum>e\<leftarrow>filter (\<lambda>e. mv_event_type e \<in> set billable_events)
        (filter (\<lambda>e. mv_tenant_id e = t) evs). mv_quantity e)" for evs
    by (induction evs rule: rev_induct) (auto simp: billable_events_def quantity_of_def)
  show ?thesis
    unfolding Let_def mt_get_summary_def
    by (simp add: count total bill event_cost_def [abs_def] quantities_cost [OF unit_costs_wf])
qed

definition sample_meter :: metering_engine where
  "sample_meter = mt_record 5 ''audit_export'' ''t'' 2 (new_metering_engine False)"

lemma sample_meter_steps: "mt_step\<^sup>*\<^sup>* (new_metering_engine False) sample_meter"
  unfolding sample_meter_def by (rule r_into_rtranclp) (rule mt_records)

theorem meter_summary_refines_log_witness:
  "us_estimated_cost_gbp (fst (mt_get_summary (''a'', ''b'') ''t'' sample_meter)) = 1"
  using meter_summary_refines_log [OF sample_meter_steps, of "''t''" "(''a'', ''b'')"]
  by (simp add: sample_meter_def mt_record_def push_to_redis_def new_metering_engine_def Let_def
      event_cost_def event_unit_costs_pence_def dget_default_def)

end
