(* ===== verification/Platform_Chain.thy ===== *)
theory Platform_Chain
  imports Prelude "HOL-Library.List_Lexorder" "HOL-Library.Char_ord"
begin

text \<open>
  The platform-wide validation chain, \<^verbatim>\<open>app/core/platform_validation_chain.py\<close>: five gates in
  sequence, a certificate when all pass and a rejection at the first that does not.

  The library functions the code hashes with are one record of parameters: \<open>pf_sha\<close> is the
  hexadecimal SHA-256 of a text, \<open>pf_iso\<close> is \<open>isoformat()\<close>, \<open>pf_render\<close> is the text of formatted
  fragments and \<open>pf_list\<close> that of a list of strings. An enum member in an f-string prints as its
  qualified name. A value under a policy key is untyped JSON, so gate 3 may raise.
\<close>

record platform_fns =
  pf_sha :: "string \<Rightarrow> string"
  pf_iso :: "time \<Rightarrow> string"
  pf_render :: "fstr \<Rightarrow> string"
  pf_list :: "string list \<Rightarrow> string"

section \<open>Types\<close>

datatype check_name = CN_COMPLETENESS | CN_EVIDENCE | CN_POLICY | CN_PROVENANCE | CN_SCHEMA

fun check_value :: "check_name \<Rightarrow> string" where
  "check_value CN_COMPLETENESS = ''completeness''"
| "check_value CN_EVIDENCE = ''evidence_sufficiency''"
| "check_value CN_POLICY = ''policy_compliance''"
| "check_value CN_PROVENANCE = ''provenance_integrity''"
| "check_value CN_SCHEMA = ''schema_conformance''"

fun check_str :: "check_name \<Rightarrow> string" where
  "check_str CN_COMPLETENESS = ''ValidationCheckName.COMPLETENESS''"
| "check_str CN_EVIDENCE = ''ValidationCheckName.EVIDENCE_SUFFICIENCY''"
| "check_str CN_POLICY = ''ValidationCheckName.POLICY_COMPLIANCE''"
| "check_str CN_PROVENANCE = ''ValidationCheckName.PROVENANCE_INTEGRITY''"
| "check_str CN_SCHEMA = ''ValidationCheckName.SCHEMA_CONFORMANCE''"

datatype gate_outcome = GATE_PASS | GATE_FAIL

fun gate_outcome_str :: "gate_outcome \<Rightarrow> string" where
  "gate_outcome_str GATE_PASS = ''ValidationOutcome.PASS''"
| "gate_outcome_str GATE_FAIL = ''ValidationOutcome.FAIL''"

datatype action_origin =
    HUMAN_OPERATOR | AUTOMATED_WORKFLOW | AI_INFERENCE | API_REQUEST | SCHEDULED_TASK | DOMAIN_PACK

fun origin_value :: "action_origin \<Rightarrow> string" where
  "origin_value HUMAN_OPERATOR = ''human_operator''"
| "origin_value AUTOMATED_WORKFLOW = ''automated_workflow''"
| "origin_value AI_INFERENCE = ''ai_inference''"
| "origin_value API_REQUEST = ''api_request''"
| "origin_value SCHEDULED_TASK = ''scheduled_task''"
| "origin_value DOMAIN_PACK = ''domain_pack''"

fun origin_str :: "action_origin \<Rightarrow> string" where
  "origin_str HUMAN_OPERATOR = ''ActionOrigin.HUMAN_OPERATOR''"
| "origin_str AUTOMATED_WORKFLOW = ''ActionOrigin.AUTOMATED_WORKFLOW''"
| "origin_str AI_INFERENCE = ''ActionOrigin.AI_INFERENCE''"
| "origin_str API_REQUEST = ''ActionOrigin.API_REQUEST''"
| "origin_str SCHEDULED_TASK = ''ActionOrigin.SCHEDULED_TASK''"
| "origin_str DOMAIN_PACK = ''ActionOrigin.DOMAIN_PACK''"

record gate_check =
  gc_name :: check_name
  gc_outcome :: gate_outcome
  gc_detail :: string
  gc_checked_at :: time
  gc_hash :: string

definition gate_check_of ::
  "platform_fns \<Rightarrow> time \<Rightarrow> check_name \<Rightarrow> gate_outcome \<Rightarrow> fstr \<Rightarrow> gate_check" where
  "gate_check_of fn now name outcome detail =
     (let d = pf_render fn detail
      in \<lparr>gc_name = name, gc_outcome = outcome, gc_detail = d, gc_checked_at = now,
          gc_hash = pf_sha fn (check_str name @ gate_outcome_str outcome @ d @ pf_iso fn now)\<rparr>)"

record platform_request =
  pq_request_id :: string
  pq_origin :: action_origin
  pq_action_type :: string
  pq_proposed_payload :: json
  pq_evidence_references :: "string list"
  pq_policy_context :: "(string, json) dict"
  pq_provenance_chain :: "string list"
  pq_requested_by :: string
  pq_requested_at :: time
  pq_request_hash :: string

definition request_digest :: "platform_fns \<Rightarrow> platform_request \<Rightarrow> string" where
  "request_digest fn q =
     pf_sha fn (pq_request_id q @ origin_str (pq_origin q) @ pq_action_type q @ pq_requested_by q @
                pf_iso fn (pq_requested_at q))"

definition compute_request_hash :: "platform_fns \<Rightarrow> platform_request \<Rightarrow> platform_request" where
  "compute_request_hash fn q = q\<lparr>pq_request_hash := request_digest fn q\<rparr>"

record certificate =
  ct_certificate_id :: string
  ct_request_id :: string
  ct_request_hash :: string
  ct_checks_passed :: "check_name list"
  ct_issued_at :: time
  ct_valid_for_action_type :: string
  ct_certificate_hash :: string

definition compute_certificate_hash :: "platform_fns \<Rightarrow> certificate \<Rightarrow> certificate" where
  "compute_certificate_hash fn c =
     c\<lparr>ct_certificate_hash := pf_sha fn
         (ct_certificate_id c @ ct_request_id c @ ct_request_hash c @
          pf_list fn (sort (map check_value (ct_checks_passed c))) @
          pf_iso fn (ct_issued_at c) @ ct_valid_for_action_type c)\<rparr>"

record rejection =
  rj_rejection_id :: string
  rj_request_id :: string
  rj_failed_check :: check_name
  rj_failure_detail :: string
  rj_rejected_at :: time
  rj_rejection_hash :: string

definition compute_rejection_hash :: "platform_fns \<Rightarrow> rejection \<Rightarrow> rejection" where
  "compute_rejection_hash fn r =
     r\<lparr>rj_rejection_hash := pf_sha fn
         (rj_rejection_id r @ rj_request_id r @ check_str (rj_failed_check r) @ rj_failure_detail r @
          pf_iso fn (rj_rejected_at r))\<rparr>"

section \<open>The gates\<close>

definition check_completeness :: "platform_fns \<Rightarrow> time \<Rightarrow> platform_request \<Rightarrow> gate_check" where
  "check_completeness fn now q =
     (if pq_action_type q = []
      then gate_check_of fn now CN_COMPLETENESS GATE_FAIL [Lit ''action_type is required'']
      else if pq_requested_by q = []
      then gate_check_of fn now CN_COMPLETENESS GATE_FAIL [Lit ''requested_by is required'']
      else if \<not> json_truthy (pq_proposed_payload q)
      then gate_check_of fn now CN_COMPLETENESS GATE_FAIL [Lit ''proposed_payload cannot be empty'']
      else gate_check_of fn now CN_COMPLETENESS GATE_PASS [Lit ''all required fields present''])"

definition check_evidence :: "platform_fns \<Rightarrow> time \<Rightarrow> platform_request \<Rightarrow> gate_check" where
  "check_evidence fn now q =
     (if pq_origin q = AI_INFERENCE \<and> pq_evidence_references q = []
      then gate_check_of fn now CN_EVIDENCE GATE_FAIL
             [Lit ''AI-originated actions require at least one evidence reference'']
      else gate_check_of fn now CN_EVIDENCE GATE_PASS
             [NumI (int (length (pq_evidence_references q))), Lit '' evidence references present''])"

text \<open>\<open>v[s]\<close> for a string \<open>s\<close>.\<close>

fun json_getitem :: "json \<Rightarrow> string \<Rightarrow> string + json" where
  "json_getitem (JObj d) s = (case dget d s of Some v \<Rightarrow> Inr v | None \<Rightarrow> Inl s)"
| "json_getitem (JList xs) s = Inl ''list indices must be integers or slices, not str''"
| "json_getitem (JStr t) s = Inl (''string indices must be integers, not '' @ [CHR 0x27] @ ''str'' @ [CHR 0x27])"
| "json_getitem v s = Inl ([CHR 0x27] @ json_type v @ [CHR 0x27] @ '' object is not subscriptable'')"

definition check_policy ::
  "platform_fns \<Rightarrow> time \<Rightarrow> (string, json) dict \<Rightarrow> platform_request \<Rightarrow> string + gate_check" where
  "check_policy fn now policies q =
     (let fail = gate_check_of fn now CN_POLICY GATE_FAIL;
          pass = gate_check_of fn now CN_POLICY GATE_PASS [Lit ''complies with active policies'']
      in case json_in (pq_action_type q) (dget_default policies ''blocked_action_types'' (JList [])) of
           Inl e \<Rightarrow> Inl e
         | Inr blocked \<Rightarrow>
             if blocked
             then Inr (fail [Lit ''action_type '', sq (pq_action_type q), Lit '' is blocked by active policy''])
             else
               (let required_origins = dget_default policies ''required_origins_for'' (JObj [])
                in case json_in (pq_action_type q) required_origins of
                     Inl e \<Rightarrow> Inl e
                   | Inr restricted \<Rightarrow>
                       if \<not> restricted then Inr pass
                       else
                         (case json_getitem required_origins (pq_action_type q) of
                            Inl e \<Rightarrow> Inl e
                          | Inr allowed \<Rightarrow>
                              (case json_in (origin_value (pq_origin q)) allowed of
                                 Inl e \<Rightarrow> Inl e
                               | Inr ok \<Rightarrow>
                                   if ok then Inr pass
                                   else Inr (fail [Lit ''action_type '', sq (pq_action_type q),
                                          Lit '' requires origin in '', Repr allowed, Lit '', got '',
                                          sq (origin_value (pq_origin q))])))))"

definition check_provenance :: "platform_fns \<Rightarrow> time \<Rightarrow> platform_request \<Rightarrow> gate_check" where
  "check_provenance fn now q =
     (if pq_request_hash q \<noteq> request_digest fn q
      then gate_check_of fn now CN_PROVENANCE GATE_FAIL
             [Lit ''request hash mismatch '', Lit [CHR 0xE2, CHR 0x80, CHR 0x94],
              Lit '' provenance may have been tampered with'']
      else gate_check_of fn now CN_PROVENANCE GATE_PASS [Lit ''provenance chain intact''])"

definition check_schema :: "platform_fns \<Rightarrow> time \<Rightarrow> platform_request \<Rightarrow> gate_check" where
  "check_schema fn now q =
     (case pq_proposed_payload q of
        JObj d \<Rightarrow> gate_check_of fn now CN_SCHEMA GATE_PASS [Lit ''schema conforms'']
      | _ \<Rightarrow> gate_check_of fn now CN_SCHEMA GATE_FAIL [Lit ''proposed_payload must be a dict''])"

section \<open>The chain\<close>

datatype chain_verdict = Certified certificate | Rejected rejection

record platform_chain =
  pc_active_policies :: "(string, json) dict"
  pc_processed :: "(platform_request \<times> chain_verdict) list"

definition new_platform_chain :: "(string, json) dict option \<Rightarrow> platform_chain" where
  "new_platform_chain policies =
     \<lparr>pc_active_policies = (case policies of Some p \<Rightarrow> p | None \<Rightarrow> []), pc_processed = []\<rparr>"

definition pc_record :: "platform_request \<Rightarrow> chain_verdict \<Rightarrow> platform_chain \<Rightarrow> platform_chain" where
  "pc_record q v ch = ch\<lparr>pc_processed := pc_processed ch @ [(q, v)]\<rparr>"

text \<open>What one validation draws: its clock readings and the identifier of its verdict.\<close>

record chain_draws =
  cd_clock :: "nat \<Rightarrow> time"
  cd_id :: string

definition pc_reject ::
  "platform_fns \<Rightarrow> chain_draws \<Rightarrow> nat \<Rightarrow> platform_request \<Rightarrow> gate_check \<Rightarrow> rejection" where
  "pc_reject fn dr i q r =
     compute_rejection_hash fn
       \<lparr>rj_rejection_id = cd_id dr, rj_request_id = pq_request_id q, rj_failed_check = gc_name r,
        rj_failure_detail = gc_detail r, rj_rejected_at = cd_clock dr i, rj_rejection_hash = []\<rparr>"

text \<open>The tail shared by the five gates: reject and record, or go on.\<close>

definition pc_gate ::
  "platform_fns \<Rightarrow> chain_draws \<Rightarrow> nat \<Rightarrow> platform_request \<Rightarrow> gate_check \<Rightarrow> platform_chain
     \<Rightarrow> (string, platform_chain, chain_verdict) res \<Rightarrow> (string, platform_chain, chain_verdict) res" where
  "pc_gate fn dr i q r ch rest =
     (if gc_outcome r = GATE_FAIL
      then (let rej = pc_reject fn dr i q r in (Inr (Rejected rej), pc_record q (Rejected rej) ch))
      else rest)"

definition pc_certificate :: "platform_fns \<Rightarrow> chain_draws \<Rightarrow> platform_request \<Rightarrow> certificate" where
  "pc_certificate fn dr q =
     compute_certificate_hash fn
       \<lparr>ct_certificate_id = cd_id dr, ct_request_id = pq_request_id q, ct_request_hash = pq_request_hash q,
        ct_checks_passed = [CN_COMPLETENESS, CN_EVIDENCE, CN_POLICY, CN_PROVENANCE, CN_SCHEMA],
        ct_issued_at = cd_clock dr 5, ct_valid_for_action_type = pq_action_type q,
        ct_certificate_hash = []\<rparr>"

definition pc_validate ::
  "platform_fns \<Rightarrow> chain_draws \<Rightarrow> platform_request \<Rightarrow> platform_chain
     \<Rightarrow> (string, platform_chain, chain_verdict) res" where
  "pc_validate fn dr q ch =
     pc_gate fn dr 1 q (check_completeness fn (cd_clock dr 0) q) ch
       (pc_gate fn dr 2 q (check_evidence fn (cd_clock dr 1) q) ch
         (case check_policy fn (cd_clock dr 2) (pc_active_policies ch) q of
            Inl e \<Rightarrow> (Inl e, ch)
          | Inr r \<Rightarrow>
              pc_gate fn dr 3 q r ch
                (pc_gate fn dr 4 q (check_provenance fn (cd_clock dr 3) q) ch
                  (pc_gate fn dr 5 q (check_schema fn (cd_clock dr 4) q) ch
                    (let cert = pc_certificate fn dr q
                     in (Inr (Certified cert), pc_record q (Certified cert) ch))))))"

definition processed_count :: "platform_chain \<Rightarrow> nat" where
  "processed_count ch = length (pc_processed ch)"

definition is_certified :: "chain_verdict \<Rightarrow> bool" where
  "is_certified v = (case v of Certified _ \<Rightarrow> True | Rejected _ \<Rightarrow> False)"

definition pass_rate :: "platform_chain \<Rightarrow> rat" where
  "pass_rate ch =
     (if pc_processed ch = [] then 0
      else of_nat (length (filter (is_certified \<circ> snd) (pc_processed ch))) / of_nat (length (pc_processed ch)))"

end
