(* ===== verification/Platform_Props.thy ===== *)
theory Platform_Props
  imports Platform_Chain
begin

text \<open>
  What the platform chain decides: its verdict is the first failing gate of a declarative list, and
  its certificate does not depend on the payload it certifies.
\<close>

section \<open>The gates as predicates\<close>

record policy_table =
  pt_blocked :: "string list"
  pt_origins :: "(string, action_origin list) dict"

text \<open>The policy dictionary the documentation describes, as the JSON the gate reads.\<close>

definition policy_json :: "policy_table \<Rightarrow> (string, json) dict" where
  "policy_json P =
     [(''blocked_action_types'', JList (map JStr (pt_blocked P))),
      (''required_origins_for'',
       JObj (map (\<lambda>(a, os). (a, JList (map (\<lambda>o'. JStr (origin_value o')) os))) (pt_origins P)))]"

definition policy_permits :: "policy_table \<Rightarrow> platform_request \<Rightarrow> bool" where
  "policy_permits P q =
     (pq_action_type q \<notin> set (pt_blocked P) \<and>
      (case dget (pt_origins P) (pq_action_type q) of None \<Rightarrow> True | Some os \<Rightarrow> pq_origin q \<in> set os))"

definition gate_list :: "platform_fns \<Rightarrow> policy_table \<Rightarrow> platform_request \<Rightarrow> (check_name \<times> bool) list" where
  "gate_list fn P q =
     [(CN_COMPLETENESS, pq_action_type q \<noteq> [] \<and> pq_requested_by q \<noteq> [] \<and> json_truthy (pq_proposed_payload q)),
      (CN_EVIDENCE, pq_origin q \<noteq> AI_INFERENCE \<or> pq_evidence_references q \<noteq> []),
      (CN_POLICY, policy_permits P q),
      (CN_PROVENANCE, pq_request_hash q = request_digest fn q),
      (CN_SCHEMA, pq_proposed_payload q \<in> range JObj)]"

definition failing_gate :: "platform_fns \<Rightarrow> policy_table \<Rightarrow> platform_request \<Rightarrow> check_name option" where
  "failing_gate fn P q = map_option fst (List.find (\<lambda>(n, ok). \<not> ok) (gate_list fn P q))"

lemma gate_check_of_simps [simp]:
  "gc_name (gate_check_of fn now n out d) = n" "gc_outcome (gate_check_of fn now n out d) = out"
  by (simp_all add: gate_check_of_def Let_def)

lemma pc_reject_simps [simp]:
  "rj_failed_check (pc_reject fn dr i q r) = gc_name r"
  "rj_request_id (pc_reject fn dr i q r) = pq_request_id q"
  "rj_failure_detail (pc_reject fn dr i q r) = gc_detail r"
  by (simp_all add: pc_reject_def compute_rejection_hash_def)

lemma completeness_iff:
  "gc_outcome (check_completeness fn now q) = GATE_FAIL \<longleftrightarrow>
     pq_action_type q = [] \<or> pq_requested_by q = [] \<or> \<not> json_truthy (pq_proposed_payload q)"
  "gc_name (check_completeness fn now q) = CN_COMPLETENESS"
  by (auto simp: check_completeness_def)

lemma evidence_iff:
  "gc_outcome (check_evidence fn now q) = GATE_FAIL \<longleftrightarrow>
     pq_origin q = AI_INFERENCE \<and> pq_evidence_references q = []"
  "gc_name (check_evidence fn now q) = CN_EVIDENCE"
  by (auto simp: check_evidence_def)

lemma provenance_iff:
  "gc_outcome (check_provenance fn now q) = GATE_FAIL \<longleftrightarrow> pq_request_hash q \<noteq> request_digest fn q"
  "gc_name (check_provenance fn now q) = CN_PROVENANCE"
  by (auto simp: check_provenance_def)

lemma schema_iff:
  "gc_outcome (check_schema fn now q) = GATE_FAIL \<longleftrightarrow> pq_proposed_payload q \<notin> range JObj"
  "gc_name (check_schema fn now q) = CN_SCHEMA"
  by (auto simp: check_schema_def split: json.split)

lemmas gate_iffs = completeness_iff evidence_iff provenance_iff schema_iff

lemma origin_value_inject [simp]: "origin_value a = origin_value b \<longleftrightarrow> a = b"
  by (cases a; cases b) simp_all

lemma policy_json_gets:
  "dget_default (policy_json P) ''blocked_action_types'' x = JList (map JStr (pt_blocked P))"
  "dget_default (policy_json P) ''required_origins_for'' x =
     JObj (map (\<lambda>(a, os). (a, JList (map (\<lambda>o'. JStr (origin_value o')) os))) (pt_origins P))"
  by (simp_all add: policy_json_def dget_default_def)

lemma map_of_map_JObj: "map_of (map (\<lambda>(a, os). (a, f os)) d) k = map_option f (map_of d k)"
  by (induction d) auto

lemma keys_map_JObj: "k \<in> fst ` set (map (\<lambda>(a, os). (a, f os)) d) \<longleftrightarrow> map_of d k \<noteq> None"
  by (induction d) auto

lemma policy_gate:
  "\<exists>r. check_policy fn now (policy_json P) q = Inr r \<and> gc_name r = CN_POLICY \<and>
     (gc_outcome r = GATE_FAIL \<longleftrightarrow> \<not> policy_permits P q)"
proof -
  have blocked: "(JStr (pq_action_type q) \<in> set (map JStr (pt_blocked P))) \<longleftrightarrow>
      pq_action_type q \<in> set (pt_blocked P)" by auto
  have allowed: "(JStr (origin_value (pq_origin q)) \<in> set (map (\<lambda>o'. JStr (origin_value o')) os)) \<longleftrightarrow>
      pq_origin q \<in> set os" for os
    by auto
  show ?thesis
    by (cases "dget (pt_origins P) (pq_action_type q)")
      (auto simp: check_policy_def Let_def policy_json_gets policy_permits_def json_in.simps blocked
        allowed keys_map_JObj map_of_map_JObj simp del: set_map)
qed

lemma platform_verdict:
  "\<exists>v. pc_validate fn dr q (ch\<lparr>pc_active_policies := policy_json P\<rparr>) =
        (Inr v, pc_record q v (ch\<lparr>pc_active_policies := policy_json P\<rparr>)) \<and>
      (case failing_gate fn P q of
         None \<Rightarrow> v = Certified (pc_certificate fn dr q)
       | Some n \<Rightarrow> (\<exists>r. v = Rejected r \<and> rj_failed_check r = n \<and> rj_request_id r = pq_request_id q))"
proof -
  obtain r where r: "check_policy fn (cd_clock dr 2) (policy_json P) q = Inr r" "gc_name r = CN_POLICY"
    "gc_outcome r = GATE_FAIL \<longleftrightarrow> \<not> policy_permits P q"
    using policy_gate by blast
  show ?thesis
    unfolding failing_gate_def gate_list_def
    by (simp add: pc_validate_def pc_gate_def r gate_iffs Let_def)
qed

text \<open>C18: Under any table of blocked types and required origins the platform chain always returns. It
  certifies a request exactly when it is complete, evidenced, permitted, intact and a dict, and
  otherwise rejects it with the first of these that fails; either way it records the verdict.\<close>

theorem platform_verdict_is_first_failure:
  "\<exists>v. pc_validate fn dr q (ch\<lparr>pc_active_policies := policy_json P\<rparr>) =
        (Inr v, pc_record q v (ch\<lparr>pc_active_policies := policy_json P\<rparr>)) \<and>
      (case failing_gate fn P q of
         None \<Rightarrow> v = Certified (pc_certificate fn dr q)
       | Some n \<Rightarrow> (\<exists>r. v = Rejected r \<and> rj_failed_check r = n \<and> rj_request_id r = pq_request_id q))"
  by (rule platform_verdict)

section \<open>What the certificate binds\<close>

lemma gate_pass_iff: "out = GATE_PASS \<longleftrightarrow> out \<noteq> GATE_FAIL"
  by (cases out) simp_all

lemma pc_validate_certified_iff:
  "fst (pc_validate fn dr q ch) = Inr (Certified c) \<longleftrightarrow>
     gc_outcome (check_completeness fn (cd_clock dr 0) q) = GATE_PASS \<and>
     gc_outcome (check_evidence fn (cd_clock dr 1) q) = GATE_PASS \<and>
     (\<exists>r. check_policy fn (cd_clock dr 2) (pc_active_policies ch) q = Inr r \<and> gc_outcome r = GATE_PASS) \<and>
     gc_outcome (check_provenance fn (cd_clock dr 3) q) = GATE_PASS \<and>
     gc_outcome (check_schema fn (cd_clock dr 4) q) = GATE_PASS \<and>
     c = pc_certificate fn dr q"
  by (auto simp: pc_validate_def pc_gate_def Let_def gate_pass_iff split: sum.split)

text \<open>The certificate does not bind the payload. Whatever was certified, the same request with any
  other non-empty payload, any other evidence and any other provenance chain, its hash left as it
  was, passes all five gates and gets the very same certificate.\<close>

theorem tampered_payload_certified:
  assumes "fst (pc_validate fn dr q ch) = Inr (Certified c)" and "d \<noteq> []" and "es \<noteq> []"
  shows "fst (pc_validate fn dr (q\<lparr>pq_proposed_payload := JObj d, pq_evidence_references := es,
                                  pq_provenance_chain := pv\<rparr>) ch) = Inr (Certified c)"
proof -
  let ?q = "q\<lparr>pq_proposed_payload := JObj d, pq_evidence_references := es, pq_provenance_chain := pv\<rparr>"
  have fields: "pq_action_type ?q = pq_action_type q" "pq_origin ?q = pq_origin q" by simp_all
  have "check_policy fn now pol ?q = check_policy fn now pol q" for now pol
    unfolding check_policy_def fields ..
  moreover have "request_digest fn ?q = request_digest fn q" by (simp add: request_digest_def)
  moreover have "pc_certificate fn dr ?q = pc_certificate fn dr q" by (simp add: pc_certificate_def)
  ultimately show ?thesis
    using assms unfolding pc_validate_certified_iff gate_pass_iff gate_iffs by simp
qed

definition sample_fns :: platform_fns where
  "sample_fns = \<lparr>pf_sha = (\<lambda>s. ''#'' @ s), pf_iso = (\<lambda>t. replicate t (CHR ''i'')),
                 pf_render = (\<lambda>fs. []), pf_list = concat\<rparr>"

definition sample_draws :: chain_draws where
  "sample_draws = \<lparr>cd_clock = id, cd_id = ''c''\<rparr>"

definition sample_request :: platform_request where
  "sample_request = compute_request_hash sample_fns
     \<lparr>pq_request_id = ''r'', pq_origin = AI_INFERENCE, pq_action_type = ''deploy'',
      pq_proposed_payload = JObj [(''x'', JInt 1)], pq_evidence_references = [''e''],
      pq_policy_context = [], pq_provenance_chain = [], pq_requested_by = ''bot'',
      pq_requested_at = 0, pq_request_hash = []\<rparr>"

lemma sample_certified:
  "fst (pc_validate sample_fns sample_draws sample_request (new_platform_chain None)) =
     Inr (Certified (pc_certificate sample_fns sample_draws sample_request))"
  by (simp add: pc_validate_certified_iff gate_pass_iff gate_iffs sample_request_def
      compute_request_hash_def request_digest_def check_policy_def new_platform_chain_def
      dget_default_def)

theorem tampered_payload_certified_witness:
  "fst (pc_validate sample_fns sample_draws
      (sample_request\<lparr>pq_proposed_payload := JObj [(''rm'', JStr ''all'')], pq_evidence_references := [''z''],
                      pq_provenance_chain := []\<rparr>) (new_platform_chain None)) =
    Inr (Certified (pc_certificate sample_fns sample_draws sample_request))"
  by (rule tampered_payload_certified [OF sample_certified]) simp_all

text \<open>The pass rate is a proportion, and a validation moves the counts by at most one.\<close>

lemma pass_rate_bounds: "0 \<le> pass_rate ch \<and> pass_rate ch \<le> 1"
proof (cases "pc_processed ch = []")
  case False
  have "length (filter (is_certified \<circ> snd) (pc_processed ch)) \<le> length (pc_processed ch)"
    by (rule length_filter_le)
  with False show ?thesis
    by (simp add: pass_rate_def divide_le_eq)
qed (simp add: pass_rate_def)

end
