(* ===== verification/Release_Gate.thy ===== *)
theory Release_Gate
  imports Platform_Props Tenancy
begin

text \<open>
  The platform-wide release gate, \<^verbatim>\<open>app/core/platform_action_release_gate.py\<close>: wrap the action in a
  request, validate it, bind the certificate and the evidence in a package, dispatch, log, meter.
  The executor is a parameter: it returns a result or raises. The metering engine is the module's
  singleton, and the tenant is the one the context holds.
\<close>

datatype dispatch_status = DS_PENDING | DS_VALIDATED | DS_COMPILED | DS_DISPATCHED | DS_BLOCKED | DS_FAILED

record evidence_package =
  pk_package_id :: string
  pk_action_manifest :: "(string, json) dict"
  pk_certificate :: certificate
  pk_evidence_chain :: "string list"
  pk_provenance_trail :: "string list"
  pk_policy_snapshot :: "(string, json) dict"
  pk_requested_by :: string
  pk_action_type :: string
  pk_origin :: action_origin
  pk_compiled_at :: time
  pk_package_hash :: string

definition package_digest :: "platform_fns \<Rightarrow> evidence_package \<Rightarrow> string" where
  "package_digest fn p =
     pf_sha fn (pk_package_id p @ ct_certificate_hash (pk_certificate p) @
       pf_list fn (sort (pk_evidence_chain p)) @ pf_list fn (sort (pk_provenance_trail p)) @
       pk_requested_by p @ pk_action_type p @ origin_str (pk_origin p) @ pf_iso fn (pk_compiled_at p))"

definition compute_package_hash :: "platform_fns \<Rightarrow> evidence_package \<Rightarrow> evidence_package" where
  "compute_package_hash fn p = p\<lparr>pk_package_hash := package_digest fn p\<rparr>"

definition verify_integrity :: "platform_fns \<Rightarrow> evidence_package \<Rightarrow> bool" where
  "verify_integrity fn p = (pk_package_hash p = package_digest fn p)"

record dispatch_result =
  ds_dispatch_id :: string
  ds_package_id :: string
  ds_status :: dispatch_status
  ds_dispatched_at :: time
  ds_result :: "(string, json) dict"
  ds_failure_reason :: "string option"

record platform_gate =
  pg_chain :: platform_chain
  pg_active_policies :: "(string, json) dict"
  pg_audit_log :: "dispatch_result list"
  pg_packages :: "(string, evidence_package) dict"
  pg_meter :: metering_engine

definition new_platform_gate ::
  "platform_chain option \<Rightarrow> (string, json) dict option \<Rightarrow> metering_engine \<Rightarrow> platform_gate" where
  "new_platform_gate chain policies meter =
     \<lparr>pg_chain = (case chain of Some c \<Rightarrow> c | None \<Rightarrow> new_platform_chain policies),
      pg_active_policies = (case policies of Some p \<Rightarrow> p | None \<Rightarrow> []),
      pg_audit_log = [], pg_packages = [], pg_meter = meter\<rparr>"

text \<open>What one submission draws.\<close>

record gate_draws =
  gd_request_id :: string
  gd_chain :: chain_draws
  gd_package_id :: string
  gd_dispatch_id :: string
  gd_requested_at :: time
  gd_compiled_at :: time
  gd_dispatched_at :: time

record submission =
  sb_action_type :: string
  sb_proposed_payload :: "(string, json) dict"
  sb_requested_by :: string
  sb_origin :: action_origin
  sb_evidence_references :: "string list option"
  sb_provenance_chain :: "string list option"

definition or_empty :: "'a list option \<Rightarrow> 'a list" where
  "or_empty x = (case x of Some xs \<Rightarrow> xs | None \<Rightarrow> [])"

definition wrap_request :: "platform_fns \<Rightarrow> gate_draws \<Rightarrow> submission \<Rightarrow> platform_gate \<Rightarrow> platform_request" where
  "wrap_request fn gd sb g =
     compute_request_hash fn
       \<lparr>pq_request_id = gd_request_id gd, pq_origin = sb_origin sb, pq_action_type = sb_action_type sb,
        pq_proposed_payload = JObj (sb_proposed_payload sb),
        pq_evidence_references = or_empty (sb_evidence_references sb),
        pq_policy_context = pg_active_policies g,
        pq_provenance_chain = or_empty (sb_provenance_chain sb), pq_requested_by = sb_requested_by sb,
        pq_requested_at = gd_requested_at gd, pq_request_hash = []\<rparr>"

definition compile_package ::
  "platform_fns \<Rightarrow> gate_draws \<Rightarrow> submission \<Rightarrow> certificate \<Rightarrow> platform_gate \<Rightarrow> evidence_package" where
  "compile_package fn gd sb c g =
     compute_package_hash fn
       \<lparr>pk_package_id = gd_package_id gd, pk_action_manifest = sb_proposed_payload sb,
        pk_certificate = c, pk_evidence_chain = or_empty (sb_evidence_references sb),
        pk_provenance_trail = or_empty (sb_provenance_chain sb),
        pk_policy_snapshot = pg_active_policies g, pk_requested_by = sb_requested_by sb,
        pk_action_type = sb_action_type sb, pk_origin = sb_origin sb,
        pk_compiled_at = gd_compiled_at gd, pk_package_hash = []\<rparr>"

definition log_dispatch :: "dispatch_result \<Rightarrow> platform_gate \<Rightarrow> platform_gate" where
  "log_dispatch r g = g\<lparr>pg_audit_log := pg_audit_log g @ [r]\<rparr>"

type_synonym gate_executor = "(string, json) dict \<Rightarrow> string + (string, json) dict"

definition run_executor ::
  "gate_executor option \<Rightarrow> evidence_package \<Rightarrow> (string, json) dict \<Rightarrow> dispatch_status \<times> (string, json) dict" where
  "run_executor executor p payload =
     (case executor of
        Some f \<Rightarrow> (case f payload of
                    Inr d \<Rightarrow> (DS_DISPATCHED, d)
                  | Inl e \<Rightarrow> (DS_FAILED, [(''error'', JStr e)]))
      | None \<Rightarrow> (DS_COMPILED, [(''package_id'', JStr (pk_package_id p)),
                              (''package_hash'', JStr (pk_package_hash p))]))"

definition meter_submission :: "time \<Rightarrow> string \<Rightarrow> dispatch_result \<Rightarrow> metering_engine \<Rightarrow> metering_engine" where
  "meter_submission now tenant r m =
     (let m = mt_record now ''gate_submission'' tenant 1 m
      in if ds_status r = DS_BLOCKED then mt_record now ''gate_block'' tenant 1 m
         else mt_record now ''gate_release'' tenant 1 m)"

definition submit ::
  "platform_fns \<Rightarrow> gate_draws \<Rightarrow> string \<Rightarrow> gate_executor option \<Rightarrow> submission \<Rightarrow> platform_gate
     \<Rightarrow> (string, platform_gate, dispatch_result) res" where
  "submit fn gd tenant executor sb g =
     (let request = wrap_request fn gd sb g
      in case pc_validate fn (gd_chain gd) request (pg_chain g) of
           (Inl e, ch) \<Rightarrow> (Inl e, g\<lparr>pg_chain := ch\<rparr>)
         | (Inr (Rejected rej), ch) \<Rightarrow>
             (let result = \<lparr>ds_dispatch_id = gd_dispatch_id gd, ds_package_id = ''none'',
                    ds_status = DS_BLOCKED, ds_dispatched_at = gd_dispatched_at gd, ds_result = [],
                    ds_failure_reason =
                      Some (check_value (rj_failed_check rej) @ '': '' @ rj_failure_detail rej)\<rparr>
              in (Inr result, log_dispatch result (g\<lparr>pg_chain := ch\<rparr>)))
         | (Inr (Certified c), ch) \<Rightarrow>
             (let g = g\<lparr>pg_chain := ch\<rparr>;
                  package = compile_package fn gd sb c g
              in if \<not> verify_integrity fn package
                 then (let result = \<lparr>ds_dispatch_id = gd_dispatch_id gd,
                             ds_package_id = pk_package_id package, ds_status = DS_BLOCKED,
                             ds_dispatched_at = gd_dispatched_at gd, ds_result = [],
                             ds_failure_reason = Some ''Evidence package integrity check failed''\<rparr>
                       in (Inr result, log_dispatch result g))
                 else
                   (let g = g\<lparr>pg_packages := dput (pk_package_id package) package (pg_packages g)\<rparr>;
                        (status, dispatch_result) = run_executor executor package (sb_proposed_payload sb);
                        result = \<lparr>ds_dispatch_id = gd_dispatch_id gd,
                          ds_package_id = pk_package_id package, ds_status = status,
                          ds_dispatched_at = gd_dispatched_at gd, ds_result = dispatch_result,
                          ds_failure_reason = None\<rparr>;
                        g = log_dispatch result g
                    in (Inr result,
                        g\<lparr>pg_meter := meter_submission (gd_dispatched_at gd) tenant result (pg_meter g)\<rparr>))))"

definition get_package :: "platform_gate \<Rightarrow> string \<Rightarrow> evidence_package option" where
  "get_package g package_id = dget (pg_packages g) package_id"

definition get_audit_log :: "platform_gate \<Rightarrow> dispatch_result list" where
  "get_audit_log g = pg_audit_log g"

definition total_submitted :: "platform_gate \<Rightarrow> nat" where
  "total_submitted g = length (pg_audit_log g)"

definition total_blocked :: "platform_gate \<Rightarrow> nat" where
  "total_blocked g = length (filter (\<lambda>r. ds_status r = DS_BLOCKED) (pg_audit_log g))"

definition total_dispatched :: "platform_gate \<Rightarrow> nat" where
  "total_dispatched g = length (filter (\<lambda>r. ds_status r = DS_DISPATCHED) (pg_audit_log g))"

section \<open>One submission\<close>

lemma wrap_request_simps [simp]:
  "pq_action_type (wrap_request fn gd sb g) = sb_action_type sb"
  "pq_requested_by (wrap_request fn gd sb g) = sb_requested_by sb"
  "pq_origin (wrap_request fn gd sb g) = sb_origin sb"
  "pq_proposed_payload (wrap_request fn gd sb g) = JObj (sb_proposed_payload sb)"
  "pq_evidence_references (wrap_request fn gd sb g) = or_empty (sb_evidence_references sb)"
  "pq_request_hash (wrap_request fn gd sb g) = request_digest fn (wrap_request fn gd sb g)"
  by (simp_all add: wrap_request_def compute_request_hash_def request_digest_def)

lemma compiled_intact [simp]: "verify_integrity fn (compile_package fn gd sb c g)"
  by (simp add: verify_integrity_def compile_package_def compute_package_hash_def package_digest_def)

lemma compile_package_simps [simp]:
  "pk_package_id (compile_package fn gd sb c g) = gd_package_id gd"
  "pk_certificate (compile_package fn gd sb c g) = c"
  "pk_action_manifest (compile_package fn gd sb c g) = sb_proposed_payload sb"
  "pk_action_type (compile_package fn gd sb c g) = sb_action_type sb"
  "pk_origin (compile_package fn gd sb c g) = sb_origin sb"
  "pk_requested_by (compile_package fn gd sb c g) = sb_requested_by sb"
  "pk_evidence_chain (compile_package fn gd sb c g) = or_empty (sb_evidence_references sb)"
  "compile_package fn gd sb c (g\<lparr>pg_chain := ch\<rparr>) = compile_package fn gd sb c g"
  by (simp_all add: compile_package_def compute_package_hash_def)

text \<open>The three outcomes of a submission; the integrity check of a package just compiled never fails.\<close>

lemma pc_validate_chain:
  "snd (pc_validate fn dr q ch) =
     (case fst (pc_validate fn dr q ch) of Inl e \<Rightarrow> ch | Inr v \<Rightarrow> pc_record q v ch)"
  by (simp add: pc_validate_def pc_gate_def Let_def split: sum.split)

lemma submit_cases:
  assumes "submit fn gd tenant executor sb g = (out, g')"
  obtains (raised) e where "out = Inl e" "g' = g"
  | (blocked) rej r where "out = Inr r" "ds_status r = DS_BLOCKED" "ds_failure_reason r \<noteq> None"
      "fst (pc_validate fn (gd_chain gd) (wrap_request fn gd sb g) (pg_chain g)) = Inr (Rejected rej)"
      "g' = log_dispatch r (g\<lparr>pg_chain := pc_record (wrap_request fn gd sb g) (Rejected rej) (pg_chain g)\<rparr>)"
  | (released) c r where "out = Inr r" "ds_status r \<in> {DS_COMPILED, DS_DISPATCHED, DS_FAILED}"
      "ds_package_id r = gd_package_id gd"
      "(ds_status r, ds_result r) =
         run_executor executor (compile_package fn gd sb c g) (sb_proposed_payload sb)"
      "fst (pc_validate fn (gd_chain gd) (wrap_request fn gd sb g) (pg_chain g)) = Inr (Certified c)"
      "g' = (log_dispatch r (g\<lparr>pg_chain := pc_record (wrap_request fn gd sb g) (Certified c) (pg_chain g),
              pg_packages := dput (gd_package_id gd) (compile_package fn gd sb c g) (pg_packages g)\<rparr>))
            \<lparr>pg_meter := meter_submission (gd_dispatched_at gd) tenant r (pg_meter g)\<rparr>"
proof -
  let ?q = "wrap_request fn gd sb g"
  obtain v ch where v: "pc_validate fn (gd_chain gd) ?q (pg_chain g) = (v, ch)" by fastforce
  then have ch: "ch = (case v of Inl e \<Rightarrow> pg_chain g | Inr v \<Rightarrow> pc_record ?q v (pg_chain g))"
    using pc_validate_chain [of fn "gd_chain gd" ?q "pg_chain g"] by simp
  consider e where "v = Inl e" | rej where "v = Inr (Rejected rej)" | c where "v = Inr (Certified c)"
    by (metis chain_verdict.exhaust sum.exhaust_sel)
  then show thesis
  proof cases
    case (1 e)
    with assms v ch have "out = Inl e" "g' = g"
      by (auto simp: submit_def Let_def)
    then show thesis by (rule raised)
  next
    case (2 rej)
    note r = assms [unfolded submit_def Let_def v 2 prod.case sum.case chain_verdict.case prod.inject]
    show thesis
    proof (rule blocked)
      show "out = Inr (projr out)" unfolding r [THEN conjunct1, symmetric] by simp
      show "ds_status (projr out) = DS_BLOCKED" "ds_failure_reason (projr out) \<noteq> None"
        unfolding r [THEN conjunct1, symmetric] by simp_all
      show "fst (pc_validate fn (gd_chain gd) ?q (pg_chain g)) = Inr (Rejected rej)" using v 2 by simp
      show "g' = log_dispatch (projr out) (g\<lparr>pg_chain := pc_record ?q (Rejected rej) (pg_chain g)\<rparr>)"
        unfolding r [THEN conjunct1, symmetric] r [THEN conjunct2, symmetric] using ch 2 by simp
    qed
  next
    case (3 c)
    obtain st d where ex: "run_executor executor (compile_package fn gd sb c g) (sb_proposed_payload sb) = (st, d)"
      by fastforce
    define r where "r = \<lparr>ds_dispatch_id = gd_dispatch_id gd, ds_package_id = gd_package_id gd,
      ds_status = st, ds_dispatched_at = gd_dispatched_at gd, ds_result = d, ds_failure_reason = None\<rparr>"
    have eq: "out = Inr r" "g' = (log_dispatch r (g\<lparr>pg_chain := pc_record ?q (Certified c) (pg_chain g),
          pg_packages := dput (gd_package_id gd) (compile_package fn gd sb c g) (pg_packages g)\<rparr>))
        \<lparr>pg_meter := meter_submission (gd_dispatched_at gd) tenant r (pg_meter g)\<rparr>"
      using assms ch ex by (auto simp: submit_def Let_def v 3 r_def log_dispatch_def)
    have "st \<in> {DS_COMPILED, DS_DISPATCHED, DS_FAILED}"
      using ex by (auto simp: run_executor_def split: option.splits sum.splits)
    then show thesis
      using v 3 by (intro released [OF eq(1) _ _ _ _ eq(2)]) (simp_all add: r_def ex)
  qed
qed

end
