(* ===== verification/Release_Gate_Props.thy ===== *)
theory Release_Gate_Props
  imports Release_Gate Tenancy_Props
begin

text \<open>
  What the release gate promises: what it lets through, what its log and packages rest on in every
  reachable state, and what the package hash does and does not bind.
\<close>

section \<open>What is let through\<close>

text \<open>A request the gate wraps itself can fail only the first three gates.\<close>

definition admissible_submission :: "policy_table \<Rightarrow> submission \<Rightarrow> bool" where
  "admissible_submission P sb \<longleftrightarrow>
     sb_action_type sb \<noteq> [] \<and> sb_requested_by sb \<noteq> [] \<and> sb_proposed_payload sb \<noteq> [] \<and>
     (sb_origin sb = AI_INFERENCE \<longrightarrow> or_empty (sb_evidence_references sb) \<noteq> []) \<and>
     sb_action_type sb \<notin> set (pt_blocked P) \<and>
     (case dget (pt_origins P) (sb_action_type sb) of None \<Rightarrow> True | Some os \<Rightarrow> sb_origin sb \<in> set os)"

definition gate_under :: "policy_table \<Rightarrow> platform_gate \<Rightarrow> platform_gate" where
  "gate_under P g = g\<lparr>pg_chain := (pg_chain g)\<lparr>pc_active_policies := policy_json P\<rparr>\<rparr>"

lemma admissible_iff: "failing_gate fn P (wrap_request fn gd sb g) = None \<longleftrightarrow> admissible_submission P sb"
  by (auto simp: failing_gate_def gate_list_def admissible_submission_def policy_permits_def
      split: option.splits)

lemma gate_verdict:
  "\<exists>v. fst (pc_validate fn dr (wrap_request fn gd sb g) (pg_chain (gate_under P g'))) = Inr v \<and>
     (admissible_submission P sb \<longleftrightarrow> is_certified v)"
proof -
  obtain v where v: "fst (pc_validate fn dr (wrap_request fn gd sb g) (pg_chain (gate_under P g'))) = Inr v"
    "case failing_gate fn P (wrap_request fn gd sb g) of
       None \<Rightarrow> v = Certified (pc_certificate fn dr (wrap_request fn gd sb g))
     | Some n \<Rightarrow> (\<exists>r. v = Rejected r \<and> rj_failed_check r = n \<and>
         rj_request_id r = pq_request_id (wrap_request fn gd sb g))"
    using platform_verdict [of fn dr "wrap_request fn gd sb g" P "pg_chain g'"]
    unfolding gate_under_def by fastforce
  have "admissible_submission P sb \<longleftrightarrow> is_certified v"
    using v(2) unfolding admissible_iff [symmetric, of P sb fn gd g]
    by (auto simp: is_certified_def split: option.splits)
  with v(1) show ?thesis by blast
qed

lemma submit_decides:
  "\<exists>r g'. submit fn gd tenant executor sb (gate_under P g) = (Inr r, g') \<and>
     (if admissible_submission P sb
      then (case executor of
              None \<Rightarrow> ds_status r = DS_COMPILED
            | Some f \<Rightarrow> (case f (sb_proposed_payload sb) of
                Inr d \<Rightarrow> ds_status r = DS_DISPATCHED \<and> ds_result r = d
              | Inl e \<Rightarrow> ds_status r = DS_FAILED \<and> ds_result r = [(''error'', JStr e)]))
      else ds_status r = DS_BLOCKED \<and> pg_packages g' = pg_packages g \<and> pg_meter g' = pg_meter g)"
proof -
  let ?g = "gate_under P g" and ?q = "wrap_request fn gd sb (gate_under P g)"
  obtain v where v: "fst (pc_validate fn (gd_chain gd) ?q (pg_chain ?g)) = Inr v"
    "admissible_submission P sb \<longleftrightarrow> is_certified v"
    using gate_verdict by blast
  obtain out g' where s: "submit fn gd tenant executor sb ?g = (out, g')" by fastforce
  from s show ?thesis
  proof (cases rule: submit_cases)
    case (raised e)
    with s v(1) show ?thesis
      by (auto simp: submit_def Let_def split: prod.splits chain_verdict.splits if_splits)
  next
    case (blocked rej r)
    from blocked(4) v(1) have "v = Rejected rej" by simp
    with v(2) have "\<not> admissible_submission P sb" by (simp add: is_certified_def)
    with s blocked show ?thesis by (simp add: log_dispatch_def gate_under_def)
  next
    case (released c r)
    from released(5) v(1) have "v = Certified c" by simp
    with v(2) have "admissible_submission P sb" by (simp add: is_certified_def)
    with s released show ?thesis
      by (auto simp: run_executor_def split: option.splits sum.splits)
  qed
qed

text \<open>C17: Under any table of policies the gate always answers. It blocks a submission exactly when the
  submission is incomplete, an unevidenced inference or against the policy; otherwise it runs the
  executor it was given, or only compiles the package when it was given none.\<close>

theorem submit_outcome:
  "\<exists>r g'. submit fn gd tenant executor sb (gate_under P g) = (Inr r, g') \<and>
     (if admissible_submission P sb
      then (case executor of
              None \<Rightarrow> ds_status r = DS_COMPILED
            | Some f \<Rightarrow> (case f (sb_proposed_payload sb) of
                Inr d \<Rightarrow> ds_status r = DS_DISPATCHED \<and> ds_result r = d
              | Inl e \<Rightarrow> ds_status r = DS_FAILED \<and> ds_result r = [(''error'', JStr e)]))
      else ds_status r = DS_BLOCKED \<and> pg_packages g' = pg_packages g \<and> pg_meter g' = pg_meter g)"
  by (rule submit_decides)

section \<open>Reachable gates\<close>

text \<open>A package is authorised when the chain certified, for exactly this action, what it carries.\<close>

definition authorised :: "platform_fns \<Rightarrow> platform_chain \<Rightarrow> evidence_package \<Rightarrow> bool" where
  "authorised fn ch p \<longleftrightarrow> verify_integrity fn p \<and>
     (\<exists>q. (q, Certified (pk_certificate p)) \<in> set (pc_processed ch) \<and>
        pq_proposed_payload q = JObj (pk_action_manifest p) \<and> pq_action_type q = pk_action_type p \<and>
        pq_requested_by q = pk_requested_by p \<and> pq_origin q = pk_origin p \<and>
        pq_evidence_references q = pk_evidence_chain p)"

definition entry_ok :: "platform_fns \<Rightarrow> platform_gate \<Rightarrow> dispatch_result \<Rightarrow> bool" where
  "entry_ok fn g r \<longleftrightarrow>
     (if ds_status r = DS_BLOCKED then ds_failure_reason r \<noteq> None
      else ds_status r \<in> {DS_COMPILED, DS_DISPATCHED, DS_FAILED} \<and>
        (\<exists>p. get_package g (ds_package_id r) = Some p \<and> authorised fn (pg_chain g) p))"

definition gate_ok :: "platform_fns \<Rightarrow> platform_gate \<Rightarrow> bool" where
  "gate_ok fn g \<longleftrightarrow>
     (\<forall>r\<in>set (pg_audit_log g). entry_ok fn g r) \<and>
     length (pg_audit_log g) = length (pc_processed (pg_chain g)) \<and>
     total_blocked g = length (filter (\<lambda>p. \<not> is_certified (snd p)) (pc_processed (pg_chain g)))"

inductive pg_step :: "platform_fns \<Rightarrow> platform_gate \<Rightarrow> platform_gate \<Rightarrow> bool" for fn where
  pg_submits: "get_package g (gd_package_id gd) = None \<Longrightarrow>
     pg_step fn g (snd (submit fn gd tenant executor sb g))"

lemma authorised_mono: "authorised fn ch p \<Longrightarrow> authorised fn (pc_record q v ch) p"
  by (auto simp: authorised_def pc_record_def)

lemma entry_ok_mono:
  assumes "entry_ok fn g r" and "pg_chain g' = pc_record q v (pg_chain g)"
    and "\<And>i p. get_package g i = Some p \<Longrightarrow> get_package g' i = Some p"
  shows "entry_ok fn g' r"
  using assms authorised_mono unfolding entry_ok_def by (metis (no_types, lifting))

lemma submit_gate_ok:
  assumes ok: "gate_ok fn g" and fresh: "get_package g (gd_package_id gd) = None"
    and s: "submit fn gd tenant executor sb g = (out, g')"
  shows "gate_ok fn g'"
  using s
proof (cases rule: submit_cases)
  case (blocked rej r)
  have "entry_ok fn g' x" if "entry_ok fn g x" for x
    using that by (rule entry_ok_mono) (simp_all add: blocked(5) log_dispatch_def get_package_def)
  moreover have "entry_ok fn g' r" using blocked(2,3) by (simp add: entry_ok_def)
  ultimately show ?thesis
    using ok blocked(2)
    by (simp add: gate_ok_def blocked(5) log_dispatch_def pc_record_def total_blocked_def is_certified_def)
next
  case (released c r)
  let ?p = "compile_package fn gd sb c g"
  have keep: "entry_ok fn g' x" if "entry_ok fn g x" for x
    using that by (rule entry_ok_mono)
      (use fresh in \<open>auto simp: released(6) log_dispatch_def get_package_def\<close>)
  have "authorised fn (pg_chain g') ?p"
    unfolding authorised_def
    by (auto simp: released(6) log_dispatch_def pc_record_def intro!: exI [of _ "wrap_request fn gd sb g"])
  then have "entry_ok fn g' r"
    using released(2,3) by (auto simp: entry_ok_def released(6) log_dispatch_def get_package_def)
  with keep show ?thesis
    using ok released(2)
    by (auto simp: gate_ok_def released(6) log_dispatch_def pc_record_def total_blocked_def is_certified_def)
qed (use ok in simp)

lemma pg_steps_ok: "(pg_step fn)\<^sup>*\<^sup>* g g' \<Longrightarrow> gate_ok fn g \<Longrightarrow> gate_ok fn g'"
proof (induction rule: rtranclp_induct)
  case (step h h')
  from step(2) show ?case
  proof cases
    case (pg_submits gd tenant executor sb)
    obtain out g'' where s: "submit fn gd tenant executor sb h = (out, g'')" by fastforce
    with submit_gate_ok [OF _ pg_submits(2) s] step pg_submits(1) show ?thesis by simp
  qed
qed

lemma gate_ok_new: "gate_ok fn (new_platform_gate None policies m)"
  by (simp add: gate_ok_def new_platform_gate_def new_platform_chain_def total_blocked_def)

text \<open>C16: In every state the gate can reach, each entry of its log that is not blocked has its package
  stored, with its hash intact and a certificate the chain issued for exactly the payload, type,
  origin, requester and evidence the package carries. The log has one entry per verdict of the
  chain, and the blocked ones are the rejections.\<close>

theorem gate_log_authorised:
  assumes "(pg_step fn)\<^sup>*\<^sup>* (new_platform_gate None policies m) g"
  shows "gate_ok fn g"
  using assms gate_ok_new by (rule pg_steps_ok)

definition sample_submission :: submission where
  "sample_submission =
     \<lparr>sb_action_type = ''deploy'', sb_proposed_payload = [(''x'', JInt 1)], sb_requested_by = ''ann'',
      sb_origin = HUMAN_OPERATOR, sb_evidence_references = None, sb_provenance_chain = None\<rparr>"

definition sample_gate_draws :: gate_draws where
  "sample_gate_draws =
     \<lparr>gd_request_id = ''r'', gd_chain = sample_draws, gd_package_id = ''p'', gd_dispatch_id = ''d'',
      gd_requested_at = 0, gd_compiled_at = 6, gd_dispatched_at = 7\<rparr>"

definition sample_gate :: platform_gate where
  "sample_gate = snd (submit sample_fns sample_gate_draws ''t'' None sample_submission
     (new_platform_gate None None (new_metering_engine False)))"

lemma sample_gate_steps:
  "(pg_step sample_fns)\<^sup>*\<^sup>* (new_platform_gate None None (new_metering_engine False)) sample_gate"
  unfolding sample_gate_def
  by (rule r_into_rtranclp, rule pg_submits) (simp add: get_package_def new_platform_gate_def)

theorem gate_log_authorised_witness: "gate_ok sample_fns sample_gate"
  by (rule gate_log_authorised [OF sample_gate_steps])

section \<open>What the package hash binds\<close>

text \<open>The package hash does not bind every element: after any change of the manifest, of the policy
  snapshot or of the order of the evidence, and after moving text between the adjacent requester
  and action type, the integrity check answers as before.\<close>

theorem package_hash_unbound:
  "verify_integrity fn (p\<lparr>pk_action_manifest := m, pk_policy_snapshot := s,
      pk_evidence_chain := rev (pk_evidence_chain p)\<rparr>) = verify_integrity fn p \<and>
   verify_integrity fn (p\<lparr>pk_requested_by := x @ y, pk_action_type := z\<rparr>) =
   verify_integrity fn (p\<lparr>pk_requested_by := x, pk_action_type := y @ z\<rparr>)"
proof -
  have "sort (rev xs) = sort xs" for xs :: "string list"
    by (rule properties_for_sort) simp_all
  then show ?thesis by (simp add: verify_integrity_def package_digest_def)
qed

section \<open>What is metered\<close>

definition metered :: "metering_engine \<Rightarrow> string \<Rightarrow> nat" where
  "metered m et = length (filter (\<lambda>e. mv_event_type e = et) (mt_events m))"

definition gate_metered :: "platform_gate \<Rightarrow> bool" where
  "gate_metered g \<longleftrightarrow>
     metered (pg_meter g) ''gate_block'' = 0 \<and>
     metered (pg_meter g) ''gate_submission'' = total_submitted g - total_blocked g \<and>
     metered (pg_meter g) ''gate_release'' = total_submitted g - total_blocked g"

lemma metered_record [simp]:
  "metered (mt_record now et t q m) et' = metered m et' + (if et' = et then 1 else 0)"
  by (simp add: metered_def mt_record_def Let_def)

lemma blocked_le: "total_blocked g \<le> total_submitted g"
  by (simp add: total_blocked_def total_submitted_def)

lemma submit_metered:
  assumes ok: "gate_metered g" and s: "submit fn gd tenant executor sb g = (out, g')"
  shows "gate_metered g'"
  using s
proof (cases rule: submit_cases)
  case (blocked rej r)
  then show ?thesis
    using ok by (simp add: gate_metered_def log_dispatch_def total_blocked_def total_submitted_def)
next
  case (released c r)
  then show ?thesis
    using ok blocked_le [of g]
    by (auto simp: gate_metered_def log_dispatch_def total_blocked_def total_submitted_def
        meter_submission_def Let_def Suc_diff_le)
qed (use ok in simp)

text \<open>The gate meters only what it lets through: in every state it can reach from a fresh meter, no
  \<open>gate_block\<close> was ever recorded, and submissions and releases were recorded once per entry of the
  log that is not blocked, so blocked submissions are never metered.\<close>

theorem gate_meters_releases_only:
  assumes "(pg_step fn)\<^sup>*\<^sup>* (new_platform_gate None policies (new_metering_engine b)) g"
  shows "gate_metered g"
  using assms
proof (induction rule: rtranclp_induct)
  case base
  show ?case
    by (simp add: gate_metered_def new_platform_gate_def new_metering_engine_def metered_def
        total_submitted_def)
next
  case (step h h')
  from step(2) show ?case
  proof cases
    case (pg_submits gd tenant executor sb)
    obtain out g'' where s: "submit fn gd tenant executor sb h = (out, g'')" by fastforce
    with submit_metered [OF step(3) s] pg_submits(1) show ?thesis by simp
  qed
qed

theorem gate_meters_releases_only_witness: "gate_metered sample_gate"
  by (rule gate_meters_releases_only [OF sample_gate_steps])

end
