(* ===== verification/Graph_Store.thy ===== *)
theory Graph_Store
  imports Bfs Layers Platform_Chain
begin

text \<open>
  The control graph store of the platform, \<^verbatim>\<open>app/core/graph/domain_types.py\<close> and
  \<^verbatim>\<open>app/core/graph/store.py\<close>: objects with a lifecycle, typed edges with a validity period, and
  the store with its four indices. The hash functions are those of the platform chain. A moment
  that an operation takes (an argument or the clock) is an argument; the result of a set is a list
  in the order its elements were added, which the code leaves open.
\<close>

section \<open>Types\<close>

datatype node_state = NS_DRAFT | NS_ACTIVE | NS_UNDER_REVIEW | NS_DEPRECATED | NS_RETIRED | NS_QUARANTINED

fun node_state_str :: "node_state \<Rightarrow> string" where
  "node_state_str NS_DRAFT = ''ControlObjectState.DRAFT''"
| "node_state_str NS_ACTIVE = ''ControlObjectState.ACTIVE''"
| "node_state_str NS_UNDER_REVIEW = ''ControlObjectState.UNDER_REVIEW''"
| "node_state_str NS_DEPRECATED = ''ControlObjectState.DEPRECATED''"
| "node_state_str NS_RETIRED = ''ControlObjectState.RETIRED''"
| "node_state_str NS_QUARANTINED = ''ControlObjectState.QUARANTINED''"

fun node_state_value :: "node_state \<Rightarrow> string" where
  "node_state_value NS_DRAFT = ''draft''"
| "node_state_value NS_ACTIVE = ''active''"
| "node_state_value NS_UNDER_REVIEW = ''under_review''"
| "node_state_value NS_DEPRECATED = ''deprecated''"
| "node_state_value NS_RETIRED = ''retired''"
| "node_state_value NS_QUARANTINED = ''quarantined''"

fun node_transitions :: "node_state \<Rightarrow> node_state list" where
  "node_transitions NS_DRAFT = [NS_ACTIVE, NS_QUARANTINED]"
| "node_transitions NS_ACTIVE = [NS_UNDER_REVIEW, NS_DEPRECATED, NS_QUARANTINED]"
| "node_transitions NS_UNDER_REVIEW = [NS_ACTIVE, NS_DEPRECATED, NS_QUARANTINED]"
| "node_transitions NS_DEPRECATED = [NS_RETIRED]"
| "node_transitions NS_QUARANTINED = [NS_DRAFT, NS_RETIRED]"
| "node_transitions NS_RETIRED = []"

datatype node_type =
    NT_REGULATORY_MANDATE | NT_RISK_CONTROL | NT_COMPLIANCE_REQUIREMENT | NT_SECURITY_CONTROL
  | NT_OPERATIONAL_POLICY | NT_TECHNICAL_CONTROL | NT_AUDIT_FINDING | NT_VULNERABILITY | NT_ASSET
  | NT_PROCESS | NT_DOMAIN_PACK_EXTENSION

fun node_type_value :: "node_type \<Rightarrow> string" where
  "node_type_value NT_REGULATORY_MANDATE = ''regulatory_mandate''"
| "node_type_value NT_RISK_CONTROL = ''risk_control''"
| "node_type_value NT_COMPLIANCE_REQUIREMENT = ''compliance_requirement''"
| "node_type_value NT_SECURITY_CONTROL = ''security_control''"
| "node_type_value NT_OPERATIONAL_POLICY = ''operational_policy''"
| "node_type_value NT_TECHNICAL_CONTROL = ''technical_control''"
| "node_type_value NT_AUDIT_FINDING = ''audit_finding''"
| "node_type_value NT_VULNERABILITY = ''vulnerability''"
| "node_type_value NT_ASSET = ''asset''"
| "node_type_value NT_PROCESS = ''process''"
| "node_type_value NT_DOMAIN_PACK_EXTENSION = ''domain_pack_extension''"

fun node_type_str :: "node_type \<Rightarrow> string" where
  "node_type_str NT_REGULATORY_MANDATE = ''ControlObjectType.REGULATORY_MANDATE''"
| "node_type_str NT_RISK_CONTROL = ''ControlObjectType.RISK_CONTROL''"
| "node_type_str NT_COMPLIANCE_REQUIREMENT = ''ControlObjectType.COMPLIANCE_REQUIREMENT''"
| "node_type_str NT_SECURITY_CONTROL = ''ControlObjectType.SECURITY_CONTROL''"
| "node_type_str NT_OPERATIONAL_POLICY = ''ControlObjectType.OPERATIONAL_POLICY''"
| "node_type_str NT_TECHNICAL_CONTROL = ''ControlObjectType.TECHNICAL_CONTROL''"
| "node_type_str NT_AUDIT_FINDING = ''ControlObjectType.AUDIT_FINDING''"
| "node_type_str NT_VULNERABILITY = ''ControlObjectType.VULNERABILITY''"
| "node_type_str NT_ASSET = ''ControlObjectType.ASSET''"
| "node_type_str NT_PROCESS = ''ControlObjectType.PROCESS''"
| "node_type_str NT_DOMAIN_PACK_EXTENSION = ''ControlObjectType.DOMAIN_PACK_EXTENSION''"

datatype relationship =
    RL_MITIGATES | RL_SATISFIES | RL_VIOLATES | RL_REQUIRES | RL_IMPLEMENTS | RL_SUPERSEDES
  | RL_DEPENDS_ON | RL_CONFLICTS | RL_VALIDATES | RL_REFERENCES

fun relationship_value :: "relationship \<Rightarrow> string" where
  "relationship_value RL_MITIGATES = ''mitigates''"
| "relationship_value RL_SATISFIES = ''satisfies''"
| "relationship_value RL_VIOLATES = ''violates''"
| "relationship_value RL_REQUIRES = ''requires''"
| "relationship_value RL_IMPLEMENTS = ''implements''"
| "relationship_value RL_SUPERSEDES = ''supersedes''"
| "relationship_value RL_DEPENDS_ON = ''depends_on''"
| "relationship_value RL_CONFLICTS = ''conflicts''"
| "relationship_value RL_VALIDATES = ''validates''"
| "relationship_value RL_REFERENCES = ''references''"

fun relationship_str :: "relationship \<Rightarrow> string" where
  "relationship_str RL_MITIGATES = ''RelationshipType.MITIGATES''"
| "relationship_str RL_SATISFIES = ''RelationshipType.SATISFIES''"
| "relationship_str RL_VIOLATES = ''RelationshipType.VIOLATES''"
| "relationship_str RL_REQUIRES = ''RelationshipType.REQUIRES''"
| "relationship_str RL_IMPLEMENTS = ''RelationshipType.IMPLEMENTS''"
| "relationship_str RL_SUPERSEDES = ''RelationshipType.SUPERSEDES''"
| "relationship_str RL_DEPENDS_ON = ''RelationshipType.DEPENDS_ON''"
| "relationship_str RL_CONFLICTS = ''RelationshipType.CONFLICTS''"
| "relationship_str RL_VALIDATES = ''RelationshipType.VALIDATES''"
| "relationship_str RL_REFERENCES = ''RelationshipType.REFERENCES''"

fun enforcement_weight_of :: "relationship \<Rightarrow> int" where
  "enforcement_weight_of RL_VIOLATES = 100"
| "enforcement_weight_of RL_CONFLICTS = 90"
| "enforcement_weight_of RL_SATISFIES = 80"
| "enforcement_weight_of RL_REQUIRES = 70"
| "enforcement_weight_of RL_MITIGATES = 60"
| "enforcement_weight_of RL_IMPLEMENTS = 50"
| "enforcement_weight_of RL_SUPERSEDES = 40"
| "enforcement_weight_of RL_VALIDATES = 30"
| "enforcement_weight_of RL_DEPENDS_ON = 20"
| "enforcement_weight_of RL_REFERENCES = 10"

record node_provenance =
  np_source_system :: string
  np_source_uri :: "string option"
  np_source_hash :: string
  np_ingested_by :: string
  np_ingested_at :: time
  np_origin_ip :: "string option"

definition provenance_create ::
  "platform_fns \<Rightarrow> time \<Rightarrow> string \<Rightarrow> string \<Rightarrow> string \<Rightarrow> string option \<Rightarrow> string option \<Rightarrow> node_provenance" where
  "provenance_create fn now source_system source_content ingested_by source_uri origin_ip =
     \<lparr>np_source_system = source_system, np_source_uri = source_uri,
      np_source_hash = pf_sha fn source_content, np_ingested_by = ingested_by,
      np_ingested_at = now, np_origin_ip = origin_ip\<rparr>"

record gnode =
  nd_object_id :: string
  nd_object_type :: node_type
  nd_name :: string
  nd_description :: string
  nd_state :: node_state
  nd_version :: int
  nd_schema_namespace :: string
  nd_provenance :: node_provenance
  nd_evidence_links :: "string list"
  nd_attributes :: "(string, json) dict"
  nd_tags :: "string list"
  nd_operational_plane :: string
  nd_created_at :: time
  nd_updated_at :: time
  nd_object_hash :: string

definition node_digest :: "platform_fns \<Rightarrow> gnode \<Rightarrow> string" where
  "node_digest fn n =
     pf_sha fn (nd_object_id n @ node_type_str (nd_object_type n) @ nd_name n @ node_state_str (nd_state n) @
       pf_render fn [NumI (nd_version n)] @ nd_schema_namespace n @ np_source_hash (nd_provenance n) @
       nd_operational_plane n)"

definition compute_object_hash :: "platform_fns \<Rightarrow> gnode \<Rightarrow> gnode" where
  "compute_object_hash fn n = n\<lparr>nd_object_hash := node_digest fn n\<rparr>"

text \<open>\<open>model_copy\<close> runs no validator, so the copy keeps the hash of the state it left.\<close>

definition transition_to :: "node_state \<Rightarrow> time \<Rightarrow> gnode \<Rightarrow> fstr + gnode" where
  "transition_to new_state now n =
     (let valid_targets = node_transitions (nd_state n)
      in if new_state \<notin> set valid_targets
         then Inl [Lit ''Invalid transition: '', Lit (node_state_str (nd_state n)),
                   Lit ([CHR '' '', CHR 0xE2, CHR 0x86, CHR 0x92, CHR '' '']),
                   Lit (node_state_str new_state), Lit ''. Valid: '',
                   StrList (map node_state_str valid_targets)]
         else Inr (n\<lparr>nd_state := new_state, nd_version := nd_version n + 1, nd_updated_at := now\<rparr>))"

definition node_is_active :: "gnode \<Rightarrow> bool" where
  "node_is_active n = (nd_state n = NS_ACTIVE)"

definition node_is_terminal :: "gnode \<Rightarrow> bool" where
  "node_is_terminal n = (nd_state n = NS_RETIRED)"

record gedge =
  ed_edge_id :: string
  ed_source_object_id :: string
  ed_target_object_id :: string
  ed_relationship_type :: relationship
  ed_enforcement_weight :: int
  ed_evidence_references :: "string list"
  ed_valid_from :: time
  ed_valid_until :: "time option"
  ed_asserted_by :: string
  ed_context :: "(string, json) dict"
  ed_is_active :: bool
  ed_edge_hash :: string

definition set_enforcement_weight :: "gedge \<Rightarrow> gedge" where
  "set_enforcement_weight e = e\<lparr>ed_enforcement_weight := enforcement_weight_of (ed_relationship_type e)\<rparr>"

definition compute_edge_hash :: "platform_fns \<Rightarrow> gedge \<Rightarrow> gedge" where
  "compute_edge_hash fn e = e\<lparr>ed_edge_hash := pf_sha fn
     (ed_edge_id e @ ed_source_object_id e @ ed_target_object_id e @
      relationship_str (ed_relationship_type e) @ pf_iso fn (ed_valid_from e) @ ed_asserted_by e)\<rparr>"

definition is_valid_at :: "time \<Rightarrow> gedge \<Rightarrow> bool" where
  "is_valid_at point_in_time e =
     (if point_in_time < ed_valid_from e then False
      else (case ed_valid_until e of
              Some u \<Rightarrow> if point_in_time > u then False else ed_is_active e
            | None \<Rightarrow> ed_is_active e))"

section \<open>The store\<close>

datatype graph_error = GraphIntegrityError fstr | ListRemoveError

record graph_store =
  kg_nodes :: "(string, gnode) dict"
  kg_edges :: "(string, gedge) dict"
  kg_outbound :: "(string, string list) dict"
  kg_inbound :: "(string, string list) dict"
  kg_plane_index :: "(string, string list) dict"
  kg_type_index :: "(string, string list) dict"

type_synonym 'a st_result = "(graph_error, graph_store, 'a) res"

definition new_graph_store :: graph_store where
  "new_graph_store =
     \<lparr>kg_nodes = [], kg_edges = [], kg_outbound = [], kg_inbound = [], kg_plane_index = [], kg_type_index = []\<rparr>"

text \<open>\<open>index[k].append(x)\<close> and a read \<open>index.get(k, [])\<close> on an index of lists.\<close>

abbreviation idx :: "(string, 'v list) dict \<Rightarrow> string \<Rightarrow> 'v list" where
  "idx d k \<equiv> dget_default d k []"

definition idx_append :: "string \<Rightarrow> 'v \<Rightarrow> (string, 'v list) dict \<Rightarrow> (string, 'v list) dict" where
  "idx_append k x d = dput k (idx d k @ [x]) d"

definition st_add_object :: "gnode \<Rightarrow> graph_store \<Rightarrow> unit st_result" where
  "st_add_object obj g =
     (if nd_object_id obj \<in> set (dkeys (kg_nodes g))
      then (Inl (GraphIntegrityError [Lit ''Object '', Lit (nd_object_id obj), Lit '' already exists.'']), g)
      else (Inr (), g\<lparr>kg_nodes := dput (nd_object_id obj) obj (kg_nodes g),
              kg_plane_index := idx_append (nd_operational_plane obj) (nd_object_id obj) (kg_plane_index g),
              kg_type_index := idx_append (node_type_value (nd_object_type obj)) (nd_object_id obj)
                                 (kg_type_index g)\<rparr>))"

definition st_update_object :: "gnode \<Rightarrow> graph_store \<Rightarrow> unit st_result" where
  "st_update_object obj g =
     (case dget (kg_nodes g) (nd_object_id obj) of
        None \<Rightarrow> (Inl (GraphIntegrityError [Lit ''Object '', Lit (nd_object_id obj), Lit '' not found.'']), g)
      | Some old \<Rightarrow>
          let i = nd_object_id obj; was = idx (kg_plane_index g) (nd_operational_plane old)
          in if nd_operational_plane old \<noteq> nd_operational_plane obj
             then (if i \<in> set was
                   then (Inr (), g\<lparr>kg_plane_index := idx_append (nd_operational_plane obj) i
                                     (dput (nd_operational_plane old) (remove1 i was) (kg_plane_index g)),
                                   kg_nodes := dput i obj (kg_nodes g)\<rparr>)
                   else (Inl ListRemoveError,
                         g\<lparr>kg_plane_index := dput (nd_operational_plane old) was (kg_plane_index g)\<rparr>))
             else (Inr (), g\<lparr>kg_nodes := dput i obj (kg_nodes g)\<rparr>))"

definition st_get_object :: "graph_store \<Rightarrow> string \<Rightarrow> gnode option" where
  "st_get_object g object_id = dget (kg_nodes g) object_id"

definition get_objects_by_plane :: "graph_store \<Rightarrow> string \<Rightarrow> gnode list" where
  "get_objects_by_plane g plane = List.map_filter (dget (kg_nodes g)) (idx (kg_plane_index g) plane)"

definition get_objects_by_type :: "graph_store \<Rightarrow> string \<Rightarrow> gnode list" where
  "get_objects_by_type g object_type = List.map_filter (dget (kg_nodes g)) (idx (kg_type_index g) object_type)"

definition get_active_objects :: "graph_store \<Rightarrow> gnode list" where
  "get_active_objects g = filter node_is_active (dvalues (kg_nodes g))"

text \<open>\<open>add_edge\<close> without a release gate; the warning it may log changes nothing.\<close>

definition st_add_edge :: "gedge \<Rightarrow> graph_store \<Rightarrow> unit st_result" where
  "st_add_edge e g =
     (if ed_source_object_id e \<notin> set (dkeys (kg_nodes g))
      then (Inl (GraphIntegrityError [Lit ''Source object '', Lit (ed_source_object_id e), Lit '' not found.'']), g)
      else if ed_target_object_id e \<notin> set (dkeys (kg_nodes g))
      then (Inl (GraphIntegrityError [Lit ''Target object '', Lit (ed_target_object_id e), Lit '' not found.'']), g)
      else if ed_edge_id e \<in> set (dkeys (kg_edges g))
      then (Inl (GraphIntegrityError [Lit ''Edge '', Lit (ed_edge_id e), Lit '' already exists.'']), g)
      else if ed_source_object_id e = ed_target_object_id e
      then (Inl (GraphIntegrityError [Lit ''Self-referential edges are not permitted.'']), g)
      else (Inr (), g\<lparr>kg_edges := dput (ed_edge_id e) e (kg_edges g),
              kg_outbound := idx_append (ed_source_object_id e) (ed_edge_id e) (kg_outbound g),
              kg_inbound := idx_append (ed_target_object_id e) (ed_edge_id e) (kg_inbound g)\<rparr>))"

definition st_get_edge :: "graph_store \<Rightarrow> string \<Rightarrow> gedge option" where
  "st_get_edge g edge_id = dget (kg_edges g) edge_id"

definition edges_at ::
  "graph_store \<Rightarrow> string list \<Rightarrow> relationship list \<Rightarrow> time \<Rightarrow> gedge list" where
  "edges_at g eids relationship_filter at_t =
     (let edges = List.map_filter (dget (kg_edges g)) eids;
          edges = filter (is_valid_at at_t) edges
      in if relationship_filter \<noteq> []
         then filter (\<lambda>e. ed_relationship_type e \<in> set relationship_filter) edges else edges)"

definition get_outbound_edges :: "graph_store \<Rightarrow> string \<Rightarrow> relationship list \<Rightarrow> time \<Rightarrow> gedge list" where
  "get_outbound_edges g object_id = edges_at g (idx (kg_outbound g) object_id)"

definition get_inbound_edges :: "graph_store \<Rightarrow> string \<Rightarrow> relationship list \<Rightarrow> time \<Rightarrow> gedge list" where
  "get_inbound_edges g object_id = edges_at g (idx (kg_inbound g) object_id)"

definition deactivate_edge :: "string \<Rightarrow> graph_store \<Rightarrow> unit st_result" where
  "deactivate_edge edge_id g =
     (case dget (kg_edges g) edge_id of
        None \<Rightarrow> (Inl (GraphIntegrityError [Lit ''Edge '', Lit edge_id, Lit '' not found.'']), g)
      | Some e \<Rightarrow> (Inr (), g\<lparr>kg_edges := dput edge_id (e\<lparr>ed_is_active := False\<rparr>) (kg_edges g)\<rparr>))"

definition get_objects_missing_relationship ::
  "graph_store \<Rightarrow> string \<Rightarrow> relationship \<Rightarrow> time \<Rightarrow> gnode list" where
  "get_objects_missing_relationship g object_type required_relationship at_t =
     filter (\<lambda>obj. node_is_active obj \<and>
         get_outbound_edges g (nd_object_id obj) [required_relationship] at_t = [] \<and>
         get_inbound_edges g (nd_object_id obj) [required_relationship] at_t = [])
       (get_objects_by_type g object_type)"

section \<open>The invariant\<close>

text \<open>An index lists exactly the keys of a dictionary, each once, under the attribute of its value.\<close>

definition index_ok ::
  "('v \<Rightarrow> string) \<Rightarrow> (string, 'v) dict \<Rightarrow> (string, string list) dict \<Rightarrow> bool" where
  "index_ok sel d ix \<longleftrightarrow>
     (\<forall>x i. i \<in> set (idx ix x) \<longleftrightarrow> (\<exists>v. dget d i = Some v \<and> sel v = x)) \<and> (\<forall>x. distinct (idx ix x))"

definition nodes_ok :: "(string, gnode) dict \<Rightarrow> bool" where
  "nodes_ok ns \<longleftrightarrow> dict_wf ns \<and> (\<forall>i n. dget ns i = Some n \<longrightarrow> nd_object_id n = i)"

definition edge_ok :: "(string, gnode) dict \<Rightarrow> string \<Rightarrow> gedge \<Rightarrow> bool" where
  "edge_ok ns i e \<longleftrightarrow>
     ed_edge_id e = i \<and> ed_source_object_id e \<noteq> ed_target_object_id e \<and>
     dget ns (ed_source_object_id e) \<noteq> None \<and> dget ns (ed_target_object_id e) \<noteq> None"

definition edges_ok :: "(string, gnode) dict \<Rightarrow> (string, gedge) dict \<Rightarrow> bool" where
  "edges_ok ns es \<longleftrightarrow> dict_wf es \<and> (\<forall>i e. dget es i = Some e \<longrightarrow> edge_ok ns i e)"

definition store_ok :: "graph_store \<Rightarrow> bool" where
  "store_ok g \<longleftrightarrow>
     nodes_ok (kg_nodes g) \<and> edges_ok (kg_nodes g) (kg_edges g) \<and>
     index_ok ed_source_object_id (kg_edges g) (kg_outbound g) \<and>
     index_ok ed_target_object_id (kg_edges g) (kg_inbound g) \<and>
     index_ok nd_operational_plane (kg_nodes g) (kg_plane_index g)"

inductive st_step :: "graph_store \<Rightarrow> graph_store \<Rightarrow> bool" where
  st_adds: "st_step g (snd (st_add_object n g))"
| st_updates: "st_step g (snd (st_update_object n g))"
| st_links: "st_step g (snd (st_add_edge e g))"
| st_unlinks: "st_step g (snd (deactivate_edge i g))"

lemma idx_simps [simp]:
  "idx (dput k v d) k' = (if k' = k then v else idx d k')"
  "idx (idx_append k x d) k' = (if k' = k then idx d k @ [x] else idx d k')"
  by (simp_all add: idx_append_def dget_default_def)

lemma index_okD:
  assumes "index_ok sel d ix"
  shows "i \<in> set (idx ix x) \<longleftrightarrow> (\<exists>v. dget d i = Some v \<and> sel v = x)" and "distinct (idx ix x)"
  using assms unfolding index_ok_def by blast+

lemma index_ok_append:
  assumes "index_ok sel d ix" and "dget d i = None"
  shows "index_ok sel (dput i v d) (idx_append (sel v) i ix)"
  using assms(2) by (auto simp: index_ok_def index_okD [OF assms(1)])

lemma index_ok_keep:
  assumes "index_ok sel d ix" and "dget d i = Some old" and "sel old = sel v"
  shows "index_ok sel (dput i v d) ix"
  using assms(2,3) by (auto simp: index_ok_def index_okD [OF assms(1)])

lemma index_ok_move:
  assumes ix: "index_ok sel d ix" and old: "dget d i = Some old" "sel old \<noteq> sel v"
  shows "index_ok sel (dput i v d)
    (idx_append (sel v) i (dput (sel old) (remove1 i (idx ix (sel old))) ix))"
  unfolding index_ok_def
proof (intro conjI allI)
  let ?ix = "idx_append (sel v) i (dput (sel old) (remove1 i (idx ix (sel old))) ix)"
  have gone: "set (remove1 i (idx ix (sel old))) = set (idx ix (sel old)) - {i}"
    using index_okD(2) [OF ix] by (rule set_remove1_eq)
  show "j \<in> set (idx ?ix x) \<longleftrightarrow> (\<exists>w. dget (dput i v d) j = Some w \<and> sel w = x)" for x j
    using old by (auto simp: gone index_okD(1) [OF ix])
  show "distinct (idx ?ix x)" for x
    using old by (auto simp: index_okD [OF ix] distinct_remove1)
qed

lemma nodes_ok_put: "nodes_ok ns \<Longrightarrow> nodes_ok (dput (nd_object_id n) n ns)"
  by (auto simp: nodes_ok_def)

lemma edge_ok_put: "edge_ok ns i e \<Longrightarrow> edge_ok (dput j n ns) i e"
  by (auto simp: edge_ok_def)

lemma edges_ok_put_node: "edges_ok ns es \<Longrightarrow> edges_ok (dput j n ns) es"
  by (auto simp: edges_ok_def intro: edge_ok_put)

lemma edges_ok_put_edge: "edges_ok ns es \<Longrightarrow> edge_ok ns i e \<Longrightarrow> edges_ok ns (dput i e es)"
  by (auto simp: edges_ok_def)

lemma store_ok_new: "store_ok new_graph_store"
  by (simp add: store_ok_def new_graph_store_def nodes_ok_def edges_ok_def index_ok_def dget_default_def)

lemma add_object_ok: "store_ok g \<Longrightarrow> store_ok (snd (st_add_object n g))"
  by (auto simp: st_add_object_def store_ok_def dget_None_iff
      intro: nodes_ok_put edges_ok_put_node index_ok_append simp del: set_map)

lemma update_object_ok: "store_ok g \<Longrightarrow> store_ok (snd (st_update_object n g))"
  by (auto simp: st_update_object_def Let_def store_ok_def index_okD
      intro: nodes_ok_put edges_ok_put_node index_ok_move index_ok_keep split: option.split)

lemma add_edge_ok: "store_ok g \<Longrightarrow> store_ok (snd (st_add_edge e g))"
  by (auto simp: st_add_edge_def store_ok_def dget_None_iff edge_ok_def
      intro: edges_ok_put_edge index_ok_append simp del: set_map)

lemma deactivate_edge_ok: "store_ok g \<Longrightarrow> store_ok (snd (deactivate_edge i g))"
  by (auto simp: deactivate_edge_def store_ok_def edges_ok_def edge_ok_def
      intro: index_ok_keep split: option.split)

lemma st_step_ok: "st_step g g' \<Longrightarrow> store_ok g \<Longrightarrow> store_ok g'"
  by (induction rule: st_step.induct)
    (rule add_object_ok update_object_ok add_edge_ok deactivate_edge_ok, assumption)+

lemma st_steps_ok: "st_step\<^sup>*\<^sup>* g g' \<Longrightarrow> store_ok g \<Longrightarrow> store_ok g'"
  by (induction rule: rtranclp_induct) (auto intro: st_step_ok)

end
