(* ===== verification/Graph_Search.thy ===== *)
theory Graph_Search
  imports Graph_Store
begin

text \<open>
  The searches of the control graph store, \<^verbatim>\<open>app/core/graph/store.py\<close>: bounded traversal, shortest
  path and impact analysis. \<open>ids\<close> are the identifiers the recorded paths draw.
\<close>

record graph_path =
  gp_path_id :: string
  gp_nodes :: "string list"
  gp_edges :: "string list"
  gp_depth :: nat
  gp_total_enforcement_weight :: int

record traversal_result =
  gt_query_object_id :: string
  gt_direction :: string
  gt_max_depth :: int
  gt_relationship_filter :: "string list"
  gt_discovered_objects :: "string list"
  gt_discovered_edges :: "string list"
  gt_paths :: "graph_path list"
  gt_depth_reached :: nat
  gt_executed_at :: time

section \<open>Traversal\<close>

text \<open>The edges looked at from a node, and the other end of one.\<close>

definition incident_edges ::
  "graph_store \<Rightarrow> string \<Rightarrow> relationship list \<Rightarrow> time \<Rightarrow> string \<Rightarrow> gedge list" where
  "incident_edges g direction rels at_t node_id =
     (if direction \<in> {''outbound'', ''both''} then get_outbound_edges g node_id rels at_t else []) @
     (if direction \<in> {''inbound'', ''both''} then get_inbound_edges g node_id rels at_t else [])"

definition other_end :: "string \<Rightarrow> gedge \<Rightarrow> string" where
  "other_end node_id e =
     (if ed_source_object_id e = node_id then ed_target_object_id e else ed_source_object_id e)"

text \<open>A queue item: node, depth, and the nodes, edges and weight of the path to it.\<close>

type_synonym queue_item = "string \<times> nat \<times> string list \<times> string list \<times> int"

record traversal =
  tv_nodes :: "string list"
  tv_edges :: "string list"
  tv_paths :: "graph_path list"
  tv_reached :: nat

fun tr_edges ::
  "(nat \<Rightarrow> string) \<Rightarrow> queue_item \<Rightarrow> gedge list \<Rightarrow> queue_item list \<times> traversal
     \<Rightarrow> queue_item list \<times> traversal" where
  "tr_edges ids it [] s = s"
| "tr_edges ids (node_id, depth, pn, pe, w) (e # es) (queue, t) =
     (if ed_edge_id e \<in> set (tv_edges t) then tr_edges ids (node_id, depth, pn, pe, w) es (queue, t)
      else
        let next_id = other_end node_id e; new_weight = w + ed_enforcement_weight e;
            new_nodes = pn @ [next_id]; new_edges = pe @ [ed_edge_id e];
            t = t\<lparr>tv_edges := tv_edges t @ [ed_edge_id e],
                  tv_paths := tv_paths t @
                    [\<lparr>gp_path_id = ids (length (tv_paths t)), gp_nodes = new_nodes, gp_edges = new_edges,
                      gp_depth = depth + 1, gp_total_enforcement_weight = new_weight\<rparr>]\<rparr>
        in if next_id \<in> set (tv_nodes t) then tr_edges ids (node_id, depth, pn, pe, w) es (queue, t)
           else tr_edges ids (node_id, depth, pn, pe, w) es
                  (queue @ [(next_id, depth + 1, new_nodes, new_edges, new_weight)],
                   t\<lparr>tv_nodes := tv_nodes t @ [next_id], tv_reached := max (tv_reached t) (depth + 1)\<rparr>))"

definition endpoints :: "graph_store \<Rightarrow> string list" where
  "endpoints g = concat (map (\<lambda>e. [ed_source_object_id e, ed_target_object_id e]) (dvalues (kg_edges g)))"

lemma set_edges_at:
  "set (edges_at g ids rels at_t) =
     {e. (\<exists>i \<in> set ids. dget (kg_edges g) i = Some e) \<and> is_valid_at at_t e \<and>
         (rels = [] \<or> ed_relationship_type e \<in> set rels)}"
  by (auto simp: edges_at_def Let_def set_map_filter_Some)

lemma edges_at_stored: "e \<in> set (edges_at g ids rels at_t) \<Longrightarrow> e \<in> set (dvalues (kg_edges g))"
  by (force simp: set_edges_at dest: map_of_SomeD)

lemma incident_stored: "e \<in> set (incident_edges g d rels at_t x) \<Longrightarrow> e \<in> set (dvalues (kg_edges g))"
  by (auto simp: incident_edges_def get_outbound_edges_def get_inbound_edges_def
      simp del: set_map dest: edges_at_stored split: if_splits)

lemma endpoints_iff:
  "y \<in> set (endpoints g) \<longleftrightarrow>
     (\<exists>e \<in> set (dvalues (kg_edges g)). y = ed_source_object_id e \<or> y = ed_target_object_id e)"
  by (auto simp: endpoints_def)

lemma other_end_endpoint: "e \<in> set (dvalues (kg_edges g)) \<Longrightarrow> other_end x e \<in> set (endpoints g)"
  by (auto simp: endpoints_def other_end_def)

lemma tr_edges_measure:
  "set es \<subseteq> set (dvalues (kg_edges g)) \<Longrightarrow> tr_edges ids it es (q, t) = (q', t') \<Longrightarrow>
     length q' + unseen (endpoints g) (tv_nodes t') \<le> length q + unseen (endpoints g) (tv_nodes t)"
proof (induction ids it es "(q, t)" arbitrary: q t rule: tr_edges.induct)
  case (2 ids x dp pn pe w e es q t)
  have in_U: "other_end x e \<in> set (endpoints g)"
    using 2(4) by (intro other_end_endpoint) (auto simp del: set_map)
  have sub: "set es \<subseteq> set (dvalues (kg_edges g))" using 2(4) by (simp del: set_map)
  consider (old) "ed_edge_id e \<in> set (tv_edges t)"
    | (seen) "ed_edge_id e \<notin> set (tv_edges t)" "other_end x e \<in> set (tv_nodes t)"
    | (new) "ed_edge_id e \<notin> set (tv_edges t)" "other_end x e \<notin> set (tv_nodes t)" by blast
  then show ?case
  proof cases
    case old
    with 2(1) [OF old sub] 2(5) show ?thesis by simp
  next
    case seen
    with 2(2) [OF seen(1) refl refl refl refl refl _ sub] 2(5) show ?thesis by (simp add: Let_def)
  next
    case new
    with 2(3) [OF new(1) refl refl refl refl refl _ sub] 2(5) unseen_snoc [OF in_U new(2)] show ?thesis
      by (simp add: Let_def)
  qed
qed simp

function tr_loop ::
  "graph_store \<Rightarrow> string \<Rightarrow> int \<Rightarrow> relationship list \<Rightarrow> time \<Rightarrow> (nat \<Rightarrow> string)
     \<Rightarrow> queue_item list \<Rightarrow> traversal \<Rightarrow> traversal" where
  "tr_loop g direction max_depth rels at_t ids [] t = t"
| "tr_loop g direction max_depth rels at_t ids ((node_id, depth, pn, pe, w) # queue) t =
     (if int depth \<ge> max_depth
      then tr_loop g direction max_depth rels at_t ids queue (t\<lparr>tv_reached := max (tv_reached t) depth\<rparr>)
      else let s = tr_edges ids (node_id, depth, pn, pe, w)
                     (incident_edges g direction rels at_t node_id) (queue, t)
           in tr_loop g direction max_depth rels at_t ids (fst s) (snd s))"
  by pat_completeness auto
termination
proof (relation "measure (\<lambda>(g, d, m, rels, a, ids, q, t). length q + unseen (endpoints g) (tv_nodes t))",
    goal_cases)
  case (3 g d m rels a ids x dp pn pe w q t s)
  obtain q' t' where s: "s = (q', t')" by (cases s)
  then have e: "tr_edges ids (x, dp, pn, pe, w) (incident_edges g d rels a x) (q, t) = (q', t')"
    using 3 by simp
  have "set (incident_edges g d rels a x) \<subseteq> set (dvalues (kg_edges g))"
    using incident_stored by blast
  from tr_edges_measure [OF this e] show ?case by (simp add: s)
qed auto

declare tr_loop.simps(2) [simp del]

definition traverse ::
  "graph_store \<Rightarrow> string \<Rightarrow> string \<Rightarrow> int \<Rightarrow> relationship list \<Rightarrow> time \<Rightarrow> (nat \<Rightarrow> string)
     \<Rightarrow> graph_error + traversal_result" where
  "traverse g start direction max_depth rels at_t ids =
     (if start \<notin> set (dkeys (kg_nodes g))
      then Inl (GraphIntegrityError [Lit ''Start object '', Lit start, Lit '' not found.''])
      else
        let t = tr_loop g direction max_depth rels at_t ids [(start, 0, [start], [], 0)]
                  \<lparr>tv_nodes = [start], tv_edges = [], tv_paths = [], tv_reached = 0\<rparr>
        in Inr \<lparr>gt_query_object_id = start, gt_direction = direction, gt_max_depth = max_depth,
                gt_relationship_filter = map relationship_value rels,
                gt_discovered_objects = filter (\<lambda>x. x \<noteq> start) (tv_nodes t),
                gt_discovered_edges = tv_edges t, gt_paths = tv_paths t,
                gt_depth_reached = tv_reached t, gt_executed_at = at_t\<rparr>)"

section \<open>Shortest path\<close>

type_synonym path_item = "string \<times> string list \<times> string list \<times> int"

fun pb_edges :: "path_item \<Rightarrow> gedge list \<Rightarrow> path_item list \<times> string list \<Rightarrow> path_item list \<times> string list" where
  "pb_edges it [] s = s"
| "pb_edges (node_id, pn, pe, w) (e # es) (queue, visited) =
     (if ed_target_object_id e \<in> set visited then pb_edges (node_id, pn, pe, w) es (queue, visited)
      else pb_edges (node_id, pn, pe, w) es
             (queue @ [(ed_target_object_id e, pn @ [ed_target_object_id e], pe @ [ed_edge_id e],
                        w + ed_enforcement_weight e)],
              visited @ [ed_target_object_id e]))"

lemma pb_edges_push:
  "fst (snd (snd it)) = fst (snd (snd it)) \<Longrightarrow>
   map (\<lambda>i. fst (snd i)) (fst (pb_edges it es (q, v))) =
     fst (push (fst (snd it)) (map ed_target_object_id es) (map (\<lambda>i. fst (snd i)) q, v)) \<and>
   snd (pb_edges it es (q, v)) =
     snd (push (fst (snd it)) (map ed_target_object_id es) (map (\<lambda>i. fst (snd i)) q, v))"
  by (induction it es "(q, v)" arbitrary: q v rule: pb_edges.induct) simp_all

definition out_targets :: "graph_store \<Rightarrow> time \<Rightarrow> string \<Rightarrow> string list" where
  "out_targets g at_t x = map ed_target_object_id (get_outbound_edges g x [] at_t)"

lemma out_targets_endpoint: "set (out_targets g at_t x) \<subseteq> set (endpoints g)"
proof
  fix y assume "y \<in> set (out_targets g at_t x)"
  then obtain e where "e \<in> set (get_outbound_edges g x [] at_t)" "y = ed_target_object_id e"
    by (auto simp: out_targets_def)
  then show "y \<in> set (endpoints g)"
    unfolding endpoints_iff get_outbound_edges_def using edges_at_stored by blast
qed

lemma pb_edges_measure:
  assumes "pb_edges (x, pn, pe, w) (get_outbound_edges g x [] at_t) (q, v) = (q', v')"
  shows "length q' + unseen (endpoints g) v' \<le> length q + unseen (endpoints g) v"
proof -
  have "push pn (out_targets g at_t x) (map (\<lambda>i. fst (snd i)) q, v) = (map (\<lambda>i. fst (snd i)) q', v')"
    using pb_edges_push [of "(x, pn, pe, w)" "get_outbound_edges g x [] at_t" q v] assms
    by (simp add: prod_eq_iff out_targets_def)
  from push_measure [OF out_targets_endpoint this] show ?thesis by simp
qed

function pb_loop ::
  "graph_store \<Rightarrow> string \<Rightarrow> int \<Rightarrow> time \<Rightarrow> string \<Rightarrow> path_item list \<Rightarrow> string list \<Rightarrow> graph_path option" where
  "pb_loop g target_id max_depth at_t pid [] visited = None"
| "pb_loop g target_id max_depth at_t pid ((node_id, pn, pe, w) # queue) visited =
     (if node_id = target_id
      then Some \<lparr>gp_path_id = pid, gp_nodes = pn, gp_edges = pe, gp_depth = length pn - 1,
                 gp_total_enforcement_weight = w\<rparr>
      else if int (length pn) - 1 \<ge> max_depth
      then pb_loop g target_id max_depth at_t pid queue visited
      else let s = pb_edges (node_id, pn, pe, w) (get_outbound_edges g node_id [] at_t) (queue, visited)
           in pb_loop g target_id max_depth at_t pid (fst s) (snd s))"
  by pat_completeness auto
termination
proof (relation "measure (\<lambda>(g, t, m, a, i, q, v). length q + unseen (endpoints g) v)", goal_cases)
  case (3 g t m a i x pn pe w q v s)
  obtain q' v' where s: "s = (q', v')" by (cases s)
  then have "pb_edges (x, pn, pe, w) (get_outbound_edges g x [] a) (q, v) = (q', v')"
    using 3 by simp
  from pb_edges_measure [OF this] show ?case by (simp add: s)
qed auto

declare pb_loop.simps(2) [simp del]

definition find_path_between ::
  "graph_store \<Rightarrow> string \<Rightarrow> string \<Rightarrow> int \<Rightarrow> time \<Rightarrow> string \<Rightarrow> graph_path option" where
  "find_path_between g source_id target_id max_depth at_t pid =
     (if source_id \<notin> set (dkeys (kg_nodes g)) \<or> target_id \<notin> set (dkeys (kg_nodes g)) then None
      else pb_loop g target_id max_depth at_t pid [(source_id, [source_id], [], 0)] [source_id])"

section \<open>Impact analysis\<close>

record impact_analysis =
  im_object_id :: string
  im_object_name :: string
  im_object_type :: string
  im_operational_plane :: string
  im_downstream_objects :: "string list"
  im_upstream_objects :: "string list"
  im_total_affected_objects :: nat
  im_critical_relationships :: "json list"
  im_max_depth_analysed :: int

text \<open>Each of the two traversals has its own clock reading and path identifiers.\<close>

definition get_impact_analysis ::
  "graph_store \<Rightarrow> string \<Rightarrow> int \<Rightarrow> time \<times> (nat \<Rightarrow> string) \<Rightarrow> time \<times> (nat \<Rightarrow> string)
     \<Rightarrow> graph_error + impact_analysis" where
  "get_impact_analysis g object_id max_depth draw1 draw2 =
     (case dget (kg_nodes g) object_id of
        None \<Rightarrow> Inl (GraphIntegrityError [Lit ''Object '', Lit object_id, Lit '' not found.''])
      | Some obj \<Rightarrow>
          (case (traverse g object_id ''outbound'' max_depth [] (fst draw1) (snd draw1),
                 traverse g object_id ''inbound'' max_depth [] (fst draw2) (snd draw2)) of
             (Inl e, _) \<Rightarrow> Inl e
           | (_, Inl e) \<Rightarrow> Inl e
           | (Inr outb, Inr inb) \<Rightarrow>
               let critical = filter (\<lambda>e. ed_enforcement_weight e \<ge> 60)
                     (List.map_filter (dget (kg_edges g)) (gt_discovered_edges outb @ gt_discovered_edges inb))
               in Inr \<lparr>im_object_id = object_id, im_object_name = nd_name obj,
                       im_object_type = node_type_value (nd_object_type obj),
                       im_operational_plane = nd_operational_plane obj,
                       im_downstream_objects = gt_discovered_objects outb,
                       im_upstream_objects = gt_discovered_objects inb,
                       im_total_affected_objects =
                         card (set (gt_discovered_objects outb @ gt_discovered_objects inb)),
                       im_critical_relationships = map (\<lambda>e. JObj
                         [(''edge_id'', JStr (ed_edge_id e)),
                          (''type'', JStr (relationship_value (ed_relationship_type e))),
                          (''source'', JStr (ed_source_object_id e)),
                          (''target'', JStr (ed_target_object_id e)),
                          (''enforcement_weight'', JInt (ed_enforcement_weight e))]) critical,
                       im_max_depth_analysed = max_depth\<rparr>))"

end
