(* ===== verification/Graph_Search_Props.thy ===== *)
theory Graph_Search_Props
  imports Graph_Search
begin

text \<open>
  Correctness of the store's searches: traversal finds exactly the objects and edges within the
  depth limit, along trails of valid edges; the path search is the shared breadth-first search, so
  its path is a shortest one.
\<close>

section \<open>Trails\<close>

text \<open>A trail from \<open>s\<close>: its nodes, the edges followed, and the sum of their weights.\<close>

inductive trail ::
  "(string \<Rightarrow> gedge list) \<Rightarrow> string \<Rightarrow> string list \<Rightarrow> string list \<Rightarrow> int \<Rightarrow> bool" for inc s where
  trail_start: "trail inc s [s] [] 0"
| trail_step: "trail inc s ns es w \<Longrightarrow> e \<in> set (inc (last ns)) \<Longrightarrow>
    trail inc s (ns @ [other_end (last ns) e]) (es @ [ed_edge_id e]) (w + ed_enforcement_weight e)"

lemma trail_length: "trail inc s ns es w \<Longrightarrow> length ns = Suc (length es) \<and> ns \<noteq> [] \<and> hd ns = s"
  by (induction rule: trail.induct) auto

definition reaches :: "(string \<Rightarrow> gedge list) \<Rightarrow> string \<Rightarrow> string \<Rightarrow> bool" where
  "reaches inc x y \<longleftrightarrow> (\<exists>e \<in> set (inc x). other_end x e = y)"

lemma incident_iff:
  assumes "store_ok g"
  shows "e \<in> set (incident_edges g d rels at_t x) \<longleftrightarrow>
    dget (kg_edges g) (ed_edge_id e) = Some e \<and> is_valid_at at_t e \<and>
    (rels = [] \<or> ed_relationship_type e \<in> set rels) \<and>
    (d \<in> {''outbound'', ''both''} \<and> ed_source_object_id e = x \<or>
     d \<in> {''inbound'', ''both''} \<and> ed_target_object_id e = x)"
proof -
  have id: "ed_edge_id e = i" if "dget (kg_edges g) i = Some e" for i
    using assms that unfolding store_ok_def edges_ok_def edge_ok_def by blast
  have ixs: "index_ok ed_source_object_id (kg_edges g) (kg_outbound g)"
    "index_ok ed_target_object_id (kg_edges g) (kg_inbound g)"
    using assms by (simp_all add: store_ok_def)
  have out: "(\<exists>i \<in> set (idx (kg_outbound g) x). dget (kg_edges g) i = Some e) \<longleftrightarrow>
      dget (kg_edges g) (ed_edge_id e) = Some e \<and> ed_source_object_id e = x"
    unfolding Bex_def index_okD(1) [OF ixs(1)] by (metis id option.inject)
  have inb: "(\<exists>i \<in> set (idx (kg_inbound g) x). dget (kg_edges g) i = Some e) \<longleftrightarrow>
      dget (kg_edges g) (ed_edge_id e) = Some e \<and> ed_target_object_id e = x"
    unfolding Bex_def index_okD(1) [OF ixs(2)] by (metis id option.inject)
  have "e \<in> set (get_outbound_edges g x rels at_t) \<longleftrightarrow>
      dget (kg_edges g) (ed_edge_id e) = Some e \<and> ed_source_object_id e = x \<and> is_valid_at at_t e \<and>
      (rels = [] \<or> ed_relationship_type e \<in> set rels)"
    unfolding get_outbound_edges_def set_edges_at mem_Collect_eq out by blast
  moreover have "e \<in> set (get_inbound_edges g x rels at_t) \<longleftrightarrow>
      dget (kg_edges g) (ed_edge_id e) = Some e \<and> ed_target_object_id e = x \<and> is_valid_at at_t e \<and>
      (rels = [] \<or> ed_relationship_type e \<in> set rels)"
    unfolding get_inbound_edges_def set_edges_at mem_Collect_eq inb by blast
  ultimately show ?thesis
    unfolding incident_edges_def set_append Un_iff by auto
qed

section \<open>One round of the traversal\<close>

definition item_node :: "queue_item \<Rightarrow> string \<times> nat" where
  "item_node it = (fst it, fst (snd it))"

definition item_ok :: "(string \<Rightarrow> gedge list) \<Rightarrow> string \<Rightarrow> queue_item \<Rightarrow> bool" where
  "item_ok inc s it = (case it of (x, dp, pn, pe, w) \<Rightarrow>
     trail inc s pn pe w \<and> last pn = x \<and> length pe = dp)"

definition path_ok :: "(string \<Rightarrow> gedge list) \<Rightarrow> string \<Rightarrow> nat \<Rightarrow> graph_path \<Rightarrow> bool" where
  "path_ok inc s m p \<longleftrightarrow>
     trail inc s (gp_nodes p) (gp_edges p) (gp_total_enforcement_weight p) \<and>
     gp_depth p = length (gp_edges p) \<and> gp_depth p \<le> m"

definition paths_ok :: "(string \<Rightarrow> gedge list) \<Rightarrow> string \<Rightarrow> nat \<Rightarrow> traversal \<Rightarrow> bool" where
  "paths_ok inc s m t \<longleftrightarrow>
     list_all (path_ok inc s m) (tv_paths t) \<and>
     map (last \<circ> gp_edges) (tv_paths t) = tv_edges t \<and> distinct (tv_edges t)"

text \<open>The searched store, with the edges the round still has to look at.\<close>

lemma tr_edges_layers:
  assumes "tr_edges ids (c, dp, pn, pe, w) es (q, t) = (q', t')"
    and "\<forall>e \<in> set es. K (ed_edge_id e) = Some e"
    and "\<forall>e \<in> set es. ed_edge_id e \<in> set (tv_edges t) \<longrightarrow> other_end c e \<in> set (tv_nodes t)"
  shows "\<exists>new. map item_node q' = map item_node q @ map (\<lambda>n. (n, Suc dp)) new \<and>
    set (tv_nodes t') = set (tv_nodes t) \<union> set new \<and>
    set new \<subseteq> other_end c ` set es \<and> other_end c ` set es \<subseteq> set (tv_nodes t') \<and>
    set (tv_edges t') = set (tv_edges t) \<union> ed_edge_id ` set es"
  using assms
proof (induction es arbitrary: q t)
  case Nil
  then show ?case by (intro exI [of _ "[]"]) auto
next
  case (Cons e es)
  have K: "\<forall>e \<in> set es. K (ed_edge_id e) = Some e" using Cons.prems(2) by simp
  have same: "e' = e" if "e' \<in> set es" "ed_edge_id e' = ed_edge_id e" for e'
    using Cons.prems(2) that by (metis list.set_intros option.inject)
  show ?case
  proof (cases "ed_edge_id e \<in> set (tv_edges t)")
    case True
    with Cons.prems(1) have "tr_edges ids (c, dp, pn, pe, w) es (q, t) = (q', t')" by simp
    from Cons.IH [OF this K] Cons.prems(3) obtain new where
      "map item_node q' = map item_node q @ map (\<lambda>n. (n, Suc dp)) new"
      "set (tv_nodes t') = set (tv_nodes t) \<union> set new" "set new \<subseteq> other_end c ` set es"
      "other_end c ` set es \<subseteq> set (tv_nodes t')"
      "set (tv_edges t') = set (tv_edges t) \<union> ed_edge_id ` set es"
      by auto
    with True Cons.prems(3) show ?thesis by (intro exI [of _ new]) auto
  next
    case fresh: False
    let ?n = "other_end c e"
    let ?it = "(?n, Suc dp, pn @ [?n], pe @ [ed_edge_id e], w + ed_enforcement_weight e)"
    let ?t = "t\<lparr>tv_edges := tv_edges t @ [ed_edge_id e],
      tv_paths := tv_paths t @ [\<lparr>gp_path_id = ids (length (tv_paths t)), gp_nodes = pn @ [?n],
        gp_edges = pe @ [ed_edge_id e], gp_depth = dp + 1,
        gp_total_enforcement_weight = w + ed_enforcement_weight e\<rparr>]\<rparr>"
    let ?t' = "?t\<lparr>tv_nodes := tv_nodes t @ [?n], tv_reached := max (tv_reached t) (dp + 1)\<rparr>"
    show ?thesis
    proof (cases "?n \<in> set (tv_nodes t)")
      case True
      with fresh Cons.prems(1) have r: "tr_edges ids (c, dp, pn, pe, w) es (q, ?t) = (q', t')"
        by (simp add: Let_def)
      have "\<forall>e' \<in> set es. ed_edge_id e' \<in> set (tv_edges ?t) \<longrightarrow> other_end c e' \<in> set (tv_nodes ?t)"
        using Cons.prems(3) same True by auto
      from Cons.IH [OF r K this] obtain new where
        "map item_node q' = map item_node q @ map (\<lambda>n. (n, Suc dp)) new"
        "set (tv_nodes t') = set (tv_nodes t) \<union> set new" "set new \<subseteq> other_end c ` set es"
        "other_end c ` set es \<subseteq> set (tv_nodes t')"
        "set (tv_edges t') = insert (ed_edge_id e) (set (tv_edges t)) \<union> ed_edge_id ` set es"
        by auto
      with True show ?thesis by (intro exI [of _ new]) auto
    next
      case False
      with fresh Cons.prems(1) have r: "tr_edges ids (c, dp, pn, pe, w) es (q @ [?it], ?t') = (q', t')"
        by (simp add: Let_def)
      have "\<forall>e' \<in> set es. ed_edge_id e' \<in> set (tv_edges ?t') \<longrightarrow> other_end c e' \<in> set (tv_nodes ?t')"
        using Cons.prems(3) same by auto
      from Cons.IH [OF r K this] obtain new where
        "map item_node q' = map item_node (q @ [?it]) @ map (\<lambda>n. (n, Suc dp)) new"
        "set (tv_nodes t') = insert ?n (set (tv_nodes t)) \<union> set new" "set new \<subseteq> other_end c ` set es"
        "other_end c ` set es \<subseteq> set (tv_nodes t')"
        "set (tv_edges t') = insert (ed_edge_id e) (set (tv_edges t)) \<union> ed_edge_id ` set es"
        by auto
      moreover have "item_node ?it = (?n, Suc dp)" by (simp add: item_node_def)
      ultimately show ?thesis by (intro exI [of _ "?n # new"]) auto
    qed
  qed
qed

lemma tr_edges_paths:
  assumes "tr_edges ids (c, dp, pn, pe, w) es (q, t) = (q', t')"
    and "item_ok inc s (c, dp, pn, pe, w)" and "set es \<subseteq> set (inc c)" and "Suc dp \<le> m"
    and "list_all (item_ok inc s) q" and "paths_ok inc s m t"
  shows "list_all (item_ok inc s) q' \<and> paths_ok inc s m t'"
  using assms
proof (induction es arbitrary: q t)
  case (Cons e es)
  show ?case
  proof (cases "ed_edge_id e \<in> set (tv_edges t)")
    case True
    with Cons show ?thesis by simp
  next
    case fresh: False
    let ?n = "other_end c e"
    let ?it = "(?n, Suc dp, pn @ [?n], pe @ [ed_edge_id e], w + ed_enforcement_weight e)"
    let ?t = "t\<lparr>tv_edges := tv_edges t @ [ed_edge_id e],
      tv_paths := tv_paths t @ [\<lparr>gp_path_id = ids (length (tv_paths t)), gp_nodes = pn @ [?n],
        gp_edges = pe @ [ed_edge_id e], gp_depth = dp + 1,
        gp_total_enforcement_weight = w + ed_enforcement_weight e\<rparr>]\<rparr>"
    have item: "trail inc s pn pe w" "last pn = c" "length pe = dp"
      using Cons.prems(2) by (simp_all add: item_ok_def)
    have e: "e \<in> set (inc (last pn))" using Cons.prems(3) item(2) by simp
    have tr: "trail inc s (pn @ [?n]) (pe @ [ed_edge_id e]) (w + ed_enforcement_weight e)"
      using trail_step [OF item(1) e] by (simp add: item(2))
    then have it: "item_ok inc s ?it" by (simp add: item_ok_def item(3))
    have t: "paths_ok inc s m ?t" "paths_ok inc s m (?t\<lparr>tv_nodes := ns, tv_reached := k\<rparr>)" for ns k
      using Cons.prems(4,6) tr fresh by (simp_all add: paths_ok_def path_ok_def item(3))
    have es: "set es \<subseteq> set (inc c)" using Cons.prems(3) by simp
    show ?thesis
    proof (cases "?n \<in> set (tv_nodes t)")
      case True
      with fresh Cons.prems(1) have r: "tr_edges ids (c, dp, pn, pe, w) es (q, ?t) = (q', t')"
        by (simp add: Let_def)
      show ?thesis by (rule Cons.IH [OF r Cons.prems(2) es Cons.prems(4,5) t(1)])
    next
      case False
      with fresh Cons.prems(1) have r: "tr_edges ids (c, dp, pn, pe, w) es (q @ [?it],
          ?t\<lparr>tv_nodes := tv_nodes t @ [?n], tv_reached := max (tv_reached t) (dp + 1)\<rparr>) = (q', t')"
        by (simp add: Let_def)
      have "list_all (item_ok inc s) (q @ [?it])" using Cons.prems(5) it by simp
      from Cons.IH [OF r Cons.prems(2) es Cons.prems(4) this t(2)] show ?thesis .
    qed
  qed
qed simp

section \<open>The traversal\<close>

definition trav_inv ::
  "(string \<Rightarrow> gedge list) \<Rightarrow> string \<Rightarrow> nat \<Rightarrow> (string \<times> nat) list \<Rightarrow> queue_item list \<Rightarrow> traversal \<Rightarrow> bool" where
  "trav_inv inc s m D q t \<longleftrightarrow>
     layer_inv (reaches inc) {s} m D (map item_node q) (set (tv_nodes t)) \<and>
     layer_tight (map item_node q) \<and> list_all (item_ok inc s) q \<and> paths_ok inc s m t \<and>
     set (tv_edges t) = (\<Union>x \<in> {x. \<exists>dx. (x, dx) \<in> set D \<and> dx < m}. ed_edge_id ` set (inc x))"

definition trav_correct :: "(string \<Rightarrow> gedge list) \<Rightarrow> string \<Rightarrow> nat \<Rightarrow> traversal \<Rightarrow> bool" where
  "trav_correct inc s m t \<longleftrightarrow>
     set (tv_nodes t) = {x. \<exists>n \<le> m. in_layer (reaches inc) {s} n x} \<and>
     set (tv_edges t) = (\<Union>x \<in> {x. \<exists>n < m. in_layer (reaches inc) {s} n x}. ed_edge_id ` set (inc x)) \<and>
     paths_ok inc s m t"

lemma trav_done: "trav_inv inc s m D [] t \<Longrightarrow> trav_correct inc s m t"
  using layer_end layer_expanded by (fastforce simp: trav_inv_def trav_correct_def)

lemma trav_skip:
  assumes inv: "trav_inv inc s m D (it # q) t" and deep: "fst (snd it) \<ge> m"
  shows "trav_inv inc s m (D @ [item_node it]) q (t\<lparr>tv_reached := k\<rparr>)"
proof -
  have node: "item_node it = (fst it, fst (snd it))" by (simp add: item_node_def)
  have layers: "layer_inv (reaches inc) {s} m D ((fst it, fst (snd it)) # map item_node q) (set (tv_nodes t))"
    "layer_tight ((fst it, fst (snd it)) # map item_node q)"
    using inv by (simp_all add: trav_inv_def node)
  have "{x. \<exists>dx. (x, dx) \<in> set (D @ [item_node it]) \<and> dx < m} = {x. \<exists>dx. (x, dx) \<in> set D \<and> dx < m}"
    using deep by (auto simp: node)
  with layer_round [OF layers, of "[]"] deep inv show ?thesis
    by (simp add: trav_inv_def node paths_ok_def)
qed

lemma trav_expand:
  assumes ok: "store_ok g" and inc: "inc = incident_edges g d rels at_t"
    and inv: "trav_inv inc s m D ((c, dp, pn, pe, w) # q) t" and shallow: "dp < m"
    and tr: "tr_edges ids (c, dp, pn, pe, w) (inc c) (q, t) = (q', t')"
  shows "trav_inv inc s m (D @ [(c, dp)]) q' t'"
proof -
  have layers: "layer_inv (reaches inc) {s} m D ((c, dp) # map item_node q) (set (tv_nodes t))"
    "layer_tight ((c, dp) # map item_node q)"
    using inv by (simp_all add: trav_inv_def item_node_def)
  have K: "\<forall>e \<in> set (inc x). dget (kg_edges g) (ed_edge_id e) = Some e" for x
    using incident_iff [OF ok] inc by blast
  have ends: "ed_source_object_id e = x \<or> ed_target_object_id e = x" if "e \<in> set (inc x)" for e x
    using incident_iff [OF ok] inc that by blast
  have seen: "other_end c e \<in> set (tv_nodes t)"
    if e: "e \<in> set (inc c)" "ed_edge_id e \<in> set (tv_edges t)" for e
  proof -
    obtain x dx e' where x: "(x, dx) \<in> set D" "dx < m" "e' \<in> set (inc x)" "ed_edge_id e' = ed_edge_id e"
      using inv e(2) unfolding trav_inv_def by fastforce
    then have same: "e' = e" using K e(1) by (metis option.inject)
    have "reaches inc x (other_end x e)" using x(3) same by (auto simp: reaches_def)
    with layer_closed [OF layers(1) x(1)] x(2) obtain dy where
      "(other_end x e, dy) \<in> set D \<union> set ((c, dp) # map item_node q)"
      by (meson Suc_leI)
    then have o: "other_end x e \<in> set (tv_nodes t)" by (rule layer_in_nodes [OF layers(1)])
    have "x \<in> set (tv_nodes t)"
      using layer_in_nodes [OF layers(1) UnI1 [OF x(1)]] .
    have ends': "{ed_source_object_id e, ed_target_object_id e} \<subseteq> {x, other_end x e}"
      using ends [OF x(3)] same by (auto simp: other_end_def)
    have "other_end c e \<in> {ed_source_object_id e, ed_target_object_id e}"
      by (simp add: other_end_def)
    with ends' have "other_end c e \<in> {x, other_end x e}" by blast
    with o \<open>x \<in> set (tv_nodes t)\<close> show ?thesis by auto
  qed
  from tr_edges_layers [OF tr K] seen obtain new where new:
    "map item_node q' = map item_node q @ map (\<lambda>n. (n, Suc dp)) new"
    "set (tv_nodes t') = set (tv_nodes t) \<union> set new" "set new \<subseteq> other_end c ` set (inc c)"
    "other_end c ` set (inc c) \<subseteq> set (tv_nodes t')"
    "set (tv_edges t') = set (tv_edges t) \<union> ed_edge_id ` set (inc c)"
    by blast
  have sound: "Suc dp \<le> m \<and> reaches inc c n" if "n \<in> set new" for n
    using new(3) that shallow by (auto simp: reaches_def)
  have complete: "n \<in> set (tv_nodes t) \<union> set new" if "reaches inc c n" for n
    using new(2,4) that by (auto simp: reaches_def)
  note round = layer_round [OF layers sound complete]
  have "list_all (item_ok inc s) q' \<and> paths_ok inc s m t'"
    using inv shallow by (intro tr_edges_paths [OF tr]) (auto simp: trav_inv_def)
  moreover have "{x. \<exists>dx. (x, dx) \<in> set (D @ [(c, dp)]) \<and> dx < m} =
      insert c {x. \<exists>dx. (x, dx) \<in> set D \<and> dx < m}"
    using shallow by auto
  ultimately show ?thesis
    using round inv unfolding trav_inv_def new(1,2,5) by simp blast
qed

lemma tr_loop_correct:
  "store_ok g \<Longrightarrow> trav_inv (incident_edges g d rels at_t) s (nat md) D q t \<Longrightarrow>
   trav_correct (incident_edges g d rels at_t) s (nat md) (tr_loop g d md rels at_t ids q t)"
proof (induction g d md rels at_t ids q t arbitrary: D rule: tr_loop.induct)
  case (1 g d md rels at_t ids t)
  then show ?case by (simp add: trav_done)
next
  case (2 g d md rels at_t ids c dp pn pe w q t)
  let ?inc = "incident_edges g d rels at_t"
  show ?case
  proof (cases "int dp \<ge> md")
    case True
    then have "nat md \<le> dp" by simp
    with trav_skip [OF 2(4)]
    have "trav_inv ?inc s (nat md) (D @ [item_node (c, dp, pn, pe, w)]) q (t\<lparr>tv_reached := k\<rparr>)" for k
      by simp
    from 2(1) [OF True 2(3) this] True show ?thesis by (simp add: tr_loop.simps(2))
  next
    case False
    then have shallow: "dp < nat md" by simp
    obtain q' t' where s: "tr_edges ids (c, dp, pn, pe, w) (?inc c) (q, t) = (q', t')" by fastforce
    from trav_expand [OF 2(3) refl 2(4) shallow s] 2(2) [OF False s [symmetric] 2(3)]
    show ?thesis using False s by (simp add: tr_loop.simps(2) Let_def)
  qed
qed

section \<open>The path search\<close>

abbreviation out_edges :: "graph_store \<Rightarrow> time \<Rightarrow> string \<Rightarrow> gedge list" where
  "out_edges g at_t \<equiv> incident_edges g ''outbound'' [] at_t"

lemma out_edges_eq: "out_edges g at_t x = get_outbound_edges g x [] at_t"
  by (simp add: incident_edges_def)

definition pitem_ok :: "(string \<Rightarrow> gedge list) \<Rightarrow> string \<Rightarrow> path_item \<Rightarrow> bool" where
  "pitem_ok inc s it = (case it of (x, pn, pe, w) \<Rightarrow> trail inc s pn pe w \<and> last pn = x)"

lemma pb_edges_ok:
  "store_ok g \<Longrightarrow> pitem_ok (out_edges g at_t) s it \<Longrightarrow> set es \<subseteq> set (out_edges g at_t (fst it)) \<Longrightarrow>
   list_all (pitem_ok (out_edges g at_t) s) q \<Longrightarrow>
   list_all (pitem_ok (out_edges g at_t) s) (fst (pb_edges it es (q, v)))"
proof (induction it es "(q, v)" arbitrary: q v rule: pb_edges.induct)
  case (2 x pn pe w e es q v)
  let ?it = "(ed_target_object_id e, pn @ [ed_target_object_id e], pe @ [ed_edge_id e],
    w + ed_enforcement_weight e)"
  have item: "trail (out_edges g at_t) s pn pe w" "last pn = x" using 2(4) by (simp_all add: pitem_ok_def)
  have e: "e \<in> set (out_edges g at_t (last pn))" using 2(5) item(2) by simp
  then have "other_end (last pn) e = ed_target_object_id e"
    using incident_iff [OF 2(3)] by (auto simp: other_end_def)
  then have it: "pitem_ok (out_edges g at_t) s ?it"
    using trail_step [OF item(1) e] by (simp add: pitem_ok_def)
  have es: "set es \<subseteq> set (out_edges g at_t (fst (x, pn, pe, w)))" using 2(5) by simp
  have q: "list_all (pitem_ok (out_edges g at_t) s) (q @ [?it])" using 2(6) it by simp
  show ?case
  proof (cases "ed_target_object_id e \<in> set v")
    case True
    with 2(1) [OF True 2(3,4) es 2(6)] show ?thesis by simp
  next
    case False
    with 2(2) [OF False 2(3,4) es q] show ?thesis by simp
  qed
qed simp

lemma pb_loop_bfs:
  "\<forall>(x, pn, pe, w) \<in> set q. pn \<noteq> [] \<and> last pn = x \<Longrightarrow>
   map_option gp_nodes (pb_loop g t d at_t pid q v) =
     bfs (out_targets g at_t) (endpoints g) t d (map (\<lambda>i. fst (snd i)) q) v"
proof (induction g t d at_t pid q v rule: pb_loop.induct)
  case (2 g t d at_t pid x pn pe w q v)
  have lp: "last pn = x" "pn \<noteq> []" using 2(3) by auto
  have rest: "\<forall>(x, pn, pe, w) \<in> set q. pn \<noteq> [] \<and> last pn = x" using 2(3) by auto
  obtain q' v' where s: "pb_edges (x, pn, pe, w) (get_outbound_edges g x [] at_t) (q, v) = (q', v')"
    by fastforce
  have filt: "filter (\<lambda>n. n \<in> set (endpoints g)) (out_targets g at_t x) = out_targets g at_t x"
    using out_targets_endpoint by (auto simp: filter_id_conv)
  have pushed: "push pn (filter (\<lambda>n. n \<in> set (endpoints g)) (out_targets g at_t (last pn)))
      (map (\<lambda>i. fst (snd i)) q, v) = (map (\<lambda>i. fst (snd i)) q', v')"
    using pb_edges_push [of "(x, pn, pe, w)" "get_outbound_edges g x [] at_t" q v] s
    unfolding lp(1) filt by (simp add: prod_eq_iff out_targets_def)
  have q': "\<forall>(y, pn, pe, w) \<in> set q'. pn \<noteq> [] \<and> last pn = y"
  proof -
    have "\<forall>(y, pn, pe, w) \<in> set (fst (pb_edges it es (q, v))). pn \<noteq> [] \<and> last pn = y"
      if "\<forall>(y, pn, pe, w) \<in> set q. pn \<noteq> [] \<and> last pn = y" for it es q v
      using that by (induction it es "(q, v)" arbitrary: q v rule: pb_edges.induct) auto
    from this [OF rest, of "(x, pn, pe, w)" "get_outbound_edges g x [] at_t" v] show ?thesis
      unfolding s fst_conv .
  qed
  consider "x = t" | "x \<noteq> t" "int (length pn) > d" | "x \<noteq> t" "\<not> int (length pn) > d" by blast
  then show ?case
  proof cases
    case 1
    then show ?thesis using lp by (simp add: pb_loop.simps(2) bfs.simps(2))
  next
    case b: 2
    then have "int (length pn) - 1 \<ge> d" by simp
    with 2(1) [OF b(1) this rest] b lp show ?thesis by (simp add: pb_loop.simps(2) bfs.simps(2))
  next
    case b: 3
    then have "\<not> int (length pn) - 1 \<ge> d" by simp
    note ih = 2(2) [OF b(1) this s [symmetric], unfolded fst_conv snd_conv, OF q']
    have "pb_loop g t d at_t pid ((x, pn, pe, w) # q) v = pb_loop g t d at_t pid q' v'"
      using b by (simp add: pb_loop.simps(2) Let_def s)
    moreover have "bfs (out_targets g at_t) (endpoints g) t d (pn # map (\<lambda>i. fst (snd i)) q) v =
        bfs (out_targets g at_t) (endpoints g) t d (map (\<lambda>i. fst (snd i)) q') v'"
      using b lp(1) pushed [unfolded lp(1)] by (simp add: bfs.simps(2) Let_def)
    ultimately show ?thesis using ih by simp
  qed
qed simp

lemma pb_loop_trail:
  "store_ok g \<Longrightarrow> list_all (pitem_ok (out_edges g at_t) s) q \<Longrightarrow> pb_loop g t d at_t pid q v = Some p \<Longrightarrow>
   trail (out_edges g at_t) s (gp_nodes p) (gp_edges p) (gp_total_enforcement_weight p) \<and>
   last (gp_nodes p) = t \<and> gp_depth p = length (gp_edges p)"
proof (induction g t d at_t pid q v rule: pb_loop.induct)
  case (2 g t d at_t pid x pn pe w q v)
  have item: "pitem_ok (out_edges g at_t) s (x, pn, pe, w)" and q: "list_all (pitem_ok (out_edges g at_t) s) q"
    using 2(4) by simp_all
  consider "x = t" | "x \<noteq> t" "int (length pn) - 1 \<ge> d" | "x \<noteq> t" "\<not> int (length pn) - 1 \<ge> d" by blast
  then show ?case
  proof cases
    case 1
    then show ?thesis
      using 2(5) item trail_length by (fastforce simp: pb_loop.simps(2) pitem_ok_def)
  next
    case b: 2
    from 2(1) [OF b 2(3) q] 2(5) b show ?thesis by (simp add: pb_loop.simps(2))
  next
    case b: 3
    have "list_all (pitem_ok (out_edges g at_t) s)
        (fst (pb_edges (x, pn, pe, w) (get_outbound_edges g x [] at_t) (q, v)))"
      by (rule pb_edges_ok [OF 2(3) item _ q]) (simp add: out_edges_eq)
    from 2(2) [OF b refl 2(3) this] 2(5) b show ?thesis by (simp add: pb_loop.simps(2) Let_def)
  qed
qed simp

lemma bedge_out: "bedge (out_targets g at_t) (endpoints g) x y \<longleftrightarrow> y \<in> set (out_targets g at_t x)"
  using out_targets_endpoint by (auto simp: bedge_def)

section \<open>A sample store\<close>

definition sample_node :: "string \<Rightarrow> node_type \<Rightarrow> string \<Rightarrow> gnode" where
  "sample_node i ty pl =
     \<lparr>nd_object_id = i, nd_object_type = ty, nd_name = i, nd_description = [], nd_state = NS_ACTIVE,
      nd_version = 1, nd_schema_namespace = ''core'',
      nd_provenance = \<lparr>np_source_system = ''s'', np_source_uri = None, np_source_hash = [],
        np_ingested_by = ''i'', np_ingested_at = 0, np_origin_ip = None\<rparr>,
      nd_evidence_links = [], nd_attributes = [], nd_tags = [], nd_operational_plane = pl,
      nd_created_at = 0, nd_updated_at = 0, nd_object_hash = []\<rparr>"

definition sample_edge :: "string \<Rightarrow> string \<Rightarrow> string \<Rightarrow> relationship \<Rightarrow> gedge" where
  "sample_edge i x y rel = set_enforcement_weight
     \<lparr>ed_edge_id = i, ed_source_object_id = x, ed_target_object_id = y, ed_relationship_type = rel,
      ed_enforcement_weight = 0, ed_evidence_references = [''e''], ed_valid_from = 0,
      ed_valid_until = None, ed_asserted_by = ''ann'', ed_context = [], ed_is_active = True,
      ed_edge_hash = ''h''\<rparr>"

definition sample_store :: graph_store where
  "sample_store =
     (let g = snd (st_add_object (sample_node ''a'' NT_RISK_CONTROL ''risk'') new_graph_store);
          g = snd (st_add_object (sample_node ''b'' NT_VULNERABILITY ''risk'') g)
      in snd (st_add_edge (sample_edge ''ab'' ''a'' ''b'' RL_MITIGATES) g))"

lemma sample_store_steps: "st_step\<^sup>*\<^sup>* new_graph_store sample_store"
  unfolding sample_store_def Let_def
  by (rule rtranclp.rtrancl_into_rtrancl, rule rtranclp.rtrancl_into_rtrancl, rule r_into_rtranclp)
    (rule st_adds st_links)+

section \<open>Properties\<close>



text \<open>In every store the operations can build, \<open>find_path_between\<close> returns a trail of edges valid at
  the moment, from the source to the target, with the sum of its weights, and no directed walk is
  shorter; when it returns nothing, an end is not stored or no walk within the limit exists.\<close>

theorem find_path_between_shortest:
  assumes "st_step\<^sup>*\<^sup>* new_graph_store g"
  shows "let walks = {w. walk (\<lambda>x y. y \<in> set (out_targets g at_t x)) w \<and> hd w = s \<and> last w = t} in
    case find_path_between g s t d at_t pid of
      None \<Rightarrow> st_get_object g s = None \<or> st_get_object g t = None \<or>
        walks \<inter> {w. int (length w) \<le> d + 1} = {}
    | Some p \<Rightarrow>
        trail (out_edges g at_t) s (gp_nodes p) (gp_edges p) (gp_total_enforcement_weight p) \<and>
        last (gp_nodes p) = t \<and> gp_depth p = length (gp_edges p) \<and>
        gp_nodes p \<in> walks \<and> walks \<subseteq> {w. length (gp_nodes p) \<le> length w}"
proof -
  have ok: "store_ok g" using st_steps_ok [OF assms store_ok_new] .
  have E: "bedge (out_targets g at_t) (endpoints g) = (\<lambda>x y. y \<in> set (out_targets g at_t x))"
    by (intro ext) (rule bedge_out)
  show ?thesis
  proof (cases "s \<in> set (dkeys (kg_nodes g)) \<and> t \<in> set (dkeys (kg_nodes g))")
    case True
    let ?r = "pb_loop g t d at_t pid [(s, [s], [], 0)] [s]"
    have fp: "find_path_between g s t d at_t pid = ?r" using True by (simp add: find_path_between_def)
    have r: "map_option gp_nodes ?r = bfs (out_targets g at_t) (endpoints g) t d [[s]] [s]"
      using pb_loop_bfs [of "[(s, [s], [], 0)]" g t d at_t pid "[s]"] by simp
    note best = bfs_from_start [of "out_targets g at_t" "endpoints g" s t d, folded r, unfolded bfs_correct_def E]
    have tr: "?r = Some p \<Longrightarrow> trail (out_edges g at_t) s (gp_nodes p) (gp_edges p)
        (gp_total_enforcement_weight p) \<and> last (gp_nodes p) = t \<and> gp_depth p = length (gp_edges p)" for p
      by (rule pb_loop_trail [OF ok]) (simp_all add: pitem_ok_def trail_start)
    show ?thesis
    proof (cases ?r)
      case None
      with best show ?thesis unfolding fp Let_def by auto
    next
      case (Some p)
      with best tr [OF Some] show ?thesis unfolding fp Let_def Some by auto
    qed
  next
    case False
    then show ?thesis
      by (auto simp: find_path_between_def st_get_object_def dget_None_iff simp del: set_map)
  qed
qed

theorem find_path_between_shortest_witness:
  "\<exists>p. find_path_between sample_store ''a'' ''b'' 5 1 ''p'' = Some p \<and>
     trail (out_edges sample_store 1) ''a'' (gp_nodes p) (gp_edges p) 60"
proof -
  have "map_option gp_total_enforcement_weight (find_path_between sample_store ''a'' ''b'' 5 1 ''p'') =
      Some 60"
    by code_simp
  then obtain p where p: "find_path_between sample_store ''a'' ''b'' 5 1 ''p'' = Some p"
    "gp_total_enforcement_weight p = 60" by auto
  show ?thesis
    using find_path_between_shortest [OF sample_store_steps, where s = "''a''" and t = "''b''" and d = 5
        and at_t = 1 and pid = "''p''"] p
    by (simp add: Let_def)
qed

section \<open>The lifecycle\<close>

definition node_move :: "time \<Rightarrow> node_state \<Rightarrow> gnode \<Rightarrow> gnode option" where
  "node_move now t n = (case transition_to t now n of Inl _ \<Rightarrow> None | Inr m \<Rightarrow> Some m)"

lemma node_move_Some:
  "node_move now t n = Some m \<longleftrightarrow>
     t \<in> set (node_transitions (nd_state n)) \<and>
     m = n\<lparr>nd_state := t, nd_version := nd_version n + 1, nd_updated_at := now\<rparr>"
  by (auto simp: node_move_def transition_to_def Let_def)

interpretation node_machine: guarded_machine node_transitions nd_state node_move
  by unfold_locales (auto simp: node_move_Some)

lemma node_run_counts:
  "node_machine.run ms n = Some m \<Longrightarrow>
     nd_version m = nd_version n + int (length ms) \<and> nd_object_hash m = nd_object_hash n \<and>
     nd_object_id m = nd_object_id n"
proof (induction ms arbitrary: n)
  case (Cons a ms)
  obtain now t where a: "a = (now, t)" by (cases a)
  with Cons.prems obtain n' where n': "node_move now t n = Some n'" "node_machine.run ms n' = Some m"
    by (auto split: option.splits)
  with Cons.IH [OF n'(2)] show ?case by (auto simp: node_move_Some)
qed simp

text \<open>Whatever transitions an object of the store goes through, each moves along the table and adds
  one to the version; a retired object has no further transition, a deprecated one never becomes
  active again, and the object hash stays the one computed at creation, though it covers the state
  and the version.\<close>

theorem node_lifecycle:
  assumes "node_machine.run ms n = Some m"
  shows "nd_version m = nd_version n + int (length ms) \<and>
    (\<lambda>s t. t \<in> set (node_transitions s))\<^sup>*\<^sup>* (nd_state n) (nd_state m) \<and>
    (if nd_state n = NS_RETIRED then ms = [] else True) \<and>
    (if nd_state n = NS_DEPRECATED then nd_state m \<in> {NS_DEPRECATED, NS_RETIRED} else True) \<and>
    nd_object_hash m = nd_object_hash n"
proof -
  have "nd_state m \<in> {NS_DEPRECATED, NS_RETIRED}" if "nd_state n = NS_DEPRECATED"
    by (rule node_machine.run_closed [OF _ assms, of "{NS_DEPRECATED, NS_RETIRED}"]) (auto simp: that)
  moreover have "ms = []" if "nd_state n = NS_RETIRED"
    using node_machine.run_terminal [of n ms m] assms that by simp
  ultimately show ?thesis
    using node_run_counts [OF assms] node_machine.run_reach [OF assms] by simp
qed

theorem node_lifecycle_witness:
  "nd_version (the (node_machine.run [(1, NS_DEPRECATED), (2, NS_RETIRED)] (sample_node ''a'' NT_ASSET ''p''))) = 3"
proof -
  have "\<exists>m. node_machine.run [(1, NS_DEPRECATED), (2, NS_RETIRED)] (sample_node ''a'' NT_ASSET ''p'') = Some m"
    by (simp add: node_move_def transition_to_def sample_node_def)
  then obtain m where
    m: "node_machine.run [(1, NS_DEPRECATED), (2, NS_RETIRED)] (sample_node ''a'' NT_ASSET ''p'') = Some m" ..
  from node_lifecycle [OF m] m show ?thesis by (simp add: sample_node_def)
qed

end
