(* ===== verification/Cross_Plane.thy ===== *)
theory Cross_Plane
  imports Graph_Store Release_Gate
begin

text \<open>
  Cross-plane reconciliation, \<^verbatim>\<open>app/core/reconciliation/cross_plane_engine.py\<close>, and the governed
  edges of \<^verbatim>\<open>app/core/graph/store.py\<close>, the two places where the release gate guards a graph
  operation. The clock readings within one run are taken to be one moment. Where the code turns a
  set of two planes into a list, the model keeps the order in which they were named.
\<close>

section \<open>Governed edges\<close>

definition state_semantic_types :: "relationship list" where
  "state_semantic_types = [RL_VIOLATES, RL_CONFLICTS, RL_SATISFIES, RL_SUPERSEDES]"

datatype governed_error =
    GovernedGraphError graph_error
  | GateBlocked fstr
  | GateRaised string

definition edge_submission :: "gedge \<Rightarrow> string \<Rightarrow> submission" where
  "edge_submission e asserted_by =
     \<lparr>sb_action_type = ''graph_link_creation'',
      sb_proposed_payload =
        [(''source_id'', JStr (ed_source_object_id e)), (''target_id'', JStr (ed_target_object_id e)),
         (''relationship_type'', JStr (relationship_value (ed_relationship_type e))),
         (''enforcement_weight'', JInt (ed_enforcement_weight e))],
      sb_requested_by = asserted_by, sb_origin = HUMAN_OPERATOR,
      sb_evidence_references = Some (if ed_evidence_references e \<noteq> [] then ed_evidence_references e
                                     else [ed_edge_hash e]),
      sb_provenance_chain = Some [ed_source_object_id e, ed_target_object_id e]\<rparr>"

definition reason_text :: "string option \<Rightarrow> string" where
  "reason_text r = (case r of Some s \<Rightarrow> s | None \<Rightarrow> ''None'')"

text \<open>\<open>add_governed_edge\<close>, which \<open>add_edge\<close> with a gate delegates to.\<close>

definition add_governed_edge ::
  "platform_fns \<Rightarrow> gate_draws \<Rightarrow> string \<Rightarrow> gedge \<Rightarrow> string \<Rightarrow> platform_gate option \<Rightarrow> graph_store
     \<Rightarrow> (governed_error, graph_store \<times> platform_gate option, gedge) res" where
  "add_governed_edge fn gd tenant e asserted_by gate g =
     (let add = (\<lambda>gate. case st_add_edge e g of
            (Inl err, g) \<Rightarrow> (Inl (GovernedGraphError err), (g, gate))
          | (Inr _, g) \<Rightarrow> (Inr e, (g, gate)))
      in case gate of
           None \<Rightarrow> add None
         | Some gt \<Rightarrow>
             if ed_relationship_type e \<notin> set state_semantic_types then add gate
             else (case submit fn gd tenant None (edge_submission e asserted_by) gt of
                     (Inl err, gt) \<Rightarrow> (Inl (GateRaised err), (g, Some gt))
                   | (Inr r, gt) \<Rightarrow>
                       if ds_status r = DS_BLOCKED
                       then (Inl (GateBlocked
                               [Lit ''Gate blocked edge creation ('',
                                Lit (relationship_value (ed_relationship_type e)), Lit ''): '',
                                Lit (reason_text (ds_failure_reason r))]), (g, Some gt))
                       else add (Some gt)))"

definition add_edge_gated ::
  "platform_fns \<Rightarrow> gate_draws \<Rightarrow> string \<Rightarrow> gedge \<Rightarrow> platform_gate option \<Rightarrow> graph_store
     \<Rightarrow> (governed_error, graph_store \<times> platform_gate option, unit) res" where
  "add_edge_gated fn gd tenant e gate g =
     (case gate of
        Some gt \<Rightarrow> (case add_governed_edge fn gd tenant e (ed_asserted_by e) gate g of
                     (Inl err, s) \<Rightarrow> (Inl err, s) | (Inr _, s) \<Rightarrow> (Inr (), s))
      | None \<Rightarrow> (case st_add_edge e g of
                  (Inl err, g) \<Rightarrow> (Inl (GovernedGraphError err), (g, None))
                | (Inr _, g) \<Rightarrow> (Inr (), (g, None))))"

section \<open>Cases and rules\<close>

datatype case_type = CT_GAP | CT_CONFLICT | CT_DUPLICATE | CT_MATCH | CT_ORPHAN

fun case_type_value :: "case_type \<Rightarrow> string" where
  "case_type_value CT_GAP = ''gap''"
| "case_type_value CT_CONFLICT = ''conflict''"
| "case_type_value CT_DUPLICATE = ''duplicate''"
| "case_type_value CT_MATCH = ''match''"
| "case_type_value CT_ORPHAN = ''orphan''"

fun case_type_str :: "case_type \<Rightarrow> string" where
  "case_type_str CT_GAP = ''ReconciliationCaseType.GAP''"
| "case_type_str CT_CONFLICT = ''ReconciliationCaseType.CONFLICT''"
| "case_type_str CT_DUPLICATE = ''ReconciliationCaseType.DUPLICATE''"
| "case_type_str CT_MATCH = ''ReconciliationCaseType.MATCH''"
| "case_type_str CT_ORPHAN = ''ReconciliationCaseType.ORPHAN''"

datatype case_severity = CSV_CRITICAL | CSV_HIGH | CSV_MEDIUM | CSV_LOW

fun case_severity_value :: "case_severity \<Rightarrow> string" where
  "case_severity_value CSV_CRITICAL = ''critical''"
| "case_severity_value CSV_HIGH = ''high''"
| "case_severity_value CSV_MEDIUM = ''medium''"
| "case_severity_value CSV_LOW = ''low''"

fun case_severity_str :: "case_severity \<Rightarrow> string" where
  "case_severity_str CSV_CRITICAL = ''ReconciliationCaseSeverity.CRITICAL''"
| "case_severity_str CSV_HIGH = ''ReconciliationCaseSeverity.HIGH''"
| "case_severity_str CSV_MEDIUM = ''ReconciliationCaseSeverity.MEDIUM''"
| "case_severity_str CSV_LOW = ''ReconciliationCaseSeverity.LOW''"

datatype case_status = CST_OPEN | CST_UNDER_REVIEW | CST_RESOLVED | CST_ACCEPTED_RISK

record recon_case =
  rc_case_id :: string
  rc_case_type :: case_type
  rc_severity :: case_severity
  rc_status :: case_status
  rc_title :: fstr
  rc_description :: fstr
  rc_affected_object_ids :: "string list"
  rc_affected_planes :: "string list"
  rc_violated_rule_id :: "string option"
  rc_missing_relationship_type :: "relationship option"
  rc_conflicting_edge_ids :: "string list"
  rc_detected_at :: time
  rc_resolved_at :: "time option"
  rc_severity_score :: int
  rc_remediation_suggestions :: "fstr list"
  rc_case_hash :: string

definition compute_case_hash :: "platform_fns \<Rightarrow> recon_case \<Rightarrow> recon_case" where
  "compute_case_hash fn c = c\<lparr>rc_case_hash := pf_sha fn
     (case_type_str (rc_case_type c) @ case_severity_str (rc_severity c) @
      pf_list fn (sort (rc_affected_object_ids c)) @ pf_list fn (sort (rc_affected_planes c)) @
      reason_text (rc_violated_rule_id c) @ pf_iso fn (rc_detected_at c))\<rparr>"

record plane_rule =
  pl_rule_id :: string
  pl_domain_pack :: string
  pl_rule_name :: string
  pl_description :: string
  pl_source_plane :: string
  pl_target_plane :: string
  pl_source_object_type :: node_type
  pl_target_object_type :: node_type
  pl_required_relationship :: relationship
  pl_severity :: case_severity
  pl_enabled :: bool

definition core_reconciliation_rules :: "plane_rule list" where
  "core_reconciliation_rules =
     [\<lparr>pl_rule_id = ''CORE-001'', pl_domain_pack = ''core'',
       pl_rule_name = ''risk_control_must_mitigate_vulnerability'',
       pl_description = ''Every active risk control must mitigate at least one vulnerability'',
       pl_source_plane = ''risk'', pl_target_plane = ''risk'',
       pl_source_object_type = NT_RISK_CONTROL, pl_target_object_type = NT_VULNERABILITY,
       pl_required_relationship = RL_MITIGATES, pl_severity = CSV_HIGH, pl_enabled = True\<rparr>,
      \<lparr>pl_rule_id = ''CORE-002'', pl_domain_pack = ''core'',
       pl_rule_name = ''technical_control_must_satisfy_compliance'',
       pl_description = ''Every technical control must satisfy at least one compliance requirement'',
       pl_source_plane = ''security'', pl_target_plane = ''compliance'',
       pl_source_object_type = NT_TECHNICAL_CONTROL, pl_target_object_type = NT_COMPLIANCE_REQUIREMENT,
       pl_required_relationship = RL_SATISFIES, pl_severity = CSV_CRITICAL, pl_enabled = True\<rparr>,
      \<lparr>pl_rule_id = ''CORE-003'', pl_domain_pack = ''core'',
       pl_rule_name = ''compliance_requirement_must_satisfy_mandate'',
       pl_description = ''Every compliance requirement must link to a regulatory mandate'',
       pl_source_plane = ''compliance'', pl_target_plane = ''compliance'',
       pl_source_object_type = NT_COMPLIANCE_REQUIREMENT, pl_target_object_type = NT_REGULATORY_MANDATE,
       pl_required_relationship = RL_SATISFIES, pl_severity = CSV_CRITICAL, pl_enabled = True\<rparr>,
      \<lparr>pl_rule_id = ''CORE-004'', pl_domain_pack = ''core'',
       pl_rule_name = ''security_control_must_implement_policy'',
       pl_description = ''Every security control must implement an operational policy'',
       pl_source_plane = ''security'', pl_target_plane = ''operations'',
       pl_source_object_type = NT_SECURITY_CONTROL, pl_target_object_type = NT_OPERATIONAL_POLICY,
       pl_required_relationship = RL_IMPLEMENTS, pl_severity = CSV_MEDIUM, pl_enabled = True\<rparr>]"

section \<open>The engine\<close>

record cross_plane =
  xp_graph :: graph_store
  xp_rules :: "plane_rule list"
  xp_cases :: "(string, recon_case) dict"
  xp_case_index :: "(string, string list) dict"
  xp_meter :: metering_engine

definition new_cross_plane :: "graph_store \<Rightarrow> plane_rule list \<Rightarrow> metering_engine \<Rightarrow> cross_plane" where
  "new_cross_plane g rules m =
     \<lparr>xp_graph = g, xp_rules = (if rules \<noteq> [] then rules else core_reconciliation_rules),
      xp_cases = [], xp_case_index = [], xp_meter = m\<rparr>"

definition compute_severity_score :: "case_severity \<Rightarrow> gnode list \<Rightarrow> int" where
  "compute_severity_score severity objects =
     (let base = (case severity of CSV_CRITICAL \<Rightarrow> 100 | CSV_HIGH \<Rightarrow> 70 | CSV_MEDIUM \<Rightarrow> 40 | CSV_LOW \<Rightarrow> 10)
      in base + int (length objects))"

definition has_required_link :: "graph_store \<Rightarrow> time \<Rightarrow> plane_rule \<Rightarrow> gnode \<Rightarrow> bool" where
  "has_required_link g now rule obj =
     list_ex (\<lambda>e. case st_get_object g (ed_target_object_id e) of
         None \<Rightarrow> False
       | Some target \<Rightarrow> nd_object_type target = pl_target_object_type rule \<and>
           nd_operational_plane target = pl_target_plane rule \<and> node_is_active target)
       (get_outbound_edges g (nd_object_id obj) [pl_required_relationship rule] now)"

text \<open>A case before it draws its identifier and computes its hash.\<close>

definition case_draft ::
  "case_type \<Rightarrow> case_severity \<Rightarrow> fstr \<Rightarrow> fstr \<Rightarrow> string list \<Rightarrow> string list \<Rightarrow> time \<Rightarrow> int \<Rightarrow> fstr list \<Rightarrow> recon_case" where
  "case_draft ty sev title descr ids planes now score suggestions =
     \<lparr>rc_case_id = [], rc_case_type = ty, rc_severity = sev, rc_status = CST_OPEN, rc_title = title,
      rc_description = descr, rc_affected_object_ids = ids, rc_affected_planes = planes,
      rc_violated_rule_id = None, rc_missing_relationship_type = None, rc_conflicting_edge_ids = [],
      rc_detected_at = now, rc_resolved_at = None, rc_severity_score = score,
      rc_remediation_suggestions = suggestions, rc_case_hash = []\<rparr>"

definition gap_case :: "time \<Rightarrow> plane_rule \<Rightarrow> gnode \<Rightarrow> recon_case" where
  "gap_case now rule obj =
     (let rel = relationship_value (pl_required_relationship rule);
          ty = node_type_value (pl_target_object_type rule)
      in (case_draft CT_GAP (pl_severity rule)
            [Lit ''GAP: '', Lit (nd_name obj), Lit '' lacks required '', Lit rel, Lit '' link'']
            [Lit ''Rule '', sq (pl_rule_name rule), Lit '': Active '',
             Lit (node_type_value (pl_source_object_type rule)), Lit '' '', sq (nd_name obj), Lit '' in plane '',
             sq (pl_source_plane rule), Lit '' has no '', sq rel, Lit '' relationship to any active '', Lit ty,
             Lit '' in plane '', sq (pl_target_plane rule), Lit ''.'']
            [nd_object_id obj] [pl_source_plane rule, pl_target_plane rule] now
            (compute_severity_score (pl_severity rule) [obj])
            [[Lit ''Create a '', sq rel, Lit '' relationship from '', sq (nd_name obj),
              Lit '' to an appropriate '', Lit ty, Lit ''.''],
             [Lit ''Review whether '', sq (nd_name obj), Lit '' should be deprecated if no applicable '',
              Lit ty, Lit '' exists.'']])
         \<lparr>rc_violated_rule_id := Some (pl_rule_id rule),
          rc_missing_relationship_type := Some (pl_required_relationship rule)\<rparr>)"

definition evaluate_plane_rule :: "graph_store \<Rightarrow> time \<Rightarrow> plane_rule \<Rightarrow> recon_case list" where
  "evaluate_plane_rule g now rule =
     map (gap_case now rule)
       (filter (\<lambda>obj. node_is_active obj \<and> \<not> has_required_link g now rule obj)
         (get_objects_by_type g (node_type_value (pl_source_object_type rule))))"

definition conflict_case :: "time \<Rightarrow> string \<Rightarrow> gedge \<Rightarrow> gnode \<Rightarrow> gnode \<Rightarrow> recon_case" where
  "conflict_case now edge_id e source target =
     (let rel = relationship_value (ed_relationship_type e); sp = nd_operational_plane source;
          tp = nd_operational_plane target
      in (case_draft CT_CONFLICT CSV_CRITICAL
            [Lit ''CONFLICT: '', sq (nd_name source), Lit '' '', Lit rel, Lit '' '', sq (nd_name target)]
            [Lit ''Active conflict: '', sq (nd_name source), Lit '' ('', Lit sp, Lit '') has a '', sq rel,
             Lit '' relationship with '', sq (nd_name target), Lit '' ('', Lit tp, Lit '').'']
            [nd_object_id source, nd_object_id target] (if sp = tp then [sp] else [sp, tp]) now 100
            [[Lit ''Review the conflict between '', sq (nd_name source), Lit '' and '', sq (nd_name target),
              Lit ''.''],
             [Lit ''Update one or both objects to resolve the incompatibility.'']])
         \<lparr>rc_conflicting_edge_ids := [edge_id]\<rparr>)"

definition conflict_of :: "graph_store \<Rightarrow> time \<Rightarrow> string \<times> gedge \<Rightarrow> recon_case option" where
  "conflict_of g now ie =
     (case ie of (edge_id, e) \<Rightarrow>
        if ed_relationship_type e \<notin> {RL_CONFLICTS, RL_VIOLATES} \<or> \<not> ed_is_active e then None
        else (case (st_get_object g (ed_source_object_id e), st_get_object g (ed_target_object_id e)) of
                (Some source, Some target) \<Rightarrow>
                  if \<not> node_is_active source \<or> \<not> node_is_active target then None
                  else Some (conflict_case now edge_id e source target)
              | _ \<Rightarrow> None))"

definition detect_conflicts :: "graph_store \<Rightarrow> time \<Rightarrow> recon_case list" where
  "detect_conflicts g now = List.map_filter (conflict_of g now) (kg_edges g)"

definition orphan_case :: "time \<Rightarrow> gnode \<Rightarrow> recon_case" where
  "orphan_case now obj =
     case_draft CT_ORPHAN CSV_MEDIUM
       [Lit ''ORPHAN: '', sq (nd_name obj), Lit '' has no governance relationships'']
       [Lit ''Active '', Lit (node_type_value (nd_object_type obj)), Lit '' '', sq (nd_name obj),
        Lit '' in plane '', sq (nd_operational_plane obj), Lit '' has no relationships.'']
       [nd_object_id obj] [nd_operational_plane obj] now 40
       [[Lit ''Link '', sq (nd_name obj), Lit '' to at least one related control object.''],
        [Lit ''If '', sq (nd_name obj), Lit '' is no longer relevant, deprecate it.'']]"

definition detect_orphans :: "graph_store \<Rightarrow> time \<Rightarrow> recon_case list" where
  "detect_orphans g now =
     map (orphan_case now)
       (filter (\<lambda>obj. get_outbound_edges g (nd_object_id obj) [] now = [] \<and>
                      get_inbound_edges g (nd_object_id obj) [] now = []) (get_active_objects g))"

definition commit_case :: "recon_case \<Rightarrow> cross_plane \<Rightarrow> cross_plane" where
  "commit_case c x =
     x\<lparr>xp_cases := dput (rc_case_id c) c (xp_cases x),
       xp_case_index := foldl (\<lambda>d i. idx_append i (rc_case_id c) d) (xp_case_index x)
                          (rc_affected_object_ids c)\<rparr>"

definition found_cases :: "cross_plane \<Rightarrow> time \<Rightarrow> recon_case list" where
  "found_cases x now =
     concat (map (evaluate_plane_rule (xp_graph x) now) (filter pl_enabled (xp_rules x))) @
     detect_conflicts (xp_graph x) now @ detect_orphans (xp_graph x) now"

text \<open>The cases as constructed: the \<open>i\<close>-th draws the identifier \<open>ids i\<close>.\<close>

definition draw_cases :: "platform_fns \<Rightarrow> (nat \<Rightarrow> string) \<Rightarrow> recon_case list \<Rightarrow> recon_case list" where
  "draw_cases fn ids cs = map (\<lambda>(i, c). compute_case_hash fn (c\<lparr>rc_case_id := ids i\<rparr>)) (enumerate 0 cs)"

definition run_full_reconciliation ::
  "platform_fns \<Rightarrow> (nat \<Rightarrow> string) \<Rightarrow> time \<Rightarrow> string \<Rightarrow> cross_plane \<Rightarrow> recon_case list \<times> cross_plane" where
  "run_full_reconciliation fn ids now tenant x =
     (let new_cases = draw_cases fn ids (found_cases x now);
          x = foldl (\<lambda>x c. commit_case c x) x new_cases;
          m = mt_record now ''reconciliation_run'' tenant 1 (xp_meter x);
          m = (if new_cases \<noteq> []
               then mt_record now ''reconciliation_case'' tenant (int (length new_cases)) m else m)
      in (new_cases, x\<lparr>xp_meter := m\<rparr>))"

definition get_open_cases :: "cross_plane \<Rightarrow> recon_case list" where
  "get_open_cases x = filter (\<lambda>c. rc_status c = CST_OPEN) (dvalues (xp_cases x))"

definition get_cases_by_severity :: "cross_plane \<Rightarrow> case_severity \<Rightarrow> recon_case list" where
  "get_cases_by_severity x severity = filter (\<lambda>c. rc_severity c = severity) (dvalues (xp_cases x))"

definition get_cases_for_object :: "cross_plane \<Rightarrow> string \<Rightarrow> recon_case list" where
  "get_cases_for_object x object_id = List.map_filter (dget (xp_cases x)) (idx (xp_case_index x) object_id)"

definition total_cases :: "cross_plane \<Rightarrow> nat" where
  "total_cases x = length (xp_cases x)"

definition resolution_submission :: "recon_case \<Rightarrow> string \<Rightarrow> string \<Rightarrow> string \<Rightarrow> submission" where
  "resolution_submission c case_id resolved_by note' =
     \<lparr>sb_action_type = ''reconciliation_case_resolution'',
      sb_proposed_payload =
        [(''case_id'', JStr case_id), (''case_type'', JStr (case_type_value (rc_case_type c))),
         (''severity'', JStr (case_severity_value (rc_severity c))), (''resolution_note'', JStr note')],
      sb_requested_by = resolved_by, sb_origin = HUMAN_OPERATOR,
      sb_evidence_references = Some [rc_case_hash c], sb_provenance_chain = Some [case_id]\<rparr>"

datatype resolve_error = CaseNotFound fstr | ResolutionBlocked fstr | ResolutionRaised string

definition resolved_case :: "time \<Rightarrow> string \<Rightarrow> recon_case \<Rightarrow> recon_case" where
  "resolved_case now note' c =
     c\<lparr>rc_status := CST_RESOLVED, rc_resolved_at := Some now,
       rc_description := rc_description c @ [Lit [CHR 0x0A, CHR 0x0A], Lit ''Resolution: '', Lit note']\<rparr>"

definition mark_case_resolved ::
  "platform_fns \<Rightarrow> gate_draws \<Rightarrow> string \<Rightarrow> time \<Rightarrow> string \<Rightarrow> string \<Rightarrow> string \<Rightarrow> platform_gate option
     \<Rightarrow> cross_plane \<Rightarrow> (resolve_error, cross_plane \<times> platform_gate option, recon_case) res" where
  "mark_case_resolved fn gd tenant now case_id resolved_by note' gate x =
     (case dget (xp_cases x) case_id of
        None \<Rightarrow> (Inl (CaseNotFound [Lit ''Case '', Lit case_id, Lit '' not found.'']), (x, gate))
      | Some c \<Rightarrow>
          let resolve = (\<lambda>gate. let r = resolved_case now note' c
                in (Inr r, (x\<lparr>xp_cases := dput case_id r (xp_cases x)\<rparr>, gate)))
          in case gate of
               None \<Rightarrow> resolve None
             | Some gt \<Rightarrow>
                 (case submit fn gd tenant None (resolution_submission c case_id resolved_by note') gt of
                    (Inl err, gt) \<Rightarrow> (Inl (ResolutionRaised err), (x, Some gt))
                  | (Inr r, gt) \<Rightarrow>
                      if ds_status r = DS_BLOCKED
                      then (Inl (ResolutionBlocked
                              [Lit ''Gate blocked case resolution for '', Lit case_id, Lit '': '',
                               Lit (reason_text (ds_failure_reason r))]), (x, Some gt))
                      else resolve (Some gt)))"

end
