(* ===== verification/Cross_Plane_Props.thy ===== *)
theory Cross_Plane_Props
  imports Cross_Plane Release_Gate_Props Graph_Search_Props
begin

text \<open>
  What the gate guards in the graph and in reconciliation, and what a reconciliation run finds.
\<close>

section \<open>Gated operations\<close>

text \<open>What the policy asks of a human's submission of an action type.\<close>

definition human_may :: "policy_table \<Rightarrow> string \<Rightarrow> string \<Rightarrow> bool" where
  "human_may P action_type who \<longleftrightarrow>
     who \<noteq> [] \<and> action_type \<notin> set (pt_blocked P) \<and>
     (case dget (pt_origins P) action_type of None \<Rightarrow> True | Some os \<Rightarrow> HUMAN_OPERATOR \<in> set os)"

lemma edge_submission_admissible:
  "admissible_submission P (edge_submission e who) \<longleftrightarrow> human_may P ''graph_link_creation'' who"
  by (auto simp: admissible_submission_def edge_submission_def human_may_def or_empty_def split: option.splits)

lemma resolution_admissible:
  "admissible_submission P (resolution_submission c i who note') \<longleftrightarrow>
     human_may P ''reconciliation_case_resolution'' who"
  by (auto simp: admissible_submission_def resolution_submission_def human_may_def or_empty_def split: option.splits)

text \<open>A submission without executor is answered, and blocked exactly when it is not admissible.\<close>

lemma submit_blocked_iff:
  "\<exists>r g'. submit fn gd tenant None sb (gate_under P g) = (Inr r, g') \<and>
     (ds_status r = DS_BLOCKED \<longleftrightarrow> \<not> admissible_submission P sb)"
  using submit_decides [of fn gd tenant None sb P g] by (auto split: if_splits)

text \<open>The conditions under which the store accepts an edge.\<close>

definition edge_storable :: "gedge \<Rightarrow> graph_store \<Rightarrow> bool" where
  "edge_storable e g \<longleftrightarrow>
     st_get_object g (ed_source_object_id e) \<noteq> None \<and> st_get_object g (ed_target_object_id e) \<noteq> None \<and>
     st_get_edge g (ed_edge_id e) = None \<and> ed_source_object_id e \<noteq> ed_target_object_id e"

lemma st_add_edge_cases:
  obtains (added) "edge_storable e g" "fst (st_add_edge e g) = Inr ()"
  | (refused) err where "\<not> edge_storable e g" "st_add_edge e g = (Inl err, g)"
proof (cases "edge_storable e g")
  case True
  then have "fst (st_add_edge e g) = Inr ()"
    by (simp add: edge_storable_def st_add_edge_def st_get_object_def st_get_edge_def dget_None_iff del: set_map)
  with True show thesis by (rule added)
next
  case False
  then have "\<exists>err. st_add_edge e g = (Inl err, g)"
    by (auto simp: edge_storable_def st_add_edge_def st_get_object_def st_get_edge_def dget_None_iff
        simp del: set_map)
  with False show thesis using refused by blast
qed

text \<open>With a gate under a table of policies, a governed edge is added exactly when the store accepts it
  and, for a state-semantic relationship, the policy lets its author create links; otherwise the
  graph is left as it was.\<close>

theorem governed_edge_added:
  "let permitted = (if ed_relationship_type e \<in> set state_semantic_types
                    then human_may P ''graph_link_creation'' who else True);
       r = add_governed_edge fn gd tenant e who (Some (gate_under P gt)) g
   in (if permitted \<and> edge_storable e g
       then fst r = Inr e \<and> fst (snd r) = snd (st_add_edge e g)
       else res_raises r \<and> fst (snd r) = g)"
proof -
  obtain r gt' where s: "submit fn gd tenant None (edge_submission e who) (gate_under P gt) = (Inr r, gt')"
    "ds_status r = DS_BLOCKED \<longleftrightarrow> \<not> human_may P ''graph_link_creation'' who"
    using submit_blocked_iff [of fn gd tenant "edge_submission e who" P gt]
    unfolding edge_submission_admissible by blast
  show ?thesis
  proof (cases rule: st_add_edge_cases [of e g])
    case added
    then obtain g' where "st_add_edge e g = (Inr (), g')" by (metis prod.collapse)
    with added(1) s show ?thesis by (simp add: add_governed_edge_def Let_def)
  next
    case (refused err)
    with s show ?thesis by (simp add: add_governed_edge_def Let_def)
  qed
qed

text \<open>With a gate under a table of policies, a stored case is resolved exactly when the policy lets the
  resolver close cases; a refused resolution, or one of an unknown case, changes no case and not the
  graph.\<close>

theorem resolution_gated:
  "let r = mark_case_resolved fn gd tenant now i who note' (Some (gate_under P gt)) x in
   case dget (xp_cases x) i of
     None \<Rightarrow> res_raises r \<and> fst (snd r) = x
   | Some c \<Rightarrow>
       (if human_may P ''reconciliation_case_resolution'' who
        then fst r = Inr (resolved_case now note' c) \<and>
             fst (snd r) = x\<lparr>xp_cases := dput i (resolved_case now note' c) (xp_cases x)\<rparr>
        else res_raises r \<and> fst (snd r) = x)"
proof (cases "dget (xp_cases x) i")
  case (Some c)
  obtain r gt' where s:
    "submit fn gd tenant None (resolution_submission c i who note') (gate_under P gt) = (Inr r, gt')"
    "ds_status r = DS_BLOCKED \<longleftrightarrow> \<not> human_may P ''reconciliation_case_resolution'' who"
    using submit_blocked_iff [of fn gd tenant "resolution_submission c i who note'" P gt]
    unfolding resolution_admissible by blast
  with Some show ?thesis by (simp add: mark_case_resolved_def Let_def)
qed (simp add: mark_case_resolved_def Let_def)

section \<open>What a run finds\<close>

definition links_to :: "graph_store \<Rightarrow> time \<Rightarrow> plane_rule \<Rightarrow> string \<Rightarrow> gnode \<Rightarrow> bool" where
  "links_to g now rule i target \<longleftrightarrow>
     (\<exists>e. st_get_edge g (ed_edge_id e) = Some e \<and> ed_source_object_id e = i \<and>
        ed_relationship_type e = pl_required_relationship rule \<and> is_valid_at now e \<and>
        st_get_object g (ed_target_object_id e) = Some target) \<and>
     nd_object_type target = pl_target_object_type rule \<and>
     nd_operational_plane target = pl_target_plane rule \<and> node_is_active target"

lemma has_required_link_iff:
  assumes "store_ok g"
  shows "has_required_link g now rule obj \<longleftrightarrow> (\<exists>target. links_to g now rule (nd_object_id obj) target)"
proof -
  have e: "e \<in> set (get_outbound_edges g (nd_object_id obj) [pl_required_relationship rule] now) \<longleftrightarrow>
      st_get_edge g (ed_edge_id e) = Some e \<and> ed_source_object_id e = nd_object_id obj \<and>
      ed_relationship_type e = pl_required_relationship rule \<and> is_valid_at now e" for e
    using incident_iff [OF assms, of e "''outbound''" "[pl_required_relationship rule]" now "nd_object_id obj"]
    by (auto simp: incident_edges_def st_get_edge_def)
  show ?thesis
    unfolding has_required_link_def list_ex_iff links_to_def
    using e by (auto split: option.splits)
qed

lemma map_enumerate_keep:
  "(\<And>i c. f (g i c) = f c) \<Longrightarrow> map f (map (\<lambda>(i, c). g i c) (enumerate n cs)) = map f cs"
  by (induction cs arbitrary: n) simp_all

text \<open>Drawing an identifier and hashing change no other field of a case.\<close>

lemma draw_cases_fields:
  assumes "\<And>c i h. f (c\<lparr>rc_case_id := i, rc_case_hash := h\<rparr>) = f c"
  shows "map f (draw_cases fn ids cs) = map f cs"
  unfolding draw_cases_def
  by (rule map_enumerate_keep) (use assms in \<open>simp add: compute_case_hash_def\<close>)

lemma draw_cases_ids: "map rc_case_id (draw_cases fn ids cs) = map ids [0..<length cs]"
  by (auto intro!: nth_equalityI simp: draw_cases_def nth_enumerate_eq compute_case_hash_def)

text \<open>The facts of a found case that say what it is about.\<close>

definition case_key :: "recon_case \<Rightarrow> case_type \<times> string option \<times> string list \<times> string list" where
  "case_key c = (rc_case_type c, rc_violated_rule_id c, rc_affected_object_ids c, rc_conflicting_edge_ids c)"

lemma run_keys:
  "map case_key (fst (run_full_reconciliation fn ids now tenant x)) = map case_key (found_cases x now)"
  unfolding run_full_reconciliation_def Let_def fst_conv
  by (rule draw_cases_fields) (simp add: case_key_def)

lemma gap_key: "case_key (gap_case now rule obj) = (CT_GAP, Some (pl_rule_id rule), [nd_object_id obj], [])"
  by (simp add: case_key_def gap_case_def case_draft_def Let_def)

lemma conflict_key:
  "case_key (conflict_case now i e a b) = (CT_CONFLICT, None, [nd_object_id a, nd_object_id b], [i])"
  by (simp add: case_key_def conflict_case_def case_draft_def Let_def)

lemma orphan_key: "case_key (orphan_case now obj) = (CT_ORPHAN, None, [nd_object_id obj], [])"
  by (simp add: case_key_def orphan_case_def case_draft_def)

definition in_conflict :: "graph_store \<Rightarrow> string \<Rightarrow> gedge \<Rightarrow> gnode \<Rightarrow> gnode \<Rightarrow> bool" where
  "in_conflict g i e a b \<longleftrightarrow>
     st_get_edge g i = Some e \<and> ed_relationship_type e \<in> {RL_CONFLICTS, RL_VIOLATES} \<and> ed_is_active e \<and>
     st_get_object g (ed_source_object_id e) = Some a \<and> node_is_active a \<and>
     st_get_object g (ed_target_object_id e) = Some b \<and> node_is_active b"

definition touches :: "graph_store \<Rightarrow> time \<Rightarrow> string \<Rightarrow> gedge \<Rightarrow> bool" where
  "touches g now i e \<longleftrightarrow>
     st_get_edge g (ed_edge_id e) = Some e \<and> is_valid_at now e \<and>
     i \<in> {ed_source_object_id e, ed_target_object_id e}"

lemma conflict_of_Some:
  "conflict_of g now (i, e) = Some c \<longleftrightarrow>
     ed_relationship_type e \<in> {RL_CONFLICTS, RL_VIOLATES} \<and> ed_is_active e \<and>
     (\<exists>a b. st_get_object g (ed_source_object_id e) = Some a \<and> node_is_active a \<and>
        st_get_object g (ed_target_object_id e) = Some b \<and> node_is_active b \<and>
        c = conflict_case now i e a b)"
  by (auto simp: conflict_of_def split: option.splits)

lemma kind_gap: "c \<in> set (evaluate_plane_rule g now rule) \<Longrightarrow> rc_case_type c = CT_GAP"
  by (auto simp: evaluate_plane_rule_def gap_case_def case_draft_def Let_def)

lemma kind_conflict: "c \<in> set (detect_conflicts g now) \<Longrightarrow> rc_case_type c = CT_CONFLICT"
proof -
  assume "c \<in> set (detect_conflicts g now)"
  then obtain i e where "conflict_of g now (i, e) = Some c"
    unfolding detect_conflicts_def set_map_filter_Some by auto
  then show "rc_case_type c = CT_CONFLICT"
    unfolding conflict_of_Some by (auto simp: conflict_case_def case_draft_def Let_def)
qed

lemma kind_orphan: "c \<in> set (detect_orphans g now) \<Longrightarrow> rc_case_type c = CT_ORPHAN"
  by (auto simp: detect_orphans_def orphan_case_def case_draft_def)

lemma key_kind: "(\<And>c. c \<in> A \<Longrightarrow> rc_case_type c = ty) \<Longrightarrow> k \<in> case_key ` A \<Longrightarrow> fst k = ty"
  by (auto simp: case_key_def)

text \<open>The cases found, by their kind.\<close>

lemma found_split:
  "k \<in> case_key ` set (found_cases x now) \<longleftrightarrow>
     (case fst k of
        CT_GAP \<Rightarrow> (\<exists>rule \<in> set (xp_rules x). pl_enabled rule \<and>
          k \<in> case_key ` set (evaluate_plane_rule (xp_graph x) now rule))
      | CT_CONFLICT \<Rightarrow> k \<in> case_key ` set (detect_conflicts (xp_graph x) now)
      | CT_ORPHAN \<Rightarrow> k \<in> case_key ` set (detect_orphans (xp_graph x) now)
      | _ \<Rightarrow> False)"
proof -
  let ?A = "\<exists>rule \<in> set (xp_rules x). pl_enabled rule \<and>
      k \<in> case_key ` set (evaluate_plane_rule (xp_graph x) now rule)"
    and ?B = "k \<in> case_key ` set (detect_conflicts (xp_graph x) now)"
    and ?C = "k \<in> case_key ` set (detect_orphans (xp_graph x) now)"
  have kinds: "A \<or> B \<or> C \<longleftrightarrow> (case ty of CT_GAP \<Rightarrow> A | CT_CONFLICT \<Rightarrow> B | CT_ORPHAN \<Rightarrow> C | _ \<Rightarrow> False)"
    if "A \<Longrightarrow> ty = CT_GAP" "B \<Longrightarrow> ty = CT_CONFLICT" "C \<Longrightarrow> ty = CT_ORPHAN" for A B C ty
    using that by (cases ty) auto
  have "k \<in> case_key ` set (found_cases x now) \<longleftrightarrow> ?A \<or> ?B \<or> ?C"
    by (simp only: found_cases_def set_append image_Un set_concat set_map set_filter image_UN
        image_image Un_iff UN_iff mem_Collect_eq bex_simps conj_assoc Bex_def)
  also have "\<dots> \<longleftrightarrow> (case fst k of CT_GAP \<Rightarrow> ?A | CT_CONFLICT \<Rightarrow> ?B | CT_ORPHAN \<Rightarrow> ?C | _ \<Rightarrow> False)"
  proof (rule kinds)
    show "?A \<Longrightarrow> fst k = CT_GAP" by (elim bexE conjE) (rule key_kind [OF kind_gap])
    show "?B \<Longrightarrow> fst k = CT_CONFLICT" by (rule key_kind [OF kind_conflict])
    show "?C \<Longrightarrow> fst k = CT_ORPHAN" by (rule key_kind [OF kind_orphan])
  qed
  finally show ?thesis .
qed

lemma found_gaps:
  assumes "store_ok (xp_graph x)"
  shows "(CT_GAP, r, os, es) \<in> case_key ` set (found_cases x now) \<longleftrightarrow>
    (\<exists>rule obj. rule \<in> set (xp_rules x) \<and> pl_enabled rule \<and>
       obj \<in> set (get_objects_by_type (xp_graph x) (node_type_value (pl_source_object_type rule))) \<and>
       node_is_active obj \<and> (\<forall>target. \<not> links_to (xp_graph x) now rule (nd_object_id obj) target) \<and>
       r = Some (pl_rule_id rule) \<and> os = [nd_object_id obj] \<and> es = [])"
  unfolding found_split fst_conv case_type.case
  by (auto simp: evaluate_plane_rule_def gap_key image_iff has_required_link_iff [OF assms])

lemma found_conflicts:
  assumes "store_ok (xp_graph x)"
  shows "(CT_CONFLICT, r, os, es) \<in> case_key ` set (found_cases x now) \<longleftrightarrow>
    (\<exists>i e a b. in_conflict (xp_graph x) i e a b \<and> r = None \<and> os = [nd_object_id a, nd_object_id b] \<and> es = [i])"
proof -
  have wf: "dict_wf (kg_edges (xp_graph x))" using assms by (simp add: store_ok_def edges_ok_def)
  have get: "(i, e) \<in> set (kg_edges (xp_graph x)) \<longleftrightarrow> st_get_edge (xp_graph x) i = Some e" for i e
    using wf by (simp add: st_get_edge_def dict_wf_def map_of_eq_Some_iff)
  have mem: "c \<in> set (detect_conflicts (xp_graph x) now) \<longleftrightarrow>
      (\<exists>i e a b. in_conflict (xp_graph x) i e a b \<and> c = conflict_case now i e a b)" for c
    unfolding detect_conflicts_def set_map_filter_Some Bex_def split_paired_Ex get conflict_of_Some in_conflict_def
    by blast
  have "k \<in> case_key ` set (detect_conflicts (xp_graph x) now) \<longleftrightarrow>
      (\<exists>i e a b. in_conflict (xp_graph x) i e a b \<and> k = case_key (conflict_case now i e a b))" for k
    unfolding image_iff Bex_def mem by blast
  then show ?thesis
    unfolding found_split fst_conv case_type.case by (simp add: conflict_key)
qed

lemma found_orphans:
  assumes "store_ok (xp_graph x)"
  shows "(CT_ORPHAN, r, os, es) \<in> case_key ` set (found_cases x now) \<longleftrightarrow>
    (\<exists>i obj. st_get_object (xp_graph x) i = Some obj \<and> node_is_active obj \<and>
       (\<forall>e. \<not> touches (xp_graph x) now i e) \<and> r = None \<and> os = [i] \<and> es = [])"
proof -
  let ?g = "xp_graph x"
  have nodes: "dict_wf (kg_nodes ?g)" "\<And>i n. dget (kg_nodes ?g) i = Some n \<Longrightarrow> nd_object_id n = i"
    using assms by (auto simp: store_ok_def nodes_ok_def)
  have lonely: "get_outbound_edges ?g i [] now = [] \<and> get_inbound_edges ?g i [] now = [] \<longleftrightarrow>
      (\<forall>e. \<not> touches ?g now i e)" for i
  proof -
    have "e \<in> set (incident_edges ?g ''both'' [] now i) \<longleftrightarrow> touches ?g now i e" for e
      unfolding incident_iff [OF assms] touches_def st_get_edge_def by auto
    moreover have "incident_edges ?g ''both'' [] now i =
        get_outbound_edges ?g i [] now @ get_inbound_edges ?g i [] now"
      by (simp add: incident_edges_def)
    ultimately have all: "set (get_outbound_edges ?g i [] now @ get_inbound_edges ?g i [] now) =
        {e. touches ?g now i e}"
      by auto
    have "get_outbound_edges ?g i [] now = [] \<and> get_inbound_edges ?g i [] now = [] \<longleftrightarrow>
        set (get_outbound_edges ?g i [] now @ get_inbound_edges ?g i [] now) = {}"
      by simp
    then show ?thesis unfolding all by simp
  qed
  have active: "obj \<in> set (get_active_objects ?g) \<longleftrightarrow>
      node_is_active obj \<and> st_get_object ?g (nd_object_id obj) = Some obj" for obj
    unfolding get_active_objects_def set_filter st_get_object_def mem_Collect_eq dict_wf_values [OF nodes(1)]
    using nodes(2) by metis
  have mem: "c \<in> set (detect_orphans ?g now) \<longleftrightarrow>
      (\<exists>obj. obj \<in> set (get_active_objects ?g) \<and> (\<forall>e. \<not> touches ?g now (nd_object_id obj) e) \<and>
         c = orphan_case now obj)" for c
    unfolding detect_orphans_def lonely by auto
  have keys: "k \<in> case_key ` set (detect_orphans ?g now) \<longleftrightarrow>
      (\<exists>obj. node_is_active obj \<and> st_get_object ?g (nd_object_id obj) = Some obj \<and>
         (\<forall>e. \<not> touches ?g now (nd_object_id obj) e) \<and> k = (CT_ORPHAN, None, [nd_object_id obj], []))" for k
    unfolding image_iff Bex_def mem active by (simp only: orphan_key [symmetric, of _ now]) blast
  have id: "nd_object_id obj = i" if "st_get_object ?g i = Some obj" for i obj
    using nodes(2) that by (simp add: st_get_object_def)
  show ?thesis
    unfolding found_split fst_conv case_type.case keys using id by (auto; metis)
qed

text \<open>C22: Over any store the operations can build, a reconciliation run reports exactly: a gap for every
  enabled rule and active object indexed under its source type without a valid link to a fitting
  active target, in whichever plane the object is; a conflict for every active conflicting or
  violating edge between active objects, expired or not; and an orphan for every active object
  without a valid edge.\<close>

theorem reconciliation_exact:
  assumes "st_step\<^sup>*\<^sup>* new_graph_store (xp_graph x)"
  shows "case_key ` set (fst (run_full_reconciliation fn ids now tenant x)) =
    {(CT_GAP, Some (pl_rule_id rule), [nd_object_id obj], []) | rule obj.
       rule \<in> set (xp_rules x) \<and> pl_enabled rule \<and>
       obj \<in> set (get_objects_by_type (xp_graph x) (node_type_value (pl_source_object_type rule))) \<and>
       node_is_active obj \<and> {t. links_to (xp_graph x) now rule (nd_object_id obj) t} = {}} \<union>
    {(CT_CONFLICT, None, [nd_object_id a, nd_object_id b], [i]) | i e a b. in_conflict (xp_graph x) i e a b} \<union>
    {(CT_ORPHAN, None, [i], []) | i obj.
       st_get_object (xp_graph x) i = Some obj \<and> node_is_active obj \<and> {e. touches (xp_graph x) now i e} = {}}"
proof -
  have ok: "store_ok (xp_graph x)" using st_steps_ok [OF assms store_ok_new] .
  have keys: "case_key ` set (fst (run_full_reconciliation fn ids now tenant x)) =
      case_key ` set (found_cases x now)"
    using run_keys [of fn ids now tenant x] by (metis set_map)
  have kinds: "fst k \<in> {CT_GAP, CT_CONFLICT, CT_ORPHAN}" if "k \<in> case_key ` set (found_cases x now)" for k
    using that by (cases k) (auto simp: found_split split: case_type.splits)
  show ?thesis (is "_ = ?R")
    unfolding keys
  proof (rule set_eqI)
    fix k :: "case_type \<times> string option \<times> string list \<times> string list"
    obtain ty r os es where k: "k = (ty, r, os, es)" by (cases k)
    show "k \<in> case_key ` set (found_cases x now) \<longleftrightarrow> k \<in> ?R"
    proof (cases ty)
      case CT_GAP
      then show ?thesis unfolding k using found_gaps [OF ok, of r os es now] by auto
    next
      case CT_CONFLICT
      then show ?thesis unfolding k using found_conflicts [OF ok, of r os es now] by auto
    next
      case CT_ORPHAN
      then show ?thesis unfolding k using found_orphans [OF ok, of r os es now] by auto
    qed (use kinds [of k] k in auto)
  qed
qed

definition sample_engine_xp :: cross_plane where
  "sample_engine_xp = new_cross_plane sample_store [] (new_metering_engine False)"

lemma sample_engine_graph: "xp_graph sample_engine_xp = sample_store"
  by (simp add: sample_engine_xp_def new_cross_plane_def)

theorem reconciliation_exact_witness:
  "{k \<in> case_key ` set (fst (run_full_reconciliation sample_fns (\<lambda>i. replicate i CHR ''c'') 1 ''t'' sample_engine_xp)).
      fst k = CT_ORPHAN} =
   {(CT_ORPHAN, None, [i], []) | i obj.
      st_get_object sample_store i = Some obj \<and> node_is_active obj \<and> {e. touches sample_store 1 i e} = {}}"
  using reconciliation_exact [of sample_engine_xp sample_fns "\<lambda>i. replicate i CHR ''c''" 1 "''t''",
      unfolded sample_engine_graph, OF sample_store_steps]
  by auto

section \<open>Running again\<close>

lemma commit_all:
  "distinct (map rc_case_id cs) \<Longrightarrow> set (map rc_case_id cs) \<inter> set (dkeys (xp_cases x)) = {} \<Longrightarrow>
   xp_cases (foldl (\<lambda>x c. commit_case c x) x cs) = xp_cases x @ map (\<lambda>c. (rc_case_id c, c)) cs"
proof (induction cs arbitrary: x)
  case (Cons c cs)
  have "rc_case_id c \<notin> set (dkeys (xp_cases x))" using Cons.prems(2) by (auto simp del: set_map)
  then have x: "xp_cases (commit_case c x) = xp_cases x @ [(rc_case_id c, c)]"
    by (simp add: commit_case_def dput_fresh del: set_map)
  have "xp_cases (foldl (\<lambda>x c. commit_case c x) (commit_case c x) cs) =
      xp_cases (commit_case c x) @ map (\<lambda>c. (rc_case_id c, c)) cs"
    by (rule Cons.IH) (use Cons.prems in \<open>auto simp: x\<close>)
  then show ?case by (simp add: x)
qed simp

lemma commit_all_rest:
  "xp_graph (foldl (\<lambda>x c. commit_case c x) x cs) = xp_graph x \<and>
   xp_rules (foldl (\<lambda>x c. commit_case c x) x cs) = xp_rules x"
  by (induction cs arbitrary: x) (simp_all add: commit_case_def)

lemma run_cases:
  assumes "inj ids" and "range ids \<inter> set (dkeys (xp_cases x)) = {}"
  shows "xp_cases (snd (run_full_reconciliation fn ids now tn x)) =
    xp_cases x @ map (\<lambda>c. (rc_case_id c, c)) (fst (run_full_reconciliation fn ids now tn x))"
proof -
  have ids: "map rc_case_id (draw_cases fn ids (found_cases x now)) = map ids [0..<length (found_cases x now)]"
    by (rule draw_cases_ids)
  have "distinct (map ids [0..<length (found_cases x now)])"
    using assms(1) by (simp add: distinct_map inj_on_def inj_def)
  moreover have "set (map ids [0..<length (found_cases x now)]) \<inter> set (dkeys (xp_cases x)) = {}"
    using assms(2) by auto
  ultimately show ?thesis
    using commit_all [of "draw_cases fn ids (found_cases x now)" x]
    unfolding run_full_reconciliation_def Let_def ids by simp
qed

lemma run_same_finds:
  "found_cases (snd (run_full_reconciliation fn ids now tn x)) now' = found_cases x now'"
  using commit_all_rest [of x "draw_cases fn ids (found_cases x now)"]
  by (simp add: run_full_reconciliation_def Let_def found_cases_def)

text \<open>A run does not recognise the cases of an earlier one: running twice over an unchanged graph at
  the same moment, with fresh identifiers, reports every case a second time, and the engine then
  holds all of them twice, whether or not they were still open.\<close>

theorem rerun_doubles_cases:
  assumes "inj ids" and "inj ids'" and "range ids \<inter> range ids' = {}"
  shows "let r = run_full_reconciliation fn ids now tn (new_cross_plane g rules m);
             r' = run_full_reconciliation fn ids' now tn (snd r)
         in map case_key (fst r') = map case_key (fst r) \<and>
            total_cases (snd r') = 2 * length (fst r)"
proof -
  let ?x = "new_cross_plane g rules m"
  let ?r = "run_full_reconciliation fn ids now tn ?x"
  let ?r' = "run_full_reconciliation fn ids' now tn (snd ?r)"
  have keys: "map case_key (fst ?r') = map case_key (fst ?r)"
    by (simp only: run_keys run_same_finds)
  then have len: "length (fst ?r') = length (fst ?r)" by (metis length_map)
  have c1: "xp_cases (snd ?r) = map (\<lambda>c. (rc_case_id c, c)) (fst ?r)"
    using run_cases [OF assms(1), of ?x fn now tn] by (simp add: new_cross_plane_def)
  have "set (dkeys (xp_cases (snd ?r))) \<subseteq> range ids"
  proof -
    have "dkeys (xp_cases (snd ?r)) = map rc_case_id (fst ?r)" by (simp add: c1 comp_def)
    also have "\<dots> = map ids [0..<length (found_cases ?x now)]"
      using draw_cases_ids by (simp add: run_full_reconciliation_def Let_def)
    finally show ?thesis by auto
  qed
  then have fresh: "range ids' \<inter> set (dkeys (xp_cases (snd ?r))) = {}" using assms(3) by blast
  show ?thesis
    using run_cases [OF assms(2) fresh, of fn now tn] keys
    by (simp add: Let_def total_cases_def c1 len)
qed

theorem rerun_doubles_cases_witness:
  "let r = run_full_reconciliation sample_fns (\<lambda>i. replicate i CHR ''c'') 1 ''t''
         (new_cross_plane sample_store [] (new_metering_engine False));
       r' = run_full_reconciliation sample_fns (\<lambda>i. CHR ''d'' # replicate i CHR ''d'') 1 ''t'' (snd r)
   in total_cases (snd r') = 2 * length (fst r)"
proof -
  have "inj (\<lambda>i. replicate i CHR ''c'')" "inj (\<lambda>i. CHR ''d'' # replicate i CHR ''d'')"
    by (auto simp: inj_def)
  moreover have "replicate i CHR ''c'' \<noteq> CHR ''d'' # ys" for i ys
    by (cases i) auto
  then have "range (\<lambda>i. replicate i CHR ''c'') \<inter> range (\<lambda>i. CHR ''d'' # replicate i CHR ''d'') = {}"
    by auto
  ultimately show ?thesis
    using rerun_doubles_cases [of "\<lambda>i. replicate i CHR ''c''" "\<lambda>i. CHR ''d'' # replicate i CHR ''d''"
        sample_fns 1 "''t''" sample_store "[]" "new_metering_engine False"]
    by (simp add: Let_def)
qed

end
