(* ===== verification/Access_Control.thy ===== *)
theory Access_Control
  imports Prelude
begin

text \<open>
  Role-based access, \<^verbatim>\<open>app/core/rbac/domain_types.py\<close> and \<^verbatim>\<open>access_control.py\<close>: the roles and
  their permissions, the assignments of a principal, the decision and its audit log. The set of
  permissions of a role is the list of its members in the order of the source. An empty domain
  restriction, like \<open>None\<close>, restricts nothing.
\<close>

section \<open>Roles and permissions\<close>

datatype role =
    RO_PLATFORM_ADMIN | RO_DOMAIN_OWNER | RO_POLICY_AUTHOR | RO_OPERATOR
  | RO_AUDITOR | RO_VIEWER | RO_SERVICE_ACCOUNT

fun role_value :: "role \<Rightarrow> string" where
  "role_value RO_PLATFORM_ADMIN = ''platform_admin''"
| "role_value RO_DOMAIN_OWNER = ''domain_owner''"
| "role_value RO_POLICY_AUTHOR = ''policy_author''"
| "role_value RO_OPERATOR = ''operator''"
| "role_value RO_AUDITOR = ''auditor''"
| "role_value RO_VIEWER = ''viewer''"
| "role_value RO_SERVICE_ACCOUNT = ''service_account''"

datatype permission =
    PM_OBJECT_READ | PM_OBJECT_WRITE | PM_OBJECT_DELETE | PM_GRAPH_READ | PM_GRAPH_WRITE
  | PM_CASE_READ | PM_CASE_WRITE | PM_CASE_CLOSE | PM_RULE_READ | PM_RULE_WRITE
  | PM_RULE_ACTIVATE | PM_POLICY_READ | PM_POLICY_WRITE | PM_POLICY_PUBLISH | PM_POLICY_ROLLBACK
  | PM_PACK_READ | PM_PACK_INSTALL | PM_PACK_UNINSTALL | PM_EXCEPTION_READ | PM_EXCEPTION_REQUEST
  | PM_EXCEPTION_APPROVE | PM_RELEASE_READ | PM_RELEASE_APPROVE | PM_ADMIN_USERS | PM_ADMIN_AUDIT

fun permission_value :: "permission \<Rightarrow> string" where
  "permission_value PM_OBJECT_READ = ''object:read''"
| "permission_value PM_OBJECT_WRITE = ''object:write''"
| "permission_value PM_OBJECT_DELETE = ''object:delete''"
| "permission_value PM_GRAPH_READ = ''graph:read''"
| "permission_value PM_GRAPH_WRITE = ''graph:write''"
| "permission_value PM_CASE_READ = ''case:read''"
| "permission_value PM_CASE_WRITE = ''case:write''"
| "permission_value PM_CASE_CLOSE = ''case:close''"
| "permission_value PM_RULE_READ = ''rule:read''"
| "permission_value PM_RULE_WRITE = ''rule:write''"
| "permission_value PM_RULE_ACTIVATE = ''rule:activate''"
| "permission_value PM_POLICY_READ = ''policy:read''"
| "permission_value PM_POLICY_WRITE = ''policy:write''"
| "permission_value PM_POLICY_PUBLISH = ''policy:publish''"
| "permission_value PM_POLICY_ROLLBACK = ''policy:rollback''"
| "permission_value PM_PACK_READ = ''pack:read''"
| "permission_value PM_PACK_INSTALL = ''pack:install''"
| "permission_value PM_PACK_UNINSTALL = ''pack:uninstall''"
| "permission_value PM_EXCEPTION_READ = ''exception:read''"
| "permission_value PM_EXCEPTION_REQUEST = ''exception:request''"
| "permission_value PM_EXCEPTION_APPROVE = ''exception:approve''"
| "permission_value PM_RELEASE_READ = ''release:read''"
| "permission_value PM_RELEASE_APPROVE = ''release:approve''"
| "permission_value PM_ADMIN_USERS = ''admin:users''"
| "permission_value PM_ADMIN_AUDIT = ''admin:audit''"

fun role_permissions :: "role \<Rightarrow> permission list" where
  "role_permissions RO_PLATFORM_ADMIN =
     [PM_OBJECT_READ, PM_OBJECT_WRITE, PM_OBJECT_DELETE, PM_GRAPH_READ, PM_GRAPH_WRITE,
      PM_CASE_READ, PM_CASE_WRITE, PM_CASE_CLOSE, PM_RULE_READ, PM_RULE_WRITE,
      PM_RULE_ACTIVATE, PM_POLICY_READ, PM_POLICY_WRITE, PM_POLICY_PUBLISH, PM_POLICY_ROLLBACK,
      PM_PACK_READ, PM_PACK_INSTALL, PM_PACK_UNINSTALL, PM_EXCEPTION_READ,
      PM_EXCEPTION_REQUEST, PM_EXCEPTION_APPROVE, PM_RELEASE_READ, PM_RELEASE_APPROVE,
      PM_ADMIN_USERS, PM_ADMIN_AUDIT]"
| "role_permissions RO_DOMAIN_OWNER =
     [PM_OBJECT_READ, PM_OBJECT_WRITE, PM_GRAPH_READ, PM_GRAPH_WRITE, PM_CASE_READ,
      PM_CASE_WRITE, PM_CASE_CLOSE, PM_RULE_READ, PM_RULE_WRITE, PM_RULE_ACTIVATE,
      PM_POLICY_READ, PM_POLICY_WRITE, PM_PACK_READ, PM_PACK_INSTALL, PM_EXCEPTION_READ,
      PM_EXCEPTION_REQUEST, PM_RELEASE_READ]"
| "role_permissions RO_POLICY_AUTHOR =
     [PM_POLICY_READ, PM_POLICY_WRITE, PM_RULE_READ, PM_RULE_WRITE, PM_PACK_READ, PM_CASE_READ]"
| "role_permissions RO_OPERATOR =
     [PM_OBJECT_READ, PM_GRAPH_READ, PM_CASE_READ, PM_CASE_WRITE, PM_CASE_CLOSE, PM_RULE_READ,
      PM_POLICY_READ, PM_PACK_READ, PM_EXCEPTION_READ, PM_EXCEPTION_REQUEST, PM_RELEASE_READ]"
| "role_permissions RO_AUDITOR =
     [PM_OBJECT_READ, PM_GRAPH_READ, PM_CASE_READ, PM_RULE_READ, PM_POLICY_READ, PM_PACK_READ,
      PM_EXCEPTION_READ, PM_RELEASE_READ, PM_ADMIN_AUDIT]"
| "role_permissions RO_VIEWER =
     [PM_OBJECT_READ, PM_GRAPH_READ, PM_CASE_READ, PM_RULE_READ, PM_POLICY_READ, PM_PACK_READ,
      PM_RELEASE_READ]"
| "role_permissions RO_SERVICE_ACCOUNT =
     [PM_OBJECT_READ, PM_OBJECT_WRITE, PM_GRAPH_READ, PM_GRAPH_WRITE, PM_CASE_READ,
      PM_CASE_WRITE, PM_RULE_READ, PM_RELEASE_READ]"

record role_assignment =
  ra_principal_id :: string
  ra_role :: role
  ra_domain_restriction :: "string option"
  ra_assigned_by :: string
  ra_assigned_at :: time

record access_decision =
  ad_principal_id :: string
  ad_permission :: permission
  ad_granted :: bool
  ad_role :: role
  ad_domain_restriction :: "string option"
  ad_resource :: string
  ad_decided_at :: time

section \<open>The controller\<close>

record access_controller =
  ac_assignments :: "(string, role_assignment list) dict"
  ac_audit_log :: "access_decision list"

definition new_access_controller :: access_controller where
  "new_access_controller = \<lparr>ac_assignments = [], ac_audit_log = []\<rparr>"

definition get_roles :: "access_controller \<Rightarrow> string \<Rightarrow> role_assignment list" where
  "get_roles ac principal_id = dget_default (ac_assignments ac) principal_id []"

definition assign_role ::
  "time \<Rightarrow> string \<Rightarrow> role \<Rightarrow> string option \<Rightarrow> string \<Rightarrow> access_controller \<Rightarrow> role_assignment \<times> access_controller" where
  "assign_role now principal_id role domain_restriction assigned_by ac =
     (let assignment = \<lparr>ra_principal_id = principal_id, ra_role = role,
            ra_domain_restriction = domain_restriction, ra_assigned_by = assigned_by,
            ra_assigned_at = now\<rparr>
      in (assignment, ac\<lparr>ac_assignments :=
            dput principal_id (get_roles ac principal_id @ [assignment]) (ac_assignments ac)\<rparr>))"

definition revoke_role :: "string \<Rightarrow> role \<Rightarrow> access_controller \<Rightarrow> bool \<times> access_controller" where
  "revoke_role principal_id role ac =
     (let assignments = get_roles ac principal_id;
          left = filter (\<lambda>a. ra_role a \<noteq> role) assignments
      in (length left < length assignments,
          ac\<lparr>ac_assignments := dput principal_id left (ac_assignments ac)\<rparr>))"

text \<open>The condition of the loop: the role has the permission and the domains do not clash.\<close>

definition assignment_grants :: "permission \<Rightarrow> string option \<Rightarrow> role_assignment \<Rightarrow> bool" where
  "assignment_grants permission domain a =
     (permission \<in> set (role_permissions (ra_role a)) \<and>
      \<not> (py_truthy (ra_domain_restriction a) \<and> py_truthy domain \<and> ra_domain_restriction a \<noteq> domain))"

definition check_permission ::
  "time \<Rightarrow> string \<Rightarrow> permission \<Rightarrow> string \<Rightarrow> string option \<Rightarrow> access_controller
     \<Rightarrow> access_decision \<times> access_controller" where
  "check_permission now principal_id permission resource domain ac =
     (let assignments = get_roles ac principal_id;
          decision = (case find (assignment_grants permission domain) assignments of
            Some a \<Rightarrow> \<lparr>ad_principal_id = principal_id, ad_permission = permission, ad_granted = True,
                       ad_role = ra_role a, ad_domain_restriction = ra_domain_restriction a,
                       ad_resource = resource, ad_decided_at = now\<rparr>
          | None \<Rightarrow> \<lparr>ad_principal_id = principal_id, ad_permission = permission, ad_granted = False,
                     ad_role = (case assignments of a # _ \<Rightarrow> ra_role a | [] \<Rightarrow> RO_VIEWER),
                     ad_domain_restriction = None, ad_resource = resource, ad_decided_at = now\<rparr>)
      in (decision, ac\<lparr>ac_audit_log := ac_audit_log ac @ [decision]\<rparr>))"

fun check_any_loop ::
  "time \<Rightarrow> string \<Rightarrow> permission list \<Rightarrow> string \<Rightarrow> string option \<Rightarrow> access_controller
     \<Rightarrow> access_decision option \<times> access_controller" where
  "check_any_loop now principal_id [] resource domain ac = (None, ac)"
| "check_any_loop now principal_id (p # ps) resource domain ac =
     (case check_permission now principal_id p resource domain ac of
        (decision, ac) \<Rightarrow>
          if ad_granted decision then (Some decision, ac)
          else check_any_loop now principal_id ps resource domain ac)"

definition check_any_permission ::
  "time \<Rightarrow> string \<Rightarrow> permission list \<Rightarrow> string \<Rightarrow> string option \<Rightarrow> access_controller
     \<Rightarrow> access_decision \<times> access_controller" where
  "check_any_permission now principal_id permissions resource domain ac =
     (case check_any_loop now principal_id permissions resource domain ac of
        (Some decision, ac) \<Rightarrow> (decision, ac)
      | (None, ac) \<Rightarrow>
          (\<lparr>ad_principal_id = principal_id,
            ad_permission = (case permissions of p # _ \<Rightarrow> p | [] \<Rightarrow> PM_OBJECT_READ),
            ad_granted = False, ad_role = RO_VIEWER, ad_domain_restriction = None,
            ad_resource = resource, ad_decided_at = now\<rparr>, ac))"

definition access_audit_log :: "access_controller \<Rightarrow> string option \<Rightarrow> access_decision list" where
  "access_audit_log ac principal_id = filter_str principal_id ad_principal_id (ac_audit_log ac)"

definition list_principals :: "access_controller \<Rightarrow> string list" where
  "list_principals ac = dkeys (ac_assignments ac)"

definition get_permission_matrix :: "(string \<times> string list) list" where
  "get_permission_matrix =
     map (\<lambda>r. (role_value r, map permission_value (role_permissions r)))
       [RO_PLATFORM_ADMIN, RO_DOMAIN_OWNER, RO_POLICY_AUTHOR, RO_OPERATOR, RO_AUDITOR, RO_VIEWER,
        RO_SERVICE_ACCOUNT]"

section \<open>Who is let in\<close>

text \<open>A history of the controller, and the assignments of a principal that it leaves in force.\<close>

datatype access_op =
    Op_Assign time string role "string option" string
  | Op_Revoke string role
  | Op_Check time string permission string "string option"

fun access_step :: "access_op \<Rightarrow> access_controller \<Rightarrow> access_controller" where
  "access_step (Op_Assign now who r dm adm) ac = snd (assign_role now who r dm adm ac)"
| "access_step (Op_Revoke who r) ac = snd (revoke_role who r ac)"
| "access_step (Op_Check now who p resource dm) ac = snd (check_permission now who p resource dm ac)"

definition access_run :: "access_op list \<Rightarrow> access_controller" where
  "access_run ops = foldl (\<lambda>ac op. access_step op ac) new_access_controller ops"

definition in_force :: "access_op list \<Rightarrow> string \<Rightarrow> role \<Rightarrow> string option \<Rightarrow> bool" where
  "in_force ops who r dm \<longleftrightarrow>
     (\<exists>before now adm after. ops = before @ Op_Assign now who r dm adm # after \<and> Op_Revoke who r \<notin> set after)"

lemma access_run_snoc: "access_run (ops @ [op]) = access_step op (access_run ops)"
  by (simp add: access_run_def)

lemma in_force_Nil [simp]: "\<not> in_force [] who r dm"
  by (simp add: in_force_def)

lemma in_force_snoc:
  "in_force (ops @ [op]) who r dm \<longleftrightarrow>
     (\<exists>now adm. op = Op_Assign now who r dm adm) \<or> (in_force ops who r dm \<and> op \<noteq> Op_Revoke who r)"
proof
  assume "in_force (ops @ [op]) who r dm"
  then obtain before now adm after where
    *: "ops @ [op] = before @ Op_Assign now who r dm adm # after" "Op_Revoke who r \<notin> set after"
    unfolding in_force_def by blast
  show "(\<exists>now adm. op = Op_Assign now who r dm adm) \<or> (in_force ops who r dm \<and> op \<noteq> Op_Revoke who r)"
  proof (cases after rule: rev_cases)
    case Nil
    with * show ?thesis by simp
  next
    case (snoc after' x)
    with * have "ops = before @ Op_Assign now who r dm adm # after'" "op = x" by simp_all
    with * snoc show ?thesis unfolding in_force_def by auto
  qed
next
  assume "(\<exists>now adm. op = Op_Assign now who r dm adm) \<or> (in_force ops who r dm \<and> op \<noteq> Op_Revoke who r)"
  then show "in_force (ops @ [op]) who r dm"
  proof
    assume "\<exists>now adm. op = Op_Assign now who r dm adm"
    then obtain now adm where "op = Op_Assign now who r dm adm" by blast
    then show ?thesis unfolding in_force_def by (intro exI [of _ ops] exI [of _ now] exI [of _ adm] exI [of _ "[]"]) simp
  next
    assume "in_force ops who r dm \<and> op \<noteq> Op_Revoke who r"
    then obtain before now adm after where
      "ops = before @ Op_Assign now who r dm adm # after" "Op_Revoke who r \<notin> set after" "op \<noteq> Op_Revoke who r"
      unfolding in_force_def by blast
    then show ?thesis unfolding in_force_def
      by (intro exI [of _ before] exI [of _ now] exI [of _ adm] exI [of _ "after @ [op]"]) simp
  qed
qed

lemma roles_after:
  "get_roles (access_step op ac) who =
     (case op of
        Op_Assign now w r dm adm \<Rightarrow>
          if w = who then get_roles ac who @ [\<lparr>ra_principal_id = who, ra_role = r,
            ra_domain_restriction = dm, ra_assigned_by = adm, ra_assigned_at = now\<rparr>] else get_roles ac who
      | Op_Revoke w r \<Rightarrow> if w = who then filter (\<lambda>a. ra_role a \<noteq> r) (get_roles ac who) else get_roles ac who
      | Op_Check _ _ _ _ _ \<Rightarrow> get_roles ac who)"
  by (cases op) (auto simp: assign_role_def revoke_role_def check_permission_def get_roles_def
      dget_default_def Let_def)

lemma roles_in_force:
  "(\<exists>a\<in>set (get_roles (access_run ops) who). ra_role a = r \<and> ra_domain_restriction a = dm) \<longleftrightarrow>
     in_force ops who r dm"
proof (induction ops rule: rev_induct)
  case Nil
  then show ?case by (simp add: access_run_def new_access_controller_def get_roles_def dget_default_def)
next
  case (snoc op ops)
  show ?case
    unfolding access_run_snoc roles_after in_force_snoc snoc.IH [symmetric]
    by (cases op) auto
qed

lemma check_granted:
  "ad_granted (fst (check_permission now who p resource dm ac)) \<longleftrightarrow>
     (\<exists>a\<in>set (get_roles ac who). assignment_grants p dm a)"
  by (auto simp: check_permission_def Let_def find_None_iff find_Some_iff split: option.splits)

text \<open>C31: After any history of assignments, revocations and checks, a check is granted exactly when some
  role assigned to the principal, and not revoked since, carries the permission and is restricted to
  no domain or to the domain asked about. A check that names no domain passes every restriction.
  Every check leaves its decision at the end of the audit log, and changes no assignment.\<close>

theorem access_follows_history:
  "let d = fst (check_permission now who p resource dm (access_run ops));
       ac = snd (check_permission now who p resource dm (access_run ops)) in
   (ad_granted d \<longleftrightarrow>
      (\<exists>r rd. in_force ops who r rd \<and> p \<in> set (role_permissions r) \<and>
         (if py_truthy rd \<and> py_truthy dm then rd = dm else True))) \<and>
   ac_audit_log ac = ac_audit_log (access_run ops) @ [d] \<and>
   ac_assignments ac = ac_assignments (access_run ops)"
proof -
  have "ad_granted (fst (check_permission now who p resource dm (access_run ops))) \<longleftrightarrow>
      (\<exists>r rd. in_force ops who r rd \<and> p \<in> set (role_permissions r) \<and>
         (if py_truthy rd \<and> py_truthy dm then rd = dm else True))"
    unfolding check_granted roles_in_force [symmetric] by (auto simp: assignment_grants_def)
  then show ?thesis by (simp add: Let_def check_permission_def)
qed

text \<open>Only the platform administrator may approve an exception or a release, or publish a policy.\<close>

lemma approvals_are_for_admins:
  "p \<in> {PM_EXCEPTION_APPROVE, PM_RELEASE_APPROVE, PM_POLICY_PUBLISH} \<Longrightarrow>
     p \<in> set (role_permissions r) \<longleftrightarrow> r = RO_PLATFORM_ADMIN"
  by (cases r) auto

end
