(* ===== verification/Data_Governance.thy ===== *)
theory Data_Governance
  imports Platform_Chain Py_Float
begin

text \<open>
  Data governance, \<^verbatim>\<open>app/core/data_governance/classification.py\<close> and \<^verbatim>\<open>manager.py\<close>: classification
  records, legal holds and redaction for export. The record of a classification is kept under the
  text \<open>type:id\<close>; two pairs with the same text share it. A drawn identifier and the clock are
  arguments; \<open>pf_sha\<close> and \<open>pf_iso\<close> are the hash and the time format.
\<close>

section \<open>Types\<close>

datatype classification_level = CL_PUBLIC | CL_INTERNAL | CL_CONFIDENTIAL | CL_RESTRICTED

fun level_value :: "classification_level \<Rightarrow> string" where
  "level_value CL_PUBLIC = ''public''"
| "level_value CL_INTERNAL = ''internal''"
| "level_value CL_CONFIDENTIAL = ''confidential''"
| "level_value CL_RESTRICTED = ''restricted''"

fun level_upper :: "classification_level \<Rightarrow> string" where
  "level_upper CL_PUBLIC = ''PUBLIC''"
| "level_upper CL_INTERNAL = ''INTERNAL''"
| "level_upper CL_CONFIDENTIAL = ''CONFIDENTIAL''"
| "level_upper CL_RESTRICTED = ''RESTRICTED''"

definition level_str :: "classification_level \<Rightarrow> string" where
  "level_str l = ''ClassificationLevel.'' @ level_upper l"

datatype data_category =
    DC_EVIDENCE | DC_AUDIT_LOG | DC_GOVERNANCE_OBJECT | DC_EXCEPTION_RECORD | DC_USER_DATA
  | DC_CONFIGURATION

record classification_record =
  cn_record_id :: string
  cn_entity_type :: string
  cn_entity_id :: string
  cn_classification :: classification_level
  cn_data_category :: data_category
  cn_sensitivity_reason :: string
  cn_classified_by :: string
  cn_tenant_id :: string
  cn_classified_at :: time
  cn_review_due :: "string option"
  cn_record_hash :: string

record legal_hold =
  lh_hold_id :: string
  lh_hold_name :: string
  lh_description :: string
  lh_entity_ids :: "string list"
  lh_entity_types :: "string list"
  lh_placed_by :: string
  lh_legal_contact :: string
  lh_tenant_id :: string
  lh_placed_at :: time
  lh_released_at :: "time option"
  lh_released_by :: "string option"
  lh_is_active :: bool
  lh_hold_hash :: string

fun default_classification :: "data_category \<Rightarrow> classification_level" where
  "default_classification DC_EVIDENCE = CL_CONFIDENTIAL"
| "default_classification DC_AUDIT_LOG = CL_INTERNAL"
| "default_classification DC_GOVERNANCE_OBJECT = CL_INTERNAL"
| "default_classification DC_EXCEPTION_RECORD = CL_CONFIDENTIAL"
| "default_classification DC_USER_DATA = CL_RESTRICTED"
| "default_classification DC_CONFIGURATION = CL_INTERNAL"

fun redaction_rules :: "classification_level \<Rightarrow> string list" where
  "redaction_rules CL_RESTRICTED =
     [''email'', ''phone'', ''address'', ''passport'', ''ssn'', ''health_data'',
      ''legal_matter_id'', ''salary'', ''itar_controlled'', ''ear_controlled'']"
| "redaction_rules CL_CONFIDENTIAL = [''email'', ''personal_identifier'', ''client_name'']"
| "redaction_rules CL_INTERNAL = []"
| "redaction_rules CL_PUBLIC = []"

section \<open>The manager\<close>

record data_governance =
  dg_classifications :: "(string, classification_record) dict"
  dg_holds :: "(string, legal_hold) dict"
  dg_held_entities :: "string list"

definition new_data_governance :: data_governance where
  "new_data_governance = \<lparr>dg_classifications = [], dg_holds = [], dg_held_entities = []\<rparr>"

definition entity_key :: "string \<Rightarrow> string \<Rightarrow> string" where
  "entity_key entity_type entity_id = entity_type @ '':'' @ entity_id"

definition classify ::
  "platform_fns \<Rightarrow> string \<Rightarrow> time \<Rightarrow> string \<Rightarrow> string \<Rightarrow> classification_level \<Rightarrow> data_category \<Rightarrow> string
     \<Rightarrow> string \<Rightarrow> string \<Rightarrow> string option \<Rightarrow> data_governance \<Rightarrow> classification_record \<times> data_governance" where
  "classify fn record_id now entity_type entity_id level category classified_by tenant_id reason review_due dg =
     (let r = \<lparr>cn_record_id = record_id, cn_entity_type = entity_type, cn_entity_id = entity_id,
            cn_classification = level, cn_data_category = category,
            cn_sensitivity_reason =
              (if reason \<noteq> [] then reason else ''Classified as '' @ level_value level),
            cn_classified_by = classified_by, cn_tenant_id = tenant_id, cn_classified_at = now,
            cn_review_due = review_due,
            cn_record_hash = take 16 (pf_sha fn (entity_id @ level_str level @ pf_iso fn now))\<rparr>
      in (r, dg\<lparr>dg_classifications := dput (entity_key entity_type entity_id) r (dg_classifications dg)\<rparr>))"

definition get_classification :: "data_governance \<Rightarrow> string \<Rightarrow> string \<Rightarrow> classification_record option" where
  "get_classification dg entity_type entity_id = dget (dg_classifications dg) (entity_key entity_type entity_id)"

text \<open>The comprehension classifies the entities one after the other, each with its own draw.\<close>

fun bulk_classify ::
  "platform_fns \<Rightarrow> (string \<times> time) list \<Rightarrow> string list \<Rightarrow> string \<Rightarrow> classification_level \<Rightarrow> data_category
     \<Rightarrow> string \<Rightarrow> string \<Rightarrow> data_governance \<Rightarrow> classification_record list \<times> data_governance" where
  "bulk_classify fn ((record_id, now) # draws) (eid # eids) entity_type level category by_whom tenant_id dg =
     (let (r, dg) = classify fn record_id now entity_type eid level category by_whom tenant_id [] None dg;
          (rs, dg) = bulk_classify fn draws eids entity_type level category by_whom tenant_id dg
      in (r # rs, dg))"
| "bulk_classify fn draws eids entity_type level category by_whom tenant_id dg = ([], dg)"

definition get_all_classifications :: "data_governance \<Rightarrow> string option \<Rightarrow> classification_record list" where
  "get_all_classifications dg tenant_id = filter_str tenant_id cn_tenant_id (dvalues (dg_classifications dg))"

definition add_held :: "string list \<Rightarrow> string list \<Rightarrow> string list" where
  "add_held held ids = held @ filter (\<lambda>i. i \<notin> set held) (remdups ids)"

definition place_hold ::
  "platform_fns \<Rightarrow> string \<Rightarrow> time \<Rightarrow> string \<Rightarrow> string \<Rightarrow> string list \<Rightarrow> string list \<Rightarrow> string \<Rightarrow> string
     \<Rightarrow> string \<Rightarrow> data_governance \<Rightarrow> legal_hold \<times> data_governance" where
  "place_hold fn hold_id now hold_name description entity_ids entity_types placed_by legal_contact tenant_id dg =
     (let hold = \<lparr>lh_hold_id = hold_id, lh_hold_name = hold_name, lh_description = description,
            lh_entity_ids = entity_ids, lh_entity_types = entity_types, lh_placed_by = placed_by,
            lh_legal_contact = legal_contact, lh_tenant_id = tenant_id, lh_placed_at = now,
            lh_released_at = None, lh_released_by = None, lh_is_active = True,
            lh_hold_hash = take 16 (pf_sha fn (hold_id @ placed_by @ pf_iso fn now))\<rparr>
      in (hold, dg\<lparr>dg_holds := dput hold_id hold (dg_holds dg),
                   dg_held_entities := add_held (dg_held_entities dg) entity_ids\<rparr>))"

text \<open>Both refusals of \<open>release_hold\<close> are a \<open>ValueError\<close> with the hold in its text.\<close>

definition release_hold ::
  "time \<Rightarrow> string \<Rightarrow> string \<Rightarrow> data_governance \<Rightarrow> (fstr, data_governance, legal_hold) res" where
  "release_hold now hold_id released_by dg =
     (case dget (dg_holds dg) hold_id of
        None \<Rightarrow> (Inl [Lit ''Legal hold '', Lit hold_id, Lit '' not found''], dg)
      | Some hold \<Rightarrow>
          if \<not> lh_is_active hold
          then (Inl [Lit ''Hold '', Lit hold_id, Lit '' is already released''], dg)
          else
            let hold = hold\<lparr>lh_is_active := False, lh_released_at := Some now,
                            lh_released_by := Some released_by\<rparr>;
                holds = dput hold_id hold (dg_holds dg);
                active_held = concat (map lh_entity_ids (filter lh_is_active (dvalues holds)))
            in (Inr hold, dg\<lparr>dg_holds := holds, dg_held_entities := remdups active_held\<rparr>))"

definition is_on_hold :: "data_governance \<Rightarrow> string \<Rightarrow> bool" where
  "is_on_hold dg entity_id = (entity_id \<in> set (dg_held_entities dg))"

definition holds_on :: "data_governance \<Rightarrow> string \<Rightarrow> string list" where
  "holds_on dg entity_id =
     map lh_hold_name (filter (\<lambda>h. lh_is_active h \<and> entity_id \<in> set (lh_entity_ids h)) (dvalues (dg_holds dg)))"

definition can_delete :: "data_governance \<Rightarrow> string \<Rightarrow> bool \<times> fstr" where
  "can_delete dg entity_id =
     (if is_on_hold dg entity_id
      then (False, [Lit ''Entity is under legal hold: '', Lit (comma_join (holds_on dg entity_id))])
      else (True, [Lit ''No legal hold '', Lit [CHR 0xE2, CHR 0x80, CHR 0x94],
                   Lit '' deletion permitted by retention policy'']))"

definition get_active_holds :: "data_governance \<Rightarrow> string option \<Rightarrow> legal_hold list" where
  "get_active_holds dg tenant_id = filter_str tenant_id lh_tenant_id (filter lh_is_active (dvalues (dg_holds dg)))"

text \<open>The em dash of the redaction text is its UTF-8 encoding.\<close>

definition redacted_text :: "classification_level \<Rightarrow> json" where
  "redacted_text level = JStr (''[REDACTED '' @ [CHR 0xE2, CHR 0x80, CHR 0x94] @ '' '' @ level_upper level @ '']'')"

definition redact_for_export ::
  "(string, json) dict \<Rightarrow> classification_level \<Rightarrow> string \<Rightarrow> (string, json) dict" where
  "redact_for_export data level requesting_role =
     (if requesting_role = ''platform_admin'' then data
      else if redaction_rules level = [] then data
      else foldl (\<lambda>redacted fld. if fld \<in> set (dkeys redacted) then dput fld (redacted_text level) redacted
                                 else redacted) data (redaction_rules level))"

text \<open>The \<open>entity_id\<close> of an exported record is formatted into the key of its classification.\<close>

definition record_entity :: "(string, json) dict \<Rightarrow> string" where
  "record_entity r = (case dget r ''entity_id'' of None \<Rightarrow> [] | Some j \<Rightarrow> py_str j)"

definition redact_audit_export ::
  "data_governance \<Rightarrow> (string, json) dict list \<Rightarrow> string \<Rightarrow> (string, json) dict list" where
  "redact_audit_export dg records requesting_role =
     map (\<lambda>r. redact_for_export r
            (case get_classification dg ''audit_log'' (record_entity r) of
               Some c \<Rightarrow> cn_classification c | None \<Rightarrow> CL_INTERNAL) requesting_role) records"

definition governance_summary :: "data_governance \<Rightarrow> string \<Rightarrow> nat \<times> (string, nat) dict \<times> nat \<times> nat" where
  "governance_summary dg tenant_id =
     (let all_records = get_all_classifications dg (Some tenant_id);
          by_level = foldl (\<lambda>d r. let k = level_value (cn_classification r)
                                  in dput k (dget_default d k 0 + 1) d) [] all_records
      in (length all_records, by_level, length (get_active_holds dg (Some tenant_id)),
          length (dg_held_entities dg)))"

section \<open>What a legal hold prevents\<close>

inductive dg_step :: "platform_fns \<Rightarrow> data_governance \<Rightarrow> data_governance \<Rightarrow> bool" for fn where
  dg_classify: "dg_step fn dg (snd (classify fn rid now ty i level cat who tn reason due dg))"
| dg_place: "dget (dg_holds dg) hid = None \<Longrightarrow>
    dg_step fn dg (snd (place_hold fn hid now nm desc ids tys who contact tn dg))"
| dg_release: "dg_step fn dg (snd (release_hold now hid who dg))"

definition held_under :: "data_governance \<Rightarrow> string \<Rightarrow> legal_hold \<Rightarrow> bool" where
  "held_under dg i h \<longleftrightarrow> dget (dg_holds dg) (lh_hold_id h) = Some h \<and> lh_is_active h \<and> i \<in> set (lh_entity_ids h)"

definition governance_ok :: "data_governance \<Rightarrow> bool" where
  "governance_ok dg \<longleftrightarrow> dict_wf (dg_holds dg) \<and>
     (\<forall>k h. dget (dg_holds dg) k = Some h \<longrightarrow> lh_hold_id h = k) \<and>
     (\<forall>i. is_on_hold dg i \<longleftrightarrow> (\<exists>h. held_under dg i h))"

lemma governance_ok_new: "governance_ok new_data_governance"
  by (simp add: governance_ok_def new_data_governance_def is_on_hold_def held_under_def)

lemma set_add_held [simp]: "set (add_held xs ys) = set xs \<union> set ys"
  by (auto simp: add_held_def)

lemma governance_ok_place:
  assumes ok: "governance_ok dg" and fresh: "dget (dg_holds dg) hid = None"
  shows "governance_ok (snd (place_hold fn hid now nm desc ids tys who contact tn dg))"
proof -
  let ?dg = "snd (place_hold fn hid now nm desc ids tys who contact tn dg)"
  obtain h where h: "dg_holds ?dg = dput hid h (dg_holds dg)" "lh_hold_id h = hid" "lh_is_active h"
    "lh_entity_ids h = ids" "set (dg_held_entities ?dg) = set (dg_held_entities dg) \<union> set ids"
    by (simp add: place_hold_def Let_def)
  have "is_on_hold ?dg i \<longleftrightarrow> (\<exists>h. held_under ?dg i h)" for i
  proof -
    have "held_under ?dg i k \<longleftrightarrow> (if lh_hold_id k = hid then k = h \<and> i \<in> set ids else held_under dg i k)" for k
      using h(2-4) by (auto simp: held_under_def h(1))
    moreover have "lh_hold_id k \<noteq> hid" if "held_under dg i k" for k
      using that fresh by (auto simp: held_under_def)
    ultimately have "(\<exists>h. held_under ?dg i h) \<longleftrightarrow> (\<exists>h. held_under dg i h) \<or> i \<in> set ids"
      using h(2) by metis
    then show ?thesis using ok h(5) by (auto simp: governance_ok_def is_on_hold_def)
  qed
  with ok h show ?thesis by (auto simp: governance_ok_def)
qed

lemma governance_ok_release:
  assumes ok: "governance_ok dg"
  shows "governance_ok (snd (release_hold now hid who dg))"
proof (cases "\<exists>h. dget (dg_holds dg) hid = Some h \<and> lh_is_active h")
  case False
  then have "snd (release_hold now hid who dg) = dg"
    by (auto simp: release_hold_def split: option.split)
  with ok show ?thesis by simp
next
  case True
  let ?dg = "snd (release_hold now hid who dg)"
  obtain h h' where h: "dget (dg_holds dg) hid = Some h" "dg_holds ?dg = dput hid h' (dg_holds dg)"
    "lh_hold_id h' = lh_hold_id h" "\<not> lh_is_active h'"
    "set (dg_held_entities ?dg) = set (concat (map lh_entity_ids (filter lh_is_active (dvalues (dg_holds ?dg)))))"
    using True by (auto simp: release_hold_def Let_def)
  have wf: "dict_wf (dg_holds ?dg)" and id: "\<forall>k h. dget (dg_holds ?dg) k = Some h \<longrightarrow> lh_hold_id h = k"
    using ok h(1-3) by (auto simp: governance_ok_def h(2))
  have "is_on_hold ?dg i \<longleftrightarrow> (\<exists>h\<in>set (dvalues (dg_holds ?dg)). lh_is_active h \<and> i \<in> set (lh_entity_ids h))" for i
    unfolding is_on_hold_def h(5) by auto
  then have "is_on_hold ?dg i \<longleftrightarrow> (\<exists>h. held_under ?dg i h)" for i
    unfolding held_under_def using id dict_wf_values [OF wf] by metis
  with wf id show ?thesis by (simp add: governance_ok_def)
qed

lemma governance_ok_cong:
  assumes "dg_holds dg' = dg_holds dg" and "dg_held_entities dg' = dg_held_entities dg"
  shows "governance_ok dg' = governance_ok dg"
  unfolding governance_ok_def is_on_hold_def held_under_def assms ..

lemma dg_steps_ok: "(dg_step fn)\<^sup>*\<^sup>* dg dg' \<Longrightarrow> governance_ok dg \<Longrightarrow> governance_ok dg'"
proof (induction rule: rtranclp_induct)
  case (step a b)
  from step(2) show ?case
  proof cases
    case (dg_classify rid now ty i level cat who tn reason due)
    then have "governance_ok b = governance_ok a"
      by (intro governance_ok_cong) (simp_all add: classify_def Let_def)
    with step show ?thesis by simp
  next
    case dg_place
    with step governance_ok_place show ?thesis by blast
  next
    case dg_release
    with step governance_ok_release show ?thesis by blast
  qed
qed


definition sample_hold_fns :: platform_fns where
  "sample_hold_fns = \<lparr>pf_sha = (\<lambda>s. ''#'' @ s), pf_iso = (\<lambda>t. replicate t (CHR ''i'')),
     pf_render = (\<lambda>_. []), pf_list = concat\<rparr>"

definition sample_holds :: data_governance where
  "sample_holds = snd (release_hold 3 ''h1'' ''ann''
     (snd (place_hold sample_hold_fns ''h2'' 2 ''audit'' [] [''e1''] [] ''bob'' ''law'' ''t''
       (snd (place_hold sample_hold_fns ''h1'' 1 ''case'' [] [''e1'', ''e2''] [] ''bob'' ''law'' ''t''
         new_data_governance)))))"


text \<open>An export masks, for everyone but the platform administrator, exactly the top-level fields that
  the rules of its classification list, and changes no other field and not the order; a listed field
  nested in a value is exported as it is.\<close>

theorem redaction_exact:
  "dkeys (redact_for_export data level requester) = dkeys data \<and>
   dget (redact_for_export data level requester) k =
     (if requester \<noteq> ''platform_admin'' \<and> k \<in> set (redaction_rules level) \<and> k \<in> set (dkeys data)
      then Some (redacted_text level) else dget data k)"
proof -
  have fold: "dkeys (foldl (\<lambda>d f. if f \<in> set (dkeys d) then dput f v d else d) data fs) = dkeys data \<and>
      dget (foldl (\<lambda>d f. if f \<in> set (dkeys d) then dput f v d else d) data fs) k =
        (if k \<in> set fs \<and> k \<in> set (dkeys data) then Some v else dget data k)" for v fs
    by (induction fs arbitrary: data) (auto simp: dkeys_dput simp del: set_map)
  show ?thesis using fold by (auto simp: redact_for_export_def simp del: set_map)
qed

end
