(* ===== verification/Policy_Admin.thy ===== *)
theory Policy_Admin
  imports Py_Float
begin

text \<open>
  Policy administration, \<^verbatim>\<open>app/core/policy_admin/domain_types.py\<close> and \<^verbatim>\<open>manager.py\<close>: the lifecycle of
  a policy, its simulation and the conflicts that keep two policies from being published together.
  The drawn identifier and the clock are arguments. A raise is a \<open>ValueError\<close> with its text. The
  sets a conflict reports are lists in the order of the policy under test; the comparison of a
  simulation multiplies the sample size by one half, which is exact.
\<close>

section \<open>Types\<close>

datatype policy_status = PS_DRAFT | PS_SIMULATING | PS_PUBLISHED | PS_ROLLED_BACK | PS_ARCHIVED

fun policy_status_value :: "policy_status \<Rightarrow> string" where
  "policy_status_value PS_DRAFT = ''draft''"
| "policy_status_value PS_SIMULATING = ''simulating''"
| "policy_status_value PS_PUBLISHED = ''published''"
| "policy_status_value PS_ROLLED_BACK = ''rolled_back''"
| "policy_status_value PS_ARCHIVED = ''archived''"

record policy_definition =
  pd_policy_id :: string
  pd_policy_name :: string
  pd_description :: string
  pd_status :: policy_status
  pd_rules :: "string list"
  pd_target_packs :: "string list"
  pd_created_by :: string
  pd_created_at :: time
  pd_published_at :: "time option"
  pd_version :: int

record policy_simulation =
  si_policy_id :: string
  si_simulated_at :: time
  si_cases_evaluated :: int
  si_cases_affected :: int
  si_false_positives :: int
  si_impact_summary :: fstr
  si_safe_to_publish :: bool

record policy_conflict =
  pf_policy_a :: string
  pf_policy_b :: string
  pf_conflict_type :: string
  pf_overlap :: "string list"
  pf_rule_overlap :: "string list"

record history_entry =
  hy_action :: string
  hy_policy_id :: string
  hy_actor :: string
  hy_timestamp :: time

record policy_manager =
  pa_policies :: "(string, policy_definition) dict"
  pa_simulations :: "(string, policy_simulation) dict"
  pa_history :: "history_entry list"

definition new_policy_manager :: policy_manager where
  "new_policy_manager = \<lparr>pa_policies = [], pa_simulations = [], pa_history = []\<rparr>"

section \<open>Operations\<close>

type_synonym 'a pa_result = "(fstr, policy_manager, 'a) res"

definition pa_record :: "time \<Rightarrow> string \<Rightarrow> string \<Rightarrow> string \<Rightarrow> policy_manager \<Rightarrow> policy_manager" where
  "pa_record now action policy_id actor m =
     m\<lparr>pa_history := pa_history m @ [\<lparr>hy_action = action, hy_policy_id = policy_id, hy_actor = actor,
                                    hy_timestamp = now\<rparr>]\<rparr>"

definition pa_put :: "policy_definition \<Rightarrow> policy_manager \<Rightarrow> policy_manager" where
  "pa_put p m = m\<lparr>pa_policies := dput (pd_policy_id p) p (pa_policies m)\<rparr>"

definition get_policy :: "policy_manager \<Rightarrow> string \<Rightarrow> policy_definition option" where
  "get_policy m policy_id = dget (pa_policies m) policy_id"

definition policy_not_found :: "string \<Rightarrow> fstr" where
  "policy_not_found policy_id = [Lit ''Policy not found: '', Lit policy_id]"

definition create_draft ::
  "string \<Rightarrow> time \<Rightarrow> string \<Rightarrow> string \<Rightarrow> string list option \<Rightarrow> string list option \<Rightarrow> string
     \<Rightarrow> policy_manager \<Rightarrow> policy_definition \<times> policy_manager" where
  "create_draft fresh now policy_name description rules target_packs created_by m =
     (let p = \<lparr>pd_policy_id = fresh, pd_policy_name = policy_name, pd_description = description,
            pd_status = PS_DRAFT, pd_rules = (case rules of Some r \<Rightarrow> r | None \<Rightarrow> []),
            pd_target_packs = (case target_packs of Some t \<Rightarrow> t | None \<Rightarrow> []),
            pd_created_by = created_by, pd_created_at = now, pd_published_at = None, pd_version = 1\<rparr>
      in (p, pa_record now ''create_draft'' fresh created_by (pa_put p m)))"

definition simulate_policy :: "time \<Rightarrow> string \<Rightarrow> int \<Rightarrow> policy_manager \<Rightarrow> policy_simulation pa_result" where
  "simulate_policy now policy_id sample_size m =
     (case get_policy m policy_id of
        None \<Rightarrow> (Inl (policy_not_found policy_id), m)
      | Some p \<Rightarrow>
          if pd_status p \<notin> {PS_DRAFT, PS_PUBLISHED}
          then (Inl [Lit ''Cannot simulate policy in state: '', Lit (policy_status_value (pd_status p))], m)
          else
            let affected = min (int (length (pd_rules p)) * 3) sample_size;
                result = \<lparr>si_policy_id = policy_id, si_simulated_at = now,
                  si_cases_evaluated = sample_size, si_cases_affected = affected,
                  si_false_positives = max 0 (affected div 10),
                  si_impact_summary = [NumI affected, Lit ''/'', NumI sample_size,
                    Lit '' cases affected by '', NumI (int (length (pd_rules p))), Lit '' rules''],
                  si_safe_to_publish = (2 * affected < sample_size)\<rparr>;
                m = m\<lparr>pa_simulations := dput policy_id result (pa_simulations m)\<rparr>;
                m = pa_put (p\<lparr>pd_status := PS_DRAFT\<rparr>) m
            in (Inr result, pa_record now ''simulate'' policy_id ''system'' m))"

definition conflicts_with :: "policy_definition \<Rightarrow> policy_definition \<Rightarrow> policy_conflict list" where
  "conflicts_with p other =
     (let overlap = filter (\<lambda>x. x \<in> set (pd_target_packs other)) (remdups (pd_target_packs p));
          rule_overlap = filter (\<lambda>x. x \<in> set (pd_rules other)) (remdups (pd_rules p))
      in if pd_policy_id other = pd_policy_id p \<or> pd_status other \<noteq> PS_PUBLISHED
            \<or> overlap = [] \<or> rule_overlap = [] then []
         else [\<lparr>pf_policy_a = pd_policy_id p, pf_policy_b = pd_policy_id other,
                pf_conflict_type = ''rule_overlap'', pf_overlap = overlap,
                pf_rule_overlap = rule_overlap\<rparr>])"

definition pa_detect_conflicts :: "policy_manager \<Rightarrow> string \<Rightarrow> fstr + policy_conflict list" where
  "pa_detect_conflicts m policy_id =
     (case get_policy m policy_id of
        None \<Rightarrow> Inl (policy_not_found policy_id)
      | Some p \<Rightarrow> Inr (concat (map (conflicts_with p) (dvalues (pa_policies m)))))"

definition publish :: "time \<Rightarrow> string \<Rightarrow> string \<Rightarrow> policy_manager \<Rightarrow> policy_definition pa_result" where
  "publish now policy_id published_by m =
     (case get_policy m policy_id of
        None \<Rightarrow> (Inl (policy_not_found policy_id), m)
      | Some p \<Rightarrow>
          if pd_status p \<noteq> PS_DRAFT
          then (Inl [Lit ''Can only publish from draft state, current: '',
                     Lit (policy_status_value (pd_status p))], m)
          else
            (case pa_detect_conflicts m policy_id of
               Inl e \<Rightarrow> (Inl e, m)
             | Inr conflicts \<Rightarrow>
                 if conflicts \<noteq> []
                 then (Inl [Lit ''Cannot publish: '', NumI (int (length conflicts)),
                            Lit '' conflict(s) detected with existing policies''], m)
                 else
                   let p = p\<lparr>pd_status := PS_PUBLISHED, pd_published_at := Some now\<rparr>
                   in (Inr p, pa_record now ''publish'' policy_id published_by (pa_put p m))))"

definition rollback :: "time \<Rightarrow> string \<Rightarrow> string \<Rightarrow> policy_manager \<Rightarrow> policy_definition pa_result" where
  "rollback now policy_id rolled_back_by m =
     (case get_policy m policy_id of
        None \<Rightarrow> (Inl (policy_not_found policy_id), m)
      | Some p \<Rightarrow>
          if pd_status p \<noteq> PS_PUBLISHED
          then (Inl [Lit ''Can only roll back published policies''], m)
          else
            let p = p\<lparr>pd_status := PS_ROLLED_BACK\<rparr>
            in (Inr p, pa_record now ''rollback'' policy_id rolled_back_by (pa_put p m)))"

definition archive :: "time \<Rightarrow> string \<Rightarrow> policy_manager \<Rightarrow> policy_definition pa_result" where
  "archive now policy_id m =
     (case get_policy m policy_id of
        None \<Rightarrow> (Inl (policy_not_found policy_id), m)
      | Some p \<Rightarrow>
          if pd_status p = PS_PUBLISHED
          then (Inl [Lit ''Cannot archive a published policy '', Lit [CHR 0xE2, CHR 0x80, CHR 0x94],
                     Lit '' rollback first''], m)
          else
            let p = p\<lparr>pd_status := PS_ARCHIVED\<rparr>
            in (Inr p, pa_record now ''archive'' policy_id ''system'' (pa_put p m)))"

definition list_policies :: "policy_manager \<Rightarrow> policy_status option \<Rightarrow> policy_definition list" where
  "list_policies m status = filter_opt status pd_status (dvalues (pa_policies m))"

definition get_simulation :: "policy_manager \<Rightarrow> string \<Rightarrow> policy_simulation option" where
  "get_simulation m policy_id = dget (pa_simulations m) policy_id"

section \<open>What may be published together\<close>

inductive pa_step :: "policy_manager \<Rightarrow> policy_manager \<Rightarrow> bool" where
  pa_creates: "get_policy m fresh = None \<Longrightarrow>
     pa_step m (snd (create_draft fresh now nm desc rules packs who m))"
| pa_simulates: "pa_step m (snd (simulate_policy now i n m))"
| pa_publishes: "pa_step m (snd (publish now i who m))"
| pa_rolls_back: "pa_step m (snd (rollback now i who m))"
| pa_archives: "pa_step m (snd (archive now i m))"

definition compatible :: "policy_definition \<Rightarrow> policy_definition \<Rightarrow> bool" where
  "compatible p q \<longleftrightarrow>
     set (pd_target_packs p) \<inter> set (pd_target_packs q) = {} \<or> set (pd_rules p) \<inter> set (pd_rules q) = {}"

definition published_ok :: "policy_manager \<Rightarrow> bool" where
  "published_ok m \<longleftrightarrow> dict_wf (pa_policies m) \<and>
     (\<forall>i p. get_policy m i = Some p \<longrightarrow> pd_policy_id p = i) \<and>
     (\<forall>i j p q. get_policy m i = Some p \<longrightarrow> get_policy m j = Some q \<longrightarrow> i \<noteq> j \<longrightarrow>
        pd_status p = PS_PUBLISHED \<longrightarrow> pd_status q = PS_PUBLISHED \<longrightarrow> compatible p q)"

lemma compatible_commute: "compatible p q = compatible q p"
  by (auto simp: compatible_def)

lemma published_ok_new: "published_ok new_policy_manager"
  by (simp add: published_ok_def new_policy_manager_def get_policy_def)

lemma get_policy_put [simp]:
  "get_policy (pa_record now a i who (pa_put p m)) k = (if k = pd_policy_id p then Some p else get_policy m k)"
  "dict_wf (pa_policies m) \<Longrightarrow> dict_wf (pa_policies (pa_record now a i who (pa_put p m)))"
  by (simp_all add: get_policy_def pa_record_def pa_put_def)

text \<open>Storing a policy keeps the invariant when it is not published, or conflicts with no published one.\<close>

lemma published_ok_put:
  assumes ok: "published_ok m"
    and new: "pd_status p = PS_PUBLISHED \<Longrightarrow>
      (\<forall>j q. get_policy m j = Some q \<longrightarrow> j \<noteq> pd_policy_id p \<longrightarrow> pd_status q = PS_PUBLISHED \<longrightarrow> compatible p q)"
  shows "published_ok (pa_record now a i who (pa_put p m))"
  unfolding published_ok_def
proof (intro conjI allI impI)
  show "dict_wf (pa_policies (pa_record now a i who (pa_put p m)))"
    using ok by (simp add: published_ok_def)
next
  fix k q assume q: "get_policy (pa_record now a i who (pa_put p m)) k = Some q"
  show "pd_policy_id q = k"
  proof (cases "k = pd_policy_id p")
    case True
    with q show ?thesis by simp
  next
    case False
    with q have "get_policy m k = Some q" by simp
    then show ?thesis using ok unfolding published_ok_def by blast
  qed
next
  fix k l q r
  assume *: "get_policy (pa_record now a i who (pa_put p m)) k = Some q"
    "get_policy (pa_record now a i who (pa_put p m)) l = Some r" "k \<noteq> l"
    "pd_status q = PS_PUBLISHED" "pd_status r = PS_PUBLISHED"
  consider "k = pd_policy_id p" "q = p" "get_policy m l = Some r" "l \<noteq> pd_policy_id p"
    | "l = pd_policy_id p" "r = p" "get_policy m k = Some q" "k \<noteq> pd_policy_id p"
    | "get_policy m k = Some q" "get_policy m l = Some r"
    using *(1-3) unfolding get_policy_put(1) by (metis option.inject)
  then show "compatible q r"
  proof cases
    case 1 with new * show ?thesis by blast
  next
    case 2 with new * show ?thesis by (metis compatible_commute)
  next
    case 3 with ok * show ?thesis unfolding published_ok_def by blast
  qed
qed

lemma conflicts_none:
  assumes ok: "published_ok m" and p: "get_policy m i = Some p"
    and none: "pa_detect_conflicts m i = Inr []"
    and q: "get_policy m j = Some q" "j \<noteq> i" "pd_status q = PS_PUBLISHED"
  shows "compatible p q"
proof -
  have ids: "pd_policy_id p = i" "pd_policy_id q = j" using ok p q(1) unfolding published_ok_def by blast+
  have "q \<in> set (dvalues (pa_policies m))"
    using ok q(1) dict_wf_values [of "pa_policies m"] unfolding published_ok_def get_policy_def by blast
  then have "conflicts_with p q = []"
    using none p by (auto simp: pa_detect_conflicts_def)
  then show ?thesis
    using ids q(2,3) by (auto simp: conflicts_with_def Let_def filter_empty_conv compatible_def split: if_splits)
qed

lemma pa_step_ok: "pa_step m m' \<Longrightarrow> published_ok m \<Longrightarrow> published_ok m'"
proof (induction rule: pa_step.induct)
  case (pa_creates m fresh now nm desc rules packs who)
  then show ?case unfolding create_draft_def Let_def snd_conv by (intro published_ok_put) simp_all
next
  case (pa_simulates m now i n)
  let ?s = "\<lambda>d. m\<lparr>pa_simulations := d\<rparr>"
  have "published_ok (?s d)" for d
    using pa_simulates by (simp add: published_ok_def get_policy_def)
  then show ?case
    using pa_simulates by (auto simp: simulate_policy_def Let_def intro: published_ok_put split: option.split)
next
  case (pa_publishes m now i who)
  show ?case
  proof (cases "\<exists>p. get_policy m i = Some p \<and> pd_status p = PS_DRAFT \<and> pa_detect_conflicts m i = Inr []")
    case False
    then have "snd (publish now i who m) = m"
      by (auto simp: publish_def split: option.split sum.split)
    with pa_publishes show ?thesis by simp
  next
    case True
    then obtain p where p: "get_policy m i = Some p" "pd_status p = PS_DRAFT" "pa_detect_conflicts m i = Inr []"
      by blast
    have i: "pd_policy_id p = i" using pa_publishes p(1) unfolding published_ok_def by blast
    let ?p = "p\<lparr>pd_status := PS_PUBLISHED, pd_published_at := Some now\<rparr>"
    have "compatible ?p q" if "get_policy m j = Some q" "j \<noteq> i" "pd_status q = PS_PUBLISHED" for j q
      using conflicts_none [OF pa_publishes p(1,3) that] by (simp add: compatible_def)
    then have "published_ok (pa_record now ''publish'' i who (pa_put ?p m))"
      using pa_publishes i by (intro published_ok_put) auto
    with p show ?thesis by (simp add: publish_def Let_def)
  qed
next
  case (pa_rolls_back m now i who)
  then show ?case by (auto simp: rollback_def Let_def intro: published_ok_put split: option.split)
next
  case (pa_archives m now i)
  then show ?case by (auto simp: archive_def Let_def intro: published_ok_put split: option.split)
qed

lemma pa_steps_ok: "pa_step\<^sup>*\<^sup>* m m' \<Longrightarrow> published_ok m \<Longrightarrow> published_ok m'"
  by (induction rule: rtranclp_induct) (auto intro: pa_step_ok)

text \<open>C29: No history of drafts, simulations, publications, rollbacks and archivings leads to two published
  policies that conflict: any two have no target pack in common, or no rule.\<close>

theorem published_policies_compatible:
  assumes "pa_step\<^sup>*\<^sup>* new_policy_manager m"
    and "get_policy m i = Some p" and "get_policy m j = Some q" and "i \<noteq> j"
    and "pd_status p = PS_PUBLISHED" and "pd_status q = PS_PUBLISHED"
  shows "compatible p q"
  using pa_steps_ok [OF assms(1) published_ok_new] assms(2-) unfolding published_ok_def by blast

definition sample_policies :: policy_manager where
  "sample_policies =
     snd (publish 4 ''b'' ''ann'' (snd (publish 3 ''a'' ''ann''
       (snd (create_draft ''b'' 2 ''B'' [] (Some [''r1'']) (Some [''y'']) ''ann''
         (snd (create_draft ''a'' 1 ''A'' [] (Some [''r1'']) (Some [''x'']) ''ann'' new_policy_manager)))))))"

theorem published_policies_compatible_witness:
  "\<exists>p q. get_policy sample_policies ''a'' = Some p \<and> get_policy sample_policies ''b'' = Some q \<and>
     pd_status p = PS_PUBLISHED \<and> pd_status q = PS_PUBLISHED \<and> compatible p q"
proof -
  define s1 where "s1 = snd (create_draft ''a'' 1 ''A'' [] (Some [''r1'']) (Some [''x'']) ''ann'' new_policy_manager)"
  have 1: "get_policy new_policy_manager ''a'' = None" by code_simp
  have 2: "get_policy s1 ''b'' = None" unfolding s1_def by code_simp
  note r = rtranclp.rtrancl_into_rtrancl
  have "pa_step\<^sup>*\<^sup>* new_policy_manager s1"
    unfolding s1_def by (rule r_into_rtranclp, rule pa_creates, rule 1)
  from r [OF r [OF r [OF this pa_creates [OF 2]] pa_publishes] pa_publishes]
  have reach: "pa_step\<^sup>*\<^sup>* new_policy_manager sample_policies" unfolding sample_policies_def s1_def .
  have "map_option pd_status (get_policy sample_policies ''a'') = Some PS_PUBLISHED"
    "map_option pd_status (get_policy sample_policies ''b'') = Some PS_PUBLISHED" by code_simp+
  then obtain p q where pq: "get_policy sample_policies ''a'' = Some p" "get_policy sample_policies ''b'' = Some q"
    "pd_status p = PS_PUBLISHED" "pd_status q = PS_PUBLISHED" by auto
  from published_policies_compatible [OF reach pq(1,2) _ pq(3,4)] pq show ?thesis by simp
qed

text \<open>Simulating a published policy takes it out of force: the simulation, which is meant to predict
  the effect of a policy, leaves it as a draft that still carries its date of publication.\<close>

theorem simulation_unpublishes:
  "case get_policy m i of
     None \<Rightarrow> simulate_policy now i n m = (Inl (policy_not_found i), m)
   | Some p \<Rightarrow>
       (case pd_status p of
          PS_PUBLISHED \<Rightarrow> res_ok (simulate_policy now i n m) \<and>
            dget (pa_policies (snd (simulate_policy now i n m))) (pd_policy_id p) = Some (p\<lparr>pd_status := PS_DRAFT\<rparr>)
        | PS_DRAFT \<Rightarrow> res_ok (simulate_policy now i n m) \<and>
            dget (pa_policies (snd (simulate_policy now i n m))) (pd_policy_id p) = Some p
        | _ \<Rightarrow> res_raises (simulate_policy now i n m) \<and> snd (simulate_policy now i n m) = m)"
  by (auto simp: simulate_policy_def pa_record_def pa_put_def Let_def split: option.split policy_status.split)

end
