(* ===== verification/Pack_Registry.thy ===== *)
theory Pack_Registry
  imports Py_Float
begin

text \<open>
  The registry of domain packs, \<^verbatim>\<open>app/core/pack_management/domain_types.py\<close> and \<^verbatim>\<open>registry.py\<close>:
  manifests, install, uninstall and upgrade. A raise is a \<open>ValueError\<close> with its text; the clock is
  an argument, kept as a moment in the log.
\<close>

section \<open>Types\<close>

datatype pack_status = PK_AVAILABLE | PK_INSTALLED | PK_UPGRADING | PK_DEPRECATED | PK_INCOMPATIBLE

fun pack_status_value :: "pack_status \<Rightarrow> string" where
  "pack_status_value PK_AVAILABLE = ''available''"
| "pack_status_value PK_INSTALLED = ''installed''"
| "pack_status_value PK_UPGRADING = ''upgrading''"
| "pack_status_value PK_DEPRECATED = ''deprecated''"
| "pack_status_value PK_INCOMPATIBLE = ''incompatible''"

record pack_version =
  ve_major :: int
  ve_minor :: int
  ve_patch :: int

definition version_str :: "pack_version \<Rightarrow> string" where
  "version_str v = int_str (ve_major v) @ ''.'' @ int_str (ve_minor v) @ ''.'' @ int_str (ve_patch v)"

definition is_compatible_with :: "pack_version \<Rightarrow> pack_version \<Rightarrow> bool" where
  "is_compatible_with v other = (ve_major v = ve_major other)"

record pack_manifest =
  mf_pack_id :: string
  mf_pack_name :: string
  mf_version :: pack_version
  mf_description :: string
  mf_author :: string
  mf_namespaces :: "string list"
  mf_rule_count :: int
  mf_schema_count :: int
  mf_dependencies :: "string list"
  mf_created_at :: time

record install_request =
  iq_pack_id :: string
  iq_target_environment :: string
  iq_requested_by :: string
  iq_force :: bool

record pack_diff =
  pv_pack_id :: string
  pv_from_version :: string
  pv_to_version :: string
  pv_rules_added :: "string list"
  pv_rules_removed :: "string list"
  pv_rules_modified :: "string list"
  pv_schemas_added :: "string list"
  pv_schemas_removed :: "string list"
  pv_breaking :: bool

datatype install_entry =
    Installed string string string string time
  | Uninstalled string string time

record pack_registry =
  pr_manifests :: "(string, pack_manifest) dict"
  pr_status :: "(string, pack_status) dict"
  pr_install_log :: "install_entry list"

definition builtin_manifest ::
  "time \<Rightarrow> string \<Rightarrow> string \<Rightarrow> string \<Rightarrow> string list \<Rightarrow> int \<Rightarrow> int \<Rightarrow> pack_manifest" where
  "builtin_manifest now pack_id nm description namespaces rules schemas =
     \<lparr>mf_pack_id = pack_id, mf_pack_name = nm,
      mf_version = \<lparr>ve_major = 1, ve_minor = 0, ve_patch = 0\<rparr>, mf_description = description,
      mf_author = ''platform'', mf_namespaces = namespaces, mf_rule_count = rules,
      mf_schema_count = schemas, mf_dependencies = [], mf_created_at = now\<rparr>"

definition builtin_manifests :: "time \<Rightarrow> pack_manifest list" where
  "builtin_manifests now =
     [builtin_manifest now ''telco-ops'' ''Telco Operations''
        ''Telecom operational controls and reconciliation rules''
        [''telco.network'', ''telco.billing'', ''telco.provisioning''] 5 3,
      builtin_manifest now ''contract-margin'' ''Contract Margin Assurance''
        ''Contract lifecycle and margin drift detection''
        [''contract.terms'', ''contract.pricing'', ''contract.obligations''] 4 3,
      builtin_manifest now ''release-governance'' ''Release Governance''
        ''Release gate and evidence-based governance''
        [''release.pipeline'', ''release.evidence'', ''release.approval''] 3 3]"

definition new_pack_registry :: "time \<Rightarrow> pack_registry" where
  "new_pack_registry now =
     \<lparr>pr_manifests = foldl (\<lambda>d m. dput (mf_pack_id m) m d) [] (builtin_manifests now),
      pr_status = foldl (\<lambda>d m. dput (mf_pack_id m) PK_AVAILABLE d) [] (builtin_manifests now),
      pr_install_log = []\<rparr>"

section \<open>Operations\<close>

type_synonym 'a pr_result = "(fstr, pack_registry, 'a) res"

definition pack_status_of :: "pack_registry \<Rightarrow> string \<Rightarrow> pack_status option" where
  "pack_status_of r pack_id = dget (pr_status r) pack_id"

definition get_manifest :: "pack_registry \<Rightarrow> string \<Rightarrow> pack_manifest option" where
  "get_manifest r pack_id = dget (pr_manifests r) pack_id"

definition installed :: "pack_registry \<Rightarrow> string \<Rightarrow> bool" where
  "installed r pack_id = (pack_status_of r pack_id = Some PK_INSTALLED)"

definition pk_install :: "time \<Rightarrow> install_request \<Rightarrow> pack_registry \<Rightarrow> install_entry pr_result" where
  "pk_install now q r =
     (let pack_id = iq_pack_id q
      in case get_manifest r pack_id of
           None \<Rightarrow> (Inl [Lit ''Unknown pack: '', Lit pack_id], r)
         | Some manifest \<Rightarrow>
             if installed r pack_id \<and> \<not> iq_force q
             then (Inl [Lit ''Pack '', Lit pack_id, Lit '' already installed. Use force=True to reinstall''], r)
             else
               (case find (\<lambda>dep. \<not> installed r dep) (mf_dependencies manifest) of
                  Some dep \<Rightarrow> (Inl [Lit ''Dependency not installed: '', Lit dep], r)
                | None \<Rightarrow>
                    let entry = Installed pack_id (version_str (mf_version manifest))
                          (iq_target_environment q) (iq_requested_by q) now
                    in (Inr entry, r\<lparr>pr_status := dput pack_id PK_INSTALLED (pr_status r),
                                     pr_install_log := pr_install_log r @ [entry]\<rparr>)))"

definition pk_uninstall :: "time \<Rightarrow> string \<Rightarrow> string \<Rightarrow> pack_registry \<Rightarrow> install_entry pr_result" where
  "pk_uninstall now pack_id requested_by r =
     (if \<not> installed r pack_id
      then (Inl [Lit ''Pack '', Lit pack_id, Lit '' is not installed''], r)
      else
        (case find (\<lambda>(pid, m). pack_id \<in> set (mf_dependencies m) \<and> installed r pid) (pr_manifests r) of
           Some (pid, m) \<Rightarrow>
             (Inl [Lit ''Cannot uninstall: pack '', Lit pid, Lit '' depends on '', Lit pack_id], r)
         | None \<Rightarrow>
             let entry = Uninstalled pack_id requested_by now
             in (Inr entry, r\<lparr>pr_status := dput pack_id PK_AVAILABLE (pr_status r),
                              pr_install_log := pr_install_log r @ [entry]\<rparr>)))"

definition pk_upgrade :: "string \<Rightarrow> pack_manifest \<Rightarrow> pack_registry \<Rightarrow> pack_diff pr_result" where
  "pk_upgrade pack_id new_manifest r =
     (case get_manifest r pack_id of
        None \<Rightarrow> (Inl [Lit ''Unknown pack: '', Lit pack_id], r)
      | Some old \<Rightarrow>
          if \<not> is_compatible_with (mf_version new_manifest) (mf_version old)
          then (Inl [Lit ''Incompatible major version: '', Lit (version_str (mf_version old)),
                     Lit '' '', Lit [CHR 0xE2, CHR 0x86, CHR 0x92], Lit '' '',
                     Lit (version_str (mf_version new_manifest))],
                r\<lparr>pr_status := dput pack_id PK_INCOMPATIBLE (pr_status r)\<rparr>)
          else
            (Inr \<lparr>pv_pack_id = pack_id, pv_from_version = version_str (mf_version old),
                  pv_to_version = version_str (mf_version new_manifest), pv_rules_added = [],
                  pv_rules_removed = [], pv_rules_modified = [], pv_schemas_added = [],
                  pv_schemas_removed = [],
                  pv_breaking = (\<not> is_compatible_with (mf_version new_manifest) (mf_version old))\<rparr>,
             r\<lparr>pr_manifests := dput pack_id new_manifest (pr_manifests r),
               pr_status := dput pack_id PK_INSTALLED (pr_status r)\<rparr>))"

definition check_compatibility :: "pack_registry \<Rightarrow> string \<Rightarrow> pack_version \<Rightarrow> bool" where
  "check_compatibility r pack_id target_version =
     (case get_manifest r pack_id of
        None \<Rightarrow> False
      | Some current \<Rightarrow> is_compatible_with target_version (mf_version current))"

section \<open>Dependencies of installed packs\<close>

text \<open>The packs a registry misses: what an installed pack depends on and is not installed.\<close>

definition missing_dep :: "pack_registry \<Rightarrow> string \<Rightarrow> string \<Rightarrow> bool" where
  "missing_dep r pid dep \<longleftrightarrow>
     installed r pid \<and> (\<exists>m. get_manifest r pid = Some m \<and> dep \<in> set (mf_dependencies m)) \<and> \<not> installed r dep"

lemma missing_dep_after:
  assumes "pr_status r' = dput i st (pr_status r)" and "pr_manifests r' = pr_manifests r"
  shows "missing_dep r' pid dep \<longleftrightarrow>
     (if pid = i then st = PK_INSTALLED else installed r pid) \<and>
     (\<exists>m. get_manifest r pid = Some m \<and> dep \<in> set (mf_dependencies m)) \<and>
     \<not> (if dep = i then st = PK_INSTALLED else installed r dep)"
  by (simp add: missing_dep_def installed_def pack_status_of_def get_manifest_def assms)

lemma install_cases:
  obtains (refused) "snd (pk_install now q r) = r"
  | (done1) m where "get_manifest r (iq_pack_id q) = Some m" "\<forall>d\<in>set (mf_dependencies m). installed r d"
      "pr_status (snd (pk_install now q r)) = dput (iq_pack_id q) PK_INSTALLED (pr_status r)"
      "pr_manifests (snd (pk_install now q r)) = pr_manifests r"
proof (cases "get_manifest r (iq_pack_id q)")
  case None
  then show thesis using refused by (simp add: pk_install_def Let_def)
next
  case (Some m)
  show thesis
  proof (cases "(installed r (iq_pack_id q) \<and> \<not> iq_force q) \<or> find (\<lambda>dep. \<not> installed r dep) (mf_dependencies m) \<noteq> None")
    case True
    with Some show thesis using refused by (auto simp: pk_install_def Let_def)
  next
    case False
    then have f: "find (\<lambda>dep. \<not> installed r dep) (mf_dependencies m) = None" by blast
    show thesis
    proof (rule done1 [OF Some])
      show "\<forall>d\<in>set (mf_dependencies m). installed r d" using f unfolding find_None_iff by blast
    qed (use Some False f in \<open>auto simp: pk_install_def Let_def\<close>)
  qed
qed

lemma install_missing:
  assumes "missing_dep (snd (pk_install now q r)) pid dep"
  shows "missing_dep r pid dep"
proof (cases rule: install_cases [of now q r])
  case refused
  with assms show ?thesis by simp
next
  case (done1 m)
  with assms show ?thesis unfolding missing_dep_after [OF done1(3,4)] by (auto simp: missing_dep_def split: if_splits)
qed

lemma uninstall_cases:
  obtains (refused) "snd (pk_uninstall now i who r) = r"
  | (done1) "\<forall>(p, m)\<in>set (pr_manifests r). \<not> (i \<in> set (mf_dependencies m) \<and> installed r p)"
      "pr_status (snd (pk_uninstall now i who r)) = dput i PK_AVAILABLE (pr_status r)"
      "pr_manifests (snd (pk_uninstall now i who r)) = pr_manifests r"
proof (cases "installed r i \<and>
    find (\<lambda>(pid, m). i \<in> set (mf_dependencies m) \<and> installed r pid) (pr_manifests r) = None")
  case True
  show thesis
  proof (rule done1)
    show "\<forall>(p, m)\<in>set (pr_manifests r). \<not> (i \<in> set (mf_dependencies m) \<and> installed r p)"
      using True unfolding find_None_iff by auto
  qed (use True in \<open>simp_all add: pk_uninstall_def Let_def\<close>)
next
  case False
  then show thesis using refused by (auto simp: pk_uninstall_def Let_def split: prod.split)
qed

lemma uninstall_missing:
  assumes "missing_dep (snd (pk_uninstall now i who r)) pid dep"
  shows "missing_dep r pid dep"
proof (cases rule: uninstall_cases [of now i who r])
  case refused
  with assms show ?thesis by simp
next
  case done1
  have "dep \<noteq> i" if "installed r pid" "get_manifest r pid = Some m" "dep \<in> set (mf_dependencies m)" for m
    using done1(1) that unfolding get_manifest_def by (auto dest: map_of_SomeD)
  with assms show ?thesis
    unfolding missing_dep_after [OF done1(2,3)] by (auto simp: missing_dep_def split: if_splits)
qed

lemma upgrade_effect:
  "case get_manifest r i of
      None \<Rightarrow> snd (pk_upgrade i m r) = r
    | Some old \<Rightarrow>
        if ve_major (mf_version m) = ve_major (mf_version old)
        then pr_status (snd (pk_upgrade i m r)) = dput i PK_INSTALLED (pr_status r) \<and>
             pr_manifests (snd (pk_upgrade i m r)) = dput i m (pr_manifests r)
        else pr_status (snd (pk_upgrade i m r)) = dput i PK_INCOMPATIBLE (pr_status r) \<and>
             pr_manifests (snd (pk_upgrade i m r)) = pr_manifests r"
  by (simp add: pk_upgrade_def is_compatible_with_def split: option.split)

text \<open>Installing and uninstalling never leave an installed pack without one of its dependencies. An
  upgrade does: it checks none of them, so a dependency of the new manifest that is not installed is
  missing afterwards, and the pack counts as installed even if it was not. A refused upgrade marks an
  installed pack as incompatible, which leaves every pack that depends on it without it.\<close>

theorem pack_dependencies:
  "(if missing_dep (snd (pk_install now q r)) pid dep then missing_dep r pid dep else True) \<and>
   (if missing_dep (snd (pk_uninstall now i who r)) pid dep then missing_dep r pid dep else True) \<and>
   (case get_manifest r i of
      None \<Rightarrow> snd (pk_upgrade i m r) = r
    | Some old \<Rightarrow>
        if ve_major (mf_version m) = ve_major (mf_version old)
        then installed (snd (pk_upgrade i m r)) i \<and>
             (missing_dep (snd (pk_upgrade i m r)) i dep \<longleftrightarrow>
                dep \<in> set (mf_dependencies m) \<and> \<not> installed r dep \<and> dep \<noteq> i)
        else \<not> installed (snd (pk_upgrade i m r)) i \<and>
             (missing_dep (snd (pk_upgrade i m r)) pid i \<longleftrightarrow>
                pid \<noteq> i \<and> installed r pid \<and> (\<exists>m. get_manifest r pid = Some m \<and> i \<in> set (mf_dependencies m))))"
proof (intro conjI)
  show "case get_manifest r i of
      None \<Rightarrow> snd (pk_upgrade i m r) = r
    | Some old \<Rightarrow>
        if ve_major (mf_version m) = ve_major (mf_version old)
        then installed (snd (pk_upgrade i m r)) i \<and>
             (missing_dep (snd (pk_upgrade i m r)) i dep \<longleftrightarrow>
                dep \<in> set (mf_dependencies m) \<and> \<not> installed r dep \<and> dep \<noteq> i)
        else \<not> installed (snd (pk_upgrade i m r)) i \<and>
             (missing_dep (snd (pk_upgrade i m r)) pid i \<longleftrightarrow>
                pid \<noteq> i \<and> installed r pid \<and> (\<exists>m. get_manifest r pid = Some m \<and> i \<in> set (mf_dependencies m)))"
    using upgrade_effect [where r = r and i = i and m = m]
    by (cases "get_manifest r i")
      (auto simp: missing_dep_def installed_def pack_status_of_def get_manifest_def split: if_splits)
qed (use install_missing uninstall_missing in meson)+

end
