(* ===== verification/Exceptions.thy ===== *)
theory Exceptions
  imports Release_Gate_Props
begin

text \<open>
  The exception framework, \<^verbatim>\<open>app/core/exception_framework/domain_types.py\<close> and \<^verbatim>\<open>manager.py\<close>:
  requests that pass the release gate, decisions, review tasks and the audit ledger.
  The drawn identifiers and the clock are arguments. A review task keeps its due date as a moment:
  the code stores \<open>isoformat()\<close> of it and reads it back with \<open>fromisoformat\<close>. A decision is built by
  a model that refuses a rationale under 20 characters, which is a raise of the operation.
\<close>

section \<open>Types\<close>

datatype exception_type =
    XT_EMERGENCY_OVERRIDE | XT_TIME_BOUND_EXCEPTION | XT_COMPENSATING_CONTROL | XT_ESCALATION_BYPASS

fun exception_type_value :: "exception_type \<Rightarrow> string" where
  "exception_type_value XT_EMERGENCY_OVERRIDE = ''emergency_override''"
| "exception_type_value XT_TIME_BOUND_EXCEPTION = ''time_bound_exception''"
| "exception_type_value XT_COMPENSATING_CONTROL = ''compensating_control''"
| "exception_type_value XT_ESCALATION_BYPASS = ''escalation_bypass''"

fun exception_type_str :: "exception_type \<Rightarrow> string" where
  "exception_type_str XT_EMERGENCY_OVERRIDE = ''ExceptionType.EMERGENCY_OVERRIDE''"
| "exception_type_str XT_TIME_BOUND_EXCEPTION = ''ExceptionType.TIME_BOUND_EXCEPTION''"
| "exception_type_str XT_COMPENSATING_CONTROL = ''ExceptionType.COMPENSATING_CONTROL''"
| "exception_type_str XT_ESCALATION_BYPASS = ''ExceptionType.ESCALATION_BYPASS''"

datatype exception_status =
    XS_PENDING_APPROVAL | XS_APPROVED | XS_ACTIVE | XS_EXPIRED | XS_REVOKED | XS_REJECTED

fun exception_status_str :: "exception_status \<Rightarrow> string" where
  "exception_status_str XS_PENDING_APPROVAL = ''ExceptionStatus.PENDING_APPROVAL''"
| "exception_status_str XS_APPROVED = ''ExceptionStatus.APPROVED''"
| "exception_status_str XS_ACTIVE = ''ExceptionStatus.ACTIVE''"
| "exception_status_str XS_EXPIRED = ''ExceptionStatus.EXPIRED''"
| "exception_status_str XS_REVOKED = ''ExceptionStatus.REVOKED''"
| "exception_status_str XS_REJECTED = ''ExceptionStatus.REJECTED''"

datatype exception_risk = XR_CRITICAL | XR_HIGH | XR_MEDIUM | XR_LOW

fun exception_risk_value :: "exception_risk \<Rightarrow> string" where
  "exception_risk_value XR_CRITICAL = ''critical''"
| "exception_risk_value XR_HIGH = ''high''"
| "exception_risk_value XR_MEDIUM = ''medium''"
| "exception_risk_value XR_LOW = ''low''"

record exception_request =
  xq_exception_id :: string
  xq_exception_type :: exception_type
  xq_requested_by :: string
  xq_justification :: string
  xq_affected_object_ids :: "string list"
  xq_affected_action_type :: string
  xq_policy_context_id :: string
  xq_compensating_controls :: "string list"
  xq_expires_at :: time
  xq_risk_assessment :: exception_risk
  xq_requested_at :: time
  xq_request_hash :: string

definition xq_compute_hash :: "platform_fns \<Rightarrow> exception_request \<Rightarrow> exception_request" where
  "xq_compute_hash fn q =
     q\<lparr>xq_request_hash := pf_sha fn
         (xq_exception_id q @ exception_type_str (xq_exception_type q) @ xq_requested_by q @
          xq_affected_action_type q @ xq_policy_context_id q @ pf_iso fn (xq_expires_at q) @
          pf_iso fn (xq_requested_at q))\<rparr>"

record exception_decision =
  xd_decision_id :: string
  xd_exception_id :: string
  xd_decided_by :: string
  xd_decision :: exception_status
  xd_decision_rationale :: string
  xd_conditions :: "string list"
  xd_review_task_id :: string
  xd_decided_at :: time
  xd_decision_hash :: string

record exception_audit_entry =
  xa_entry_id :: string
  xa_exception_id :: string
  xa_event_type :: string
  xa_event_detail :: string
  xa_performed_by :: string
  xa_occurred_at :: time
  xa_entry_hash :: string

record review_task =
  vt_task_id :: string
  vt_exception_id :: string
  vt_task_type :: string
  vt_due_by :: time
  vt_assigned_to :: string
  vt_status :: string

record exception_manager =
  xm_gate :: platform_gate
  xm_requests :: "(string, exception_request) dict"
  xm_decisions :: "(string, exception_decision list) dict"
  xm_audit_ledger :: "exception_audit_entry list"
  xm_review_tasks :: "review_task list"

definition new_exception_manager :: "platform_gate \<Rightarrow> exception_manager" where
  "new_exception_manager gate =
     \<lparr>xm_gate = gate, xm_requests = [], xm_decisions = [], xm_audit_ledger = [], xm_review_tasks = []\<rparr>"

text \<open>What an operation draws: identifiers, and the moments of the check, the decision and the entry.\<close>

record exception_draws =
  xw_entry_id :: string
  xw_decision_id :: string
  xw_task_id :: string
  xw_checked_at :: time
  xw_decided_at :: time
  xw_occurred_at :: time

datatype exception_error =
    ExceptionBlocked "string option"
  | ExceptionNotFound string
  | ExceptionExpired string
  | ValidationRefused string
  | ExceptionGateRaised string

type_synonym 'a xm_result = "(exception_error, exception_manager, 'a) res"

section \<open>Operations\<close>

definition xm_audit ::
  "platform_fns \<Rightarrow> exception_draws \<Rightarrow> string \<Rightarrow> string \<Rightarrow> string \<Rightarrow> string \<Rightarrow> exception_manager \<Rightarrow> exception_manager" where
  "xm_audit fn dr event_type exception_id detail performed_by x =
     x\<lparr>xm_audit_ledger := xm_audit_ledger x @
         [\<lparr>xa_entry_id = xw_entry_id dr, xa_exception_id = exception_id, xa_event_type = event_type,
           xa_event_detail = detail, xa_performed_by = performed_by,
           xa_occurred_at = xw_occurred_at dr,
           xa_entry_hash = pf_sha fn (xw_entry_id dr @ exception_id @ event_type @ performed_by @
             pf_iso fn (xw_occurred_at dr))\<rparr>]\<rparr>"

definition exception_submission :: "platform_fns \<Rightarrow> exception_request \<Rightarrow> submission" where
  "exception_submission fn q =
     \<lparr>sb_action_type = ''exception_request'',
      sb_proposed_payload =
        [(''exception_type'', JStr (exception_type_value (xq_exception_type q))),
         (''affected_objects'', JList (map JStr (xq_affected_object_ids q))),
         (''risk_assessment'', JStr (exception_risk_value (xq_risk_assessment q))),
         (''expires_at'', JStr (pf_iso fn (xq_expires_at q)))],
      sb_requested_by = xq_requested_by q, sb_origin = HUMAN_OPERATOR,
      sb_evidence_references = Some [xq_request_hash q], sb_provenance_chain = None\<rparr>"

definition submit_exception ::
  "platform_fns \<Rightarrow> gate_draws \<Rightarrow> string \<Rightarrow> exception_draws \<Rightarrow> exception_request \<Rightarrow> exception_manager
     \<Rightarrow> exception_request xm_result" where
  "submit_exception fn gd tenant dr q x =
     (case submit fn gd tenant None (exception_submission fn q) (xm_gate x) of
        (Inl e, g) \<Rightarrow> (Inl (ExceptionGateRaised e), x\<lparr>xm_gate := g\<rparr>)
      | (Inr r, g) \<Rightarrow>
          let x = x\<lparr>xm_gate := g\<rparr>
          in if ds_status r = DS_BLOCKED
             then (Inl (ExceptionBlocked (ds_failure_reason r)), x)
             else (Inr q, xm_audit fn dr ''submitted'' (xq_exception_id q)
                     (''Exception request submitted by '' @ xq_requested_by q) (xq_requested_by q)
                     (x\<lparr>xm_requests := dput (xq_exception_id q) q (xm_requests x)\<rparr>)))"

definition decision_digest :: "platform_fns \<Rightarrow> exception_decision \<Rightarrow> string" where
  "decision_digest fn d =
     pf_sha fn (xd_decision_id d @ xd_exception_id d @ xd_decided_by d @
       exception_status_str (xd_decision d) @ pf_iso fn (xd_decided_at d))"

text \<open>The construction of a decision, or the refusal of its rationale.\<close>

definition make_decision ::
  "platform_fns \<Rightarrow> exception_draws \<Rightarrow> string \<Rightarrow> string \<Rightarrow> exception_status \<Rightarrow> string \<Rightarrow> string list \<Rightarrow> string
     \<Rightarrow> exception_decision option" where
  "make_decision fn dr exception_id decided_by status rationale conditions task_id =
     (if length rationale < 20 then None
      else let d = \<lparr>xd_decision_id = xw_decision_id dr, xd_exception_id = exception_id,
                 xd_decided_by = decided_by, xd_decision = status, xd_decision_rationale = rationale,
                 xd_conditions = conditions, xd_review_task_id = task_id,
                 xd_decided_at = xw_decided_at dr, xd_decision_hash = []\<rparr>
           in Some (d\<lparr>xd_decision_hash := decision_digest fn d\<rparr>))"

definition decisions_of :: "exception_manager \<Rightarrow> string \<Rightarrow> exception_decision list" where
  "decisions_of x exception_id = dget_default (xm_decisions x) exception_id []"

definition add_decision :: "exception_decision \<Rightarrow> exception_manager \<Rightarrow> exception_manager" where
  "add_decision d x =
     x\<lparr>xm_decisions := dput (xd_exception_id d) (decisions_of x (xd_exception_id d) @ [d]) (xm_decisions x)\<rparr>"

definition approve_exception ::
  "platform_fns \<Rightarrow> exception_draws \<Rightarrow> string \<Rightarrow> string \<Rightarrow> string \<Rightarrow> string list option \<Rightarrow> exception_manager
     \<Rightarrow> exception_decision xm_result" where
  "approve_exception fn dr exception_id decided_by rationale conditions x =
     (case dget (xm_requests x) exception_id of
        None \<Rightarrow> (Inl (ExceptionNotFound exception_id), x)
      | Some q \<Rightarrow>
          if xq_expires_at q < xw_checked_at dr
          then (Inl (ExceptionExpired (xq_exception_id q)), x)
          else
            let x = x\<lparr>xm_review_tasks := xm_review_tasks x @
                  [\<lparr>vt_task_id = xw_task_id dr, vt_exception_id = exception_id,
                    vt_task_type = ''post_exception_review'', vt_due_by = xq_expires_at q,
                    vt_assigned_to = decided_by, vt_status = ''open''\<rparr>]\<rparr>
            in case make_decision fn dr exception_id decided_by XS_APPROVED rationale
                      (or_empty conditions) (xw_task_id dr) of
                 None \<Rightarrow> (Inl (ValidationRefused ''decision_rationale''), x)
               | Some d \<Rightarrow>
                   (Inr d, xm_audit fn dr ''approved'' exception_id
                      (''Approved by '' @ decided_by @ ''. Review task '' @ take 8 (xw_task_id dr) @ '' created.'')
                      decided_by (add_decision d x)))"

definition reject_exception ::
  "platform_fns \<Rightarrow> exception_draws \<Rightarrow> string \<Rightarrow> string \<Rightarrow> string \<Rightarrow> exception_manager
     \<Rightarrow> exception_decision xm_result" where
  "reject_exception fn dr exception_id decided_by rationale x =
     (case dget (xm_requests x) exception_id of
        None \<Rightarrow> (Inl (ExceptionNotFound exception_id), x)
      | Some q \<Rightarrow>
          (case make_decision fn dr exception_id decided_by XS_REJECTED rationale [] ''none-rejected'' of
             None \<Rightarrow> (Inl (ValidationRefused ''decision_rationale''), x)
           | Some d \<Rightarrow>
               (Inr d, xm_audit fn dr ''rejected'' exception_id
                  (''Rejected by '' @ decided_by @ '': '' @ take 80 rationale) decided_by (add_decision d x))))"

definition revoke_exception ::
  "platform_fns \<Rightarrow> exception_draws \<Rightarrow> string \<Rightarrow> string \<Rightarrow> string \<Rightarrow> exception_manager \<Rightarrow> unit xm_result" where
  "revoke_exception fn dr exception_id revoked_by reason x =
     (case dget (xm_requests x) exception_id of
        None \<Rightarrow> (Inl (ExceptionNotFound exception_id), x)
      | Some q \<Rightarrow>
          (Inr (), xm_audit fn dr ''revoked'' exception_id
             (''Revoked by '' @ revoked_by @ '': '' @ take 80 reason) revoked_by x))"

definition get_active_exceptions :: "time \<Rightarrow> exception_manager \<Rightarrow> exception_request list" where
  "get_active_exceptions now x =
     filter (\<lambda>q. xq_expires_at q > now \<and>
                 list_ex (\<lambda>d. xd_decision d = XS_APPROVED) (decisions_of x (xq_exception_id q)))
       (dvalues (xm_requests x))"

definition get_expired_unreviewed :: "time \<Rightarrow> exception_manager \<Rightarrow> review_task list" where
  "get_expired_unreviewed now x = filter (\<lambda>t. vt_status t = ''open'' \<and> vt_due_by t < now) (xm_review_tasks x)"

definition get_audit_trail :: "exception_manager \<Rightarrow> string option \<Rightarrow> exception_audit_entry list" where
  "get_audit_trail x exception_id = filter_str exception_id xa_exception_id (xm_audit_ledger x)"

definition total_requests :: "exception_manager \<Rightarrow> nat" where
  "total_requests x = length (xm_requests x)"

definition total_active :: "time \<Rightarrow> exception_manager \<Rightarrow> nat" where
  "total_active now x = length (get_active_exceptions now x)"

section \<open>Histories\<close>

text \<open>Every operation, each request submitted under an identifier of its own.\<close>

inductive xm_step :: "platform_fns \<Rightarrow> exception_manager \<Rightarrow> exception_manager \<Rightarrow> bool" for fn where
  xm_submits: "dget (xm_requests x) (xq_exception_id q) = None \<Longrightarrow>
     xm_step fn x (snd (submit_exception fn gd tenant dr q x))"
| xm_approves: "xm_step fn x (snd (approve_exception fn dr i who why conds x))"
| xm_rejects: "xm_step fn x (snd (reject_exception fn dr i who why x))"
| xm_revokes: "xm_step fn x (snd (revoke_exception fn dr i who why x))"

text \<open>What a step may do: it keeps the requests, the decisions, the tasks and the ledger it finds.\<close>

definition xm_extends :: "exception_manager \<Rightarrow> exception_manager \<Rightarrow> bool" where
  "xm_extends x y \<longleftrightarrow>
     (\<forall>i q. dget (xm_requests x) i = Some q \<longrightarrow> dget (xm_requests y) i = Some q) \<and>
     (\<forall>i. set (decisions_of x i) \<subseteq> set (decisions_of y i)) \<and>
     set (xm_review_tasks x) \<subseteq> set (xm_review_tasks y) \<and>
     (\<exists>new. xm_audit_ledger y = xm_audit_ledger x @ new)"

lemma xm_extends_refl [simp]: "xm_extends x x"
  by (simp add: xm_extends_def)

lemma xm_extends_trans: "xm_extends x y \<Longrightarrow> xm_extends y z \<Longrightarrow> xm_extends x z"
  unfolding xm_extends_def by (metis (no_types, opaque_lifting) append_assoc order_trans)

text \<open>An approval comes with an open review task, due when the request expires.\<close>

definition reviewed :: "exception_manager \<Rightarrow> exception_decision \<Rightarrow> bool" where
  "reviewed x d \<longleftrightarrow>
     (\<exists>t\<in>set (xm_review_tasks x). \<exists>q. vt_task_id t = xd_review_task_id d \<and>
        vt_exception_id t = xd_exception_id d \<and> vt_status t = ''open'' \<and>
        dget (xm_requests x) (xd_exception_id d) = Some q \<and> vt_due_by t = xq_expires_at q)"

definition decision_ok :: "exception_manager \<Rightarrow> string \<Rightarrow> exception_decision \<Rightarrow> bool" where
  "decision_ok x i d \<longleftrightarrow>
     xd_exception_id d = i \<and> dget (xm_requests x) i \<noteq> None \<and> 20 \<le> length (xd_decision_rationale d) \<and>
     (case xd_decision d of XS_APPROVED \<Rightarrow> reviewed x d | XS_REJECTED \<Rightarrow> True | _ \<Rightarrow> False)"

definition exceptions_ok :: "exception_manager \<Rightarrow> bool" where
  "exceptions_ok x \<longleftrightarrow> dict_wf (xm_requests x) \<and>
     (\<forall>i q. dget (xm_requests x) i = Some q \<longrightarrow> xq_exception_id q = i) \<and>
     (\<forall>i. \<forall>d\<in>set (decisions_of x i). decision_ok x i d)"

lemma reviewed_extends: "reviewed x d \<Longrightarrow> xm_extends x y \<Longrightarrow> reviewed y d"
  unfolding reviewed_def xm_extends_def by blast

lemma decision_ok_extends:
  assumes "decision_ok x i d" and "xm_extends x y"
  shows "decision_ok y i d"
proof -
  have "dget (xm_requests y) i \<noteq> None"
    using assms unfolding decision_ok_def xm_extends_def by (metis option.exhaust option.simps(3))
  then show ?thesis
    using assms reviewed_extends [OF _ assms(2)]
    by (auto simp: decision_ok_def split: exception_status.splits)
qed

lemma xm_audit_simps [simp]:
  "xm_requests (xm_audit fn dr ev i det who x) = xm_requests x"
  "xm_decisions (xm_audit fn dr ev i det who x) = xm_decisions x"
  "xm_review_tasks (xm_audit fn dr ev i det who x) = xm_review_tasks x"
  "decisions_of (xm_audit fn dr ev i det who x) k = decisions_of x k"
  "\<exists>new. xm_audit_ledger (xm_audit fn dr ev i det who x) = xm_audit_ledger x @ new"
  by (simp_all add: xm_audit_def decisions_of_def)

lemma add_decision_simps [simp]:
  "xm_requests (add_decision d x) = xm_requests x"
  "xm_review_tasks (add_decision d x) = xm_review_tasks x"
  "xm_audit_ledger (add_decision d x) = xm_audit_ledger x"
  "decisions_of (add_decision d x) k =
     (if k = xd_exception_id d then decisions_of x k @ [d] else decisions_of x k)"
  by (simp_all add: add_decision_def decisions_of_def dget_default_def)

lemma make_decision_Some:
  "make_decision fn dr i who st why conds tid = Some d \<Longrightarrow>
     xd_exception_id d = i \<and> xd_decision d = st \<and> xd_review_task_id d = tid \<and>
     xd_decision_rationale d = why \<and> 20 \<le> length why"
  by (auto simp: make_decision_def Let_def split: if_splits)

text \<open>The states an operation can end in.\<close>

lemma submit_exception_cases:
  obtains (refused) g where "snd (submit_exception fn gd tenant dr q x) = x\<lparr>xm_gate := g\<rparr>"
  | (accepted) g where "snd (submit_exception fn gd tenant dr q x) =
      xm_audit fn dr ''submitted'' (xq_exception_id q) (''Exception request submitted by '' @ xq_requested_by q)
        (xq_requested_by q) (x\<lparr>xm_gate := g, xm_requests := dput (xq_exception_id q) q (xm_requests x)\<rparr>)"
proof -
  obtain out g where s: "submit fn gd tenant None (exception_submission fn q) (xm_gate x) = (out, g)" by fastforce
  show thesis
  proof (cases "\<exists>r. out = Inr r \<and> ds_status r \<noteq> DS_BLOCKED")
    case True
    with s show thesis by (intro accepted [of g]) (auto simp: submit_exception_def)
  next
    case False
    with s show thesis by (intro refused [of g]) (cases out; simp add: submit_exception_def)
  qed
qed

lemma approve_cases:
  obtains (same) "snd (approve_exception fn dr i who why conds x) = x"
  | (tasked) q t where "dget (xm_requests x) i = Some q" "length why < 20"
      "snd (approve_exception fn dr i who why conds x) = x\<lparr>xm_review_tasks := xm_review_tasks x @ [t]\<rparr>"
  | (approved) q t d det where "dget (xm_requests x) i = Some q" "20 \<le> length why"
      "vt_task_id t = xd_review_task_id d" "vt_exception_id t = i" "vt_status t = ''open''"
      "vt_due_by t = xq_expires_at q"
      "xd_exception_id d = i" "xd_decision d = XS_APPROVED" "xd_decision_rationale d = why"
      "snd (approve_exception fn dr i who why conds x) =
         xm_audit fn dr ''approved'' i det who (add_decision d (x\<lparr>xm_review_tasks := xm_review_tasks x @ [t]\<rparr>))"
proof (cases "\<exists>q. dget (xm_requests x) i = Some q \<and> \<not> xq_expires_at q < xw_checked_at dr")
  case False
  then show thesis by (intro same) (auto simp: approve_exception_def split: option.split)
next
  case True
  then obtain q where q: "dget (xm_requests x) i = Some q" "\<not> xq_expires_at q < xw_checked_at dr" by blast
  show thesis
  proof (cases "make_decision fn dr i who XS_APPROVED why (or_empty conds) (xw_task_id dr)")
    case None
    then have "length why < 20" by (auto simp: make_decision_def Let_def split: if_splits)
    with q None show thesis by (intro tasked) (auto simp: approve_exception_def Let_def)
  next
    case (Some d)
    with make_decision_Some [OF Some] q show thesis
      by (intro approved [where d = d and q = q]) (auto simp: approve_exception_def Let_def)
  qed
qed

lemma reject_cases:
  obtains (same) "snd (reject_exception fn dr i who why x) = x"
  | (rejected) d det where "dget (xm_requests x) i \<noteq> None" "20 \<le> length why"
      "xd_exception_id d = i" "xd_decision d = XS_REJECTED" "xd_decision_rationale d = why"
      "snd (reject_exception fn dr i who why x) = xm_audit fn dr ''rejected'' i det who (add_decision d x)"
proof (cases "dget (xm_requests x) i = None \<or> make_decision fn dr i who XS_REJECTED why [] ''none-rejected'' = None")
  case True
  then show thesis by (intro same) (auto simp: reject_exception_def split: option.split)
next
  case False
  then obtain q d where d: "dget (xm_requests x) i = Some q"
    "make_decision fn dr i who XS_REJECTED why [] ''none-rejected'' = Some d" by auto
  with make_decision_Some [OF d(2)] show thesis
    by (intro rejected [where d = d]) (auto simp: reject_exception_def)
qed

lemma revoke_state:
  "xm_requests (snd (revoke_exception fn dr i who why x)) = xm_requests x"
  "xm_review_tasks (snd (revoke_exception fn dr i who why x)) = xm_review_tasks x"
  "decisions_of (snd (revoke_exception fn dr i who why x)) k = decisions_of x k"
  "\<exists>new. xm_audit_ledger (snd (revoke_exception fn dr i who why x)) = xm_audit_ledger x @ new"
  by (simp_all add: revoke_exception_def split: option.split)

lemma xm_step_extends: "xm_step fn x y \<Longrightarrow> xm_extends x y"
proof (induction rule: xm_step.induct)
  case (xm_submits x q gd tenant dr)
  then show ?case
    by (cases rule: submit_exception_cases [of fn gd tenant dr q x])
      (auto simp: xm_extends_def decisions_of_def xm_audit_def)
next
  case (xm_approves x dr i who why conds)
  then show ?case
  proof (cases rule: approve_cases [of fn dr i who why conds x])
    case (approved q t d det)
    then show ?thesis by (auto simp: xm_extends_def decisions_of_def add_decision_def xm_audit_def dget_default_def)
  qed (auto simp: xm_extends_def decisions_of_def)
next
  case (xm_rejects x dr i who why)
  then show ?case
  proof (cases rule: reject_cases [of fn dr i who why x])
    case (rejected d det)
    then show ?thesis by (auto simp: xm_extends_def decisions_of_def add_decision_def xm_audit_def dget_default_def)
  qed auto
next
  case (xm_revokes x dr i who why)
  show ?case unfolding xm_extends_def using revoke_state by auto
qed

text \<open>Adding a decision that is in order, or a task, keeps the manager in order.\<close>

lemma exceptions_ok_grow:
  assumes ok: "exceptions_ok x" and ext: "xm_extends x y" and same: "xm_requests y = xm_requests x"
    and new: "\<And>i d. d \<in> set (decisions_of y i) \<Longrightarrow> d \<notin> set (decisions_of x i) \<Longrightarrow> decision_ok y i d"
  shows "exceptions_ok y"
  unfolding exceptions_ok_def same
proof (intro conjI allI ballI)
  show "dict_wf (xm_requests x)" using ok by (simp add: exceptions_ok_def)
  show "dget (xm_requests x) i = Some q \<longrightarrow> xq_exception_id q = i" for i q
    using ok unfolding exceptions_ok_def by blast
  show "decision_ok y i d" if "d \<in> set (decisions_of y i)" for i d
    using ok ext new that decision_ok_extends unfolding exceptions_ok_def by blast
qed

lemma xm_step_ok:
  assumes "xm_step fn x y" and ok: "exceptions_ok x"
  shows "exceptions_ok y"
  using assms(1) xm_step_extends [OF assms(1)]
proof (cases rule: xm_step.cases)
  case (xm_submits q gd tenant dr)
  show ?thesis
  proof (cases rule: submit_exception_cases [of fn gd tenant dr q x])
    case (refused g)
    have "decisions_of y i = decisions_of x i" "xm_requests y = xm_requests x" for i
      unfolding xm_submits(1) refused by (simp_all add: decisions_of_def)
    with exceptions_ok_grow [OF ok xm_step_extends [OF assms(1)]] show ?thesis by metis
  next
    case (accepted g)
    have r: "xm_requests y = dput (xq_exception_id q) q (xm_requests x)" and d: "decisions_of y i = decisions_of x i" for i
      unfolding xm_submits(1) accepted by (simp_all add: decisions_of_def)
    have "decision_ok y i d'" if "d' \<in> set (decisions_of x i)" for i d'
      using that ok decision_ok_extends [OF _ xm_step_extends [OF assms(1)]] unfolding exceptions_ok_def by blast
    then show ?thesis using ok by (simp add: exceptions_ok_def r d)
  qed
next
  case (xm_approves dr i who why conds)
  show ?thesis
  proof (cases rule: approve_cases [of fn dr i who why conds x])
    case same
    with ok xm_approves show ?thesis by simp
  next
    case (tasked q t)
    have "decisions_of y k = decisions_of x k" "xm_requests y = xm_requests x" for k
      unfolding xm_approves tasked by (simp_all add: decisions_of_def)
    with exceptions_ok_grow [OF ok xm_step_extends [OF assms(1)]] show ?thesis by metis
  next
    case (approved q t d det)
    have y: "xm_requests y = xm_requests x" "xm_review_tasks y = xm_review_tasks x @ [t]"
      "decisions_of y k = (if k = i then decisions_of x k @ [d] else decisions_of x k)" for k
      unfolding xm_approves approved(10) using approved(7) by simp_all (simp_all add: decisions_of_def)
    have "decision_ok y i d"
      using approved unfolding decision_ok_def reviewed_def y by auto
    then show ?thesis
      by (intro exceptions_ok_grow [OF ok xm_step_extends [OF assms(1)] y(1)]) (auto simp: y(3) split: if_splits)
  qed
next
  case (xm_rejects dr i who why)
  show ?thesis
  proof (cases rule: reject_cases [of fn dr i who why x])
    case same
    with ok xm_rejects show ?thesis by simp
  next
    case (rejected d det)
    have y: "xm_requests y = xm_requests x"
      "decisions_of y k = (if k = i then decisions_of x k @ [d] else decisions_of x k)" for k
      unfolding xm_rejects rejected(6) using rejected(3) by simp_all
    have "decision_ok y i d"
      using rejected unfolding decision_ok_def y by auto
    then show ?thesis
      by (intro exceptions_ok_grow [OF ok xm_step_extends [OF assms(1)] y(1)]) (auto simp: y(2) split: if_splits)
  qed
next
  case (xm_revokes dr i who why)
  have "decisions_of y k = decisions_of x k" "xm_requests y = xm_requests x" for k
    unfolding xm_revokes using revoke_state by metis+
  with exceptions_ok_grow [OF ok xm_step_extends [OF assms(1)]] show ?thesis by metis
qed

lemma xm_steps_extend: "(xm_step fn)\<^sup>*\<^sup>* x y \<Longrightarrow> xm_extends x y"
  by (induction rule: rtranclp_induct) (auto intro: xm_extends_trans xm_step_extends)

lemma xm_steps_ok: "(xm_step fn)\<^sup>*\<^sup>* x y \<Longrightarrow> exceptions_ok x \<Longrightarrow> exceptions_ok y"
  by (induction rule: rtranclp_induct) (auto intro: xm_step_ok)

lemma exceptions_ok_new: "exceptions_ok (new_exception_manager gate)"
  by (simp add: exceptions_ok_def new_exception_manager_def decisions_of_def dget_default_def)

lemma active_iff:
  assumes "exceptions_ok x"
  shows "q \<in> set (get_active_exceptions now x) \<longleftrightarrow>
    dget (xm_requests x) (xq_exception_id q) = Some q \<and> now < xq_expires_at q \<and>
    (\<exists>d\<in>set (decisions_of x (xq_exception_id q)). xd_decision d = XS_APPROVED)"
proof -
  have "q \<in> set (dvalues (xm_requests x)) \<longleftrightarrow> dget (xm_requests x) (xq_exception_id q) = Some q"
    using assms dict_wf_values [of "xm_requests x"] unfolding exceptions_ok_def by blast
  then show ?thesis by (auto simp: get_active_exceptions_def list_ex_iff simp del: set_map)
qed

section \<open>Properties\<close>

text \<open>With a gate under a table of policies, an exception request is registered exactly when the policy
  admits the requester's action; a blocked request registers nothing and leaves no trace in the audit
  ledger, and a registered one leaves one entry.\<close>

theorem exception_requests_gated:
  "case submit_exception fn gd tenant dr q (x\<lparr>xm_gate := gate_under P g\<rparr>) of (r, x') \<Rightarrow>
     if admissible_submission P (exception_submission fn q)
     then r = Inr q \<and> xm_requests x' = dput (xq_exception_id q) q (xm_requests x) \<and>
          length (xm_audit_ledger x') = Suc (length (xm_audit_ledger x))
     else isl r \<and> xm_requests x' = xm_requests x \<and> xm_audit_ledger x' = xm_audit_ledger x"
proof -
  obtain r g' where s: "submit fn gd tenant None (exception_submission fn q) (gate_under P g) = (Inr r, g')"
    "ds_status r = DS_BLOCKED \<longleftrightarrow> \<not> admissible_submission P (exception_submission fn q)"
    using submit_decides [of fn gd tenant None "exception_submission fn q" P g] by (auto split: if_splits)
  then show ?thesis by (simp add: submit_exception_def xm_audit_def Let_def)
qed


text \<open>An exception once in force stays in force until it expires, whatever is done to it: no rejection
  and no revocation, in any order and number, takes it back, although they are recorded and the
  ledger keeps every entry.\<close>

theorem exception_not_revocable:
  assumes "(xm_step fn)\<^sup>*\<^sup>* (new_exception_manager gate) x" and "(xm_step fn)\<^sup>*\<^sup>* x y"
    and "q \<in> set (get_active_exceptions now x)" and "later < xq_expires_at q"
  shows "q \<in> set (get_active_exceptions later y) \<and> (\<exists>new. xm_audit_ledger y = xm_audit_ledger x @ new)"
proof -
  have ok: "exceptions_ok x" "exceptions_ok y"
    using xm_steps_ok [OF assms(1) exceptions_ok_new] xm_steps_ok [OF assms(2)] by blast+
  have ext: "xm_extends x y" by (rule xm_steps_extend [OF assms(2)])
  then have "dget (xm_requests y) (xq_exception_id q) = Some q \<and>
      (\<exists>d\<in>set (decisions_of y (xq_exception_id q)). xd_decision d = XS_APPROVED)"
    using assms(3) unfolding active_iff [OF ok(1)] xm_extends_def by blast
  with ext assms(4) show ?thesis unfolding active_iff [OF ok(2)] xm_extends_def by simp
qed

text \<open>An approval refused for its short rationale has already filed its review task: the manager keeps
  an open task that no decision refers to, and reports it as overdue when the request has expired.\<close>

theorem refused_approval_leaves_task:
  "case dget (xm_requests x) i of
     None \<Rightarrow> approve_exception fn dr i who why conds x = (Inl (ExceptionNotFound i), x)
   | Some q \<Rightarrow>
       if xw_checked_at dr \<le> xq_expires_at q \<and> length why < 20
       then fst (approve_exception fn dr i who why conds x) = Inl (ValidationRefused ''decision_rationale'') \<and>
            xm_decisions (snd (approve_exception fn dr i who why conds x)) = xm_decisions x \<and>
            (if xq_expires_at q < now
             then length (get_expired_unreviewed now (snd (approve_exception fn dr i who why conds x))) =
                  Suc (length (get_expired_unreviewed now x))
             else True)
       else True"
  by (simp add: approve_exception_def make_decision_def get_expired_unreviewed_def Let_def split: option.split)

section \<open>A history\<close>

definition sample_request_x :: exception_request where
  "sample_request_x = xq_compute_hash sample_fns
     \<lparr>xq_exception_id = ''x1'', xq_exception_type = XT_EMERGENCY_OVERRIDE, xq_requested_by = ''ann'',
      xq_justification = replicate 50 (CHR ''j''), xq_affected_object_ids = [''o1''],
      xq_affected_action_type = ''deploy'', xq_policy_context_id = ''p1'', xq_compensating_controls = [],
      xq_expires_at = 100, xq_risk_assessment = XR_HIGH, xq_requested_at = 1, xq_request_hash = []\<rparr>"

definition sample_draws_x :: exception_draws where
  "sample_draws_x = \<lparr>xw_entry_id = ''e'', xw_decision_id = ''d'', xw_task_id = ''t'', xw_checked_at = 2,
     xw_decided_at = 3, xw_occurred_at = 4\<rparr>"

definition sample_approved :: exception_manager where
  "sample_approved = snd (approve_exception sample_fns sample_draws_x ''x1'' ''bob'' ''approved for the outage'' None
     (snd (submit_exception sample_fns sample_gate_draws ''t'' sample_draws_x sample_request_x
       (new_exception_manager (new_platform_gate None None (new_metering_engine False))))))"

definition sample_revoked :: exception_manager where
  "sample_revoked = snd (revoke_exception sample_fns sample_draws_x ''x1'' ''eve'' ''no longer needed'' sample_approved)"

lemma sample_approved_steps:
  "(xm_step sample_fns)\<^sup>*\<^sup>*
     (new_exception_manager (new_platform_gate None None (new_metering_engine False))) sample_approved"
proof -
  let ?new = "new_exception_manager (new_platform_gate None None (new_metering_engine False))"
  have "dget (xm_requests ?new) (xq_exception_id sample_request_x) = None"
    by (simp add: new_exception_manager_def)
  from rtranclp.rtrancl_into_rtrancl [OF r_into_rtranclp [of "xm_step sample_fns", OF xm_submits [OF this]] xm_approves]
  show ?thesis unfolding sample_approved_def .
qed


theorem exception_not_revocable_witness:
  "sample_request_x \<in> set (get_active_exceptions 50 sample_revoked) \<and>
   map xa_event_type (xm_audit_ledger sample_revoked) = [''submitted'', ''approved'', ''revoked'']"
proof -
  have "(xm_step sample_fns)\<^sup>*\<^sup>* sample_approved sample_revoked"
    unfolding sample_revoked_def by (rule r_into_rtranclp, rule xm_revokes)
  moreover have "sample_request_x \<in> set (get_active_exceptions 5 sample_approved)"
    "50 < xq_expires_at sample_request_x" by code_simp+
  ultimately have "sample_request_x \<in> set (get_active_exceptions 50 sample_revoked)"
    using exception_not_revocable [OF sample_approved_steps] by blast
  moreover have "map xa_event_type (xm_audit_ledger sample_revoked) = [''submitted'', ''approved'', ''revoked'']"
    by code_simp
  ultimately show ?thesis by blast
qed

end
