(* ===== verification/Object_Registry.thy ===== *)
theory Object_Registry
  imports Release_Gate_Props Graph_Search_Props
begin

text \<open>
  The object registry of the platform, \<^verbatim>\<open>app/core/registry/domain_types.py\<close>, \<^verbatim>\<open>schema_registry.py\<close>
  and \<^verbatim>\<open>object_registry.py\<close>: schema namespaces, the canonical store of control objects with its
  indices, the version history and the event log. Objects are values: a caller passes a copy, as
  \<open>transition_to\<close> makes one. A snapshot is the object itself. Drawn identifiers and the clock are
  arguments; \<open>pf_sha\<close>, \<open>pf_iso\<close> and \<open>pf_render\<close> are those of the platform chain.
\<close>

section \<open>Schema namespaces\<close>

record schema_namespace =
  sn_name :: string
  sn_version :: string
  sn_domain_pack :: string
  sn_object_type :: node_type
  sn_required_attributes :: "string list"
  sn_optional_attributes :: "string list"
  sn_description :: string
  sn_is_core :: bool

record schema_registry =
  sg_namespaces :: "(string, schema_namespace) dict"
  sg_type_index :: "(string, string list) dict"

datatype schema_error =
    NamespaceRegistered string
  | NamespaceNotFound string
  | MissingAttributes string "string list"

definition namespace_key :: "string \<Rightarrow> string \<Rightarrow> string" where
  "namespace_key nm version = nm @ '':'' @ version"

definition core_namespace ::
  "node_type \<Rightarrow> string list \<Rightarrow> string list \<Rightarrow> string \<Rightarrow> schema_namespace" where
  "core_namespace ty required optional description =
     \<lparr>sn_name = ''core'', sn_version = ''1.0.0'', sn_domain_pack = ''core'', sn_object_type = ty,
      sn_required_attributes = required, sn_optional_attributes = optional,
      sn_description = description, sn_is_core = True\<rparr>"

definition core_namespaces :: "schema_namespace list" where
  "core_namespaces =
     [core_namespace NT_RISK_CONTROL [''risk_rating''] [''owner'', ''review_date'']
        ''Core risk control schema'',
      core_namespace NT_COMPLIANCE_REQUIREMENT [''regulation_ref''] [''article'', ''clause'']
        ''Core compliance requirement schema'',
      core_namespace NT_REGULATORY_MANDATE [''regulation_name'', ''jurisdiction'']
        [''effective_date'', ''enforcement_body''] ''Core regulatory mandate schema'',
      core_namespace NT_TECHNICAL_CONTROL [''control_category''] [''implementation_status'', ''owner'']
        ''Core technical control schema'',
      core_namespace NT_VULNERABILITY [''cvss_score''] [''cve_id'', ''affected_systems'']
        ''Core vulnerability schema'',
      core_namespace NT_SECURITY_CONTROL [''control_family''] [''nist_mapping'', ''owner'']
        ''Core security control schema'']"

definition seed_namespace :: "schema_namespace \<Rightarrow> schema_registry \<Rightarrow> schema_registry" where
  "seed_namespace ns s =
     (let key = namespace_key (sn_name ns) (sn_version ns)
      in s\<lparr>sg_namespaces := dput key ns (sg_namespaces s),
           sg_type_index := idx_append (node_type_value (sn_object_type ns)) key (sg_type_index s)\<rparr>)"

definition new_schema_registry :: schema_registry where
  "new_schema_registry =
     foldl (\<lambda>s ns. seed_namespace ns s) \<lparr>sg_namespaces = [], sg_type_index = []\<rparr> core_namespaces"

definition sg_register :: "schema_namespace \<Rightarrow> schema_registry \<Rightarrow> (schema_error, schema_registry, unit) res" where
  "sg_register ns s =
     (let key = namespace_key (sn_name ns) (sn_version ns)
      in if key \<in> set (dkeys (sg_namespaces s)) then (Inl (NamespaceRegistered key), s)
         else (Inr (), seed_namespace ns s))"

definition sg_get :: "schema_registry \<Rightarrow> string \<Rightarrow> string \<Rightarrow> schema_namespace option" where
  "sg_get s nm version = dget (sg_namespaces s) (namespace_key nm version)"

definition get_for_type :: "schema_registry \<Rightarrow> node_type \<Rightarrow> schema_namespace list" where
  "get_for_type s ty = List.map_filter (dget (sg_namespaces s)) (idx (sg_type_index s) (node_type_value ty))"

definition validate_attributes ::
  "schema_registry \<Rightarrow> string \<Rightarrow> string \<Rightarrow> (string, json) dict \<Rightarrow> schema_error + unit" where
  "validate_attributes s nm version attributes =
     (case sg_get s nm version of
        None \<Rightarrow> Inl (NamespaceNotFound (namespace_key nm version))
      | Some ns \<Rightarrow>
          let missing = filter (\<lambda>a. a \<notin> set (dkeys attributes)) (sn_required_attributes ns)
          in if missing \<noteq> [] then Inl (MissingAttributes nm missing) else Inr ())"

section \<open>Versions and events\<close>

record version_record =
  vn_record_id :: string
  vn_object_id :: string
  vn_version :: int
  vn_object_hash :: string
  vn_state :: string
  vn_changed_by :: string
  vn_change_reason :: fstr
  vn_recorded_at :: time
  vn_snapshot :: gnode
  vn_record_hash :: string

definition record_digest :: "platform_fns \<Rightarrow> version_record \<Rightarrow> string" where
  "record_digest fn v =
     pf_sha fn (vn_object_id v @ pf_render fn [NumI (vn_version v)] @ vn_object_hash v @ vn_state v @
       pf_iso fn (vn_recorded_at v))"

record registry_event =
  rgv_event_id :: string
  rgv_event_type :: string
  rgv_object_id :: string
  rgv_object_type :: string
  rgv_performed_by :: string
  rgv_event_detail :: fstr
  rgv_occurred_at :: time
  rgv_event_hash :: string

section \<open>The registry\<close>

record object_registry =
  rg_objects :: "(string, gnode) dict"
  rg_version_history :: "(string, version_record list) dict"
  rg_events :: "registry_event list"
  rg_schema_registry :: schema_registry
  rg_plane_index :: "(string, string list) dict"
  rg_type_index :: "(string, string list) dict"
  rg_tag_index :: "(string, string list) dict"

definition new_object_registry :: object_registry where
  "new_object_registry =
     \<lparr>rg_objects = [], rg_version_history = [], rg_events = [], rg_schema_registry = new_schema_registry,
      rg_plane_index = [], rg_type_index = [], rg_tag_index = []\<rparr>"

text \<open>What one operation draws.\<close>

record registry_draws =
  rw_record_id :: string
  rw_event_id :: string
  rw_state_event_id :: string
  rw_updated_at :: time
  rw_recorded_at :: time
  rw_occurred_at :: time
  rw_state_occurred_at :: time

datatype registry_error =
    AlreadyRegistered string
  | ObjectUnknown string
  | VersionMismatch int int
  | TransitionBlocked string "string option"
  | TransitionInvalid fstr
  | RegistryGateRaised string

type_synonym 'a rg_result = "(registry_error, object_registry, 'a) res"

text \<open>The schema is checked and a violation is swallowed.\<close>

definition rg_validate_schema :: "gnode \<Rightarrow> object_registry \<Rightarrow> unit" where
  "rg_validate_schema obj r =
     (case validate_attributes (rg_schema_registry r) (nd_schema_namespace obj) ''1.0.0'' (nd_attributes obj) of
        Inl e \<Rightarrow> () | Inr u \<Rightarrow> u)"

definition idx_enter :: "string \<Rightarrow> string \<Rightarrow> (string, string list) dict \<Rightarrow> (string, string list) dict" where
  "idx_enter k i ix = (if i \<in> set (idx ix k) then dput k (idx ix k) ix else idx_append k i ix)"

definition update_indices :: "gnode \<Rightarrow> object_registry \<Rightarrow> object_registry" where
  "update_indices obj r =
     r\<lparr>rg_plane_index := idx_enter (nd_operational_plane obj) (nd_object_id obj) (rg_plane_index r),
       rg_type_index := idx_enter (node_type_value (nd_object_type obj)) (nd_object_id obj) (rg_type_index r),
       rg_tag_index := foldl (\<lambda>ix tag. idx_enter tag (nd_object_id obj) ix) (rg_tag_index r) (nd_tags obj)\<rparr>"

definition remove_from_indices :: "gnode \<Rightarrow> object_registry \<Rightarrow> object_registry" where
  "remove_from_indices obj r =
     (if nd_operational_plane obj \<in> set (dkeys (rg_plane_index r))
      then r\<lparr>rg_plane_index := dput (nd_operational_plane obj)
               (filter (\<lambda>oid. oid \<noteq> nd_object_id obj) (idx (rg_plane_index r) (nd_operational_plane obj)))
               (rg_plane_index r)\<rparr>
      else r)"

definition version_of :: "platform_fns \<Rightarrow> registry_draws \<Rightarrow> gnode \<Rightarrow> string \<Rightarrow> fstr \<Rightarrow> version_record" where
  "version_of fn dr obj changed_by reason =
     (let v = \<lparr>vn_record_id = rw_record_id dr, vn_object_id = nd_object_id obj, vn_version = nd_version obj,
            vn_object_hash = nd_object_hash obj, vn_state = node_state_value (nd_state obj),
            vn_changed_by = changed_by, vn_change_reason = reason, vn_recorded_at = rw_recorded_at dr,
            vn_snapshot = obj, vn_record_hash = []\<rparr>
      in v\<lparr>vn_record_hash := record_digest fn v\<rparr>)"

definition record_version ::
  "platform_fns \<Rightarrow> registry_draws \<Rightarrow> gnode \<Rightarrow> string \<Rightarrow> fstr \<Rightarrow> object_registry \<Rightarrow> object_registry" where
  "record_version fn dr obj changed_by reason r =
     r\<lparr>rg_version_history := dput (nd_object_id obj)
         (idx (rg_version_history r) (nd_object_id obj) @ [version_of fn dr obj changed_by reason])
         (rg_version_history r)\<rparr>"

definition rg_emit ::
  "platform_fns \<Rightarrow> string \<Rightarrow> time \<Rightarrow> string \<Rightarrow> gnode \<Rightarrow> string \<Rightarrow> fstr \<Rightarrow> object_registry \<Rightarrow> object_registry" where
  "rg_emit fn event_id now event_type obj performed_by detail r =
     r\<lparr>rg_events := rg_events r @
         [\<lparr>rgv_event_id = event_id, rgv_event_type = event_type, rgv_object_id = nd_object_id obj,
           rgv_object_type = node_type_value (nd_object_type obj), rgv_performed_by = performed_by,
           rgv_event_detail = detail, rgv_occurred_at = now,
           rgv_event_hash = pf_sha fn (event_id @ event_type @ nd_object_id obj @ performed_by @ pf_iso fn now)\<rparr>]\<rparr>"

definition state_arrow :: frag where
  "state_arrow = Lit [CHR 0xE2, CHR 0x86, CHR 0x92]"

definition rg_register ::
  "platform_fns \<Rightarrow> registry_draws \<Rightarrow> gnode \<Rightarrow> string \<Rightarrow> string \<Rightarrow> object_registry \<Rightarrow> gnode rg_result" where
  "rg_register fn dr obj registered_by reason r =
     (if nd_object_id obj \<in> set (dkeys (rg_objects r))
      then (Inl (AlreadyRegistered (nd_object_id obj)), r)
      else
        let _ = rg_validate_schema obj r;
            r = r\<lparr>rg_objects := dput (nd_object_id obj) obj (rg_objects r)\<rparr>;
            r = update_indices obj r;
            r = record_version fn dr obj registered_by [Lit reason] r;
            r = rg_emit fn (rw_event_id dr) (rw_occurred_at dr) ''registered'' obj registered_by
                  [Lit ''Registered: '', Lit reason] r
        in (Inr obj, r))"

definition rg_update ::
  "platform_fns \<Rightarrow> registry_draws \<Rightarrow> gnode \<Rightarrow> string \<Rightarrow> fstr \<Rightarrow> object_registry \<Rightarrow> gnode rg_result" where
  "rg_update fn dr obj updated_by reason r =
     (case dget (rg_objects r) (nd_object_id obj) of
        None \<Rightarrow> (Inl (ObjectUnknown (nd_object_id obj)), r)
      | Some old \<Rightarrow>
          let _ = rg_validate_schema obj r
          in if nd_version obj \<noteq> nd_version old + 1
             then (Inl (VersionMismatch (nd_version old + 1) (nd_version obj)), r)
             else
               let r = remove_from_indices old r;
                   r = r\<lparr>rg_objects := dput (nd_object_id obj) obj (rg_objects r)\<rparr>;
                   r = update_indices obj r;
                   r = record_version fn dr obj updated_by reason r;
                   r = rg_emit fn (rw_event_id dr) (rw_occurred_at dr) ''updated'' obj updated_by
                         ([Lit ''Updated v'', NumI (nd_version old), state_arrow, Lit ''v'',
                           NumI (nd_version obj), Lit '': ''] @ reason) r
               in (Inr obj, r))"

definition transition_submission :: "gnode \<Rightarrow> string \<Rightarrow> node_state \<Rightarrow> string \<Rightarrow> string \<Rightarrow> submission" where
  "transition_submission current object_id new_state transitioned_by reason =
     \<lparr>sb_action_type = ''state_transition'',
      sb_proposed_payload =
        [(''object_id'', JStr object_id), (''current_state'', JStr (node_state_value (nd_state current))),
         (''target_state'', JStr (node_state_value new_state)), (''reason'', JStr reason)],
      sb_requested_by = transitioned_by, sb_origin = HUMAN_OPERATOR,
      sb_evidence_references = Some [nd_object_hash current], sb_provenance_chain = Some [object_id]\<rparr>"

text \<open>The part of a transition after the gate has let it pass.\<close>

definition apply_transition ::
  "platform_fns \<Rightarrow> registry_draws \<Rightarrow> gnode \<Rightarrow> node_state \<Rightarrow> string \<Rightarrow> string \<Rightarrow> object_registry \<Rightarrow> gnode rg_result" where
  "apply_transition fn dr current new_state transitioned_by reason r =
     (case transition_to new_state (rw_updated_at dr) current of
        Inl e \<Rightarrow> (Inl (TransitionInvalid e), r)
      | Inr new_obj \<Rightarrow>
          (case rg_update fn dr new_obj transitioned_by
                  [Lit ''State transition: '', Lit (node_state_str (nd_state current)), state_arrow,
                   Lit (node_state_str new_state), Lit '': '', Lit reason] r of
             (Inl e, r) \<Rightarrow> (Inl e, r)
           | (Inr _, r) \<Rightarrow>
               (Inr new_obj, rg_emit fn (rw_state_event_id dr) (rw_state_occurred_at dr) ''state_changed''
                  new_obj transitioned_by
                  [Lit (node_state_str (nd_state current)), state_arrow, Lit (node_state_str new_state)] r)))"

definition rg_transition_state ::
  "platform_fns \<Rightarrow> gate_draws \<Rightarrow> string \<Rightarrow> registry_draws \<Rightarrow> string \<Rightarrow> node_state \<Rightarrow> string \<Rightarrow> string
     \<Rightarrow> platform_gate option \<Rightarrow> object_registry
     \<Rightarrow> (registry_error, object_registry \<times> platform_gate option, gnode) res" where
  "rg_transition_state fn gd tenant dr object_id new_state transitioned_by reason gate r =
     (case dget (rg_objects r) object_id of
        None \<Rightarrow> (Inl (ObjectUnknown object_id), (r, gate))
      | Some current \<Rightarrow>
          let go = (\<lambda>gate. case apply_transition fn dr current new_state transitioned_by reason r of
                (out, r) \<Rightarrow> (out, (r, gate)))
          in case gate of
               None \<Rightarrow> go None
             | Some gt \<Rightarrow>
                 (case submit fn gd tenant None
                         (transition_submission current object_id new_state transitioned_by reason) gt of
                    (Inl err, gt) \<Rightarrow> (Inl (RegistryGateRaised err), (r, Some gt))
                  | (Inr res, gt) \<Rightarrow>
                      if ds_status res = DS_BLOCKED
                      then (Inl (TransitionBlocked object_id (ds_failure_reason res)), (r, Some gt))
                      else go (Some gt)))"

definition rg_get :: "object_registry \<Rightarrow> string \<Rightarrow> gnode option" where
  "rg_get r object_id = dget (rg_objects r) object_id"

definition get_version_history :: "object_registry \<Rightarrow> string \<Rightarrow> version_record list" where
  "get_version_history r object_id = idx (rg_version_history r) object_id"

definition rg_get_by_plane :: "object_registry \<Rightarrow> string \<Rightarrow> gnode list" where
  "rg_get_by_plane r plane = List.map_filter (dget (rg_objects r)) (idx (rg_plane_index r) plane)"

definition rg_get_by_type :: "object_registry \<Rightarrow> node_type \<Rightarrow> gnode list" where
  "rg_get_by_type r ty = List.map_filter (dget (rg_objects r)) (idx (rg_type_index r) (node_type_value ty))"

definition rg_get_active :: "object_registry \<Rightarrow> gnode list" where
  "rg_get_active r = filter node_is_active (dvalues (rg_objects r))"

definition verify_history_integrity :: "platform_fns \<Rightarrow> object_registry \<Rightarrow> bool" where
  "verify_history_integrity fn r =
     list_all (list_all (\<lambda>v. vn_record_hash v = record_digest fn v)) (dvalues (rg_version_history r))"

end
