(* ===== verification/Object_Registry_Props.thy ===== *)
theory Object_Registry_Props
  imports Object_Registry
begin

text \<open>
  What the object registry promises: the version history of every object is linear, ends in the
  stored object and is only ever extended, the plane index is exact, and a transition goes through
  the release gate and the lifecycle. And what its schema registry does with the core schemas.
\<close>

section \<open>The core schemas\<close>

text \<open>The six core schemas share one key, so only the last survives: whatever the type asked for, the
  schema found is that of security controls, and attributes are valid for the core namespace exactly
  when they name a control family.\<close>

theorem core_schemas_collapse:
  "dkeys (sg_namespaces new_schema_registry) = [''core:1.0.0''] \<and>
   map (\<lambda>ns. map sn_object_type (get_for_type new_schema_registry (sn_object_type ns))) core_namespaces =
     replicate 6 [NT_SECURITY_CONTROL] \<and>
   validate_attributes new_schema_registry ''core'' ''1.0.0'' attributes =
     (if ''control_family'' \<in> set (dkeys attributes) then Inr ()
      else Inl (MissingAttributes ''core'' [''control_family'']))"
proof -
  have keys: "dkeys (sg_namespaces new_schema_registry) = [''core:1.0.0'']" by code_simp
  have types: "map (\<lambda>ns. map sn_object_type (get_for_type new_schema_registry (sn_object_type ns))) core_namespaces =
     replicate 6 [NT_SECURITY_CONTROL]" by code_simp
  have "map_option sn_required_attributes (sg_get new_schema_registry ''core'' ''1.0.0'') = Some [''control_family'']"
    by code_simp
  then obtain ns where "sg_get new_schema_registry ''core'' ''1.0.0'' = Some ns"
    "sn_required_attributes ns = [''control_family'']" by auto
  then have "validate_attributes new_schema_registry ''core'' ''1.0.0'' attributes =
     (if ''control_family'' \<in> set (dkeys attributes) then Inr ()
      else Inl (MissingAttributes ''core'' [''control_family'']))"
    by (simp add: validate_attributes_def Let_def del: set_map)
  with keys types show ?thesis by blast
qed

section \<open>Reachable registries\<close>

inductive rg_step :: "platform_fns \<Rightarrow> object_registry \<Rightarrow> object_registry \<Rightarrow> bool" for fn where
  rg_registers: "rg_step fn r (snd (rg_register fn dr obj who why r))"
| rg_updates: "rg_step fn r (snd (rg_update fn dr obj who reason r))"
| rg_transitions: "rg_step fn r (fst (snd (rg_transition_state fn gd tenant dr i st who why gate r)))"

text \<open>A history: consecutive versions of one object, each sealed with its hash, ending in the object.\<close>

definition history_ok :: "platform_fns \<Rightarrow> string \<Rightarrow> gnode option \<Rightarrow> version_record list \<Rightarrow> bool" where
  "history_ok fn i cur vs \<longleftrightarrow>
     (case cur of
        None \<Rightarrow> vs = []
      | Some obj \<Rightarrow> vs \<noteq> [] \<and> vn_snapshot (last vs) = obj \<and>
          map vn_version vs = map (\<lambda>k. nd_version obj - int (length vs) + 1 + int k) [0..<length vs] \<and>
          list_all (\<lambda>v. vn_object_id v = i \<and> vn_record_hash v = record_digest fn v) vs)"

definition registry_ok :: "platform_fns \<Rightarrow> object_registry \<Rightarrow> bool" where
  "registry_ok fn r \<longleftrightarrow> nodes_ok (rg_objects r) \<and> dict_wf (rg_version_history r) \<and>
     index_ok nd_operational_plane (rg_objects r) (rg_plane_index r) \<and>
     (\<forall>i. history_ok fn i (rg_get r i) (get_version_history r i))"

lemma history_ok_first: "history_ok fn (nd_object_id obj) (Some obj) [version_of fn dr obj who why]"
  by (simp add: history_ok_def version_of_def record_digest_def Let_def)

lemma history_ok_next:
  assumes "history_ok fn (nd_object_id obj) (Some old) vs" and "nd_version obj = nd_version old + 1"
  shows "history_ok fn (nd_object_id obj) (Some obj) (vs @ [version_of fn dr obj who why])"
proof -
  let ?v = "version_of fn dr obj who why"
  have v: "vn_version ?v = nd_version obj" "vn_snapshot ?v = obj" "vn_object_id ?v = nd_object_id obj"
    "vn_record_hash ?v = record_digest fn ?v"
    by (simp_all add: version_of_def record_digest_def Let_def)
  have "map vn_version vs = map (\<lambda>k. nd_version obj - int (length (vs @ [?v])) + 1 + int k) [0..<length vs]"
    using assms by (simp add: history_ok_def algebra_simps)
  with assms(1) v show ?thesis by (simp add: history_ok_def)
qed

text \<open>The plane index follows an object that enters, stays or moves.\<close>

lemma index_ok_enter:
  assumes "index_ok sel d ix" and "dget d i = None"
  shows "index_ok sel (dput i v d) (idx_enter (sel v) i ix)"
proof -
  have "i \<notin> set (idx ix (sel v))" using assms by (simp add: index_okD)
  then show ?thesis using index_ok_append [OF assms] by (simp add: idx_enter_def)
qed

lemma index_ok_reenter:
  assumes ix: "index_ok sel d ix" and old: "dget d i = Some old"
  shows "index_ok sel (dput i v d)
    (idx_enter (sel v) i (dput (sel old) (filter (\<lambda>j. j \<noteq> i) (idx ix (sel old))) ix))"
proof -
  let ?ix = "dput (sel old) (filter (\<lambda>j. j \<noteq> i) (idx ix (sel old))) ix"
  have out: "i \<notin> set (idx ?ix (sel v))" using old by (auto simp: index_okD [OF ix])
  show ?thesis
    unfolding index_ok_def
  proof (intro conjI allI)
    show "j \<in> set (idx (idx_enter (sel v) i ?ix) x) \<longleftrightarrow> (\<exists>w. dget (dput i v d) j = Some w \<and> sel w = x)" for x j
      using out old by (auto simp: idx_enter_def index_okD(1) [OF ix])
    show "distinct (idx (idx_enter (sel v) i ?ix) x)" for x
      using out by (auto simp: idx_enter_def index_okD(2) [OF ix])
  qed
qed

lemma update_indices_simps [simp]:
  "rg_objects (update_indices obj r) = rg_objects r"
  "rg_version_history (update_indices obj r) = rg_version_history r"
  "rg_events (update_indices obj r) = rg_events r"
  "rg_plane_index (update_indices obj r) = idx_enter (nd_operational_plane obj) (nd_object_id obj) (rg_plane_index r)"
  by (simp_all add: update_indices_def)

lemma remove_from_indices_simps [simp]:
  "rg_objects (remove_from_indices obj r) = rg_objects r"
  "rg_version_history (remove_from_indices obj r) = rg_version_history r"
  "rg_events (remove_from_indices obj r) = rg_events r"
  by (simp_all add: remove_from_indices_def)

lemma record_version_simps [simp]:
  "rg_objects (record_version fn dr obj who why r) = rg_objects r"
  "rg_plane_index (record_version fn dr obj who why r) = rg_plane_index r"
  "rg_events (record_version fn dr obj who why r) = rg_events r"
  "rg_version_history (record_version fn dr obj who why r) =
     dput (nd_object_id obj) (get_version_history r (nd_object_id obj) @ [version_of fn dr obj who why])
       (rg_version_history r)"
  by (simp_all add: record_version_def get_version_history_def)

lemma rg_emit_simps [simp]:
  "rg_objects (rg_emit fn e now ty obj who det r) = rg_objects r"
  "rg_plane_index (rg_emit fn e now ty obj who det r) = rg_plane_index r"
  "rg_version_history (rg_emit fn e now ty obj who det r) = rg_version_history r"
  "length (rg_events (rg_emit fn e now ty obj who det r)) = Suc (length (rg_events r))"
  "\<exists>new. rg_events (rg_emit fn e now ty obj who det r) = rg_events r @ new"
  by (simp_all add: rg_emit_def)

lemma registry_ok_emit: "registry_ok fn (rg_emit fn e now ty obj who det r) = registry_ok fn r"
  by (simp add: registry_ok_def rg_get_def get_version_history_def)

text \<open>The three outcomes of a write.\<close>

lemma register_cases:
  obtains (refused) "rg_register fn dr obj who why r = (Inl (AlreadyRegistered (nd_object_id obj)), r)"
      "rg_get r (nd_object_id obj) \<noteq> None"
  | (entered) r' where "rg_register fn dr obj who why r = (Inr obj, r')" "rg_get r (nd_object_id obj) = None"
      "rg_objects r' = dput (nd_object_id obj) obj (rg_objects r)"
      "rg_plane_index r' = idx_enter (nd_operational_plane obj) (nd_object_id obj) (rg_plane_index r)"
      "rg_version_history r' = dput (nd_object_id obj)
         (get_version_history r (nd_object_id obj) @ [version_of fn dr obj who [Lit why]]) (rg_version_history r)"
      "length (rg_events r') = Suc (length (rg_events r))" "\<exists>new. rg_events r' = rg_events r @ new"
proof (cases "rg_get r (nd_object_id obj)")
  case None
  then have "nd_object_id obj \<notin> set (dkeys (rg_objects r))"
    by (simp add: rg_get_def dget_None_iff del: set_map)
  with None show thesis
    by (intro entered [OF _ None])
      (auto simp: rg_register_def Let_def get_version_history_def rg_emit_def simp del: set_map)
next
  case (Some old)
  then have "nd_object_id obj \<in> set (dkeys (rg_objects r))"
    unfolding rg_get_def by (metis dget_None_iff option.distinct(1))
  with Some show thesis by (intro refused) (auto simp: rg_register_def simp del: set_map)
qed

lemma update_cases:
  obtains (refused) e where "rg_update fn dr obj who reason r = (Inl e, r)"
      "\<nexists>old. rg_get r (nd_object_id obj) = Some old \<and> nd_version obj = nd_version old + 1"
  | (written) old r' where "rg_update fn dr obj who reason r = (Inr obj, r')"
      "rg_get r (nd_object_id obj) = Some old" "nd_version obj = nd_version old + 1"
      "rg_objects r' = dput (nd_object_id obj) obj (rg_objects r)"
      "rg_plane_index r' = idx_enter (nd_operational_plane obj) (nd_object_id obj)
         (rg_plane_index (remove_from_indices old r))"
      "rg_version_history r' = dput (nd_object_id obj)
         (get_version_history r (nd_object_id obj) @ [version_of fn dr obj who reason]) (rg_version_history r)"
      "length (rg_events r') = Suc (length (rg_events r))" "\<exists>new. rg_events r' = rg_events r @ new"
proof (cases "rg_get r (nd_object_id obj)")
  case None
  then show thesis by (intro refused) (auto simp: rg_update_def rg_get_def)
next
  case (Some old)
  show thesis
  proof (cases "nd_version obj = nd_version old + 1")
    case True
    with Some show thesis
      by (intro written [of _ old]) (auto simp: rg_update_def rg_get_def Let_def get_version_history_def rg_emit_def)
  next
    case False
    with Some show thesis by (intro refused) (auto simp: rg_update_def rg_get_def Let_def)
  qed
qed

lemma registry_ok_register:
  assumes ok: "registry_ok fn r"
  shows "registry_ok fn (snd (rg_register fn dr obj who why r))"
proof (cases rule: register_cases [of fn dr obj who why r])
  case refused
  with ok show ?thesis by simp
next
  case (entered r')
  let ?i = "nd_object_id obj"
  have "history_ok fn ?i (rg_get r ?i) (get_version_history r ?i)"
    using ok unfolding registry_ok_def by blast
  with entered(2) have none: "get_version_history r ?i = []" by (simp add: history_ok_def)
  have "history_ok fn k (rg_get r' k) (get_version_history r' k)" for k
  proof (cases "k = ?i")
    case True
    then show ?thesis using none by (simp add: rg_get_def get_version_history_def entered(3,5) history_ok_first)
  next
    case False
    with ok show ?thesis by (simp add: registry_ok_def rg_get_def get_version_history_def entered(3,5))
  qed
  moreover have "index_ok nd_operational_plane (rg_objects r') (rg_plane_index r')"
    using ok entered(2) index_ok_enter [of nd_operational_plane] unfolding entered(3,4) registry_ok_def rg_get_def by blast
  ultimately show ?thesis
    using ok by (simp add: entered(1) registry_ok_def entered(3,5) nodes_ok_put)
qed

lemma registry_ok_update:
  assumes ok: "registry_ok fn r"
  shows "registry_ok fn (snd (rg_update fn dr obj who reason r))"
proof (cases rule: update_cases [of fn dr obj who reason r])
  case (refused e)
  with ok show ?thesis by simp
next
  case (written old r')
  let ?i = "nd_object_id obj"
  have id: "nd_object_id old = ?i"
    using ok written(2) by (auto simp: registry_ok_def nodes_ok_def rg_get_def)
  have here: "nd_operational_plane old \<in> set (dkeys (rg_plane_index r))"
  proof (rule ccontr)
    assume "nd_operational_plane old \<notin> set (dkeys (rg_plane_index r))"
    then have "idx (rg_plane_index r) (nd_operational_plane old) = []"
      by (simp add: dget_default_def dget_None_iff [THEN iffD2] del: set_map)
    moreover have "?i \<in> set (idx (rg_plane_index r) (nd_operational_plane old))"
      using ok written(2) index_okD(1) unfolding registry_ok_def rg_get_def by blast
    ultimately show False by simp
  qed
  have "history_ok fn k (rg_get r' k) (get_version_history r' k)" for k
  proof (cases "k = ?i")
    case True
    have "history_ok fn ?i (Some old) (get_version_history r ?i)"
      using ok written(2) unfolding registry_ok_def by metis
    from history_ok_next [OF this written(3)] show ?thesis
      by (simp add: True rg_get_def get_version_history_def written(4,6))
  next
    case False
    with ok show ?thesis by (simp add: registry_ok_def rg_get_def get_version_history_def written(4,6))
  qed
  moreover have "index_ok nd_operational_plane (rg_objects r') (rg_plane_index r')"
    using index_ok_reenter [of nd_operational_plane "rg_objects r" "rg_plane_index r" ?i old obj] ok written(2) here
    by (simp add: registry_ok_def rg_get_def written(4,5) remove_from_indices_def id del: set_map)
  ultimately show ?thesis
    using ok by (simp add: written(1) registry_ok_def written(4,6) nodes_ok_put)
qed


lemma apply_transition_cases:
  assumes "nd_object_id cur = i" and "rg_get r i = Some cur"
  obtains (refused) e where "apply_transition fn dr cur st who why r = (Inl e, r)" "st \<notin> set (node_transitions (nd_state cur))"
  | (moved) obj r' det ev where "st \<in> set (node_transitions (nd_state cur))"
      "nd_state obj = st" "nd_version obj = nd_version cur + 1" "nd_object_id obj = i"
      "nd_operational_plane obj = nd_operational_plane cur"
      "rg_update fn dr obj who det r = (Inr obj, r')"
      "apply_transition fn dr cur st who why r =
        (Inr obj, rg_emit fn (rw_state_event_id dr) (rw_state_occurred_at dr) ''state_changed'' obj who ev r')"
proof (cases "st \<in> set (node_transitions (nd_state cur))")
  case False
  then show thesis by (intro refused) (auto simp: apply_transition_def transition_to_def Let_def)
next
  case True
  let ?obj = "cur\<lparr>nd_state := st, nd_version := nd_version cur + 1, nd_updated_at := rw_updated_at dr\<rparr>"
  have t: "transition_to st (rw_updated_at dr) cur = Inr ?obj" using True by (simp add: transition_to_def)
  let ?det = "[Lit ''State transition: '', Lit (node_state_str (nd_state cur)), state_arrow,
    Lit (node_state_str st), Lit '': '', Lit why]"
  show thesis
  proof (cases rule: update_cases [of fn dr ?obj who ?det r])
    case refused
    then show thesis using assms by simp
  next
    case (written old r')
    then show thesis using True assms(1) t
      by (intro moved [of ?obj ?det r']) (simp_all add: apply_transition_def)
  qed
qed

lemma transition_state_cases:
  obtains (same) "fst (snd (rg_transition_state fn gd tenant dr i st who why gate r)) = r"
      "isl (fst (rg_transition_state fn gd tenant dr i st who why gate r))"
  | (tried) cur gate' where "rg_get r i = Some cur"
      "rg_transition_state fn gd tenant dr i st who why gate r =
        (case apply_transition fn dr cur st who why r of (out, r') \<Rightarrow> (out, (r', gate')))"
proof (cases "rg_get r i")
  case None
  then show thesis by (intro same) (simp_all add: rg_transition_state_def rg_get_def)
next
  case (Some cur)
  note c = Some [unfolded rg_get_def]
  show thesis
  proof (cases gate)
    case None
    then show thesis using c by (intro tried [OF Some, of None]) (simp add: rg_transition_state_def)
  next
    case (Some gt)
    obtain out gt' where s: "submit fn gd tenant None (transition_submission cur i st who why) gt = (out, gt')"
      by fastforce
    show thesis
    proof (cases "\<exists>res. out = Inr res \<and> ds_status res \<noteq> DS_BLOCKED")
      case True
      then show thesis using c s Some
        by (intro tried [of cur "Some gt'"]) (auto simp: rg_transition_state_def rg_get_def)
    next
      case False
      then show thesis using c s Some by (intro same) (cases out; simp add: rg_transition_state_def)+
    qed
  qed
qed

lemma registry_ok_transition:
  assumes ok: "registry_ok fn r"
  shows "registry_ok fn (fst (snd (rg_transition_state fn gd tenant dr i st who why gate r)))"
proof (cases rule: transition_state_cases [of fn gd tenant dr i st who why gate r])
  case same
  with ok show ?thesis by simp
next
  case (tried cur gate')
  then have id: "nd_object_id cur = i" using ok by (auto simp: registry_ok_def nodes_ok_def rg_get_def)
  show ?thesis
    using id tried(1)
  proof (cases rule: apply_transition_cases [where fn = fn and dr = dr and st = st and who = who and why = why])
    case (refused e)
    with ok show ?thesis by (simp add: tried)
  next
    case (moved obj r' det ev)
    with registry_ok_update [OF ok, of dr obj who det] show ?thesis by (simp add: tried registry_ok_emit)
  qed
qed

lemma rg_step_ok: "rg_step fn r r' \<Longrightarrow> registry_ok fn r \<Longrightarrow> registry_ok fn r'"
  by (induction rule: rg_step.induct) (rule registry_ok_register registry_ok_update registry_ok_transition, assumption)+

lemma rg_steps_ok: "(rg_step fn)\<^sup>*\<^sup>* r r' \<Longrightarrow> registry_ok fn r \<Longrightarrow> registry_ok fn r'"
  by (induction rule: rtranclp_induct) (auto intro: rg_step_ok)

lemma registry_ok_new: "registry_ok fn new_object_registry"
  by (simp add: registry_ok_def new_object_registry_def nodes_ok_def index_ok_def dget_default_def
      history_ok_def rg_get_def get_version_history_def)

text \<open>The log and every history only grow.\<close>

definition registry_extends :: "object_registry \<Rightarrow> object_registry \<Rightarrow> bool" where
  "registry_extends r r' \<longleftrightarrow>
     (\<forall>i. \<exists>new. get_version_history r' i = get_version_history r i @ new) \<and>
     (\<exists>new. rg_events r' = rg_events r @ new)"

lemma registry_extends_refl [simp]: "registry_extends r r"
  by (simp add: registry_extends_def)

lemma registry_extends_trans: "registry_extends a b \<Longrightarrow> registry_extends b c \<Longrightarrow> registry_extends a c"
  unfolding registry_extends_def by (metis append_assoc)

lemma update_extends: "registry_extends r (snd (rg_update fn dr obj who reason r))"
  by (cases rule: update_cases [of fn dr obj who reason r])
    (auto simp: registry_extends_def get_version_history_def)

lemma rg_step_extends: "rg_step fn r r' \<Longrightarrow> registry_extends r r'"
proof (induction rule: rg_step.induct)
  case (rg_registers r dr obj who why)
  show ?case
    by (cases rule: register_cases [of fn dr obj who why r]) (auto simp: registry_extends_def get_version_history_def)
next
  case (rg_updates r dr obj who reason)
  show ?case by (rule update_extends)
next
  case (rg_transitions r gd tenant dr i st who why gate)
  show ?case
  proof (cases rule: transition_state_cases [of fn gd tenant dr i st who why gate r])
    case same
    then show ?thesis by simp
  next
    case (tried cur gate')
    have "registry_extends r (snd (apply_transition fn dr cur st who why r))"
    proof (cases "transition_to st (rw_updated_at dr) cur")
      case (Inr obj)
      let ?u = "rg_update fn dr obj who [Lit ''State transition: '', Lit (node_state_str (nd_state cur)),
        state_arrow, Lit (node_state_str st), Lit '': '', Lit why] r"
      have e: "registry_extends (snd ?u) (rg_emit fn e now ty obj who det (snd ?u))" for e now ty det
        by (simp add: registry_extends_def get_version_history_def)
      have u: "registry_extends r (snd ?u)" by (rule update_extends)
      obtain out r' where o: "?u = (out, r')" by fastforce
      from u registry_extends_trans [OF u e] show ?thesis
        unfolding apply_transition_def Inr sum.case o by (cases out) simp_all
    qed (simp add: apply_transition_def)
    then show ?thesis by (auto simp: tried split: prod.split)
  qed
qed

lemma rg_steps_extend: "(rg_step fn)\<^sup>*\<^sup>* r r' \<Longrightarrow> registry_extends r r'"
  by (induction rule: rtranclp_induct) (auto intro: registry_extends_trans rg_step_extends)


section \<open>Properties\<close>


text \<open>No operation alters or drops a recorded version or an event: from any state, any sequence of
  operations only appends to every history and to the event log.\<close>

theorem registry_append_only:
  assumes "(rg_step fn)\<^sup>*\<^sup>* r r'"
  shows "(\<exists>new. get_version_history r' i = get_version_history r i @ new) \<and>
    (\<exists>new. rg_events r' = rg_events r @ new)"
  using rg_steps_extend [OF assms] by (simp add: registry_extends_def)

text \<open>In every reachable registry, and with a gate under a table of policies, a transition happens
  exactly when the object is registered, the policy admits it and the lifecycle has it; then the next
  version is stored, with one more record and two more events. Otherwise the registry is unchanged.\<close>

theorem transitions_governed:
  assumes "(rg_step fn)\<^sup>*\<^sup>* new_object_registry r"
  shows "case rg_transition_state fn gd tenant dr i st who why (Some (gate_under P g)) r of (out, (r', g')) \<Rightarrow>
    (case rg_get r i of
       None \<Rightarrow> out = Inl (ObjectUnknown i) \<and> r' = r
     | Some cur \<Rightarrow>
         if admissible_submission P (transition_submission cur i st who why) \<and>
            st \<in> set (node_transitions (nd_state cur))
         then (case out of
                 Inl e \<Rightarrow> False
               | Inr obj \<Rightarrow> rg_get r' i = Some obj \<and> nd_state obj = st \<and>
                   nd_version obj = nd_version cur + 1 \<and>
                   length (get_version_history r' i) = Suc (length (get_version_history r i)) \<and>
                   length (rg_events r') = length (rg_events r) + 2)
         else isl out \<and> r' = r)"
proof (cases "rg_get r i")
  case None
  then show ?thesis by (simp add: rg_transition_state_def rg_get_def)
next
  case (Some cur)
  have ok: "registry_ok fn r" using rg_steps_ok [OF assms registry_ok_new] .
  have id: "nd_object_id cur = i" using ok Some by (auto simp: registry_ok_def nodes_ok_def rg_get_def)
  let ?sb = "transition_submission cur i st who why"
  obtain res g' where s: "submit fn gd tenant None ?sb (gate_under P g) = (Inr res, g')"
    "ds_status res = DS_BLOCKED \<longleftrightarrow> \<not> admissible_submission P ?sb"
    using submit_decides [of fn gd tenant None ?sb P g] by (auto split: if_splits)
  have t: "rg_transition_state fn gd tenant dr i st who why (Some (gate_under P g)) r =
      (if admissible_submission P ?sb
       then (case apply_transition fn dr cur st who why r of (out, r') \<Rightarrow> (out, (r', Some g')))
       else (Inl (TransitionBlocked i (ds_failure_reason res)), (r, Some g')))"
    using s Some by (simp add: rg_transition_state_def rg_get_def)
  show ?thesis
    using id Some
  proof (cases rule: apply_transition_cases [where fn = fn and dr = dr and st = st and who = who and why = why])
    case (refused e)
    then show ?thesis using Some by (simp add: t)
  next
    case (moved obj r' det ev)
    then have u: "rg_update fn dr obj who det r = (Inr obj, r')" by simp
    show ?thesis
    proof (cases rule: update_cases [of fn dr obj who det r])
      case refused
      with u show ?thesis by simp
    next
      case (written old r'')
      then have "r'' = r'" using u by simp
      with written moved Some show ?thesis
        by (simp add: t rg_get_def get_version_history_def)
    qed
  qed
qed

section \<open>A history\<close>

definition sample_registry_draws :: registry_draws where
  "sample_registry_draws = \<lparr>rw_record_id = ''r'', rw_event_id = ''e'', rw_state_event_id = ''s'',
     rw_updated_at = 1, rw_recorded_at = 2, rw_occurred_at = 3, rw_state_occurred_at = 4\<rparr>"

definition sample_registered :: object_registry where
  "sample_registered = snd (rg_register sample_fns sample_registry_draws (sample_node ''a'' NT_ASSET ''p'')
     ''ann'' ''new'' new_object_registry)"

definition sample_moved :: object_registry where
  "sample_moved = fst (snd (rg_transition_state sample_fns sample_gate_draws ''t'' sample_registry_draws ''a''
     NS_DEPRECATED ''ann'' ''old'' None sample_registered))"

lemma sample_registered_steps: "(rg_step sample_fns)\<^sup>*\<^sup>* new_object_registry sample_registered"
  unfolding sample_registered_def by (rule r_into_rtranclp, rule rg_registers)

lemma sample_moved_steps: "(rg_step sample_fns)\<^sup>*\<^sup>* sample_registered sample_moved"
  unfolding sample_moved_def by (rule r_into_rtranclp, rule rg_transitions)


theorem registry_append_only_witness:
  "\<exists>new. get_version_history sample_moved ''a'' = get_version_history sample_registered ''a'' @ new"
  using registry_append_only [OF sample_moved_steps] by blast

theorem transitions_governed_witness:
  "case rg_transition_state sample_fns sample_gate_draws ''t'' sample_registry_draws ''a'' NS_DEPRECATED ''ann''
     ''old'' (Some (gate_under \<lparr>pt_blocked = [''state_transition''], pt_origins = []\<rparr>
       (new_platform_gate None None (new_metering_engine False)))) sample_registered of
     (out, (r', g')) \<Rightarrow> isl out \<and> r' = sample_registered"
proof -
  let ?P = "\<lparr>pt_blocked = [''state_transition''], pt_origins = []\<rparr>"
  have "rg_get sample_registered ''a'' \<noteq> None" by code_simp
  then obtain cur where cur: "rg_get sample_registered ''a'' = Some cur" by blast
  have "\<not> admissible_submission ?P (transition_submission cur ''a'' NS_DEPRECATED ''ann'' ''old'')"
    by (simp add: admissible_submission_def transition_submission_def)
  with transitions_governed [OF sample_registered_steps, where gd = sample_gate_draws and tenant = "''t''"
      and dr = sample_registry_draws and i = "''a''" and st = NS_DEPRECATED and who = "''ann''"
      and why = "''old''" and P = ?P and g = "new_platform_gate None None (new_metering_engine False)"] cur
  show ?thesis by (auto split: prod.splits)
qed

end
