(* ===== verification/Bounded_Inference.thy ===== *)
theory Bounded_Inference
  imports Platform_Chain Py_Float
begin

text \<open>
  The bounded inference engine, \<^verbatim>\<open>app/core/inference/models/domain_types.py\<close> and, under
  \<^verbatim>\<open>app/core/inference/core\<close>, \<^verbatim>\<open>policy_gate.py\<close>, \<^verbatim>\<open>scope_enforcer.py\<close>,
  \<^verbatim>\<open>typed_output_validator.py\<close>, \<^verbatim>\<open>evidence_logger.py\<close> and \<^verbatim>\<open>engine.py\<close>: a policy gate, the
  bounding of the context the model sees, the checks of its output and the record of every session.

  A long dash in a message is written as a hyphen. The model itself is a parameter: from the scope, the bounded context, the type asked for and the
  session it either raises or answers with the fields of a hypothesis. The context is JSON; using a
  value the wrong way raises, and these raises are values here. A frozen set is the list of its
  members. \<open>pf_sha\<close> and \<open>pf_iso\<close> are the hash and the time format; drawn identifiers, the clock and
  the measured duration are arguments.
\<close>

section \<open>Types\<close>

datatype policy_decision = ALLOW | DENY

fun policy_decision_str :: "policy_decision \<Rightarrow> string" where
  "policy_decision_str ALLOW = ''PolicyDecision.ALLOW''"
| "policy_decision_str DENY = ''PolicyDecision.DENY''"

datatype hypothesis_type =
    HT_REMEDIATION_SUGGESTION | HT_GAP_ANALYSIS | HT_CONFLICT_RESOLUTION | HT_RISK_ASSESSMENT
  | HT_COMPLIANCE_MAPPING | HT_PATTERN_DETECTION

fun hypothesis_type_value :: "hypothesis_type \<Rightarrow> string" where
  "hypothesis_type_value HT_REMEDIATION_SUGGESTION = ''remediation_suggestion''"
| "hypothesis_type_value HT_GAP_ANALYSIS = ''gap_analysis''"
| "hypothesis_type_value HT_CONFLICT_RESOLUTION = ''conflict_resolution''"
| "hypothesis_type_value HT_RISK_ASSESSMENT = ''risk_assessment''"
| "hypothesis_type_value HT_COMPLIANCE_MAPPING = ''compliance_mapping''"
| "hypothesis_type_value HT_PATTERN_DETECTION = ''pattern_detection''"

fun hypothesis_type_str :: "hypothesis_type \<Rightarrow> string" where
  "hypothesis_type_str HT_REMEDIATION_SUGGESTION = ''HypothesisType.REMEDIATION_SUGGESTION''"
| "hypothesis_type_str HT_GAP_ANALYSIS = ''HypothesisType.GAP_ANALYSIS''"
| "hypothesis_type_str HT_CONFLICT_RESOLUTION = ''HypothesisType.CONFLICT_RESOLUTION''"
| "hypothesis_type_str HT_RISK_ASSESSMENT = ''HypothesisType.RISK_ASSESSMENT''"
| "hypothesis_type_str HT_COMPLIANCE_MAPPING = ''HypothesisType.COMPLIANCE_MAPPING''"
| "hypothesis_type_str HT_PATTERN_DETECTION = ''HypothesisType.PATTERN_DETECTION''"

datatype inference_status =
    IS_PENDING | IS_POLICY_CHECKED | IS_SCOPE_BOUNDED | IS_INFERRING | IS_VALIDATING | IS_COMPLETE
  | IS_REJECTED | IS_FAILED

fun inference_status_str :: "inference_status \<Rightarrow> string" where
  "inference_status_str IS_PENDING = ''InferenceStatus.PENDING''"
| "inference_status_str IS_POLICY_CHECKED = ''InferenceStatus.POLICY_CHECKED''"
| "inference_status_str IS_SCOPE_BOUNDED = ''InferenceStatus.SCOPE_BOUNDED''"
| "inference_status_str IS_INFERRING = ''InferenceStatus.INFERRING''"
| "inference_status_str IS_VALIDATING = ''InferenceStatus.VALIDATING''"
| "inference_status_str IS_COMPLETE = ''InferenceStatus.COMPLETE''"
| "inference_status_str IS_REJECTED = ''InferenceStatus.REJECTED''"
| "inference_status_str IS_FAILED = ''InferenceStatus.FAILED''"

datatype rejection_reason =
    RR_POLICY_DENIED | RR_SCOPE_VIOLATION | RR_OUTPUT_TYPE_VIOLATION | RR_EVIDENCE_INSUFFICIENT
  | RR_SCHEMA_VIOLATION | RR_CONFIDENCE_BELOW_THRESHOLD | RR_PROVENANCE_INVALID

fun rejection_reason_str :: "rejection_reason \<Rightarrow> string" where
  "rejection_reason_str RR_POLICY_DENIED = ''RejectionReason.POLICY_DENIED''"
| "rejection_reason_str RR_SCOPE_VIOLATION = ''RejectionReason.SCOPE_VIOLATION''"
| "rejection_reason_str RR_OUTPUT_TYPE_VIOLATION = ''RejectionReason.OUTPUT_TYPE_VIOLATION''"
| "rejection_reason_str RR_EVIDENCE_INSUFFICIENT = ''RejectionReason.EVIDENCE_INSUFFICIENT''"
| "rejection_reason_str RR_SCHEMA_VIOLATION = ''RejectionReason.SCHEMA_VIOLATION''"
| "rejection_reason_str RR_CONFIDENCE_BELOW_THRESHOLD = ''RejectionReason.CONFIDENCE_BELOW_THRESHOLD''"
| "rejection_reason_str RR_PROVENANCE_INVALID = ''RejectionReason.PROVENANCE_INVALID''"

text \<open>What escapes from an operation: the wrong use of a context value, or a model that refuses a field.\<close>

datatype infer_error = WrongType string | NoAttribute string | ValidationError string

definition list_text :: "string list \<Rightarrow> string" where
  "list_text xs = py_repr (JList (map JStr xs))"

record scope_parameters =
  sp_allowed_control_object_ids :: "string list"
  sp_allowed_operational_planes :: "string list"
  sp_max_graph_depth :: int
  sp_allowed_relationship_types :: "string list"
  sp_data_classification_ceiling :: string
  sp_scope_hash :: string

definition scope_digest :: "platform_fns \<Rightarrow> scope_parameters \<Rightarrow> string" where
  "scope_digest fn sp =
     pf_sha fn (list_text (sort (sp_allowed_control_object_ids sp)) @
       list_text (sort (sp_allowed_operational_planes sp)) @ int_str (sp_max_graph_depth sp) @
       list_text (sort (sp_allowed_relationship_types sp)) @ sp_data_classification_ceiling sp)"

text \<open>The constructor: the depth must lie between 1 and 5, and the hash is computed last.\<close>

definition make_scope ::
  "platform_fns \<Rightarrow> string list \<Rightarrow> string list \<Rightarrow> int \<Rightarrow> string list \<Rightarrow> string \<Rightarrow> infer_error + scope_parameters" where
  "make_scope fn ids planes depth types clearance =
     (if depth < 1 \<or> 5 < depth then Inl (ValidationError ''max_graph_depth'')
      else let sp = \<lparr>sp_allowed_control_object_ids = ids, sp_allowed_operational_planes = planes,
                 sp_max_graph_depth = depth, sp_allowed_relationship_types = types,
                 sp_data_classification_ceiling = clearance, sp_scope_hash = []\<rparr>
           in Inr (sp\<lparr>sp_scope_hash := scope_digest fn sp\<rparr>))"

record policy_gate_result =
  gr_decision :: policy_decision
  gr_policy_id :: string
  gr_policy_version :: string
  gr_evaluated_at :: time
  gr_denial_reason :: "fstr option"
  gr_scope_parameters :: "scope_parameters option"
  gr_gate_signature :: string

definition sign_gate_result :: "platform_fns \<Rightarrow> policy_gate_result \<Rightarrow> policy_gate_result" where
  "sign_gate_result fn g =
     g\<lparr>gr_gate_signature := pf_sha fn (policy_decision_str (gr_decision g) @ gr_policy_id g @
         gr_policy_version g @ pf_iso fn (gr_evaluated_at g))\<rparr>"

record typed_hypothesis =
  hp_hypothesis_id :: string
  hp_hypothesis_type :: hypothesis_type
  hp_title :: string
  hp_findings :: "string list"
  hp_affected_control_object_ids :: "string list"
  hp_confidence_score :: pyfloat
  hp_evidence_references :: "string list"
  hp_reasoning_trace :: "string list"
  hp_scope_hash_used :: string
  hp_generated_at :: time
  hp_model_id :: string
  hp_is_executable :: bool
  hp_hypothesis_hash :: string

definition hypothesis_digest :: "platform_fns \<Rightarrow> typed_hypothesis \<Rightarrow> string" where
  "hypothesis_digest fn h =
     pf_sha fn (hp_hypothesis_id h @ hypothesis_type_str (hp_hypothesis_type h) @ hp_title h @
       list_text (hp_findings h) @ list_text (hp_affected_control_object_ids h) @
       pf_str (hp_confidence_score h) @ hp_scope_hash_used h @ pf_iso fn (hp_generated_at h) @
       hp_model_id h)"

text \<open>
  The constructor of a hypothesis: its field constraints (the title is counted in characters, and
  NaN passes the bounds of the confidence); \<open>is_executable\<close> becomes false whatever was passed; the
  hash is computed last.
\<close>

definition make_hypothesis :: "platform_fns \<Rightarrow> typed_hypothesis \<Rightarrow> infer_error + typed_hypothesis" where
  "make_hypothesis fn h =
     (if 200 < code_points (hp_title h) then Inl (ValidationError ''title'')
      else if hp_findings h = [] then Inl (ValidationError ''findings'')
      else if pf_less (hp_confidence_score h) (Fin 0) \<or> pf_less (Fin 1) (hp_confidence_score h) then Inl (ValidationError ''confidence_score'')
      else let h = h\<lparr>hp_is_executable := False\<rparr>
           in Inr (h\<lparr>hp_hypothesis_hash := hypothesis_digest fn h\<rparr>))"

record evidence_record =
  vr_record_id :: string
  vr_session_id :: string
  vr_request_hash :: string
  vr_policy_gate_signature :: string
  vr_scope_hash :: string
  vr_hypothesis_hash :: "string option"
  vr_model_id :: string
  vr_inference_duration_ms :: int
  vr_final_status :: inference_status
  vr_rejection_reason :: "rejection_reason option"
  vr_created_at :: time
  vr_chain_hash :: string

definition none_str :: "string option \<Rightarrow> string" where
  "none_str x = (case x of Some s \<Rightarrow> s | None \<Rightarrow> ''None'')"

definition chain_digest :: "platform_fns \<Rightarrow> evidence_record \<Rightarrow> string" where
  "chain_digest fn r =
     pf_sha fn (vr_record_id r @ vr_session_id r @ vr_request_hash r @ vr_policy_gate_signature r @
       vr_scope_hash r @ none_str (vr_hypothesis_hash r) @ vr_model_id r @
       int_str (vr_inference_duration_ms r) @ inference_status_str (vr_final_status r) @
       none_str (map_option rejection_reason_str (vr_rejection_reason r)) @ pf_iso fn (vr_created_at r))"

definition make_record :: "platform_fns \<Rightarrow> evidence_record \<Rightarrow> infer_error + evidence_record" where
  "make_record fn r =
     (if vr_inference_duration_ms r < 0 then Inl (ValidationError ''inference_duration_ms'')
      else Inr (r\<lparr>vr_chain_hash := chain_digest fn r\<rparr>))"

record inference_request =
  ir_request_id :: string
  ir_requesting_entity_id :: string
  ir_target_control_object_ids :: "string list"
  ir_target_operational_plane :: string
  ir_hypothesis_type_requested :: hypothesis_type
  ir_context_data :: "(string, json) dict"
  ir_requested_at :: time
  ir_request_hash :: string

definition ir_compute_hash :: "platform_fns \<Rightarrow> inference_request \<Rightarrow> inference_request" where
  "ir_compute_hash fn q =
     q\<lparr>ir_request_hash := pf_sha fn (ir_request_id q @ ir_requesting_entity_id q @
         list_text (sort (ir_target_control_object_ids q)) @ ir_target_operational_plane q @
         hypothesis_type_str (ir_hypothesis_type_requested q) @ pf_iso fn (ir_requested_at q))\<rparr>"

record inference_response =
  rs_session_id :: string
  rs_request_id :: string
  rs_status :: inference_status
  rs_hypothesis :: "typed_hypothesis option"
  rs_rejection_reason :: "rejection_reason option"
  rs_rejection_detail :: "fstr option"
  rs_evidence_record :: "evidence_record option"
  rs_policy_gate_result :: "policy_gate_result option"
  rs_completed_at :: time

section \<open>Policy gate\<close>

record inference_rule =
  il_rule_id :: string
  il_policy_id :: string
  il_policy_version :: string
  il_allowed_planes :: "string list"
  il_allowed_requesting_entities :: "string list option"
  il_denied_requesting_entities :: "string list"
  il_allowed_hypothesis_types :: "string list"
  il_max_control_objects_per_request :: nat
  il_max_graph_depth :: int
  il_allowed_data_classification :: string
  il_allowed_relationship_types :: "string list"

type_synonym inference_policies = "(string, inference_rule) dict"

definition add_policy_rule :: "inference_rule \<Rightarrow> inference_policies \<Rightarrow> inference_policies" where
  "add_policy_rule r st = dput (il_rule_id r) r st"

definition get_rules_for_plane :: "inference_policies \<Rightarrow> string \<Rightarrow> inference_rule list" where
  "get_rules_for_plane st plane = filter (\<lambda>r. plane \<in> set (il_allowed_planes r)) (dvalues st)"

definition default_inference_policies :: inference_policies where
  "default_inference_policies =
     add_policy_rule
       \<lparr>il_rule_id = ''POL-002'', il_policy_id = ''governance-restricted'', il_policy_version = ''1.0.0'',
        il_allowed_planes = [''financial'', ''legal'', ''executive''],
        il_allowed_requesting_entities = Some [''senior-analyst'', ''compliance-officer''],
        il_denied_requesting_entities = [],
        il_allowed_hypothesis_types = [''risk_assessment'', ''compliance_mapping''],
        il_max_control_objects_per_request = 10, il_max_graph_depth = 2,
        il_allowed_data_classification = ''confidential'',
        il_allowed_relationship_types = [''mitigates'', ''satisfies'', ''requires'']\<rparr>
     (add_policy_rule
       \<lparr>il_rule_id = ''POL-001'', il_policy_id = ''governance-standard'', il_policy_version = ''1.0.0'',
        il_allowed_planes = [''risk'', ''compliance'', ''security'', ''operations'', ''audit''],
        il_allowed_requesting_entities = None, il_denied_requesting_entities = [],
        il_allowed_hypothesis_types = [''remediation_suggestion'', ''gap_analysis'',
          ''conflict_resolution'', ''risk_assessment'', ''compliance_mapping'', ''pattern_detection''],
        il_max_control_objects_per_request = 50, il_max_graph_depth = 3,
        il_allowed_data_classification = ''internal'',
        il_allowed_relationship_types = [''mitigates'', ''satisfies'', ''implements'', ''violates'',
          ''requires'', ''depends_on'']\<rparr> [])"

definition gate_deny :: "platform_fns \<Rightarrow> time \<Rightarrow> string \<Rightarrow> string \<Rightarrow> fstr \<Rightarrow> policy_gate_result" where
  "gate_deny fn now policy_id policy_version reason =
     sign_gate_result fn \<lparr>gr_decision = DENY, gr_policy_id = policy_id, gr_policy_version = policy_version,
       gr_evaluated_at = now, gr_denial_reason = Some reason, gr_scope_parameters = None,
       gr_gate_signature = []\<rparr>"

text \<open>A rule answers, or passes (\<open>None\<close>) when it is reserved for other entities.\<close>

definition evaluate_policy_rule ::
  "platform_fns \<Rightarrow> time \<Rightarrow> inference_rule \<Rightarrow> string \<Rightarrow> string \<Rightarrow> string \<Rightarrow> string list
     \<Rightarrow> infer_error + policy_gate_result option" where
  "evaluate_policy_rule fn now r entity plane htype ids =
     (let deny = gate_deny fn now (il_policy_id r) (il_policy_version r)
      in if entity \<in> set (il_denied_requesting_entities r)
         then Inr (Some (deny [Lit ''Entity '', Lit entity, Lit '' explicitly denied'']))
         else if (case il_allowed_requesting_entities r of None \<Rightarrow> False | Some es \<Rightarrow> entity \<notin> set es)
         then Inr None
         else if htype \<notin> set (il_allowed_hypothesis_types r)
         then Inr (Some (deny [Lit ''Hypothesis type '', sq htype, Lit '' not permitted'']))
         else if length ids > il_max_control_objects_per_request r
         then Inr (Some (deny [Lit ''Too many objects: '', NumI (int (length ids)), Lit '' > '',
                               NumI (int (il_max_control_objects_per_request r))]))
         else
           (case make_scope fn ids [plane] (il_max_graph_depth r) (il_allowed_relationship_types r)
                   (il_allowed_data_classification r) of
              Inl e \<Rightarrow> Inl e
            | Inr sp \<Rightarrow>
                Inr (Some (sign_gate_result fn
                  \<lparr>gr_decision = ALLOW, gr_policy_id = il_policy_id r,
                   gr_policy_version = il_policy_version r, gr_evaluated_at = now,
                   gr_denial_reason = None, gr_scope_parameters = Some sp, gr_gate_signature = []\<rparr>))))"

fun evaluate_policy_rules ::
  "platform_fns \<Rightarrow> time \<Rightarrow> inference_rule list \<Rightarrow> string \<Rightarrow> string \<Rightarrow> string \<Rightarrow> string list
     \<Rightarrow> infer_error + policy_gate_result option" where
  "evaluate_policy_rules fn now [] entity plane htype ids = Inr None"
| "evaluate_policy_rules fn now (r # rs) entity plane htype ids =
     (case evaluate_policy_rule fn now r entity plane htype ids of
        Inl e \<Rightarrow> Inl e
      | Inr (Some g) \<Rightarrow> Inr (Some g)
      | Inr None \<Rightarrow> evaluate_policy_rules fn now rs entity plane htype ids)"

definition evaluate_gate ::
  "platform_fns \<Rightarrow> time \<Rightarrow> inference_policies \<Rightarrow> string \<Rightarrow> string \<Rightarrow> string \<Rightarrow> string list
     \<Rightarrow> infer_error + policy_gate_result" where
  "evaluate_gate fn now st entity plane htype ids =
     (let applicable = get_rules_for_plane st plane
      in if applicable = []
         then Inr (gate_deny fn now ''no-applicable-policy'' ''0.0.0'' [Lit ''No policy for plane: '', Lit plane])
         else
           (case evaluate_policy_rules fn now applicable entity plane htype ids of
              Inl e \<Rightarrow> Inl e
            | Inr (Some g) \<Rightarrow> Inr g
            | Inr None \<Rightarrow> Inr (gate_deny fn now ''default-deny'' ''1.0.0''
                [Lit ''Request did not satisfy any applicable policy rule''])))"

section \<open>Scope enforcer\<close>

definition always_redacted_fields :: "string list" where
  "always_redacted_fields =
     [''personal_data'', ''credentials'', ''encryption_keys'', ''internal_api_keys'', ''raw_pii'',
      ''financial_account_numbers'']"

definition classification_hierarchy :: "(string, nat) dict" where
  "classification_hierarchy =
     [(''public'', 0), (''internal'', 1), (''confidential'', 2), (''restricted'', 3), (''top_secret'', 4)]"

text \<open>The constructor of the enforcer recomputes the hash; true when it is the one the scope carries.\<close>

definition verify_scope_integrity :: "platform_fns \<Rightarrow> scope_parameters \<Rightarrow> infer_error + bool" where
  "verify_scope_integrity fn sp =
     (case make_scope fn (sp_allowed_control_object_ids sp) (sp_allowed_operational_planes sp)
             (sp_max_graph_depth sp) (sp_allowed_relationship_types sp)
             (sp_data_classification_ceiling sp) of
        Inl e \<Rightarrow> Inl e
      | Inr r \<Rightarrow> Inr (sp_scope_hash r = sp_scope_hash sp))"

text \<open>\<open>d.get(k) in approved\<close> for a set of strings: the value is hashed before it is compared.\<close>

definition unhashable :: "json \<Rightarrow> infer_error" where
  "unhashable j = WrongType (''unhashable type: '' @ [CHR 0x27] @ json_type j @ [CHR 0x27])"

definition in_str_set :: "json \<Rightarrow> string list \<Rightarrow> infer_error + bool" where
  "in_str_set j xs =
     (if json_hashable j then Inr (case j of JStr s \<Rightarrow> s \<in> set xs | _ \<Rightarrow> False) else Inl (unhashable j))"

definition iterate_json :: "json \<Rightarrow> infer_error + json list" where
  "iterate_json j = (case json_items j of Inl msg \<Rightarrow> Inl (WrongType msg) | Inr xs \<Rightarrow> Inr xs)"

definition keep_control_object :: "scope_parameters \<Rightarrow> json \<Rightarrow> infer_error + json list" where
  "keep_control_object sp j =
     (case j of
        JObj d \<Rightarrow>
          (case in_str_set (dget_default d ''id'' JNull) (sp_allowed_control_object_ids sp) of
             Inl e \<Rightarrow> Inl e
           | Inr b \<Rightarrow> Inr (if b then [j] else []))
      | _ \<Rightarrow> Inr [])"

definition filter_control_objects :: "scope_parameters \<Rightarrow> json \<Rightarrow> infer_error + json list" where
  "filter_control_objects sp objs =
     (case iterate_json objs of
        Inl e \<Rightarrow> Inl e
      | Inr xs \<Rightarrow> collect_rounds (keep_control_object sp) xs)"

text \<open>The conjunction is evaluated left to right: a later field is not hashed once one has failed.\<close>

definition keep_relationship :: "scope_parameters \<Rightarrow> json \<Rightarrow> infer_error + json list" where
  "keep_relationship sp j =
     (case j of
        JObj d \<Rightarrow>
          (case in_str_set (dget_default d ''type'' JNull) (sp_allowed_relationship_types sp) of
             Inl e \<Rightarrow> Inl e
           | Inr False \<Rightarrow> Inr []
           | Inr True \<Rightarrow>
               (case in_str_set (dget_default d ''source_id'' JNull) (sp_allowed_control_object_ids sp) of
                  Inl e \<Rightarrow> Inl e
                | Inr False \<Rightarrow> Inr []
                | Inr True \<Rightarrow>
                    (case in_str_set (dget_default d ''target_id'' JNull) (sp_allowed_control_object_ids sp) of
                       Inl e \<Rightarrow> Inl e
                     | Inr b \<Rightarrow> Inr (if b then [j] else []))))
      | _ \<Rightarrow> Inr [])"

definition filter_relationships :: "scope_parameters \<Rightarrow> json \<Rightarrow> infer_error + json list" where
  "filter_relationships sp rels =
     (case iterate_json rels of
        Inl e \<Rightarrow> Inl e
      | Inr xs \<Rightarrow> collect_rounds (keep_relationship sp) xs)"

text \<open>
  \<open>key.split("level_")[1].split("_")[0]\<close> is what follows the first \<open>level_\<close>, up to the next one
  and up to the next underscore; \<open>int()\<close> of it fails on anything but a signed decimal of at most
  4,300 digits, and then the depth is 1.
\<close>

fun after_marker :: "string \<Rightarrow> string \<Rightarrow> string option" where
  "after_marker m [] = (if m = [] then Some [] else None)"
| "after_marker m (c # s) = (if take (length m) (c # s) = m then Some (drop (length m) (c # s)) else after_marker m s)"

fun before_marker :: "string \<Rightarrow> string \<Rightarrow> string" where
  "before_marker m [] = []"
| "before_marker m (c # s) = (if take (length m) (c # s) = m then [] else c # before_marker m s)"

definition before_underscore :: "string \<Rightarrow> string" where
  "before_underscore s = takeWhile (\<lambda>c. c \<noteq> CHR 0x5F) s"

definition int_of_str :: "string \<Rightarrow> int option" where
  "int_of_str s =
     (case split_sign (py_strip s) of
        (neg, t) \<Rightarrow> if t \<noteq> [] \<and> list_all is_digit t \<and> length t \<le> 4300
                     then Some (if neg then - digits_val t else digits_val t)
                     else None)"

definition get_node_depth :: "string \<Rightarrow> int" where
  "get_node_depth key =
     (case after_marker ''level_'' key of
        None \<Rightarrow> 1
      | Some rest \<Rightarrow> (case int_of_str (before_underscore (before_marker ''level_'' rest)) of Some n \<Rightarrow> n | None \<Rightarrow> 1))"

definition dict_entries :: "json \<Rightarrow> infer_error + (string, json) dict" where
  "dict_entries j =
     (case j of
        JObj d \<Rightarrow> Inr d
      | _ \<Rightarrow> Inl (NoAttribute ([CHR 0x27] @ json_type j @ [CHR 0x27] @ '' object has no attribute '' @
                                [CHR 0x27] @ ''items'' @ [CHR 0x27])))"

definition enforce_graph_depth :: "scope_parameters \<Rightarrow> json \<Rightarrow> infer_error + (string, json) dict" where
  "enforce_graph_depth sp j =
     (case dict_entries j of
        Inl e \<Rightarrow> Inl e
      | Inr d \<Rightarrow> Inr (filter (\<lambda>(k, v). get_node_depth k \<le> sp_max_graph_depth sp) d))"

definition filter_planes :: "scope_parameters \<Rightarrow> json \<Rightarrow> infer_error + (string, json) dict" where
  "filter_planes sp j =
     (case dict_entries j of
        Inl e \<Rightarrow> Inl e
      | Inr d \<Rightarrow> Inr (filter (\<lambda>(k, v). k \<in> set (sp_allowed_operational_planes sp)) d))"

text \<open>The level of an object: its classification, \<open>internal\<close> when it has none, 1 when unknown.\<close>

definition level_of :: "json \<Rightarrow> nat" where
  "level_of j = (case j of JStr s \<Rightarrow> dget_default classification_hierarchy s 1 | _ \<Rightarrow> 1)"

definition ceiling_level :: "scope_parameters \<Rightarrow> nat" where
  "ceiling_level sp = dget_default classification_hierarchy (sp_data_classification_ceiling sp) 1"

definition redaction_marker :: json where
  "redaction_marker =
     JObj [(''_redacted'', JBool True), (''reason'', JStr ''above_classification_ceiling'')]"

definition class_of :: "(string, json) dict \<Rightarrow> json" where
  "class_of d = dget_default d ''classification'' (JStr ''internal'')"

fun redact_if_above :: "nat \<Rightarrow> json \<Rightarrow> infer_error + json"
  and redact_items :: "nat \<Rightarrow> json list \<Rightarrow> infer_error + json list"
  and redact_entries :: "nat \<Rightarrow> (string \<times> json) list \<Rightarrow> infer_error + (string \<times> json) list" where
  "redact_if_above c (JList xs) = (case redact_items c xs of Inl e \<Rightarrow> Inl e | Inr ys \<Rightarrow> Inr (JList ys))"
| "redact_if_above c (JObj d) =
     (if \<not> json_hashable (class_of d) then Inl (unhashable (class_of d))
      else if level_of (class_of d) > c then Inr redaction_marker
      else (case redact_entries c d of Inl e \<Rightarrow> Inl e | Inr f \<Rightarrow> Inr (JObj f)))"
| "redact_if_above c j = Inr j"
| "redact_items c [] = Inr []"
| "redact_items c (x # xs) =
     (case redact_if_above c x of
        Inl e \<Rightarrow> Inl e
      | Inr y \<Rightarrow> (case redact_items c xs of Inl e \<Rightarrow> Inl e | Inr ys \<Rightarrow> Inr (y # ys)))"
| "redact_entries c [] = Inr []"
| "redact_entries c ((k, x) # xs) =
     (case redact_if_above c x of
        Inl e \<Rightarrow> Inl e
      | Inr y \<Rightarrow> (case redact_entries c xs of Inl e \<Rightarrow> Inl e | Inr ys \<Rightarrow> Inr ((k, y) # ys)))"

definition apply_classification_ceiling ::
  "scope_parameters \<Rightarrow> (string, json) dict \<Rightarrow> infer_error + (string, json) dict" where
  "apply_classification_ceiling sp data = redact_entries (ceiling_level sp) data"

fun strip_sensitive :: "json \<Rightarrow> json"
  and strip_items :: "json list \<Rightarrow> json list"
  and strip_entries :: "(string \<times> json) list \<Rightarrow> (string \<times> json) list" where
  "strip_sensitive (JList xs) = JList (strip_items xs)"
| "strip_sensitive (JObj d) = JObj (strip_entries d)"
| "strip_sensitive j = j"
| "strip_items [] = []"
| "strip_items (x # xs) = strip_sensitive x # strip_items xs"
| "strip_entries [] = []"
| "strip_entries ((k, x) # xs) =
     (if k \<in> set always_redacted_fields then strip_entries xs
      else (k, strip_sensitive x) # strip_entries xs)"

text \<open>One section of the context: when the key is there, its filtered value is added.\<close>

definition add_section ::
  "(string, json) dict \<Rightarrow> string \<Rightarrow> (json \<Rightarrow> infer_error + json)
     \<Rightarrow> infer_error + (string, json) dict \<Rightarrow> infer_error + (string, json) dict" where
  "add_section raw key f acc =
     (case acc of
        Inl e \<Rightarrow> Inl e
      | Inr out \<Rightarrow>
          (case dget raw key of
             None \<Rightarrow> Inr out
           | Some v \<Rightarrow> (case f v of Inl e \<Rightarrow> Inl e | Inr w \<Rightarrow> Inr (dput key w out))))"

definition scope_metadata :: "scope_parameters \<Rightarrow> (string, json) dict \<Rightarrow> json" where
  "scope_metadata sp out =
     JObj [(''scope_hash'', JStr (sp_scope_hash sp)),
           (''allowed_planes'', JList (map JStr (sp_allowed_operational_planes sp))),
           (''max_depth'', JInt (sp_max_graph_depth sp)),
           (''allowed_relationship_types'', JList (map JStr (sp_allowed_relationship_types sp))),
           (''data_classification_ceiling'', JStr (sp_data_classification_ceiling sp)),
           (''object_count'',
              JInt (case dget_default out ''control_objects'' (JList []) of
                      JList xs \<Rightarrow> int (length xs) | _ \<Rightarrow> 0))]"

definition scope_sections :: "scope_parameters \<Rightarrow> (string, json) dict \<Rightarrow> infer_error + (string, json) dict" where
  "scope_sections sp raw =
     add_section raw ''plane_data'' (\<lambda>v. map_sum id JObj (filter_planes sp v))
      (add_section raw ''graph_data'' (\<lambda>v. map_sum id JObj (enforce_graph_depth sp v))
        (add_section raw ''relationships'' (\<lambda>v. map_sum id JList (filter_relationships sp v))
          (add_section raw ''control_objects'' (\<lambda>v. map_sum id JList (filter_control_objects sp v))
            (Inr []))))"

definition enforce_scope :: "scope_parameters \<Rightarrow> (string, json) dict \<Rightarrow> infer_error + (string, json) dict" where
  "enforce_scope sp raw =
     (case scope_sections sp raw of
        Inl e \<Rightarrow> Inl e
      | Inr out \<Rightarrow>
          (case apply_classification_ceiling sp out of
             Inl e \<Rightarrow> Inl e
           | Inr out \<Rightarrow>
               (let out = strip_entries out
                in Inr (dput ''_scope_metadata'' (scope_metadata sp out) out))))"

section \<open>Model runner\<close>

text \<open>
  The model: an exception (its text), or the fields of a hypothesis and the measured duration in
  milliseconds. \<open>mf_error_text\<close> is the text of a schema violation. The runner overwrites the scope
  hash and the executable flag before it builds the hypothesis; every exception is caught by the
  engine.
\<close>

record model_fns =
  mf_model_id :: string
  mf_answer :: "scope_parameters \<Rightarrow> (string, json) dict \<Rightarrow> hypothesis_type \<Rightarrow> string
                  \<Rightarrow> string + typed_hypothesis \<times> int"
  mf_error_text :: "infer_error \<Rightarrow> string"

definition parse_output ::
  "platform_fns \<Rightarrow> model_fns \<Rightarrow> typed_hypothesis \<Rightarrow> scope_parameters \<Rightarrow> string + typed_hypothesis" where
  "parse_output fn m h sp =
     (case make_hypothesis fn (h\<lparr>hp_scope_hash_used := sp_scope_hash sp, hp_is_executable := False\<rparr>) of
        Inl e \<Rightarrow> Inl (''Output does not conform to TypedHypothesis schema: '' @ mf_error_text m e)
      | Inr h \<Rightarrow> Inr h)"

definition run_model ::
  "platform_fns \<Rightarrow> model_fns \<Rightarrow> scope_parameters \<Rightarrow> (string, json) dict \<Rightarrow> hypothesis_type \<Rightarrow> string
     \<Rightarrow> string + typed_hypothesis \<times> int" where
  "run_model fn m sp ctx ht session =
     (case mf_answer m sp ctx ht session of
        Inl msg \<Rightarrow> Inl msg
      | Inr (draft, duration) \<Rightarrow>
          (case parse_output fn m draft sp of
             Inl msg \<Rightarrow> Inl msg
           | Inr h \<Rightarrow> Inr (h, duration)))"

text \<open>The answer of the simulation, the runner without a model: it names up to three objects.\<close>

definition simulate :: "string \<Rightarrow> string \<Rightarrow> time \<Rightarrow> hypothesis_type \<Rightarrow> scope_parameters \<Rightarrow> string \<Rightarrow> typed_hypothesis" where
  "simulate config_id draw now ht sp session =
     (let oids = take 3 (sp_allowed_control_object_ids sp)
      in \<lparr>hp_hypothesis_id = draw, hp_hypothesis_type = ht,
          hp_title = ''Simulated '' @ hypothesis_type_value ht @ '' for session '' @ take 8 session,
          hp_findings = map (\<lambda>oid. ''Control object '' @ oid @ '' requires review'') oids,
          hp_affected_control_object_ids = oids, hp_confidence_score = Fin (fl (78 / 100)),
          hp_evidence_references = map (\<lambda>oid. ''evidence-'' @ oid) oids,
          hp_reasoning_trace = [''Analysed objects in scope'', ''Identified relationships'',
            ''Applied '' @ hypothesis_type_value ht @ '' framework'', ''Generated findings''],
          hp_scope_hash_used = sp_scope_hash sp, hp_generated_at = now,
          hp_model_id = ''simulation:'' @ config_id, hp_is_executable = False, hp_hypothesis_hash = []\<rparr>)"

definition simulation :: "string \<Rightarrow> string \<Rightarrow> time \<Rightarrow> int \<Rightarrow> (infer_error \<Rightarrow> string) \<Rightarrow> model_fns" where
  "simulation config_id draw now duration error_text =
     \<lparr>mf_model_id = config_id,
      mf_answer = (\<lambda>sp ctx ht session. Inr (simulate config_id draw now ht sp session, duration)),
      mf_error_text = error_text\<rparr>"

section \<open>Typed output validator\<close>

record output_thresholds =
  ot_min_confidence :: pyfloat
  ot_min_findings :: nat
  ot_min_reasoning_steps :: nat
  ot_min_evidence_refs :: nat

definition engine_thresholds :: "pyfloat \<Rightarrow> output_thresholds" where
  "engine_thresholds c =
     \<lparr>ot_min_confidence = c, ot_min_findings = 1, ot_min_reasoning_steps = 2, ot_min_evidence_refs = 1\<rparr>"

record output_verdict =
  ov_passed :: bool
  ov_rejection_reason :: "rejection_reason option"
  ov_rejection_detail :: "fstr option"
  ov_checks_passed :: "string list"
  ov_checks_failed :: "string list"

definition output_fails :: "rejection_reason \<Rightarrow> fstr \<Rightarrow> string list \<Rightarrow> string \<Rightarrow> output_verdict" where
  "output_fails r detail passed check =
     \<lparr>ov_passed = False, ov_rejection_reason = Some r, ov_rejection_detail = Some detail,
      ov_checks_passed = passed, ov_checks_failed = [check]\<rparr>"

definition output_checks :: "string list" where
  "output_checks =
     [''non_executable_check'', ''hypothesis_type_check'', ''confidence_check'', ''scope_hash_check'',
      ''scope_object_check'', ''findings_check'', ''evidence_check'', ''reasoning_check'']"

definition out_of_scope_ids :: "typed_hypothesis \<Rightarrow> scope_parameters \<Rightarrow> string list" where
  "out_of_scope_ids h sp =
     filter (\<lambda>oid. oid \<notin> set (sp_allowed_control_object_ids sp)) (hp_affected_control_object_ids h)"

definition validate_output ::
  "output_thresholds \<Rightarrow> typed_hypothesis \<Rightarrow> hypothesis_type \<Rightarrow> scope_parameters \<Rightarrow> output_verdict" where
  "validate_output t h requested sp =
     (let fails = (\<lambda>r detail n. output_fails r detail (take n output_checks) (output_checks ! n))
      in if hp_is_executable h
         then fails RR_OUTPUT_TYPE_VIOLATION
                [Lit ''CRITICAL: is_executable is True - architectural violation''] 0
         else if hp_hypothesis_type h \<noteq> requested
         then fails RR_SCHEMA_VIOLATION
                [Lit ''Type mismatch: requested='', Lit (hypothesis_type_value requested),
                 Lit '' received='', Lit (hypothesis_type_value (hp_hypothesis_type h))] 1
         else if pf_less (hp_confidence_score h) (ot_min_confidence t)
         then fails RR_CONFIDENCE_BELOW_THRESHOLD
                [Lit ''Confidence '', Lit (pf_str (hp_confidence_score h)), Lit '' below threshold '',
                 Lit (pf_str (ot_min_confidence t))] 2
         else if hp_scope_hash_used h \<noteq> sp_scope_hash sp
         then fails RR_PROVENANCE_INVALID [Lit ''Scope hash mismatch''] 3
         else if out_of_scope_ids h sp \<noteq> []
         then fails RR_SCOPE_VIOLATION
                [Lit ''References '', NumI (int (length (out_of_scope_ids h sp))),
                 Lit '' out-of-scope objects''] 4
         else if length (hp_findings h) < ot_min_findings t
         then fails RR_EVIDENCE_INSUFFICIENT
                [Lit ''Only '', NumI (int (length (hp_findings h))), Lit '' findings, need '',
                 NumI (int (ot_min_findings t))] 5
         else if length (hp_evidence_references h) < ot_min_evidence_refs t
         then fails RR_EVIDENCE_INSUFFICIENT
                [Lit ''Only '', NumI (int (length (hp_evidence_references h))), Lit '' evidence refs''] 6
         else if length (hp_reasoning_trace h) < ot_min_reasoning_steps t
         then fails RR_EVIDENCE_INSUFFICIENT
                [Lit ''Only '', NumI (int (length (hp_reasoning_trace h))), Lit '' reasoning steps''] 7
         else \<lparr>ov_passed = True, ov_rejection_reason = None, ov_rejection_detail = None,
               ov_checks_passed = output_checks, ov_checks_failed = []\<rparr>)"

section \<open>Evidence logger\<close>

record evidence_log =
  el_records :: "evidence_record list"
  el_session_index :: "(string, evidence_record list) dict"

definition new_evidence_log :: evidence_log where
  "new_evidence_log = \<lparr>el_records = [], el_session_index = []\<rparr>"

definition el_commit :: "evidence_record \<Rightarrow> evidence_log \<Rightarrow> evidence_log" where
  "el_commit r lg =
     lg\<lparr>el_records := el_records lg @ [r],
        el_session_index := dput (vr_session_id r)
          (dget_default (el_session_index lg) (vr_session_id r) [] @ [r]) (el_session_index lg)\<rparr>"

definition el_record ::
  "platform_fns \<Rightarrow> evidence_record \<Rightarrow> evidence_log \<Rightarrow> (infer_error, evidence_log, evidence_record) res" where
  "el_record fn r lg =
     (case make_record fn r of Inl e \<Rightarrow> (Inl e, lg) | Inr r \<Rightarrow> (Inr r, el_commit r lg))"

text \<open>The drawn values of a session.\<close>

record infer_draws =
  id_session :: string
  id_gate_time :: time
  id_record :: string
  id_record_time :: time
  id_completed :: time

definition record_success ::
  "platform_fns \<Rightarrow> infer_draws \<Rightarrow> string \<Rightarrow> policy_gate_result \<Rightarrow> scope_parameters \<Rightarrow> typed_hypothesis
     \<Rightarrow> string \<Rightarrow> int \<Rightarrow> evidence_log \<Rightarrow> (infer_error, evidence_log, evidence_record) res" where
  "record_success fn dr request_hash g sp h model_id duration lg =
     el_record fn
       \<lparr>vr_record_id = id_record dr, vr_session_id = id_session dr, vr_request_hash = request_hash,
        vr_policy_gate_signature = gr_gate_signature g, vr_scope_hash = sp_scope_hash sp,
        vr_hypothesis_hash = Some (hp_hypothesis_hash h), vr_model_id = model_id,
        vr_inference_duration_ms = duration, vr_final_status = IS_COMPLETE, vr_rejection_reason = None,
        vr_created_at = id_record_time dr, vr_chain_hash = []\<rparr> lg"

definition scope_hash_of :: "policy_gate_result \<Rightarrow> string" where
  "scope_hash_of g = (case gr_scope_parameters g of Some sp \<Rightarrow> sp_scope_hash sp | None \<Rightarrow> ''no-scope'')"

definition record_rejection ::
  "platform_fns \<Rightarrow> infer_draws \<Rightarrow> string \<Rightarrow> policy_gate_result \<Rightarrow> string \<Rightarrow> rejection_reason
     \<Rightarrow> evidence_log \<Rightarrow> (infer_error, evidence_log, evidence_record) res" where
  "record_rejection fn dr request_hash g model_id reason lg =
     el_record fn
       \<lparr>vr_record_id = id_record dr, vr_session_id = id_session dr, vr_request_hash = request_hash,
        vr_policy_gate_signature = gr_gate_signature g, vr_scope_hash = scope_hash_of g,
        vr_hypothesis_hash = None, vr_model_id = model_id, vr_inference_duration_ms = 0,
        vr_final_status = IS_REJECTED, vr_rejection_reason = Some reason,
        vr_created_at = id_record_time dr, vr_chain_hash = []\<rparr> lg"

definition record_failure ::
  "platform_fns \<Rightarrow> infer_draws \<Rightarrow> string \<Rightarrow> policy_gate_result option \<Rightarrow> string
     \<Rightarrow> evidence_log \<Rightarrow> (infer_error, evidence_log, evidence_record) res" where
  "record_failure fn dr request_hash g model_id lg =
     el_record fn
       \<lparr>vr_record_id = id_record dr, vr_session_id = id_session dr, vr_request_hash = request_hash,
        vr_policy_gate_signature = (case g of Some g \<Rightarrow> gr_gate_signature g | None \<Rightarrow> ''no-gate''),
        vr_scope_hash = (case g of Some g \<Rightarrow> scope_hash_of g | None \<Rightarrow> ''no-scope''),
        vr_hypothesis_hash = None, vr_model_id = model_id, vr_inference_duration_ms = 0,
        vr_final_status = IS_FAILED, vr_rejection_reason = Some RR_EVIDENCE_INSUFFICIENT,
        vr_created_at = id_record_time dr, vr_chain_hash = []\<rparr> lg"

definition get_session_records :: "evidence_log \<Rightarrow> string \<Rightarrow> evidence_record list" where
  "get_session_records lg session = dget_default (el_session_index lg) session []"

fun verify_records :: "platform_fns \<Rightarrow> evidence_record list \<Rightarrow> infer_error + bool" where
  "verify_records fn [] = Inr True"
| "verify_records fn (r # rs) =
     (case make_record fn r of
        Inl e \<Rightarrow> Inl e
      | Inr r' \<Rightarrow> if vr_chain_hash r' \<noteq> vr_chain_hash r then Inr False else verify_records fn rs)"

definition verify_evidence_chain :: "platform_fns \<Rightarrow> evidence_log \<Rightarrow> infer_error + bool" where
  "verify_evidence_chain fn lg = verify_records fn (el_records lg)"

section \<open>Engine\<close>

definition infer_response ::
  "infer_draws \<Rightarrow> inference_request \<Rightarrow> policy_gate_result \<Rightarrow> inference_status \<Rightarrow> typed_hypothesis option
     \<Rightarrow> rejection_reason option \<Rightarrow> fstr option
     \<Rightarrow> (infer_error, evidence_log, evidence_record) res
     \<Rightarrow> (infer_error, evidence_log, inference_response) res" where
  "infer_response dr q g status h reason detail r =
     (case r of
        (Inl e, lg) \<Rightarrow> (Inl e, lg)
      | (Inr ev, lg) \<Rightarrow>
          (Inr \<lparr>rs_session_id = id_session dr, rs_request_id = ir_request_id q, rs_status = status,
                rs_hypothesis = h, rs_rejection_reason = reason, rs_rejection_detail = detail,
                rs_evidence_record = Some ev, rs_policy_gate_result = Some g,
                rs_completed_at = id_completed dr\<rparr>, lg))"

definition infer_denied ::
  "platform_fns \<Rightarrow> model_fns \<Rightarrow> infer_draws \<Rightarrow> inference_request \<Rightarrow> policy_gate_result
     \<Rightarrow> rejection_reason \<Rightarrow> fstr option \<Rightarrow> evidence_log \<Rightarrow> (infer_error, evidence_log, inference_response) res" where
  "infer_denied fn m dr q g reason detail lg =
     infer_response dr q g IS_REJECTED None (Some reason) detail
       (record_rejection fn dr (ir_request_hash q) g (mf_model_id m) reason lg)"

text \<open>After the gate has allowed the request with scope \<open>sp\<close>.\<close>

definition infer_in_scope ::
  "platform_fns \<Rightarrow> model_fns \<Rightarrow> pyfloat \<Rightarrow> infer_draws \<Rightarrow> inference_request \<Rightarrow> policy_gate_result
     \<Rightarrow> scope_parameters \<Rightarrow> evidence_log \<Rightarrow> (infer_error, evidence_log, inference_response) res" where
  "infer_in_scope fn m min_confidence dr q g sp lg =
     (case verify_scope_integrity fn sp of
        Inl e \<Rightarrow> (Inl e, lg)
      | Inr False \<Rightarrow>
          infer_denied fn m dr q g RR_SCOPE_VIOLATION
            (Some [Lit ''Scope hash mismatch - parameters may have been tampered with'']) lg
      | Inr True \<Rightarrow>
          (case enforce_scope sp (ir_context_data q) of
             Inl e \<Rightarrow> (Inl e, lg)
           | Inr sanitised \<Rightarrow>
               (case run_model fn m sp sanitised (ir_hypothesis_type_requested q) (id_session dr) of
                  Inl msg \<Rightarrow>
                    infer_response dr q g IS_FAILED None None (Some [Lit msg])
                      (record_failure fn dr (ir_request_hash q) (Some g) (mf_model_id m) lg)
                | Inr (h, duration) \<Rightarrow>
                    (let v = validate_output (engine_thresholds min_confidence) h
                               (ir_hypothesis_type_requested q) sp
                     in if \<not> ov_passed v
                        then infer_response dr q g IS_REJECTED None (ov_rejection_reason v)
                               (ov_rejection_detail v)
                               (record_rejection fn dr (ir_request_hash q) g (mf_model_id m)
                                 (case ov_rejection_reason v of Some r \<Rightarrow> r | None \<Rightarrow> RR_SCHEMA_VIOLATION) lg)
                        else infer_response dr q g IS_COMPLETE (Some h) None None
                               (record_success fn dr (ir_request_hash q) g sp h (mf_model_id m)
                                 duration lg)))))"

definition infer ::
  "platform_fns \<Rightarrow> model_fns \<Rightarrow> inference_policies \<Rightarrow> pyfloat \<Rightarrow> infer_draws \<Rightarrow> inference_request
     \<Rightarrow> evidence_log \<Rightarrow> (infer_error, evidence_log, inference_response) res" where
  "infer fn m st min_confidence dr q lg =
     (case evaluate_gate fn (id_gate_time dr) st (ir_requesting_entity_id q) (ir_target_operational_plane q)
             (hypothesis_type_value (ir_hypothesis_type_requested q)) (ir_target_control_object_ids q) of
        Inl e \<Rightarrow> (Inl e, lg)
      | Inr g \<Rightarrow>
          (case gr_scope_parameters g of
             Some sp \<Rightarrow>
               if gr_decision g = DENY then infer_denied fn m dr q g RR_POLICY_DENIED (gr_denial_reason g) lg
               else infer_in_scope fn m min_confidence dr q g sp lg
           | None \<Rightarrow>
               if gr_decision g = DENY then infer_denied fn m dr q g RR_POLICY_DENIED (gr_denial_reason g) lg
               else (Inl (ValidationError ''ALLOW decision must include scope parameters''), lg)))"

end
