(* ===== verification/Bounded_Inference_Props.thy ===== *)
theory Bounded_Inference_Props
  imports Bounded_Inference
begin

text \<open>
  What the bounded inference engine guarantees: what lets a session complete, what the model can
  see, and that every session that returns has left exactly one sealed record.
\<close>

section \<open>The gate\<close>

definition rule_applies ::
  "inference_rule \<Rightarrow> string \<Rightarrow> string \<Rightarrow> string \<Rightarrow> string list \<Rightarrow> bool" where
  "rule_applies r entity plane htype ids =
     (plane \<in> set (il_allowed_planes r) \<and> entity \<notin> set (il_denied_requesting_entities r) \<and>
      (case il_allowed_requesting_entities r of None \<Rightarrow> True | Some es \<Rightarrow> entity \<in> set es) \<and>
      htype \<in> set (il_allowed_hypothesis_types r) \<and> length ids \<le> il_max_control_objects_per_request r)"

definition rule_scope :: "inference_rule \<Rightarrow> string \<Rightarrow> string list \<Rightarrow> scope_parameters \<Rightarrow> bool" where
  "rule_scope r plane ids sp =
     (sp_allowed_control_object_ids sp = ids \<and> sp_allowed_operational_planes sp = [plane] \<and>
      sp_max_graph_depth sp = il_max_graph_depth r \<and> 1 \<le> il_max_graph_depth r \<and> il_max_graph_depth r \<le> 5 \<and>
      sp_allowed_relationship_types sp = il_allowed_relationship_types r \<and>
      sp_data_classification_ceiling sp = il_allowed_data_classification r)"

lemma make_scope_Inr:
  "make_scope fn ids planes depth types c = Inr sp \<Longrightarrow>
     sp_allowed_control_object_ids sp = ids \<and> sp_allowed_operational_planes sp = planes \<and>
     sp_max_graph_depth sp = depth \<and> 1 \<le> depth \<and> depth \<le> 5 \<and> sp_allowed_relationship_types sp = types \<and>
     sp_data_classification_ceiling sp = c \<and> sp_scope_hash sp = scope_digest fn sp"
  by (auto simp: make_scope_def Let_def scope_digest_def split: if_splits)

lemma evaluate_policy_rule_Some:
  "evaluate_policy_rule fn now r entity plane htype ids = Inr (Some g) \<Longrightarrow>
     gr_decision g = DENY \<and> gr_scope_parameters g = None \<or>
     gr_decision g = ALLOW \<and> (\<exists>sp. gr_scope_parameters g = Some sp \<and> rule_scope r plane ids sp \<and>
       sp_scope_hash sp = scope_digest fn sp \<and>
       (plane \<in> set (il_allowed_planes r) \<longrightarrow> rule_applies r entity plane htype ids))"
  by (auto simp: evaluate_policy_rule_def Let_def gate_deny_def sign_gate_result_def rule_applies_def
        rule_scope_def split: if_splits sum.splits option.splits dest: make_scope_Inr)

lemma evaluate_policy_rules_Some:
  "evaluate_policy_rules fn now rs entity plane htype ids = Inr (Some g) \<Longrightarrow>
     \<exists>r\<in>set rs. evaluate_policy_rule fn now r entity plane htype ids = Inr (Some g)"
  by (induction rs) (auto split: sum.splits option.splits)

text \<open>An allowed request has a rule of the plane that admits it, and the scope of that rule.\<close>

lemma gate_allows:
  assumes "evaluate_gate fn now st entity plane htype ids = Inr g"
  shows "gr_decision g = DENY \<and> gr_scope_parameters g = None \<or>
         gr_decision g = ALLOW \<and> (\<exists>sp r. gr_scope_parameters g = Some sp \<and> r \<in> set (dvalues st) \<and>
           rule_applies r entity plane htype ids \<and> rule_scope r plane ids sp \<and>
           sp_scope_hash sp = scope_digest fn sp)"
proof (cases "\<exists>r\<in>set (get_rules_for_plane st plane). evaluate_policy_rule fn now r entity plane htype ids = Inr (Some g)")
  case True
  then obtain r where r: "r \<in> set (get_rules_for_plane st plane)"
    and e: "evaluate_policy_rule fn now r entity plane htype ids = Inr (Some g)" by blast
  have "r \<in> set (dvalues st)" "plane \<in> set (il_allowed_planes r)"
    using r by (auto simp: get_rules_for_plane_def)
  then show ?thesis using evaluate_policy_rule_Some [OF e] by blast
next
  case False
  then have "evaluate_policy_rules fn now (get_rules_for_plane st plane) entity plane htype ids \<noteq> Inr (Some g)"
    using evaluate_policy_rules_Some by blast
  then show ?thesis using assms
    by (auto simp: evaluate_gate_def Let_def gate_deny_def sign_gate_result_def
        split: if_splits sum.splits option.splits)
qed

section \<open>The records\<close>

text \<open>What an operation of the log does: it raises and keeps the log, or appends one sealed record.\<close>

definition logs_one :: "platform_fns \<Rightarrow> evidence_log \<Rightarrow> (infer_error, evidence_log, evidence_record) res \<Rightarrow> bool" where
  "logs_one fn lg r =
     (case r of
        (Inl e, lg') \<Rightarrow> lg' = lg
      | (Inr v, lg') \<Rightarrow> lg' = el_commit v lg \<and> make_record fn v = Inr v)"

lemma make_record_idem: "make_record fn r = Inr v \<Longrightarrow> make_record fn v = Inr v"
  by (auto simp: make_record_def chain_digest_def split: if_splits)

lemma el_record_logs_one: "logs_one fn lg (el_record fn r lg)"
  by (auto simp: logs_one_def el_record_def make_record_idem split: sum.split)

lemma record_logs_one:
  "logs_one fn lg (record_rejection fn dr rh g mid reason lg)"
  "logs_one fn lg (record_failure fn dr rh gg mid lg)"
  "logs_one fn lg (record_success fn dr rh g sp h mid duration lg)"
  by (simp_all add: record_rejection_def record_failure_def record_success_def el_record_logs_one)

text \<open>The log of a running engine: every record is sealed, and the index holds each session's records.\<close>

definition evidence_log_ok :: "platform_fns \<Rightarrow> evidence_log \<Rightarrow> bool" where
  "evidence_log_ok fn lg \<longleftrightarrow>
     (\<forall>r\<in>set (el_records lg). make_record fn r = Inr r) \<and>
     (\<forall>s. get_session_records lg s = filter (\<lambda>r. vr_session_id r = s) (el_records lg))"

lemma evidence_log_ok_new: "evidence_log_ok fn new_evidence_log"
  by (simp add: evidence_log_ok_def new_evidence_log_def get_session_records_def dget_default_def)

lemma evidence_log_ok_commit:
  assumes "evidence_log_ok fn lg" "make_record fn r = Inr r"
  shows "evidence_log_ok fn (el_commit r lg)"
proof -
  have "get_session_records (el_commit r lg) s = filter (\<lambda>r. vr_session_id r = s) (el_records (el_commit r lg))" for s
    using assms(1) unfolding evidence_log_ok_def get_session_records_def dget_default_def el_commit_def
    by (cases "s = vr_session_id r") simp_all
  then show ?thesis using assms by (auto simp: evidence_log_ok_def el_commit_def)
qed

lemma verify_records_sealed: "\<forall>r\<in>set rs. make_record fn r = Inr r \<Longrightarrow> verify_records fn rs = Inr True"
  by (induction rs) simp_all

section \<open>Sessions\<close>

text \<open>
  What a session leaves: nothing when it raises; otherwise one more record, of this session, which
  is the one the response carries and has its status.
\<close>

definition session_logged ::
  "platform_fns \<Rightarrow> infer_draws \<Rightarrow> inference_request \<Rightarrow> evidence_log
     \<Rightarrow> (infer_error, evidence_log, inference_response) res \<Rightarrow> bool" where
  "session_logged fn dr q lg r =
     (case r of
        (Inl e, lg') \<Rightarrow> lg' = lg
      | (Inr rs, lg') \<Rightarrow>
          (case rs_evidence_record rs of
             None \<Rightarrow> False
           | Some v \<Rightarrow> lg' = el_commit v lg \<and> make_record fn v = Inr v \<and>
               vr_final_status v = rs_status rs \<and> vr_session_id v = id_session dr \<and>
               vr_request_hash v = ir_request_hash q))"

lemma make_record_fields:
  "make_record fn r = Inr v \<Longrightarrow>
     vr_final_status v = vr_final_status r \<and> vr_session_id v = vr_session_id r \<and>
     vr_request_hash v = vr_request_hash r"
  by (auto simp: make_record_def split: if_splits)

lemma infer_response_logged:
  assumes "vr_final_status r = status" "vr_session_id r = id_session dr" "vr_request_hash r = ir_request_hash q"
  shows "session_logged fn dr q lg (infer_response dr q g status h reason detail (el_record fn r lg))"
  using assms by (auto simp: session_logged_def infer_response_def el_record_def
      dest: make_record_fields make_record_idem split: sum.split)

lemma infer_denied_logged:
  "session_logged fn dr q lg (infer_denied fn m dr q g reason detail lg)"
  by (simp add: infer_denied_def record_rejection_def infer_response_logged)

lemma infer_in_scope_logged:
  "session_logged fn dr q lg (infer_in_scope fn m c dr q g sp lg)"
  by (auto simp: infer_in_scope_def infer_denied_logged record_rejection_def record_failure_def
        record_success_def infer_response_logged Let_def session_logged_def [of fn dr q lg "(Inl e, lg)" for e]
        split: sum.split bool.split)

lemma infer_logged: "session_logged fn dr q lg (infer fn m st c dr q lg)"
  by (auto simp: infer_def infer_denied_logged infer_in_scope_logged
        session_logged_def [of fn dr q lg "(Inl e, lg)" for e] split: sum.split option.split)

text \<open>
  The same, field by field: the log is the old one with the record at its end, the index differs at
  the session only, and the record's hash is that of the record's own fields, in their order.
\<close>

definition session_recorded ::
  "platform_fns \<Rightarrow> model_fns \<Rightarrow> infer_draws \<Rightarrow> inference_request \<Rightarrow> evidence_log
     \<Rightarrow> (infer_error, evidence_log, inference_response) res \<Rightarrow> bool" where
  "session_recorded fn m dr q lg r =
     (case r of
        (Inl e, lg') \<Rightarrow> lg' = lg
      | (Inr rs, lg') \<Rightarrow>
          (case (rs_evidence_record rs, rs_policy_gate_result rs) of
             (Some v, Some g) \<Rightarrow>
               el_records lg' = el_records lg @ [v] \<and>
               dget (el_session_index lg') =
                 (dget (el_session_index lg))(id_session dr \<mapsto>
                    (case dget (el_session_index lg) (id_session dr) of None \<Rightarrow> [v] | Some vs \<Rightarrow> vs @ [v])) \<and>
               vr_record_id v = id_record dr \<and> vr_session_id v = id_session dr \<and>
               vr_request_hash v = ir_request_hash q \<and> vr_policy_gate_signature v = gr_gate_signature g \<and>
               vr_scope_hash v =
                 (case gr_scope_parameters g of Some sp \<Rightarrow> sp_scope_hash sp | None \<Rightarrow> ''no-scope'') \<and>
               vr_hypothesis_hash v = map_option hp_hypothesis_hash (rs_hypothesis rs) \<and>
               vr_model_id v = mf_model_id m \<and> 0 \<le> vr_inference_duration_ms v \<and>
               vr_final_status v = rs_status rs \<and>
               vr_rejection_reason v =
                 (if rs_status rs = IS_FAILED then Some RR_EVIDENCE_INSUFFICIENT else rs_rejection_reason rs) \<and>
               vr_created_at v = id_record_time dr \<and>
               vr_chain_hash v = pf_sha fn (concat
                 [vr_record_id v, vr_session_id v, vr_request_hash v, vr_policy_gate_signature v,
                  vr_scope_hash v, (case vr_hypothesis_hash v of Some x \<Rightarrow> x | None \<Rightarrow> ''None''), vr_model_id v,
                  int_str (vr_inference_duration_ms v), inference_status_str (vr_final_status v),
                  (case vr_rejection_reason v of Some x \<Rightarrow> rejection_reason_str x | None \<Rightarrow> ''None''),
                  pf_iso fn (vr_created_at v)])
           | _ \<Rightarrow> False))"

lemma recorded_response:
  assumes "vr_record_id r = id_record dr" "vr_session_id r = id_session dr"
    "vr_request_hash r = ir_request_hash q" "vr_policy_gate_signature r = gr_gate_signature g"
    "vr_scope_hash r = scope_hash_of g" "vr_hypothesis_hash r = map_option hp_hypothesis_hash h"
    "vr_model_id r = mf_model_id m" "vr_final_status r = status" "vr_created_at r = id_record_time dr"
    "vr_rejection_reason r = (if status = IS_FAILED then Some RR_EVIDENCE_INSUFFICIENT else reason)"
  shows "session_recorded fn m dr q lg (infer_response dr q g status h reason detail (el_record fn r lg))"
proof (cases "vr_inference_duration_ms r < 0")
  case False
  define v where "v = r\<lparr>vr_chain_hash := chain_digest fn r\<rparr>"
  have rec: "el_record fn r lg = (Inr v, el_commit v lg)"
    using False by (simp add: el_record_def make_record_def v_def)
  have "dget (el_session_index (el_commit v lg)) = (dget (el_session_index lg))(id_session dr \<mapsto>
      (case dget (el_session_index lg) (id_session dr) of None \<Rightarrow> [v] | Some vs \<Rightarrow> vs @ [v]))"
    using assms(2)
    by (cases "dget (el_session_index lg) (id_session dr)")
      (simp_all add: el_commit_def dget_default_def v_def fun_eq_iff)
  moreover have "el_records (el_commit v lg) = el_records lg @ [v]" by (simp add: el_commit_def)
  ultimately show ?thesis
    unfolding rec infer_response_def session_recorded_def using assms False
    by (simp add: v_def chain_digest_def none_str_def scope_hash_of_def split: option.split)
qed (simp add: el_record_def make_record_def infer_response_def session_recorded_def)

lemma output_rejected_reason:
  "\<not> ov_passed (validate_output t h requested sp) \<Longrightarrow>
     \<exists>reason. ov_rejection_reason (validate_output t h requested sp) = Some reason"
  unfolding validate_output_def Let_def output_fails_def by (simp split: if_split_asm)

lemma infer_denied_recorded:
  "session_recorded fn m dr q lg (infer_denied fn m dr q g reason detail lg)"
  unfolding infer_denied_def record_rejection_def by (rule recorded_response) simp_all

lemma session_recorded_raise: "session_recorded fn m dr q lg (Inl e, lg)"
  by (simp add: session_recorded_def)

lemma infer_in_scope_recorded:
  assumes "gr_scope_parameters g = Some sp"
  shows "session_recorded fn m dr q lg (infer_in_scope fn m c dr q g sp lg)"
proof -
  have failed: "session_recorded fn m dr q lg (infer_response dr q g IS_FAILED None None (Some [Lit msg])
      (record_failure fn dr (ir_request_hash q) (Some g) (mf_model_id m) lg))" for msg
    unfolding record_failure_def by (rule recorded_response) simp_all
  have answered: "session_recorded fn m dr q lg
      (let v = validate_output (engine_thresholds c) h (ir_hypothesis_type_requested q) sp
       in if \<not> ov_passed v
          then infer_response dr q g IS_REJECTED None (ov_rejection_reason v) (ov_rejection_detail v)
                 (record_rejection fn dr (ir_request_hash q) g (mf_model_id m)
                   (case ov_rejection_reason v of Some r \<Rightarrow> r | None \<Rightarrow> RR_SCHEMA_VIOLATION) lg)
          else infer_response dr q g IS_COMPLETE (Some h) None None
                 (record_success fn dr (ir_request_hash q) g sp h (mf_model_id m) duration lg))" for h duration
  proof (cases "ov_passed (validate_output (engine_thresholds c) h (ir_hypothesis_type_requested q) sp)")
    case True
    then show ?thesis
      unfolding Let_def record_success_def
      by (simp only: not_True_eq_False if_False) (rule recorded_response, simp_all add: scope_hash_of_def assms)
  next
    case False
    from output_rejected_reason [OF this] False show ?thesis
      unfolding Let_def record_rejection_def
      by (elim exE) (simp only: not_False_eq_True if_True option.case, rule recorded_response, simp_all)
  qed
  show ?thesis
    unfolding infer_in_scope_def
    by (intro session_recorded_raise infer_denied_recorded failed answered
        sum.split [where P = "session_recorded fn m dr q lg", THEN iffD2] conjI allI impI
        bool.split [where P = "session_recorded fn m dr q lg", THEN iffD2]
        prod.split [where P = "session_recorded fn m dr q lg", THEN iffD2])
qed

lemma infer_recorded: "session_recorded fn m dr q lg (infer fn m st c dr q lg)"
  unfolding infer_def
  by (auto intro: session_recorded_raise infer_denied_recorded infer_in_scope_recorded split: sum.split option.split)

text \<open>C25: every session leaves its evidence. A session that raises leaves the log as it was; one that
  returns, whatever its status, has appended exactly one record to the log and to its session's
  entry of the index, and the response carries that record: of this session and this request, with
  the signature and scope of the gate's verdict, the hash of the hypothesis returned (if any), the
  status and the reason of the response (a failure is recorded as insufficient evidence), and a
  chain hash that is the hash of all its other fields. The hash does not cover the records before
  it.
\<close>
theorem sessions_leave_evidence: "session_recorded fn m dr q lg (infer fn m st c dr q lg)"
  by (rule infer_recorded)

lemma session_logged_ok:
  "evidence_log_ok fn lg \<Longrightarrow> session_logged fn dr q lg r \<Longrightarrow> evidence_log_ok fn (snd r)"
  by (auto simp: session_logged_def evidence_log_ok_commit split: prod.splits sum.splits option.splits)

text \<open>The log of an engine after any sessions verifies.\<close>

lemma evidence_chain_verifies:
  "verify_evidence_chain fn
     (foldl (\<lambda>lg (m, st, c, dr, q). snd (infer fn m st c dr q lg)) new_evidence_log sessions) = Inr True"
proof -
  have "evidence_log_ok fn lg \<Longrightarrow>
      evidence_log_ok fn (foldl (\<lambda>lg (m, st, c, dr, q). snd (infer fn m st c dr q lg)) lg sessions)" for lg
    by (induction sessions arbitrary: lg) (auto intro: session_logged_ok infer_logged)
  from this [OF evidence_log_ok_new] show ?thesis
    by (simp add: evidence_log_ok_def verify_evidence_chain_def verify_records_sealed)
qed

section \<open>The bounded context\<close>

text \<open>
  Whether a value may be shown: no object at any depth has a sensitive field, and every object is
  classified at or below the ceiling or is the redaction marker.
\<close>

fun showable :: "nat \<Rightarrow> json \<Rightarrow> bool" and showable_items :: "nat \<Rightarrow> json list \<Rightarrow> bool"
  and showable_entries :: "nat \<Rightarrow> (string \<times> json) list \<Rightarrow> bool" where
  "showable c (JList xs) = showable_items c xs"
| "showable c (JObj d) =
     ((JObj d = redaction_marker \<or> level_of (class_of d) \<le> c) \<and> showable_entries c d)"
| "showable c j = True"
| "showable_items c [] = True"
| "showable_items c (x # xs) = (showable c x \<and> showable_items c xs)"
| "showable_entries c [] = True"
| "showable_entries c ((k, x) # xs) =
     (k \<notin> set always_redacted_fields \<and> showable c x \<and> showable_entries c xs)"

lemma strip_marker [simp]: "strip_sensitive redaction_marker = redaction_marker"
  by (simp add: redaction_marker_def always_redacted_fields_def)

lemma showable_marker: "showable c redaction_marker"
  by (simp add: redaction_marker_def always_redacted_fields_def)

lemma strip_entries_get:
  "k \<notin> set always_redacted_fields \<Longrightarrow> dget (strip_entries d) k = map_option strip_sensitive (dget d k)"
  by (induction d) auto

lemma level_of_strip [simp]: "level_of (strip_sensitive j) = level_of j"
  by (cases j) (simp_all add: level_of_def)

lemma class_of_strip: "level_of (class_of (strip_entries d)) = level_of (class_of d)"
proof -
  have "''classification'' \<notin> set always_redacted_fields" by (simp add: always_redacted_fields_def)
  from strip_entries_get [OF this, of d] show ?thesis
    by (simp add: class_of_def dget_default_def split: option.split)
qed

lemma redacted_level:
  "redact_entries c d = Inr f \<Longrightarrow> level_of (class_of d) \<le> c \<Longrightarrow> json_hashable (class_of d) \<Longrightarrow>
     class_of f = class_of d"
proof -
  have keep: "redact_entries c d = Inr f \<Longrightarrow>
      (case dget d k of None \<Rightarrow> dget f k = None | Some v \<Rightarrow> (case dget f k of None \<Rightarrow> False | Some w \<Rightarrow> redact_if_above c v = Inr w))" for k
    by (induction d arbitrary: f) (auto split: sum.splits option.splits if_splits)
  assume e: "redact_entries c d = Inr f" and h: "json_hashable (class_of d)"
  have r: "redact_if_above c v = Inr v" if "json_hashable v" for v using that by (cases v) simp_all
  show "class_of f = class_of d"
    using keep [OF e, of "''classification''"] h r
    by (auto simp: class_of_def dget_default_def split: option.splits)
qed

lemma redact_strip_showable:
  "redact_if_above c j = Inr j' \<Longrightarrow> showable c (strip_sensitive j')"
  "redact_items c xs = Inr xs' \<Longrightarrow> showable_items c (strip_items xs')"
  "redact_entries c d = Inr d' \<Longrightarrow> showable_entries c (strip_entries d')"
proof (induction c j and c xs and c d arbitrary: j' and xs' and d'
    rule: redact_if_above_redact_items_redact_entries.induct)
  case (2 c d)
  show ?case
  proof (cases "level_of (class_of d) > c")
    case True
    then show ?thesis using 2 by (auto split: if_splits simp: showable_marker)
  next
    case False
    then obtain f where f: "redact_entries c d = Inr f" "j' = JObj f" "json_hashable (class_of d)"
      using "2.prems" by (auto split: if_splits sum.splits)
    then have "showable_entries c (strip_entries f)" using 2 False by auto
    moreover have "level_of (class_of f) \<le> c"
      using False redacted_level [OF f(1)] f(3) by simp
    ultimately show ?thesis using f(2) class_of_strip [of f] by simp
  qed
qed (auto split: sum.splits if_splits)

definition names_one :: "string list \<Rightarrow> (string, json) dict \<Rightarrow> string \<Rightarrow> bool" where
  "names_one xs d k = (case dget d k of Some (JStr s) \<Rightarrow> s \<in> set xs | _ \<Rightarrow> False)"

text \<open>The redaction marker, or an object that satisfies \<open>Q\<close>.\<close>

definition object_or_marker :: "((string, json) dict \<Rightarrow> bool) \<Rightarrow> json \<Rightarrow> bool" where
  "object_or_marker Q j = (j = redaction_marker \<or> (case j of JObj d \<Rightarrow> Q d | _ \<Rightarrow> False))"

definition object_in_scope :: "scope_parameters \<Rightarrow> json \<Rightarrow> bool" where
  "object_in_scope sp = object_or_marker (\<lambda>d. names_one (sp_allowed_control_object_ids sp) d ''id'')"

definition relationship_in_scope :: "scope_parameters \<Rightarrow> json \<Rightarrow> bool" where
  "relationship_in_scope sp =
     object_or_marker (\<lambda>d. names_one (sp_allowed_relationship_types sp) d ''type'' \<and>
       names_one (sp_allowed_control_object_ids sp) d ''source_id'' \<and>
       names_one (sp_allowed_control_object_ids sp) d ''target_id'')"

definition keys_satisfy :: "(string \<Rightarrow> bool) \<Rightarrow> json \<Rightarrow> bool" where
  "keys_satisfy P = object_or_marker (\<lambda>d. list_all P (dkeys d))"

definition items_satisfy :: "(json \<Rightarrow> bool) \<Rightarrow> json \<Rightarrow> bool" where
  "items_satisfy P j = (case j of JList xs \<Rightarrow> list_all P xs | _ \<Rightarrow> False)"

text \<open>One section of the context, by its key.\<close>

definition section_bounded :: "scope_parameters \<Rightarrow> string \<Rightarrow> json \<Rightarrow> bool" where
  "section_bounded sp k j =
     (if k = ''control_objects'' then items_satisfy (object_in_scope sp) j
      else if k = ''relationships'' then items_satisfy (relationship_in_scope sp) j
      else if k = ''graph_data'' then keys_satisfy (\<lambda>k. get_node_depth k \<le> sp_max_graph_depth sp) j
      else if k = ''plane_data'' then keys_satisfy (\<lambda>k. k \<in> set (sp_allowed_operational_planes sp)) j
      else False)"

subsection \<open>What the filters let through\<close>

lemma in_str_set_True: "in_str_set (dget_default d k JNull) xs = Inr True \<Longrightarrow> names_one xs d k"
  by (auto simp: in_str_set_def names_one_def dget_default_def split: if_splits option.splits json.splits)

lemma keep_control_object_in_scope:
  "keep_control_object sp x = Inr zs \<Longrightarrow> y \<in> set zs \<Longrightarrow> object_in_scope sp y"
  by (auto simp: keep_control_object_def object_in_scope_def object_or_marker_def
      split: sum.splits json.splits if_splits dest!: in_str_set_True)

lemma collect_all:
  assumes "collect_rounds f xs = Inr ys" "\<And>x zs y. f x = Inr zs \<Longrightarrow> y \<in> set zs \<Longrightarrow> P y"
  shows "list_all P ys"
proof -
  have "P y" if "y \<in> set ys" for y
    using that assms(2) unfolding collect_rounds_set [OF assms(1)] by blast
  then show ?thesis by (simp add: list_all_iff)
qed

lemma filter_control_objects_in_scope:
  "filter_control_objects sp j = Inr xs \<Longrightarrow> list_all (object_in_scope sp) xs"
  by (auto simp: filter_control_objects_def split: sum.splits intro: collect_all keep_control_object_in_scope)

lemma keep_relationship_in_scope:
  "keep_relationship sp x = Inr zs \<Longrightarrow> y \<in> set zs \<Longrightarrow> relationship_in_scope sp y"
  by (auto simp: keep_relationship_def relationship_in_scope_def object_or_marker_def
      split: sum.splits json.splits if_splits bool.splits dest!: in_str_set_True)

lemma filter_relationships_in_scope:
  "filter_relationships sp j = Inr xs \<Longrightarrow> list_all (relationship_in_scope sp) xs"
  by (auto simp: filter_relationships_def split: sum.splits intro: collect_all keep_relationship_in_scope)

lemma map_sum_Inr: "map_sum id g x = Inr w \<longleftrightarrow> (\<exists>y. x = Inr y \<and> w = g y)"
  by (cases x) auto

lemma graph_section: "enforce_graph_depth sp j = Inr d \<Longrightarrow> keys_satisfy (\<lambda>k. get_node_depth k \<le> sp_max_graph_depth sp) (JObj d)"
  by (auto simp: enforce_graph_depth_def keys_satisfy_def object_or_marker_def list_all_iff split: sum.splits)

lemma plane_section: "filter_planes sp j = Inr d \<Longrightarrow> keys_satisfy (\<lambda>k. k \<in> set (sp_allowed_operational_planes sp)) (JObj d)"
  by (auto simp: filter_planes_def keys_satisfy_def object_or_marker_def list_all_iff split: sum.splits)

lemma add_section_bounded:
  assumes "\<And>v w. f v = Inr w \<Longrightarrow> section_bounded sp key w"
    and "\<And>out k w. acc = Inr out \<Longrightarrow> dget out k = Some w \<Longrightarrow> section_bounded sp k w"
    and "add_section raw key f acc = Inr out" "dget out k = Some w"
  shows "section_bounded sp k w"
  using assms by (auto simp: add_section_def split: sum.splits option.splits if_splits)

lemma scope_sections_bounded:
  assumes "scope_sections sp raw = Inr out" "dget out k = Some w"
  shows "section_bounded sp k w"
proof -
  note sections = section_bounded_def items_satisfy_def map_sum_Inr
  have co: "map_sum id JList (filter_control_objects sp v) = Inr w \<Longrightarrow> section_bounded sp ''control_objects'' w" for v w
    using filter_control_objects_in_scope by (auto simp: sections)
  have re: "map_sum id JList (filter_relationships sp v) = Inr w \<Longrightarrow> section_bounded sp ''relationships'' w" for v w
    using filter_relationships_in_scope by (auto simp: sections)
  have gr: "map_sum id JObj (enforce_graph_depth sp v) = Inr w \<Longrightarrow> section_bounded sp ''graph_data'' w" for v w
    using graph_section by (auto simp: sections)
  have pl: "map_sum id JObj (filter_planes sp v) = Inr w \<Longrightarrow> section_bounded sp ''plane_data'' w" for v w
    using plane_section by (auto simp: sections)
  show ?thesis
    by (rule add_section_bounded [OF pl add_section_bounded [OF gr add_section_bounded [OF re
          add_section_bounded [OF co]]] assms [unfolded scope_sections_def]]) simp_all
qed

subsection \<open>What redaction and stripping keep\<close>

lemma redact_entries_get:
  "redact_entries c d = Inr f \<Longrightarrow> dget f k = Some w \<Longrightarrow> \<exists>v. dget d k = Some v \<and> redact_if_above c v = Inr w"
  by (induction d arbitrary: f) (auto split: sum.splits if_splits)

lemma redact_entries_maps:
  "redact_entries c d = Inr f \<Longrightarrow> dget d k = Some v \<Longrightarrow> \<exists>w. dget f k = Some w \<and> redact_if_above c v = Inr w"
  by (induction d arbitrary: f) (auto split: sum.splits if_splits)

lemma redact_entries_keys: "redact_entries c d = Inr f \<Longrightarrow> dkeys f = dkeys d"
  by (induction d arbitrary: f) (auto split: sum.splits)

lemma strip_entries_key: "k \<in> set (dkeys (strip_entries d)) \<Longrightarrow> k \<in> set (dkeys d)"
  by (induction d) (auto simp del: set_map split: if_splits)

lemma strip_entries_keys: "set (dkeys (strip_entries d)) \<subseteq> set (dkeys d)"
  using strip_entries_key by blast

lemma redact_items_list: "redact_items c xs = Inr ys \<Longrightarrow> list_all2 (\<lambda>x y. redact_if_above c x = Inr y) xs ys"
  by (induction xs arbitrary: ys) (auto split: sum.splits)

lemma strip_items_map: "strip_items xs = map strip_sensitive xs"
  by (induction xs) simp_all

lemma names_one_kept:
  assumes "names_one xs d k" "redact_entries c d = Inr f" "k \<notin> set always_redacted_fields"
  shows "names_one xs (strip_entries f) k"
proof -
  obtain s where s: "dget d k = Some (JStr s)" "s \<in> set xs"
    using assms(1) by (auto simp: names_one_def split: option.splits json.splits)
  then have "dget f k = Some (JStr s)" using redact_entries_maps [OF assms(2) s(1)] by simp
  then show ?thesis using s(2) strip_entries_get [OF assms(3)] by (simp add: names_one_def)
qed

lemma names_keys_kept:
  "''id'' \<notin> set always_redacted_fields" "''type'' \<notin> set always_redacted_fields"
  "''source_id'' \<notin> set always_redacted_fields" "''target_id'' \<notin> set always_redacted_fields"
  by (simp_all add: always_redacted_fields_def)

text \<open>The value that is shown in place of an object: the marker, or the object with its fields cleaned.\<close>

lemma shown_object:
  assumes "redact_if_above c (JObj d) = Inr w"
  shows "strip_sensitive w = redaction_marker \<or> (\<exists>f. redact_entries c d = Inr f \<and> strip_sensitive w = JObj (strip_entries f))"
  using assms by (auto split: if_splits sum.splits)

lemma shown_marker: "redact_if_above c redaction_marker = Inr w \<Longrightarrow> strip_sensitive w = redaction_marker"
  by (auto simp: redaction_marker_def always_redacted_fields_def split: if_splits)

lemma object_or_marker_shown:
  assumes "object_or_marker Q x" "redact_if_above c x = Inr w"
    and "\<And>d f. Q d \<Longrightarrow> redact_entries c d = Inr f \<Longrightarrow> Q (strip_entries f)"
  shows "object_or_marker Q (strip_sensitive w)"
proof (cases "x = redaction_marker")
  case True
  then show ?thesis using assms(2) shown_marker by (simp add: object_or_marker_def)
next
  case False
  then obtain d where d: "x = JObj d" "Q d"
    using assms(1) by (cases x) (simp_all add: object_or_marker_def)
  from shown_object [OF assms(2) [unfolded d(1)]] show ?thesis
  proof (elim disjE exE conjE)
    fix f assume "redact_entries c d = Inr f" "strip_sensitive w = JObj (strip_entries f)"
    then show ?thesis using assms(3) [OF d(2)] by (simp add: object_or_marker_def)
  qed (simp add: object_or_marker_def)
qed

lemma object_in_scope_shown:
  "object_in_scope sp x \<Longrightarrow> redact_if_above c x = Inr w \<Longrightarrow> object_in_scope sp (strip_sensitive w)"
  unfolding object_in_scope_def
  by (erule object_or_marker_shown, assumption) (rule names_one_kept [OF _ _ names_keys_kept(1)])

lemma relationship_in_scope_shown:
  "relationship_in_scope sp x \<Longrightarrow> redact_if_above c x = Inr w \<Longrightarrow> relationship_in_scope sp (strip_sensitive w)"
  unfolding relationship_in_scope_def
  by (erule object_or_marker_shown, assumption, elim conjE, intro conjI)
    (rule names_one_kept [OF _ _ names_keys_kept(2)] names_one_kept [OF _ _ names_keys_kept(3)]
       names_one_kept [OF _ _ names_keys_kept(4)], assumption+)+

lemma keys_satisfy_shown:
  "keys_satisfy P x \<Longrightarrow> redact_if_above c x = Inr w \<Longrightarrow> keys_satisfy P (strip_sensitive w)"
  unfolding keys_satisfy_def
proof (rule object_or_marker_shown, assumption+)
  fix d f assume "list_all P (dkeys d)" "redact_entries c d = Inr f"
  then have "\<forall>k\<in>set (dkeys f). P k" using redact_entries_keys by (simp add: list_all_iff)
  then show "list_all P (dkeys (strip_entries f))"
    using strip_entries_keys [of f] unfolding list_all_iff by blast
qed

lemma items_satisfy_shown:
  assumes "items_satisfy P x" "redact_if_above c x = Inr w"
    and "\<And>x w. P x \<Longrightarrow> redact_if_above c x = Inr w \<Longrightarrow> P (strip_sensitive w)"
  shows "items_satisfy P (strip_sensitive w)"
proof -
  obtain xs ys where x: "x = JList xs" "list_all P xs" and w: "w = JList ys" "redact_items c xs = Inr ys"
    using assms(1,2) by (auto simp: items_satisfy_def split: json.splits sum.splits)
  have "list_all2 (\<lambda>x y. redact_if_above c x = Inr y) xs ys" using w(2) by (rule redact_items_list)
  then have "list_all P (map strip_sensitive ys)" using x(2)
    by (induction rule: list_all2_induct) (auto intro: assms(3))
  then show ?thesis by (simp add: w items_satisfy_def strip_items_map)
qed

lemma section_shown:
  assumes "section_bounded sp k x" "redact_if_above c x = Inr w"
  shows "section_bounded sp k (strip_sensitive w)"
proof -
  have "items_satisfy (object_in_scope sp) x \<Longrightarrow> items_satisfy (object_in_scope sp) (strip_sensitive w)"
    by (erule items_satisfy_shown [OF _ assms(2)]) (rule object_in_scope_shown)
  moreover have "items_satisfy (relationship_in_scope sp) x \<Longrightarrow> items_satisfy (relationship_in_scope sp) (strip_sensitive w)"
    by (erule items_satisfy_shown [OF _ assms(2)]) (rule relationship_in_scope_shown)
  ultimately show ?thesis
    using assms(1) keys_satisfy_shown [OF _ assms(2)] unfolding section_bounded_def
    by (auto split: if_splits)
qed

text \<open>
  The whole context the model is given: the bounded sections, then the metadata of the scope.
\<close>

definition context_bounded :: "scope_parameters \<Rightarrow> (string, json) dict \<Rightarrow> bool" where
  "context_bounded sp out \<longleftrightarrow>
     out \<noteq> [] \<and> last out = (''_scope_metadata'', scope_metadata sp (butlast out)) \<and>
     list_all (\<lambda>(k, w). section_bounded sp k w \<and> showable (ceiling_level sp) w) (butlast out)"

lemma dict_wf_add_section:
  assumes "\<And>out. acc = Inr out \<Longrightarrow> dict_wf out" "add_section raw key f acc = Inr out"
  shows "dict_wf out"
  using assms by (auto simp: add_section_def split: sum.splits option.splits)

lemma scope_sections_wf: "scope_sections sp raw = Inr out \<Longrightarrow> dict_wf out"
  unfolding scope_sections_def
  by (rule dict_wf_add_section [OF dict_wf_add_section [OF dict_wf_add_section [OF dict_wf_add_section]]]) simp_all

lemma strip_entries_in:
  "(k, w) \<in> set (strip_entries d) \<Longrightarrow> \<exists>v. (k, v) \<in> set d \<and> w = strip_sensitive v"
proof (induction d)
  case (Cons p d)
  then show ?case by (cases p) (force split: if_splits)
qed simp

lemma redact_entries_in:
  "redact_entries c d = Inr f \<Longrightarrow> (k, w) \<in> set f \<Longrightarrow> \<exists>v. (k, v) \<in> set d \<and> redact_if_above c v = Inr w"
proof (induction d arbitrary: f)
  case (Cons p d)
  then show ?case by (cases p) (fastforce split: sum.splits)
qed simp

lemma enforce_scope_bounded:
  "case enforce_scope sp raw of Inl e \<Rightarrow> True | Inr out \<Rightarrow> context_bounded sp out"
proof (cases "enforce_scope sp raw")
  case (Inr out)
  then obtain d f where d: "scope_sections sp raw = Inr d" and f: "redact_entries (ceiling_level sp) d = Inr f"
    and out: "out = dput ''_scope_metadata'' (scope_metadata sp (strip_entries f)) (strip_entries f)"
    by (auto simp: enforce_scope_def apply_classification_ceiling_def Let_def split: sum.splits)
  have b: "section_bounded sp k w \<and> showable (ceiling_level sp) w" if kw: "(k, w) \<in> set (strip_entries f)" for k w
  proof -
    obtain v where "(k, v) \<in> set f" and w: "w = strip_sensitive v" using strip_entries_in [OF kw] by blast
    then obtain u where u: "(k, u) \<in> set d" and r: "redact_if_above (ceiling_level sp) u = Inr v"
      using redact_entries_in [OF f] by blast
    have "dget d k = Some u" using scope_sections_wf [OF d] u by (simp add: dict_wf_def)
    then show ?thesis using scope_sections_bounded [OF d] section_shown [OF _ r] redact_strip_showable(1) [OF r] w
      by blast
  qed
  have "''_scope_metadata'' \<notin> set (dkeys (strip_entries f))"
  proof
    assume "''_scope_metadata'' \<in> set (dkeys (strip_entries f))"
    then obtain w where "(''_scope_metadata'', w) \<in> set (strip_entries f)" by auto
    from b [OF this] show False by (simp add: section_bounded_def)
  qed
  then have "out = strip_entries f @ [(''_scope_metadata'', scope_metadata sp (strip_entries f))]"
    by (simp add: out dput_fresh)
  then show ?thesis using b Inr by (auto simp: context_bounded_def list_all_iff)
qed simp

text \<open>C24: the model sees only its scope. Whatever the request's context holds, enforcing the scope
  raises or gives a context made of the four known sections and the scope's metadata: its control
  objects and the ends of its relationships are on the scope's list of identifiers, its
  relationships of the allowed types, its graph keys within the depth, its planes among the allowed
  ones (an object above the ceiling is replaced by the redaction marker), and at no depth is there a
  sensitive field or an object classified above the ceiling.
\<close>
theorem model_sees_its_scope:
  "case enforce_scope sp raw of Inl e \<Rightarrow> True | Inr out \<Rightarrow> context_bounded sp out"
  by (rule enforce_scope_bounded)

section \<open>What completes\<close>

text \<open>The hypothesis a completed session returns.\<close>

definition hypothesis_accepted ::
  "platform_fns \<Rightarrow> pyfloat \<Rightarrow> inference_request \<Rightarrow> scope_parameters \<Rightarrow> typed_hypothesis \<Rightarrow> bool" where
  "hypothesis_accepted fn c q sp h =
     (\<not> hp_is_executable h \<and> hp_hypothesis_type h = ir_hypothesis_type_requested q \<and>
      \<not> pf_less (hp_confidence_score h) c \<and> pf_unit (hp_confidence_score h) \<and>
      hp_scope_hash_used h = scope_digest fn sp \<and>
      set (hp_affected_control_object_ids h) \<subseteq> set (ir_target_control_object_ids q) \<and>
      1 \<le> length (hp_findings h) \<and> 1 \<le> length (hp_evidence_references h) \<and>
      2 \<le> length (hp_reasoning_trace h) \<and> hp_hypothesis_hash h = hypothesis_digest fn h)"

lemma validate_output_passes:
  "ov_passed (validate_output t h requested sp) \<longleftrightarrow>
     \<not> hp_is_executable h \<and> hp_hypothesis_type h = requested \<and>
     \<not> pf_less (hp_confidence_score h) (ot_min_confidence t) \<and> hp_scope_hash_used h = sp_scope_hash sp \<and>
     set (hp_affected_control_object_ids h) \<subseteq> set (sp_allowed_control_object_ids sp) \<and>
     ot_min_findings t \<le> length (hp_findings h) \<and>
     ot_min_evidence_refs t \<le> length (hp_evidence_references h) \<and>
     ot_min_reasoning_steps t \<le> length (hp_reasoning_trace h)"
  by (auto simp: validate_output_def Let_def output_fails_def out_of_scope_ids_def filter_empty_conv not_less)

lemma run_model_sealed:
  "run_model fn m sp ctx ht session = Inr (h, n) \<Longrightarrow>
     \<not> hp_is_executable h \<and> hp_scope_hash_used h = sp_scope_hash sp \<and>
     pf_unit (hp_confidence_score h) \<and> hp_hypothesis_hash h = hypothesis_digest fn h"
  by (auto simp: run_model_def parse_output_def make_hypothesis_def Let_def hypothesis_digest_def pf_unit_def
      split: sum.splits if_splits prod.splits)

lemma infer_response_status:
  "infer_response dr q g status h reason detail r = (Inr rs, lg') \<Longrightarrow> rs_status rs = status \<and> rs_hypothesis rs = h"
  by (auto simp: infer_response_def split: prod.splits sum.splits)

lemma infer_in_scope_complete:
  assumes "infer_in_scope fn m c dr q g sp lg = (Inr rs, lg')"
  shows "(rs_status rs = IS_COMPLETE) = (rs_hypothesis rs \<noteq> None) \<and>
         (case rs_hypothesis rs of
            None \<Rightarrow> True
          | Some h \<Rightarrow> \<exists>ctx n. enforce_scope sp (ir_context_data q) = Inr ctx \<and>
              run_model fn m sp ctx (ir_hypothesis_type_requested q) (id_session dr) = Inr (h, n) \<and>
              ov_passed (validate_output (engine_thresholds c) h (ir_hypothesis_type_requested q) sp))"
  using assms
  by (auto simp: infer_in_scope_def infer_denied_def Let_def split: sum.splits bool.splits if_splits
      dest!: infer_response_status)

text \<open>C23: inference is gated. A session that returns is complete exactly when it carries a hypothesis;
  then a policy rule of the request's plane admits the entity, the type and the number of objects,
  and the hypothesis came from the model run on the context bounded by that rule's scope, is not
  executable, has the type asked for, has a confidence between 0 and 1 that is not below the threshold or is NaN
  (which passes every such comparison), concerns only requested objects, carries evidence and
  reasoning, and is sealed by its hash.
\<close>
theorem inference_is_gated:
  "case infer fn m st c dr q lg of
     (Inl e, lg') \<Rightarrow> True
   | (Inr rs, lg') \<Rightarrow>
       (rs_status rs = IS_COMPLETE \<longleftrightarrow> rs_hypothesis rs \<noteq> None) \<and>
       (case rs_hypothesis rs of
          None \<Rightarrow> True
        | Some h \<Rightarrow>
            \<exists>r sp ctx n. r \<in> set (dvalues st) \<and>
              rule_applies r (ir_requesting_entity_id q) (ir_target_operational_plane q)
                (hypothesis_type_value (ir_hypothesis_type_requested q)) (ir_target_control_object_ids q) \<and>
              rule_scope r (ir_target_operational_plane q) (ir_target_control_object_ids q) sp \<and>
              enforce_scope sp (ir_context_data q) = Inr ctx \<and> context_bounded sp ctx \<and>
              run_model fn m sp ctx (ir_hypothesis_type_requested q) (id_session dr) = Inr (h, n) \<and>
              hypothesis_accepted fn c q sp h)"
proof (cases "infer fn m st c dr q lg")
  case (Pair r lg')
  show ?thesis
  proof (cases r)
    case (Inr rs)
    obtain g where g: "evaluate_gate fn (id_gate_time dr) st (ir_requesting_entity_id q)
        (ir_target_operational_plane q) (hypothesis_type_value (ir_hypothesis_type_requested q))
        (ir_target_control_object_ids q) = Inr g"
      using Pair Inr by (auto simp: infer_def split: sum.splits)
    from gate_allows [OF g] show ?thesis
    proof (elim disjE conjE exE)
      assume "gr_decision g = DENY" "gr_scope_parameters g = None"
      then show ?thesis using Pair Inr g by (auto simp: infer_def infer_denied_def dest: infer_response_status)
    next
      fix sp rl
      assume a: "gr_decision g = ALLOW" "gr_scope_parameters g = Some sp" "rl \<in> set (dvalues st)"
        and ra: "rule_applies rl (ir_requesting_entity_id q) (ir_target_operational_plane q)
                (hypothesis_type_value (ir_hypothesis_type_requested q)) (ir_target_control_object_ids q)"
        and rs: "rule_scope rl (ir_target_operational_plane q) (ir_target_control_object_ids q) sp"
        and hash: "sp_scope_hash sp = scope_digest fn sp"
      have i: "infer_in_scope fn m c dr q g sp lg = (Inr rs, lg')"
        using Pair Inr g a(1,2) by (simp add: infer_def)
      note co = infer_in_scope_complete [OF i]
      show ?thesis
      proof (cases "rs_hypothesis rs")
        case None
        then show ?thesis using co Pair Inr by simp
      next
        case (Some h)
        then obtain ctx n where e: "enforce_scope sp (ir_context_data q) = Inr ctx"
          and r: "run_model fn m sp ctx (ir_hypothesis_type_requested q) (id_session dr) = Inr (h, n)"
          and v: "ov_passed (validate_output (engine_thresholds c) h (ir_hypothesis_type_requested q) sp)"
          using co by auto
        have "hypothesis_accepted fn c q sp h"
          using v run_model_sealed [OF r] hash rs
          by (simp add: hypothesis_accepted_def validate_output_passes engine_thresholds_def rule_scope_def)
        moreover have "context_bounded sp ctx"
          using enforce_scope_bounded [of sp "ir_context_data q"] e by simp
        ultimately show ?thesis using co Some Pair Inr a(3) ra rs e r by auto
      qed
    qed
  qed (simp add: Pair)
qed

section \<open>The simulation\<close>

lemma fl_78_bounds: "0 \<le> fl (78 / 100)" "fl (78 / 100) \<le> 1"
  by (simp_all add: fl_nonneg fl_le_1)

lemma simulated_title_short:
  "code_points (''Simulated '' @ hypothesis_type_value ht @ '' for session '' @ take 8 session) \<le> 200"
  by (rule order_trans [OF code_points_le]) (cases ht; simp)

lemma run_simulation:
  assumes "sp_allowed_control_object_ids sp \<noteq> []"
  shows "\<exists>h. run_model fn (simulation cfg draw now n txt) sp ctx ht session = Inr (h, n) \<and>
           \<not> hp_is_executable h \<and> hp_hypothesis_type h = ht \<and> hp_confidence_score h = Fin (fl (78 / 100)) \<and>
           hp_scope_hash_used h = sp_scope_hash sp \<and>
           hp_affected_control_object_ids h = take 3 (sp_allowed_control_object_ids sp) \<and>
           length (hp_findings h) = length (take 3 (sp_allowed_control_object_ids sp)) \<and>
           length (hp_evidence_references h) = length (take 3 (sp_allowed_control_object_ids sp)) \<and>
           length (hp_reasoning_trace h) = 4"
  using assms simulated_title_short [of ht session] fl_78_bounds
  by (simp del: append.simps add: run_model_def simulation_def parse_output_def make_hypothesis_def simulate_def Let_def not_less)

lemma take_some: "xs \<noteq> [] \<Longrightarrow> Suc 0 \<le> length (take 3 xs)"
  by (cases xs) simp_all

text \<open>C26: a permitted session ends with a result. With the simulation as its model, a session whose
  request names objects, that the gate allows with scope \<open>sp\<close> and whose context can be bounded,
  completes (when the confidence threshold is not above 0.78 and the clock does not run back), with a
  hypothesis on the first three objects.
\<close>
theorem permitted_session_completes:
  assumes gate: "evaluate_gate fn (id_gate_time dr) st (ir_requesting_entity_id q) (ir_target_operational_plane q)
      (hypothesis_type_value (ir_hypothesis_type_requested q)) (ir_target_control_object_ids q) = Inr g"
    and sp: "gr_scope_parameters g = Some sp"
    and ctx: "enforce_scope sp (ir_context_data q) = Inr ctx"
    and ids: "ir_target_control_object_ids q \<noteq> []"
    and conf: "\<not> pf_less (Fin (fl (78 / 100))) c" and n: "0 \<le> n"
  shows "\<exists>rs lg' h. infer fn (simulation cfg draw now n txt) st c dr q lg = (Inr rs, lg') \<and>
           rs_status rs = IS_COMPLETE \<and> rs_hypothesis rs = Some h \<and>
           hp_affected_control_object_ids h = take 3 (ir_target_control_object_ids q)"
proof -
  from gate_allows [OF gate] sp obtain r where a: "gr_decision g = ALLOW"
    and r: "rule_scope r (ir_target_operational_plane q) (ir_target_control_object_ids q) sp"
    and hash: "sp_scope_hash sp = scope_digest fn sp" by auto
  have i: "sp_allowed_control_object_ids sp = ir_target_control_object_ids q" using r by (simp add: rule_scope_def)
  have "verify_scope_integrity fn sp = Inr True"
    using r hash by (simp add: verify_scope_integrity_def make_scope_def rule_scope_def scope_digest_def Let_def)
  moreover obtain h where
    "run_model fn (simulation cfg draw now n txt) sp ctx (ir_hypothesis_type_requested q) (id_session dr) = Inr (h, n)"
    "ov_passed (validate_output (engine_thresholds c) h (ir_hypothesis_type_requested q) sp)"
    "hp_affected_control_object_ids h = take 3 (ir_target_control_object_ids q)"
    using run_simulation [of sp] ids conf set_take_subset [of 3] take_some [OF ids]
    unfolding validate_output_passes i by (fastforce simp: engine_thresholds_def)
  ultimately show ?thesis using gate sp a ctx n
    by (simp add: infer_def infer_in_scope_def Let_def record_success_def el_record_def make_record_def
        infer_response_def)
qed

definition sample_infer_fns :: platform_fns where
  "sample_infer_fns = \<lparr>pf_sha = (\<lambda>s. ''h'' @ s), pf_iso = (\<lambda>t. replicate t CHR ''t''),
                       pf_render = (\<lambda>f. []), pf_list = concat\<rparr>"

definition sample_infer_draws :: infer_draws where
  "sample_infer_draws = \<lparr>id_session = ''session-1'', id_gate_time = 1, id_record = ''r1'',
                         id_record_time = 2, id_completed = 3\<rparr>"

definition sample_inference :: inference_request where
  "sample_inference =
     ir_compute_hash sample_infer_fns
       \<lparr>ir_request_id = ''q1'', ir_requesting_entity_id = ''analyst'',
        ir_target_control_object_ids = [''o1'', ''o2''], ir_target_operational_plane = ''risk'',
        ir_hypothesis_type_requested = HT_GAP_ANALYSIS,
        ir_context_data = [(''control_objects'',
          JList [JObj [(''id'', JStr ''o1''), (''credentials'', JStr ''x'')],
                 JObj [(''id'', JStr ''o2''), (''classification'', JStr ''restricted'')],
                 JObj [(''id'', JStr ''o9'')]])],
        ir_requested_at = 0, ir_request_hash = []\<rparr>"

lemma permitted_session_completes_witness:
  "\<exists>rs lg' h. infer sample_infer_fns (simulation ''phi-3-mini'' ''h1'' 2 50 (\<lambda>e. []))
     default_inference_policies (Fin (1 / 2)) sample_infer_draws sample_inference new_evidence_log = (Inr rs, lg') \<and>
     rs_status rs = IS_COMPLETE \<and> rs_hypothesis rs = Some h \<and>
     hp_affected_control_object_ids h = take 3 [''o1'', ''o2'']"
proof -
  let ?gate = "evaluate_gate sample_infer_fns (id_gate_time sample_infer_draws) default_inference_policies
      (ir_requesting_entity_id sample_inference) (ir_target_operational_plane sample_inference)
      (hypothesis_type_value (ir_hypothesis_type_requested sample_inference))
      (ir_target_control_object_ids sample_inference)"
  obtain g sp where g: "?gate = Inr g" "gr_scope_parameters g = Some sp"
    and sp: "sp_allowed_control_object_ids sp = [''o1'', ''o2'']" "sp_data_classification_ceiling sp = ''internal''"
    by (simp add: sample_inference_def ir_compute_hash_def evaluate_gate_def default_inference_policies_def
        add_policy_rule_def get_rules_for_plane_def evaluate_policy_rule_def make_scope_def Let_def sign_gate_result_def)
  obtain ctx where ctx: "enforce_scope sp (ir_context_data sample_inference) = Inr ctx"
    by (simp add: sample_inference_def ir_compute_hash_def enforce_scope_def scope_sections_def add_section_def
        filter_control_objects_def iterate_json_def keep_control_object_def in_str_set_def dget_default_def sp
        apply_classification_ceiling_def Let_def class_of_def level_of_def classification_hierarchy_def
        ceiling_level_def redaction_marker_def)
  have "\<not> pf_less (Fin (fl (78 / 100))) (Fin (1 / 2))" by code_simp
  then show ?thesis
    using permitted_session_completes [OF g ctx, of "Fin (1 / 2)" 50 "''phi-3-mini''" "''h1''" 2 "\<lambda>e. []" new_evidence_log]
    by (simp add: sample_inference_def ir_compute_hash_def)
qed

end
