(* ===== verification/Pack_Prelude.thy ===== *)
theory Pack_Prelude
  imports Py_Float "HOL-Library.List_Lexorder" "HOL-Library.Char_ord" "HOL-Library.Monad_Syntax"
begin

text \<open>
  What the domain packs share: the result of a rule (\<^verbatim>\<open>app/schemas/validation.py\<close>), and the uses the
  packs make of untyped dictionaries and numbers. An operation that raises is \<open>None\<close>: the packs catch
  no exception but those of a number conversion, so which one it is does not matter. Strings are
  compared by code point; \<open>lower()\<close> acts on ASCII letters.
\<close>

record pack_result =
  ru_rule_name :: string
  ru_passed :: bool
  ru_message :: string
  ru_severity :: string

definition rule_outcome :: "string \<Rightarrow> bool \<Rightarrow> string \<Rightarrow> string \<Rightarrow> pack_result" where
  "rule_outcome name passed ok_message bad_message =
     \<lparr>ru_rule_name = name, ru_passed = passed,
      ru_message = (if passed then ok_message else bad_message),
      ru_severity = (if passed then ''info'' else ''error'')\<rparr>"

lemma rule_outcome_simps [simp]:
  "ru_passed (rule_outcome name b ok bad) = b" "ru_rule_name (rule_outcome name b ok bad) = name"
  "ru_severity (rule_outcome name b ok bad) = (if b then ''info'' else ''error'')"
  by (simp_all add: rule_outcome_def)

section \<open>Untyped values\<close>

text \<open>A string method of a value: only a string has one.\<close>

definition as_str :: "json \<Rightarrow> string option" where
  "as_str j = (case j of JStr s \<Rightarrow> Some s | _ \<Rightarrow> None)"

text \<open>Iterating over a value, and using it as an object.\<close>

definition as_items :: "json \<Rightarrow> json list option" where
  "as_items j = (case json_items j of Inr xs \<Rightarrow> Some xs | Inl e \<Rightarrow> None)"

definition as_obj :: "json \<Rightarrow> (string, json) dict option" where
  "as_obj j = (case j of JObj d \<Rightarrow> Some d | _ \<Rightarrow> None)"

definition as_key :: "json \<Rightarrow> json option" where
  "as_key j = (if json_hashable j then Some j else None)"

text \<open>Being one of some strings.\<close>

definition json_is :: "json \<Rightarrow> string list \<Rightarrow> bool" where
  "json_is j xs = (case j of JStr s \<Rightarrow> s \<in> set xs | _ \<Rightarrow> False)"

text \<open>\<open>a < b\<close>: strings, numbers, and lists of such; anything else raises.\<close>

fun json_lt :: "json \<Rightarrow> json \<Rightarrow> bool option" and json_lt_list :: "json list \<Rightarrow> json list \<Rightarrow> bool option" where
  "json_lt (JStr s) y = (case y of JStr t \<Rightarrow> Some (s < t) | _ \<Rightarrow> None)"
| "json_lt (JList xs) y = (case y of JList ys \<Rightarrow> json_lt_list xs ys | _ \<Rightarrow> None)"
| "json_lt x y =
     (case json_num x of
        None \<Rightarrow> None
      | Some a \<Rightarrow> (case json_num y of None \<Rightarrow> None | Some b \<Rightarrow> Some (a < b)))"
| "json_lt_list [] ys = Some (ys \<noteq> [])"
| "json_lt_list (x # xs) ys =
     (case ys of
        [] \<Rightarrow> Some False
      | y # zs \<Rightarrow> if py_eq x y then json_lt_list xs zs else json_lt x y)"

text \<open>A dictionary with untyped keys, later entries replacing equal ones.\<close>

fun jput :: "json \<Rightarrow> 'v \<Rightarrow> (json \<times> 'v) list \<Rightarrow> (json \<times> 'v) list" where
  "jput k v [] = [(k, v)]"
| "jput k v ((k', v') # d) = (if py_eq k' k then (k', v) # d else (k', v') # jput k v d)"

definition jlookup :: "json \<Rightarrow> (json \<times> 'v) list \<Rightarrow> 'v option" where
  "jlookup k d = map_option snd (find (\<lambda>(k', v). py_eq k' k) d)"

text \<open>Dictionaries whose fields are strings, and the field with its default.\<close>

definition string_fields :: "(string, json) dict \<Rightarrow> bool" where
  "string_fields d = list_all (\<lambda>(k, v). case v of JStr s \<Rightarrow> True | _ \<Rightarrow> False) d"

definition text_field :: "(string, json) dict \<Rightarrow> string \<Rightarrow> string \<Rightarrow> string" where
  "text_field d k t = (case dget d k of Some (JStr s) \<Rightarrow> s | _ \<Rightarrow> t)"

lemma dget_default_string:
  assumes "string_fields d"
  shows "dget_default d k (JStr t) = JStr (text_field d k t)"
proof -
  have "case dget d k of None \<Rightarrow> True | Some v \<Rightarrow> (case v of JStr s \<Rightarrow> True | _ \<Rightarrow> False)"
    using assms by (induction d) (auto simp: string_fields_def split: option.splits)
  then show ?thesis
    by (auto simp: dget_default_def text_field_def split: option.splits json.splits)
qed

text \<open>Loops that may raise.\<close>

fun each :: "('a \<Rightarrow> 'b option) \<Rightarrow> 'a list \<Rightarrow> 'b list option" where
  "each f [] = Some []"
| "each f (x # xs) = do { y \<leftarrow> f x; ys \<leftarrow> each f xs; Some (y # ys) }"

fun loop :: "('a \<Rightarrow> 's \<Rightarrow> 's option) \<Rightarrow> 'a list \<Rightarrow> 's \<Rightarrow> 's option" where
  "loop f [] s = Some s"
| "loop f (x # xs) s = do { s' \<leftarrow> f x s; loop f xs s' }"

lemma loop_total: "(\<And>x s. f x s = Some (g x s)) \<Longrightarrow> loop f xs s = Some (foldl (\<lambda>s x. g x s) s xs)"
  by (induction xs arbitrary: s) simp_all

lemma each_total: "(\<And>x. x \<in> set xs \<Longrightarrow> f x = Some (g x)) \<Longrightarrow> each f xs = Some (map g xs)"
  by (induction xs) simp_all

lemma loop_invariant:
  assumes "loop f xs s = Some s'" "I s" "\<And>x s s'. x \<in> set xs \<Longrightarrow> I s \<Longrightarrow> f x s = Some s' \<Longrightarrow> I s'"
  shows "I s'"
  using assms
proof (induction xs arbitrary: s)
  case (Cons x xs)
  then obtain t where "f x s = Some t" "loop f xs t = Some s'" by (auto split: Option.bind_splits)
  then show ?case using Cons.IH [of t] Cons.prems(2,3) by (meson list.set_intros)
qed simp

section \<open>Numbers\<close>

fun pf_mul :: "pyfloat \<Rightarrow> pyfloat \<Rightarrow> pyfloat" where
  "pf_mul (Fin a) (Fin b) = to_float (a * b)"
| "pf_mul NaN y = NaN"
| "pf_mul x NaN = NaN"
| "pf_mul PInf y = (if y = Fin 0 then NaN else if pf_less (Fin 0) y then PInf else MInf)"
| "pf_mul MInf y = (if y = Fin 0 then NaN else if pf_less (Fin 0) y then MInf else PInf)"
| "pf_mul x PInf = (if x = Fin 0 then NaN else if pf_less (Fin 0) x then PInf else MInf)"
| "pf_mul x MInf = (if x = Fin 0 then NaN else if pf_less (Fin 0) x then MInf else PInf)"

text \<open>Division by a divisor that is not zero.\<close>

fun pf_div :: "pyfloat \<Rightarrow> pyfloat \<Rightarrow> pyfloat" where
  "pf_div (Fin a) (Fin b) = to_float (a / b)"
| "pf_div NaN y = NaN"
| "pf_div x NaN = NaN"
| "pf_div (Fin a) y = Fin 0"
| "pf_div PInf (Fin b) = (if 0 < b then PInf else MInf)"
| "pf_div MInf (Fin b) = (if 0 < b then MInf else PInf)"
| "pf_div x y = NaN"

fun pf_round :: "nat \<Rightarrow> pyfloat \<Rightarrow> pyfloat" where
  "pf_round n (Fin q) = Fin (py_round q n)"
| "pf_round n x = x"

text \<open>A number as an operand of float arithmetic.\<close>

definition as_number :: "json \<Rightarrow> pyfloat option" where
  "as_number j =
     (case json_num j of
        None \<Rightarrow> None
      | Some q \<Rightarrow> (case py_float j of Inr x \<Rightarrow> Some x | Inl e \<Rightarrow> None))"

text \<open>A number with a fixed number of decimals, as \<open>f"{x:.2f}"\<close> prints it.\<close>

fun fixed_str :: "nat \<Rightarrow> pyfloat \<Rightarrow> string" where
  "fixed_str n (Fin q) =
     (let m = \<bar>round_even (q * 10 ^ n)\<bar>; ds = digits_of m;
          ds = replicate (Suc n - length ds) (CHR ''0'') @ ds
      in (if q < 0 then ''-'' else []) @ take (length ds - n) ds @
         (if n = 0 then [] else ''.'' @ drop (length ds - n) ds))"
| "fixed_str n x = pf_str x"

definition sum_floats :: "pyfloat list \<Rightarrow> pyfloat" where
  "sum_floats xs = foldl pf_add (Fin 0) xs"

text \<open>The members of a list, once each: the order in which Python prints a set is not kept.\<close>

definition set_str :: "string list \<Rightarrow> string" where
  "set_str xs = (if xs = [] then ''set()'' else ''{'' @ comma_join (map str_repr (remdups xs)) @ ''}'')"

definition list_str :: "string list \<Rightarrow> string" where
  "list_str xs = py_repr (JList (map JStr xs))"

end
