(* ===== verification/Telco_Rules.thy ===== *)
theory Telco_Rules
  imports Pack_Prelude
begin

text \<open>
  The rule engines of the telecom operations pack, \<^verbatim>\<open>app/domain_packs/telco_ops/rules.py\<close> with the
  types of \<^verbatim>\<open>schemas.py\<close> they use: escalation, next action, ownership, runbooks, reconciliation of
  incidents with work orders and service states, dispatch, and the Vodafone engines.

  Where a message prints a set, its members are listed in the order of the incident; a long dash in
  a message is written as a hyphen. The success rate of a runbook is a finite float.
\<close>

section \<open>Types\<close>

datatype incident_severity = SV_P1 | SV_P2 | SV_P3 | SV_P4

fun severity_value :: "incident_severity \<Rightarrow> string" where
  "severity_value SV_P1 = ''p1''"
| "severity_value SV_P2 = ''p2''"
| "severity_value SV_P3 = ''p3''"
| "severity_value SV_P4 = ''p4''"

datatype incident_state = IN_NEW | IN_ACKNOWLEDGED | IN_INVESTIGATING | IN_RESOLVED | IN_CLOSED

fun incident_state_value :: "incident_state \<Rightarrow> string" where
  "incident_state_value IN_NEW = ''new''"
| "incident_state_value IN_ACKNOWLEDGED = ''acknowledged''"
| "incident_state_value IN_INVESTIGATING = ''investigating''"
| "incident_state_value IN_RESOLVED = ''resolved''"
| "incident_state_value IN_CLOSED = ''closed''"

datatype service_state = SS_ACTIVE | SS_DEGRADED | SS_OUTAGE | SS_MAINTENANCE | SS_PROVISIONING

fun service_state_value :: "service_state \<Rightarrow> string" where
  "service_state_value SS_ACTIVE = ''active''"
| "service_state_value SS_DEGRADED = ''degraded''"
| "service_state_value SS_OUTAGE = ''outage''"
| "service_state_value SS_MAINTENANCE = ''maintenance''"
| "service_state_value SS_PROVISIONING = ''provisioning''"

datatype escalation_level = EL_L1 | EL_L2 | EL_L3 | EL_MANAGEMENT

fun escalation_value :: "escalation_level \<Rightarrow> string" where
  "escalation_value EL_L1 = ''l1''"
| "escalation_value EL_L2 = ''l2''"
| "escalation_value EL_L3 = ''l3''"
| "escalation_value EL_MANAGEMENT = ''management''"

datatype impact_level = IL_CRITICAL | IL_MAJOR | IL_MINOR | IL_NEGLIGIBLE

fun impact_value :: "impact_level \<Rightarrow> string" where
  "impact_value IL_CRITICAL = ''critical''"
| "impact_value IL_MAJOR = ''major''"
| "impact_value IL_MINOR = ''minor''"
| "impact_value IL_NEGLIGIBLE = ''negligible''"

datatype alignment_status = AS_ALIGNED | AS_MISMATCHED | AS_PARTIAL | AS_UNKNOWN

record parsed_incident =
  pi_incident_id :: string
  pi_title :: string
  pi_description :: string
  pi_severity :: incident_severity
  pi_state :: incident_state
  pi_affected_services :: "string list"
  pi_tags :: "string list"

record next_action =
  na_action :: string
  na_owner :: string
  na_reason :: string
  na_priority :: string

record escalation_decision =
  ed_escalate :: bool
  ed_level :: "escalation_level option"
  ed_owner :: string
  ed_reason :: string

record service_state_object =
  so_service_id :: string
  so_service_name :: string
  so_state :: service_state
  so_impact_level :: impact_level

record runbook_step =
  rb_step_number :: int
  rb_action :: string
  rb_expected_result :: string

record runbook =
  rk_runbook_id :: string
  rk_title :: string
  rk_applicable_severity :: "string list"
  rk_applicable_services :: "string list"
  rk_steps :: "runbook_step list"
  rk_estimated_time_minutes :: int
  rk_success_rate :: rat
  rk_last_updated :: string

record alignment_mismatch =
  am_field :: string
  am_incident_value :: string
  am_work_order_value :: string
  am_severity :: string
  am_resolution :: string

record alignment_result =
  ar_status :: alignment_status
  ar_mismatches :: "alignment_mismatch list"
  ar_recommendations :: "string list"
  ar_confidence :: rat

section \<open>Escalation\<close>

definition escalation_owner :: "escalation_level option \<Rightarrow> string" where
  "escalation_owner level =
     (case level of
        None \<Rightarrow> ''unassigned''
      | Some EL_L1 \<Rightarrow> ''service_desk''
      | Some EL_L2 \<Rightarrow> ''engineering_team''
      | Some EL_L3 \<Rightarrow> ''senior_engineering''
      | Some EL_MANAGEMENT \<Rightarrow> ''service_delivery_manager'')"

definition critical_services :: "string list" where
  "critical_services = [''core_network'', ''voice_platform'', ''billing'', ''hss'', ''mme'']"

definition affected_critical :: "parsed_incident \<Rightarrow> string list" where
  "affected_critical inc = filter (\<lambda>s. s \<in> set critical_services) (remdups (pi_affected_services inc))"

text \<open>What the rules thread: whether to escalate, the level and the reason so far.\<close>

type_synonym escalation = "bool \<times> escalation_level option \<times> string"

definition er_severity :: "parsed_incident \<Rightarrow> escalation" where
  "er_severity inc =
     (if pi_severity inc = SV_P1 then (True, Some EL_L3, ''P1 incident requires immediate L3 escalation'')
      else if pi_severity inc = SV_P2 then (True, Some EL_L2, ''P2 incident requires L2 escalation'')
      else (False, None, []))"

definition er_sla_breach :: "bool \<Rightarrow> escalation \<Rightarrow> escalation" where
  "er_sla_breach breached e =
     (case e of
        (b, level, reason) \<Rightarrow>
          if breached
          then (True, Some (if level = Some EL_L3 then EL_MANAGEMENT else EL_L3), ''SLA breach detected. '' @ reason)
          else e)"

definition er_repeated :: "int \<Rightarrow> escalation \<Rightarrow> escalation" where
  "er_repeated n e =
     (case e of
        (b, level, reason) \<Rightarrow>
          if n \<ge> 3
          then (True,
                (case level of
                   None \<Rightarrow> Some EL_L2
                 | Some l \<Rightarrow> if escalation_value l < escalation_value EL_L2 then Some EL_L2 else Some l),
                ''Repeated incident (count: '' @ int_str n @ ''). '' @ reason)
          else e)"

definition er_outage :: "service_state option \<Rightarrow> escalation \<Rightarrow> escalation" where
  "er_outage st e =
     (case e of
        (b, level, reason) \<Rightarrow>
          if st = Some SS_OUTAGE then (True, Some EL_L3, ''Service outage detected. '' @ reason) else e)"

definition er_critical :: "parsed_incident \<Rightarrow> escalation \<Rightarrow> escalation" where
  "er_critical inc e =
     (case e of
        (b, level, reason) \<Rightarrow>
          if length (affected_critical inc) \<ge> 2
          then (True, Some EL_MANAGEMENT,
                ''Multiple critical services affected: '' @ comma_join (affected_critical inc) @ ''. '' @ reason)
          else e)"

definition er_p2_breach :: "parsed_incident \<Rightarrow> bool \<Rightarrow> escalation \<Rightarrow> escalation" where
  "er_p2_breach inc breached e =
     (case e of
        (b, level, reason) \<Rightarrow>
          if pi_severity inc = SV_P2 \<and> breached
          then (b, Some EL_MANAGEMENT, ''P2 incident with SLA breach requires management escalation. '' @ reason)
          else e)"

definition evaluate_escalation ::
  "parsed_incident \<Rightarrow> service_state option \<Rightarrow> bool \<Rightarrow> int \<Rightarrow> escalation_decision" where
  "evaluate_escalation inc st breached repeat_count =
     (case er_p2_breach inc breached (er_critical inc (er_outage st (er_repeated repeat_count
             (er_sla_breach breached (er_severity inc))))) of
        (b, level, reason) \<Rightarrow>
          \<lparr>ed_escalate = b, ed_level = level, ed_owner = (if b then escalation_owner level else []),
           ed_reason = py_strip reason\<rparr>)"

section \<open>Next action\<close>

definition valid_actions :: "incident_state \<Rightarrow> string list" where
  "valid_actions st =
     (case st of
        IN_NEW \<Rightarrow> [''investigate'', ''assign_engineer'', ''escalate'']
      | IN_ACKNOWLEDGED \<Rightarrow> [''investigate'', ''dispatch'', ''escalate'']
      | IN_INVESTIGATING \<Rightarrow> [''dispatch'', ''resolve'', ''escalate'', ''monitor'']
      | IN_RESOLVED \<Rightarrow> [''close'', ''reopen'', ''monitor'']
      | IN_CLOSED \<Rightarrow> [''reopen''])"

definition best_action :: "incident_state \<Rightarrow> service_state option \<Rightarrow> bool \<Rightarrow> bool \<Rightarrow> string \<times> string" where
  "best_action st sv has_runbook has_owner =
     (case st of
        IN_NEW \<Rightarrow>
          if \<not> has_owner then (''assign_engineer'', ''Incident not yet assigned'')
          else (''investigate'', ''Begin investigation'')
      | IN_INVESTIGATING \<Rightarrow>
          if sv = Some SS_OUTAGE then (''escalate'', ''Service outage requires escalation'')
          else if has_runbook then (''dispatch'', ''Runbook available, dispatch for resolution'')
          else (''investigate'', ''Continue investigation'')
      | IN_RESOLVED \<Rightarrow> (''close'', ''Incident resolved, ready for closure'')
      | _ \<Rightarrow> (case valid_actions st of [] \<Rightarrow> ''investigate'' | a # as \<Rightarrow> a, ''Default action for current state''))"

definition evaluate_action :: "incident_state \<Rightarrow> service_state option \<Rightarrow> bool \<Rightarrow> bool \<Rightarrow> next_action" where
  "evaluate_action st sv has_runbook has_owner =
     (case best_action st sv has_runbook has_owner of
        (action, reason) \<Rightarrow>
          \<lparr>na_action = action, na_owner = [], na_reason = reason,
           na_priority = (if sv = Some SS_OUTAGE then ''high'' else ''normal'')\<rparr>)"

definition validate_state_transition :: "incident_state \<Rightarrow> string \<Rightarrow> bool" where
  "validate_state_transition st action = (action \<in> set (valid_actions st))"

record runbook_completion =
  rc_total_steps :: int
  rc_completed_steps :: int
  rc_pending_step_numbers :: "json list"
  rc_all_complete :: bool
  rc_completion_pct :: rat

text \<open>The steps of a parsed runbook are untyped objects; their number defaults to their position.\<close>

definition check_runbook_completion :: "(string, json) dict list \<Rightarrow> int list \<Rightarrow> runbook_completion" where
  "check_runbook_completion steps executed =
     (let total = int (length steps); completed = int (length (remdups executed));
          pending = map (\<lambda>(i, s). dget_default s ''step_number'' (JInt (int i + 1)))
            (filter (\<lambda>(i, s). int i + 1 \<notin> set executed) (enumerate 0 steps))
      in \<lparr>rc_total_steps = total, rc_completed_steps = completed, rc_pending_step_numbers = pending,
          rc_all_complete = (completed \<ge> total),
          rc_completion_pct =
            (if total \<noteq> 0 then py_round (fl (fl (of_int completed / of_int total) * 100)) 1 else 100)\<rparr>)"

record sla_window =
  sw_limit :: int
  sw_elapsed :: int
  sw_remaining :: int
  sw_pct_used :: rat
  sw_status :: string

definition sla_limit :: "incident_severity \<Rightarrow> int" where
  "sla_limit s = (case s of SV_P1 \<Rightarrow> 60 | SV_P2 \<Rightarrow> 240 | SV_P3 \<Rightarrow> 480 | SV_P4 \<Rightarrow> 1440)"

definition check_sla_window :: "incident_severity \<Rightarrow> int \<Rightarrow> sla_window" where
  "check_sla_window s elapsed =
     (let limit = sla_limit s; remaining = max 0 (limit - elapsed);
          pct_used = (if limit \<noteq> 0 then py_round (fl (fl (of_int elapsed / of_int limit) * 100)) 1 else 100)
      in \<lparr>sw_limit = limit, sw_elapsed = elapsed, sw_remaining = remaining, sw_pct_used = pct_used,
          sw_status = (if remaining = 0 then ''breached'' else if pct_used \<ge> 80 then ''warning'' else ''within'')\<rparr>)"

definition recommend_parallel_actions :: "parsed_incident \<Rightarrow> service_state option \<Rightarrow> string list" where
  "recommend_parallel_actions inc sv =
     (if pi_state inc = IN_INVESTIGATING
      then [''monitor''] @ (if sv = Some SS_DEGRADED then [''contact_customer''] else []) @
           (if length (pi_affected_services inc) > 1 then [''isolate_affected_services''] else [])
      else []) @
     (if pi_state inc = IN_ACKNOWLEDGED then [''investigate'', ''notify_stakeholders''] else [])"

definition determine_owner :: "incident_severity \<Rightarrow> escalation_level option \<Rightarrow> string" where
  "determine_owner s level =
     (if level = Some EL_MANAGEMENT then ''service_delivery_manager''
      else if level = Some EL_L3 then ''senior_engineering''
      else if s = SV_P1 then ''on_call_engineer''
      else if s = SV_P2 then ''engineering_team''
      else ''service_desk'')"

section \<open>Runbooks\<close>

definition runbook_score :: "parsed_incident \<Rightarrow> runbook \<Rightarrow> rat" where
  "runbook_score inc rb =
     (let shared = filter (\<lambda>s. s \<in> set (rk_applicable_services rb)) (remdups (pi_affected_services inc));
          score = of_nat (length shared) * 3;
          score = (if severity_value (pi_severity inc) \<in> set (rk_applicable_severity rb) then fl (score + 5) else score);
          score = fl (score + fl (rk_success_rate rb * 2))
      in if rk_estimated_time_minutes rb \<noteq> 0 \<and> rk_estimated_time_minutes rb < 60 then fl (score + 1) else score)"

definition recommend_runbook :: "parsed_incident \<Rightarrow> runbook list \<Rightarrow> runbook option" where
  "recommend_runbook inc available =
     (let (best, best_score) = foldl (\<lambda>(best, best_score) rb.
            let score = runbook_score inc rb
            in if score > best_score then (Some rb, score) else (best, best_score)) (None, - 1) available
      in if best_score > 0 then best else None)"

definition validate_runbook_applicability :: "runbook \<Rightarrow> parsed_incident \<Rightarrow> pack_result list" where
  "validate_runbook_applicability rb inc =
     (if rk_applicable_services rb \<noteq> [] \<and> pi_affected_services inc \<noteq> []
      then let overlap = filter (\<lambda>s. s \<in> set (pi_affected_services inc)) (remdups (rk_applicable_services rb))
           in [rule_outcome ''runbook_service_match'' (overlap \<noteq> []) (''Service overlap: '' @ set_str overlap)
                 ''No matching services'']
      else []) @
     (if rk_applicable_severity rb \<noteq> []
      then let sev = severity_value (pi_severity inc); sev_match = (sev \<in> set (rk_applicable_severity rb))
           in [\<lparr>ru_rule_name = ''runbook_severity_match'', ru_passed = sev_match,
                ru_message = (if sev_match then ''Severity '' @ sev @ '' is applicable''
                              else ''Severity '' @ sev @ '' not in '' @ list_str (rk_applicable_severity rb)),
                ru_severity = (if sev_match then ''info'' else ''warning'')\<rparr>]
      else []) @
     (if rk_last_updated rb \<noteq> []
      then [\<lparr>ru_rule_name = ''runbook_freshness'', ru_passed = True,
             ru_message = ''Runbook last updated: '' @ rk_last_updated rb, ru_severity = ''info''\<rparr>]
      else [])"

record step_completion =
  sc_total :: nat
  sc_completed :: nat
  sc_pending :: nat
  sc_pending_steps :: "int list"
  sc_all_complete :: bool

definition check_runbook_step_completion :: "runbook \<Rightarrow> int list \<Rightarrow> step_completion" where
  "check_runbook_step_completion rb executed =
     (let completed = filter (\<lambda>s. rb_step_number s \<in> set executed) (rk_steps rb);
          pending = filter (\<lambda>s. rb_step_number s \<notin> set executed) (rk_steps rb)
      in \<lparr>sc_total = length (rk_steps rb), sc_completed = length completed, sc_pending = length pending,
          sc_pending_steps = map rb_step_number pending, sc_all_complete = (length pending = 0)\<rparr>)"

definition suggest_next_runbook_step :: "runbook \<Rightarrow> int list \<Rightarrow> runbook_step option" where
  "suggest_next_runbook_step rb completed =
     find (\<lambda>s. rb_step_number s \<notin> set completed) (sort_key rb_step_number (rk_steps rb))"

end
