(* ===== verification/Telco_Alignment.thy ===== *)
theory Telco_Alignment
  imports Telco_Rules
begin

text \<open>
  The second half of \<^verbatim>\<open>app/domain_packs/telco_ops/rules.py\<close>: the reconciliation of an incident with a
  work order (untyped dictionaries, so that comparing or storing a wrong value raises) and with the
  state of a service, the need for a dispatch, and the Vodafone engines for service levels,
  escalation, closure and dispatch.
\<close>

section \<open>Reconciliation\<close>

definition expected_wo_states :: "string \<Rightarrow> string list" where
  "expected_wo_states s =
     dget_default
       [(''new'', [''open'', ''new'', ''pending'']),
        (''acknowledged'', [''open'', ''assigned'', ''in_progress'']),
        (''investigating'', [''in_progress'', ''assigned'']),
        (''resolved'', [''completed'', ''resolved'', ''done'']),
        (''closed'', [''completed'', ''closed'', ''done''])] s []"

definition expected_states :: "json \<Rightarrow> string list option" where
  "expected_states j = do { k \<leftarrow> as_key j; Some (case k of JStr s \<Rightarrow> expected_wo_states s | _ \<Rightarrow> []) }"

definition make_mismatch :: "string \<Rightarrow> json \<Rightarrow> json \<Rightarrow> string \<Rightarrow> string \<Rightarrow> alignment_mismatch option" where
  "make_mismatch field inc_val wo_val severity resolution =
     do { i \<leftarrow> as_str inc_val; w \<leftarrow> as_str wo_val;
          Some \<lparr>am_field = field, am_incident_value = i, am_work_order_value = w,
                am_severity = severity, am_resolution = resolution\<rparr> }"

definition work_order_status :: "alignment_mismatch list \<Rightarrow> alignment_status \<times> rat" where
  "work_order_status ms =
     (if ms = [] then (AS_ALIGNED, 1)
      else if list_all (\<lambda>m. am_severity m = ''info'') ms then (AS_PARTIAL, fl (8 / 10))
      else if list_ex (\<lambda>m. am_severity m = ''error'') ms then (AS_MISMATCHED, fl (4 / 10))
      else (AS_PARTIAL, fl (6 / 10)))"

text \<open>The four comparisons, each giving the mismatches it adds and its recommendations.\<close>

definition align_state :: "json \<Rightarrow> json \<Rightarrow> (alignment_mismatch list \<times> string list) option" where
  "align_state inc_state wo_state =
     do { expected \<leftarrow> expected_states inc_state;
          if json_truthy wo_state \<and> expected \<noteq> [] \<and> \<not> json_is wo_state expected
          then do { m \<leftarrow> make_mismatch ''state'' inc_state wo_state ''error''
                      (''Expected work-order state in '' @ list_str expected @ '' for incident state '' @
                       [CHR 0x27] @ py_str inc_state @ [CHR 0x27]);
                    Some ([m], [''Align work-order state to match incident state '' @ [CHR 0x27] @
                                py_str inc_state @ [CHR 0x27]]) }
          else Some ([], []) }"

definition align_owner :: "json \<Rightarrow> json \<Rightarrow> alignment_mismatch list option" where
  "align_owner inc_owner wo_owner =
     (if json_truthy inc_owner \<and> json_truthy wo_owner \<and> \<not> py_eq inc_owner wo_owner
      then do { m \<leftarrow> make_mismatch ''assigned_to'' inc_owner wo_owner ''warning''
                  ''Verify whether separate owners are intentional''; Some [m] }
      else Some [])"

definition align_timeline :: "json \<Rightarrow> json \<Rightarrow> alignment_mismatch list option" where
  "align_timeline inc_ack wo_created =
     (if json_truthy inc_ack \<and> json_truthy wo_created
      then do { early \<leftarrow> json_lt wo_created inc_ack;
                Some (if early
                      then [\<lparr>am_field = ''timeline'', am_incident_value = ''acknowledged_at='' @ py_str inc_ack,
                             am_work_order_value = ''created_at='' @ py_str wo_created,
                             am_severity = ''warning'',
                             am_resolution = ''Work order created before incident acknowledgment - verify sequence''\<rparr>]
                      else []) }
      else Some [])"

definition align_resolution :: "json \<Rightarrow> json \<Rightarrow> json \<Rightarrow> json \<Rightarrow> alignment_mismatch list option" where
  "align_resolution inc_state wo_state inc_resolution wo_resolution =
     (if json_is inc_state [''resolved''] \<and> json_is wo_state [''completed'', ''done''] \<and>
         json_truthy inc_resolution \<and> json_truthy wo_resolution
      then do { a \<leftarrow> as_str inc_resolution; b \<leftarrow> as_str wo_resolution;
                if py_lower a \<noteq> py_lower b
                then do { m \<leftarrow> make_mismatch ''resolution'' inc_resolution wo_resolution ''info''
                            ''Review whether root cause and work performed are consistent''; Some [m] }
                else Some [] }
      else Some [])"

definition reconcile_incident_and_work_order ::
  "(string, json) dict \<Rightarrow> (string, json) dict \<Rightarrow> alignment_result option" where
  "reconcile_incident_and_work_order inc wo =
     (let g = (\<lambda>d k. dget_default d k (JStr []));
          inc_state = g inc ''state''; wo_state = dget_default wo ''state'' (g wo ''status'');
          wo_owner = dget_default wo ''assigned_to'' (g wo ''technician'')
      in do { (m1, recs) \<leftarrow> align_state inc_state wo_state;
              m2 \<leftarrow> align_owner (g inc ''assigned_to'') wo_owner;
              m3 \<leftarrow> align_timeline (g inc ''acknowledged_at'') (g wo ''created_at'');
              m4 \<leftarrow> align_resolution inc_state wo_state (g inc ''root_cause'') (g wo ''work_performed'');
              let ms = m1 @ m2 @ m3 @ m4; (st, conf) = work_order_status ms
              in Some \<lparr>ar_status = st, ar_mismatches = ms, ar_recommendations = recs, ar_confidence = conf\<rparr> })"

definition expected_impacts :: "incident_severity \<Rightarrow> string list" where
  "expected_impacts s =
     (case s of
        SV_P1 \<Rightarrow> [''critical'', ''major''] | SV_P2 \<Rightarrow> [''major'', ''critical'']
      | SV_P3 \<Rightarrow> [''minor'', ''major''] | SV_P4 \<Rightarrow> [''negligible'', ''minor''])"

definition service_status :: "alignment_mismatch list \<Rightarrow> alignment_status \<times> rat" where
  "service_status ms =
     (if ms = [] then (AS_ALIGNED, 1)
      else if list_ex (\<lambda>m. am_severity m = ''critical'') ms then (AS_MISMATCHED, fl (2 / 10))
      else if list_ex (\<lambda>m. am_severity m = ''error'') ms then (AS_MISMATCHED, fl (4 / 10))
      else (AS_PARTIAL, fl (7 / 10)))"

text \<open>A comparison: the mismatch and the recommendations, when its condition holds.\<close>

definition finding_if :: "bool \<Rightarrow> alignment_mismatch \<Rightarrow> string list \<Rightarrow> alignment_mismatch list \<times> string list" where
  "finding_if b m recs = (if b then ([m], recs) else ([], []))"

definition reconcile_incident_and_service_state :: "parsed_incident \<Rightarrow> service_state_object \<Rightarrow> alignment_result" where
  "reconcile_incident_and_service_state inc so =
     (let sev = severity_value (pi_severity inc); imp = impact_value (so_impact_level so);
          expected = expected_impacts (pi_severity inc);
          r1 = finding_if (imp \<notin> set expected)
            \<lparr>am_field = ''impact_level'', am_incident_value = ''severity='' @ sev,
             am_work_order_value = ''impact='' @ imp, am_severity = ''warning'',
             am_resolution = ''Incident severity '' @ sev @ '' typically maps to impact '' @ list_str expected\<rparr>
            [''Review severity/impact alignment''];
          r2 = finding_if (so_service_name so \<noteq> [] \<and> pi_affected_services inc \<noteq> [] \<and>
              so_service_name so \<notin> set (pi_affected_services inc))
            \<lparr>am_field = ''affected_services'', am_incident_value = list_str (pi_affected_services inc),
             am_work_order_value = so_service_name so, am_severity = ''error'',
             am_resolution = ''Service state refers to a service not listed in the incident''\<rparr> [];
          r3 = finding_if (pi_state inc = IN_RESOLVED \<and> so_state so = SS_OUTAGE)
            \<lparr>am_field = ''resolution_state'', am_incident_value = ''resolved'', am_work_order_value = ''outage'',
             am_severity = ''critical'',
             am_resolution = ''Incident marked resolved but service still in outage - verify resolution''\<rparr>
            [''Re-open incident or confirm service has recovered''];
          r4 = finding_if (pi_state inc = IN_CLOSED \<and> so_state so \<in> {SS_OUTAGE, SS_DEGRADED})
            \<lparr>am_field = ''resolution_state'', am_incident_value = ''closed'',
             am_work_order_value = service_state_value (so_state so), am_severity = ''critical'',
             am_resolution = ''Incident closed but service not fully restored''\<rparr>
            [''Re-open incident - service still impacted''];
          ms = concat (map fst [r1, r2, r3, r4]); (st, conf) = service_status ms
      in \<lparr>ar_status = st, ar_mismatches = ms, ar_recommendations = concat (map snd [r1, r2, r3, r4]),
          ar_confidence = conf\<rparr>)"

section \<open>Dispatch need\<close>

definition hardware_keywords :: "string list" where
  "hardware_keywords = [''hardware'', ''disk'', ''power'', ''psu'', ''fan'', ''chassis'', ''nic'', ''card'',
     ''module'', ''physical'', ''cable'', ''fiber'', ''antenna'']"

definition mentions :: "string \<Rightarrow> string list \<Rightarrow> bool" where
  "mentions txt kws = list_ex (\<lambda>kw. py_substring kw txt) kws"

definition incident_text :: "parsed_incident \<Rightarrow> string" where
  "incident_text inc = py_lower (pi_title inc @ '' '' @ pi_description inc)"

record dispatch_need =
  dn_dispatch_needed :: bool
  dn_severity_requires_onsite :: bool
  dn_hardware_failure_detected :: bool
  dn_remote_resolution_exhausted :: bool
  dn_customer_requested_onsite :: bool
  dn_sla_requires_physical_presence :: bool
  dn_reasons :: "string list"

definition space_join :: "string list \<Rightarrow> string" where
  "space_join xs = (case xs of [] \<Rightarrow> [] | x # ys \<Rightarrow> x @ concat (map (\<lambda>y. '' '' @ y) ys))"

definition determine_dispatch_need :: "parsed_incident \<Rightarrow> service_state_object option \<Rightarrow> bool \<Rightarrow> dispatch_need" where
  "determine_dispatch_need inc so has_remote =
     (let txt = incident_text inc;
          severity_requires = (pi_severity inc = SV_P1 \<and> (case so of None \<Rightarrow> False | Some s \<Rightarrow> so_state s = SS_OUTAGE));
          hardware = mentions txt hardware_keywords;
          remote_failed = (py_substring ''remote'' txt \<and> mentions txt [''failed'', ''unsuccessful'']);
          remote = (\<not> has_remote \<and> pi_state inc = IN_INVESTIGATING \<or> remote_failed);
          customer = mentions txt [''onsite'', ''on-site'', ''customer requested''];
          sla = (py_substring ''sla'' (py_lower (space_join (pi_tags inc))) \<and> pi_severity inc \<in> {SV_P1, SV_P2})
      in \<lparr>dn_dispatch_needed = (severity_requires \<or> hardware \<or> remote \<or> customer \<or> sla),
          dn_severity_requires_onsite = severity_requires, dn_hardware_failure_detected = hardware,
          dn_remote_resolution_exhausted = remote, dn_customer_requested_onsite = customer,
          dn_sla_requires_physical_presence = sla,
          dn_reasons =
            (if severity_requires then [''P1 outage typically requires on-site presence''] else []) @
            (if hardware then [''Hardware-related keywords detected in incident''] else []) @
            (if remote_failed then [''Remote resolution attempt was unsuccessful''] else []) @
            (if customer then [''Customer has requested on-site support''] else []) @
            (if sla then [''SLA terms may require physical presence for this severity''] else [])\<rparr>)"

section \<open>Vodafone: service levels\<close>

record sla_definition =
  sd_severity :: incident_severity
  sd_response_time_minutes :: int
  sd_resolution_time_minutes :: int
  sd_update_frequency_minutes :: int
  sd_bridge_call_required :: bool

definition vodafone_sla_definitions :: "sla_definition list" where
  "vodafone_sla_definitions =
     [\<lparr>sd_severity = SV_P1, sd_response_time_minutes = 15, sd_resolution_time_minutes = 240,
       sd_update_frequency_minutes = 15, sd_bridge_call_required = True\<rparr>,
      \<lparr>sd_severity = SV_P2, sd_response_time_minutes = 30, sd_resolution_time_minutes = 480,
       sd_update_frequency_minutes = 30, sd_bridge_call_required = True\<rparr>,
      \<lparr>sd_severity = SV_P3, sd_response_time_minutes = 240, sd_resolution_time_minutes = 1440,
       sd_update_frequency_minutes = 240, sd_bridge_call_required = False\<rparr>,
      \<lparr>sd_severity = SV_P4, sd_response_time_minutes = 480, sd_resolution_time_minutes = 7200,
       sd_update_frequency_minutes = 1440, sd_bridge_call_required = False\<rparr>]"

definition threshold_status :: "int \<Rightarrow> int \<Rightarrow> string" where
  "threshold_status elapsed limit =
     (if elapsed \<ge> limit then ''breached''
      else if of_int elapsed \<ge> fl (of_int limit * fl (80 / 100)) then ''warning'' else ''within'')"

record sla_report =
  sl_response_sla :: string
  sl_resolution_sla :: string
  sl_update_overdue :: bool
  sl_minutes_to_breach :: int
  sl_bridge_call_required :: bool

definition check_sla_status :: "parsed_incident \<Rightarrow> sla_definition list \<Rightarrow> int \<Rightarrow> sla_report" where
  "check_sla_status inc defs now =
     (case find (\<lambda>d. sd_severity d = pi_severity inc) defs of
        None \<Rightarrow> \<lparr>sl_response_sla = ''within'', sl_resolution_sla = ''within'', sl_update_overdue = False,
                 sl_minutes_to_breach = 0, sl_bridge_call_required = False\<rparr>
      | Some d \<Rightarrow>
          \<lparr>sl_response_sla = threshold_status now (sd_response_time_minutes d),
           sl_resolution_sla = threshold_status now (sd_resolution_time_minutes d),
           sl_update_overdue =
             (sd_update_frequency_minutes d > 0 \<and> now > 0 \<and>
              (now mod sd_update_frequency_minutes d = 0 \<or> now > sd_update_frequency_minutes d)),
           sl_minutes_to_breach = max 0 (sd_resolution_time_minutes d - now),
           sl_bridge_call_required = sd_bridge_call_required d\<rparr>)"

definition sla_dict :: "sla_report \<Rightarrow> (string, json) dict" where
  "sla_dict r =
     [(''response_sla'', JStr (sl_response_sla r)), (''resolution_sla'', JStr (sl_resolution_sla r)),
      (''update_overdue'', JBool (sl_update_overdue r)),
      (''minutes_to_breach'', JInt (sl_minutes_to_breach r)),
      (''bridge_call_required'', JBool (sl_bridge_call_required r))]"

text \<open>Service credits: breaches and rules are untyped; a rule is looked up by its severity.\<close>

record credit_line =
  cl_severity :: json
  cl_breach_type :: json
  cl_breach_minutes :: json
  cl_credit_pct :: json

definition credit_rule_map :: "(string, json) dict list \<Rightarrow> (json \<times> (string, json) dict) list option" where
  "credit_rule_map rules =
     loop (\<lambda>r m. do { k \<leftarrow> as_key (dget_default r ''severity'' (JStr [])); Some (jput k r m) }) rules []"

definition credit_for :: "(json \<times> (string, json) dict) list \<Rightarrow> json \<Rightarrow> json option" where
  "credit_for m sev =
     do { k \<leftarrow> as_key sev;
          Some (case jlookup k m of
                  None \<Rightarrow> JNum 1
                | Some rule \<Rightarrow> dget_default rule ''per_breach_pct'' (JNum 1)) }"

definition credit_step ::
  "(json \<times> (string, json) dict) list \<Rightarrow> (string, json) dict \<Rightarrow> credit_line list \<times> pyfloat
     \<Rightarrow> (credit_line list \<times> pyfloat) option" where
  "credit_step m breach acc =
     (case acc of
        (ls, amount) \<Rightarrow>
          do { let sev = dget_default breach ''severity'' (JStr ''p3'');
               credit \<leftarrow> credit_for m sev;
               x \<leftarrow> as_number credit;
               Some (ls @ [\<lparr>cl_severity = sev,
                       cl_breach_type = dget_default breach ''breach_type'' (JStr ''resolution''),
                       cl_breach_minutes = dget_default breach ''breach_minutes'' (JInt 0),
                       cl_credit_pct = credit\<rparr>], pf_add amount x) })"

definition credit_cap :: "(string, json) dict list \<Rightarrow> pyfloat option" where
  "credit_cap rules =
     do { caps \<leftarrow> each (\<lambda>r. map_option Fin (json_num (dget_default r ''max_pct'' (JNum 100)))) rules;
          Some (case caps of [] \<Rightarrow> Fin 100 | c # cs \<Rightarrow> foldl pf_max c cs) }"

definition calculate_service_credit ::
  "(string, json) dict list \<Rightarrow> (string, json) dict list \<Rightarrow> (pyfloat \<times> nat \<times> credit_line list) option" where
  "calculate_service_credit breaches rules =
     do { m \<leftarrow> credit_rule_map rules;
          (ls, amount) \<leftarrow> loop (credit_step m) breaches ([], Fin 0);
          cap \<leftarrow> credit_cap rules;
          Some (pf_round 2 (pf_min amount cap), length breaches, ls) }"

section \<open>Vodafone: escalation\<close>

definition level_order :: "escalation_level \<Rightarrow> nat" where
  "level_order l = (case l of EL_L1 \<Rightarrow> 1 | EL_L2 \<Rightarrow> 2 | EL_L3 \<Rightarrow> 3 | EL_MANAGEMENT \<Rightarrow> 4)"

definition next_level :: "escalation_level \<Rightarrow> escalation_level option" where
  "next_level l = find (\<lambda>m. level_order m = level_order l + 1) [EL_L1, EL_L2, EL_L3, EL_MANAGEMENT]"

definition vodafone_critical_domains :: "string list" where
  "vodafone_critical_domains = [''core_network'', ''billing_mediation'']"

type_synonym vodafone_escalation = "bool \<times> escalation_level option \<times> string list"

definition vr_severity :: "parsed_incident \<Rightarrow> (string, json) dict \<Rightarrow> vodafone_escalation" where
  "vr_severity inc sla =
     (let outage = (list_ex (\<lambda>t. py_lower t = ''outage'') (pi_tags inc) \<or>
                    json_truthy (dget_default sla ''bridge_call_required'' (JBool False)))
      in case pi_severity inc of
           SV_P1 \<Rightarrow> (True, Some EL_L3, [''P1 incident: L3 escalation with bridge call and MIM process''])
         | SV_P2 \<Rightarrow>
             if outage then (True, Some EL_L3, [''P2 incident with outage: L3 escalation with bridge call''])
             else (True, Some EL_L2, [''P2 incident without outage: L2 escalation''])
         | SV_P3 \<Rightarrow>
             if dget_default sla ''resolution_sla'' (JStr ''within'') = JStr ''warning''
             then (True, Some EL_L2, [''P3 incident with SLA at warning: escalated to L2''])
             else (False, Some EL_L1, [''P3 incident: L1 handling''])
         | SV_P4 \<Rightarrow> (False, None, []))"

definition vr_domain :: "string \<Rightarrow> vodafone_escalation \<Rightarrow> vodafone_escalation" where
  "vr_domain service_domain e =
     (case e of
        (b, level, reasons) \<Rightarrow>
          if service_domain \<in> set vodafone_critical_domains
          then (case level of
                  None \<Rightarrow> e
                | Some l \<Rightarrow>
                    (case next_level l of
                       None \<Rightarrow> e
                     | Some l' \<Rightarrow>
                         (True, Some l',
                          reasons @ [''Critical domain '' @ [CHR 0x27] @ service_domain @ [CHR 0x27] @
                            '': escalation elevated by 1 level to '' @ escalation_value l'])))
          else e)"

definition vr_breach :: "(string, json) dict \<Rightarrow> vodafone_escalation \<Rightarrow> vodafone_escalation" where
  "vr_breach sla e =
     (case e of
        (b, level, reasons) \<Rightarrow>
          if dget sla ''resolution_sla'' = Some (JStr ''breached'')
          then (True, Some EL_MANAGEMENT, reasons @ [''SLA breached: management escalation required''])
          else e)"

definition vr_repeated :: "int \<Rightarrow> vodafone_escalation \<Rightarrow> vodafone_escalation" where
  "vr_repeated n e =
     (case e of
        (b, level, reasons) \<Rightarrow>
          if n \<ge> 3
          then (True,
                (case level of
                   None \<Rightarrow> Some EL_L3
                 | Some l \<Rightarrow> if level_order l < level_order EL_L3 then Some EL_L3 else Some l),
                reasons @ [''Repeated incident ('' @ int_str n @ '' occurrences in 30 days): L3 escalation''])
          else e)"

definition vodafone_owner :: "escalation_level option \<Rightarrow> string" where
  "vodafone_owner level =
     (case level of
        None \<Rightarrow> ''unassigned''
      | Some EL_L1 \<Rightarrow> ''vodafone_service_desk''
      | Some EL_L2 \<Rightarrow> ''vodafone_engineering_team''
      | Some EL_L3 \<Rightarrow> ''vodafone_senior_engineering''
      | Some EL_MANAGEMENT \<Rightarrow> ''vodafone_service_delivery_manager'')"

definition semicolon_join :: "string list \<Rightarrow> string" where
  "semicolon_join xs = (case xs of [] \<Rightarrow> [] | x # ys \<Rightarrow> x @ concat (map (\<lambda>y. ''; '' @ y) ys))"

definition vodafone_escalate ::
  "parsed_incident \<Rightarrow> (string, json) dict \<Rightarrow> string \<Rightarrow> int \<Rightarrow> escalation_decision" where
  "vodafone_escalate inc sla service_domain repeat_count =
     (case vr_repeated repeat_count (vr_breach sla (vr_domain service_domain (vr_severity inc sla))) of
        (b, level, reasons) \<Rightarrow>
          \<lparr>ed_escalate = b, ed_level = level, ed_owner = (if b then vodafone_owner level else []),
           ed_reason = semicolon_join reasons\<rparr>)"

section \<open>Vodafone: closure\<close>

datatype closure_prerequisite =
    CP_ROOT_CAUSE | CP_WORKAROUND | CP_PERMANENT_FIX | CP_CUSTOMER_NOTIFIED | CP_SERVICE_RESTORED
  | CP_RCA_SUBMITTED | CP_PROBLEM_RECORD | CP_CHANGE_REQUEST

fun prerequisite_value :: "closure_prerequisite \<Rightarrow> string" where
  "prerequisite_value CP_ROOT_CAUSE = ''root_cause_identified''"
| "prerequisite_value CP_WORKAROUND = ''workaround_documented''"
| "prerequisite_value CP_PERMANENT_FIX = ''permanent_fix_planned''"
| "prerequisite_value CP_CUSTOMER_NOTIFIED = ''customer_notified''"
| "prerequisite_value CP_SERVICE_RESTORED = ''service_restored''"
| "prerequisite_value CP_RCA_SUBMITTED = ''rca_submitted''"
| "prerequisite_value CP_PROBLEM_RECORD = ''problem_record_created''"
| "prerequisite_value CP_CHANGE_REQUEST = ''change_request_raised''"

record closure_gate =
  gt_prerequisite :: closure_prerequisite
  gt_satisfied :: bool
  gt_evidence_ref :: string
  gt_mandatory :: bool

record major_incident =
  mi_incident_id :: string
  mi_bridge_call_id :: string
  mi_customer_comms_sent :: "json list"
  mi_rca_status :: string
  mi_problem_record_id :: string

text \<open>The gates by prerequisite: of two gates with the same one, the later.\<close>

definition closure_gate_map :: "closure_gate list \<Rightarrow> (string, closure_gate) dict" where
  "closure_gate_map gates = foldl (\<lambda>d g. dput (prerequisite_value (gt_prerequisite g)) g d) [] gates"

definition gate_satisfied :: "closure_gate list \<Rightarrow> closure_prerequisite \<Rightarrow> bool" where
  "gate_satisfied gates p =
     (case dget (closure_gate_map gates) (prerequisite_value p) of None \<Rightarrow> False | Some g \<Rightarrow> gt_satisfied g)"

definition closure_rca_ok :: "closure_gate list \<Rightarrow> major_incident option \<Rightarrow> bool" where
  "closure_rca_ok gates mi =
     (gate_satisfied gates CP_RCA_SUBMITTED \<or>
      (case mi of None \<Rightarrow> False | Some m \<Rightarrow> mi_rca_status m \<in> {''in_progress'', ''submitted'', ''accepted''}))"

definition closure_problem_ok :: "closure_gate list \<Rightarrow> major_incident option \<Rightarrow> bool" where
  "closure_problem_ok gates mi =
     (gate_satisfied gates CP_PROBLEM_RECORD \<or> (case mi of None \<Rightarrow> False | Some m \<Rightarrow> mi_problem_record_id m \<noteq> []))"

definition validate_closure :: "parsed_incident \<Rightarrow> closure_gate list \<Rightarrow> major_incident option \<Rightarrow> pack_result list" where
  "validate_closure inc gates mi =
     [rule_outcome ''vodafone_closure_service_restored'' (gate_satisfied gates CP_SERVICE_RESTORED)
        ''Service has been restored'' ''Service has not been confirmed as restored'',
      rule_outcome ''vodafone_closure_customer_notified'' (gate_satisfied gates CP_CUSTOMER_NOTIFIED)
        ''Customer has been notified'' ''Customer has not been notified of resolution''] @
     (if pi_severity inc \<in> {SV_P1, SV_P2}
      then [rule_outcome ''vodafone_closure_rca_required'' (closure_rca_ok gates mi)
              ''RCA submitted or in progress''
              (''RCA required for '' @ severity_value (pi_severity inc) @ '' incident but not submitted''),
            rule_outcome ''vodafone_closure_problem_record'' (closure_problem_ok gates mi)
              ''Problem record exists''
              (''Problem record required for '' @ severity_value (pi_severity inc) @ '' incident but not created'')]
      else []) @
     (case mi of
        None \<Rightarrow> []
      | Some m \<Rightarrow>
          [rule_outcome ''vodafone_closure_bridge_call'' (mi_bridge_call_id m \<noteq> [])
             ''Bridge call was conducted'' ''Major incident closure requires a bridge call record'',
           rule_outcome ''vodafone_closure_customer_comms'' (mi_customer_comms_sent m \<noteq> [])
             (int_str (int (length (mi_customer_comms_sent m))) @ '' customer communication(s) sent'')
             ''Major incident closure requires at least one customer communication'']) @
     (let unsatisfied = filter (\<lambda>g. gt_mandatory g \<and> \<not> gt_satisfied g) gates
      in [rule_outcome ''vodafone_closure_all_mandatory_gates'' (unsatisfied = [])
            ''All mandatory closure gates satisfied''
            (int_str (int (length unsatisfied)) @ '' mandatory gate(s) unsatisfied: '' @
             comma_join (map (\<lambda>g. prerequisite_value (gt_prerequisite g)) unsatisfied))])"

section \<open>Vodafone: dispatch\<close>

definition category_keywords :: "(string \<times> string list) list" where
  "category_keywords =
     [(''hardware_failure'', [''hardware'', ''disk'', ''psu'', ''fan'', ''chassis'', ''card'', ''module'']),
      (''power_failure'', [''power'', ''ups'', ''generator'', ''mains'']),
      (''fibre_cut'', [''fibre cut'', ''fiber cut'', ''fibre break'', ''fiber break'']),
      (''security_incident'', [''security'', ''breach'', ''intrusion'', ''ddos'', ''malware'']),
      (''software_bug'', [''software'', ''bug'', ''crash'', ''core dump'', ''segfault'']),
      (''config_error'', [''config'', ''misconfigured'', ''acl'', ''policy''])]"

definition infer_category :: "string \<Rightarrow> string" where
  "infer_category txt =
     (case find (\<lambda>(cat, kws). mentions txt kws) category_keywords of None \<Rightarrow> [] | Some (cat, kws) \<Rightarrow> cat)"

definition next_action_of :: "string \<Rightarrow> string \<Rightarrow> string \<Rightarrow> string \<Rightarrow> next_action" where
  "next_action_of action owner reason priority =
     \<lparr>na_action = action, na_owner = owner, na_reason = reason, na_priority = priority\<rparr>"

definition should_dispatch :: "parsed_incident \<Rightarrow> bool \<Rightarrow> string \<Rightarrow> next_action" where
  "should_dispatch inc remote_attempted incident_category =
     (let txt = incident_text inc;
          cat = (if incident_category \<noteq> [] then incident_category else infer_category txt);
          field = next_action_of ''dispatch'' ''vodafone_field_engineering'';
          urgent = (if pi_severity inc = SV_P1 then ''critical'' else ''high'');
          by_severity = (if pi_severity inc \<in> {SV_P1, SV_P2} then ''high'' else ''normal'')
      in if cat = ''hardware_failure'' \<or> py_substring ''hardware'' txt
         then field ''Hardware failure detected: immediate field dispatch required'' urgent
         else if cat = ''power_failure'' \<or> py_substring ''power'' txt
         then field ''Power failure: field dispatch with vendor coordination required'' urgent
         else if cat = ''fibre_cut'' \<or> mentions txt [''fibre cut'', ''fiber cut'']
         then field ''Fibre cut: field dispatch with NRSWA permit coordination required'' urgent
         else if cat = ''security_incident'' \<or> py_substring ''security'' txt
         then (if \<not> remote_attempted
               then next_action_of ''isolate'' ''vodafone_security_team''
                 ''Security incident: isolate affected systems before dispatch'' ''critical''
               else field ''Security incident: physical access required after isolation'' ''high'')
         else if cat \<in> {''software_bug'', ''config_error''} \<or> mentions txt [''software'', ''config'', ''bug'', ''patch'']
         then (if \<not> remote_attempted
               then next_action_of ''remote_remediation'' ''vodafone_engineering_team''
                 ''Software/config issue: attempt remote remediation before dispatch'' by_severity
               else field ''Remote remediation unsuccessful: field dispatch required'' ''high'')
         else if remote_attempted
         then field ''Remote remediation exhausted: field dispatch required'' by_severity
         else next_action_of ''remote_remediation'' ''vodafone_engineering_team''
                ''Attempt remote remediation before considering field dispatch'' ''normal'')"

end
