(* ===== verification/Telco_Props.thy ===== *)
theory Telco_Props
  imports Telco_Alignment
begin

text \<open>What the rule engines of the telecom operations pack decide.\<close>

section \<open>Escalation\<close>

definition sla_breached :: "(string, json) dict \<Rightarrow> bool" where
  "sla_breached sla = (dget sla ''resolution_sla'' = Some (JStr ''breached''))"

definition sla_warning :: "(string, json) dict \<Rightarrow> bool" where
  "sla_warning sla = (dget sla ''resolution_sla'' = Some (JStr ''warning''))"

definition outage_known :: "parsed_incident \<Rightarrow> (string, json) dict \<Rightarrow> bool" where
  "outage_known inc sla =
     (list_ex (\<lambda>t. py_lower t = ''outage'') (pi_tags inc) \<or>
      json_truthy (dget_default sla ''bridge_call_required'' (JBool False)))"

text \<open>The level the severity asks for, raised by one for a critical domain.\<close>

definition required_level ::
  "parsed_incident \<Rightarrow> (string, json) dict \<Rightarrow> string \<Rightarrow> escalation_level option" where
  "required_level inc sla area =
     (let raise_one = (area \<in> set vodafone_critical_domains);
          base = (case pi_severity inc of
                    SV_P1 \<Rightarrow> Some EL_L3
                  | SV_P2 \<Rightarrow> Some (if outage_known inc sla then EL_L3 else EL_L2)
                  | SV_P3 \<Rightarrow> Some (if sla_warning sla then EL_L2 else EL_L1)
                  | SV_P4 \<Rightarrow> None)
      in case base of
           None \<Rightarrow> None
         | Some EL_L1 \<Rightarrow> Some (if raise_one then EL_L2 else EL_L1)
         | Some EL_L2 \<Rightarrow> Some (if raise_one then EL_L3 else EL_L2)
         | Some _ \<Rightarrow> Some (if raise_one then EL_MANAGEMENT else EL_L3))"

lemma next_level_simps:
  "next_level EL_L1 = Some EL_L2" "next_level EL_L2 = Some EL_L3" "next_level EL_L3 = Some EL_MANAGEMENT"
  "next_level EL_MANAGEMENT = None"
  by (simp_all add: next_level_def level_order_def)

lemma sla_warning_default:
  "(dget_default sla ''resolution_sla'' (JStr ''within'') = JStr ''warning'') = sla_warning sla"
  by (auto simp: dget_default_def sla_warning_def split: option.split)

lemma vr_domain_level:
  "vr_domain area (vr_severity inc sla) = (b, l, rs) \<Longrightarrow>
     l = required_level inc sla area \<and>
     (b \<longleftrightarrow> pi_severity inc \<in> {SV_P1, SV_P2} \<or>
            (pi_severity inc = SV_P3 \<and> (sla_warning sla \<or> area \<in> set vodafone_critical_domains)))"
  by (cases "pi_severity inc")
    (auto simp: vr_domain_def vr_severity_def required_level_def outage_known_def sla_warning_default
      next_level_simps Let_def split: if_splits)

text \<open>C33: the Vodafone escalation is decided by severity, service level, domain and repetition. A breach
  goes to management; three repetitions go to the third level at least; otherwise the level is the
  one the severity asks for (the third for P1, and for P2 with an \<open>outage\<close> tag or a required bridge
  call; the second for another P2 and for P3 with a service level at warning; the first for another
  P3; none for P4), raised by one in a critical domain. The incident is escalated exactly
  when it is of priority 1 or 2, or of priority 3 with a service level at warning or in a critical
  domain, or breached, or repeated; the owner is the one of the level, and nobody otherwise.
\<close>
theorem vodafone_escalation_decided:
  "let d = vodafone_escalate inc sla area n; l = required_level inc sla area in
   ed_level d =
     (if sla_breached sla then Some EL_MANAGEMENT
      else if n \<ge> 3 then (if l = Some EL_MANAGEMENT then l else Some EL_L3) else l) \<and>
   (ed_escalate d \<longleftrightarrow>
      pi_severity inc \<in> {SV_P1, SV_P2} \<or>
      pi_severity inc = SV_P3 \<and> (sla_warning sla \<or> area \<in> set vodafone_critical_domains) \<or>
      sla_breached sla \<or> n \<ge> 3) \<and>
   ed_owner d = (if ed_escalate d then vodafone_owner (ed_level d) else [])"
proof -
  obtain b l rs where v: "vr_domain area (vr_severity inc sla) = (b, l, rs)"
    by (cases "vr_domain area (vr_severity inc sla)") auto
  note d = vr_domain_level [OF v]
  show ?thesis
    unfolding vodafone_escalate_def v
    by (cases l; cases "the l")
      (use d in \<open>auto simp: vr_breach_def vr_repeated_def sla_breached_def level_order_def Let_def\<close>)
qed

text \<open>
  With the standard service levels every priority-2 incident counts as an outage, because their
  definition asks for a bridge call: the second level is never used.
\<close>

lemma p2_never_second_level:
  assumes "pi_severity inc = SV_P2"
  shows "ed_level (vodafone_escalate inc (sla_dict (check_sla_status inc vodafone_sla_definitions now)) area n) \<in>
       {Some EL_L3, Some EL_MANAGEMENT}"
proof -
  let ?sla = "sla_dict (check_sla_status inc vodafone_sla_definitions now)"
  obtain b l rs where v: "vr_domain area (vr_severity inc ?sla) = (b, l, rs)"
    by (cases "vr_domain area (vr_severity inc ?sla)") auto
  have "l \<in> {Some EL_L3, Some EL_MANAGEMENT}"
    using assms vr_domain_level [OF v]
    by (simp add: required_level_def outage_known_def check_sla_status_def vodafone_sla_definitions_def
        sla_dict_def dget_default_def Let_def)
  then show ?thesis
    unfolding vodafone_escalate_def v by (auto simp: vr_breach_def vr_repeated_def level_order_def)
qed

text \<open>
  In the general engine a known outage lowers the level: a breached priority-1 incident goes to
  management, and to the third level when its service is in outage as well.
\<close>

lemma outage_demotes:
  assumes "pi_severity inc = SV_P1" "length (affected_critical inc) < 2"
  shows "ed_level (evaluate_escalation inc st True n) =
     Some (if st = Some SS_OUTAGE then EL_L3 else EL_MANAGEMENT)"
  using assms
  by (simp add: evaluate_escalation_def er_severity_def er_sla_breach_def er_repeated_def er_outage_def
      er_critical_def er_p2_breach_def less_char_def)

section \<open>Closure\<close>

lemma closure_gate_map_last:
  "dget (closure_gate_map gates) (prerequisite_value p) =
     find (\<lambda>g. gt_prerequisite g = p) (rev gates)"
proof -
  have inj: "prerequisite_value a = prerequisite_value b \<longleftrightarrow> a = b" for a b
    by (cases a; cases b) simp_all
  show ?thesis
    by (induction gates rule: rev_induct) (auto simp: closure_gate_map_def inj)
qed

text \<open>The last gate of a prerequisite is satisfied.\<close>

definition settled :: "closure_gate list \<Rightarrow> closure_prerequisite \<Rightarrow> bool" where
  "settled gates p =
     (case find (\<lambda>g. gt_prerequisite g = p) (rev gates) of None \<Rightarrow> False | Some g \<Rightarrow> gt_satisfied g)"

lemma gate_satisfied_settled: "gate_satisfied gates p = settled gates p"
  by (simp add: gate_satisfied_def settled_def closure_gate_map_last)

text \<open>an incident may be closed exactly when its service is restored, the customer notified, every
  mandatory gate satisfied; for priorities 1 and 2 when a root-cause analysis is submitted (or under
  way in the major incident) and a problem record exists; and for a major incident when the bridge
  call and a customer communication are recorded. Of two gates with one prerequisite the later counts.
\<close>
theorem closure_permitted_exactly:
  "list_all ru_passed (validate_closure inc gates mi) \<longleftrightarrow>
     settled gates CP_SERVICE_RESTORED \<and> settled gates CP_CUSTOMER_NOTIFIED \<and>
     list_all gt_satisfied (filter gt_mandatory gates) \<and>
     (if pi_severity inc \<in> {SV_P1, SV_P2}
      then (settled gates CP_RCA_SUBMITTED \<or>
            mi_rca_status (the mi) \<in> {''in_progress'', ''submitted'', ''accepted''} \<and> mi \<noteq> None) \<and>
           (settled gates CP_PROBLEM_RECORD \<or> mi \<noteq> None \<and> mi_problem_record_id (the mi) \<noteq> [])
      else True) \<and>
     (case mi of None \<Rightarrow> True | Some m \<Rightarrow> mi_bridge_call_id m \<noteq> [] \<and> mi_customer_comms_sent m \<noteq> [])"
  by (cases mi)
    (auto simp: validate_closure_def closure_rca_ok_def closure_problem_ok_def gate_satisfied_settled
      filter_empty_conv list_all_iff Let_def)

section \<open>Runbooks\<close>

lemma recommend_fold:
  fixes inc :: parsed_incident and sc_init :: rat and rb_init :: "runbook option"
  defines "step \<equiv> (\<lambda>(best, best_score) rb. let score = runbook_score inc rb
            in if score > best_score then (Some rb, score) else (best, best_score))"
  shows "case foldl step (rb_init, sc_init) rbs of
      (b, s) \<Rightarrow> sc_init \<le> s \<and> (\<forall>rb\<in>set rbs. runbook_score inc rb \<le> s) \<and>
        (s = sc_init \<and> b = rb_init \<or>
         sc_init < s \<and> (\<exists>xs r ys. rbs = xs @ r # ys \<and> b = Some r \<and> runbook_score inc r = s \<and>
                      (\<forall>x\<in>set xs. runbook_score inc x < s)))"
proof (induction rbs rule: rev_induct)
  case (snoc r rbs)
  obtain b s where bs: "foldl step (rb_init, sc_init) rbs = (b, s)" by fastforce
  note ih = snoc [unfolded bs prod.case]
  show ?case
  proof (cases "runbook_score inc r > s")
    case True
    then have "foldl step (rb_init, sc_init) (rbs @ [r]) = (Some r, runbook_score inc r)"
      using bs by (simp add: step_def Let_def)
    moreover have "\<exists>xs r' ys. rbs @ [r] = xs @ r' # ys \<and> Some r = Some r' \<and> runbook_score inc r' = runbook_score inc r \<and>
        (\<forall>x\<in>set xs. runbook_score inc x < runbook_score inc r)"
      using ih True by (intro exI [of _ rbs] exI [of _ r] exI [of _ "[]"]) auto
    ultimately show ?thesis using ih True by auto
  next
    case False
    then have f: "foldl step (rb_init, sc_init) (rbs @ [r]) = (b, s)" using bs by (simp add: step_def Let_def)
    have "s = sc_init \<and> b = rb_init \<or> sc_init < s \<and> (\<exists>xs r' ys. rbs @ [r] = xs @ r' # ys \<and> b = Some r' \<and>
        runbook_score inc r' = s \<and> (\<forall>x\<in>set xs. runbook_score inc x < s))"
      using ih by (metis append_Cons append_assoc)
    then show ?thesis using ih False unfolding f by auto
  qed
qed (simp add: step_def)

text \<open>the recommended runbook is the best one. When no runbook has a positive score none is
  recommended; otherwise the recommended one has the highest score of all and is the first with it.
\<close>
theorem runbook_recommendation_best:
  "case recommend_runbook inc rbs of
     None \<Rightarrow> list_all (\<lambda>rb. runbook_score inc rb \<le> 0) rbs
   | Some r \<Rightarrow> r \<in> set rbs \<and> 0 < runbook_score inc r \<and>
       list_all (\<lambda>rb. runbook_score inc rb \<le> runbook_score inc r) rbs \<and>
       find (\<lambda>rb. runbook_score inc rb = runbook_score inc r) rbs = Some r"
proof -
  obtain b s where f: "foldl (\<lambda>(best, best_score) rb. let score = runbook_score inc rb
      in if score > best_score then (Some rb, score) else (best, best_score)) (None, - 1) rbs = (b, s)"
    by fastforce
  note r = recommend_fold [where inc = inc and sc_init = "- 1" and rb_init = None and rbs = rbs, unfolded f prod.case]
  have rec: "recommend_runbook inc rbs = (if s > 0 then b else None)"
    unfolding recommend_runbook_def f by simp
  show ?thesis
  proof (cases "s > 0")
    case False
    then have "\<forall>rb\<in>set rbs. runbook_score inc rb \<le> 0" using r by fastforce
    then show ?thesis using False by (simp add: rec list_all_iff)
  next
    case True
    then obtain xs t ys where x: "rbs = xs @ t # ys" "b = Some t" "runbook_score inc t = s"
        "\<forall>x\<in>set xs. runbook_score inc x < s" "\<forall>rb\<in>set rbs. runbook_score inc rb \<le> s"
      using r by auto
    have "find (\<lambda>rb. runbook_score inc rb = s) xs = None"
      using x(4) by (auto simp: find_None_iff)
    then have "find (\<lambda>rb. runbook_score inc rb = s) (xs @ t # ys) = Some t"
      using x(3) by (induction xs) auto
    then have "find (\<lambda>rb. runbook_score inc rb = s) rbs = Some t" by (simp add: x(1))
    moreover have "recommend_runbook inc rbs = Some t" "t \<in> set rbs" using True x(1,2) rec by simp_all
    ultimately show ?thesis using True x(3,5) by (simp add: list_all_iff)
  qed
qed

text \<open>The next step of a runbook is the pending one with the least number.\<close>

lemma next_step_least:
  "case suggest_next_runbook_step rb done1 of
     None \<Rightarrow> sc_all_complete (check_runbook_step_completion rb done1)
   | Some s \<Rightarrow> s \<in> set (rk_steps rb) \<and> rb_step_number s \<notin> set done1 \<and>
       list_all (\<lambda>t. rb_step_number t \<in> set done1 \<or> rb_step_number s \<le> rb_step_number t) (rk_steps rb)"
proof -
  let ?xs = "sort_key rb_step_number (rk_steps rb)"
  have srt: "sorted (map rb_step_number ?xs)" by simp
  show ?thesis
  proof (cases "suggest_next_runbook_step rb done1")
    case None
    then have "\<forall>s\<in>set (rk_steps rb). rb_step_number s \<in> set done1"
      by (simp add: suggest_next_runbook_step_def find_None_iff)
    then show ?thesis unfolding None by (simp add: check_runbook_step_completion_def Let_def filter_empty_conv)
  next
    case (Some s)
    then have "\<exists>i<length ?xs. rb_step_number (?xs ! i) \<notin> set done1 \<and> s = ?xs ! i \<and>
        (\<forall>j<i. \<not> rb_step_number (?xs ! j) \<notin> set done1)"
      unfolding suggest_next_runbook_step_def find_Some_iff .
    then obtain i where i: "i < length ?xs" "rb_step_number (?xs ! i) \<notin> set done1" "s = ?xs ! i"
        "\<forall>j<i. rb_step_number (?xs ! j) \<in> set done1" unfolding not_not by (elim exE conjE) (rule that)
    have "rb_step_number t \<in> set done1 \<or> rb_step_number s \<le> rb_step_number t" if t: "t \<in> set (rk_steps rb)" for t
    proof -
      have "t \<in> set ?xs" using t by simp
      then obtain j where j: "j < length ?xs" "t = ?xs ! j" unfolding in_set_conv_nth by blast
      show ?thesis
      proof (cases "j < i")
        case True
        then show ?thesis using i(4) j(2) by blast
      next
        case False
        then have "map rb_step_number ?xs ! i \<le> map rb_step_number ?xs ! j"
          using sorted_nth_mono [OF srt, of i j] j(1) by simp
        then show ?thesis using i(1,3) j by simp
      qed
    qed
    moreover have "s \<in> set (rk_steps rb)" using i(1,3) by (metis nth_mem set_sort)
    ultimately show ?thesis using Some i by (simp add: list_all_iff)
  qed
qed

text \<open>A parsed runbook counts as complete when as many steps were executed, whichever they were.\<close>

lemma completion_counts_any_steps:
  "rc_all_complete (check_runbook_completion [[], []] [7, 8]) \<and>
   rc_pending_step_numbers (check_runbook_completion [[], []] [7, 8]) = [JInt 1, JInt 2]"
  by (simp add: check_runbook_completion_def Let_def dget_default_def)

section \<open>Service levels\<close>

lemma threshold_monotone:
  assumes "a \<le> b"
  shows "(if threshold_status a limit = ''breached'' then threshold_status b limit = ''breached'' else True) \<and>
    (if threshold_status a limit = ''warning'' then threshold_status b limit \<noteq> ''within'' else True)"
  using assms by (auto simp: threshold_status_def)

section \<open>Alignment\<close>

lemma work_order_status_cases:
  "work_order_status ms = (st, c) \<Longrightarrow>
     (st = AS_ALIGNED \<longleftrightarrow> ms = []) \<and> (st = AS_MISMATCHED \<longleftrightarrow> (\<exists>m\<in>set ms. am_severity m = ''error''))"
  by (auto simp: work_order_status_def list_all_iff list_ex_iff split: if_splits)

lemma work_order_aligned_iff:
  assumes "reconcile_incident_and_work_order inc wo = Some r"
  shows "(ar_status r = AS_ALIGNED \<longleftrightarrow> ar_mismatches r = []) \<and>
     (ar_status r = AS_MISMATCHED \<longleftrightarrow> (\<exists>m\<in>set (ar_mismatches r). am_severity m = ''error''))"
proof -
  obtain ms recs st c where "work_order_status ms = (st, c)"
    "r = \<lparr>ar_status = st, ar_mismatches = ms, ar_recommendations = recs, ar_confidence = c\<rparr>"
    using assms unfolding reconcile_incident_and_work_order_def Let_def
    by (clarsimp simp: bind_eq_Some_conv split: prod.splits) (metis old.prod.exhaust)
  then show ?thesis using work_order_status_cases by simp
qed

definition states_agree :: "string \<Rightarrow> string \<Rightarrow> bool" where
  "states_agree a b = (b = [] \<or> expected_wo_states a = [] \<or> b \<in> set (expected_wo_states a))"

text \<open>The severities of what each comparison of strings reports.\<close>

lemma align_strings:
  "map_option (map am_severity \<circ> fst) (align_state (JStr a) (JStr b)) =
     Some (if states_agree a b then [] else [''error''])"
  "map_option (map am_severity) (align_owner (JStr a) (JStr b)) =
     Some (if a = [] \<or> b = [] \<or> a = b then [] else [''warning''])"
  "map_option (map am_severity) (align_timeline (JStr a) (JStr b)) =
     Some (if a = [] \<or> b = [] \<or> a \<le> b then [] else [''warning''])"
  "map_option (map am_severity) (align_resolution (JStr x) (JStr y) (JStr a) (JStr b)) =
     Some (if x = ''resolved'' \<and> y \<in> {''completed'', ''done''} \<and> a \<noteq> [] \<and> b \<noteq> [] \<and> py_lower a \<noteq> py_lower b
           then [''info''] else [])"
  by (auto simp: align_state_def states_agree_def expected_states_def as_key_def json_is_def make_mismatch_def
      as_str_def align_owner_def align_timeline_def align_resolution_def not_le)

lemma severity_if:
  "(if P then [] else [s :: string]) = [] \<longleftrightarrow> P"
  "''error'' \<in> set (if P then [] else [''error'']) \<longleftrightarrow> \<not> P"
  "''error'' \<in> set (if P then [] else [''warning'']) \<longleftrightarrow> False"
  "(if a \<and> b \<and> c \<and> d \<and> e then [s] else []) = [] \<longleftrightarrow> (if a \<and> b then \<not> c \<or> \<not> d \<or> \<not> e else True)"
  "''error'' \<in> set (if P then [''info''] else []) \<longleftrightarrow> False"
  "\<not> x \<noteq> y \<longleftrightarrow> x = y"
  by auto

text \<open>dictionaries of strings always reconcile. When every field of the incident and of the work
  order is a string, no comparison raises; the two are aligned exactly when their states agree, no two
  owners are named, the work order was not created before the acknowledgment, and a resolved incident
  and its completed work order give one cause; they are mismatched exactly when their states disagree.
\<close>
theorem typed_reconciliation:
  assumes "string_fields inc" "string_fields wo"
  shows "let f = (\<lambda>d k. text_field d k []); a = f inc ''state''; b = text_field wo ''state'' (f wo ''status'');
      p = f inc ''assigned_to''; q = text_field wo ''assigned_to'' (f wo ''technician'');
      x = f inc ''acknowledged_at''; y = f wo ''created_at''; u = f inc ''root_cause''; v = f wo ''work_performed''
    in \<exists>r. reconcile_incident_and_work_order inc wo = Some r \<and>
      (ar_status r = AS_ALIGNED \<longleftrightarrow>
         states_agree a b \<and> (p = [] \<or> q = [] \<or> p = q) \<and> (x = [] \<or> y = [] \<or> x \<le> y) \<and>
         (if a = ''resolved'' \<and> b \<in> {''completed'', ''done''}
          then u = [] \<or> v = [] \<or> py_lower u = py_lower v else True)) \<and>
      (ar_status r = AS_MISMATCHED \<longleftrightarrow> \<not> states_agree a b)"
proof -
  let ?f = "\<lambda>d k. text_field d k []"
  let ?a = "?f inc ''state''" and ?b = "text_field wo ''state'' (?f wo ''status'')"
  let ?p = "?f inc ''assigned_to''" and ?q = "text_field wo ''assigned_to'' (?f wo ''technician'')"
  let ?x = "?f inc ''acknowledged_at''" and ?y = "?f wo ''created_at''"
  let ?u = "?f inc ''root_cause''" and ?v = "?f wo ''work_performed''"
  obtain m1 recs where 1: "align_state (JStr ?a) (JStr ?b) = Some (m1, recs)"
      "map am_severity m1 = (if states_agree ?a ?b then [] else [''error''])"
    using align_strings(1) [of ?a ?b] by (auto simp: map_option_case split: option.splits)
  obtain m2 where 2: "align_owner (JStr ?p) (JStr ?q) = Some m2"
      "map am_severity m2 = (if ?p = [] \<or> ?q = [] \<or> ?p = ?q then [] else [''warning''])"
    using align_strings(2) [of ?p ?q] by (auto simp: map_option_case split: option.splits)
  obtain m3 where 3: "align_timeline (JStr ?x) (JStr ?y) = Some m3"
      "map am_severity m3 = (if ?x = [] \<or> ?y = [] \<or> ?x \<le> ?y then [] else [''warning''])"
    using align_strings(3) [of ?x ?y] by (auto simp: map_option_case split: option.splits)
  obtain m4 where 4: "align_resolution (JStr ?a) (JStr ?b) (JStr ?u) (JStr ?v) = Some m4"
      "map am_severity m4 = (if ?a = ''resolved'' \<and> ?b \<in> {''completed'', ''done''} \<and> ?u \<noteq> [] \<and> ?v \<noteq> [] \<and>
         py_lower ?u \<noteq> py_lower ?v then [''info''] else [])"
    using align_strings(4) [of ?a ?b ?u ?v] by (auto simp: map_option_case split: option.splits)
  let ?ms = "m1 @ m2 @ m3 @ m4"
  obtain st c where st: "work_order_status ?ms = (st, c)" by (rule prod.exhaust)
  have r: "reconcile_incident_and_work_order inc wo =
      Some \<lparr>ar_status = st, ar_mismatches = ?ms, ar_recommendations = recs, ar_confidence = c\<rparr>"
    unfolding reconcile_incident_and_work_order_def Let_def dget_default_string [OF assms(1)]
      dget_default_string [OF assms(2)] 1(1) 2(1) 3(1) 4(1) Option.bind.bind_lunit prod.case st
    by (rule refl)
  have "?ms = [] \<longleftrightarrow> map am_severity m1 = [] \<and> map am_severity m2 = [] \<and> map am_severity m3 = [] \<and> map am_severity m4 = []"
    by auto
  moreover have "(\<exists>m\<in>set ?ms. am_severity m = ''error'') \<longleftrightarrow> ''error'' \<in> set (map am_severity m1) \<or>
      ''error'' \<in> set (map am_severity m2) \<or> ''error'' \<in> set (map am_severity m3) \<or> ''error'' \<in> set (map am_severity m4)"
    by force
  moreover have "map am_severity m1 = [] \<longleftrightarrow> states_agree ?a ?b" "''error'' \<in> set (map am_severity m1) \<longleftrightarrow> \<not> states_agree ?a ?b"
    "map am_severity m2 = [] \<longleftrightarrow> ?p = [] \<or> ?q = [] \<or> ?p = ?q" "''error'' \<in> set (map am_severity m2) \<longleftrightarrow> False"
    "map am_severity m3 = [] \<longleftrightarrow> ?x = [] \<or> ?y = [] \<or> ?x \<le> ?y" "''error'' \<in> set (map am_severity m3) \<longleftrightarrow> False"
    "map am_severity m4 = [] \<longleftrightarrow> (if ?a = ''resolved'' \<and> ?b \<in> {''completed'', ''done''}
        then ?u = [] \<or> ?v = [] \<or> py_lower ?u = py_lower ?v else True)" "''error'' \<in> set (map am_severity m4) \<longleftrightarrow> False"
    unfolding 1(2) 2(2) 3(2) 4(2) severity_if by (rule refl)+
  ultimately have eq: "?ms = [] \<longleftrightarrow> states_agree ?a ?b \<and> (?p = [] \<or> ?q = [] \<or> ?p = ?q) \<and>
       (?x = [] \<or> ?y = [] \<or> ?x \<le> ?y) \<and>
       (if ?a = ''resolved'' \<and> ?b \<in> {''completed'', ''done''}
        then ?u = [] \<or> ?v = [] \<or> py_lower ?u = py_lower ?v else True)"
      "(\<exists>m\<in>set ?ms. am_severity m = ''error'') \<longleftrightarrow> \<not> states_agree ?a ?b"
    by (simp_all only: simp_thms)
  note c = work_order_status_cases [OF st]
  show ?thesis
    unfolding Let_def r
    by (rule exI, intro conjI, rule refl, unfold alignment_result.select_convs)
      (rule trans [OF conjunct1 [OF c] eq(1)], rule trans [OF conjunct2 [OF c] eq(2)])
qed

theorem typed_reconciliation_witness:
  "\<exists>r. reconcile_incident_and_work_order
      [(''state'', JStr ''new''), (''assigned_to'', JStr ''ann'')]
      [(''status'', JStr ''open''), (''technician'', JStr ''ann'')] = Some r \<and> ar_status r = AS_ALIGNED"
  using typed_reconciliation [of "[(''state'', JStr ''new''), (''assigned_to'', JStr ''ann'')]"
      "[(''status'', JStr ''open''), (''technician'', JStr ''ann'')]"]
  by (auto simp: string_fields_def text_field_def states_agree_def Let_def expected_wo_states_def dget_default_def)

end
