(* ===== verification/Field_Rules.thy ===== *)
theory Field_Rules
  imports Pack_Prelude
begin

text \<open>
  The rule engines of the utilities field pack, \<^verbatim>\<open>app/domain_packs/utilities_field/rules.py\<close> with the
  types of \<^verbatim>\<open>schemas.py\<close> they use: readiness, safety, skills, the SPEN readiness engine and the
  validation of completion evidence.

  How many days an accreditation still runs depends on the clock: \<open>days_until\<close> is the reading of its
  date, the days left, a date with a time zone (subtracting the local time from it raises) or no date.
  A work category is its string; a long dash in a message is written as a hyphen.
\<close>

section \<open>Types\<close>

datatype work_order_type =
    WT_INSTALLATION | WT_MAINTENANCE | WT_REPAIR | WT_INSPECTION | WT_EMERGENCY | WT_UPGRADE

fun work_order_type_value :: "work_order_type \<Rightarrow> string" where
  "work_order_type_value WT_INSTALLATION = ''installation''"
| "work_order_type_value WT_MAINTENANCE = ''maintenance''"
| "work_order_type_value WT_REPAIR = ''repair''"
| "work_order_type_value WT_INSPECTION = ''inspection''"
| "work_order_type_value WT_EMERGENCY = ''emergency''"
| "work_order_type_value WT_UPGRADE = ''upgrade''"

datatype skill_category =
    SK_ELECTRICAL | SK_PLUMBING | SK_HVAC | SK_GAS | SK_FIBER | SK_GENERAL

fun skill_category_value :: "skill_category \<Rightarrow> string" where
  "skill_category_value SK_ELECTRICAL = ''electrical''"
| "skill_category_value SK_PLUMBING = ''plumbing''"
| "skill_category_value SK_HVAC = ''hvac''"
| "skill_category_value SK_GAS = ''gas''"
| "skill_category_value SK_FIBER = ''fiber''"
| "skill_category_value SK_GENERAL = ''general''"

datatype permit_type =
    PT_STREET_WORKS | PT_BUILDING_ACCESS | PT_CONFINED_SPACE | PT_HOT_WORKS | PT_HEIGHT_WORKS

fun permit_type_value :: "permit_type \<Rightarrow> string" where
  "permit_type_value PT_STREET_WORKS = ''street_works''"
| "permit_type_value PT_BUILDING_ACCESS = ''building_access''"
| "permit_type_value PT_CONFINED_SPACE = ''confined_space''"
| "permit_type_value PT_HOT_WORKS = ''hot_works''"
| "permit_type_value PT_HEIGHT_WORKS = ''height_works''"

datatype readiness_status = RD_READY | RD_BLOCKED | RD_CONDITIONAL | RD_ESCALATE

datatype completion_evidence_type =
    CE_BEFORE_PHOTO | CE_AFTER_PHOTO | CE_AS_BUILT_DRAWING | CE_CUSTOMER_SIGN_OFF
  | CE_SAFETY_DOCUMENTATION | CE_PERMIT_CLOSE_OUT | CE_TEST_CERTIFICATE | CE_REINSTATEMENT_RECORD
  | CE_WASTE_TRANSFER_NOTE | CE_RISK_ASSESSMENT_COMPLETED

fun evidence_type_value :: "completion_evidence_type \<Rightarrow> string" where
  "evidence_type_value CE_BEFORE_PHOTO = ''before_photo''"
| "evidence_type_value CE_AFTER_PHOTO = ''after_photo''"
| "evidence_type_value CE_AS_BUILT_DRAWING = ''as_built_drawing''"
| "evidence_type_value CE_CUSTOMER_SIGN_OFF = ''customer_sign_off''"
| "evidence_type_value CE_SAFETY_DOCUMENTATION = ''safety_documentation''"
| "evidence_type_value CE_PERMIT_CLOSE_OUT = ''permit_close_out''"
| "evidence_type_value CE_TEST_CERTIFICATE = ''test_certificate''"
| "evidence_type_value CE_REINSTATEMENT_RECORD = ''reinstatement_record''"
| "evidence_type_value CE_WASTE_TRANSFER_NOTE = ''waste_transfer_note''"
| "evidence_type_value CE_RISK_ASSESSMENT_COMPLETED = ''risk_assessment_completed''"

record skill_record =
  sr_skill_name :: string
  sr_category :: skill_category

record accreditation =
  ac_name :: string
  ac_valid_to :: "string option"
  ac_is_valid :: bool

record engineer_profile =
  ep_engineer_id :: string
  ep_name :: string
  ep_skills :: "skill_record list"
  ep_accreditations :: "accreditation list"

record permit_requirement =
  pq_permit_type :: permit_type
  pq_required :: bool
  pq_obtained :: bool

record parsed_work_order =
  wo_work_order_id :: string
  wo_work_order_type :: work_order_type
  wo_required_skills :: "skill_record list"
  wo_required_permits :: "permit_requirement list"
  wo_prerequisites :: "(string, json) dict list"
  wo_dependencies :: "(string, json) dict list"
  wo_materials_required :: "(string, json) dict list"
  wo_special_instructions :: string
  wo_customer_confirmed :: bool

record skill_fit =
  sf_fit :: bool
  sf_matching_skills :: "string list"
  sf_missing_skills :: "string list"
  sf_expiring_soon :: "string list"

record compliance_blocker =
  cb_blocker_type :: string
  cb_description :: string
  cb_severity :: string
  cb_resolution :: string

record readiness_decision =
  rd_status :: readiness_status
  rd_missing_prerequisites :: "string list"
  rd_skill_fit :: "skill_fit option"
  rd_blockers :: "compliance_blocker list"
  rd_recommendation :: string

record readiness_gate =
  rg_gate_name :: string
  rg_required :: bool
  rg_satisfied :: bool
  rg_blocking :: bool
  rg_description :: string

record completion_evidence =
  cv_evidence_type :: completion_evidence_type
  cv_provided :: bool

section \<open>Skills\<close>

datatype expiry = Days int | Zoned | NoDate

text \<open>A sorted set of strings.\<close>

definition sorted_set :: "string list \<Rightarrow> string list" where
  "sorted_set xs = sort (remdups xs)"

definition expiring_soon :: "(string \<Rightarrow> expiry) \<Rightarrow> accreditation list \<Rightarrow> string list option" where
  "expiring_soon days_until acs =
     map_option concat (each (\<lambda>a. case ac_valid_to a of
         None \<Rightarrow> Some []
       | Some [] \<Rightarrow> Some []
       | Some d \<Rightarrow>
           (case days_until d of
              Zoned \<Rightarrow> None
            | NoDate \<Rightarrow> Some []
            | Days n \<Rightarrow> Some (if 0 < n \<and> n < 30
                            then [ac_name a @ '' (expires in '' @ int_str n @ '' days)''] else []))) acs)"

definition evaluate_fit :: "(string \<Rightarrow> expiry) \<Rightarrow> parsed_work_order \<Rightarrow> engineer_profile \<Rightarrow> skill_fit option" where
  "evaluate_fit days_until wo eng =
     do { let required = map (py_lower \<circ> sr_skill_name) (wo_required_skills wo);
          let available = map (py_lower \<circ> sr_skill_name) (ep_skills eng);
          let missing = filter (\<lambda>s. s \<notin> set available) required;
          expiring \<leftarrow> expiring_soon days_until (ep_accreditations eng);
          Some \<lparr>sf_fit = (missing = []),
                sf_matching_skills = sorted_set (filter (\<lambda>s. s \<in> set available) required),
                sf_missing_skills = sorted_set missing, sf_expiring_soon = expiring\<rparr> }"

section \<open>Safety and accreditation\<close>

definition valid_accreditations :: "engineer_profile \<Rightarrow> string list" where
  "valid_accreditations eng = map (py_lower \<circ> ac_name) (filter ac_is_valid (ep_accreditations eng))"

definition holds_like :: "engineer_profile \<Rightarrow> string \<Rightarrow> bool" where
  "holds_like eng s = list_ex (py_substring s) (valid_accreditations eng)"

definition permit_safety :: "engineer_profile \<Rightarrow> permit_requirement \<Rightarrow> pack_result list" where
  "permit_safety eng p =
     (case pq_permit_type p of
        PT_CONFINED_SPACE \<Rightarrow>
          [rule_outcome ''confined_space_certified'' (holds_like eng ''confined'')
             ''Confined space certified'' ''Missing confined space certification'']
      | PT_HEIGHT_WORKS \<Rightarrow>
          [rule_outcome ''height_works_certified'' (holds_like eng ''height'' \<or> holds_like eng ''working at height'')
             ''Height works certified'' ''Missing height works certification'']
      | PT_HOT_WORKS \<Rightarrow>
          [rule_outcome ''hot_works_certified'' (holds_like eng ''hot work'')
             ''Hot works certified'' ''Missing hot works certification'']
      | _ \<Rightarrow> [])"

definition needs_gas :: "parsed_work_order \<Rightarrow> bool" where
  "needs_gas wo = list_ex (\<lambda>s. sr_category s = SK_GAS) (wo_required_skills wo)"

definition evaluate_safety :: "parsed_work_order \<Rightarrow> engineer_profile \<Rightarrow> pack_result list" where
  "evaluate_safety wo eng =
     concat (map (permit_safety eng) (wo_required_permits wo)) @
     (if needs_gas wo
      then [rule_outcome ''gas_safe_registered'' (holds_like eng ''gas safe'')
              ''Gas Safe registered'' ''Missing Gas Safe registration'']
      else [])"

definition required_accreditations :: "parsed_work_order \<Rightarrow> string list" where
  "required_accreditations wo =
     (if wo_work_order_type wo \<in> {WT_INSTALLATION, WT_REPAIR} then [''general_competency''] else []) @
     concat (map (\<lambda>p. (if pq_permit_type p = PT_CONFINED_SPACE then [''confined_space_certification''] else []) @
                      (if pq_permit_type p = PT_HOT_WORKS then [''hot_works_certification''] else []))
               (wo_required_permits wo))"

definition check_accreditations :: "parsed_work_order \<Rightarrow> engineer_profile \<Rightarrow> pack_result list" where
  "check_accreditations wo eng =
     map (\<lambda>r. rule_outcome (''accreditation_'' @ r) (py_lower r \<in> set (valid_accreditations eng))
                (''Has '' @ r) (''Missing accreditation: '' @ r)) (required_accreditations wo)"

section \<open>Readiness\<close>

text \<open>A blocker and the prerequisite it reports missing, for each rule that failed.\<close>

definition blockers_of :: "string \<Rightarrow> (pack_result \<Rightarrow> string) \<Rightarrow> pack_result list \<Rightarrow> compliance_blocker list" where
  "blockers_of ty resolution rs =
     map (\<lambda>r. \<lparr>cb_blocker_type = ty, cb_description = ru_message r, cb_severity = ru_severity r,
               cb_resolution = resolution r\<rparr>) (filter (\<lambda>r. \<not> ru_passed r) rs)"

definition missing_of :: "pack_result list \<Rightarrow> string list" where
  "missing_of rs = map ru_message (filter (\<lambda>r. \<not> ru_passed r) rs)"

definition decide :: "compliance_blocker list \<Rightarrow> string \<Rightarrow> string \<Rightarrow> string \<Rightarrow> readiness_status \<times> string" where
  "decide bs blocked conditional ready =
     (if list_ex (\<lambda>b. cb_severity b = ''error'') bs then (RD_BLOCKED, blocked)
      else if list_ex (\<lambda>b. cb_severity b = ''warning'') bs then (RD_CONDITIONAL, conditional)
      else (RD_READY, ready))"

definition open_permits :: "parsed_work_order \<Rightarrow> string list" where
  "open_permits wo =
     map (permit_type_value \<circ> pq_permit_type)
       (filter (\<lambda>p. pq_required p \<and> \<not> pq_obtained p) (wo_required_permits wo))"

definition evaluate_readiness ::
  "(string \<Rightarrow> expiry) \<Rightarrow> parsed_work_order \<Rightarrow> engineer_profile \<Rightarrow> readiness_decision option" where
  "evaluate_readiness days_until wo eng =
     do { fit \<leftarrow> evaluate_fit days_until wo eng;
          let skills = (if sf_fit fit then [] else sf_missing_skills fit);
          let safety = evaluate_safety wo eng;
          let accreds = check_accreditations wo eng;
          let bs = map (\<lambda>s. \<lparr>cb_blocker_type = ''skill'',
                       cb_description = ''Engineer missing required skill: '' @ s, cb_severity = ''error'',
                       cb_resolution = ''Assign engineer with '' @ s @ '' qualification''\<rparr>) skills @
                   map (\<lambda>p. \<lparr>cb_blocker_type = ''permit'',
                       cb_description = ''Required permit not obtained: '' @ p, cb_severity = ''error'',
                       cb_resolution = ''Obtain '' @ p @ '' permit before dispatch''\<rparr>) (open_permits wo) @
                   blockers_of ''safety'' (\<lambda>r. ''Ensure safety requirements are met'') safety @
                   blockers_of ''accreditation'' (\<lambda>r. []) accreds;
          let (st, rec) = decide bs ''Resolve blocking issues before dispatch''
                 ''Dispatch with caution - review warnings'' ''Clear to dispatch'';
          Some \<lparr>rd_status = st,
                rd_missing_prerequisites =
                  map (\<lambda>s. ''Missing skill: '' @ s) skills @
                  map (\<lambda>p. ''Missing permit: '' @ p) (open_permits wo) @ missing_of safety @ missing_of accreds,
                rd_skill_fit = Some fit, rd_blockers = bs, rd_recommendation = rec\<rparr> }"

section \<open>SPEN readiness\<close>

definition category_accreditations :: "(string \<times> string list) list" where
  "category_accreditations =
     [(''hv_switching'', [''hv_authorized_person'', ''ecs_card'', ''first_aid_at_work'']),
      (''lv_fault_repair'', [''lv_authorized_person'', ''ecs_card'', ''eighteen_edition'']),
      (''cable_jointing'', [''cable_jointer_approved'', ''cscs_card'', ''cat_and_genny'']),
      (''overhead_lines'', [''working_at_height'', ''ipaf_mewp'', ''ecs_card'']),
      (''substation_maintenance'', [''hv_authorized_person'', ''ecs_card'', ''confined_space_entry'']),
      (''metering_installation'', [''eighteen_edition'', ''ecs_card'']),
      (''metering_exchange'', [''eighteen_edition'', ''ecs_card'']),
      (''new_connection'', [''lv_authorized_person'', ''ecs_card'', ''eighteen_edition'', ''cat_and_genny'']),
      (''service_alteration'', [''lv_authorized_person'', ''ecs_card'', ''eighteen_edition'']),
      (''civils_excavation'', [''cscs_card'', ''cat_and_genny'', ''nrswa_operative'']),
      (''reinstatement'', [''cscs_card'', ''nrswa_operative'']),
      (''tree_cutting'', [''cscs_card'', ''working_at_height'']),
      (''pole_erection'', [''working_at_height'', ''cscs_card'', ''cat_and_genny'']),
      (''cable_laying'', [''cscs_card'', ''cat_and_genny'', ''nrswa_operative'']),
      (''transformer_installation'', [''hv_authorized_person'', ''ecs_card'', ''first_aid_at_work''])]"

definition two_person_categories :: "string list" where
  "two_person_categories =
     [''hv_switching'', ''overhead_lines'', ''substation_maintenance'', ''pole_erection'', ''transformer_installation'']"

definition street_works_categories :: "string list" where
  "street_works_categories =
     [''civils_excavation'', ''reinstatement'', ''cable_laying'', ''cable_jointing'', ''new_connection'']"

definition design_approval_categories :: "string list" where
  "design_approval_categories = [''new_connection'', ''service_alteration'']"

definition outage_notification_categories :: "string list" where
  "outage_notification_categories = [''hv_switching'', ''transformer_installation'', ''substation_maintenance'']"

text \<open>The smallest crew of a category that has a requirement.\<close>

definition minimum_crew_size :: "string \<Rightarrow> int" where
  "minimum_crew_size cat =
     dget_default
       [(''hv_switching'', 2), (''overhead_lines'', 2), (''substation_maintenance'', 2), (''pole_erection'', 2),
        (''transformer_installation'', 2), (''cable_jointing'', 1)] cat 2"

definition spen_accreditation_check :: "engineer_profile \<Rightarrow> string \<Rightarrow> pack_result list" where
  "spen_accreditation_check eng cat =
     map (\<lambda>a. rule_outcome (''spen_accred_'' @ a) (py_lower a \<in> set (valid_accreditations eng))
                (''Has '' @ a) (''Missing required accreditation: '' @ a))
       (dget_default category_accreditations cat [])"

definition crew_size_check :: "string \<Rightarrow> int \<Rightarrow> pack_result list" where
  "crew_size_check cat crew_size =
     (if cat \<in> set two_person_categories \<and> crew_size > 0 \<and> crew_size < minimum_crew_size cat
      then [rule_outcome ''spen_crew_size'' False []
              (cat @ '' requires minimum '' @ int_str (minimum_crew_size cat) @ ''-person crew but only '' @
               int_str crew_size @ '' assigned'')]
      else [])"

definition permit_obtained :: "parsed_work_order \<Rightarrow> permit_type \<Rightarrow> bool" where
  "permit_obtained wo t = list_ex (\<lambda>p. pq_permit_type p = t \<and> pq_obtained p) (wo_required_permits wo)"

text \<open>A rule whose failure is a warning.\<close>

definition warning_outcome :: "string \<Rightarrow> bool \<Rightarrow> string \<Rightarrow> string \<Rightarrow> pack_result" where
  "warning_outcome name passed ok_message bad_message =
     (rule_outcome name passed ok_message bad_message)\<lparr>ru_severity := if passed then ''info'' else ''warning''\<rparr>"

definition permit_check :: "parsed_work_order \<Rightarrow> string \<Rightarrow> pack_result list" where
  "permit_check wo cat =
     (if cat \<in> set street_works_categories
      then [rule_outcome ''spen_nrswa_permit'' (permit_obtained wo PT_STREET_WORKS)
              ''NRSWA street works permit obtained''
              ''Missing NRSWA street works permit for street works category'']
      else []) @
     (if cat = ''substation_maintenance''
      then [warning_outcome ''spen_confined_space_permit'' (permit_obtained wo PT_CONFINED_SPACE)
              ''Confined space permit obtained'' ''Missing confined space permit for substation maintenance'']
      else []) @
     map (\<lambda>t. rule_outcome (''spen_required_permit_'' @ t) False [] (''Required permit not obtained: '' @ t))
       (open_permits wo)"

definition design_approved :: "(string, json) dict \<Rightarrow> bool" where
  "design_approved d =
     (dget d ''type'' = Some (JStr ''design'') \<and>
      dget d ''status'' \<in> {Some (JStr ''approved''), Some (JStr ''completed''), Some (JStr ''resolved'')})"

definition design_approval_check :: "parsed_work_order \<Rightarrow> string \<Rightarrow> pack_result list" where
  "design_approval_check wo cat =
     (if cat \<in> set design_approval_categories
      then [rule_outcome ''spen_design_approval''
              (list_ex design_approved (wo_dependencies wo) \<or> list_ex design_approved (wo_prerequisites wo))
              ''Scheme design approved''
              ''Scheme design not approved - required for new connections and service alterations'']
      else [])"

definition customer_notification_check :: "parsed_work_order \<Rightarrow> string \<Rightarrow> pack_result list" where
  "customer_notification_check wo cat =
     (if cat \<in> set outage_notification_categories
      then [rule_outcome ''spen_customer_notification'' (wo_customer_confirmed wo)
              ''Customer notified of planned outage'' ''Customer not notified of planned outage'']
      else [])"

definition unavailable_materials :: "parsed_work_order \<Rightarrow> json list" where
  "unavailable_materials wo =
     map (\<lambda>m. dget_default m ''description'' (dget_default m ''name'' (JStr ''unknown'')))
       (filter (\<lambda>m. \<not> json_truthy (dget_default m ''available'' (JBool True))) (wo_materials_required wo))"

definition materials_check :: "parsed_work_order \<Rightarrow> pack_result list option" where
  "materials_check wo =
     (if unavailable_materials wo = [] then Some []
      else do { names \<leftarrow> each as_str (unavailable_materials wo);
                Some [rule_outcome ''spen_materials_available'' False []
                        (''Materials not on-van or pre-staged: '' @ comma_join names)] })"

definition traffic_planned :: "parsed_work_order \<Rightarrow> bool" where
  "traffic_planned wo =
     (py_substring ''traffic management'' (py_lower (wo_special_instructions wo)) \<or>
      list_ex (\<lambda>p. py_substring ''traffic'' (py_lower (py_str (dget_default p ''description'' (JStr [])))))
        (wo_prerequisites wo))"

definition traffic_management_check :: "parsed_work_order \<Rightarrow> string \<Rightarrow> pack_result list" where
  "traffic_management_check wo cat =
     (if cat \<in> set street_works_categories
      then [warning_outcome ''spen_traffic_management'' (traffic_planned wo)
              ''Traffic management plan in place'' ''Missing traffic management plan for street works'']
      else [])"

definition spen_gate_check :: "readiness_gate list \<Rightarrow> pack_result list" where
  "spen_gate_check gates =
     map (\<lambda>g. \<lparr>ru_rule_name = ''spen_gate_'' @ rg_gate_name g, ru_passed = False,
               ru_message = ''Readiness gate not satisfied: '' @ rg_gate_name g @
                 (if rg_description g \<noteq> [] then '' - '' @ rg_description g else []),
               ru_severity = (if rg_blocking g then ''error'' else ''warning'')\<rparr>)
       (filter (\<lambda>g. rg_required g \<and> \<not> rg_satisfied g) gates)"

text \<open>The eight checks in order, with the type and resolution of their blockers.\<close>

definition spen_checks ::
  "parsed_work_order \<Rightarrow> engineer_profile \<Rightarrow> string \<Rightarrow> readiness_gate list \<Rightarrow> int \<Rightarrow> pack_result list
     \<Rightarrow> (string \<times> (pack_result \<Rightarrow> string) \<times> pack_result list) list" where
  "spen_checks wo eng cat gates crew_size materials =
     [(''accreditation'', \<lambda>r. ''Engineer must obtain '' @ drop (length ''spen_accred_'') (ru_rule_name r) @
         '' accreditation'', spen_accreditation_check eng cat),
      (''safety'', \<lambda>r. ''Assign additional crew members before dispatch'', crew_size_check cat crew_size),
      (''permit'', \<lambda>r. ''Obtain required permit before dispatch'', permit_check wo cat),
      (''access'', \<lambda>r. ''Obtain approved scheme design before dispatch'', design_approval_check wo cat),
      (''safety'', \<lambda>r. ''Send customer planned outage notification'', customer_notification_check wo cat),
      (''safety'', \<lambda>r. ''Ensure all materials are on-van or pre-staged at site'', materials),
      (''permit'', \<lambda>r. ''Submit traffic management plan for approval'', traffic_management_check wo cat),
      (''safety'', \<lambda>r. ''Satisfy readiness gate before dispatch'', spen_gate_check gates)]"

definition spen_evaluate ::
  "parsed_work_order \<Rightarrow> engineer_profile \<Rightarrow> string \<Rightarrow> readiness_gate list option \<Rightarrow> int \<Rightarrow> readiness_decision option" where
  "spen_evaluate wo eng cat gates crew_size =
     do { materials \<leftarrow> materials_check wo;
          let checks = spen_checks wo eng cat (case gates of None \<Rightarrow> [] | Some gs \<Rightarrow> gs) crew_size materials;
          let bs = concat (map (\<lambda>(ty, res, rs). blockers_of ty res rs) checks);
          let (st, rec) = decide bs ''Resolve blocking issues before SPEN dispatch''
                 ''Dispatch with caution - review SPEN warnings'' ''Clear to dispatch for SPEN work'';
          Some \<lparr>rd_status = st,
                rd_missing_prerequisites = concat (map (\<lambda>(ty, res, rs). missing_of rs) checks),
                rd_skill_fit = None, rd_blockers = bs, rd_recommendation = rec\<rparr> }"

section \<open>Completion evidence\<close>

definition hv_categories :: "string list" where
  "hv_categories = [''hv_switching'', ''substation_maintenance'', ''transformer_installation'']"

definition civils_categories :: "string list" where
  "civils_categories = [''civils_excavation'', ''reinstatement'']"

definition metering_categories :: "string list" where
  "metering_categories = [''metering_installation'', ''metering_exchange'']"

definition evidence_requirements :: "string \<Rightarrow> completion_evidence_type list" where
  "evidence_requirements grp =
     dget_default
       [(''_all'', [CE_AFTER_PHOTO, CE_RISK_ASSESSMENT_COMPLETED]),
        (''_hv'', [CE_TEST_CERTIFICATE, CE_SAFETY_DOCUMENTATION]),
        (''_cable_jointing'', [CE_TEST_CERTIFICATE, CE_AS_BUILT_DRAWING]),
        (''_civils'', [CE_REINSTATEMENT_RECORD, CE_BEFORE_PHOTO]),
        (''_metering'', [CE_TEST_CERTIFICATE, CE_CUSTOMER_SIGN_OFF]),
        (''_new_connection'', [CE_AS_BUILT_DRAWING, CE_TEST_CERTIFICATE, CE_CUSTOMER_SIGN_OFF])] grp []"

definition required_evidence_for :: "string \<Rightarrow> completion_evidence_type list" where
  "required_evidence_for cat =
     remdups (evidence_requirements ''_all'' @
       (if cat \<in> set hv_categories then evidence_requirements ''_hv'' else []) @
       (if cat = ''cable_jointing'' then evidence_requirements ''_cable_jointing'' else []) @
       (if cat \<in> set civils_categories then evidence_requirements ''_civils'' else []) @
       (if cat \<in> set metering_categories then evidence_requirements ''_metering'' else []) @
       (if cat = ''new_connection'' then evidence_requirements ''_new_connection'' else []))"

definition validate_completion :: "string \<Rightarrow> completion_evidence list \<Rightarrow> pack_result list" where
  "validate_completion cat evidence =
     (let provided = map cv_evidence_type (filter cv_provided evidence)
      in map (\<lambda>t. rule_outcome (''spen_evidence_'' @ evidence_type_value t) (t \<in> set provided)
                 (''Evidence provided: '' @ evidence_type_value t)
                 (''Missing completion evidence: '' @ evidence_type_value t))
           (sort_key evidence_type_value (required_evidence_for cat)))"

end
