(* ===== verification/Field_Props.thy ===== *)
theory Field_Props
  imports Field_Rules
begin

text \<open>When the utilities field pack lets a dispatch go ahead.\<close>

section \<open>Rules that fail with a severity\<close>

definition fails_as :: "string \<Rightarrow> pack_result list \<Rightarrow> bool" where
  "fails_as sev rs = list_ex (\<lambda>r. \<not> ru_passed r \<and> ru_severity r = sev) rs"

lemma fails_as_simps [simp]:
  "fails_as sev [] = False" "fails_as sev (rs @ rs') = (fails_as sev rs \<or> fails_as sev rs')"
  "fails_as sev (r # rs) = (\<not> ru_passed r \<and> ru_severity r = sev \<or> fails_as sev rs)"
  by (auto simp: fails_as_def)

lemma fails_as_concat: "fails_as sev (concat rss) = list_ex (fails_as sev) rss"
  by (induction rss) auto

lemma fails_as_map: "fails_as sev (map f xs) = list_ex (\<lambda>x. \<not> ru_passed (f x) \<and> ru_severity (f x) = sev) xs"
  by (induction xs) auto

lemma blockers_of_severity:
  "list_ex (\<lambda>b. cb_severity b = sev) (blockers_of ty res rs) = fails_as sev rs"
  by (induction rs) (auto simp: blockers_of_def)

lemma warning_outcome_simps [simp]:
  "ru_passed (warning_outcome name b ok bad) = b"
  "ru_severity (warning_outcome name b ok bad) = (if b then ''info'' else ''warning'')"
  by (simp_all add: warning_outcome_def)

lemma decide_cases:
  "fst (decide bs x y z) =
     (if list_ex (\<lambda>b. cb_severity b = ''error'') bs then RD_BLOCKED
      else if list_ex (\<lambda>b. cb_severity b = ''warning'') bs then RD_CONDITIONAL else RD_READY)"
  by (simp add: decide_def)

section \<open>Readiness\<close>

definition skills_covered :: "parsed_work_order \<Rightarrow> engineer_profile \<Rightarrow> bool" where
  "skills_covered wo eng =
     list_all (\<lambda>s. py_lower (sr_skill_name s) \<in> py_lower ` sr_skill_name ` set (ep_skills eng)) (wo_required_skills wo)"

definition permit_certified :: "engineer_profile \<Rightarrow> permit_requirement \<Rightarrow> bool" where
  "permit_certified eng p =
     (case pq_permit_type p of
        PT_CONFINED_SPACE \<Rightarrow> holds_like eng ''confined'' \<and> ''confined_space_certification'' \<in> set (valid_accreditations eng)
      | PT_HEIGHT_WORKS \<Rightarrow> holds_like eng ''height'' \<or> holds_like eng ''working at height''
      | PT_HOT_WORKS \<Rightarrow> holds_like eng ''hot work'' \<and> ''hot_works_certification'' \<in> set (valid_accreditations eng)
      | _ \<Rightarrow> True)"

definition dispatch_ready :: "parsed_work_order \<Rightarrow> engineer_profile \<Rightarrow> bool" where
  "dispatch_ready wo eng =
     (skills_covered wo eng \<and> open_permits wo = [] \<and> list_all (permit_certified eng) (wo_required_permits wo) \<and>
      (if needs_gas wo then holds_like eng ''gas safe'' else True) \<and>
      (if wo_work_order_type wo \<in> {WT_INSTALLATION, WT_REPAIR}
       then ''general_competency'' \<in> set (valid_accreditations eng) else True))"

lemma sorted_set_Nil: "sorted_set xs = [] \<longleftrightarrow> xs = []"
proof -
  have "set (sorted_set xs) = set xs" by (simp add: sorted_set_def)
  then show ?thesis by (metis set_empty)
qed

lemma evaluate_fit_Some:
  assumes "evaluate_fit days_until wo eng = Some f"
  shows "sf_fit f = skills_covered wo eng" "sf_fit f \<longleftrightarrow> sf_missing_skills f = []"
  using assms
  by (auto simp: evaluate_fit_def skills_covered_def filter_empty_conv list_all_iff image_iff sorted_set_Nil
      Let_def split: Option.bind_splits)

lemma each_None: "each f xs = None \<longleftrightarrow> list_ex (\<lambda>x. f x = None) xs"
  by (induction xs) (auto split: Option.bind_splits)

lemma expiry_Zoned:
  "(case e of Days n \<Rightarrow> Some (f n) | Zoned \<Rightarrow> None | NoDate \<Rightarrow> Some y) = None \<longleftrightarrow> e = Zoned"
  by (cases e) auto

lemma evaluate_fit_None:
  "evaluate_fit days_until wo eng = None \<longleftrightarrow>
     list_ex (\<lambda>a. case ac_valid_to a of None \<Rightarrow> False | Some d \<Rightarrow> d \<noteq> [] \<and> days_until d = Zoned)
       (ep_accreditations eng)"
proof -
  have "evaluate_fit days_until wo eng = None \<longleftrightarrow> expiring_soon days_until (ep_accreditations eng) = None"
    by (simp add: evaluate_fit_def Let_def split: Option.bind_splits)
  also have "\<dots> \<longleftrightarrow> list_ex (\<lambda>a. case ac_valid_to a of None \<Rightarrow> False | Some d \<Rightarrow> d \<noteq> [] \<and> days_until d = Zoned)
       (ep_accreditations eng)"
    unfolding expiring_soon_def map_option_is_None each_None
    by (rule arg_cong [of _ _ "\<lambda>f. list_ex f _"], rule ext) (simp add: expiry_Zoned split: option.split list.split)
  finally show ?thesis .
qed

lemma permit_safety_fails:
  "fails_as sev (permit_safety eng p) \<longleftrightarrow> sev = ''error'' \<and>
     \<not> (case pq_permit_type p of
          PT_CONFINED_SPACE \<Rightarrow> holds_like eng ''confined''
        | PT_HEIGHT_WORKS \<Rightarrow> holds_like eng ''height'' \<or> holds_like eng ''working at height''
        | PT_HOT_WORKS \<Rightarrow> holds_like eng ''hot work''
        | _ \<Rightarrow> True)"
  by (auto simp: permit_safety_def split: permit_type.split)

lemma safety_fails:
  "fails_as sev (evaluate_safety wo eng) \<longleftrightarrow> sev = ''error'' \<and>
     ((\<exists>p\<in>set (wo_required_permits wo). fails_as ''error'' (permit_safety eng p)) \<or>
      needs_gas wo \<and> \<not> holds_like eng ''gas safe'')"
  by (auto simp: evaluate_safety_def fails_as_concat list_ex_iff permit_safety_fails)

lemma lower_names:
  "py_lower ''general_competency'' = ''general_competency''"
  "py_lower ''confined_space_certification'' = ''confined_space_certification''"
  "py_lower ''hot_works_certification'' = ''hot_works_certification''"
  by (code_simp)+

lemma one_of_three:
  "(\<exists>r. (r = a \<and> A \<or> (\<exists>p\<in>P. r = b \<and> B p \<or> r = c \<and> C p)) \<and> Q r) \<longleftrightarrow>
     A \<and> Q a \<or> (\<exists>p\<in>P. B p \<and> Q b \<or> C p \<and> Q c)"
  by blast

lemma fails_outcomes:
  "fails_as sev (map (\<lambda>r. rule_outcome (n r) (ok r) (g r) (b r)) xs) \<longleftrightarrow>
     sev = ''error'' \<and> (\<exists>r\<in>set xs. \<not> ok r)"
  by (induction xs) auto

lemma required_accreditation_iff:
  "r \<in> set (required_accreditations wo) \<longleftrightarrow>
     r = ''general_competency'' \<and> wo_work_order_type wo \<in> {WT_INSTALLATION, WT_REPAIR} \<or>
     (\<exists>p\<in>set (wo_required_permits wo).
        r = ''confined_space_certification'' \<and> pq_permit_type p = PT_CONFINED_SPACE \<or>
        r = ''hot_works_certification'' \<and> pq_permit_type p = PT_HOT_WORKS)"
  by (auto simp: required_accreditations_def)

lemma accreditations_fail:
  "fails_as sev (check_accreditations wo eng) \<longleftrightarrow> sev = ''error'' \<and>
     (wo_work_order_type wo \<in> {WT_INSTALLATION, WT_REPAIR} \<and>
        ''general_competency'' \<notin> set (valid_accreditations eng) \<or>
      (\<exists>p\<in>set (wo_required_permits wo).
         pq_permit_type p = PT_CONFINED_SPACE \<and> ''confined_space_certification'' \<notin> set (valid_accreditations eng) \<or>
         pq_permit_type p = PT_HOT_WORKS \<and> ''hot_works_certification'' \<notin> set (valid_accreditations eng)))"
  unfolding check_accreditations_def fails_outcomes Bex_def [of "set (required_accreditations wo)"]
    required_accreditation_iff one_of_three lower_names by (rule refl)

lemma ready_split:
  "dispatch_ready wo eng \<longleftrightarrow>
     skills_covered wo eng \<and> open_permits wo = [] \<and> \<not> fails_as ''error'' (evaluate_safety wo eng) \<and>
     \<not> fails_as ''error'' (check_accreditations wo eng)"
proof -
  have p: "permit_certified eng p \<longleftrightarrow> \<not> fails_as ''error'' (permit_safety eng p) \<and>
     \<not> (pq_permit_type p = PT_CONFINED_SPACE \<and> ''confined_space_certification'' \<notin> set (valid_accreditations eng) \<or>
        pq_permit_type p = PT_HOT_WORKS \<and> ''hot_works_certification'' \<notin> set (valid_accreditations eng))" for p
    by (cases "pq_permit_type p") (auto simp: permit_certified_def permit_safety_fails)
  show ?thesis
    unfolding dispatch_ready_def safety_fails accreditations_fail list_all_iff p by auto
qed

lemma missing_of_Nil:
  "\<forall>r\<in>set rs. \<not> ru_passed r \<longrightarrow> ru_severity r = ''error'' \<Longrightarrow> missing_of rs = [] \<longleftrightarrow> \<not> fails_as ''error'' rs"
  by (auto simp: missing_of_def filter_empty_conv fails_as_def list_ex_iff)

lemma list_ex_const_map: "list_ex P (map f xs) \<longleftrightarrow> list_ex (P \<circ> f) xs"
  by (induction xs) auto

lemma list_ex_const: "list_ex (\<lambda>x. a = b) xs \<longleftrightarrow> a = b \<and> xs \<noteq> []"
  by (cases xs) (auto simp: list_ex_iff)

lemma readiness_parts:
  assumes d: "evaluate_readiness days_until wo eng = Some d" and f: "evaluate_fit days_until wo eng = Some f"
  shows "\<exists>x y z. rd_status d = fst (decide (rd_blockers d) x y z)"
    and "list_ex (\<lambda>b. cb_severity b = sev) (rd_blockers d) \<longleftrightarrow>
        ''error'' = sev \<and> (if sf_fit f then [] else sf_missing_skills f) \<noteq> [] \<or>
        ''error'' = sev \<and> open_permits wo \<noteq> [] \<or>
        fails_as sev (evaluate_safety wo eng) \<or> fails_as sev (check_accreditations wo eng)"
    and "rd_missing_prerequisites d =
       map (\<lambda>s. ''Missing skill: '' @ s) (if sf_fit f then [] else sf_missing_skills f) @
       map (\<lambda>p. ''Missing permit: '' @ p) (open_permits wo) @
       missing_of (evaluate_safety wo eng) @ missing_of (check_accreditations wo eng)"
proof -
  define bs where bs: "bs = map (\<lambda>s. \<lparr>cb_blocker_type = ''skill'',
           cb_description = ''Engineer missing required skill: '' @ s, cb_severity = ''error'',
           cb_resolution = ''Assign engineer with '' @ s @ '' qualification''\<rparr>)
           (if sf_fit f then [] else sf_missing_skills f) @
         map (\<lambda>p. \<lparr>cb_blocker_type = ''permit'',
           cb_description = ''Required permit not obtained: '' @ p, cb_severity = ''error'',
           cb_resolution = ''Obtain '' @ p @ '' permit before dispatch''\<rparr>) (open_permits wo) @
         blockers_of ''safety'' (\<lambda>r. ''Ensure safety requirements are met'') (evaluate_safety wo eng) @
         blockers_of ''accreditation'' (\<lambda>r. []) (check_accreditations wo eng)"
  obtain st rec where st: "decide bs ''Resolve blocking issues before dispatch''
        ''Dispatch with caution - review warnings'' ''Clear to dispatch'' = (st, rec)"
    by (rule prod.exhaust)
  have e: "d = \<lparr>rd_status = st,
      rd_missing_prerequisites =
        map (\<lambda>s. ''Missing skill: '' @ s) (if sf_fit f then [] else sf_missing_skills f) @
        map (\<lambda>p. ''Missing permit: '' @ p) (open_permits wo) @
        missing_of (evaluate_safety wo eng) @ missing_of (check_accreditations wo eng),
      rd_skill_fit = Some f, rd_blockers = bs, rd_recommendation = rec\<rparr>"
    using d unfolding evaluate_readiness_def Let_def f Option.bind.bind_lunit bs [symmetric] st prod.case option.inject by (rule sym)
  show "\<exists>x y z. rd_status d = fst (decide (rd_blockers d) x y z)"
    unfolding e readiness_decision.select_convs using arg_cong [OF st, of fst] by (metis fst_conv)
  show "list_ex (\<lambda>b. cb_severity b = sev) (rd_blockers d) \<longleftrightarrow>
        ''error'' = sev \<and> (if sf_fit f then [] else sf_missing_skills f) \<noteq> [] \<or>
        ''error'' = sev \<and> open_permits wo \<noteq> [] \<or>
        fails_as sev (evaluate_safety wo eng) \<or> fails_as sev (check_accreditations wo eng)"
    unfolding e readiness_decision.select_convs bs list_ex_append list_ex_const_map comp_def
      compliance_blocker.select_convs blockers_of_severity list_ex_const by (rule refl)
  show "rd_missing_prerequisites d =
       map (\<lambda>s. ''Missing skill: '' @ s) (if sf_fit f then [] else sf_missing_skills f) @
       map (\<lambda>p. ''Missing permit: '' @ p) (open_permits wo) @
       missing_of (evaluate_safety wo eng) @ missing_of (check_accreditations wo eng)"
    by (simp add: e)
qed

text \<open>a dispatch is ready exactly when it should be. Unless an accreditation has a date with a time
  zone, which raises, the decision is ready when the engineer has every skill, every required permit
  is obtained, every permit that asks for a certificate, gas work and installations find theirs among
  the valid accreditations; otherwise it is blocked. It is never conditional: all failures are errors.
\<close>
theorem readiness_decided:
  "case evaluate_readiness days_until wo eng of
     None \<Rightarrow> list_ex (\<lambda>a. case ac_valid_to a of None \<Rightarrow> False | Some d \<Rightarrow> d \<noteq> [] \<and> days_until d = Zoned)
               (ep_accreditations eng)
   | Some d \<Rightarrow> rd_status d = (if dispatch_ready wo eng then RD_READY else RD_BLOCKED) \<and>
       (dispatch_ready wo eng \<longleftrightarrow> rd_missing_prerequisites d = [])"
proof (cases "evaluate_fit days_until wo eng")
  case None
  have "list_ex (\<lambda>a. case ac_valid_to a of None \<Rightarrow> False | Some d \<Rightarrow> d \<noteq> [] \<and> days_until d = Zoned)
      (ep_accreditations eng)"
    using None unfolding evaluate_fit_None by blast
  then show ?thesis using None by (simp add: evaluate_readiness_def)
next
  case (Some f)
  note fit = evaluate_fit_Some [OF Some]
  have "evaluate_readiness days_until wo eng \<noteq> None"
    using Some by (simp add: evaluate_readiness_def Let_def split: prod.split)
  then obtain d where d: "evaluate_readiness days_until wo eng = Some d" by blast
  have s1: "\<forall>r\<in>set (evaluate_safety wo eng). \<not> ru_passed r \<longrightarrow> ru_severity r = ''error''"
    by (auto simp: evaluate_safety_def permit_safety_def split: permit_type.splits)
  have s2: "\<forall>r\<in>set (check_accreditations wo eng). \<not> ru_passed r \<longrightarrow> ru_severity r = ''error''"
    by (auto simp: check_accreditations_def)
  have ready: "dispatch_ready wo eng \<longleftrightarrow> sf_fit f \<and> open_permits wo = [] \<and>
     missing_of (evaluate_safety wo eng) = [] \<and> missing_of (check_accreditations wo eng) = []"
    unfolding ready_split fit(1) missing_of_Nil [OF s1] missing_of_Nil [OF s2] by (rule refl)
  obtain x y z where "rd_status d = fst (decide (rd_blockers d) x y z)"
    using readiness_parts(1) [OF d Some] by blast
  moreover have "fails_as ''warning'' (evaluate_safety wo eng) = False"
    "fails_as ''warning'' (check_accreditations wo eng) = False"
    unfolding safety_fails accreditations_fail by simp_all
  ultimately have "rd_status d = (if dispatch_ready wo eng then RD_READY else RD_BLOCKED)"
    unfolding decide_cases readiness_parts(2) [OF d Some] ready missing_of_Nil [OF s1] missing_of_Nil [OF s2]
    by (simp add: fit(2))
  moreover have "dispatch_ready wo eng \<longleftrightarrow> rd_missing_prerequisites d = []"
    unfolding readiness_parts(3) [OF d Some] ready by (simp add: fit(2))
  ultimately show ?thesis by (simp add: d)
qed

section \<open>SPEN readiness\<close>

text \<open>What must hold before a SPEN dispatch, and what only asks for caution.\<close>

definition spen_hard ::
  "parsed_work_order \<Rightarrow> engineer_profile \<Rightarrow> string \<Rightarrow> readiness_gate list \<Rightarrow> int \<Rightarrow> bool" where
  "spen_hard wo eng cat gates crew \<longleftrightarrow>
     list_all (\<lambda>a. py_lower a \<in> set (valid_accreditations eng)) (dget_default category_accreditations cat []) \<and>
     (if cat \<in> set two_person_categories \<and> crew > 0 then minimum_crew_size cat \<le> crew else True) \<and>
     (if cat \<in> set street_works_categories then permit_obtained wo PT_STREET_WORKS else True) \<and>
     open_permits wo = [] \<and>
     (if cat \<in> set design_approval_categories
      then list_ex design_approved (wo_dependencies wo @ wo_prerequisites wo) else True) \<and>
     (if cat \<in> set outage_notification_categories then wo_customer_confirmed wo else True) \<and>
     unavailable_materials wo = [] \<and>
     list_all (\<lambda>g. rg_blocking g \<and> rg_required g \<longrightarrow> rg_satisfied g) gates"

definition spen_soft :: "parsed_work_order \<Rightarrow> string \<Rightarrow> readiness_gate list \<Rightarrow> bool" where
  "spen_soft wo cat gates \<longleftrightarrow>
     (if cat = ''substation_maintenance'' then permit_obtained wo PT_CONFINED_SPACE else True) \<and>
     (if cat \<in> set street_works_categories then traffic_planned wo else True) \<and>
     list_all (\<lambda>g. \<not> rg_blocking g \<and> rg_required g \<longrightarrow> rg_satisfied g) gates"

lemma list_ex_rec: "list_ex P [] = False" "list_ex P (x # xs) = (P x \<or> list_ex P xs)"
  by simp_all

lemma gates_fail:
  "fails_as ''error'' (spen_gate_check gs) \<longleftrightarrow> \<not> list_all (\<lambda>g. rg_blocking g \<and> rg_required g \<longrightarrow> rg_satisfied g) gs"
  "fails_as ''warning'' (spen_gate_check gs) \<longleftrightarrow> \<not> list_all (\<lambda>g. \<not> rg_blocking g \<and> rg_required g \<longrightarrow> rg_satisfied g) gs"
  by (induction gs) (auto simp: spen_gate_check_def)

lemma open_permits_fail:
  "fails_as sev (map (\<lambda>t. rule_outcome (n t) False [] (b t)) xs) \<longleftrightarrow> sev = ''error'' \<and> xs \<noteq> []"
  by (induction xs) auto

lemma permits_fail:
  "fails_as ''error'' (permit_check wo cat) \<longleftrightarrow>
     cat \<in> set street_works_categories \<and> \<not> permit_obtained wo PT_STREET_WORKS \<or> open_permits wo \<noteq> []"
  "fails_as ''warning'' (permit_check wo cat) \<longleftrightarrow>
     cat = ''substation_maintenance'' \<and> \<not> permit_obtained wo PT_CONFINED_SPACE"
  unfolding permit_check_def fails_as_simps open_permits_fail by auto

lemma checks_fail:
  "fails_as sev (spen_accreditation_check eng cat) \<longleftrightarrow> sev = ''error'' \<and>
     \<not> list_all (\<lambda>a. py_lower a \<in> set (valid_accreditations eng)) (dget_default category_accreditations cat [])"
  "fails_as sev (crew_size_check cat crew) \<longleftrightarrow> sev = ''error'' \<and>
     cat \<in> set two_person_categories \<and> crew > 0 \<and> crew < minimum_crew_size cat"
  "fails_as sev (design_approval_check wo cat) \<longleftrightarrow> sev = ''error'' \<and>
     cat \<in> set design_approval_categories \<and> \<not> list_ex design_approved (wo_dependencies wo @ wo_prerequisites wo)"
  "fails_as sev (customer_notification_check wo cat) \<longleftrightarrow> sev = ''error'' \<and>
     cat \<in> set outage_notification_categories \<and> \<not> wo_customer_confirmed wo"
  "fails_as sev (traffic_management_check wo cat) \<longleftrightarrow> sev = ''warning'' \<and>
     cat \<in> set street_works_categories \<and> \<not> traffic_planned wo"
  unfolding spen_accreditation_check_def fails_outcomes crew_size_check_def design_approval_check_def
    customer_notification_check_def traffic_management_check_def list_all_iff
  by auto

lemma materials_fail:
  "materials_check wo = Some rs \<Longrightarrow> fails_as sev rs \<longleftrightarrow> sev = ''error'' \<and> unavailable_materials wo \<noteq> []"
  "materials_check wo = None \<longleftrightarrow> list_ex (\<lambda>m. as_str m = None) (unavailable_materials wo)"
  unfolding materials_check_def each_None [symmetric]
  by (auto split: if_splits Option.bind_splits)

text \<open>C32: the SPEN engine blocks, warns and clears exactly as its checks say. It raises only when an
  unavailable material has a description that is no string; otherwise the dispatch is blocked when a
  hard condition (accreditations, crew, permits, design, notification, materials, blocking gates)
  fails, conditional when only a soft one does, and ready when none does.
\<close>
theorem spen_decided:
  "case spen_evaluate wo eng cat gates crew of
     None \<Rightarrow> list_ex (\<lambda>m. as_str m = None) (unavailable_materials wo)
   | Some d \<Rightarrow> rd_status d =
       (if \<not> spen_hard wo eng cat (case gates of None \<Rightarrow> [] | Some gs \<Rightarrow> gs) crew then RD_BLOCKED
        else if \<not> spen_soft wo cat (case gates of None \<Rightarrow> [] | Some gs \<Rightarrow> gs) then RD_CONDITIONAL
        else RD_READY)"
proof (cases "materials_check wo")
  case None
  then show ?thesis using materials_fail(2) [of wo] by (simp add: spen_evaluate_def)
next
  case (Some rs)
  let ?gs = "case gates of None \<Rightarrow> [] | Some gs \<Rightarrow> gs"
  define checks where "checks = spen_checks wo eng cat ?gs crew rs"
  let ?bs = "concat (map (\<lambda>(ty, res, rs). blockers_of ty res rs) checks)"
  have fails: "list_ex (\<lambda>b. cb_severity b = sev) ?bs \<longleftrightarrow> list_ex (fails_as sev \<circ> snd \<circ> snd) checks" for sev
    by (induction checks) (auto simp: blockers_of_severity)
  have hard: "list_ex (fails_as ''error'' \<circ> snd \<circ> snd) checks \<longleftrightarrow> \<not> spen_hard wo eng cat ?gs crew"
    unfolding checks_def spen_checks_def list_ex_rec comp_def snd_conv permits_fail gates_fail checks_fail
      materials_fail(1) [OF Some] spen_hard_def
    by (auto simp: not_le)
  have soft: "list_ex (fails_as ''warning'' \<circ> snd \<circ> snd) checks \<longleftrightarrow> \<not> spen_soft wo cat ?gs"
    unfolding checks_def spen_checks_def list_ex_rec comp_def snd_conv permits_fail gates_fail checks_fail
      materials_fail(1) [OF Some] spen_soft_def
    by auto
  obtain st rec where st: "decide ?bs ''Resolve blocking issues before SPEN dispatch''
        ''Dispatch with caution - review SPEN warnings'' ''Clear to dispatch for SPEN work'' = (st, rec)"
    by (rule prod.exhaust)
  have "st = (if \<not> spen_hard wo eng cat ?gs crew then RD_BLOCKED
      else if \<not> spen_soft wo cat ?gs then RD_CONDITIONAL else RD_READY)"
    using arg_cong [OF st, of fst] unfolding decide_cases fails hard soft by simp
  then show ?thesis
    unfolding spen_evaluate_def Let_def Some Option.bind.bind_lunit checks_def [symmetric] st prod.case option.case
    by simp
qed

section \<open>Completion evidence\<close>

text \<open>completion evidence is accepted exactly when every piece the category requires is provided,
  and the rules are reported once each, in the order of their names.
\<close>
theorem completion_evidence_exact:
  "list_all ru_passed (validate_completion cat ev) \<longleftrightarrow>
     set (required_evidence_for cat) \<subseteq> cv_evidence_type ` set (filter cv_provided ev)"
  "map ru_rule_name (validate_completion cat ev) =
     map (\<lambda>t. ''spen_evidence_'' @ evidence_type_value t) (sort_key evidence_type_value (required_evidence_for cat))"
  "distinct (required_evidence_for cat)"
  by (auto simp: validate_completion_def required_evidence_for_def list_all_iff Let_def comp_def)

end
