(* ===== verification/Pack_Numbers.thy ===== *)
theory Pack_Numbers
  imports Pack_Prelude
begin

text \<open>
  Arithmetic on untyped values, and calendar dates, as the contract pack uses them.

  An operand is an integer (a \<^verbatim>\<open>bool\<close> is one), a float, a string or list, or something else. The
  product of an integer and a string or list is again a string or list, whose contents the code never
  looks at: where it ends in a float field it is taken to be refused, as every such string that does
  not spell a number is. A date is its proleptic ordinal, the number of days since the first of
  January of the year 1, which is day 1.
\<close>

section \<open>Operands\<close>

datatype pynum = PyI int | PyF pyfloat | PySeq | PyOther

fun operand :: "json \<Rightarrow> pynum" where
  "operand (JBool b) = PyI (if b then 1 else 0)"
| "operand (JInt i) = PyI i"
| "operand (JNum q) = PyF (Fin q)"
| "operand (JStr s) = PySeq"
| "operand (JList xs) = PySeq"
| "operand j = PyOther"

text \<open>An integer as a float: one that is too large raises.\<close>

definition int_float :: "int \<Rightarrow> pyfloat option" where
  "int_float i = (case to_float (of_int i) of Fin q \<Rightarrow> Some (Fin q) | _ \<Rightarrow> None)"

definition num_float :: "pynum \<Rightarrow> pyfloat option" where
  "num_float x = (case x of PyI i \<Rightarrow> int_float i | PyF f \<Rightarrow> Some f | _ \<Rightarrow> None)"

definition num_mul :: "pynum \<Rightarrow> pynum \<Rightarrow> pynum option" where
  "num_mul x y =
     (case (x, y) of
        (PyI a, PyI b) \<Rightarrow> Some (PyI (a * b))
      | (PyI a, PySeq) \<Rightarrow> Some PySeq
      | (PySeq, PyI b) \<Rightarrow> Some PySeq
      | _ \<Rightarrow> do { a \<leftarrow> num_float x; b \<leftarrow> num_float y; Some (PyF (pf_mul a b)) })"

definition num_sub :: "pynum \<Rightarrow> pynum \<Rightarrow> pynum option" where
  "num_sub x y =
     (case (x, y) of
        (PyI a, PyI b) \<Rightarrow> Some (PyI (a - b))
      | _ \<Rightarrow> do { a \<leftarrow> num_float x; b \<leftarrow> num_float y; Some (PyF (pf_sub a b)) })"

text \<open>\<open>x / 100\<close>: the quotient of an integer is rounded once.\<close>

definition percent_of :: "pynum \<Rightarrow> pyfloat option" where
  "percent_of x =
     (case x of
        PyI a \<Rightarrow> (case to_float (of_int a / 100) of Fin q \<Rightarrow> Some (Fin q) | _ \<Rightarrow> None)
      | PyF f \<Rightarrow> Some (pf_div f (Fin 100))
      | _ \<Rightarrow> None)"

text \<open>A positive value: \<open>x > 0\<close>; anything but a number raises.\<close>

definition json_positive :: "json \<Rightarrow> bool option" where
  "json_positive j = json_lt (JInt 0) j"

text \<open>A value printed as \<open>f"{x:.2f}"\<close>, a value stored in a float field, and \<open>float(x)\<close>.\<close>

definition num_fixed :: "pynum \<Rightarrow> string option" where
  "num_fixed x = do { f \<leftarrow> num_float x; Some (fixed_str 2 f) }"

definition float_field :: "pynum \<Rightarrow> pyfloat option" where
  "float_field x = num_float x"

definition json_float :: "json \<Rightarrow> pyfloat option" where
  "json_float j = (case py_float j of Inr x \<Rightarrow> Some x | Inl e \<Rightarrow> None)"

section \<open>Strings\<close>

text \<open>\<open>s.lower().replace(" ", "_")\<close>, and \<open>s.split(c)\<close>.\<close>

definition underscored :: "string \<Rightarrow> string" where
  "underscored s = map (\<lambda>c. if c = CHR '' '' then CHR ''_'' else c) (py_lower s)"

fun split_char :: "char \<Rightarrow> string \<Rightarrow> string list" where
  "split_char c [] = [[]]"
| "split_char c (x # xs) =
     (if x = c then [] # split_char c xs
      else case split_char c xs of [] \<Rightarrow> [[x]] | w # ws \<Rightarrow> (x # w) # ws)"

definition quote :: "string \<Rightarrow> string" where
  "quote s = [CHR 0x27] @ s @ [CHR 0x27]"

definition pounds :: "string \<Rightarrow> string" where
  "pounds s = [CHR 0xA3] @ s"

section \<open>Dates\<close>

definition is_leap :: "int \<Rightarrow> bool" where
  "is_leap y = (y mod 4 = 0 \<and> (y mod 100 \<noteq> 0 \<or> y mod 400 = 0))"

definition days_in_month :: "int \<Rightarrow> int \<Rightarrow> int" where
  "days_in_month y m = (if m = 2 then (if is_leap y then 29 else 28) else if m \<in> {4, 6, 9, 11} then 30 else 31)"

definition days_before_year :: "int \<Rightarrow> int" where
  "days_before_year y = (y - 1) * 365 + (y - 1) div 4 - (y - 1) div 100 + (y - 1) div 400"

definition days_before_month :: "int \<Rightarrow> int \<Rightarrow> int" where
  "days_before_month y m = sum_list (map (days_in_month y) [1..m - 1])"

definition date_ordinal :: "int \<Rightarrow> int \<Rightarrow> int \<Rightarrow> int option" where
  "date_ordinal y m d =
     (if 1 \<le> y \<and> y \<le> 9999 \<and> 1 \<le> m \<and> m \<le> 12 \<and> 1 \<le> d \<and> d \<le> days_in_month y m
      then Some (days_before_year y + days_before_month y m + d) else None)"

text \<open>The first day of the first ISO week of a year, which is a Monday; and a day of a week.\<close>

definition iso_week1_monday :: "int \<Rightarrow> int" where
  "iso_week1_monday y =
     (let first_day = days_before_year y + 1; first_weekday = (first_day + 6) mod 7;
          monday = first_day - first_weekday
      in if first_weekday > 3 then monday + 7 else monday)"

definition iso_week_ordinal :: "int \<Rightarrow> int \<Rightarrow> int \<Rightarrow> int option" where
  "iso_week_ordinal y w d =
     (let first_weekday = (days_before_year y + 7) mod 7;
          long = (first_weekday = 3 \<or> first_weekday = 2 \<and> is_leap y);
          n = iso_week1_monday y + (w - 1) * 7 + d - 1
      in if 1 \<le> y \<and> 1 \<le> w \<and> (w \<le> 52 \<or> w = 53 \<and> long) \<and> 1 \<le> d \<and> d \<le> 7 \<and> n \<le> 3652059 then Some n else None)"

definition take_digits :: "nat \<Rightarrow> string \<Rightarrow> (int \<times> string) option" where
  "take_digits n s =
     (if n \<le> length s \<and> list_all is_digit (take n s) then Some (digits_val (take n s), drop n s) else None)"

definition skip_char :: "char \<Rightarrow> string \<Rightarrow> string option" where
  "skip_char c s = (case s of x # r \<Rightarrow> if x = c then Some r else None | [] \<Rightarrow> None)"

definition utf8_length :: "string \<Rightarrow> nat" where
  "utf8_length s = sum_list (map (\<lambda>c. if (of_char c :: int) < 128 then 1 else 2) s)"

text \<open>
  \<open>date.fromisoformat\<close>: a calendar date or a day of a week, with or without separators, in a string
  of 7, 8 or 10 bytes; what follows a complete date is not looked at.
\<close>

definition date_fromisoformat :: "string \<Rightarrow> int option" where
  "date_fromisoformat s =
     (if utf8_length s \<notin> {7, 8, 10} then None
      else do { (y, r) \<leftarrow> take_digits 4 s;
                let sep = (case r of [] \<Rightarrow> False | c # r' \<Rightarrow> c = CHR ''-'');
                let r = (if sep then tl r else r);
                (case skip_char (CHR ''W'') r of
                   Some r \<Rightarrow>
                     do { (w, r) \<leftarrow> take_digits 2 r;
                          (d, r) \<leftarrow> (if r = [] then Some (1, [])
                                     else do { r \<leftarrow> (if sep then skip_char (CHR ''-'') r else Some r); take_digits 1 r });
                          iso_week_ordinal y w d }
                 | None \<Rightarrow>
                     do { (m, r) \<leftarrow> take_digits 2 r;
                          r \<leftarrow> (if sep then skip_char (CHR ''-'') r else Some r);
                          (d, r) \<leftarrow> take_digits 2 r;
                          date_ordinal y m d }) })"

end
