(* ===== verification/Margin_Rules.thy ===== *)
theory Margin_Rules
  imports Pack_Numbers
begin

text \<open>
  The billability engines of the contract pack, \<^verbatim>\<open>app/domain_packs/contract_margin/rules.py\<close> with the
  types of \<^verbatim>\<open>schemas.py\<close> they use: the general billability rules, the SPEN rules and the service
  credits. Prior claims and obligations are untyped dictionaries; a wrong value in them raises, which
  is \<open>None\<close>. A long dash in a message is written as a hyphen, and the pound sign is its code point.
\<close>

section \<open>Types\<close>

datatype billable_category =
    BC_TIME_AND_MATERIALS | BC_FIXED_PRICE | BC_MILESTONE | BC_COST_PLUS | BC_RETAINER | BC_DAYWORK
  | BC_EMERGENCY_CALLOUT | BC_ABORTIVE_VISIT | BC_PROVISIONAL_SUM | BC_MEASURED_WORK | BC_VARIATION

datatype billing_prerequisite =
    BP_PRIOR_APPROVAL | BP_PURCHASE_ORDER | BP_VARIATION_ORDER | BP_DAYWORK_SHEET_SIGNED
  | BP_COMPLETION_CERTIFICATE | BP_CUSTOMER_SIGN_OFF | BP_AS_BUILT_SUBMITTED | BP_PERMIT_CLOSED_OUT

fun billing_prerequisite_value :: "billing_prerequisite \<Rightarrow> string" where
  "billing_prerequisite_value BP_PRIOR_APPROVAL = ''prior_approval''"
| "billing_prerequisite_value BP_PURCHASE_ORDER = ''purchase_order''"
| "billing_prerequisite_value BP_VARIATION_ORDER = ''variation_order''"
| "billing_prerequisite_value BP_DAYWORK_SHEET_SIGNED = ''daywork_sheet_signed''"
| "billing_prerequisite_value BP_COMPLETION_CERTIFICATE = ''completion_certificate''"
| "billing_prerequisite_value BP_CUSTOMER_SIGN_OFF = ''customer_sign_off''"
| "billing_prerequisite_value BP_AS_BUILT_SUBMITTED = ''as_built_submitted''"
| "billing_prerequisite_value BP_PERMIT_CLOSED_OUT = ''permit_closed_out''"

record rate_card_entry =
  rc_activity :: string
  rc_unit :: string
  rc_rate :: pyfloat
  rc_effective_to :: "int option"
  rc_minimum_charge :: "pyfloat option"

record billing_gate =
  bg_gate_type :: billing_prerequisite
  bg_satisfied :: bool

text \<open>A work category is its string.\<close>

record spen_rate_card =
  sr_work_category :: string
  sr_activity_code :: string
  sr_unit :: string
  sr_base_rate :: pyfloat
  sr_emergency_multiplier :: pyfloat
  sr_overtime_multiplier :: pyfloat
  sr_weekend_multiplier :: pyfloat
  sr_requires_approval_above :: "pyfloat option"

record reattendance_rule =
  re_trigger :: string
  re_billable :: bool
  re_rate_modifier :: pyfloat
  re_evidence_required :: "string list"
  re_description :: string

record service_credit_rule =
  sc_sla_metric :: string
  sc_threshold_value :: pyfloat
  sc_credit_percentage :: pyfloat
  sc_cap_percentage :: pyfloat
  sc_measurement_period :: string
  sc_exclusions :: "string list"

record billability_decision =
  bd_billable :: bool
  bd_confidence :: rat
  bd_reasons :: "string list"
  bd_rate_applied :: "pyfloat option"
  bd_category :: "billable_category option"
  bd_rule_results :: "(string \<times> bool \<times> string) list"

section \<open>The general billability engine\<close>

text \<open>The date of a prior claim: missing, a date, or an untyped value that is read as one.\<close>

datatype claim_date = CD_NONE | CD_DATE int | CD_OTHER json

record prior_claim =
  pc_activity :: json
  pc_date :: claim_date

definition claim_day :: "claim_date \<Rightarrow> int option" where
  "claim_day c = (case c of CD_NONE \<Rightarrow> None | CD_DATE d \<Rightarrow> Some d | CD_OTHER j \<Rightarrow> date_fromisoformat (py_str j))"

definition rate_matches :: "string \<Rightarrow> rate_card_entry \<Rightarrow> bool" where
  "rate_matches activity rc =
     (let a = underscored activity; r = py_lower (rc_activity rc)
      in r = a \<or> py_substring a r \<or> py_substring r a)"

definition find_matching_rate :: "string \<Rightarrow> rate_card_entry list \<Rightarrow> rate_card_entry option" where
  "find_matching_rate activity cards = find (rate_matches activity) cards"

definition obligation_covers :: "string \<Rightarrow> (string, json) dict \<Rightarrow> bool option" where
  "obligation_covers activity ob =
     do { t \<leftarrow> as_str (dget_default ob ''text'' (JStr []));
          d \<leftarrow> as_str (dget_default ob ''description'' (JStr []));
          let txt = py_lower t @ py_lower d;
          Some (py_substring (py_lower activity) txt \<or>
                list_ex (\<lambda>kw. py_substring kw txt) (split_char (CHR ''_'') (py_lower activity))) }"

fun some_obligation_covers :: "string \<Rightarrow> (string, json) dict list \<Rightarrow> bool option" where
  "some_obligation_covers activity [] = Some False"
| "some_obligation_covers activity (ob # obs) =
     do { b \<leftarrow> obligation_covers activity ob;
          if b then Some True else some_obligation_covers activity obs }"

definition is_within_scope :: "string \<Rightarrow> (string, json) dict list \<Rightarrow> bool option" where
  "is_within_scope activity obs =
     do { b \<leftarrow> some_obligation_covers activity obs; Some (b \<or> obs = []) }"

definition is_excluded :: "string \<Rightarrow> bool" where
  "is_excluded activity =
     (underscored activity \<in> {''internal_meeting'', ''travel_time_non_billable'', ''training_non_certified''})"

text \<open>A claim is read as a date only when its activity is the one claimed and a work date is given.\<close>

fun duplicate_claim :: "string \<Rightarrow> int option \<Rightarrow> prior_claim list \<Rightarrow> bool option" where
  "duplicate_claim act work_date [] = Some False"
| "duplicate_claim act work_date (c # cs) =
     do { a \<leftarrow> as_str (pc_activity c);
          case work_date of
            None \<Rightarrow> duplicate_claim act work_date cs
          | Some d \<Rightarrow>
              if underscored a = act \<and> pc_date c \<noteq> CD_NONE
              then do { day \<leftarrow> claim_day (pc_date c);
                        if day = d then Some True else duplicate_claim act work_date cs }
              else duplicate_claim act work_date cs }"

definition approval_result :: "rate_card_entry option \<Rightarrow> pyfloat \<Rightarrow> bool \<Rightarrow> pack_result" where
  "approval_result rate threshold has_approval =
     (let above = (case rate of None \<Rightarrow> False | Some r \<Rightarrow> pf_less threshold (rc_rate r))
      in rule_outcome ''approval_threshold_check'' (\<not> above \<or> has_approval)
           (if above then ''Approval obtained for rate exceeding threshold'' else ''Rate within approval threshold'')
           ''Exceeds approval threshold without authorization'')"

definition rate_expired :: "rate_card_entry option \<Rightarrow> int option \<Rightarrow> bool" where
  "rate_expired rate work_date =
     (case rate of
        None \<Rightarrow> False
      | Some r \<Rightarrow>
          (case (rc_effective_to r, work_date) of (Some t, Some d) \<Rightarrow> t < d | _ \<Rightarrow> False))"

text \<open>The rate that applies: the matching one, raised to its minimum charge.\<close>

definition minimum_rate :: "rate_card_entry \<Rightarrow> pyfloat" where
  "minimum_rate r =
     (case rc_minimum_charge r of
        None \<Rightarrow> rc_rate r
      | Some m \<Rightarrow> if pf_less (rc_rate r) m then m else rc_rate r)"

definition passed_share :: "pack_result list \<Rightarrow> rat" where
  "passed_share rs = fl (of_nat (length (filter ru_passed rs)) / of_nat (max (length rs) 1))"

definition failed_messages :: "pack_result list \<Rightarrow> string list" where
  "failed_messages rs = map ru_message (filter (\<lambda>r. \<not> ru_passed r) rs)"

definition billability_results ::
  "rate_card_entry option \<Rightarrow> bool \<Rightarrow> bool \<Rightarrow> pyfloat \<Rightarrow> bool \<Rightarrow> bool \<Rightarrow> bool \<Rightarrow> pack_result list" where
  "billability_results rate in_scope excluded threshold has_approval duplicate expired =
     [rule_outcome ''has_valid_rate'' (rate \<noteq> None)
        (case rate of None \<Rightarrow> [] | Some r \<Rightarrow> ''Rate found: '' @ pf_str (rc_rate r) @ ''/'' @ rc_unit r)
        ''No matching rate'',
      (rule_outcome ''within_scope'' in_scope ''Activity is within contract scope'' ''Activity may be out of scope'')
        \<lparr>ru_severity := if in_scope then ''info'' else ''warning''\<rparr>,
      rule_outcome ''not_excluded_activity'' (\<not> excluded) ''Activity not excluded'' ''Activity is on exclusion list'',
      approval_result rate threshold has_approval,
      rule_outcome ''duplicate_claim_check'' (\<not> duplicate) ''No duplicate claims'' ''Duplicate claim detected'',
      rule_outcome ''expired_rate_check'' (\<not> expired) ''Rate card valid'' ''Rate card expired'']"

definition evaluate_billability ::
  "string \<Rightarrow> rate_card_entry list \<Rightarrow> (string, json) dict list \<Rightarrow> pyfloat \<Rightarrow> bool \<Rightarrow> prior_claim list
     \<Rightarrow> int option \<Rightarrow> billability_decision option" where
  "evaluate_billability activity cards obligations threshold has_approval claims work_date =
     do { let rate = find_matching_rate activity cards;
          in_scope \<leftarrow> is_within_scope activity obligations;
          duplicate \<leftarrow> duplicate_claim (underscored activity) work_date claims;
          let rs = billability_results rate in_scope (is_excluded activity) threshold has_approval duplicate
                     (rate_expired rate work_date);
          Some \<lparr>bd_billable = list_all ru_passed rs, bd_confidence = passed_share rs,
                bd_reasons = failed_messages rs, bd_rate_applied = map_option minimum_rate rate,
                bd_category = None, bd_rule_results = []\<rparr> }"

section \<open>The SPEN billability engine\<close>

definition default_reattendance_rules :: "reattendance_rule list" where
  "default_reattendance_rules =
     [\<lparr>re_trigger = ''provider_fault'', re_billable = False, re_rate_modifier = Fin 0,
       re_evidence_required = [''root_cause_report'', ''quality_nonconformance''],
       re_description = ''Provider-fault re-attendance is non-billable''\<rparr>,
      \<lparr>re_trigger = ''customer_fault'', re_billable = True, re_rate_modifier = Fin 1,
       re_evidence_required = [''customer_confirmation'', ''site_attendance_record''],
       re_description = ''Customer-fault re-attendance is billable at standard rate''\<rparr>,
      \<lparr>re_trigger = ''dno_fault'', re_billable = True, re_rate_modifier = Fin 1,
       re_evidence_required = [''dno_instruction'', ''network_event_log''],
       re_description = ''DNO-fault re-attendance is billable at standard rate''\<rparr>,
      \<lparr>re_trigger = ''third_party'', re_billable = True, re_rate_modifier = Fin 1,
       re_evidence_required = [''third_party_incident_ref'', ''site_report''],
       re_description = ''Third-party-caused re-attendance is billable at standard rate''\<rparr>,
      \<lparr>re_trigger = ''weather'', re_billable = True, re_rate_modifier = Fin 1,
       re_evidence_required = [''weather_event_record'', ''risk_assessment''],
       re_description = ''Weather-related re-attendance is billable if weather event documented''\<rparr>]"

text \<open>No rule of the engine reads the evidence a re-attendance rule asks for.\<close>

text \<open>Given no rules, or an empty list of them, the engine uses the default ones.\<close>

definition spen_rules_of :: "reattendance_rule list option \<Rightarrow> reattendance_rule list" where
  "spen_rules_of rules = (case rules of None \<Rightarrow> default_reattendance_rules
     | Some [] \<Rightarrow> default_reattendance_rules | Some rs \<Rightarrow> rs)"

text \<open>An exact match, else one of the category whose code contains the activity or is contained in it,
  else any of the category.\<close>

definition spen_find_rate :: "string \<Rightarrow> string \<Rightarrow> spen_rate_card list \<Rightarrow> spen_rate_card option" where
  "spen_find_rate activity category cards =
     (let a = py_strip (py_lower activity); c = py_strip (py_lower category);
          code = (\<lambda>r. py_lower (sr_activity_code r))
      in case find (\<lambda>r. sr_work_category r = c \<and> code r = a) cards of
           Some r \<Rightarrow> Some r
         | None \<Rightarrow>
             (case find (\<lambda>r. sr_work_category r = c \<and> (py_substring a (code r) \<or> py_substring (code r) a)) cards of
                Some r \<Rightarrow> Some r
              | None \<Rightarrow> find (\<lambda>r. sr_work_category r = c) cards))"

definition find_reattendance_rule :: "reattendance_rule list \<Rightarrow> string \<Rightarrow> reattendance_rule option" where
  "find_reattendance_rule rules trigger =
     find (\<lambda>r. py_lower (re_trigger r) = py_strip (py_lower trigger)) rules"

definition time_multiplier :: "string \<Rightarrow> spen_rate_card \<Rightarrow> pyfloat" where
  "time_multiplier time_of_day r =
     dget_default [(''emergency'', sr_emergency_multiplier r), (''overtime'', sr_overtime_multiplier r),
                   (''weekend'', sr_weekend_multiplier r)] (py_lower time_of_day) (Fin 1)"

text \<open>
  The rules thread the results, whether the work is billable and the rate applied.
\<close>

type_synonym spen_state = "pack_result list \<times> bool \<times> pyfloat option"

definition spen_rate_rule :: "string \<Rightarrow> string \<Rightarrow> spen_rate_card option \<Rightarrow> spen_state" where
  "spen_rate_rule activity category rate =
     (case rate of
        None \<Rightarrow>
          ([rule_outcome ''has_matching_rate'' False []
              (''No SPEN rate found for activity '' @ quote activity @ '' in category '' @ quote category)],
           False, None)
      | Some r \<Rightarrow>
          ([rule_outcome ''has_matching_rate'' True
              (''Rate matched: '' @ sr_activity_code r @ '' - '' @ pounds (fixed_str 2 (sr_base_rate r)) @ ''/'' @
               sr_unit r) []],
           True, Some (sr_base_rate r)))"

definition spen_gates_rule :: "billing_gate list \<Rightarrow> spen_state \<Rightarrow> spen_state" where
  "spen_gates_rule gates st =
     (case st of
        (rs, billable, rate) \<Rightarrow>
          (let open_gates = filter (\<lambda>g. \<not> bg_satisfied g) gates
           in (rs @ [rule_outcome ''billing_gates_satisfied'' (open_gates = []) ''All billing gates satisfied''
                 (''Unsatisfied billing gates: '' @
                  comma_join (map (billing_prerequisite_value \<circ> bg_gate_type) open_gates))],
               billable \<and> open_gates = [], rate)))"

definition spen_reattendance_rule ::
  "reattendance_rule list \<Rightarrow> bool \<Rightarrow> string \<Rightarrow> spen_state \<Rightarrow> spen_state" where
  "spen_reattendance_rule rules is_reattendance trigger st =
     (case st of
        (rs, billable, rate) \<Rightarrow>
          if \<not> is_reattendance
          then (rs @ [rule_outcome ''reattendance_check'' True ''Not a re-attendance'' []], billable, rate)
          else (case find_reattendance_rule rules trigger of
                  None \<Rightarrow>
                    (rs @ [(rule_outcome ''reattendance_check'' False []
                              (''Unknown re-attendance trigger: '' @ quote trigger))\<lparr>ru_severity := ''warning''\<rparr>],
                     False, rate)
                | Some r \<Rightarrow>
                    if \<not> re_billable r
                    then (rs @ [rule_outcome ''reattendance_check'' False []
                                 (''Re-attendance non-billable: '' @ re_description r)], False, Some (Fin 0))
                    else (rs @ [rule_outcome ''reattendance_check'' True
                                 (''Re-attendance billable: '' @ re_description r) []],
                          billable, map_option (\<lambda>x. pf_mul x (re_rate_modifier r)) rate)))"

definition spen_time_rule :: "string \<Rightarrow> spen_rate_card option \<Rightarrow> spen_state \<Rightarrow> spen_state" where
  "spen_time_rule time_of_day entry st =
     (case st of
        (rs, billable, rate) \<Rightarrow>
          (case (entry, rate) of
             (Some r, Some x) \<Rightarrow>
               if pf_less (Fin 0) x
               then (let m = time_multiplier time_of_day r; y = pf_mul x m
                     in (rs @ [rule_outcome ''time_of_day_modifier'' True
                           (''Time-of-day modifier applied: '' @ time_of_day @ '' -> '' @ pf_str m @
                            ''x (effective rate '' @ pounds (fixed_str 2 y) @ '')'') []], billable, Some y))
               else (rs @ [rule_outcome ''time_of_day_modifier'' True ''No time-of-day modifier applicable'' []],
                     billable, rate)
           | _ \<Rightarrow>
               (rs @ [rule_outcome ''time_of_day_modifier'' True ''No time-of-day modifier applicable'' []],
                billable, rate)))"

definition approval_limit :: "spen_rate_card option \<Rightarrow> pyfloat option \<Rightarrow> (pyfloat \<times> pyfloat) option" where
  "approval_limit entry rate =
     (case (entry, rate) of
        (Some r, Some x) \<Rightarrow>
          (case sr_requires_approval_above r of
             None \<Rightarrow> None
           | Some limit \<Rightarrow> if pf_less limit x then Some (x, limit) else None)
      | _ \<Rightarrow> None)"

definition spen_approval_rule :: "billing_gate list \<Rightarrow> spen_rate_card option \<Rightarrow> spen_state \<Rightarrow> spen_state" where
  "spen_approval_rule gates entry st =
     (case st of
        (rs, billable, rate) \<Rightarrow>
          (case approval_limit entry rate of
             None \<Rightarrow> (rs @ [rule_outcome ''approval_threshold'' True ''No approval threshold applicable'' []],
                      billable, rate)
           | Some (x, limit) \<Rightarrow>
               (let has_approval = list_ex (\<lambda>g. bg_gate_type g = BP_PRIOR_APPROVAL \<and> bg_satisfied g) gates
                in (rs @ [rule_outcome ''approval_threshold'' has_approval
                      ''Prior approval obtained for value above threshold''
                      (''Effective rate '' @ pounds (fixed_str 2 x) @ '' exceeds approval threshold '' @
                       pounds (fixed_str 2 limit) @ '' - prior approval required'')],
                    billable \<and> has_approval, rate))))"

definition spen_billability ::
  "reattendance_rule list option \<Rightarrow> string \<Rightarrow> string \<Rightarrow> spen_rate_card list \<Rightarrow> billing_gate list \<Rightarrow> bool
     \<Rightarrow> string \<Rightarrow> string \<Rightarrow> billability_decision" where
  "spen_billability rules activity category cards gates is_reattendance trigger time_of_day =
     (let entry = spen_find_rate activity category cards;
          st1 = spen_rate_rule activity category entry;
          st2 = spen_gates_rule gates st1;
          st3 = spen_reattendance_rule (spen_rules_of rules) is_reattendance trigger st2;
          st4 = spen_time_rule time_of_day entry st3
      in case spen_approval_rule gates entry st4 of
           (rs, billable, rate) \<Rightarrow>
             \<lparr>bd_billable = billable, bd_confidence = passed_share rs, bd_reasons = failed_messages rs,
              bd_rate_applied = rate,
              bd_category = Some (if time_of_day = ''normal'' then BC_DAYWORK else BC_EMERGENCY_CALLOUT),
              bd_rule_results = map (\<lambda>r. (ru_rule_name r, ru_passed r, ru_message r)) rs\<rparr>)"

section \<open>Service credits\<close>

record service_credit =
  cr_sla_metric :: string
  cr_threshold :: pyfloat
  cr_actual :: "pyfloat option"
  cr_breached :: bool
  cr_credit_percentage :: pyfloat
  cr_credit_value :: pyfloat
  cr_capped :: bool
  cr_rule :: "service_credit_rule option"
  cr_note :: string

text \<open>\<open>cr_rule\<close> is the rule whose cap, period and exclusions the entry of a measured metric repeats.\<close>

definition is_time_metric :: "service_credit_rule \<Rightarrow> bool" where
  "is_time_metric rule = (sc_sla_metric rule \<in> {''response_time'', ''resolution_time''})"

definition credit_breached :: "service_credit_rule \<Rightarrow> pyfloat \<Rightarrow> bool" where
  "credit_breached rule actual =
     (if is_time_metric rule then pf_less (sc_threshold_value rule) actual else pf_less actual (sc_threshold_value rule))"

definition credit_cap_value :: "service_credit_rule \<Rightarrow> pyfloat \<Rightarrow> pyfloat" where
  "credit_cap_value rule invoice = pf_mul invoice (pf_div (sc_cap_percentage rule) (Fin 100))"

definition service_credit_of ::
  "(string, pyfloat) dict \<Rightarrow> pyfloat \<Rightarrow> service_credit_rule \<Rightarrow> service_credit" where
  "service_credit_of performance invoice rule =
     (case dget performance (sc_sla_metric rule) of
        None \<Rightarrow>
          \<lparr>cr_sla_metric = sc_sla_metric rule, cr_threshold = sc_threshold_value rule, cr_actual = None,
           cr_breached = False, cr_credit_percentage = Fin 0, cr_credit_value = Fin 0, cr_capped = False,
           cr_rule = None, cr_note = ''No performance data available for this metric''\<rparr>
      | Some actual \<Rightarrow>
          (let breached = credit_breached rule actual;
               pct = (if breached then sc_credit_percentage rule else Fin 0);
               credit = (if breached then pf_mul invoice (pf_div pct (Fin 100)) else Fin 0);
               cap = credit_cap_value rule invoice;
               capped = (pf_less cap credit \<and> pf_less (Fin 0) cap)
           in \<lparr>cr_sla_metric = sc_sla_metric rule, cr_threshold = sc_threshold_value rule, cr_actual = Some actual,
               cr_breached = breached, cr_credit_percentage = pct,
               cr_credit_value = pf_round 2 (if capped then cap else credit), cr_capped = capped,
               cr_rule = Some rule,
               cr_note = (if breached
                          then ''SLA breached: actual '' @ pf_str actual @ '' vs threshold '' @
                               pf_str (sc_threshold_value rule)
                          else ''SLA met'')\<rparr>))"

definition evaluate_service_credits ::
  "(string, pyfloat) dict \<Rightarrow> service_credit_rule list \<Rightarrow> pyfloat \<Rightarrow> service_credit list" where
  "evaluate_service_credits performance rules invoice = map (service_credit_of performance invoice) rules"

end
