(* ===== verification/Margin_Leakage.thy ===== *)
theory Margin_Leakage
  imports Margin_Rules
begin

text \<open>
  The other engines of \<^verbatim>\<open>app/domain_packs/contract_margin/rules.py\<close>: leakage detection over untyped work
  records, scope conflicts, recovery recommendations and penalties. A raise is \<open>None\<close>. Storing an
  untyped value in a field of type \<^verbatim>\<open>bool\<close> is an operation of the schema library and a parameter.
\<close>

section \<open>Leakage\<close>

record leakage_trigger =
  lt_trigger_type :: string
  lt_description :: string
  lt_severity :: string
  lt_estimated_impact :: string
  lt_estimated_impact_value :: pyfloat
  lt_clause_refs :: "string list"

definition trigger :: "string \<Rightarrow> string \<Rightarrow> string \<Rightarrow> string \<Rightarrow> pyfloat \<Rightarrow> leakage_trigger" where
  "trigger ty description severity impact impact_value =
     \<lparr>lt_trigger_type = ty, lt_description = description, lt_severity = severity, lt_estimated_impact = impact,
      lt_estimated_impact_value = impact_value, lt_clause_refs = []\<rparr>"

type_synonym work = "(string, json) dict"

text \<open>A field that is true, one that is the value \<open>True\<close>, one that is a given string, and a printed field.\<close>

definition holds :: "work \<Rightarrow> string \<Rightarrow> bool" where
  "holds w k = json_truthy (dget_default w k JNull)"

definition is_true :: "work \<Rightarrow> string \<Rightarrow> bool" where
  "is_true w k = (dget w k = Some (JBool True))"

definition is_text :: "work \<Rightarrow> string \<Rightarrow> string \<Rightarrow> bool" where
  "is_text w k s = (dget w k = Some (JStr s))"

definition shown :: "work \<Rightarrow> string \<Rightarrow> string \<Rightarrow> string" where
  "shown w k dflt = py_str (dget_default w k (JStr dflt))"

definition activity_of :: "work \<Rightarrow> string" where
  "activity_of w = quote (shown w ''activity'' ''unknown'')"

definition unbilled_work :: "work \<Rightarrow> leakage_trigger list" where
  "unbilled_work w =
     (if is_text w ''status'' ''completed'' \<and> \<not> holds w ''billed''
      then [trigger ''unbilled_completed_work'' (''Work '' @ activity_of w @ '' completed but not billed'') ''error''
              (shown w ''estimated_value'' ''unknown'') (Fin 0)]
      else [])"

definition rate_below_contract :: "work \<Rightarrow> leakage_trigger list option" where
  "rate_below_contract w =
     (if holds w ''billed_rate'' \<and> holds w ''contract_rate''
      then do { let b = dget_default w ''billed_rate'' JNull; let c = dget_default w ''contract_rate'' JNull;
                low \<leftarrow> json_lt b c;
                Some (if low
                      then [trigger ''rate_below_contract''
                              (''Billed rate $'' @ py_str b @ '' below contract rate $'' @ py_str c) ''warning'' [] (Fin 0)]
                      else []) }
      else Some [])"

definition scope_creep :: "work \<Rightarrow> leakage_trigger list" where
  "scope_creep w =
     (if holds w ''change_order_required'' \<and> \<not> holds w ''change_order_id''
      then [trigger ''scope_creep_detected''
              (''Out-of-scope work '' @ quote (py_str (dget_default w ''activity'' JNull)) @ '' without change order'')
              ''error'' [] (Fin 0)]
      else [])"

definition penalty_exposure :: "(string, json) dict \<Rightarrow> leakage_trigger list option" where
  "penalty_exposure ob =
     (if is_text ob ''control_type'' ''penalty_condition''
      then do { payload \<leftarrow> as_obj (dget_default ob ''payload'' (JObj []));
                Some (if holds payload ''breach_detected''
                      then [trigger ''penalty_exposure_unmitigated''
                              (''Penalty condition '' @ quote (shown ob ''label'' []) @
                               '' breach detected without mitigation'') ''critical'' [] (Fin 0)]
                      else []) }
      else Some [])"

definition missing_daywork_sheet :: "work \<Rightarrow> leakage_trigger list" where
  "missing_daywork_sheet w =
     (if is_text w ''category'' ''daywork'' \<and> is_text w ''status'' ''completed'' \<and> \<not> holds w ''daywork_sheet_signed''
      then [trigger ''missing_daywork_sheet''
              (''Daywork '' @ activity_of w @ '' completed but daywork sheet not signed - cannot invoice'') ''error''
              (shown w ''estimated_value'' ''unknown'') (Fin 0)]
      else [])"

definition escalation_missed :: "work \<Rightarrow> leakage_trigger list option" where
  "escalation_missed w =
     (if holds w ''escalation_due'' \<and> \<not> holds w ''escalation_applied''
      then do { p \<leftarrow> num_mul (operand (dget_default w ''contract_rate'' (JInt 0)))
                            (operand (dget_default w ''escalation_percentage'' (JInt 0)));
                delta \<leftarrow> percent_of p;
                impact \<leftarrow> num_mul (PyF delta) (operand (dget_default w ''volume'' (JInt 1)));
                x \<leftarrow> float_field impact;
                Some [trigger ''rate_escalation_missed''
                        (''Annual rate escalation not applied for '' @ activity_of w @ '' - under-recovery of approx '' @
                         fixed_str 2 delta @ '' per '' @ shown w ''unit'' ''unit'') ''warning'' [] x] }
      else Some [])"

definition abortive_unclaimed :: "work \<Rightarrow> leakage_trigger list" where
  "abortive_unclaimed w =
     (if is_true w ''abortive'' \<and> \<not> holds w ''abortive_claimed''
      then [trigger ''abortive_visit_not_claimed''
              (''Abortive visit for '' @ activity_of w @ '' (customer no-access) not claimed'') ''warning''
              (shown w ''abortive_value'' ''unknown'') (Fin 0)]
      else [])"

definition variation_unordered :: "work \<Rightarrow> leakage_trigger list" where
  "variation_unordered w =
     (if is_true w ''is_variation'' \<and> \<not> holds w ''variation_order_ref''
      then [trigger ''variation_work_no_change_order''
              (''Variation work '' @ activity_of w @ '' performed without formal variation order - non-billable'')
              ''error'' (shown w ''estimated_value'' ''unknown'') (Fin 0)]
      else [])"

definition permit_unrecovered :: "work \<Rightarrow> leakage_trigger list option" where
  "permit_unrecovered w =
     (if holds w ''permit_cost'' \<and> \<not> holds w ''permit_cost_recovered''
      then do { let cost = dget_default w ''permit_cost'' (JInt 0);
                s \<leftarrow> num_fixed (operand cost);
                x \<leftarrow> json_float cost;
                Some [trigger ''permit_cost_not_recovered''
                        (''NRSWA permit cost '' @ pounds s @ '' for '' @ activity_of w @
                         '' not passed through to client'') ''warning'' [] x] }
      else Some [])"

definition time_rate_mismatch :: "work \<Rightarrow> leakage_trigger list option" where
  "time_rate_mismatch w =
     (let time_of_day = dget_default w ''time_of_day'' (JStr ''normal'')
      in if json_is time_of_day [''overtime'', ''weekend'', ''emergency'', ''out_of_hours'']
         then do { let billed = dget_default w ''billed_rate'' (JInt 0);
                   let contract = dget_default w ''contract_rate'' (JInt 0);
                   let multiplier = dget_default w ''expected_multiplier'' (JNum (3 / 2));
                   expected \<leftarrow> num_mul (operand contract) (operand multiplier);
                   p \<leftarrow> json_positive billed;
                   q \<leftarrow> (if p then json_positive contract else Some False);
                   above \<leftarrow> (if q then json_lt contract billed else Some True);
                   (if above then Some []
                    else do { delta \<leftarrow> num_sub expected (operand billed);
                              b \<leftarrow> num_fixed (operand billed);
                              e \<leftarrow> num_fixed expected;
                              impact \<leftarrow> num_mul delta (operand (dget_default w ''hours'' (JInt 1)));
                              x \<leftarrow> float_field impact;
                              Some [trigger ''time_rate_mismatch''
                                      (''Work '' @ activity_of w @ '' performed during '' @ py_str time_of_day @
                                       '' but billed at standard rate ('' @ pounds b @ '' vs expected '' @ pounds e @
                                       '')'') ''warning'' [] x] }) }
         else Some [])"

definition material_unbilled :: "work \<Rightarrow> leakage_trigger list option" where
  "material_unbilled w =
     (let cost = dget_default w ''material_cost'' (JInt 0)
      in do { p \<leftarrow> (if json_truthy cost then json_positive cost else Some False);
              if p \<and> \<not> holds w ''material_billed''
              then do { s \<leftarrow> num_fixed (operand cost);
                        x \<leftarrow> json_float cost;
                        Some [trigger ''material_cost_not_billed''
                                (''Materials costing '' @ pounds s @ '' used for '' @ activity_of w @
                                 '' but not billed to client'') ''warning'' [] x] }
              else Some [] })"

definition subcontractor_leak :: "work \<Rightarrow> leakage_trigger list option" where
  "subcontractor_leak w =
     (case (get_value w ''subcontractor_cost'', get_value w ''billed_rate'') of
        (Some cost, Some billed) \<Rightarrow>
          do { above \<leftarrow> json_lt billed cost;
               if above
               then do { delta \<leftarrow> num_sub (operand cost) (operand billed);
                         s \<leftarrow> num_fixed (operand cost);
                         b \<leftarrow> num_fixed (operand billed);
                         d \<leftarrow> num_fixed delta;
                         impact \<leftarrow> num_mul delta (operand (dget_default w ''quantity'' (JInt 1)));
                         x \<leftarrow> float_field impact;
                         Some [trigger ''subcontractor_margin_leak''
                                 (''Subcontractor cost '' @ pounds s @ '' exceeds billed rate '' @ pounds b @ '' for '' @
                                  activity_of w @ '' - negative margin of '' @ pounds d) ''error'' [] x] }
               else Some [] }
      | _ \<Rightarrow> Some [])"

definition mobilisation_uncharged :: "work \<Rightarrow> leakage_trigger list option" where
  "mobilisation_uncharged w =
     (if holds w ''remote_site''
      then do { let cost = dget_default w ''mobilisation_cost'' (JInt 0);
                p \<leftarrow> json_positive cost;
                if p \<and> \<not> holds w ''mobilisation_billed''
                then do { s \<leftarrow> num_fixed (operand cost);
                          x \<leftarrow> json_float cost;
                          Some [trigger ''mobilisation_not_charged''
                                  (''Mobilisation cost '' @ pounds s @ '' to remote site for '' @ activity_of w @
                                   '' not recovered'') ''warning'' [] x] }
                else Some [] }
      else Some [])"

definition warranty_rework :: "work \<Rightarrow> leakage_trigger list option" where
  "warranty_rework w =
     (if holds w ''is_rework'' \<and> holds w ''within_warranty_period'' \<and> holds w ''billed''
      then do { r \<leftarrow> json_float (dget_default w ''billed_rate'' (JInt 0));
                impact \<leftarrow> num_mul (PyF r) (operand (dget_default w ''hours'' (JInt 1)));
                x \<leftarrow> float_field impact;
                Some [trigger ''warranty_rework_billed''
                        (''Rework for '' @ activity_of w @
                         '' within warranty period billed as new work - should be non-billable'') ''error'' [] x] }
      else Some [])"

text \<open>The rules in order: each goes through the whole history before the next.\<close>

definition work_rules :: "(work \<Rightarrow> leakage_trigger list option) list" where
  "work_rules =
     [Some \<circ> missing_daywork_sheet, escalation_missed, Some \<circ> abortive_unclaimed, Some \<circ> variation_unordered,
      permit_unrecovered, time_rate_mismatch, material_unbilled, subcontractor_leak, mobilisation_uncharged,
      warranty_rework]"

definition over_history ::
  "(work \<Rightarrow> leakage_trigger list option) \<Rightarrow> work list \<Rightarrow> leakage_trigger list option" where
  "over_history rule history = map_option concat (each rule history)"

definition detect_leakage :: "(string, json) dict list \<Rightarrow> work list \<Rightarrow> leakage_trigger list option" where
  "detect_leakage objects history =
     do { t1 \<leftarrow> over_history (Some \<circ> unbilled_work) history;
          t2 \<leftarrow> over_history rate_below_contract history;
          t3 \<leftarrow> over_history (Some \<circ> scope_creep) history;
          t4 \<leftarrow> over_history penalty_exposure objects;
          ts \<leftarrow> each (\<lambda>rule. over_history rule history) work_rules;
          Some (t1 @ t2 @ t3 @ t4 @ concat ts) }"

section \<open>Scope conflicts\<close>

datatype work_scope_type = SC_IN_SCOPE | SC_OUT_OF_SCOPE | SC_CONDITIONAL

record scope_boundary =
  sb_scope_type :: work_scope_type
  sb_description :: string
  sb_conditions :: "string list"
  sb_activities :: "string list"

record scope_conflict =
  sx_activity :: string
  sx_conflict_type :: string
  sx_severity :: string
  sx_description :: string

definition boundary_matches :: "string \<Rightarrow> scope_boundary \<Rightarrow> bool" where
  "boundary_matches activity b =
     (underscored activity \<in> set (map underscored (sb_activities b)) \<or>
      py_substring (underscored activity) (py_lower (sb_description b)))"

definition boundary_conflict :: "string \<Rightarrow> scope_boundary \<Rightarrow> scope_conflict list" where
  "boundary_conflict activity b =
     (case sb_scope_type b of
        SC_IN_SCOPE \<Rightarrow> []
      | SC_OUT_OF_SCOPE \<Rightarrow>
          [\<lparr>sx_activity = activity, sx_conflict_type = ''out_of_scope'', sx_severity = ''error'',
            sx_description = ''Activity '' @ quote activity @ '' is explicitly out of scope: '' @ sb_description b\<rparr>]
      | SC_CONDITIONAL \<Rightarrow>
          if sb_conditions b \<noteq> []
          then [\<lparr>sx_activity = activity, sx_conflict_type = ''conditional_unmet'', sx_severity = ''warning'',
                 sx_description = ''Activity '' @ quote activity @ '' is conditionally in scope. Conditions: '' @
                   comma_join (sb_conditions b)\<rparr>]
          else [])"

definition activity_conflicts :: "scope_boundary list \<Rightarrow> string \<Rightarrow> scope_conflict list" where
  "activity_conflicts boundaries activity =
     (case find (boundary_matches activity) boundaries of
        Some b \<Rightarrow> boundary_conflict activity b
      | None \<Rightarrow>
          [\<lparr>sx_activity = activity, sx_conflict_type = ''scope_gap'', sx_severity = ''warning'',
            sx_description = ''Activity '' @ quote activity @ '' not mentioned in any scope boundary''\<rparr>])"

definition detect_scope_conflicts :: "scope_boundary list \<Rightarrow> string list \<Rightarrow> scope_conflict list" where
  "detect_scope_conflicts boundaries activities = concat (map (activity_conflicts boundaries) activities)"

section \<open>Recovery\<close>

datatype recovery_type =
    RT_CHANGE_ORDER | RT_RATE_ADJUSTMENT | RT_PENALTY_WAIVER | RT_SCOPE_CLARIFICATION | RT_BACKBILL | RT_CREDIT_NOTE

datatype priority_level = PL_HIGH | PL_MEDIUM | PL_LOW

record recovery_recommendation =
  rr_recommendation_type :: recovery_type
  rr_summary :: string
  rr_estimated_recovery_value :: pyfloat
  rr_evidence_clause_refs :: "string list"
  rr_priority_level :: priority_level
  rr_confidence :: rat

definition recovery_map :: "(string \<times> recovery_type \<times> string \<times> priority_level) list" where
  "recovery_map =
     [(''unbilled_completed_work'', RT_BACKBILL, ''Backbill for unbilled completed work'', PL_HIGH),
      (''rate_below_contract'', RT_RATE_ADJUSTMENT, ''Adjust billing rate to contracted rate'', PL_MEDIUM),
      (''penalty_exposure_unmitigated'', RT_PENALTY_WAIVER, ''Negotiate penalty waiver or mitigation plan'', PL_HIGH),
      (''scope_creep_detected'', RT_CHANGE_ORDER, ''Raise change order for out-of-scope work'', PL_HIGH),
      (''scope_creep_unpriced'', RT_CHANGE_ORDER, ''Raise change order for unpriced scope creep'', PL_HIGH),
      (''missing_daywork_sheet'', RT_BACKBILL, ''Obtain signed daywork sheet then backbill'', PL_MEDIUM),
      (''rate_escalation_missed'', RT_RATE_ADJUSTMENT,
       ''Apply contractual rate escalation and adjust invoices'', PL_MEDIUM),
      (''abortive_visit_not_claimed'', RT_BACKBILL, ''Claim abortive visit charge'', PL_LOW),
      (''variation_work_no_change_order'', RT_CHANGE_ORDER,
       ''Raise formal variation order for variation work'', PL_HIGH),
      (''permit_cost_not_recovered'', RT_BACKBILL, ''Pass through permit cost to client'', PL_LOW)]"

definition recovery_value :: "leakage_trigger \<Rightarrow> pyfloat" where
  "recovery_value t =
     (if pf_eq (lt_estimated_impact_value t) (Fin 0) \<and> lt_estimated_impact t \<noteq> []
      then (case float_of_str (lt_estimated_impact t) of None \<Rightarrow> Fin 0 | Some x \<Rightarrow> x)
      else lt_estimated_impact_value t)"

definition recommend_recovery :: "leakage_trigger \<Rightarrow> recovery_recommendation list" where
  "recommend_recovery t =
     (case dget recovery_map (lt_trigger_type t) of
        None \<Rightarrow> []
      | Some (ty, description, priority) \<Rightarrow>
          [\<lparr>rr_recommendation_type = ty, rr_summary = description @ '': '' @ lt_description t,
            rr_estimated_recovery_value = recovery_value t, rr_evidence_clause_refs = lt_clause_refs t,
            rr_priority_level = priority,
            rr_confidence = (if pf_less (Fin 0) (recovery_value t) then fl (8 / 10) else 1 / 2)\<rparr>])"

definition build_recommendations :: "leakage_trigger list \<Rightarrow> recovery_recommendation list" where
  "build_recommendations ts = concat (map recommend_recovery ts)"

section \<open>Penalties\<close>

record penalty_condition =
  pn_clause_id :: string
  pn_description :: string
  pn_trigger :: string
  pn_penalty_amount :: string
  pn_penalty_type :: string
  pn_cap :: "pyfloat option"
  pn_grace_period_days :: "int option"

record breach_detail =
  bt_clause_id :: string
  bt_description :: string
  bt_within_grace_period :: bool
  bt_financial_exposure :: pyfloat
  bt_penalty_type :: "string option"

record penalty_summary =
  py_total_penalties :: nat
  py_active_breaches :: nat
  py_estimated_exposure :: pyfloat
  py_breach_details :: "breach_detail list"
  py_mitigation_actions :: "string list"

definition condition_breached :: "(string, json) dict \<Rightarrow> penalty_condition \<Rightarrow> bool" where
  "condition_breached perf c =
     (let key = underscored (pn_trigger c)
      in case (if key = [] then None else dget perf key) of
           Some (JBool b) \<Rightarrow> b
         | Some v \<Rightarrow> (case json_num v of None \<Rightarrow> False | Some q \<Rightarrow> q < 1)
         | None \<Rightarrow> json_truthy (dget_default perf ''breach_detected'' JNull))"

text \<open>\<open>a <= b\<close> for an untyped value and an integer.\<close>

definition within_grace :: "(string, json) dict \<Rightarrow> penalty_condition \<Rightarrow> bool option" where
  "within_grace perf c =
     (let grace = (case pn_grace_period_days c of None \<Rightarrow> 0 | Some n \<Rightarrow> n)
      in do { q \<leftarrow> json_num (dget_default perf ''days_since_breach'' (JInt (grace + 1)));
              Some (q \<le> of_int grace \<and> grace > 0) })"

definition without_chars :: "string \<Rightarrow> string \<Rightarrow> string" where
  "without_chars cs s = filter (\<lambda>c. c \<notin> set cs) s"

definition penalty_amount :: "(string, json) dict \<Rightarrow> pyfloat \<Rightarrow> penalty_condition \<Rightarrow> pyfloat option" where
  "penalty_amount perf invoice c =
     (let amount = float_of_str (py_strip (without_chars [CHR 0xA3, CHR ''$'', CHR '',''] (pn_penalty_amount c)))
      in if pn_penalty_type c = ''percentage''
         then Some (case float_of_str (py_strip (without_chars ''%'' (pn_penalty_amount c))) of
                      None \<Rightarrow> Fin 0
                    | Some pct \<Rightarrow> pf_mul invoice (pf_div pct (Fin 100)))
         else if pn_penalty_type c = ''fixed''
         then Some (case amount of None \<Rightarrow> Fin 0 | Some x \<Rightarrow> x)
         else if pn_penalty_type c = ''per_breach''
         then (case amount of
                 None \<Rightarrow> Some (Fin 0)
               | Some x \<Rightarrow>
                   do { y \<leftarrow> num_mul (PyF x) (operand (dget_default perf ''breach_count'' (JInt 1))); num_float y })
         else Some (Fin 0))"

definition capped_amount :: "penalty_condition \<Rightarrow> pyfloat \<Rightarrow> pyfloat" where
  "capped_amount c x =
     (case pn_cap c of
        None \<Rightarrow> x
      | Some limit \<Rightarrow> if pf_less (Fin 0) limit \<and> pf_less limit x then limit else x)"

text \<open>What a condition adds: nothing, an entry within its grace period, or an exposure.\<close>

definition penalty_step ::
  "(string, json) dict \<Rightarrow> pyfloat \<Rightarrow> penalty_condition \<Rightarrow> penalty_summary \<Rightarrow> penalty_summary option" where
  "penalty_step perf invoice c acc =
     (if \<not> condition_breached perf c then Some acc
      else do { grace \<leftarrow> within_grace perf c;
                if grace
                then Some (acc\<lparr>
                  py_mitigation_actions := py_mitigation_actions acc @
                    [''Condition '' @ quote (pn_description c) @ '' breached but within '' @
                     int_str (case pn_grace_period_days c of None \<Rightarrow> 0 | Some n \<Rightarrow> n) @
                     ''-day grace period - remediate immediately''],
                  py_breach_details := py_breach_details acc @
                    [\<lparr>bt_clause_id = pn_clause_id c, bt_description = pn_description c, bt_within_grace_period = True,
                      bt_financial_exposure = Fin 0, bt_penalty_type = None\<rparr>]\<rparr>)
                else do { amount \<leftarrow> penalty_amount perf invoice c;
                          let x = capped_amount c amount;
                          Some (acc\<lparr>
                            py_estimated_exposure := pf_add (py_estimated_exposure acc) x,
                            py_active_breaches := py_active_breaches acc + 1,
                            py_breach_details := py_breach_details acc @
                              [\<lparr>bt_clause_id = pn_clause_id c, bt_description = pn_description c,
                                bt_within_grace_period = False, bt_financial_exposure = pf_round 2 x,
                                bt_penalty_type = Some (pn_penalty_type c)\<rparr>],
                            py_mitigation_actions := py_mitigation_actions acc @
                              [''Remediate '' @ quote (pn_description c) @ '' - exposure '' @ pounds (fixed_str 2 x)]\<rparr>) } })"

definition analyze_penalties ::
  "penalty_condition list \<Rightarrow> (string, json) dict \<Rightarrow> pyfloat \<Rightarrow> penalty_summary option" where
  "analyze_penalties conditions perf invoice =
     do { acc \<leftarrow> loop (penalty_step perf invoice) conditions
                  \<lparr>py_total_penalties = length conditions, py_active_breaches = 0, py_estimated_exposure = Fin 0,
                   py_breach_details = [], py_mitigation_actions = []\<rparr>;
          Some (acc\<lparr>py_estimated_exposure := pf_round 2 (py_estimated_exposure acc)\<rparr>) }"

definition mentions_sla :: "string \<Rightarrow> bool" where
  "mentions_sla s = (py_substring ''sla'' s \<or> py_substring ''response time'' s)"

definition penalty_rule :: "(json \<Rightarrow> bool option) \<Rightarrow> (string, json) dict \<Rightarrow> (string, json) dict \<Rightarrow> pack_result list option" where
  "penalty_rule as_bool perf penalty =
     do { payload \<leftarrow> as_obj (dget_default penalty ''payload'' (JObj []));
          s \<leftarrow> as_str (dget_default payload ''text'' (JStr []));
          let label = shown penalty ''label'' ''unknown'';
          if mentions_sla (py_lower s)
          then do { let met = dget_default perf ''sla_met'' (JBool True);
                    b \<leftarrow> as_bool met;
                    Some [\<lparr>ru_rule_name = ''penalty_exposure_'' @ label, ru_passed = b,
                           ru_message = (if json_truthy met then ''SLA met for '' @ label
                                         else ''SLA breach risk: '' @ label),
                           ru_severity = (if json_truthy met then ''info'' else ''error'')\<rparr>] }
          else Some [] }"

definition evaluate_penalties ::
  "(json \<Rightarrow> bool option) \<Rightarrow> (string, json) dict list \<Rightarrow> (string, json) dict \<Rightarrow> pack_result list option" where
  "evaluate_penalties as_bool penalties perf = map_option concat (each (penalty_rule as_bool perf) penalties)"

end
