(* ===== verification/Margin_Props.thy ===== *)
theory Margin_Props
  imports Margin_Leakage
begin

text \<open>
  What the contract pack decides: when work is billable and at what rate, which claims its typed
  inputs allow, what penalties add up to, and which leaks it can recover.
\<close>

section \<open>SPEN billability\<close>

text \<open>
  How well an entry of the rate card matches: 0 for the category and the activity code, 1 for the
  category and one of activity and code inside the other, 2 for the category only, 3 for no match.
  The entry used is the first of those that match best.
\<close>

definition match_rank :: "string \<Rightarrow> string \<Rightarrow> spen_rate_card \<Rightarrow> nat" where
  "match_rank activity category r =
     (let a = py_strip (py_lower activity); code = py_lower (sr_activity_code r)
      in if sr_work_category r \<noteq> py_strip (py_lower category) then 3
         else if code = a then 0 else if py_substring a code \<or> py_substring code a then 1 else 2)"

definition first_best :: "(spen_rate_card \<Rightarrow> nat) \<Rightarrow> spen_rate_card list \<Rightarrow> spen_rate_card option \<Rightarrow> bool" where
  "first_best rank cards entry \<longleftrightarrow>
     (case entry of
        None \<Rightarrow> \<forall>r\<in>set cards. rank r = 3
      | Some r \<Rightarrow> rank r < 3 \<and> (\<exists>before after. cards = before @ r # after \<and>
          (\<forall>x\<in>set before. rank r < rank x) \<and> (\<forall>x\<in>set after. rank r \<le> rank x)))"

text \<open>
  Whether a cause of a repeat visit is billable, and the modifier of its rate: by the first of the
  given rules for it, and by default for every cause but the provider's own fault.
\<close>

definition cause_of :: "reattendance_rule list option \<Rightarrow> string \<Rightarrow> (bool \<times> pyfloat) option" where
  "cause_of rules trg =
     (let t = py_strip (py_lower trg)
      in case rules of
           Some (r # rs) \<Rightarrow> map_option (\<lambda>r. (re_billable r, re_rate_modifier r))
             (List.find (\<lambda>r. py_lower (re_trigger r) = t) (r # rs))
         | _ \<Rightarrow> if t \<in> {''customer_fault'', ''dno_fault'', ''third_party'', ''weather''} then Some (True, Fin 1)
                else if t = ''provider_fault'' then Some (False, Fin 0) else None)"

definition time_factor :: "string \<Rightarrow> spen_rate_card \<Rightarrow> pyfloat" where
  "time_factor time_of_day r =
     (let t = py_lower time_of_day
      in if t = ''emergency'' then sr_emergency_multiplier r else if t = ''overtime'' then sr_overtime_multiplier r
         else if t = ''weekend'' then sr_weekend_multiplier r else Fin 1)"

text \<open>The rate the engine should charge, and when it should admit the work.\<close>

definition spen_charge ::
  "reattendance_rule list option \<Rightarrow> bool \<Rightarrow> string \<Rightarrow> string \<Rightarrow> spen_rate_card option \<Rightarrow> pyfloat option" where
  "spen_charge rules again trg time_of_day entry =
     (let cause = (if again then cause_of rules trg else None);
          unpaid = (case cause of None \<Rightarrow> False | Some (ok, m) \<Rightarrow> \<not> ok)
      in case entry of
           None \<Rightarrow> if unpaid then Some (Fin 0) else None
         | Some r \<Rightarrow>
             (let x = (if unpaid then Fin 0
                       else case cause of None \<Rightarrow> sr_base_rate r | Some (ok, m) \<Rightarrow> pf_mul (sr_base_rate r) m)
              in Some (if pf_less (Fin 0) x then pf_mul x (time_factor time_of_day r) else x)))"

definition above_limit :: "spen_rate_card option \<Rightarrow> pyfloat option \<Rightarrow> bool" where
  "above_limit entry rate \<longleftrightarrow>
     (\<exists>r x limit. entry = Some r \<and> rate = Some x \<and> sr_requires_approval_above r = Some limit \<and> pf_less limit x)"

definition spen_admits ::
  "reattendance_rule list option \<Rightarrow> billing_gate list \<Rightarrow> bool \<Rightarrow> string \<Rightarrow> string \<Rightarrow> spen_rate_card option \<Rightarrow> bool" where
  "spen_admits rules gates again trg time_of_day entry \<longleftrightarrow>
     entry \<noteq> None \<and> list_all bg_satisfied gates \<and>
     (again \<longrightarrow> (\<exists>m. cause_of rules trg = Some (True, m))) \<and>
     (above_limit entry (spen_charge rules again trg time_of_day entry) \<longrightarrow>
        (\<exists>g\<in>set gates. bg_gate_type g = BP_PRIOR_APPROVAL \<and> bg_satisfied g))"

lemma find_first:
  "(case List.find P xs of
      None \<Rightarrow> \<forall>x\<in>set xs. \<not> P x
    | Some r \<Rightarrow> P r \<and> (\<exists>before after. xs = before @ r # after \<and> (\<forall>x\<in>set before. \<not> P x)))"
proof (induction xs)
  case (Cons x xs)
  show ?case
  proof (cases "P x")
    case True
    then show ?thesis by (auto intro: exI [of _ "[]"])
  next
    case False
    with Cons show ?thesis
      by (auto split: option.splits intro: exI [of _ "x # before" for before])
        (metis append_Cons set_ConsD)
  qed
qed simp

lemma spen_entry: "first_best (match_rank a c) cards (spen_find_rate a c cards)"
proof -
  define t where "t = py_strip (py_lower c)"
  define P where "P = (\<lambda>r :: spen_rate_card. sr_work_category r = t \<and> py_lower (sr_activity_code r) = py_strip (py_lower a))"
  define Q where "Q = (\<lambda>r :: spen_rate_card. sr_work_category r = t \<and>
    (py_substring (py_strip (py_lower a)) (py_lower (sr_activity_code r)) \<or>
     py_substring (py_lower (sr_activity_code r)) (py_strip (py_lower a))))"
  define R where "R = (\<lambda>r :: spen_rate_card. sr_work_category r = t)"
  have rank: "match_rank a c r = (if P r then 0 else if Q r then 1 else if R r then 2 else 3)" for r
    by (auto simp: match_rank_def P_def Q_def R_def t_def Let_def)
  have entry: "spen_find_rate a c cards = (case List.find P cards of Some r \<Rightarrow> Some r
      | None \<Rightarrow> (case List.find Q cards of Some r \<Rightarrow> Some r | None \<Rightarrow> List.find R cards))"
    unfolding spen_find_rate_def P_def Q_def R_def t_def Let_def by (rule refl)
  have sub: "P r \<Longrightarrow> R r" "Q r \<Longrightarrow> R r" for r by (auto simp: P_def Q_def R_def)
  show ?thesis
  proof (cases "List.find P cards")
    case (Some r)
    with find_first [of cards P] show ?thesis by (force simp: entry first_best_def rank)
  next
    case P: None
    then have p: "\<not> P x" if "x \<in> set cards" for x using find_first [of cards P] that by simp
    show ?thesis
    proof (cases "List.find Q cards")
      case (Some r)
      with find_first [of cards Q] obtain before after where q: "Q r" "cards = before @ r # after"
        "\<forall>x\<in>set before. \<not> Q x" by auto
      with p have "match_rank a c r = 1" "\<forall>x\<in>set before. 1 < match_rank a c x" "\<forall>x\<in>set after. 1 \<le> match_rank a c x"
        by (auto simp: rank)
      moreover have "spen_find_rate a c cards = Some r" using P Some by (simp add: entry)
      ultimately show ?thesis using q(2) by (simp add: first_best_def) blast
    next
      case Q: None
      then have n: "\<not> Q x" if "x \<in> set cards" for x using find_first [of cards Q] that by simp
      show ?thesis
      proof (cases "List.find R cards")
        case (Some r)
        with find_first [of cards R] obtain before after where q: "R r" "cards = before @ r # after"
          "\<forall>x\<in>set before. \<not> R x" by auto
        with p n have "match_rank a c r = 2" "\<forall>x\<in>set before. 2 < match_rank a c x" "\<forall>x\<in>set after. 2 \<le> match_rank a c x"
          by (auto simp: rank)
        moreover have "spen_find_rate a c cards = Some r" using P Q Some by (simp add: entry)
        ultimately show ?thesis using q(2) by (simp add: first_best_def) blast
      next
        case None
        with P Q p n find_first [of cards R] show ?thesis by (auto simp: entry first_best_def rank)
      qed
    qed
  qed
qed

lemma one_of_five:
  "t \<in> set [a, b, c, d, e] \<Longrightarrow> P a \<Longrightarrow> P b \<Longrightarrow> P c \<Longrightarrow> P d \<Longrightarrow> P e \<Longrightarrow> P t"
  "t \<notin> set [a, b, c, d, e] \<Longrightarrow> (if t \<in> {b, c, d, e} then x else if t = a then y else z) = z"
  by auto

lemma default_cause:
  "map_option (\<lambda>r. (re_billable r, re_rate_modifier r))
     (List.find (\<lambda>r. py_lower (re_trigger r) = t) default_reattendance_rules) =
   (if t \<in> {''customer_fault'', ''dno_fault'', ''third_party'', ''weather''} then Some (True, Fin 1)
    else if t = ''provider_fault'' then Some (False, Fin 0) else None)"
proof -
  let ?ts = "[''provider_fault'', ''customer_fault'', ''dno_fault'', ''third_party'', ''weather'']"
  have keys: "map (\<lambda>r. py_lower (re_trigger r)) default_reattendance_rules = ?ts" by code_simp
  show ?thesis
  proof (cases "t \<in> set ?ts")
    case True
    then show ?thesis by (rule one_of_five(1)) code_simp+
  next
    case False
    then have "List.find (\<lambda>r. py_lower (re_trigger r) = t) default_reattendance_rules = None"
      unfolding keys [symmetric] find_None_iff set_map by blast
    then show ?thesis unfolding one_of_five(2) [OF False] by (simp only: option.map)
  qed
qed

lemma cause_of_rule:
  "map_option (\<lambda>r. (re_billable r, re_rate_modifier r)) (find_reattendance_rule (spen_rules_of rules) trg) =
     cause_of rules trg"
  unfolding cause_of_def find_reattendance_rule_def spen_rules_of_def Let_def
  unfolding Let_def by (cases rules; cases "the rules") (simp_all only: default_cause option.case list.case option.sel)

lemma time_multiplier_factor: "time_multiplier t r = time_factor t r"
  by (simp add: time_multiplier_def time_factor_def dget_default_def Let_def)

lemma approval_limit_above: "(approval_limit entry rate \<noteq> None) = above_limit entry rate"
  by (auto simp: approval_limit_def above_limit_def split: option.splits)

lemma gates_open: "filter (\<lambda>g. \<not> bg_satisfied g) gates = [] \<longleftrightarrow> list_all bg_satisfied gates"
  by (simp add: filter_empty_conv list_all_iff)

lemma failed_messages_append: "failed_messages (xs @ ys) = failed_messages xs @ failed_messages ys"
  by (simp add: failed_messages_def)

lemma failed_messages_outcome:
  "failed_messages [rule_outcome n b ok bad] = (if b then [] else [bad])"
  "failed_messages [(rule_outcome n False ok bad)\<lparr>ru_severity := w\<rparr>] = [bad]"
  by (simp_all add: failed_messages_def rule_outcome_def)

text \<open>The billable flag says whether no rule failed so far.\<close>

definition flag_ok :: "spen_state \<Rightarrow> bool" where
  "flag_ok st = (case st of (rs, billable, rate) \<Rightarrow> (billable \<longleftrightarrow> failed_messages rs = []))"

lemma spen_rules_flag:
  "flag_ok (spen_rate_rule a c entry)"
  "flag_ok st \<Longrightarrow> flag_ok (spen_gates_rule gates st)"
  "flag_ok st \<Longrightarrow> flag_ok (spen_reattendance_rule rules again trg st)"
  "flag_ok st \<Longrightarrow> flag_ok (spen_time_rule t entry st)"
  "flag_ok st \<Longrightarrow> flag_ok (spen_approval_rule gates entry st)"
  by (cases st; auto simp: flag_ok_def spen_rate_rule_def spen_gates_rule_def spen_reattendance_rule_def
      spen_time_rule_def spen_approval_rule_def failed_messages_append failed_messages_outcome Let_def
      split: option.split)+

definition spen_flow ::
  "reattendance_rule list option \<Rightarrow> string \<Rightarrow> string \<Rightarrow> billing_gate list \<Rightarrow> bool \<Rightarrow> string \<Rightarrow> string
     \<Rightarrow> spen_rate_card option \<Rightarrow> spen_state" where
  "spen_flow rules a c gates again trg t entry =
     spen_approval_rule gates entry (spen_time_rule t entry
       (spen_reattendance_rule (spen_rules_of rules) again trg (spen_gates_rule gates (spen_rate_rule a c entry))))"

lemma spen_flow_result:
  "case spen_flow rules a c gates again trg t entry of
     (rs, billable, rate) \<Rightarrow>
       rate = spen_charge rules again trg t entry \<and> (billable \<longleftrightarrow> spen_admits rules gates again trg t entry)"
proof -
  define rule where "rule = find_reattendance_rule (spen_rules_of rules) trg"
  note cause = cause_of_rule [of rules trg, folded rule_def, symmetric]
  have limit: "(case approval_limit entry x of None \<Rightarrow> True | Some y \<Rightarrow> b) \<longleftrightarrow> (above_limit entry x \<longrightarrow> b)" for x b
    by (cases "approval_limit entry x") (use approval_limit_above [of entry x] in auto)
  have flow: "spen_approval_rule gates entry (rs, b, x) = (rs', b', x') \<Longrightarrow>
      x' = x \<and> (b' \<longleftrightarrow> b \<and> (above_limit entry x \<longrightarrow>
        (\<exists>g\<in>set gates. bg_gate_type g = BP_PRIOR_APPROVAL \<and> bg_satisfied g)))" for rs b x rs' b' x'
    unfolding limit [symmetric] by (auto simp: spen_approval_rule_def Let_def list_ex_iff split: option.splits)
  obtain rs b x where st: "spen_time_rule t entry (spen_reattendance_rule (spen_rules_of rules) again trg
      (spen_gates_rule gates (spen_rate_rule a c entry))) = (rs, b, x)" by (rule prod_cases3)
  have "x = spen_charge rules again trg t entry \<and>
      (b \<longleftrightarrow> entry \<noteq> None \<and> list_all bg_satisfied gates \<and> (again \<longrightarrow> (\<exists>m. cause_of rules trg = Some (True, m))))"
    using st unfolding spen_charge_def cause
    by (cases entry; cases again; cases rule)
      (auto simp: spen_rate_rule_def spen_gates_rule_def spen_reattendance_rule_def spen_time_rule_def
        time_multiplier_factor gates_open Let_def rule_def [symmetric] split: if_splits)
  moreover obtain rs' b' x' where "spen_approval_rule gates entry (rs, b, x) = (rs', b', x')"
    by (rule prod_cases3)
  ultimately show ?thesis
    unfolding spen_flow_def st spen_admits_def using flow [of rs b x rs' b' x'] by simp
qed

text \<open>C34: work is billable to SPEN exactly when the rate card has an entry for its category, every
  billing gate is satisfied, a repeat visit has a known billable cause, and a rate above the approval
  limit of the entry has a prior approval; the reasons are then empty, and only then. The entry is
  the first of those that match best (activity code, part of it, category only). The rate is the one
  of the entry, times the modifier of the cause (zero for a cause that is not billable) and the
  multiplier of the time of day. The evidence a cause requires is not looked at: a weather visit is
  billable without a documented weather event.
\<close>
theorem spen_billable_exactly:
  "let d = spen_billability rules a c cards gates again trg t in
   \<exists>entry. first_best (match_rank a c) cards entry \<and>
     (bd_billable d \<longleftrightarrow> spen_admits rules gates again trg t entry) \<and>
     (bd_billable d \<longleftrightarrow> bd_reasons d = []) \<and>
     bd_rate_applied d = spen_charge rules again trg t entry"
proof -
  define entry where "entry = spen_find_rate a c cards"
  obtain rs b r where f: "spen_flow rules a c gates again trg t entry = (rs, b, r)" by (rule prod_cases3)
  have "flag_ok (spen_flow rules a c gates again trg t entry)"
    unfolding spen_flow_def by (intro spen_rules_flag)
  then have flag: "b \<longleftrightarrow> failed_messages rs = []" by (simp add: f flag_ok_def)
  have d: "spen_billability rules a c cards gates again trg t =
      \<lparr>bd_billable = b, bd_confidence = passed_share rs, bd_reasons = failed_messages rs, bd_rate_applied = r,
       bd_category = Some (if t = ''normal'' then BC_DAYWORK else BC_EMERGENCY_CALLOUT),
       bd_rule_results = map (\<lambda>r. (ru_rule_name r, ru_passed r, ru_message r)) rs\<rparr>"
    using f unfolding spen_billability_def spen_flow_def entry_def Let_def by simp
  show ?thesis
    using spen_flow_result [where rules = rules and a = a and c = c and gates = gates and again = again
        and trg = trg and t = t and entry = entry] flag spen_entry [of a c cards]
    unfolding d Let_def f by (intro exI [of _ entry]) (simp add: entry_def)
qed

section \<open>General billability\<close>

definition obligation_mentions :: "string \<Rightarrow> (string, json) dict \<Rightarrow> bool" where
  "obligation_mentions activity ob =
     (let txt = py_lower (text_field ob ''text'' []) @ py_lower (text_field ob ''description'' [])
      in py_substring (py_lower activity) txt \<or>
         list_ex (\<lambda>kw. py_substring kw txt) (split_char (CHR ''_'') (py_lower activity)))"

text \<open>A claim with a string for its activity and a readable date, if any; a claim of the same work on a day.\<close>

definition claim_typed :: "prior_claim \<Rightarrow> bool" where
  "claim_typed c \<longleftrightarrow> as_str (pc_activity c) \<noteq> None \<and> (pc_date c = CD_NONE \<or> claim_day (pc_date c) \<noteq> None)"

definition same_claim :: "string \<Rightarrow> int \<Rightarrow> prior_claim \<Rightarrow> bool" where
  "same_claim act d c \<longleftrightarrow> map_option underscored (as_str (pc_activity c)) = Some act \<and> claim_day (pc_date c) = Some d"

lemma within_scope_typed:
  assumes "list_all string_fields obs"
  shows "is_within_scope activity obs = Some (obs = [] \<or> list_ex (obligation_mentions activity) obs)"
proof -
  have "obligation_covers activity ob = Some (obligation_mentions activity ob)" if t: "string_fields ob" for ob
    by (simp add: obligation_covers_def obligation_mentions_def dget_default_string [OF t] as_str_def Let_def)
  then have "some_obligation_covers activity obs = Some (list_ex (obligation_mentions activity) obs)"
    using assms by (induction obs) auto
  then show ?thesis by (auto simp: is_within_scope_def)
qed

lemma duplicate_typed:
  "list_all claim_typed cs \<Longrightarrow>
     duplicate_claim act work_date cs = Some (case work_date of None \<Rightarrow> False | Some d \<Rightarrow> list_ex (same_claim act d) cs)"
proof (induction cs)
  case (Cons c cs)
  then obtain a where a: "as_str (pc_activity c) = Some a" by (auto simp: claim_typed_def)
  show ?case
  proof (cases "pc_date c = CD_NONE")
    case True
    then show ?thesis using Cons a by (cases work_date) (auto simp: same_claim_def claim_day_def)
  next
    case False
    then obtain n where "claim_day (pc_date c) = Some n" using Cons.prems by (auto simp: claim_typed_def)
    then show ?thesis using Cons a False by (cases work_date) (auto simp: same_claim_def)
  qed
qed (simp split: option.split)

lemma all_passed: "list_all ru_passed rs \<longleftrightarrow> failed_messages rs = []"
  by (auto simp: failed_messages_def filter_empty_conv list_all_iff)

text \<open>C35: with obligations of strings and claims that can be read, the engine always decides. Work is
  billable exactly when a rate matches, the rate is not above the threshold or is approved, has not
  expired on the day of the work, no obligation is given or one mentions the work, the work is not
  excluded, and no claim for it has the same day; then and only then no reason is given. The rate is
  the matching one, raised to its minimum charge.
\<close>
theorem general_billability_decides:
  assumes "list_all string_fields obligations" "list_all claim_typed claims"
  shows "\<exists>d. evaluate_billability activity cards obligations threshold approved claims work_date = Some d \<and>
     (bd_billable d \<longleftrightarrow>
        (case find_matching_rate activity cards of
           None \<Rightarrow> False
         | Some r \<Rightarrow> (if pf_less threshold (rc_rate r) then approved else True) \<and> \<not> rate_expired (Some r) work_date) \<and>
        (obligations = [] \<or> list_ex (obligation_mentions activity) obligations) \<and>
        \<not> is_excluded activity \<and>
        (case work_date of None \<Rightarrow> True | Some n \<Rightarrow> \<not> list_ex (same_claim (underscored activity) n) claims)) \<and>
     (bd_billable d \<longleftrightarrow> bd_reasons d = []) \<and>
     bd_rate_applied d = map_option minimum_rate (find_matching_rate activity cards)"
proof -
  define rate where "rate = find_matching_rate activity cards"
  let ?scope = "obligations = [] \<or> list_ex (obligation_mentions activity) obligations"
  let ?dup = "case work_date of None \<Rightarrow> False | Some n \<Rightarrow> list_ex (same_claim (underscored activity) n) claims"
  define rs where "rs = billability_results rate ?scope (is_excluded activity) threshold approved ?dup (rate_expired rate work_date)"
  have e: "evaluate_billability activity cards obligations threshold approved claims work_date =
      Some \<lparr>bd_billable = list_all ru_passed rs, bd_confidence = passed_share rs, bd_reasons = failed_messages rs,
            bd_rate_applied = map_option minimum_rate rate, bd_category = None, bd_rule_results = []\<rparr>"
    unfolding evaluate_billability_def within_scope_typed [OF assms(1)] duplicate_typed [OF assms(2)]
      Option.bind.bind_lunit Let_def rate_def [symmetric] rs_def by (rule refl)
  have "list_all ru_passed rs \<longleftrightarrow>
      (case rate of None \<Rightarrow> False
       | Some r \<Rightarrow> (if pf_less threshold (rc_rate r) then approved else True) \<and> \<not> rate_expired (Some r) work_date) \<and>
      ?scope \<and> \<not> is_excluded activity \<and>
      (case work_date of None \<Rightarrow> True | Some n \<Rightarrow> \<not> list_ex (same_claim (underscored activity) n) claims)"
    by (cases rate) (auto simp: rs_def billability_results_def approval_result_def Let_def split: option.split)
  then show ?thesis
    unfolding e rate_def [symmetric] using all_passed [of rs] by simp
qed

theorem general_billability_decides_witness:
  "\<exists>d. evaluate_billability ''audit'' [\<lparr>rc_activity = ''audit'', rc_unit = ''each'', rc_rate = Fin 100,
        rc_effective_to = None, rc_minimum_charge = Some (Fin 150)\<rparr>]
      [[(''text'', JStr ''Annual audit of meters'')]] (Fin 5000) False
      [\<lparr>pc_activity = JStr ''audit'', pc_date = CD_DATE 738945\<rparr>] (Some 738946) = Some d \<and>
     bd_rate_applied d = Some (Fin 150)"
proof -
  have typed: "list_all string_fields [[(''text'', JStr ''Annual audit of meters'')]]"
      "list_all claim_typed [\<lparr>pc_activity = JStr ''audit'', pc_date = CD_DATE 738945\<rparr>]"
    by (simp_all add: string_fields_def claim_typed_def as_str_def claim_day_def)
  have "map_option minimum_rate (find_matching_rate ''audit'' [\<lparr>rc_activity = ''audit'', rc_unit = ''each'',
      rc_rate = Fin 100, rc_effective_to = None, rc_minimum_charge = Some (Fin 150)\<rparr>]) = Some (Fin 150)"
    by code_simp
  then show ?thesis using general_billability_decides [OF typed] by metis
qed

text \<open>
  The activity is compared with underscores for its spaces, the rate's is not: a rate with a space in
  its name is not found by its own name. And an entry that merely contains the activity, or is
  contained in it, wins over a later entry of the same name.
\<close>

lemma spaced_rate_unmatched:
  "find_matching_rate ''Site Visit'' [\<lparr>rc_activity = ''Site Visit'', rc_unit = ''each'', rc_rate = Fin 90,
      rc_effective_to = None, rc_minimum_charge = None\<rparr>] = None"
  by code_simp

lemma fuzzy_rate_first:
  "map_option rc_rate (find_matching_rate ''jointing''
     [\<lparr>rc_activity = ''joint'', rc_unit = ''each'', rc_rate = Fin 10, rc_effective_to = None, rc_minimum_charge = None\<rparr>,
      \<lparr>rc_activity = ''jointing'', rc_unit = ''each'', rc_rate = Fin 90, rc_effective_to = None, rc_minimum_charge = None\<rparr>])
   = Some (Fin 10)"
  by code_simp

section \<open>Penalties\<close>

text \<open>The breached conditions past their grace period, and the exposure of one.\<close>

definition past_grace :: "(string, json) dict \<Rightarrow> penalty_condition \<Rightarrow> bool" where
  "past_grace perf c \<longleftrightarrow> condition_breached perf c \<and> within_grace perf c = Some False"

definition exposure_of :: "(string, json) dict \<Rightarrow> pyfloat \<Rightarrow> penalty_condition \<Rightarrow> pyfloat" where
  "exposure_of perf invoice c =
     (case penalty_amount perf invoice c of None \<Rightarrow> NaN | Some x \<Rightarrow> capped_amount c x)"

lemma pf_less_irrefl: "\<not> pf_less x x"
  by (cases x) auto

lemma capped_amount_bound: "pn_cap c = Some limit \<Longrightarrow> pf_less (Fin 0) limit \<Longrightarrow> \<not> pf_less limit (capped_amount c x)"
  by (simp add: capped_amount_def pf_less_irrefl)

lemma penalty_step_effect:
  assumes "penalty_step perf invoice c acc = Some acc'"
  shows "py_total_penalties acc' = py_total_penalties acc"
    and "py_active_breaches acc' = py_active_breaches acc + (if past_grace perf c then 1 else 0)"
    and "py_estimated_exposure acc' =
       (if past_grace perf c then pf_add (py_estimated_exposure acc) (exposure_of perf invoice c) else py_estimated_exposure acc)"
    and "map bt_clause_id (py_breach_details acc') = map bt_clause_id (py_breach_details acc) @
       (if condition_breached perf c then [pn_clause_id c] else [])"
  using assms
  by (auto simp: penalty_step_def past_grace_def exposure_of_def Let_def split: if_splits Option.bind_splits)

lemma penalty_loop_effect:
  "loop (penalty_step perf invoice) cs acc = Some acc' \<Longrightarrow>
     py_total_penalties acc' = py_total_penalties acc \<and>
     py_active_breaches acc' = py_active_breaches acc + length (filter (past_grace perf) cs) \<and>
     py_estimated_exposure acc' =
       foldl pf_add (py_estimated_exposure acc) (map (exposure_of perf invoice) (filter (past_grace perf) cs)) \<and>
     map bt_clause_id (py_breach_details acc') = map bt_clause_id (py_breach_details acc) @
       map pn_clause_id (filter (condition_breached perf) cs)"
proof (induction cs arbitrary: acc)
  case (Cons c cs)
  then obtain mid where m: "penalty_step perf invoice c acc = Some mid" "loop (penalty_step perf invoice) cs mid = Some acc'"
    by (auto split: Option.bind_splits)
  show ?case using Cons.IH [OF m(2)] penalty_step_effect [OF m(1)] by simp
qed simp

text \<open>C40: a penalty analysis that returns accounts for every condition. It lists the breached ones in
  order, counts those past their grace period, and its exposure is the rounded sum of theirs; none of
  these exceeds the cap of its condition, when the cap is positive (a cap of zero, or below, is
  ignored).
\<close>
theorem penalty_summary_adds_up:
  assumes "analyze_penalties conditions perf invoice = Some s"
  shows "py_total_penalties s = length conditions \<and>
     map bt_clause_id (py_breach_details s) = map pn_clause_id (filter (condition_breached perf) conditions) \<and>
     py_active_breaches s = length (filter (past_grace perf) conditions) \<and>
     py_estimated_exposure s =
       pf_round 2 (foldl pf_add (Fin 0) (map (exposure_of perf invoice) (filter (past_grace perf) conditions))) \<and>
     list_all (\<lambda>c. case pn_cap c of
         None \<Rightarrow> True
       | Some limit \<Rightarrow> if pf_less (Fin 0) limit then \<not> pf_less limit (exposure_of perf invoice c) else True)
       (filter (past_grace perf) conditions)"
proof -
  obtain acc where a: "loop (penalty_step perf invoice) conditions
      \<lparr>py_total_penalties = length conditions, py_active_breaches = 0, py_estimated_exposure = Fin 0,
       py_breach_details = [], py_mitigation_actions = []\<rparr> = Some acc"
    "s = acc\<lparr>py_estimated_exposure := pf_round 2 (py_estimated_exposure acc)\<rparr>"
    using assms by (auto simp: analyze_penalties_def split: Option.bind_splits)
  have "\<not> pf_less limit (exposure_of perf invoice c)" if "pn_cap c = Some limit" "pf_less (Fin 0) limit" for c limit
    using capped_amount_bound [OF that] by (cases limit) (auto simp: exposure_of_def split: option.split)
  then show ?thesis
    using penalty_loop_effect [OF a(1)] by (auto simp: a(2) list_all_iff split: option.split)
qed

definition sample_penalty :: "penalty_condition" where
  "sample_penalty = \<lparr>pn_clause_id = ''7.1'', pn_description = ''Late response'', pn_trigger = ''Response Time'',
     pn_penalty_amount = ''5%'', pn_penalty_type = ''percentage'', pn_cap = Some (Fin 40), pn_grace_period_days = Some 3\<rparr>"

theorem penalty_summary_adds_up_witness:
  "\<exists>s. analyze_penalties [sample_penalty] [(''response_time'', JBool True), (''days_since_breach'', JInt 10)] (Fin 1000) = Some s \<and>
     py_active_breaches s = 1"
proof -
  let ?perf = "[(''response_time'', JBool True), (''days_since_breach'', JInt 10)]"
  have r: "case analyze_penalties [sample_penalty] ?perf (Fin 1000) of None \<Rightarrow> False | Some s \<Rightarrow> True" by code_simp
  have g: "past_grace ?perf sample_penalty" by code_simp
  obtain s where s: "analyze_penalties [sample_penalty] ?perf (Fin 1000) = Some s"
    using r by (cases "analyze_penalties [sample_penalty] ?perf (Fin 1000)") simp_all
  show ?thesis using penalty_summary_adds_up [OF s] s g by simp
qed

section \<open>Leakage and its recovery\<close>

text \<open>The kinds of trigger, and those for which no recommendation exists.\<close>

definition recoverable_types :: "string list" where
  "recoverable_types =
     [''unbilled_completed_work'', ''rate_below_contract'', ''scope_creep_detected'', ''penalty_exposure_unmitigated'',
      ''missing_daywork_sheet'', ''rate_escalation_missed'', ''abortive_visit_not_claimed'',
      ''variation_work_no_change_order'', ''permit_cost_not_recovered'']"

definition unrecovered_types :: "string list" where
  "unrecovered_types =
     [''time_rate_mismatch'', ''material_cost_not_billed'', ''subcontractor_margin_leak'', ''mobilisation_not_charged'',
      ''warranty_rework_billed'']"

definition kinds_in :: "string list \<Rightarrow> leakage_trigger list option \<Rightarrow> bool" where
  "kinds_in xs r = (case r of None \<Rightarrow> True | Some ts \<Rightarrow> list_all (\<lambda>t. lt_trigger_type t \<in> set xs) ts)"

lemma trigger_type [simp]: "lt_trigger_type (trigger ty d sev i v) = ty"
  by (simp add: trigger_def)

lemma kinds_in_bind: "(\<And>x. m = Some x \<Longrightarrow> kinds_in xs (f x)) \<Longrightarrow> kinds_in xs (do { x \<leftarrow> m; f x })"
  by (cases m) (simp_all add: kinds_in_def)

lemma kinds_in_simps [simp]:
  "kinds_in xs None" "kinds_in xs (Some [])" "kinds_in xs (Some [trigger ty d sev i v]) \<longleftrightarrow> ty \<in> set xs"
  "kinds_in xs (Some (if b then [trigger ty d sev i v] else [])) \<longleftrightarrow> (if b then ty \<in> set xs else True)"
  by (simp_all add: kinds_in_def)

lemma kinds_in_each: "(\<And>w. kinds_in xs (f w)) \<Longrightarrow> kinds_in xs (over_history f ws)"
proof (induction ws)
  case (Cons w ws)
  then show ?case
    by (auto simp: over_history_def kinds_in_def split: option.splits Option.bind_splits)
      (metis option.simps(5))+
qed (simp add: over_history_def)

lemma kinds_in_total: "kinds_in xs (Some ts) \<longleftrightarrow> list_all (\<lambda>t. lt_trigger_type t \<in> set xs) ts"
  by (simp add: kinds_in_def)

lemma kinds_in_mono: "kinds_in xs r \<Longrightarrow> set xs \<subseteq> set ys \<Longrightarrow> kinds_in ys r"
  by (auto simp: kinds_in_def list_all_iff split: option.splits)

lemma plain_rule_kinds:
  "kinds_in [''unbilled_completed_work''] (Some (unbilled_work w))"
  "kinds_in [''scope_creep_detected''] (Some (scope_creep w))"
  "kinds_in [''missing_daywork_sheet''] (Some (missing_daywork_sheet w))"
  "kinds_in [''abortive_visit_not_claimed''] (Some (abortive_unclaimed w))"
  "kinds_in [''variation_work_no_change_order''] (Some (variation_unordered w))"
  by (simp_all add: unbilled_work_def scope_creep_def missing_daywork_sheet_def abortive_unclaimed_def
      variation_unordered_def)

lemma numeric_rule_kinds:
  "kinds_in [''rate_below_contract''] (rate_below_contract w)"
  "kinds_in [''penalty_exposure_unmitigated''] (penalty_exposure w)"
  "kinds_in [''rate_escalation_missed''] (escalation_missed w)"
  "kinds_in [''permit_cost_not_recovered''] (permit_unrecovered w)"
  "kinds_in [''time_rate_mismatch''] (time_rate_mismatch w)"
  "kinds_in [''material_cost_not_billed''] (material_unbilled w)"
  "kinds_in [''subcontractor_margin_leak''] (subcontractor_leak w)"
  "kinds_in [''mobilisation_not_charged''] (mobilisation_uncharged w)"
  "kinds_in [''warranty_rework_billed''] (warranty_rework w)"
  by (auto simp: rate_below_contract_def penalty_exposure_def escalation_missed_def permit_unrecovered_def
      time_rate_mismatch_def material_unbilled_def subcontractor_leak_def mobilisation_uncharged_def
      warranty_rework_def Let_def intro!: kinds_in_bind split: option.split)

definition trigger_types :: "string list" where
  "trigger_types = recoverable_types @ unrecovered_types"

lemma known_types:
  "''unbilled_completed_work'' \<in> set trigger_types"
  "''scope_creep_detected'' \<in> set trigger_types"
  "''missing_daywork_sheet'' \<in> set trigger_types"
  "''abortive_visit_not_claimed'' \<in> set trigger_types"
  "''variation_work_no_change_order'' \<in> set trigger_types"
  "''rate_below_contract'' \<in> set trigger_types"
  "''penalty_exposure_unmitigated'' \<in> set trigger_types"
  "''rate_escalation_missed'' \<in> set trigger_types"
  "''permit_cost_not_recovered'' \<in> set trigger_types"
  "''time_rate_mismatch'' \<in> set trigger_types"
  "''material_cost_not_billed'' \<in> set trigger_types"
  "''subcontractor_margin_leak'' \<in> set trigger_types"
  "''mobilisation_not_charged'' \<in> set trigger_types"
  "''warranty_rework_billed'' \<in> set trigger_types"
  by (simp_all add: trigger_types_def recoverable_types_def unrecovered_types_def)

lemma kinds_known: "kinds_in [ty] r \<Longrightarrow> ty \<in> set trigger_types \<Longrightarrow> kinds_in trigger_types r"
  by (erule kinds_in_mono) simp

lemmas rule_types =
  kinds_known [OF plain_rule_kinds(1) known_types(1)] kinds_known [OF plain_rule_kinds(2) known_types(2)]
  kinds_known [OF plain_rule_kinds(3) known_types(3)] kinds_known [OF plain_rule_kinds(4) known_types(4)]
  kinds_known [OF plain_rule_kinds(5) known_types(5)] kinds_known [OF numeric_rule_kinds(1) known_types(6)]
  kinds_known [OF numeric_rule_kinds(2) known_types(7)] kinds_known [OF numeric_rule_kinds(3) known_types(8)]
  kinds_known [OF numeric_rule_kinds(4) known_types(9)] kinds_known [OF numeric_rule_kinds(5) known_types(10)]
  kinds_known [OF numeric_rule_kinds(6) known_types(11)] kinds_known [OF numeric_rule_kinds(7) known_types(12)]
  kinds_known [OF numeric_rule_kinds(8) known_types(13)] kinds_known [OF numeric_rule_kinds(9) known_types(14)]

lemma work_rule_types: "\<forall>rule\<in>set work_rules. \<forall>w. kinds_in trigger_types (rule w)"
  by (simp add: work_rules_def comp_def rule_types)

lemma over_history_types:
  assumes "over_history rule ws = Some ts" "\<And>w. kinds_in trigger_types (rule w)"
  shows "list_all (\<lambda>t. lt_trigger_type t \<in> set trigger_types) ts"
  using kinds_in_each [of trigger_types rule ws] assms by (simp add: kinds_in_def)

lemma each_rule_types:
  "each (\<lambda>rule. over_history rule ws) rules = Some tss \<Longrightarrow> \<forall>rule\<in>set rules. \<forall>w. kinds_in trigger_types (rule w) \<Longrightarrow>
     list_all (\<lambda>t. lt_trigger_type t \<in> set trigger_types) (concat tss)"
proof (induction rules arbitrary: tss)
  case (Cons r rules)
  then obtain ts rest where "over_history r ws = Some ts" "each (\<lambda>rule. over_history rule ws) rules = Some rest"
      "tss = ts # rest"
    by (auto split: Option.bind_splits)
  with Cons over_history_types [of r ws ts] show ?case by simp
qed simp

lemma recommend_known:
  "lt_trigger_type t \<in> set trigger_types \<Longrightarrow>
     map rr_estimated_recovery_value (recommend_recovery t) =
       (if lt_trigger_type t \<in> set recoverable_types then [recovery_value t] else [])"
  by (auto simp: trigger_types_def recoverable_types_def unrecovered_types_def recommend_recovery_def recovery_map_def)

text \<open>of what leakage detection finds, only nine kinds of trigger can be recovered. Every trigger it
  reports is of one of fourteen kinds; the recommendations built from them are one for each trigger of
  the first nine kinds, in order and with its value, and none for the other five (wrong time band,
  materials, subcontractors, mobilisation, warranty rework).
\<close>
theorem recommendations_cover_nine_kinds:
  assumes "detect_leakage objects history = Some ts"
  shows "list_all (\<lambda>t. lt_trigger_type t \<in> set (recoverable_types @ unrecovered_types)) ts \<and>
     map rr_estimated_recovery_value (build_recommendations ts) =
       map recovery_value (filter (\<lambda>t. lt_trigger_type t \<in> set recoverable_types) ts)"
proof -
  obtain t1 t2 t3 t4 tss where t: "over_history (Some \<circ> unbilled_work) history = Some t1"
      "over_history rate_below_contract history = Some t2" "over_history (Some \<circ> scope_creep) history = Some t3"
      "over_history penalty_exposure objects = Some t4"
      "each (\<lambda>rule. over_history rule history) work_rules = Some tss" "ts = t1 @ t2 @ t3 @ t4 @ concat tss"
    using assms unfolding detect_leakage_def by (auto split: Option.bind_splits)
  have k: "list_all (\<lambda>t. lt_trigger_type t \<in> set trigger_types) ts"
    unfolding t(6) list_all_append
    by (intro conjI over_history_types [OF t(1)] over_history_types [OF t(2)] over_history_types [OF t(3)]
        over_history_types [OF t(4)] each_rule_types [OF t(5)] work_rule_types; simp add: comp_def rule_types)
  then have "map rr_estimated_recovery_value (build_recommendations ts) =
      map recovery_value (filter (\<lambda>t. lt_trigger_type t \<in> set recoverable_types) ts)"
  proof (induction ts)
    case (Cons t ts)
    then show ?case using recommend_known [of t] by (auto simp: build_recommendations_def)
  qed (simp add: build_recommendations_def)
  then show ?thesis using k by (simp add: trigger_types_def)
qed

theorem recommendations_cover_nine_kinds_witness:
  "\<exists>ts. detect_leakage [] [[(''is_rework'', JBool True), (''within_warranty_period'', JBool True), (''billed'', JBool True),
      (''billed_rate'', JInt 50), (''hours'', JInt 2)]] = Some ts \<and>
     map rr_estimated_recovery_value (build_recommendations ts) =
       map recovery_value (filter (\<lambda>t. lt_trigger_type t \<in> set recoverable_types) ts)"
proof -
  let ?w = "[(''is_rework'', JBool True), (''within_warranty_period'', JBool True), (''billed'', JBool True),
      (''billed_rate'', JInt 50), (''hours'', JInt 2)]"
  have "case detect_leakage [] [?w] of None \<Rightarrow> False | Some ts \<Rightarrow> True" by code_simp
  then obtain ts where "detect_leakage [] [?w] = Some ts" by (cases "detect_leakage [] [?w]") simp_all
  then show ?thesis using recommendations_cover_nine_kinds by blast
qed

end
