(* ===== verification/Pack_Text.thy ===== *)
theory Pack_Text
  imports Pack_Numbers
begin

text \<open>
  The text and time functions of the standard library that the cross-pack reconciliation uses:
  \<open>difflib.SequenceMatcher(None, a, b).ratio()\<close>, \<open>str.split\<close>, and \<open>datetime.strptime\<close> with the four formats
  of \<^verbatim>\<open>app/domain_packs/reconciliation.py\<close>, with the helper functions of that module.
\<close>

section \<open>Sequence matching\<close>

text \<open>A match: where it starts in either string, and its length.\<close>

type_synonym match_block = "nat \<times> nat \<times> nat"

text \<open>Characters of a long second string that occur in it too often are not used as starting points.\<close>

definition popular_chars :: "string \<Rightarrow> string" where
  "popular_chars b =
     (if length b \<ge> 200
      then filter (\<lambda>c. count_list b c > length b div 100 + 1) (remdups b) else [])"

definition positions_of :: "char \<Rightarrow> string \<Rightarrow> nat list" where
  "positions_of c b = filter (\<lambda>j. b ! j = c) [0..<length b]"

text \<open>One character of the first string: the lengths of the matches that end at it and at each of its
  positions in the second, and the first longest match so far.\<close>

definition match_cell :: "(nat \<times> nat) list \<Rightarrow> nat \<Rightarrow> match_block \<times> (nat \<times> nat) list \<Rightarrow> nat \<Rightarrow> match_block \<times> (nat \<times> nat) list" where
  "match_cell prev i st j =
     (let k = Suc (if j = 0 then 0 else dget_default prev (j - 1) 0)
      in (if k > snd (snd (fst st)) then (Suc i - k, Suc j - k, k) else fst st, (j, k) # snd st))"

fun match_rows ::
  "string \<Rightarrow> string \<Rightarrow> nat \<Rightarrow> string \<Rightarrow> (nat \<times> nat) list \<Rightarrow> match_block \<Rightarrow> match_block" where
  "match_rows popular b i [] prev best = best"
| "match_rows popular b i (c # a) prev best =
     (let js = (if c \<in> set popular then [] else positions_of c b);
          st = foldl (match_cell prev i) (best, []) js
      in match_rows popular b (Suc i) a (snd st) (fst st))"

fun extend_left :: "string \<Rightarrow> string \<Rightarrow> nat \<Rightarrow> nat \<Rightarrow> nat \<Rightarrow> match_block" where
  "extend_left a b 0 j k = (0, j, k)"
| "extend_left a b (Suc i) j k =
     (if j > 0 \<and> a ! i = b ! (j - 1) then extend_left a b i (j - 1) (Suc k) else (Suc i, j, k))"

fun common_prefix :: "string \<Rightarrow> string \<Rightarrow> nat" where
  "common_prefix (x # xs) (y # ys) = (if x = y then Suc (common_prefix xs ys) else 0)"
| "common_prefix xs ys = 0"

definition longest_match :: "string \<Rightarrow> string \<Rightarrow> string \<Rightarrow> match_block" where
  "longest_match popular a b =
     (case match_rows popular b 0 a [] (0, 0, 0) of
        (i, j, k) \<Rightarrow>
          (case extend_left a b i j k of
             (i, j, k) \<Rightarrow> (i, j, k + common_prefix (drop (i + k) a) (drop (j + k) b))))"

subsection \<open>Matches stay inside both strings\<close>

definition block_in :: "nat \<Rightarrow> nat \<Rightarrow> match_block \<Rightarrow> bool" where
  "block_in n m bl = (case bl of (i, j, k) \<Rightarrow> i + k \<le> n \<and> j + k \<le> m)"

definition cells_in :: "nat \<Rightarrow> (nat \<times> nat) list \<Rightarrow> bool" where
  "cells_in n row = list_all (\<lambda>(j, k). k \<le> Suc j \<and> k \<le> n) row"

lemma cells_in_lookup: "cells_in n row \<Longrightarrow> dget_default row j 0 \<le> Suc j \<and> dget_default row j 0 \<le> n"
  by (induction row) (auto simp: cells_in_def dget_default_def split: if_splits)

lemma match_row_in:
  assumes "cells_in i prev" "list_all (\<lambda>j. j < m) js" "block_in (Suc i) m best" "cells_in (Suc i) row"
  shows "block_in (Suc i) m (fst (foldl (match_cell prev i) (best, row) js)) \<and>
     cells_in (Suc i) (snd (foldl (match_cell prev i) (best, row) js))"
  using assms(2-)
proof (induction js arbitrary: best row)
  case (Cons j js)
  let ?k = "Suc (if j = 0 then 0 else dget_default prev (j - 1) 0)"
  have k: "?k \<le> Suc j" "?k \<le> Suc i"
    using cells_in_lookup [OF assms(1), of "j - 1"] by (cases j; simp)+
  then have "block_in (Suc i) m (if ?k > snd (snd best) then (Suc i - ?k, Suc j - ?k, ?k) else best)"
    using Cons.prems by (auto simp: block_in_def)
  moreover have "cells_in (Suc i) ((j, ?k) # row)" using k Cons.prems(3) by (simp add: cells_in_def)
  ultimately show ?case using Cons.IH Cons.prems(1) unfolding foldl.simps match_cell_def Let_def fst_conv snd_conv
    by simp
qed simp

lemma block_in_mono: "block_in n m bl \<Longrightarrow> n \<le> n' \<Longrightarrow> block_in n' m bl"
  by (auto simp: block_in_def)

lemma match_rows_in:
  "cells_in i prev \<Longrightarrow> block_in i (length b) best \<Longrightarrow> block_in (i + length a) (length b) (match_rows popular b i a prev best)"
proof (induction a arbitrary: i prev best)
  case (Cons c a)
  let ?js = "if c \<in> set popular then [] else positions_of c b"
  have "list_all (\<lambda>j. j < length b) ?js" by (auto simp: positions_of_def list_all_iff)
  then have "block_in (Suc i) (length b) (fst (foldl (match_cell prev i) (best, []) ?js)) \<and>
      cells_in (Suc i) (snd (foldl (match_cell prev i) (best, []) ?js))"
    using Cons.prems by (intro match_row_in) (auto simp: block_in_mono cells_in_def)
  then show ?case using Cons.IH [of "Suc i"] by (simp add: Let_def)
qed simp

lemma extend_left_in: "block_in n m (i, j, k) \<Longrightarrow> block_in n m (extend_left a b i j k)"
  by (induction a b i j k rule: extend_left.induct) (auto simp: block_in_def)

lemma common_prefix_le: "common_prefix xs ys \<le> length xs \<and> common_prefix xs ys \<le> length ys"
  by (induction xs ys rule: common_prefix.induct) auto

lemma longest_match_in: "block_in (length a) (length b) (longest_match popular a b)"
proof -
  obtain i j k where m: "match_rows popular b 0 a [] (0, 0, 0) = (i, j, k)" by (rule prod_cases3)
  obtain i' j' k' where e: "extend_left a b i j k = (i', j', k')" by (rule prod_cases3)
  have "block_in (length a) (length b) (i', j', k')"
    using match_rows_in [of 0 "[]" b "(0, 0, 0)" a popular] extend_left_in [of "length a" "length b" i j k a b]
    by (simp add: m e cells_in_def block_in_def)
  then show ?thesis
    using common_prefix_le [of "drop (i' + k') a" "drop (j' + k') b"]
    by (auto simp: longest_match_def m e block_in_def)
qed

lemma longest_match_shrinks:
  assumes "(i, j, k) = longest_match popular a b" "k \<noteq> 0"
  shows "length (take i a) < length a" "length (drop (i + k) a) < length a"
  using longest_match_in [of a b popular] assms by (cases "longest_match popular a b"; auto simp: block_in_def)+

text \<open>The characters of all matching blocks: the longest match, and those on either side of it.\<close>

function matched_chars :: "string \<Rightarrow> string \<Rightarrow> string \<Rightarrow> nat" where
  "matched_chars popular a b =
     (case longest_match popular a b of
        (i, j, k) \<Rightarrow>
          if k = 0 then 0
          else matched_chars popular (take i a) (take j b) + k +
               matched_chars popular (drop (i + k) a) (drop (j + k) b))"
  by pat_completeness auto
termination
  by (relation "measure (\<lambda>(popular, a, b). length a)")
    (auto dest: longest_match_shrinks simp del: length_take length_drop)

declare matched_chars.simps [simp del]

lemma matched_chars_le: "matched_chars popular a b \<le> length a \<and> matched_chars popular a b \<le> length b"
proof (induction popular a b rule: matched_chars.induct)
  case (1 popular a b)
  obtain i j k where m: "longest_match popular a b = (i, j, k)" by (rule prod_cases3)
  have "i + k \<le> length a" "j + k \<le> length b"
    using longest_match_in [of a b popular] by (simp_all add: m block_in_def)
  then show ?case
    using 1 [OF m [symmetric] refl] by (subst (1 2) matched_chars.simps) (auto simp: m)
qed

text \<open>The ratio is twice the matched characters over all characters; two empty strings are alike.\<close>

definition sequence_ratio :: "string \<Rightarrow> string \<Rightarrow> rat" where
  "sequence_ratio a b =
     (if a = [] \<and> b = [] then 1
      else fl (of_nat (2 * matched_chars (popular_chars b) a b) / of_nat (length a + length b)))"

section \<open>Words\<close>

fun words_from :: "string \<Rightarrow> string \<Rightarrow> string list" where
  "words_from w [] = (if w = [] then [] else [rev w])"
| "words_from w (c # s) =
     (if py_space c then (if w = [] then words_from [] s else rev w # words_from [] s) else words_from (c # w) s)"

definition py_split :: "string \<Rightarrow> string list" where
  "py_split s = words_from [] s"

section \<open>Times\<close>

record datetime =
  dt_year :: int
  dt_month :: int
  dt_day :: int
  dt_hour :: int
  dt_minute :: int
  dt_second :: int
  dt_micro :: int

definition dt_micros :: "datetime \<Rightarrow> int" where
  "dt_micros t =
     ((days_before_year (dt_year t) + days_before_month (dt_year t) (dt_month t) + dt_day t) * 86400 +
      dt_hour t * 3600 + dt_minute t * 60 + dt_second t) * 1000000 + dt_micro t"

definition pad_digits :: "nat \<Rightarrow> int \<Rightarrow> string" where
  "pad_digits n i = (let s = int_str i in replicate (n - length s) (CHR ''0'') @ s)"

definition dt_isoformat :: "datetime \<Rightarrow> string" where
  "dt_isoformat t =
     pad_digits 4 (dt_year t) @ ''-'' @ pad_digits 2 (dt_month t) @ ''-'' @ pad_digits 2 (dt_day t) @ ''T'' @
     pad_digits 2 (dt_hour t) @ '':'' @ pad_digits 2 (dt_minute t) @ '':'' @ pad_digits 2 (dt_second t) @
     (if dt_micro t = 0 then [] else ''.'' @ pad_digits 6 (dt_micro t))"

text \<open>A moment some microseconds later: outside the years 1 to 9999 it raises.\<close>

definition dt_shift :: "int \<Rightarrow> int \<Rightarrow> int option" where
  "dt_shift m d = (if 86400000000 \<le> m + d \<and> m + d < 3652060 * 86400000000 then Some (m + d) else None)"

text \<open>The number a component spells, when it has at most so many digits and lies in the range.\<close>

definition component :: "nat \<Rightarrow> int \<Rightarrow> int \<Rightarrow> string \<Rightarrow> int option" where
  "component n lo hi s =
     (if s \<noteq> [] \<and> length s \<le> n \<and> list_all is_digit s \<and> lo \<le> digits_val s \<and> digits_val s \<le> hi
      then Some (digits_val s) else None)"

definition day_component :: "string \<Rightarrow> int option" where
  "day_component s =
     (case s of c # r \<Rightarrow> if c = CHR '' '' then component 1 1 9 r else component 2 1 31 s | [] \<Rightarrow> None)"

definition make_datetime :: "int \<Rightarrow> int \<Rightarrow> int \<Rightarrow> int \<Rightarrow> int \<Rightarrow> int \<Rightarrow> int \<Rightarrow> datetime option" where
  "make_datetime y m d h mi s us =
     (if date_ordinal y m d = None \<or> s > 59 then None
      else Some \<lparr>dt_year = y, dt_month = m, dt_day = d, dt_hour = h, dt_minute = mi, dt_second = s, dt_micro = us\<rparr>)"

text \<open>Up to the first separator, and after it.\<close>

definition break_at :: "(char \<Rightarrow> bool) \<Rightarrow> string \<Rightarrow> (string \<times> string) option" where
  "break_at p s = (case dropWhile (\<lambda>c. \<not> p c) s of [] \<Rightarrow> None | c # r \<Rightarrow> Some (takeWhile (\<lambda>c. \<not> p c) s, r))"

definition parse_ymd :: "string \<Rightarrow> (int \<times> int \<times> int) option" where
  "parse_ymd s =
     do { (ys, r) \<leftarrow> break_at (\<lambda>c. c = CHR ''-'') s;
          (ms, ds) \<leftarrow> break_at (\<lambda>c. c = CHR ''-'') r;
          y \<leftarrow> (if length ys = 4 then component 4 0 9999 ys else None);
          m \<leftarrow> component 2 1 12 ms;
          d \<leftarrow> day_component ds;
          Some (y, m, d) }"

definition parse_hms :: "string \<Rightarrow> (int \<times> int \<times> int) option" where
  "parse_hms s =
     do { (hs, r) \<leftarrow> break_at (\<lambda>c. c = CHR '':'') s;
          (ms, ss) \<leftarrow> break_at (\<lambda>c. c = CHR '':'') r;
          h \<leftarrow> component 2 0 23 hs;
          m \<leftarrow> component 2 0 59 ms;
          sec \<leftarrow> component 2 0 61 ss;
          Some (h, m, sec) }"

text \<open>The fraction of a second: up to six digits, filled with zeros on the right.\<close>

definition parse_fraction :: "string \<Rightarrow> int option" where
  "parse_fraction s =
     do { n \<leftarrow> component 6 0 999999 s; Some (n * 10 ^ (6 - length s)) }"

text \<open>The formats with \<^verbatim>\<open>T\<close>, without and with a fraction; with blanks; and a date alone. The letter
  may be small.\<close>

definition strptime_t :: "string \<Rightarrow> datetime option" where
  "strptime_t s =
     do { (ds, ts) \<leftarrow> break_at (\<lambda>c. c \<in> set ''Tt'') s;
          (y, m, d) \<leftarrow> parse_ymd ds;
          (h, mi, sec) \<leftarrow> parse_hms ts;
          make_datetime y m d h mi sec 0 }"

definition strptime_tf :: "string \<Rightarrow> datetime option" where
  "strptime_tf s =
     do { (ds, ts) \<leftarrow> break_at (\<lambda>c. c \<in> set ''Tt'') s;
          (ts, fs) \<leftarrow> break_at (\<lambda>c. c = CHR ''.'') ts;
          (y, m, d) \<leftarrow> parse_ymd ds;
          (h, mi, sec) \<leftarrow> parse_hms ts;
          us \<leftarrow> parse_fraction fs;
          make_datetime y m d h mi sec us }"

text \<open>A blank after the second hyphen belongs to the day.\<close>

definition strptime_blank :: "string \<Rightarrow> datetime option" where
  "strptime_blank s =
     do { (ys, r) \<leftarrow> break_at (\<lambda>c. c = CHR ''-'') s;
          (ms, r) \<leftarrow> break_at (\<lambda>c. c = CHR ''-'') r;
          let lead = (case r of c # r' \<Rightarrow> if c = CHR '' '' then [c] else [] | [] \<Rightarrow> []);
          (ds, ts) \<leftarrow> break_at py_space (drop (length lead) r);
          (y, m, d) \<leftarrow> parse_ymd (ys @ ''-'' @ ms @ ''-'' @ lead @ ds);
          (h, mi, sec) \<leftarrow> parse_hms (dropWhile py_space ts);
          make_datetime y m d h mi sec 0 }"

definition strptime_date :: "string \<Rightarrow> datetime option" where
  "strptime_date s = do { (y, m, d) \<leftarrow> parse_ymd s; make_datetime y m d 0 0 0 0 }"

fun first_some :: "('a \<Rightarrow> 'b option) list \<Rightarrow> 'a \<Rightarrow> 'b option" where
  "first_some [] x = None"
| "first_some (f # fs) x = (case f x of None \<Rightarrow> first_some fs x | Some y \<Rightarrow> Some y)"

section \<open>Helpers of the module\<close>

definition text_similarity :: "string \<Rightarrow> string \<Rightarrow> rat" where
  "text_similarity a b =
     (if a = [] \<or> b = [] then 0 else sequence_ratio (py_strip (py_lower a)) (py_strip (py_lower b)))"

definition safe_str :: "json \<Rightarrow> string" where
  "safe_str j = (case j of JNull \<Rightarrow> [] | _ \<Rightarrow> py_strip (py_str j))"

text \<open>An integer too large for a float raises, which the handler does not catch.\<close>

definition safe_float :: "json \<Rightarrow> pyfloat option" where
  "safe_float j =
     (case py_float j of Inr x \<Rightarrow> Some x | Inl e \<Rightarrow> (if e = OverflowError then None else Some (Fin 0)))"

definition parse_datetime :: "json \<Rightarrow> datetime option" where
  "parse_datetime j =
     (if \<not> json_truthy j then None
      else first_some [strptime_t, strptime_tf, strptime_blank, strptime_date] (py_strip (py_str j)))"

definition extract_activities :: "string \<Rightarrow> string list" where
  "extract_activities s =
     remdups (filter (\<lambda>w. length w > 2)
       (py_split (map (\<lambda>c. if c \<in> set '',._-'' then CHR '' '' else c) (py_lower s))))"

end
