(* ===== verification/Pack_Links.thy ===== *)
theory Pack_Links
  imports Pack_Text
begin

text \<open>
  The linkers of the cross-pack reconciliation, \<^verbatim>\<open>app/domain_packs/reconciliation.py\<close>: contracts with
  work orders and work orders with incidents, and the conflicts between them. All data are untyped
  dictionaries; a raise is \<open>None\<close>. A set of strings is a list without repetition.
\<close>

section \<open>Links and conflicts\<close>

record plane_link =
  pl_source_domain :: string
  pl_source_id :: string
  pl_target_domain :: string
  pl_target_id :: string
  pl_link_type :: string
  pl_confidence :: rat
  pl_metadata :: "(string, json) dict"

record plane_conflict =
  xc_field :: string
  xc_domain_a :: string
  xc_value_a :: string
  xc_domain_b :: string
  xc_value_b :: string
  xc_severity :: string
  xc_resolution :: string

abbreviation (input) "dom_contract \<equiv> ''contract_margin''"
abbreviation (input) "dom_field \<equiv> ''utilities_field''"
abbreviation (input) "dom_ops \<equiv> ''telco_ops''"

definition similarity_threshold :: rat where
  "similarity_threshold = fl (55 / 100)"

definition conflict :: "string \<Rightarrow> string \<Rightarrow> string \<Rightarrow> string \<Rightarrow> string \<Rightarrow> string \<Rightarrow> string \<Rightarrow> plane_conflict" where
  "conflict field da va db vb severity resolution =
     \<lparr>xc_field = field, xc_domain_a = da, xc_value_a = va, xc_domain_b = db, xc_value_b = vb,
      xc_severity = severity, xc_resolution = resolution\<rparr>"

text \<open>Fields with defaults, as strings; a list of dictionaries; the activities of a scope boundary.\<close>

definition field :: "(string, json) dict \<Rightarrow> string \<Rightarrow> json" where
  "field d k = dget_default d k (JStr [])"

definition str_of :: "(string, json) dict \<Rightarrow> string \<Rightarrow> string" where
  "str_of d k = safe_str (field d k)"

definition float_of :: "(string, json) dict \<Rightarrow> string \<Rightarrow> json \<Rightarrow> pyfloat option" where
  "float_of d k dflt = safe_float (dget_default d k dflt)"

definition dict_items :: "json \<Rightarrow> (string, json) dict list option" where
  "dict_items j = do { xs \<leftarrow> as_items j; each as_obj xs }"

definition listed :: "(string, json) dict \<Rightarrow> string \<Rightarrow> json" where
  "listed d k = dget_default d k (JList [])"

definition boundary_activities :: "(string, json) dict \<Rightarrow> string list option" where
  "boundary_activities ob =
     do { xs \<leftarrow> as_items (listed ob ''activities'');
          ys \<leftarrow> each as_str xs;
          Some (remdups (map (py_strip \<circ> py_lower) ys)) }"

definition overlap_of :: "string list \<Rightarrow> string list \<Rightarrow> string list" where
  "overlap_of xs ys = filter (\<lambda>x. x \<in> set ys) xs"

definition token_score :: "string list \<Rightarrow> string list \<Rightarrow> rat" where
  "token_score tokens overlap =
     (if tokens = [] then 0 else fl (of_nat (length overlap) / of_nat (max (length tokens) 1)))"

definition sorted_strings :: "string list \<Rightarrow> string list" where
  "sorted_strings xs = sort (remdups xs)"

section \<open>Contracts and work orders\<close>

definition link_to_order :: "string \<Rightarrow> string \<Rightarrow> string \<Rightarrow> rat \<Rightarrow> (string, json) dict \<Rightarrow> plane_link" where
  "link_to_order src wo_id ty score meta =
     \<lparr>pl_source_domain = dom_contract, pl_source_id = src, pl_target_domain = dom_field, pl_target_id = wo_id,
      pl_link_type = ty, pl_confidence = py_round (min score 1) 3, pl_metadata = meta\<rparr>"

definition or_text :: "string \<Rightarrow> string \<Rightarrow> string" where
  "or_text a b = (if a \<noteq> [] then a else b)"

definition contract_object_type :: "(string, json) dict \<Rightarrow> string" where
  "contract_object_type ob = safe_str (dget_default ob ''type'' (field ob ''object_type''))"

definition contract_object_id :: "(string, json) dict \<Rightarrow> string" where
  "contract_object_id ob =
     safe_str (dget_default ob ''id'' (dget_default ob ''clause_id'' (field ob ''activity'')))"

definition has_key :: "(string, json) dict \<Rightarrow> string \<Rightarrow> bool" where
  "has_key d k = (dget d k \<noteq> None)"

definition rate_link :: "(string, json) dict \<Rightarrow> (string, json) dict \<Rightarrow> plane_link list" where
  "rate_link wo ob =
     (let activity = str_of ob ''activity'';
          sim = text_similarity activity (str_of wo ''description'');
          tokens = extract_activities activity;
          score = max sim (token_score tokens (overlap_of tokens (extract_activities (str_of wo ''description''))))
      in if (contract_object_type ob \<in> {''rate_card'', ''rate''} \<or> has_key ob ''activity'') \<and> activity \<noteq> [] \<and>
            score \<ge> similarity_threshold
         then [link_to_order (or_text (contract_object_id ob) activity) (str_of wo ''work_order_id'')
                 ''rate_card_to_activity'' score
                 [(''activity'', JStr activity), (''rate'', dget_default ob ''rate'' JNull),
                  (''unit'', dget_default ob ''unit'' JNull), (''similarity'', JNum (py_round score 3))]]
         else [])"

definition obligation_link :: "(string, json) dict \<Rightarrow> (string, json) dict \<Rightarrow> plane_link list" where
  "obligation_link wo ob =
     (let desc = str_of ob ''description''; wo_type = str_of wo ''work_order_type'';
          score = max (text_similarity desc wo_type) (text_similarity desc (str_of wo ''description''))
      in if (contract_object_type ob = ''obligation'' \<or> has_key ob ''description'' \<and> has_key ob ''due_type'') \<and>
            score \<ge> similarity_threshold
         then [link_to_order (or_text (contract_object_id ob) (take 60 desc)) (str_of wo ''work_order_id'')
                 ''obligation_to_work_order'' score
                 [(''obligation_description'', JStr desc), (''wo_type'', JStr wo_type),
                  (''similarity'', JNum (py_round score 3))]]
         else [])"

definition scope_link :: "(string, json) dict \<Rightarrow> (string, json) dict \<Rightarrow> plane_link list option" where
  "scope_link wo ob =
     (if contract_object_type ob \<in> {''scope'', ''scope_boundary''} \<or> has_key ob ''scope_type''
      then do { activities \<leftarrow> boundary_activities ob;
                let desc = str_of ob ''description'';
                let overlap = overlap_of activities (extract_activities (str_of wo ''description''));
                let score = max (text_similarity desc (str_of wo ''description'')) (token_score activities overlap);
                Some (if score \<ge> similarity_threshold
                      then [link_to_order (or_text (contract_object_id ob) (take 60 desc)) (str_of wo ''work_order_id'')
                              ''scope_boundary_to_work_order'' score
                              [(''scope_type'', JStr (str_of ob ''scope_type'')),
                               (''overlapping_activities'', JList (map JStr (sorted_strings overlap))),
                               (''similarity'', JNum (py_round score 3))]]
                      else []) }
      else Some [])"

definition contract_links :: "(string, json) dict list \<Rightarrow> (string, json) dict \<Rightarrow> plane_link list option" where
  "contract_links objects wo =
     map_option concat
       (each (\<lambda>ob. do { scope \<leftarrow> scope_link wo ob; Some (rate_link wo ob @ obligation_link wo ob @ scope) }) objects)"

text \<open>A rate differs by more than one percent of the contract's.\<close>

definition rate_conflict :: "pyfloat \<Rightarrow> pyfloat \<Rightarrow> (pyfloat \<times> string) option" where
  "rate_conflict contract_rate other =
     (let diff = pf_abs (pf_sub contract_rate other)
      in if pf_less (pf_mul contract_rate (Fin (fl (1 / 100)))) diff
         then Some (diff, if pf_less (Fin (fl (1 / 10))) (pf_div diff contract_rate) then ''critical'' else ''warning'')
         else None)"

definition linked_rate_conflict :: "(string, json) dict \<Rightarrow> plane_link \<Rightarrow> plane_conflict list option" where
  "linked_rate_conflict wo ln_k =
     (if pl_link_type ln_k = ''rate_card_to_activity''
      then do { wo_rate \<leftarrow> float_of wo ''rate'' JNull;
                c \<leftarrow> float_of (pl_metadata ln_k) ''rate'' JNull;
                Some (if pf_less (Fin 0) c \<and> pf_less (Fin 0) wo_rate
                      then (case rate_conflict c wo_rate of
                              None \<Rightarrow> []
                            | Some (diff, severity) \<Rightarrow>
                                [conflict ''rate'' dom_contract (pf_str c) dom_field (pf_str wo_rate) severity
                                   (''Review rate card against work order pricing. Difference of '' @ fixed_str 2 diff @
                                    '' detected.'')])
                      else []) }
      else Some [])"

definition scope_conflict_of :: "(string, json) dict \<Rightarrow> (string, json) dict \<Rightarrow> plane_conflict list option" where
  "scope_conflict_of wo ob =
     (if str_of ob ''scope_type'' = ''out_of_scope''
      then do { activities \<leftarrow> boundary_activities ob;
                let overlap = overlap_of activities (extract_activities (str_of wo ''description''));
                Some (if overlap \<noteq> []
                      then [conflict ''scope'' dom_contract (''out_of_scope: '' @ comma_join (sorted_strings overlap))
                              dom_field (take 120 (str_of wo ''description'')) ''error''
                              (''Work order references activities marked out-of-scope in the contract. '' @
                               ''Raise a scope clarification or change order before proceeding.'')]
                      else []) }
      else Some [])"

definition coverage_conflict ::
  "(string, json) dict \<Rightarrow> string list \<Rightarrow> (string, json) dict \<Rightarrow> plane_conflict list" where
  "coverage_conflict wo linked ob =
     (let ob_id = safe_str (dget_default ob ''clause_id'' (field ob ''id''));
          status = safe_str (dget_default ob ''status'' (JStr ''active''));
          desc = str_of ob ''description''
      in if status = ''active'' \<and> ob_id \<notin> set linked \<and>
            text_similarity desc (str_of wo ''description'') \<ge> fl (30 / 100)
         then [conflict ''obligation_coverage'' dom_contract (take 120 desc) dom_field
                 (''work_order:'' @ py_str (field wo ''work_order_id'')) ''warning''
                 (''Active obligation may not be addressed by the current work order. '' @ ''Verify compliance.'')]
         else [])"

definition contract_conflicts ::
  "plane_link list \<Rightarrow> (string, json) dict \<Rightarrow> (string, json) dict \<Rightarrow> plane_conflict list option" where
  "contract_conflicts ls contract wo =
     do { wo_rate \<leftarrow> float_of wo ''rate'' JNull;
          rates \<leftarrow> each (linked_rate_conflict wo) ls;
          boundaries \<leftarrow> dict_items (listed contract ''scope_boundaries'');
          scopes \<leftarrow> each (scope_conflict_of wo) boundaries;
          obligations \<leftarrow> dict_items (listed contract ''obligations'');
          let linked = map pl_source_id (filter (\<lambda>l. pl_link_type l = ''obligation_to_work_order'') ls);
          Some (concat rates @ concat scopes @ concat (map (coverage_conflict wo linked) obligations)) }"

section \<open>Work orders and incidents\<close>

definition window_micros :: int where
  "window_micros = 48 * 3600 * 1000000"

definition start_of :: "(string, json) dict \<Rightarrow> datetime option" where
  "start_of wo =
     parse_datetime (let d = dget_default wo ''scheduled_date'' JNull
                     in if json_truthy d then d else dget_default wo ''scheduled_start'' JNull)"

definition end_of :: "(string, json) dict \<Rightarrow> datetime option" where
  "end_of wo = parse_datetime (dget_default wo ''scheduled_end'' JNull)"

definition created_of :: "(string, json) dict \<Rightarrow> datetime option" where
  "created_of inc = parse_datetime (dget_default inc ''created_at'' JNull)"

definition service_match :: "(string, json) dict \<Rightarrow> (string, json) dict \<Rightarrow> bool option" where
  "service_match wo inc =
     do { xs \<leftarrow> as_items (listed inc ''affected_services'');
          svcs \<leftarrow> each as_str xs;
          Some (list_ex (\<lambda>s. s \<noteq> [] \<and> (py_substring s (py_lower (str_of wo ''description'')) \<or>
                                       py_substring s (py_lower (str_of wo ''location''))))
                  (map (py_strip \<circ> py_lower) svcs)) }"

text \<open>The confidence a location match adds: the same site, or similar locations.\<close>

definition location_signal :: "(string, json) dict \<Rightarrow> (string, json) dict \<Rightarrow> rat option" where
  "location_signal wo inc =
     (let a = str_of wo ''site_id''; b = str_of inc ''site_id''; l = str_of wo ''location''; m = str_of inc ''location''
      in if a \<noteq> [] \<and> b \<noteq> [] \<and> py_lower a = py_lower b then Some (fl (30 / 100))
         else if l \<noteq> [] \<and> m \<noteq> [] \<and> text_similarity l m \<ge> similarity_threshold
         then Some (fl (fl (30 / 100) * text_similarity l m))
         else None)"

definition time_match :: "(string, json) dict \<Rightarrow> (string, json) dict \<Rightarrow> bool option" where
  "time_match wo inc =
     (case (start_of wo, created_of inc) of
        (Some s, Some c) \<Rightarrow>
          do { later \<leftarrow> dt_shift (dt_micros s) window_micros;
               earlier \<leftarrow> dt_shift (dt_micros s) (- window_micros);
               let until = (case end_of wo of None \<Rightarrow> later | Some e \<Rightarrow> max (dt_micros e) later);
               Some (earlier \<le> dt_micros c \<and> dt_micros c \<le> until) }
      | _ \<Rightarrow> Some False)"

definition description_similarity :: "(string, json) dict \<Rightarrow> (string, json) dict \<Rightarrow> rat" where
  "description_similarity wo inc =
     max (text_similarity (str_of wo ''description'') (str_of inc ''description''))
         (text_similarity (str_of wo ''description'') (str_of inc ''title''))"

definition link_signals :: "bool \<Rightarrow> rat option \<Rightarrow> bool \<Rightarrow> rat \<Rightarrow> rat list" where
  "link_signals service location time_ok desc_sim =
     (if service then [fl (35 / 100)] else []) @
     (case location of None \<Rightarrow> [] | Some x \<Rightarrow> [x]) @
     (if time_ok then [fl (25 / 100)] else []) @
     (if desc_sim \<ge> similarity_threshold then [fl (fl (10 / 100) * desc_sim)] else [])"

definition float_total :: "rat list \<Rightarrow> rat" where
  "float_total xs = foldl (\<lambda>s x. fl (s + x)) 0 xs"

definition incident_link :: "(string, json) dict \<Rightarrow> (string, json) dict \<Rightarrow> plane_link list option" where
  "incident_link wo inc =
     do { service \<leftarrow> service_match wo inc;
          time_ok \<leftarrow> time_match wo inc;
          let location = location_signal wo inc;
          let desc_sim = description_similarity wo inc;
          let signals = link_signals service location time_ok desc_sim;
          Some (if length signals \<ge> 2
                then [\<lparr>pl_source_domain = dom_field, pl_source_id = str_of wo ''work_order_id'',
                       pl_target_domain = dom_ops, pl_target_id = str_of inc ''incident_id'',
                       pl_link_type = ''work_order_to_incident'',
                       pl_confidence = py_round (min (float_total signals) 1) 3,
                       pl_metadata = [(''service_match'', JBool service), (''location_match'', JBool (location \<noteq> None)),
                         (''time_match'', JBool time_ok), (''description_similarity'', JNum (py_round desc_sim 3))]\<rparr>]
                else []) }"

definition incident_links :: "(string, json) dict \<Rightarrow> (string, json) dict list \<Rightarrow> plane_link list option" where
  "incident_links wo incidents = map_option concat (each (incident_link wo) incidents)"

text \<open>The incidents of the data: a list of them, a single one, or the data themselves.\<close>

definition incidents_of :: "(string, json) dict \<Rightarrow> (string, json) dict list option" where
  "incidents_of data =
     (case dget_default data ''incidents'' (JList [JObj data]) of JList xs \<Rightarrow> each as_obj xs | j \<Rightarrow> each as_obj [j])"

text \<open>Hours between two moments: the seconds are a float, then divided.\<close>

definition hours_between :: "int \<Rightarrow> int \<Rightarrow> rat" where
  "hours_between a b = fl (fl (of_int (b - a) / 1000000) / 3600)"

definition timing_conflict :: "(string, json) dict \<Rightarrow> (string, json) dict \<Rightarrow> plane_conflict list" where
  "timing_conflict wo inc =
     (case (start_of wo, created_of inc) of
        (Some s, Some c) \<Rightarrow>
          if dt_micros s < dt_micros c
          then (let gap = hours_between (dt_micros s) (dt_micros c)
                in if gap > 48
                   then [conflict ''timing'' dom_field (dt_isoformat s) dom_ops (dt_isoformat c) ''warning''
                           (''Incident was created '' @ fixed_str 1 (Fin gap) @
                            ''h after work order start. Verify causal relationship.'')]
                   else [])
          else (case end_of wo of
                  None \<Rightarrow> []
                | Some e \<Rightarrow>
                    if dt_micros e < dt_micros c
                    then [conflict ''timing'' dom_field (dt_isoformat e) dom_ops (dt_isoformat c) ''error''
                            (''Incident was created after the work order ended ('' @
                             fixed_str 1 (Fin (hours_between (dt_micros e) (dt_micros c))) @
                             ''h later). May indicate a post-completion fault.'')]
                    else [])
      | _ \<Rightarrow> [])"

definition ownership_conflict :: "(string, json) dict \<Rightarrow> (string, json) dict \<Rightarrow> plane_conflict list" where
  "ownership_conflict wo inc =
     (let a = safe_str (dget_default wo ''assigned_to'' (field wo ''engineer'')); b = str_of inc ''assigned_to''
      in if a \<noteq> [] \<and> b \<noteq> [] \<and> py_lower a \<noteq> py_lower b
         then [conflict ''ownership'' dom_field a dom_ops b ''warning''
                 (''Work order and incident are assigned to different owners. '' @
                  ''Align ownership to avoid coordination gaps.'')]
         else [])"

definition expected_priorities :: "string \<Rightarrow> string list" where
  "expected_priorities severity =
     dget_default
       [(''p1'', [''emergency'', ''critical'', ''high'']), (''p2'', [''high'', ''urgent'']),
        (''p3'', [''normal'', ''medium'']), (''p4'', [''low''])] severity []"

definition priority_conflict :: "(string, json) dict \<Rightarrow> (string, json) dict \<Rightarrow> plane_conflict list" where
  "priority_conflict wo inc =
     (let sev = str_of inc ''severity''; pri = str_of wo ''priority''; expected = expected_priorities sev
      in if expected \<noteq> [] \<and> py_lower pri \<notin> set expected
         then [conflict ''severity_priority_alignment'' dom_ops (''severity='' @ sev) dom_field (''priority='' @ pri)
                 ''warning''
                 (''Incident severity '' @ quote sev @ '' does not align with work order priority '' @ quote pri @
                  ''. Review escalation.'')]
         else [])"

definition incident_conflicts ::
  "plane_link list \<Rightarrow> (string, json) dict \<Rightarrow> (string, json) dict \<Rightarrow> plane_conflict list option" where
  "incident_conflicts ls wo data =
     do { incidents \<leftarrow> incidents_of data;
          let table = foldl (\<lambda>d inc. if str_of inc ''incident_id'' \<noteq> [] then dput (str_of inc ''incident_id'') inc d else d)
                        [] incidents;
          Some (concat (map (\<lambda>l. if pl_link_type l = ''work_order_to_incident''
                                then (case dget table (pl_target_id l) of
                                        None \<Rightarrow> []
                                      | Some inc \<Rightarrow> timing_conflict wo inc @ ownership_conflict wo inc @ priority_conflict wo inc)
                                else []) ls)) }"

end
