(* ===== verification/Pack_Evidence.thy ===== *)
theory Pack_Evidence
  imports Pack_Links
begin

text \<open>
  The evidence side of \<^verbatim>\<open>app/domain_packs/reconciliation.py\<close>: the three assemblers, the reconciler of two
  or three planes, and the check that a chain of evidence is complete. The identifier of a bundle is a
  draw of the caller.
\<close>

section \<open>Bundles\<close>

record evidence_item =
  ei_domain :: string
  ei_type :: string
  ei_id :: string
  ei_summary :: string
  ei_severity :: "string option"
  ei_impact_level :: "string option"
  ei_data :: "(string, json) dict"

record plane_evidence =
  eb_bundle_id :: uuid
  eb_domains :: "string list"
  eb_evidence_items :: "evidence_item list"
  eb_total_items :: nat
  eb_confidence :: rat

definition item :: "string \<Rightarrow> string \<Rightarrow> string \<Rightarrow> string \<Rightarrow> (string, json) dict \<Rightarrow> evidence_item" where
  "item area ty ident summary data =
     \<lparr>ei_domain = area, ei_type = ty, ei_id = ident, ei_summary = summary, ei_severity = None,
      ei_impact_level = None, ei_data = data\<rparr>"

definition make_bundle :: "uuid \<Rightarrow> string list \<Rightarrow> evidence_item list \<Rightarrow> rat \<Rightarrow> plane_evidence" where
  "make_bundle ident domains items score =
     \<lparr>eb_bundle_id = ident, eb_domains = domains, eb_evidence_items = items, eb_total_items = length items,
      eb_confidence = py_round score 3\<rparr>"

text \<open>Adding to a score, rounding as floats do.\<close>

definition plus_if :: "bool \<Rightarrow> rat \<Rightarrow> rat \<Rightarrow> rat" where
  "plus_if b x score = (if b then fl (score + x) else score)"

section \<open>Margin evidence\<close>

definition margin_confidence :: "evidence_item list \<Rightarrow> bool \<Rightarrow> rat" where
  "margin_confidence items has_triggers =
     (if items = [] then 0
      else (let n = length (remdups (map ei_domain items));
                base = fl (fl (30 / 100) * min (fl (of_nat n / 2)) 1);
                has_contract = list_ex (\<lambda>i. ei_domain i = dom_contract \<and> ei_type i \<noteq> ''leakage_trigger'') items;
                has_work = list_ex (\<lambda>i. ei_domain i = dom_field) items
            in min (plus_if has_triggers (fl (20 / 100))
                      (plus_if has_work (1 / 4) (plus_if has_contract (1 / 4) base))) 1))"

definition contract_item :: "(string, json) dict \<Rightarrow> evidence_item" where
  "contract_item ob =
     item dom_contract
       (safe_str (dget_default ob ''type'' (dget_default ob ''object_type'' (JStr ''contract_object''))))
       (contract_object_id ob) (take 200 (safe_str (dget_default ob ''description'' (field ob ''activity'')))) ob"

definition order_item :: "(string, json) dict \<Rightarrow> evidence_item" where
  "order_item wo =
     item dom_field ''work_order'' (str_of wo ''work_order_id'') (take 200 (str_of wo ''description'')) wo"

definition trigger_item :: "(string, json) dict \<Rightarrow> evidence_item" where
  "trigger_item t =
     (item dom_contract ''leakage_trigger'' (str_of t ''trigger_type'') (take 200 (str_of t ''description'')) t)
       \<lparr>ei_severity := Some (safe_str (dget_default t ''severity'' (JStr ''medium'')))\<rparr>"

definition assemble_margin ::
  "uuid \<Rightarrow> (string, json) dict list \<Rightarrow> (string, json) dict list \<Rightarrow> (string, json) dict list \<Rightarrow> plane_evidence" where
  "assemble_margin ident objects orders triggers =
     (let items = map contract_item objects @ map order_item orders @ map trigger_item triggers
      in make_bundle ident (sorted_strings (map ei_domain items)) items (margin_confidence items (triggers \<noteq> [])))"

section \<open>Readiness evidence\<close>

definition readiness_confidence :: "(string, json) dict list \<Rightarrow> bool \<Rightarrow> rat" where
  "readiness_confidence blockers fits =
     (let score = (if fits then 3 / 4 else fl (1 / 2 - fl (15 / 100)));
          n = length (filter (\<lambda>b. py_lower (str_of b ''severity'') \<in> {''error'', ''critical''}) blockers);
          score = (if blockers = [] then fl (score + 1 / 4) else fl (score - fl (fl (10 / 100) * of_nat (min n 3))))
      in max (min score 1) 0)"

definition blocker_item :: "(string, json) dict \<Rightarrow> evidence_item" where
  "blocker_item b =
     (item dom_field ''blocker'' (str_of b ''blocker_type'') (take 200 (str_of b ''description'')) b)
       \<lparr>ei_severity := Some (safe_str (dget_default b ''severity'' (JStr ''error'')))\<rparr>"

definition assemble_readiness ::
  "uuid \<Rightarrow> (string, json) dict \<Rightarrow> (string, json) dict \<Rightarrow> (string, json) dict list \<Rightarrow> (string, json) dict
     \<Rightarrow> plane_evidence" where
  "assemble_readiness ident wo engineer blockers fitness =
     (let fits = json_truthy (dget_default fitness ''fit'' JNull);
          items = [order_item wo,
            item dom_field ''engineer_profile'' (str_of engineer ''engineer_id'') (str_of engineer ''name'') engineer] @
            map blocker_item blockers @
            [item dom_field ''skill_fit'' ''skill_fit_analysis'' (if fits then ''fit'' else ''no_fit'') fitness]
      in make_bundle ident [dom_field] items (readiness_confidence blockers fits))"

section \<open>Operations evidence\<close>

definition incident_item :: "(string, json) dict \<Rightarrow> evidence_item" where
  "incident_item inc =
     (item dom_ops ''incident'' (str_of inc ''incident_id'')
        (take 200 (safe_str (dget_default inc ''title'' (field inc ''description'')))) inc)
       \<lparr>ei_severity := Some (str_of inc ''severity'')\<rparr>"

definition service_item :: "(string, json) dict \<Rightarrow> evidence_item" where
  "service_item svc =
     (item dom_ops ''service_state'' (str_of svc ''service_id'')
        (str_of svc ''service_name'' @ '' ['' @ str_of svc ''state'' @ '']'') svc)
       \<lparr>ei_impact_level := Some (str_of svc ''impact_level'')\<rparr>"

text \<open>An optional part: nothing when it is false, and a raise when it is true but no dictionary.\<close>

definition optional_part :: "json \<Rightarrow> (string, json) dict option option" where
  "optional_part j = (if json_truthy j then map_option Some (as_obj j) else Some None)"

definition ops_confidence ::
  "(string, json) dict list \<Rightarrow> (string, json) dict option \<Rightarrow> (string, json) dict option \<Rightarrow> rat" where
  "ops_confidence services escalation action =
     (let reasoned = (\<lambda>d k. case d of None \<Rightarrow> False | Some d \<Rightarrow> json_truthy (dget_default d k JNull))
      in min (plus_if (reasoned action ''action'') (1 / 4)
                (plus_if (reasoned escalation ''reason'') (fl (20 / 100))
                  (plus_if (services \<noteq> []) (1 / 4) (fl (30 / 100))))) 1)"

definition assemble_ops ::
  "uuid \<Rightarrow> (string, json) dict \<Rightarrow> (string, json) dict list \<Rightarrow> json \<Rightarrow> json \<Rightarrow> plane_evidence option" where
  "assemble_ops ident inc services escalation action =
     do { esc \<leftarrow> optional_part escalation;
          act \<leftarrow> optional_part action;
          let items = incident_item inc # map service_item services @
            (case esc of None \<Rightarrow> []
             | Some d \<Rightarrow> [item dom_ops ''escalation_decision'' (safe_str (dget_default d ''level'' (JStr ''none'')))
                            (str_of d ''reason'') d]) @
            (case act of None \<Rightarrow> []
             | Some d \<Rightarrow> [item dom_ops ''next_action'' (str_of d ''action'') (str_of d ''reason'') d]);
          Some (make_bundle ident [dom_ops] items (ops_confidence services esc act)) }"

section \<open>The reconciler of the planes\<close>

record plane_report =
  pr_links :: "plane_link list"
  pr_conflicts :: "plane_conflict list"
  pr_evidence :: plane_evidence

definition with_default_type :: "string \<Rightarrow> json list \<Rightarrow> (string, json) dict list" where
  "with_default_type ty xs =
     concat (map (\<lambda>j. case j of JObj d \<Rightarrow> [if has_key d ''type'' then d else dput ''type'' (JStr ty) d] | _ \<Rightarrow> []) xs)"

definition collect_contract_objects :: "(string, json) dict \<Rightarrow> (string, json) dict list option" where
  "collect_contract_objects contract =
     do { rates \<leftarrow> as_items (listed contract ''rate_card'');
          obligations \<leftarrow> as_items (listed contract ''obligations'');
          scopes \<leftarrow> as_items (listed contract ''scope_boundaries'');
          others \<leftarrow> as_items (listed contract ''control_objects'');
          Some (with_default_type ''rate_card'' rates @ with_default_type ''obligation'' obligations @
                with_default_type ''scope_boundary'' scopes @
                concat (map (\<lambda>j. case j of JObj d \<Rightarrow> [d] | _ \<Rightarrow> []) others)) }"

definition reconcile_contract :: "uuid \<Rightarrow> (string, json) dict \<Rightarrow> (string, json) dict \<Rightarrow> plane_report option" where
  "reconcile_contract ident contract wo =
     do { objects \<leftarrow> collect_contract_objects contract;
          ls \<leftarrow> contract_links objects wo;
          cs \<leftarrow> contract_conflicts ls contract wo;
          triggers \<leftarrow> dict_items (listed contract ''leakage_triggers'');
          Some \<lparr>pr_links = ls, pr_conflicts = cs, pr_evidence = assemble_margin ident objects [wo] triggers\<rparr> }"

definition reconcile_incident :: "uuid \<Rightarrow> (string, json) dict \<Rightarrow> (string, json) dict \<Rightarrow> plane_report option" where
  "reconcile_incident ident wo data =
     do { incidents \<leftarrow> incidents_of data;
          ls \<leftarrow> incident_links wo incidents;
          cs \<leftarrow> incident_conflicts ls wo data;
          services \<leftarrow> dict_items (listed data ''service_states'');
          ev \<leftarrow> assemble_ops ident (case incidents of [] \<Rightarrow> [] | i # is \<Rightarrow> i) services
                  (dget_default data ''escalation'' (JObj [])) (dget_default data ''next_action'' (JObj []));
          Some \<lparr>pr_links = ls, pr_conflicts = cs, pr_evidence = ev\<rparr> }"

text \<open>The three planes together: links, conflicts and evidence of both parts, and the mean confidence.\<close>

record full_report =
  fr_all_links :: "plane_link list"
  fr_all_conflicts :: "plane_conflict list"
  fr_aggregate_evidence :: plane_evidence
  fr_contract_to_wo :: plane_report
  fr_wo_to_incident :: plane_report

definition mean_confidence :: "rat list \<Rightarrow> rat" where
  "mean_confidence cs =
     (let valid = filter (\<lambda>c. c > 0) cs in if valid = [] then 0 else fl (float_total valid / of_nat (length valid)))"

definition full_reconciliation ::
  "uuid \<Rightarrow> uuid \<Rightarrow> uuid \<Rightarrow> (string, json) dict \<Rightarrow> (string, json) dict \<Rightarrow> (string, json) dict \<Rightarrow> full_report option" where
  "full_reconciliation id1 id2 id3 contract wo data =
     do { a \<leftarrow> reconcile_contract id1 contract wo;
          b \<leftarrow> reconcile_incident id2 wo data;
          let items = eb_evidence_items (pr_evidence a) @ eb_evidence_items (pr_evidence b);
          Some \<lparr>fr_all_links = pr_links a @ pr_links b, fr_all_conflicts = pr_conflicts a @ pr_conflicts b,
                fr_aggregate_evidence = make_bundle id3 (sorted_strings (map ei_domain items)) items
                  (mean_confidence [eb_confidence (pr_evidence a), eb_confidence (pr_evidence b)]),
                fr_contract_to_wo = a, fr_wo_to_incident = b\<rparr> }"

section \<open>Evidence chains\<close>

record chain_stage =
  cg_stage :: string
  cg_label :: string
  cg_present :: bool
  cg_severity :: string
  cg_message :: string

definition chain_stages :: "(string \<times> string \<times> string list) list" where
  "chain_stages =
     [(''contract_basis'', ''Contract Basis'', [''rate_card'', ''obligation'', ''contract_object'']),
      (''work_authorization'', ''Work Authorization'', [''work_order'', ''purchase_order'', ''dispatch_precondition'']),
      (''execution_evidence'', ''Execution Evidence'',
       [''completion_certificate'', ''daywork_sheet'', ''field_log'', ''completion_evidence'']),
      (''billing_evidence'', ''Billing Evidence'', [''invoice'', ''billing_gate'', ''billing_confirmation''])]"

definition check_stage :: "string list \<Rightarrow> string \<times> string \<times> string list \<Rightarrow> chain_stage" where
  "check_stage types st =
     (case st of
        (stage, label, required) \<Rightarrow>
          if list_ex (\<lambda>t. t \<in> set required) types
          then \<lparr>cg_stage = stage, cg_label = label, cg_present = True, cg_severity = ''ok'',
                cg_message = label @ '' evidence found.''\<rparr>
          else if stage \<in> {''contract_basis'', ''work_authorization''}
          then \<lparr>cg_stage = stage, cg_label = label, cg_present = False, cg_severity = ''blocker'',
                cg_message = ''Missing '' @ label @ '' -- cannot produce reliable margin diagnosis.''\<rparr>
          else \<lparr>cg_stage = stage, cg_label = label, cg_present = False, cg_severity = ''warning'',
                cg_message = ''Missing '' @ label @ '' -- margin diagnosis may be incomplete.''\<rparr>)"

definition validate_evidence_chain :: "plane_evidence \<Rightarrow> chain_stage list" where
  "validate_evidence_chain ev =
     map (check_stage (map (\<lambda>i. py_lower (py_strip (ei_type i))) (eb_evidence_items ev))) chain_stages"

end
