(* ===== verification/Pack_Diagnosis.thy ===== *)
theory Pack_Diagnosis
  imports Pack_Evidence
begin

text \<open>
  The diagnosis side of \<^verbatim>\<open>app/domain_packs/reconciliation.py\<close>: whether completed work is billable and a
  ticket may be closed, who answers for a missed service level, and the leakage across planes. A raise
  is \<open>None\<close>. A long dash of a message is a hyphen here.
\<close>

section \<open>Shared checks\<close>

text \<open>A true field; the members of a set of untyped values, which must be hashable; a set of strings
  printed in order, which raises when something else is among them.\<close>

definition flagged :: "(string, json) dict \<Rightarrow> string \<Rightarrow> bool" where
  "flagged d k = json_truthy (dget_default d k JNull)"

definition json_set :: "json list \<Rightarrow> json list option" where
  "json_set xs = each as_key xs"

definition json_member :: "json \<Rightarrow> json list \<Rightarrow> bool" where
  "json_member x xs = list_ex (py_eq x) xs"

definition json_minus :: "json list \<Rightarrow> json list \<Rightarrow> json list" where
  "json_minus xs ys = filter (\<lambda>x. \<not> json_member x ys) xs"

definition sorted_names :: "json list \<Rightarrow> string option" where
  "sorted_names xs = map_option (\<lambda>ss. comma_join (sorted_strings ss)) (each as_str xs)"

definition required_evidence :: "(string, json) dict \<Rightarrow> json list option" where
  "required_evidence wo = do { xs \<leftarrow> as_items (listed wo ''required_evidence_types''); json_set xs }"

section \<open>Completed work\<close>

record work_blocker =
  wb_rule :: string
  wb_gate_type :: "json option"
  wb_description :: json
  wb_severity :: string

record billing_outcome =
  bo_billable :: bool
  bo_category :: json
  bo_blockers :: "work_blocker list"
  bo_leakage_triggers :: "(string \<times> string \<times> string) list"

definition work_blocker_of :: "string \<Rightarrow> string \<Rightarrow> work_blocker" where
  "work_blocker_of rule desc = \<lparr>wb_rule = rule, wb_gate_type = None, wb_description = JStr desc, wb_severity = ''error''\<rparr>"

text \<open>The provided evidence: its type, or else its kind.\<close>

definition provided_evidence :: "(string, json) dict list \<Rightarrow> json list option" where
  "provided_evidence evidence =
     json_set (map (\<lambda>e. dget_default e ''evidence_type'' (field e ''type'')) (filter (\<lambda>e. flagged e ''provided'') evidence))"

definition evidence_rule ::
  "(string, json) dict \<Rightarrow> (string, json) dict list \<Rightarrow> billing_outcome \<Rightarrow> billing_outcome option" where
  "evidence_rule wo evidence r =
     do { required \<leftarrow> required_evidence wo;
          provided \<leftarrow> provided_evidence evidence;
          let missing = json_minus required provided;
          if missing = [] then Some r
          else do { names \<leftarrow> sorted_names missing;
                    Some (r\<lparr>bo_billable := False,
                      bo_blockers := bo_blockers r @
                        [work_blocker_of ''missing_completion_evidence'' (''Missing required evidence: '' @ names)],
                      bo_leakage_triggers := bo_leakage_triggers r @
                        [(''incomplete_evidence_prevents_billing'',
                          ''Cannot invoice - missing evidence: '' @ names, ''error'')]\<rparr>) } }"

definition gates_rule :: "(string, json) dict list \<Rightarrow> billing_outcome \<Rightarrow> billing_outcome" where
  "gates_rule gates r =
     (let open_gates = filter (\<lambda>g. \<not> flagged g ''satisfied'') gates
      in if open_gates = [] then r
         else r\<lparr>bo_billable := False,
                bo_blockers := bo_blockers r @
                  map (\<lambda>g. \<lparr>wb_rule = ''billing_gate_unsatisfied'',
                            wb_gate_type = Some (dget_default g ''gate_type'' (JStr ''unknown'')),
                            wb_description = dget_default g ''description'' (JStr ''Billing gate not satisfied''),
                            wb_severity = ''error''\<rparr>) open_gates\<rparr>)"

definition reattendance_effect :: "json \<Rightarrow> billing_outcome \<Rightarrow> billing_outcome option" where
  "reattendance_effect info r =
     (if \<not> json_truthy info then Some r
      else do { d \<leftarrow> as_obj info;
                Some (if field d ''trigger'' = JStr ''provider_fault''
                      then r\<lparr>bo_billable := False,
                             bo_blockers := bo_blockers r @
                               [work_blocker_of ''reattendance_provider_fault''
                                  ''Re-attendance caused by provider fault - non-billable''],
                             bo_leakage_triggers := bo_leakage_triggers r @
                               (if flagged d ''billed''
                                then [(''reattendance_incorrectly_billed'',
                                       ''Provider-fault re-visit was billed to customer'', ''critical'')]
                                else [])\<rparr>
                      else if field d ''trigger'' = JStr ''customer_no_access''
                      then r\<lparr>bo_billable := True, bo_category := JStr ''abortive_visit''\<rparr>
                      else r) })"

definition daywork_rule :: "(string, json) dict \<Rightarrow> billing_outcome \<Rightarrow> billing_outcome" where
  "daywork_rule wo r =
     (if dget wo ''category'' = Some (JStr ''daywork'') \<and> \<not> flagged wo ''daywork_sheet_signed''
      then r\<lparr>bo_billable := False,
             bo_blockers := bo_blockers r @
               [work_blocker_of ''daywork_sheet_not_signed'' ''Daywork sheet not signed - cannot invoice'']\<rparr>
      else r)"

definition variation_rule :: "(string, json) dict \<Rightarrow> billing_outcome \<Rightarrow> billing_outcome" where
  "variation_rule wo r =
     (if flagged wo ''is_variation'' \<and> \<not> flagged wo ''variation_order_ref''
      then r\<lparr>bo_billable := False,
             bo_blockers := bo_blockers r @
               [work_blocker_of ''variation_no_change_order''
                  ''Variation work without formal change order - non-billable''],
             bo_leakage_triggers := bo_leakage_triggers r @
               [(''variation_work_unbilled'',
                 ''Out-of-scope variation work done without variation order - cannot bill'', ''error'')]\<rparr>
      else r)"

definition completion_billability ::
  "(string, json) dict \<Rightarrow> (string, json) dict list \<Rightarrow> (string, json) dict list \<Rightarrow> json \<Rightarrow> billing_outcome option" where
  "completion_billability wo evidence gates info =
     do { r \<leftarrow> evidence_rule wo evidence
                \<lparr>bo_billable = True, bo_category = dget_default wo ''category'' (JStr ''standard''), bo_blockers = [],
                 bo_leakage_triggers = []\<rparr>;
          r \<leftarrow> reattendance_effect info (gates_rule gates r);
          Some (variation_rule wo (daywork_rule wo r)) }"

section \<open>Ticket closure\<close>

record closure_outcome =
  co_can_close :: bool
  co_close_blockers :: "(string \<times> string) list"
  co_mismatches :: "(string \<times> string) list"

definition closing_gate :: "string \<Rightarrow> (string, json) dict \<Rightarrow> bool" where
  "closing_gate p g = (dget g ''prerequisite'' = Some (JStr p))"

definition gate_met :: "string \<Rightarrow> (string, json) dict list \<Rightarrow> bool" where
  "gate_met p gates = list_ex (\<lambda>g. closing_gate p g \<and> flagged g ''satisfied'') gates"

text \<open>The blockers with their rules and texts; a mismatch keeps the states of ticket and work order.\<close>

definition closure_blockers ::
  "string \<Rightarrow> string \<Rightarrow> (string, json) dict list \<Rightarrow> (string, json) dict list \<Rightarrow> (string \<times> string) list" where
  "closure_blockers state severity evidence gates =
     (if state \<in> {''resolved'', ''closed''} \<and> \<not> list_ex (\<lambda>e. flagged e ''provided'') evidence
      then [(''missing_completion_evidence'', ''Incident resolved but field completion evidence not provided'')] else []) @
     (if severity \<in> {''p1'', ''p2''} \<and> \<not> gate_met ''rca_submitted'' gates
      then [(''rca_not_submitted'',
             (if severity = ''p1'' then ''P1'' else ''P2'') @ '' ticket requires RCA before closure'')] else []) @
     (if list_ex (\<lambda>g. closing_gate ''permit_closed_out'' g \<and> \<not> flagged g ''satisfied'') gates
      then [(''open_permits'', ''Work order has permits not closed out'')] else []) @
     (if list_ex (closing_gate ''customer_sign_off'') gates \<and> \<not> gate_met ''customer_sign_off'' gates
      then [(''customer_sign_off_missing'', ''Customer sign-off required but not obtained'')] else [])"

definition closure_mismatches :: "string \<Rightarrow> string \<Rightarrow> (string \<times> string) list" where
  "closure_mismatches state status =
     (if state = ''resolved'' \<and> status \<noteq> [] \<and> status \<noteq> ''completed'' then [(state, status)] else [])"

definition ticket_closure ::
  "(string, json) dict \<Rightarrow> (string, json) dict \<Rightarrow> (string, json) dict list \<Rightarrow> (string, json) dict list \<Rightarrow> closure_outcome" where
  "ticket_closure inc wo evidence gates =
     (let bs = closure_blockers (str_of inc ''state'') (str_of inc ''severity'') evidence gates;
          ms = closure_mismatches (str_of inc ''state'') (str_of wo ''status'')
      in \<lparr>co_can_close = (bs = [] \<and> ms = []), co_close_blockers = bs, co_mismatches = ms\<rparr>)"

section \<open>Service-level accountability\<close>

record sla_outcome =
  so_accountable :: bool
  so_mitigation_factors :: "(string \<times> string \<times> json) list"
  so_adjusted_status :: json

text \<open>Per kind of blocker: whether the provider answers for it, what it mitigates and the new status.\<close>

definition blocker_type_map :: "(string \<times> bool \<times> (string \<times> string) option) list" where
  "blocker_type_map =
     [(''customer_access'', False, Some (''SLA clock paused - customer access blocker'', ''paused'')),
      (''local_authority_permit'', False, Some (''SLA clock paused - local authority permit delay'', ''paused'')),
      (''weather_force_majeure'', False, Some (''SLA exclusion - force majeure weather event'', ''excluded'')),
      (''customer_nominated_supplier'', False,
       Some (''Material supply failure by customer-nominated supplier'', ''paused'')),
      (''third_party_dependency'', True,
       Some (''Third-party dependency (DNO/council) - partial mitigation'', ''mitigated'')),
      (''provider_resource_shortage'', True, None)]"

definition blocker_effect :: "(string, json) dict \<Rightarrow> (string \<times> bool \<times> (string \<times> string) option) option option" where
  "blocker_effect b =
     do { k \<leftarrow> as_key (field b ''blocker_type'');
          Some (case k of JStr s \<Rightarrow> map_option (\<lambda>x. (s, x)) (dget blocker_type_map s) | _ \<Rightarrow> None) }"

definition blocker_step :: "(string, json) dict \<Rightarrow> sla_outcome \<Rightarrow> sla_outcome option" where
  "blocker_step b r =
     do { e \<leftarrow> blocker_effect b;
          Some (case e of
                  Some (ty, answers, Some (mitigation, status)) \<Rightarrow>
                    r\<lparr>so_accountable := so_accountable r \<and> answers,
                      so_mitigation_factors := so_mitigation_factors r @ [(ty, mitigation, field b ''description'')],
                      so_adjusted_status := JStr status\<rparr>
                | _ \<Rightarrow> r) }"

definition sla_accountability :: "(string, json) dict \<Rightarrow> (string, json) dict list \<Rightarrow> sla_outcome option" where
  "sla_accountability sla blockers =
     loop blocker_step blockers
       \<lparr>so_accountable = True, so_mitigation_factors = [],
        so_adjusted_status = dget_default sla ''status'' (JStr ''within'')\<rparr>"

section \<open>Leakage across the planes\<close>

record plane_leak =
  pk_trigger_type :: string
  pk_reference :: json
  pk_description :: string
  pk_severity :: string
  pk_at_risk :: pyfloat

record leak_report =
  lk_triggers :: "plane_leak list"
  lk_total :: pyfloat
  lk_recommendations :: "string list"

definition leak :: "string \<Rightarrow> json \<Rightarrow> string \<Rightarrow> string \<Rightarrow> pyfloat \<Rightarrow> string \<Rightarrow> leak_report \<Rightarrow> leak_report" where
  "leak ty ref desc severity amount advice r =
     r\<lparr>lk_triggers := lk_triggers r @ [\<lparr>pk_trigger_type = ty, pk_reference = ref, pk_description = desc,
         pk_severity = severity, pk_at_risk = amount\<rparr>],
       lk_total := pf_add (lk_total r) amount, lk_recommendations := lk_recommendations r @ [advice]\<rparr>"

definition order_id :: "(string, json) dict \<Rightarrow> json" where
  "order_id wo = field wo ''work_order_id''"

definition completed :: "(string, json) dict \<Rightarrow> bool" where
  "completed wo = (field wo ''status'' = JStr ''completed'')"

definition order_value :: "(string, json) dict \<Rightarrow> pyfloat option" where
  "order_value wo = safe_float (dget_default wo ''value'' (dget_default wo ''estimated_value'' (JInt 0)))"

definition unbilled_leak ::
  "json list \<Rightarrow> pyfloat \<Rightarrow> (string, json) dict \<Rightarrow> leak_report \<Rightarrow> leak_report option" where
  "unbilled_leak invoiced amount wo r =
     (if completed wo
      then do { k \<leftarrow> as_key (order_id wo);
                Some (if json_member k invoiced then r
                      else leak ''field_completion_not_billed'' k
                             (''Work order '' @ py_str k @ '' completed but no invoice raised'') ''error'' amount
                             (''Raise invoice for completed work order '' @ py_str k) r) }
      else Some r)"

definition abortive_leak :: "(string, json) dict \<Rightarrow> leak_report \<Rightarrow> leak_report option" where
  "abortive_leak wo r =
     (if flagged wo ''abortive'' \<and> \<not> flagged wo ''abortive_claimed''
      then do { x \<leftarrow> float_of wo ''abortive_value'' (JInt 0);
                Some (leak ''abortive_visit_not_claimed'' (order_id wo)
                        (''Abortive visit for '' @ py_str (order_id wo) @ '' not claimed'') ''warning'' x
                        (''Claim abortive visit charge for '' @ py_str (order_id wo)) r) }
      else Some r)"

definition emergency_leak ::
  "(string, (string, json) dict) dict \<Rightarrow> (string, json) dict \<Rightarrow> leak_report \<Rightarrow> leak_report option" where
  "emergency_leak rates wo r =
     (if flagged wo ''is_emergency''
      then do { billed \<leftarrow> float_of wo ''billed_rate'' (JInt 0);
                let rc = dget_default rates (py_lower (str_of wo ''activity'')) [];
                base \<leftarrow> safe_float (dget_default rc ''rate'' (dget_default rc ''base_rate'' (JInt 0)));
                m \<leftarrow> float_of rc ''emergency_multiplier'' (JNum (3 / 2));
                let expected = pf_mul base m;
                let diff = pf_sub expected billed;
                Some (if pf_less (Fin 0) billed \<and> pf_less (Fin 0) base \<and>
                         pf_less billed (pf_mul expected (Fin (fl (99 / 100))))
                      then leak ''emergency_billed_at_base_rate'' (order_id wo)
                             (''Emergency callout billed at '' @ pf_str billed @ '' instead of expected '' @ pf_str expected)
                             ''error'' diff
                             (''Rebill '' @ py_str (order_id wo) @ '' at emergency rate ('' @ pf_str expected @ '')'') r
                      else r) }
      else Some r)"

definition rework_leak :: "pyfloat \<Rightarrow> (string, json) dict \<Rightarrow> leak_report \<Rightarrow> leak_report option" where
  "rework_leak amount wo r =
     do { d \<leftarrow> as_obj (dget_default wo ''reattendance_info'' (JObj []));
          Some (if dget d ''trigger'' = Some (JStr ''provider_fault'') \<and> flagged d ''billed''
                then leak ''reattendance_incorrectly_billed'' (order_id wo)
                       (''Provider-fault re-visit '' @ py_str (order_id wo) @ '' billed to customer'') ''critical'' amount
                       (''Issue credit note for incorrectly billed rework '' @ py_str (order_id wo)) r
                else r) }"

definition permit_leak :: "(string, json) dict \<Rightarrow> leak_report \<Rightarrow> leak_report option" where
  "permit_leak wo r =
     do { x \<leftarrow> float_of wo ''permit_cost'' (JInt 0);
          Some (if pf_less (Fin 0) x \<and> \<not> flagged wo ''permit_cost_recovered''
                then leak ''permit_cost_not_recovered'' (order_id wo)
                       (''NRSWA permit cost '' @ fixed_str 2 x @ '' not passed through'') ''warning'' x
                       (''Recover permit cost '' @ fixed_str 2 x @ '' for '' @ py_str (order_id wo)) r
                else r) }"

definition escalation_leak :: "(string, json) dict \<Rightarrow> leak_report \<Rightarrow> leak_report option" where
  "escalation_leak wo r =
     (if flagged wo ''escalation_due'' \<and> \<not> flagged wo ''escalation_applied''
      then do { c \<leftarrow> float_of wo ''contract_rate'' (JInt 0);
                p \<leftarrow> float_of wo ''escalation_percentage'' (JInt 0);
                v \<leftarrow> float_of wo ''volume'' (JInt 1);
                let delta = pf_mul (pf_div (pf_mul c p) (Fin 100)) v;
                Some (if pf_less (Fin 0) delta
                      then leak ''rate_escalation_not_applied'' (order_id wo)
                             (''Annual rate escalation not applied - under-recovery '' @ fixed_str 2 delta) ''warning'' delta
                             (''Apply rate escalation for '' @ py_str (order_id wo)) r
                      else r) }
      else Some r)"

definition variation_leak :: "pyfloat \<Rightarrow> (string, json) dict \<Rightarrow> leak_report \<Rightarrow> leak_report" where
  "variation_leak amount wo r =
     (if flagged wo ''is_variation'' \<and> \<not> flagged wo ''variation_order_ref''
      then leak ''variation_work_unbilled'' (order_id wo)
             (''Variation work on '' @ py_str (order_id wo) @ '' without variation order - cannot bill'') ''error'' amount
             (''Raise variation order for '' @ py_str (order_id wo) @ '' before invoicing'') r
      else r)"

definition evidence_leak :: "pyfloat \<Rightarrow> (string, json) dict \<Rightarrow> leak_report \<Rightarrow> leak_report option" where
  "evidence_leak amount wo r =
     do { required \<leftarrow> required_evidence wo;
          evidence \<leftarrow> dict_items (listed wo ''completion_evidence'');
          provided \<leftarrow> json_set (map (\<lambda>e. field e ''evidence_type'') (filter (\<lambda>e. flagged e ''provided'') evidence));
          let missing = json_minus required provided;
          if missing \<noteq> [] \<and> completed wo
          then do { names \<leftarrow> sorted_names missing;
                    Some (leak ''incomplete_evidence_prevents_billing'' (order_id wo)
                            (''Missing evidence ('' @ names @ '') prevents invoicing'') ''error'' amount
                            (''Collect missing evidence for '' @ py_str (order_id wo)) r) }
          else Some r }"

definition order_leaks ::
  "json list \<Rightarrow> (string, (string, json) dict) dict \<Rightarrow> (string, json) dict \<Rightarrow> leak_report \<Rightarrow> leak_report option" where
  "order_leaks invoiced rates wo r =
     do { amount \<leftarrow> order_value wo;
          r \<leftarrow> unbilled_leak invoiced amount wo r;
          r \<leftarrow> abortive_leak wo r;
          r \<leftarrow> emergency_leak rates wo r;
          r \<leftarrow> rework_leak amount wo r;
          r \<leftarrow> permit_leak wo r;
          r \<leftarrow> escalation_leak wo r;
          evidence_leak amount wo (variation_leak amount wo r) }"

definition breach_leak :: "(string, json) dict \<Rightarrow> leak_report \<Rightarrow> leak_report option" where
  "breach_leak breach r =
     (if flagged breach ''credit_applied'' then Some r
      else do { x \<leftarrow> float_of breach ''credit_value'' (JInt 0);
                Some (leak ''sla_credit_not_deducted'' (field breach ''incident_id'')
                        ''SLA breach but service credit not applied'' ''warning'' x
                        ''Apply SLA service credit for breach'' r) })"

text \<open>Work orders of one activity, place and date, in the order of their first.\<close>

definition claim_key :: "(string, json) dict \<Rightarrow> string" where
  "claim_key wo =
     py_lower (str_of wo ''activity'') @ ''|'' @ py_lower (str_of wo ''location'') @ ''|'' @ str_of wo ''scheduled_date''"

definition claim_groups :: "(string, json) dict list \<Rightarrow> (string, json list) dict" where
  "claim_groups orders =
     foldl (\<lambda>d wo. if claim_key wo = ''||'' then d
                   else dput (claim_key wo) (dget_default d (claim_key wo) [] @ [order_id wo]) d) [] orders"

definition duplicate_leak :: "string \<times> json list \<Rightarrow> leak_report \<Rightarrow> leak_report option" where
  "duplicate_leak grp r =
     (if length (snd grp) > 1
      then do { ids \<leftarrow> each as_str (snd grp);
                Some (r\<lparr>lk_triggers := lk_triggers r @
                         [\<lparr>pk_trigger_type = ''duplicate_claim_risk'', pk_reference = JList (snd grp),
                           pk_description = ''Possible duplicate claim across work orders: '' @ comma_join ids,
                           pk_severity = ''warning'', pk_at_risk = Fin 0\<rparr>],
                       lk_recommendations := lk_recommendations r @
                         [''Review potential duplicate: '' @ comma_join ids]\<rparr>) }
      else Some r)"

definition rate_table :: "(string, json) dict list \<Rightarrow> (string, (string, json) dict) dict" where
  "rate_table cards =
     foldl (\<lambda>d rc. if str_of rc ''activity'' \<noteq> [] then dput (py_lower (str_of rc ''activity'')) rc d else d) [] cards"

definition plane_leakage ::
  "(string, json) dict list \<Rightarrow> (string, json) dict list \<Rightarrow> (string, json) dict list \<Rightarrow> (string, json) dict list
     \<Rightarrow> leak_report option" where
  "plane_leakage invoices cards orders breaches =
     do { invoiced \<leftarrow> json_set (map (\<lambda>i. dget_default i ''work_order_id'' JNull) invoices);
          r \<leftarrow> loop (order_leaks invoiced (rate_table cards)) orders
                 \<lparr>lk_triggers = [], lk_total = Fin 0, lk_recommendations = []\<rparr>;
          r \<leftarrow> loop breach_leak breaches r;
          r \<leftarrow> loop duplicate_leak (claim_groups orders) r;
          Some (r\<lparr>lk_total := pf_round 2 (lk_total r)\<rparr>) }"

text \<open>The data of the three planes as the method takes them.\<close>

definition reconcile_margin_leakage ::
  "(string, json) dict \<Rightarrow> (string, json) dict \<Rightarrow> (string, json) dict \<Rightarrow> leak_report option" where
  "reconcile_margin_leakage contract field_data ops =
     do { invoices \<leftarrow> dict_items (listed contract ''invoices'');
          cards \<leftarrow> dict_items (listed contract ''rate_card'');
          orders \<leftarrow> dict_items (listed field_data ''work_orders'');
          breaches \<leftarrow> dict_items (listed ops ''sla_breaches'');
          plane_leakage invoices cards orders breaches }"

end
