(* ===== verification/Pack_Margin.thy ===== *)
theory Pack_Margin
  imports Pack_Diagnosis
begin

text \<open>
  The end of \<^verbatim>\<open>app/domain_packs/reconciliation.py\<close>: the contradictions between the planes, and the margin
  diagnosis that runs the linkers, the assemblers and the detector, and decides a verdict.
\<close>

section \<open>Contradictions\<close>

definition scope_contradiction ::
  "(string, json) dict \<Rightarrow> (string, json) dict \<Rightarrow> plane_conflict list option" where
  "scope_contradiction wo boundary =
     do { activities \<leftarrow> boundary_activities boundary;
          let overlap = overlap_of activities (extract_activities (str_of wo ''description''));
          let scope = str_of boundary ''scope_type'';
          let field_scope = str_of wo ''scope_status'';
          Some (if scope = ''in_scope'' \<and> field_scope = ''out_of_scope'' \<and> overlap \<noteq> []
                then [conflict ''scope'' dom_contract (''in_scope: '' @ comma_join (sorted_strings overlap)) dom_field
                        ''field reports out_of_scope'' ''error''
                        (''Contract defines activities as in-scope but field execution flagged them as '' @
                         ''out-of-scope. Clarify scope with contract team.'')]
                else if scope = ''out_of_scope'' \<and> field_scope = ''in_scope'' \<and> overlap \<noteq> []
                then [conflict ''scope'' dom_contract (''out_of_scope: '' @ comma_join (sorted_strings overlap)) dom_field
                        ''field reports in_scope'' ''error''
                        (''Contract defines activities as out-of-scope but field executed them as in-scope. '' @
                         ''May indicate unauthorised work.'')]
                else []) }"

definition state_contradiction :: "(string, json) dict \<Rightarrow> (string, json) dict \<Rightarrow> plane_conflict list" where
  "state_contradiction wo inc =
     (let status = str_of wo ''status''; state = str_of inc ''state''
      in if inc = [] then []
         else (if status = ''completed'' \<and> state \<in> {''new'', ''investigating'', ''in_progress''}
               then [conflict ''completion_vs_incident'' dom_field (''status='' @ status) dom_ops (''state='' @ state)
                       ''error''
                       (''Work order marked completed but related incident still active. '' @
                        ''Verify field resolution was effective.'')]
               else []) @
              (if state \<in> {''resolved'', ''closed''} \<and> status \<in> {''pending'', ''in_progress'', ''assigned''}
               then [conflict ''completion_vs_incident'' dom_ops (''state='' @ state) dom_field (''status='' @ status)
                       ''warning'' ''Incident resolved/closed but work order still open. Update work order status.'']
               else []))"

definition rate_contradiction :: "pyfloat \<Rightarrow> string \<Rightarrow> (string, json) dict \<Rightarrow> plane_conflict list option" where
  "rate_contradiction rate activity rc =
     do { c \<leftarrow> float_of rc ''rate'' (JInt 0);
          Some (if pf_less (Fin 0) c \<and> str_of rc ''activity'' \<noteq> [] \<and>
                   text_similarity (str_of rc ''activity'') activity \<ge> similarity_threshold
                then (case rate_conflict c rate of
                        None \<Rightarrow> []
                      | Some (diff, severity) \<Rightarrow>
                          [conflict ''rate'' dom_contract (pf_str c) dom_field (pf_str rate) severity
                             (''Rate mismatch: contract specifies '' @ pf_str c @ '' but field/billing shows '' @
                              pf_str rate @ ''. Difference of '' @ fixed_str 2 diff @ ''.'')])
                else []) }"

definition rate_contradictions ::
  "(string, json) dict \<Rightarrow> (string, json) dict \<Rightarrow> plane_conflict list option" where
  "rate_contradictions contract wo =
     do { rate \<leftarrow> safe_float (dget_default wo ''rate'' (dget_default wo ''billed_rate'' (JInt 0)));
          let activity = safe_str (dget_default wo ''activity'' (field wo ''work_order_type''));
          if pf_less (Fin 0) rate \<and> activity \<noteq> []
          then do { cards \<leftarrow> dict_items (listed contract ''rate_card'');
                    map_option concat (each (rate_contradiction rate activity) cards) }
          else Some [] }"

definition approval_contradiction :: "(string, json) dict \<Rightarrow> (string, json) dict \<Rightarrow> plane_conflict list" where
  "approval_contradiction contract wo =
     (if flagged contract ''requires_approval'' \<and> \<not> json_truthy (dget_default wo ''approval_obtained'' (JBool True))
      then [conflict ''approval'' dom_contract ''approval_required=True'' dom_field ''approval_obtained=False'' ''error''
              ''Contract requires approval before work execution but approval was not obtained.'']
      else [])"

definition penalty_contradiction :: "(string, json) dict \<Rightarrow> plane_conflict list" where
  "penalty_contradiction contract =
     (if field contract ''sla_status'' = JStr ''within'' \<and> flagged contract ''penalty_triggered''
      then [conflict ''sla_penalty'' dom_contract ''sla_status=within'' dom_contract ''penalty_triggered=True'' ''error''
              (''SLA reported as within threshold but penalty was triggered. '' @ ''Reconcile SLA measurement.'')]
      else [])"

definition detect_contradictions ::
  "(string, json) dict \<Rightarrow> (string, json) dict \<Rightarrow> (string, json) dict option \<Rightarrow> plane_conflict list option" where
  "detect_contradictions contract wo inc =
     do { boundaries \<leftarrow> dict_items (listed contract ''scope_boundaries'');
          scopes \<leftarrow> each (scope_contradiction wo) boundaries;
          rates \<leftarrow> rate_contradictions contract wo;
          Some (concat scopes @ (case inc of None \<Rightarrow> [] | Some i \<Rightarrow> state_contradiction wo i) @ rates @
                approval_contradiction contract wo @ penalty_contradiction contract) }"

section \<open>The data of the contract\<close>

definition diagnosis_type :: "(string, json) dict \<Rightarrow> string" where
  "diagnosis_type ob =
     safe_str (dget_default ob ''type'' (dget_default ob ''control_type'' (field ob ''object_type'')))"

definition of_types :: "string list \<Rightarrow> (string, json) dict list \<Rightarrow> json" where
  "of_types types objects = JList (map JObj (filter (\<lambda>ob. diagnosis_type ob \<in> set types) objects))"

definition build_contract_data :: "(string, json) dict list \<Rightarrow> (string, json) dict" where
  "build_contract_data objects =
     [(''rate_card'', of_types [''rate_card'', ''rate'', ''billable_event''] objects),
      (''obligations'', of_types [''obligation'', ''sla''] objects),
      (''scope_boundaries'', of_types [''scope'', ''scope_boundary''] objects),
      (''invoices'', of_types [''invoice''] objects)]"

section \<open>The steps of the diagnosis\<close>

definition billing_conflict :: "(string, json) dict \<Rightarrow> work_blocker \<Rightarrow> plane_conflict option" where
  "billing_conflict wo b =
     do { desc \<leftarrow> as_str (wb_description b);
          Some (conflict (wb_rule b) dom_field (str_of wo ''work_order_id'') dom_contract desc (wb_severity b)
                  (''Resolve billing blocker: '' @ desc)) }"

definition billing_conflicts :: "(string, json) dict \<Rightarrow> plane_conflict list option" where
  "billing_conflicts wo =
     do { evidence \<leftarrow> dict_items (listed wo ''completion_evidence'');
          gates \<leftarrow> dict_items (listed wo ''billing_gates'');
          r \<leftarrow> completion_billability wo evidence gates (dget_default wo ''reattendance_info'' JNull);
          each (billing_conflict wo) (bo_blockers r) }"

definition mitigation_conflict :: "string \<times> string \<times> json \<Rightarrow> plane_conflict" where
  "mitigation_conflict f =
     conflict ''sla_mitigation'' dom_field (fst f) dom_ops (fst (snd f)) ''warning'' (fst (snd f))"

definition sla_conflicts :: "(string, json) dict \<Rightarrow> plane_conflict list option" where
  "sla_conflicts perf =
     (let sla = dget_default perf ''sla_status'' (JObj []); blockers = listed perf ''field_blockers''
      in if json_truthy sla \<or> json_truthy blockers
         then do { s \<leftarrow> as_obj sla;
                   bs \<leftarrow> dict_items blockers;
                   r \<leftarrow> sla_accountability s bs;
                   Some ((if so_accountable r \<and> dget s ''status'' = Some (JStr ''breached'')
                          then [conflict ''sla_accountability'' dom_ops ''sla_breached'' dom_contract
                                  ''provider_accountable'' ''critical''
                                  ''SLA breached and provider is accountable. Penalty exposure applies.'']
                          else []) @ map mitigation_conflict (so_mitigation_factors r)) }
         else Some [])"

definition leak_fields :: "plane_leak \<Rightarrow> (string, json) dict" where
  "leak_fields l =
     [(''trigger_type'', JStr (pk_trigger_type l)), (''description'', JStr (pk_description l)),
      (''severity'', JStr (pk_severity l))]"

section \<open>The verdict\<close>

definition determine_verdict :: "plane_leak list \<Rightarrow> plane_conflict list \<Rightarrow> plane_conflict list \<Rightarrow> string" where
  "determine_verdict leaks conflicts sla =
     (if list_ex (\<lambda>c. xc_field c = ''sla_accountability'' \<and> xc_severity c = ''critical'') sla then ''penalty_risk''
      else if leaks \<noteq> []
      then (if list_ex (\<lambda>l. pk_severity l \<in> {''error'', ''critical''}) leaks then ''under_recovery''
            else ''leakage_detected'')
      else if conflicts \<noteq> []
      then (if list_ex (\<lambda>c. xc_severity c \<in> {''error'', ''critical''}) conflicts then ''under_recovery''
            else ''leakage_detected'')
      else ''healthy'')"

definition diagnosis_confidence :: "bool \<Rightarrow> bool \<Rightarrow> bool \<Rightarrow> rat \<Rightarrow> nat \<Rightarrow> rat" where
  "diagnosis_confidence objects orders incidents evidence conflicts =
     (let score = plus_if incidents (fl (15 / 100)) (plus_if orders (1 / 4) (plus_if objects (1 / 4) 0));
          score = fl (score + fl (fl (15 / 100) * evidence));
          score = (if conflicts > 0 then fl (score - fl (fl (5 / 100) * of_nat (min conflicts 4))) else score);
          score = fl (score + fl (10 / 100))
      in max (min score 1) (fl (10 / 100)))"

definition build_summary :: "string \<Rightarrow> plane_leak list \<Rightarrow> plane_conflict list \<Rightarrow> plane_evidence \<Rightarrow> string" where
  "build_summary verdict leaks conflicts ev =
     ''Margin diagnosis verdict: '' @ verdict @ ''.'' @
     (if leaks = [] then [] else '' '' @ int_str (int (length leaks)) @ '' leakage pattern(s) detected.'') @
     (if conflicts = [] then [] else '' '' @ int_str (int (length conflicts)) @ '' cross-plane conflict(s) found.'') @
     '' Evidence bundle contains '' @ int_str (int (eb_total_items ev)) @ '' item(s) across '' @
     int_str (int (length (eb_domains ev))) @ '' domain(s) (confidence: '' @ fixed_str 2 (Fin (eb_confidence ev)) @ '').''"

record margin_diagnosis =
  md_contract_wo_links :: "plane_link list"
  md_wo_incident_links :: "plane_link list"
  md_field_billing_conflicts :: "plane_conflict list"
  md_sla_conflicts :: "plane_conflict list"
  md_leakage_patterns :: "plane_leak list"
  md_evidence_bundle :: plane_evidence
  md_all_conflicts :: "plane_conflict list"
  md_verdict :: string
  md_confidence :: rat
  md_summary :: string

text \<open>The parts that may raise, in the order the code runs them; then the bundle of their results.\<close>

definition diagnosis_bundle ::
  "plane_link list \<Rightarrow> plane_link list \<Rightarrow> plane_conflict list \<Rightarrow> plane_conflict list \<Rightarrow> plane_conflict list
     \<Rightarrow> plane_leak list \<Rightarrow> plane_evidence \<Rightarrow> bool \<Rightarrow> bool \<Rightarrow> bool \<Rightarrow> margin_diagnosis" where
  "diagnosis_bundle links1 links2 billing sla contradictions leaks ev objects orders incidents =
     (let every = billing @ sla @ contradictions; verdict = determine_verdict leaks every sla
      in \<lparr>md_contract_wo_links = links1, md_wo_incident_links = links2, md_field_billing_conflicts = billing,
          md_sla_conflicts = sla, md_leakage_patterns = leaks, md_evidence_bundle = ev, md_all_conflicts = every,
          md_verdict = verdict,
          md_confidence = py_round (diagnosis_confidence objects orders incidents (eb_confidence ev) (length every)) 3,
          md_summary = build_summary verdict leaks every ev\<rparr>)"

definition diagnose_margin ::
  "uuid \<Rightarrow> (string, json) dict list \<Rightarrow> (string, json) dict list \<Rightarrow> (string, json) dict list
     \<Rightarrow> (string, json) dict list \<Rightarrow> (string, json) dict \<Rightarrow> margin_diagnosis option" where
  "diagnose_margin ident objects orders incidents history perf =
     do { let contract = build_contract_data objects;
          links1 \<leftarrow> each (contract_links objects) orders;
          links2 \<leftarrow> each (\<lambda>wo. incident_links wo incidents) orders;
          billing \<leftarrow> each billing_conflicts orders;
          sla \<leftarrow> sla_conflicts perf;
          leaks \<leftarrow> reconcile_margin_leakage contract [(''work_orders'', JList (map JObj (orders @ history)))]
                     [(''sla_breaches'', listed perf ''sla_breaches'')];
          let ev = assemble_margin ident objects (orders @ history) (map leak_fields (lk_triggers leaks));
          contradictions \<leftarrow> each (\<lambda>wo. detect_contradictions contract wo
                              (case incidents of [] \<Rightarrow> None | i # is \<Rightarrow> Some i)) orders;
          Some (diagnosis_bundle (concat links1) (concat links2) (concat billing) sla (concat contradictions)
                  (lk_triggers leaks) ev (objects \<noteq> []) (orders \<noteq> []) (incidents \<noteq> [])) }"

end
