(* ===== verification/Float_Order.thy ===== *)
theory Float_Order
  imports Py_Float
begin

text \<open>Rounding to a float, and to a number of decimals, keeps the order of numbers that are not negative.\<close>

lemma fl_ge_pow2:
  assumes "0 < q" "- 1074 \<le> log2_floor q"
  shows "2 powi log2_floor q \<le> fl q"
proof -
  define k e where "k = log2_floor q" and "e = max (k - 52) (- 1074)"
  have k: "e \<le> k" using assms(2) by (simp add: k_def e_def)
  then have N: "(2::rat) powi k / 2 powi e = of_int (2 ^ nat (k - e))"
    using power_int_diff [of "2::rat" k e] by (simp add: power_int_nonneg_exp)
  have "of_int (2 ^ nat (k - e)) \<le> q / 2 powi e"
    unfolding N [symmetric] using log2_floor_bounds(1) [OF assms(1)] by (simp add: divide_right_mono k_def)
  from round_even_mono [OF this] have "2 ^ nat (k - e) \<le> round_even (q / 2 powi e)"
    unfolding round_even_of_int .
  then have "of_int (2 ^ nat (k - e)) \<le> (of_int (round_even (q / 2 powi e)) :: rat)"
    by (simp only: of_int_le_iff)
  then have "2 powi k \<le> of_int (round_even (q / 2 powi e)) * (2::rat) powi e"
    unfolding N [symmetric] by (simp add: pos_divide_le_eq)
  moreover have "fl q = of_int (round_even (q / 2 powi e)) * 2 powi e"
    using assms(1) by (simp add: fl_def e_def k_def Let_def)
  ultimately show ?thesis by (simp add: k_def)
qed

lemma fl_mono:
  assumes "0 \<le> p" "p \<le> q"
  shows "fl p \<le> fl q"
proof (cases "p = 0")
  case False
  then have p: "0 < p" and q: "0 < q" using assms by auto
  show ?thesis
  proof (cases "ulp p = ulp q")
    case True
    have "round_even (p / ulp q) \<le> round_even (q / ulp q)"
      using assms(2) by (intro round_even_mono divide_right_mono) (simp_all add: less_imp_le)
    then show ?thesis using p q True by (simp add: fl_ulp mult_right_mono less_imp_le)
  next
    case False
    have "2 powi log2_floor p < (2 powi (log2_floor q + 1) :: rat)"
      using log2_floor_bounds(1) [OF p] log2_floor_bounds(2) [OF q] assms(2) by linarith
    then have "log2_floor p < log2_floor q + 1"
      using power_int_increasing [of "log2_floor q + 1" "log2_floor p" "2::rat"]
      by (cases "log2_floor p < log2_floor q + 1") auto
    moreover have "log2_floor p \<noteq> log2_floor q" using False p q by (auto simp: ulp_def)
    ultimately have lt: "log2_floor p + 1 \<le> log2_floor q" by simp
    have ge: "- 1074 \<le> log2_floor q"
    proof (rule ccontr)
      assume "\<not> ?thesis"
      then have "ulp p = ulp q" using lt p q by (simp add: ulp_def max_def)
      with False show False ..
    qed
    have "p \<le> 2 powi log2_floor q"
      using log2_floor_bounds(2) [OF p] power_int_increasing [OF lt, of "2::rat"] by simp
    then have "fl p \<le> 2 powi log2_floor q" by (rule fl_le_pow2 [OF p _ ge])
    also have "\<dots> \<le> fl q" by (rule fl_ge_pow2 [OF q ge])
    finally show ?thesis .
  qed
qed (use assms in \<open>simp add: fl_nonneg\<close>)

lemma py_round_mono:
  assumes "0 \<le> x" "x \<le> y"
  shows "py_round x n \<le> py_round y n"
proof -
  have "round_even 0 \<le> round_even (x * 10 ^ n)" "round_even (x * 10 ^ n) \<le> round_even (y * 10 ^ n)"
    using assms by (intro round_even_mono; simp add: mult_right_mono)+
  then show ?thesis
    unfolding py_round_def by (intro fl_mono divide_right_mono) simp_all
qed

end
