(* ===== verification/Diagnosis_Props.thy ===== *)
theory Diagnosis_Props
  imports Pack_Margin Float_Order
begin

text \<open>
  What the reconciliation of the planes decides: how sure its links are, which completed work is
  billable, when a ticket may be closed, who answers for a missed service level, and the verdict of a
  margin diagnosis.
\<close>

section \<open>Similarity and confidence\<close>

lemma sequence_ratio_unit: "0 \<le> sequence_ratio a b \<and> sequence_ratio a b \<le> 1"
proof (cases "a = [] \<and> b = []")
  case False
  let ?m = "matched_chars (popular_chars b) a b"
  have "2 * ?m \<le> length a + length b" using matched_chars_le [of "popular_chars b" a b] by linarith
  then have "(of_nat (2 * ?m) :: rat) \<le> of_nat (length a + length b)" by (simp only: of_nat_le_iff)
  moreover have "(0 :: rat) < of_nat (length a + length b)" using False by (auto simp flip: of_nat_add)
  ultimately have "(of_nat (2 * ?m) :: rat) / of_nat (length a + length b) \<le> 1" by (simp only: divide_le_eq_1_pos)
  then show ?thesis using False by (simp add: sequence_ratio_def fl_nonneg fl_le_1)
qed (simp add: sequence_ratio_def)

lemma text_similarity_unit: "0 \<le> text_similarity a b \<and> text_similarity a b \<le> 1"
  by (simp add: text_similarity_def sequence_ratio_unit)

lemma similarity_threshold_rounded: "py_round similarity_threshold 3 = similarity_threshold"
  by code_simp

lemma similarity_threshold_le: "0 \<le> similarity_threshold" "similarity_threshold \<le> 1"
  by code_simp+

text \<open>A contract link carries the score that passed the threshold, cut to one and rounded.\<close>

definition contract_confident :: "plane_link \<Rightarrow> bool" where
  "contract_confident l \<longleftrightarrow> similarity_threshold \<le> pl_confidence l \<and> pl_confidence l \<le> 1"

lemma link_to_order_confident: "similarity_threshold \<le> score \<Longrightarrow> contract_confident (link_to_order src wo ty score meta)"
proof -
  assume "similarity_threshold \<le> score"
  then have "py_round similarity_threshold 3 \<le> py_round (min score 1) 3" "py_round (min score 1) 3 \<le> py_round 1 3"
    using similarity_threshold_le by (intro py_round_mono; auto)+
  then show ?thesis by (simp add: contract_confident_def link_to_order_def similarity_threshold_rounded)
qed

lemma each_all:
  assumes "each f xs = Some ys" "\<And>x y. f x = Some y \<Longrightarrow> P y"
  shows "list_all P ys"
  using assms(1) by (induction xs arbitrary: ys) (auto split: Option.bind_splits dest: assms(2))

lemma contract_links_confident:
  assumes "contract_links objects wo = Some ls"
  shows "list_all contract_confident ls"
proof -
  obtain lss where l: "ls = concat lss"
    and e: "each (\<lambda>ob. do { scope \<leftarrow> scope_link wo ob; Some (rate_link wo ob @ obligation_link wo ob @ scope) }) objects
       = Some lss"
    using assms by (auto simp: contract_links_def)
  have "list_all contract_confident (rate_link wo ob)" "list_all contract_confident (obligation_link wo ob)" for ob
    by (simp_all add: rate_link_def obligation_link_def Let_def link_to_order_confident)
  moreover have "list_all contract_confident s" if "scope_link wo ob = Some s" for ob s
    using that by (auto simp: scope_link_def Let_def link_to_order_confident split: if_splits Option.bind_splits)
  ultimately have "list_all (list_all contract_confident) lss"
    using e by (rule_tac each_all) (auto split: Option.bind_splits)
  then show ?thesis by (auto simp: l list_all_iff)
qed

lemma float_total_nonneg: "list_all (\<lambda>x. 0 \<le> x) xs \<Longrightarrow> 0 \<le> float_total xs"
proof -
  have "list_all (\<lambda>x. 0 \<le> x) xs \<Longrightarrow> 0 \<le> s \<Longrightarrow> 0 \<le> foldl (\<lambda>s x. fl (s + x)) s xs" for s
    by (induction xs arbitrary: s) (simp_all add: fl_nonneg)
  then show "list_all (\<lambda>x. 0 \<le> x) xs \<Longrightarrow> 0 \<le> float_total xs" by (simp add: float_total_def)
qed

lemma link_signals_nonneg:
  "list_all (\<lambda>x. 0 \<le> x) (link_signals service (location_signal wo inc) time_ok (description_similarity wo inc))"
  using text_similarity_unit
  by (auto simp: link_signals_def location_signal_def description_similarity_def Let_def fl_nonneg le_max_iff_disj
      split: option.splits if_splits)

definition unit_confident :: "plane_link \<Rightarrow> bool" where
  "unit_confident l \<longleftrightarrow> 0 \<le> pl_confidence l \<and> pl_confidence l \<le> 1"

lemma incident_links_confident:
  assumes "incident_links wo incidents = Some ls"
  shows "list_all unit_confident ls"
proof -
  obtain lss where l: "ls = concat lss" and e: "each (incident_link wo) incidents = Some lss"
    using assms by (auto simp: incident_links_def)
  have "list_all unit_confident s" if "incident_link wo inc = Some s" for inc s
    using that py_round_unit [OF _ min.cobounded2] float_total_nonneg [OF link_signals_nonneg]
    by (auto simp: incident_link_def Let_def unit_confident_def split: Option.bind_splits if_splits)
  then have "list_all (list_all unit_confident) lss" using e by (rule_tac each_all) auto
  then show ?thesis by (auto simp: l list_all_iff)
qed

text \<open>C38: how alike two texts are lies between zero and one, whatever the texts; a link from a contract to a
  work order is at least as sure as the threshold of similarity, and no link is surer than one.
\<close>
theorem link_confidences_bounded:
  "0 \<le> text_similarity a b \<and> text_similarity a b \<le> 1 \<and>
   (case contract_links objects wo of None \<Rightarrow> True | Some ls \<Rightarrow> list_all contract_confident ls) \<and>
   (case incident_links wo incidents of None \<Rightarrow> True | Some ls \<Rightarrow> list_all unit_confident ls)"
  using text_similarity_unit [of a b] contract_links_confident [of objects wo] incident_links_confident [of wo incidents]
  by (auto split: option.splits)

section \<open>Completed work\<close>

definition rework_trigger :: "(string, json) dict \<Rightarrow> json" where
  "rework_trigger info = (if info = [] then JNull else field info ''trigger'')"

definition rework_info :: "json \<Rightarrow> (string, json) dict option" where
  "rework_info info = (if json_truthy info then as_obj info else Some [])"

definition unsigned_daywork :: "(string, json) dict \<Rightarrow> bool" where
  "unsigned_daywork wo \<longleftrightarrow> dget wo ''category'' = Some (JStr ''daywork'') \<and> \<not> flagged wo ''daywork_sheet_signed''"

definition unordered_variation :: "(string, json) dict \<Rightarrow> bool" where
  "unordered_variation wo \<longleftrightarrow> flagged wo ''is_variation'' \<and> \<not> flagged wo ''variation_order_ref''"

text \<open>The evidence still missing: it can be named only when all of it are strings.\<close>

definition missing_evidence ::
  "(string, json) dict \<Rightarrow> (string, json) dict list \<Rightarrow> json list option" where
  "missing_evidence wo evidence =
     do { required \<leftarrow> required_evidence wo;
          provided \<leftarrow> provided_evidence evidence;
          let missing = json_minus required provided;
          names \<leftarrow> each as_str missing;
          Some missing }"

definition billable_work ::
  "(string, json) dict \<Rightarrow> (string, json) dict list \<Rightarrow> (string, json) dict list \<Rightarrow> json \<Rightarrow> (bool \<times> bool) option" where
  "billable_work wo evidence gates info =
     do { missing \<leftarrow> missing_evidence wo evidence;
          d \<leftarrow> rework_info info;
          let proven = (missing = [] \<and> list_all (\<lambda>g. flagged g ''satisfied'') gates);
          let own_fault = (rework_trigger d = JStr ''provider_fault'');
          let allowed = (\<not> unsigned_daywork wo \<and> \<not> unordered_variation wo);
          Some (allowed \<and> (rework_trigger d = JStr ''customer_no_access'' \<or> proven \<and> \<not> own_fault),
                allowed \<and> proven \<and> \<not> own_fault) }"

lemma evidence_rule_spec:
  "map_option (\<lambda>r. (bo_billable r, bo_blockers r)) (evidence_rule wo evidence r) =
     map_option (\<lambda>m. if m = [] then (bo_billable r, bo_blockers r)
                    else (False, bo_blockers r @
                       [work_blocker_of ''missing_completion_evidence''
                          (''Missing required evidence: '' @ the (sorted_names m))])) (missing_evidence wo evidence)"
  by (cases "required_evidence wo"; cases "provided_evidence evidence")
    (auto simp: evidence_rule_def missing_evidence_def sorted_names_def Let_def split: Option.bind_splits)

lemma gates_rule_flags:
  "bo_billable (gates_rule gates r) \<longleftrightarrow> bo_billable r \<and> list_all (\<lambda>g. flagged g ''satisfied'') gates"
  "bo_blockers (gates_rule gates r) = [] \<longleftrightarrow> bo_blockers r = [] \<and> list_all (\<lambda>g. flagged g ''satisfied'') gates"
  by (auto simp: gates_rule_def Let_def filter_empty_conv list_all_iff)

lemma reattendance_effect_flags:
  "map_option (\<lambda>r. (bo_billable r, bo_blockers r = [])) (reattendance_effect info r) =
     map_option (\<lambda>d. (rework_trigger d = JStr ''customer_no_access'' \<or>
                      bo_billable r \<and> rework_trigger d \<noteq> JStr ''provider_fault'',
                      bo_blockers r = [] \<and> rework_trigger d \<noteq> JStr ''provider_fault'')) (rework_info info)"
  by (cases info) (auto simp: reattendance_effect_def rework_info_def rework_trigger_def as_obj_def Let_def field_def)

lemma last_rules_flags:
  "bo_billable (variation_rule wo (daywork_rule wo r)) \<longleftrightarrow>
     bo_billable r \<and> \<not> unsigned_daywork wo \<and> \<not> unordered_variation wo"
  "bo_blockers (variation_rule wo (daywork_rule wo r)) = [] \<longleftrightarrow>
     bo_blockers r = [] \<and> \<not> unsigned_daywork wo \<and> \<not> unordered_variation wo"
  by (simp_all add: variation_rule_def daywork_rule_def unsigned_daywork_def unordered_variation_def)

text \<open>C37: completed work is billable, and free of blockers, exactly as the six rules say: the evidence asked
  for is there, every billing gate is satisfied, the visit does not repeat the provider's own fault, daywork
  is signed and a variation ordered. A visit the customer gave no access to is billable whatever evidence
  and gates say, even with blockers. The check raises exactly when the evidence or the
  re-attendance data cannot be read.
\<close>
theorem completed_work_billable:
  "map_option (\<lambda>r. (bo_billable r, bo_blockers r = [])) (completion_billability wo evidence gates info) =
     billable_work wo evidence gates info"
proof -
  let ?r = "\<lparr>bo_billable = True, bo_category = dget_default wo ''category'' (JStr ''standard''), bo_blockers = [],
      bo_leakage_triggers = []\<rparr>"
  note e = evidence_rule_spec [of wo evidence ?r]
  show ?thesis
  proof (cases "missing_evidence wo evidence")
    case None
    then show ?thesis using e by (simp add: completion_billability_def billable_work_def)
  next
    case (Some m)
    then obtain r where r: "evidence_rule wo evidence ?r = Some r" "bo_billable r \<longleftrightarrow> m = []" "bo_blockers r = [] \<longleftrightarrow> m = []"
      using e by (cases "evidence_rule wo evidence ?r") (auto split: if_splits)
    show ?thesis
      using reattendance_effect_flags [of info "gates_rule gates r"] r Some
      by (cases "rework_info info"; cases "reattendance_effect info (gates_rule gates r)")
        (auto simp: completion_billability_def billable_work_def last_rules_flags gates_rule_flags Let_def)
  qed
qed

section \<open>Ticket closure\<close>

definition gates_for :: "string \<Rightarrow> (string, json) dict list \<Rightarrow> (string, json) dict list" where
  "gates_for p gates = filter (closing_gate p) gates"

definition satisfied_gate :: "(string, json) dict \<Rightarrow> bool" where
  "satisfied_gate g = flagged g ''satisfied''"

lemma gate_met_for: "gate_met p gates \<longleftrightarrow> list_ex satisfied_gate (gates_for p gates)"
  by (auto simp: gate_met_def gates_for_def satisfied_gate_def list_ex_iff)

text \<open>A ticket may be closed exactly when its state has its evidence, an urgent one its analysis, every
  permit gate is satisfied and one of the sign-off gates, if there are any; a resolved ticket must not
  have a work order in another state than completed.
\<close>
theorem ticket_closure_exact:
  "let state = str_of inc ''state''; severity = str_of inc ''severity''; status = str_of wo ''status'' in
   co_can_close (ticket_closure inc wo evidence gates) \<longleftrightarrow>
     (if state \<in> {''resolved'', ''closed''} then list_ex (\<lambda>e. flagged e ''provided'') evidence else True) \<and>
     (if state = ''resolved'' then status \<in> {[], ''completed''} else True) \<and>
     (if severity \<in> {''p1'', ''p2''} then list_ex satisfied_gate (gates_for ''rca_submitted'' gates) else True) \<and>
     list_all satisfied_gate (gates_for ''permit_closed_out'' gates) \<and>
     (gates_for ''customer_sign_off'' gates = [] \<or> list_ex satisfied_gate (gates_for ''customer_sign_off'' gates))"
proof -
  have permits: "list_ex (\<lambda>g. closing_gate p g \<and> \<not> flagged g ''satisfied'') gates \<longleftrightarrow>
      \<not> list_all satisfied_gate (gates_for p gates)" for p
    by (auto simp: gates_for_def satisfied_gate_def list_ex_iff list_all_iff)
  have gates: "list_ex (closing_gate p) gates \<longleftrightarrow> gates_for p gates \<noteq> []" for p
    by (auto simp: gates_for_def list_ex_iff filter_empty_conv)
  show ?thesis
    unfolding ticket_closure_def closure_blockers_def closure_mismatches_def Let_def closure_outcome.simps permits
      gates gate_met_for
    by (auto split: if_splits)
qed

section \<open>Service-level accountability\<close>

text \<open>The new status of a mitigating blocker; blockers the provider does not answer for.\<close>

definition mitigated_status :: "(string, json) dict \<Rightarrow> string option" where
  "mitigated_status b =
     (case blocker_effect b of Some (Some (ty, answers, Some (m, status))) \<Rightarrow> Some status | _ \<Rightarrow> None)"

definition not_answerable :: "(string, json) dict \<Rightarrow> bool" where
  "not_answerable b \<longleftrightarrow>
     json_is (field b ''blocker_type'')
       [''customer_access'', ''local_authority_permit'', ''weather_force_majeure'', ''customer_nominated_supplier'']"

definition known_blocker :: "(string, json) dict \<Rightarrow> bool" where
  "known_blocker b \<longleftrightarrow> json_hashable (field b ''blocker_type'')"

definition last_status :: "json \<Rightarrow> (string, json) dict list \<Rightarrow> json" where
  "last_status j bs = foldl (\<lambda>j b. case mitigated_status b of None \<Rightarrow> j | Some s \<Rightarrow> JStr s) j bs"

lemma unmitigated_answers: "list_all (\<lambda>(k, answers, m). m \<noteq> None \<or> answers) blocker_type_map"
  by code_simp

lemma not_answerable_kinds:
  "map fst (filter (\<lambda>(k, answers, m). \<not> answers) blocker_type_map) =
     [''customer_access'', ''local_authority_permit'', ''weather_force_majeure'', ''customer_nominated_supplier'']"
  by code_simp

lemma blocker_types_distinct: "distinct (map fst blocker_type_map)"
  by code_simp

lemma dget_filter:
  "distinct (map fst d) \<Longrightarrow>
     (case dget d s of None \<Rightarrow> False | Some x \<Rightarrow> P x) \<longleftrightarrow> s \<in> set (map fst (filter (\<lambda>(k, x). P x) d))"
  by (induction d) auto

lemma dget_all: "list_all (\<lambda>(k, x). P x) d \<Longrightarrow> dget d s = Some x \<Longrightarrow> P x"
  by (induction d) (auto split: if_splits)

lemma not_answerable_iff:
  "not_answerable b \<longleftrightarrow> (case blocker_effect b of Some (Some (ty, answers, m)) \<Rightarrow> \<not> answers | _ \<Rightarrow> False)"
proof (cases "field b ''blocker_type''")
  case (JStr s)
  have "(case blocker_effect b of Some (Some (ty, answers, m)) \<Rightarrow> \<not> answers | _ \<Rightarrow> False) \<longleftrightarrow>
      (case dget blocker_type_map s of None \<Rightarrow> False | Some x \<Rightarrow> case x of (answers, m) \<Rightarrow> \<not> answers)"
    by (simp add: blocker_effect_def as_key_def JStr split: option.split)
  then show ?thesis
    unfolding dget_filter [OF blocker_types_distinct] not_answerable_kinds
    by (simp only: not_answerable_def JStr json_is_def json.case)
qed (simp_all add: not_answerable_def blocker_effect_def as_key_def json_is_def)

lemma blocker_effect_some: "blocker_effect b = None \<longleftrightarrow> \<not> known_blocker b"
  by (simp add: blocker_effect_def as_key_def known_blocker_def)

lemma unmitigated_answered: "blocker_effect b = Some (Some (ty, answers, None)) \<Longrightarrow> answers"
  using dget_all [OF unmitigated_answers]
  by (fastforce simp: blocker_effect_def as_key_def split: json.splits if_splits)

lemma blocker_step_spec:
  "blocker_step b r =
     (if known_blocker b
      then Some (r\<lparr>so_accountable := so_accountable r \<and> \<not> not_answerable b,
                   so_mitigation_factors := so_mitigation_factors r @
                     (case blocker_effect b of
                        Some (Some (ty, answers, Some (m, status))) \<Rightarrow> [(ty, m, field b ''description'')] | _ \<Rightarrow> []),
                   so_adjusted_status := last_status (so_adjusted_status r) [b]\<rparr>)
      else None)"
proof (cases "blocker_effect b")
  case None
  then show ?thesis using blocker_effect_some [of b] by (simp add: blocker_step_def)
next
  case (Some e)
  then have k: "known_blocker b" using blocker_effect_some [of b] by auto
  show ?thesis
  proof (cases e)
    case None
    then show ?thesis using Some k by (simp add: blocker_step_def not_answerable_iff last_status_def mitigated_status_def)
  next
    case (Some x)
    obtain ty answers m where x: "x = (ty, answers, m)" by (rule prod_cases3)
    show ?thesis
      using \<open>blocker_effect b = Some e\<close> Some k x unmitigated_answered [of b ty answers]
      by (cases m) (auto simp: blocker_step_def not_answerable_iff last_status_def mitigated_status_def)
  qed
qed

lemma blocker_loop_spec:
  "map_option (\<lambda>r. (so_accountable r, so_adjusted_status r)) (loop blocker_step bs r) =
     (if list_all known_blocker bs
      then Some (so_accountable r \<and> list_all (\<lambda>b. \<not> not_answerable b) bs, last_status (so_adjusted_status r) bs)
      else None)"
  by (induction bs arbitrary: r) (auto simp: blocker_step_spec last_status_def)

text \<open>The provider answers for a missed level unless some blocker is one it does not answer for; the status
  is the one the last mitigating blocker gives; the check raises exactly on a blocker whose type is a list
  or a dictionary.\<close>

lemma sla_accountability_exact:
  "map_option (\<lambda>r. (so_accountable r, so_adjusted_status r)) (sla_accountability sla bs) =
     (if list_all known_blocker bs
      then Some (list_all (\<lambda>b. \<not> not_answerable b) bs, last_status (dget_default sla ''status'' (JStr ''within'')) bs)
      else None)"
  by (simp add: sla_accountability_def blocker_loop_spec)

section \<open>The verdict of a diagnosis\<close>

text \<open>A breach for which nothing excuses the provider; severities that weigh.\<close>

definition answerable_breach :: "(string, json) dict \<Rightarrow> bool" where
  "answerable_breach perf \<longleftrightarrow>
     (case (as_obj (dget_default perf ''sla_status'' (JObj [])), dict_items (listed perf ''field_blockers'')) of
        (Some s, Some bs) \<Rightarrow> dget s ''status'' = Some (JStr ''breached'') \<and> list_all (\<lambda>b. \<not> not_answerable b) bs
      | _ \<Rightarrow> False)"

definition severe :: "string \<Rightarrow> bool" where
  "severe s \<longleftrightarrow> s \<in> {''error'', ''critical''}"

definition penal :: "plane_conflict \<Rightarrow> bool" where
  "penal c \<longleftrightarrow> xc_field c = ''sla_accountability'' \<and> xc_severity c = ''critical''"

lemma mitigations_not_penal: "\<not> list_ex penal (map mitigation_conflict fs)"
  by (auto simp: list_ex_iff penal_def mitigation_conflict_def conflict_def)

lemma accountable_iff:
  "sla_accountability s bs = Some r \<Longrightarrow> so_accountable r \<longleftrightarrow> list_all (\<lambda>b. \<not> not_answerable b) bs"
  using sla_accountability_exact [of s bs] by (auto split: if_splits)

lemma sla_conflicts_penal:
  assumes "sla_conflicts perf = Some cs"
  shows "list_ex penal cs \<longleftrightarrow> answerable_breach perf"
proof (cases "json_truthy (dget_default perf ''sla_status'' (JObj [])) \<or> json_truthy (listed perf ''field_blockers'')")
  case True
  then obtain s bs r where sbr: "as_obj (dget_default perf ''sla_status'' (JObj [])) = Some s"
    "dict_items (listed perf ''field_blockers'') = Some bs" "sla_accountability s bs = Some r"
    using assms unfolding sla_conflicts_def Let_def by (auto split: Option.bind_splits)
  let ?hit = "so_accountable r \<and> dget s ''status'' = Some (JStr ''breached'')"
  have "list_ex penal cs \<longleftrightarrow> ?hit"
    using assms True mitigations_not_penal [of "so_mitigation_factors r"]
    unfolding sla_conflicts_def Let_def sbr
    by (cases ?hit) (auto simp: sbr penal_def conflict_def)
  then show ?thesis using sbr accountable_iff [OF sbr(3)] by (auto simp: answerable_breach_def)
next
  case False
  then have "cs = []" using assms by (simp add: sla_conflicts_def)
  moreover have "\<not> answerable_breach perf"
    using False by (auto simp: answerable_breach_def as_obj_def split: json.splits option.splits)
  ultimately show ?thesis by simp
qed

lemma determine_verdict_cases:
  "determine_verdict leaks conflicts sla =
     (if list_ex penal sla then ''penalty_risk''
      else if leaks = [] \<and> conflicts = [] then ''healthy''
      else if (if leaks \<noteq> [] then list_ex (severe \<circ> pk_severity) leaks else list_ex (severe \<circ> xc_severity) conflicts)
      then ''under_recovery'' else ''leakage_detected'')"
  by (simp add: determine_verdict_def penal_def [abs_def] severe_def [abs_def] comp_def)

lemma tenth_rounded: "py_round (fl (10 / 100)) 3 = fl (10 / 100)" "0 \<le> fl (10 / 100)" "fl (10 / 100) \<le> 1"
  by code_simp+

lemma diagnosis_confidence_bounds:
  "fl (10 / 100) \<le> py_round (diagnosis_confidence a b c e n) 3 \<and> py_round (diagnosis_confidence a b c e n) 3 \<le> 1"
proof -
  have "fl (10 / 100) \<le> diagnosis_confidence a b c e n" "diagnosis_confidence a b c e n \<le> 1"
    using tenth_rounded(3) by (simp_all add: diagnosis_confidence_def Let_def)
  then have "py_round (fl (10 / 100)) 3 \<le> py_round (diagnosis_confidence a b c e n) 3"
    "py_round (diagnosis_confidence a b c e n) 3 \<le> py_round 1 3"
    using tenth_rounded(2) by (intro py_round_mono; simp)+
  then show ?thesis unfolding tenth_rounded(1) py_round_1 ..
qed

lemma diagnose_parts:
  assumes "diagnose_margin ident objects orders incidents history perf = Some d"
  obtains l1 l2 billing sla contradictions leaks ev where
    "sla_conflicts perf = Some sla"
    "d = diagnosis_bundle l1 l2 billing sla contradictions leaks ev (objects \<noteq> []) (orders \<noteq> []) (incidents \<noteq> [])"
  using assms unfolding diagnose_margin_def Let_def by (auto split: Option.bind_splits)

text \<open>C36: the verdict of a margin diagnosis is a penalty risk exactly when the data report a breach of which no
  blocker relieves the provider; without that, it is healthy exactly when neither a leak nor a conflict was
  found, and under-recovery exactly when a leak is severe, or, without leaks, a conflict is. Severe
  conflicts do not count beside mild leaks. The confidence lies between a tenth and one.
\<close>
theorem diagnosis_verdict_exact:
  assumes "diagnose_margin ident objects orders incidents history perf = Some d"
  shows "(md_verdict d = ''penalty_risk'' \<longleftrightarrow> answerable_breach perf) \<and>
    (md_verdict d = ''healthy'' \<longleftrightarrow> md_leakage_patterns d = [] \<and> md_all_conflicts d = []) \<and>
    (md_verdict d = ''under_recovery'' \<longleftrightarrow>
       \<not> answerable_breach perf \<and>
       (if md_leakage_patterns d \<noteq> [] then list_ex (severe \<circ> pk_severity) (md_leakage_patterns d)
        else list_ex (severe \<circ> xc_severity) (md_all_conflicts d))) \<and>
    fl (10 / 100) \<le> md_confidence d \<and> md_confidence d \<le> 1"
proof -
  obtain l1 l2 billing sla contradictions leaks ev where sla: "sla_conflicts perf = Some sla"
    and d: "d = diagnosis_bundle l1 l2 billing sla contradictions leaks ev (objects \<noteq> []) (orders \<noteq> [])
      (incidents \<noteq> [])"
    by (rule diagnose_parts [OF assms])
  let ?all = "billing @ sla @ contradictions"
  have f: "md_verdict d = determine_verdict leaks ?all sla" "md_leakage_patterns d = leaks" "md_all_conflicts d = ?all"
    "fl (10 / 100) \<le> md_confidence d \<and> md_confidence d \<le> 1"
    using diagnosis_confidence_bounds by (simp_all add: d diagnosis_bundle_def Let_def)
  have "sla = []" if "?all = []" using that by simp
  then show ?thesis
    unfolding f(1-3) determine_verdict_cases sla_conflicts_penal [OF sla, symmetric] using f(4)
    by (cases "list_ex penal sla") auto
qed

text \<open>With nothing but a reported breach, the diagnosis is a penalty risk.\<close>

theorem diagnosis_verdict_exact_witness:
  "\<exists>d. diagnose_margin ''m'' [] [] [] [] [(''sla_status'', JObj [(''status'', JStr ''breached'')])] = Some d \<and>
     md_verdict d = ''penalty_risk''"
proof -
  let ?perf = "[(''sla_status'', JObj [(''status'', JStr ''breached'')])]"
  have b: "answerable_breach ?perf"
    by (simp add: answerable_breach_def dget_default_def listed_def as_obj_def dict_items_def as_items_def)
  have "\<exists>d. diagnose_margin ''m'' [] [] [] [] ?perf = Some d"
    by (simp add: diagnose_margin_def Let_def sla_conflicts_def dget_default_def listed_def as_obj_def dict_items_def
        as_items_def sla_accountability_def reconcile_margin_leakage_def build_contract_data_def of_types_def
        plane_leakage_def json_set_def claim_groups_def)
  then obtain d where "diagnose_margin ''m'' [] [] [] [] ?perf = Some d" ..
  with diagnosis_verdict_exact [OF this] b show ?thesis by blast
qed

section \<open>A raise\<close>

definition unreadable_rework :: "(string, json) dict \<Rightarrow> bool" where
  "unreadable_rework wo \<longleftrightarrow> as_obj (dget_default wo ''reattendance_info'' (JObj [])) = None"

lemma bind_to_None: "Option.bind x (\<lambda>y. None) = None"
  by (cases x) simp_all

lemma loop_None: "x \<in> set xs \<Longrightarrow> (\<And>s. f x s = None) \<Longrightarrow> loop f xs s = None"
proof (induction xs arbitrary: s)
  case (Cons y xs)
  then show ?case by (cases "f y s") auto
qed simp

lemma dict_items_of [simp]: "dict_items (JList (map JObj ds)) = Some ds"
proof -
  have "each as_obj (map JObj ds) = Some ds" by (induction ds) (simp_all add: as_obj_def)
  then show ?thesis by (simp add: dict_items_def as_items_def)
qed

lemma order_leaks_unreadable: "unreadable_rework wo \<Longrightarrow> order_leaks invoiced rates wo r = None"
  by (simp add: order_leaks_def unreadable_rework_def rework_leak_def bind_to_None)

text \<open>C39: a work order, present or past, whose re-attendance data are null (or no dictionary) makes the whole
  diagnosis raise, whatever the other data; the check of completed work takes null like an empty
  dictionary.
\<close>
theorem unreadable_rework_stops_diagnosis:
  assumes "list_ex unreadable_rework (orders @ history)"
  shows "diagnose_margin ident objects orders incidents history perf = None \<and>
    completion_billability wo evidence gates JNull = completion_billability wo evidence gates (JObj [])"
proof -
  obtain wo where wo: "wo \<in> set (orders @ history)" "unreadable_rework wo" using assms by (auto simp: list_ex_iff)
  have "loop (order_leaks invoiced rates) (orders @ history) s = None" for invoiced rates s
    by (rule loop_None [OF wo(1)]) (rule order_leaks_unreadable [OF wo(2)])
  then have "plane_leakage invoices cards (orders @ history) = (\<lambda>breaches. None)" for invoices cards
    by (simp add: fun_eq_iff plane_leakage_def bind_to_None)
  then have "reconcile_margin_leakage contract [(''work_orders'', JList (map JObj (orders @ history)))] ops = None"
    for contract ops
    by (simp add: reconcile_margin_leakage_def listed_def dget_default_def bind_to_None del: map_append)
  then have "diagnose_margin ident objects orders incidents history perf = None"
    by (simp add: diagnose_margin_def Let_def bind_to_None del: map_append)
  then show ?thesis by (simp add: completion_billability_def reattendance_effect_def)
qed

theorem unreadable_rework_stops_diagnosis_witness:
  "diagnose_margin ''m'' [] [] [] [[(''reattendance_info'', JNull)]] [] = None"
  by (rule unreadable_rework_stops_diagnosis [THEN conjunct1])
    (simp add: unreadable_rework_def dget_default_def as_obj_def)

end
