(* ===== verification/Severity.thy ===== *)
theory Severity
  imports Float_Order "HOL-Library.Multiset"
begin

text \<open>
  The severity and prioritisation engine, \<^verbatim>\<open>app/core/severity/domain_types.py\<close> and \<^verbatim>\<open>engine.py\<close>: a
  weighted score per case, its route and urgency, duplicate suppression and the ranking of a batch.
  The digest of a case is a parameter (SHA-256); weights are finite; every scored case takes a reading of the clock. A
  scored case is checked when it is built: a score outside 0 to 100 raises.
\<close>

section \<open>Types\<close>

datatype route_category = RO_MUST_BLOCK | RO_REQUIRES_REVIEW | RO_MONITOR | RO_SUPPRESS

datatype operator_urgency = OU_IMMEDIATE | OU_SAME_DAY | OU_THIS_WEEK | OU_BACKLOG

record dimension_weight =
  dw_dimension :: string
  dw_weight :: rat
  dw_description :: string

record severity_input =
  si_case_id :: string
  si_case_type :: string
  si_severity_raw :: string
  si_financial_impact :: pyfloat
  si_affected_objects :: int
  si_rule_criticality :: string
  si_domain_pack :: string
  si_is_duplicate :: bool
  si_cluster_id :: "string option"

record scored_case =
  sd_case_id :: string
  sd_composite_score :: rat
  sd_route :: route_category
  sd_urgency :: operator_urgency
  sd_rank :: nat
  sd_scoring_factors :: "(string, rat) dict"
  sd_scored_at :: time

datatype severity_error = IntTooLarge | ScoreOutOfRange rat

section \<open>The engine\<close>

definition default_weights :: "dimension_weight list" where
  "default_weights =
     [\<lparr>dw_dimension = ''severity_raw'', dw_weight = fl (3 / 10), dw_description = ''Raw severity label''\<rparr>,
      \<lparr>dw_dimension = ''financial_impact'', dw_weight = 1 / 4, dw_description = ''Monetary exposure''\<rparr>,
      \<lparr>dw_dimension = ''affected_objects'', dw_weight = fl (2 / 10), dw_description = ''Blast radius''\<rparr>,
      \<lparr>dw_dimension = ''rule_criticality'', dw_weight = 1 / 4, dw_description = ''Rule importance''\<rparr>]"

definition severity_map :: "(string, rat) dict" where
  "severity_map =
     [(''critical'', 1), (''high'', 3 / 4), (''medium'', 1 / 2), (''low'', 1 / 4), (''info'', fl (1 / 10))]"

record severity_engine =
  sv_weights :: "dimension_weight list"
  sv_seen_hashes :: "string list"
  sv_clusters :: "(string, string list) dict"

definition new_severity_engine :: "dimension_weight list \<Rightarrow> severity_engine" where
  "new_severity_engine ws =
     \<lparr>sv_weights = (if ws = [] then default_weights else ws), sv_seen_hashes = [], sv_clusters = []\<rparr>"

definition label_value :: "string \<Rightarrow> rat" where
  "label_value s = dget_default severity_map (py_lower s) (1 / 2)"

text \<open>An infinite impact counts in full, NaN not at all.\<close>

fun financial_factor :: "pyfloat \<Rightarrow> rat" where
  "financial_factor (Fin x) = (if x > 0 then min (fl (x / 1000000)) 1 else 0)"
| "financial_factor PInf = 1"
| "financial_factor x = 0"

definition scoring_factors :: "severity_input \<Rightarrow> (string, rat) dict" where
  "scoring_factors inp =
     [(''severity_raw'', label_value (si_severity_raw inp)),
      (''financial_impact'', financial_factor (si_financial_impact inp)),
      (''affected_objects'', min (fl (of_int (si_affected_objects inp) / 100)) 1),
      (''rule_criticality'', label_value (si_rule_criticality inp))]"

definition weight_map :: "dimension_weight list \<Rightarrow> (string, rat) dict" where
  "weight_map ws = foldl (\<lambda>d w. dput (dw_dimension w) (dw_weight w) d) [] ws"

definition composite_score :: "dimension_weight list \<Rightarrow> severity_input \<Rightarrow> rat" where
  "composite_score ws inp =
     (let composite = foldl (\<lambda>acc (d, x). fl (acc + fl (x * dget_default (weight_map ws) d 0))) 0 (scoring_factors inp)
      in py_round (fl (composite * 100)) 2)"

definition route_of :: "rat \<Rightarrow> route_category" where
  "route_of score =
     (if score \<ge> 70 then RO_MUST_BLOCK else if score \<ge> 45 then RO_REQUIRES_REVIEW
      else if score \<ge> 20 then RO_MONITOR else RO_SUPPRESS)"

definition urgency_of :: "rat \<Rightarrow> operator_urgency" where
  "urgency_of score =
     (if score \<ge> 70 then OU_IMMEDIATE else if score \<ge> 45 then OU_SAME_DAY
      else if score \<ge> 20 then OU_THIS_WEEK else OU_BACKLOG)"

text \<open>Dividing an integer whose quotient no float can hold raises before anything is changed; the cluster
  is extended before the scored case is built.\<close>

definition too_large :: "int \<Rightarrow> bool" where
  "too_large n = (case to_float (of_int n / 100) of Fin x \<Rightarrow> False | _ \<Rightarrow> True)"

definition enter_cluster :: "severity_input \<Rightarrow> severity_engine \<Rightarrow> severity_engine" where
  "enter_cluster inp e =
     (case si_cluster_id inp of
        None \<Rightarrow> e
      | Some c \<Rightarrow>
          if c = [] then e
          else e\<lparr>sv_clusters := dput c (dget_default (sv_clusters e) c [] @ [si_case_id inp]) (sv_clusters e)\<rparr>)"

definition sv_score ::
  "time \<Rightarrow> severity_input \<Rightarrow> severity_engine \<Rightarrow> (severity_error, severity_engine, scored_case) res" where
  "sv_score now inp e =
     (if too_large (si_affected_objects inp) then (Inl IntTooLarge, e)
      else let score = composite_score (sv_weights e) inp
           in (if 0 \<le> score \<and> score \<le> 100
               then Inr \<lparr>sd_case_id = si_case_id inp, sd_composite_score = score, sd_route = route_of score,
                         sd_urgency = urgency_of score, sd_rank = 0, sd_scoring_factors = scoring_factors inp,
                         sd_scored_at = now\<rparr>
               else Inl (ScoreOutOfRange score), enter_cluster inp e))"

text \<open>Whether a digest was seen before; one that was not is remembered.\<close>

definition case_digest :: "(string \<Rightarrow> string) \<Rightarrow> severity_input \<Rightarrow> string" where
  "case_digest sha inp = take 16 (sha (si_case_type inp @ '':'' @ si_domain_pack inp @ '':'' @ si_severity_raw inp))"

definition is_seen :: "(string \<Rightarrow> string) \<Rightarrow> severity_input \<Rightarrow> severity_engine \<Rightarrow> bool \<times> severity_engine" where
  "is_seen sha inp e =
     (let digest = case_digest sha inp
      in if digest \<in> set (sv_seen_hashes e) then (True, e)
         else (False, e\<lparr>sv_seen_hashes := sv_seen_hashes e @ [digest]\<rparr>))"

definition suppressed_case :: "time \<Rightarrow> severity_input \<Rightarrow> scored_case" where
  "suppressed_case now inp =
     \<lparr>sd_case_id = si_case_id inp, sd_composite_score = 0, sd_route = RO_SUPPRESS, sd_urgency = OU_BACKLOG,
      sd_rank = 0, sd_scoring_factors = [(''suppressed'', 1)], sd_scored_at = now\<rparr>"

definition sv_round ::
  "(string \<Rightarrow> string) \<Rightarrow> time \<Rightarrow> severity_input \<Rightarrow> severity_engine \<Rightarrow> (severity_error, severity_engine, scored_case) res" where
  "sv_round sha now inp e =
     (let (seen, e) = (if si_is_duplicate inp then is_seen sha inp e else (False, e))
      in if seen then (Inr (suppressed_case now inp), e) else sv_score now inp e)"

fun sv_rounds ::
  "(string \<Rightarrow> string) \<Rightarrow> (nat \<Rightarrow> time) \<Rightarrow> severity_input list \<Rightarrow> severity_engine
     \<Rightarrow> (severity_error, severity_engine, scored_case list) res" where
  "sv_rounds sha clock [] e = (Inr [], e)"
| "sv_rounds sha clock (inp # inps) e =
     (case sv_round sha (clock 0) inp e of
        (Inl err, e) \<Rightarrow> (Inl err, e)
      | (Inr s, e) \<Rightarrow>
          (case sv_rounds sha (\<lambda>i. clock (Suc i)) inps e of
             (Inl err, e) \<Rightarrow> (Inl err, e)
           | (Inr ss, e) \<Rightarrow> (Inr (s # ss), e)))"

text \<open>Ranking: by falling score, cases of one score in the order they came; ranks count from one.\<close>

definition rank_cases :: "scored_case list \<Rightarrow> scored_case list" where
  "rank_cases results =
     map (\<lambda>(i, s). s\<lparr>sd_rank := Suc i\<rparr>) (enumerate 0 (sort_key (\<lambda>s. - sd_composite_score s) results))"

definition score_batch ::
  "(string \<Rightarrow> string) \<Rightarrow> (nat \<Rightarrow> time) \<Rightarrow> severity_input list \<Rightarrow> severity_engine
     \<Rightarrow> (severity_error, severity_engine, scored_case list) res" where
  "score_batch sha clock inps e = (case sv_rounds sha clock inps e of (r, e) \<Rightarrow> (map_sum id rank_cases r, e))"

definition get_priority_queue :: "scored_case list \<Rightarrow> scored_case list" where
  "get_priority_queue scored = filter (\<lambda>s. sd_route s \<noteq> RO_SUPPRESS) scored"

definition get_cluster :: "string \<Rightarrow> severity_engine \<Rightarrow> string list" where
  "get_cluster c e = dget_default (sv_clusters e) c []"

section \<open>Scores of the default engine\<close>

text \<open>A well-typed input: no negative number of objects, and one that a float can hold.\<close>

definition countable_input :: "severity_input \<Rightarrow> bool" where
  "countable_input inp \<longleftrightarrow> 0 \<le> si_affected_objects inp \<and> \<not> too_large (si_affected_objects inp)"

lemma label_value_unit: "0 \<le> label_value s \<and> label_value s \<le> 1"
proof -
  have "list_all (\<lambda>(k, x). 0 \<le> x \<and> x \<le> 1) severity_map" by code_simp
  then show ?thesis
    by (auto simp: label_value_def dget_default_def list_all_iff dest!: map_of_SomeD split: option.split)
qed

lemma financial_factor_unit: "0 \<le> financial_factor x \<and> financial_factor x \<le> 1"
  by (cases x) (simp_all add: fl_nonneg)

lemma weighted_le: "0 \<le> x \<Longrightarrow> x \<le> 1 \<Longrightarrow> 0 \<le> w \<Longrightarrow> 0 \<le> fl (x * w) \<and> fl (x * w) \<le> fl w"
  using mult_right_mono [of x 1 w] by (auto simp: fl_nonneg intro!: fl_mono)

lemma composite_default:
  "composite_score default_weights inp =
     py_round (fl (fl (fl (fl (fl (fl (label_value (si_severity_raw inp) * fl (3 / 10))) +
        fl (financial_factor (si_financial_impact inp) * (1 / 4))) +
        fl (min (fl (of_int (si_affected_objects inp) / 100)) 1 * fl (2 / 10))) +
        fl (label_value (si_rule_criticality inp) * (1 / 4))) * 100)) 2"
  by (simp add: composite_score_def scoring_factors_def weight_map_def default_weights_def dget_default_def Let_def)

lemma four_terms_le:
  assumes "0 \<le> a \<and> a \<le> A" "0 \<le> b \<and> b \<le> B" "0 \<le> c \<and> c \<le> C" "0 \<le> d \<and> d \<le> D"
  shows "0 \<le> fl (fl (fl (fl a + b) + c) + d) \<and> fl (fl (fl (fl a + b) + c) + d) \<le> fl (fl (fl (fl A + B) + C) + D)"
proof -
  have step: "0 \<le> fl (x + y) \<and> fl (x + y) \<le> fl (X + Y)" if "0 \<le> x \<and> x \<le> X" "0 \<le> y \<and> y \<le> Y" for x y X Y
    using that by (simp add: fl_nonneg fl_mono)
  have "0 \<le> fl a \<and> fl a \<le> fl A" using assms(1) by (simp add: fl_nonneg fl_mono)
  from step [OF step [OF step [OF this assms(2)] assms(3)] assms(4)] show ?thesis .
qed

lemma full_score:
  "fl (fl (fl (fl (fl (fl (3 / 10))) + fl (1 / 4)) + fl (fl (2 / 10))) + fl (1 / 4)) = 1" "py_round (fl 100) 2 = 100"
  by code_simp+

lemma percent_bounds: "0 \<le> x \<and> x \<le> 1 \<Longrightarrow> 0 \<le> py_round (fl (x * 100)) 2 \<and> py_round (fl (x * 100)) 2 \<le> 100"
proof -
  assume "0 \<le> x \<and> x \<le> 1"
  then have "0 \<le> fl (x * 100)" "fl (x * 100) \<le> fl 100" by (simp_all add: fl_nonneg fl_mono)
  then have "py_round 0 2 \<le> py_round (fl (x * 100)) 2 \<and> py_round (fl (x * 100)) 2 \<le> py_round (fl 100) 2"
    by (blast intro: py_round_mono order_refl)
  then show ?thesis unfolding full_score(2) py_round_0 .
qed

lemma composite_default_bounds:
  assumes "0 \<le> si_affected_objects inp"
  shows "0 \<le> composite_score default_weights inp \<and> composite_score default_weights inp \<le> 100"
proof -
  let ?o = "min (fl (of_int (si_affected_objects inp) / 100)) 1"
  have "0 \<le> ?o" "?o \<le> 1" "0 \<le> fl (2 / 10)" "0 \<le> fl (3 / 10)" "(0 :: rat) \<le> 1 / 4"
    using assms by (simp_all add: fl_nonneg)
  note nonneg = this
  have o: "0 \<le> fl (?o * fl (2 / 10)) \<and> fl (?o * fl (2 / 10)) \<le> fl (fl (2 / 10))"
    using nonneg(1-3) by (rule weighted_le)
  have l3: "0 \<le> fl (label_value s * fl (3 / 10)) \<and> fl (label_value s * fl (3 / 10)) \<le> fl (fl (3 / 10))" for s
    using label_value_unit [of s] nonneg(4) by (intro weighted_le) auto
  have l4: "0 \<le> fl (label_value s * (1 / 4)) \<and> fl (label_value s * (1 / 4)) \<le> fl (1 / 4)" for s
    using label_value_unit [of s] nonneg(5) by (intro weighted_le) auto
  have f4: "0 \<le> fl (financial_factor f * (1 / 4)) \<and> fl (financial_factor f * (1 / 4)) \<le> fl (1 / 4)" for f
    using financial_factor_unit [of f] nonneg(5) by (intro weighted_le) auto
  show ?thesis
    unfolding composite_default
    by (rule percent_bounds) (rule four_terms_le [OF l3 f4 o l4, unfolded full_score(1)])
qed

section \<open>A batch\<close>

definition well_scored :: "scored_case \<Rightarrow> bool" where
  "well_scored s \<longleftrightarrow>
     0 \<le> sd_composite_score s \<and> sd_composite_score s \<le> 100 \<and>
     sd_route s = route_of (sd_composite_score s) \<and> sd_urgency s = urgency_of (sd_composite_score s)"

lemma sv_round_scored:
  "fst (sv_round sha now inp e) = Inr s \<Longrightarrow> well_scored s \<and> sd_case_id s = si_case_id inp"
  by (auto simp: sv_round_def sv_score_def well_scored_def suppressed_case_def route_of_def urgency_of_def Let_def
      split: if_splits prod.splits)

lemma sv_rounds_scored:
  "fst (sv_rounds sha clock inps e) = Inr ss \<Longrightarrow>
     list_all well_scored ss \<and> map sd_case_id ss = map si_case_id inps"
proof (induction inps arbitrary: clock e ss)
  case (Cons inp inps)
  obtain r e1 where r: "sv_round sha (clock 0) inp e = (r, e1)" by (rule prod.exhaust)
  obtain q e2 where q: "sv_rounds sha (\<lambda>i. clock (Suc i)) inps e1 = (q, e2)" by (rule prod.exhaust)
  from Cons.prems obtain s ts where "r = Inr s" "q = Inr ts" "ss = s # ts"
    by (auto simp: r q split: sum.splits)
  moreover have "list_all well_scored ts \<and> map sd_case_id ts = map si_case_id inps" if "q = Inr ts" for ts
    by (rule Cons.IH [where clock = "\<lambda>i. clock (Suc i)" and e = e1]) (simp add: q that)
  ultimately show ?case using sv_round_scored [of sha "clock 0" inp e s] r by simp
qed simp

lemma sv_round_weights: "sv_weights (snd (sv_round sha now inp e)) = sv_weights e"
  by (auto simp: sv_round_def is_seen_def sv_score_def enter_cluster_def Let_def split: option.split prod.splits)

lemma sv_round_defined:
  assumes "sv_weights e = default_weights" "countable_input inp"
  shows "\<exists>s. fst (sv_round sha now inp e) = Inr s"
proof -
  have "sv_weights (snd (is_seen sha inp e)) = default_weights" using assms(1) by (simp add: is_seen_def Let_def)
  with assms composite_default_bounds [of inp] show ?thesis
    by (auto simp: sv_round_def sv_score_def countable_input_def Let_def split: prod.split)
qed

lemma sv_rounds_defined:
  "sv_weights e = default_weights \<Longrightarrow> list_all countable_input inps \<Longrightarrow> \<exists>ss. fst (sv_rounds sha clock inps e) = Inr ss"
proof (induction inps arbitrary: clock e)
  case (Cons inp inps)
  obtain r e1 where r: "sv_round sha (clock 0) inp e = (r, e1)" by (rule prod.exhaust)
  obtain s where "r = Inr s" using sv_round_defined [of e inp sha "clock 0"] Cons.prems r by auto
  moreover have "\<exists>ts. fst (sv_rounds sha (\<lambda>i. clock (Suc i)) inps e1) = Inr ts"
    using Cons.IH [of e1] Cons.prems sv_round_weights [of sha "clock 0" inp e] r by simp
  ultimately show ?case by (auto simp: r split: prod.splits)
qed simp

lemma rank_cases_fields:
  "map sd_rank (rank_cases ss) = [1..<Suc (length ss)]"
  "map sd_composite_score (rank_cases ss) = map sd_composite_score (sort_key (\<lambda>s. - sd_composite_score s) ss)"
  "map sd_case_id (rank_cases ss) = map sd_case_id (sort_key (\<lambda>s. - sd_composite_score s) ss)"
proof -
  have "map sd_rank (map (\<lambda>(i, s). s\<lparr>sd_rank := Suc i\<rparr>) (enumerate k xs)) = [Suc k..<Suc (k + length xs)]"
    for k and xs :: "scored_case list"
    by (induction xs arbitrary: k) (auto simp: upt_rec)
  from this [of 0] show "map sd_rank (rank_cases ss) = [1..<Suc (length ss)]"
    unfolding rank_cases_def One_nat_def by (simp only: length_sort add_0)
  have "map f (map (\<lambda>(i, s). s\<lparr>sd_rank := Suc i\<rparr>) (enumerate k xs)) = map f xs"
    if "\<And>s r. f (s\<lparr>sd_rank := r\<rparr>) = f s" for f :: "scored_case \<Rightarrow> 'b" and k xs
    by (induction xs arbitrary: k) (auto simp: that)
  note this [of sd_composite_score] this [of sd_case_id]
  then show "map sd_composite_score (rank_cases ss) = map sd_composite_score (sort_key (\<lambda>s. - sd_composite_score s) ss)"
    "map sd_case_id (rank_cases ss) = map sd_case_id (sort_key (\<lambda>s. - sd_composite_score s) ss)"
    unfolding rank_cases_def by simp_all
qed

lemma rank_cases_scored: "list_all well_scored ss \<Longrightarrow> list_all well_scored (rank_cases ss)"
proof -
  have "list_all well_scored xs \<Longrightarrow> list_all well_scored (map (\<lambda>(i, s). s\<lparr>sd_rank := Suc i\<rparr>) (enumerate k xs))"
    for k and xs :: "scored_case list"
    by (induction xs arbitrary: k) (auto simp: well_scored_def)
  moreover assume "list_all well_scored ss"
  then have "list_all well_scored (sort_key (\<lambda>s. - sd_composite_score s) ss)" by (simp add: list_all_iff)
  ultimately show "list_all well_scored (rank_cases ss)" unfolding rank_cases_def by blast
qed

definition ranked :: "scored_case list \<Rightarrow> bool" where
  "ranked out \<longleftrightarrow> map sd_rank out = [1..<Suc (length out)] \<and> sorted_wrt (\<ge>) (map sd_composite_score out)"

lemma rank_cases_ranked: "ranked (rank_cases ss)"
proof -
  have "sorted (map (\<lambda>s. - sd_composite_score s) (sort_key (\<lambda>s. - sd_composite_score s) ss))" by simp
  then have "sorted_wrt (\<ge>) (map sd_composite_score (rank_cases ss))"
    unfolding rank_cases_fields(2) by (simp add: sorted_map sorted_wrt_map)
  moreover have "length (rank_cases ss) = length ss" by (simp add: rank_cases_def)
  ultimately show ?thesis by (simp add: ranked_def rank_cases_fields(1))
qed

text \<open>The engine with its default weights scores every batch whose cases count their objects (not a
  negative number of them, nor one beyond the floats): it returns each case once, ranked from one by
  falling score, every score between 0 and 100 with the route and urgency of its band.
\<close>
theorem default_batch_ranked:
  assumes "sv_weights e = default_weights" "list_all countable_input inps"
  shows "case fst (score_batch sha clock inps e) of
      Inl err \<Rightarrow> False
    | Inr out \<Rightarrow> ranked out \<and> list_all well_scored out \<and> mset (map sd_case_id out) = mset (map si_case_id inps)"
proof -
  obtain ss where ss: "fst (sv_rounds sha clock inps e) = Inr ss" using sv_rounds_defined [OF assms] by blast
  then have f: "fst (score_batch sha clock inps e) = Inr (rank_cases ss)"
    by (auto simp: score_batch_def split: prod.splits)
  have "mset (map sd_case_id (rank_cases ss)) = mset (map sd_case_id ss)"
    unfolding rank_cases_fields(3) by (metis mset_map mset_sort)
  then show ?thesis
    unfolding f using sv_rounds_scored [OF ss] rank_cases_scored [of ss] rank_cases_ranked [of ss] by simp
qed

definition sample_inputs :: "severity_input list" where
  "sample_inputs =
     [\<lparr>si_case_id = ''a'', si_case_type = ''gap'', si_severity_raw = ''low'', si_financial_impact = Fin 0,
       si_affected_objects = 1, si_rule_criticality = ''low'', si_domain_pack = ''core'', si_is_duplicate = False,
       si_cluster_id = None\<rparr>,
      \<lparr>si_case_id = ''b'', si_case_type = ''gap'', si_severity_raw = ''critical'', si_financial_impact = PInf,
       si_affected_objects = 900, si_rule_criticality = ''high'', si_domain_pack = ''core'', si_is_duplicate = True,
       si_cluster_id = Some ''c''\<rparr>]"

theorem default_batch_ranked_witness:
  "case fst (score_batch (\<lambda>s. s) (\<lambda>i. i) sample_inputs (new_severity_engine [])) of
     Inl err \<Rightarrow> False | Inr out \<Rightarrow> ranked out \<and> mset (map sd_case_id out) = {#''a'', ''b''#}"
proof -
  have "list_all countable_input sample_inputs" by code_simp
  from default_batch_ranked [OF _ this, of "new_severity_engine []" "\<lambda>s. s" "\<lambda>i. i"] show ?thesis
    by (simp add: new_severity_engine_def sample_inputs_def split: sum.splits)
qed

text \<open>A case is remembered only when it is flagged as a duplicate, so the first flagged one is scored like any
  other: nothing is suppressed before two flagged cases of one digest.\<close>

lemma unflagged_not_remembered: "\<not> si_is_duplicate inp \<Longrightarrow> sv_seen_hashes (snd (sv_round sha now inp e)) = sv_seen_hashes e"
  by (auto simp: sv_round_def sv_score_def enter_cluster_def Let_def split: option.split)

end
