(* ===== verification/Health.thy ===== *)
theory Health
  imports Exceptions Cross_Plane Pack_Prelude
begin

text \<open>
  Customer health scoring, \<^verbatim>\<open>app/core/health_scoring/scorer.py\<close>: five components of a tenant's score,
  its grade and risk, the recommendations and the score history. The scorer reads the meter of the
  platform, and builds a graph store, a reconciliation engine, a gate and an exception manager of its
  own for the rest. Nothing it calls raises on these, so the fallbacks of its handlers are left out.
  The clock readings of one scoring are one moment; a long dash of a text is a hyphen here.
\<close>

section \<open>Types\<close>

record health_component =
  hc_name :: string
  hc_score :: rat
  hc_max_points :: rat
  hc_detail :: string
  hc_status :: string

record tenant_health =
  th_tenant_id :: string
  th_overall_score :: rat
  th_grade :: string
  th_risk_level :: string
  th_components :: "health_component list"
  th_recommendations :: "string list"
  th_calculated_at :: time
  th_previous_score :: "rat option"
  th_score_delta_7d :: "rat option"

definition health_trend :: "tenant_health \<Rightarrow> string" where
  "health_trend h =
     (case th_score_delta_7d h of
        None \<Rightarrow> ''unknown''
      | Some d \<Rightarrow> if d > 5 then ''improving'' else if d < - 5 then ''declining'' else ''stable'')"

record health_scorer =
  hs_history :: "(string, (rat \<times> time) list) dict"
  hs_meter :: metering_engine

definition new_health_scorer :: "metering_engine \<Rightarrow> health_scorer" where
  "new_health_scorer m = \<lparr>hs_history = [], hs_meter = m\<rparr>"

definition grade_thresholds :: "(rat \<times> string) list" where
  "grade_thresholds = [(90, ''A''), (75, ''B''), (60, ''C''), (40, ''D''), (0, ''F'')]"

definition risk_thresholds :: "(rat \<times> string) list" where
  "risk_thresholds = [(70, ''healthy''), (50, ''at_risk''), (0, ''churn_risk'')]"

text \<open>The first threshold reached; none raises.\<close>

fun first_reached :: "(rat \<times> string) list \<Rightarrow> rat \<Rightarrow> string option" where
  "first_reached [] x = None"
| "first_reached ((t, g) # ts) x = (if x \<ge> t then Some g else first_reached ts x)"

section \<open>The components\<close>

definition component_of :: "string \<Rightarrow> rat \<Rightarrow> string \<Rightarrow> rat \<Rightarrow> string \<Rightarrow> health_component" where
  "component_of name points detail score status =
     \<lparr>hc_name = name, hc_score = score, hc_max_points = points, hc_detail = detail, hc_status = status\<rparr>"

definition usage_of :: "(string, int) dict \<Rightarrow> string \<Rightarrow> int" where
  "usage_of usage et = dget_default usage et 0"

definition engagement_component :: "(string, int) dict \<Rightarrow> health_component" where
  "engagement_component usage =
     (let total_actions = sum_list (dvalues usage);
          subs = usage_of usage ''gate_submission'';
          runs = usage_of usage ''reconciliation_run'';
          (score, detail) =
            (if subs \<ge> 20 \<or> runs \<ge> 5
             then (20, ''High engagement: '' @ int_str subs @ '' gate submissions, '' @ int_str runs @
                       '' reconciliation runs'')
             else if subs \<ge> 5 \<or> runs \<ge> 2
             then (14, ''Moderate engagement: '' @ int_str subs @ '' submissions, '' @ int_str runs @ '' runs'')
             else if total_actions > 0
             then (8, ''Low engagement: '' @ int_str total_actions @ '' total platform actions'')
             else (3, ''No platform activity recorded yet''))
      in component_of ''User engagement'' 20 detail score
           (if score \<ge> 14 then ''healthy'' else if score \<ge> 8 then ''warning'' else ''critical''))"

definition resolution_component :: "recon_case list \<Rightarrow> health_component" where
  "resolution_component open_cases =
     (let n = length open_cases;
          critical = length (filter (\<lambda>c. rc_severity c = CSV_CRITICAL) open_cases);
          (score, detail) =
            (if n = 0 then (25, ''No open cases - all governance issues resolved'')
             else if critical = 0 \<and> n < 5
             then (20, int_str (int n) @ '' open cases, none critical - actively managed'')
             else if critical = 0
             then (15, int_str (int n) @ '' open cases - no critical issues, review backlog'')
             else if critical \<le> 2
             then (10, int_str (int critical) @ '' critical cases open - needs immediate attention'')
             else (4, int_str (int critical) @ '' critical cases open - governance posture at risk''))
      in component_of ''Case resolution'' 25 detail score
           (if score \<ge> 20 then ''healthy'' else if score \<ge> 12 then ''warning'' else ''critical''))"

definition percent_str :: "rat \<Rightarrow> string" where
  "percent_str rate = int_str (round_even (fl (rate * 100)))"

definition evidence_component :: "nat \<Rightarrow> nat \<Rightarrow> health_component" where
  "evidence_component submitted dispatched =
     (let rate = fl (of_nat dispatched / of_nat submitted);
          (score, detail, status) =
            (if submitted = 0
             then (10, ''No gate submissions yet - platform not yet in active use'', ''warning'')
             else if rate \<ge> fl (85 / 100)
             then (20, percent_str rate @ ''% of submissions have complete evidence chains'', ''healthy'')
             else if rate \<ge> fl (65 / 100)
             then (14, percent_str rate @ ''% pass rate - review evidence requirements'', ''warning'')
             else (7, ''Only '' @ percent_str rate @ ''% pass rate - evidence model may be misconfigured'', ''critical''))
      in component_of ''Evidence completeness'' 20 detail score status)"

definition override_component :: "nat \<Rightarrow> int \<Rightarrow> health_component" where
  "override_component requests subs =
     (let rate = fl (of_nat requests / of_int (max subs 1));
          shown = pf_str (Fin (py_round (fl (rate * 100)) 1));
          (score, detail, status) =
            (if rate < fl (2 / 100)
             then (15, ''Excellent: override rate '' @ shown @ ''% - policies well-calibrated'', ''healthy'')
             else if rate < fl (5 / 100)
             then (11, ''Good: override rate '' @ shown @ ''% - minor tuning may help'', ''healthy'')
             else if rate < fl (10 / 100)
             then (7, ''Elevated: override rate '' @ shown @ ''% - review policy strictness'', ''warning'')
             else (3, ''High override rate '' @ shown @ ''% - policies may be too restrictive'', ''critical''))
      in component_of ''Override frequency'' 15 detail score status)"

definition depth_component :: "(string, int) dict \<Rightarrow> health_component" where
  "depth_component usage =
     (let n = length (filter (\<lambda>q. q > 0) (dvalues usage)); shown = int_str (int n);
          (score, detail, status) =
            (if n \<ge> 7 then (20, shown @ ''/10 platform capabilities in active use - deep adoption'', ''healthy'')
             else if n \<ge> 4 then (14, shown @ ''/10 capabilities used - good initial adoption'', ''healthy'')
             else if n \<ge> 2 then (8, shown @ ''/10 capabilities used - room to expand usage'', ''warning'')
             else (3, ''Minimal platform features in use - onboarding may need support'', ''critical''))
      in component_of ''Usage depth'' 20 detail score status)"

definition component_advice :: "(string, string) dict" where
  "component_advice =
     [(''Case resolution'',
       ''Assign owners to all open CRITICAL cases immediately - use the Case Queue bulk assign feature''),
      (''Evidence completeness'',
       ''Review evidence requirements - POST /defaults/apply to reset to platform defaults''),
      (''User engagement'', ''Schedule a platform walkthrough with the team - share the 9-step journey guide''),
      (''Override frequency'',
       ''Review and relax overly restrictive policies - use POST /policies/{id}/simulate before publishing changes''),
      (''Usage depth'', ''Expand to additional platform capabilities - install a second domain pack'')]"

definition health_recommendations :: "health_component list \<Rightarrow> rat \<Rightarrow> string list" where
  "health_recommendations components score =
     (let advice = (\<lambda>c. if hc_status c = ''critical'' then dget component_advice (hc_name c) else None);
          recs = concat (map (\<lambda>c. case advice c of None \<Rightarrow> [] | Some a \<Rightarrow> [a]) components) @
            (if score < 60
             then [''Consider scheduling a CSM call to review platform configuration and usage patterns''] else [])
      in if recs = []
         then [''Platform health is good - focus on expanding governance coverage to additional teams or environments'']
         else recs)"

section \<open>Scoring\<close>

text \<open>The engines the scorer makes for one component.\<close>

definition own_open_cases :: "metering_engine \<Rightarrow> recon_case list" where
  "own_open_cases m = get_open_cases (new_cross_plane new_graph_store [] m)"

definition own_gate :: "metering_engine \<Rightarrow> platform_gate" where
  "own_gate m = new_platform_gate None None m"

definition own_requests :: "metering_engine \<Rightarrow> nat" where
  "own_requests m = total_requests (new_exception_manager (own_gate m))"

definition tenant_components :: "string \<Rightarrow> metering_engine \<Rightarrow> health_component list \<times> metering_engine" where
  "tenant_components t m =
     (let (usage, m) = mt_get_usage t None m
      in ([engagement_component usage, resolution_component (own_open_cases m),
           evidence_component (total_submitted (own_gate m)) (total_dispatched (own_gate m)),
           override_component (own_requests m) (dget_default usage ''gate_submission'' 1), depth_component usage], m))"

definition seventh_last :: "'a list \<Rightarrow> 'a option" where
  "seventh_last xs = (if length xs \<ge> 7 then Some (xs ! (length xs - 7)) else None)"

definition enter_history :: "rat \<times> time \<Rightarrow> (rat \<times> time) list \<Rightarrow> (rat \<times> time) list" where
  "enter_history x h = (let h = h @ [x] in if length h > 90 then tl h else h)"

definition score_tenant :: "time \<Rightarrow> string \<Rightarrow> health_scorer \<Rightarrow> tenant_health option \<times> health_scorer" where
  "score_tenant now t s =
     (let (components, m) = tenant_components t (hs_meter s);
          s = s\<lparr>hs_meter := m\<rparr>;
          score = foldl (\<lambda>acc c. fl (acc + hc_score c)) 0 components
      in case (first_reached grade_thresholds score, first_reached risk_thresholds score) of
           (Some grade, Some risk) \<Rightarrow>
             (let history = dget_default (hs_history s) t [];
                  prev = (if history = [] then None else Some (fst (last history)));
                  prev_7d = map_option fst (seventh_last history)
              in (Some \<lparr>th_tenant_id = t, th_overall_score = py_round score 1, th_grade = grade, th_risk_level = risk,
                        th_components = components, th_recommendations = health_recommendations components score,
                        th_calculated_at = now, th_previous_score = prev,
                        th_score_delta_7d =
                          (case prev_7d of None \<Rightarrow> None
                           | Some p \<Rightarrow> if p = 0 then None else Some (py_round (fl (score - p)) 1))\<rparr>,
                  s\<lparr>hs_history := dput t (enter_history (score, now) history) (hs_history s)\<rparr>))
         | _ \<Rightarrow> (None, s))"

fun score_each :: "(nat \<Rightarrow> time) \<Rightarrow> string list \<Rightarrow> health_scorer \<Rightarrow> tenant_health list option \<times> health_scorer" where
  "score_each clock [] s = (Some [], s)"
| "score_each clock (t # ts) s =
     (case score_tenant (clock 0) t s of
        (None, s) \<Rightarrow> (None, s)
      | (Some h, s) \<Rightarrow>
          (case score_each (clock \<circ> Suc) ts s of
             (None, s) \<Rightarrow> (None, s)
           | (Some hs, s) \<Rightarrow> (Some (h # hs), s)))"

definition score_all_tenants :: "(nat \<Rightarrow> time) \<Rightarrow> health_scorer \<Rightarrow> tenant_health list option \<times> health_scorer" where
  "score_all_tenants clock s =
     (let tenants = mt_get_all_tenants (hs_meter s)
      in score_each clock (if tenants = [] then [''default''] else tenants) s)"

definition get_at_risk_tenants :: "(nat \<Rightarrow> time) \<Rightarrow> health_scorer \<Rightarrow> tenant_health list option \<times> health_scorer" where
  "get_at_risk_tenants clock s =
     (case score_all_tenants clock s of
        (hs, s) \<Rightarrow> (map_option (filter (\<lambda>h. th_risk_level h \<noteq> ''healthy'')) hs, s))"

section \<open>What a score can be\<close>

definition engagement_points :: "(string, int) dict \<Rightarrow> rat" where
  "engagement_points usage =
     (if usage_of usage ''gate_submission'' \<ge> 20 \<or> usage_of usage ''reconciliation_run'' \<ge> 5 then 20
      else if usage_of usage ''gate_submission'' \<ge> 5 \<or> usage_of usage ''reconciliation_run'' \<ge> 2 then 14
      else if sum_list (dvalues usage) > 0 then 8 else 3)"

definition depth_points :: "(string, int) dict \<Rightarrow> rat" where
  "depth_points usage =
     (let n = length (filter (\<lambda>q. q > 0) (dvalues usage))
      in if n \<ge> 7 then 20 else if n \<ge> 4 then 14 else if n \<ge> 2 then 8 else 3)"

lemma engagement_score: "hc_score (engagement_component usage) = engagement_points usage"
  by (simp add: engagement_component_def engagement_points_def component_of_def Let_def)

lemma depth_score: "hc_score (depth_component usage) = depth_points usage"
  by (simp add: depth_component_def depth_points_def component_of_def Let_def)

lemma own_engines_empty:
  "own_open_cases m = []" "total_submitted (own_gate m) = 0" "own_requests m = 0"
  by (simp_all add: own_open_cases_def get_open_cases_def new_cross_plane_def own_gate_def new_platform_gate_def
      total_submitted_def own_requests_def total_requests_def new_exception_manager_def)

lemma fixed_components:
  "hc_score (resolution_component []) = 25" "hc_score (evidence_component 0 n) = 10"
  "hc_score (override_component 0 k) = 15"
proof -
  have "(0 :: rat) < fl (2 / 100)" by code_simp
  then show "hc_score (override_component 0 k) = 15"
    by (simp add: override_component_def component_of_def Let_def)
qed (simp_all add: resolution_component_def evidence_component_def component_of_def Let_def)

lemma points_cases:
  "engagement_points usage \<in> {3, 8, 14, 20}" "depth_points usage \<in> {3, 8, 14, 20}"
  by (simp_all add: engagement_points_def depth_points_def Let_def)

lemma fl_numeral: "(numeral n :: int) < 2 ^ 53 \<Longrightarrow> fl (numeral n) = numeral n"
  using fl_of_int [of "numeral n"] by simp

lemma py_round_numeral: "(numeral n :: int) < 2 ^ 53 \<Longrightarrow> py_round (numeral n) k = numeral n"
proof -
  assume n: "(numeral n :: int) < 2 ^ 53"
  have "round_even (numeral n * 10 ^ k) = numeral n * 10 ^ k"
    using round_even_of_int [of "numeral n * 10 ^ k"] by simp
  then show ?thesis using fl_numeral [OF n] by (simp add: py_round_def)
qed

text \<open>The three components that do not depend on the tenant give fifty points.\<close>

lemma tenant_score:
  assumes "tenant_components t m = (cs, m')"
  shows "foldl (\<lambda>acc c. fl (acc + hc_score c)) 0 cs =
     50 + engagement_points (fst (mt_get_usage t None m)) + depth_points (fst (mt_get_usage t None m))"
proof -
  obtain usage m1 where u: "mt_get_usage t None m = (usage, m1)" by (rule prod.exhaust)
  have "foldl (\<lambda>acc c. fl (acc + hc_score c)) 0 cs =
      foldl (\<lambda>acc x. fl (acc + x)) 0 [engagement_points usage, 25, 10, 15, depth_points usage]"
    using assms by (auto simp: tenant_components_def u own_engines_empty engagement_score depth_score fixed_components)
  also have "\<dots> = 50 + engagement_points usage + depth_points usage"
    using points_cases [of usage] by (auto simp: fl_numeral)
  finally show ?thesis by (simp add: u)
qed

lemma score_values:
  assumes "x \<in> {56, 61, 67, 73, 66, 72, 78, 84, 90}"
  shows "py_round x 1 = x" "56 \<le> x" "x \<le> 90"
    "first_reached grade_thresholds x \<in> Some ` {''A'', ''B'', ''C'', ''D''}"
    "first_reached risk_thresholds x \<in> Some ` {''healthy'', ''at_risk''}"
  using assms by (auto simp: py_round_numeral grade_thresholds_def risk_thresholds_def)

text \<open>The health score of a tenant is decided by its metered usage alone: fifty points are the same for every
  tenant, because the cases, submissions and exceptions are read from engines made for the occasion,
  which are empty. So no tenant scores below 56 or above 90, none is graded F and none is a churn risk,
  and scoring always succeeds.
\<close>
theorem health_score_reads_usage_only:
  "case fst (score_tenant now t s) of
     None \<Rightarrow> False
   | Some h \<Rightarrow>
       (let usage = fst (mt_get_usage t None (hs_meter s)) in
        th_overall_score h = 50 + engagement_points usage + depth_points usage \<and>
        56 \<le> th_overall_score h \<and> th_overall_score h \<le> 90 \<and>
        th_grade h \<in> {''A'', ''B'', ''C'', ''D''} \<and> th_risk_level h \<in> {''healthy'', ''at_risk''})"
proof -
  obtain cs m where c: "tenant_components t (hs_meter s) = (cs, m)" by (rule prod.exhaust)
  define usage where "usage = fst (mt_get_usage t None (hs_meter s))"
  let ?x = "50 + engagement_points usage + depth_points usage"
  have x: "foldl (\<lambda>acc c. fl (acc + hc_score c)) 0 cs = ?x" using tenant_score [OF c] by (simp add: usage_def)
  have "?x \<in> {56, 61, 67, 73, 66, 72, 78, 84, 90}" using points_cases [of usage] by auto
  note b = score_values [OF this]
  from b(4,5) obtain g r where gr: "first_reached grade_thresholds ?x = Some g" "g \<in> {''A'', ''B'', ''C'', ''D''}"
    "first_reached risk_thresholds ?x = Some r" "r \<in> {''healthy'', ''at_risk''}" by blast
  show ?thesis
    unfolding score_tenant_def c Let_def prod.case x gr(1,3) option.case fst_conv tenant_health.simps
    using b(1-3) gr(2,4) by (simp add: usage_def)
qed

section \<open>The history\<close>

definition histories_bounded :: "health_scorer \<Rightarrow> bool" where
  "histories_bounded s \<longleftrightarrow> (\<forall>t. length (dget_default (hs_history s) t []) \<le> 90)"

text \<open>At most ninety scores are kept per tenant, the last of them the newest.\<close>

lemma histories_bounded_new: "histories_bounded (new_health_scorer m)"
  by (simp add: histories_bounded_def new_health_scorer_def dget_default_def)

lemma histories_bounded_score: "histories_bounded s \<Longrightarrow> histories_bounded (snd (score_tenant now t s))"
  by (auto simp: histories_bounded_def score_tenant_def enter_history_def dget_default_def Let_def
      split: prod.splits option.splits)

end
