(* ===== verification/Notifications.thy ===== *)
theory Notifications
  imports Py_Float
begin

text \<open>
  Alerts and notifications: \<^verbatim>\<open>app/core/alerting/service.py\<close>, \<^verbatim>\<open>app/core/notifications/preferences.py\<close> and
  \<^verbatim>\<open>manager.py\<close>. Sending over a channel (Slack, SMTP, a webhook) is a parameter: it tells whether the
  service accepted the message, or raises. What the environment configures, and drawn identifiers and
  moments, are arguments. A preview is cut by characters, of which the strings here are lists.
\<close>

section \<open>Alerts\<close>

record alert_config =
  af_channel :: string
  af_destination :: string
  af_min_severity :: string
  af_name :: string

record alert_payload =
  al_severity :: string
  al_title :: string
  al_case_id :: string
  al_affected_planes :: "string list"
  al_remediation :: "string list"
  al_tenant_id :: string

record alert_result =
  ao_success :: bool
  ao_error :: "string option"

record alert_entry =
  ah_config :: string
  ah_severity :: string
  ah_case_id :: string
  ah_success :: bool

record alert_service =
  as_configs :: "alert_config list"
  as_history :: "alert_entry list"

text \<open>A raise of the sender, with its text, or its answer.\<close>

type_synonym sender = "string \<Rightarrow> string \<Rightarrow> alert_payload \<Rightarrow> string + alert_result"

definition add_config :: "string \<Rightarrow> string \<Rightarrow> string \<Rightarrow> string \<Rightarrow> alert_service \<Rightarrow> alert_service" where
  "add_config channel destination min_severity name s =
     s\<lparr>as_configs := as_configs s @
        [\<lparr>af_channel = channel, af_destination = destination, af_min_severity = min_severity,
          af_name = (if name \<noteq> [] then name else channel @ ''-'' @ int_str (int (length (as_configs s))))\<rparr>]\<rparr>"

text \<open>The environment may name a Slack webhook and an address for mails.\<close>

definition load_env_configs :: "string option \<Rightarrow> string option \<Rightarrow> alert_service \<Rightarrow> alert_service" where
  "load_env_configs slack mail s =
     (let s = (case slack of Some u \<Rightarrow> if u \<noteq> [] then add_config ''slack'' u ''critical'' ''slack-critical'' s else s
               | None \<Rightarrow> s)
      in case mail of Some a \<Rightarrow> if a \<noteq> [] then add_config ''email'' a ''critical'' ''email-critical'' s else s
         | None \<Rightarrow> s)"

definition new_alert_service :: "string option \<Rightarrow> string option \<Rightarrow> alert_service" where
  "new_alert_service slack mail = load_env_configs slack mail \<lparr>as_configs = [], as_history = []\<rparr>"

definition severity_rank :: "(string, nat) dict" where
  "severity_rank = [(''critical'', 4), (''high'', 3), (''medium'', 2), (''low'', 1)]"

text \<open>An unknown severity ranks lowest, an unknown threshold highest.\<close>

definition meets_threshold :: "string \<Rightarrow> string \<Rightarrow> bool" where
  "meets_threshold severity threshold = (dget_default severity_rank severity 0 \<ge> dget_default severity_rank threshold 4)"

definition dispatch_alert :: "sender \<Rightarrow> alert_config \<Rightarrow> alert_payload \<Rightarrow> alert_result" where
  "dispatch_alert send c p =
     (if af_channel c \<in> {''slack'', ''email'', ''webhook''}
      then (case send (af_channel c) (af_destination c) p of
              Inl e \<Rightarrow> \<lparr>ao_success = False, ao_error = Some e\<rparr>
            | Inr r \<Rightarrow> r)
      else \<lparr>ao_success = False, ao_error = Some (''Unknown channel: '' @ af_channel c)\<rparr>)"

definition alert_matches :: "alert_payload \<Rightarrow> alert_service \<Rightarrow> alert_config list" where
  "alert_matches p s = filter (\<lambda>c. meets_threshold (al_severity p) (af_min_severity c)) (as_configs s)"

definition send_alert :: "sender \<Rightarrow> alert_payload \<Rightarrow> alert_service \<Rightarrow> alert_result list \<times> alert_service" where
  "send_alert send p s =
     (let sent = map (\<lambda>c. (c, dispatch_alert send c p)) (alert_matches p s)
      in (map snd sent,
          s\<lparr>as_history := as_history s @
             map (\<lambda>(c, r). \<lparr>ah_config = af_name c, ah_severity = al_severity p, ah_case_id = al_case_id p,
                            ah_success = ao_success r\<rparr>) sent\<rparr>))"

section \<open>Notifications\<close>

datatype notification_event =
    NE_CRITICAL_CASE_DETECTED | NE_CASE_ASSIGNED_TO_ME | NE_EXCEPTION_DECISION | NE_RELEASE_BLOCKED
  | NE_RELEASE_APPROVED | NE_SLA_BREACH | NE_HEALTH_SCORE_DROP | NE_WEEKLY_DIGEST

fun notification_event_value :: "notification_event \<Rightarrow> string" where
  "notification_event_value NE_CRITICAL_CASE_DETECTED = ''critical_case_detected''"
| "notification_event_value NE_CASE_ASSIGNED_TO_ME = ''case_assigned_to_me''"
| "notification_event_value NE_EXCEPTION_DECISION = ''exception_decision''"
| "notification_event_value NE_RELEASE_BLOCKED = ''release_blocked''"
| "notification_event_value NE_RELEASE_APPROVED = ''release_approved''"
| "notification_event_value NE_SLA_BREACH = ''sla_breach''"
| "notification_event_value NE_HEALTH_SCORE_DROP = ''health_score_drop''"
| "notification_event_value NE_WEEKLY_DIGEST = ''weekly_digest''"

datatype notification_channel = NC_EMAIL | NC_SLACK | NC_WEBHOOK | NC_IN_APP

fun notification_channel_value :: "notification_channel \<Rightarrow> string" where
  "notification_channel_value NC_EMAIL = ''email''"
| "notification_channel_value NC_SLACK = ''slack''"
| "notification_channel_value NC_WEBHOOK = ''webhook''"
| "notification_channel_value NC_IN_APP = ''in_app''"

record notification_preference =
  np_pref_id :: uuid
  np_user_id :: string
  np_tenant_id :: string
  np_event :: notification_event
  np_channel :: notification_channel
  np_destination :: string
  np_enabled :: bool
  np_min_severity :: string
  np_created_at :: time

record notification_record =
  nr_notification_id :: uuid
  nr_user_id :: string
  nr_tenant_id :: string
  nr_event :: string
  nr_channel :: string
  nr_destination :: string
  nr_subject :: string
  nr_body_preview :: string
  nr_sent_at :: time
  nr_delivered :: bool
  nr_error :: string

record notification_manager =
  nm_preferences :: "notification_preference list"
  nm_records :: "notification_record list"

definition new_notification_manager :: notification_manager where
  "new_notification_manager = \<lparr>nm_preferences = [], nm_records = []\<rparr>"

definition same_slot :: "string \<Rightarrow> notification_event \<Rightarrow> notification_channel \<Rightarrow> notification_preference \<Rightarrow> bool" where
  "same_slot user ev ch p \<longleftrightarrow> np_user_id p = user \<and> np_event p = ev \<and> np_channel p = ch"

definition set_preference ::
  "uuid \<Rightarrow> time \<Rightarrow> string \<Rightarrow> string \<Rightarrow> notification_event \<Rightarrow> notification_channel \<Rightarrow> string \<Rightarrow> bool \<Rightarrow> string
     \<Rightarrow> notification_manager \<Rightarrow> notification_preference \<times> notification_manager" where
  "set_preference ident now user tenant ev ch destination enabled min_severity m =
     (let pref = \<lparr>np_pref_id = ident, np_user_id = user, np_tenant_id = tenant, np_event = ev, np_channel = ch,
                  np_destination = destination, np_enabled = enabled, np_min_severity = min_severity,
                  np_created_at = now\<rparr>
      in (pref, m\<lparr>nm_preferences := filter (\<lambda>p. \<not> same_slot user ev ch p) (nm_preferences m) @ [pref]\<rparr>))"

definition get_preferences :: "string \<Rightarrow> string option \<Rightarrow> notification_manager \<Rightarrow> notification_preference list" where
  "get_preferences user t m = filter_str t np_tenant_id (filter (\<lambda>p. np_user_id p = user) (nm_preferences m))"

definition get_subscribers ::
  "notification_event \<Rightarrow> string option \<Rightarrow> notification_manager \<Rightarrow> notification_preference list" where
  "get_subscribers ev t m = filter_str t np_tenant_id (filter (\<lambda>p. np_event p = ev \<and> np_enabled p) (nm_preferences m))"

definition delete_preference :: "uuid \<Rightarrow> string \<Rightarrow> notification_manager \<Rightarrow> bool \<times> notification_manager" where
  "delete_preference ident user m =
     (let kept = filter (\<lambda>p. \<not> (np_pref_id p = ident \<and> np_user_id p = user)) (nm_preferences m)
      in (length kept < length (nm_preferences m), m\<lparr>nm_preferences := kept\<rparr>))"

text \<open>Delivery: an alert service made for the occasion, with the preference's channel beside those of the
  environment. An in-app notification is only recorded. The answers of the service are dropped, and the
  service catches what a sender raises.\<close>

definition preference_payload :: "notification_preference \<Rightarrow> string \<Rightarrow> string \<Rightarrow> alert_payload" where
  "preference_payload pref subject body =
     \<lparr>al_severity = np_min_severity pref, al_title = subject, al_case_id = ''notification'', al_affected_planes = [],
      al_remediation = [take 200 body], al_tenant_id = np_tenant_id pref\<rparr>"

definition dispatch_notification ::
  "string option \<Rightarrow> string option \<Rightarrow> sender \<Rightarrow> notification_preference \<Rightarrow> string \<Rightarrow> string \<Rightarrow> alert_result list" where
  "dispatch_notification slack mail send pref subject body =
     (if np_channel pref = NC_IN_APP then []
      else fst (send_alert send (preference_payload pref subject body)
                  (add_config (notification_channel_value (np_channel pref)) (np_destination pref) (np_min_severity pref) []
                     (new_alert_service slack mail))))"

definition notification_of ::
  "uuid \<times> time \<Rightarrow> notification_event \<Rightarrow> string \<Rightarrow> string \<Rightarrow> string \<Rightarrow> notification_preference \<Rightarrow> notification_record" where
  "notification_of d ev tenant subject body pref =
     \<lparr>nr_notification_id = fst d, nr_user_id = np_user_id pref, nr_tenant_id = tenant,
      nr_event = notification_event_value ev, nr_channel = notification_channel_value (np_channel pref),
      nr_destination = np_destination pref, nr_subject = subject, nr_body_preview = take 200 body,
      nr_sent_at = snd d, nr_delivered = False, nr_error = []\<rparr>"

text \<open>The result of a delivery is not looked at: the record is marked as delivered once the service returns.\<close>

fun notify_each ::
  "string option \<Rightarrow> string option \<Rightarrow> sender \<Rightarrow> (nat \<Rightarrow> uuid \<times> time) \<Rightarrow> notification_event \<Rightarrow> string \<Rightarrow> string \<Rightarrow> string
     \<Rightarrow> notification_preference list \<Rightarrow> (notification_record \<times> alert_result list) list" where
  "notify_each slack mail send draw ev tenant subject body [] = []"
| "notify_each slack mail send draw ev tenant subject body (pref # prefs) =
     (let results = dispatch_notification slack mail send pref subject body;
          rec = (notification_of (draw 0) ev tenant subject body pref)\<lparr>nr_delivered := True\<rparr>
      in (rec, results) # notify_each slack mail send (\<lambda>i. draw (Suc i)) ev tenant subject body prefs)"

definition notify ::
  "string option \<Rightarrow> string option \<Rightarrow> sender \<Rightarrow> (nat \<Rightarrow> uuid \<times> time) \<Rightarrow> notification_event \<Rightarrow> string \<Rightarrow> string \<Rightarrow> string
     \<Rightarrow> string \<Rightarrow> notification_manager \<Rightarrow> notification_record list \<times> notification_manager" where
  "notify slack mail send draw ev tenant subject body severity m =
     (let prefs = filter (\<lambda>p. meets_threshold severity (np_min_severity p)) (get_subscribers ev (Some tenant) m);
          recs = map fst (notify_each slack mail send draw ev tenant subject body prefs)
      in (recs, m\<lparr>nm_records := nm_records m @ recs\<rparr>))"

text \<open>\<open>records[-limit:]\<close>, which is all of them for a limit of zero.\<close>

definition get_notification_history :: "string option \<Rightarrow> int \<Rightarrow> notification_manager \<Rightarrow> notification_record list" where
  "get_notification_history user limit m =
     (let rs = filter_str user nr_user_id (nm_records m)
      in if limit \<le> 0 then drop (nat (- limit)) rs else drop (length rs - nat limit) rs)"

section \<open>Preferences\<close>

text \<open>A user has at most one preference per event and channel.\<close>

definition slots_distinct :: "notification_manager \<Rightarrow> bool" where
  "slots_distinct m \<longleftrightarrow> distinct (map (\<lambda>p. (np_user_id p, np_event p, np_channel p)) (nm_preferences m))"

inductive nm_step :: "notification_manager \<Rightarrow> notification_manager \<Rightarrow> bool" where
  nm_sets: "nm_step m (snd (set_preference ident now user tenant ev ch dest enabled sev m))"
| nm_deletes: "nm_step m (snd (delete_preference ident user m))"
| nm_notifies: "nm_step m (snd (notify slack mail send draw ev tenant subject body sev m))"

lemma distinct_filter_map: "distinct (map f xs) \<Longrightarrow> distinct (map f (filter P xs))"
  by (induction xs) auto

lemma nm_step_distinct: "nm_step m m' \<Longrightarrow> slots_distinct m \<Longrightarrow> slots_distinct m'"
  by (induction rule: nm_step.induct)
    (auto simp: slots_distinct_def set_preference_def delete_preference_def notify_def same_slot_def Let_def
      intro: distinct_filter_map)

lemma nm_steps_distinct: "nm_step\<^sup>*\<^sup>* m m' \<Longrightarrow> slots_distinct m \<Longrightarrow> slots_distinct m'"
  by (induction rule: rtranclp_induct) (auto intro: nm_step_distinct)

theorem one_preference_per_slot:
  "nm_step\<^sup>*\<^sup>* new_notification_manager m \<Longrightarrow> slots_distinct m"
  by (erule nm_steps_distinct) (simp add: slots_distinct_def new_notification_manager_def)

lemma notify_each_records:
  "map (\<lambda>(r, x). (nr_user_id r, nr_destination r, nr_delivered r, nr_error r))
     (notify_each slack mail send draw ev tenant subject body prefs) =
   map (\<lambda>p. (np_user_id p, np_destination p, True, [])) prefs"
  by (induction prefs arbitrary: draw) (auto simp: notification_of_def Let_def)

text \<open>A notification reaches exactly the enabled preferences for its event, of its tenant, whose threshold its
  severity meets: one record each, in the order they were set, appended to the history. Every record is
  marked as delivered, without an error, whatever the senders answer or raise.
\<close>
theorem notify_exact:
  "let (recs, m') = notify slack mail send draw ev tenant subject body severity m in
   map (\<lambda>r. (nr_user_id r, nr_destination r, nr_delivered r, nr_error r)) recs =
     map (\<lambda>p. (np_user_id p, np_destination p, True, []))
       (filter (\<lambda>p. np_event p = ev \<and> np_enabled p \<and> (np_tenant_id p = tenant \<or> tenant = []) \<and>
                    meets_threshold severity (np_min_severity p)) (nm_preferences m)) \<and>
   nm_records m' = nm_records m @ recs \<and> nm_preferences m' = nm_preferences m"
proof -
  let ?prefs = "filter (\<lambda>p. meets_threshold severity (np_min_severity p)) (get_subscribers ev (Some tenant) m)"
  have p: "?prefs = filter (\<lambda>p. np_event p = ev \<and> np_enabled p \<and> (np_tenant_id p = tenant \<or> tenant = []) \<and>
                    meets_threshold severity (np_min_severity p)) (nm_preferences m)"
    by (cases "tenant = []") (auto simp: get_subscribers_def filter_str_def intro!: filter_cong)
  show ?thesis
    using notify_each_records [of slack mail send draw ev tenant subject body ?prefs]
    by (simp add: notify_def Let_def p comp_def case_prod_unfold)
qed

text \<open>A failed sending is not visible: here the webhook raises, and the record says delivered.\<close>

lemma refused_alert: "\<not> ao_success (dispatch_alert (\<lambda>c d p. Inl e) c p)"
  by (simp add: dispatch_alert_def)

lemma failed_delivery_hidden:
  "list_all (\<lambda>(r, results). nr_delivered r \<and> list_all (\<lambda>x. \<not> ao_success x) results)
     (notify_each slack mail (\<lambda>c d p. Inl e) draw ev t subject body prefs)"
proof (induction prefs arbitrary: draw)
  case (Cons p ps)
  have "list_all (\<lambda>x. \<not> ao_success x) (dispatch_notification slack mail (\<lambda>c d p. Inl e) p subject body)"
    using refused_alert [of e] by (auto simp: dispatch_notification_def send_alert_def list_all_iff Let_def)
  then show ?case using Cons by (simp add: Let_def)
qed simp

end
