(* ===== verification/Spec2Isabelle.thy ===== *)
theory Spec2Isabelle
  imports W2_Runs Graph_Service_Props Validation_Chain W3_Props Action_Props W3_Action_Props Tenancy_Props
    Platform_Props Release_Gate_Props Graph_Search_Props Cross_Plane_Props
    Access_Control Data_Governance Policy_Admin Pack_Registry Exceptions Object_Registry_Props
    Bounded_Inference_Props Telco_Props Field_Props Margin_Props
    Diagnosis_Props Severity Health Notifications
begin

text \<open>
  A verification library of the Control Fabric Platform: executable models of its core, translated
  from the Python sources under \<^verbatim>\<open>app/\<close>, and the theorems that say what that core guarantees.

  \<^bold>\<open>The program.\<close> The platform keeps business artefacts (contracts, work orders, incidents, network
  objects) as typed, versioned objects in graphs, finds where they disagree, and lets an automated
  action through only when it is validated, evidenced and permitted. Its parts, and the theories
  that model them:

  \<^item> \<^emph>\<open>Values and objects.\<close> \<open>Fabric_Types\<close> (\<^verbatim>\<open>core/types.py\<close>, \<^verbatim>\<open>errors.py\<close>): planes, states, keys, errors.
    \<open>Control_Objects\<close> (\<^verbatim>\<open>core/control_object.py\<close>, \<^verbatim>\<open>control_link.py\<close>): the control object with its
    guarded lifecycle, evidence and audit trail. \<open>Fabric_Audit\<close> (\<^verbatim>\<open>core/audit.py\<close>): the append-only
    event log. \<open>Fabric_Registry\<close> (\<^verbatim>\<open>core/registry/__init__.py\<close>, \<^verbatim>\<open>graph/policy.py\<close>): kinds, rules and
    the link policy.
  \<^item> \<^emph>\<open>The graph.\<close> \<open>Graph_Repo\<close>, \<open>Graph_Consistency\<close> and \<open>Graph_Service\<close> (\<^verbatim>\<open>core/graph/repository.py\<close>,
    \<^verbatim>\<open>consistency.py\<close>, \<^verbatim>\<open>service.py\<close>): storage, path search and bounded slices, the six structural
    checks, and the operations everything else uses; \<open>Graph_Slice\<close> and \<open>Graph_Service_Props\<close> prove
    them. \<open>Graph_Store\<close> and \<open>Graph_Search\<close> (\<^verbatim>\<open>core/graph/store.py\<close>): the second store, with temporal
    edges, traversal and weighted paths; \<open>Graph_Search_Props\<close>. \<open>Bfs\<close> and \<open>Layers\<close> hold the two search
    disciplines as specifications, independent of either graph.
  \<^item> \<^emph>\<open>Reconciliation.\<close> \<open>W2_Types\<close>, \<open>W2_Rules\<close>, \<open>W2_Matching\<close>, \<open>W2_Orchestrator\<close>
    (\<^verbatim>\<open>core/reconciliation/\<close> \<^verbatim>\<open>domain_types.py\<close>, \<^verbatim>\<open>rule_model.py\<close>, \<^verbatim>\<open>matching.py\<close>, \<^verbatim>\<open>coverage.py\<close>,
    \<^verbatim>\<open>orchestrator.py\<close>): candidates, weighted scores, outcomes and cases of a run over the graph;
    \<open>W2_Props\<close>, \<open>W2_Runs\<close>, \<open>W2_Claims\<close>. \<open>Recon_Engine\<close> (\<^verbatim>\<open>engine.py\<close>, \<^verbatim>\<open>rules.py\<close>, \<^verbatim>\<open>scoring.py\<close>): two
    planes compared pair by pair. \<open>Cross_Plane\<close> (\<^verbatim>\<open>cross_plane_engine.py\<close>): gaps, conflicts and
    orphans over the second store, with resolutions through the release gate.
  \<^item> \<^emph>\<open>Validation and actions.\<close> \<open>Validation_Chain\<close> and \<open>Actions\<close> (\<^verbatim>\<open>core/validation/chain.py\<close>,
    \<^verbatim>\<open>action/engine.py\<close>): the rule chain and the engine that proposes, approves and releases what it
    admits; \<open>Action_Props\<close>. \<open>W3_Rules\<close>, \<open>W3_Executor\<close>, \<open>W3_Actions\<close> (\<^verbatim>\<open>validation/rule_model.py\<close>,
    \<^verbatim>\<open>executor.py\<close>, \<^verbatim>\<open>action/policy_engine.py\<close>): the later chain with stored runs and reports;
    \<open>W3_Props\<close>, \<open>W3_Action_Props\<close>. Both engines implement the contract of \<open>Release_Interface\<close>.
  \<^item> \<^emph>\<open>The platform gate.\<close> \<open>Platform_Chain\<close> and \<open>Release_Gate\<close> (\<^verbatim>\<open>core/platform_validation_chain.py\<close>,
    \<^verbatim>\<open>platform_action_release_gate.py\<close>): five checks, a certificate, a sealed package, an executor.
    Resolutions, edges, exceptions and registry transitions are submitted to it.
  \<^item> \<^emph>\<open>Administration.\<close> \<open>Access_Control\<close> (\<^verbatim>\<open>core/rbac\<close>), \<open>Data_Governance\<close> (\<^verbatim>\<open>core/data_governance\<close>),
    \<open>Policy_Admin\<close> (\<^verbatim>\<open>core/policy_admin\<close>), \<open>Pack_Registry\<close> (\<^verbatim>\<open>core/pack_management\<close>), \<open>Exceptions\<close>
    (\<^verbatim>\<open>core/exception_framework\<close>), \<open>Object_Registry\<close> (\<^verbatim>\<open>core/registry/object_registry.py\<close>), \<open>Tenancy\<close>
    (\<^verbatim>\<open>core/metering\<close>, \<^verbatim>\<open>core/security_hardening\<close>).
  \<^item> \<^emph>\<open>Operators.\<close> \<open>Severity\<close> (\<^verbatim>\<open>core/severity\<close>): weighted scores, routes and ranking of cases. \<open>Health\<close>
    (\<^verbatim>\<open>core/health_scoring\<close>): the health score of a tenant, over the meter. \<open>Notifications\<close>
    (\<^verbatim>\<open>core/alerting\<close>, \<^verbatim>\<open>core/notifications\<close>): alerts, preferences and the records of deliveries.
  \<^item> \<^emph>\<open>Inference.\<close> \<open>Bounded_Inference\<close> (\<^verbatim>\<open>core/inference/core\<close>): the gate, the scope a model may see,
    the check of its output and the evidence log.
  \<^item> \<^emph>\<open>Domain packs.\<close> \<open>Pack_Prelude\<close>, \<open>Telco_Rules\<close> and \<open>Telco_Alignment\<close>
    (\<^verbatim>\<open>domain_packs/telco_ops/rules.py\<close>), \<open>Field_Rules\<close> (\<^verbatim>\<open>domain_packs/utilities_field/rules.py\<close>):
    the rule engines; \<open>Telco_Props\<close>, \<open>Field_Props\<close>. \<open>Pack_Numbers\<close>, \<open>Margin_Rules\<close> and \<open>Margin_Leakage\<close>
    (\<^verbatim>\<open>domain_packs/contract_margin/rules.py\<close>): billability, leakage, recovery and penalties, over
    untyped work records; \<open>Margin_Props\<close>. \<open>Pack_Text\<close> (similarity of texts, times), \<open>Pack_Links\<close>,
    \<open>Pack_Evidence\<close>, \<open>Pack_Diagnosis\<close> and \<open>Pack_Margin\<close> (\<^verbatim>\<open>domain_packs/reconciliation.py\<close>): links and
    conflicts between contracts, work orders and incidents, bundles of evidence, and the diagnosis of
    margin leakage that runs them all; \<open>Diagnosis_Props\<close>.

  \<^bold>\<open>How the code is read.\<close> A Python class is a record, an enum a datatype with a function for its
  values, a \<^verbatim>\<open>dict\<close> a list of pairs in insertion order, an untyped value a \<open>json\<close>. An object that is
  mutated in place is returned as it is left, also by an operation that raises. A raise is \<open>Inl\<close> with
  the error, or \<open>None\<close> in the domain packs, which catch nothing that would tell errors apart. Python
  integers are \<open>int\<close>; a float is the rational it denotes, with every arithmetic result rounded to
  binary64 (\<open>Py_Float\<close>), or a \<open>pyfloat\<close> where infinities and NaN can be read from outside: the numbers
  of the domain packs and the confidences of control objects, action proposals and hypotheses, whose
  bounds and thresholds NaN passes. Thresholds, weights and link confidences are taken as finite. A
  string of the core is its UTF-8 encoding, one of the domain packs its code points. Messages
  are kept as fragments or strings where something compares or stores them.

  \<^bold>\<open>Parameters.\<close> What the sources call but do not define is an argument: SHA-256 and the rendering of
  dates and sets (\<open>platform_fns\<close>), the source of fresh identifiers (an argument \<open>mint\<close> or a list of
  draws), the clock (a reading per call, or one per run), the executor given to the gate, the language
  model, the replies of Redis and Stripe. Hypotheses on them say only that identifiers do not repeat,
  that a digest has its length, or that the clock does not run back; each such theorem has a witness
  with concrete functions.

  \<^bold>\<open>Bounds and fuel.\<close> The graph searches terminate by measures over the stored nodes; the lineage walk is
  cut by the code itself after 51 steps. Printing a float searches its exponent in 330 rounds: floats
  lie below 10 to the 309th and above 10 to the -324th. Digits are tried up to 17, which is what
  binary64 needs. No other function uses fuel.

  \<^bold>\<open>What is shown.\<close> Invariants of every reachable state (well-formed graph, guarded releases, linear
  version histories, compatible policies, sealed evidence), exactness of searches and decisions (a
  result is given if and only if a declarative condition holds, on every branch, raising included),
  refinement of logs by summaries and of sliding windows by the limiter, bounds of scores,
  termination of the walks, and the behaviour of typed dictionaries. Witnesses evaluate the models on
  small inputs. Lemmas that record a defect of the code say so in their text.

  \<^bold>\<open>Interfaces.\<close> \<open>keyed_store\<close> and \<open>record_store\<close> (repositories), \<open>guarded_machine\<close> (lifecycles) and
  \<open>gated_release\<close> (action engines) are locales, interpreted on the models of the code.

  \<^bold>\<open>Not modelled.\<close> Parsers and compilers of the domain packs (regular expressions over free text),
  prompt texts and model adapters, HTTP handlers, database sessions, workflow workers, the sending
  of messages and reports: input, output and glue around the modelled core. The second backend, the
  micro-services and the earlier packs at the top of the repository repeat it on other infrastructure.
  Threads are not modelled: every operation is one step. \<^verbatim>\<open>sum\<close> adds from the left, as in Python 3.11. \<^verbatim>\<open>lower()\<close> acts on ASCII letters.
\<close>

end
